(* ===== verification/Ccu_Prelude.thy ===== *)
theory Ccu_Prelude
  imports Main "HOL-Library.Word"
begin

text \<open>
  The prelude of the development: the machine integer types, the result codes that the library's
  functions return, 32-bit arithmetic on \<^typ>\<open>nat\<close> with its wrap-around written out, and the
  operations that read and replace a run of bits of a word, which the instruction layouts of
  \<^verbatim>\<open>Microcode_Layout\<close> are built on.
\<close>

unbundle bit_operations_syntax

type_synonym u8 = "8 word"
type_synonym u16 = "16 word"
type_synonym u32 = "32 word"
type_synonym u64 = "64 word"

subsection \<open>Result codes\<close>

text \<open>The values of \<^verbatim>\<open>HcclResult\<close>, in the order of the header.\<close>

datatype HcclResult =
    HCCL_SUCCESS | HCCL_E_PARA | HCCL_E_PTR | HCCL_E_MEMORY | HCCL_E_INTERNAL | HCCL_E_NOT_SUPPORT
  | HCCL_E_NOT_FOUND | HCCL_E_UNAVAIL | HCCL_E_SYSCALL | HCCL_E_TIMEOUT | HCCL_E_OPEN_FILE_FAILURE
  | HCCL_E_TCP_CONNECT | HCCL_E_ROCE_CONNECT | HCCL_E_TCP_TRANSFER | HCCL_E_ROCE_TRANSFER
  | HCCL_E_RUNTIME | HCCL_E_DRV | HCCL_E_PROFILING | HCCL_E_CCE | HCCL_E_NETWORK | HCCL_E_AGAIN
  | HCCL_E_REMOTE | HCCL_E_SUSPENDING | HCCL_E_OPRETRY_FAIL | HCCL_E_OOM | HCCL_E_IN_STATUS
  | HCCL_E_RESERVED

text \<open>The values of \<^verbatim>\<open>CcuResult\<close>, in the order of the header.\<close>

datatype CcuResult =
    CCU_SUCCESS | CCU_E_PARA | CCU_E_PTR | CCU_E_INTERNAL | CCU_E_NOT_SUPPORT | CCU_E_NOT_FOUND | CCU_E_UNAVAIL
  | CCU_E_RUNTIME | CCU_E_DRV_START | CCU_E_DRV_INIT_FAILED | CCU_E_DRV_BUSY | CCU_E_DRV_END | CCU_E_RESERVED

subsection \<open>32-bit unsigned arithmetic on natural numbers\<close>

text \<open>
  Resource ids and counts are \<^verbatim>\<open>uint32_t\<close>. They are modelled by natural numbers below \<open>2 ^ 32\<close>; every
  sum, difference and product goes through the three functions below, which wrap around as C++ does.
\<close>

definition u32_add :: "nat \<Rightarrow> nat \<Rightarrow> nat" where
  "u32_add a b = (a + b) mod 2 ^ 32"

definition u32_sub :: "nat \<Rightarrow> nat \<Rightarrow> nat" where
  "u32_sub a b = (a + 2 ^ 32 - b) mod 2 ^ 32"

definition u32_mul :: "nat \<Rightarrow> nat \<Rightarrow> nat" where
  "u32_mul a b = (a * b) mod 2 ^ 32"

lemma u32_add_exact: "a + b < 2 ^ 32 \<Longrightarrow> u32_add a b = a + b"
  by (simp add: u32_add_def)

lemma u32_sub_exact:
  assumes "b \<le> a" and "a < 2 ^ 32"
  shows "u32_sub a b = a - b"
proof -
  have "a + 2 ^ 32 - b = (a - b) + 2 ^ 32"
    using assms(1) by simp
  then have "u32_sub a b = ((a - b) + 2 ^ 32) mod 2 ^ 32"
    by (simp only: u32_sub_def)
  also have "\<dots> = a - b"
    using assms(2) by simp
  finally show ?thesis .
qed

lemma u32_mul_exact: "a * b < 2 ^ 32 \<Longrightarrow> u32_mul a b = a * b"
  by (simp add: u32_mul_def)

subsection \<open>Runs of bits of a word\<close>

definition get_bits :: "nat \<Rightarrow> nat \<Rightarrow> 'a::len word \<Rightarrow> 'a word" where
  "get_bits off n w = take_bit n (drop_bit off w)"

definition put_bits :: "nat \<Rightarrow> nat \<Rightarrow> 'a::len word \<Rightarrow> 'a word \<Rightarrow> 'a word" where
  "put_bits off n v w = (w AND NOT (push_bit off (mask n))) OR push_bit off (take_bit n v)"

lemma bit_get_bits: "bit (get_bits off n w) k \<longleftrightarrow> k < n \<and> bit w (off + k)"
  by (auto simp: get_bits_def bit_take_bit_iff bit_drop_bit_eq)

lemma bit_put_bits:
  fixes w :: "'a::len word"
  shows "bit (put_bits off n v w) k \<longleftrightarrow>
    k < LENGTH('a) \<and> (if off \<le> k \<and> k < off + n then bit v (k - off) else bit w k)"
  by (auto simp: put_bits_def bit_or_iff bit_and_iff bit_not_iff bit_push_bit_iff bit_mask_iff
      bit_take_bit_iff dest: bit_imp_le_length)

lemma get_put_bits_same:
  fixes w :: "'a::len word"
  assumes "off + n \<le> LENGTH('a)"
  shows "get_bits off n (put_bits off n v w) = take_bit n v"
  using assms by (intro bit_word_eqI) (auto simp: bit_get_bits bit_put_bits bit_take_bit_iff)

lemma get_put_bits_disjoint:
  fixes w :: "'a::len word"
  assumes "off + n \<le> off' \<or> off' + n' \<le> off"
  shows "get_bits off' n' (put_bits off n v w) = get_bits off' n' w"
  using assms
  by (intro bit_word_eqI) (auto simp: bit_get_bits bit_put_bits dest: bit_imp_le_length)

lemma put_put_bits_same: "put_bits off n v (put_bits off n u w) = put_bits off n v w"
  by (intro bit_word_eqI) (auto simp: bit_put_bits)

text \<open>The masks that the encoders apply to narrow arguments are truncations.\<close>

lemma and_mask_u16 [simp]:
  fixes x :: u16
  shows "x AND 0x1 = take_bit (Suc 0) x" "x AND 0x3 = take_bit 2 x" "x AND 0x7 = take_bit 3 x"
    "x AND 0xF = take_bit 4 x" "x AND 0x1F = take_bit 5 x" "x AND 0xFF = take_bit 8 x"
    "x AND 0x7FFF = take_bit 15 x"
  by (simp_all add: take_bit_eq_mask mask_eq_exp_minus_1)

lemma take_bit_full_width [simp]:
  "take_bit 16 (x :: u16) = x" "take_bit 32 (y :: u32) = y" "take_bit 64 (z :: u64) = z"
  by (simp_all add: take_bit_word_eq_self)

text \<open>Widening keeps the value, and the instruction id space divides the 64-bit space.\<close>

lemma unat_ucast_widen [simp]:
  "unat (ucast (x :: u16) :: u32) = unat x" "unat (ucast (x :: u16) :: u64) = unat x"
  "unat (ucast (y :: u32) :: u64) = unat y"
  using unsigned_less [of x, where 'a = nat] unsigned_less [of y, where 'a = nat]
  by (simp_all add: unsigned_ucast_eq take_bit_nat_eq_self_iff)

lemma unat_u16_less [simp]: "unat (x :: u16) < 65536"
  using unsigned_less [of x, where 'a = nat] by simp

lemma ucast_u16_less_space [simp]: "(ucast (x :: u16) :: u64) < 0x10000"
  by (simp add: word_less_nat_alt)

lemma uint_mod_space: "uint (x mod 0x10000 :: u64) = uint x mod 0x10000"
  by (simp add: uint_mod)

lemma put_bits_zero_width [simp]: "put_bits off 0 v w = w"
  by (intro bit_word_eqI) (auto simp: bit_put_bits dest: bit_imp_le_length)

lemma get_bits_zero_width [simp]: "get_bits off 0 w = 0"
  by (simp add: get_bits_def)

lemma upt_8: "[0..<8 :: nat] = [0, 1, 2, 3, 4, 5, 6, 7]"
  by code_simp

end
