(* ===== verification/Microcode_Layout.thy ===== *)
theory Microcode_Layout
  imports Ccu_Prelude
begin

text \<open>
  The data layout of a CCU instruction (\<^verbatim>\<open>ccu_microcode/ccu_microcode_v1.h\<close>). A \<^verbatim>\<open>CcuInstr\<close> is 32 packed
  bytes: a 16-bit header and a union of some fifty packed structs over the remaining 240 bits.
  The union is modelled as what it is, a run of 240 bits; each struct is a \<open>layout\<close>, the list of
  its members in the order and with the widths of its declaration. The offset of a member is the
  sum of the widths before it, and reading or writing a member reads or replaces that run of bits,
  so a value stored through one member of the union and read through another behaves as in memory.
  Multi-byte integers are little-endian, as on the hosts and devices the library runs on, so a
  64-bit member at a 16-bit boundary is one contiguous run of bits.

  The locale \<open>instr_layout\<close> is the interface of a struct: what a member reads after a write to the
  same or to another member. It is interpreted for every struct of the header file.
\<close>

subsection \<open>Constants\<close>

definition CCU_REDUCE_SUM :: u16 where [simp]: "CCU_REDUCE_SUM = 0"
definition CCU_REDUCE_MAX :: u16 where [simp]: "CCU_REDUCE_MAX = 1"
definition CCU_REDUCE_MIN :: u16 where [simp]: "CCU_REDUCE_MIN = 2"
definition CCU_REDUCE_MIN_MS :: u16 where [simp]: "CCU_REDUCE_MIN_MS = 2"
definition CCU_REDUCE_MAX_MS :: u16 where [simp]: "CCU_REDUCE_MAX_MS = 8"
definition CCU_LOAD_TO_XN_SEC_INFO :: u16 where [simp]: "CCU_LOAD_TO_XN_SEC_INFO = 1"
definition CCU_CKE_RAW_LATENCY :: int where [simp]: "CCU_CKE_RAW_LATENCY = 14"
definition CCU_XN_RAW_LATENCY :: int where [simp]: "CCU_XN_RAW_LATENCY = 14"

subsection \<open>The instruction word and its header\<close>

record CcuInstr =
  header :: u16
  payload :: "240 word"

definition hdr_code :: "u16 \<Rightarrow> u16" where
  "hdr_code h = get_bits 0 11 h"

definition hdr_type :: "u16 \<Rightarrow> u16" where
  "hdr_type h = get_bits 11 4 h"

text \<open>\<open>InstrHeader\<close> starts from a zeroed header and stores the type and then the code.\<close>

definition InstrHeader :: "u16 \<Rightarrow> u16 \<Rightarrow> u16" where
  "InstrHeader type code = put_bits 0 11 code (put_bits 11 4 type 0)"

subsection \<open>Structs as lists of members\<close>

type_synonym layout = "(string \<times> nat) list"

fun lay_off :: "layout \<Rightarrow> string \<Rightarrow> nat" where
  "lay_off [] f = 0"
| "lay_off ((g, n) # L) f = (if g = f then 0 else n + lay_off L f)"

fun lay_len :: "layout \<Rightarrow> string \<Rightarrow> nat" where
  "lay_len [] f = 0"
| "lay_len ((g, n) # L) f = (if g = f then n else lay_len L f)"

definition lay_size :: "layout \<Rightarrow> nat" where
  "lay_size L = sum_list (map snd L)"

definition get :: "layout \<Rightarrow> string \<Rightarrow> CcuInstr \<Rightarrow> 'a::len word" where
  "get L f i = ucast (get_bits (lay_off L f) (lay_len L f) (payload i))"

definition put :: "layout \<Rightarrow> string \<Rightarrow> 'a::len word \<Rightarrow> CcuInstr \<Rightarrow> CcuInstr" where
  "put L f v i = i\<lparr>payload := put_bits (lay_off L f) (lay_len L f) (ucast v) (payload i)\<rparr>"

text \<open>The \<open>k\<close>-th element of the member array \<^verbatim>\<open>msId\<close> of the reduce structs.\<close>

definition msId :: "nat \<Rightarrow> string" where
  "msId k = ''msId['' @ [char_of (48 + k)] @ '']''"

subsection \<open>The structs of namespace \<^verbatim>\<open>CcuV1\<close>\<close>

definition CcuV1_CcuInstrLoadSqeArgsToGSA :: layout where
  "CcuV1_CcuInstrLoadSqeArgsToGSA =
    [(''gsaId'', 16), (''sqeArgsId'', 16), (''reserved'', 208)]"

definition CcuV1_CcuInstrLoadSqeArgsToXn :: layout where
  "CcuV1_CcuInstrLoadSqeArgsToXn =
    [(''xnId'', 16), (''sqeArgsId'', 16), (''reserved'', 208)]"

definition CcuV1_CcuInstrLoadImdToGSA :: layout where
  "CcuV1_CcuInstrLoadImdToGSA =
    [(''gsaId'', 16), (''immediate'', 64), (''reserved'', 160)]"

definition CcuV1_CcuInstrLoadImdToXn :: layout where
  "CcuV1_CcuInstrLoadImdToXn =
    [(''xnId'', 16), (''immediate'', 64), (''secFlag'', 16), (''reserved'', 144)]"

definition CcuV1_CcuInstrLoadGSAXn :: layout where
  "CcuV1_CcuInstrLoadGSAXn =
    [(''gsAdId'', 16), (''gsAmId'', 16), (''xnId'', 16), (''reserved'', 192)]"

definition CcuV1_CcuInstrLoadGSAGSA :: layout where
  "CcuV1_CcuInstrLoadGSAGSA =
    [(''gsAdId'', 16), (''gsAmId'', 16), (''gsAnId'', 16), (''reserved'', 192)]"

definition CcuV1_CcuInstrLoadXX :: layout where
  "CcuV1_CcuInstrLoadXX =
    [(''xdId'', 16), (''xmId'', 16), (''xnId'', 16), (''reserved'', 192)]"

definition CcuV1_CcuInstrLoop :: layout where
  "CcuV1_CcuInstrLoop =
    [(''startInstrId'', 16), (''endInstrId'', 16), (''xnId'', 16), (''reserved'', 192)]"

definition CcuV1_CcuInstrLoopGroup :: layout where
  "CcuV1_CcuInstrLoopGroup =
    [(''startLoopInstrId'', 16), (''xnId'', 16), (''xmId'', 16), (''highPerfModeEn'', 1),
     (''reserved1'', 15), (''reserved'', 176)]"

definition CcuV1_CcuInstrSetCKE :: layout where
  "CcuV1_CcuInstrSetCKE =
    [(''clearType'', 1), (''reserved1'', 15), (''setCKEId'', 16), (''setCKEMask'', 16),
     (''waitCKEId'', 16), (''waitCKEMask'', 16), (''reserved'', 160)]"

definition CcuV1_CcuInstrClearCKE :: layout where
  "CcuV1_CcuInstrClearCKE =
    [(''clearType'', 1), (''reserved1'', 15), (''clearCKEId'', 16), (''clearMask'', 16),
     (''waitCKEId'', 16), (''waitCKEMask'', 16), (''reserved'', 160)]"

definition CcuV1_CcuInstrJmp :: layout where
  "CcuV1_CcuInstrJmp =
    [(''dstInstrXnId'', 16), (''conditionXnId'', 16), (''expectData'', 64)]"

definition CcuV1_CcuInstrTransLocMemToLocMS :: layout where
  "CcuV1_CcuInstrTransLocMemToLocMS =
    [(''locMSId'', 16), (''locGSAId'', 16), (''locXnId'', 16), (''lengthXnId'', 16),
     (''channelId'', 16), (''reserved1'', 80), (''clearType'', 1), (''lengthEn'', 1),
     (''reserved'', 14), (''setCKEId'', 16), (''setCKEMask'', 16), (''waitCKEId'', 16),
     (''waitCKEMask'', 16)]"

definition CcuV1_CcuInstrTransRmtMemToLocMS :: layout where
  "CcuV1_CcuInstrTransRmtMemToLocMS =
    [(''locMSId'', 16), (''rmtGSAId'', 16), (''rmtXnId'', 16), (''lengthXnId'', 16),
     (''channelId'', 16), (''reserved1'', 80), (''clearType'', 1), (''lengthEn'', 1),
     (''reserved'', 14), (''setCKEId'', 16), (''setCKEMask'', 16), (''waitCKEId'', 16),
     (''waitCKEMask'', 16)]"

definition CcuV1_CcuInstrTransLocMSToLocMem :: layout where
  "CcuV1_CcuInstrTransLocMSToLocMem =
    [(''locGSAId'', 16), (''locXnId'', 16), (''locMSId'', 16), (''lengthXnId'', 16),
     (''channelId'', 16), (''reserved1'', 80), (''clearType'', 1), (''lengthEn'', 1),
     (''reserved'', 14), (''setCKEId'', 16), (''setCKEMask'', 16), (''waitCKEId'', 16),
     (''waitCKEMask'', 16)]"

definition CcuV1_CcuInstrTransLocMSToRmtMem :: layout where
  "CcuV1_CcuInstrTransLocMSToRmtMem =
    [(''rmtGSAId'', 16), (''rmtXnId'', 16), (''locMSId'', 16), (''lengthXnId'', 16),
     (''channelId'', 16), (''reserved1'', 80), (''clearType'', 1), (''lengthEn'', 1),
     (''reserved'', 14), (''setCKEId'', 16), (''setCKEMask'', 16), (''waitCKEId'', 16),
     (''waitCKEMask'', 16)]"

definition CcuV1_CcuInstrTransRmtMSToLocMem :: layout where
  "CcuV1_CcuInstrTransRmtMSToLocMem =
    [(''locGSAId'', 16), (''locXnId'', 16), (''rmtMSId'', 16), (''lengthXnId'', 16),
     (''channelId'', 16), (''reserved1'', 80), (''clearType'', 1), (''lengthEn'', 1),
     (''reserved'', 14), (''setCKEId'', 16), (''setCKEMask'', 16), (''waitCKEId'', 16),
     (''waitCKEMask'', 16)]"

definition CcuV1_CcuInstrTransLocMSToLocMS :: layout where
  "CcuV1_CcuInstrTransLocMSToLocMS =
    [(''dstMSId'', 16), (''srcMSId'', 16), (''lengthXnId'', 16), (''channelId'', 16),
     (''reserved1'', 96), (''clearType'', 1), (''lengthEn'', 1), (''reserved'', 14),
     (''setCKEId'', 16), (''setCKEMask'', 16), (''waitCKEId'', 16), (''waitCKEMask'', 16)]"

definition CcuV1_CcuInstrTransRmtMSToLocMS :: layout where
  "CcuV1_CcuInstrTransRmtMSToLocMS =
    [(''locMSId'', 16), (''rmtMSId'', 16), (''lengthXnId'', 16), (''channelId'', 16),
     (''reserved1'', 96), (''clearType'', 1), (''lengthEn'', 1), (''reserved'', 14),
     (''setCKEId'', 16), (''setCKEMask'', 16), (''waitCKEId'', 16), (''waitCKEMask'', 16)]"

definition CcuV1_CcuInstrTransLocMSToRmtMS :: layout where
  "CcuV1_CcuInstrTransLocMSToRmtMS =
    [(''rmtMSId'', 16), (''locMSId'', 16), (''lengthXnId'', 16), (''channelId'', 16),
     (''setRmtCKEId'', 16), (''setRmtCKEMask'', 16), (''reserved1'', 64), (''clearType'', 1),
     (''lengthEn'', 1), (''reserved'', 14), (''setCKEId'', 16), (''setCKEMask'', 16),
     (''waitCKEId'', 16), (''waitCKEMask'', 16)]"

definition CcuV1_CcuInstrTransRmtMemToLocMem :: layout where
  "CcuV1_CcuInstrTransRmtMemToLocMem =
    [(''locGSAId'', 16), (''locXnId'', 16), (''rmtGSAId'', 16), (''rmtXnId'', 16),
     (''lengthXnId'', 16), (''channelId'', 16), (''udfType'', 8), (''reduceDataType'', 4),
     (''reduceOpCode'', 4), (''reserved'', 48), (''clearType'', 1), (''lengthEn'', 1),
     (''reduceEn'', 1), (''reserved1'', 13), (''setCKEId'', 16), (''setCKEMask'', 16),
     (''waitCKEId'', 16), (''waitCKEMask'', 16)]"

definition CcuV1_CcuInstrTransLocMemToRmtMem :: layout where
  "CcuV1_CcuInstrTransLocMemToRmtMem =
    [(''rmtGSAId'', 16), (''rmtXnId'', 16), (''locGSAId'', 16), (''locXnId'', 16),
     (''lengthXnId'', 16), (''channelId'', 16), (''udfType'', 8), (''reduceDataType'', 4),
     (''reduceOpCode'', 4), (''reserved'', 48), (''clearType'', 1), (''lengthEn'', 1),
     (''reduceEn'', 1), (''reserved1'', 13), (''setCKEId'', 16), (''setCKEMask'', 16),
     (''waitCKEId'', 16), (''waitCKEMask'', 16)]"

definition CcuV1_CcuInstrTransLocMemToLocMem :: layout where
  "CcuV1_CcuInstrTransLocMemToLocMem =
    [(''dstGSAId'', 16), (''dstXnId'', 16), (''srcGSAId'', 16), (''srcXnId'', 16),
     (''lengthXnId'', 16), (''channelId'', 16), (''reserved1'', 64), (''clearType'', 1),
     (''lengthEn'', 1), (''reserved'', 14), (''setCKEId'', 16), (''setCKEMask'', 16),
     (''waitCKEId'', 16), (''waitCKEMask'', 16)]"

definition CcuV1_CcuInstrSyncCKE :: layout where
  "CcuV1_CcuInstrSyncCKE =
    [(''rmtCKEId'', 16), (''locCKEId'', 16), (''locCKEMask'', 16), (''channelId'', 16),
     (''reserved'', 96), (''clearType'', 1), (''reserved1'', 15), (''setCKEId'', 16),
     (''setCKEMask'', 16), (''waitCKEId'', 16), (''waitCKEMask'', 16)]"

definition CcuV1_CcuInstrSyncGSA :: layout where
  "CcuV1_CcuInstrSyncGSA =
    [(''rmtGSAId'', 16), (''locGSAId'', 16), (''reserved2'', 16), (''channelId'', 16),
     (''setRmtCKEId'', 16), (''setRmtCKEMask'', 16), (''reserved'', 64), (''clearType'', 1),
     (''reserved1'', 15), (''setCKEId'', 16), (''setCKEMask'', 16), (''waitCKEId'', 16),
     (''waitCKEMask'', 16)]"

definition CcuV1_CcuInstrSyncXn :: layout where
  "CcuV1_CcuInstrSyncXn =
    [(''rmtXnId'', 16), (''locXnId'', 16), (''reserved2'', 16), (''channelId'', 16),
     (''setRmtCKEId'', 16), (''setRmtCKEMask'', 16), (''reserved'', 64), (''clearType'', 1),
     (''reserved1'', 15), (''setCKEId'', 16), (''setCKEMask'', 16), (''waitCKEId'', 16),
     (''waitCKEMask'', 16)]"

definition CcuV1_CcuInstrAdd :: layout where
  "CcuV1_CcuInstrAdd =
    [(''msId[0]'', 16), (''msId[1]'', 16), (''msId[2]'', 16), (''msId[3]'', 16), (''msId[4]'', 16),
     (''msId[5]'', 16), (''msId[6]'', 16), (''msId[7]'', 16), (''XnIdLength'', 16),
     (''reserved'', 16), (''clearType'', 1), (''count'', 3), (''castEn'', 2), (''reserved1'', 5),
     (''dataType'', 5), (''setCKEId'', 16), (''setCKEMask'', 16), (''waitCKEId'', 16),
     (''waitCKEMask'', 16)]"

definition CcuV1_CcuInstrMax :: layout where
  "CcuV1_CcuInstrMax =
    [(''msId[0]'', 16), (''msId[1]'', 16), (''msId[2]'', 16), (''msId[3]'', 16), (''msId[4]'', 16),
     (''msId[5]'', 16), (''msId[6]'', 16), (''msId[7]'', 16), (''XnIdLength'', 16),
     (''reserved'', 16), (''clearType'', 1), (''count'', 3), (''reserved1'', 7), (''dataType'', 5),
     (''setCKEId'', 16), (''setCKEMask'', 16), (''waitCKEId'', 16), (''waitCKEMask'', 16)]"

definition CcuV1_CcuInstrMin :: layout where
  "CcuV1_CcuInstrMin =
    [(''msId[0]'', 16), (''msId[1]'', 16), (''msId[2]'', 16), (''msId[3]'', 16), (''msId[4]'', 16),
     (''msId[5]'', 16), (''msId[6]'', 16), (''msId[7]'', 16), (''XnIdLength'', 16),
     (''reserved'', 16), (''clearType'', 1), (''count'', 3), (''reserved1'', 7), (''dataType'', 5),
     (''setCKEId'', 16), (''setCKEMask'', 16), (''waitCKEId'', 16), (''waitCKEMask'', 16)]"

subsection \<open>The structs of namespace \<^verbatim>\<open>CcuV2\<close>\<close>

definition CcuV2_CcuInstrLoadSqeArgsToX :: layout where
  "CcuV2_CcuInstrLoadSqeArgsToX =
    [(''xnId'', 16), (''sqeArgsId'', 16), (''reserved'', 176), (''setCKEId'', 16),
     (''setCKEMask'', 16)]"

definition CcuV2_CcuInstrLoadImdToX :: layout where
  "CcuV2_CcuInstrLoadImdToX =
    [(''xnId'', 16), (''immediate'', 64), (''secFlag'', 16), (''reserved'', 112),
     (''setCKEId'', 16), (''setCKEMask'', 16)]"

definition CcuV2_CcuInstrLoadStoreX :: layout where
  "CcuV2_CcuInstrLoadStoreX =
    [(''xdId'', 16), (''xsId'', 16), (''xso'', 16), (''xdo'', 16), (''oMode'', 1),
     (''reserved'', 15), (''reserved1'', 128), (''setCKEId'', 16), (''setCKEMask'', 16)]"

definition CcuV2_CcuInstrClearX :: layout where
  "CcuV2_CcuInstrClearX =
    [(''xnId'', 15), (''xnIdMode'', 1), (''xmId'', 15), (''xmIdMode'', 1), (''reserved'', 176),
     (''setCKEId'', 16), (''setCKEMask'', 16)]"

definition CcuV2_CcuInstrNop :: layout where
  "CcuV2_CcuInstrNop =
    [(''reserved'', 240)]"

definition CcuV2_CcuInstrLoad :: layout where
  "CcuV2_CcuInstrLoad =
    [(''xdId'', 16), (''xsId'', 16), (''xstId'', 16), (''xlId'', 16), (''reserved'', 96),
     (''dstType'', 4), (''allocHint'', 2), (''victimHint'', 2), (''reserved1'', 8),
     (''reserved2'', 32), (''setCKEId'', 16), (''setCKEMask'', 16)]"

definition CcuV2_CcuInstrStore :: layout where
  "CcuV2_CcuInstrStore =
    [(''xdId'', 16), (''xdtId'', 16), (''xsId'', 16), (''xlId'', 16), (''xhId'', 16),
     (''reserved'', 80), (''srcType'', 4), (''allocHint'', 2), (''victimHint'', 2),
     (''storeType'', 1), (''hscbType'', 1), (''hscbBroadCastDstType'', 6), (''reserved1'', 32),
     (''setCKEId'', 16), (''setCKEMask'', 16)]"

definition CcuV2_CcuInstrOperator :: layout where
  "CcuV2_CcuInstrOperator =
    [(''xdId'', 16), (''xnId'', 16), (''xmId'', 16), (''parMode'', 1), (''reserved'', 15),
     (''reserved1'', 96), (''shiftType'', 1), (''reserved2'', 15), (''reserved3'', 32),
     (''setCKEId'', 16), (''setCKEMask'', 16)]"

definition CcuV2_CcuInstrLoop :: layout where
  "CcuV2_CcuInstrLoop =
    [(''startInstrId'', 16), (''endInstrId'', 16), (''xmId'', 16), (''xnId'', 16), (''xpId'', 16),
     (''wishCKEBit'', 16), (''mode'', 1), (''reserved'', 15), (''reserved1'', 128)]"

definition CcuV2_CcuInstrLoopGroup :: layout where
  "CcuV2_CcuInstrLoopGroup =
    [(''startLoopInstrId'', 16), (''xnId'', 16), (''xmId'', 16), (''xpId'', 16),
     (''reserved'', 176)]"

definition CcuV2_CcuInstrSetCKE :: layout where
  "CcuV2_CcuInstrSetCKE =
    [(''clearType'', 1), (''reserved'', 15), (''setCKEId'', 16), (''setCKEMask'', 16),
     (''waitCKEId'', 16), (''waitCKEMask'', 16), (''userData'', 64), (''reserved1'', 96)]"

definition CcuV2_CcuInstrClearCKE :: layout where
  "CcuV2_CcuInstrClearCKE =
    [(''clearType'', 1), (''reserved'', 15), (''clearCKEId'', 16), (''clearMask'', 16),
     (''waitCKEId'', 16), (''waitCKEMask'', 16), (''reserved1'', 160)]"

definition CcuV2_CcuInstrJmp :: layout where
  "CcuV2_CcuInstrJmp =
    [(''expectedXnId'', 16), (''conditionXnId'', 16), (''relTarInstrXnId'', 16),
     (''conditionType'', 4), (''jumpMode'', 1), (''reserved'', 11), (''reserved1'', 176)]"

definition CcuV2_CcuInstrWait :: layout where
  "CcuV2_CcuInstrWait =
    [(''conditionXnId'', 16), (''expectedXnId'', 16), (''conditionType'', 4), (''reserved'', 12),
     (''reserved1'', 192)]"

definition CcuV2_CcuInstrFence :: layout where
  "CcuV2_CcuInstrFence =
    [(''reserved'', 240)]"

definition CcuV2_CcuInstrTransLocMemToLocMS :: layout where
  "CcuV2_CcuInstrTransLocMemToLocMS =
    [(''msId'', 16), (''xsId'', 16), (''xstId'', 16), (''xlId'', 16), (''xoId'', 16),
     (''allocHint'', 2), (''victimHint'', 2), (''reserved'', 12), (''reserved1'', 112),
     (''setCKEId'', 16), (''setCKEMask'', 16)]"

definition CcuV2_CcuInstrTransLocMSToLocMem :: layout where
  "CcuV2_CcuInstrTransLocMSToLocMem =
    [(''xdId'', 16), (''xdtId'', 16), (''msId'', 16), (''xlId'', 16), (''xoId'', 16),
     (''allocHint'', 2), (''victimHint'', 2), (''reserved'', 12), (''reserved1'', 112),
     (''setCKEId'', 16), (''setCKEMask'', 16)]"

definition CcuV2_CcuInstrTransLocMSToLocMS :: layout where
  "CcuV2_CcuInstrTransLocMSToLocMS =
    [(''msdId'', 16), (''mssId'', 16), (''xlId'', 16), (''xoId'', 16), (''reserved'', 144),
     (''setCKEId'', 16), (''setCKEMask'', 16)]"

definition CcuV2_CcuInstrTransLocMemToLocMem :: layout where
  "CcuV2_CcuInstrTransLocMemToLocMem =
    [(''xdId'', 16), (''xdtId'', 16), (''xsId'', 16), (''xstId'', 16), (''xlId'', 16),
     (''usedMSId'', 16), (''srcAllocHint'', 2), (''srcVictimHint'', 2), (''dstAllocHint'', 2),
     (''dstVictimHint'', 2), (''msNum'', 8), (''reserved1'', 96), (''setCKEId'', 16),
     (''setCKEMask'', 16)]"

definition CcuV2_CcuInstrTransMem :: layout where
  "CcuV2_CcuInstrTransMem =
    [(''xdId'', 16), (''xdtId'', 16), (''xsId'', 16), (''xstId'', 16), (''xlId'', 16),
     (''xcId'', 16), (''xnId'', 16), (''xntId'', 16), (''value'', 32), (''udfType'', 8),
     (''reduceDataType'', 4), (''reduceOpCode'', 4), (''dmaOpCode'', 8), (''order'', 3),
     (''fence'', 1), (''cqe'', 1), (''nf'', 1), (''udfEnable'', 1), (''splitMode'', 1),
     (''se'', 1), (''rmtJettyType'', 2), (''src_mode'', 1), (''dst_mode'', 1), (''msIdMode'', 1),
     (''reserved'', 2), (''targetHint'', 8), (''setCKEId'', 16), (''setCKEMask'', 16)]"

definition CcuV2_CcuInstrSyncWtX :: layout where
  "CcuV2_CcuInstrSyncWtX =
    [(''xdId'', 16), (''xdtId'', 16), (''xsId'', 16), (''xcId'', 16), (''xnId'', 16),
     (''xntId'', 16), (''value'', 32), (''notifyValid'', 1), (''parMode'', 1), (''reserved'', 14),
     (''reserved1'', 64), (''setCKEId'', 16), (''setCKEMask'', 16)]"

definition CcuV2_CcuInstrSyncAtX :: layout where
  "CcuV2_CcuInstrSyncAtX =
    [(''xdId'', 16), (''xdtId'', 16), (''xsId'', 16), (''xcId'', 16), (''reserved'', 1),
     (''parMode'', 1), (''reserved1'', 14), (''reserved2'', 128), (''setCKEId'', 16),
     (''setCKEMask'', 16)]"

definition CcuV2_CcuInstrReduce :: layout where
  "CcuV2_CcuInstrReduce =
    [(''msId[0]'', 16), (''msId[1]'', 16), (''msId[2]'', 16), (''msId[3]'', 16), (''msId[4]'', 16),
     (''msId[5]'', 16), (''msId[6]'', 16), (''msId[7]'', 16), (''XnIdLength'', 16),
     (''reserved'', 16), (''reserved1'', 1), (''count'', 3), (''castEn'', 2), (''reserved2'', 5),
     (''dataType'', 5), (''reserved3'', 32), (''setCKEId'', 16), (''setCKEMask'', 16)]"

subsection \<open>The size of the union\<close>

text \<open>Every struct of \<^verbatim>\<open>CcuMicroCodeV2\<close> fills the 30 bytes after the header exactly.\<close>

definition CcuMicroCodeV2 :: "layout list" where
  "CcuMicroCodeV2 =
    [CcuV2_CcuInstrLoadSqeArgsToX, CcuV2_CcuInstrLoadImdToX, CcuV2_CcuInstrLoadStoreX,
     CcuV2_CcuInstrClearX, CcuV2_CcuInstrNop, CcuV2_CcuInstrLoad, CcuV2_CcuInstrStore,
     CcuV2_CcuInstrOperator, CcuV2_CcuInstrLoop, CcuV2_CcuInstrLoopGroup,
     CcuV2_CcuInstrSetCKE, CcuV2_CcuInstrClearCKE, CcuV2_CcuInstrJmp, CcuV2_CcuInstrWait,
     CcuV2_CcuInstrFence, CcuV2_CcuInstrTransLocMemToLocMS, CcuV2_CcuInstrTransLocMSToLocMem,
     CcuV2_CcuInstrTransLocMSToLocMS, CcuV2_CcuInstrTransLocMemToLocMem,
     CcuV2_CcuInstrTransMem, CcuV2_CcuInstrSyncWtX, CcuV2_CcuInstrSyncAtX, CcuV2_CcuInstrReduce]"

definition CcuMicroCodeV1 :: "layout list" where
  "CcuMicroCodeV1 =
    [CcuV1_CcuInstrLoadSqeArgsToGSA, CcuV1_CcuInstrLoadSqeArgsToXn,
     CcuV1_CcuInstrLoadImdToGSA, CcuV1_CcuInstrLoadImdToXn, CcuV1_CcuInstrLoadGSAXn,
     CcuV1_CcuInstrLoadGSAGSA, CcuV1_CcuInstrLoadXX, CcuV1_CcuInstrLoop,
     CcuV1_CcuInstrLoopGroup, CcuV1_CcuInstrSetCKE, CcuV1_CcuInstrClearCKE, CcuV1_CcuInstrJmp,
     CcuV1_CcuInstrTransLocMemToLocMS, CcuV1_CcuInstrTransRmtMemToLocMS,
     CcuV1_CcuInstrTransLocMSToLocMem, CcuV1_CcuInstrTransLocMSToRmtMem,
     CcuV1_CcuInstrTransRmtMSToLocMem, CcuV1_CcuInstrTransLocMSToLocMS,
     CcuV1_CcuInstrTransRmtMSToLocMS, CcuV1_CcuInstrTransLocMSToRmtMS,
     CcuV1_CcuInstrTransRmtMemToLocMem, CcuV1_CcuInstrTransLocMemToRmtMem,
     CcuV1_CcuInstrTransLocMemToLocMem, CcuV1_CcuInstrSyncCKE, CcuV1_CcuInstrSyncGSA,
     CcuV1_CcuInstrSyncXn, CcuV1_CcuInstrAdd, CcuV1_CcuInstrMax, CcuV1_CcuInstrMin]"

subsection \<open>Laws of headers and members\<close>

lemma hdr_InstrHeader [simp]:
  "hdr_type (InstrHeader t c) = take_bit 4 t"
  "hdr_code (InstrHeader t c) = take_bit 11 c"
  by (simp_all add: hdr_type_def hdr_code_def InstrHeader_def get_put_bits_same
      get_put_bits_disjoint)

lemma msId_simps [simp]:
  "msId 0 = ''msId[0]''" "msId (Suc 0) = ''msId[1]''" "msId 2 = ''msId[2]''" "msId 3 = ''msId[3]''"
  "msId 4 = ''msId[4]''" "msId 5 = ''msId[5]''" "msId 6 = ''msId[6]''" "msId 7 = ''msId[7]''"
  by (simp_all add: msId_def char_of_def bit_Suc_0_iff)

lemma lay_off_len: "f \<in> fst ` set L \<Longrightarrow> lay_off L f + lay_len L f \<le> lay_size L"
  by (induction L f rule: lay_off.induct) (auto simp: lay_size_def)

lemma lay_len_absent: "f \<notin> fst ` set L \<Longrightarrow> lay_len L f = 0"
  by (induction L f rule: lay_len.induct) auto

lemma lay_disjoint:
  assumes "f \<noteq> g" "f \<in> fst ` set L" "g \<in> fst ` set L"
  shows "lay_off L f + lay_len L f \<le> lay_off L g \<or> lay_off L g + lay_len L g \<le> lay_off L f"
  using assms by (induction L f rule: lay_off.induct) auto

lemma header_put [simp]: "header (put L f v i) = header i"
  by (simp add: put_def)

lemma get_set_header [simp]: "get L f (i\<lparr>header := h\<rparr>) = get L f i"
  by (simp add: get_def)

lemma put_put_same [simp]: "put L f v (put L f u i) = put L f v i"
  by (simp add: put_def put_put_bits_same)

text \<open>Two members of different structs of the union that occupy the same bits are the same member.\<close>

lemma put_alias:
  "lay_off L f = lay_off M g \<Longrightarrow> lay_len L f = lay_len M g \<Longrightarrow> put L f = put M g"
  by (simp add: put_def fun_eq_iff)

lemma get_alias:
  "lay_off L f = lay_off M g \<Longrightarrow> lay_len L f = lay_len M g \<Longrightarrow> get L f = get M g"
  by (simp add: get_def fun_eq_iff)

locale instr_layout =
  fixes L :: layout
  assumes lay_fits: "lay_size L \<le> 240"
begin

lemma get_put_same [simp]: "get L f (put L f v i) = (take_bit (lay_len L f) v :: 'a::len word)"
proof (cases "f \<in> fst ` set L")
  case True
  then have fits: "lay_off L f + lay_len L f \<le> 240"
    using lay_off_len [of f L] lay_fits by simp
  then have "get L f (put L f v i)
      = (ucast (take_bit (lay_len L f) (ucast v :: 240 word)) :: 'a word)"
    by (simp add: get_def put_def get_put_bits_same)
  also have "\<dots> = take_bit (lay_len L f) v"
    using fits by (intro bit_word_eqI) (auto simp: bit_simps)
  finally show ?thesis .
next
  case False
  then show ?thesis
    by (simp add: get_def lay_len_absent)
qed

lemma get_put_other [simp]:
  assumes "f \<noteq> g"
  shows "get L g (put L f v i) = (get L g i :: 'a::len word)"
proof (cases "f \<in> fst ` set L \<and> g \<in> fst ` set L")
  case True
  then show ?thesis
    using assms lay_disjoint by (simp add: get_def put_def get_put_bits_disjoint)
next
  case False
  then show ?thesis
    by (auto simp: get_def put_def lay_len_absent)
qed

end

interpretation v1LoadSqeArgsToGSA: instr_layout CcuV1_CcuInstrLoadSqeArgsToGSA
  by unfold_locales (simp add: lay_size_def CcuV1_CcuInstrLoadSqeArgsToGSA_def)

interpretation v1LoadSqeArgsToXn: instr_layout CcuV1_CcuInstrLoadSqeArgsToXn
  by unfold_locales (simp add: lay_size_def CcuV1_CcuInstrLoadSqeArgsToXn_def)

interpretation v1LoadImdToGSA: instr_layout CcuV1_CcuInstrLoadImdToGSA
  by unfold_locales (simp add: lay_size_def CcuV1_CcuInstrLoadImdToGSA_def)

interpretation v1LoadImdToXn: instr_layout CcuV1_CcuInstrLoadImdToXn
  by unfold_locales (simp add: lay_size_def CcuV1_CcuInstrLoadImdToXn_def)

interpretation v1LoadGSAXn: instr_layout CcuV1_CcuInstrLoadGSAXn
  by unfold_locales (simp add: lay_size_def CcuV1_CcuInstrLoadGSAXn_def)

interpretation v1LoadGSAGSA: instr_layout CcuV1_CcuInstrLoadGSAGSA
  by unfold_locales (simp add: lay_size_def CcuV1_CcuInstrLoadGSAGSA_def)

interpretation v1LoadXX: instr_layout CcuV1_CcuInstrLoadXX
  by unfold_locales (simp add: lay_size_def CcuV1_CcuInstrLoadXX_def)

interpretation v1Loop: instr_layout CcuV1_CcuInstrLoop
  by unfold_locales (simp add: lay_size_def CcuV1_CcuInstrLoop_def)

interpretation v1LoopGroup: instr_layout CcuV1_CcuInstrLoopGroup
  by unfold_locales (simp add: lay_size_def CcuV1_CcuInstrLoopGroup_def)

interpretation v1SetCKE: instr_layout CcuV1_CcuInstrSetCKE
  by unfold_locales (simp add: lay_size_def CcuV1_CcuInstrSetCKE_def)

interpretation v1ClearCKE: instr_layout CcuV1_CcuInstrClearCKE
  by unfold_locales (simp add: lay_size_def CcuV1_CcuInstrClearCKE_def)

interpretation v1Jmp: instr_layout CcuV1_CcuInstrJmp
  by unfold_locales (simp add: lay_size_def CcuV1_CcuInstrJmp_def)

interpretation v1TransLocMemToLocMS: instr_layout CcuV1_CcuInstrTransLocMemToLocMS
  by unfold_locales (simp add: lay_size_def CcuV1_CcuInstrTransLocMemToLocMS_def)

interpretation v1TransRmtMemToLocMS: instr_layout CcuV1_CcuInstrTransRmtMemToLocMS
  by unfold_locales (simp add: lay_size_def CcuV1_CcuInstrTransRmtMemToLocMS_def)

interpretation v1TransLocMSToLocMem: instr_layout CcuV1_CcuInstrTransLocMSToLocMem
  by unfold_locales (simp add: lay_size_def CcuV1_CcuInstrTransLocMSToLocMem_def)

interpretation v1TransLocMSToRmtMem: instr_layout CcuV1_CcuInstrTransLocMSToRmtMem
  by unfold_locales (simp add: lay_size_def CcuV1_CcuInstrTransLocMSToRmtMem_def)

interpretation v1TransRmtMSToLocMem: instr_layout CcuV1_CcuInstrTransRmtMSToLocMem
  by unfold_locales (simp add: lay_size_def CcuV1_CcuInstrTransRmtMSToLocMem_def)

interpretation v1TransLocMSToLocMS: instr_layout CcuV1_CcuInstrTransLocMSToLocMS
  by unfold_locales (simp add: lay_size_def CcuV1_CcuInstrTransLocMSToLocMS_def)

interpretation v1TransRmtMSToLocMS: instr_layout CcuV1_CcuInstrTransRmtMSToLocMS
  by unfold_locales (simp add: lay_size_def CcuV1_CcuInstrTransRmtMSToLocMS_def)

interpretation v1TransLocMSToRmtMS: instr_layout CcuV1_CcuInstrTransLocMSToRmtMS
  by unfold_locales (simp add: lay_size_def CcuV1_CcuInstrTransLocMSToRmtMS_def)

interpretation v1TransRmtMemToLocMem: instr_layout CcuV1_CcuInstrTransRmtMemToLocMem
  by unfold_locales (simp add: lay_size_def CcuV1_CcuInstrTransRmtMemToLocMem_def)

interpretation v1TransLocMemToRmtMem: instr_layout CcuV1_CcuInstrTransLocMemToRmtMem
  by unfold_locales (simp add: lay_size_def CcuV1_CcuInstrTransLocMemToRmtMem_def)

interpretation v1TransLocMemToLocMem: instr_layout CcuV1_CcuInstrTransLocMemToLocMem
  by unfold_locales (simp add: lay_size_def CcuV1_CcuInstrTransLocMemToLocMem_def)

interpretation v1SyncCKE: instr_layout CcuV1_CcuInstrSyncCKE
  by unfold_locales (simp add: lay_size_def CcuV1_CcuInstrSyncCKE_def)

interpretation v1SyncGSA: instr_layout CcuV1_CcuInstrSyncGSA
  by unfold_locales (simp add: lay_size_def CcuV1_CcuInstrSyncGSA_def)

interpretation v1SyncXn: instr_layout CcuV1_CcuInstrSyncXn
  by unfold_locales (simp add: lay_size_def CcuV1_CcuInstrSyncXn_def)

interpretation v1Add: instr_layout CcuV1_CcuInstrAdd
  by unfold_locales (simp add: lay_size_def CcuV1_CcuInstrAdd_def)

interpretation v1Max: instr_layout CcuV1_CcuInstrMax
  by unfold_locales (simp add: lay_size_def CcuV1_CcuInstrMax_def)

interpretation v1Min: instr_layout CcuV1_CcuInstrMin
  by unfold_locales (simp add: lay_size_def CcuV1_CcuInstrMin_def)

interpretation v2LoadSqeArgsToX: instr_layout CcuV2_CcuInstrLoadSqeArgsToX
  by unfold_locales (simp add: lay_size_def CcuV2_CcuInstrLoadSqeArgsToX_def)

interpretation v2LoadImdToX: instr_layout CcuV2_CcuInstrLoadImdToX
  by unfold_locales (simp add: lay_size_def CcuV2_CcuInstrLoadImdToX_def)

interpretation v2LoadStoreX: instr_layout CcuV2_CcuInstrLoadStoreX
  by unfold_locales (simp add: lay_size_def CcuV2_CcuInstrLoadStoreX_def)

interpretation v2ClearX: instr_layout CcuV2_CcuInstrClearX
  by unfold_locales (simp add: lay_size_def CcuV2_CcuInstrClearX_def)

interpretation v2Nop: instr_layout CcuV2_CcuInstrNop
  by unfold_locales (simp add: lay_size_def CcuV2_CcuInstrNop_def)

interpretation v2Load: instr_layout CcuV2_CcuInstrLoad
  by unfold_locales (simp add: lay_size_def CcuV2_CcuInstrLoad_def)

interpretation v2Store: instr_layout CcuV2_CcuInstrStore
  by unfold_locales (simp add: lay_size_def CcuV2_CcuInstrStore_def)

interpretation v2Operator: instr_layout CcuV2_CcuInstrOperator
  by unfold_locales (simp add: lay_size_def CcuV2_CcuInstrOperator_def)

interpretation v2Loop: instr_layout CcuV2_CcuInstrLoop
  by unfold_locales (simp add: lay_size_def CcuV2_CcuInstrLoop_def)

interpretation v2LoopGroup: instr_layout CcuV2_CcuInstrLoopGroup
  by unfold_locales (simp add: lay_size_def CcuV2_CcuInstrLoopGroup_def)

interpretation v2SetCKE: instr_layout CcuV2_CcuInstrSetCKE
  by unfold_locales (simp add: lay_size_def CcuV2_CcuInstrSetCKE_def)

interpretation v2ClearCKE: instr_layout CcuV2_CcuInstrClearCKE
  by unfold_locales (simp add: lay_size_def CcuV2_CcuInstrClearCKE_def)

interpretation v2Jmp: instr_layout CcuV2_CcuInstrJmp
  by unfold_locales (simp add: lay_size_def CcuV2_CcuInstrJmp_def)

interpretation v2Wait: instr_layout CcuV2_CcuInstrWait
  by unfold_locales (simp add: lay_size_def CcuV2_CcuInstrWait_def)

interpretation v2Fence: instr_layout CcuV2_CcuInstrFence
  by unfold_locales (simp add: lay_size_def CcuV2_CcuInstrFence_def)

interpretation v2TransLocMemToLocMS: instr_layout CcuV2_CcuInstrTransLocMemToLocMS
  by unfold_locales (simp add: lay_size_def CcuV2_CcuInstrTransLocMemToLocMS_def)

interpretation v2TransLocMSToLocMem: instr_layout CcuV2_CcuInstrTransLocMSToLocMem
  by unfold_locales (simp add: lay_size_def CcuV2_CcuInstrTransLocMSToLocMem_def)

interpretation v2TransLocMSToLocMS: instr_layout CcuV2_CcuInstrTransLocMSToLocMS
  by unfold_locales (simp add: lay_size_def CcuV2_CcuInstrTransLocMSToLocMS_def)

interpretation v2TransLocMemToLocMem: instr_layout CcuV2_CcuInstrTransLocMemToLocMem
  by unfold_locales (simp add: lay_size_def CcuV2_CcuInstrTransLocMemToLocMem_def)

interpretation v2TransMem: instr_layout CcuV2_CcuInstrTransMem
  by unfold_locales (simp add: lay_size_def CcuV2_CcuInstrTransMem_def)

interpretation v2SyncWtX: instr_layout CcuV2_CcuInstrSyncWtX
  by unfold_locales (simp add: lay_size_def CcuV2_CcuInstrSyncWtX_def)

interpretation v2SyncAtX: instr_layout CcuV2_CcuInstrSyncAtX
  by unfold_locales (simp add: lay_size_def CcuV2_CcuInstrSyncAtX_def)

interpretation v2Reduce: instr_layout CcuV2_CcuInstrReduce
  by unfold_locales (simp add: lay_size_def CcuV2_CcuInstrReduce_def)

text \<open>The width of a member, looked up without unfolding the struct elsewhere.\<close>

lemmas CcuV1_lay_len [simp] =
  CcuV1_CcuInstrLoadSqeArgsToGSA_def [THEN arg_cong, of lay_len]
  CcuV1_CcuInstrLoadSqeArgsToXn_def [THEN arg_cong, of lay_len]
  CcuV1_CcuInstrLoadImdToGSA_def [THEN arg_cong, of lay_len]
  CcuV1_CcuInstrLoadImdToXn_def [THEN arg_cong, of lay_len]
  CcuV1_CcuInstrLoadGSAXn_def [THEN arg_cong, of lay_len]
  CcuV1_CcuInstrLoadGSAGSA_def [THEN arg_cong, of lay_len]
  CcuV1_CcuInstrLoadXX_def [THEN arg_cong, of lay_len]
  CcuV1_CcuInstrLoop_def [THEN arg_cong, of lay_len]
  CcuV1_CcuInstrLoopGroup_def [THEN arg_cong, of lay_len]
  CcuV1_CcuInstrSetCKE_def [THEN arg_cong, of lay_len]
  CcuV1_CcuInstrClearCKE_def [THEN arg_cong, of lay_len]
  CcuV1_CcuInstrJmp_def [THEN arg_cong, of lay_len]
  CcuV1_CcuInstrTransLocMemToLocMS_def [THEN arg_cong, of lay_len]
  CcuV1_CcuInstrTransRmtMemToLocMS_def [THEN arg_cong, of lay_len]
  CcuV1_CcuInstrTransLocMSToLocMem_def [THEN arg_cong, of lay_len]
  CcuV1_CcuInstrTransLocMSToRmtMem_def [THEN arg_cong, of lay_len]
  CcuV1_CcuInstrTransRmtMSToLocMem_def [THEN arg_cong, of lay_len]
  CcuV1_CcuInstrTransLocMSToLocMS_def [THEN arg_cong, of lay_len]
  CcuV1_CcuInstrTransRmtMSToLocMS_def [THEN arg_cong, of lay_len]
  CcuV1_CcuInstrTransLocMSToRmtMS_def [THEN arg_cong, of lay_len]
  CcuV1_CcuInstrTransRmtMemToLocMem_def [THEN arg_cong, of lay_len]
  CcuV1_CcuInstrTransLocMemToRmtMem_def [THEN arg_cong, of lay_len]
  CcuV1_CcuInstrTransLocMemToLocMem_def [THEN arg_cong, of lay_len]
  CcuV1_CcuInstrSyncCKE_def [THEN arg_cong, of lay_len]
  CcuV1_CcuInstrSyncGSA_def [THEN arg_cong, of lay_len]
  CcuV1_CcuInstrSyncXn_def [THEN arg_cong, of lay_len]
  CcuV1_CcuInstrAdd_def [THEN arg_cong, of lay_len]
  CcuV1_CcuInstrMax_def [THEN arg_cong, of lay_len]
  CcuV1_CcuInstrMin_def [THEN arg_cong, of lay_len]

lemmas CcuV2_lay_len [simp] =
  CcuV2_CcuInstrLoadSqeArgsToX_def [THEN arg_cong, of lay_len]
  CcuV2_CcuInstrLoadImdToX_def [THEN arg_cong, of lay_len]
  CcuV2_CcuInstrLoadStoreX_def [THEN arg_cong, of lay_len]
  CcuV2_CcuInstrClearX_def [THEN arg_cong, of lay_len]
  CcuV2_CcuInstrNop_def [THEN arg_cong, of lay_len]
  CcuV2_CcuInstrLoad_def [THEN arg_cong, of lay_len]
  CcuV2_CcuInstrStore_def [THEN arg_cong, of lay_len]
  CcuV2_CcuInstrOperator_def [THEN arg_cong, of lay_len]
  CcuV2_CcuInstrLoop_def [THEN arg_cong, of lay_len]
  CcuV2_CcuInstrLoopGroup_def [THEN arg_cong, of lay_len]
  CcuV2_CcuInstrSetCKE_def [THEN arg_cong, of lay_len]
  CcuV2_CcuInstrClearCKE_def [THEN arg_cong, of lay_len]
  CcuV2_CcuInstrJmp_def [THEN arg_cong, of lay_len]
  CcuV2_CcuInstrWait_def [THEN arg_cong, of lay_len]
  CcuV2_CcuInstrFence_def [THEN arg_cong, of lay_len]
  CcuV2_CcuInstrTransLocMemToLocMS_def [THEN arg_cong, of lay_len]
  CcuV2_CcuInstrTransLocMSToLocMem_def [THEN arg_cong, of lay_len]
  CcuV2_CcuInstrTransLocMSToLocMS_def [THEN arg_cong, of lay_len]
  CcuV2_CcuInstrTransLocMemToLocMem_def [THEN arg_cong, of lay_len]
  CcuV2_CcuInstrTransMem_def [THEN arg_cong, of lay_len]
  CcuV2_CcuInstrSyncWtX_def [THEN arg_cong, of lay_len]
  CcuV2_CcuInstrSyncAtX_def [THEN arg_cong, of lay_len]
  CcuV2_CcuInstrReduce_def [THEN arg_cong, of lay_len]

lemmas CcuV1_layout_defs =
  CcuV1_CcuInstrLoadSqeArgsToGSA_def
  CcuV1_CcuInstrLoadSqeArgsToXn_def
  CcuV1_CcuInstrLoadImdToGSA_def
  CcuV1_CcuInstrLoadImdToXn_def
  CcuV1_CcuInstrLoadGSAXn_def
  CcuV1_CcuInstrLoadGSAGSA_def
  CcuV1_CcuInstrLoadXX_def
  CcuV1_CcuInstrLoop_def
  CcuV1_CcuInstrLoopGroup_def
  CcuV1_CcuInstrSetCKE_def
  CcuV1_CcuInstrClearCKE_def
  CcuV1_CcuInstrJmp_def
  CcuV1_CcuInstrTransLocMemToLocMS_def
  CcuV1_CcuInstrTransRmtMemToLocMS_def
  CcuV1_CcuInstrTransLocMSToLocMem_def
  CcuV1_CcuInstrTransLocMSToRmtMem_def
  CcuV1_CcuInstrTransRmtMSToLocMem_def
  CcuV1_CcuInstrTransLocMSToLocMS_def
  CcuV1_CcuInstrTransRmtMSToLocMS_def
  CcuV1_CcuInstrTransLocMSToRmtMS_def
  CcuV1_CcuInstrTransRmtMemToLocMem_def
  CcuV1_CcuInstrTransLocMemToRmtMem_def
  CcuV1_CcuInstrTransLocMemToLocMem_def
  CcuV1_CcuInstrSyncCKE_def
  CcuV1_CcuInstrSyncGSA_def
  CcuV1_CcuInstrSyncXn_def
  CcuV1_CcuInstrAdd_def
  CcuV1_CcuInstrMax_def
  CcuV1_CcuInstrMin_def

lemmas CcuV2_layout_defs =
  CcuV2_CcuInstrLoadSqeArgsToX_def
  CcuV2_CcuInstrLoadImdToX_def
  CcuV2_CcuInstrLoadStoreX_def
  CcuV2_CcuInstrClearX_def
  CcuV2_CcuInstrNop_def
  CcuV2_CcuInstrLoad_def
  CcuV2_CcuInstrStore_def
  CcuV2_CcuInstrOperator_def
  CcuV2_CcuInstrLoop_def
  CcuV2_CcuInstrLoopGroup_def
  CcuV2_CcuInstrSetCKE_def
  CcuV2_CcuInstrClearCKE_def
  CcuV2_CcuInstrJmp_def
  CcuV2_CcuInstrWait_def
  CcuV2_CcuInstrFence_def
  CcuV2_CcuInstrTransLocMemToLocMS_def
  CcuV2_CcuInstrTransLocMSToLocMem_def
  CcuV2_CcuInstrTransLocMSToLocMS_def
  CcuV2_CcuInstrTransLocMemToLocMem_def
  CcuV2_CcuInstrTransMem_def
  CcuV2_CcuInstrSyncWtX_def
  CcuV2_CcuInstrSyncAtX_def
  CcuV2_CcuInstrReduce_def

end
