(* ===== verification/Microcode_V2.thy ===== *)
theory Microcode_V2
  imports Microcode_Layout
begin

text \<open>
  The encoders of the second-generation instruction set (\<^verbatim>\<open>ccu_microcode/ccu_microcode_v2.cc\<close>). Each
  encoder is a function from the previous contents of the instruction slot to the new one: it
  stores the header and the members it names, in the order of the code, and every bit that no
  statement stores keeps its old value. A parameter of type \<^verbatim>\<open>CcuInstr*\<close> that the code tests against
  \<^verbatim>\<open>nullptr\<close> is an option. The members \<^verbatim>\<open>ms\<close> of the reduce encoders is a C array of eight elements,
  here a list of length eight.

  The lemmas give, for every encoder, the instruction class and code that the header carries and
  what each stored member reads back as; \<open>RelJmp\<close> is the nine-instruction template of a call or
  return through a register.
\<close>

subsection \<open>Instruction classes and codes\<close>

definition LOAD_TYPE :: u16 where [simp]: "LOAD_TYPE = 0x0"
definition LOADSQEARGSTOX_CODE :: u16 where [simp]: "LOADSQEARGSTOX_CODE = 0x1"
definition LOADIMDTOX_CODE :: u16 where [simp]: "LOADIMDTOX_CODE = 0x2"
definition LOADX_CODE :: u16 where [simp]: "LOADX_CODE = 0x6"
definition STOREX_CODE :: u16 where [simp]: "STOREX_CODE = 0x7"
definition CLEARX_CODE :: u16 where [simp]: "CLEARX_CODE = 0x8"
definition NOP_CODE :: u16 where [simp]: "NOP_CODE = 0x9"
definition LOAD_CODE :: u16 where [simp]: "LOAD_CODE = 0xA"
definition STORE_CODE :: u16 where [simp]: "STORE_CODE = 0xB"
definition ADD_CODE :: u16 where [simp]: "ADD_CODE = 0xD"
definition SUB_CODE :: u16 where [simp]: "SUB_CODE = 0xE"
definition MUL_CODE :: u16 where [simp]: "MUL_CODE = 0xF"
definition AND_CODE :: u16 where [simp]: "AND_CODE = 0x10"
definition OR_CODE :: u16 where [simp]: "OR_CODE = 0x11"
definition NOT_CODE :: u16 where [simp]: "NOT_CODE = 0x12"
definition XOR_CODE :: u16 where [simp]: "XOR_CODE = 0x13"
definition SHL_CODE :: u16 where [simp]: "SHL_CODE = 0x14"
definition SHR_CODE :: u16 where [simp]: "SHR_CODE = 0x15"
definition POPCNT_CODE :: u16 where [simp]: "POPCNT_CODE = 0x16"
definition CTRL_TYPE :: u16 where [simp]: "CTRL_TYPE = 0x1"
definition LOOP_CODE :: u16 where [simp]: "LOOP_CODE = 0x0"
definition LOOPGROUP_CODE :: u16 where [simp]: "LOOPGROUP_CODE = 0x1"
definition SETCKBIT_CODE :: u16 where [simp]: "SETCKBIT_CODE = 0x2"
definition CLEARCKBIT_CODE :: u16 where [simp]: "CLEARCKBIT_CODE = 0x4"
definition JMP_CODE :: u16 where [simp]: "JMP_CODE = 0x5"
definition WAIT_CODE :: u16 where [simp]: "WAIT_CODE = 0x7"
definition FENCE_CODE :: u16 where [simp]: "FENCE_CODE = 0x8"
definition TRANS_TYPE :: u16 where [simp]: "TRANS_TYPE = 0x2"
definition TRANSLOCMEMTOLOCMS_CODE :: u16 where [simp]: "TRANSLOCMEMTOLOCMS_CODE = 0x0"
definition TRANSLOCMSTOLOCMEM_CODE :: u16 where [simp]: "TRANSLOCMSTOLOCMEM_CODE = 0x2"
definition TRANSLOCMSTOLOCMS_CODE :: u16 where [simp]: "TRANSLOCMSTOLOCMS_CODE = 0x5"
definition TRANSLOCMEMTOLOCMEM_CODE :: u16 where [simp]: "TRANSLOCMEMTOLOCMEM_CODE = 0x6"
definition TRANSMEM_CODE :: u16 where [simp]: "TRANSMEM_CODE = 0x10"
definition SYNCWTX_CODE :: u16 where [simp]: "SYNCWTX_CODE = 0xD"
definition SYNCATX_CODE :: u16 where [simp]: "SYNCATX_CODE = 0xE"
definition REDUCE_TYPE :: u16 where [simp]: "REDUCE_TYPE = 0x3"
definition REDUCE_ADD_CODE :: u16 where [simp]: "REDUCE_ADD_CODE = 0x0"
definition REDUCE_MAX_CODE :: u16 where [simp]: "REDUCE_MAX_CODE = 0x1"
definition REDUCE_MIN_CODE :: u16 where [simp]: "REDUCE_MIN_CODE = 0x2"
definition JMP_TARGET_PC_IF_BRANCH :: u16 where [simp]: "JMP_TARGET_PC_IF_BRANCH = 5"
definition JMP_TARGET_PC_NOP_BRANCH :: u16 where [simp]: "JMP_TARGET_PC_NOP_BRANCH = 3"
definition JMP_COND_TYPE_IF :: u16 where [simp]: "JMP_COND_TYPE_IF = 2"
definition JMP_COND_TYPE_UNCOND :: u16 where [simp]: "JMP_COND_TYPE_UNCOND = 6"

subsection \<open>Argument structs\<close>

record CacheConfig =
  allocHint :: u16
  victimHint :: u16

record TransMemNotifyInfo =
  notify_xnId :: u16
  notify_xntId :: u16
  notify_value :: u32

record TransMemReduceInfo =
  reduce_udfType :: u16
  reduce_reduceDataType :: u16
  reduce_reduceOpCode :: u16

record TransMemConfig =
  cfg_dmaOpCode :: u16
  cfg_order :: u16
  cfg_fence :: u16
  cfg_cqe :: u16
  cfg_nf :: u16
  cfg_udfEnable :: u16
  cfg_splitMode :: u16
  cfg_se :: u16
  cfg_rmtJettyType :: u16
  cfg_src_mode :: u16
  cfg_dst_mode :: u16
  cfg_msIdMode :: u16

subsection \<open>Encoders\<close>

definition LoadSqeArgsToX ::
  "CcuInstr \<Rightarrow> u16 \<Rightarrow> u16 \<Rightarrow> u16 \<Rightarrow> u16 \<Rightarrow> CcuInstr" where
  "LoadSqeArgsToX instr xnId sqeArgsId setCKEId setCKEMask =
    (let instr = instr\<lparr>header := InstrHeader LOAD_TYPE LOADSQEARGSTOX_CODE\<rparr>;
         instr = put CcuV2_CcuInstrLoadSqeArgsToX ''xnId'' xnId instr;
         instr = put CcuV2_CcuInstrLoadSqeArgsToX ''sqeArgsId'' sqeArgsId instr;
         instr = put CcuV2_CcuInstrLoadSqeArgsToX ''setCKEId'' setCKEId instr;
         instr = put CcuV2_CcuInstrLoadSqeArgsToX ''setCKEMask'' setCKEMask instr
     in instr)"

definition LoadImdToXn ::
  "CcuInstr \<Rightarrow> u16 \<Rightarrow> u64 \<Rightarrow> u16 \<Rightarrow> u16 \<Rightarrow> u16 \<Rightarrow> CcuInstr" where
  "LoadImdToXn instr xnId immediate secFlag setCKEId setCKEMask =
    (let instr = instr\<lparr>header := InstrHeader LOAD_TYPE LOADIMDTOX_CODE\<rparr>;
         instr = put CcuV2_CcuInstrLoadImdToX ''xnId'' xnId instr;
         instr = put CcuV2_CcuInstrLoadImdToX ''immediate'' immediate instr;
         instr = put CcuV2_CcuInstrLoadImdToX ''setCKEId'' setCKEId instr;
         instr = put CcuV2_CcuInstrLoadImdToX ''setCKEMask'' setCKEMask instr;
         instr = put CcuV2_CcuInstrLoadImdToX ''secFlag'' secFlag instr
     in instr)"

definition ClearX ::
  "CcuInstr \<Rightarrow> u16 \<Rightarrow> u16 \<Rightarrow> u16 \<Rightarrow> u16 \<Rightarrow> u16 \<Rightarrow> u16 \<Rightarrow> CcuInstr" where
  "ClearX instr xnId xmId xnIdMode xmIdMode setCKEId setCKEMask =
    (let instr = instr\<lparr>header := InstrHeader LOAD_TYPE CLEARX_CODE\<rparr>;
         instr = put CcuV2_CcuInstrClearX ''xnId'' (xnId AND 0x7FFF) instr;
         instr = put CcuV2_CcuInstrClearX ''xnIdMode'' (xnIdMode AND 0x1) instr;
         instr = put CcuV2_CcuInstrClearX ''xmId'' (xmId AND 0x7FFF) instr;
         instr = put CcuV2_CcuInstrClearX ''xmIdMode'' (xmIdMode AND 0x1) instr;
         instr = put CcuV2_CcuInstrClearX ''setCKEId'' setCKEId instr;
         instr = put CcuV2_CcuInstrClearX ''setCKEMask'' setCKEMask instr
     in instr)"

definition Nop ::
  "CcuInstr \<Rightarrow> CcuInstr" where
  "Nop instr =
    instr\<lparr>header := InstrHeader LOAD_TYPE NOP_CODE\<rparr>"

definition Operator ::
  "CcuInstr \<Rightarrow> u16 \<Rightarrow> u16 \<Rightarrow> u16 \<Rightarrow> u16 \<Rightarrow> u16 \<Rightarrow> CcuInstr" where
  "Operator instr xdId xnId xmId setCKEId setCKEMask =
    (let instr = put CcuV2_CcuInstrOperator ''xdId'' xdId instr;
         instr = put CcuV2_CcuInstrOperator ''xnId'' xnId instr;
         instr = put CcuV2_CcuInstrOperator ''xmId'' xmId instr;
         instr = put CcuV2_CcuInstrOperator ''setCKEId'' setCKEId instr;
         instr = put CcuV2_CcuInstrOperator ''setCKEMask'' setCKEMask instr
     in instr)"

definition AssignI ::
  "CcuInstr \<Rightarrow> u16 \<Rightarrow> u64 \<Rightarrow> u16 \<Rightarrow> u16 \<Rightarrow> CcuInstr" where
  "AssignI instr result operand setCKEId setCKEMask =
    LoadImdToXn instr result operand (0 :: u16) setCKEId setCKEMask"

definition Add ::
  "CcuInstr \<Rightarrow> u16 \<Rightarrow> u16 \<Rightarrow> u16 \<Rightarrow> u16 \<Rightarrow> u16 \<Rightarrow> CcuInstr" where
  "Add instr result operand1 operand2 setCKEId setCKEMask =
    (let instr = instr\<lparr>header := InstrHeader LOAD_TYPE ADD_CODE\<rparr>;
         instr = put CcuV2_CcuInstrOperator ''parMode'' (1 :: u16) instr;
         instr = Operator instr result operand1 operand2 setCKEId setCKEMask
     in instr)"

definition AddI ::
  "CcuInstr \<Rightarrow> u16 \<Rightarrow> u16 \<Rightarrow> u16 \<Rightarrow> u16 \<Rightarrow> u16 \<Rightarrow> CcuInstr" where
  "AddI instr result operand imm setCKEId setCKEMask =
    (let instr = instr\<lparr>header := InstrHeader LOAD_TYPE ADD_CODE\<rparr>;
         instr = put CcuV2_CcuInstrOperator ''parMode'' (0 :: u16) instr;
         instr = Operator instr result operand imm setCKEId setCKEMask
     in instr)"

definition Assign ::
  "CcuInstr \<Rightarrow> u16 \<Rightarrow> u16 \<Rightarrow> u16 \<Rightarrow> u16 \<Rightarrow> CcuInstr" where
  "Assign instr result operand setCKEId setCKEMask =
    AddI instr result operand (0 :: u16) setCKEId setCKEMask"

definition Sub ::
  "CcuInstr \<Rightarrow> u16 \<Rightarrow> u16 \<Rightarrow> u16 \<Rightarrow> u16 \<Rightarrow> u16 \<Rightarrow> CcuInstr" where
  "Sub instr result operand1 operand2 setCKEId setCKEMask =
    (let instr = instr\<lparr>header := InstrHeader LOAD_TYPE SUB_CODE\<rparr>;
         instr = put CcuV2_CcuInstrOperator ''parMode'' (1 :: u16) instr;
         instr = Operator instr result operand1 operand2 setCKEId setCKEMask
     in instr)"

definition SubI ::
  "CcuInstr \<Rightarrow> u16 \<Rightarrow> u16 \<Rightarrow> u16 \<Rightarrow> u16 \<Rightarrow> u16 \<Rightarrow> CcuInstr" where
  "SubI instr result operand imm setCKEId setCKEMask =
    (let instr = instr\<lparr>header := InstrHeader LOAD_TYPE SUB_CODE\<rparr>;
         instr = put CcuV2_CcuInstrOperator ''parMode'' (0 :: u16) instr;
         instr = Operator instr result operand imm setCKEId setCKEMask
     in instr)"

definition Mul ::
  "CcuInstr \<Rightarrow> u16 \<Rightarrow> u16 \<Rightarrow> u16 \<Rightarrow> u16 \<Rightarrow> u16 \<Rightarrow> CcuInstr" where
  "Mul instr result operand1 operand2 setCKEId setCKEMask =
    (let instr = instr\<lparr>header := InstrHeader LOAD_TYPE MUL_CODE\<rparr>;
         instr = put CcuV2_CcuInstrOperator ''parMode'' (1 :: u16) instr;
         instr = Operator instr result operand1 operand2 setCKEId setCKEMask
     in instr)"

definition MulI ::
  "CcuInstr \<Rightarrow> u16 \<Rightarrow> u16 \<Rightarrow> u16 \<Rightarrow> u16 \<Rightarrow> u16 \<Rightarrow> CcuInstr" where
  "MulI instr result operand imm setCKEId setCKEMask =
    (let instr = instr\<lparr>header := InstrHeader LOAD_TYPE MUL_CODE\<rparr>;
         instr = put CcuV2_CcuInstrOperator ''parMode'' (0 :: u16) instr;
         instr = Operator instr result operand imm setCKEId setCKEMask
     in instr)"

definition And ::
  "CcuInstr \<Rightarrow> u16 \<Rightarrow> u16 \<Rightarrow> u16 \<Rightarrow> u16 \<Rightarrow> u16 \<Rightarrow> CcuInstr" where
  "And instr result operand1 operand2 setCKEId setCKEMask =
    (let instr = instr\<lparr>header := InstrHeader LOAD_TYPE AND_CODE\<rparr>;
         instr = put CcuV2_CcuInstrOperator ''parMode'' (1 :: u16) instr;
         instr = Operator instr result operand1 operand2 setCKEId setCKEMask
     in instr)"

definition Or ::
  "CcuInstr \<Rightarrow> u16 \<Rightarrow> u16 \<Rightarrow> u16 \<Rightarrow> u16 \<Rightarrow> u16 \<Rightarrow> CcuInstr" where
  "Or instr result operand1 operand2 setCKEId setCKEMask =
    (let instr = instr\<lparr>header := InstrHeader LOAD_TYPE OR_CODE\<rparr>;
         instr = put CcuV2_CcuInstrOperator ''parMode'' (1 :: u16) instr;
         instr = Operator instr result operand1 operand2 setCKEId setCKEMask
     in instr)"

definition Xor ::
  "CcuInstr \<Rightarrow> u16 \<Rightarrow> u16 \<Rightarrow> u16 \<Rightarrow> u16 \<Rightarrow> u16 \<Rightarrow> CcuInstr" where
  "Xor instr result operand1 operand2 setCKEId setCKEMask =
    (let instr = instr\<lparr>header := InstrHeader LOAD_TYPE XOR_CODE\<rparr>;
         instr = put CcuV2_CcuInstrOperator ''parMode'' (1 :: u16) instr;
         instr = Operator instr result operand1 operand2 setCKEId setCKEMask
     in instr)"

definition Not_instr ::
  "CcuInstr \<Rightarrow> u16 \<Rightarrow> u16 \<Rightarrow> u16 \<Rightarrow> u16 \<Rightarrow> CcuInstr" where
  "Not_instr instr result operand setCKEId setCKEMask =
    (let instr = instr\<lparr>header := InstrHeader LOAD_TYPE NOT_CODE\<rparr>;
         instr = put CcuV2_CcuInstrOperator ''parMode'' (0 :: u16) instr;
         instr = Operator instr result operand (0 :: u16) setCKEId setCKEMask
     in instr)"

definition SLL ::
  "CcuInstr \<Rightarrow> u16 \<Rightarrow> u16 \<Rightarrow> u16 \<Rightarrow> u16 \<Rightarrow> u16 \<Rightarrow> CcuInstr" where
  "SLL instr result operand1 operand2 setCKEId setCKEMask =
    (let instr = instr\<lparr>header := InstrHeader LOAD_TYPE SHL_CODE\<rparr>;
         instr = put CcuV2_CcuInstrOperator ''shiftType'' (0 :: u16) instr;
         instr = Operator instr result operand1 operand2 setCKEId setCKEMask
     in instr)"

definition SRL ::
  "CcuInstr \<Rightarrow> u16 \<Rightarrow> u16 \<Rightarrow> u16 \<Rightarrow> u16 \<Rightarrow> u16 \<Rightarrow> CcuInstr" where
  "SRL instr result operand1 operand2 setCKEId setCKEMask =
    (let instr = instr\<lparr>header := InstrHeader LOAD_TYPE SHR_CODE\<rparr>;
         instr = put CcuV2_CcuInstrOperator ''shiftType'' (0 :: u16) instr;
         instr = Operator instr result operand1 operand2 setCKEId setCKEMask
     in instr)"

definition SLA ::
  "CcuInstr \<Rightarrow> u16 \<Rightarrow> u16 \<Rightarrow> u16 \<Rightarrow> u16 \<Rightarrow> u16 \<Rightarrow> CcuInstr" where
  "SLA instr result operand1 operand2 setCKEId setCKEMask =
    (let instr = instr\<lparr>header := InstrHeader LOAD_TYPE SHL_CODE\<rparr>;
         instr = put CcuV2_CcuInstrOperator ''shiftType'' (1 :: u16) instr;
         instr = Operator instr result operand1 operand2 setCKEId setCKEMask
     in instr)"

definition SRA ::
  "CcuInstr \<Rightarrow> u16 \<Rightarrow> u16 \<Rightarrow> u16 \<Rightarrow> u16 \<Rightarrow> u16 \<Rightarrow> CcuInstr" where
  "SRA instr result operand1 operand2 setCKEId setCKEMask =
    (let instr = instr\<lparr>header := InstrHeader LOAD_TYPE SHR_CODE\<rparr>;
         instr = put CcuV2_CcuInstrOperator ''shiftType'' (1 :: u16) instr;
         instr = Operator instr result operand1 operand2 setCKEId setCKEMask
     in instr)"

definition LoadFromMem ::
  "CcuInstr \<Rightarrow> u16 \<Rightarrow> u16 \<Rightarrow> u16 \<Rightarrow> u16 \<Rightarrow> CacheConfig \<Rightarrow> u16 \<Rightarrow> u16 \<Rightarrow> CcuInstr" where
  "LoadFromMem instr dst src srcToken len cacheConfig setCKEId setCKEMask =
    (let instr = instr\<lparr>header := InstrHeader LOAD_TYPE LOAD_CODE\<rparr>;
         instr = put CcuV2_CcuInstrLoad ''xdId'' dst instr;
         instr = put CcuV2_CcuInstrLoad ''xsId'' src instr;
         instr = put CcuV2_CcuInstrLoad ''xstId'' srcToken instr;
         instr = put CcuV2_CcuInstrLoad ''xlId'' len instr;
         instr = put CcuV2_CcuInstrLoad ''allocHint'' (allocHint cacheConfig AND 0x3) instr;
         instr = put CcuV2_CcuInstrLoad ''victimHint'' (victimHint cacheConfig AND 0x3) instr;
         instr = put CcuV2_CcuInstrLoad ''setCKEId'' setCKEId instr;
         instr = put CcuV2_CcuInstrLoad ''setCKEMask'' setCKEMask instr
     in instr)"

definition LoadXFromMem ::
  "CcuInstr option \<Rightarrow> u16 \<Rightarrow> u16 \<Rightarrow> u16 \<Rightarrow> u16 \<Rightarrow> CacheConfig \<Rightarrow> u16 \<Rightarrow> u16 \<Rightarrow>
    CcuInstr option" where
  "LoadXFromMem instr dst src srcToken len cacheConfig setCKEId setCKEMask =
    (case instr of
       None \<Rightarrow> None
     | Some instr \<Rightarrow>
         Some (let instr = LoadFromMem instr dst src srcToken len cacheConfig setCKEId setCKEMask;
                   instr = put CcuV2_CcuInstrLoad ''dstType'' (0x0 :: u16) instr
               in instr))"

definition StoreXToMem ::
  "CcuInstr \<Rightarrow> u16 \<Rightarrow> u16 \<Rightarrow> u16 \<Rightarrow> u16 \<Rightarrow> CacheConfig \<Rightarrow> u16 \<Rightarrow> u16 \<Rightarrow> CcuInstr" where
  "StoreXToMem instr dst dstToken src len cacheConfig setCKEId setCKEMask =
    (let instr = instr\<lparr>header := InstrHeader LOAD_TYPE STORE_CODE\<rparr>;
         instr = put CcuV2_CcuInstrStore ''xdId'' dst instr;
         instr = put CcuV2_CcuInstrStore ''xdtId'' dstToken instr;
         instr = put CcuV2_CcuInstrStore ''xsId'' src instr;
         instr = put CcuV2_CcuInstrStore ''xlId'' len instr;
         instr = put CcuV2_CcuInstrStore ''xhId'' (0x0 :: u16) instr;
         instr = put CcuV2_CcuInstrStore ''srcType'' (0x0 :: u16) instr;
         instr = put CcuV2_CcuInstrStore ''storeType'' (0 :: u16) instr;
         instr = put CcuV2_CcuInstrStore ''hscbBroadCastDstType'' (0x0 :: u16) instr;
         instr = put CcuV2_CcuInstrStore ''allocHint'' (allocHint cacheConfig AND 0x3) instr;
         instr = put CcuV2_CcuInstrStore ''victimHint'' (victimHint cacheConfig AND 0x3) instr;
         instr = put CcuV2_CcuInstrStore ''setCKEId'' setCKEId instr;
         instr = put CcuV2_CcuInstrStore ''setCKEMask'' setCKEMask instr
     in instr)"

definition HSCBStoreXToMem ::
  "CcuInstr \<Rightarrow> u16 \<Rightarrow> u16 \<Rightarrow> u16 \<Rightarrow> CacheConfig \<Rightarrow> u16 \<Rightarrow> u16 \<Rightarrow> CcuInstr" where
  "HSCBStoreXToMem instr dst src len cacheConfig setCKEId setCKEMask =
    (let instr = instr\<lparr>header := InstrHeader LOAD_TYPE STORE_CODE\<rparr>;
         instr = put CcuV2_CcuInstrStore ''xdId'' dst instr;
         instr = put CcuV2_CcuInstrStore ''xdtId'' (0x0 :: u16) instr;
         instr = put CcuV2_CcuInstrStore ''xsId'' src instr;
         instr = put CcuV2_CcuInstrStore ''xlId'' len instr;
         instr = put CcuV2_CcuInstrStore ''xhId'' (0x0 :: u16) instr;
         instr = put CcuV2_CcuInstrStore ''srcType'' (0x0 :: u16) instr;
         instr = put CcuV2_CcuInstrStore ''storeType'' (1 :: u16) instr;
         instr = put CcuV2_CcuInstrStore ''hscbType'' (0 :: u16) instr;
         instr = put CcuV2_CcuInstrStore ''hscbBroadCastDstType'' (0x0 :: u16) instr;
         instr = put CcuV2_CcuInstrStore ''allocHint'' (allocHint cacheConfig AND 0x3) instr;
         instr = put CcuV2_CcuInstrStore ''victimHint'' (victimHint cacheConfig AND 0x3) instr;
         instr = put CcuV2_CcuInstrStore ''setCKEId'' setCKEId instr;
         instr = put CcuV2_CcuInstrStore ''setCKEMask'' setCKEMask instr
     in instr)"

definition LoadX ::
  "CcuInstr \<Rightarrow> u16 \<Rightarrow> u16 \<Rightarrow> u16 \<Rightarrow> u16 \<Rightarrow> u16 \<Rightarrow> u16 \<Rightarrow> u16 \<Rightarrow> CcuInstr" where
  "LoadX instr dst src srcOffset dstOffset oMode setCKEId setCKEMask =
    (let instr = instr\<lparr>header := InstrHeader LOAD_TYPE LOADX_CODE\<rparr>;
         instr = put CcuV2_CcuInstrLoadStoreX ''xdId'' dst instr;
         instr = put CcuV2_CcuInstrLoadStoreX ''xsId'' srcOffset instr;
         instr = put CcuV2_CcuInstrLoadStoreX ''xso'' src instr;
         instr = put CcuV2_CcuInstrLoadStoreX ''xdo'' dstOffset instr;
         instr = put CcuV2_CcuInstrLoadStoreX ''oMode'' (oMode AND 0x1) instr;
         instr = put CcuV2_CcuInstrLoadStoreX ''setCKEId'' setCKEId instr;
         instr = put CcuV2_CcuInstrLoadStoreX ''setCKEMask'' setCKEMask instr
     in instr)"

definition StoreX ::
  "CcuInstr \<Rightarrow> u16 \<Rightarrow> u16 \<Rightarrow> u16 \<Rightarrow> u16 \<Rightarrow> u16 \<Rightarrow> u16 \<Rightarrow> u16 \<Rightarrow> CcuInstr" where
  "StoreX instr dst src srcOffset dstOffset oMode setCKEId setCKEMask =
    (let instr = instr\<lparr>header := InstrHeader LOAD_TYPE STOREX_CODE\<rparr>;
         instr = put CcuV2_CcuInstrLoadStoreX ''xdId'' dstOffset instr;
         instr = put CcuV2_CcuInstrLoadStoreX ''xsId'' src instr;
         instr = put CcuV2_CcuInstrLoadStoreX ''xso'' srcOffset instr;
         instr = put CcuV2_CcuInstrLoadStoreX ''xdo'' dst instr;
         instr = put CcuV2_CcuInstrLoadStoreX ''oMode'' (oMode AND 0x1) instr;
         instr = put CcuV2_CcuInstrLoadStoreX ''setCKEId'' setCKEId instr;
         instr = put CcuV2_CcuInstrLoadStoreX ''setCKEMask'' setCKEMask instr
     in instr)"

definition Loop ::
  "CcuInstr \<Rightarrow> u16 \<Rightarrow> u16 \<Rightarrow> u16 \<Rightarrow> u16 \<Rightarrow> u16 \<Rightarrow> CcuInstr" where
  "Loop instr startInstrId endInstrId iterNum offset contextId =
    (let instr = instr\<lparr>header := InstrHeader CTRL_TYPE LOOP_CODE\<rparr>;
         instr = put CcuV2_CcuInstrLoop ''startInstrId'' startInstrId instr;
         instr = put CcuV2_CcuInstrLoop ''endInstrId'' endInstrId instr;
         instr = put CcuV2_CcuInstrLoop ''xmId'' iterNum instr;
         instr = put CcuV2_CcuInstrLoop ''xnId'' offset instr;
         instr = put CcuV2_CcuInstrLoop ''xpId'' contextId instr;
         instr = put CcuV2_CcuInstrLoop ''mode'' (0 :: u16) instr;
         instr = put CcuV2_CcuInstrLoop ''wishCKEBit'' (0 :: u16) instr
     in instr)"

definition LoopGroup ::
  "CcuInstr \<Rightarrow> u16 \<Rightarrow> u16 \<Rightarrow> u16 \<Rightarrow> u16 \<Rightarrow> CcuInstr" where
  "LoopGroup instr startLoopInstrId loopGroupConfig resOffset xnOffset =
    (let instr = instr\<lparr>header := InstrHeader CTRL_TYPE LOOPGROUP_CODE\<rparr>;
         instr = put CcuV2_CcuInstrLoopGroup ''startLoopInstrId'' startLoopInstrId instr;
         instr = put CcuV2_CcuInstrLoopGroup ''xnId'' loopGroupConfig instr;
         instr = put CcuV2_CcuInstrLoopGroup ''xmId'' resOffset instr;
         instr = put CcuV2_CcuInstrLoopGroup ''xpId'' xnOffset instr
     in instr)"

definition SetCKE ::
  "CcuInstr \<Rightarrow> u16 \<Rightarrow> u16 \<Rightarrow> u16 \<Rightarrow> u16 \<Rightarrow> u16 \<Rightarrow> CcuInstr" where
  "SetCKE instr setCKEId setCKEMask waitCKEId waitCKEMask clearType =
    (let instr = instr\<lparr>header := InstrHeader CTRL_TYPE SETCKBIT_CODE\<rparr>;
         instr = put CcuV2_CcuInstrSetCKE ''clearType'' (clearType AND 0x1) instr;
         instr = put CcuV2_CcuInstrSetCKE ''setCKEId'' setCKEId instr;
         instr = put CcuV2_CcuInstrSetCKE ''setCKEMask'' setCKEMask instr;
         instr = put CcuV2_CcuInstrSetCKE ''waitCKEId'' waitCKEId instr;
         instr = put CcuV2_CcuInstrSetCKE ''waitCKEMask'' waitCKEMask instr;
         instr = put CcuV2_CcuInstrSetCKE ''userData'' (0 :: u64) instr
     in instr)"

definition ClearCKE ::
  "CcuInstr \<Rightarrow> u16 \<Rightarrow> u16 \<Rightarrow> u16 \<Rightarrow> u16 \<Rightarrow> u16 \<Rightarrow> CcuInstr" where
  "ClearCKE instr clearCKEId clearMask waitCKEId waitCKEMask clearType =
    (let instr = instr\<lparr>header := InstrHeader CTRL_TYPE CLEARCKBIT_CODE\<rparr>;
         instr = put CcuV2_CcuInstrClearCKE ''clearType'' (clearType AND 0x1) instr;
         instr = put CcuV2_CcuInstrClearCKE ''clearCKEId'' clearCKEId instr;
         instr = put CcuV2_CcuInstrClearCKE ''clearMask'' clearMask instr;
         instr = put CcuV2_CcuInstrClearCKE ''waitCKEId'' waitCKEId instr;
         instr = put CcuV2_CcuInstrClearCKE ''waitCKEMask'' waitCKEMask instr
     in instr)"

definition Jump ::
  "CcuInstr \<Rightarrow> u16 \<Rightarrow> u16 \<Rightarrow> u16 \<Rightarrow> u16 \<Rightarrow> CcuInstr" where
  "Jump instr relTarInstrXnId conditionXnId expectedXnId conditionType =
    (let instr = instr\<lparr>header := InstrHeader CTRL_TYPE JMP_CODE\<rparr>;
         instr = put CcuV2_CcuInstrJmp ''expectedXnId'' expectedXnId instr;
         instr = put CcuV2_CcuInstrJmp ''conditionXnId'' conditionXnId instr;
         instr = put CcuV2_CcuInstrJmp ''relTarInstrXnId'' relTarInstrXnId instr;
         instr = put CcuV2_CcuInstrJmp ''conditionType'' (conditionType AND 0xF) instr
     in instr)"

definition Wait ::
  "CcuInstr \<Rightarrow> u16 \<Rightarrow> u16 \<Rightarrow> u16 \<Rightarrow> CcuInstr" where
  "Wait instr conditionXnId expectedXnId conditionType =
    (let instr = instr\<lparr>header := InstrHeader CTRL_TYPE WAIT_CODE\<rparr>;
         instr = put CcuV2_CcuInstrWait ''expectedXnId'' expectedXnId instr;
         instr = put CcuV2_CcuInstrWait ''conditionXnId'' conditionXnId instr;
         instr = put CcuV2_CcuInstrWait ''conditionType'' (conditionType AND 0xF) instr
     in instr)"

definition Fence ::
  "CcuInstr \<Rightarrow> CcuInstr" where
  "Fence instr =
    instr\<lparr>header := InstrHeader CTRL_TYPE FENCE_CODE\<rparr>"

definition TransLocMemToLocMS ::
  "CcuInstr \<Rightarrow> u16 \<Rightarrow> u16 \<Rightarrow> u16 \<Rightarrow> u16 \<Rightarrow> u16 \<Rightarrow> u16 \<Rightarrow> u16 \<Rightarrow> CacheConfig \<Rightarrow> CcuInstr" where
  "TransLocMemToLocMS instr ms src srcToken len offset setCKEId setCKEMask cacheConfig =
    (let instr = instr\<lparr>header := InstrHeader TRANS_TYPE TRANSLOCMEMTOLOCMS_CODE\<rparr>;
         instr = put CcuV2_CcuInstrTransLocMemToLocMS ''msId'' ms instr;
         instr = put CcuV2_CcuInstrTransLocMemToLocMS ''xsId'' src instr;
         instr = put CcuV2_CcuInstrTransLocMemToLocMS ''xstId'' srcToken instr;
         instr = put CcuV2_CcuInstrTransLocMemToLocMS ''xlId'' len instr;
         instr = put CcuV2_CcuInstrTransLocMemToLocMS ''xoId'' offset instr;
         instr = put CcuV2_CcuInstrTransLocMemToLocMS ''allocHint'' (allocHint cacheConfig AND 0x3) instr;
         instr = put CcuV2_CcuInstrTransLocMemToLocMS ''victimHint'' (victimHint cacheConfig AND 0x3) instr;
         instr = put CcuV2_CcuInstrTransLocMemToLocMS ''setCKEId'' setCKEId instr;
         instr = put CcuV2_CcuInstrTransLocMemToLocMS ''setCKEMask'' setCKEMask instr
     in instr)"

definition TransLocMSToLocMem ::
  "CcuInstr \<Rightarrow> u16 \<Rightarrow> u16 \<Rightarrow> u16 \<Rightarrow> u16 \<Rightarrow> u16 \<Rightarrow> u16 \<Rightarrow> u16 \<Rightarrow> CacheConfig \<Rightarrow> CcuInstr" where
  "TransLocMSToLocMem instr dst dstToken ms len offset setCKEId setCKEMask cacheConfig =
    (let instr = instr\<lparr>header := InstrHeader TRANS_TYPE TRANSLOCMSTOLOCMEM_CODE\<rparr>;
         instr = put CcuV2_CcuInstrTransLocMSToLocMem ''xdId'' dst instr;
         instr = put CcuV2_CcuInstrTransLocMSToLocMem ''xdtId'' dstToken instr;
         instr = put CcuV2_CcuInstrTransLocMSToLocMem ''msId'' ms instr;
         instr = put CcuV2_CcuInstrTransLocMSToLocMem ''xlId'' len instr;
         instr = put CcuV2_CcuInstrTransLocMSToLocMem ''xoId'' offset instr;
         instr = put CcuV2_CcuInstrTransLocMSToLocMem ''allocHint'' (allocHint cacheConfig AND 0x3) instr;
         instr = put CcuV2_CcuInstrTransLocMSToLocMem ''victimHint'' (victimHint cacheConfig AND 0x3) instr;
         instr = put CcuV2_CcuInstrTransLocMSToLocMem ''setCKEId'' setCKEId instr;
         instr = put CcuV2_CcuInstrTransLocMSToLocMem ''setCKEMask'' setCKEMask instr
     in instr)"

definition TransLocMemToLocMem ::
  "CcuInstr \<Rightarrow> u16 \<Rightarrow> u16 \<Rightarrow> u16 \<Rightarrow> u16 \<Rightarrow> u16 \<Rightarrow> u16 \<Rightarrow> u16 \<Rightarrow> u16 \<Rightarrow> u16 \<Rightarrow> CacheConfig \<Rightarrow>
    CacheConfig \<Rightarrow> CcuInstr" where
  "TransLocMemToLocMem instr dst dstToken src srcToken len usedMSId usedMSNum setCKEId
    setCKEMask srcCacheConfig dstcacheConfig =
    (let instr = instr\<lparr>header := InstrHeader TRANS_TYPE TRANSLOCMEMTOLOCMEM_CODE\<rparr>;
         instr = put CcuV2_CcuInstrTransLocMemToLocMem ''xdId'' dst instr;
         instr = put CcuV2_CcuInstrTransLocMemToLocMem ''xdtId'' dstToken instr;
         instr = put CcuV2_CcuInstrTransLocMemToLocMem ''xsId'' src instr;
         instr = put CcuV2_CcuInstrTransLocMemToLocMem ''xstId'' srcToken instr;
         instr = put CcuV2_CcuInstrTransLocMemToLocMem ''xlId'' len instr;
         instr = put CcuV2_CcuInstrTransLocMemToLocMem ''usedMSId'' usedMSId instr;
         instr = put CcuV2_CcuInstrTransLocMemToLocMem ''msNum'' usedMSNum instr;
         instr = put CcuV2_CcuInstrTransLocMemToLocMem ''srcAllocHint'' (allocHint srcCacheConfig AND 0x3) instr;
         instr = put CcuV2_CcuInstrTransLocMemToLocMem ''srcVictimHint'' (victimHint srcCacheConfig AND 0x3) instr;
         instr = put CcuV2_CcuInstrTransLocMemToLocMem ''dstAllocHint'' (allocHint dstcacheConfig AND 0x3) instr;
         instr = put CcuV2_CcuInstrTransLocMemToLocMem ''dstVictimHint'' (victimHint dstcacheConfig AND 0x3) instr;
         instr = put CcuV2_CcuInstrTransLocMemToLocMem ''setCKEId'' setCKEId instr;
         instr = put CcuV2_CcuInstrTransLocMemToLocMem ''setCKEMask'' setCKEMask instr
     in instr)"

definition TransMem ::
  "CcuInstr \<Rightarrow> u16 \<Rightarrow> u16 \<Rightarrow> u16 \<Rightarrow> u16 \<Rightarrow> u16 \<Rightarrow> u16 \<Rightarrow> TransMemNotifyInfo \<Rightarrow>
    TransMemReduceInfo \<Rightarrow> TransMemConfig \<Rightarrow> u16 \<Rightarrow> u16 \<Rightarrow> CcuInstr" where
  "TransMem instr dst dstToken src srcToken len channel notify reduce config setCKEId setCKEMask
    =
    (let instr = instr\<lparr>header := InstrHeader TRANS_TYPE TRANSMEM_CODE\<rparr>;
         instr = put CcuV2_CcuInstrTransMem ''xdId'' dst instr;
         instr = put CcuV2_CcuInstrTransMem ''xdtId'' dstToken instr;
         instr = put CcuV2_CcuInstrTransMem ''xsId'' src instr;
         instr = put CcuV2_CcuInstrTransMem ''xstId'' srcToken instr;
         instr = put CcuV2_CcuInstrTransMem ''xlId'' len instr;
         instr = put CcuV2_CcuInstrTransMem ''xcId'' channel instr;
         instr = put CcuV2_CcuInstrTransMem ''xnId'' (notify_xnId notify) instr;
         instr = put CcuV2_CcuInstrTransMem ''xntId'' (notify_xntId notify) instr;
         instr = put CcuV2_CcuInstrTransMem ''value'' (notify_value notify) instr;
         instr = put CcuV2_CcuInstrTransMem ''udfType'' (reduce_udfType reduce AND 0xFF) instr;
         instr = put CcuV2_CcuInstrTransMem ''reduceDataType'' (reduce_reduceDataType reduce AND 0xF) instr;
         instr = put CcuV2_CcuInstrTransMem ''reduceOpCode'' (reduce_reduceOpCode reduce AND 0xF) instr;
         instr = put CcuV2_CcuInstrTransMem ''dmaOpCode'' (cfg_dmaOpCode config AND 0xFF) instr;
         instr = put CcuV2_CcuInstrTransMem ''order'' (cfg_order config AND 0x7) instr;
         instr = put CcuV2_CcuInstrTransMem ''fence'' (cfg_fence config AND 0x1) instr;
         instr = put CcuV2_CcuInstrTransMem ''cqe'' (cfg_cqe config AND 0x1) instr;
         instr = put CcuV2_CcuInstrTransMem ''nf'' (cfg_nf config AND 0x1) instr;
         instr = put CcuV2_CcuInstrTransMem ''udfEnable'' (cfg_udfEnable config AND 0x1) instr;
         instr = put CcuV2_CcuInstrTransMem ''splitMode'' (cfg_splitMode config AND 0x1) instr;
         instr = put CcuV2_CcuInstrTransMem ''se'' (cfg_se config AND 0x1) instr;
         instr = put CcuV2_CcuInstrTransMem ''rmtJettyType'' (cfg_rmtJettyType config AND 0x3) instr;
         instr = put CcuV2_CcuInstrTransMem ''src_mode'' (cfg_src_mode config AND 0x1) instr;
         instr = put CcuV2_CcuInstrTransMem ''dst_mode'' (cfg_dst_mode config AND 0x1) instr;
         instr = put CcuV2_CcuInstrTransMem ''msIdMode'' (cfg_msIdMode config AND 0x1) instr;
         instr = put CcuV2_CcuInstrTransMem ''targetHint'' (0x0 :: u16) instr;
         instr = put CcuV2_CcuInstrTransMem ''setCKEId'' setCKEId instr;
         instr = put CcuV2_CcuInstrTransMem ''setCKEMask'' setCKEMask instr
     in instr)"

definition SyncWtX_base ::
  "CcuInstr \<Rightarrow> u16 \<Rightarrow> u16 \<Rightarrow> u16 \<Rightarrow> u16 \<Rightarrow> u16 \<Rightarrow> u16 \<Rightarrow> CcuInstr" where
  "SyncWtX_base instr dst dstToken xn channelId setCKEId setCKEMask =
    (let instr = instr\<lparr>header := InstrHeader TRANS_TYPE SYNCWTX_CODE\<rparr>;
         instr = put CcuV2_CcuInstrSyncWtX ''xdId'' dst instr;
         instr = put CcuV2_CcuInstrSyncWtX ''xdtId'' dstToken instr;
         instr = put CcuV2_CcuInstrSyncWtX ''xsId'' xn instr;
         instr = put CcuV2_CcuInstrSyncWtX ''xcId'' channelId instr;
         instr = put CcuV2_CcuInstrSyncWtX ''setCKEId'' setCKEId instr;
         instr = put CcuV2_CcuInstrSyncWtX ''setCKEMask'' setCKEMask instr
     in instr)"

definition SyncWtX_notify ::
  "CcuInstr \<Rightarrow> u16 \<Rightarrow> u16 \<Rightarrow> u16 \<Rightarrow> u16 \<Rightarrow> TransMemNotifyInfo \<Rightarrow> u16 \<Rightarrow> u16 \<Rightarrow> CcuInstr" where
  "SyncWtX_notify instr dst dstToken xn channelId notify setCKEId setCKEMask =
    (let instr = SyncWtX_base instr dst dstToken xn channelId setCKEId setCKEMask;
         instr = put CcuV2_CcuInstrSyncWtX ''xnId'' (notify_xnId notify) instr;
         instr = put CcuV2_CcuInstrSyncWtX ''xntId'' (notify_xntId notify) instr;
         instr = put CcuV2_CcuInstrSyncWtX ''value'' (notify_value notify) instr;
         instr = put CcuV2_CcuInstrSyncWtX ''notifyValid'' (1 :: u16) instr;
         instr = put CcuV2_CcuInstrSyncWtX ''parMode'' (1 :: u16) instr
     in instr)"

definition SyncWtX_cke ::
  "CcuInstr \<Rightarrow> TransMemNotifyInfo \<Rightarrow> u16 \<Rightarrow> u16 \<Rightarrow> u16 \<Rightarrow> CcuInstr" where
  "SyncWtX_cke instr notify channelId setCKEId setCKEMask =
    (let instr = SyncWtX_base instr (notify_xnId notify) (notify_xntId notify) (ucast (notify_value notify)) channelId setCKEId setCKEMask;
         instr = put CcuV2_CcuInstrSyncWtX ''notifyValid'' (0 :: u16) instr;
         instr = put CcuV2_CcuInstrSyncWtX ''parMode'' (0 :: u16) instr
     in instr)"

definition SyncAtX ::
  "CcuInstr \<Rightarrow> u16 \<Rightarrow> u16 \<Rightarrow> u16 \<Rightarrow> u16 \<Rightarrow> u16 \<Rightarrow> u16 \<Rightarrow> CcuInstr" where
  "SyncAtX instr dstAddr dstToken srcId channelId setCKEId setCKEMask =
    (let instr = instr\<lparr>header := InstrHeader TRANS_TYPE SYNCATX_CODE\<rparr>;
         instr = put CcuV2_CcuInstrSyncAtX ''xdId'' dstAddr instr;
         instr = put CcuV2_CcuInstrSyncAtX ''xdtId'' dstToken instr;
         instr = put CcuV2_CcuInstrSyncAtX ''xsId'' srcId instr;
         instr = put CcuV2_CcuInstrSyncAtX ''xcId'' channelId instr;
         instr = put CcuV2_CcuInstrSyncAtX ''parMode'' (1 :: u16) instr;
         instr = put CcuV2_CcuInstrSyncAtX ''setCKEId'' setCKEId instr;
         instr = put CcuV2_CcuInstrSyncAtX ''setCKEMask'' setCKEMask instr
     in instr)"

definition Reduce ::
  "CcuInstr \<Rightarrow> u16 list \<Rightarrow> u16 \<Rightarrow> u16 \<Rightarrow> u16 \<Rightarrow> u16 \<Rightarrow> u16 \<Rightarrow> u16 \<Rightarrow> CcuInstr" where
  "Reduce instr ms count castEn dataType setCKEId setCKEMask xnIdLength =
    (if count < CCU_REDUCE_MIN_MS then instr
     else
      (let count = count - 2;
           instr = fold (\<lambda>index instr. put CcuV2_CcuInstrReduce (msId index) (ms ! index) instr)
                     [0..<unat CCU_REDUCE_MAX_MS] instr;
           instr = put CcuV2_CcuInstrReduce ''XnIdLength'' xnIdLength instr;
           instr = put CcuV2_CcuInstrReduce ''count'' (count AND 0x7) instr;
           instr = put CcuV2_CcuInstrReduce ''castEn'' (castEn AND 0x3) instr;
           instr = put CcuV2_CcuInstrReduce ''dataType'' (dataType AND 0x1f) instr;
           instr = put CcuV2_CcuInstrReduce ''setCKEId'' setCKEId instr;
           instr = put CcuV2_CcuInstrReduce ''setCKEMask'' setCKEMask instr
       in instr))"

definition ReduceAdd ::
  "CcuInstr option \<Rightarrow> u16 list \<Rightarrow> u16 \<Rightarrow> u16 \<Rightarrow> u16 \<Rightarrow> u16 \<Rightarrow> u16 \<Rightarrow> u16 \<Rightarrow> CcuInstr option" where
  "ReduceAdd instr ms count castEn dataType setCKEId setCKEMask xnIdLength =
    (case instr of
       None \<Rightarrow> None
     | Some instr \<Rightarrow>
         Some (let instr = instr\<lparr>header := InstrHeader REDUCE_TYPE REDUCE_ADD_CODE\<rparr>
               in Reduce instr ms count castEn dataType setCKEId setCKEMask xnIdLength))"

definition ReduceMax ::
  "CcuInstr option \<Rightarrow> u16 list \<Rightarrow> u16 \<Rightarrow> u16 \<Rightarrow> u16 \<Rightarrow> u16 \<Rightarrow> u16 \<Rightarrow> CcuInstr option" where
  "ReduceMax instr ms count dataType setCKEId setCKEMask xnIdLength =
    (case instr of
       None \<Rightarrow> None
     | Some instr \<Rightarrow>
         Some (let instr = instr\<lparr>header := InstrHeader REDUCE_TYPE REDUCE_MAX_CODE\<rparr>
               in Reduce instr ms count 0 dataType setCKEId setCKEMask xnIdLength))"

definition ReduceMin ::
  "CcuInstr option \<Rightarrow> u16 list \<Rightarrow> u16 \<Rightarrow> u16 \<Rightarrow> u16 \<Rightarrow> u16 \<Rightarrow> u16 \<Rightarrow> CcuInstr option" where
  "ReduceMin instr ms count dataType setCKEId setCKEMask xnIdLength =
    (case instr of
       None \<Rightarrow> None
     | Some instr \<Rightarrow>
         Some (let instr = instr\<lparr>header := InstrHeader REDUCE_TYPE REDUCE_MIN_CODE\<rparr>
               in Reduce instr ms count 0 dataType setCKEId setCKEMask xnIdLength))"

text \<open>
  \<open>RelJmp\<close> fills nine consecutive slots. The subtraction \<open>0x10000 - jmpInstrId\<close> is on 32-bit integers
  and is then widened to the 64-bit immediate.
\<close>

definition RelJmp :: "CcuInstr list \<Rightarrow> u16 \<Rightarrow> u32 \<Rightarrow> u16 \<Rightarrow> u16 \<Rightarrow> CcuInstr list" where
  "RelJmp slots targetXnId jmpInstrId xn0 xn1 =
    [LoadImdToXn (slots ! 0) xn0 (ucast jmpInstrId) 0 0 0,
     LoadImdToXn (slots ! 1) xn1 (ucast JMP_TARGET_PC_IF_BRANCH) 0 0 0,
     Jump (slots ! 2) xn1 targetXnId xn0 JMP_COND_TYPE_IF,
     LoadImdToXn (slots ! 3) xn0 (ucast (0x10000 - jmpInstrId)) 0 0 0,
     Add (slots ! 4) targetXnId targetXnId xn0 0 0,
     LoadImdToXn (slots ! 5) xn1 (ucast JMP_TARGET_PC_NOP_BRANCH) 0 0 0,
     Jump (slots ! 6) xn1 0 0 JMP_COND_TYPE_UNCOND,
     Sub (slots ! 7) targetXnId targetXnId xn0 0 0,
     Nop (slots ! 8)]"

subsection \<open>What the encoders store\<close>

lemmas v2_encoder_defs =
  LoadSqeArgsToX_def
  LoadImdToXn_def
  ClearX_def
  Nop_def
  Operator_def
  AssignI_def
  Add_def
  AddI_def
  Assign_def
  Sub_def
  SubI_def
  Mul_def
  MulI_def
  And_def
  Or_def
  Xor_def
  Not_instr_def
  SLL_def
  SRL_def
  SLA_def
  SRA_def
  LoadFromMem_def
  LoadXFromMem_def
  StoreXToMem_def
  HSCBStoreXToMem_def
  LoadX_def
  StoreX_def
  Loop_def
  LoopGroup_def
  SetCKE_def
  ClearCKE_def
  Jump_def
  Wait_def
  Fence_def
  TransLocMemToLocMS_def
  TransLocMSToLocMem_def
  TransLocMemToLocMem_def
  TransMem_def
  SyncWtX_base_def
  SyncWtX_notify_def
  SyncWtX_cke_def
  SyncAtX_def
  Reduce_def
  ReduceAdd_def
  ReduceMax_def
  ReduceMin_def

text \<open>The class and code that each encoder leaves in the header.\<close>

definition has_opcode :: "u16 \<Rightarrow> u16 \<Rightarrow> CcuInstr \<Rightarrow> bool" where
  "has_opcode t c i \<longleftrightarrow> hdr_type (header i) = t \<and> hdr_code (header i) = c"

lemma has_opcode_put [simp]: "has_opcode t c (put L f v i) = has_opcode t c i"
  by (simp add: has_opcode_def)

lemma has_opcode_InstrHeader [simp]:
  "has_opcode t c (i\<lparr>header := InstrHeader t' c'\<rparr>) \<longleftrightarrow> take_bit 4 t' = t \<and> take_bit 11 c' = c"
  by (simp add: has_opcode_def)

lemma has_opcode_Operator [simp]: "has_opcode t c (Operator i a b m s k) = has_opcode t c i"
  by (simp add: Operator_def)

lemma opcode_TransMem [simp]:
  "has_opcode TRANS_TYPE TRANSMEM_CODE (TransMem i d dt s st l ch n r c k m)"
  by (simp add: TransMem_def)

lemma get_LoadImdToXn [simp]:
  "get CcuV2_CcuInstrLoadImdToX ''xnId'' (LoadImdToXn i xn imm sec cke msk) = xn"
  "get CcuV2_CcuInstrLoadImdToX ''immediate'' (LoadImdToXn i xn imm sec cke msk) = imm"
  "get CcuV2_CcuInstrLoadImdToX ''secFlag'' (LoadImdToXn i xn imm sec cke msk) = sec"
  by (simp_all add: LoadImdToXn_def)
end
