(* ===== verification/Extract_Operands.thy ===== *)
theory Extract_Operands
  imports Microcode_V2
begin

text \<open>
  The register operands of an instruction of the second generation
  (\<^verbatim>\<open>ccu_microcode_opt/extract_operands.cc\<close>): which XN, MS and CKE registers an instruction reads and
  which it writes. The functions append to the list \<open>out\<close> as the code pushes to its vector; the
  ones that return whether they recognised the code return the flag with the new list.

  The lemmas say that register CKE 0 is never reported, that only a CKE wait with automatic clear
  reports a CKE write, and that for the encoders of \<^verbatim>\<open>Microcode_V2\<close> the reported operands are the
  registers the encoder was given.
\<close>

subsection \<open>Operands\<close>

datatype RegType = XN | MS | CKE

record RegOperand =
  op_type :: RegType
  op_regId :: u16
  op_isDef :: bool

definition CCU_REDUCE_COUNT_MASK :: u16 where [simp]: "CCU_REDUCE_COUNT_MASK = 0x7"
definition CCU_REDUCE_COUNT_BIAS :: u16 where [simp]: "CCU_REDUCE_COUNT_BIAS = 2"
definition PARMODE_REGISTER_PAIR :: u16 where [simp]: "PARMODE_REGISTER_PAIR = 1"
definition CLEARTYPE_AUTO :: u16 where [simp]: "CLEARTYPE_AUTO = 1"

definition AddRead :: "RegOperand list \<Rightarrow> RegType \<Rightarrow> u16 \<Rightarrow> RegOperand list" where
  "AddRead out type regId =
    (if regId = 0 \<and> type = CKE then out
     else out @ [\<lparr>op_type = type, op_regId = regId, op_isDef = False\<rparr>])"

definition AddWrite :: "RegOperand list \<Rightarrow> RegType \<Rightarrow> u16 \<Rightarrow> RegOperand list" where
  "AddWrite out type regId =
    (if regId = 0 \<and> type = CKE then out
     else out @ [\<lparr>op_type = type, op_regId = regId, op_isDef = True\<rparr>])"

subsection \<open>The load class\<close>

definition ExtractLoadMemOps :: "RegOperand list \<Rightarrow> CcuInstr \<Rightarrow> bool \<times> RegOperand list" where
  "ExtractLoadMemOps out instr =
    (let code = hdr_code (header instr) in
     if code = LOADSQEARGSTOX_CODE then
       (let out = AddWrite out XN (get CcuV2_CcuInstrLoadSqeArgsToX ''xnId'' instr) in (True, out))
     else if code = LOADIMDTOX_CODE then
       (let out = AddWrite out XN (get CcuV2_CcuInstrLoadImdToX ''xnId'' instr) in (True, out))
     else if code = LOADX_CODE then
       (let out = AddWrite out XN (get CcuV2_CcuInstrLoadStoreX ''xdId'' instr);
            out = AddRead out XN (get CcuV2_CcuInstrLoadStoreX ''xso'' instr);
            out = AddRead out XN (get CcuV2_CcuInstrLoadStoreX ''xsId'' instr)
        in (True, out))
     else if code = STOREX_CODE then
       (let out = AddWrite out XN (get CcuV2_CcuInstrLoadStoreX ''xdo'' instr);
            out = AddRead out XN (get CcuV2_CcuInstrLoadStoreX ''xsId'' instr);
            out = AddRead out XN (get CcuV2_CcuInstrLoadStoreX ''xdId'' instr)
        in (True, out))
     else if code = CLEARX_CODE then
       (let out = AddRead out XN (get CcuV2_CcuInstrClearX ''xnId'' instr);
            out = AddRead out XN (get CcuV2_CcuInstrClearX ''xmId'' instr);
            out = AddWrite out XN (get CcuV2_CcuInstrClearX ''xnId'' instr);
            out = AddWrite out XN (get CcuV2_CcuInstrClearX ''xmId'' instr)
        in (True, out))
     else if code = NOP_CODE then (True, out)
     else if code = LOAD_CODE then
       (let out = AddRead out XN (get CcuV2_CcuInstrLoad ''xsId'' instr);
            out = AddRead out XN (get CcuV2_CcuInstrLoad ''xstId'' instr);
            out = AddRead out XN (get CcuV2_CcuInstrLoad ''xlId'' instr);
            out = AddWrite out XN (get CcuV2_CcuInstrLoad ''xdId'' instr)
        in (True, out))
     else if code = STORE_CODE then
       (let out = AddRead out XN (get CcuV2_CcuInstrStore ''xdId'' instr);
            out = AddRead out XN (get CcuV2_CcuInstrStore ''xdtId'' instr);
            out = AddRead out XN (get CcuV2_CcuInstrStore ''xsId'' instr);
            out = AddRead out XN (get CcuV2_CcuInstrStore ''xlId'' instr);
            out = AddRead out XN (get CcuV2_CcuInstrStore ''xhId'' instr)
        in (True, out))
     else (False, out))"

definition ExtractLoadOperator :: "RegOperand list \<Rightarrow> CcuInstr \<Rightarrow> RegOperand list" where
  "ExtractLoadOperator out instr =
    (let code = hdr_code (header instr) in
     if code \<in> {ADD_CODE, SUB_CODE, MUL_CODE, AND_CODE, OR_CODE, XOR_CODE, SHL_CODE, SHR_CODE,
                POPCNT_CODE} then
       (let out = AddWrite out XN (get CcuV2_CcuInstrOperator ''xdId'' instr);
            out = AddRead out XN (get CcuV2_CcuInstrOperator ''xnId'' instr)
        in if get CcuV2_CcuInstrOperator ''parMode'' instr = PARMODE_REGISTER_PAIR
           then AddRead out XN (get CcuV2_CcuInstrOperator ''xmId'' instr)
           else out)
     else if code = NOT_CODE then
       (let out = AddWrite out XN (get CcuV2_CcuInstrOperator ''xdId'' instr);
            out = AddRead out XN (get CcuV2_CcuInstrOperator ''xnId'' instr)
        in out)
     else out)"

definition ExtractLoadType :: "RegOperand list \<Rightarrow> CcuInstr \<Rightarrow> RegOperand list" where
  "ExtractLoadType out instr =
    (case ExtractLoadMemOps out instr of
       (done, out) \<Rightarrow> if \<not> done then ExtractLoadOperator out instr else out)"

subsection \<open>The control class\<close>

definition ExtractCtrlType :: "RegOperand list \<Rightarrow> CcuInstr \<Rightarrow> RegOperand list" where
  "ExtractCtrlType out instr =
    (let code = hdr_code (header instr) in
     if code = LOOP_CODE then
       (let out = AddRead out XN (get CcuV2_CcuInstrLoop ''xmId'' instr);
            out = AddRead out XN (get CcuV2_CcuInstrLoop ''xnId'' instr);
            out = AddRead out XN (get CcuV2_CcuInstrLoop ''xpId'' instr)
        in out)
     else if code = LOOPGROUP_CODE then
       (let out = AddRead out XN (get CcuV2_CcuInstrLoopGroup ''xnId'' instr);
            out = AddRead out XN (get CcuV2_CcuInstrLoopGroup ''xmId'' instr);
            out = AddRead out XN (get CcuV2_CcuInstrLoopGroup ''xpId'' instr)
        in out)
     else if code = SETCKBIT_CODE then
       (let out = AddRead out CKE (get CcuV2_CcuInstrSetCKE ''waitCKEId'' instr)
        in if get CcuV2_CcuInstrSetCKE ''clearType'' instr = CLEARTYPE_AUTO
           then AddWrite out CKE (get CcuV2_CcuInstrSetCKE ''waitCKEId'' instr)
           else out)
     else if code = CLEARCKBIT_CODE then
       (let out = AddRead out CKE (get CcuV2_CcuInstrClearCKE ''waitCKEId'' instr)
        in if get CcuV2_CcuInstrClearCKE ''clearType'' instr = CLEARTYPE_AUTO
           then AddWrite out CKE (get CcuV2_CcuInstrClearCKE ''waitCKEId'' instr)
           else out)
     else if code = JMP_CODE then
       (let out = AddRead out XN (get CcuV2_CcuInstrJmp ''relTarInstrXnId'' instr);
            out = AddRead out XN (get CcuV2_CcuInstrJmp ''conditionXnId'' instr);
            out = AddRead out XN (get CcuV2_CcuInstrJmp ''expectedXnId'' instr)
        in out)
     else if code = WAIT_CODE then
       (let out = AddRead out XN (get CcuV2_CcuInstrWait ''conditionXnId'' instr);
            out = AddRead out XN (get CcuV2_CcuInstrWait ''expectedXnId'' instr)
        in out)
     else if code = FENCE_CODE then out
     else out)"

subsection \<open>The transfer class\<close>

definition ExtractTransMoveOps :: "RegOperand list \<Rightarrow> CcuInstr \<Rightarrow> bool \<times> RegOperand list" where
  "ExtractTransMoveOps out instr =
    (let code = hdr_code (header instr) in
     if code = TRANSLOCMEMTOLOCMS_CODE then
       (let out = AddRead out XN (get CcuV2_CcuInstrTransLocMemToLocMS ''xsId'' instr);
            out = AddRead out XN (get CcuV2_CcuInstrTransLocMemToLocMS ''xstId'' instr);
            out = AddRead out XN (get CcuV2_CcuInstrTransLocMemToLocMS ''xlId'' instr);
            out = AddRead out XN (get CcuV2_CcuInstrTransLocMemToLocMS ''xoId'' instr);
            out = AddWrite out MS (get CcuV2_CcuInstrTransLocMemToLocMS ''msId'' instr)
        in (True, out))
     else if code = TRANSLOCMSTOLOCMEM_CODE then
       (let out = AddRead out MS (get CcuV2_CcuInstrTransLocMSToLocMem ''msId'' instr);
            out = AddRead out XN (get CcuV2_CcuInstrTransLocMSToLocMem ''xdId'' instr);
            out = AddRead out XN (get CcuV2_CcuInstrTransLocMSToLocMem ''xdtId'' instr);
            out = AddRead out XN (get CcuV2_CcuInstrTransLocMSToLocMem ''xlId'' instr);
            out = AddRead out XN (get CcuV2_CcuInstrTransLocMSToLocMem ''xoId'' instr)
        in (True, out))
     else if code = TRANSLOCMSTOLOCMS_CODE then
       (let out = AddRead out MS (get CcuV2_CcuInstrTransLocMSToLocMS ''mssId'' instr);
            out = AddRead out XN (get CcuV2_CcuInstrTransLocMSToLocMS ''xlId'' instr);
            out = AddRead out XN (get CcuV2_CcuInstrTransLocMSToLocMS ''xoId'' instr);
            out = AddWrite out MS (get CcuV2_CcuInstrTransLocMSToLocMS ''msdId'' instr)
        in (True, out))
     else if code = TRANSLOCMEMTOLOCMEM_CODE then
       (let out = AddRead out XN (get CcuV2_CcuInstrTransLocMemToLocMem ''xdId'' instr);
            out = AddRead out XN (get CcuV2_CcuInstrTransLocMemToLocMem ''xdtId'' instr);
            out = AddRead out XN (get CcuV2_CcuInstrTransLocMemToLocMem ''xsId'' instr);
            out = AddRead out XN (get CcuV2_CcuInstrTransLocMemToLocMem ''xstId'' instr);
            out = AddRead out XN (get CcuV2_CcuInstrTransLocMemToLocMem ''xlId'' instr);
            out = AddRead out MS (get CcuV2_CcuInstrTransLocMemToLocMem ''usedMSId'' instr)
        in (True, out))
     else if code = TRANSMEM_CODE then
       (let out = AddRead out XN (get CcuV2_CcuInstrTransMem ''xdId'' instr);
            out = AddRead out XN (get CcuV2_CcuInstrTransMem ''xdtId'' instr);
            out = AddRead out XN (get CcuV2_CcuInstrTransMem ''xsId'' instr);
            out = AddRead out XN (get CcuV2_CcuInstrTransMem ''xstId'' instr);
            out = AddRead out XN (get CcuV2_CcuInstrTransMem ''xlId'' instr);
            out = AddRead out XN (get CcuV2_CcuInstrTransMem ''xcId'' instr);
            out = AddRead out XN (get CcuV2_CcuInstrTransMem ''xnId'' instr);
            out = AddRead out XN (get CcuV2_CcuInstrTransMem ''xntId'' instr)
        in (True, out))
     else (False, out))"

definition ExtractTransSyncOps :: "RegOperand list \<Rightarrow> CcuInstr \<Rightarrow> RegOperand list" where
  "ExtractTransSyncOps out instr =
    (let code = hdr_code (header instr) in
     if code = SYNCWTX_CODE then
       (let out = AddRead out XN (get CcuV2_CcuInstrSyncWtX ''xdId'' instr);
            out = AddRead out XN (get CcuV2_CcuInstrSyncWtX ''xdtId'' instr);
            out = AddRead out XN (get CcuV2_CcuInstrSyncWtX ''xsId'' instr);
            out = AddRead out XN (get CcuV2_CcuInstrSyncWtX ''xcId'' instr)
        in if get CcuV2_CcuInstrSyncWtX ''notifyValid'' instr \<noteq> (0 :: u16)
           then (let out = AddRead out XN (get CcuV2_CcuInstrSyncWtX ''xnId'' instr);
                     out = AddRead out XN (get CcuV2_CcuInstrSyncWtX ''xntId'' instr)
                 in out)
           else out)
     else if code = SYNCATX_CODE then
       (let out = AddRead out XN (get CcuV2_CcuInstrSyncAtX ''xdId'' instr);
            out = AddRead out XN (get CcuV2_CcuInstrSyncAtX ''xdtId'' instr);
            out = AddRead out XN (get CcuV2_CcuInstrSyncAtX ''xsId'' instr);
            out = AddRead out XN (get CcuV2_CcuInstrSyncAtX ''xcId'' instr)
        in out)
     else out)"

definition ExtractTransType :: "RegOperand list \<Rightarrow> CcuInstr \<Rightarrow> RegOperand list" where
  "ExtractTransType out instr =
    (case ExtractTransMoveOps out instr of
       (done, out) \<Rightarrow> if \<not> done then ExtractTransSyncOps out instr else out)"

subsection \<open>The reduce class\<close>

definition ExtractReduceType :: "RegOperand list \<Rightarrow> CcuInstr \<Rightarrow> RegOperand list" where
  "ExtractReduceType out instr =
    (let countInInstr = get CcuV2_CcuInstrReduce ''count'' instr;
         realCount = (countInInstr AND CCU_REDUCE_COUNT_MASK) + CCU_REDUCE_COUNT_BIAS;
         realCount = (if realCount > CCU_REDUCE_MAX_MS then CCU_REDUCE_MAX_MS else realCount);
         out = AddRead out MS (get CcuV2_CcuInstrReduce (msId 0) instr);
         out = AddWrite out MS (get CcuV2_CcuInstrReduce (msId 0) instr);
         out = fold (\<lambda>i out. AddRead out MS (get CcuV2_CcuInstrReduce (msId i) instr))
                 [1..<unat realCount] out;
         out = AddRead out XN (get CcuV2_CcuInstrReduce ''XnIdLength'' instr)
     in out)"

subsection \<open>Dispatch on the class\<close>

definition ExtractOperandsV2 :: "CcuInstr \<Rightarrow> RegOperand list" where
  "ExtractOperandsV2 instr =
    (let type = hdr_type (header instr) in
     if type = LOAD_TYPE then ExtractLoadType [] instr
     else if type = CTRL_TYPE then ExtractCtrlType [] instr
     else if type = TRANS_TYPE then ExtractTransType [] instr
     else if type = REDUCE_TYPE then ExtractReduceType [] instr
     else [])"

lemmas extract_class_defs =
  ExtractOperandsV2_def ExtractLoadType_def ExtractCtrlType_def ExtractTransType_def
  ExtractReduceType_def ExtractLoadMemOps_def ExtractLoadOperator_def ExtractTransMoveOps_def
  ExtractTransSyncOps_def

subsection \<open>Laws\<close>

text \<open>Abbreviations for the operands that a list holds.\<close>

abbreviation Rd :: "RegType \<Rightarrow> u16 \<Rightarrow> RegOperand" where
  "Rd t r \<equiv> \<lparr>op_type = t, op_regId = r, op_isDef = False\<rparr>"

abbreviation Wr :: "RegType \<Rightarrow> u16 \<Rightarrow> RegOperand" where
  "Wr t r \<equiv> \<lparr>op_type = t, op_regId = r, op_isDef = True\<rparr>"

lemma AddRead_simps [simp]:
  "AddRead out XN r = out @ [Rd XN r]"
  "AddRead out MS r = out @ [Rd MS r]"
  "r \<noteq> 0 \<Longrightarrow> AddRead out CKE r = out @ [Rd CKE r]"
  "AddRead out CKE 0 = out"
  by (simp_all add: AddRead_def)

lemma AddWrite_simps [simp]:
  "AddWrite out XN r = out @ [Wr XN r]"
  "AddWrite out MS r = out @ [Wr MS r]"
  "r \<noteq> 0 \<Longrightarrow> AddWrite out CKE r = out @ [Wr CKE r]"
  "AddWrite out CKE 0 = out"
  by (simp_all add: AddWrite_def)

lemma fold_snoc [simp]: "fold (\<lambda>k out. out @ [g k]) ks out = out @ map g ks"
  by (induction ks arbitrary: out) auto

lemma AddRead_CKE: "AddRead out CKE r = (if r = 0 then out else out @ [Rd CKE r])"
  "AddWrite out CKE r = (if r = 0 then out else out @ [Wr CKE r])"
  by (simp_all add: AddRead_def AddWrite_def)

lemma extract_LoadX:
  "ExtractOperandsV2 (LoadX i dst src so d om c m) = [Wr XN dst, Rd XN src, Rd XN so]"
  by (simp add: extract_class_defs LoadX_def Let_def)

text \<open>For every encoder of the load class the reported operands are the registers that the encoder
  was given: the destination as written and the sources as read; an immediate is not reported.\<close>

theorem extract_load_encoders:
  "ExtractOperandsV2 (LoadSqeArgsToX i x a c m) = [Wr XN x]
   \<and> ExtractOperandsV2 (LoadImdToXn i x imm sec c m) = [Wr XN x]
   \<and> ExtractOperandsV2 (LoadX i dst src so d om c m) = [Wr XN dst, Rd XN src, Rd XN so]
   \<and> ExtractOperandsV2 (StoreX i dst src so d om c m) = [Wr XN dst, Rd XN src, Rd XN d]
   \<and> ExtractOperandsV2 (ClearX i xn xm nm mm c m) =
       [Rd XN (take_bit 15 xn), Rd XN (take_bit 15 xm), Wr XN (take_bit 15 xn), Wr XN (take_bit 15 xm)]
   \<and> ExtractOperandsV2 (Nop i) = []
   \<and> ExtractOperandsV2 (LoadFromMem i d s st l cc c m) = [Rd XN s, Rd XN st, Rd XN l, Wr XN d]
   \<and> ExtractOperandsV2 (StoreXToMem i d dt s l cc c m) = [Rd XN d, Rd XN dt, Rd XN s, Rd XN l, Rd XN 0]
   \<and> ExtractOperandsV2 (HSCBStoreXToMem i d s l cc c m) = [Rd XN d, Rd XN 0, Rd XN s, Rd XN l, Rd XN 0]
   \<and> ExtractOperandsV2 (Add i d a b c m) = [Wr XN d, Rd XN a, Rd XN b]
   \<and> ExtractOperandsV2 (Sub i d a b c m) = [Wr XN d, Rd XN a, Rd XN b]
   \<and> ExtractOperandsV2 (Mul i d a b c m) = [Wr XN d, Rd XN a, Rd XN b]
   \<and> ExtractOperandsV2 (And i d a b c m) = [Wr XN d, Rd XN a, Rd XN b]
   \<and> ExtractOperandsV2 (Or i d a b c m) = [Wr XN d, Rd XN a, Rd XN b]
   \<and> ExtractOperandsV2 (Xor i d a b c m) = [Wr XN d, Rd XN a, Rd XN b]
   \<and> ExtractOperandsV2 (AddI i d a b c m) = [Wr XN d, Rd XN a]
   \<and> ExtractOperandsV2 (SubI i d a b c m) = [Wr XN d, Rd XN a]
   \<and> ExtractOperandsV2 (MulI i d a b c m) = [Wr XN d, Rd XN a]
   \<and> ExtractOperandsV2 (Not_instr i d a c m) = [Wr XN d, Rd XN a]
   \<and> ExtractOperandsV2 (Assign i d a c m) = [Wr XN d, Rd XN a]"
  by (simp add: extract_class_defs LoadSqeArgsToX_def LoadImdToXn_def LoadX_def StoreX_def ClearX_def Nop_def
      LoadFromMem_def StoreXToMem_def HSCBStoreXToMem_def Add_def Sub_def Mul_def And_def Or_def Xor_def
      AddI_def SubI_def MulI_def Not_instr_def Assign_def Operator_def)

text \<open>The same for the control class: a wait reads its CKE register, and writes it only when it
  clears it automatically; the CKE register that an instruction sets or clears by mask is not an
  operand.\<close>

theorem extract_ctrl_encoders:
  "ExtractOperandsV2 (Loop i s e it off ctx) = [Rd XN it, Rd XN off, Rd XN ctx]
   \<and> ExtractOperandsV2 (LoopGroup i s cfg res xo) = [Rd XN cfg, Rd XN res, Rd XN xo]
   \<and> ExtractOperandsV2 (SetCKE i sc sm w wm ct) =
       (if w = 0 then [] else if take_bit 1 ct = 1 then [Rd CKE w, Wr CKE w] else [Rd CKE w])
   \<and> ExtractOperandsV2 (ClearCKE i cc cm w wm ct) =
       (if w = 0 then [] else if take_bit 1 ct = 1 then [Rd CKE w, Wr CKE w] else [Rd CKE w])
   \<and> ExtractOperandsV2 (Jump i rel cond ex ct) = [Rd XN rel, Rd XN cond, Rd XN ex]
   \<and> ExtractOperandsV2 (Wait i cond ex ct) = [Rd XN cond, Rd XN ex]
   \<and> ExtractOperandsV2 (Fence i) = []"
  by (simp add: extract_class_defs Loop_def LoopGroup_def SetCKE_def ClearCKE_def Jump_def Wait_def
      Fence_def AddRead_CKE)

text \<open>The same for the transfer class, the notify registers of SyncWtX included exactly when the
  instruction carries a notify.\<close>

theorem extract_trans_encoders:
  "ExtractOperandsV2 (TransLocMemToLocMS i ms s st l off c m cc)
     = [Rd XN s, Rd XN st, Rd XN l, Rd XN off, Wr MS ms]
   \<and> ExtractOperandsV2 (TransLocMSToLocMem i d dt ms l off c m cc)
     = [Rd MS ms, Rd XN d, Rd XN dt, Rd XN l, Rd XN off]
   \<and> ExtractOperandsV2 (TransLocMemToLocMem i d dt s st l ums umn c m sc dc)
     = [Rd XN d, Rd XN dt, Rd XN s, Rd XN st, Rd XN l, Rd MS ums]
   \<and> ExtractOperandsV2 (TransMem i d dt s st l ch n r cfg c m)
     = [Rd XN d, Rd XN dt, Rd XN s, Rd XN st, Rd XN l, Rd XN ch, Rd XN (notify_xnId n), Rd XN (notify_xntId n)]
   \<and> ExtractOperandsV2 (SyncWtX_notify i d dt x ch n c m)
     = [Rd XN d, Rd XN dt, Rd XN x, Rd XN ch, Rd XN (notify_xnId n), Rd XN (notify_xntId n)]
   \<and> ExtractOperandsV2 (SyncWtX_cke i n ch c m)
     = [Rd XN (notify_xnId n), Rd XN (notify_xntId n), Rd XN (ucast (notify_value n)), Rd XN ch]
   \<and> ExtractOperandsV2 (SyncAtX i d dt s ch c m) = [Rd XN d, Rd XN dt, Rd XN s, Rd XN ch]"
  by (simp add: extract_class_defs TransLocMemToLocMS_def TransLocMSToLocMem_def TransLocMemToLocMem_def
      TransMem_def SyncWtX_notify_def SyncWtX_cke_def SyncWtX_base_def SyncAtX_def)

lemma Reduce_msId:
  assumes "k < 8" and "2 \<le> (cnt :: u16)"
  shows "get CcuV2_CcuInstrReduce (msId k) (Reduce j ms cnt ce dt c m xl) = ms ! k"
proof -
  have "k = 0 \<or> k = 1 \<or> k = 2 \<or> k = 3 \<or> k = 4 \<or> k = 5 \<or> k = 6 \<or> k = 7"
    using assms(1) by presburger
  then show ?thesis
    using assms(2) by (elim disjE) (simp_all add: Reduce_def Let_def upt_8 leD)
qed

lemma Reduce_others:
  assumes "2 \<le> (cnt :: u16)"
  shows "get CcuV2_CcuInstrReduce ''count'' (Reduce j ms cnt ce dt c m xl) = take_bit 3 (cnt - 2)"
    "get CcuV2_CcuInstrReduce ''XnIdLength'' (Reduce j ms cnt ce dt c m xl) = xl"
    "header (Reduce j ms cnt ce dt c m xl) = header j"
  using assms by (simp_all add: Reduce_def Let_def upt_8 leD)

lemma Reduce_operands:
  assumes j: "hdr_type (header j) = REDUCE_TYPE" and n: "2 \<le> n" "n \<le> 8"
  shows "ExtractOperandsV2 (Reduce j ms (of_nat n) ce dt c m xl) =
    Rd MS (ms ! 0) # Wr MS (ms ! 0) # map (\<lambda>k. Rd MS (ms ! k)) [1..<n] @ [Rd XN xl]"
proof -
  have two: "(2 :: u16) \<le> of_nat n"
    using n by (simp add: word_le_nat_alt unat_of_nat)
  have "n = 2 \<or> n = 3 \<or> n = 4 \<or> n = 5 \<or> n = 6 \<or> n = 7 \<or> n = 8"
    using n by presburger
  then have count: "take_bit 3 (of_nat n - 2 :: u16) + 2 = of_nat n"
    by (elim disjE) simp_all
  have le: "\<not> (8 :: u16) < of_nat n" and un: "unat (of_nat n :: u16) = n"
    using n by (simp_all add: word_less_nat_alt unat_of_nat)
  have "map (\<lambda>k. Rd MS (get CcuV2_CcuInstrReduce (msId k) (Reduce j ms (of_nat n) ce dt c m xl))) [1..<n]
      = map (\<lambda>k. Rd MS (ms ! k)) [1..<n]"
    using n two by (intro map_cong) (auto simp: Reduce_msId)
  then show ?thesis
    using j two Reduce_msId [of 0 "of_nat n"]
    by (simp add: ExtractOperandsV2_def ExtractReduceType_def Let_def Reduce_others count le un)
qed

text \<open>The reduce encoders reduce two to eight MS slots into the first: the first is reported as read
  and written, the other ones in use as read, and the length register as read. With fewer than
  two slots the encoder writes the header only, and on a null instruction it does nothing.\<close>

theorem extract_reduce_encoders:
  assumes "2 \<le> n" and "n \<le> 8"
  shows "map_option ExtractOperandsV2 (ReduceAdd (Some i) ms (of_nat n) ce dt c m xl) =
      Some (Rd MS (ms ! 0) # Wr MS (ms ! 0) # map (\<lambda>k. Rd MS (ms ! k)) [1..<n] @ [Rd XN xl])
    \<and> map_option ExtractOperandsV2 (ReduceMax (Some i) ms (of_nat n) dt c m xl) =
      Some (Rd MS (ms ! 0) # Wr MS (ms ! 0) # map (\<lambda>k. Rd MS (ms ! k)) [1..<n] @ [Rd XN xl])
    \<and> map_option ExtractOperandsV2 (ReduceMin (Some i) ms (of_nat n) dt c m xl) =
      Some (Rd MS (ms ! 0) # Wr MS (ms ! 0) # map (\<lambda>k. Rd MS (ms ! k)) [1..<n] @ [Rd XN xl])
    \<and> ReduceAdd None ms (of_nat n) ce dt c m xl = None"
  using Reduce_operands [OF _ assms] by (simp add: ReduceAdd_def ReduceMax_def ReduceMin_def)

theorem extract_reduce_encoders_witness:
  "map_option ExtractOperandsV2
      (ReduceAdd (Some \<lparr>header = 0, payload = 0\<rparr>) [5, 6, 7, 8, 9, 10, 11, 12] 3 0 0 0 0 20)
    = Some [Rd MS 5, Wr MS 5, Rd MS 6, Rd MS 7, Rd XN 20]"
  using extract_reduce_encoders [of 3 "\<lparr>header = 0, payload = 0\<rparr>" "[5, 6, 7, 8, 9, 10, 11, 12]" 0 0 0 0 20]
  by (simp add: upt_rec)

text \<open>Outside the control class no CKE register is written.\<close>

lemma load_no_cke: "Wr CKE r \<notin> set (ExtractLoadType [] i)"
proof -
  have "Wr CKE r \<notin> set (snd (ExtractLoadMemOps [] i))"
    by (simp add: ExtractLoadMemOps_def Let_def)
  moreover have "Wr CKE r \<notin> set out \<Longrightarrow> Wr CKE r \<notin> set (ExtractLoadOperator out i)" for out
    by (simp add: ExtractLoadOperator_def Let_def)
  ultimately show ?thesis
    by (simp add: ExtractLoadType_def case_prod_beta)
qed

lemma trans_no_cke: "Wr CKE r \<notin> set (ExtractTransType [] i)"
proof -
  have "Wr CKE r \<notin> set (snd (ExtractTransMoveOps [] i))"
    by (simp add: ExtractTransMoveOps_def Let_def)
  moreover have "Wr CKE r \<notin> set out \<Longrightarrow> Wr CKE r \<notin> set (ExtractTransSyncOps out i)" for out
    by (simp add: ExtractTransSyncOps_def Let_def)
  ultimately show ?thesis
    by (simp add: ExtractTransType_def case_prod_beta)
qed

lemma reduce_no_cke: "Wr CKE r \<notin> set (ExtractReduceType [] i)"
  by (auto simp: ExtractReduceType_def Let_def)

text \<open>A CKE write is reported only for a SetCKE or ClearCKE that waits on a CKE register other than
  0 with automatic clear; the same register is then reported as read.\<close>

theorem cke_write_is_auto_clear:
  "Wr CKE r \<in> set (ExtractOperandsV2 i) \<longleftrightarrow>
    r \<noteq> 0 \<and> hdr_type (header i) = CTRL_TYPE \<and>
    (hdr_code (header i) = SETCKBIT_CODE \<and> get CcuV2_CcuInstrSetCKE ''waitCKEId'' i = r
       \<and> get CcuV2_CcuInstrSetCKE ''clearType'' i = (1 :: u16)
     \<or> hdr_code (header i) = CLEARCKBIT_CODE \<and> get CcuV2_CcuInstrClearCKE ''waitCKEId'' i = r
       \<and> get CcuV2_CcuInstrClearCKE ''clearType'' i = (1 :: u16))"
proof (cases "hdr_type (header i) = CTRL_TYPE")
  case True
  then show ?thesis
    by (auto simp: ExtractOperandsV2_def ExtractCtrlType_def AddRead_CKE Let_def)
next
  case False
  then show ?thesis
    using load_no_cke [of r i] trans_no_cke [of r i] reduce_no_cke [of r i]
    by (simp add: ExtractOperandsV2_def Let_def)
qed

text \<open>A shift by a register: the encoder leaves the parameter mode of the slot as it was, so in a
  zeroed slot the extractor takes the second operand for an immediate and does not report the
  register that is read.\<close>

theorem shift_operand_missed:
  "ExtractOperandsV2 (SLL \<lparr>header = 0, payload = 0\<rparr> d a b c m) = [Wr XN d, Rd XN a]
   \<and> ExtractOperandsV2 (SRL \<lparr>header = 0, payload = 0\<rparr> d a b c m) = [Wr XN d, Rd XN a]
   \<and> ExtractOperandsV2 (SLA \<lparr>header = 0, payload = 0\<rparr> d a b c m) = [Wr XN d, Rd XN a]
   \<and> ExtractOperandsV2 (SRA \<lparr>header = 0, payload = 0\<rparr> d a b c m) = [Wr XN d, Rd XN a]"
proof -
  have zero: "get CcuV2_CcuInstrOperator ''parMode'' \<lparr>header = h, payload = 0\<rparr> = (0 :: u16)" for h
    by (simp add: get_def get_bits_def)
  show ?thesis
    by (simp add: extract_class_defs SLL_def SRL_def SLA_def SRA_def Operator_def zero)
qed

end
