(* ===== verification/Instruction_Scheduler.thy ===== *)
theory Instruction_Scheduler
  imports Extract_Operands
begin

text \<open>
  The latency scheduler of the back end (\<^verbatim>\<open>ccu_microcode_opt/instruction_scheduler.cc\<close>). It keeps the
  order of the instructions and inserts NOPs so that a register is read at least a fixed number of
  cycles after it was written, in three directions: CKE write to CKE read, LoadX/StoreX/ClearX
  write to any read, and any write to a LoadX/StoreX/ClearX read. The nine-instruction blocks of a
  \<^verbatim>\<open>RelJmp\<close> are recognised by a fingerprint and never split. A second pass repairs everything that
  refers to an instruction by its position: the mission start, the bodies of loops, the offsets of
  relative jumps and the absolute ids of \<^verbatim>\<open>RelJmp\<close> blocks.

  A \<^verbatim>\<open>std::vector\<close> is a list and an \<^verbatim>\<open>unordered_map\<close> that is only probed and overwritten is a map. The
  cycle counter (\<^verbatim>\<open>int64_t\<close>) and the instruction positions (\<^verbatim>\<open>size_t\<close>, and \<^verbatim>\<open>int32_t\<close> with \<open>-1\<close> for
  ``none'') are \<^typ>\<open>nat\<close> and \<^typ>\<open>int\<close>: they count emitted instructions and the bound on the output
  proved in \<^verbatim>\<open>Scheduler_Budget\<close> keeps them below \<open>2 ^ 31\<close>. Ids and immediates keep their width.
\<close>

subsection \<open>Instruction sequences, statistics and options\<close>

record CcuInstrInfo =
  instrVec :: "CcuInstr list"
  startInstrId :: u16
  instrCount :: u16
  missionStartInstrId :: u16
  missionInstrCount :: u16
  backendOptimized :: bool
  optToRawLocalIndex :: "int list"

record SchedulerStats =
  nopRemoved :: u32
  nopInserted :: u32
  instrReordered :: u32
  basicBlocks :: u32
  originIndex :: "int list"
  strippedNopIndices :: "u16 list"

definition SchedulerStats_init :: SchedulerStats where
  "SchedulerStats_init =
    \<lparr>nopRemoved = 0, nopInserted = 0, instrReordered = 0, basicBlocks = 0, originIndex = [],
     strippedNopIndices = []\<rparr>"

definition CcuInstrInfo_init :: CcuInstrInfo where
  "CcuInstrInfo_init =
    \<lparr>instrVec = [], startInstrId = 0, instrCount = 0, missionStartInstrId = 0,
     missionInstrCount = 0, backendOptimized = False, optToRawLocalIndex = []\<rparr>"

datatype SchedLevel = CkeOnly

record PinnedGroup =
  baseId :: u16
  count :: u16

text \<open>The pointer to the pinned groups may be null.\<close>

record InstructionSchedulerOptions =
  level :: SchedLevel
  opt_pinnedGroups :: "PinnedGroup list option"

subsection \<open>Register keys\<close>

fun RegType_code :: "RegType \<Rightarrow> u32" where
  "RegType_code XN = 0"
| "RegType_code MS = 1"
| "RegType_code CKE = 2"

definition RegKey :: "RegOperand \<Rightarrow> u32" where
  "RegKey operand = push_bit 16 (RegType_code (op_type operand)) OR ucast (op_regId operand)"

definition kClearXRangeFlag :: u32 where
  "kClearXRangeFlag = push_bit 30 1"

definition kXnIdShift :: nat where
  "kXnIdShift = 15"

fun ReduceXn_loop :: "u16 \<Rightarrow> PinnedGroup list \<Rightarrow> u16" where
  "ReduceXn_loop regId [] = regId"
| "ReduceXn_loop regId (g # gs) =
    (if count g = 0 then ReduceXn_loop regId gs
     else if baseId g \<le> regId \<and> (ucast regId :: u32) < ucast (baseId g) + ucast (count g) then baseId g
     else ReduceXn_loop regId gs)"

definition ReduceXnToGroupKey :: "u16 \<Rightarrow> PinnedGroup list option \<Rightarrow> u16" where
  "ReduceXnToGroupKey regId pgs =
    (case pgs of None \<Rightarrow> regId | Some gs \<Rightarrow> ReduceXn_loop regId gs)"

definition XnGroupKey :: "u16 \<Rightarrow> PinnedGroup list option \<Rightarrow> u32" where
  "XnGroupKey regId pgs = ucast (ReduceXnToGroupKey regId pgs)"

definition ClearXRangeKey :: "u16 \<Rightarrow> u16 \<Rightarrow> u32" where
  "ClearXRangeKey a b =
    (let lo = (if a \<le> b then a else b);
         hi = (if a \<le> b then b else a)
     in kClearXRangeFlag OR push_bit kXnIdShift (ucast lo) OR ucast hi)"

subsection \<open>Instruction classes\<close>

definition IsLoadX :: "CcuInstr \<Rightarrow> bool" where
  "IsLoadX instr \<longleftrightarrow>
    hdr_type (header instr) = LOAD_TYPE \<and> hdr_code (header instr) = LOADX_CODE"

definition IsStoreX :: "CcuInstr \<Rightarrow> bool" where
  "IsStoreX instr \<longleftrightarrow>
    hdr_type (header instr) = LOAD_TYPE \<and> hdr_code (header instr) = STOREX_CODE"

definition IsClearX :: "CcuInstr \<Rightarrow> bool" where
  "IsClearX instr \<longleftrightarrow>
    hdr_type (header instr) = LOAD_TYPE \<and> hdr_code (header instr) = CLEARX_CODE"

definition ClearX_key :: "CcuInstr \<Rightarrow> u32" where
  "ClearX_key instr =
    ClearXRangeKey (get CcuV2_CcuInstrClearX ''xnId'' instr) (get CcuV2_CcuInstrClearX ''xmId'' instr)"

definition CollectXnWriterKeys :: "CcuInstr \<Rightarrow> PinnedGroup list option \<Rightarrow> u32 list" where
  "CollectXnWriterKeys instr pgs =
    (if IsLoadX instr then [XnGroupKey (get CcuV2_CcuInstrLoadStoreX ''xdId'' instr) pgs]
     else if IsStoreX instr then [XnGroupKey (get CcuV2_CcuInstrLoadStoreX ''xdo'' instr) pgs]
     else if IsClearX instr then [ClearX_key instr]
     else [])"

definition MakeNop :: CcuInstr where
  "MakeNop = \<lparr>header = InstrHeader LOAD_TYPE NOP_CODE, payload = 0\<rparr>"

subsection \<open>The fingerprint of a \<^verbatim>\<open>RelJmp\<close> block\<close>

definition TEMPLATE_LEN :: nat where
  "TEMPLATE_LEN = 9"

record RelJmpMatch =
  matched :: bool
  p0 :: nat
  innerJmp :: nat
  p3 :: nat
  match_xn0 :: u16
  match_xn1 :: u16
  match_targetXn :: u16

definition RelJmpMatch_none :: RelJmpMatch where
  "RelJmpMatch_none =
    \<lparr>matched = False, p0 = 0, innerJmp = 0, p3 = 0, match_xn0 = 0, match_xn1 = 0,
     match_targetXn = 0\<rparr>"

definition IsLoadImd :: "CcuInstr \<Rightarrow> bool" where
  "IsLoadImd instr \<longleftrightarrow>
    hdr_type (header instr) = LOAD_TYPE \<and> hdr_code (header instr) = LOADIMDTOX_CODE"

definition IsCtrlJmp :: "CcuInstr \<Rightarrow> bool" where
  "IsCtrlJmp instr \<longleftrightarrow>
    hdr_type (header instr) = CTRL_TYPE \<and> hdr_code (header instr) = JMP_CODE"

definition IsArith :: "CcuInstr \<Rightarrow> u16 \<Rightarrow> bool" where
  "IsArith instr code \<longleftrightarrow>
    hdr_type (header instr) = LOAD_TYPE \<and> hdr_code (header instr) = code"

record RelJmpRegs =
  regs_xn0 :: u16
  regs_xn1 :: u16
  regs_targetXn :: u16

definition IsRelJmpArith :: "CcuInstr \<Rightarrow> u16 \<Rightarrow> RelJmpRegs \<Rightarrow> bool" where
  "IsRelJmpArith instr code regs \<longleftrightarrow>
    IsArith instr code \<and>
    get CcuV2_CcuInstrOperator ''xdId'' instr = regs_targetXn regs \<and>
    get CcuV2_CcuInstrOperator ''xnId'' instr = regs_targetXn regs \<and>
    get CcuV2_CcuInstrOperator ''xmId'' instr = regs_xn0 regs"

definition CheckRelJmpHead :: "CcuInstr list \<Rightarrow> nat \<Rightarrow> RelJmpRegs \<Rightarrow> bool" where
  "CheckRelJmpHead vec innerJmpIdx regs =
    (let p1 = vec ! (innerJmpIdx - 1);
         p0 = vec ! (innerJmpIdx - 2)
     in if \<not> IsLoadImd p1 \<or> get CcuV2_CcuInstrLoadImdToX ''xnId'' p1 \<noteq> regs_xn1 regs
           \<or> get CcuV2_CcuInstrLoadImdToX ''immediate'' p1 \<noteq> (ucast JMP_TARGET_PC_IF_BRANCH :: u64)
        then False
        else IsLoadImd p0 \<and> get CcuV2_CcuInstrLoadImdToX ''xnId'' p0 = regs_xn0 regs)"

definition CheckRelJmpTail :: "CcuInstr list \<Rightarrow> nat \<Rightarrow> RelJmpRegs \<Rightarrow> bool" where
  "CheckRelJmpTail vec innerJmpIdx regs =
    (let p3 = vec ! (innerJmpIdx + 1);
         p4 = vec ! (innerJmpIdx + 2);
         p5 = vec ! (innerJmpIdx + 3);
         p6 = vec ! (innerJmpIdx + 4);
         p7 = vec ! (innerJmpIdx + 5)
     in if \<not> IsLoadImd p3 \<or> get CcuV2_CcuInstrLoadImdToX ''xnId'' p3 \<noteq> regs_xn0 regs then False
        else if \<not> IsRelJmpArith p4 ADD_CODE regs then False
        else if \<not> IsLoadImd p5 \<or> get CcuV2_CcuInstrLoadImdToX ''xnId'' p5 \<noteq> regs_xn1 regs
          \<or> get CcuV2_CcuInstrLoadImdToX ''immediate'' p5 \<noteq> (ucast JMP_TARGET_PC_NOP_BRANCH :: u64)
          then False
        else if \<not> IsCtrlJmp p6 \<or> get CcuV2_CcuInstrJmp ''conditionType'' p6 \<noteq> JMP_COND_TYPE_UNCOND
          \<or> get CcuV2_CcuInstrJmp ''relTarInstrXnId'' p6 \<noteq> regs_xn1 regs then False
        else IsRelJmpArith p7 SUB_CODE regs)"

definition MatchRelJmpTemplate :: "CcuInstr list \<Rightarrow> nat \<Rightarrow> RelJmpMatch" where
  "MatchRelJmpTemplate vec innerJmpIdx =
    (if innerJmpIdx < 2 \<or> length vec \<le> innerJmpIdx + 5 then RelJmpMatch_none
     else
       let jmp = vec ! innerJmpIdx
       in if \<not> IsCtrlJmp jmp \<or> get CcuV2_CcuInstrJmp ''conditionType'' jmp \<noteq> JMP_COND_TYPE_IF
          then RelJmpMatch_none
          else
            let regs = \<lparr>regs_xn0 = get CcuV2_CcuInstrJmp ''expectedXnId'' jmp,
                        regs_xn1 = get CcuV2_CcuInstrJmp ''relTarInstrXnId'' jmp,
                        regs_targetXn = get CcuV2_CcuInstrJmp ''conditionXnId'' jmp\<rparr>
            in if \<not> CheckRelJmpHead vec innerJmpIdx regs \<or> \<not> CheckRelJmpTail vec innerJmpIdx regs
               then RelJmpMatch_none
               else \<lparr>matched = True, p0 = innerJmpIdx - 2, innerJmp = innerJmpIdx,
                     p3 = innerJmpIdx + 1, match_xn0 = regs_xn0 regs, match_xn1 = regs_xn1 regs,
                     match_targetXn = regs_targetXn regs\<rparr>)"

definition MarkRelJmp_block :: "nat \<Rightarrow> nat \<Rightarrow> bool list \<Rightarrow> bool list" where
  "MarkRelJmp_block cnt first msk =
    (let blockEnd = first + TEMPLATE_LEN - 1
     in fold (\<lambda>k msk. if k < cnt then msk[k := True] else msk) [first..<Suc blockEnd] msk)"

definition MarkRelJmpProtectedRanges :: "CcuInstr list \<Rightarrow> bool list" where
  "MarkRelJmpProtectedRanges vec =
    (let cnt = length vec
     in fold (\<lambda>i msk.
          if \<not> IsCtrlJmp (vec ! i) then msk
          else
            let match = MatchRelJmpTemplate vec i
            in if \<not> matched match then msk else MarkRelJmp_block cnt (p0 match) msk)
        [0..<cnt] (replicate cnt False))"

subsection \<open>The state of the first pass\<close>

record CkeOnlyState =
  outVec :: "CcuInstr list"
  origToOut :: "int list"
  stats :: SchedulerStats
  relJmpProtected :: "bool list"
  pinnedGroups :: "PinnedGroup list option"
  lastCkeWriterCycle :: "u32 \<rightharpoonup> int"
  lastXnWriterCycle :: "u32 \<rightharpoonup> int"
  lastAnyXnWriterCycle :: "u32 \<rightharpoonup> int"
  cycle :: int

definition EmitNop :: "CkeOnlyState \<Rightarrow> CkeOnlyState" where
  "EmitNop state = state\<lparr>
     outVec := outVec state @ [MakeNop],
     stats := (stats state)\<lparr>originIndex := originIndex (stats state) @ [-1],
                            nopInserted := nopInserted (stats state) + 1\<rparr>,
     cycle := cycle state + 1\<rparr>"

text \<open>The lookup that the three functions below share: the table's writer cycle plus the latency.\<close>

definition probe :: "(u32 \<rightharpoonup> int) \<Rightarrow> int \<Rightarrow> u32 \<Rightarrow> int \<Rightarrow> int" where
  "probe table latency key earliest =
    (case table key of
       None \<Rightarrow> earliest
     | Some writer \<Rightarrow>
         let needed = writer + latency in if needed > earliest then needed else earliest)"

definition EarliestCkeIssueCycle :: "CkeOnlyState \<Rightarrow> RegOperand list \<Rightarrow> int" where
  "EarliestCkeIssueCycle state operands =
    fold (\<lambda>operand earliest.
        if op_isDef operand \<or> op_type operand \<noteq> CKE then earliest
        else probe (lastCkeWriterCycle state) CCU_CKE_RAW_LATENCY (RegKey operand) earliest)
      operands (cycle state)"

definition EarliestXnIssueCycle :: "CkeOnlyState \<Rightarrow> CcuInstr \<Rightarrow> RegOperand list \<Rightarrow> int" where
  "EarliestXnIssueCycle state instr operands =
    (let earliest = fold (\<lambda>operand earliest.
             if op_isDef operand \<or> op_type operand \<noteq> XN then earliest
             else probe (lastXnWriterCycle state) CCU_XN_RAW_LATENCY
                    (XnGroupKey (op_regId operand) (pinnedGroups state)) earliest)
           operands (cycle state)
     in if IsClearX instr
        then probe (lastXnWriterCycle state) CCU_XN_RAW_LATENCY (ClearX_key instr) earliest
        else earliest)"

definition EarliestXnReadByLsxCycle :: "CkeOnlyState \<Rightarrow> CcuInstr \<Rightarrow> RegOperand list \<Rightarrow> int" where
  "EarliestXnReadByLsxCycle state instr operands =
    (if \<not> IsLoadX instr \<and> \<not> IsStoreX instr \<and> \<not> IsClearX instr then cycle state
     else
       let earliest = fold (\<lambda>operand earliest.
               if op_isDef operand \<or> op_type operand \<noteq> XN then earliest
               else probe (lastAnyXnWriterCycle state) CCU_XN_RAW_LATENCY
                      (XnGroupKey (op_regId operand) (pinnedGroups state)) earliest)
             operands (cycle state)
       in if IsClearX instr
          then probe (lastAnyXnWriterCycle state) CCU_XN_RAW_LATENCY (ClearX_key instr) earliest
          else earliest)"

function EmitNops :: "int \<Rightarrow> CkeOnlyState \<Rightarrow> CkeOnlyState" where
  "EmitNops earliestIssueCycle state =
    (if cycle state < earliestIssueCycle
     then EmitNops earliestIssueCycle (EmitNop state) else state)"
  by auto

termination EmitNops
  by (relation "measure (\<lambda>(e, st). nat (e - cycle st))") (auto simp: EmitNop_def)

declare EmitNops.simps [simp del]

text \<open>The end of \<^verbatim>\<open>ScheduleOneCkeInstr\<close>: emit the instruction and register it as a writer in the
  three tables.\<close>

definition EmitInstr ::
  "CkeOnlyState \<Rightarrow> CcuInstr \<Rightarrow> RegOperand list \<Rightarrow> nat \<Rightarrow> CkeOnlyState" where
  "EmitInstr state instr operands originIdx =
    (let state = state\<lparr>origToOut := (origToOut state)[originIdx := int (length (outVec state))]\<rparr>;
         state = state\<lparr>outVec := outVec state @ [instr]\<rparr>;
         state = state\<lparr>stats := (stats state)\<lparr>originIndex :=
                    originIndex (stats state) @ [int originIdx]\<rparr>\<rparr>;
         issueCycle = cycle state;
         state = state\<lparr>cycle := cycle state + 1\<rparr>;
         state = state\<lparr>lastCkeWriterCycle := fold (\<lambda>operand table.
             if \<not> op_isDef operand \<or> op_type operand \<noteq> CKE then table
             else table(RegKey operand \<mapsto> issueCycle)) operands (lastCkeWriterCycle state)\<rparr>;
         xnWriterKeys = CollectXnWriterKeys instr (pinnedGroups state);
         state = state\<lparr>lastXnWriterCycle := fold (\<lambda>key table. table(key \<mapsto> issueCycle))
             xnWriterKeys (lastXnWriterCycle state)\<rparr>;
         state = state\<lparr>lastAnyXnWriterCycle := fold (\<lambda>operand table.
             if \<not> op_isDef operand \<or> op_type operand \<noteq> XN then table
             else table(XnGroupKey (op_regId operand) (pinnedGroups state) \<mapsto> issueCycle))
             operands (lastAnyXnWriterCycle state)\<rparr>
     in if IsClearX instr
        then state\<lparr>lastAnyXnWriterCycle :=
               (lastAnyXnWriterCycle state)(ClearX_key instr \<mapsto> issueCycle)\<rparr>
        else state)"

definition ScheduleOneCkeInstr :: "CkeOnlyState \<Rightarrow> CcuInstr \<Rightarrow> nat \<Rightarrow> CkeOnlyState" where
  "ScheduleOneCkeInstr state instr originIdx =
    (let operands = ExtractOperandsV2 instr;
         isProtected = (originIdx < length (relJmpProtected state)
                        \<and> relJmpProtected state ! originIdx);
         state = (if \<not> isProtected then
             let earliestIssueCycle = EarliestCkeIssueCycle state operands;
                 earliestXnCycle = EarliestXnIssueCycle state instr operands;
                 earliestIssueCycle = (if earliestXnCycle > earliestIssueCycle
                                       then earliestXnCycle else earliestIssueCycle);
                 earliestXnReadCycle = EarliestXnReadByLsxCycle state instr operands;
                 earliestIssueCycle = (if earliestXnReadCycle > earliestIssueCycle
                                       then earliestXnReadCycle else earliestIssueCycle)
             in EmitNops earliestIssueCycle state
           else state)
     in EmitInstr state instr operands originIdx)"

subsection \<open>The second pass: references by position\<close>

definition RecomputeMissionCount :: "CcuInstrInfo \<Rightarrow> u16 \<Rightarrow> CcuInstrInfo" where
  "RecomputeMissionCount out startId =
    (if (ucast (missionStartInstrId out) :: u32) < ucast startId + ucast (instrCount out)
     then out\<lparr>missionInstrCount := startId + instrCount out - missionStartInstrId out\<rparr>
     else out\<lparr>missionInstrCount := 0\<rparr>)"

definition kInstrIdSpace :: u64 where
  "kInstrIdSpace = 0x10000"

text \<open>The loop of \<^verbatim>\<open>FindOffsetLoaderOrigIdx\<close>, which looks at \<open>j - 1, j - 2, \<dots>, 0\<close>.\<close>

fun FindOffsetLoader_loop :: "CcuInstr list \<Rightarrow> u16 \<Rightarrow> nat \<Rightarrow> int" where
  "FindOffsetLoader_loop origVec tgtXn 0 = -1"
| "FindOffsetLoader_loop origVec tgtXn (Suc j) =
    (let cur = origVec ! j
     in if hdr_type (header cur) = LOAD_TYPE \<and> hdr_code (header cur) = LOADIMDTOX_CODE
           \<and> get CcuV2_CcuInstrLoadImdToX ''xnId'' cur = tgtXn
        then int j
        else if \<exists>op \<in> set (ExtractOperandsV2 cur). op_isDef op \<and> op_type op = XN \<and> op_regId op = tgtXn
        then -1
        else FindOffsetLoader_loop origVec tgtXn j)"

definition FindOffsetLoaderOrigIdx :: "CcuInstr list \<Rightarrow> nat \<Rightarrow> u16 \<Rightarrow> int" where
  "FindOffsetLoaderOrigIdx origVec jmpOrigIdx tgtXn = FindOffsetLoader_loop origVec tgtXn jmpOrigIdx"

abbreviation immediate :: "CcuInstr \<Rightarrow> u64" where
  "immediate instr \<equiv> get CcuV2_CcuInstrLoadImdToX ''immediate'' instr"

abbreviation set_immediate :: "u64 \<Rightarrow> CcuInstr \<Rightarrow> CcuInstr" where
  "set_immediate v instr \<equiv> put CcuV2_CcuInstrLoadImdToX ''immediate'' v instr"

definition FixPlainJumpOffset ::
  "CcuInstr list \<Rightarrow> int list \<Rightarrow> nat \<Rightarrow> CcuInstr list \<Rightarrow> CcuInstr list" where
  "FixPlainJumpOffset origVec o2o jmpOrigIdx out =
    (let tgtXn = get CcuV2_CcuInstrJmp ''relTarInstrXnId'' (origVec ! jmpOrigIdx);
         loadOrigIdx = FindOffsetLoaderOrigIdx origVec jmpOrigIdx tgtXn
     in if loadOrigIdx < 0 then out
        else
          let loadOutPos = o2o ! nat loadOrigIdx;
              jmpOutPos = o2o ! jmpOrigIdx
          in if loadOutPos < 0 \<or> jmpOutPos < 0 then out
             else
               let oldOffset = immediate (out ! nat loadOutPos)
               in if oldOffset \<ge> kInstrIdSpace then out
                  else
                    let origTargetIdx = (of_nat jmpOrigIdx + oldOffset) mod kInstrIdSpace
                    in if unat origTargetIdx \<ge> length o2o \<or> o2o ! unat origTargetIdx < 0 then out
                       else
                         let newTargetPos = of_int (o2o ! unat origTargetIdx);
                             newJmpPos = of_int jmpOutPos;
                             newOffset = (newTargetPos + kInstrIdSpace - newJmpPos) mod kInstrIdSpace
                         in out[nat loadOutPos := set_immediate newOffset (out ! nat loadOutPos)])"

definition RemapRelJmpTargetImmediate ::
  "RelJmpMatch \<Rightarrow> int \<Rightarrow> CcuInstr list \<Rightarrow> (u16 \<Rightarrow> u16) \<Rightarrow> CcuInstr list" where
  "RemapRelJmpTargetImmediate match outPos out remapId =
    (let rawTarget = immediate (out ! nat outPos)
     in if rawTarget \<ge> kInstrIdSpace then out
        else
          let newTarget = ucast (remapId (ucast rawTarget)) :: u64
          in if newTarget \<ge> kInstrIdSpace then out
             else out[nat outPos := set_immediate newTarget (out ! nat outPos)])"

text \<open>The loop of \<^verbatim>\<open>FixRelJmpFunc\<close>, which looks for the instruction that loads the target.\<close>

fun FixRelJmp_target ::
  "CcuInstr list \<Rightarrow> int list \<Rightarrow> RelJmpMatch \<Rightarrow> (u16 \<Rightarrow> u16) \<Rightarrow> nat \<Rightarrow> CcuInstr list \<Rightarrow> CcuInstr list" where
  "FixRelJmp_target origVec o2o match remapId 0 out = out"
| "FixRelJmp_target origVec o2o match remapId (Suc j) out =
    (let cur = origVec ! j
     in if hdr_type (header cur) = LOAD_TYPE \<and> hdr_code (header cur) = LOADIMDTOX_CODE
           \<and> get CcuV2_CcuInstrLoadImdToX ''xnId'' cur = match_targetXn match
        then (if o2o ! j \<ge> 0 then RemapRelJmpTargetImmediate match (o2o ! j) out remapId else out)
        else if hdr_type (header cur) = LOAD_TYPE
           \<and> (hdr_code (header cur) = ADD_CODE \<or> hdr_code (header cur) = SUB_CODE)
           \<and> get CcuV2_CcuInstrOperator ''xdId'' cur = match_targetXn match
        then out
        else FixRelJmp_target origVec o2o match remapId j out)"

definition FixRelJmpFunc ::
  "CcuInstr list \<Rightarrow> int list \<Rightarrow> RelJmpMatch \<Rightarrow> CcuInstr list \<Rightarrow> (u16 \<Rightarrow> u16) \<Rightarrow> CcuInstr list" where
  "FixRelJmpFunc origVec o2o match out remapId =
    (let p0Out = o2o ! p0 match;
         p3Out = o2o ! p3 match
     in if p0Out < 0 \<or> p3Out < 0 then out
        else
          let rawJmpInstrId = immediate (out ! nat p0Out)
          in if rawJmpInstrId \<ge> kInstrIdSpace then out
             else
               let newJmpInstrId = ucast (remapId (ucast rawJmpInstrId)) :: u64
               in if newJmpInstrId \<ge> kInstrIdSpace then out
                  else
                    let out = out[nat p0Out := set_immediate newJmpInstrId (out ! nat p0Out)];
                        out = out[nat p3Out :=
                                set_immediate (kInstrIdSpace - newJmpInstrId) (out ! nat p3Out)]
                    in FixRelJmp_target origVec o2o match remapId (p0 match) out)"

definition FixOneJumpReference ::
  "CcuInstrInfo \<Rightarrow> int list \<Rightarrow> bool list \<Rightarrow> nat \<Rightarrow> CcuInstrInfo \<Rightarrow> (u16 \<Rightarrow> u16) \<Rightarrow> CcuInstrInfo" where
  "FixOneJumpReference input o2o protected originIdx out remapGlobal =
    (let origVec = instrVec input;
         origInstr = origVec ! originIdx;
         relJmp = MatchRelJmpTemplate origVec originIdx
     in if get CcuV2_CcuInstrJmp ''jumpMode'' origInstr \<noteq> (0 :: u16) then out
        else if matched relJmp
        then out\<lparr>instrVec := FixRelJmpFunc origVec o2o relJmp (instrVec out) remapGlobal\<rparr>
        else if originIdx < length protected \<and> protected ! originIdx then out
        else out\<lparr>instrVec := FixPlainJumpOffset origVec o2o originIdx (instrVec out)\<rparr>)"

definition remapGlobal :: "u16 \<Rightarrow> int list \<Rightarrow> u16 \<Rightarrow> u16" where
  "remapGlobal startId o2o globalId =
    (if globalId < startId then globalId
     else
       let localId = (ucast globalId :: u32) - ucast startId
       in if unat localId \<ge> length o2o then globalId
          else
            let newPos = o2o ! unat localId
            in if newPos < 0 then globalId else of_int (uint startId + newPos))"

definition FixReferences_one ::
  "CcuInstrInfo \<Rightarrow> int list \<Rightarrow> bool list \<Rightarrow> nat \<Rightarrow> CcuInstrInfo \<Rightarrow> CcuInstrInfo" where
  "FixReferences_one input o2o protected originIdx out =
    (let origInstr = instrVec input ! originIdx;
         outPos = o2o ! originIdx;
         remap = remapGlobal (startInstrId input) o2o
     in if outPos < 0 then out
        else if hdr_type (header origInstr) = CTRL_TYPE \<and> hdr_code (header origInstr) = LOOP_CODE
        then
          (let outInstr = instrVec out ! nat outPos;
               outInstr = put CcuV2_CcuInstrLoop ''startInstrId''
                            (remap (get CcuV2_CcuInstrLoop ''startInstrId'' origInstr)) outInstr;
               outInstr = put CcuV2_CcuInstrLoop ''endInstrId''
                            (remap (get CcuV2_CcuInstrLoop ''endInstrId'' origInstr)) outInstr
           in out\<lparr>instrVec := (instrVec out)[nat outPos := outInstr]\<rparr>)
        else if hdr_type (header origInstr) = CTRL_TYPE \<and> hdr_code (header origInstr) = LOOPGROUP_CODE
        then
          (let outInstr = instrVec out ! nat outPos;
               outInstr = put CcuV2_CcuInstrLoopGroup ''startLoopInstrId''
                            (remap (get CcuV2_CcuInstrLoopGroup ''startLoopInstrId'' origInstr))
                            outInstr
           in out\<lparr>instrVec := (instrVec out)[nat outPos := outInstr]\<rparr>)
        else if hdr_type (header origInstr) = CTRL_TYPE \<and> hdr_code (header origInstr) = JMP_CODE
        then FixOneJumpReference input o2o protected originIdx out remap
        else out)"

definition FixReferences_mission ::
  "CcuInstrInfo \<Rightarrow> int list \<Rightarrow> CcuInstrInfo \<Rightarrow> CcuInstrInfo" where
  "FixReferences_mission input o2o out =
    (let startId = startInstrId input
     in if missionStartInstrId input \<ge> startId
           \<and> unat (missionStartInstrId input) < unat startId + length (instrVec input)
        then RecomputeMissionCount
               (out\<lparr>missionStartInstrId := remapGlobal startId o2o (missionStartInstrId input)\<rparr>) startId
        else out\<lparr>missionStartInstrId := missionStartInstrId input,
                 missionInstrCount := missionInstrCount input\<rparr>)"

definition FixReferences ::
  "CcuInstrInfo \<Rightarrow> int list \<Rightarrow> bool list \<Rightarrow> CcuInstrInfo \<Rightarrow> CcuInstrInfo" where
  "FixReferences input o2o protected out =
    fold (FixReferences_one input o2o protected) [0..<length (instrVec input)]
      (FixReferences_mission input o2o out)"

subsection \<open>The scheduler\<close>

definition CkeOnlyState_init ::
  "nat \<Rightarrow> bool list \<Rightarrow> PinnedGroup list option \<Rightarrow> CkeOnlyState" where
  "CkeOnlyState_init n protected pgs =
    \<lparr>outVec = [], origToOut = replicate n (-1), stats = SchedulerStats_init,
     relJmpProtected = protected, pinnedGroups = pgs, lastCkeWriterCycle = Map.empty,
     lastXnWriterCycle = Map.empty, lastAnyXnWriterCycle = Map.empty, cycle = 0\<rparr>"

definition ScheduleCkeOnly ::
  "InstructionSchedulerOptions \<Rightarrow> CcuInstrInfo \<Rightarrow> CcuInstrInfo \<times> SchedulerStats" where
  "ScheduleCkeOnly opts input =
    (let origVec = instrVec input;
         n = length origVec;
         protected = MarkRelJmpProtectedRanges origVec;
         state = fold (\<lambda>i state. ScheduleOneCkeInstr state (origVec ! i) i) [0..<n]
                   (CkeOnlyState_init n protected (opt_pinnedGroups opts));
         st = (stats state)\<lparr>basicBlocks := (if n > 0 then 1 else 0)\<rparr>;
         out = CcuInstrInfo_init\<lparr>instrVec := outVec state, startInstrId := startInstrId input,
                 instrCount := of_nat (length (outVec state))\<rparr>
     in (FixReferences input (origToOut state) protected out, st))"

definition Schedule ::
  "InstructionSchedulerOptions \<Rightarrow> CcuInstrInfo \<Rightarrow> CcuInstrInfo \<times> SchedulerStats" where
  "Schedule opts input = ScheduleCkeOnly opts input"

end
