(* ===== verification/Scheduler_Run.thy ===== *)
theory Scheduler_Run
  imports Instruction_Scheduler
begin

text \<open>
  The first pass of the scheduler as a run. \<open>sched_run\<close> is the state after the first \<open>i\<close>
  instructions and \<open>issue_cycle\<close> the cycle at which an instruction is issued. The lemmas give the
  effect of one step on every field of the state in closed form and, from these, the shape of the
  output: the instructions in their order at the positions that \<open>origToOut\<close> records, NOPs elsewhere.
\<close>

subsection \<open>One step in closed form\<close>

lemma probe_ge: "earliest \<le> probe tbl l key earliest"
  by (auto simp: probe_def Let_def split: option.split)

lemma probe_ge_writer: "tbl key = Some c \<Longrightarrow> c + l \<le> probe tbl l key earliest"
  by (auto simp: probe_def Let_def)

lemma probe_le:
  assumes "earliest \<le> b" and "\<And>c. tbl key = Some c \<Longrightarrow> c + l \<le> b"
  shows "probe tbl l key earliest \<le> b"
  using assms by (auto simp: probe_def Let_def split: option.split)

text \<open>The common loop of the three lookups, over the keys that the operands are read under.\<close>

definition probe_all :: "(u32 \<rightharpoonup> int) \<Rightarrow> int \<Rightarrow> u32 list \<Rightarrow> int \<Rightarrow> int" where
  "probe_all tbl l keys earliest = fold (probe tbl l) keys earliest"

lemma probe_all_simps [simp]:
  "probe_all tbl l [] e = e"
  "probe_all tbl l (k # ks) e = probe_all tbl l ks (probe tbl l k e)"
  "probe_all tbl l (xs @ ys) e = probe_all tbl l ys (probe_all tbl l xs e)"
  by (simp_all add: probe_all_def)

lemma probe_all_ge: "earliest \<le> probe_all tbl l keys earliest"
  by (induction keys arbitrary: earliest) (auto intro: order_trans [OF probe_ge])

lemma probe_all_ge_writer:
  "key \<in> set keys \<Longrightarrow> tbl key = Some c \<Longrightarrow> c + l \<le> probe_all tbl l keys earliest"
proof (induction keys arbitrary: earliest)
  case (Cons k ks)
  show ?case
  proof (cases "key = k")
    case True
    then show ?thesis
      using Cons.prems(2) probe_all_ge [of "probe tbl l k earliest" tbl l ks]
        probe_ge_writer [of tbl key c l earliest] by simp
  qed (use Cons in simp)
qed simp

lemma probe_all_le:
  "earliest \<le> b \<Longrightarrow> (\<And>k c. k \<in> set keys \<Longrightarrow> tbl k = Some c \<Longrightarrow> c + l \<le> b)
    \<Longrightarrow> probe_all tbl l keys earliest \<le> b"
  by (induction keys arbitrary: earliest) (auto intro: probe_le)

lemma fold_filter_probe:
  "fold (\<lambda>x e. if P x then e else probe tbl l (f x) e) xs e
    = probe_all tbl l (map f (filter (\<lambda>x. \<not> P x) xs)) e"
  by (induction xs arbitrary: e) auto

text \<open>The keys under which an instruction reads and writes in each of the three tables.\<close>

definition cke_reads :: "CcuInstr \<Rightarrow> u32 list" where
  "cke_reads instr = map RegKey (filter (\<lambda>x. \<not> (op_isDef x \<or> op_type x \<noteq> CKE)) (ExtractOperandsV2 instr))"

definition cke_writes :: "CcuInstr \<Rightarrow> u32 list" where
  "cke_writes instr = map RegKey (filter (\<lambda>x. \<not> (\<not> op_isDef x \<or> op_type x \<noteq> CKE)) (ExtractOperandsV2 instr))"

definition xn_reads :: "PinnedGroup list option \<Rightarrow> CcuInstr \<Rightarrow> u32 list" where
  "xn_reads pgs instr =
    map (\<lambda>x. XnGroupKey (op_regId x) pgs)
      (filter (\<lambda>x. \<not> (op_isDef x \<or> op_type x \<noteq> XN)) (ExtractOperandsV2 instr))
    @ (if IsClearX instr then [ClearX_key instr] else [])"

definition xn_writes :: "PinnedGroup list option \<Rightarrow> CcuInstr \<Rightarrow> u32 list" where
  "xn_writes pgs instr =
    map (\<lambda>x. XnGroupKey (op_regId x) pgs)
      (filter (\<lambda>x. \<not> (\<not> op_isDef x \<or> op_type x \<noteq> XN)) (ExtractOperandsV2 instr))
    @ (if IsClearX instr then [ClearX_key instr] else [])"

definition is_lsx :: "CcuInstr \<Rightarrow> bool" where
  "is_lsx instr \<longleftrightarrow> IsLoadX instr \<or> IsStoreX instr \<or> IsClearX instr"

lemma EarliestCke_eq:
  "EarliestCkeIssueCycle st (ExtractOperandsV2 instr)
    = probe_all (lastCkeWriterCycle st) 14 (cke_reads instr) (cycle st)"
  by (simp add: EarliestCkeIssueCycle_def cke_reads_def fold_filter_probe)

lemma EarliestXn_eq:
  "EarliestXnIssueCycle st instr (ExtractOperandsV2 instr)
    = probe_all (lastXnWriterCycle st) 14 (xn_reads (pinnedGroups st) instr) (cycle st)"
  by (simp add: EarliestXnIssueCycle_def xn_reads_def fold_filter_probe Let_def)

lemma EarliestXnReadByLsx_eq:
  "EarliestXnReadByLsxCycle st instr (ExtractOperandsV2 instr)
    = (if is_lsx instr
       then probe_all (lastAnyXnWriterCycle st) 14 (xn_reads (pinnedGroups st) instr) (cycle st)
       else cycle st)"
  by (simp add: EarliestXnReadByLsxCycle_def xn_reads_def is_lsx_def fold_filter_probe Let_def)

definition protected_at :: "CkeOnlyState \<Rightarrow> nat \<Rightarrow> bool" where
  "protected_at st k \<longleftrightarrow> k < length (relJmpProtected st) \<and> relJmpProtected st ! k"

definition issue_at :: "CkeOnlyState \<Rightarrow> CcuInstr \<Rightarrow> nat \<Rightarrow> int" where
  "issue_at st instr k =
    (if protected_at st k then cycle st
     else max (probe_all (lastCkeWriterCycle st) 14 (cke_reads instr) (cycle st))
         (max (probe_all (lastXnWriterCycle st) 14 (xn_reads (pinnedGroups st) instr) (cycle st))
              (if is_lsx instr
               then probe_all (lastAnyXnWriterCycle st) 14 (xn_reads (pinnedGroups st) instr) (cycle st)
               else cycle st)))"

lemma issue_at_ge: "cycle st \<le> issue_at st instr k"
  using probe_all_ge by (auto simp: issue_at_def le_max_iff_disj)

text \<open>The NOPs that a state receives on the way to cycle \<open>c\<close>.\<close>

definition pad_to :: "int \<Rightarrow> CkeOnlyState \<Rightarrow> CkeOnlyState" where
  "pad_to c st =
    (let m = nat (c - cycle st)
     in st\<lparr>outVec := outVec st @ replicate m MakeNop,
           stats := (stats st)\<lparr>originIndex := originIndex (stats st) @ replicate m (-1),
                              nopInserted := nopInserted (stats st) + of_nat m\<rparr>,
           cycle := cycle st + int m\<rparr>)"

lemma pad_to_EmitNop:
  assumes "cycle st < c"
  shows "pad_to c (EmitNop st) = pad_to c st"
proof -
  have "nat (c - cycle st) = Suc (nat (c - (cycle st + 1)))"
    using assms by simp
  then show ?thesis
    by (simp add: pad_to_def EmitNop_def Let_def replicate_append_same)
qed

lemma EmitNops_eq: "EmitNops c st = pad_to c st"
proof (induction c st rule: EmitNops.induct)
  case (1 c st)
  then show ?case
    by (subst EmitNops.simps) (auto simp: pad_to_EmitNop, simp add: pad_to_def)
qed

lemma fold_filter_upd:
  "fold (\<lambda>x t. if P x then t else t(f x \<mapsto> c)) xs t
    = (\<lambda>k. if k \<in> set (map f (filter (\<lambda>x. \<not> P x) xs)) then Some c else t k)"
  by (induction xs arbitrary: t) (auto simp: fun_eq_iff)

lemma fold_upd:
  "fold (\<lambda>k t. t(k \<mapsto> c)) xs t = (\<lambda>k. if k \<in> set xs then Some c else t k)"
  by (induction xs arbitrary: t) (auto simp: fun_eq_iff)

lemma EmitInstr_fields [simp]:
  "outVec (EmitInstr st instr ops k) = outVec st @ [instr]"
  "origToOut (EmitInstr st instr ops k) = (origToOut st)[k := int (length (outVec st))]"
  "originIndex (stats (EmitInstr st instr ops k)) = originIndex (stats st) @ [int k]"
  "nopInserted (stats (EmitInstr st instr ops k)) = nopInserted (stats st)"
  "relJmpProtected (EmitInstr st instr ops k) = relJmpProtected st"
  "pinnedGroups (EmitInstr st instr ops k) = pinnedGroups st"
  "cycle (EmitInstr st instr ops k) = cycle st + 1"
  by (simp_all add: EmitInstr_def Let_def)

lemma EmitInstr_lastCke:
  "lastCkeWriterCycle (EmitInstr st instr (ExtractOperandsV2 instr) k) =
    (\<lambda>x. if x \<in> set (cke_writes instr) then Some (cycle st) else lastCkeWriterCycle st x)"
  unfolding cke_writes_def fold_filter_upd [symmetric] by (simp add: EmitInstr_def Let_def cong: if_cong)

lemma EmitInstr_lastXn:
  "lastXnWriterCycle (EmitInstr st instr ops k) =
    (\<lambda>x. if x \<in> set (CollectXnWriterKeys instr (pinnedGroups st)) then Some (cycle st)
         else lastXnWriterCycle st x)"
  unfolding fold_upd [symmetric] by (simp add: EmitInstr_def Let_def cong: if_cong)

lemma EmitInstr_lastAny:
  "lastAnyXnWriterCycle (EmitInstr st instr (ExtractOperandsV2 instr) k) =
    (\<lambda>x. if x \<in> set (xn_writes (pinnedGroups st) instr) then Some (cycle st)
         else lastAnyXnWriterCycle st x)"
proof -
  have clear: "(\<lambda>x. if x \<in> set (xs @ [y]) then Some c else t x)
      = (\<lambda>x. if x \<in> set xs then Some c else t x)(y \<mapsto> c)" for xs and y :: u32 and c :: int and t
    by (auto simp: fun_eq_iff)
  show ?thesis
  proof (cases "IsClearX instr")
    case True
    then show ?thesis
      unfolding xn_writes_def if_P [OF True] clear fold_filter_upd [symmetric]
      by (simp add: EmitInstr_def Let_def cong: if_cong)
  next
    case False
    then show ?thesis
      unfolding xn_writes_def if_not_P [OF False] append_Nil2 fold_filter_upd [symmetric]
      by (simp add: EmitInstr_def Let_def cong: if_cong)
  qed
qed

lemmas EmitInstr_tables = EmitInstr_lastCke EmitInstr_lastXn EmitInstr_lastAny

lemma pad_to_fields [simp]:
  "outVec (pad_to c st) = outVec st @ replicate (nat (c - cycle st)) MakeNop"
  "origToOut (pad_to c st) = origToOut st"
  "originIndex (stats (pad_to c st)) = originIndex (stats st) @ replicate (nat (c - cycle st)) (-1)"
  "nopInserted (stats (pad_to c st)) = nopInserted (stats st) + of_nat (nat (c - cycle st))"
  "relJmpProtected (pad_to c st) = relJmpProtected st"
  "pinnedGroups (pad_to c st) = pinnedGroups st"
  "lastCkeWriterCycle (pad_to c st) = lastCkeWriterCycle st"
  "lastXnWriterCycle (pad_to c st) = lastXnWriterCycle st"
  "lastAnyXnWriterCycle (pad_to c st) = lastAnyXnWriterCycle st"
  "cycle st \<le> c \<Longrightarrow> cycle (pad_to c st) = c"
  by (simp_all add: pad_to_def Let_def)

lemma ScheduleOneCkeInstr_pad:
  "ScheduleOneCkeInstr st instr k =
    EmitInstr (pad_to (issue_at st instr k) st) instr (ExtractOperandsV2 instr) k"
proof -
  have max3: "(if (if a < b then b else a) < c then c else if a < b then b else a) = max a (max b c)"
    for a b c :: int
    by auto
  show ?thesis
    unfolding ScheduleOneCkeInstr_def Let_def EarliestCke_eq EarliestXn_eq EarliestXnReadByLsx_eq
      EmitNops_eq max3 protected_at_def [symmetric]
    by (simp add: issue_at_def pad_to_def [of "cycle st"])
qed

subsection \<open>The run\<close>

definition sched_run :: "PinnedGroup list option \<Rightarrow> CcuInstr list \<Rightarrow> nat \<Rightarrow> CkeOnlyState" where
  "sched_run pgs vec i =
    fold (\<lambda>k st. ScheduleOneCkeInstr st (vec ! k) k) [0..<i]
      (CkeOnlyState_init (length vec) (MarkRelJmpProtectedRanges vec) pgs)"

definition issue_cycle :: "PinnedGroup list option \<Rightarrow> CcuInstr list \<Rightarrow> nat \<Rightarrow> int" where
  "issue_cycle pgs vec k = issue_at (sched_run pgs vec k) (vec ! k) k"

definition gap :: "PinnedGroup list option \<Rightarrow> CcuInstr list \<Rightarrow> nat \<Rightarrow> nat" where
  "gap pgs vec k = nat (issue_cycle pgs vec k - cycle (sched_run pgs vec k))"

lemma sched_run_0:
  "sched_run pgs vec 0 = CkeOnlyState_init (length vec) (MarkRelJmpProtectedRanges vec) pgs"
  by (simp add: sched_run_def)

lemma sched_run_Suc:
  "sched_run pgs vec (Suc i) = ScheduleOneCkeInstr (sched_run pgs vec i) (vec ! i) i"
  by (simp add: sched_run_def)

lemma sched_run_const [simp]:
  "relJmpProtected (sched_run pgs vec i) = MarkRelJmpProtectedRanges vec"
  "pinnedGroups (sched_run pgs vec i) = pgs"
  by (induction i)
    (simp_all add: sched_run_0 sched_run_Suc CkeOnlyState_init_def ScheduleOneCkeInstr_pad)

lemma sched_run_Suc_fields:
  "outVec (sched_run pgs vec (Suc i)) =
    outVec (sched_run pgs vec i) @ replicate (gap pgs vec i) MakeNop @ [vec ! i]"
  "originIndex (stats (sched_run pgs vec (Suc i))) =
    originIndex (stats (sched_run pgs vec i)) @ replicate (gap pgs vec i) (-1) @ [int i]"
  "nopInserted (stats (sched_run pgs vec (Suc i))) =
    nopInserted (stats (sched_run pgs vec i)) + of_nat (gap pgs vec i)"
  "origToOut (sched_run pgs vec (Suc i)) =
    (origToOut (sched_run pgs vec i))[i := int (length (outVec (sched_run pgs vec i)) + gap pgs vec i)]"
  "lastCkeWriterCycle (sched_run pgs vec (Suc i)) =
    (\<lambda>x. if x \<in> set (cke_writes (vec ! i)) then Some (issue_cycle pgs vec i)
         else lastCkeWriterCycle (sched_run pgs vec i) x)"
  "lastXnWriterCycle (sched_run pgs vec (Suc i)) =
    (\<lambda>x. if x \<in> set (CollectXnWriterKeys (vec ! i) pgs) then Some (issue_cycle pgs vec i)
         else lastXnWriterCycle (sched_run pgs vec i) x)"
  "lastAnyXnWriterCycle (sched_run pgs vec (Suc i)) =
    (\<lambda>x. if x \<in> set (xn_writes pgs (vec ! i)) then Some (issue_cycle pgs vec i)
         else lastAnyXnWriterCycle (sched_run pgs vec i) x)"
  "cycle (sched_run pgs vec (Suc i)) = issue_cycle pgs vec i + 1"
  by (simp_all add: sched_run_Suc ScheduleOneCkeInstr_pad EmitInstr_tables issue_at_ge issue_cycle_def
      gap_def cong: if_cong)

lemma sched_run_0_fields:
  "outVec (sched_run pgs vec 0) = []"
  "originIndex (stats (sched_run pgs vec 0)) = []"
  "nopInserted (stats (sched_run pgs vec 0)) = 0"
  "origToOut (sched_run pgs vec 0) = replicate (length vec) (-1)"
  "lastCkeWriterCycle (sched_run pgs vec 0) = Map.empty"
  "lastXnWriterCycle (sched_run pgs vec 0) = Map.empty"
  "lastAnyXnWriterCycle (sched_run pgs vec 0) = Map.empty"
  "cycle (sched_run pgs vec 0) = 0"
  by (simp_all add: sched_run_0 CkeOnlyState_init_def SchedulerStats_init_def)

lemmas sched_run_fields = sched_run_0_fields sched_run_Suc_fields

lemma issue_cycle_ge: "cycle (sched_run pgs vec k) \<le> issue_cycle pgs vec k"
  by (simp add: issue_cycle_def issue_at_ge)

lemma gap_int: "int (gap pgs vec k) = issue_cycle pgs vec k - cycle (sched_run pgs vec k)"
  using issue_cycle_ge [of pgs vec k] by (simp add: gap_def)

text \<open>The cycle counter counts the emitted instructions.\<close>

lemma sched_run_sizes:
  "cycle (sched_run pgs vec i) = int (length (outVec (sched_run pgs vec i)))
    \<and> length (originIndex (stats (sched_run pgs vec i))) = length (outVec (sched_run pgs vec i))
    \<and> length (origToOut (sched_run pgs vec i)) = length vec"
  by (induction i) (simp_all add: sched_run_fields gap_int)

lemmas cycle_eq_length = sched_run_sizes [THEN conjunct1]
lemmas length_originIndex = sched_run_sizes [THEN conjunct2, THEN conjunct1]
lemmas length_origToOut = sched_run_sizes [THEN conjunct2, THEN conjunct2]

lemma issue_cycle_eq:
  "issue_cycle pgs vec k = int (length (outVec (sched_run pgs vec k)) + gap pgs vec k)"
  using gap_int [of pgs vec k] by (simp add: cycle_eq_length)

lemma issue_cycle_nonneg [simp]: "0 \<le> issue_cycle pgs vec k"
  by (simp add: issue_cycle_eq)

lemma issue_cycle_less_Suc: "issue_cycle pgs vec k < issue_cycle pgs vec (Suc k)"
  using issue_cycle_ge [of pgs vec "Suc k"] by (simp add: sched_run_fields)

lemma issue_cycle_strict_mono: "j < k \<Longrightarrow> issue_cycle pgs vec j < issue_cycle pgs vec k"
  by (induction rule: less_Suc_induct) (auto intro: issue_cycle_less_Suc)

lemma issue_cycle_inj [simp]: "issue_cycle pgs vec j = issue_cycle pgs vec k \<longleftrightarrow> j = k"
  using issue_cycle_strict_mono by (metis less_irrefl not_less_iff_gr_or_eq)

lemma issue_cycle_less_length:
  "k < i \<Longrightarrow> issue_cycle pgs vec k < int (length (outVec (sched_run pgs vec i)))"
proof (induction i)
  case (Suc i)
  show ?case
  proof (cases "k = i")
    case True
    then show ?thesis
      by (simp add: sched_run_fields issue_cycle_eq)
  next
    case False
    then have "issue_cycle pgs vec k < int (length (outVec (sched_run pgs vec i)))"
      using Suc by simp
    also have "\<dots> \<le> int (length (outVec (sched_run pgs vec (Suc i))))"
      by (simp add: sched_run_fields)
    finally show ?thesis .
  qed
qed simp

lemma origToOut_nth:
  "i \<le> length vec \<Longrightarrow> k < length vec
    \<Longrightarrow> origToOut (sched_run pgs vec i) ! k = (if k < i then issue_cycle pgs vec k else -1)"
  by (induction i)
    (auto simp: sched_run_fields length_origToOut nth_list_update issue_cycle_eq less_Suc_eq)

text \<open>Every slot of the output is an instruction of the input or an inserted NOP.\<close>

lemma sched_run_slot_issue:
  "k < i \<Longrightarrow> outVec (sched_run pgs vec i) ! nat (issue_cycle pgs vec k) = vec ! k
    \<and> originIndex (stats (sched_run pgs vec i)) ! nat (issue_cycle pgs vec k) = int k"
proof (induction i)
  case (Suc i)
  have nat_issue: "nat (issue_cycle pgs vec i) = length (outVec (sched_run pgs vec i)) + gap pgs vec i"
    by (simp add: issue_cycle_eq nat_add_distrib)
  show ?case
  proof (cases "k = i")
    case True
    then show ?thesis
      by (simp add: sched_run_fields nat_issue nth_append length_originIndex)
  next
    case False
    then have "nat (issue_cycle pgs vec k) < length (outVec (sched_run pgs vec i))"
      using Suc.prems issue_cycle_less_length [of k i pgs vec] by (simp add: nat_less_iff)
    then show ?thesis
      using Suc False by (simp add: sched_run_fields nth_append length_originIndex)
  qed
qed simp

lemma sched_run_slot_cases:
  "p < length (outVec (sched_run pgs vec i)) \<Longrightarrow>
    (\<exists>k<i. issue_cycle pgs vec k = int p) \<or>
    (outVec (sched_run pgs vec i) ! p = MakeNop \<and> originIndex (stats (sched_run pgs vec i)) ! p = -1)"
proof (induction i)
  case (Suc i)
  let ?m = "length (outVec (sched_run pgs vec i))"
  consider "p < ?m" | "?m \<le> p" "p < ?m + gap pgs vec i" | "p = ?m + gap pgs vec i"
    using Suc.prems by (fastforce simp: sched_run_fields)
  then show ?case
  proof cases
    case 1
    then show ?thesis
      using Suc.IH by (auto simp: sched_run_fields nth_append length_originIndex less_SucI)
  next
    case 2
    then show ?thesis
      by (auto simp: sched_run_fields nth_append length_originIndex)
  next
    case 3
    then show ?thesis
      using issue_cycle_eq [of pgs vec i] by auto
  qed
qed (simp add: sched_run_fields)

lemma sched_run_erase:
  "i \<le> length vec \<Longrightarrow>
    filter (\<lambda>(o1, _). o1 \<noteq> -1)
      (zip (originIndex (stats (sched_run pgs vec i))) (outVec (sched_run pgs vec i)))
    = zip (map int [0..<i]) (take i vec)"
proof (induction i)
  case (Suc i)
  have "zip (replicate (gap pgs vec i) (-1)) (replicate (gap pgs vec i) MakeNop)
      = replicate (gap pgs vec i) (-1 :: int, MakeNop)"
    by (simp add: zip_replicate)
  then show ?case
    using Suc by (simp add: sched_run_fields length_originIndex take_Suc_conv_app_nth)
qed (simp add: sched_run_fields)

lemma nopInserted_eq:
  "nopInserted (stats (sched_run pgs vec i)) = of_nat (length (outVec (sched_run pgs vec i)) - i)
    \<and> i \<le> length (outVec (sched_run pgs vec i))"
proof (induction i)
  case (Suc i)
  let ?m = "length (outVec (sched_run pgs vec i))"
  have "?m + Suc (gap pgs vec i) - Suc i = (?m - i) + gap pgs vec i"
    using Suc by simp
  then show ?case
    using Suc by (simp add: sched_run_fields)
qed (simp add: sched_run_fields)

end
