(* ===== verification/Scheduler_References.thy ===== *)
theory Scheduler_References
  imports Scheduler_Run
begin

text \<open>
  The second pass of the scheduler. \<open>ref_equiv\<close> says what it may change in an instruction: the
  immediate of a LoadImdToXn and the instruction ids of a Loop or LoopGroup. The locale
  \<open>placement\<close> is the contract between the two passes, a table that puts every instruction of the
  input at a place of the output, in order; the lemmas on the second pass are proved from it, and
  it is interpreted on the result of the first pass.
\<close>

subsection \<open>What the second pass may change\<close>

definition IsLoop :: "CcuInstr \<Rightarrow> bool" where
  "IsLoop instr \<longleftrightarrow> hdr_type (header instr) = CTRL_TYPE \<and> hdr_code (header instr) = LOOP_CODE"

definition IsLoopGroup :: "CcuInstr \<Rightarrow> bool" where
  "IsLoopGroup instr \<longleftrightarrow>
    hdr_type (header instr) = CTRL_TYPE \<and> hdr_code (header instr) = LOOPGROUP_CODE"

lemma instr_classes_disjoint:
  "IsLoadImd a \<Longrightarrow> \<not> IsLoop a \<and> \<not> IsLoopGroup a \<and> \<not> IsCtrlJmp a"
  "IsLoop a \<Longrightarrow> \<not> IsLoadImd a \<and> \<not> IsLoopGroup a \<and> \<not> IsCtrlJmp a"
  "IsLoopGroup a \<Longrightarrow> \<not> IsLoadImd a \<and> \<not> IsLoop a \<and> \<not> IsCtrlJmp a"
  by (auto simp: IsLoadImd_def IsLoop_def IsLoopGroup_def IsCtrlJmp_def)

text \<open>Two instructions agree on the members of a struct that are not in \<open>F\<close>.\<close>

definition agree :: "layout \<Rightarrow> string set \<Rightarrow> CcuInstr \<Rightarrow> CcuInstr \<Rightarrow> bool" where
  "agree L F a b \<longleftrightarrow> (\<forall>f. f \<notin> F \<longrightarrow> get L f b = (get L f a :: 240 word))"

lemma agree_get:
  assumes "agree L F a b" and "f \<notin> F"
  shows "get L f b = (get L f a :: 'a::len word)"
proof -
  have "get L f i = (ucast (get L f i :: 240 word) :: 'a word)" for i
    by (simp add: get_def)
  then show ?thesis
    using assms by (metis agree_def)
qed

lemma agree_refl [simp]: "agree L F a a"
  by (simp add: agree_def)

lemma agree_put:
  assumes "instr_layout L" and "f \<in> F" and "agree L F a b"
  shows "agree L F a (put L f v b)"
  unfolding agree_def
proof (intro allI impI)
  fix g
  assume g: "g \<notin> F"
  then have "get L g (put L f v b) = (get L g b :: 240 word)"
    using assms(1,2) by (intro instr_layout.get_put_other) auto
  then show "get L g (put L f v b) = (get L g a :: 240 word)"
    using assms(3) g by (simp add: agree_def)
qed

definition ref_equiv :: "CcuInstr \<Rightarrow> CcuInstr \<Rightarrow> bool" where
  "ref_equiv a b \<longleftrightarrow> header b = header a \<and>
    (if IsLoadImd a then agree CcuV2_CcuInstrLoadImdToX {''immediate''} a b
     else if IsLoop a then agree CcuV2_CcuInstrLoop {''startInstrId'', ''endInstrId''} a b
     else if IsLoopGroup a then agree CcuV2_CcuInstrLoopGroup {''startLoopInstrId''} a b
     else b = a)"

lemma ref_equiv_refl [simp]: "ref_equiv a a"
  by (simp add: ref_equiv_def)

lemma ref_equiv_header: "ref_equiv a b \<Longrightarrow> header b = header a"
  by (simp add: ref_equiv_def)

lemma ref_equiv_classes:
  "ref_equiv a b \<Longrightarrow> IsLoadImd b = IsLoadImd a \<and> IsLoop b = IsLoop a \<and> IsLoopGroup b = IsLoopGroup a
    \<and> IsLoadX b = IsLoadX a \<and> IsStoreX b = IsStoreX a \<and> IsClearX b = IsClearX a"
  by (simp add: ref_equiv_header IsLoadImd_def IsLoop_def IsLoopGroup_def IsLoadX_def IsStoreX_def
      IsClearX_def)

lemma ref_equiv_set_immediate:
  "ref_equiv a b \<Longrightarrow> IsLoadImd a \<Longrightarrow> ref_equiv a (set_immediate v b)"
  by (simp add: ref_equiv_def agree_put v2LoadImdToX.instr_layout_axioms)

lemma ref_equiv_set_loop:
  "ref_equiv a b \<Longrightarrow> IsLoop a \<Longrightarrow> ref_equiv a
    (put CcuV2_CcuInstrLoop ''endInstrId'' e (put CcuV2_CcuInstrLoop ''startInstrId'' s b))"
  using instr_classes_disjoint(2) [of a]
  by (simp add: ref_equiv_def agree_put v2Loop.instr_layout_axioms)

lemma ref_equiv_set_loopGroup:
  "ref_equiv a b \<Longrightarrow> IsLoopGroup a \<Longrightarrow> ref_equiv a
    (put CcuV2_CcuInstrLoopGroup ''startLoopInstrId'' s b)"
  using instr_classes_disjoint(3) [of a]
  by (simp add: ref_equiv_def agree_put v2LoopGroup.instr_layout_axioms)

lemma ExtractOperandsV2_loadImd:
  "IsLoadImd a \<Longrightarrow> ExtractOperandsV2 a = [Wr XN (get CcuV2_CcuInstrLoadImdToX ''xnId'' a)]"
  by (simp add: IsLoadImd_def extract_class_defs)

lemma ExtractOperandsV2_loop:
  "IsLoop a \<Longrightarrow> ExtractOperandsV2 a =
    [Rd XN (get CcuV2_CcuInstrLoop ''xmId'' a), Rd XN (get CcuV2_CcuInstrLoop ''xnId'' a),
     Rd XN (get CcuV2_CcuInstrLoop ''xpId'' a)]"
  by (simp add: IsLoop_def extract_class_defs)

lemma ExtractOperandsV2_loopGroup:
  "IsLoopGroup a \<Longrightarrow> ExtractOperandsV2 a =
    [Rd XN (get CcuV2_CcuInstrLoopGroup ''xnId'' a), Rd XN (get CcuV2_CcuInstrLoopGroup ''xmId'' a),
     Rd XN (get CcuV2_CcuInstrLoopGroup ''xpId'' a)]"
  by (simp add: IsLoopGroup_def extract_class_defs)

text \<open>The register operands survive the second pass.\<close>

lemma ref_equiv_operands:
  assumes eq: "ref_equiv a b"
  shows "ExtractOperandsV2 b = ExtractOperandsV2 a"
proof -
  note same = ref_equiv_classes [OF eq]
  consider "IsLoadImd a" | "\<not> IsLoadImd a" "IsLoop a" | "\<not> IsLoadImd a" "\<not> IsLoop a" "IsLoopGroup a"
    | "b = a"
    using eq by (auto simp: ref_equiv_def split: if_splits)
  then show ?thesis
  proof cases
    case 1
    then show ?thesis
      using eq same
      by (simp add: ref_equiv_def ExtractOperandsV2_loadImd
          agree_get [of CcuV2_CcuInstrLoadImdToX "{''immediate''}" a b])
  next
    case 2
    then show ?thesis
      using eq same
      by (simp add: ref_equiv_def ExtractOperandsV2_loop
          agree_get [of CcuV2_CcuInstrLoop "{''startInstrId'', ''endInstrId''}" a b])
  next
    case 3
    then show ?thesis
      using eq same
      by (simp add: ref_equiv_def ExtractOperandsV2_loopGroup
          agree_get [of CcuV2_CcuInstrLoopGroup "{''startLoopInstrId''}" a b])
  qed simp
qed

lemma list_all2_update:
  assumes "list_all2 R xs ys" and "p < length xs" and "R (xs ! p) y"
  shows "list_all2 R xs (ys[p := y])"
  using assms by (auto simp: list_all2_conv_all_nth nth_list_update)

subsection \<open>The instructions that a jump's repair looks for\<close>

lemma FindOffsetLoader_loop_bounds:
  "FindOffsetLoader_loop vec x j = -1 \<or>
   (\<exists>l<j. FindOffsetLoader_loop vec x j = int l \<and> IsLoadImd (vec ! l)
     \<and> get CcuV2_CcuInstrLoadImdToX ''xnId'' (vec ! l) = x
     \<and> (\<forall>i. l < i \<and> i < j \<longrightarrow> Wr XN x \<notin> set (ExtractOperandsV2 (vec ! i))))"
proof (induction j)
  case (Suc j)
  show ?case
  proof (cases "IsLoadImd (vec ! j) \<and> get CcuV2_CcuInstrLoadImdToX ''xnId'' (vec ! j) = x")
    case True
    then show ?thesis
      by (intro disjI2 exI [of _ j]) (auto simp: IsLoadImd_def)
  next
    case not_loader: False
    show ?thesis
    proof (cases "\<exists>op \<in> set (ExtractOperandsV2 (vec ! j)). op_isDef op \<and> op_type op = XN \<and> op_regId op = x")
      case True
      then show ?thesis
        using not_loader by (auto simp: IsLoadImd_def Let_def)
    next
      case False
      then have skip: "FindOffsetLoader_loop vec x (Suc j) = FindOffsetLoader_loop vec x j"
        using not_loader by (auto simp: IsLoadImd_def Let_def)
      have "Wr XN x \<notin> set (ExtractOperandsV2 (vec ! j))"
        using False by force
      then show ?thesis
        using Suc.IH unfolding skip by (metis less_Suc_eq)
    qed
  qed
qed simp

lemma FindOffsetLoader_cases:
  obtains "FindOffsetLoaderOrigIdx vec j x = -1"
  | l where "l < j" "FindOffsetLoaderOrigIdx vec j x = int l" "IsLoadImd (vec ! l)"
      "get CcuV2_CcuInstrLoadImdToX ''xnId'' (vec ! l) = x"
  using FindOffsetLoader_loop_bounds [of vec x j] unfolding FindOffsetLoaderOrigIdx_def by blast

text \<open>The instruction that \<open>FixRelJmp_target\<close> rewrites, if any.\<close>

fun RelJmp_target_loader :: "CcuInstr list \<Rightarrow> u16 \<Rightarrow> nat \<Rightarrow> nat option" where
  "RelJmp_target_loader vec x 0 = None"
| "RelJmp_target_loader vec x (Suc j) =
    (if IsLoadImd (vec ! j) \<and> get CcuV2_CcuInstrLoadImdToX ''xnId'' (vec ! j) = x then Some j
     else if (IsArith (vec ! j) ADD_CODE \<or> IsArith (vec ! j) SUB_CODE)
       \<and> get CcuV2_CcuInstrOperator ''xdId'' (vec ! j) = x then None
     else RelJmp_target_loader vec x j)"

lemma RelJmp_target_loader_Some:
  "RelJmp_target_loader vec x j = Some l \<Longrightarrow> l < j \<and> IsLoadImd (vec ! l)
    \<and> get CcuV2_CcuInstrLoadImdToX ''xnId'' (vec ! l) = x"
  by (induction j) (auto split: if_splits)

lemma FixRelJmp_target_eq:
  "FixRelJmp_target vec o2o match remapId j out =
    (case RelJmp_target_loader vec (match_targetXn match) j of
       None \<Rightarrow> out
     | Some l \<Rightarrow> if o2o ! l \<ge> 0 then RemapRelJmpTargetImmediate match (o2o ! l) out remapId else out)"
  by (induction j) (auto simp: IsLoadImd_def IsArith_def Let_def)

lemma MatchRelJmp_facts:
  assumes "matched (MatchRelJmpTemplate vec i)"
  shows "p0 (MatchRelJmpTemplate vec i) = i - 2" "p3 (MatchRelJmpTemplate vec i) = i + 1"
    "2 \<le> i" "i + 5 < length vec" "IsCtrlJmp (vec ! i)" "IsLoadImd (vec ! (i - 2))"
    "IsLoadImd (vec ! (i + 1))"
    "match_xn0 (MatchRelJmpTemplate vec i) = get CcuV2_CcuInstrJmp ''expectedXnId'' (vec ! i)"
    "match_targetXn (MatchRelJmpTemplate vec i) = get CcuV2_CcuInstrJmp ''conditionXnId'' (vec ! i)"
  using assms
  by (auto simp: MatchRelJmpTemplate_def RelJmpMatch_none_def Let_def CheckRelJmpHead_def
      CheckRelJmpTail_def split: if_splits)

text \<open>The instructions of the input that the repair of the \<open>k\<close>-th one may rewrite.\<close>

definition touched :: "CcuInstr list \<Rightarrow> bool list \<Rightarrow> nat \<Rightarrow> nat set" where
  "touched vec prot k =
    (if IsLoop (vec ! k) \<or> IsLoopGroup (vec ! k) then {k}
     else if \<not> IsCtrlJmp (vec ! k) \<or> get CcuV2_CcuInstrJmp ''jumpMode'' (vec ! k) \<noteq> (0 :: u16) then {}
     else if matched (MatchRelJmpTemplate vec k) then
       {k - 2, k + 1} \<union> set_option (RelJmp_target_loader vec
         (match_targetXn (MatchRelJmpTemplate vec k)) (k - 2))
     else if k < length prot \<and> prot ! k then {}
     else {l. FindOffsetLoaderOrigIdx vec k
             (get CcuV2_CcuInstrJmp ''relTarInstrXnId'' (vec ! k)) = int l})"


subsection \<open>Arithmetic of ids and offsets\<close>

lemma plain_offset_uint:
  "uint ((of_int t + kInstrIdSpace - of_int j :: u64) mod kInstrIdSpace) = (t - j) mod 0x10000"
proof -
  have "of_int t + kInstrIdSpace - of_int j = (of_int (t - j + 0x10000) :: u64)"
    by (simp add: kInstrIdSpace_def)
  then have "uint (of_int t + kInstrIdSpace - of_int j :: u64) = (t - j + 0x10000) mod 2 ^ 64"
    by (simp only: uint_word_of_int) simp
  then show ?thesis
    unfolding kInstrIdSpace_def uint_mod_space 
    by (simp add: mod_mod_cancel)
qed

lemma plain_target_unat:
  "unat ((of_nat j + off :: u64) mod kInstrIdSpace) = (j + unat off) mod 0x10000"
proof -
  have "of_nat j + off = (of_nat (j + unat off) :: u64)"
    by simp
  then have "unat (of_nat j + off :: u64) = (j + unat off) mod 2 ^ 64"
    by (simp only: unat_of_nat) simp
  then show ?thesis
    by (simp add: kInstrIdSpace_def unat_mod mod_mod_cancel)
qed
lemma remapGlobal_in:
  assumes "unat startId + a < 2 ^ 16" and "a < length o2o" and "0 \<le> o2o ! a"
  shows "remapGlobal startId o2o (startId + of_nat a) = of_int (uint startId + o2o ! a)"
proof -
  have g: "unat (startId + of_nat a) = unat startId + a"
    using assms(1) by (simp add: unat_word_ariths unat_of_nat)
  have ge: "\<not> startId + of_nat a < startId"
    using g by (simp add: word_less_nat_alt)
  have "unat (ucast (startId + of_nat a) - ucast startId :: u32) = a"
    using g assms(1) by (simp add: unat_sub_if' word_le_nat_alt)
  then show ?thesis
    using ge assms(2,3) by (simp add: remapGlobal_def Let_def)
qed

subsection \<open>The contract between the passes\<close>

locale placement =
  fixes vec :: "CcuInstr list" and o2o :: "int list" and out0 :: "CcuInstr list"
  assumes o2o_length: "length o2o = length vec"
    and o2o_range: "k < length vec \<Longrightarrow> 0 \<le> o2o ! k \<and> nat (o2o ! k) < length out0"
    and o2o_instr: "k < length vec \<Longrightarrow> out0 ! nat (o2o ! k) = vec ! k"
    and o2o_mono: "j < k \<Longrightarrow> k < length vec \<Longrightarrow> o2o ! j < o2o ! k"
begin

lemma o2o_nonneg [simp]: "k < length vec \<Longrightarrow> \<not> o2o ! k < 0"
  using o2o_range [of k] by simp

lemma o2o_inj:
  "j < length vec \<Longrightarrow> k < length vec \<Longrightarrow> nat (o2o ! j) = nat (o2o ! k) \<longleftrightarrow> j = k"
  using o2o_mono [of j k] o2o_mono [of k j] o2o_range [of j] o2o_range [of k]
  by (metis eq_nat_nat_iff less_irrefl nat_neq_iff)

lemma fix_update:
  assumes "list_all2 ref_equiv out0 out" and "k < length vec"
    and "ref_equiv (vec ! k) (out ! nat (o2o ! k)) \<Longrightarrow> ref_equiv (vec ! k) y"
  shows "list_all2 ref_equiv out0 (out[nat (o2o ! k) := y])"
proof (rule list_all2_update)
  show "ref_equiv (out0 ! nat (o2o ! k)) y"
    using assms o2o_range [of k] o2o_instr [of k] list_all2_nthD [OF assms(1), of "nat (o2o ! k)"]
    by simp
qed (use assms o2o_range in auto)

lemma FixPlainJumpOffset_frame:
  assumes out: "list_all2 ref_equiv out0 out" and j: "j < length vec"
  shows "list_all2 ref_equiv out0 (FixPlainJumpOffset vec o2o j out)"
proof (cases rule: FindOffsetLoader_cases
    [of vec j "get CcuV2_CcuInstrJmp ''relTarInstrXnId'' (vec ! j)"])
  case 1
  then show ?thesis
    using out by (simp add: FixPlainJumpOffset_def Let_def)
next
  case (2 l)
  then show ?thesis
    using out j fix_update [OF out, of l] ref_equiv_set_immediate
    by (auto simp: FixPlainJumpOffset_def Let_def)
qed

lemma RemapRelJmpTargetImmediate_frame:
  assumes "list_all2 ref_equiv out0 out" and "l < length vec" and "IsLoadImd (vec ! l)"
  shows "list_all2 ref_equiv out0 (RemapRelJmpTargetImmediate m (o2o ! l) out remapId)"
  using assms fix_update [OF assms(1,2)] ref_equiv_set_immediate
  by (auto simp: RemapRelJmpTargetImmediate_def Let_def)

lemma FixRelJmpFunc_frame:
  assumes out: "list_all2 ref_equiv out0 out" and m: "matched (MatchRelJmpTemplate vec j)"
  shows "list_all2 ref_equiv out0 (FixRelJmpFunc vec o2o (MatchRelJmpTemplate vec j) out remapId)"
proof -
  note mf = MatchRelJmp_facts [OF m]
  have idx: "j - 2 < length vec" "j + 1 < length vec"
    using mf by auto
  have target: "list_all2 ref_equiv out0 out' \<Longrightarrow>
      list_all2 ref_equiv out0 (FixRelJmp_target vec o2o (MatchRelJmpTemplate vec j) remapId (j - 2) out')"
    for out'
    using idx RemapRelJmpTargetImmediate_frame
    by (auto simp: FixRelJmp_target_eq dest!: RelJmp_target_loader_Some split: option.split)
  have upd: "list_all2 ref_equiv out0 out' \<Longrightarrow> k \<in> {j - 2, j + 1} \<Longrightarrow>
      list_all2 ref_equiv out0 (out'[nat (o2o ! k) := set_immediate v (out' ! nat (o2o ! k))])"
    for out' k v
    using fix_update [of out' k] idx mf ref_equiv_set_immediate by auto
  show ?thesis
    unfolding FixRelJmpFunc_def mf(1,2) Let_def
    using out idx upd [OF out, of "j - 2"] upd target by simp
qed

lemma FixOneJumpReference_frame:
  assumes "list_all2 ref_equiv out0 (instrVec out)" and "instrVec input = vec" and "j < length vec"
  shows "list_all2 ref_equiv out0 (instrVec (FixOneJumpReference input o2o prot j out remapId))"
  using assms FixRelJmpFunc_frame FixPlainJumpOffset_frame
  by (simp add: FixOneJumpReference_def Let_def)

lemma FixReferences_one_loop:
  assumes "instrVec input = vec" and "k < length vec" and "IsLoop (vec ! k)"
  shows "FixReferences_one input o2o prot k out = out\<lparr>instrVec := (instrVec out)[nat (o2o ! k) :=
    put CcuV2_CcuInstrLoop ''endInstrId''
      (remapGlobal (startInstrId input) o2o (get CcuV2_CcuInstrLoop ''endInstrId'' (vec ! k)))
      (put CcuV2_CcuInstrLoop ''startInstrId''
        (remapGlobal (startInstrId input) o2o (get CcuV2_CcuInstrLoop ''startInstrId'' (vec ! k)))
        (instrVec out ! nat (o2o ! k)))]\<rparr>"
  using assms by (simp add: FixReferences_one_def Let_def IsLoop_def)

lemma FixReferences_one_loopGroup:
  assumes "instrVec input = vec" and "k < length vec" and "IsLoopGroup (vec ! k)"
  shows "FixReferences_one input o2o prot k out = out\<lparr>instrVec := (instrVec out)[nat (o2o ! k) :=
    put CcuV2_CcuInstrLoopGroup ''startLoopInstrId''
      (remapGlobal (startInstrId input) o2o
        (get CcuV2_CcuInstrLoopGroup ''startLoopInstrId'' (vec ! k)))
      (instrVec out ! nat (o2o ! k))]\<rparr>"
  using assms by (simp add: FixReferences_one_def Let_def IsLoopGroup_def)

lemma FixReferences_one_jump:
  assumes "instrVec input = vec" and "k < length vec" and "IsCtrlJmp (vec ! k)"
  shows "FixReferences_one input o2o prot k out =
    FixOneJumpReference input o2o prot k out (remapGlobal (startInstrId input) o2o)"
  using assms by (simp add: FixReferences_one_def Let_def IsCtrlJmp_def)

lemma FixReferences_one_other:
  assumes "instrVec input = vec" and "\<not> IsLoop (vec ! k)" and "\<not> IsLoopGroup (vec ! k)"
    and "\<not> IsCtrlJmp (vec ! k)"
  shows "FixReferences_one input o2o prot k out = out"
  using assms by (auto simp: FixReferences_one_def Let_def IsLoop_def IsLoopGroup_def IsCtrlJmp_def)

lemma FixReferences_one_cases:
  obtains (loop) "IsLoop (vec ! k)" | (group) "IsLoopGroup (vec ! k)" | (jump) "IsCtrlJmp (vec ! k)"
  | (other) "\<not> IsLoop (vec ! k)" "\<not> IsLoopGroup (vec ! k)" "\<not> IsCtrlJmp (vec ! k)"
  by blast

lemma FixReferences_one_frame:
  assumes out: "list_all2 ref_equiv out0 (instrVec out)" and inp: "instrVec input = vec"
    and k: "k < length vec"
  shows "list_all2 ref_equiv out0 (instrVec (FixReferences_one input o2o prot k out))"
proof (cases rule: FixReferences_one_cases [of k])
  case loop
  then show ?thesis
    using out k by (auto simp: FixReferences_one_loop inp intro!: fix_update ref_equiv_set_loop)
next
  case group
  then show ?thesis
    using out k
    by (auto simp: FixReferences_one_loopGroup inp intro!: fix_update ref_equiv_set_loopGroup)
next
  case jump
  then show ?thesis
    using out k by (simp add: FixReferences_one_jump inp FixOneJumpReference_frame)
next
  case other
  then show ?thesis
    using out by (simp add: FixReferences_one_other inp)
qed

lemma FixReferences_fold_frame:
  assumes "list_all2 ref_equiv out0 (instrVec out)" and "instrVec input = vec"
    and "set ks \<subseteq> {..<length vec}"
  shows "list_all2 ref_equiv out0 (instrVec (fold (FixReferences_one input o2o prot) ks out))"
  using assms
proof (induction ks arbitrary: out)
  case (Cons k ks)
  then show ?case
    using FixReferences_one_frame [of out input k prot] by simp
qed simp

lemma RemapRelJmpTargetImmediate_other:
  "p \<noteq> nat (o2o ! l) \<Longrightarrow> RemapRelJmpTargetImmediate m (o2o ! l) out remapId ! p = out ! p"
  by (simp add: RemapRelJmpTargetImmediate_def Let_def)

lemma FixRelJmpFunc_other:
  assumes m: "matched (MatchRelJmpTemplate vec k)" and l: "l < length vec"
    and "l \<noteq> k - 2" and "l \<noteq> k + 1"
    and "RelJmp_target_loader vec (match_targetXn (MatchRelJmpTemplate vec k)) (k - 2) \<noteq> Some l"
  shows "FixRelJmpFunc vec o2o (MatchRelJmpTemplate vec k) out remapId ! nat (o2o ! l)
    = out ! nat (o2o ! l)"
proof -
  note mf = MatchRelJmp_facts [OF m]
  have pos: "nat (o2o ! l) \<noteq> nat (o2o ! (k - 2))" "nat (o2o ! l) \<noteq> nat (o2o ! (k + 1))"
    using assms mf o2o_inj [of l "k - 2"] o2o_inj [of l "k + 1"] by auto
  have target: "FixRelJmp_target vec o2o (MatchRelJmpTemplate vec k) remapId (k - 2) out' ! nat (o2o ! l)
      = out' ! nat (o2o ! l)" for out'
  proof (cases "RelJmp_target_loader vec (match_targetXn (MatchRelJmpTemplate vec k)) (k - 2)")
    case (Some t)
    then have "t < length vec" "t \<noteq> l"
      using RelJmp_target_loader_Some [OF Some] mf assms by auto
    then show ?thesis
      using Some o2o_inj [of l t] l RemapRelJmpTargetImmediate_other by (simp add: FixRelJmp_target_eq)
  qed (simp add: FixRelJmp_target_eq)
  show ?thesis
    unfolding FixRelJmpFunc_def mf(1,2) Let_def using pos target by simp
qed

lemma FixPlainJumpOffset_other:
  assumes "k < length vec" and "l < length vec"
    and "FindOffsetLoaderOrigIdx vec k (get CcuV2_CcuInstrJmp ''relTarInstrXnId'' (vec ! k)) \<noteq> int l"
  shows "FixPlainJumpOffset vec o2o k out ! nat (o2o ! l) = out ! nat (o2o ! l)"
proof (cases rule: FindOffsetLoader_cases
    [of vec k "get CcuV2_CcuInstrJmp ''relTarInstrXnId'' (vec ! k)"])
  case 1
  then show ?thesis
    by (simp add: FixPlainJumpOffset_def Let_def)
next
  case (2 t)
  then show ?thesis
    using assms o2o_inj [of l t] by (auto simp: FixPlainJumpOffset_def Let_def)
qed

lemma FixReferences_one_untouched:
  assumes inp: "instrVec input = vec" and k: "k < length vec" and l: "l < length vec"
    and nt: "l \<notin> touched vec prot k"
  shows "instrVec (FixReferences_one input o2o prot k out) ! nat (o2o ! l)
    = instrVec out ! nat (o2o ! l)"
proof (cases rule: FixReferences_one_cases [of k])
  case loop
  then show ?thesis
    using nt k l o2o_inj [of l k] by (simp add: FixReferences_one_loop inp touched_def)
next
  case group
  then show ?thesis
    using nt k l o2o_inj [of l k] by (simp add: FixReferences_one_loopGroup inp touched_def)
next
  case jump
  then have "\<not> IsLoop (vec ! k) \<and> \<not> IsLoopGroup (vec ! k)"
    using instr_classes_disjoint by blast
  then show ?thesis
    using jump nt k l FixRelJmpFunc_other [of k l] FixPlainJumpOffset_other [of k l]
    by (auto simp: FixReferences_one_jump inp FixOneJumpReference_def Let_def touched_def)
next
  case other
  then show ?thesis
    by (simp add: FixReferences_one_other inp)
qed

lemma FixReferences_fold_untouched:
  assumes "instrVec input = vec" and "l < length vec"
    and "\<And>k. k \<in> set ks \<Longrightarrow> k < length vec \<and> l \<notin> touched vec prot k"
  shows "instrVec (fold (FixReferences_one input o2o prot) ks out) ! nat (o2o ! l)
    = instrVec out ! nat (o2o ! l)"
  using assms by (induction ks arbitrary: out) (simp_all add: FixReferences_one_untouched)

text \<open>An instruction that only the repair of the \<open>k\<close>-th one touches is, in the end, what that
  repair made of the original.\<close>

lemma FixReferences_fold_only:
  assumes inp: "instrVec input = vec" and out: "list_all2 ref_equiv out0 (instrVec out)"
    and same: "instrVec out ! nat (o2o ! l) = vec ! l"
    and k: "k < length vec" and l: "l < length vec"
    and only: "\<And>k'. k' < length vec \<Longrightarrow> k' \<noteq> k \<Longrightarrow> l \<notin> touched vec prot k'"
  obtains out' where "list_all2 ref_equiv out0 (instrVec out')"
    and "out' = fold (FixReferences_one input o2o prot) [0..<k] out"
    and "instrVec out' ! nat (o2o ! l) = vec ! l"
    and "instrVec (fold (FixReferences_one input o2o prot) [0..<length vec] out) ! nat (o2o ! l)
      = instrVec (FixReferences_one input o2o prot k out') ! nat (o2o ! l)"
proof
  define out' where "out' = fold (FixReferences_one input o2o prot) [0..<k] out"
  show "out' = fold (FixReferences_one input o2o prot) [0..<k] out"
    by (rule out'_def)
  show "list_all2 ref_equiv out0 (instrVec out')"
    unfolding out'_def by (rule FixReferences_fold_frame [OF out inp]) (use k in auto)
  show "instrVec out' ! nat (o2o ! l) = vec ! l"
    using FixReferences_fold_untouched [OF inp l, of "[0..<k]" prot out] only k same
    by (simp add: out'_def)
  have "[0..<length vec] = [0..<k] @ k # [Suc k..<length vec]"
    using k by (metis le0 less_imp_le upt_add_eq_append upt_conv_Cons le_add_diff_inverse add_0)
  then show "instrVec (fold (FixReferences_one input o2o prot) [0..<length vec] out) ! nat (o2o ! l)
      = instrVec (FixReferences_one input o2o prot k out') ! nat (o2o ! l)"
    using FixReferences_fold_untouched [OF inp l, of "[Suc k..<length vec]" prot] only
    by (simp add: out'_def)
qed

lemma touched_loadImd:
  "l \<in> touched vec prot k \<Longrightarrow> k < length vec \<Longrightarrow> l \<noteq> k \<Longrightarrow> l < length vec \<and> IsLoadImd (vec ! l)"
  using MatchRelJmp_facts(4,6,7) [of vec k]
  by (cases rule: FindOffsetLoader_cases
      [of vec k "get CcuV2_CcuInstrJmp ''relTarInstrXnId'' (vec ! k)"])
    (auto simp: touched_def dest!: RelJmp_target_loader_Some split: if_splits)

definition fixed :: "CcuInstrInfo \<Rightarrow> bool list \<Rightarrow> CcuInstrInfo \<Rightarrow> CcuInstr list" where
  "fixed input prot out =
    instrVec (fold (FixReferences_one input o2o prot) [0..<length vec] out)"

lemma fixed_length:
  assumes "instrVec input = vec" and "instrVec out = out0"
  shows "length (fixed input prot out) = length out0"
  using FixReferences_fold_frame [of out input "[0..<length vec]" prot] assms
  by (simp add: fixed_def list_all2_refl list_all2_lengthD [symmetric] atLeast0LessThan)

lemma fixed_ref_equiv:
  assumes "instrVec input = vec" and "instrVec out = out0"
  shows "list_all2 ref_equiv out0 (fixed input prot out)"
  using FixReferences_fold_frame [of out input "[0..<length vec]" prot] assms
  by (simp add: fixed_def list_all2_refl atLeast0LessThan)

lemma fixed_only:
  assumes inp: "instrVec input = vec" and out: "instrVec out = out0" and k: "k < length vec"
    and l: "l < length vec"
    and only: "\<forall>k'<length vec. k' \<noteq> k \<longrightarrow> l \<notin> touched vec prot k'"
  defines "out' \<equiv> fold (FixReferences_one input o2o prot) [0..<k] out"
  shows "fixed input prot out ! nat (o2o ! l)
      = instrVec (FixReferences_one input o2o prot k out') ! nat (o2o ! l)"
    and "instrVec out' ! nat (o2o ! l) = vec ! l"
    and "length (instrVec out') = length out0"
proof -
  have eq: "list_all2 ref_equiv out0 (instrVec out)"
    using out by (simp add: list_all2_refl)
  obtain out'' where o: "list_all2 ref_equiv out0 (instrVec out'')" "out'' = out'"
    "instrVec out'' ! nat (o2o ! l) = vec ! l"
    "instrVec (fold (FixReferences_one input o2o prot) [0..<length vec] out) ! nat (o2o ! l)
      = instrVec (FixReferences_one input o2o prot k out'') ! nat (o2o ! l)"
    using FixReferences_fold_only [OF inp eq _ k l, of prot] only o2o_instr [OF l] out
    unfolding out'_def by metis
  show "fixed input prot out ! nat (o2o ! l)
      = instrVec (FixReferences_one input o2o prot k out') ! nat (o2o ! l)"
    using o by (simp add: fixed_def)
  show "instrVec out' ! nat (o2o ! l) = vec ! l" "length (instrVec out') = length out0"
    using o list_all2_lengthD [OF o(1)] by simp_all
qed

text \<open>A loop is repaired to the places of the instructions it named.\<close>

lemma fixed_loop:
  assumes "instrVec input = vec" and "instrVec out = out0" and k: "k < length vec"
    and loop: "IsLoop (vec ! k)"
  shows "get CcuV2_CcuInstrLoop ''startInstrId'' (fixed input prot out ! nat (o2o ! k))
      = remapGlobal (startInstrId input) o2o (get CcuV2_CcuInstrLoop ''startInstrId'' (vec ! k))"
    and "get CcuV2_CcuInstrLoop ''endInstrId'' (fixed input prot out ! nat (o2o ! k))
      = remapGlobal (startInstrId input) o2o (get CcuV2_CcuInstrLoop ''endInstrId'' (vec ! k))"
proof -
  have only: "\<forall>k'<length vec. k' \<noteq> k \<longrightarrow> k \<notin> touched vec prot k'"
    using touched_loadImd [of k prot] loop instr_classes_disjoint(2) by auto
  note f = fixed_only [OF assms(1,2) k k only]
  show "get CcuV2_CcuInstrLoop ''startInstrId'' (fixed input prot out ! nat (o2o ! k))
      = remapGlobal (startInstrId input) o2o (get CcuV2_CcuInstrLoop ''startInstrId'' (vec ! k))"
    "get CcuV2_CcuInstrLoop ''endInstrId'' (fixed input prot out ! nat (o2o ! k))
      = remapGlobal (startInstrId input) o2o (get CcuV2_CcuInstrLoop ''endInstrId'' (vec ! k))"
    using assms o2o_range [OF k] f by (simp_all add: FixReferences_one_loop)
qed

lemma fixed_loopGroup:
  assumes "instrVec input = vec" and "instrVec out = out0" and k: "k < length vec"
    and group: "IsLoopGroup (vec ! k)"
  shows "get CcuV2_CcuInstrLoopGroup ''startLoopInstrId'' (fixed input prot out ! nat (o2o ! k))
      = remapGlobal (startInstrId input) o2o
          (get CcuV2_CcuInstrLoopGroup ''startLoopInstrId'' (vec ! k))"
proof -
  have only: "\<forall>k'<length vec. k' \<noteq> k \<longrightarrow> k \<notin> touched vec prot k'"
    using touched_loadImd [of k prot] group instr_classes_disjoint(3) by auto
  show ?thesis
    using assms o2o_range [OF k] fixed_only [OF assms(1,2) k k only]
    by (simp add: FixReferences_one_loopGroup)
qed

text \<open>A plain relative jump whose offset loader no other jump shares lands on the place of its
  original target.\<close>

lemma fixed_plain_jump:
  assumes inp: "instrVec input = vec" and out: "instrVec out = out0" and j: "j < length vec"
    and jump: "IsCtrlJmp (vec ! j)" "get CcuV2_CcuInstrJmp ''jumpMode'' (vec ! j) = (0 :: u16)"
      "\<not> matched (MatchRelJmpTemplate vec j)" "\<not> (j < length prot \<and> prot ! j)"
    and loader: "FindOffsetLoaderOrigIdx vec j
        (get CcuV2_CcuInstrJmp ''relTarInstrXnId'' (vec ! j)) = int l"
    and only: "\<forall>k'<length vec. k' \<noteq> j \<longrightarrow> l \<notin> touched vec prot k'"
    and off: "unat (immediate (vec ! l)) < 0x10000"
    and target: "(j + unat (immediate (vec ! l))) mod 0x10000 < length vec"
  shows "(o2o ! j + uint (immediate (fixed input prot out ! nat (o2o ! l)))) mod 0x10000
    = o2o ! ((j + unat (immediate (vec ! l))) mod 0x10000) mod 0x10000"
proof -
  have l: "l < length vec"
    using loader j by (cases rule: FindOffsetLoader_cases
      [of vec j "get CcuV2_CcuInstrJmp ''relTarInstrXnId'' (vec ! j)"]) auto
  let ?t = "(j + unat (immediate (vec ! l))) mod 0x10000"
  note f = fixed_only [OF inp out j l only]
  have small: "\<not> kInstrIdSpace \<le> immediate (vec ! l)"
    using off by (simp add: kInstrIdSpace_def word_le_nat_alt)
  have "fixed input prot out ! nat (o2o ! l) = set_immediate
      ((of_int (o2o ! ?t) + kInstrIdSpace - of_int (o2o ! j)) mod kInstrIdSpace) (vec ! l)"
    using jump loader l j target small o2o_range [OF l]
    by (auto simp: f(1) FixReferences_one_jump inp FixOneJumpReference_def Let_def
        FixPlainJumpOffset_def f(2,3) plain_target_unat o2o_length)
  then have "uint (immediate (fixed input prot out ! nat (o2o ! l))) = (o2o ! ?t - o2o ! j) mod 0x10000"
    by (simp add: plain_offset_uint)
  then show ?thesis
    by (simp add: mod_simps)
qed

text \<open>A \<^verbatim>\<open>RelJmp\<close> block: the base id, its complement and the target id move together.\<close>

lemma FixRelJmp_target_at:
  assumes m: "matched (MatchRelJmpTemplate vec k)" and l: "l < length vec" and len: "length out = length out0"
  shows "FixRelJmp_target vec o2o (MatchRelJmpTemplate vec k) remapId (k - 2) out ! nat (o2o ! l) =
    (if RelJmp_target_loader vec (match_targetXn (MatchRelJmpTemplate vec k)) (k - 2) = Some l
        \<and> immediate (out ! nat (o2o ! l)) < kInstrIdSpace
     then set_immediate (ucast (remapId (ucast (immediate (out ! nat (o2o ! l)))))) (out ! nat (o2o ! l))
     else out ! nat (o2o ! l))"
proof (cases "RelJmp_target_loader vec (match_targetXn (MatchRelJmpTemplate vec k)) (k - 2)")
  case (Some t)
  then have t: "t < length vec"
    using RelJmp_target_loader_Some [OF Some] MatchRelJmp_facts(4) [OF m] by linarith
  have no_wrap: "\<not> kInstrIdSpace \<le> (ucast (remapId x) :: u64)" for x
    by (simp add: kInstrIdSpace_def not_le)
  show ?thesis
  proof (cases "l = t")
    case True
    then show ?thesis
      using Some t o2o_range [OF t] no_wrap len
      by (simp add: FixRelJmp_target_eq RemapRelJmpTargetImmediate_def Let_def leD flip: not_less)
  next
    case False
    then show ?thesis
      using Some t l o2o_inj [OF l t]
      by (simp add: FixRelJmp_target_eq RemapRelJmpTargetImmediate_def Let_def)
  qed
qed (simp add: FixRelJmp_target_eq)

lemma FixRelJmpFunc_at:
  fixes remapId :: "u16 \<Rightarrow> u16"
  assumes m: "matched (MatchRelJmpTemplate vec k)" and l: "l < length vec" and len: "length out = length out0"
    and base: "immediate (out ! nat (o2o ! (k - 2))) < kInstrIdSpace"
  defines "J \<equiv> (ucast (remapId (ucast (immediate (out ! nat (o2o ! (k - 2)))))) :: u64)"
  shows "FixRelJmpFunc vec o2o (MatchRelJmpTemplate vec k) out remapId ! nat (o2o ! l) =
    (if l = k - 2 then set_immediate J (out ! nat (o2o ! l))
     else if l = k + 1 then set_immediate (kInstrIdSpace - J) (out ! nat (o2o ! l))
     else if RelJmp_target_loader vec (match_targetXn (MatchRelJmpTemplate vec k)) (k - 2) = Some l
        \<and> immediate (out ! nat (o2o ! l)) < kInstrIdSpace
     then set_immediate (ucast (remapId (ucast (immediate (out ! nat (o2o ! l)))))) (out ! nat (o2o ! l))
     else out ! nat (o2o ! l))"
proof -
  note mf = MatchRelJmp_facts [OF m]
  have idx: "k - 2 < length vec" "k + 1 < length vec" "k - 2 \<noteq> k + 1"
    using mf by auto
  have pos: "nat (o2o ! (k - 2)) < length out" "nat (o2o ! (k + 1)) < length out"
    "nat (o2o ! l) = nat (o2o ! (k - 2)) \<longleftrightarrow> l = k - 2"
    "nat (o2o ! l) = nat (o2o ! (k + 1)) \<longleftrightarrow> l = k + 1"
    "nat (o2o ! (k + 1)) \<noteq> nat (o2o ! (k - 2))"
    using idx l o2o_range len o2o_inj [of l "k - 2"] o2o_inj [of l "k + 1"]
      o2o_inj [of "k + 1" "k - 2"] by auto
  have not_target: "RelJmp_target_loader vec x (k - 2) \<noteq> Some (k - 2)"
    "RelJmp_target_loader vec x (k - 2) \<noteq> Some (k + 1)" for x
    using RelJmp_target_loader_Some [of vec x "k - 2"] by fastforce+
  have no_wrap: "\<not> kInstrIdSpace \<le> J"
    by (simp add: J_def kInstrIdSpace_def not_le)
  have "FixRelJmpFunc vec o2o (MatchRelJmpTemplate vec k) out remapId =
      FixRelJmp_target vec o2o (MatchRelJmpTemplate vec k) remapId (k - 2)
        (out[nat (o2o ! (k - 2)) := set_immediate J (out ! nat (o2o ! (k - 2))),
             nat (o2o ! (k + 1)) := set_immediate (kInstrIdSpace - J) (out ! nat (o2o ! (k + 1)))])"
    using base [folded not_le] idx no_wrap pos(5) unfolding J_def
    by (simp add: FixRelJmpFunc_def mf(1,2) Let_def)
  then have at: "FixRelJmpFunc vec o2o (MatchRelJmpTemplate vec k) out remapId ! nat (o2o ! l) =
      (let cur = out[nat (o2o ! (k - 2)) := set_immediate J (out ! nat (o2o ! (k - 2))),
             nat (o2o ! (k + 1)) := set_immediate (kInstrIdSpace - J) (out ! nat (o2o ! (k + 1)))]
               ! nat (o2o ! l)
       in if RelJmp_target_loader vec (match_targetXn (MatchRelJmpTemplate vec k)) (k - 2) = Some l
            \<and> immediate cur < kInstrIdSpace
          then set_immediate (ucast (remapId (ucast (immediate cur)))) cur else cur)"
    using len by (simp only: FixRelJmp_target_at [OF m l] length_list_update Let_def)
  consider "l = k - 2" | "l = k + 1" | "l \<noteq> k - 2" "l \<noteq> k + 1"
    by blast
  then show ?thesis
  proof cases
    case 1
    then show ?thesis
      unfolding at Let_def using 1 pos(1,5) not_target(1) by simp
  next
    case 2
    then show ?thesis
      unfolding at Let_def using 2 pos(2) not_target(2) idx(3) by simp
  next
    case 3
    then have "nat (o2o ! (k - 2)) \<noteq> nat (o2o ! l)" "nat (o2o ! (k + 1)) \<noteq> nat (o2o ! l)"
      using pos(3,4) by metis+
    with 3 show ?thesis
      unfolding at Let_def by simp
  qed
qed

lemma fixed_relJmp_at:
  assumes inp: "instrVec input = vec" and out: "instrVec out = out0"
    and m: "matched (MatchRelJmpTemplate vec k)"
    and mode: "get CcuV2_CcuInstrJmp ''jumpMode'' (vec ! k) = (0 :: u16)"
    and base: "immediate (vec ! (k - 2)) < kInstrIdSpace"
    and only0: "\<forall>k'<length vec. k' \<noteq> k \<longrightarrow> k - 2 \<notin> touched vec prot k'"
    and l: "l < length vec"
    and only: "\<forall>k'<length vec. k' \<noteq> k \<longrightarrow> l \<notin> touched vec prot k'"
  defines "remap \<equiv> remapGlobal (startInstrId input) o2o"
  defines "J \<equiv> (ucast (remap (ucast (immediate (vec ! (k - 2))))) :: u64)"
  shows "l = k - 2 \<Longrightarrow> immediate (fixed input prot out ! nat (o2o ! l)) = J"
    and "l = k + 1 \<Longrightarrow> immediate (fixed input prot out ! nat (o2o ! l)) = kInstrIdSpace - J"
    and "RelJmp_target_loader vec (match_targetXn (MatchRelJmpTemplate vec k)) (k - 2) = Some l \<Longrightarrow>
      immediate (vec ! l) < kInstrIdSpace \<Longrightarrow>
      immediate (fixed input prot out ! nat (o2o ! l)) = ucast (remap (ucast (immediate (vec ! l))))"
proof -
  note mf = MatchRelJmp_facts [OF m]
  have k: "k < length vec" "k - 2 < length vec"
    using mf by auto
  note f = fixed_only [OF inp out k(1) l only] and f0 = fixed_only [OF inp out k only0]
  have step: "fixed input prot out ! nat (o2o ! l) =
      FixRelJmpFunc vec o2o (MatchRelJmpTemplate vec k)
        (instrVec (fold (FixReferences_one input o2o prot) [0..<k] out)) remap ! nat (o2o ! l)"
    using mode m mf(5) k
    by (simp add: f(1) FixReferences_one_jump inp FixOneJumpReference_def Let_def remap_def)
  have base': "immediate (instrVec (fold (FixReferences_one input o2o prot) [0..<k] out)
      ! nat (o2o ! (k - 2))) < kInstrIdSpace"
    using base by (simp add: f0(2))
  have at: "fixed input prot out ! nat (o2o ! l) =
    (if l = k - 2 then set_immediate J (vec ! l)
     else if l = k + 1 then set_immediate (kInstrIdSpace - J) (vec ! l)
     else if RelJmp_target_loader vec (match_targetXn (MatchRelJmpTemplate vec k)) (k - 2) = Some l
        \<and> immediate (vec ! l) < kInstrIdSpace
     then set_immediate (ucast (remap (ucast (immediate (vec ! l))))) (vec ! l)
     else vec ! l)"
    by (rule trans [OF step trans [OF FixRelJmpFunc_at [OF m l f(3) base']]])
      (simp only: f0(2) f(2) J_def)
  show "immediate (fixed input prot out ! nat (o2o ! l)) = J" if "l = k - 2"
    unfolding at if_P [OF that] by simp
  show "immediate (fixed input prot out ! nat (o2o ! l)) = kInstrIdSpace - J" if "l = k + 1"
  proof -
    have "l \<noteq> k - 2"
      using that by linarith
    then show ?thesis
      unfolding at if_P [OF that] by simp
  qed
  assume target: "RelJmp_target_loader vec (match_targetXn (MatchRelJmpTemplate vec k)) (k - 2) = Some l"
    and small: "immediate (vec ! l) < kInstrIdSpace"
  have "l \<noteq> k - 2" "l \<noteq> k + 1"
    using RelJmp_target_loader_Some [OF target] by linarith+
  then show "immediate (fixed input prot out ! nat (o2o ! l)) = ucast (remap (ucast (immediate (vec ! l))))"
    using target small unfolding at by simp
qed

end

subsection \<open>The first pass keeps the contract\<close>

interpretation sched: placement vec "origToOut (sched_run pgs vec (length vec))"
    "outVec (sched_run pgs vec (length vec))" for pgs vec
proof unfold_locales
  show "length (origToOut (sched_run pgs vec (length vec))) = length vec"
    by (rule length_origToOut)
next
  fix k
  assume k: "k < length vec"
  show "0 \<le> origToOut (sched_run pgs vec (length vec)) ! k
      \<and> nat (origToOut (sched_run pgs vec (length vec)) ! k) < length (outVec (sched_run pgs vec (length vec)))"
    using k issue_cycle_less_length [OF k, of pgs vec] by (simp add: origToOut_nth nat_less_iff)
  show "outVec (sched_run pgs vec (length vec)) ! nat (origToOut (sched_run pgs vec (length vec)) ! k) = vec ! k"
    using k sched_run_slot_issue [OF k, of pgs vec] by (simp add: origToOut_nth)
next
  fix j k
  assume "j < k" and "k < length vec"
  then show "origToOut (sched_run pgs vec (length vec)) ! j < origToOut (sched_run pgs vec (length vec)) ! k"
    by (simp add: origToOut_nth issue_cycle_strict_mono)
qed

subsection \<open>The result of the scheduler\<close>

text \<open>The place of the \<open>k\<close>-th input instruction in the output.\<close>

definition out_pos :: "InstructionSchedulerOptions \<Rightarrow> CcuInstrInfo \<Rightarrow> nat \<Rightarrow> nat" where
  "out_pos opts input k = nat (issue_cycle (opt_pinnedGroups opts) (instrVec input) k)"

abbreviation final_state :: "InstructionSchedulerOptions \<Rightarrow> CcuInstrInfo \<Rightarrow> CkeOnlyState" where
  "final_state opts input \<equiv>
    sched_run (opt_pinnedGroups opts) (instrVec input) (length (instrVec input))"

lemma int_out_pos: "int (out_pos opts input k) = issue_cycle (opt_pinnedGroups opts) (instrVec input) k"
  by (simp add: out_pos_def)

lemma origToOut_final:
  "k < length (instrVec input) \<Longrightarrow> origToOut (final_state opts input) ! k = int (out_pos opts input k)"
  by (simp add: origToOut_nth int_out_pos)

lemma out_pos_strict_mono: "j < k \<Longrightarrow> out_pos opts input j < out_pos opts input k"
  by (metis int_out_pos issue_cycle_strict_mono of_nat_less_iff)

lemma instrVec_mission [simp]:
  "instrVec (FixReferences_mission input o2o out) = instrVec out"
  by (simp add: FixReferences_mission_def RecomputeMissionCount_def Let_def)

lemma Schedule_eq:
  "instrVec (fst (Schedule opts input)) =
    sched.fixed (instrVec input) (opt_pinnedGroups opts) input
      (MarkRelJmpProtectedRanges (instrVec input))
      (FixReferences_mission input (origToOut (final_state opts input))
        (CcuInstrInfo_init\<lparr>instrVec := outVec (final_state opts input),
           startInstrId := startInstrId input,
           instrCount := of_nat (length (outVec (final_state opts input)))\<rparr>))"
  "originIndex (snd (Schedule opts input)) = originIndex (stats (final_state opts input))"
  "nopInserted (snd (Schedule opts input)) = nopInserted (stats (final_state opts input))"
  by (simp_all add: Schedule_def ScheduleCkeOnly_def Let_def FixReferences_def sched.fixed_def
      flip: sched_run_def)

lemma Schedule_ref_equiv:
  "list_all2 ref_equiv (outVec (final_state opts input)) (instrVec (fst (Schedule opts input)))"
  unfolding Schedule_eq by (rule sched.fixed_ref_equiv) simp_all

lemma Schedule_length:
  "length (instrVec (fst (Schedule opts input))) = length (outVec (final_state opts input))"
  "length (originIndex (snd (Schedule opts input))) = length (outVec (final_state opts input))"
  using list_all2_lengthD [OF Schedule_ref_equiv, of opts input]
  by (simp_all add: Schedule_eq(2) length_originIndex)

lemma out_pos_less:
  "k < length (instrVec input) \<Longrightarrow> out_pos opts input k < length (instrVec (fst (Schedule opts input)))"
  using issue_cycle_less_length [of k "length (instrVec input)"]
  by (simp add: Schedule_length out_pos_def nat_less_iff)

lemma Schedule_at_out_pos:
  assumes "k < length (instrVec input)"
  shows "ref_equiv (instrVec input ! k) (instrVec (fst (Schedule opts input)) ! out_pos opts input k)"
    and "originIndex (snd (Schedule opts input)) ! out_pos opts input k = int k"
  using sched_run_slot_issue [OF assms, of "opt_pinnedGroups opts" "instrVec input"] assms
    list_all2_nthD [OF Schedule_ref_equiv, of "out_pos opts input k" opts input]
    out_pos_less [OF assms, of opts]
  by (simp_all add: out_pos_def Schedule_eq(2) Schedule_length)

lemma ref_equiv_nop [simp]: "ref_equiv MakeNop b \<longleftrightarrow> b = MakeNop"
  by (auto simp: ref_equiv_def MakeNop_def IsLoadImd_def IsLoop_def IsLoopGroup_def)

lemma ExtractOperandsV2_nop [simp]: "ExtractOperandsV2 MakeNop = []"
  by (simp add: MakeNop_def extract_class_defs)

lemma Schedule_slot_cases:
  assumes "p < length (instrVec (fst (Schedule opts input)))"
  obtains (instr) k where "k < length (instrVec input)" "p = out_pos opts input k"
    "ref_equiv (instrVec input ! k) (instrVec (fst (Schedule opts input)) ! p)"
    "originIndex (snd (Schedule opts input)) ! p = int k"
  | (nop) "instrVec (fst (Schedule opts input)) ! p = MakeNop"
    "originIndex (snd (Schedule opts input)) ! p = -1"
proof -
  have p: "p < length (outVec (final_state opts input))"
    using assms by (simp add: Schedule_length)
  from sched_run_slot_cases [OF p] show thesis
  proof (elim disjE exE conjE)
    fix k
    assume k: "k < length (instrVec input)"
      and "issue_cycle (opt_pinnedGroups opts) (instrVec input) k = int p"
    then have "p = out_pos opts input k"
      by (simp add: out_pos_def)
    then show thesis
      using Schedule_at_out_pos [OF k, of opts] k instr by blast
  next
    assume "outVec (final_state opts input) ! p = MakeNop"
      and "originIndex (stats (final_state opts input)) ! p = -1"
    then show thesis
      using list_all2_nthD [OF Schedule_ref_equiv p] nop by (simp add: Schedule_eq(2))
  qed
qed

end
