(* ===== verification/Scheduler_Hazards.thy ===== *)
theory Scheduler_Hazards
  imports Scheduler_References
begin

text \<open>
  The latency guarantee. The locale \<open>raw_table\<close> is what the scheduler relies on in each of its three
  writer tables: an instruction is entered with the cycle of its issue under every key it writes,
  and is issued no earlier than 14 cycles after the entry of any key it reads. The distance between
  a writer and a later reader is proved once from these laws; the interpretations give it for CKE
  registers, for LoadX/StoreX/ClearX writers and for LoadX/StoreX/ClearX readers. The properties
  restate it on the emitted sequence, where a position is a cycle.
\<close>

subsection \<open>A table of writers\<close>

locale raw_table =
  fixes tbl :: "CkeOnlyState \<Rightarrow> u32 \<rightharpoonup> int"
    and writes :: "PinnedGroup list option \<Rightarrow> CcuInstr \<Rightarrow> u32 list"
    and reads :: "PinnedGroup list option \<Rightarrow> CcuInstr \<Rightarrow> u32 list"
  assumes tbl_init: "tbl (sched_run pgs vec 0) = Map.empty"
    and tbl_step: "tbl (sched_run pgs vec (Suc i)) =
      (\<lambda>x. if x \<in> set (writes pgs (vec ! i)) then Some (issue_cycle pgs vec i)
           else tbl (sched_run pgs vec i) x)"
    and tbl_waits: "\<not> protected_at st k \<Longrightarrow> key \<in> set (reads (pinnedGroups st) instr)
      \<Longrightarrow> tbl st key = Some c \<Longrightarrow> c + 14 \<le> issue_at st instr k"
begin

lemma entry_before_cycle:
  "tbl (sched_run pgs vec i) key = Some c \<Longrightarrow> c < cycle (sched_run pgs vec i)"
proof (induction i)
  case (Suc i)
  have "cycle (sched_run pgs vec i) \<le> issue_cycle pgs vec i"
    by (rule issue_cycle_ge)
  then show ?case
    using Suc by (auto simp: tbl_step sched_run_fields split: if_splits)
qed (simp add: tbl_init)

lemma entry_after_write:
  assumes "key \<in> set (writes pgs (vec ! i))" and "i < j"
  shows "\<exists>c. tbl (sched_run pgs vec j) key = Some c \<and> issue_cycle pgs vec i \<le> c"
  using assms(2)
proof (induction j)
  case (Suc j)
  show ?case
  proof (cases "i = j")
    case True
    then show ?thesis
      using assms(1) by (simp add: tbl_step)
  next
    case False
    then show ?thesis
      using Suc issue_cycle_strict_mono [of i j pgs vec] by (auto simp: tbl_step)
  qed
qed simp

lemma raw_distance:
  assumes "i < j" and "key \<in> set (writes pgs (vec ! i))" and "key \<in> set (reads pgs (vec ! j))"
    and "\<not> protected_at (sched_run pgs vec j) j"
  shows "issue_cycle pgs vec i + 14 \<le> issue_cycle pgs vec j"
proof -
  obtain c where c: "tbl (sched_run pgs vec j) key = Some c" "issue_cycle pgs vec i \<le> c"
    using entry_after_write [OF assms(2,1)] by blast
  have "c + 14 \<le> issue_at (sched_run pgs vec j) (vec ! j) j"
    by (rule tbl_waits [OF assms(4) _ c(1)]) (use assms(3) in simp)
  then show ?thesis
    using c(2) by (simp add: issue_cycle_def)
qed

text \<open>The same on the emitted sequence.\<close>

lemma raw_distance_out:
  assumes "i < j" and "key \<in> set (writes (opt_pinnedGroups opts) (instrVec input ! i))"
    and "key \<in> set (reads (opt_pinnedGroups opts) (instrVec input ! j))"
    and "j < length (instrVec input)" and "\<not> MarkRelJmpProtectedRanges (instrVec input) ! j"
  shows "out_pos opts input i + 14 \<le> out_pos opts input j"
proof -
  have "\<not> protected_at (sched_run (opt_pinnedGroups opts) (instrVec input) j) j"
    using assms(5) by (simp add: protected_at_def)
  from raw_distance [OF assms(1-3) this] show ?thesis
    by (simp add: int_out_pos [symmetric])
qed

end

subsection \<open>The three tables of the scheduler\<close>

interpretation cke_table: raw_table lastCkeWriterCycle "\<lambda>_. cke_writes" "\<lambda>_. cke_reads"
  by unfold_locales (auto simp: sched_run_fields issue_at_def le_max_iff_disj intro: probe_all_ge_writer)

interpretation lsx_writer_table:
  raw_table lastXnWriterCycle "\<lambda>pgs instr. CollectXnWriterKeys instr pgs" xn_reads
  by unfold_locales (auto simp: sched_run_fields issue_at_def le_max_iff_disj intro: probe_all_ge_writer)

interpretation lsx_reader_table:
  raw_table lastAnyXnWriterCycle xn_writes "\<lambda>pgs instr. if is_lsx instr then xn_reads pgs instr else []"
  by unfold_locales
    (auto simp: sched_run_fields issue_at_def le_max_iff_disj intro: probe_all_ge_writer split: if_splits)

subsection \<open>The protected ranges\<close>

lemma MarkRelJmp_block_length [simp]: "length (MarkRelJmp_block cnt a msk) = length msk"
proof -
  have "length (fold (\<lambda>k msk. if k < cnt then msk[k := True] else msk) ks msk) = length msk" for ks
    by (induction ks arbitrary: msk) auto
  then show ?thesis
    by (simp only: MarkRelJmp_block_def Let_def)
qed

lemma MarkRelJmp_block_nth:
  assumes "q < length msk" and "length msk \<le> cnt"
  shows "MarkRelJmp_block cnt a msk ! q \<longleftrightarrow> msk ! q \<or> (a \<le> q \<and> q \<le> a + 8)"
proof -
  have upd: "q < length msk \<Longrightarrow> msk[k := True] ! q \<longleftrightarrow> msk ! q \<or> q = k" for k and msk :: "bool list"
    by (cases "q = k") auto
  have "q < length msk \<Longrightarrow> length msk \<le> cnt \<Longrightarrow>
      fold (\<lambda>k msk. if k < cnt then msk[k := True] else msk) ks msk ! q \<longleftrightarrow> msk ! q \<or> q \<in> set ks" for ks
    by (induction ks arbitrary: msk) (auto simp: upd)
  then have "MarkRelJmp_block cnt a msk ! q \<longleftrightarrow> msk ! q \<or> q \<in> set [a..<Suc (a + TEMPLATE_LEN - 1)]"
    using assms by (simp only: MarkRelJmp_block_def Let_def)
  then show ?thesis
    by (auto simp: TEMPLATE_LEN_def)
qed

text \<open>An instruction is protected when it lies in the nine-instruction block of a match.\<close>

lemma MarkRelJmpProtectedRanges_spec:
  "length (MarkRelJmpProtectedRanges vec) = length vec \<and>
   (\<forall>q<length vec. MarkRelJmpProtectedRanges vec ! q \<longleftrightarrow>
     (\<exists>i. matched (MatchRelJmpTemplate vec i) \<and> i - 2 \<le> q \<and> q \<le> i + 6))"
proof -
  define mark where "mark = (\<lambda>i msk. if \<not> IsCtrlJmp (vec ! i) then msk
      else let match = MatchRelJmpTemplate vec i
           in if \<not> matched match then msk else MarkRelJmp_block (length vec) (p0 match) msk)"
  have one: "mark i msk = (if matched (MatchRelJmpTemplate vec i)
      then MarkRelJmp_block (length vec) (i - 2) msk else msk)" for i msk
    using MatchRelJmp_facts(1,5) [of vec i] by (auto simp: mark_def Let_def)
  have all: "length msk = length vec \<Longrightarrow> length (fold mark ks msk) = length vec \<and>
      (\<forall>q<length vec. fold mark ks msk ! q \<longleftrightarrow> msk ! q \<or>
        (\<exists>i\<in>set ks. matched (MatchRelJmpTemplate vec i) \<and> i - 2 \<le> q \<and> q \<le> i - 2 + 8))" for ks msk
    by (induction ks arbitrary: msk) (auto simp: one MarkRelJmp_block_nth)
  have range: "matched (MatchRelJmpTemplate vec i) \<Longrightarrow> i < length vec \<and> i - 2 + 8 = i + 6" for i
    using MatchRelJmp_facts(3,4) [of vec i] by simp
  have eq: "MarkRelJmpProtectedRanges vec = fold mark [0..<length vec] (replicate (length vec) False)"
    by (simp only: MarkRelJmpProtectedRanges_def Let_def [of "length vec"] mark_def)
  have "(\<exists>i\<in>set [0..<length vec]. matched (MatchRelJmpTemplate vec i) \<and> i - 2 \<le> q \<and> q \<le> i - 2 + 8)
      \<longleftrightarrow> (\<exists>i. matched (MatchRelJmpTemplate vec i) \<and> i - 2 \<le> q \<and> q \<le> i + 6)" for q
    using range by (metis atLeastLessThan_iff le0 set_upt)
  then show ?thesis
    unfolding eq using all [of "replicate (length vec) False" "[0..<length vec]"]
    by (simp only: length_replicate nth_replicate simp_thms) simp
qed

lemmas protected_length [simp] = MarkRelJmpProtectedRanges_spec [THEN conjunct1]

lemma protected_iff:
  "q < length vec \<Longrightarrow> MarkRelJmpProtectedRanges vec ! q \<longleftrightarrow>
    (\<exists>i. matched (MatchRelJmpTemplate vec i) \<and> i - 2 \<le> q \<and> q \<le> i + 6)"
  using MarkRelJmpProtectedRanges_spec by blast

text \<open>A protected instruction is issued without delay.\<close>

lemma protected_issue:
  assumes "MarkRelJmpProtectedRanges vec ! k" and "k < length vec"
  shows "issue_cycle pgs vec k = cycle (sched_run pgs vec k)"
  using assms by (simp add: issue_cycle_def issue_at_def protected_at_def)

lemma protected_next:
  assumes "MarkRelJmpProtectedRanges vec ! Suc k" and "Suc k < length vec"
  shows "issue_cycle pgs vec (Suc k) = issue_cycle pgs vec k + 1"
  using protected_issue [OF assms] by (simp add: sched_run_fields)

subsection \<open>Keys\<close>

lemma cke_keys:
  "RegKey (Rd CKE r) = RegKey (Wr CKE r)"
  "Rd CKE r \<in> set (ExtractOperandsV2 i) \<Longrightarrow> RegKey (Rd CKE r) \<in> set (cke_reads i)"
  "Wr CKE r \<in> set (ExtractOperandsV2 i) \<Longrightarrow> RegKey (Wr CKE r) \<in> set (cke_writes i)"
  by (simp add: RegKey_def) (force simp: cke_reads_def cke_writes_def)+

lemma xn_keys:
  "Rd XN r \<in> set (ExtractOperandsV2 i) \<Longrightarrow> XnGroupKey r pgs \<in> set (xn_reads pgs i)"
  "Wr XN r \<in> set (ExtractOperandsV2 i) \<Longrightarrow> XnGroupKey r pgs \<in> set (xn_writes pgs i)"
  by (force simp: xn_reads_def xn_writes_def)+

lemma lsx_writer_keys:
  "IsLoadX i \<or> IsStoreX i \<Longrightarrow> Wr XN r \<in> set (ExtractOperandsV2 i)
    \<Longrightarrow> XnGroupKey r pgs \<in> set (CollectXnWriterKeys i pgs)"
  by (auto simp: CollectXnWriterKeys_def IsLoadX_def IsStoreX_def extract_class_defs)

text \<open>An instruction with an operand is not an inserted NOP.\<close>

lemma Schedule_operand_slot:
  assumes "p < length (instrVec (fst (Schedule opts input)))"
    and "op \<in> set (ExtractOperandsV2 (instrVec (fst (Schedule opts input)) ! p))"
  obtains k where "k < length (instrVec input)" "p = out_pos opts input k"
    "ref_equiv (instrVec input ! k) (instrVec (fst (Schedule opts input)) ! p)"
    "ExtractOperandsV2 (instrVec (fst (Schedule opts input)) ! p) = ExtractOperandsV2 (instrVec input ! k)"
    "originIndex (snd (Schedule opts input)) ! p = int k"
proof (cases rule: Schedule_slot_cases [OF assms(1)])
  case (1 k)
  then show thesis
    using that ref_equiv_operands [OF 1(3)] by blast
next
  case 2
  then show thesis
    using assms(2) by simp
qed

lemma out_pos_less_iff [simp]: "out_pos opts input j < out_pos opts input k \<longleftrightarrow> j < k"
  using out_pos_strict_mono [of j k opts input] out_pos_strict_mono [of k j opts input]
  by (cases j k rule: linorder_cases) auto

subsection \<open>The latency properties\<close>

text \<open>C1. In the scheduled sequence a CKE register that an instruction clears (a CKE write, the
  automatic clear of a wait) is next read at least 14 positions later, so the fixed CKE latency
  has passed, unless the reader lies in a \<^verbatim>\<open>RelJmp\<close> block, where no NOP may be inserted.\<close>

theorem cke_raw_distance:
  fixes opts input
  defines "out \<equiv> instrVec (fst (Schedule opts input))"
    and "orig \<equiv> originIndex (snd (Schedule opts input))"
  assumes "p < q" and "q < length out"
    and "Wr CKE r \<in> set (ExtractOperandsV2 (out ! p))"
    and "Rd CKE r \<in> set (ExtractOperandsV2 (out ! q))"
    and "\<not> MarkRelJmpProtectedRanges (instrVec input) ! nat (orig ! q)"
  shows "p + 14 \<le> q"
proof -
  have p: "p < length out"
    using assms by simp
  obtain i where i: "p = out_pos opts input i" "ExtractOperandsV2 (out ! p) = ExtractOperandsV2 (instrVec input ! i)"
    using Schedule_operand_slot [OF p [unfolded out_def] assms(5) [unfolded out_def]]
    unfolding out_def by blast
  obtain j where j: "j < length (instrVec input)" "q = out_pos opts input j"
    "ExtractOperandsV2 (out ! q) = ExtractOperandsV2 (instrVec input ! j)" "orig ! q = int j"
    using Schedule_operand_slot [OF assms(4) [unfolded out_def] assms(6) [unfolded out_def]]
    unfolding out_def orig_def by blast
  show ?thesis
    using cke_table.raw_distance_out
      [where i = i and j = j and key = "RegKey (Rd CKE r)" and opts = opts and input = input] assms i j cke_keys
    by simp
qed

text \<open>C16. A register, or the array of pinned registers it belongs to, that the operand extraction reports
  as written by a LoadX or StoreX lies at least 14 positions before every later instruction that the extraction reports
  as reading it, unless the reader lies in a \<^verbatim>\<open>RelJmp\<close> block, where no NOP may be inserted. (A shift amount is a
  read that the extraction does not report.)\<close>

theorem lsx_write_distance:
  fixes opts input
  defines "out \<equiv> instrVec (fst (Schedule opts input))"
    and "orig \<equiv> originIndex (snd (Schedule opts input))"
  assumes "p < q" and "q < length out"
    and "IsLoadX (out ! p) \<or> IsStoreX (out ! p)"
    and "Wr XN r \<in> set (ExtractOperandsV2 (out ! p))"
    and "Rd XN r' \<in> set (ExtractOperandsV2 (out ! q))"
    and "ReduceXnToGroupKey r' (opt_pinnedGroups opts) = ReduceXnToGroupKey r (opt_pinnedGroups opts)"
    and "\<not> MarkRelJmpProtectedRanges (instrVec input) ! nat (orig ! q)"
  shows "p + 14 \<le> q"
proof -
  have p: "p < length out"
    using assms by simp
  obtain i where i: "p = out_pos opts input i" "ref_equiv (instrVec input ! i) (out ! p)"
    "ExtractOperandsV2 (out ! p) = ExtractOperandsV2 (instrVec input ! i)"
    using Schedule_operand_slot [OF p [unfolded out_def] assms(6) [unfolded out_def]]
    unfolding out_def by blast
  obtain j where j: "j < length (instrVec input)" "q = out_pos opts input j"
    "ExtractOperandsV2 (out ! q) = ExtractOperandsV2 (instrVec input ! j)" "orig ! q = int j"
    using Schedule_operand_slot [OF assms(4) [unfolded out_def] assms(7) [unfolded out_def]]
    unfolding out_def orig_def by blast
  let ?key = "XnGroupKey r (opt_pinnedGroups opts)"
  have "?key \<in> set (CollectXnWriterKeys (instrVec input ! i) (opt_pinnedGroups opts))"
    using assms(5,6) i ref_equiv_classes [OF i(2)] by (intro lsx_writer_keys) auto
  moreover have "?key \<in> set (xn_reads (opt_pinnedGroups opts) (instrVec input ! j))"
    using xn_keys(1) [of r' "instrVec input ! j" "opt_pinnedGroups opts"] assms(7,8) j
    by (simp add: XnGroupKey_def)
  ultimately show ?thesis
    using lsx_writer_table.raw_distance_out
      [where i = i and j = j and key = ?key and opts = opts and input = input] assms(3,9) i j by simp
qed

text \<open>C17. A register, or the array it belongs to, that the operand extraction reports as written by an
  instruction lies at least 14 positions before every later LoadX, StoreX or ClearX that the extraction reports as reading
  it, unless that reader lies in a \<^verbatim>\<open>RelJmp\<close> block, where no NOP may be inserted. (Of the registers that a ClearX
  clears, only the ends of its range are reported.)\<close>

theorem lsx_read_distance:
  fixes opts input
  defines "out \<equiv> instrVec (fst (Schedule opts input))"
    and "orig \<equiv> originIndex (snd (Schedule opts input))"
  assumes "p < q" and "q < length out"
    and "IsLoadX (out ! q) \<or> IsStoreX (out ! q) \<or> IsClearX (out ! q)"
    and "Wr XN r \<in> set (ExtractOperandsV2 (out ! p))"
    and "Rd XN r' \<in> set (ExtractOperandsV2 (out ! q))"
    and "ReduceXnToGroupKey r' (opt_pinnedGroups opts) = ReduceXnToGroupKey r (opt_pinnedGroups opts)"
    and "\<not> MarkRelJmpProtectedRanges (instrVec input) ! nat (orig ! q)"
  shows "p + 14 \<le> q"
proof -
  have p: "p < length out"
    using assms by simp
  obtain i where i: "p = out_pos opts input i"
    "ExtractOperandsV2 (out ! p) = ExtractOperandsV2 (instrVec input ! i)"
    using Schedule_operand_slot [OF p [unfolded out_def] assms(6) [unfolded out_def]]
    unfolding out_def by blast
  obtain j where j: "j < length (instrVec input)" "q = out_pos opts input j"
    "ref_equiv (instrVec input ! j) (out ! q)"
    "ExtractOperandsV2 (out ! q) = ExtractOperandsV2 (instrVec input ! j)" "orig ! q = int j"
    using Schedule_operand_slot [OF assms(4) [unfolded out_def] assms(7) [unfolded out_def]]
    unfolding out_def orig_def by blast
  let ?key = "XnGroupKey r (opt_pinnedGroups opts)"
  have "?key \<in> set (xn_writes (opt_pinnedGroups opts) (instrVec input ! i))"
    using assms(6) i by (simp add: xn_keys)
  moreover have "?key \<in> set (xn_reads (opt_pinnedGroups opts) (instrVec input ! j))"
    using xn_keys(1) [of r' "instrVec input ! j" "opt_pinnedGroups opts"] assms(7,8) j
    by (simp add: XnGroupKey_def)
  moreover have "is_lsx (instrVec input ! j)"
    using assms(5) ref_equiv_classes [OF j(3)] by (auto simp: is_lsx_def)
  ultimately show ?thesis
    using lsx_reader_table.raw_distance_out
      [where i = i and j = j and key = ?key and opts = opts and input = input] assms(3,9) i j by simp
qed

text \<open>Two ClearX over the same range, whichever end is named first, are at least 14 positions
  apart.\<close>

theorem clearx_range_distance:
  fixes opts input
  defines "out \<equiv> instrVec (fst (Schedule opts input))"
    and "orig \<equiv> originIndex (snd (Schedule opts input))"
  assumes "p < q" and "q < length out"
    and "IsClearX (out ! p)" and "IsClearX (out ! q)"
    and "{get CcuV2_CcuInstrClearX ''xnId'' (out ! p) :: u16, get CcuV2_CcuInstrClearX ''xmId'' (out ! p)}
       = {get CcuV2_CcuInstrClearX ''xnId'' (out ! q), get CcuV2_CcuInstrClearX ''xmId'' (out ! q)}"
    and "\<not> MarkRelJmpProtectedRanges (instrVec input) ! nat (orig ! q)"
  shows "p + 14 \<le> q"
proof -
  have same: "b = a" if "ref_equiv a b" "IsClearX b" for a b
    using that by (auto simp: ref_equiv_def IsClearX_def IsLoadImd_def IsLoop_def IsLoopGroup_def split: if_splits)
  have not_nop: "\<not> IsClearX MakeNop"
    by (simp add: IsClearX_def MakeNop_def)
  have p: "p < length out"
    using assms by simp
  obtain i where i: "p = out_pos opts input i" "out ! p = instrVec input ! i"
    using Schedule_slot_cases [OF p [unfolded out_def]] same not_nop assms(5) unfolding out_def
    by metis
  obtain j where j: "j < length (instrVec input)" "q = out_pos opts input j"
    "out ! q = instrVec input ! j" "orig ! q = int j"
    using Schedule_slot_cases [OF assms(4) [unfolded out_def]] same not_nop assms(6)
    unfolding out_def orig_def by metis
  let ?key = "ClearX_key (out ! q)"
  have key: "ClearX_key (out ! p) = ?key"
    using assms(7) by (auto simp: ClearX_key_def ClearXRangeKey_def doubleton_eq_iff Let_def)
  have "?key \<in> set (CollectXnWriterKeys (instrVec input ! i) (opt_pinnedGroups opts))"
    using assms(5) i key by (auto simp: CollectXnWriterKeys_def IsLoadX_def IsStoreX_def IsClearX_def)
  moreover have "?key \<in> set (xn_reads (opt_pinnedGroups opts) (instrVec input ! j))"
    using assms(6) j by (simp add: xn_reads_def)
  ultimately show ?thesis
    using lsx_writer_table.raw_distance_out
      [where i = i and j = j and key = ?key and opts = opts and input = input] assms(3,8) i j by simp
qed

subsection \<open>Concrete programs\<close>

text \<open>Two-instruction programs that meet the hypotheses of the latency properties.\<close>

definition zero_slot :: CcuInstr where
  "zero_slot = \<lparr>header = 0, payload = 0\<rparr>"

lemma get_zero_slot [simp]: "get L f zero_slot = 0"
  by (simp add: get_def zero_slot_def get_bits_def)

definition default_opts :: InstructionSchedulerOptions where
  "default_opts = \<lparr>level = CkeOnly, opt_pinnedGroups = None\<rparr>"

definition program :: "CcuInstr list \<Rightarrow> CcuInstrInfo" where
  "program vec = CcuInstrInfo_init\<lparr>instrVec := vec\<rparr>"

lemma instrVec_program [simp]: "instrVec (program vec) = vec"
  by (simp add: program_def)

lemma short_unprotected:
  "length vec < 8 \<Longrightarrow> k < length vec \<Longrightarrow> \<not> MarkRelJmpProtectedRanges vec ! k"
  using MatchRelJmp_facts(3,4) [of vec] by (fastforce simp: protected_iff)

lemma two_slots:
  fixes opts a b
  defines "input \<equiv> program [a, b]"
  defines "out \<equiv> instrVec (fst (Schedule opts input))"
    and "p \<equiv> out_pos opts input 0" and "q \<equiv> out_pos opts input 1"
  shows "p < q" "q < length out" "ref_equiv a (out ! p)" "ref_equiv b (out ! q)"
    "\<not> MarkRelJmpProtectedRanges (instrVec input) ! nat (originIndex (snd (Schedule opts input)) ! q)"
proof -
  have len: "0 < length (instrVec input)" "1 < length (instrVec input)"
    by (simp_all add: input_def)
  show "p < q" "q < length out"
    using out_pos_less [OF len(2), of opts] by (simp_all add: p_def q_def out_def)
  show "ref_equiv a (out ! p)" "ref_equiv b (out ! q)"
    using Schedule_at_out_pos(1) [OF len(1), of opts] Schedule_at_out_pos(1) [OF len(2), of opts]
    by (simp_all add: p_def q_def out_def input_def)
  show "\<not> MarkRelJmpProtectedRanges (instrVec input) ! nat (originIndex (snd (Schedule opts input)) ! q)"
    using Schedule_at_out_pos(2) [OF len(2), of opts] short_unprotected [of "instrVec input" 1] len
    by (simp add: q_def input_def)
qed

theorem cke_raw_distance_witness:
  "\<exists>p q. let vec = [SetCKE zero_slot 0 0 3 1 1, SetCKE zero_slot 0 0 3 1 1];
           out = instrVec (fst (Schedule default_opts (program vec)))
    in p < q \<and> q < length out \<and> Wr CKE 3 \<in> set (ExtractOperandsV2 (out ! p))
       \<and> Rd CKE 3 \<in> set (ExtractOperandsV2 (out ! q)) \<and> p + 14 \<le> q"
proof -
  let ?a = "SetCKE zero_slot 0 0 3 1 1"
  have ops: "ExtractOperandsV2 ?a = [Rd CKE 3, Wr CKE 3]"
    by (simp add: extract_class_defs SetCKE_def)
  note two = two_slots [where opts = default_opts and a = ?a and b = ?a]
  note ops' = ref_equiv_operands [OF two(3), unfolded ops] ref_equiv_operands [OF two(4), unfolded ops]
  show ?thesis
    unfolding Let_def using two(1,2) ops' cke_raw_distance [OF two(1,2) _ _ two(5), of 3]
    by (intro exI conjI) auto
qed

theorem lsx_write_distance_witness:
  "\<exists>p q. let vec = [LoadX zero_slot 5 20 6 0 0 0 0, Add zero_slot 7 5 8 0 0];
           out = instrVec (fst (Schedule default_opts (program vec)))
    in p < q \<and> q < length out \<and> IsLoadX (out ! p) \<and> Wr XN 5 \<in> set (ExtractOperandsV2 (out ! p))
       \<and> Rd XN 5 \<in> set (ExtractOperandsV2 (out ! q)) \<and> p + 14 \<le> q"
proof -
  let ?a = "LoadX zero_slot 5 20 6 0 0 0 0" and ?b = "Add zero_slot 7 5 8 0 0"
  have ops: "ExtractOperandsV2 ?a = [Wr XN 5, Rd XN 20, Rd XN 6]"
    "ExtractOperandsV2 ?b = [Wr XN 7, Rd XN 5, Rd XN 8]"
    by (simp_all add: extract_class_defs LoadX_def Add_def Operator_def)
  note two = two_slots [where opts = default_opts and a = ?a and b = ?b]
  note ops' = ref_equiv_operands [OF two(3), unfolded ops] ref_equiv_operands [OF two(4), unfolded ops]
  have "IsLoadX ?a"
    by (simp add: IsLoadX_def LoadX_def)
  then have load: "IsLoadX (instrVec (fst (Schedule default_opts (program [?a, ?b])))
      ! out_pos default_opts (program [?a, ?b]) 0)"
    using ref_equiv_classes [OF two(3)] by simp
  show ?thesis
    unfolding Let_def
    using two(1,2) ops' load lsx_write_distance [OF two(1,2) _ _ _ _ two(5), where r = 5 and r' = 5]
    by (intro exI conjI) auto
qed

theorem lsx_read_distance_witness:
  "\<exists>p q. let vec = [Add zero_slot 6 7 8 0 0, LoadX zero_slot 5 20 6 0 0 0 0];
           out = instrVec (fst (Schedule default_opts (program vec)))
    in p < q \<and> q < length out \<and> IsLoadX (out ! q) \<and> Wr XN 6 \<in> set (ExtractOperandsV2 (out ! p))
       \<and> Rd XN 6 \<in> set (ExtractOperandsV2 (out ! q)) \<and> p + 14 \<le> q"
proof -
  let ?a = "Add zero_slot 6 7 8 0 0" and ?b = "LoadX zero_slot 5 20 6 0 0 0 0"
  have ops: "ExtractOperandsV2 ?a = [Wr XN 6, Rd XN 7, Rd XN 8]"
    "ExtractOperandsV2 ?b = [Wr XN 5, Rd XN 20, Rd XN 6]"
    by (simp_all add: extract_class_defs LoadX_def Add_def Operator_def)
  note two = two_slots [where opts = default_opts and a = ?a and b = ?b]
  note ops' = ref_equiv_operands [OF two(3), unfolded ops] ref_equiv_operands [OF two(4), unfolded ops]
  have "IsLoadX ?b"
    by (simp add: IsLoadX_def LoadX_def)
  then have load: "IsLoadX (instrVec (fst (Schedule default_opts (program [?a, ?b])))
      ! out_pos default_opts (program [?a, ?b]) 1)"
    using ref_equiv_classes [OF two(4)] by simp
  show ?thesis
    unfolding Let_def
    using two(1,2) ops' load lsx_read_distance [OF two(1,2) _ _ _ _ two(5), where r = 6 and r' = 6]
    by (intro exI conjI) auto
qed

lemma ref_equiv_clearX: "IsClearX a \<Longrightarrow> ref_equiv a b \<longleftrightarrow> b = a"
  by (auto simp: ref_equiv_def IsClearX_def IsLoadImd_def IsLoop_def IsLoopGroup_def)

theorem clearx_range_distance_witness:
  "\<exists>p q. let vec = [ClearX zero_slot 1 9 0 0 0 0, ClearX zero_slot 9 1 0 0 0 0];
           out = instrVec (fst (Schedule default_opts (program vec)))
    in p < q \<and> q < length out \<and> out ! p = vec ! 0 \<and> out ! q = vec ! 1 \<and> p + 14 \<le> q"
proof -
  let ?a = "ClearX zero_slot 1 9 0 0 0 0" and ?b = "ClearX zero_slot 9 1 0 0 0 0"
  have clear: "IsClearX ?a" "IsClearX ?b"
    by (simp_all add: IsClearX_def ClearX_def)
  have ends: "get CcuV2_CcuInstrClearX ''xnId'' ?a = (1 :: u16)"
    "get CcuV2_CcuInstrClearX ''xmId'' ?a = (9 :: u16)"
    "get CcuV2_CcuInstrClearX ''xnId'' ?b = (9 :: u16)"
    "get CcuV2_CcuInstrClearX ''xmId'' ?b = (1 :: u16)"
    by (simp_all add: ClearX_def)
  note two = two_slots [where opts = default_opts and a = ?a and b = ?b]
  have same: "instrVec (fst (Schedule default_opts (program [?a, ?b])))
        ! out_pos default_opts (program [?a, ?b]) 0 = ?a"
    "instrVec (fst (Schedule default_opts (program [?a, ?b])))
        ! out_pos default_opts (program [?a, ?b]) 1 = ?b"
    using two(3,4) clear by (simp_all add: ref_equiv_clearX)
  show ?thesis
    unfolding Let_def
    using two(1,2) same clearx_range_distance [OF two(1,2) _ _ _ two(5), unfolded same ends] clear
    by (intro exI conjI) auto
qed

end
