(* ===== verification/Scheduler_Budget.thy ===== *)
theory Scheduler_Budget
  imports Scheduler_Hazards
begin

text \<open>
  The number of NOPs that the scheduler inserts. Every NOP is paid for by an instruction of the
  input: a reader of a CKE register pays for at most 13, and a LoadX, StoreX or ClearX for at most
  13 before it and 13 after it. The invariant carries the debt that the last LoadX, StoreX or ClearX
  may still cause to a later reader. With it the instruction region that the kernel manager
  reserves (\<^verbatim>\<open>ComputeKernelInstrRegionSize\<close> in \<^verbatim>\<open>ccu_kernel/ccu_kernel_mgr.cc\<close>) is large enough.
\<close>

subsection \<open>The reserved region\<close>

text \<open>The five counts that the kernel and the translator report, and the size computed from them.\<close>

record KernelCounts =
  kernelInstrCount :: u32
  translatorInstrNum :: u32
  constValueCount :: nat
  repNeedToAddLatency :: u32
  lsxRepReserveCount :: u32

definition ComputeKernelInstrRegionSize :: "KernelCounts \<Rightarrow> HcclResult + u32" where
  "ComputeKernelInstrRegionSize krn =
    (let total = (ucast (kernelInstrCount krn) :: u64)
           + ucast (translatorInstrNum krn)
           + of_nat (constValueCount krn)
           + ucast (repNeedToAddLatency krn) * of_int CCU_CKE_RAW_LATENCY
           + ucast (lsxRepReserveCount krn) * (2 * of_int CCU_XN_RAW_LATENCY)
     in if total > 0xFFFFFFFF then Inl HCCL_E_INTERNAL else Inr (ucast total))"

text \<open>The check that the kernel manager makes before it loads the optimised sequence.\<close>

definition CheckInstrRegion :: "KernelCounts \<Rightarrow> CcuInstrInfo \<Rightarrow> HcclResult" where
  "CheckInstrRegion krn instrInfo =
    (case ComputeKernelInstrRegionSize krn of
       Inl err \<Rightarrow> err
     | Inr regionSize \<Rightarrow>
         if length (instrVec instrInfo) > unat regionSize then HCCL_E_INTERNAL else HCCL_SUCCESS)"

subsection \<open>The invariant\<close>

definition cke_reader_count :: "CcuInstr list \<Rightarrow> nat" where
  "cke_reader_count vec = length (filter (\<lambda>instr. cke_reads instr \<noteq> []) vec)"

definition lsx_count :: "CcuInstr list \<Rightarrow> nat" where
  "lsx_count vec = length (filter is_lsx vec)"

lemma counts_snoc:
  "cke_reader_count (xs @ [x]) = cke_reader_count xs + (if cke_reads x \<noteq> [] then 1 else 0)"
  "lsx_count (xs @ [x]) = lsx_count xs + (if is_lsx x then 1 else 0)"
  by (simp_all add: cke_reader_count_def lsx_count_def)

lemma probe_all_fresh:
  assumes "\<And>k c. tbl k = Some c \<Longrightarrow> c < e"
  shows "probe_all tbl 14 keys e \<le> e + 13"
  using assms by (intro probe_all_le) force+

text \<open>\<open>D\<close> bounds what the LoadX/StoreX/ClearX issued so far may still cost.\<close>

definition debt_inv :: "PinnedGroup list option \<Rightarrow> CcuInstr list \<Rightarrow> nat \<Rightarrow> int \<Rightarrow> bool" where
  "debt_inv pgs vec i D \<longleftrightarrow> 0 \<le> D \<and>
    (\<forall>key c. lastXnWriterCycle (sched_run pgs vec i) key = Some c
       \<longrightarrow> c + 14 \<le> cycle (sched_run pgs vec i) + D) \<and>
    cycle (sched_run pgs vec i) + D
      \<le> int i + 13 * int (cke_reader_count (take i vec)) + 26 * int (lsx_count (take i vec))"

lemma issue_bounds:
  assumes inv: "debt_inv pgs vec i D"
  defines "cyc \<equiv> cycle (sched_run pgs vec i)"
  shows "issue_cycle pgs vec i \<le> cyc + 13"
    and "\<not> is_lsx (vec ! i) \<Longrightarrow>
      issue_cycle pgs vec i \<le> cyc + max D (if cke_reads (vec ! i) \<noteq> [] then 13 else 0)"
proof -
  let ?st = "sched_run pgs vec i"
  have a: "probe_all (lastCkeWriterCycle ?st) 14 (cke_reads (vec ! i)) cyc
      \<le> cyc + (if cke_reads (vec ! i) \<noteq> [] then 13 else 0)"
    using probe_all_fresh [OF cke_table.entry_before_cycle] by (auto simp: cyc_def)
  have b: "probe_all (lastXnWriterCycle ?st) 14 (xn_reads pgs (vec ! i)) cyc \<le> cyc + 13"
    using probe_all_fresh [OF lsx_writer_table.entry_before_cycle] by (auto simp: cyc_def)
  have b': "probe_all (lastXnWriterCycle ?st) 14 (xn_reads pgs (vec ! i)) cyc \<le> cyc + D"
    using inv by (intro probe_all_le) (auto simp: debt_inv_def cyc_def)
  have c: "probe_all (lastAnyXnWriterCycle ?st) 14 (xn_reads pgs (vec ! i)) cyc \<le> cyc + 13"
    using probe_all_fresh [OF lsx_reader_table.entry_before_cycle] by (auto simp: cyc_def)
  show "issue_cycle pgs vec i \<le> cyc + 13"
    using a b c by (auto simp: issue_cycle_def issue_at_def cyc_def split: if_splits)
  show "issue_cycle pgs vec i \<le> cyc + max D (if cke_reads (vec ! i) \<noteq> [] then 13 else 0)"
    if "\<not> is_lsx (vec ! i)"
    using that a b' inv
    by (auto simp: issue_cycle_def issue_at_def cyc_def debt_inv_def split: if_splits)
qed

lemma not_lsx_no_keys: "\<not> is_lsx instr \<Longrightarrow> CollectXnWriterKeys instr pgs = []"
  by (simp add: is_lsx_def CollectXnWriterKeys_def)

lemma debt_inv_step:
  assumes inv: "debt_inv pgs vec i D" and i: "i < length vec"
  shows "\<exists>D'. debt_inv pgs vec (Suc i) D'"
proof (cases "is_lsx (vec ! i)")
  case True
  have "debt_inv pgs vec (Suc i) 13"
    using inv True i issue_bounds(1) [OF inv] issue_cycle_ge [of pgs vec i]
      lsx_writer_table.entry_before_cycle [of pgs vec i]
    by (fastforce simp: debt_inv_def sched_run_fields take_Suc_conv_app_nth counts_snoc split: if_splits)
  then show ?thesis ..
next
  case False
  define D' where "D' = max 0 (cycle (sched_run pgs vec i) + D - (issue_cycle pgs vec i + 1))"
  have "debt_inv pgs vec (Suc i) D'"
    using inv False i issue_bounds(2) [OF inv False] issue_cycle_ge [of pgs vec i]
    by (fastforce simp: debt_inv_def sched_run_fields take_Suc_conv_app_nth counts_snoc not_lsx_no_keys
        D'_def split: if_splits)
  then show ?thesis ..
qed

lemma debt_inv_run: "i \<le> length vec \<Longrightarrow> \<exists>D. debt_inv pgs vec i D"
proof (induction i)
  case 0
  then show ?case
    by (auto simp: debt_inv_def sched_run_fields cke_reader_count_def lsx_count_def)
next
  case (Suc i)
  then show ?case
    using debt_inv_step by fastforce
qed

lemma Schedule_nops_le:
  "length (instrVec (fst (Schedule opts input))) \<le> length (instrVec input)
     + 13 * cke_reader_count (instrVec input) + 26 * lsx_count (instrVec input)"
proof -
  obtain D where "debt_inv (opt_pinnedGroups opts) (instrVec input) (length (instrVec input)) D"
    using debt_inv_run by blast
  then show ?thesis
    by (auto simp: debt_inv_def Schedule_length cycle_eq_length)
qed

text \<open>C40. The scheduler inserts at most 13 NOPs for every instruction that reads a CKE register and at
  most 26 for every LoadX, StoreX and ClearX; the statistics count exactly the inserted NOPs.\<close>

theorem nop_budget:
  "length (instrVec (fst (Schedule opts input))) \<le> length (instrVec input)
     + 13 * cke_reader_count (instrVec input) + 26 * lsx_count (instrVec input)
   \<and> length (instrVec input) \<le> length (instrVec (fst (Schedule opts input)))
   \<and> nopInserted (snd (Schedule opts input))
      = of_nat (length (instrVec (fst (Schedule opts input))) - length (instrVec input))"
  using nopInserted_eq [of "opt_pinnedGroups opts" "instrVec input" "length (instrVec input)"]
    Schedule_nops_le [of opts input]
  by (simp add: Schedule_length Schedule_eq(3))

subsection \<open>The region is large enough\<close>

definition region_total :: "KernelCounts \<Rightarrow> nat" where
  "region_total krn = unat (kernelInstrCount krn) + unat (translatorInstrNum krn) + constValueCount krn
     + 14 * unat (repNeedToAddLatency krn) + 28 * unat (lsxRepReserveCount krn)"

lemma ComputeKernelInstrRegionSize_eq:
  assumes "constValueCount krn < 2 ^ 32"
  shows "ComputeKernelInstrRegionSize krn =
    (if region_total krn < 2 ^ 32 then Inr (of_nat (region_total krn)) else Inl HCCL_E_INTERNAL)"
proof -
  have small: "unat (x :: u32) < 2 ^ 32" for x
    using unsigned_less [of x, where 'a = nat] by simp
  define total where "total = (ucast (kernelInstrCount krn) :: u64) + ucast (translatorInstrNum krn)
     + of_nat (constValueCount krn) + ucast (repNeedToAddLatency krn) * 14
     + ucast (lsxRepReserveCount krn) * 28"
  have "total = of_nat (region_total krn)"
    by (simp add: total_def region_total_def)
  moreover have "region_total krn < 2 ^ 64"
    using assms small [of "kernelInstrCount krn"] small [of "translatorInstrNum krn"]
      small [of "repNeedToAddLatency krn"] small [of "lsxRepReserveCount krn"]
    by (simp add: region_total_def)
  ultimately have unat_total: "unat total = region_total krn"
    by (simp add: unat_of_nat)
  have compute: "ComputeKernelInstrRegionSize krn =
      (if total > 0xFFFFFFFF then Inl HCCL_E_INTERNAL else Inr (ucast total))"
    by (simp add: ComputeKernelInstrRegionSize_def total_def)
  have "total > 0xFFFFFFFF \<longleftrightarrow> \<not> region_total krn < 2 ^ 32"
    by (auto simp: word_less_nat_alt unat_total)
  moreover have "(ucast total :: u32) = of_nat (region_total krn)"
    by (simp add: of_nat_unat flip: unat_total)
  ultimately show ?thesis
    by (simp add: compute)
qed

text \<open>C33. When the raw sequence is no longer than the kernel's, the translator's and the constants'
  instructions together, and the kernel counted every instruction that reads a CKE register and
  every LoadX, StoreX and ClearX, and the sizes fit into 32 bits, the check against the reserved region passes: the optimised
  sequence never overruns it.\<close>

theorem region_fits:
  assumes "constValueCount krn < 2 ^ 32" and "region_total krn < 2 ^ 32"
    and "length (instrVec input) \<le> unat (kernelInstrCount krn) + unat (translatorInstrNum krn)
           + constValueCount krn"
    and "cke_reader_count (instrVec input) \<le> unat (repNeedToAddLatency krn)"
    and "lsx_count (instrVec input) \<le> unat (lsxRepReserveCount krn)"
  shows "CheckInstrRegion krn (fst (Schedule opts input)) = HCCL_SUCCESS"
proof -
  have "length (instrVec (fst (Schedule opts input))) \<le> region_total krn"
    using assms Schedule_nops_le [of opts input] by (simp add: region_total_def)
  then show ?thesis
    using assms(1,2)
    by (simp add: CheckInstrRegion_def ComputeKernelInstrRegionSize_eq unat_of_nat)
qed

theorem region_fits_witness:
  "\<exists>krn. region_total krn < 2 ^ 32 \<and>
    CheckInstrRegion krn (fst (Schedule default_opts (program [SetCKE zero_slot 0 0 3 1 1]))) = HCCL_SUCCESS"
proof -
  let ?krn = "\<lparr>kernelInstrCount = 1, translatorInstrNum = 0, constValueCount = 0,
    repNeedToAddLatency = 1, lsxRepReserveCount = 1\<rparr>"
  have "CheckInstrRegion ?krn (fst (Schedule default_opts (program [SetCKE zero_slot 0 0 3 1 1]))) = HCCL_SUCCESS"
    by (rule region_fits) (simp_all add: region_total_def cke_reader_count_def lsx_count_def)
  then show ?thesis
    by (intro exI [of _ ?krn]) (simp add: region_total_def)
qed

text \<open>For sequences within the 16-bit id space all positions of the output fit the 32-bit signed
  integers that the code keeps them in.\<close>

theorem positions_fit:
  assumes "length (instrVec input) < 2 ^ 16"
  shows "length (instrVec (fst (Schedule opts input))) < 2 ^ 31"
proof -
  have "cke_reader_count (instrVec input) \<le> length (instrVec input)"
    "lsx_count (instrVec input) \<le> length (instrVec input)"
    by (simp_all add: cke_reader_count_def lsx_count_def)
  then show ?thesis
    using assms Schedule_nops_le [of opts input] by simp
qed

theorem positions_fit_witness:
  "length (instrVec (fst (Schedule default_opts (program [Nop zero_slot])))) < 2 ^ 31"
  by (rule positions_fit) simp

end
