(* ===== verification/Microcode_Optimizer.thy ===== *)
theory Microcode_Optimizer
  imports Scheduler_Budget
begin

text \<open>
  The entry point of the back end (\<^verbatim>\<open>ccu_microcode_opt/microcode_optimizer.cc\<close>) and the function of the
  error reporter that uses its index table (\<^verbatim>\<open>RemapOptInstrIdToRaw\<close> in \<^verbatim>\<open>ccu_dfx/ccuTaskException.cc\<close>).
  The exception of \<^verbatim>\<open>Optimize\<close> is the left value of a sum. Durations and logging are not modelled.
\<close>

subsection \<open>The optimizer object\<close>

record OptimizerOptions =
  schedLevel :: SchedLevel

record MicrocodeOptimizer =
  schedOpts :: InstructionSchedulerOptions
  mo_options :: OptimizerOptions
  stats_sched :: SchedulerStats

datatype exception = InternalException

definition MicrocodeOptimizer_init :: MicrocodeOptimizer where
  "MicrocodeOptimizer_init =
    \<lparr>schedOpts = \<lparr>level = CkeOnly, opt_pinnedGroups = None\<rparr>, mo_options = \<lparr>schedLevel = CkeOnly\<rparr>,
     stats_sched = SchedulerStats_init\<rparr>"

definition DefaultOptions :: OptimizerOptions where
  "DefaultOptions = \<lparr>schedLevel = CkeOnly\<rparr>"

definition SetOptions :: "OptimizerOptions \<Rightarrow> MicrocodeOptimizer \<Rightarrow> MicrocodeOptimizer" where
  "SetOptions opts opt = opt\<lparr>mo_options := opts, schedOpts := (schedOpts opt)\<lparr>level := schedLevel opts\<rparr>\<rparr>"

definition SetPinnedGroups :: "PinnedGroup list option \<Rightarrow> MicrocodeOptimizer \<Rightarrow> MicrocodeOptimizer" where
  "SetPinnedGroups pgs opt = opt\<lparr>schedOpts := (schedOpts opt)\<lparr>opt_pinnedGroups := pgs\<rparr>\<rparr>"

definition Optimize ::
  "MicrocodeOptimizer \<Rightarrow> CcuInstrInfo \<Rightarrow> exception + (CcuInstrInfo \<times> MicrocodeOptimizer)" where
  "Optimize opt input =
    (let opt = opt\<lparr>schedOpts := (schedOpts opt)\<lparr>level := schedLevel (mo_options opt)\<rparr>\<rparr>;
         (afterSched, schedStats) = Schedule (schedOpts opt) input;
         opt = opt\<lparr>stats_sched := schedStats\<rparr>;
         afterSched = afterSched\<lparr>backendOptimized := True\<rparr>
     in if length (originIndex (stats_sched opt)) \<noteq> length (instrVec afterSched)
        then Inl InternalException
        else Inr (afterSched\<lparr>optToRawLocalIndex := originIndex (stats_sched opt)\<rparr>, opt))"

text \<open>\<^verbatim>\<open>Run\<close> returns the table of origins with the output; the register arguments are only logged.\<close>

definition Run ::
  "CcuInstrInfo \<Rightarrow> u16 \<Rightarrow> u16 \<Rightarrow> PinnedGroup list \<Rightarrow> exception + (CcuInstrInfo \<times> int list)" where
  "Run input reserveXnId reserveCkeId pgs =
    (let opts = DefaultOptions;
         opt = MicrocodeOptimizer_init;
         opt = SetOptions opts opt;
         opt = SetPinnedGroups (Some pgs) opt
     in case Optimize opt input of
          Inl e \<Rightarrow> Inl e
        | Inr (output, opt) \<Rightarrow> Inr (output, originIndex (stats_sched opt)))"

subsection \<open>The way back: from an optimised id to the raw one\<close>

text \<open>The loop of \<^verbatim>\<open>RemapOptInstrIdToRaw\<close>, which goes back from a NOP to the instruction before it.\<close>

fun RemapOpt_loop :: "int list \<Rightarrow> nat \<Rightarrow> int \<Rightarrow> int" where
  "RemapOpt_loop optToRaw 0 rawLocal = (if rawLocal < 0 then optToRaw ! 0 else rawLocal)"
| "RemapOpt_loop optToRaw (Suc i) rawLocal =
    (if rawLocal < 0 then RemapOpt_loop optToRaw i (optToRaw ! Suc i) else rawLocal)"

definition RemapOptInstrIdToRaw :: "CcuInstrInfo \<Rightarrow> u16 \<Rightarrow> u16" where
  "RemapOptInstrIdToRaw instrInfo optIns =
    (let optToRaw = optToRawLocalIndex instrInfo
     in if optToRaw = [] then optIns
        else
          let startId = startInstrId instrInfo
          in if optIns < startId then optIns
             else
               let optLocal = unat optIns - unat startId
               in if optLocal \<ge> length optToRaw then optIns
                  else
                    let rawLocal = optToRaw ! optLocal;
                        rawLocal = RemapOpt_loop optToRaw optLocal rawLocal
                    in if rawLocal < 0 then optIns else startId + of_int rawLocal)"

subsection \<open>Correctness\<close>

abbreviation run_opts :: "PinnedGroup list \<Rightarrow> InstructionSchedulerOptions" where
  "run_opts pgs \<equiv> \<lparr>level = CkeOnly, opt_pinnedGroups = Some pgs\<rparr>"

text \<open>What \<^verbatim>\<open>Run\<close> returns, in terms of the scheduler.\<close>

lemma Run_eq:
  "Run input rx rc pgs =
    (let (out, st) = Schedule (run_opts pgs) input
     in Inr (out\<lparr>backendOptimized := True, optToRawLocalIndex := originIndex st\<rparr>, originIndex st))"
  by (simp add: Run_def Optimize_def SetOptions_def SetPinnedGroups_def MicrocodeOptimizer_init_def
      DefaultOptions_def Schedule_length Let_def case_prod_beta)

text \<open>C38. The internal error of the optimiser is unreachable: the scheduler keeps one origin per emitted
  instruction, so \<^verbatim>\<open>Run\<close> always returns, the table it stores in the product and the one it hands
  out are the same, and the product is marked as optimised.\<close>

theorem run_never_throws:
  "\<exists>out. Run input rx rc pgs = Inr (out, optToRawLocalIndex out) \<and> backendOptimized out
     \<and> length (optToRawLocalIndex out) = length (instrVec out)
     \<and> instrVec out = instrVec (fst (Schedule (run_opts pgs) input))"
  by (simp add: Run_eq case_prod_beta Schedule_length)

subsection \<open>The fields of the product\<close>

lemma FixReferences_one_fields [simp]:
  "startInstrId (FixReferences_one input o2o prot k out) = startInstrId out"
  "instrCount (FixReferences_one input o2o prot k out) = instrCount out"
  "missionStartInstrId (FixReferences_one input o2o prot k out) = missionStartInstrId out"
  "missionInstrCount (FixReferences_one input o2o prot k out) = missionInstrCount out"
  by (simp_all add: FixReferences_one_def FixOneJumpReference_def Let_def)

lemma FixReferences_fold_fields [simp]:
  "startInstrId (fold (FixReferences_one input o2o prot) ks out) = startInstrId out"
  "instrCount (fold (FixReferences_one input o2o prot) ks out) = instrCount out"
  "missionStartInstrId (fold (FixReferences_one input o2o prot) ks out) = missionStartInstrId out"
  "missionInstrCount (fold (FixReferences_one input o2o prot) ks out) = missionInstrCount out"
  by (induction ks arbitrary: out) simp_all

lemma Schedule_startInstrId: "startInstrId (fst (Schedule opts input)) = startInstrId input"
  and Schedule_instrCount:
    "instrCount (fst (Schedule opts input)) = of_nat (length (instrVec (fst (Schedule opts input))))"
  unfolding Schedule_length
  by (simp_all add: Schedule_def ScheduleCkeOnly_def Let_def FixReferences_def FixReferences_mission_def
      RecomputeMissionCount_def CcuInstrInfo_init_def flip: sched_run_def)

subsection \<open>The way back\<close>

fun last_real :: "int list \<Rightarrow> nat \<Rightarrow> int" where
  "last_real xs 0 = xs ! 0"
| "last_real xs (Suc p) = (if xs ! Suc p < 0 then last_real xs p else xs ! Suc p)"

lemma RemapOpt_loop_eq: "RemapOpt_loop xs p x = (if x < 0 then last_real xs p else x)"
  by (induction p arbitrary: x) auto

lemma issue_cycle_first: "issue_cycle pgs vec 0 = 0"
proof -
  have "probe_all Map.empty l keys e = e" for l keys e
    by (induction keys arbitrary: e) (auto simp: probe_def)
  then show ?thesis
    by (simp add: issue_cycle_def issue_at_def sched_run_fields)
qed

lemma last_real_Schedule:
  assumes "p < length (instrVec (fst (Schedule opts input)))"
  shows "\<exists>q\<le>p. \<exists>k<length (instrVec input).
    originIndex (snd (Schedule opts input)) ! q = int k
    \<and> last_real (originIndex (snd (Schedule opts input))) p = int k
    \<and> ref_equiv (instrVec input ! k) (instrVec (fst (Schedule opts input)) ! q)
    \<and> (\<forall>r. q < r \<and> r \<le> p \<longrightarrow> instrVec (fst (Schedule opts input)) ! r = MakeNop)"
  using assms
proof (induction p)
  case 0
  then have "0 < length (instrVec input)"
    by (cases "instrVec input") (auto simp: Schedule_length sched_run_fields)
  moreover have "out_pos opts input 0 = 0"
    by (simp add: out_pos_def issue_cycle_first)
  ultimately show ?case
    using Schedule_at_out_pos [of 0 input opts] by auto
next
  case (Suc p)
  from Suc.prems show ?case
  proof (cases rule: Schedule_slot_cases)
    case (instr k)
    have "last_real (originIndex (snd (Schedule opts input))) (Suc p) = int k"
      using instr(4) by simp
    then show ?thesis
      using instr(1,3,4) by (metis le_refl leD)
  next
    case nop
    obtain q k where "q \<le> p" "k < length (instrVec input)"
      "originIndex (snd (Schedule opts input)) ! q = int k"
      "last_real (originIndex (snd (Schedule opts input))) p = int k"
      "ref_equiv (instrVec input ! k) (instrVec (fst (Schedule opts input)) ! q)"
      "\<forall>r. q < r \<and> r \<le> p \<longrightarrow> instrVec (fst (Schedule opts input)) ! r = MakeNop"
      using Suc by fastforce
    moreover have "last_real (originIndex (snd (Schedule opts input))) (Suc p) = int k"
      using nop calculation by simp
    ultimately show ?thesis
      using nop by (metis le_Suc_eq)
  qed
qed

text \<open>C37. The error reporter translates every id of an optimised product back to the raw instruction it
  belongs to: the instruction at that place or, from an inserted NOP, the last real instruction
  before it.\<close>

theorem remap_back:
  assumes run: "Run input rx rc pgs = Inr (out, origins)" and p: "p < length (instrVec out)"
    and id: "unat (startInstrId input) + p < 2 ^ 16"
  shows "\<exists>q\<le>p. \<exists>k<length (instrVec input). origins ! q = int k
    \<and> ref_equiv (instrVec input ! k) (instrVec out ! q)
    \<and> (\<forall>r. q < r \<and> r \<le> p \<longrightarrow> instrVec out ! r = MakeNop)
    \<and> RemapOptInstrIdToRaw out (startInstrId input + of_nat p) = startInstrId input + of_nat k"
proof -
  have out: "instrVec out = instrVec (fst (Schedule (run_opts pgs) input))"
    "origins = originIndex (snd (Schedule (run_opts pgs) input))"
    "optToRawLocalIndex out = origins" "startInstrId out = startInstrId input"
    using run by (auto simp: Run_eq case_prod_beta Schedule_startInstrId)
  obtain q k where q: "q \<le> p" "k < length (instrVec input)" "origins ! q = int k"
    "last_real origins p = int k" "ref_equiv (instrVec input ! k) (instrVec out ! q)"
    "\<forall>r. q < r \<and> r \<le> p \<longrightarrow> instrVec out ! r = MakeNop"
    using last_real_Schedule [of p "run_opts pgs" input] p out by auto
  have len: "p < length origins"
    using p out by (simp add: Schedule_length)
  have un: "unat (startInstrId input + of_nat p) = unat (startInstrId input) + p"
    using id by (simp add: unat_word_ariths unat_of_nat)
  have "origins ! p < 0 \<or> origins ! p = last_real origins p"
    by (cases p) auto
  then have "RemapOpt_loop origins p (origins ! p) = int k"
    using q(4) by (auto simp: RemapOpt_loop_eq)
  then have "RemapOptInstrIdToRaw out (startInstrId input + of_nat p) = startInstrId input + of_nat k"
    using len by (auto simp: RemapOptInstrIdToRaw_def out(3,4) Let_def un word_less_nat_alt)
  then show ?thesis
    using q by blast
qed

end
