(* ===== verification/Scheduler_Properties.thy ===== *)
theory Scheduler_Properties
  imports Microcode_Optimizer
begin

text \<open>
  What the scheduler promises on its output: the order of the instructions, the integrity of
  \<^verbatim>\<open>RelJmp\<close> blocks, and that everything that named an instruction by its position names the place of
  the same instruction afterwards. The place of the \<open>k\<close>-th input instruction is the position whose
  entry in \<^verbatim>\<open>originIndex\<close> is \<open>k\<close>.
\<close>

lemma origin_iff:
  assumes "k < length (instrVec input)" and "p < length (instrVec (fst (Schedule opts input)))"
  shows "originIndex (snd (Schedule opts input)) ! p = int k \<longleftrightarrow> p = out_pos opts input k"
proof
  assume orig: "originIndex (snd (Schedule opts input)) ! p = int k"
  show "p = out_pos opts input k"
    using assms(2) by (cases rule: Schedule_slot_cases) (use orig in auto)
qed (use Schedule_at_out_pos(2) [OF assms(1)] in simp)

subsection \<open>Order\<close>

text \<open>C19. The output holds the input instructions, each once and in their order, and NOPs: the origins
  other than \<open>-1\<close> are 0, 1, \<dots>, the slot of origin \<open>k\<close> holds the \<open>k\<close>-th instruction up to the
  members that refer to positions, and every other slot holds a NOP.\<close>

theorem schedule_order:
  "filter (\<lambda>x. x \<noteq> -1) (originIndex (snd (Schedule opts input))) = map int [0..<length (instrVec input)]
   \<and> (\<forall>p<length (instrVec (fst (Schedule opts input))).
        originIndex (snd (Schedule opts input)) ! p = -1
          \<and> instrVec (fst (Schedule opts input)) ! p = MakeNop
        \<or> (\<exists>k<length (instrVec input). originIndex (snd (Schedule opts input)) ! p = int k
            \<and> ref_equiv (instrVec input ! k) (instrVec (fst (Schedule opts input)) ! p)))"
proof (intro conjI allI impI)
  have "map fst (filter (\<lambda>(o1, _). o1 \<noteq> -1) (zip xs ys)) = filter (\<lambda>x. x \<noteq> -1) xs"
    if "length xs = length ys" for xs :: "int list" and ys :: "CcuInstr list"
    using that by (induction xs ys rule: list_induct2) auto
  from this [of "originIndex (stats (final_state opts input))" "outVec (final_state opts input)"]
  show "filter (\<lambda>x. x \<noteq> -1) (originIndex (snd (Schedule opts input))) = map int [0..<length (instrVec input)]"
    by (simp add: Schedule_eq(2) length_originIndex sched_run_erase)
next
  fix p
  assume "p < length (instrVec (fst (Schedule opts input)))"
  then show "originIndex (snd (Schedule opts input)) ! p = -1
          \<and> instrVec (fst (Schedule opts input)) ! p = MakeNop
        \<or> (\<exists>k<length (instrVec input). originIndex (snd (Schedule opts input)) ! p = int k
            \<and> ref_equiv (instrVec input ! k) (instrVec (fst (Schedule opts input)) ! p))"
    by (cases rule: Schedule_slot_cases) blast+
qed

subsection \<open>Blocks\<close>

text \<open>C34. A recognised \<^verbatim>\<open>RelJmp\<close> block is never torn: its instructions, from the first base loader on, are
  adjacent and in order in the output, so the distances between them that the inner jumps are built on stay true.\<close>

theorem relJmp_block_whole:
  assumes "matched (MatchRelJmpTemplate (instrVec input) i)"
  shows "\<exists>b. \<forall>d\<le>8. i - 2 + d < length (instrVec input) \<longrightarrow>
    b + d < length (instrVec (fst (Schedule opts input)))
    \<and> originIndex (snd (Schedule opts input)) ! (b + d) = int (i - 2 + d)"
proof -
  have pos: "d \<le> 8 \<Longrightarrow> i - 2 + d < length (instrVec input) \<Longrightarrow>
      out_pos opts input (i - 2 + d) = out_pos opts input (i - 2) + d" for d
  proof (induction d)
    case (Suc d)
    have "MarkRelJmpProtectedRanges (instrVec input) ! Suc (i - 2 + d)"
      using assms Suc.prems MatchRelJmp_facts(3) [OF assms] by (auto simp: protected_iff)
    then show ?case
      using Suc protected_next [of "instrVec input" "i - 2 + d" "opt_pinnedGroups opts"]
      by (simp add: int_out_pos [symmetric])
  qed simp
  show ?thesis
    by (rule exI [of _ "out_pos opts input (i - 2)"])
      (metis pos Schedule_at_out_pos(2) out_pos_less)
qed

subsection \<open>References by absolute id\<close>

lemma remap_out_pos:
  assumes "a < length (instrVec input)" and "unat (startInstrId input) + a < 2 ^ 16"
  shows "remapGlobal (startInstrId input) (origToOut (final_state opts input)) (startInstrId input + of_nat a)
    = startInstrId input + of_nat (out_pos opts input a)"
proof -
  have "remapGlobal (startInstrId input) (origToOut (final_state opts input)) (startInstrId input + of_nat a)
      = of_int (uint (startInstrId input) + origToOut (final_state opts input) ! a)"
    using assms by (intro remapGlobal_in) (simp_all add: length_origToOut origToOut_final)
  then show ?thesis
    using assms by (simp add: origToOut_final)
qed

text \<open>C35. A Loop that ran from the \<open>a\<close>-th to the \<open>b\<close>-th instruction of the input runs, in the output,
  from the place of the one to the place of the other.\<close>

theorem loop_body_remapped:
  fixes opts input
  defines "out \<equiv> instrVec (fst (Schedule opts input))"
    and "orig \<equiv> originIndex (snd (Schedule opts input))"
    and "vec \<equiv> instrVec input"
  assumes k: "k < length vec" "IsLoop (vec ! k)" and p: "p < length out" "orig ! p = int k"
    and a: "a < length vec" "unat (startInstrId input) + a < 2 ^ 16"
      "get CcuV2_CcuInstrLoop ''startInstrId'' (vec ! k) = startInstrId input + of_nat a"
    and b: "b < length vec" "unat (startInstrId input) + b < 2 ^ 16"
      "get CcuV2_CcuInstrLoop ''endInstrId'' (vec ! k) = startInstrId input + of_nat b"
  shows "\<exists>qa qb. qa < length out \<and> qb < length out \<and> orig ! qa = int a \<and> orig ! qb = int b
    \<and> get CcuV2_CcuInstrLoop ''startInstrId'' (out ! p) = startInstrId input + of_nat qa
    \<and> get CcuV2_CcuInstrLoop ''endInstrId'' (out ! p) = startInstrId input + of_nat qb"
proof -
  have "p = out_pos opts input k"
    using p k origin_iff by (simp add: out_def orig_def vec_def)
  then have "get CcuV2_CcuInstrLoop ''startInstrId'' (out ! p) = startInstrId input + of_nat (out_pos opts input a)"
    "get CcuV2_CcuInstrLoop ''endInstrId'' (out ! p) = startInstrId input + of_nat (out_pos opts input b)"
    using k a b sched.fixed_loop [of input vec _ "opt_pinnedGroups opts" k] remap_out_pos
    by (simp_all add: out_def vec_def Schedule_eq(1) origToOut_final)
  then show ?thesis
    using a(1) b(1) out_pos_less Schedule_at_out_pos(2) unfolding out_def orig_def vec_def by blast
qed

text \<open>A LoopGroup names the place of the Loop it named before.\<close>

theorem loopGroup_remapped:
  fixes opts input
  defines "out \<equiv> instrVec (fst (Schedule opts input))"
    and "orig \<equiv> originIndex (snd (Schedule opts input))"
    and "vec \<equiv> instrVec input"
  assumes k: "k < length vec" "IsLoopGroup (vec ! k)" and p: "p < length out" "orig ! p = int k"
    and a: "a < length vec" "unat (startInstrId input) + a < 2 ^ 16"
      "get CcuV2_CcuInstrLoopGroup ''startLoopInstrId'' (vec ! k) = startInstrId input + of_nat a"
  shows "\<exists>qa<length out. orig ! qa = int a
    \<and> get CcuV2_CcuInstrLoopGroup ''startLoopInstrId'' (out ! p) = startInstrId input + of_nat qa"
proof -
  have "p = out_pos opts input k"
    using p k origin_iff by (simp add: out_def orig_def vec_def)
  then have "get CcuV2_CcuInstrLoopGroup ''startLoopInstrId'' (out ! p)
      = startInstrId input + of_nat (out_pos opts input a)"
    using k a sched.fixed_loopGroup [of input vec _ "opt_pinnedGroups opts" k] remap_out_pos
    by (simp add: out_def vec_def Schedule_eq(1) origToOut_final)
  then show ?thesis
    using a(1) out_pos_less Schedule_at_out_pos(2) unfolding out_def orig_def vec_def by blast
qed

lemma Schedule_mission:
  fixes opts input
  defines "out \<equiv> fst (Schedule opts input)" and "s \<equiv> startInstrId input"
    and "m \<equiv> missionStartInstrId input"
  shows "missionStartInstrId out =
      (if s \<le> m \<and> unat m < unat s + length (instrVec input)
       then remapGlobal s (origToOut (final_state opts input)) m else m)"
    and "missionInstrCount out =
      (if s \<le> m \<and> unat m < unat s + length (instrVec input)
       then (if (ucast (missionStartInstrId out) :: u32)
                  < ucast s + ucast (of_nat (length (instrVec out)) :: u16)
             then s + of_nat (length (instrVec out)) - missionStartInstrId out else 0)
       else missionInstrCount input)"
proof -
  define base where "base = CcuInstrInfo_init\<lparr>instrVec := outVec (final_state opts input),
           startInstrId := startInstrId input,
           instrCount := of_nat (length (outVec (final_state opts input)))\<rparr>"
  have mission: "missionStartInstrId out
      = missionStartInstrId (FixReferences_mission input (origToOut (final_state opts input)) base)"
    "missionInstrCount out
      = missionInstrCount (FixReferences_mission input (origToOut (final_state opts input)) base)"
    by (simp_all add: out_def base_def Schedule_def ScheduleCkeOnly_def Let_def FixReferences_def
        flip: sched_run_def)
  have "instrCount base = of_nat (length (instrVec out))"
    by (simp add: base_def out_def Schedule_length)
  then show "missionStartInstrId out =
      (if s \<le> m \<and> unat m < unat s + length (instrVec input)
       then remapGlobal s (origToOut (final_state opts input)) m else m)"
    "missionInstrCount out =
      (if s \<le> m \<and> unat m < unat s + length (instrVec input)
       then (if (ucast (missionStartInstrId out) :: u32)
                  < ucast s + ucast (of_nat (length (instrVec out)) :: u16)
             then s + of_nat (length (instrVec out)) - missionStartInstrId out else 0)
       else missionInstrCount input)"
    by (auto simp: mission FixReferences_mission_def RecomputeMissionCount_def s_def m_def Let_def)
qed

text \<open>C36. When the mission starts at the \<open>a\<close>-th instruction and the ids of the output stay below \<open>2 ^ 16\<close>, the
  product's mission starts at the place of that instruction and runs to the end of the output.\<close>

theorem mission_remapped:
  fixes opts input
  defines "out \<equiv> fst (Schedule opts input)"
  assumes fits: "unat (startInstrId input) + length (instrVec out) < 2 ^ 16"
    and a: "a < length (instrVec input)" "missionStartInstrId input = startInstrId input + of_nat a"
  shows "\<exists>q<length (instrVec out). originIndex (snd (Schedule opts input)) ! q = int a
    \<and> unat (missionStartInstrId out) = unat (startInstrId input) + q
    \<and> unat (missionInstrCount out) = length (instrVec out) - q"
proof -
  let ?q = "out_pos opts input a"
  have q: "?q < length (instrVec out)"
    using out_pos_less [OF a(1), of opts] by (simp add: out_def)
  have le: "length (instrVec input) \<le> length (instrVec out)"
    using nopInserted_eq [of "opt_pinnedGroups opts" "instrVec input" "length (instrVec input)"]
    by (simp add: out_def Schedule_length)
  have un: "unat (startInstrId input + of_nat m) = unat (startInstrId input) + m"
    if "m \<le> length (instrVec out)" for m
    using fits that by (simp add: unat_word_ariths unat_of_nat)
  have inside: "startInstrId input \<le> missionStartInstrId input"
    "unat (missionStartInstrId input) < unat (startInstrId input) + length (instrVec input)"
    using a le un [of a] by (simp_all add: word_le_nat_alt)
  have start: "missionStartInstrId out = startInstrId input + of_nat ?q"
    using inside a le fits remap_out_pos [OF a(1), of opts]
    by (simp add: out_def Schedule_mission)
  then have start': "unat (missionStartInstrId out) = unat (startInstrId input) + ?q"
    using un [of ?q] q by simp
  have cnt: "unat (of_nat (length (instrVec out)) :: u16) = length (instrVec out)"
    using fits by (simp add: unat_of_nat)
  have below: "(ucast (missionStartInstrId out) :: u32)
      < ucast (startInstrId input) + ucast (of_nat (length (instrVec out)) :: u16)"
    using q fits by (simp add: word_less_nat_alt unat_word_ariths start' cnt)
  have "missionInstrCount out = startInstrId input + of_nat (length (instrVec out)) - missionStartInstrId out"
    using inside below by (simp add: out_def Schedule_mission)
  also have "\<dots> = of_nat (length (instrVec out) - ?q)"
    using q by (simp add: start of_nat_diff)
  finally have "unat (missionInstrCount out) = length (instrVec out) - ?q"
    using fits by (simp add: unat_of_nat)
  then show ?thesis
    using q start' Schedule_at_out_pos(2) [OF a(1), of opts] by blast
qed

subsection \<open>Jumps\<close>


lemma ucast_narrow_widen [simp]: "(ucast (ucast (x :: u16) :: u64) :: u16) = x"
  by (intro bit_word_eqI) (auto simp: bit_simps)

text \<open>C6. A recognised \<^verbatim>\<open>RelJmp\<close> block whose main jump has jump mode 0 computes the distance from the
  \<open>a\<close>-th instruction, its base, to its target, the \<open>b\<close>-th, from their absolute ids. When no other reference of the
  program touches the two instructions that load the base or the one that loads the target (two blocks that share a
  target loader are excluded) and the two old ids are below \<open>2 ^ 16\<close>, both ids follow the instructions: the block's base
  id becomes that of the place of the base, the second base becomes its complement to \<open>0x10000\<close>, and
  the target id, loaded before the block, becomes that of the place of the target.\<close>

theorem relJmp_fixed:
  fixes opts input
  defines "out \<equiv> instrVec (fst (Schedule opts input))"
    and "orig \<equiv> originIndex (snd (Schedule opts input))"
    and "vec \<equiv> instrVec input"
    and "prot \<equiv> MarkRelJmpProtectedRanges (instrVec input)"
  defines "gid \<equiv> (\<lambda>x. ucast (startInstrId input + of_nat x) :: u64)"
  assumes m: "matched (MatchRelJmpTemplate vec i)"
      "get CcuV2_CcuInstrJmp ''jumpMode'' (vec ! i) = (0 :: u16)"
    and t: "RelJmp_target_loader vec (match_targetXn (MatchRelJmpTemplate vec i)) (i - 2) = Some t"
    and only: "\<forall>k<length vec. k \<noteq> i \<longrightarrow> touched vec prot k \<inter> {i - 2, i + 1, t} = {}"
    and a: "a < length vec" "unat (startInstrId input) + a < 2 ^ 16" "immediate (vec ! (i - 2)) = gid a"
    and b: "b < length vec" "unat (startInstrId input) + b < 2 ^ 16" "immediate (vec ! t) = gid b"
    and pos: "pa < length out" "orig ! pa = int a" "pb < length out" "orig ! pb = int b"
      "q0 < length out" "orig ! q0 = int (i - 2)" "q3 < length out" "orig ! q3 = int (i + 1)"
      "pt < length out" "orig ! pt = int t"
  shows "immediate (out ! q0) = gid pa \<and> immediate (out ! q3) = kInstrIdSpace - gid pa
    \<and> immediate (out ! pt) = gid pb"
proof -
  note mf = MatchRelJmp_facts [OF m(1)]
  have idx: "i - 2 < length vec" "i + 1 < length vec" "t < length vec"
    using mf RelJmp_target_loader_Some [OF t] by linarith+
  have places: "pa = out_pos opts input a" "pb = out_pos opts input b" "q0 = out_pos opts input (i - 2)"
    "q3 = out_pos opts input (i + 1)" "pt = out_pos opts input t"
    using pos idx a(1) b(1) origin_iff unfolding out_def orig_def vec_def by blast+
  have small: "gid x < kInstrIdSpace" for x
    by (simp add: gid_def kInstrIdSpace_def)
  have remap: "ucast (remapGlobal (startInstrId input) (origToOut (final_state opts input)) (ucast (gid x)))
      = gid (out_pos opts input x)" if "x < length vec" "unat (startInstrId input) + x < 2 ^ 16" for x
    using remap_out_pos [of x input opts] that by (simp add: gid_def vec_def)
  note fixed = sched.fixed_relJmp_at [where input = input and vec = vec and pgs = "opt_pinnedGroups opts"
      and k = i and prot = prot, unfolded vec_def, OF refl _ m [unfolded vec_def]]
  have only': "\<forall>k<length vec. k \<noteq> i \<longrightarrow> i - 2 \<notin> touched vec prot k"
    "\<forall>k<length vec. k \<noteq> i \<longrightarrow> i + 1 \<notin> touched vec prot k"
    "\<forall>k<length vec. k \<noteq> i \<longrightarrow> t \<notin> touched vec prot k"
    using only by auto
  have base: "immediate (vec ! (i - 2)) < kInstrIdSpace" "immediate (vec ! t) < kInstrIdSpace"
    using a(3) b(3) small by simp_all
  have "immediate (out ! q0) = gid pa"
    using fixed(1) [of _ "i - 2"] idx only' base remap [OF a(1,2)] a(3)
    by (simp add: places out_def vec_def prot_def Schedule_eq(1) origToOut_final)
  moreover have "immediate (out ! q3) = kInstrIdSpace - gid pa"
    using fixed(2) [of _ "i + 1"] idx only' base remap [OF a(1,2)] a(3)
    by (simp add: places out_def vec_def prot_def Schedule_eq(1) origToOut_final)
  moreover have "immediate (out ! pt) = gid pb"
    using fixed(3) [of _ t] idx only' base remap [OF b(1,2)] b(3) t
    by (simp add: places out_def vec_def prot_def Schedule_eq(1) origToOut_final)
  ultimately show ?thesis
    by blast
qed

lemma RelJmp_matches:
  fixes pre slots post targetXn jmpId xn0 xn1
  defines "match \<equiv> MatchRelJmpTemplate (pre @ RelJmp slots targetXn jmpId xn0 xn1 @ post) (length pre + 2)"
  shows "matched match \<and> p0 match = length pre \<and> p3 match = length pre + 3
    \<and> match_xn0 match = xn0 \<and> match_xn1 match = xn1 \<and> match_targetXn match = targetXn"
proof -
  let ?blk = "RelJmp slots targetXn jmpId xn0 xn1"
  let ?vec = "pre @ ?blk @ post"
  have len: "length ?blk = 9"
    by (simp add: RelJmp_def)
  have at: "?vec ! (length pre + c) = ?blk ! c" if "c < 9" for c
    using that by (simp add: nth_append len)
  note at' = at [of 0] at [of 1] at [of 2] at [of 3] at [of 4] at [of 5] at [of 6] at [of 7]
  have blk: "?blk ! 0 = LoadImdToXn (slots ! 0) xn0 (ucast jmpId) 0 0 0"
    "?blk ! 1 = LoadImdToXn (slots ! 1) xn1 (ucast JMP_TARGET_PC_IF_BRANCH) 0 0 0"
    "?blk ! 2 = Jump (slots ! 2) xn1 targetXn xn0 JMP_COND_TYPE_IF"
    "?blk ! 3 = LoadImdToXn (slots ! 3) xn0 (ucast (0x10000 - jmpId)) 0 0 0"
    "?blk ! 4 = Add (slots ! 4) targetXn targetXn xn0 0 0"
    "?blk ! 5 = LoadImdToXn (slots ! 5) xn1 (ucast JMP_TARGET_PC_NOP_BRANCH) 0 0 0"
    "?blk ! 6 = Jump (slots ! 6) xn1 0 0 JMP_COND_TYPE_UNCOND"
    "?blk ! 7 = Sub (slots ! 7) targetXn targetXn xn0 0 0"
    by (simp_all add: RelJmp_def)
  have inner: "?vec ! (length pre + 2 - 1) = ?blk ! 1" "?vec ! (length pre + 2 - 2) = ?blk ! 0"
    "?vec ! (length pre + 2) = ?blk ! 2"
    "?vec ! (length pre + 2 + 1) = ?blk ! 3" "?vec ! (length pre + 2 + 2) = ?blk ! 4"
    "?vec ! (length pre + 2 + 3) = ?blk ! 5" "?vec ! (length pre + 2 + 4) = ?blk ! 6"
    "?vec ! (length pre + 2 + 5) = ?blk ! 7"
    using at' by (simp_all add: add.commute eval_nat_numeral)
  have "\<not> (length pre + 2 < 2 \<or> length ?vec \<le> length pre + 2 + 5)"
    by (simp add: len)
  then show ?thesis
    unfolding match_def MatchRelJmpTemplate_def CheckRelJmpHead_def CheckRelJmpTail_def Let_def inner blk
    by (simp add: IsCtrlJmp_def IsLoadImd_def IsRelJmpArith_def IsArith_def LoadImdToXn_def Jump_def
        Add_def Sub_def Operator_def Let_def)
qed

text \<open>The fingerprint recognises every block that the \<^verbatim>\<open>RelJmp\<close> encoder produces, wherever it stands
  in a sequence, with the registers the block was encoded with.\<close>

theorem relJmp_recognised:
  fixes pre slots post targetXn jmpId xn0 xn1
  defines "match \<equiv> MatchRelJmpTemplate (pre @ RelJmp slots targetXn jmpId xn0 xn1 @ post) (length pre + 2)"
  shows "matched match \<and> p0 match = length pre \<and> p3 match = length pre + 3
    \<and> match_xn0 match = xn0 \<and> match_xn1 match = xn1 \<and> match_targetXn match = targetXn"
  unfolding match_def by (rule RelJmp_matches)

subsection \<open>Concrete programs\<close>

lemma Schedule_length_le: "length (instrVec (fst (Schedule opts input))) \<le> 40 * length (instrVec input)"
proof -
  have "cke_reader_count (instrVec input) \<le> length (instrVec input)"
    "lsx_count (instrVec input) \<le> length (instrVec input)"
    by (simp_all add: cke_reader_count_def lsx_count_def)
  then show ?thesis
    using Schedule_nops_le [of opts input] by linarith
qed

theorem relJmp_block_whole_witness:
  "let input = program (RelJmp (replicate 9 zero_slot) 9 40 7 8)
   in matched (MatchRelJmpTemplate (instrVec input) 2) \<and>
     (\<exists>b. \<forall>d\<le>8. 2 - 2 + d < length (instrVec input) \<longrightarrow>
       b + d < length (instrVec (fst (Schedule default_opts input)))
       \<and> originIndex (snd (Schedule default_opts input)) ! (b + d) = int (2 - 2 + d))"
  unfolding Let_def
proof
  show m: "matched (MatchRelJmpTemplate (instrVec (program (RelJmp (replicate 9 zero_slot) 9 40 7 8))) 2)"
    using RelJmp_matches [of "[]" "replicate 9 zero_slot" 9 40 7 8 "[]"]
    by (simp add: numeral_2_eq_2)
  show "\<exists>b. \<forall>d\<le>8. 2 - 2 + d < length (instrVec (program (RelJmp (replicate 9 zero_slot) 9 40 7 8))) \<longrightarrow>
       b + d < length (instrVec (fst (Schedule default_opts (program (RelJmp (replicate 9 zero_slot) 9 40 7 8)))))
       \<and> originIndex (snd (Schedule default_opts (program (RelJmp (replicate 9 zero_slot) 9 40 7 8)))) ! (b + d)
         = int (2 - 2 + d)"
    by (rule relJmp_block_whole [OF m])
qed

definition loop_program :: CcuInstrInfo where
  "loop_program = (program [SetCKE zero_slot 0 0 3 1 1, SetCKE zero_slot 0 0 3 1 1,
     Loop zero_slot 0 1 4 5 6, LoopGroup zero_slot 2 7 8 9])\<lparr>missionStartInstrId := 2\<rparr>"

lemma loop_program_fields [simp]:
  "startInstrId loop_program = 0" "missionStartInstrId loop_program = 2"
  "instrVec loop_program = [SetCKE zero_slot 0 0 3 1 1, SetCKE zero_slot 0 0 3 1 1,
     Loop zero_slot 0 1 4 5 6, LoopGroup zero_slot 2 7 8 9]"
  by (simp_all add: loop_program_def program_def CcuInstrInfo_init_def)

theorem schedule_order_witness:
  "filter (\<lambda>x. x \<noteq> -1) (originIndex (snd (Schedule default_opts loop_program)))
      = map int [0..<length (instrVec loop_program)]
   \<and> 0 < length (instrVec (fst (Schedule default_opts loop_program)))
   \<and> (originIndex (snd (Schedule default_opts loop_program)) ! 0 = -1
        \<or> (\<exists>k<length (instrVec loop_program). originIndex (snd (Schedule default_opts loop_program)) ! 0 = int k))"
proof -
  note order = schedule_order [of default_opts loop_program]
  have "originIndex (snd (Schedule default_opts loop_program)) \<noteq> []"
    using order by (auto simp: loop_program_fields)
  then have "0 < length (instrVec (fst (Schedule default_opts loop_program)))"
    using Schedule_length [of default_opts loop_program] by (metis length_greater_0_conv)
  then show ?thesis
    using order by blast
qed

theorem loop_body_remapped_witness:
  "\<exists>p qa qb. let out = instrVec (fst (Schedule default_opts loop_program));
      orig = originIndex (snd (Schedule default_opts loop_program))
    in p < length out \<and> orig ! p = 2 \<and> orig ! qa = 0 \<and> orig ! qb = 1
      \<and> get CcuV2_CcuInstrLoop ''startInstrId'' (out ! p) = (of_nat qa :: u16)
      \<and> get CcuV2_CcuInstrLoop ''endInstrId'' (out ! p) = (of_nat qb :: u16)"
proof -
  have k: "2 < length (instrVec loop_program)"
    by simp
  have loop: "IsLoop (instrVec loop_program ! 2)"
    by (simp add: IsLoop_def Loop_def)
  have "get CcuV2_CcuInstrLoop ''startInstrId'' (instrVec loop_program ! 2) = startInstrId loop_program + of_nat 0"
    "get CcuV2_CcuInstrLoop ''endInstrId'' (instrVec loop_program ! 2) = startInstrId loop_program + of_nat 1"
    by (simp_all add: Loop_def)
  note loop_body_remapped [OF k loop out_pos_less [OF k] Schedule_at_out_pos(2) [OF k] _ _ this(1) _ _ this(2),
      where opts = default_opts]
  then show ?thesis
    using out_pos_less [OF k, of default_opts] Schedule_at_out_pos(2) [OF k, of default_opts]
    unfolding Let_def by fastforce
qed

theorem loopGroup_remapped_witness:
  "\<exists>p qa. let out = instrVec (fst (Schedule default_opts loop_program));
      orig = originIndex (snd (Schedule default_opts loop_program))
    in p < length out \<and> orig ! p = 3 \<and> orig ! qa = 2
      \<and> get CcuV2_CcuInstrLoopGroup ''startLoopInstrId'' (out ! p) = (of_nat qa :: u16)"
proof -
  have k: "3 < length (instrVec loop_program)"
    by simp
  have group: "IsLoopGroup (instrVec loop_program ! 3)"
    by (simp add: IsLoopGroup_def LoopGroup_def)
  have "get CcuV2_CcuInstrLoopGroup ''startLoopInstrId'' (instrVec loop_program ! 3)
      = startInstrId loop_program + of_nat 2"
    by (simp add: LoopGroup_def)
  note loopGroup_remapped [OF k group out_pos_less [OF k] Schedule_at_out_pos(2) [OF k] _ _ this,
      where opts = default_opts]
  then show ?thesis
    using out_pos_less [OF k, of default_opts] Schedule_at_out_pos(2) [OF k, of default_opts]
    unfolding Let_def by fastforce
qed

theorem mission_remapped_witness:
  "\<exists>q. let out = fst (Schedule default_opts loop_program)
    in originIndex (snd (Schedule default_opts loop_program)) ! q = 2
      \<and> unat (missionStartInstrId out) = q \<and> unat (missionInstrCount out) = length (instrVec out) - q"
proof -
  have "length (instrVec (fst (Schedule default_opts loop_program))) \<le> 160"
    using Schedule_length_le [of default_opts loop_program] by simp
  then have "unat (startInstrId loop_program)
      + length (instrVec (fst (Schedule default_opts loop_program))) < 2 ^ 16"
    by simp
  from mission_remapped [OF this, of 2] show ?thesis
    by (auto simp: Let_def)
qed

definition jump_program :: CcuInstrInfo where
  "jump_program = program [LoadImdToXn zero_slot 5 2 0 0 0, Jump zero_slot 5 6 7 1,
     SetCKE zero_slot 0 0 3 1 1, SetCKE zero_slot 0 0 3 1 1]"

lemma jump_program_facts:
  defines "vec \<equiv> instrVec jump_program"
  shows "length vec = 4" "IsCtrlJmp (vec ! 1)" "get CcuV2_CcuInstrJmp ''jumpMode'' (vec ! 1) = (0 :: u16)"
    "FindOffsetLoaderOrigIdx vec 1 (get CcuV2_CcuInstrJmp ''relTarInstrXnId'' (vec ! 1)) = 0"
    "immediate (vec ! 0) = 2"
  by (simp_all add: vec_def jump_program_def IsCtrlJmp_def Jump_def LoadImdToXn_def
      FindOffsetLoaderOrigIdx_def)



text \<open>A block that jumps back to the first instruction of the program, with the main jump behind it.\<close>

definition call_program :: CcuInstrInfo where
  "call_program = program (LoadImdToXn zero_slot 9 0 0 0 0
     # RelJmp (replicate 9 zero_slot) 9 10 7 8 @ [Jump zero_slot 9 0 0 6])"

lemma call_program_vec:
  "instrVec call_program = [LoadImdToXn zero_slot 9 0 0 0 0,
     LoadImdToXn zero_slot 7 10 0 0 0, LoadImdToXn zero_slot 8 5 0 0 0, Jump zero_slot 8 9 7 2,
     LoadImdToXn zero_slot 7 0xFFF6 0 0 0, Add zero_slot 9 9 7 0 0, LoadImdToXn zero_slot 8 3 0 0 0,
     Jump zero_slot 8 0 0 6, Sub zero_slot 9 9 7 0 0, Nop zero_slot, Jump zero_slot 9 0 0 6]"
  by (simp add: call_program_def RelJmp_def)

lemma call_program_match:
  "matched (MatchRelJmpTemplate (instrVec call_program) 3)"
  "match_targetXn (MatchRelJmpTemplate (instrVec call_program) 3) = 9"
  using RelJmp_matches [of "[LoadImdToXn zero_slot 9 0 0 0 0]" "replicate 9 zero_slot" 9 10 7 8
      "[Jump zero_slot 9 0 0 6]"]
  by (simp_all add: call_program_def numeral_3_eq_3)

lemma call_program_jumps:
  "get CcuV2_CcuInstrJmp ''jumpMode'' (instrVec call_program ! 3) = (0 :: u16)"
  "get CcuV2_CcuInstrJmp ''conditionType'' (instrVec call_program ! 7) = (6 :: u16)"
  "get CcuV2_CcuInstrJmp ''relTarInstrXnId'' (instrVec call_program ! 10) = (9 :: u16)"
  by (simp_all add: call_program_vec Jump_def)

lemma call_program_main_loader: "FindOffsetLoaderOrigIdx (instrVec call_program) 10 9 = -1"
proof -
  have at: "instrVec call_program ! 8 = Sub zero_slot 9 9 7 0 0" "instrVec call_program ! 9 = Nop zero_slot"
    by (simp_all add: call_program_vec)
  have "FindOffsetLoader_loop (instrVec call_program) 9 (Suc 9) = FindOffsetLoader_loop (instrVec call_program) 9 9"
    unfolding FindOffsetLoader_loop.simps(2) Let_def at by (simp add: Nop_def extract_class_defs)
  moreover have "FindOffsetLoader_loop (instrVec call_program) 9 (Suc 8) = -1"
    unfolding FindOffsetLoader_loop.simps(2) Let_def at
    by (simp add: Sub_def Operator_def extract_class_defs)
  ultimately show ?thesis
    by (simp add: FindOffsetLoaderOrigIdx_def)
qed

lemma call_program_touched:
  assumes "k < 11" and "k \<noteq> 3"
  shows "touched (instrVec call_program) (MarkRelJmpProtectedRanges (instrVec call_program)) k = {}"
proof -
  let ?vec = "instrVec call_program"
  have len: "length ?vec = 11"
    by (simp add: call_program_vec)
  have "k = 7 \<or> k = 10 \<or> k = 0 \<or> k = 1 \<or> k = 2 \<or> k = 4 \<or> k = 5 \<or> k = 6 \<or> k = 8 \<or> k = 9"
    using assms by presburger
  then consider "k = 7" | "k = 10" | "k \<in> {0, 1, 2, 4, 5, 6, 8, 9}"
    by blast
  then show ?thesis
  proof cases
    case 1
    have "MarkRelJmpProtectedRanges ?vec ! 7"
      using call_program_match(1) by (auto simp: protected_iff len intro!: exI [of _ 3])
    moreover have "\<not> matched (MatchRelJmpTemplate ?vec 7)"
      by (simp add: MatchRelJmpTemplate_def call_program_jumps(2) RelJmpMatch_none_def)
    moreover have "\<not> IsLoop (?vec ! 7)" "\<not> IsLoopGroup (?vec ! 7)"
      by (simp_all add: call_program_vec IsLoop_def IsLoopGroup_def Jump_def)
    ultimately show ?thesis
      using 1 by (simp add: touched_def len)
  next
    case 2
    have "\<not> matched (MatchRelJmpTemplate ?vec 10)"
      using MatchRelJmp_facts(4) [of ?vec 10] by (auto simp: len)
    moreover have "\<not> IsLoop (?vec ! 10)" "\<not> IsLoopGroup (?vec ! 10)"
      by (simp_all add: call_program_vec IsLoop_def IsLoopGroup_def Jump_def)
    ultimately show ?thesis
      using 2 by (simp add: touched_def call_program_jumps(3) call_program_main_loader)
  next
    case 3
    then have "\<not> IsLoop (?vec ! k) \<and> \<not> IsLoopGroup (?vec ! k) \<and> \<not> IsCtrlJmp (?vec ! k)"
      by (auto simp: call_program_vec IsLoop_def IsLoopGroup_def IsCtrlJmp_def LoadImdToXn_def Add_def
          Sub_def Operator_def Nop_def)
    then show ?thesis
      by (simp add: touched_def)
  qed
qed

theorem relJmp_fixed_witness:
  "\<exists>pa pb q0 q3 pt. let out = instrVec (fst (Schedule default_opts call_program));
      orig = originIndex (snd (Schedule default_opts call_program))
    in orig ! pa = 10 \<and> orig ! pb = 0 \<and> orig ! q0 = 1 \<and> orig ! q3 = 4 \<and> orig ! pt = 0
      \<and> immediate (out ! q0) = ucast (of_nat pa :: u16)
      \<and> immediate (out ! q3) = kInstrIdSpace - ucast (of_nat pa :: u16)
      \<and> immediate (out ! pt) = ucast (of_nat pb :: u16)"
proof -
  let ?vec = "instrVec call_program" and ?at = "out_pos default_opts call_program"
  let ?out = "instrVec (fst (Schedule default_opts call_program))"
  have len: "length ?vec = 11"
    by (simp add: call_program_vec)
  have start: "startInstrId call_program = 0"
    by (simp add: call_program_def program_def CcuInstrInfo_init_def)
  have imm: "immediate (?vec ! 1) = 10" "immediate (?vec ! 0) = 0"
    "RelJmp_target_loader ?vec 9 (Suc 0) = Some 0"
    by (simp_all add: call_program_vec LoadImdToXn_def IsLoadImd_def)
  have orig: "originIndex (snd (Schedule default_opts call_program)) ! ?at k = int k" if "k < 11" for k
    using Schedule_at_out_pos(2) [of k call_program default_opts] that len by simp
  have "immediate (?out ! ?at 1) = ucast (startInstrId call_program + of_nat (?at 10))
      \<and> immediate (?out ! ?at 4) = kInstrIdSpace - ucast (startInstrId call_program + of_nat (?at 10))
      \<and> immediate (?out ! ?at 0) = ucast (startInstrId call_program + of_nat (?at 0))"
    using relJmp_fixed [where opts = default_opts and input = call_program and i = 3 and t = 0 and a = 10
        and b = 0 and pa = "?at 10" and pb = "?at 0" and ?q0.0 = "?at 1" and ?q3.0 = "?at 4" and pt = "?at 0"]
      call_program_match call_program_jumps(1) call_program_touched imm len start orig out_pos_less
    by simp
  note facts = this [unfolded start add_0]
  show ?thesis
    unfolding Let_def
    by (rule exI [of _ "?at 10"], rule exI [of _ "?at 0"], rule exI [of _ "?at 1"],
        rule exI [of _ "?at 4"], rule exI [of _ "?at 0"]) (simp add: orig facts [unfolded One_nat_def])
qed

theorem remap_back_witness:
  "\<exists>out origins. Run jump_program 0 0 [] = Inr (out, origins) \<and> 0 < length (instrVec out)
     \<and> (\<exists>k<length (instrVec jump_program). RemapOptInstrIdToRaw out 0 = of_nat k)"
proof -
  obtain out origins where run: "Run jump_program 0 0 [] = Inr (out, origins)"
    by (simp add: Run_eq case_prod_beta)
  have out: "instrVec out = instrVec (fst (Schedule (run_opts []) jump_program))"
    using run by (auto simp: Run_eq case_prod_beta)
  have "out_pos (run_opts []) jump_program 0 < length (instrVec (fst (Schedule (run_opts []) jump_program)))"
    by (rule out_pos_less) (simp add: jump_program_facts)
  then have p: "0 < length (instrVec out)"
    unfolding out by linarith
  have start: "startInstrId jump_program = 0"
    by (simp add: jump_program_def program_def CcuInstrInfo_init_def)
  have "\<exists>k<length (instrVec jump_program). RemapOptInstrIdToRaw out 0 = of_nat k"
    using remap_back [OF run p] by (auto simp: start)
  with run p show ?thesis
    by blast
qed

end
