(* ===== verification/Res_Id_Allocator.thy ===== *)
theory Res_Id_Allocator
  imports Ccu_Prelude
begin

text \<open>
  The allocator of resource ids (class \<^verbatim>\<open>CcuResIdAllocator\<close> of
  \<^verbatim>\<open>ccu_device/ccu_comp/ccu_res_allocator.cc\<close>). It hands out ids below a capacity and keeps the
  allocated ones as a list of blocks in increasing order, merged so that no two blocks touch.
  Ids, counts and the capacity are \<^verbatim>\<open>uint32_t\<close>; sums and differences go through \<open>u32_add\<close> and
  \<open>u32_sub\<close>. The mutex serialises the calls and each call is one step of the model.

  \<open>alloc_inv\<close> is the representation invariant and \<open>ids\<close> the set of allocated ids. \<open>Release\<close> is shown
  here to keep the invariant and to remove exactly the ids it is given; \<^verbatim>\<open>Res_Id_Alloc\<close> does the same
  for \<open>Alloc\<close>.
\<close>

subsection \<open>The state\<close>

record ResInfo =
  startId :: nat
  num :: nat

abbreviation mk_res :: "nat \<Rightarrow> nat \<Rightarrow> ResInfo" where
  "mk_res s n \<equiv> \<lparr>startId = s, num = n\<rparr>"

record CcuResIdAllocator =
  capacity :: nat
  allocatedSize :: nat
  resInfos :: "ResInfo list"

definition CcuResIdAllocator_new :: "nat \<Rightarrow> CcuResIdAllocator" where
  "CcuResIdAllocator_new cap = \<lparr>capacity = cap, allocatedSize = 0, resInfos = []\<rparr>"

subsection \<open>Allocation\<close>

text \<open>The scan over the gaps between the blocks; the list ends with the sentinel block that the code
  appends for its duration. The loop stops as soon as nothing is left to allocate.\<close>

fun Alloc_scan ::
  "nat \<Rightarrow> ResInfo list \<Rightarrow> nat \<Rightarrow> nat \<Rightarrow> ResInfo list \<Rightarrow> ResInfo list \<times> nat" where
  "Alloc_scan limitSize [] tryStartId leftNum newResInfos = (newResInfos, leftNum)"
| "Alloc_scan limitSize (resInfo # rest) tryStartId leftNum newResInfos =
    (let partNum = min (u32_sub (startId resInfo) tryStartId) leftNum
     in if partNum > limitSize then
          (let newResInfos = newResInfos @ [mk_res tryStartId partNum];
               leftNum = u32_sub leftNum partNum
           in if leftNum = 0 then (newResInfos, leftNum)
              else Alloc_scan limitSize rest (u32_add (startId resInfo) (num resInfo)) leftNum newResInfos)
        else Alloc_scan limitSize rest (u32_add (startId resInfo) (num resInfo)) leftNum newResInfos)"

text \<open>The loop that merges the new blocks into the list. It stops when the new blocks or the blocks of
  the list are used up, and returns both lists with the index of the next new block.\<close>

function AllocResInfo_loop ::
  "ResInfo list \<Rightarrow> ResInfo list \<Rightarrow> nat \<Rightarrow> nat \<Rightarrow> ResInfo list \<times> ResInfo list \<times> nat" where
  "AllocResInfo_loop newResInfos res newIdx idx =
    (if \<not> (newIdx < length newResInfos \<and> idx < length res) then (newResInfos, res, newIdx)
     else if startId (newResInfos ! newIdx) \<ge> startId (res ! idx)
     then AllocResInfo_loop newResInfos res newIdx (Suc idx)
     else
       let newResInfo = newResInfos ! newIdx;
           resInfo = res ! idx;
           (newResInfos, res) =
             (if startId newResInfo = u32_sub (startId resInfo) (num newResInfo)
              then (newResInfos[newIdx := newResInfo\<lparr>num := u32_add (num newResInfo) (num resInfo)\<rparr>],
                    take idx res @ drop (Suc idx) res)
              else (newResInfos, res))
       in if idx = 0
          then AllocResInfo_loop newResInfos ((newResInfos ! newIdx) # res) (Suc newIdx) idx
          else AllocResInfo_loop newResInfos
                 (res[idx - 1 := (res ! (idx - 1))\<lparr>num :=
                    u32_add (num (res ! (idx - 1))) (num (newResInfos ! newIdx))\<rparr>])
                 (Suc newIdx) idx)"
  by pat_completeness auto

termination AllocResInfo_loop
  by (relation "measure (\<lambda>(ns, res, newIdx, idx). 2 * (length ns - newIdx) + (length res - idx))")
    (auto split: if_splits)

declare AllocResInfo_loop.simps [simp del]

definition AllocResInfo :: "ResInfo list \<Rightarrow> ResInfo list \<Rightarrow> ResInfo list" where
  "AllocResInfo newResInfos res =
    (if res = [] then [hd newResInfos]
     else
       case AllocResInfo_loop newResInfos res 0 0 of (newResInfos, res, newIdx) \<Rightarrow>
         if newIdx < length newResInfos
         then butlast res @ [(last res)\<lparr>num := u32_add (num (last res)) (num (last newResInfos))\<rparr>]
         else res)"

text \<open>\<open>Alloc\<close> returns the result code, the allocated blocks (left as the caller passed them, here empty,
  on an error) and the new state.\<close>

definition Alloc ::
  "nat \<Rightarrow> bool \<Rightarrow> CcuResIdAllocator \<Rightarrow> HcclResult \<times> ResInfo list \<times> CcuResIdAllocator" where
  "Alloc n consecutive a =
    (if n = 0 then (HCCL_E_PARA, [], a)
     else
       let freeSize = u32_sub (capacity a) (allocatedSize a)
       in if n > freeSize then (HCCL_E_UNAVAIL, [], a)
          else
            let limitSize = (if consecutive then u32_sub n 1 else 0);
                (newResInfos, leftNum) =
                  Alloc_scan limitSize (resInfos a @ [mk_res (capacity a) 0]) 0 n []
            in if leftNum \<noteq> 0 then (HCCL_E_UNAVAIL, [], a)
               else (HCCL_SUCCESS, newResInfos,
                     a\<lparr>allocatedSize := u32_add (allocatedSize a) n,
                       resInfos := AllocResInfo newResInfos (resInfos a)\<rparr>))"

subsection \<open>Release\<close>

definition CheckReleasePara :: "nat \<Rightarrow> nat \<Rightarrow> nat \<Rightarrow> HcclResult" where
  "CheckReleasePara start n cap =
    (if n = 0 then HCCL_E_PARA
     else if n > cap then HCCL_E_PARA
     else if start > u32_sub cap n then HCCL_E_PARA
     else HCCL_SUCCESS)"

text \<open>The index of the block that holds an id, or the number of blocks when there is none; the first
  argument is that number.\<close>

fun FindRelease_loop :: "nat \<Rightarrow> nat \<Rightarrow> ResInfo list \<Rightarrow> nat \<Rightarrow> nat" where
  "FindRelease_loop maxIndex start [] resIndex = resIndex"
| "FindRelease_loop maxIndex start (resInfo # rest) resIndex =
    (if start \<ge> u32_add (startId resInfo) (num resInfo)
     then FindRelease_loop maxIndex start rest (Suc resIndex)
     else if start \<ge> startId resInfo then resIndex
     else maxIndex)"

definition FindReleaseResIndex :: "nat \<Rightarrow> ResInfo list \<Rightarrow> nat" where
  "FindReleaseResIndex start res = FindRelease_loop (length res) start res 0"

definition ReleaseResInfo :: "nat \<Rightarrow> nat \<Rightarrow> nat \<Rightarrow> CcuResIdAllocator \<Rightarrow> CcuResIdAllocator" where
  "ReleaseResInfo resIndex start n a =
    (let a = a\<lparr>allocatedSize := u32_sub (allocatedSize a) n\<rparr>;
         res = resInfos a;
         resInfo = res ! resIndex
     in if start = startId resInfo then
          (if n = num resInfo
           then a\<lparr>resInfos := take resIndex res @ drop (Suc resIndex) res\<rparr>
           else a\<lparr>resInfos := res[resIndex :=
                    mk_res (u32_add (startId resInfo) n) (u32_sub (num resInfo) n)]\<rparr>)
        else
          let leftNum = u32_sub start (startId resInfo);
              rightNum = u32_sub (u32_sub (num resInfo) leftNum) n
          in if rightNum = 0
             then a\<lparr>resInfos := res[resIndex := resInfo\<lparr>num := u32_sub (num resInfo) n\<rparr>]\<rparr>
             else a\<lparr>resInfos := take resIndex res
                    @ [resInfo\<lparr>num := leftNum\<rparr>, mk_res (u32_add start n) rightNum]
                    @ drop (Suc resIndex) res\<rparr>)"

definition Release :: "nat \<Rightarrow> nat \<Rightarrow> CcuResIdAllocator \<Rightarrow> HcclResult \<times> CcuResIdAllocator" where
  "Release start n a =
    (if CheckReleasePara start n (capacity a) \<noteq> HCCL_SUCCESS
     then (CheckReleasePara start n (capacity a), a)
     else
       let resIndex = FindReleaseResIndex start (resInfos a)
       in if resIndex \<ge> length (resInfos a) then (HCCL_E_PARA, a)
          else
            let resInfo = resInfos a ! resIndex;
                allocatedNum = u32_sub (u32_add (startId resInfo) (num resInfo)) start
            in if n > allocatedNum then (HCCL_E_PARA, a)
               else (HCCL_SUCCESS, ReleaseResInfo resIndex start n a))"

subsection \<open>Remaining size\<close>

fun ConsecutiveRemain_loop :: "ResInfo list \<Rightarrow> nat \<Rightarrow> nat \<Rightarrow> nat \<times> nat" where
  "ConsecutiveRemain_loop [] cursor maxGap = (cursor, maxGap)"
| "ConsecutiveRemain_loop (r # rest) cursor maxGap =
    ConsecutiveRemain_loop rest (u32_add (startId r) (num r))
      (if startId r > cursor then max maxGap (u32_sub (startId r) cursor) else maxGap)"

definition GetConsecutiveRemainSize :: "CcuResIdAllocator \<Rightarrow> nat" where
  "GetConsecutiveRemainSize a =
    (case ConsecutiveRemain_loop (resInfos a) 0 0 of (cursor, maxGap) \<Rightarrow>
       if capacity a > cursor then max maxGap (u32_sub (capacity a) cursor) else maxGap)"

subsection \<open>The invariant\<close>

abbreviation block_end :: "ResInfo \<Rightarrow> nat" where
  "block_end r \<equiv> startId r + num r"

definition block_ids :: "ResInfo \<Rightarrow> nat set" where
  "block_ids r = {startId r ..< block_end r}"

definition ids :: "ResInfo list \<Rightarrow> nat set" where
  "ids res = (\<Union>r\<in>set res. block_ids r)"

text \<open>Blocks are not empty, start at or after \<open>lo\<close>, are in order and do not touch.\<close>

fun blocks_from :: "nat \<Rightarrow> ResInfo list \<Rightarrow> bool" where
  "blocks_from lo [] \<longleftrightarrow> True"
| "blocks_from lo (r # rs) \<longleftrightarrow> lo \<le> startId r \<and> 0 < num r \<and> blocks_from (Suc (block_end r)) rs"

definition alloc_inv :: "CcuResIdAllocator \<Rightarrow> bool" where
  "alloc_inv a \<longleftrightarrow> capacity a < 2 ^ 32 \<and> blocks_from 0 (resInfos a)
    \<and> ids (resInfos a) \<subseteq> {..<capacity a} \<and> allocatedSize a = card (ids (resInfos a))"

lemma ids_simps [simp]:
  "ids [] = {}" "ids (r # rs) = block_ids r \<union> ids rs" "ids (xs @ ys) = ids xs \<union> ids ys"
  by (auto simp: ids_def)

lemma mem_block_ids [simp]: "x \<in> block_ids r \<longleftrightarrow> startId r \<le> x \<and> x < block_end r"
  by (simp add: block_ids_def)

lemma finite_ids [simp]: "finite (ids res)"
  by (simp add: ids_def block_ids_def)

lemma blocks_from_mono: "blocks_from lo rs \<Longrightarrow> lo' \<le> lo \<Longrightarrow> blocks_from lo' rs"
  by (cases rs) auto

lemma blocks_from_ids: "blocks_from lo rs \<Longrightarrow> x \<in> ids rs \<Longrightarrow> lo \<le> x"
proof (induction rs arbitrary: lo)
  case (Cons r rs)
  have "blocks_from (Suc (block_end r)) rs \<Longrightarrow> x \<in> ids rs \<Longrightarrow> Suc (block_end r) \<le> x"
    using Cons.IH by blast
  then show ?case
    using Cons.prems by auto
qed simp

lemma blocks_from_append:
  "blocks_from lo (xs @ ys) \<longleftrightarrow> blocks_from lo xs
    \<and> blocks_from (if xs = [] then lo else Suc (block_end (last xs))) ys"
  by (induction xs arbitrary: lo) auto

lemma alloc_inv_new: "cap < 2 ^ 32 \<Longrightarrow> alloc_inv (CcuResIdAllocator_new cap)"
  by (simp add: alloc_inv_def CcuResIdAllocator_new_def)

lemma card_ids_le: "alloc_inv a \<Longrightarrow> allocatedSize a \<le> capacity a"
  using card_mono [of "{..<capacity a}" "ids (resInfos a)"] by (auto simp: alloc_inv_def)

text \<open>Below the capacity the 32-bit operations are exact.\<close>

lemma block_end_le_cap:
  assumes "ids res \<subseteq> {..<cap}" and "r \<in> set res" and "0 < num r"
  shows "block_end r \<le> cap"
proof -
  have "block_end r - 1 \<in> ids res"
    using assms(2,3) by (force simp: ids_def)
  then have "block_end r - 1 < cap"
    using assms(1) by auto
  then show ?thesis
    by linarith
qed

subsection \<open>Finding a block\<close>

lemma FindRelease_loop_spec:
  assumes "blocks_from lo rest" and "\<forall>r\<in>set rest. block_end r < 2 ^ 32"
  shows "if start \<in> ids rest
    then \<exists>j<length rest. FindRelease_loop (i + length rest) start rest i = i + j \<and> start \<in> block_ids (rest ! j)
    else FindRelease_loop (i + length rest) start rest i \<ge> i + length rest"
  using assms
proof (induction rest arbitrary: lo i)
  case (Cons r rest)
  have IH: "if start \<in> ids rest
    then \<exists>j<length rest. FindRelease_loop (Suc i + length rest) start rest (Suc i) = Suc i + j
      \<and> start \<in> block_ids (rest ! j)
    else FindRelease_loop (Suc i + length rest) start rest (Suc i) \<ge> Suc i + length rest"
    using Cons by (intro Cons.IH [of "Suc (block_end r)"]) auto
  have exact: "u32_add (startId r) (num r) = block_end r"
    using Cons.prems(2) by (simp add: u32_add_exact)
  have later: "x \<in> ids rest \<Longrightarrow> block_end r < x" for x
    using Cons.prems(1) blocks_from_ids [of "Suc (block_end r)" rest x] by auto
  consider "block_end r \<le> start" | "startId r \<le> start" "start < block_end r" | "start < startId r"
    by linarith
  then show ?case
  proof cases
    case 1
    then show ?thesis
      using IH by (auto simp: exact split: if_splits)
  next
    case 2
    then show ?thesis
      by (auto simp: exact intro: exI [of _ 0])
  next
    case 3
    then have "start \<notin> ids (r # rest)"
      using later [of start] by auto
    then show ?thesis
      using 3 by (auto simp: exact)
  qed
qed simp

lemma FindReleaseResIndex_spec:
  assumes inv: "alloc_inv a"
  shows "if start \<in> ids (resInfos a)
    then FindReleaseResIndex start (resInfos a) < length (resInfos a)
      \<and> start \<in> block_ids (resInfos a ! FindReleaseResIndex start (resInfos a))
    else FindReleaseResIndex start (resInfos a) \<ge> length (resInfos a)"
proof -
  have pos: "blocks_from lo rs \<Longrightarrow> r \<in> set rs \<Longrightarrow> 0 < num r" for lo rs r
    by (induction lo rs rule: blocks_from.induct) auto
  have "block_end r < 2 ^ 32" if "r \<in> set (resInfos a)" for r
    using inv that block_end_le_cap [of "resInfos a" "capacity a" r] pos [of 0 "resInfos a" r]
    by (auto simp: alloc_inv_def)
  then show ?thesis
    using FindRelease_loop_spec [of 0 "resInfos a" start 0] inv
    by (auto simp: FindReleaseResIndex_def alloc_inv_def split: if_splits)
qed

subsection \<open>Removing part of a block\<close>

lemma blocks_from_start: "blocks_from lo rs \<Longrightarrow> r \<in> set rs \<Longrightarrow> lo \<le> startId r \<and> 0 < num r"
  by (induction lo rs rule: blocks_from.induct) force+

lemma ids_before: "blocks_from lo (A @ r # B) \<Longrightarrow> x \<in> ids A \<Longrightarrow> x < startId r"
proof (induction A arbitrary: lo)
  case (Cons b A)
  have "block_end b < startId r"
    using Cons.prems(1) blocks_from_start [of "Suc (block_end b)" "A @ r # B" r] by simp
  then show ?case
    using Cons by auto
qed simp

lemma ids_after: "blocks_from lo (A @ r # B) \<Longrightarrow> x \<in> ids B \<Longrightarrow> block_end r < x"
  using blocks_from_ids [of "Suc (block_end r)" B x] by (auto simp: blocks_from_append)

text \<open>Two runs of blocks around a block, and what may stand between them in its place.\<close>

lemma ids_around:
  assumes "blocks_from lo (A @ r # B)" and "R \<subseteq> block_ids r"
  shows "ids (A @ r # B) - R = ids A \<union> (block_ids r - R) \<union> ids B"
  using assms(2) ids_before [OF assms(1)] ids_after [OF assms(1)] by fastforce

text \<open>An interval that starts in a block and whose ids are all allocated lies in the block: blocks do
  not touch.\<close>

lemma interval_in_block:
  assumes "blocks_from lo (A @ r # B)" and "start \<in> block_ids r"
    and "{start ..< start + n} \<subseteq> ids (A @ r # B)"
  shows "start + n \<le> block_end r"
proof (rule ccontr)
  assume "\<not> start + n \<le> block_end r"
  then have "block_end r \<in> {start ..< start + n}"
    using assms(2) by simp
  then have "block_end r \<in> ids (A @ r # B)"
    using assms(3) by blast
  then have "block_end r \<in> ids A \<union> ids B"
    by simp
  then show False
    using ids_before [OF assms(1), of "block_end r"] ids_after [OF assms(1), of "block_end r"] by auto
qed

text \<open>The new list of blocks, in the four cases of \<open>ReleaseResInfo\<close>.\<close>

definition cut_block :: "ResInfo \<Rightarrow> nat \<Rightarrow> nat \<Rightarrow> ResInfo list" where
  "cut_block r start n =
    (if start = startId r then [] else [mk_res (startId r) (start - startId r)])
    @ (if start + n = block_end r then [] else [mk_res (start + n) (block_end r - (start + n))])"

lemma ids_cut_block:
  assumes "start \<in> block_ids r" and "start + n \<le> block_end r"
  shows "ids (cut_block r start n) = block_ids r - {start ..< start + n}"
  using assms by (auto simp: cut_block_def)

lemma blocks_from_cut:
  assumes "blocks_from lo (A @ r # B)" and "start \<in> block_ids r" and "start + n \<le> block_end r" and "0 < n"
  shows "blocks_from lo (A @ cut_block r start n @ B)"
proof -
  let ?lo = "if A = [] then lo else Suc (block_end (last A))"
  have A: "blocks_from lo A" and r: "?lo \<le> startId r" and B: "blocks_from (Suc (block_end r)) B"
    using assms(1) by (auto simp: blocks_from_append)
  have lower: "blocks_from m B" if "m \<le> Suc (block_end r)" for m
    using B that by (rule blocks_from_mono)
  have "blocks_from ?lo (cut_block r start n @ B)"
    using assms(2,3,4) r B lower by (auto simp: cut_block_def)
  then show ?thesis
    using A by (simp add: blocks_from_append)
qed

lemma ReleaseResInfo_eq:
  assumes "resInfos a = A @ r # B" and "start \<in> block_ids r" and "start + n \<le> block_end r"
    and "block_end r < 2 ^ 32" and "allocatedSize a < 2 ^ 32" and "n \<le> allocatedSize a"
  shows "ReleaseResInfo (length A) start n a =
    a\<lparr>allocatedSize := allocatedSize a - n, resInfos := A @ cut_block r start n @ B\<rparr>"
proof -
  have sub: "u32_sub x y = x - y" if "y \<le> x" "x < 2 ^ 32" for x y
    using that by (rule u32_sub_exact)
  show ?thesis
    using assms
    by (simp add: ReleaseResInfo_def Let_def sub u32_add_exact cut_block_def nth_append)
qed

subsection \<open>Release is exact\<close>

lemma Release_ok:
  assumes inv: "alloc_inv a" and n: "0 < n" and sub: "{start ..< start + n} \<subseteq> ids (resInfos a)"
  obtains a' where "Release start n a = (HCCL_SUCCESS, a')" and "alloc_inv a'"
    and "ids (resInfos a') = ids (resInfos a) - {start ..< start + n}" and "capacity a' = capacity a"
proof -
  define k where "k = FindReleaseResIndex start (resInfos a)"
  have blocks: "blocks_from 0 (resInfos a)" and cap: "capacity a < 2 ^ 32"
    "ids (resInfos a) \<subseteq> {..<capacity a}" and size: "allocatedSize a = card (ids (resInfos a))"
    using inv by (auto simp: alloc_inv_def)
  have "start \<in> ids (resInfos a)"
    using sub n by auto
  then have k: "k < length (resInfos a)" "start \<in> block_ids (resInfos a ! k)"
    using FindReleaseResIndex_spec [OF inv, of start] by (simp_all add: k_def)
  define A r B where "A = take k (resInfos a)" and "r = resInfos a ! k" and "B = drop (Suc k) (resInfos a)"
  have split: "resInfos a = A @ r # B" and lenA: "length A = k" and in_r: "start \<in> block_ids r"
    using k by (simp_all add: A_def r_def B_def id_take_nth_drop [symmetric])
  have blocks': "blocks_from 0 (A @ r # B)" and sub': "{start ..< start + n} \<subseteq> ids (A @ r # B)"
    using blocks sub by (simp_all only: split)
  have inner: "start + n \<le> block_end r"
    using interval_in_block [OF blocks' in_r sub'] .
  have r_cap: "block_end r \<le> capacity a"
    using block_end_le_cap [OF cap(2), of r] blocks_from_start [OF blocks, of r] by (simp add: split)
  have card_le: "n \<le> allocatedSize a"
    using card_mono [OF finite_ids sub] by (simp add: size)
  have small: "allocatedSize a < 2 ^ 32"
    using card_ids_le [OF inv] cap(1) by simp
  define a' where "a' = a\<lparr>allocatedSize := allocatedSize a - n, resInfos := A @ cut_block r start n @ B\<rparr>"
  have "{start ..< start + n} \<subseteq> block_ids r"
    using in_r inner by auto
  from ids_around [OF blocks' this]
  have ids': "ids (resInfos a') = ids (resInfos a) - {start ..< start + n}"
    by (simp only: split) (simp add: a'_def ids_cut_block [OF in_r inner] Un_assoc)
  have "blocks_from 0 (resInfos a')"
    using blocks_from_cut [OF blocks' in_r inner n] by (simp add: a'_def)
  moreover have "allocatedSize a' = card (ids (resInfos a'))"
    using card_Diff_subset [OF _ sub] by (simp add: ids' size) (simp add: a'_def size)
  moreover have "capacity a' = capacity a"
    by (simp add: a'_def)
  ultimately have inv': "alloc_inv a'"
    using cap by (auto simp: alloc_inv_def ids')
  have "CheckReleasePara start n (capacity a) = HCCL_SUCCESS"
    using n inner r_cap cap(1) by (simp add: CheckReleasePara_def u32_sub_exact)
  moreover have "u32_sub (u32_add (startId r) (num r)) start = block_end r - start"
    using inner r_cap cap(1) by (simp add: u32_add_exact u32_sub_exact)
  moreover have "ReleaseResInfo k start n a = a'"
    using ReleaseResInfo_eq [OF split in_r inner _ small card_le] r_cap cap(1)
    by (simp add: lenA a'_def)
  ultimately have "Release start n a = (HCCL_SUCCESS, a')"
    using k(1) inner by (simp add: Release_def Let_def k_def [symmetric] r_def [symmetric])
  then show thesis
    using inv' ids' by (rule that) (simp add: a'_def)
qed

lemma Release_fail:
  assumes inv: "alloc_inv a" and bad: "n = 0 \<or> \<not> {start ..< start + n} \<subseteq> ids (resInfos a)"
  shows "Release start n a = (HCCL_E_PARA, a)"
proof (rule ccontr)
  assume fail: "Release start n a \<noteq> (HCCL_E_PARA, a)"
  define k where "k = FindReleaseResIndex start (resInfos a)"
  define r where "r = resInfos a ! k"
  have check: "CheckReleasePara start n (capacity a) = HCCL_SUCCESS" and k: "k < length (resInfos a)"
    and le: "n \<le> u32_sub (u32_add (startId r) (num r)) start"
    using fail by (auto simp: Release_def CheckReleasePara_def Let_def k_def r_def split: if_splits)
  have in_block: "start \<in> block_ids r"
    using FindReleaseResIndex_spec [OF inv, of start] k by (auto simp: k_def r_def split: if_splits)
  have r: "r \<in> set (resInfos a)"
    using k by (simp add: r_def)
  have "block_end r < 2 ^ 32"
    using inv block_end_le_cap [of "resInfos a" "capacity a" r] blocks_from_start [of 0 "resInfos a" r] r
    by (auto simp: alloc_inv_def)
  then have "n \<le> block_end r - start"
    using le in_block by (simp add: u32_add_exact u32_sub_exact)
  then have "{start ..< start + n} \<subseteq> block_ids r"
    using in_block by auto
  also have "\<dots> \<subseteq> ids (resInfos a)"
    using r by (auto simp: ids_def)
  finally show False
    using bad check by (auto simp: CheckReleasePara_def split: if_splits)
qed

end
