(* ===== verification/Res_Id_Alloc.thy ===== *)
theory Res_Id_Alloc
  imports Res_Id_Allocator
begin

text \<open>
  Correctness of \<open>Alloc\<close> of the id allocator. The scan fills gaps of the block list from the front:
  \<open>fits t rs ns\<close> says that each block of \<open>ns\<close> starts where a gap of \<open>rs\<close> starts, at most one per gap, and
  stays in the gap. The merge loop of \<^verbatim>\<open>AllocResInfo\<close> turns such a pair into one list that satisfies the
  invariant. A non-consecutive request fails only when fewer ids are free than asked for, and a
  consecutive one only when no gap is large enough.
\<close>

subsection \<open>Blocks at the front of gaps\<close>

inductive fits :: "nat \<Rightarrow> ResInfo list \<Rightarrow> ResInfo list \<Rightarrow> bool" where
  fits_nil: "fits t rs []"
| fits_last: "startId n = t \<Longrightarrow> 0 < num n \<Longrightarrow> fits t [] [n]"
| fits_here: "startId n = t \<Longrightarrow> 0 < num n \<Longrightarrow> block_end n \<le> startId r \<Longrightarrow> fits (block_end r) rs ns
    \<Longrightarrow> fits t (r # rs) (n # ns)"
| fits_skip: "fits (block_end r) rs ns \<Longrightarrow> fits t (r # rs) ns"

lemma fits_ids:
  assumes "fits t rs ns" and "blocks_from t rs"
  shows "(\<forall>x\<in>ids ns. t \<le> x) \<and> ids ns \<inter> ids rs = {}"
  using assms
proof (induction rule: fits.induct)
  case (fits_here n t r rs ns)
  have rest: "blocks_from (block_end r) rs" "\<forall>x\<in>ids rs. Suc (block_end r) \<le> x"
    using fits_here.prems blocks_from_mono [of "Suc (block_end r)" rs] blocks_from_ids [of "Suc (block_end r)" rs]
    by auto
  then show ?case
    using fits_here by (fastforce simp: disjoint_iff)
next
  case (fits_skip r rs ns t)
  have "blocks_from (block_end r) rs"
    using fits_skip.prems blocks_from_mono [of "Suc (block_end r)" rs] by auto
  then show ?case
    using fits_skip by (fastforce simp: disjoint_iff)
qed (auto simp: disjoint_iff)

lemma fits_start:
  assumes "fits t rs ns" and "blocks_from t rs" and "n \<in> set ns"
  shows "t \<le> startId n \<and> 0 < num n"
  using assms
proof (induction rule: fits.induct)
  case (fits_here m t r rs ns)
  have "blocks_from (block_end r) rs"
    using fits_here.prems blocks_from_mono [of "Suc (block_end r)" rs] by auto
  then show ?case
    using fits_here by auto
next
  case (fits_skip r rs ns t)
  have "blocks_from (block_end r) rs"
    using fits_skip.prems blocks_from_mono [of "Suc (block_end r)" rs] by auto
  then show ?case
    using fits_skip by auto
qed auto

subsection \<open>The merge loop\<close>

text \<open>The list that \<^verbatim>\<open>AllocResInfo\<close> ends with, from a state of its loop.\<close>

definition merge_finish :: "ResInfo list \<times> ResInfo list \<times> nat \<Rightarrow> ResInfo list" where
  "merge_finish = (\<lambda>(newResInfos, res, newIdx).
    if newIdx < length newResInfos
    then butlast res @ [(last res)\<lparr>num := u32_add (num (last res)) (num (last newResInfos))\<rparr>]
    else res)"

definition merge_from :: "ResInfo list \<Rightarrow> ResInfo list \<Rightarrow> ResInfo list \<Rightarrow> ResInfo list \<Rightarrow> ResInfo list" where
  "merge_from pre ns L rs = merge_finish (AllocResInfo_loop (pre @ ns) (L @ rs) (length pre) (length L))"

lemma merge_from_done: "merge_from pre [] L rs = L @ rs"
  by (simp add: merge_from_def AllocResInfo_loop.simps merge_finish_def)

lemma merge_from_last:
  assumes "L \<noteq> []"
  shows "merge_from pre [n] L [] = butlast L @ [(last L)\<lparr>num := u32_add (num (last L)) (num n)\<rparr>]"
  using assms by (simp add: merge_from_def AllocResInfo_loop.simps merge_finish_def)

lemma merge_from_skip:
  assumes "ns \<noteq> [] \<Longrightarrow> startId r \<le> startId (hd ns)"
  shows "merge_from pre ns L (r # rs) = merge_from pre ns (L @ [r]) rs"
proof (cases ns)
  case Nil
  then show ?thesis
    by (simp add: merge_from_done)
next
  case (Cons n ns')
  then show ?thesis
    using assms by (subst merge_from_def, subst AllocResInfo_loop.simps) (simp add: merge_from_def)
qed

text \<open>A new block in the gap before \<open>r\<close>, in the four cases of the loop body.\<close>

definition grow_last :: "ResInfo list \<Rightarrow> ResInfo \<Rightarrow> ResInfo list" where
  "grow_last L n = (if L = [] then [n] else butlast L @ [(last L)\<lparr>num := u32_add (num (last L)) (num n)\<rparr>])"

lemma grow_last_update:
  "L \<noteq> [] \<Longrightarrow> (L @ rs)[length L - 1 := ((L @ rs) ! (length L - 1))\<lparr>num :=
      u32_add (num ((L @ rs) ! (length L - 1))) (num n)\<rparr>] = grow_last L n @ rs"
  by (cases L rule: rev_cases) (auto simp: grow_last_def nth_append list_update_append)

lemma length_grow_last: "L \<noteq> [] \<Longrightarrow> length (grow_last L n) = length L"
  by (cases L rule: rev_cases) (auto simp: grow_last_def)


definition absorb :: "ResInfo \<Rightarrow> ResInfo \<Rightarrow> ResInfo" where
  "absorb n r = n\<lparr>num := num n + num r\<rparr>"

lemma merge_from_here:
  assumes n: "0 < num n" "block_end n \<le> startId r" and r: "block_end r < 2 ^ 32"
    and later: "ns \<noteq> [] \<Longrightarrow> startId n \<le> startId (hd ns)"
  shows "merge_from pre (n # ns) L (r # rs) =
    (if block_end n = startId r
     then merge_from (pre @ [absorb n r]) ns (grow_last L (absorb n r)) rs
     else merge_from (pre @ [n]) ns (grow_last L n) (r # rs))"
proof -
  have sub: "u32_sub (startId r) (num n) = startId r - num n"
    using n r by (intro u32_sub_exact) simp_all
  have add: "u32_add (num n) (num r) = num n + num r"
    using n r by (intro u32_add_exact) simp
  have touch: "startId n = startId r - num n \<longleftrightarrow> block_end n = startId r"
    using n by auto
  have lt: "\<not> startId r \<le> startId n"
    using n by simp
  have snoc: "merge_finish (AllocResInfo_loop (pre @ m # ns) (K @ qs) (Suc (length pre)) (length K))
      = merge_from (pre @ [m]) ns K qs" for m K qs
    by (simp add: merge_from_def)
  show ?thesis
  proof (cases "L = []")
    case True
    have "merge_from pre (n # ns) L (r # rs) =
      (if block_end n = startId r
       then merge_finish (AllocResInfo_loop (pre @ absorb n r # ns) (absorb n r # rs) (Suc (length pre)) 0)
       else merge_finish (AllocResInfo_loop (pre @ n # ns) (n # r # rs) (Suc (length pre)) 0))"
      using True lt by (subst merge_from_def, subst AllocResInfo_loop.simps)
        (simp add: sub add touch absorb_def nth_append list_update_append)
    also have "\<dots> = (if block_end n = startId r
       then merge_from (pre @ [absorb n r]) ns [] (absorb n r # rs)
       else merge_from (pre @ [n]) ns [] (n # r # rs))"
      using snoc [of "absorb n r" "[]" "absorb n r # rs"] snoc [of n "[]" "n # r # rs"] by simp
    finally show ?thesis
      using True later by (simp add: merge_from_skip grow_last_def absorb_def)
  next
    case False
    have erase: "take (length L) (L @ r # rs) @ drop (Suc (length L)) (L @ r # rs) = L @ rs"
      by simp
    have upd: "(pre @ n # ns)[length pre := m] = pre @ m # ns" "(pre @ m # ns) ! length pre = m" for m
      by (simp_all add: list_update_append nth_append)
    have "merge_from pre (n # ns) L (r # rs) =
      (if block_end n = startId r
       then merge_finish (AllocResInfo_loop (pre @ absorb n r # ns) (grow_last L (absorb n r) @ rs)
              (Suc (length pre)) (length L))
       else merge_finish (AllocResInfo_loop (pre @ n # ns) (grow_last L n @ r # rs) (Suc (length pre)) (length L)))"
      using False lt
      by (subst merge_from_def, subst AllocResInfo_loop.simps)
        (simp add: sub add touch upd erase grow_last_update [simplified] absorb_def [symmetric]
          del: list_update_append take_append drop_append)
    then show ?thesis
      using snoc [of "absorb n r" "grow_last L (absorb n r)" rs] snoc [of n "grow_last L n" "r # rs"] False
      by (simp add: length_grow_last)
  qed
qed


subsection \<open>The merged list\<close>

definition front :: "ResInfo list \<Rightarrow> nat" where
  "front L = (if L = [] then 0 else block_end (last L))"

lemma blocks_from_front:
  "L \<noteq> [] \<Longrightarrow> blocks_from lo (L @ rs) \<longleftrightarrow> blocks_from lo L \<and> blocks_from (Suc (front L)) rs"
  by (simp add: blocks_from_append front_def)

lemma front_snoc [simp]: "front (L @ [r]) = block_end r"
  by (simp add: front_def)

lemma grow_last_ok:
  assumes "blocks_from 0 L" and "startId n = front L" and "0 < num n" and "block_end n < 2 ^ 32"
  shows "blocks_from 0 (grow_last L n)" and "ids (grow_last L n) = ids L \<union> block_ids n"
    and "front (grow_last L n) = block_end n" and "grow_last L n \<noteq> []"
proof -
  have "blocks_from 0 (grow_last L n) \<and> ids (grow_last L n) = ids L \<union> block_ids n
    \<and> front (grow_last L n) = block_end n"
  proof (cases L rule: rev_cases)
    case Nil
    then show ?thesis
      using assms by (simp add: grow_last_def front_def)
  next
    case (snoc K x)
    have "u32_add (num x) (num n) = num x + num n"
      using assms snoc by (intro u32_add_exact) simp
    then show ?thesis
      using assms snoc by (auto simp: grow_last_def blocks_from_append block_ids_def front_def)
  qed
  then show "blocks_from 0 (grow_last L n)" and "ids (grow_last L n) = ids L \<union> block_ids n"
    and "front (grow_last L n) = block_end n"
    by simp_all
  show "grow_last L n \<noteq> []"
    by (simp add: grow_last_def)
qed

lemma absorb_sel [simp]: "startId (absorb n r) = startId n" "num (absorb n r) = num n + num r"
  by (simp_all add: absorb_def)

lemma merge_from_ok:
  assumes "fits t rs ns" and "blocks_from 0 (L @ rs)" and "t = front L" and "L @ rs \<noteq> []"
    and "\<forall>r\<in>set rs \<union> set ns. block_end r < 2 ^ 32"
  shows "blocks_from 0 (merge_from pre ns L rs)
    \<and> ids (merge_from pre ns L rs) = ids L \<union> ids rs \<union> ids ns"
  using assms
proof (induction arbitrary: pre L rule: fits.induct)
  case (fits_nil t rs)
  then show ?case
    by (simp add: merge_from_done)
next
  case (fits_last n t)
  then have "merge_from pre [n] L [] = grow_last L n"
    by (simp add: merge_from_last grow_last_def)
  then show ?case
    using grow_last_ok [of L n] fits_last by simp
next
  case (fits_here n t r rs ns)
  have L: "blocks_from 0 L" and r: "0 < num r" "blocks_from (Suc (block_end r)) rs"
    using fits_here.prems(1) by (auto simp: blocks_from_append split: if_splits)
  have low: "block_end r \<le> startId m" if "m \<in> set ns" for m
    using fits_start [OF fits_here.hyps(4) _ that] blocks_from_mono [OF r(2)] by simp
  have later: "startId n \<le> startId (hd ns)" "startId r \<le> startId (hd ns)" if "ns \<noteq> []"
    using low [of "hd ns"] that fits_here.hyps(3) by simp_all
  note here = merge_from_here [OF fits_here.hyps(2,3) _ later(1), of pre L rs]
  show ?case
  proof (cases "block_end n = startId r")
    case True
    let ?m = "absorb n r"
    have m: "startId ?m = front L" "0 < num ?m" "block_end ?m = block_end r" "block_end ?m < 2 ^ 32"
      using fits_here.hyps(1) fits_here.prems(2,4) r(1) True by simp_all
    note g = grow_last_ok [OF L m(1,2,4), unfolded m(3)]
    have "blocks_from 0 (grow_last L ?m @ rs)"
      using g r(2) by (simp add: blocks_from_front)
    then have "blocks_from 0 (merge_from (pre @ [?m]) ns (grow_last L ?m) rs)
      \<and> ids (merge_from (pre @ [?m]) ns (grow_last L ?m) rs) = ids (grow_last L ?m) \<union> ids rs \<union> ids ns"
      using fits_here.prems(4) g(3,4) by (intro fits_here.IH) simp_all
    moreover have "block_ids ?m = block_ids n \<union> block_ids r"
      using True by (auto simp: block_ids_def)
    ultimately show ?thesis
      using here True fits_here.prems(4) g(2) by (simp add: Un_ac)
  next
    case False
    have n: "startId n = front L" "block_end n < 2 ^ 32" "block_end n < startId r"
      using fits_here.hyps(1,3) fits_here.prems(2,4) False by simp_all
    note g = grow_last_ok [OF L n(1) fits_here.hyps(2) n(2)]
    have "blocks_from 0 ((grow_last L n @ [r]) @ rs)"
      using g r n(3) by (simp add: blocks_from_front)
    then have "blocks_from 0 (merge_from (pre @ [n]) ns (grow_last L n @ [r]) rs)
      \<and> ids (merge_from (pre @ [n]) ns (grow_last L n @ [r]) rs)
        = ids (grow_last L n @ [r]) \<union> ids rs \<union> ids ns"
      using fits_here.prems(4) by (intro fits_here.IH) simp_all
    then show ?thesis
      using here False fits_here.prems(4) g(2) merge_from_skip [OF later(2), of "pre @ [n]" "grow_last L n" rs]
      by (simp add: Un_ac)
  qed
next
  case (fits_skip r rs ns t)
  have "blocks_from (Suc (block_end r)) rs"
    using fits_skip.prems(1) by (auto simp: blocks_from_append split: if_splits)
  then have "startId r \<le> startId (hd ns)" if "ns \<noteq> []"
    using fits_start [OF fits_skip.hyps, of "hd ns"] blocks_from_mono [of "Suc (block_end r)" rs "block_end r"] that
    by simp
  then have "merge_from pre ns L (r # rs) = merge_from pre ns (L @ [r]) rs"
    by (rule merge_from_skip)
  moreover have "blocks_from 0 (merge_from pre ns (L @ [r]) rs)
      \<and> ids (merge_from pre ns (L @ [r]) rs) = ids (L @ [r]) \<union> ids rs \<union> ids ns"
    using fits_skip.prems by (intro fits_skip.IH) simp_all
  ultimately show ?case
    by (simp add: Un_ac)
qed

lemma AllocResInfo_ok:
  assumes "fits 0 res ns" and "ns \<noteq> []" and "blocks_from 0 res"
    and "\<forall>r\<in>set res \<union> set ns. block_end r < 2 ^ 32"
  shows "blocks_from 0 (AllocResInfo ns res)" and "ids (AllocResInfo ns res) = ids res \<union> ids ns"
proof -
  have "blocks_from 0 (AllocResInfo ns res) \<and> ids (AllocResInfo ns res) = ids res \<union> ids ns"
  proof (cases "res = []")
    case True
    with assms(1,2) obtain n where "ns = [n]" "0 < num n"
      by (auto elim: fits.cases)
    then show ?thesis
      using True by (simp add: AllocResInfo_def)
  next
    case False
    have "AllocResInfo ns res = merge_from [] ns [] res"
      using False by (simp add: AllocResInfo_def merge_from_def merge_finish_def)
    then show ?thesis
      using merge_from_ok [OF assms(1), of "[]" "[]"] assms(3,4) False by (simp add: front_def)
  qed
  then show "blocks_from 0 (AllocResInfo ns res)" and "ids (AllocResInfo ns res) = ids res \<union> ids ns"
    by simp_all
qed


subsection \<open>The scan\<close>

text \<open>The sizes of the gaps before, between and after the blocks.\<close>

fun gaps :: "nat \<Rightarrow> nat \<Rightarrow> ResInfo list \<Rightarrow> nat list" where
  "gaps cap t [] = [cap - t]"
| "gaps cap t (r # rs) = (startId r - t) # gaps cap (block_end r) rs"

text \<open>The blocks end at or below the capacity.\<close>

definition below :: "nat \<Rightarrow> ResInfo list \<Rightarrow> bool" where
  "below cap rs \<longleftrightarrow> (\<forall>r\<in>set rs. block_end r \<le> cap)"

lemma below_Cons [simp]: "below cap (r # rs) \<longleftrightarrow> block_end r \<le> cap \<and> below cap rs"
  by (simp add: below_def)

lemma below_Nil [simp]: "below cap []"
  by (simp add: below_def)

text \<open>What one pass over the gaps returns.\<close>

definition scan_ok :: "nat \<Rightarrow> nat \<Rightarrow> ResInfo list \<Rightarrow> nat \<Rightarrow> ResInfo list \<Rightarrow> nat \<Rightarrow> bool" where
  "scan_ok cap t rs left ns left' \<longleftrightarrow> fits t rs ns \<and> below cap ns \<and> sum_list (map num ns) + left' = left"

lemma scan_ok_Nil [simp]: "scan_ok cap t rs left [] left' \<longleftrightarrow> left' = left"
  by (auto simp: scan_ok_def fits_nil)

lemma scan_ok_skip: "scan_ok cap (block_end r) rs left ns left' \<Longrightarrow> scan_ok cap t (r # rs) left ns left'"
  by (auto simp: scan_ok_def fits_skip)

lemma scan_ok_here:
  assumes "scan_ok cap (block_end r) rs (left - p) ns left'" and "0 < p" "t + p \<le> startId r" "p \<le> left"
    and "block_end r \<le> cap"
  shows "scan_ok cap t (r # rs) left (mk_res t p # ns) left'"
  using assms by (auto simp: scan_ok_def intro: fits_here)

lemma Alloc_scan_ok:
  assumes "blocks_from t rs" and "below cap rs" and "t \<le> cap" and "cap < 2 ^ 32" and "0 < left" "left < 2 ^ 32"
  shows "\<exists>ns left'. Alloc_scan limit (rs @ [mk_res cap 0]) t left acc = (acc @ ns, left')
    \<and> scan_ok cap t rs left ns left'"
  using assms
proof (induction rs arbitrary: t left acc)
  case Nil
  let ?p = "min (cap - t) left"
  have "u32_sub cap t = cap - t" "u32_sub left ?p = left - ?p"
    using Nil.prems by (simp_all add: u32_sub_exact)
  moreover have "0 < ?p \<Longrightarrow> scan_ok cap t [] left [mk_res t ?p] (left - ?p)"
    using Nil.prems by (auto simp: scan_ok_def intro: fits_last)
  ultimately show ?case
    by (auto simp: Let_def)
next
  case (Cons r rs)
  obtain p where p: "min (startId r - t) left = p" "p \<le> left" "p \<le> startId r - t"
    by simp
  have rest: "blocks_from (block_end r) rs" "below cap rs" "block_end r \<le> cap"
    using Cons.prems(1,2) blocks_from_mono [of "Suc (block_end r)" rs] by auto
  have exact: "u32_sub (startId r) t = startId r - t" "u32_sub left p = left - p"
    "u32_add (startId r) (num r) = block_end r"
    using Cons.prems rest(3) p(2) by (simp_all add: u32_sub_exact u32_add_exact)
  consider "\<not> limit < p" | "limit < p" "left - p = 0" | "limit < p" "0 < left - p"
    by linarith
  then show ?case
  proof cases
    case 1
    obtain ns left' where "Alloc_scan limit (rs @ [mk_res cap 0]) (block_end r) left acc = (acc @ ns, left')"
      "scan_ok cap (block_end r) rs left ns left'"
      using Cons.IH [OF rest Cons.prems(4-6)] by blast
    then show ?thesis
      using 1 by (auto simp: p(1) exact Let_def dest: scan_ok_skip)
  next
    case 2
    have "scan_ok cap t (r # rs) left [mk_res t p] 0"
      using 2 p(2,3) Cons.prems(1,5) rest(3) by (intro scan_ok_here) auto
    then show ?thesis
      using 2 by (auto simp: p(1) exact Let_def)
  next
    case 3
    obtain ns left' where ns: "Alloc_scan limit (rs @ [mk_res cap 0]) (block_end r) (left - p)
        (acc @ [mk_res t p]) = ((acc @ [mk_res t p]) @ ns, left')"
      "scan_ok cap (block_end r) rs (left - p) ns left'"
      using Cons.IH [OF rest Cons.prems(4) 3(2) less_imp_diff_less [OF Cons.prems(6)]] by blast
    have "scan_ok cap t (r # rs) left (mk_res t p # ns) left'"
      using 3 p(2,3) rest(3) Cons.prems(1) by (intro scan_ok_here [OF ns(2)]) auto
    then show ?thesis
      using 3 ns(1) by (auto simp: p(1) exact Let_def)
  qed
qed

text \<open>With no lower limit the scan uses every free id before it leaves something over.\<close>

lemma Alloc_scan_exhausts:
  assumes "blocks_from t rs" and "below cap rs" and "t \<le> cap" and "cap < 2 ^ 32" and "left < 2 ^ 32"
  shows "snd (Alloc_scan 0 (rs @ [mk_res cap 0]) t left acc) = left - sum_list (gaps cap t rs)"
  using assms
proof (induction rs arbitrary: t left acc)
  case Nil
  have "u32_sub cap t = cap - t" "u32_sub left (min (cap - t) left) = left - min (cap - t) left"
    using Nil.prems by (simp_all add: u32_sub_exact)
  then show ?case
    by (auto simp: Let_def)
next
  case (Cons r rs)
  let ?p = "min (startId r - t) left"
  have rest: "blocks_from (block_end r) rs" "below cap rs" "block_end r \<le> cap"
    using Cons.prems(1,2) blocks_from_mono [of "Suc (block_end r)" rs] by auto
  have exact: "u32_sub (startId r) t = startId r - t" "u32_sub left ?p = left - ?p"
    "u32_add (startId r) (num r) = block_end r"
    using Cons.prems rest(3) by (simp_all add: u32_sub_exact u32_add_exact)
  have IH: "snd (Alloc_scan 0 (rs @ [mk_res cap 0]) (block_end r) l acc') = l - sum_list (gaps cap (block_end r) rs)"
    if "l \<le> left" for l acc'
    using Cons.IH [OF rest Cons.prems(4)] that Cons.prems(5) by simp
  show ?case
    by (auto simp: exact Let_def IH)
qed

lemma blocks_card:
  assumes "blocks_from t rs" and "below cap rs" and "t \<le> cap"
  shows "card (ids rs) + sum_list (gaps cap t rs) = cap - t"
  using assms
proof (induction rs arbitrary: t)
  case (Cons r rs)
  have rest: "blocks_from (block_end r) rs" "below cap rs" "block_end r \<le> cap"
    using Cons.prems(1,2) blocks_from_mono [of "Suc (block_end r)" rs] by auto
  have "block_ids r \<inter> ids rs = {}"
    using blocks_from_ids [OF rest(1)] by fastforce
  then have "card (ids (r # rs)) = num r + card (ids rs)"
    by (simp add: card_Un_disjoint block_ids_def)
  then show ?case
    using Cons.IH [OF rest] Cons.prems(1) rest(3) by simp
qed simp

text \<open>When only a block of the full size may be taken, the scan takes one block or nothing.\<close>

lemma Alloc_scan_consecutive:
  assumes "blocks_from t rs" and "below cap rs" and "t \<le> cap" and "cap < 2 ^ 32" and "0 < n" "n < 2 ^ 32"
  shows "if \<exists>g\<in>set (gaps cap t rs). n \<le> g
    then \<exists>s. Alloc_scan (n - 1) (rs @ [mk_res cap 0]) t n [] = ([mk_res s n], 0)
    else Alloc_scan (n - 1) (rs @ [mk_res cap 0]) t n [] = ([], n)"
  using assms
proof (induction rs arbitrary: t)
  case Nil
  then show ?case
    by (auto simp: u32_sub_exact Let_def)
next
  case (Cons r rs)
  have rest: "blocks_from (block_end r) rs" "below cap rs" "block_end r \<le> cap"
    using Cons.prems(1,2) blocks_from_mono [of "Suc (block_end r)" rs] by auto
  have exact: "u32_sub (startId r) t = startId r - t" "u32_sub n n = 0"
    "u32_add (startId r) (num r) = block_end r"
    using Cons.prems rest(3) by (simp_all add: u32_sub_exact u32_add_exact)
  show ?case
  proof (cases "n \<le> startId r - t")
    case True
    then show ?thesis
      using Cons.prems(5) by (auto simp: exact Let_def min_absorb2)
  next
    case False
    then show ?thesis
      using Cons.IH [OF rest Cons.prems(4-6)] by (auto simp: exact Let_def split: if_splits)
  qed
qed


subsection \<open>Free runs\<close>

definition free_run :: "nat \<Rightarrow> nat \<Rightarrow> ResInfo list \<Rightarrow> nat \<Rightarrow> nat \<Rightarrow> bool" where
  "free_run cap t rs k s \<longleftrightarrow> t \<le> s \<and> s + k \<le> cap \<and> {s ..< s + k} \<inter> ids rs = {}"

lemma free_run_iff_gap:
  assumes "blocks_from t rs" and "below cap rs" and "t \<le> cap" and "0 < k"
  shows "(\<exists>s. free_run cap t rs k s) \<longleftrightarrow> (\<exists>g\<in>set (gaps cap t rs). k \<le> g)"
  using assms(1-3)
proof (induction rs arbitrary: t)
  case Nil
  then show ?case
    by (auto simp: free_run_def intro: exI [of _ t])
next
  case (Cons r rs)
  have rest: "blocks_from (block_end r) rs" "below cap rs" "block_end r \<le> cap"
    using Cons.prems(1,2) blocks_from_mono [of "Suc (block_end r)" rs] by auto
  have later: "block_end r \<le> x" if "x \<in> ids rs" for x
    using blocks_from_ids [OF rest(1) that] .
  have "(\<exists>s. free_run cap t (r # rs) k s) \<longleftrightarrow> k \<le> startId r - t \<or> (\<exists>s. free_run cap (block_end r) rs k s)"
  proof (intro iffI)
    assume "\<exists>s. free_run cap t (r # rs) k s"
    then obtain s where s: "t \<le> s" "s + k \<le> cap" "{s ..< s + k} \<inter> ids (r # rs) = {}"
      by (auto simp: free_run_def)
    have "s \<in> {s ..< s + k}" "startId r \<in> block_ids r"
      using assms(4) Cons.prems(1) by auto
    then have "s \<notin> block_ids r" "startId r \<notin> {s ..< s + k}"
      using s(3) unfolding ids_simps by blast+
    then show "k \<le> startId r - t \<or> (\<exists>s. free_run cap (block_end r) rs k s)"
      using s Cons.prems(1) by (auto simp: free_run_def not_le not_less intro!: exI [of _ s])
  next
    assume "k \<le> startId r - t \<or> (\<exists>s. free_run cap (block_end r) rs k s)"
    then show "\<exists>s. free_run cap t (r # rs) k s"
    proof
      assume "k \<le> startId r - t"
      then have "free_run cap t (r # rs) k t"
        using Cons.prems(1) rest(3) later by (fastforce simp: free_run_def disjoint_iff)
      then show ?thesis ..
    next
      assume "\<exists>s. free_run cap (block_end r) rs k s"
      then obtain s where "block_end r \<le> s" "s + k \<le> cap" "{s ..< s + k} \<inter> ids rs = {}"
        by (auto simp: free_run_def)
      then have "free_run cap t (r # rs) k s"
        using Cons.prems(1) by (auto simp: free_run_def disjoint_iff)
      then show ?thesis ..
    qed
  qed
  then show ?case
    using Cons.IH [OF rest] by auto
qed

lemma ConsecutiveRemain_loop_eq:
  assumes "blocks_from t rs" and "below cap rs" and "t \<le> cap" and "cap < 2 ^ 32"
  shows "(case ConsecutiveRemain_loop rs t m of (cursor, maxGap) \<Rightarrow>
      if cap > cursor then max maxGap (u32_sub cap cursor) else maxGap)
    = fold max (gaps cap t rs) m"
  using assms
proof (induction rs arbitrary: t m)
  case Nil
  then show ?case
    by (auto simp: u32_sub_exact max.commute)
next
  case (Cons r rs)
  have rest: "blocks_from (block_end r) rs" "below cap rs" "block_end r \<le> cap"
    using Cons.prems(1,2) blocks_from_mono [of "Suc (block_end r)" rs] by auto
  have exact: "u32_sub (startId r) t = startId r - t" "u32_add (startId r) (num r) = block_end r"
    using Cons.prems rest(3) by (simp_all add: u32_sub_exact u32_add_exact)
  have "(if startId r > t then max m (startId r - t) else m) = max (startId r - t) m"
    by auto
  then show ?case
    using Cons.IH [OF rest Cons.prems(4), of "max (startId r - t) m"]
    by (simp only: ConsecutiveRemain_loop.simps gaps.simps exact fold_simps)
qed

lemma le_fold_max: "(k :: nat) \<le> fold max xs m \<longleftrightarrow> k \<le> m \<or> (\<exists>x\<in>set xs. k \<le> x)"
  by (induction xs arbitrary: m) auto

lemma alloc_inv_below:
  assumes "alloc_inv a"
  shows "blocks_from 0 (resInfos a)" "below (capacity a) (resInfos a)" "capacity a < 2 ^ 32"
  using assms block_end_le_cap [of "resInfos a" "capacity a"] blocks_from_start [of 0 "resInfos a"]
  by (auto simp: alloc_inv_def below_def)

lemma GetConsecutiveRemainSize_iff_gap:
  assumes "alloc_inv a" and "0 < k"
  shows "k \<le> GetConsecutiveRemainSize a \<longleftrightarrow> (\<exists>g\<in>set (gaps (capacity a) 0 (resInfos a)). k \<le> g)"
  using ConsecutiveRemain_loop_eq [OF alloc_inv_below(1,2) [OF assms(1)] _ alloc_inv_below(3) [OF assms(1)], of 0]
    assms(2)
  by (simp add: GetConsecutiveRemainSize_def le_fold_max)

subsection \<open>Alloc\<close>

definition alloc_possible :: "nat \<Rightarrow> bool \<Rightarrow> CcuResIdAllocator \<Rightarrow> bool" where
  "alloc_possible n consecutive a \<longleftrightarrow> 0 < n
    \<and> (if consecutive then n \<le> GetConsecutiveRemainSize a else n \<le> capacity a - allocatedSize a)"

lemma remain_le_free: "alloc_inv a \<Longrightarrow> GetConsecutiveRemainSize a \<le> capacity a - allocatedSize a"
proof -
  assume inv: "alloc_inv a"
  note b = alloc_inv_below [OF inv]
  have "sum_list (gaps (capacity a) 0 (resInfos a)) = capacity a - allocatedSize a"
    using blocks_card [OF b(1,2)] inv by (simp add: alloc_inv_def)
  moreover have "g \<le> sum_list (gaps (capacity a) 0 (resInfos a))" if "g \<in> set (gaps (capacity a) 0 (resInfos a))" for g
    using that by (rule member_le_sum_list) simp
  ultimately show ?thesis
    using GetConsecutiveRemainSize_iff_gap [OF inv, of "GetConsecutiveRemainSize a"]
    by (cases "GetConsecutiveRemainSize a = 0") fastforce+
qed

lemma Alloc_scan_total:
  assumes inv: "alloc_inv a" and n: "0 < n" "n \<le> capacity a - allocatedSize a"
  obtains ns left' where
    "Alloc_scan (if consecutive then u32_sub n 1 else 0) (resInfos a @ [mk_res (capacity a) 0]) 0 n [] = (ns, left')"
    and "scan_ok (capacity a) 0 (resInfos a) n ns left'"
    and "left' = 0 \<longleftrightarrow> alloc_possible n consecutive a" and "consecutive \<Longrightarrow> left' = 0 \<Longrightarrow> length ns = 1"
proof -
  note b = alloc_inv_below [OF inv]
  let ?limit = "if consecutive then u32_sub n 1 else 0"
  have small: "n < 2 ^ 32" and limit: "u32_sub n 1 = n - 1"
    using n b(3) by (simp_all add: u32_sub_exact)
  obtain ns left' where scan: "Alloc_scan ?limit (resInfos a @ [mk_res (capacity a) 0]) 0 n [] = (ns, left')"
    and ok: "scan_ok (capacity a) 0 (resInfos a) n ns left'"
    using Alloc_scan_ok [OF b(1,2) _ b(3) n(1) small, of ?limit "[]"] by auto
  have "(left' = 0 \<longleftrightarrow> alloc_possible n consecutive a) \<and> (consecutive \<longrightarrow> left' = 0 \<longrightarrow> length ns = 1)"
  proof (cases consecutive)
    case True
    then show ?thesis
      using Alloc_scan_consecutive [OF b(1,2) _ b(3) n(1) small] scan n(1) limit
        GetConsecutiveRemainSize_iff_gap [OF inv n(1)]
      by (auto simp: alloc_possible_def split: if_splits)
  next
    case False
    have "sum_list (gaps (capacity a) 0 (resInfos a)) = capacity a - allocatedSize a"
      using blocks_card [OF b(1,2)] inv by (simp add: alloc_inv_def)
    then show ?thesis
      using Alloc_scan_exhausts [OF b(1,2) _ b(3) small, of "[]"] scan n False
      by (auto simp: alloc_possible_def)
  qed
  then show thesis
    using that [OF scan ok] by blast
qed


lemma fits_card:
  assumes "fits t rs ns" and "blocks_from t rs"
  shows "card (ids ns) = sum_list (map num ns)"
  using assms
proof (induction rule: fits.induct)
  case (fits_here n t r rs ns)
  have rest: "blocks_from (block_end r) rs"
    using fits_here.prems blocks_from_mono [of "Suc (block_end r)" rs] by auto
  have "block_ids n \<inter> ids ns = {}"
    using fits_ids [OF fits_here.hyps(4) rest] fits_here.hyps(3) by fastforce
  then show ?case
    using fits_here.IH [OF rest] by (simp add: card_Un_disjoint block_ids_def)
next
  case (fits_skip r rs ns t)
  have "blocks_from (block_end r) rs"
    using fits_skip.prems blocks_from_mono [of "Suc (block_end r)" rs] by auto
  then show ?case
    using fits_skip.IH by simp
qed (auto simp: block_ids_def)

lemma Alloc_ok:
  assumes inv: "alloc_inv a" and poss: "alloc_possible n consecutive a"
  obtains ns a' where "Alloc n consecutive a = (HCCL_SUCCESS, ns, a')" and "alloc_inv a'"
    and "capacity a' = capacity a" and "ids (resInfos a') = ids (resInfos a) \<union> ids ns"
    and "ids ns \<inter> ids (resInfos a) = {}" and "card (ids ns) = n" and "sum_list (map num ns) = n"
    and "consecutive \<Longrightarrow> length ns = 1" and "\<forall>r\<in>set ns. 0 < num r \<and> block_end r \<le> capacity a"
proof -
  note b = alloc_inv_below [OF inv]
  have n: "0 < n" "n \<le> capacity a - allocatedSize a"
    using poss remain_le_free [OF inv] by (auto simp: alloc_possible_def split: if_splits)
  obtain ns left' where
    scan: "Alloc_scan (if consecutive then u32_sub n 1 else 0) (resInfos a @ [mk_res (capacity a) 0]) 0 n [] = (ns, left')"
    and ok: "scan_ok (capacity a) 0 (resInfos a) n ns left'"
    and left': "left' = 0" and single: "consecutive \<Longrightarrow> length ns = 1"
    using Alloc_scan_total [OF inv n, of consecutive] poss by metis
  have fit: "fits 0 (resInfos a) ns" and low: "below (capacity a) ns" and sum: "sum_list (map num ns) = n"
    using ok left' by (simp_all add: scan_ok_def)
  have disj: "ids ns \<inter> ids (resInfos a) = {}" and card: "card (ids ns) = n"
    using fits_ids [OF fit b(1)] fits_card [OF fit b(1)] sum by simp_all
  have "ns \<noteq> []"
    using sum n(1) by auto
  moreover have "\<forall>r\<in>set (resInfos a) \<union> set ns. block_end r < 2 ^ 32"
    using b(2,3) low by (fastforce simp: below_def)
  ultimately have merged: "blocks_from 0 (AllocResInfo ns (resInfos a))"
      "ids (AllocResInfo ns (resInfos a)) = ids (resInfos a) \<union> ids ns"
    using AllocResInfo_ok [OF fit _ b(1)] by blast+
  define a' where "a' = a\<lparr>allocatedSize := allocatedSize a + n, resInfos := AllocResInfo ns (resInfos a)\<rparr>"
  have size: "allocatedSize a \<le> capacity a" "u32_sub (capacity a) (allocatedSize a) = capacity a - allocatedSize a"
    "u32_add (allocatedSize a) n = allocatedSize a + n"
    using card_ids_le [OF inv] b(3) n(2) by (simp_all add: u32_sub_exact u32_add_exact)
  have "Alloc n consecutive a = (HCCL_SUCCESS, ns, a')"
    using n scan left' by (simp add: Alloc_def size a'_def Let_def)
  moreover have "ids ns \<subseteq> {..<capacity a}"
    using low by (fastforce simp: ids_def below_def)
  then have "alloc_inv a'"
    using merged inv disj card by (simp add: alloc_inv_def a'_def card_Un_disjoint Int_commute)
  moreover have "\<forall>r\<in>set ns. 0 < num r \<and> block_end r \<le> capacity a"
    using fits_start [OF fit b(1)] low by (simp add: below_def)
  ultimately show thesis
    using disj card sum single merged(2) by (intro that [of ns a']) (simp_all add: a'_def)
qed

lemma Alloc_fail:
  assumes inv: "alloc_inv a" and imposs: "\<not> alloc_possible n consecutive a"
  shows "Alloc n consecutive a = (if n = 0 then HCCL_E_PARA else HCCL_E_UNAVAIL, [], a)"
proof -
  have size: "u32_sub (capacity a) (allocatedSize a) = capacity a - allocatedSize a"
    using card_ids_le [OF inv] alloc_inv_below(3) [OF inv] by (simp add: u32_sub_exact)
  show ?thesis
  proof (cases "0 < n \<and> n \<le> capacity a - allocatedSize a")
    case True
    then obtain ns left' where
      "Alloc_scan (if consecutive then u32_sub n 1 else 0) (resInfos a @ [mk_res (capacity a) 0]) 0 n [] = (ns, left')"
      "left' \<noteq> 0"
      using Alloc_scan_total [OF inv, of n consecutive] imposs by metis
    then show ?thesis
      using True by (simp add: Alloc_def size Let_def)
  next
    case False
    then show ?thesis
      by (auto simp: Alloc_def size Let_def)
  qed
qed

end
