(* ===== verification/Id_Pool.thy ===== *)
theory Id_Pool
  imports Res_Id_Alloc
begin

text \<open>
  The contract of a pool of ids and what its clients rely on. The locale \<open>id_pool\<close> states what
  allocation and release promise: a grant takes free ids of the pool's range and marks them used, a
  release gives back used ids, a refused call changes nothing. Its client keeps a ledger of the
  blocks it holds; \<open>pool_step\<close> is one call with its effect on the ledger. Inside the locale no id is
  ever held twice and every held block can be given back. The id allocator implements the contract.
\<close>

subsection \<open>Clients of a pool\<close>

inductive pool_step ::
  "(nat \<Rightarrow> bool \<Rightarrow> 's \<Rightarrow> HcclResult \<times> ResInfo list \<times> 's) \<Rightarrow> (nat \<Rightarrow> nat \<Rightarrow> 's \<Rightarrow> HcclResult \<times> 's)
    \<Rightarrow> 's \<times> ResInfo list \<Rightarrow> 's \<times> ResInfo list \<Rightarrow> bool"
  for alloc :: "nat \<Rightarrow> bool \<Rightarrow> 's \<Rightarrow> HcclResult \<times> ResInfo list \<times> 's"
    and release :: "nat \<Rightarrow> nat \<Rightarrow> 's \<Rightarrow> HcclResult \<times> 's" where
  granted: "alloc n c s = (HCCL_SUCCESS, ns, s') \<Longrightarrow> pool_step alloc release (s, held) (s', ns @ held)"
| refused: "alloc n c s = (e, ns, s') \<Longrightarrow> e \<noteq> HCCL_SUCCESS \<Longrightarrow> pool_step alloc release (s, held) (s', held)"
| returned: "release (startId r) (num r) s = (e, s') \<Longrightarrow>
    pool_step alloc release (s, A @ r # B) (s', if e = HCCL_SUCCESS then A @ B else A @ r # B)"
| stray: "release st n s = (e, s') \<Longrightarrow> e \<noteq> HCCL_SUCCESS \<Longrightarrow> pool_step alloc release (s, held) (s', held)"

inductive_cases pool_stepE: "pool_step alloc release (s, held) (s', held')"

abbreviation pool_reach where
  "pool_reach alloc release \<equiv> (pool_step alloc release)\<^sup>*\<^sup>*"

text \<open>No id is in two blocks of the ledger, and no block is empty.\<close>

definition ledger_ok :: "ResInfo list \<Rightarrow> bool" where
  "ledger_ok held \<longleftrightarrow> (\<forall>r\<in>set held. 0 < num r) \<and> card (ids held) = sum_list (map num held)"

lemma card_block_ids [simp]: "card (block_ids r) = num r"
  by (simp add: block_ids_def)

lemma finite_block_ids [simp]: "finite (block_ids r)"
  by (simp add: block_ids_def)

lemma card_ids_le_sum: "card (ids held) \<le> sum_list (map num held)"
proof (induction held)
  case (Cons r held)
  then show ?case
    using card_Un_le [of "block_ids r" "ids held"] by simp
qed simp

lemma card_Un_eq_disjoint:
  "finite A \<Longrightarrow> finite B \<Longrightarrow> card (A \<union> B) = card A + card B \<longleftrightarrow> A \<inter> B = {}"
  using card_Un_Int [of A B] by auto

lemma ledger_ok_Cons [simp]:
  "ledger_ok (r # held) \<longleftrightarrow> 0 < num r \<and> block_ids r \<inter> ids held = {} \<and> ledger_ok held"
proof -
  have "card (block_ids r \<union> ids held) \<le> num r + card (ids held)"
    using card_Un_le [of "block_ids r" "ids held"] by simp
  then have "card (block_ids r \<union> ids held) = num r + sum_list (map num held)
    \<longleftrightarrow> card (block_ids r \<union> ids held) = num r + card (ids held) \<and> card (ids held) = sum_list (map num held)"
    using card_ids_le_sum [of held] by linarith
  also have "\<dots> \<longleftrightarrow> block_ids r \<inter> ids held = {} \<and> card (ids held) = sum_list (map num held)"
    using card_Un_eq_disjoint [of "block_ids r" "ids held"] by auto
  finally show ?thesis
    by (auto simp: ledger_ok_def)
qed

lemma ledger_ok_Nil [simp]: "ledger_ok []"
  by (simp add: ledger_ok_def)

lemma ledger_ok_append:
  "ledger_ok (xs @ ys) \<longleftrightarrow> ledger_ok xs \<and> ledger_ok ys \<and> ids xs \<inter> ids ys = {}"
  by (induction xs) auto

lemma ledger_ok_nth:
  assumes "ledger_ok held" and "i < j" and "j < length held"
  shows "block_ids (held ! i) \<inter> block_ids (held ! j) = {}"
proof -
  have "held = take j held @ held ! j # drop (Suc j) held"
    using assms(3) by (rule id_take_nth_drop)
  then have "ledger_ok (take j held @ held ! j # drop (Suc j) held)"
    using assms(1) by simp
  then have "ids (take j held) \<inter> ids (held ! j # drop (Suc j) held) = {}"
    unfolding ledger_ok_append by blast
  moreover have "held ! i \<in> set (take j held)"
    using assms(2,3) in_set_conv_nth [of "held ! i" "take j held"] by auto
  then have "block_ids (held ! i) \<subseteq> ids (take j held)"
    unfolding ids_def by blast
  ultimately show ?thesis
    unfolding ids_simps by blast
qed

subsection \<open>The contract\<close>

locale id_pool =
  fixes inv :: "'s \<Rightarrow> bool" and used :: "'s \<Rightarrow> nat set" and base :: "'s \<Rightarrow> nat" and size :: "'s \<Rightarrow> nat"
    and alloc :: "nat \<Rightarrow> bool \<Rightarrow> 's \<Rightarrow> HcclResult \<times> ResInfo list \<times> 's"
    and release :: "nat \<Rightarrow> nat \<Rightarrow> 's \<Rightarrow> HcclResult \<times> 's"
  assumes used_range: "inv s \<Longrightarrow> used s \<subseteq> {base s ..< base s + size s}"
    and alloc_grants: "inv s \<Longrightarrow> alloc n c s = (HCCL_SUCCESS, ns, s') \<Longrightarrow>
      inv s' \<and> base s' = base s \<and> size s' = size s \<and> used s' = used s \<union> ids ns \<and> ids ns \<inter> used s = {} \<and> ledger_ok ns"
    and alloc_refuses: "inv s \<Longrightarrow> alloc n c s = (e, ns, s') \<Longrightarrow> e \<noteq> HCCL_SUCCESS \<Longrightarrow> s' = s"
    and release_frees: "inv s \<Longrightarrow> release st n s = (HCCL_SUCCESS, s') \<Longrightarrow>
      inv s' \<and> base s' = base s \<and> size s' = size s \<and> used s' = used s - {st ..< st + n}"
    and release_refuses: "inv s \<Longrightarrow> release st n s = (e, s') \<Longrightarrow> e \<noteq> HCCL_SUCCESS \<Longrightarrow> s' = s"
    and release_total: "inv s \<Longrightarrow> 0 < n \<Longrightarrow> {st ..< st + n} \<subseteq> used s \<Longrightarrow> fst (release st n s) = HCCL_SUCCESS"
begin

definition client_inv :: "'s \<Rightarrow> 's \<times> ResInfo list \<Rightarrow> bool" where
  "client_inv s0 = (\<lambda>(s, held). inv s \<and> base s = base s0 \<and> size s = size s0 \<and> used s = ids held \<and> ledger_ok held)"

lemma release_held:
  assumes "client_inv s0 (s, A @ r # B)"
  obtains s' where "release (startId r) (num r) s = (HCCL_SUCCESS, s')" and "client_inv s0 (s', A @ B)"
proof -
  have r: "0 < num r" "block_ids r \<subseteq> used s" and inv: "inv s"
    using assms by (auto simp: client_inv_def ledger_ok_append)
  then have "fst (release (startId r) (num r) s) = HCCL_SUCCESS"
    using release_total [OF inv r(1), of "startId r"] by (simp add: block_ids_def)
  then obtain s' where s': "release (startId r) (num r) s = (HCCL_SUCCESS, s')"
    by (metis prod.collapse)
  moreover have "ids (A @ r # B) - block_ids r = ids (A @ B)"
    using assms by (auto simp: client_inv_def ledger_ok_append simp del: mem_block_ids)
  ultimately have "client_inv s0 (s', A @ B)"
    using release_frees [OF inv s'] assms
    by (auto simp: client_inv_def ledger_ok_append block_ids_def [symmetric] simp del: mem_block_ids)
  then show thesis
    using that s' by blast
qed

lemma step_keeps:
  assumes "pool_step alloc release x y" and "client_inv s0 x"
  shows "client_inv s0 y"
  using assms(1)
proof cases
  case (granted n c s ns s' held)
  then show ?thesis
    using assms(2) alloc_grants [of s n c ns s'] by (auto simp: client_inv_def ledger_ok_append)
next
  case (refused n c s e ns s' held)
  then show ?thesis
    using assms(2) alloc_refuses [of s n c e ns s'] by (auto simp: client_inv_def)
next
  case (returned r s e s' A B)
  then show ?thesis
    using assms(2) release_held [of s0 s A r B] by (metis fst_conv snd_conv)
next
  case (stray st n s e s' held)
  then show ?thesis
    using assms(2) release_refuses [of s st n e s'] by (auto simp: client_inv_def)
qed

lemma reach_keeps:
  assumes "pool_reach alloc release x y" and "client_inv s0 x"
  shows "client_inv s0 y"
  using assms by (induction rule: rtranclp_induct) (auto dest: step_keeps)

lemma no_double_grant:
  assumes "inv s0" and "used s0 = {}" and "pool_reach alloc release (s0, []) (s, held)"
  shows "used s = ids held" and "ledger_ok held" and "ids held \<subseteq> {base s0 ..< base s0 + size s0}"
  using reach_keeps [OF assms(3), of s0] assms(1,2) used_range [of s] by (auto simp: client_inv_def)

lemma held_can_return:
  assumes "inv s0" and "used s0 = {}" and "pool_reach alloc release (s0, []) (s, held)" and "r \<in> set held"
  shows "fst (release (startId r) (num r) s) = HCCL_SUCCESS"
proof -
  obtain A B where "held = A @ r # B"
    using assms(4) by (auto simp: in_set_conv_decomp)
  then show ?thesis
    using reach_keeps [OF assms(3), of s0] assms(1,2) release_held [of s0 s A r B]
    by (metis (mono_tags, lifting) case_prodI client_inv_def fst_conv ids_simps(1) ledger_ok_Nil)
qed

end

subsection \<open>The id allocator implements it\<close>

lemma Alloc_success:
  assumes "alloc_inv a" and "Alloc n c a = (HCCL_SUCCESS, ns, a')"
  shows "alloc_inv a' \<and> capacity a' = capacity a \<and> ids (resInfos a') = ids (resInfos a) \<union> ids ns
    \<and> ids ns \<inter> ids (resInfos a) = {} \<and> ledger_ok ns"
proof -
  have "alloc_possible n c a"
    by (rule ccontr) (use Alloc_fail [OF assms(1), of n c] assms(2) in \<open>auto split: if_splits\<close>)
  then show ?thesis
    using Alloc_ok [OF assms(1), of n c] assms(2) by (auto simp: ledger_ok_def)
qed

lemma Alloc_error:
  assumes "alloc_inv a" and "Alloc n c a = (e, ns, a')" and "e \<noteq> HCCL_SUCCESS"
  shows "a' = a"
proof (cases "alloc_possible n c a")
  case True
  then show ?thesis
    using Alloc_ok [OF assms(1) True] assms(2,3) by auto
next
  case False
  then show ?thesis
    using Alloc_fail [OF assms(1) False] assms(2) by simp
qed

lemma Release_success:
  assumes "alloc_inv a" and "Release st n a = (HCCL_SUCCESS, a')"
  shows "alloc_inv a' \<and> capacity a' = capacity a \<and> ids (resInfos a') = ids (resInfos a) - {st ..< st + n}"
proof -
  have "0 < n \<and> {st ..< st + n} \<subseteq> ids (resInfos a)"
    by (rule ccontr) (use Release_fail [OF assms(1), of n st] assms(2) in simp)
  then show ?thesis
    using Release_ok [OF assms(1), of n st] assms(2) by auto
qed

lemma Release_error:
  assumes "alloc_inv a" and "Release st n a = (e, a')" and "e \<noteq> HCCL_SUCCESS"
  shows "a' = a"
proof (cases "0 < n \<and> {st ..< st + n} \<subseteq> ids (resInfos a)")
  case True
  then show ?thesis
    using Release_ok [OF assms(1), of n st] assms(2,3) by auto
next
  case False
  then show ?thesis
    using Release_fail [OF assms(1), of n st] assms(2) by simp
qed

lemma Release_total:
  assumes "alloc_inv a" and "0 < n" and "{st ..< st + n} \<subseteq> ids (resInfos a)"
  shows "fst (Release st n a) = HCCL_SUCCESS"
  using Release_ok [OF assms] by (metis fst_conv)

interpretation idp: id_pool alloc_inv "\<lambda>a. ids (resInfos a)" "\<lambda>a. 0" capacity Alloc Release
proof (unfold_locales, goal_cases)
  case (1 a)
  then show ?case
    by (auto simp: alloc_inv_def)
next
  case (2 a n c ns a')
  then show ?case
    using Alloc_success [of a n c ns a'] by blast
next
  case (3 a n c e ns a')
  then show ?case
    by (rule Alloc_error)
next
  case (4 a st n a')
  then show ?case
    using Release_success [of a st n a'] by blast
next
  case (5 a st n e a')
  then show ?case
    by (rule Release_error)
next
  case (6 a n st)
  then show ?case
    by (rule Release_total)
qed

end
