(* ===== verification/Res_Id_Properties.thy ===== *)
theory Res_Id_Properties
  imports Id_Pool
begin

text \<open>
  What the id allocator guarantees to its callers: the outcome of every call in terms of the set of
  allocated ids, the exact round trip of a grant and its release (the block list is a canonical form of
  the set), and the safety of any sequence of calls.
\<close>

subsection \<open>The block list is canonical\<close>

lemma blocks_head:
  assumes "blocks_from lo (r # rs)"
  shows "startId r \<in> ids (r # rs)" and "\<forall>x\<in>ids (r # rs). startId r \<le> x"
    and "block_end r \<notin> ids (r # rs)" and "ids (r # rs) - block_ids r = ids rs"
proof -
  have later: "block_end r < x" if "x \<in> ids rs" for x
    using ids_after [of lo "[]" r rs x] assms that by simp
  then show "startId r \<in> ids (r # rs)" and "\<forall>x\<in>ids (r # rs). startId r \<le> x"
    and "block_end r \<notin> ids (r # rs)" and "ids (r # rs) - block_ids r = ids rs"
    using assms by fastforce+
qed

lemma blocks_head_le:
  assumes "blocks_from lo (r # rs)" and "blocks_from lo' (q # qs)" and "ids (r # rs) = ids (q # qs)"
  shows "startId q \<le> startId r \<and> block_end q \<le> block_end r"
proof -
  have start: "startId r = startId q"
    using blocks_head(1,2) [OF assms(1)] blocks_head(1,2) [OF assms(2)] assms(3) by (metis le_antisym)
  have "block_end r \<notin> block_ids q"
    using blocks_head(3) [OF assms(1)] unfolding assms(3) by auto
  then show ?thesis
    using start by auto
qed

lemma blocks_unique: "blocks_from lo rs \<Longrightarrow> blocks_from lo' qs \<Longrightarrow> ids rs = ids qs \<Longrightarrow> rs = qs"
proof (induction rs arbitrary: lo lo' qs)
  case Nil
  then show ?case
    by (cases qs) (use blocks_head(1) in force)+
next
  case (Cons r rs)
  obtain q qs' where qs: "qs = q # qs'"
    using Cons.prems blocks_head(1) [OF Cons.prems(1)] by (cases qs) auto
  have "startId q = startId r \<and> block_end q = block_end r"
    using blocks_head_le [OF Cons.prems(1) Cons.prems(2,3) [unfolded qs]]
      blocks_head_le [OF Cons.prems(2) [unfolded qs] Cons.prems(1) Cons.prems(3) [unfolded qs, symmetric]]
    by (elim conjE) (intro conjI le_antisym)
  then have rq: "r = q"
    by simp
  then have "ids rs = ids qs'"
    using blocks_head(4) [OF Cons.prems(1)] blocks_head(4) [OF Cons.prems(2) [unfolded qs]] Cons.prems(3)
    unfolding qs by (simp only: )
  then show ?case
    using Cons.IH [of "Suc (block_end r)" "Suc (block_end q)" qs'] Cons.prems(1,2) qs rq by simp
qed

lemma alloc_inv_unique:
  assumes "alloc_inv a" and "alloc_inv b" and "capacity a = capacity b" and "ids (resInfos a) = ids (resInfos b)"
  shows "a = b"
  using assms blocks_unique [of 0 "resInfos a" 0 "resInfos b"]
  by (simp add: alloc_inv_def)

subsection \<open>Outcomes\<close>

text \<open>C21. A request for \<open>n\<close> ids succeeds exactly when it can: \<open>n > 0\<close>, and for a consecutive
  request some free run of \<open>n\<close> ids exists, otherwise at least \<open>n\<close> ids are free. On success the blocks
  returned hold \<open>n\<close> ids in all, none of them allocated before, a consecutive request gets one block, and
  the allocated ids grow by exactly these. On failure the code is \<^verbatim>\<open>HCCL_E_PARA\<close> (nothing asked for) or
  \<^verbatim>\<open>HCCL_E_UNAVAIL\<close> and nothing changes. Either way the invariant is kept.\<close>

theorem alloc_outcome:
  assumes "alloc_inv a"
  shows "if 0 < n \<and> (if consecutive then \<exists>s. s + n \<le> capacity a \<and> {s ..< s + n} \<inter> ids (resInfos a) = {}
                     else n \<le> card ({..<capacity a} - ids (resInfos a)))
    then \<exists>ns a'. Alloc n consecutive a = (HCCL_SUCCESS, ns, a') \<and> alloc_inv a' \<and> capacity a' = capacity a
      \<and> ids (resInfos a') = ids (resInfos a) \<union> ids ns \<and> ids ns \<inter> ids (resInfos a) = {}
      \<and> card (ids ns) = n \<and> sum_list (map num ns) = n \<and> (if consecutive then length ns = 1 else True)
    else Alloc n consecutive a = (if n = 0 then HCCL_E_PARA else HCCL_E_UNAVAIL, [], a)"
proof -
  have "card ({..<capacity a} - ids (resInfos a)) = capacity a - allocatedSize a"
    using assms by (simp add: alloc_inv_def card_Diff_subset)
  moreover have "0 < n \<Longrightarrow> n \<le> GetConsecutiveRemainSize a \<longleftrightarrow>
      (\<exists>s. s + n \<le> capacity a \<and> {s ..< s + n} \<inter> ids (resInfos a) = {})"
    using GetConsecutiveRemainSize_iff_gap [OF assms] free_run_iff_gap [OF alloc_inv_below(1,2) [OF assms], of n]
    by (simp add: free_run_def)
  ultimately have "(0 < n \<and> (if consecutive then \<exists>s. s + n \<le> capacity a \<and> {s ..< s + n} \<inter> ids (resInfos a) = {}
                     else n \<le> card ({..<capacity a} - ids (resInfos a)))) = alloc_possible n consecutive a"
    by (auto simp: alloc_possible_def)
  moreover have "\<exists>ns a'. Alloc n consecutive a = (HCCL_SUCCESS, ns, a') \<and> alloc_inv a' \<and> capacity a' = capacity a
      \<and> ids (resInfos a') = ids (resInfos a) \<union> ids ns \<and> ids ns \<inter> ids (resInfos a) = {}
      \<and> card (ids ns) = n \<and> sum_list (map num ns) = n \<and> (if consecutive then length ns = 1 else True)"
    if "alloc_possible n consecutive a"
    by (rule Alloc_ok [OF assms that]) simp
  ultimately show ?thesis
    using Alloc_fail [OF assms, of n consecutive] by presburger
qed

text \<open>C22. A release succeeds exactly when it names a non-empty range of allocated ids; then
  exactly these ids become free and the invariant is kept. Any other call, one that runs past the
  capacity, names a free id or wraps around included, returns \<^verbatim>\<open>HCCL_E_PARA\<close> and changes nothing.\<close>

theorem release_outcome:
  assumes "alloc_inv a"
  shows "if 0 < n \<and> {start ..< start + n} \<subseteq> ids (resInfos a)
    then \<exists>a'. Release start n a = (HCCL_SUCCESS, a') \<and> alloc_inv a' \<and> capacity a' = capacity a
      \<and> ids (resInfos a') = ids (resInfos a) - {start ..< start + n}
    else Release start n a = (HCCL_E_PARA, a)"
proof (cases "0 < n \<and> {start ..< start + n} \<subseteq> ids (resInfos a)")
  case True
  have "\<exists>a'. Release start n a = (HCCL_SUCCESS, a') \<and> alloc_inv a' \<and> capacity a' = capacity a
      \<and> ids (resInfos a') = ids (resInfos a) - {start ..< start + n}"
    by (rule Release_ok [OF assms True [THEN conjunct1] True [THEN conjunct2]]) simp
  then show ?thesis
    using True by presburger
next
  case False
  then have "Release start n a = (HCCL_E_PARA, a)"
    using Release_fail [OF assms, of n start] by simp
  then show ?thesis
    using False by presburger
qed

text \<open>\<open>GetConsecutiveRemainSize\<close> is the length of the longest run of free ids: a run
  of \<open>k\<close> free ids exists exactly when \<open>k\<close> is at most its result.\<close>

theorem remain_size_largest:
  assumes "alloc_inv a"
  shows "k \<le> GetConsecutiveRemainSize a \<longleftrightarrow>
      (\<exists>s. s + k \<le> capacity a \<and> {s ..< s + k} \<inter> ids (resInfos a) = {})"
  using GetConsecutiveRemainSize_iff_gap [OF assms] free_run_iff_gap [OF alloc_inv_below(1,2) [OF assms], of k]
  by (cases "k = 0") (auto simp: free_run_def intro: exI [of _ 0])

text \<open>Releasing a block right after it was granted restores the allocator to
  the state before the grant, block list included.\<close>

theorem grant_release_restores:
  assumes "alloc_inv a" and "Alloc n consecutive a = (HCCL_SUCCESS, [r], a')"
  shows "Release (startId r) (num r) a' = (HCCL_SUCCESS, a)"
proof -
  note g = Alloc_success [OF assms]
  have r: "0 < num r" "{startId r ..< startId r + num r} = block_ids r"
    using g by (simp_all add: block_ids_def)
  have "{startId r ..< startId r + num r} \<subseteq> ids (resInfos a')"
    unfolding r(2) using g by simp
  then obtain a'' where a'': "Release (startId r) (num r) a' = (HCCL_SUCCESS, a'')" "alloc_inv a''"
    "ids (resInfos a'') = ids (resInfos a') - block_ids r" "capacity a'' = capacity a'"
    using Release_ok [of a' "num r" "startId r"] g r by metis
  have "ids (resInfos a') - block_ids r = ids (resInfos a)"
    using g by auto
  then have "a'' = a"
    using alloc_inv_unique [OF a''(2) assms(1)] a''(3,4) g by simp
  then show ?thesis
    using a''(1) by simp
qed

text \<open>C20. In every state that calls of \<open>Alloc\<close>, releases of blocks it returned and refused releases can
  reach from a new allocator, the blocks that its callers hold are pairwise disjoint and within the capacity, the
  allocated ids are exactly the held ones, and any held block can be given back.\<close>

theorem no_id_held_twice:
  assumes "cap < 2 ^ 32" and "pool_reach Alloc Release (CcuResIdAllocator_new cap, []) (a, held)"
  shows "ids (resInfos a) = ids held \<and> ids held \<subseteq> {..<cap} \<and> allocatedSize a = card (ids held)
    \<and> (\<forall>i j. i < j \<longrightarrow> j < length held \<longrightarrow> block_ids (held ! i) \<inter> block_ids (held ! j) = {})
    \<and> (\<forall>r\<in>set held. fst (Release (startId r) (num r) a) = HCCL_SUCCESS)"
proof -
  let ?new = "CcuResIdAllocator_new cap"
  have new: "alloc_inv ?new" "ids (resInfos ?new) = {}" "capacity ?new = cap"
    using alloc_inv_new [OF assms(1)] by (simp_all add: CcuResIdAllocator_new_def)
  note safe = idp.no_double_grant [OF new(1,2) assms(2)]
  have "idp.client_inv ?new (a, held)"
    using idp.reach_keeps [OF assms(2), of ?new] new by (simp add: idp.client_inv_def)
  then have "allocatedSize a = card (ids held)"
    by (auto simp: idp.client_inv_def alloc_inv_def)
  moreover have "ids held \<subseteq> {..<cap}"
    using safe(3) new(3) by (simp add: atLeast0LessThan)
  ultimately show ?thesis
    using safe(1) ledger_ok_nth [OF safe(2)] idp.held_can_return [OF new(1,2) assms(2)] by blast
qed

subsection \<open>Witnesses\<close>

text \<open>A small pool with ids 2 and 5 to 6 in use.\<close>

definition pool8 :: CcuResIdAllocator where
  "pool8 = \<lparr>capacity = 8, allocatedSize = 3, resInfos = [mk_res 2 1, mk_res 5 2]\<rparr>"

lemma ids_pool8: "ids (resInfos pool8) = {2, 5, 6}"
  by (auto simp: pool8_def)

lemma alloc_inv_pool8: "alloc_inv pool8"
  unfolding alloc_inv_def ids_pool8 by (simp add: pool8_def)

lemma Alloc_pool8: "Alloc 2 True pool8 = (HCCL_SUCCESS, [mk_res 0 2],
    \<lparr>capacity = 8, allocatedSize = 5, resInfos = [mk_res 0 3, mk_res 5 2]\<rparr>)"
  by (simp add: pool8_def Alloc_def AllocResInfo_def AllocResInfo_loop.simps u32_sub_def u32_add_def Let_def)

theorem alloc_outcome_witness:
  "alloc_inv pool8 \<and> (\<exists>ns a'. Alloc 4 False pool8 = (HCCL_SUCCESS, ns, a') \<and> card (ids ns) = 4)"
  using alloc_outcome [OF alloc_inv_pool8, of 4 False] alloc_inv_pool8
  unfolding ids_pool8 by (auto simp: pool8_def card_Diff_subset)

theorem release_outcome_witness:
  "\<exists>a'. Release 5 1 pool8 = (HCCL_SUCCESS, a') \<and> ids (resInfos a') = {2, 6}"
  using release_outcome [OF alloc_inv_pool8, of 1 5] unfolding ids_pool8 by (auto split: if_splits)

theorem remain_size_largest_witness: "2 \<le> GetConsecutiveRemainSize pool8 \<and> \<not> 3 \<le> GetConsecutiveRemainSize pool8"
proof -
  have "s + 2 \<le> 8 \<and> {s ..< s + 2} \<inter> {2, 5, 6} = {}" if "s = (3 :: nat)" for s
    using that by auto
  moreover have "\<not> (s + 3 \<le> 8 \<and> {s ..< s + 3} \<inter> {2, 5, 6} = {})" for s :: nat
    by auto
  ultimately show ?thesis
    using remain_size_largest [OF alloc_inv_pool8, of 2] remain_size_largest [OF alloc_inv_pool8, of 3]
    unfolding ids_pool8 by (auto simp: pool8_def)
qed

theorem grant_release_restores_witness:
  "Release 0 2 \<lparr>capacity = 8, allocatedSize = 5, resInfos = [mk_res 0 3, mk_res 5 2]\<rparr> = (HCCL_SUCCESS, pool8)"
  using grant_release_restores [OF alloc_inv_pool8 Alloc_pool8] by simp

theorem no_id_held_twice_witness:
  "\<exists>a. pool_reach Alloc Release (CcuResIdAllocator_new 4, []) (a, [mk_res 0 3]) \<and> ids (resInfos a) = {0, 1, 2}"
proof -
  let ?a = "\<lparr>capacity = 4, allocatedSize = 3, resInfos = [mk_res 0 3]\<rparr>"
  have "Alloc 3 True (CcuResIdAllocator_new 4) = (HCCL_SUCCESS, [mk_res 0 3], ?a)"
    by (simp add: CcuResIdAllocator_new_def Alloc_def AllocResInfo_def u32_sub_def u32_add_def Let_def)
  then have reach: "pool_reach Alloc Release (CcuResIdAllocator_new 4, []) (?a, [mk_res 0 3])"
    using pool_step.granted [of Alloc 3 True _ _ _ Release "[]"] by force
  moreover have "ids [mk_res 0 3] = {0, 1, 2}"
    by auto
  ultimately show ?thesis
    using no_id_held_twice [OF _ reach] by fastforce
qed

end
