(* ===== verification/Res_Specs.thy ===== *)
theory Res_Specs
  imports Ccu_Prelude
begin

text \<open>
  The resource specification of a device's dies (class \<^verbatim>\<open>CcuResSpecifications\<close> of
  \<^verbatim>\<open>ccu_device/ccu_res_specs.cc\<close>): reading the capability registers, the getters with their die check, and
  the addresses of the XN and CKE registers. What the driver and the runtime answer is a parameter
  (record \<open>CcuDriver\<close>); it may be anything. An out-parameter of a getter is passed in and returned, since
  a failing getter leaves it as it was.
\<close>

subsection \<open>Constants\<close>

definition CCU_MAX_IODIE_NUM :: nat where "CCU_MAX_IODIE_NUM = 2"
definition CCU_V1_CCUM_OFFSET :: u64 where "CCU_V1_CCUM_OFFSET = 0x800000"
definition CCU_V2_CCUM_OFFSET :: u64 where "CCU_V2_CCUM_OFFSET = 0x0"
definition CCU_V1_PER_DIE_PFE_RESERVED_NUM :: u32 where "CCU_V1_PER_DIE_PFE_RESERVED_NUM = 16"
definition CCU_V2_PER_DIE_PFE_RESERVED_NUM :: u32 where "CCU_V2_PER_DIE_PFE_RESERVED_NUM = 20"
definition CCU_WQEBB_RESOURCE_NUM :: u32 where "CCU_WQEBB_RESOURCE_NUM = 4096"
definition CCU_V2_COUNT_XN_NUM :: u32 where "CCU_V2_COUNT_XN_NUM = 4096"
definition CCU_RESOURCE_INS_RESERVE_SIZE :: u64 where "CCU_RESOURCE_INS_RESERVE_SIZE = 0x100000"
definition CCU_V1_RESOURCE_GSA_RESERVE_SIZE :: u64 where "CCU_V1_RESOURCE_GSA_RESERVE_SIZE = 0x8000"
definition CCU_RESOURCE_XN_PER_SIZE :: u32 where "CCU_RESOURCE_XN_PER_SIZE = 8"
definition CCU_RESOURCE_CKE_PER_SIZE :: u32 where "CCU_RESOURCE_CKE_PER_SIZE = 8"
definition CCU_RESOURCE_XN_V1_RESERVE_SIZE :: u32 where "CCU_RESOURCE_XN_V1_RESERVE_SIZE = 32 * 1024"
definition CCU_RESOURCE_XN_V2_RESERVE_SIZE :: u32 where "CCU_RESOURCE_XN_V2_RESERVE_SIZE = 256 * 1024"
definition CCU_V2_RESOURCE_TOTAL_CNT_XNS_NUM :: u32 where "CCU_V2_RESOURCE_TOTAL_CNT_XNS_NUM = 4"
definition CCU_ENABLE_FLAG :: u32 where "CCU_ENABLE_FLAG = 1"
definition INVALID_ADDR :: u64 where "INVALID_ADDR = 0"

lemmas spec_consts = CCU_MAX_IODIE_NUM_def CCU_V1_CCUM_OFFSET_def CCU_V2_CCUM_OFFSET_def
  CCU_V1_PER_DIE_PFE_RESERVED_NUM_def CCU_V2_PER_DIE_PFE_RESERVED_NUM_def CCU_WQEBB_RESOURCE_NUM_def
  CCU_V2_COUNT_XN_NUM_def CCU_RESOURCE_INS_RESERVE_SIZE_def CCU_V1_RESOURCE_GSA_RESERVE_SIZE_def
  CCU_RESOURCE_XN_PER_SIZE_def CCU_RESOURCE_CKE_PER_SIZE_def CCU_RESOURCE_XN_V1_RESERVE_SIZE_def
  CCU_RESOURCE_XN_V2_RESERVE_SIZE_def CCU_V2_RESOURCE_TOTAL_CNT_XNS_NUM_def CCU_ENABLE_FLAG_def
  INVALID_ADDR_def

subsection \<open>Data\<close>

datatype CcuVersion = CCU_V1 | CCU_V2 | CCU_INVALID | CcuVersion_INVALID

datatype ServeMode = ARMX86 | NORMAL

datatype HcclMainboardId =
    MAINBOARD_POD | MAINBOARD_A_K_SERVER | MAINBOARD_A_X_SERVER | MAINBOARD_PCIE_STD | MAINBOARD_RSV
  | MAINBOARD_EQUIPMENT | MAINBOARD_EVB | MAINBOARD_OTHERS

record CcuDataCaps =
  cap0 :: u32
  cap1 :: u32
  cap2 :: u32
  cap3 :: u32
  cap4 :: u32

text \<open>The fields of \<^verbatim>\<open>CcuBaseInfoData\<close> that are read.\<close>

record CcuBaseInfoData =
  baseMsId :: u32
  baseMissionKey :: u32
  baseResourceAddr :: u64
  caps :: CcuDataCaps

record CcuChannelJettyMap =
  mapChannelNum :: u32
  mapJettyNum :: u32

record CcuResSpecInfo =
  msId :: u32
  missionKey :: u32
  resourceAddr :: u64
  loopEngineNum :: u32
  missionNum :: u32
  instructionNum :: u32
  xnNum :: u32
  gsaNum :: u32
  msNum :: u32
  ckeNum :: u32
  jettyNum :: u32
  channelNum :: u32
  pfeNum :: u32
  countXnNum :: u32
  loopCkeNum :: u32
  wqeBBNum :: u32
  dieNum :: u32
  channelJettyMap :: CcuChannelJettyMap

definition CcuResSpecInfo_default :: CcuResSpecInfo where
  "CcuResSpecInfo_default =
    \<lparr>msId = 0, missionKey = 0, resourceAddr = 0, loopEngineNum = 0, missionNum = 0, instructionNum = 0,
     xnNum = 0, gsaNum = 0, msNum = 0, ckeNum = 0, jettyNum = 0, channelNum = 0, pfeNum = 0, countXnNum = 0,
     loopCkeNum = 0, wqeBBNum = CCU_WQEBB_RESOURCE_NUM, dieNum = of_nat CCU_MAX_IODIE_NUM,
     channelJettyMap = \<lparr>mapChannelNum = 8, mapJettyNum = 1\<rparr>\<rparr>"

record CcuResSpecifications =
  initFlag :: bool
  userDevId :: int
  devPhyId :: u32
  serveMode :: ServeMode
  ccuVersion :: CcuVersion
  dieEnableFlags :: "bool list"
  resSpecs :: "CcuResSpecInfo list"

definition CcuResSpecifications_new :: "int \<Rightarrow> CcuResSpecifications" where
  "CcuResSpecifications_new dev =
    \<lparr>initFlag = False, userDevId = dev, devPhyId = 0, serveMode = ARMX86, ccuVersion = CCU_INVALID,
     dieEnableFlags = replicate CCU_MAX_IODIE_NUM False,
     resSpecs = replicate CCU_MAX_IODIE_NUM CcuResSpecInfo_default\<rparr>"

text \<open>The answers of the driver and of the runtime: a result code and the data written. \<open>drvPhyId\<close> is
  \<^verbatim>\<open>hrtGetDevicePhyIdByIndex\<close>, \<open>drvMainboard\<close> is \<^verbatim>\<open>aclrtGetDeviceInfo\<close> (whether it succeeded and the
  value), the others are the three commands of \<^verbatim>\<open>HccpRaTlvCcuCustomChannel\<close> that are used.\<close>

record CcuDriver =
  drvPhyId :: "int \<Rightarrow> HcclResult \<times> u32"
  drvMainboard :: "int \<Rightarrow> bool \<times> u64"
  drvVersion :: "int \<Rightarrow> HcclResult \<times> int"
  drvDieWorking :: "int \<Rightarrow> nat \<Rightarrow> HcclResult \<times> u32"
  drvBasicInfo :: "int \<Rightarrow> nat \<Rightarrow> HcclResult \<times> CcuBaseInfoData"

subsection \<open>Reading the device\<close>

definition CheckCcuVersion :: "CcuDriver \<Rightarrow> int \<Rightarrow> CcuVersion" where
  "CheckCcuVersion drv dev =
    (case drvVersion drv dev of (ret, v) \<Rightarrow>
       if ret \<noteq> HCCL_SUCCESS then CCU_INVALID
       else if v = 0 then CCU_V1
       else if v = 1 then CCU_V2
       else CCU_INVALID)"

definition CheckDieEnable :: "CcuDriver \<Rightarrow> int \<Rightarrow> nat \<Rightarrow> bool" where
  "CheckDieEnable drv dev dieId =
    (case drvDieWorking drv dev dieId of (ret, enableFlag) \<Rightarrow>
       if ret \<noteq> HCCL_SUCCESS then False else enableFlag = CCU_ENABLE_FLAG)"

definition ParseOutBuffToResSpecInfo :: "CcuVersion \<Rightarrow> CcuBaseInfoData \<Rightarrow> CcuResSpecInfo" where
  "ParseOutBuffToResSpecInfo version baseInfoData =
    (if version = CCU_INVALID \<or> version = CcuVersion_INVALID then CcuResSpecInfo_default
     else
       let c = caps baseInfoData;
           info = CcuResSpecInfo_default
             \<lparr>msId := baseMsId baseInfoData,
              resourceAddr := baseResourceAddr baseInfoData,
              missionKey := baseMissionKey baseInfoData,
              instructionNum := (cap0 c AND 0x0000FFFF) + 1,
              xnNum := (drop_bit 16 (cap1 c) AND 0x0000FFFF) + 1,
              msNum := (drop_bit 16 (cap2 c) AND 0x0000FFFF) + 1,
              ckeNum := (cap2 c AND 0x0000FFFF) + 1,
              jettyNum := (drop_bit 16 (cap3 c) AND 0x0000FFFF) + 1,
              channelNum := (cap3 c AND 0x0000FFFF) + 1,
              pfeNum := (cap4 c AND 0x000000FF) + 1\<rparr>
       in if version = CCU_V1
          then info\<lparr>missionNum := (drop_bit 16 (cap0 c) AND 0x000000FF) + 1,
                    loopEngineNum := (drop_bit 24 (cap0 c) AND 0x000000FF) + 1,
                    gsaNum := (cap1 c AND 0x0000FFFF) + 1\<rparr>
          else
            let info = info\<lparr>loopEngineNum := (drop_bit 20 (cap0 c) AND 0x00000FFF) + 1,
                            missionNum := (drop_bit 16 (cap0 c) AND 0x0000000F) + 1,
                            gsaNum := 0\<rparr>;
                info = (if loopEngineNum info < ckeNum info
                        then info\<lparr>loopCkeNum := loopEngineNum info\<rparr>
                        else info\<lparr>ckeNum := 0\<rparr>)
            in if xnNum info > CCU_V2_COUNT_XN_NUM
               then info\<lparr>xnNum := xnNum info - CCU_V2_COUNT_XN_NUM, countXnNum := CCU_V2_COUNT_XN_NUM\<rparr>
               else info)"

definition CheckResSpecifications ::
  "CcuDriver \<Rightarrow> int \<Rightarrow> nat \<Rightarrow> CcuVersion \<Rightarrow> CcuResSpecInfo \<Rightarrow> HcclResult \<times> CcuResSpecInfo" where
  "CheckResSpecifications drv dev dieId version specs =
    (case drvBasicInfo drv dev dieId of (ret, baseInfoData) \<Rightarrow>
       if ret \<noteq> HCCL_SUCCESS then (ret, specs)
       else (HCCL_SUCCESS, ParseOutBuffToResSpecInfo version baseInfoData))"

definition rtMainboardIdToHcclMainboardId :: "u64 \<rightharpoonup> HcclMainboardId" where
  "rtMainboardIdToHcclMainboardId =
    [0x0 \<mapsto> MAINBOARD_POD, 0x1 \<mapsto> MAINBOARD_A_K_SERVER, 0x2 \<mapsto> MAINBOARD_A_X_SERVER, 0x3 \<mapsto> MAINBOARD_PCIE_STD,
     0x4 \<mapsto> MAINBOARD_RSV, 0x5 \<mapsto> MAINBOARD_RSV, 0x6 \<mapsto> MAINBOARD_EQUIPMENT, 0x7 \<mapsto> MAINBOARD_EVB]"

definition CcuGetMainboardId ::
  "CcuDriver \<Rightarrow> int \<Rightarrow> HcclMainboardId \<Rightarrow> HcclResult \<times> HcclMainboardId" where
  "CcuGetMainboardId drv dev hcclMainboardId =
    (case drvMainboard drv dev of (ok, val) \<Rightarrow>
       if \<not> ok then (HCCL_E_RUNTIME, hcclMainboardId)
       else
         let mainboardId = drop_bit 5 val AND 0x7
         in (HCCL_SUCCESS,
             case rtMainboardIdToHcclMainboardId mainboardId of
               None \<Rightarrow> MAINBOARD_OTHERS
             | Some m \<Rightarrow> m))"

definition CheckServeMode :: "CcuDriver \<Rightarrow> int \<Rightarrow> ServeMode \<Rightarrow> HcclResult \<times> ServeMode" where
  "CheckServeMode drv dev mode =
    (case CcuGetMainboardId drv dev MAINBOARD_RSV of (ret, m) \<Rightarrow>
       if ret \<noteq> HCCL_SUCCESS then (ret, mode)
       else (HCCL_SUCCESS, if m = MAINBOARD_A_X_SERVER \<or> m = MAINBOARD_PCIE_STD then ARMX86 else NORMAL))"

subsection \<open>Init and Deinit\<close>

text \<open>The loop over the dies of \<open>Init\<close>, from die \<open>dieId\<close> on, for \<open>n\<close> more dies.\<close>

fun Init_dies :: "CcuDriver \<Rightarrow> nat \<Rightarrow> nat \<Rightarrow> CcuResSpecifications \<Rightarrow> HcclResult \<times> CcuResSpecifications" where
  "Init_dies drv 0 dieId s = (HCCL_SUCCESS, s)"
| "Init_dies drv (Suc n) dieId s =
    (let s = s\<lparr>dieEnableFlags := (dieEnableFlags s)[dieId := CheckDieEnable drv (userDevId s) dieId]\<rparr>
     in if \<not> dieEnableFlags s ! dieId
        then Init_dies drv n (Suc dieId) (s\<lparr>resSpecs := (resSpecs s)[dieId := CcuResSpecInfo_default]\<rparr>)
        else
          case CheckResSpecifications drv (userDevId s) dieId (ccuVersion s) (resSpecs s ! dieId) of
            (ret, info) \<Rightarrow>
              let s = s\<lparr>resSpecs := (resSpecs s)[dieId := info]\<rparr>
              in if ret \<noteq> HCCL_SUCCESS then (ret, s) else Init_dies drv n (Suc dieId) s)"

definition CcuResSpecifications_Init ::
  "CcuDriver \<Rightarrow> CcuResSpecifications \<Rightarrow> HcclResult \<times> CcuResSpecifications" where
  "CcuResSpecifications_Init drv s =
    (if initFlag s then (HCCL_SUCCESS, s)
     else
       case drvPhyId drv (userDevId s) of (ret, phy) \<Rightarrow>
         let s = s\<lparr>devPhyId := phy\<rparr>
         in if ret \<noteq> HCCL_SUCCESS then (ret, s)
            else
              case CheckServeMode drv (userDevId s) (serveMode s) of (ret, mode) \<Rightarrow>
                let s = s\<lparr>serveMode := mode\<rparr>
                in if ret \<noteq> HCCL_SUCCESS then (ret, s)
                   else
                     let s = s\<lparr>ccuVersion := CheckCcuVersion drv (userDevId s)\<rparr>
                     in if ccuVersion s = CCU_INVALID then (HCCL_E_UNAVAIL, s)
                        else
                          case Init_dies drv CCU_MAX_IODIE_NUM 0 s of (ret, s) \<Rightarrow>
                            if ret \<noteq> HCCL_SUCCESS then (ret, s)
                            else (HCCL_SUCCESS, s\<lparr>initFlag := True\<rparr>))"

definition CcuResSpecifications_Deinit :: "CcuResSpecifications \<Rightarrow> HcclResult \<times> CcuResSpecifications" where
  "CcuResSpecifications_Deinit s =
    (HCCL_SUCCESS,
     s\<lparr>dieEnableFlags := map (\<lambda>_. False) (dieEnableFlags s),
       resSpecs := map (\<lambda>_. CcuResSpecInfo_default) (resSpecs s),
       serveMode := ARMX86, initFlag := False\<rparr>)"

subsection \<open>Getters\<close>

definition CheckDieValid :: "nat \<Rightarrow> bool list \<Rightarrow> HcclResult" where
  "CheckDieValid dieId flags =
    (if dieId \<ge> CCU_MAX_IODIE_NUM then HCCL_E_PARA
     else if \<not> flags ! dieId then HCCL_E_PARA
     else HCCL_SUCCESS)"

text \<open>The common body of the getters: check the die, then read a field.\<close>

definition spec_field ::
  "(CcuResSpecInfo \<Rightarrow> 'v) \<Rightarrow> CcuResSpecifications \<Rightarrow> nat \<Rightarrow> 'v \<Rightarrow> HcclResult \<times> 'v" where
  "spec_field f s dieId v =
    (let ret = CheckDieValid dieId (dieEnableFlags s)
     in if ret \<noteq> HCCL_SUCCESS then (ret, v) else (HCCL_SUCCESS, f (resSpecs s ! dieId)))"

definition GetDieEnableFlag :: "CcuResSpecifications \<Rightarrow> nat \<Rightarrow> bool \<Rightarrow> HcclResult \<times> bool" where
  "GetDieEnableFlag s dieId v =
    (let ret = CheckDieValid dieId [True, True]
     in if ret \<noteq> HCCL_SUCCESS then (ret, v) else (HCCL_SUCCESS, dieEnableFlags s ! dieId))"

definition GetResourceAddr :: "CcuResSpecifications \<Rightarrow> nat \<Rightarrow> u64 \<Rightarrow> HcclResult \<times> u64" where
  "GetResourceAddr = spec_field resourceAddr"

definition GetMsId :: "CcuResSpecifications \<Rightarrow> nat \<Rightarrow> u32 \<Rightarrow> HcclResult \<times> u32" where
  "GetMsId = spec_field msId"

definition GetMissionKey :: "CcuResSpecifications \<Rightarrow> nat \<Rightarrow> u32 \<Rightarrow> HcclResult \<times> u32" where
  "GetMissionKey = spec_field missionKey"

definition GetInstructionNum :: "CcuResSpecifications \<Rightarrow> nat \<Rightarrow> u32 \<Rightarrow> HcclResult \<times> u32" where
  "GetInstructionNum = spec_field instructionNum"

definition GetMissionNum :: "CcuResSpecifications \<Rightarrow> nat \<Rightarrow> u32 \<Rightarrow> HcclResult \<times> u32" where
  "GetMissionNum = spec_field missionNum"

definition GetLoopEngineNum :: "CcuResSpecifications \<Rightarrow> nat \<Rightarrow> u32 \<Rightarrow> HcclResult \<times> u32" where
  "GetLoopEngineNum = spec_field loopEngineNum"

definition GetGsaNum :: "CcuResSpecifications \<Rightarrow> nat \<Rightarrow> u32 \<Rightarrow> HcclResult \<times> u32" where
  "GetGsaNum = spec_field gsaNum"

definition GetXnNum :: "CcuResSpecifications \<Rightarrow> nat \<Rightarrow> u32 \<Rightarrow> HcclResult \<times> u32" where
  "GetXnNum = spec_field xnNum"

definition GetCountXnNum :: "CcuResSpecifications \<Rightarrow> nat \<Rightarrow> u32 \<Rightarrow> HcclResult \<times> u32" where
  "GetCountXnNum = spec_field countXnNum"

definition GetCkeNum :: "CcuResSpecifications \<Rightarrow> nat \<Rightarrow> u32 \<Rightarrow> HcclResult \<times> u32" where
  "GetCkeNum = spec_field ckeNum"

definition GetLoopCkeNum :: "CcuResSpecifications \<Rightarrow> nat \<Rightarrow> u32 \<Rightarrow> HcclResult \<times> u32" where
  "GetLoopCkeNum = spec_field loopCkeNum"

definition GetMsNum :: "CcuResSpecifications \<Rightarrow> nat \<Rightarrow> u32 \<Rightarrow> HcclResult \<times> u32" where
  "GetMsNum = spec_field msNum"

definition GetChannelNum :: "CcuResSpecifications \<Rightarrow> nat \<Rightarrow> u32 \<Rightarrow> HcclResult \<times> u32" where
  "GetChannelNum = spec_field channelNum"

definition GetJettyNum :: "CcuResSpecifications \<Rightarrow> nat \<Rightarrow> u32 \<Rightarrow> HcclResult \<times> u32" where
  "GetJettyNum = spec_field jettyNum"

definition GetPfeNum :: "CcuResSpecifications \<Rightarrow> nat \<Rightarrow> u32 \<Rightarrow> HcclResult \<times> u32" where
  "GetPfeNum = spec_field pfeNum"

definition GetWqeBBNum :: "CcuResSpecifications \<Rightarrow> nat \<Rightarrow> u32 \<Rightarrow> HcclResult \<times> u32" where
  "GetWqeBBNum = spec_field wqeBBNum"

definition GetChannelJettyMap :: "CcuResSpecifications \<Rightarrow> nat \<Rightarrow> CcuChannelJettyMap \<Rightarrow> HcclResult \<times> CcuChannelJettyMap" where
  "GetChannelJettyMap = spec_field channelJettyMap"


definition GetCascCntNum :: "CcuResSpecifications \<Rightarrow> nat \<Rightarrow> u32 \<Rightarrow> HcclResult \<times> u32" where
  "GetCascCntNum s dieId v =
    (let ret = CheckDieValid dieId (dieEnableFlags s)
     in if ret \<noteq> HCCL_SUCCESS then (ret, v)
        else if ccuVersion s \<noteq> CCU_V2 then (HCCL_SUCCESS, 0)
        else (HCCL_SUCCESS, CCU_V2_RESOURCE_TOTAL_CNT_XNS_NUM))"

definition GetPfeReservedNum :: "CcuResSpecifications \<Rightarrow> nat \<Rightarrow> u32 \<Rightarrow> HcclResult \<times> u32" where
  "GetPfeReservedNum s dieId v =
    (let ret = CheckDieValid dieId (dieEnableFlags s)
     in if ret \<noteq> HCCL_SUCCESS then (ret, v)
        else if ccuVersion s = CCU_V1 then (HCCL_SUCCESS, CCU_V1_PER_DIE_PFE_RESERVED_NUM)
        else (HCCL_SUCCESS, CCU_V2_PER_DIE_PFE_RESERVED_NUM))"

subsection \<open>Register addresses\<close>

text \<open>The offsets are computed in 64 bits and stored in a \<^verbatim>\<open>uint32_t\<close>.\<close>

definition GetXnBaseAddr :: "CcuResSpecifications \<Rightarrow> nat \<Rightarrow> u64 \<Rightarrow> HcclResult \<times> u64" where
  "GetXnBaseAddr s dieId xnBaseAddr =
    (let ret = CheckDieValid dieId (dieEnableFlags s)
     in if ret \<noteq> HCCL_SUCCESS then (ret, xnBaseAddr)
        else
          let ccuResAddr = resourceAddr (resSpecs s ! dieId)
          in if ccuResAddr = 0 then (HCCL_E_INTERNAL, xnBaseAddr)
             else if ccuVersion s \<noteq> CCU_V1 \<and> ccuVersion s \<noteq> CCU_V2 then (HCCL_E_INTERNAL, xnBaseAddr)
             else
               let ccuXnOffset :: u32 =
                 (if ccuVersion s = CCU_V1
                  then ucast (CCU_V1_CCUM_OFFSET + CCU_RESOURCE_INS_RESERVE_SIZE + CCU_V1_RESOURCE_GSA_RESERVE_SIZE)
                  else ucast (CCU_V2_CCUM_OFFSET + CCU_RESOURCE_INS_RESERVE_SIZE))
               in if ccuResAddr > - 1 - ucast ccuXnOffset then (HCCL_E_INTERNAL, xnBaseAddr)
                  else (HCCL_SUCCESS, ccuResAddr + ucast ccuXnOffset))"

definition GetCkeBaseAddr :: "CcuResSpecifications \<Rightarrow> nat \<Rightarrow> u64 \<Rightarrow> HcclResult \<times> u64" where
  "GetCkeBaseAddr s dieId ckeBaseAddr =
    (let ret = CheckDieValid dieId (dieEnableFlags s)
     in if ret \<noteq> HCCL_SUCCESS then (ret, ckeBaseAddr)
        else
          let ccuResAddr = resourceAddr (resSpecs s ! dieId)
          in if ccuResAddr = 0 then (HCCL_E_INTERNAL, ckeBaseAddr)
             else if ccuVersion s \<noteq> CCU_V1 \<and> ccuVersion s \<noteq> CCU_V2 then (HCCL_E_INTERNAL, ckeBaseAddr)
             else
               let ccuCkeOffset :: u32 =
                 (if ccuVersion s = CCU_V1
                  then ucast (CCU_V1_CCUM_OFFSET + CCU_RESOURCE_INS_RESERVE_SIZE + CCU_V1_RESOURCE_GSA_RESERVE_SIZE
                              + ucast CCU_RESOURCE_XN_V1_RESERVE_SIZE)
                  else ucast (CCU_V2_CCUM_OFFSET + CCU_RESOURCE_INS_RESERVE_SIZE
                              + ucast CCU_RESOURCE_XN_V2_RESERVE_SIZE))
               in if ccuResAddr > - 1 - ucast ccuCkeOffset then (HCCL_E_INTERNAL, ckeBaseAddr)
                  else (HCCL_SUCCESS, ccuResAddr + ucast ccuCkeOffset))"

definition GetXnOffsetCcumBaseAddr :: "CcuResSpecifications \<Rightarrow> nat \<Rightarrow> u64" where
  "GetXnOffsetCcumBaseAddr s dieId =
    (if dieId \<ge> CCU_MAX_IODIE_NUM \<or> \<not> dieEnableFlags s ! dieId then INVALID_ADDR
     else if ccuVersion s = CCU_V1 then CCU_RESOURCE_INS_RESERVE_SIZE + CCU_V1_RESOURCE_GSA_RESERVE_SIZE
     else if ccuVersion s = CCU_V2 then CCU_RESOURCE_INS_RESERVE_SIZE
     else 0)"

definition GetCkeOffsetCcumBaseAddr :: "CcuResSpecifications \<Rightarrow> nat \<Rightarrow> u64" where
  "GetCkeOffsetCcumBaseAddr s dieId =
    (if dieId \<ge> CCU_MAX_IODIE_NUM \<or> \<not> dieEnableFlags s ! dieId then INVALID_ADDR
     else if ccuVersion s = CCU_V1
     then CCU_RESOURCE_INS_RESERVE_SIZE + CCU_V1_RESOURCE_GSA_RESERVE_SIZE + ucast CCU_RESOURCE_XN_V1_RESERVE_SIZE
     else if ccuVersion s = CCU_V2 then CCU_RESOURCE_INS_RESERVE_SIZE + ucast CCU_RESOURCE_XN_V2_RESERVE_SIZE
     else INVALID_ADDR)"

definition CheckResOffsetAddrIsValid :: "u32 \<Rightarrow> u64 \<Rightarrow> u32 \<Rightarrow> HcclResult" where
  "CheckResOffsetAddrIsValid i baseAddr resoucePerSize =
    (if baseAddr = INVALID_ADDR then HCCL_E_INTERNAL
     else if i > (- 1) div resoucePerSize then HCCL_E_PARA
     else HCCL_SUCCESS)"

definition GetXnOffsetCcumAddrById :: "CcuResSpecifications \<Rightarrow> nat \<Rightarrow> u32 \<Rightarrow> u64 \<Rightarrow> HcclResult \<times> u64" where
  "GetXnOffsetCcumAddrById s dieId i xnAddr =
    (let xnBaseAddr = GetXnOffsetCcumBaseAddr s dieId;
         ret = CheckResOffsetAddrIsValid i xnBaseAddr CCU_RESOURCE_XN_PER_SIZE
     in if ret \<noteq> HCCL_SUCCESS then (ret, xnAddr)
        else (HCCL_SUCCESS, xnBaseAddr + ucast (i * CCU_RESOURCE_XN_PER_SIZE)))"

definition GetCkeOffsetCcumAddrById :: "CcuResSpecifications \<Rightarrow> nat \<Rightarrow> u32 \<Rightarrow> u64 \<Rightarrow> HcclResult \<times> u64" where
  "GetCkeOffsetCcumAddrById s dieId i ckeAddr =
    (let ckeBaseAddr = GetCkeOffsetCcumBaseAddr s dieId;
         ret = CheckResOffsetAddrIsValid i ckeBaseAddr CCU_RESOURCE_CKE_PER_SIZE
     in if ret \<noteq> HCCL_SUCCESS then (ret, ckeAddr)
        else (HCCL_SUCCESS, ckeBaseAddr + ucast (i * CCU_RESOURCE_CKE_PER_SIZE)))"

subsection \<open>Properties of the specification\<close>

lemma and_mask_u32 [simp]:
  fixes x :: u32
  shows "x AND 0xF = take_bit 4 x" "x AND 0xFF = take_bit 8 x" "x AND 0xFFF = take_bit 12 x"
    "x AND 0xFFFF = take_bit 16 x"
  by (simp_all add: take_bit_eq_mask mask_eq_exp_minus_1)

lemma unat_field_plus_1:
  assumes "n \<le> 16"
  shows "unat (take_bit n (x :: u32) + 1) = take_bit n (unat x) + 1" and "take_bit n (unat x) < 2 ^ 16"
proof -
  have "take_bit n (unat x) < 2 ^ n"
    by simp
  also have "\<dots> \<le> (2 :: nat) ^ 16"
    using assms by (rule power_increasing) simp
  finally show "take_bit n (unat x) < 2 ^ 16" .
  then show "unat (take_bit n x + 1) = take_bit n (unat x) + 1"
    by (simp add: unat_word_ariths unsigned_take_bit_eq)
qed

text \<open>On a version 2 device the XN registers are split without loss: the general and the
  counting registers together are the number the capability register gives (its field plus one), which
  is at least 1 and at most 65536, and the counting part is 0 or 4096. The loop CKEs, when there are any,
  are as many as the loop engines and fewer than the CKEs.\<close>

theorem spec_counts:
  fixes b :: CcuBaseInfoData
  defines "info \<equiv> ParseOutBuffToResSpecInfo CCU_V2 b"
  shows "unat (xnNum info) + unat (countXnNum info) = take_bit 16 (unat (drop_bit 16 (cap1 (caps b)))) + 1
    \<and> 0 < unat (xnNum info) \<and> unat (xnNum info) + unat (countXnNum info) \<le> 65536
    \<and> unat (countXnNum info) \<in> {0, 4096}
    \<and> (loopCkeNum info = 0 \<or> loopCkeNum info = loopEngineNum info \<and> loopCkeNum info < ckeNum info)"
proof -
  define x :: u32 where "x = take_bit 16 (drop_bit 16 (cap1 (caps b))) + 1"
  define m where "m = take_bit 16 (unat (drop_bit 16 (cap1 (caps b))))"
  have x: "unat x = m + 1" "m < 65536"
    using unat_field_plus_1 [of 16 "drop_bit 16 (cap1 (caps b))"] by (simp_all add: x_def m_def)
  have xn: "xnNum info = (if x > 4096 then x - 4096 else x)" "countXnNum info = (if x > 4096 then 4096 else 0)"
    by (simp_all add: info_def ParseOutBuffToResSpecInfo_def Let_def CcuResSpecInfo_default_def spec_consts x_def)
  have "unat (x - 4096) = m + 1 - 4096" if "x > 4096"
    using that x(1) by (simp add: unat_sub word_less_nat_alt word_le_nat_alt)
  moreover have "x > 4096 \<longleftrightarrow> m + 1 > 4096"
    using x(1) by (simp add: word_less_nat_alt)
  ultimately have "unat (xnNum info) + unat (countXnNum info) = m + 1 \<and> 0 < unat (xnNum info)
    \<and> unat (countXnNum info) \<in> {0, 4096}"
    using x(1) by (simp add: xn)
  moreover have "loopCkeNum info = 0 \<or> loopCkeNum info = loopEngineNum info \<and> loopCkeNum info < ckeNum info"
    by (simp add: info_def ParseOutBuffToResSpecInfo_def Let_def CcuResSpecInfo_default_def)
  ultimately show ?thesis
    using x(2) by (simp add: m_def)
qed

lemma CheckDieValid_ok: "CheckDieValid d flags = (if d < 2 \<and> flags ! d then HCCL_SUCCESS else HCCL_E_PARA)"
  by (simp add: CheckDieValid_def spec_consts)

lemma spec_field_eq:
  "spec_field f s d v =
    (if d < 2 \<and> dieEnableFlags s ! d then (HCCL_SUCCESS, f (resSpecs s ! d)) else (HCCL_E_PARA, v))"
  by (simp add: spec_field_def CheckDieValid_ok Let_def)

subsection \<open>Addresses\<close>

definition xn_area :: "CcuVersion \<Rightarrow> nat" where
  "xn_area version = (if version = CCU_V1 then 0x108000 else 0x100000)"

definition xn_count :: "CcuVersion \<Rightarrow> nat" where
  "xn_count version = (if version = CCU_V1 then 4096 else 32768)"

text \<open>The index check keeps the product within 32 bits.\<close>

lemma index_check: "CheckResOffsetAddrIsValid i b 8 =
    (if b = 0 then HCCL_E_INTERNAL else if 536870912 \<le> unat i then HCCL_E_PARA else HCCL_SUCCESS)"
  by (simp add: CheckResOffsetAddrIsValid_def spec_consts word_less_nat_alt not_le [symmetric] unat_div
      unsigned_minus_1_eq_mask mask_eq_exp_minus_1)

lemma offset_exact:
  assumes "unat (i :: u32) < 536870912" and "unat b < 2 ^ 32"
  shows "unat ((b :: u64) + ucast (i * 8)) = unat b + 8 * unat i"
proof -
  have "unat (i * 8) = 8 * unat i"
    using assms(1) by (simp add: unat_word_ariths)
  then have "unat (ucast (i * 8) :: u64) = 8 * unat i"
    by simp
  then show ?thesis
    using assms by (simp add: unat_word_ariths)
qed

lemma xn_address:
  assumes "d < 2" and "dieEnableFlags s ! d" and "ccuVersion s \<in> {CCU_V1, CCU_V2}" and "unat i < 536870912"
  obtains x where "GetXnOffsetCcumAddrById s d i v = (HCCL_SUCCESS, x)"
    and "unat x = xn_area (ccuVersion s) + 8 * unat i"
proof -
  have "unat (GetXnOffsetCcumBaseAddr s d) = xn_area (ccuVersion s)"
    using assms(1-3) by (auto simp: GetXnOffsetCcumBaseAddr_def spec_consts xn_area_def)
  moreover from this have "GetXnOffsetCcumBaseAddr s d \<noteq> 0"
    by (auto simp: xn_area_def split: if_splits)
  ultimately have "GetXnOffsetCcumAddrById s d i v = (HCCL_SUCCESS, GetXnOffsetCcumBaseAddr s d + ucast (i * 8))"
      "unat (GetXnOffsetCcumBaseAddr s d + ucast (i * 8)) = xn_area (ccuVersion s) + 8 * unat i"
    using offset_exact [OF assms(4), of "GetXnOffsetCcumBaseAddr s d"] assms(4)
    by (simp_all add: GetXnOffsetCcumAddrById_def CCU_RESOURCE_XN_PER_SIZE_def index_check xn_area_def xn_count_def)
  then show thesis
    by (rule that)
qed

lemma cke_address:
  assumes "d < 2" and "dieEnableFlags s ! d" and "ccuVersion s \<in> {CCU_V1, CCU_V2}" and "unat i < 536870912"
  obtains x where "GetCkeOffsetCcumAddrById s d i v = (HCCL_SUCCESS, x)"
    and "unat x = xn_area (ccuVersion s) + 8 * xn_count (ccuVersion s) + 8 * unat i"
proof -
  have "unat (GetCkeOffsetCcumBaseAddr s d) = xn_area (ccuVersion s) + 8 * xn_count (ccuVersion s)"
    using assms(1-3) by (auto simp: GetCkeOffsetCcumBaseAddr_def spec_consts xn_area_def xn_count_def)
  moreover from this have "GetCkeOffsetCcumBaseAddr s d \<noteq> 0"
    by (auto simp: xn_area_def split: if_splits)
  ultimately have "GetCkeOffsetCcumAddrById s d i v = (HCCL_SUCCESS, GetCkeOffsetCcumBaseAddr s d + ucast (i * 8))"
      "unat (GetCkeOffsetCcumBaseAddr s d + ucast (i * 8)) = xn_area (ccuVersion s) + 8 * xn_count (ccuVersion s) + 8 * unat i"
    using offset_exact [OF assms(4), of "GetCkeOffsetCcumBaseAddr s d"] assms(4)
    by (simp_all add: GetCkeOffsetCcumAddrById_def CCU_RESOURCE_CKE_PER_SIZE_def index_check xn_area_def xn_count_def)
  then show thesis
    by (rule that)
qed

text \<open>On an enabled die of a version 1 or 2 device the address of the XN register \<open>i\<close>
  and of the CKE register \<open>j\<close> are computed without wrap-around for every index that passes the check
  (below \<open>2 ^ 29\<close>); as long as \<open>i\<close> is within the XN area, the eight bytes of the XN register lie below
  every CKE register.\<close>

theorem register_addresses:
  assumes "d < 2" and "dieEnableFlags s ! d" and "ccuVersion s \<in> {CCU_V1, CCU_V2}"
    and "unat i < xn_count (ccuVersion s)" and "unat j < 536870912"
  shows "\<exists>x y. GetXnOffsetCcumAddrById s d i v = (HCCL_SUCCESS, x) \<and> GetCkeOffsetCcumAddrById s d j w = (HCCL_SUCCESS, y)
    \<and> unat x = xn_area (ccuVersion s) + 8 * unat i
    \<and> unat y = xn_area (ccuVersion s) + 8 * xn_count (ccuVersion s) + 8 * unat j
    \<and> unat x + 8 \<le> unat y"
proof -
  have i: "unat i < 536870912"
    using assms(4) by (auto simp: xn_count_def split: if_splits)
  obtain x where x: "GetXnOffsetCcumAddrById s d i v = (HCCL_SUCCESS, x)"
    "unat x = xn_area (ccuVersion s) + 8 * unat i"
    using xn_address [OF assms(1-3) i] .
  obtain y where y: "GetCkeOffsetCcumAddrById s d j w = (HCCL_SUCCESS, y)"
    "unat y = xn_area (ccuVersion s) + 8 * xn_count (ccuVersion s) + 8 * unat j"
    using cke_address [OF assms(1-3,5)] .
  then show ?thesis
    using x y assms(4) by auto
qed

subsection \<open>Initialisation\<close>

definition die_spec :: "CcuDriver \<Rightarrow> int \<Rightarrow> CcuVersion \<Rightarrow> nat \<Rightarrow> CcuResSpecInfo" where
  "die_spec drv dev version d =
    (if CheckDieEnable drv dev d then ParseOutBuffToResSpecInfo version (snd (drvBasicInfo drv dev d))
     else CcuResSpecInfo_default)"

lemma Init_dies_two:
  assumes "length (dieEnableFlags s) = 2" and "length (resSpecs s) = 2"
    and "Init_dies drv 2 0 s = (HCCL_SUCCESS, s')"
  shows "s' = s\<lparr>dieEnableFlags := [CheckDieEnable drv (userDevId s) 0, CheckDieEnable drv (userDevId s) 1],
    resSpecs := [die_spec drv (userDevId s) (ccuVersion s) 0, die_spec drv (userDevId s) (ccuVersion s) 1]\<rparr>"
proof -
  obtain f0 f1 r0 r1 where "dieEnableFlags s = [f0, f1]" "resSpecs s = [r0, r1]"
    using assms(1,2) by (auto simp: length_Suc_conv numeral_2_eq_2)
  then show ?thesis
    using assms(3)
    by (auto simp: numeral_2_eq_2 Let_def die_spec_def CheckResSpecifications_def
        split: if_splits prod.splits)
qed

lemma Init_dies_success_cong:
  assumes "length (dieEnableFlags s) = 2" "length (resSpecs s) = 2"
    and "length (dieEnableFlags t) = 2" "length (resSpecs t) = 2"
    and "userDevId s = userDevId t"
  shows "fst (Init_dies drv 2 0 s) = HCCL_SUCCESS \<longleftrightarrow> fst (Init_dies drv 2 0 t) = HCCL_SUCCESS"
proof -
  have *: "fst (Init_dies drv 2 0 u) = HCCL_SUCCESS \<longleftrightarrow>
      (\<forall>d<2. CheckDieEnable drv (userDevId u) d \<longrightarrow> fst (drvBasicInfo drv (userDevId u) d) = HCCL_SUCCESS)"
    if len: "length (dieEnableFlags u) = 2" "length (resSpecs u) = 2" for u
  proof -
    obtain f0 f1 r0 r1 where "dieEnableFlags u = [f0, f1]" "resSpecs u = [r0, r1]"
      using len by (auto simp: length_Suc_conv numeral_2_eq_2)
    then show ?thesis
      by (auto simp: numeral_2_eq_2 Let_def CheckResSpecifications_def less_Suc_eq split: prod.splits)
  qed
  show ?thesis
    using * [OF assms(1,2)] * [OF assms(3,4)] assms(5) by simp
qed


lemma Init_success:
  assumes "\<not> initFlag s" and "length (dieEnableFlags s) = 2" "length (resSpecs s) = 2"
    and "CcuResSpecifications_Init drv s = (HCCL_SUCCESS, s')"
  defines "dev \<equiv> userDevId s"
  shows "s' = \<lparr>initFlag = True, userDevId = dev, devPhyId = snd (drvPhyId drv dev),
      serveMode = snd (CheckServeMode drv dev (serveMode s)), ccuVersion = CheckCcuVersion drv dev,
      dieEnableFlags = [CheckDieEnable drv dev 0, CheckDieEnable drv dev 1],
      resSpecs = [die_spec drv dev (CheckCcuVersion drv dev) 0, die_spec drv dev (CheckCcuVersion drv dev) 1]\<rparr>"
    and "CheckCcuVersion drv dev \<in> {CCU_V1, CCU_V2}"
proof -
  let ?t = "s\<lparr>devPhyId := snd (drvPhyId drv dev), serveMode := snd (CheckServeMode drv dev (serveMode s)),
    ccuVersion := CheckCcuVersion drv dev\<rparr>"
  obtain s'' where dies: "Init_dies drv 2 0 ?t = (HCCL_SUCCESS, s'')" and s': "s' = s''\<lparr>initFlag := True\<rparr>"
    and version: "CheckCcuVersion drv dev \<noteq> CCU_INVALID"
    using assms(1,4)
    by (auto simp: CcuResSpecifications_Init_def dev_def CCU_MAX_IODIE_NUM_def Let_def
        split: prod.splits if_splits)
  show "s' = \<lparr>initFlag = True, userDevId = dev, devPhyId = snd (drvPhyId drv dev),
      serveMode = snd (CheckServeMode drv dev (serveMode s)), ccuVersion = CheckCcuVersion drv dev,
      dieEnableFlags = [CheckDieEnable drv dev 0, CheckDieEnable drv dev 1],
      resSpecs = [die_spec drv dev (CheckCcuVersion drv dev) 0, die_spec drv dev (CheckCcuVersion drv dev) 1]\<rparr>"
    using Init_dies_two [OF _ _ dies] assms(2,3) by (simp add: s' dev_def)
  show "CheckCcuVersion drv dev \<in> {CCU_V1, CCU_V2}"
    using version by (auto simp: CheckCcuVersion_def split: prod.splits if_splits)
qed

lemma Init_success_cong:
  assumes "\<not> initFlag s" "length (dieEnableFlags s) = 2" "length (resSpecs s) = 2"
    and "\<not> initFlag t" "length (dieEnableFlags t) = 2" "length (resSpecs t) = 2"
    and "userDevId s = userDevId t" and "serveMode s = serveMode t"
    and "fst (CcuResSpecifications_Init drv s) = HCCL_SUCCESS"
  shows "fst (CcuResSpecifications_Init drv t) = HCCL_SUCCESS"
proof -
  let ?f = "\<lambda>u phy mode. u\<lparr>devPhyId := phy, serveMode := mode, ccuVersion := CheckCcuVersion drv (userDevId t)\<rparr>"
  have dies: "fst (Init_dies drv 2 0 (?f s phy mode)) = HCCL_SUCCESS
      \<longleftrightarrow> fst (Init_dies drv 2 0 (?f t phy mode)) = HCCL_SUCCESS" for phy mode
    using assms(2,3,5-7) by (intro Init_dies_success_cong) simp_all
  have "e = HCCL_SUCCESS" if "Init_dies drv 2 0 (?f s phy mode) = (HCCL_SUCCESS, s')"
    "Init_dies drv 2 0 (?f t phy mode) = (e, t')" for phy mode s' e t'
    using dies [of mode phy] that by simp
  then show ?thesis
    using assms(1,4,7,8,9)
    by (auto simp: CcuResSpecifications_Init_def CCU_MAX_IODIE_NUM_def Let_def split: prod.splits if_splits)
qed

text \<open>When initialisation of a new instance succeeds, the device is of version 1 or
  2, each die is enabled exactly when the driver said so, its specification is the parsed registers or
  the default, and initialising again changes nothing. After \<open>Deinit\<close> every getter fails, and a new
  initialisation with the same driver answers restores the same state.\<close>

theorem init_reads_device:
  assumes "CcuResSpecifications_Init drv (CcuResSpecifications_new dev) = (HCCL_SUCCESS, s)"
  shows "ccuVersion s \<in> {CCU_V1, CCU_V2}
    \<and> (\<forall>d<2. dieEnableFlags s ! d = CheckDieEnable drv dev d \<and> resSpecs s ! d =
        (if CheckDieEnable drv dev d then ParseOutBuffToResSpecInfo (ccuVersion s) (snd (drvBasicInfo drv dev d))
         else CcuResSpecInfo_default))
    \<and> CcuResSpecifications_Init drv s = (HCCL_SUCCESS, s)
    \<and> GetXnNum (snd (CcuResSpecifications_Deinit s)) d v = (HCCL_E_PARA, v)
    \<and> CcuResSpecifications_Init drv (snd (CcuResSpecifications_Deinit s)) = (HCCL_SUCCESS, s)"
proof -
  let ?new = "CcuResSpecifications_new dev" and ?de = "snd (CcuResSpecifications_Deinit s)"
  have new: "\<not> initFlag ?new" "length (dieEnableFlags ?new) = 2" "length (resSpecs ?new) = 2"
      "userDevId ?new = dev" "serveMode ?new = ARMX86"
    by (simp_all add: CcuResSpecifications_new_def CCU_MAX_IODIE_NUM_def)
  note s = Init_success [OF new(1-3) assms, unfolded new(4,5)]
  have de: "\<not> initFlag ?de" "length (dieEnableFlags ?de) = 2" "length (resSpecs ?de) = 2"
      "userDevId ?de = dev" "serveMode ?de = ARMX86"
    by (simp_all add: CcuResSpecifications_Deinit_def s(1))
  have "fst (CcuResSpecifications_Init drv ?de) = HCCL_SUCCESS"
    using Init_success_cong [OF new(1-3) de(1-3)] new(4,5) de(4,5) assms by simp
  then obtain s' where s': "CcuResSpecifications_Init drv ?de = (HCCL_SUCCESS, s')"
    by (metis prod.collapse)
  have "s' = s"
    using Init_success(1) [OF de(1-3) s', unfolded de(4,5)] s(1) by simp
  then have again: "CcuResSpecifications_Init drv ?de = (HCCL_SUCCESS, s)"
    using s' by simp
  have "GetXnNum ?de d v = (HCCL_E_PARA, v)"
    by (auto simp: GetXnNum_def spec_field_eq CcuResSpecifications_Deinit_def s(1) nth_Cons' split: if_splits)
  then show ?thesis
    using again s(2) by (auto simp: s(1) CcuResSpecifications_Init_def die_spec_def nth_Cons' less_2_cases_iff)
qed


subsection \<open>Witnesses\<close>

text \<open>A version 2 device with both dies working.\<close>

definition driver2 :: CcuDriver where
  "driver2 =
    \<lparr>drvPhyId = \<lambda>_. (HCCL_SUCCESS, 3), drvMainboard = \<lambda>_. (True, 0x20), drvVersion = \<lambda>_. (HCCL_SUCCESS, 1),
     drvDieWorking = \<lambda>_ _. (HCCL_SUCCESS, 1),
     drvBasicInfo = \<lambda>_ _. (HCCL_SUCCESS,
       \<lparr>baseMsId = 1, baseMissionKey = 7, baseResourceAddr = 0x40000000,
        caps = \<lparr>cap0 = 0x03F0FFFF, cap1 = 0x7FFF0000, cap2 = 0x0FFF03FF, cap3 = 0x007F00FF, cap4 = 0x0F\<rparr>\<rparr>)\<rparr>"

lemma driver2_enabled: "CheckDieEnable driver2 dev d" "CheckCcuVersion driver2 dev = CCU_V2"
  by (simp_all add: CheckDieEnable_def CheckCcuVersion_def driver2_def CCU_ENABLE_FLAG_def)

lemma driver2_init: "fst (CcuResSpecifications_Init driver2 (CcuResSpecifications_new 0)) = HCCL_SUCCESS"
proof -
  have "CheckResSpecifications driver2 dev d version info =
      (HCCL_SUCCESS, ParseOutBuffToResSpecInfo version (snd (drvBasicInfo driver2 dev d)))" for dev d version info
    by (simp add: CheckResSpecifications_def driver2_def)
  moreover have "drvPhyId driver2 dev = (HCCL_SUCCESS, 3)" "fst (CheckServeMode driver2 dev mode) = HCCL_SUCCESS" for dev mode
    by (simp_all add: CheckServeMode_def CcuGetMainboardId_def driver2_def)
  ultimately show ?thesis
    by (simp add: CcuResSpecifications_Init_def CcuResSpecifications_new_def driver2_enabled CCU_MAX_IODIE_NUM_def
        numeral_2_eq_2 Let_def case_prod_beta)
qed

theorem init_reads_device_witness:
  "\<exists>s. CcuResSpecifications_Init driver2 (CcuResSpecifications_new 0) = (HCCL_SUCCESS, s)
    \<and> ccuVersion s \<in> {CCU_V1, CCU_V2} \<and> dieEnableFlags s ! 1
    \<and> CcuResSpecifications_Init driver2 (snd (CcuResSpecifications_Deinit s)) = (HCCL_SUCCESS, s)"
proof -
  obtain s where s: "CcuResSpecifications_Init driver2 (CcuResSpecifications_new 0) = (HCCL_SUCCESS, s)"
    using driver2_init by (metis prod.collapse)
  show ?thesis
    using init_reads_device [OF s] s by (simp add: driver2_enabled)
qed

theorem register_addresses_witness:
  "\<exists>x y. GetXnOffsetCcumAddrById
      ((CcuResSpecifications_new 0)\<lparr>ccuVersion := CCU_V2, dieEnableFlags := [True, False]\<rparr>) 0 5 0 = (HCCL_SUCCESS, x)
    \<and> GetCkeOffsetCcumAddrById
      ((CcuResSpecifications_new 0)\<lparr>ccuVersion := CCU_V2, dieEnableFlags := [True, False]\<rparr>) 0 9 0 = (HCCL_SUCCESS, y)
    \<and> unat x + 8 \<le> unat y"
  using register_addresses [of 0
      "(CcuResSpecifications_new 0)\<lparr>ccuVersion := CCU_V2, dieEnableFlags := [True, False]\<rparr>" 5 9 0 0]
  by (auto simp: xn_count_def)

end
