(* ===== verification/Res_Allocator.thy ===== *)
theory Res_Allocator
  imports Id_Pool Res_Specs
begin

text \<open>
  The allocator of all resource types of a die (class \<^verbatim>\<open>CcuResAllocator\<close> of
  \<^verbatim>\<open>ccu_device/ccu_comp/ccu_res_allocator.cc\<close>): one id allocator per type, sized from the specification, and
  the counting XN registers, whose ids are shifted to follow the general XN registers. Creating an id
  allocator is taken to succeed (the code returns an error when memory is exhausted).
\<close>

subsection \<open>State and operations\<close>

datatype ResType =
    ResType_LOOP | ResType_MS | ResType_CKE | ResType_XN | ResType_COUNT_XN | ResType_GSA | ResType_INS
  | ResType_MISSION | ResType_CASC_CNT | ResType_COUNT | ResType_INVALID

primrec resType_u8 :: "ResType \<Rightarrow> nat" where
  "resType_u8 ResType_LOOP = 0"
| "resType_u8 ResType_MS = 1"
| "resType_u8 ResType_CKE = 2"
| "resType_u8 ResType_XN = 3"
| "resType_u8 ResType_COUNT_XN = 4"
| "resType_u8 ResType_GSA = 5"
| "resType_u8 ResType_INS = 6"
| "resType_u8 ResType_MISSION = 7"
| "resType_u8 ResType_CASC_CNT = 8"
| "resType_u8 ResType_COUNT = 9"
| "resType_u8 ResType_INVALID = 10"

definition GET_RES_SPEC_FUNC_ARRAY ::
  "(ResType \<times> (CcuResSpecifications \<Rightarrow> nat \<Rightarrow> u32 \<Rightarrow> HcclResult \<times> u32)) list" where
  "GET_RES_SPEC_FUNC_ARRAY =
    [(ResType_LOOP, GetLoopEngineNum), (ResType_MS, GetMsNum), (ResType_CKE, GetCkeNum), (ResType_XN, GetXnNum),
     (ResType_COUNT_XN, GetCountXnNum), (ResType_GSA, GetGsaNum), (ResType_INS, GetInstructionNum),
     (ResType_MISSION, GetMissionNum)]"

record CcuResAllocator =
  allocDieId :: nat
  xnSpecNum :: nat
  countXnSpecNum :: nat
  idAllocatorMap :: "nat \<rightharpoonup> CcuResIdAllocator"

definition CcuResAllocator_new :: "nat \<Rightarrow> CcuResAllocator" where
  "CcuResAllocator_new die = \<lparr>allocDieId = die, xnSpecNum = 0, countXnSpecNum = 0, idAllocatorMap = Map.empty\<rparr>"

text \<open>The loop of \<open>Init\<close>. The variable \<open>cap\<close> is declared before the loop, so a getter that fails leaves
  the capacity of the type before.\<close>

fun CcuResAllocator_Init_loop ::
  "CcuResSpecifications \<Rightarrow> (ResType \<times> (CcuResSpecifications \<Rightarrow> nat \<Rightarrow> u32 \<Rightarrow> HcclResult \<times> u32)) list
    \<Rightarrow> u32 \<Rightarrow> CcuResAllocator \<Rightarrow> CcuResAllocator" where
  "CcuResAllocator_Init_loop specs [] cap s = s"
| "CcuResAllocator_Init_loop specs ((resType, getFunc) # rest) cap s =
    (let cap = snd (getFunc specs (allocDieId s) cap)
     in CcuResAllocator_Init_loop specs rest cap
          (s\<lparr>idAllocatorMap := (idAllocatorMap s)(resType_u8 resType \<mapsto> CcuResIdAllocator_new (unat cap))\<rparr>))"

definition CcuResAllocator_Init :: "CcuResSpecifications \<Rightarrow> CcuResAllocator \<Rightarrow> HcclResult \<times> CcuResAllocator" where
  "CcuResAllocator_Init specs s =
    (let s = CcuResAllocator_Init_loop specs GET_RES_SPEC_FUNC_ARRAY 0 s;
         s = s\<lparr>xnSpecNum := unat (snd (GetXnNum specs (allocDieId s) (of_nat (xnSpecNum s))))\<rparr>;
         s = s\<lparr>countXnSpecNum := unat (snd (GetCountXnNum specs (allocDieId s) (of_nat (countXnSpecNum s))))\<rparr>
     in (HCCL_SUCCESS, s))"

definition CcuResAllocator_Alloc ::
  "ResType \<Rightarrow> nat \<Rightarrow> bool \<Rightarrow> CcuResAllocator \<Rightarrow> HcclResult \<times> ResInfo list \<times> CcuResAllocator" where
  "CcuResAllocator_Alloc resType n consecutive s =
    (case idAllocatorMap s (resType_u8 resType) of
       None \<Rightarrow> (HCCL_E_PARA, [], s)
     | Some a \<Rightarrow>
         (case Alloc n consecutive a of (ret, ns, a') \<Rightarrow>
            (ret, ns, s\<lparr>idAllocatorMap := (idAllocatorMap s)(resType_u8 resType \<mapsto> a')\<rparr>)))"

definition CcuResAllocator_Release ::
  "ResType \<Rightarrow> nat \<Rightarrow> nat \<Rightarrow> CcuResAllocator \<Rightarrow> HcclResult \<times> CcuResAllocator" where
  "CcuResAllocator_Release resType start n s =
    (case idAllocatorMap s (resType_u8 resType) of
       None \<Rightarrow> (HCCL_E_PARA, s)
     | Some a \<Rightarrow>
         (case Release start n a of (ret, a') \<Rightarrow>
            (ret, s\<lparr>idAllocatorMap := (idAllocatorMap s)(resType_u8 resType \<mapsto> a')\<rparr>)))"

definition CcuResAllocator_GetConsecutiveRemainSize :: "ResType \<Rightarrow> CcuResAllocator \<Rightarrow> nat" where
  "CcuResAllocator_GetConsecutiveRemainSize resType s =
    (case idAllocatorMap s (resType_u8 resType) of None \<Rightarrow> 0 | Some a \<Rightarrow> GetConsecutiveRemainSize a)"

text \<open>The caller's \<^verbatim>\<open>resInfo\<close> is passed in and returned, since a failing call does not write it.\<close>

definition AllocCountXn :: "nat \<Rightarrow> ResInfo \<Rightarrow> CcuResAllocator \<Rightarrow> HcclResult \<times> ResInfo \<times> CcuResAllocator" where
  "AllocCountXn n resInfo s =
    (case idAllocatorMap s (resType_u8 ResType_COUNT_XN) of
       None \<Rightarrow> (HCCL_E_PARA, resInfo, s)
     | Some a \<Rightarrow>
         (case Alloc n True a of (ret, ns, a') \<Rightarrow>
            let s = s\<lparr>idAllocatorMap := (idAllocatorMap s)(resType_u8 ResType_COUNT_XN \<mapsto> a')\<rparr>
            in if ret \<noteq> HCCL_SUCCESS then (ret, resInfo, s)
               else (HCCL_SUCCESS, mk_res (u32_add (startId (ns ! 0)) (xnSpecNum s)) (num (ns ! 0)), s)))"

definition ReleaseCountXn :: "nat \<Rightarrow> nat \<Rightarrow> CcuResAllocator \<Rightarrow> HcclResult \<times> CcuResAllocator" where
  "ReleaseCountXn start n s =
    (case idAllocatorMap s (resType_u8 ResType_COUNT_XN) of
       None \<Rightarrow> (HCCL_E_PARA, s)
     | Some a \<Rightarrow>
         (case Release (u32_sub start (xnSpecNum s)) n a of (ret, a') \<Rightarrow>
            (ret, s\<lparr>idAllocatorMap := (idAllocatorMap s)(resType_u8 ResType_COUNT_XN \<mapsto> a')\<rparr>)))"

subsection \<open>The pools of a die\<close>

definition pool_of :: "ResType \<Rightarrow> CcuResAllocator \<Rightarrow> CcuResIdAllocator" where
  "pool_of t s = (case idAllocatorMap s (resType_u8 t) of None \<Rightarrow> CcuResIdAllocator_new 0 | Some a \<Rightarrow> a)"

definition used_ids :: "ResType \<Rightarrow> CcuResAllocator \<Rightarrow> nat set" where
  "used_ids t s = ids (resInfos (pool_of t s))"

definition res_inv :: "CcuResAllocator \<Rightarrow> bool" where
  "res_inv s \<longleftrightarrow> (\<forall>a\<in>ran (idAllocatorMap s). alloc_inv a)
    \<and> capacity (pool_of ResType_XN s) = xnSpecNum s
    \<and> xnSpecNum s + capacity (pool_of ResType_COUNT_XN s) < 2 ^ 32"

lemma resType_u8_inj [simp]: "resType_u8 t = resType_u8 u \<longleftrightarrow> t = u"
  by (cases t; cases u) simp_all

lemma pool_inv: "res_inv s \<Longrightarrow> alloc_inv (pool_of t s)"
  using alloc_inv_new [of 0] by (auto simp: res_inv_def pool_of_def ran_def split: option.splits)

text \<open>Replacing one pool by another state of the same capacity.\<close>

definition put_pool :: "ResType \<Rightarrow> CcuResIdAllocator \<Rightarrow> CcuResAllocator \<Rightarrow> CcuResAllocator" where
  "put_pool t a s = s\<lparr>idAllocatorMap := (idAllocatorMap s)(resType_u8 t \<mapsto> a)\<rparr>"

lemma put_pool_sel [simp]:
  "pool_of u (put_pool t a s) = (if u = t then a else pool_of u s)" "xnSpecNum (put_pool t a s) = xnSpecNum s"
  "allocDieId (put_pool t a s) = allocDieId s" "countXnSpecNum (put_pool t a s) = countXnSpecNum s"
  by (auto simp: put_pool_def pool_of_def)

lemma put_pool_inv:
  assumes "res_inv s" and "alloc_inv a" and "capacity a = capacity (pool_of t s)"
  shows "res_inv (put_pool t a s)"
proof -
  have "\<forall>b\<in>ran (idAllocatorMap (put_pool t a s)). alloc_inv b"
    using assms(1,2) by (auto simp: put_pool_def res_inv_def ran_def)
  then show ?thesis
    using assms(1,3) by (auto simp: res_inv_def)
qed

lemma put_pool_same: "idAllocatorMap s (resType_u8 t) = Some a \<Longrightarrow> put_pool t a s = s"
  by (simp add: put_pool_def fun_upd_idem)

subsection \<open>Every type is a pool\<close>

lemma typed_alloc_success:
  assumes "res_inv s" and "CcuResAllocator_Alloc t n c s = (HCCL_SUCCESS, ns, s')"
  obtains a' where "Alloc n c (pool_of t s) = (HCCL_SUCCESS, ns, a')" and "s' = put_pool t a' s" and "res_inv s'"
proof -
  obtain a' where a': "Alloc n c (pool_of t s) = (HCCL_SUCCESS, ns, a')" "s' = put_pool t a' s"
    using assms(2)
    by (auto simp: CcuResAllocator_Alloc_def pool_of_def put_pool_def split: option.splits prod.splits)
  moreover have "res_inv s'"
    using idp.alloc_grants [OF pool_inv [OF assms(1)] a'(1)] by (simp add: a'(2) put_pool_inv [OF assms(1)])
  ultimately show thesis
    by (rule that)
qed

lemma typed_alloc_error:
  assumes "res_inv s" and "CcuResAllocator_Alloc t n c s = (e, ns, s')" and "e \<noteq> HCCL_SUCCESS"
  shows "s' = s"
proof (cases "idAllocatorMap s (resType_u8 t)")
  case None
  then show ?thesis
    using assms(2) by (simp add: CcuResAllocator_Alloc_def)
next
  case (Some a)
  have "alloc_inv a"
    using assms(1) Some by (auto simp: res_inv_def ran_def)
  moreover obtain a' where "Alloc n c a = (e, ns, a')" "s' = put_pool t a' s"
    using assms(2) Some by (auto simp: CcuResAllocator_Alloc_def put_pool_def split: prod.splits)
  ultimately show ?thesis
    using idp.alloc_refuses [of a n c e ns a'] assms(3) put_pool_same [OF Some] by simp
qed

lemma typed_release_success:
  assumes "res_inv s" and "CcuResAllocator_Release t st n s = (HCCL_SUCCESS, s')"
  obtains a' where "Release st n (pool_of t s) = (HCCL_SUCCESS, a')" and "s' = put_pool t a' s" and "res_inv s'"
proof -
  obtain a' where a': "Release st n (pool_of t s) = (HCCL_SUCCESS, a')" "s' = put_pool t a' s"
    using assms(2)
    by (auto simp: CcuResAllocator_Release_def pool_of_def put_pool_def split: option.splits prod.splits)
  moreover have "res_inv s'"
    using idp.release_frees [OF pool_inv [OF assms(1)] a'(1)] by (simp add: a'(2) put_pool_inv [OF assms(1)])
  ultimately show thesis
    by (rule that)
qed

lemma typed_release_error:
  assumes "res_inv s" and "CcuResAllocator_Release t st n s = (e, s')" and "e \<noteq> HCCL_SUCCESS"
  shows "s' = s"
proof (cases "idAllocatorMap s (resType_u8 t)")
  case None
  then show ?thesis
    using assms(2) by (simp add: CcuResAllocator_Release_def)
next
  case (Some a)
  have "alloc_inv a"
    using assms(1) Some by (auto simp: res_inv_def ran_def)
  moreover obtain a' where "Release st n a = (e, a')" "s' = put_pool t a' s"
    using assms(2) Some by (auto simp: CcuResAllocator_Release_def put_pool_def split: prod.splits)
  ultimately show ?thesis
    using idp.release_refuses [of a st n e a'] assms(3) put_pool_same [OF Some] by simp
qed

lemma typed_release_eq:
  assumes "used_ids t s \<noteq> {}"
  shows "CcuResAllocator_Release t st n s =
    (case Release st n (pool_of t s) of (ret, a') \<Rightarrow> (ret, put_pool t a' s))"
  using assms
  by (auto simp: CcuResAllocator_Release_def used_ids_def pool_of_def put_pool_def CcuResIdAllocator_new_def
      split: option.splits)

interpretation typed: id_pool res_inv "used_ids t" "\<lambda>s. 0" "\<lambda>s. capacity (pool_of t s)"
    "CcuResAllocator_Alloc t" "CcuResAllocator_Release t" for t
proof (unfold_locales, goal_cases)
  case (1 s)
  then show ?case
    using idp.used_range [OF pool_inv [of s t]] by (simp add: used_ids_def)
next
  case (2 s n c ns s')
  obtain a' where a': "Alloc n c (pool_of t s) = (HCCL_SUCCESS, ns, a')" "s' = put_pool t a' s" "res_inv s'"
    using typed_alloc_success [OF 2] .
  show ?case
    using idp.alloc_grants [OF pool_inv [OF 2(1)] a'(1)] a'(3) by (simp add: a'(2) used_ids_def)
next
  case (3 s n c e ns s')
  then show ?case
    by (rule typed_alloc_error)
next
  case (4 s st n s')
  obtain a' where a': "Release st n (pool_of t s) = (HCCL_SUCCESS, a')" "s' = put_pool t a' s" "res_inv s'"
    using typed_release_success [OF 4] .
  show ?case
    using idp.release_frees [OF pool_inv [OF 4(1)] a'(1)] a'(3) by (simp add: a'(2) used_ids_def)
next
  case (5 s st n e s')
  then show ?case
    by (rule typed_release_error)
next
  case (6 s n st)
  have "used_ids t s \<noteq> {}"
    using 6(2,3) by auto
  then show ?case
    using idp.release_total [OF pool_inv [OF 6(1)] 6(2), of st t] 6(3)
    by (simp add: typed_release_eq used_ids_def case_prod_beta)
qed

subsection \<open>The counting XN registers\<close>

text \<open>The ids of the counting registers in the numbering of all XN registers, the ledger of the interpretation
  \<open>count\<close> below, which shows that it grows and shrinks by the blocks that the calls return and take back.\<close>

definition count_ids :: "CcuResAllocator \<Rightarrow> nat set" where
  "count_ids s = (\<lambda>x. x + xnSpecNum s) ` used_ids ResType_COUNT_XN s"

definition AllocCountXn_list ::
  "nat \<Rightarrow> bool \<Rightarrow> CcuResAllocator \<Rightarrow> HcclResult \<times> ResInfo list \<times> CcuResAllocator" where
  "AllocCountXn_list n c s = (case AllocCountXn n (mk_res 0 0) s of (ret, r, s') \<Rightarrow> (ret, [r], s'))"

lemma AllocCountXn_eq:
  "AllocCountXn n r s = (case CcuResAllocator_Alloc ResType_COUNT_XN n True s of (ret, ns, s') \<Rightarrow>
    if ret \<noteq> HCCL_SUCCESS then (ret, r, s')
    else (HCCL_SUCCESS, mk_res (u32_add (startId (ns ! 0)) (xnSpecNum s)) (num (ns ! 0)), s'))"
  by (auto simp: AllocCountXn_def CcuResAllocator_Alloc_def Let_def split: option.splits prod.splits)

lemma ReleaseCountXn_eq:
  "ReleaseCountXn start n s = CcuResAllocator_Release ResType_COUNT_XN (u32_sub start (xnSpecNum s)) n s"
  by (simp add: ReleaseCountXn_def CcuResAllocator_Release_def)

lemma AllocCountXn_success:
  assumes inv: "res_inv s" and ok: "AllocCountXn n r0 s = (HCCL_SUCCESS, r, s')"
  obtains q where "CcuResAllocator_Alloc ResType_COUNT_XN n True s = (HCCL_SUCCESS, [q], s')"
    and "startId r = startId q + xnSpecNum s" and "num r = num q" and "0 < num q"
    and "block_end r \<le> xnSpecNum s + capacity (pool_of ResType_COUNT_XN s)"
proof -
  let ?t = ResType_COUNT_XN
  obtain ns where ns: "CcuResAllocator_Alloc ?t n True s = (HCCL_SUCCESS, ns, s')"
    and r: "r = mk_res (u32_add (startId (ns ! 0)) (xnSpecNum s)) (num (ns ! 0))"
    using ok by (auto simp: AllocCountXn_eq split: prod.splits if_splits)
  obtain a' where a': "Alloc n True (pool_of ?t s) = (HCCL_SUCCESS, ns, a')"
    using typed_alloc_success [OF inv ns] .
  have poss: "alloc_possible n True (pool_of ?t s)"
    by (rule ccontr) (use Alloc_fail [OF pool_inv [OF inv], of n True ?t] a' in \<open>auto split: if_splits\<close>)
  have "length ns = 1 \<and> (\<forall>r\<in>set ns. 0 < num r \<and> block_end r \<le> capacity (pool_of ?t s))"
    by (rule Alloc_ok [OF pool_inv [OF inv] poss]) (use a' in simp)
  then obtain q where q: "ns = [q]" "0 < num q" "block_end q \<le> capacity (pool_of ?t s)"
    by (auto simp: length_Suc_conv)
  have "xnSpecNum s + capacity (pool_of ?t s) < 2 ^ 32"
    using inv by (simp add: res_inv_def)
  then have "u32_add (startId q) (xnSpecNum s) = startId q + xnSpecNum s"
    using q(2,3) by (intro u32_add_exact) simp
  then show thesis
    using that [of q] ns r q by simp
qed

lemma shifted_block: "startId r = startId q + k \<Longrightarrow> num r = num q \<Longrightarrow> block_ids r = (\<lambda>x. x + k) ` block_ids q"
  by (simp add: block_ids_def image_add_atLeastLessThan' add.commute add.left_commute)

text \<open>A release of an id below the counting registers wraps around and is refused.\<close>

lemma ReleaseCountXn_shift:
  assumes inv: "res_inv s"
  shows "xnSpecNum s \<le> st \<Longrightarrow> st < 2 ^ 32 \<Longrightarrow> u32_sub st (xnSpecNum s) = st - xnSpecNum s"
    and "st < xnSpecNum s \<Longrightarrow> u32_sub st (xnSpecNum s) \<ge> capacity (pool_of ResType_COUNT_XN s)"
proof -
  show "xnSpecNum s \<le> st \<Longrightarrow> st < 2 ^ 32 \<Longrightarrow> u32_sub st (xnSpecNum s) = st - xnSpecNum s"
    by (rule u32_sub_exact)
  have "xnSpecNum s + capacity (pool_of ResType_COUNT_XN s) < 2 ^ 32"
    using inv by (simp add: res_inv_def)
  then show "st < xnSpecNum s \<Longrightarrow> u32_sub st (xnSpecNum s) \<ge> capacity (pool_of ResType_COUNT_XN s)"
    by (simp add: u32_sub_def)
qed

text \<open>The two calls as operations of a pool; a start id is a \<^verbatim>\<open>uint32_t\<close>.\<close>

definition ReleaseCountXn_u32 :: "nat \<Rightarrow> nat \<Rightarrow> CcuResAllocator \<Rightarrow> HcclResult \<times> CcuResAllocator" where
  "ReleaseCountXn_u32 st n s = (if st < 2 ^ 32 then ReleaseCountXn st n s else (HCCL_E_PARA, s))"

lemma count_release_success:
  assumes inv: "res_inv s" and ok: "ReleaseCountXn_u32 st n s = (HCCL_SUCCESS, s')"
  obtains "xnSpecNum s \<le> st"
    and "CcuResAllocator_Release ResType_COUNT_XN (st - xnSpecNum s) n s = (HCCL_SUCCESS, s')"
proof -
  let ?t = ResType_COUNT_XN
  have st: "st < 2 ^ 32" and rel: "CcuResAllocator_Release ?t (u32_sub st (xnSpecNum s)) n s = (HCCL_SUCCESS, s')"
    using ok by (auto simp: ReleaseCountXn_u32_def ReleaseCountXn_eq split: if_splits)
  obtain a' where a': "Release (u32_sub st (xnSpecNum s)) n (pool_of ?t s) = (HCCL_SUCCESS, a')"
    using typed_release_success [OF inv rel] .
  have "0 < n \<and> {u32_sub st (xnSpecNum s) ..< u32_sub st (xnSpecNum s) + n} \<subseteq> ids (resInfos (pool_of ?t s))"
    by (rule ccontr) (use Release_fail [OF pool_inv [OF inv], of n _ ?t] a' in auto)
  then have "u32_sub st (xnSpecNum s) \<in> ids (resInfos (pool_of ?t s))"
    by auto
  then have "u32_sub st (xnSpecNum s) < capacity (pool_of ?t s)"
    using pool_inv [OF inv, of ?t] by (auto simp: alloc_inv_def)
  then have "xnSpecNum s \<le> st"
    using ReleaseCountXn_shift(2) [OF inv, of st] by linarith
  then show thesis
    using that rel ReleaseCountXn_shift(1) [OF inv _ st] by simp
qed

lemma image_shift_diff: "(\<lambda>x. x + k) ` (A - {a ..< a + n}) = (\<lambda>x. x + k) ` A - {a + k ..< a + k + (n :: nat)}"
proof -
  have "(\<lambda>x. x + k) ` (A - {a ..< a + n}) = (\<lambda>x. x + k) ` A - (\<lambda>x. x + k) ` {a ..< a + n}"
    by (rule image_set_diff) (simp add: inj_def)
  then show ?thesis
    by (simp add: image_add_atLeastLessThan' add.commute add.left_commute)
qed

interpretation count: id_pool res_inv count_ids xnSpecNum "\<lambda>s. capacity (pool_of ResType_COUNT_XN s)"
    AllocCountXn_list ReleaseCountXn_u32
proof (unfold_locales, goal_cases)
  case (1 s)
  then show ?case
    using typed.used_range [of s ResType_COUNT_XN] by (auto simp: count_ids_def)
next
  case (2 s n c ns s')
  then obtain r where r: "ns = [r]" "AllocCountXn n (mk_res 0 0) s = (HCCL_SUCCESS, r, s')"
    by (auto simp: AllocCountXn_list_def split: prod.splits)
  obtain q where q: "CcuResAllocator_Alloc ResType_COUNT_XN n True s = (HCCL_SUCCESS, [q], s')"
    "startId r = startId q + xnSpecNum s" "num r = num q" "0 < num q"
    using AllocCountXn_success [OF 2(1) r(2)] .
  note g = typed.alloc_grants [OF 2(1) q(1)]
  have xn: "xnSpecNum s' = xnSpecNum s"
    by (rule typed_alloc_success [OF 2(1) q(1)]) simp
  have "ids ns = (\<lambda>x. x + xnSpecNum s) ` ids [q]"
    using shifted_block [OF q(2,3)] by (simp add: r(1))
  moreover have "(\<lambda>x. x + xnSpecNum s) ` ids [q] \<inter> (\<lambda>x. x + xnSpecNum s) ` used_ids ResType_COUNT_XN s = {}"
    using g by (simp add: image_Int [symmetric] inj_def del: ids_simps)
  ultimately show ?case
    using g xn q(3,4) by (simp add: r(1) count_ids_def image_Un Int_commute)
next
  case (3 s n c e ns s')
  then obtain ns' where "CcuResAllocator_Alloc ResType_COUNT_XN n True s = (e, ns', s')"
    by (auto simp: AllocCountXn_list_def AllocCountXn_eq split: prod.splits if_splits)
  then show ?case
    using typed_alloc_error 3 by blast
next
  case (4 s st n s')
  have st: "xnSpecNum s \<le> st" and rel: "CcuResAllocator_Release ResType_COUNT_XN (st - xnSpecNum s) n s = (HCCL_SUCCESS, s')"
    by (rule count_release_success [OF 4], assumption)+
  have xn: "xnSpecNum s' = xnSpecNum s"
    by (rule typed_release_success [OF 4(1) rel]) simp
  show ?case
    using typed.release_frees [OF 4(1) rel] xn st
      image_shift_diff [of "xnSpecNum s" "used_ids ResType_COUNT_XN s" "st - xnSpecNum s" n]
    by (simp add: count_ids_def)
next
  case (5 s st n e s')
  then show ?case
    using typed_release_error [OF 5(1)] by (auto simp: ReleaseCountXn_u32_def ReleaseCountXn_eq split: if_splits)
next
  case (6 s n st)
  have st: "st \<in> count_ids s"
    using 6(2,3) by auto
  then have range: "xnSpecNum s \<le> st" "st < 2 ^ 32"
    using typed.used_range [OF 6(1), of ResType_COUNT_XN] 6(1) by (auto simp: count_ids_def res_inv_def)
  have "{st - xnSpecNum s ..< st - xnSpecNum s + n} \<subseteq> used_ids ResType_COUNT_XN s"
  proof
    fix x assume x: "x \<in> {st - xnSpecNum s ..< st - xnSpecNum s + n}"
    then have "x + xnSpecNum s \<in> {st ..< st + n}"
      using range(1) by auto
    then have "x + xnSpecNum s \<in> count_ids s"
      using 6(3) by blast
    then show "x \<in> used_ids ResType_COUNT_XN s"
      by (auto simp: count_ids_def)
  qed
  then show ?case
    using typed.release_total [OF 6(1,2)] ReleaseCountXn_shift(1) [OF 6(1) range] range(2)
    by (simp add: ReleaseCountXn_u32_def ReleaseCountXn_eq)
qed

subsection \<open>Initialisation\<close>

lemma init_pools:
  fixes specs die
  defines "s \<equiv> snd (CcuResAllocator_Init specs (CcuResAllocator_new die))"
    and "field \<equiv> \<lambda>f. if die < 2 \<and> dieEnableFlags specs ! die then unat (f (resSpecs specs ! die)) else 0"
  shows "idAllocatorMap s = [0 \<mapsto> CcuResIdAllocator_new (field loopEngineNum), 1 \<mapsto> CcuResIdAllocator_new (field msNum),
      2 \<mapsto> CcuResIdAllocator_new (field ckeNum), 3 \<mapsto> CcuResIdAllocator_new (field xnNum),
      4 \<mapsto> CcuResIdAllocator_new (field countXnNum), 5 \<mapsto> CcuResIdAllocator_new (field gsaNum),
      6 \<mapsto> CcuResIdAllocator_new (field instructionNum), 7 \<mapsto> CcuResIdAllocator_new (field missionNum)]"
    and "xnSpecNum s = field xnNum" and "countXnSpecNum s = field countXnNum"
  by (auto simp: s_def field_def CcuResAllocator_Init_def CcuResAllocator_new_def GET_RES_SPEC_FUNC_ARRAY_def
      GetLoopEngineNum_def GetMsNum_def GetCkeNum_def GetXnNum_def GetCountXnNum_def GetGsaNum_def
      GetInstructionNum_def GetMissionNum_def spec_field_eq Let_def)

lemma capacity_new [simp]: "capacity (CcuResIdAllocator_new c) = c" "resInfos (CcuResIdAllocator_new c) = []"
  by (simp_all add: CcuResIdAllocator_new_def)

lemma unat_u32_less: "unat (x :: u32) < 4294967296"
  using unsigned_less [of x, where 'a = nat] by simp

lemma ran_updI: "\<forall>a\<in>ran m. P a \<Longrightarrow> P v \<Longrightarrow> \<forall>a\<in>ran (m(k \<mapsto> v)). P a"
  by (auto simp: ran_def)

lemma init_res_inv:
  assumes "die < 2 \<Longrightarrow> dieEnableFlags specs ! die \<Longrightarrow>
    unat (xnNum (resSpecs specs ! die)) + unat (countXnNum (resSpecs specs ! die)) < 2 ^ 32"
  shows "res_inv (snd (CcuResAllocator_Init specs (CcuResAllocator_new die)))"
proof -
  note m = init_pools [of specs die]
  have "\<forall>a\<in>ran (idAllocatorMap (snd (CcuResAllocator_Init specs (CcuResAllocator_new die)))). alloc_inv a"
    unfolding m(1) by (intro ran_updI alloc_inv_new) (simp_all add: unat_u32_less)
  then show ?thesis
    using assms by (auto simp: res_inv_def pool_of_def m)
qed

lemma parsed_xn_bound:
  "unat (xnNum (ParseOutBuffToResSpecInfo v b)) + unat (countXnNum (ParseOutBuffToResSpecInfo v b)) < 2 ^ 32"
proof (cases "v = CCU_V2")
  case True
  define x :: u32 where "x = xnNum (ParseOutBuffToResSpecInfo v b)"
  define y :: u32 where "y = countXnNum (ParseOutBuffToResSpecInfo v b)"
  have m: "unat (take_bit 16 w + 1 :: u32) \<le> 65536" for w
    using unat_field_plus_1 [of 16 w] by simp
  have "unat (u - 4096 :: u32) \<le> unat u" if "u > 4096" for u
    using that by (simp add: unat_sub word_less_nat_alt word_le_nat_alt)
  then have "unat x \<le> 65536 \<and> unat y \<le> 4096"
    using m [of "drop_bit 16 (cap1 (caps b))"] le_trans
    by (fastforce simp: x_def y_def True ParseOutBuffToResSpecInfo_def Let_def CcuResSpecInfo_default_def spec_consts)
  then show ?thesis
    by (simp add: x_def y_def)
next
  case False
  have "countXnNum (ParseOutBuffToResSpecInfo v b) = 0"
    using False by (cases v) (simp_all add: ParseOutBuffToResSpecInfo_def CcuResSpecInfo_default_def Let_def)
  then show ?thesis
    by (simp add: unat_u32_less)
qed

text \<open>The specification of a device after its initialisation, and the allocator of one of its dies.\<close>

definition die_allocator :: "CcuDriver \<Rightarrow> int \<Rightarrow> nat \<Rightarrow> CcuResAllocator" where
  "die_allocator drv dev die =
    snd (CcuResAllocator_Init (snd (CcuResSpecifications_Init drv (CcuResSpecifications_new dev))) (CcuResAllocator_new die))"

lemma die_allocator_inv:
  assumes "fst (CcuResSpecifications_Init drv (CcuResSpecifications_new dev)) = HCCL_SUCCESS"
  shows "res_inv (die_allocator drv dev die)"
proof -
  let ?new = "CcuResSpecifications_new dev"
  obtain s where s: "CcuResSpecifications_Init drv ?new = (HCCL_SUCCESS, s)"
    using assms by (metis prod.collapse)
  have new: "\<not> initFlag ?new" "length (dieEnableFlags ?new) = 2" "length (resSpecs ?new) = 2"
    by (simp_all add: CcuResSpecifications_new_def CCU_MAX_IODIE_NUM_def)
  note shape = Init_success(1) [OF new s]
  have "unat (xnNum (resSpecs s ! die)) + unat (countXnNum (resSpecs s ! die)) < 2 ^ 32" if "die < 2"
  proof -
    have "unat (xnNum (die_spec drv d v k)) + unat (countXnNum (die_spec drv d v k)) < 2 ^ 32" for d v k
      using parsed_xn_bound by (simp add: die_spec_def CcuResSpecInfo_default_def)
    then show ?thesis
      using that unfolding shape by (auto simp: nth_Cons' less_2_cases_iff)
  qed
  then show ?thesis
    unfolding die_allocator_def s by (simp add: init_res_inv)
qed

lemma die_allocator_unused: "used_ids t (die_allocator drv dev die) = {}"
  using init_pools(1) [of _ die]
  by (cases t) (auto simp: used_ids_def pool_of_def die_allocator_def)

subsection \<open>Sequences of calls on a die\<close>

datatype die_call =
    CallAlloc ResType nat bool
  | CallRelease ResType nat nat
  | CallAllocCountXn nat
  | CallReleaseCountXn nat nat

text \<open>The allocator of a die together with what its callers hold: the ids that successful calls returned, in the
  numbering they returned them in, and that were not given back since.\<close>

record die_ledger =
  ledgerDie :: CcuResAllocator
  heldIds :: "ResType \<Rightarrow> nat set"
  heldCountXn :: "nat set"

definition nothing_held :: "CcuResAllocator \<Rightarrow> die_ledger" where
  "nothing_held s = \<lparr>ledgerDie = s, heldIds = (\<lambda>_. {}), heldCountXn = {}\<rparr>"

fun die_exec :: "die_call \<Rightarrow> die_ledger \<Rightarrow> die_ledger" where
  "die_exec (CallAlloc t n c) l =
    (case CcuResAllocator_Alloc t n c (ledgerDie l) of (ret, ns, s) \<Rightarrow>
       if ret = HCCL_SUCCESS then l\<lparr>ledgerDie := s, heldIds := (heldIds l)(t := heldIds l t \<union> ids ns)\<rparr>
       else l\<lparr>ledgerDie := s\<rparr>)"
| "die_exec (CallRelease t st n) l =
    (case CcuResAllocator_Release t st n (ledgerDie l) of (ret, s) \<Rightarrow>
       if ret = HCCL_SUCCESS then l\<lparr>ledgerDie := s, heldIds := (heldIds l)(t := heldIds l t - {st ..< st + n})\<rparr>
       else l\<lparr>ledgerDie := s\<rparr>)"
| "die_exec (CallAllocCountXn n) l =
    (case AllocCountXn n (mk_res 0 0) (ledgerDie l) of (ret, r, s) \<Rightarrow>
       if ret = HCCL_SUCCESS then l\<lparr>ledgerDie := s, heldCountXn := heldCountXn l \<union> block_ids r\<rparr>
       else l\<lparr>ledgerDie := s\<rparr>)"
| "die_exec (CallReleaseCountXn st n) l =
    (case ReleaseCountXn_u32 st n (ledgerDie l) of (ret, s) \<Rightarrow>
       if ret = HCCL_SUCCESS then l\<lparr>ledgerDie := s, heldCountXn := heldCountXn l - {st ..< st + n}\<rparr>
       else l\<lparr>ledgerDie := s\<rparr>)"

text \<open>As in the component, the counting registers are asked for with the two counting calls only.\<close>

fun component_call :: "die_call \<Rightarrow> bool" where
  "component_call (CallAlloc t n c) \<longleftrightarrow> t \<noteq> ResType_COUNT_XN"
| "component_call (CallRelease t st n) \<longleftrightarrow> t \<noteq> ResType_COUNT_XN"
| "component_call _ \<longleftrightarrow> True"

definition same_specs :: "CcuResAllocator \<Rightarrow> CcuResAllocator \<Rightarrow> bool" where
  "same_specs s s' \<longleftrightarrow> res_inv s' \<and> xnSpecNum s' = xnSpecNum s
    \<and> (\<forall>u. capacity (pool_of u s') = capacity (pool_of u s))"

lemma typed_alloc_keeps:
  assumes "res_inv s"
  shows "same_specs s (snd (snd (CcuResAllocator_Alloc t n c s)))
    \<and> (\<forall>u. u \<noteq> t \<longrightarrow> used_ids u (snd (snd (CcuResAllocator_Alloc t n c s))) = used_ids u s)"
proof -
  obtain e ns s' where call: "CcuResAllocator_Alloc t n c s = (e, ns, s')"
    by (metis prod_cases3)
  show ?thesis
  proof (cases "e = HCCL_SUCCESS")
    case True
    have ok: "CcuResAllocator_Alloc t n c s = (HCCL_SUCCESS, ns, s')"
      using call True by simp
    have "\<exists>a'. s' = put_pool t a' s"
      by (rule typed_alloc_success [OF assms ok]) auto
    then show ?thesis
      using typed.alloc_grants [OF assms ok] call by (auto simp: same_specs_def used_ids_def)
  next
    case False
    then show ?thesis
      using typed_alloc_error [OF assms call] call assms by (simp add: same_specs_def)
  qed
qed

lemma typed_release_keeps:
  assumes "res_inv s"
  shows "same_specs s (snd (CcuResAllocator_Release t st n s))
    \<and> (\<forall>u. u \<noteq> t \<longrightarrow> used_ids u (snd (CcuResAllocator_Release t st n s)) = used_ids u s)"
proof -
  obtain e s' where call: "CcuResAllocator_Release t st n s = (e, s')"
    by fastforce
  show ?thesis
  proof (cases "e = HCCL_SUCCESS")
    case True
    have ok: "CcuResAllocator_Release t st n s = (HCCL_SUCCESS, s')"
      using call True by simp
    have "\<exists>a'. s' = put_pool t a' s"
      by (rule typed_release_success [OF assms ok]) auto
    then show ?thesis
      using typed.release_frees [OF assms ok] call by (auto simp: same_specs_def used_ids_def)
  next
    case False
    then show ?thesis
      using typed_release_error [OF assms call] call assms by (simp add: same_specs_def)
  qed
qed

lemma count_alloc_keeps:
  assumes "res_inv s"
  shows "same_specs s (snd (snd (AllocCountXn n r s)))
    \<and> (\<forall>u. u \<noteq> ResType_COUNT_XN \<longrightarrow> used_ids u (snd (snd (AllocCountXn n r s))) = used_ids u s)"
  using typed_alloc_keeps [OF assms, of ResType_COUNT_XN n True]
  by (simp add: AllocCountXn_eq case_prod_beta)

lemma count_release_keeps:
  assumes "res_inv s"
  shows "same_specs s (snd (ReleaseCountXn_u32 st n s))
    \<and> (\<forall>u. u \<noteq> ResType_COUNT_XN \<longrightarrow> used_ids u (snd (ReleaseCountXn_u32 st n s)) = used_ids u s)"
  using typed_release_keeps [OF assms, of ResType_COUNT_XN "u32_sub st (xnSpecNum s)" n] assms
  by (simp add: ReleaseCountXn_u32_def ReleaseCountXn_eq same_specs_def)

text \<open>The ids that callers hold are the ids in use of the pools.\<close>

definition ledger_inv :: "CcuResAllocator \<Rightarrow> die_ledger \<Rightarrow> bool" where
  "ledger_inv s0 l \<longleftrightarrow> same_specs s0 (ledgerDie l)
    \<and> (\<forall>t. t \<noteq> ResType_COUNT_XN \<longrightarrow> heldIds l t = used_ids t (ledgerDie l))
    \<and> heldCountXn l = count_ids (ledgerDie l)"

lemma count_ids_same: "same_specs s s' \<Longrightarrow> used_ids ResType_COUNT_XN s' = used_ids ResType_COUNT_XN s \<Longrightarrow> count_ids s' = count_ids s"
  by (simp add: count_ids_def same_specs_def)

lemma same_specs_trans: "same_specs s0 s \<Longrightarrow> same_specs s s' \<Longrightarrow> same_specs s0 s'"
  by (simp add: same_specs_def)

lemma die_exec_ledger:
  assumes "ledger_inv s0 l" and "component_call call"
  shows "ledger_inv s0 (die_exec call l)"
proof -
  let ?s = "ledgerDie l"
  have inv: "res_inv ?s" and same: "same_specs s0 ?s"
    using assms(1) by (simp_all add: ledger_inv_def same_specs_def)
  show ?thesis
  proof (cases call)
    case (CallAlloc t n c)
    obtain e ns s' where r: "CcuResAllocator_Alloc t n c ?s = (e, ns, s')"
      by (metis prod_cases3)
    note k = typed_alloc_keeps [OF inv, of t n c, unfolded r, simplified]
    show ?thesis
      using CallAlloc r assms k same_specs_trans [OF same] count_ids_same [of ?s s'] typed.alloc_grants [OF inv, of t n c ns s']
        typed.alloc_refuses [OF inv r]
      by (auto simp: ledger_inv_def)
  next
    case (CallRelease t st n)
    obtain e s' where r: "CcuResAllocator_Release t st n ?s = (e, s')"
      by fastforce
    note k = typed_release_keeps [OF inv, of t st n, unfolded r, simplified]
    show ?thesis
      using CallRelease r assms k same_specs_trans [OF same] count_ids_same [of ?s s'] typed.release_frees [OF inv, of t st n s']
        typed.release_refuses [OF inv r]
      by (auto simp: ledger_inv_def)
  next
    case (CallAllocCountXn n)
    obtain e q s' where r: "AllocCountXn n (mk_res 0 0) ?s = (e, q, s')"
      by (metis prod_cases3)
    then have l: "AllocCountXn_list n True ?s = (e, [q], s')"
      by (simp add: AllocCountXn_list_def)
    note k = count_alloc_keeps [OF inv, of n "mk_res 0 0", unfolded r, simplified]
    show ?thesis
      using CallAllocCountXn r l assms k same_specs_trans [OF same] count.alloc_grants [OF inv, of n True "[q]" s']
        count.alloc_refuses [OF inv l]
      by (auto simp: ledger_inv_def)
  next
    case (CallReleaseCountXn st n)
    obtain e s' where r: "ReleaseCountXn_u32 st n ?s = (e, s')"
      by fastforce
    note k = count_release_keeps [OF inv, of st n, unfolded r, simplified]
    show ?thesis
      using CallReleaseCountXn r assms k same_specs_trans [OF same] count.release_frees [OF inv, of st n s']
        count.release_refuses [OF inv r]
      by (auto simp: ledger_inv_def)
  qed
qed

lemma die_run_ledger:
  "ledger_inv s0 l \<Longrightarrow> \<forall>call\<in>set calls. component_call call \<Longrightarrow> ledger_inv s0 (fold die_exec calls l)"
  by (induction calls arbitrary: l) (simp_all add: die_exec_ledger)

text \<open>C32. Whatever sequence of calls runs on the allocator of a die of an initialised device
  (with counting registers asked for by the counting calls only, as the component does), the ids that the calls
  returned and that were not given back lie below the capacity that the specification gave their type; the counting
  XN registers returned lie behind all general XN registers, within the specified number, so no caller holds an XN
  register both as a general and as a counting one; and no further call returns an id that is still held.\<close>

theorem die_pools_safe:
  fixes drv dev die calls
  assumes "fst (CcuResSpecifications_Init drv (CcuResSpecifications_new dev)) = HCCL_SUCCESS"
    and "\<forall>call\<in>set calls. component_call call"
  defines "s0 \<equiv> die_allocator drv dev die"
  defines "l \<equiv> fold die_exec calls (nothing_held s0)"
  shows "(\<forall>t. t \<noteq> ResType_COUNT_XN \<longrightarrow> heldIds l t \<subseteq> {..<capacity (pool_of t s0)})
    \<and> heldCountXn l \<subseteq> {capacity (pool_of ResType_XN s0) ..<
        capacity (pool_of ResType_XN s0) + capacity (pool_of ResType_COUNT_XN s0)}
    \<and> heldIds l ResType_XN \<inter> heldCountXn l = {}
    \<and> (\<forall>t n c ns s'. t \<noteq> ResType_COUNT_XN \<longrightarrow> CcuResAllocator_Alloc t n c (ledgerDie l) = (HCCL_SUCCESS, ns, s') \<longrightarrow>
        ids ns \<inter> heldIds l t = {} \<and> (t = ResType_XN \<longrightarrow> ids ns \<inter> heldCountXn l = {}))
    \<and> (\<forall>n r0 r s'. AllocCountXn n r0 (ledgerDie l) = (HCCL_SUCCESS, r, s') \<longrightarrow>
        block_ids r \<inter> (heldCountXn l \<union> heldIds l ResType_XN) = {})"
proof -
  have inv0: "res_inv s0"
    unfolding s0_def using die_allocator_inv [OF assms(1)] .
  have "ledger_inv s0 (nothing_held s0)"
    using inv0 die_allocator_unused by (simp add: ledger_inv_def nothing_held_def same_specs_def count_ids_def s0_def)
  then have led: "ledger_inv s0 l"
    unfolding l_def using die_run_ledger assms(2) by blast
  let ?s = "ledgerDie l"
  have inv: "res_inv ?s" and same: "same_specs s0 ?s"
    using led by (simp_all add: ledger_inv_def same_specs_def)
  have xn: "xnSpecNum ?s = capacity (pool_of ResType_XN s0)" "capacity (pool_of t ?s) = capacity (pool_of t s0)" for t
    using inv0 same by (simp_all add: same_specs_def res_inv_def)
  have typed: "heldIds l t \<subseteq> {..<capacity (pool_of t s0)}" if "t \<noteq> ResType_COUNT_XN" for t
    using typed.used_range [OF inv, of t] led that xn by (auto simp: ledger_inv_def)
  have counting: "heldCountXn l \<subseteq> {capacity (pool_of ResType_XN s0) ..<
      capacity (pool_of ResType_XN s0) + capacity (pool_of ResType_COUNT_XN s0)}"
    using count.used_range [OF inv] led xn by (simp add: ledger_inv_def)
  have general: "ids ns \<inter> heldIds l t = {} \<and> (t = ResType_XN \<longrightarrow> ids ns \<inter> heldCountXn l = {})"
    if "t \<noteq> ResType_COUNT_XN" and "CcuResAllocator_Alloc t n c ?s = (HCCL_SUCCESS, ns, s')" for t n c ns s'
  proof -
    note g = typed.alloc_grants [OF inv that(2)]
    have "ids ns \<subseteq> {..<capacity (pool_of t s0)}"
      using g typed.used_range [of s' t] typed_alloc_keeps [OF inv, of t n c] that(2) xn by (auto simp: same_specs_def)
    then show ?thesis
      using g that(1) led counting by (fastforce simp: ledger_inv_def)
  qed
  have special: "block_ids r \<inter> (heldCountXn l \<union> heldIds l ResType_XN) = {}"
    if "AllocCountXn n r0 ?s = (HCCL_SUCCESS, r, s')" for n r0 r s'
  proof -
    have l: "AllocCountXn_list n True ?s = (HCCL_SUCCESS, [r], s')"
      using that by (auto simp: AllocCountXn_list_def AllocCountXn_eq split: prod.splits if_splits)
    note g = count.alloc_grants [OF inv l]
    have "block_ids r \<subseteq> {capacity (pool_of ResType_XN s0)..}"
      using g count.used_range [of s'] count_alloc_keeps [OF inv, of n r0] that xn by (auto simp: same_specs_def)
    then show ?thesis
      using g led typed [of ResType_XN] by (fastforce simp: ledger_inv_def)
  qed
  have apart: "heldIds l ResType_XN \<inter> heldCountXn l = {}"
    using typed [of ResType_XN] counting by fastforce
  show ?thesis
    apply (intro conjI allI impI)
    apply (erule typed)
    apply (rule counting)
    apply (rule apart)
    apply (erule (1) general [THEN conjunct1])
    apply (erule (1) general [THEN conjunct2, THEN mp], assumption)
    apply (erule special)
    done
qed

text \<open>The blocks of counting XN registers that callers hold are pairwise disjoint and
  lie behind the general XN registers, within the specified number, and each can be given back.\<close>

theorem count_xn_held_once:
  assumes "fst (CcuResSpecifications_Init drv (CcuResSpecifications_new dev)) = HCCL_SUCCESS"
    and "pool_reach AllocCountXn_list ReleaseCountXn_u32 (die_allocator drv dev die, []) (s, held)"
  shows "ids held = count_ids s
    \<and> ids held \<subseteq> {xnSpecNum (die_allocator drv dev die) ..< xnSpecNum (die_allocator drv dev die)
        + capacity (pool_of ResType_COUNT_XN (die_allocator drv dev die))}
    \<and> (\<forall>i j. i < j \<longrightarrow> j < length held \<longrightarrow> block_ids (held ! i) \<inter> block_ids (held ! j) = {})
    \<and> (\<forall>r\<in>set held. fst (ReleaseCountXn_u32 (startId r) (num r) s) = HCCL_SUCCESS)"
proof -
  have start: "res_inv (die_allocator drv dev die)" "count_ids (die_allocator drv dev die) = {}"
    using die_allocator_inv [OF assms(1)] die_allocator_unused by (simp_all add: count_ids_def)
  show ?thesis
    using count.no_double_grant [OF start assms(2)] count.held_can_return [OF start assms(2)] ledger_ok_nth
    by auto
qed

lemma driver2_specs:
  "dieEnableFlags (snd (CcuResSpecifications_Init driver2 (CcuResSpecifications_new 0))) ! 0"
  "xnNum (resSpecs (snd (CcuResSpecifications_Init driver2 (CcuResSpecifications_new 0))) ! 0) = 28672"
  "countXnNum (resSpecs (snd (CcuResSpecifications_Init driver2 (CcuResSpecifications_new 0))) ! 0) = 4096"
proof -
  obtain s where s: "CcuResSpecifications_Init driver2 (CcuResSpecifications_new 0) = (HCCL_SUCCESS, s)"
    using driver2_init by (metis prod.collapse)
  have "\<not> initFlag (CcuResSpecifications_new 0)" "length (dieEnableFlags (CcuResSpecifications_new 0)) = 2"
    "length (resSpecs (CcuResSpecifications_new 0)) = 2"
    by (simp_all add: CcuResSpecifications_new_def CCU_MAX_IODIE_NUM_def)
  note shape = Init_success(1) [OF this s]
  show "dieEnableFlags (snd (CcuResSpecifications_Init driver2 (CcuResSpecifications_new 0))) ! 0"
    unfolding s shape by (simp add: driver2_enabled)
  have "xnNum (die_spec driver2 d CCU_V2 k) = 28672 \<and> countXnNum (die_spec driver2 d CCU_V2 k) = 4096" for d k
    by (simp add: die_spec_def driver2_enabled ParseOutBuffToResSpecInfo_def Let_def CcuResSpecInfo_default_def
        spec_consts) (simp add: driver2_def)
  then show "xnNum (resSpecs (snd (CcuResSpecifications_Init driver2 (CcuResSpecifications_new 0))) ! 0) = 28672"
    "countXnNum (resSpecs (snd (CcuResSpecifications_Init driver2 (CcuResSpecifications_new 0))) ! 0) = 4096"
    unfolding s shape by (simp_all add: driver2_enabled)
qed

lemma driver2_AllocCountXn:
  "\<exists>s. AllocCountXn_list 2 True (die_allocator driver2 0 0) = (HCCL_SUCCESS, [mk_res 28672 2], s)"
proof -
  have "idAllocatorMap (die_allocator driver2 0 0) 4 = Some (CcuResIdAllocator_new 4096)"
    "xnSpecNum (die_allocator driver2 0 0) = 28672"
    unfolding die_allocator_def init_pools by (simp_all add: driver2_specs)
  then show ?thesis
    by (simp add: AllocCountXn_list_def AllocCountXn_def CcuResIdAllocator_new_def Alloc_def AllocResInfo_def
        u32_add_def u32_sub_def Let_def)
qed

theorem count_xn_held_once_witness: "\<exists>s. count_ids s = {28672, 28673}"
proof -
  obtain s where "AllocCountXn_list 2 True (die_allocator driver2 0 0) = (HCCL_SUCCESS, [mk_res 28672 2], s)"
    using driver2_AllocCountXn by blast
  then have "pool_reach AllocCountXn_list ReleaseCountXn_u32 (die_allocator driver2 0 0, []) (s, [mk_res 28672 2])"
    using pool_step.granted [of AllocCountXn_list 2 True _ _ _ ReleaseCountXn_u32 "[]"] by force
  moreover have "ids [mk_res 28672 2] = {28672, 28673}"
    by auto
  ultimately show ?thesis
    using count_xn_held_once [OF driver2_init, of 0 s] by metis
qed

text \<open>Four general and two counting XN registers of a device of the second version.\<close>

theorem die_pools_safe_witness:
  "\<exists>l. l = fold die_exec [CallAlloc ResType_XN 4 True, CallAllocCountXn 2] (nothing_held (die_allocator driver2 0 0))
    \<and> heldIds l ResType_XN = {0..<4} \<and> heldCountXn l = {28672..<28674} \<and> heldIds l ResType_XN \<inter> heldCountXn l = {}"
proof -
  let ?calls = "[CallAlloc ResType_XN 4 True, CallAllocCountXn 2]"
  let ?l = "fold die_exec ?calls (nothing_held (die_allocator driver2 0 0))"
  have pools: "idAllocatorMap (die_allocator driver2 0 0) 3 = Some (CcuResIdAllocator_new 28672)"
    "idAllocatorMap (die_allocator driver2 0 0) 4 = Some (CcuResIdAllocator_new 4096)"
    "xnSpecNum (die_allocator driver2 0 0) = 28672"
    unfolding die_allocator_def init_pools by (simp_all add: driver2_specs)
  have "heldIds ?l ResType_XN = {0..<4} \<and> heldCountXn ?l = {28672..<28674}"
    by (simp add: nothing_held_def CcuResAllocator_Alloc_def AllocCountXn_def pools CcuResIdAllocator_new_def Alloc_def
        AllocResInfo_def u32_add_def u32_sub_def Let_def block_ids_def)
  moreover have "heldIds ?l ResType_XN \<inter> heldCountXn ?l = {}"
    using die_pools_safe [OF driver2_init, of ?calls 0] by simp
  ultimately show ?thesis
    by blast
qed

end
