(* ===== verification/Ccu_Assist.thy ===== *)
theory Ccu_Assist
  imports Microcode_Layout
begin

text \<open>
  The helpers of \<^verbatim>\<open>ccu_microcode/ccu_assist.cc\<close>: packing of loop, parallel, offset and token parameters into a
  64-bit register value, and the codes of reduce operations and data types. A \<^verbatim>\<open>THROW\<close> is the left value of
  a sum. \<^verbatim>\<open>SetBits\<close> of a width keeps one bit more than the width, so an argument that is one bit too wide
  spills into the next field (\<open>packing_spills\<close>); arguments in range are packed exactly.
\<close>

subsection \<open>Packing\<close>

definition SetBits :: "nat \<Rightarrow> u64" where
  "SetBits last_bit = push_bit (last_bit + 1) 1 - 1"

definition GetLoopParam :: "u64 \<Rightarrow> u64 \<Rightarrow> u64 \<Rightarrow> u64" where
  "GetLoopParam loopCtxId gsaOffset loopIterNum =
    push_bit 45 (loopCtxId AND SetBits 8) OR push_bit 13 (gsaOffset AND SetBits 32)
    OR push_bit 0 (loopIterNum AND SetBits 13)"

definition GetParallelParam :: "u64 \<Rightarrow> u64 \<Rightarrow> u64 \<Rightarrow> u64" where
  "GetParallelParam repeatNum repeatLoopIndex totalLoopNum =
    push_bit 55 (repeatNum AND SetBits 7) OR push_bit 48 (repeatLoopIndex AND SetBits 7)
    OR push_bit 41 (totalLoopNum AND SetBits 7)"

definition GetParallelParamV2 :: "u64 \<Rightarrow> u64 \<Rightarrow> u64 \<Rightarrow> u64" where
  "GetParallelParamV2 repeatNum repeatLoopIndex totalLoopNum =
    push_bit 0 (totalLoopNum AND SetBits 10) OR push_bit 10 (repeatLoopIndex AND SetBits 9)
    OR push_bit 19 (repeatNum AND SetBits 9)"

definition GetOffsetParam :: "u64 \<Rightarrow> u64 \<Rightarrow> u64 \<Rightarrow> u64" where
  "GetOffsetParam gsaOffset msOffset ckeOffset =
    push_bit 21 (gsaOffset AND SetBits 32) OR push_bit 10 (msOffset AND SetBits 11)
    OR push_bit 0 (ckeOffset AND SetBits 10)"

definition GetToken :: "u64 \<Rightarrow> u64 \<Rightarrow> u64 \<Rightarrow> u64" where
  "GetToken tokenId tokenValue tokenValid =
    push_bit 52 (tokenValid AND SetBits 1) OR push_bit 32 (tokenId AND SetBits 20)
    OR push_bit 0 (tokenValue AND SetBits 32)"

definition CcuCombineTokenInfo :: "u64 \<Rightarrow> u64 \<Rightarrow> u64 \<Rightarrow> u64" where
  "CcuCombineTokenInfo tokenId tokenValue tokenValid = GetToken tokenId tokenValue tokenValid"

subsection \<open>Codes of operations and data types\<close>

datatype CcuApiException = CcuApiException

datatype ReduceOp = ReduceOp_SUM | ReduceOp_PROD | ReduceOp_MAX | ReduceOp_MIN | ReduceOp_EQUAL | ReduceOp_INVALID

datatype DataType =
    DataType_INT8 | DataType_INT16 | DataType_INT32 | DataType_FP16 | DataType_FP32 | DataType_INT64
  | DataType_UINT64 | DataType_UINT8 | DataType_UINT16 | DataType_UINT32 | DataType_FP64 | DataType_BFP16
  | DataType_INT128 | DataType_BF16_SAT | DataType_HIF8 | DataType_FP8E4M3 | DataType_FP8E5M2 | DataType_FP8E8M0
  | DataType_INVALID

definition GetCcuReduceType :: "ReduceOp \<Rightarrow> CcuApiException + u16" where
  "GetCcuReduceType reduceOp =
    (case [ReduceOp_SUM \<mapsto> CCU_REDUCE_SUM, ReduceOp_MAX \<mapsto> CCU_REDUCE_MAX, ReduceOp_MIN \<mapsto> CCU_REDUCE_MIN] reduceOp of
       None \<Rightarrow> Inl CcuApiException
     | Some c \<Rightarrow> Inr c)"

definition ccuSumDataTypeMap :: "DataType \<rightharpoonup> u16" where
  "ccuSumDataTypeMap =
    [DataType_FP32 \<mapsto> 0, DataType_FP16 \<mapsto> 1, DataType_BFP16 \<mapsto> 2, DataType_HIF8 \<mapsto> 3, DataType_FP8E4M3 \<mapsto> 4,
     DataType_FP8E5M2 \<mapsto> 5, DataType_INT8 \<mapsto> 6, DataType_UINT8 \<mapsto> 7, DataType_INT16 \<mapsto> 8, DataType_INT32 \<mapsto> 9]"

definition ccuMaxMinDataTypeMap :: "DataType \<rightharpoonup> u16" where
  "ccuMaxMinDataTypeMap =
    [DataType_FP32 \<mapsto> 0, DataType_FP16 \<mapsto> 1, DataType_BFP16 \<mapsto> 2, DataType_INT8 \<mapsto> 6, DataType_UINT8 \<mapsto> 7,
     DataType_INT16 \<mapsto> 8, DataType_INT32 \<mapsto> 9]"

text \<open>The last line of the function, a lookup that inserts 0 when the key is absent, is not reached with
  the three codes that \<open>GetCcuReduceType\<close> returns.\<close>

definition GetCcuDataType :: "DataType \<Rightarrow> ReduceOp \<Rightarrow> CcuApiException + u16" where
  "GetCcuDataType dataType reduceOp =
    (case GetCcuReduceType reduceOp of
       Inl e \<Rightarrow> Inl e
     | Inr ccuReduceType \<Rightarrow>
         if ccuReduceType = CCU_REDUCE_SUM then
           (case ccuSumDataTypeMap dataType of None \<Rightarrow> Inl CcuApiException | Some c \<Rightarrow> Inr c)
         else if ccuReduceType = CCU_REDUCE_MAX \<or> ccuReduceType = CCU_REDUCE_MIN then
           (case ccuMaxMinDataTypeMap dataType of None \<Rightarrow> Inl CcuApiException | Some c \<Rightarrow> Inr c)
         else Inr (case ccuSumDataTypeMap dataType of None \<Rightarrow> 0 | Some c \<Rightarrow> c))"

definition GetUBReduceType :: "ReduceOp \<Rightarrow> u16 \<Rightarrow> HcclResult \<times> u16" where
  "GetUBReduceType reduceOp result =
    (case [ReduceOp_SUM \<mapsto> 10, ReduceOp_MAX \<mapsto> 8, ReduceOp_MIN \<mapsto> 9] reduceOp of
       None \<Rightarrow> (HCCL_E_PARA, result)
     | Some c \<Rightarrow> (HCCL_SUCCESS, c))"

definition ubDataTypeMap :: "DataType \<rightharpoonup> u16" where
  "ubDataTypeMap =
    [DataType_FP32 \<mapsto> 7, DataType_FP16 \<mapsto> 6, DataType_BFP16 \<mapsto> 8, DataType_INT8 \<mapsto> 0, DataType_UINT8 \<mapsto> 3,
     DataType_INT16 \<mapsto> 1, DataType_INT32 \<mapsto> 2, DataType_UINT16 \<mapsto> 4, DataType_UINT32 \<mapsto> 5]"

definition GetUBDataType :: "DataType \<Rightarrow> u16 \<Rightarrow> HcclResult \<times> u16" where
  "GetUBDataType dataType result =
    (case ubDataTypeMap dataType of None \<Rightarrow> (HCCL_E_PARA, result) | Some c \<Rightarrow> (HCCL_SUCCESS, c))"

text \<open>The query of the process token is a parameter: a result code, the token id and the token value.\<close>

definition GetTokenInfo :: "(u64 \<Rightarrow> u64 \<Rightarrow> HcclResult \<times> u64 \<times> u64) \<Rightarrow> u64 \<Rightarrow> u64 \<Rightarrow> CcuApiException + u64" where
  "GetTokenInfo query va sz =
    (case query va sz of (ret, tokenId, tokenValue) \<Rightarrow>
       if ret \<noteq> HCCL_SUCCESS then Inl CcuApiException else Inr (GetToken tokenId tokenValue 1))"

subsection \<open>Packing is exact in range\<close>

lemma SetBits_mask: "SetBits n = mask (n + 1)"
  by (simp add: SetBits_def mask_eq_exp_minus_1 push_bit_eq_mult)

lemma bit_in_range: "unat (x :: u64) < 2 ^ n \<Longrightarrow> bit x k \<Longrightarrow> k < n"
proof (rule ccontr)
  assume x: "unat x < 2 ^ n" "bit x k" "\<not> k < n"
  have "bit (unat x) k"
    using x(2) by (simp add: bit_unsigned_iff)
  then have "2 ^ k \<le> unat x"
    by (metis bit_iff_odd div_less even_zero not_le)
  moreover have "(2 :: nat) ^ n \<le> 2 ^ k"
    using x(3) by (intro power_increasing) simp_all
  ultimately show False
    using x(1) by linarith
qed

lemmas pack_bits = SetBits_mask bit_get_bits bit_or_iff bit_and_iff bit_push_bit_iff bit_mask_iff

text \<open>A token id below \<open>2 ^ 20\<close>, a token value below \<open>2 ^ 32\<close> and a valid flag of one bit
  are read back from their fields of the packed token: bits 32 to 51, 0 to 31 and 52.\<close>

theorem token_roundtrip:
  assumes "unat tokenId < 2 ^ 20" and "unat tokenValue < 2 ^ 32" and "unat tokenValid < 2 ^ 1"
  shows "get_bits 32 20 (GetToken tokenId tokenValue tokenValid) = tokenId
    \<and> get_bits 0 32 (GetToken tokenId tokenValue tokenValid) = tokenValue
    \<and> get_bits 52 1 (GetToken tokenId tokenValue tokenValid) = tokenValid"
proof -
  note r = bit_in_range [OF assms(1)] bit_in_range [OF assms(2)] bit_in_range [OF assms(3)]
  show ?thesis
    by (intro conjI bit_word_eqI) (auto simp: GetToken_def pack_bits dest: r)
qed

text \<open>A loop context id below \<open>2 ^ 8\<close>, an address offset below \<open>2 ^ 32\<close> and an iteration
  count below \<open>2 ^ 13\<close> are read back from the packed loop parameter.\<close>

theorem loop_param_roundtrip:
  assumes "unat loopCtxId < 2 ^ 8" and "unat gsaOffset < 2 ^ 32" and "unat loopIterNum < 2 ^ 13"
  shows "get_bits 45 8 (GetLoopParam loopCtxId gsaOffset loopIterNum) = loopCtxId
    \<and> get_bits 13 32 (GetLoopParam loopCtxId gsaOffset loopIterNum) = gsaOffset
    \<and> get_bits 0 13 (GetLoopParam loopCtxId gsaOffset loopIterNum) = loopIterNum"
proof -
  note r = bit_in_range [OF assms(1)] bit_in_range [OF assms(2)] bit_in_range [OF assms(3)]
  show ?thesis
    by (intro conjI bit_word_eqI) (auto simp: GetLoopParam_def pack_bits dest: r)
qed

text \<open>The three counts of the version 2 parallel parameter are read back from bits
  0 to 9 (loops), 10 to 18 (first repeated loop) and 19 to 27 (repetitions), for arguments in range.\<close>

theorem parallel_param_roundtrip:
  assumes "unat repeatNum < 2 ^ 9" and "unat repeatLoopIndex < 2 ^ 9" and "unat totalLoopNum < 2 ^ 10"
  shows "get_bits 19 9 (GetParallelParamV2 repeatNum repeatLoopIndex totalLoopNum) = repeatNum
    \<and> get_bits 10 9 (GetParallelParamV2 repeatNum repeatLoopIndex totalLoopNum) = repeatLoopIndex
    \<and> get_bits 0 10 (GetParallelParamV2 repeatNum repeatLoopIndex totalLoopNum) = totalLoopNum"
proof -
  note r = bit_in_range [OF assms(1)] bit_in_range [OF assms(2)] bit_in_range [OF assms(3)]
  show ?thesis
    by (intro conjI bit_word_eqI) (auto simp: GetParallelParamV2_def pack_bits dest: r)
qed

text \<open>The masks keep one bit more than the field has, so an argument that is one bit too
  wide is not cut but changes the neighbouring field: an iteration count of \<open>2 ^ 13\<close> becomes an address
  offset of 1, and a token id of \<open>2 ^ 20\<close> sets the valid flag.\<close>

theorem packing_spills:
  "GetLoopParam 0 0 8192 = GetLoopParam 0 1 0 \<and> GetToken 0x100000 0 0 = GetToken 0 0 1"
  by (simp add: GetLoopParam_def GetToken_def SetBits_mask mask_eq_exp_minus_1)

text \<open>A reduce operation has a CCU code exactly when it has a UB code (sum, max and min); a
  data type that the CCU accepts for max or min it also accepts for sum, with the same code, and the
  codes of different data types differ.\<close>

theorem reduce_codes:
  "((\<exists>c. GetCcuReduceType op = Inr c) \<longleftrightarrow> fst (GetUBReduceType op r) = HCCL_SUCCESS)
   \<and> (GetCcuDataType t ReduceOp_MAX = Inr c \<longleftrightarrow> c \<notin> {3, 4, 5} \<and> GetCcuDataType t ReduceOp_SUM = Inr c)
   \<and> (GetCcuDataType t ReduceOp_SUM \<noteq> GetCcuDataType u ReduceOp_SUM \<or> t = u
      \<or> GetCcuDataType t ReduceOp_SUM = Inl CcuApiException)"
proof (intro conjI)
  show "(\<exists>c. GetCcuReduceType op = Inr c) \<longleftrightarrow> fst (GetUBReduceType op r) = HCCL_SUCCESS"
    by (cases op) (simp_all add: GetCcuReduceType_def GetUBReduceType_def)
  show "GetCcuDataType t ReduceOp_MAX = Inr c \<longleftrightarrow> c \<notin> {3, 4, 5} \<and> GetCcuDataType t ReduceOp_SUM = Inr c"
    by (cases t) (auto simp: GetCcuDataType_def GetCcuReduceType_def ccuSumDataTypeMap_def ccuMaxMinDataTypeMap_def)
  show "GetCcuDataType t ReduceOp_SUM \<noteq> GetCcuDataType u ReduceOp_SUM \<or> t = u
      \<or> GetCcuDataType t ReduceOp_SUM = Inl CcuApiException"
    by (cases t; cases u) (simp_all add: GetCcuDataType_def GetCcuReduceType_def ccuSumDataTypeMap_def)
qed

theorem token_roundtrip_witness: "get_bits 32 20 (GetToken 5 9 1) = 5"
  using token_roundtrip [of 5 9 1] by simp

theorem loop_param_roundtrip_witness: "get_bits 0 13 (GetLoopParam 3 64 100) = 100"
  using loop_param_roundtrip [of 3 64 100] by simp

theorem parallel_param_roundtrip_witness: "get_bits 19 9 (GetParallelParamV2 6 2 8) = 6"
  using parallel_param_roundtrip [of 6 2 8] by simp

theorem reduce_codes_witness: "fst (GetUBReduceType ReduceOp_MIN 0) = HCCL_SUCCESS"
  using reduce_codes [of ReduceOp_MIN 0] by (simp add: GetCcuReduceType_def)

end
