(* ===== verification/Microcode_V1.thy ===== *)
theory Microcode_V1
  imports Microcode_V2
begin

text \<open>
  The encoders of the first-generation instruction set (\<^verbatim>\<open>ccu_microcode/ccu_microcode.cc\<close>), in the style of
  \<^verbatim>\<open>Microcode_V2\<close>; the class and instruction codes carry the prefix \<open>V1_\<close> because the two files use the same
  names for different codes. The count of a reduce instruction is stored less 2 and, unlike in version
  2, a count below 2 is not rejected. For every encoder a lemma gives the header and what each member
  reads back as.
\<close>

subsection \<open>Instruction classes and codes\<close>

definition V1_LOAD_TYPE :: u16 where [simp]: "V1_LOAD_TYPE = 0x0"
definition V1_CTRL_TYPE :: u16 where [simp]: "V1_CTRL_TYPE = 0x1"
definition V1_TRANS_TYPE :: u16 where [simp]: "V1_TRANS_TYPE = 0x2"
definition V1_REDUCE_TYPE :: u16 where [simp]: "V1_REDUCE_TYPE = 0x3"
definition V1_LOADSQEARGSTOGSA_CODE :: u16 where [simp]: "V1_LOADSQEARGSTOGSA_CODE = 0x0"
definition V1_LOADSQEARGSTOXN_CODE :: u16 where [simp]: "V1_LOADSQEARGSTOXN_CODE = 0x1"
definition V1_LOADIMDTOGSA_CODE :: u16 where [simp]: "V1_LOADIMDTOGSA_CODE = 0x2"
definition V1_LOADIMDTOXN_CODE :: u16 where [simp]: "V1_LOADIMDTOXN_CODE = 0x3"
definition V1_LOADGSAXN_CODE :: u16 where [simp]: "V1_LOADGSAXN_CODE = 0x4"
definition V1_LOADGSAGSA_CODE :: u16 where [simp]: "V1_LOADGSAGSA_CODE = 0x5"
definition V1_LOADXX_CODE :: u16 where [simp]: "V1_LOADXX_CODE = 0x6"
definition V1_LOOP_CODE :: u16 where [simp]: "V1_LOOP_CODE = 0x0"
definition V1_LOOPGROUP_CODE :: u16 where [simp]: "V1_LOOPGROUP_CODE = 0x1"
definition V1_SETCKE_CODE :: u16 where [simp]: "V1_SETCKE_CODE = 0x2"
definition V1_CLEARCKE_CODE :: u16 where [simp]: "V1_CLEARCKE_CODE = 0x4"
definition V1_JMP_CODE :: u16 where [simp]: "V1_JMP_CODE = 0x5"
definition V1_TRANSLOCMEMTOLOCMS_CODE :: u16 where [simp]: "V1_TRANSLOCMEMTOLOCMS_CODE = 0x0"
definition V1_TRANSRMTMEMTOLOCMS_CODE :: u16 where [simp]: "V1_TRANSRMTMEMTOLOCMS_CODE = 0x1"
definition V1_TRANSLOCMSTOLOCMEM_CODE :: u16 where [simp]: "V1_TRANSLOCMSTOLOCMEM_CODE = 0x2"
definition V1_TRANSLOCMSTORMTMEM_CODE :: u16 where [simp]: "V1_TRANSLOCMSTORMTMEM_CODE = 0x3"
definition V1_TRANSRMTMSTOLOCMEM_CODE :: u16 where [simp]: "V1_TRANSRMTMSTOLOCMEM_CODE = 0x4"
definition V1_TRANSLOCMSTOLOCMS_CODE :: u16 where [simp]: "V1_TRANSLOCMSTOLOCMS_CODE = 0x5"
definition V1_TRANSRMTMSTOLOCMS_CODE :: u16 where [simp]: "V1_TRANSRMTMSTOLOCMS_CODE = 0x6"
definition V1_TRANSLOCMSTORMTMS_CODE :: u16 where [simp]: "V1_TRANSLOCMSTORMTMS_CODE = 0x7"
definition V1_TRANSRMTMEMTOLOCMEM_CODE :: u16 where [simp]: "V1_TRANSRMTMEMTOLOCMEM_CODE = 0x8"
definition V1_TRANSLOCMEMTORMTMEM_CODE :: u16 where [simp]: "V1_TRANSLOCMEMTORMTMEM_CODE = 0x9"
definition V1_TRANSLOCMEMTOLOCMEM_CODE :: u16 where [simp]: "V1_TRANSLOCMEMTOLOCMEM_CODE = 0xa"
definition V1_SYNCCKE_CODE :: u16 where [simp]: "V1_SYNCCKE_CODE = 0xb"
definition V1_SYNCGSA_CODE :: u16 where [simp]: "V1_SYNCGSA_CODE = 0xc"
definition V1_SYNCXN_CODE :: u16 where [simp]: "V1_SYNCXN_CODE = 0xd"
definition V1_ADD_CODE :: u16 where [simp]: "V1_ADD_CODE = 0x0"
definition V1_MAX_CODE :: u16 where [simp]: "V1_MAX_CODE = 0x1"
definition V1_MIN_CODE :: u16 where [simp]: "V1_MIN_CODE = 0x2"

subsection \<open>Encoders\<close>

definition LoadSqeArgsToGSAInstr ::
  "CcuInstr \<Rightarrow> u16 \<Rightarrow> u16 \<Rightarrow> CcuInstr" where
  "LoadSqeArgsToGSAInstr instr gsaId sqeArgsId =
    (let instr = instr\<lparr>header := InstrHeader V1_LOAD_TYPE V1_LOADSQEARGSTOGSA_CODE\<rparr>;
         instr = put CcuV1_CcuInstrLoadSqeArgsToGSA ''gsaId'' gsaId instr;
         instr = put CcuV1_CcuInstrLoadSqeArgsToGSA ''sqeArgsId'' sqeArgsId instr
     in instr)"

definition LoadSqeArgsToXnInstr ::
  "CcuInstr \<Rightarrow> u16 \<Rightarrow> u16 \<Rightarrow> CcuInstr" where
  "LoadSqeArgsToXnInstr instr xnId sqeArgsId =
    (let instr = instr\<lparr>header := InstrHeader V1_LOAD_TYPE V1_LOADSQEARGSTOXN_CODE\<rparr>;
         instr = put CcuV1_CcuInstrLoadSqeArgsToXn ''xnId'' xnId instr;
         instr = put CcuV1_CcuInstrLoadSqeArgsToXn ''sqeArgsId'' sqeArgsId instr
     in instr)"

definition LoadImdToGSAInstr ::
  "CcuInstr \<Rightarrow> u16 \<Rightarrow> u64 \<Rightarrow> CcuInstr" where
  "LoadImdToGSAInstr instr gsaId immediate =
    (let instr = instr\<lparr>header := InstrHeader V1_LOAD_TYPE V1_LOADIMDTOGSA_CODE\<rparr>;
         instr = put CcuV1_CcuInstrLoadImdToGSA ''gsaId'' gsaId instr;
         instr = put CcuV1_CcuInstrLoadImdToGSA ''immediate'' immediate instr
     in instr)"

definition LoadImdToXnInstr ::
  "CcuInstr \<Rightarrow> u16 \<Rightarrow> u64 \<Rightarrow> u16 \<Rightarrow> CcuInstr" where
  "LoadImdToXnInstr instr xnId immediate secFlag =
    (let instr = instr\<lparr>header := InstrHeader V1_LOAD_TYPE V1_LOADIMDTOXN_CODE\<rparr>;
         instr = put CcuV1_CcuInstrLoadImdToXn ''xnId'' xnId instr;
         instr = put CcuV1_CcuInstrLoadImdToXn ''immediate'' immediate instr;
         instr = put CcuV1_CcuInstrLoadImdToXn ''secFlag'' secFlag instr
     in instr)"

definition LoadGSAXnInstr ::
  "CcuInstr \<Rightarrow> u16 \<Rightarrow> u16 \<Rightarrow> u16 \<Rightarrow> CcuInstr" where
  "LoadGSAXnInstr instr gsAdId gsAmId xnId =
    (let instr = instr\<lparr>header := InstrHeader V1_LOAD_TYPE V1_LOADGSAXN_CODE\<rparr>;
         instr = put CcuV1_CcuInstrLoadGSAXn ''gsAdId'' gsAdId instr;
         instr = put CcuV1_CcuInstrLoadGSAXn ''gsAmId'' gsAmId instr;
         instr = put CcuV1_CcuInstrLoadGSAXn ''xnId'' xnId instr
     in instr)"

definition LoadGSAGSAInstr ::
  "CcuInstr \<Rightarrow> u16 \<Rightarrow> u16 \<Rightarrow> u16 \<Rightarrow> CcuInstr" where
  "LoadGSAGSAInstr instr gsAdId gsAmId gsAnId =
    (let instr = instr\<lparr>header := InstrHeader V1_LOAD_TYPE V1_LOADGSAGSA_CODE\<rparr>;
         instr = put CcuV1_CcuInstrLoadGSAGSA ''gsAdId'' gsAdId instr;
         instr = put CcuV1_CcuInstrLoadGSAGSA ''gsAmId'' gsAmId instr;
         instr = put CcuV1_CcuInstrLoadGSAGSA ''gsAnId'' gsAnId instr
     in instr)"

definition LoadXXInstr ::
  "CcuInstr \<Rightarrow> u16 \<Rightarrow> u16 \<Rightarrow> u16 \<Rightarrow> CcuInstr" where
  "LoadXXInstr instr xdId xmId xnId =
    (let instr = instr\<lparr>header := InstrHeader V1_LOAD_TYPE V1_LOADXX_CODE\<rparr>;
         instr = put CcuV1_CcuInstrLoadXX ''xdId'' xdId instr;
         instr = put CcuV1_CcuInstrLoadXX ''xmId'' xmId instr;
         instr = put CcuV1_CcuInstrLoadXX ''xnId'' xnId instr
     in instr)"

definition LoopInstr ::
  "CcuInstr \<Rightarrow> u16 \<Rightarrow> u16 \<Rightarrow> u16 \<Rightarrow> CcuInstr" where
  "LoopInstr instr startInstrId endInstrId xnId =
    (let instr = instr\<lparr>header := InstrHeader V1_CTRL_TYPE V1_LOOP_CODE\<rparr>;
         instr = put CcuV1_CcuInstrLoop ''startInstrId'' startInstrId instr;
         instr = put CcuV1_CcuInstrLoop ''endInstrId'' endInstrId instr;
         instr = put CcuV1_CcuInstrLoop ''xnId'' xnId instr
     in instr)"

definition LoopGroupInstr ::
  "CcuInstr \<Rightarrow> u16 \<Rightarrow> u16 \<Rightarrow> u16 \<Rightarrow> u16 \<Rightarrow> CcuInstr" where
  "LoopGroupInstr instr startLoopInstrId xnId xmId highPerfModeEn =
    (let instr = instr\<lparr>header := InstrHeader V1_CTRL_TYPE V1_LOOPGROUP_CODE\<rparr>;
         instr = put CcuV1_CcuInstrLoopGroup ''startLoopInstrId'' startLoopInstrId instr;
         instr = put CcuV1_CcuInstrLoopGroup ''xnId'' xnId instr;
         instr = put CcuV1_CcuInstrLoopGroup ''xmId'' xmId instr;
         instr = put CcuV1_CcuInstrLoopGroup ''highPerfModeEn'' (highPerfModeEn AND 0x1) instr
     in instr)"

definition SetCKEInstr ::
  "CcuInstr \<Rightarrow> u16 \<Rightarrow> u16 \<Rightarrow> u16 \<Rightarrow> u16 \<Rightarrow> u16 \<Rightarrow> CcuInstr" where
  "SetCKEInstr instr setCKEId setCKEMask waitCKEId waitCKEMask clearType =
    (let instr = instr\<lparr>header := InstrHeader V1_CTRL_TYPE V1_SETCKE_CODE\<rparr>;
         instr = put CcuV1_CcuInstrSetCKE ''clearType'' (clearType AND 0x1) instr;
         instr = put CcuV1_CcuInstrSetCKE ''setCKEId'' setCKEId instr;
         instr = put CcuV1_CcuInstrSetCKE ''setCKEMask'' setCKEMask instr;
         instr = put CcuV1_CcuInstrSetCKE ''waitCKEId'' waitCKEId instr;
         instr = put CcuV1_CcuInstrSetCKE ''waitCKEMask'' waitCKEMask instr
     in instr)"

definition ClearCKEInstr ::
  "CcuInstr \<Rightarrow> u16 \<Rightarrow> u16 \<Rightarrow> u16 \<Rightarrow> u16 \<Rightarrow> u16 \<Rightarrow> CcuInstr" where
  "ClearCKEInstr instr clearCKEId clearMask waitCKEId waitCKEMask clearType =
    (let instr = instr\<lparr>header := InstrHeader V1_CTRL_TYPE V1_CLEARCKE_CODE\<rparr>;
         instr = put CcuV1_CcuInstrClearCKE ''clearType'' (clearType AND 0x1) instr;
         instr = put CcuV1_CcuInstrClearCKE ''clearCKEId'' clearCKEId instr;
         instr = put CcuV1_CcuInstrClearCKE ''clearMask'' clearMask instr;
         instr = put CcuV1_CcuInstrClearCKE ''waitCKEId'' waitCKEId instr;
         instr = put CcuV1_CcuInstrClearCKE ''waitCKEMask'' waitCKEMask instr
     in instr)"

definition JumpInstr ::
  "CcuInstr \<Rightarrow> u16 \<Rightarrow> u16 \<Rightarrow> u64 \<Rightarrow> CcuInstr" where
  "JumpInstr instr dstInstrXnId conditionXnId expectData =
    (let instr = instr\<lparr>header := InstrHeader V1_CTRL_TYPE V1_JMP_CODE\<rparr>;
         instr = put CcuV1_CcuInstrJmp ''dstInstrXnId'' dstInstrXnId instr;
         instr = put CcuV1_CcuInstrJmp ''conditionXnId'' conditionXnId instr;
         instr = put CcuV1_CcuInstrJmp ''expectData'' expectData instr
     in instr)"

definition TransLocMemToLocMSInstr ::
  "CcuInstr \<Rightarrow> u16 \<Rightarrow> u16 \<Rightarrow> u16 \<Rightarrow> u16 \<Rightarrow> u16 \<Rightarrow> u16 \<Rightarrow> u16 \<Rightarrow> u16 \<Rightarrow> u16 \<Rightarrow> u16 \<Rightarrow> u16 \<Rightarrow>
    CcuInstr" where
  "TransLocMemToLocMSInstr instr locMSId locGSAId locXnId lengthXnId channelId setCKEId
    setCKEMask waitCKEId waitCKEMask clearType lengthEn =
    (let instr = instr\<lparr>header := InstrHeader V1_TRANS_TYPE V1_TRANSLOCMEMTOLOCMS_CODE\<rparr>;
         instr = put CcuV1_CcuInstrTransLocMemToLocMS ''locMSId'' locMSId instr;
         instr = put CcuV1_CcuInstrTransLocMemToLocMS ''locGSAId'' locGSAId instr;
         instr = put CcuV1_CcuInstrTransLocMemToLocMS ''locXnId'' locXnId instr;
         instr = put CcuV1_CcuInstrTransLocMemToLocMS ''lengthXnId'' lengthXnId instr;
         instr = put CcuV1_CcuInstrTransLocMemToLocMS ''channelId'' channelId instr;
         instr = put CcuV1_CcuInstrTransLocMemToLocMS ''clearType'' (clearType AND 0x1) instr;
         instr = put CcuV1_CcuInstrTransLocMemToLocMS ''lengthEn'' (lengthEn AND 0x1) instr;
         instr = put CcuV1_CcuInstrTransLocMemToLocMS ''setCKEId'' setCKEId instr;
         instr = put CcuV1_CcuInstrTransLocMemToLocMS ''setCKEMask'' setCKEMask instr;
         instr = put CcuV1_CcuInstrTransLocMemToLocMS ''waitCKEId'' waitCKEId instr;
         instr = put CcuV1_CcuInstrTransLocMemToLocMS ''waitCKEMask'' waitCKEMask instr
     in instr)"

definition TransRmtMemToLocMSInstr ::
  "CcuInstr \<Rightarrow> u16 \<Rightarrow> u16 \<Rightarrow> u16 \<Rightarrow> u16 \<Rightarrow> u16 \<Rightarrow> u16 \<Rightarrow> u16 \<Rightarrow> u16 \<Rightarrow> u16 \<Rightarrow> u16 \<Rightarrow> u16 \<Rightarrow>
    CcuInstr" where
  "TransRmtMemToLocMSInstr instr locMSId rmtGSAId rmtXnId lengthXnId channelId setCKEId
    setCKEMask waitCKEId waitCKEMask clearType lengthEn =
    (let instr = instr\<lparr>header := InstrHeader V1_TRANS_TYPE V1_TRANSRMTMEMTOLOCMS_CODE\<rparr>;
         instr = put CcuV1_CcuInstrTransRmtMemToLocMS ''locMSId'' locMSId instr;
         instr = put CcuV1_CcuInstrTransRmtMemToLocMS ''rmtGSAId'' rmtGSAId instr;
         instr = put CcuV1_CcuInstrTransRmtMemToLocMS ''rmtXnId'' rmtXnId instr;
         instr = put CcuV1_CcuInstrTransRmtMemToLocMS ''lengthXnId'' lengthXnId instr;
         instr = put CcuV1_CcuInstrTransRmtMemToLocMS ''channelId'' channelId instr;
         instr = put CcuV1_CcuInstrTransRmtMemToLocMS ''clearType'' (clearType AND 0x1) instr;
         instr = put CcuV1_CcuInstrTransRmtMemToLocMS ''lengthEn'' (lengthEn AND 0x1) instr;
         instr = put CcuV1_CcuInstrTransRmtMemToLocMS ''setCKEId'' setCKEId instr;
         instr = put CcuV1_CcuInstrTransRmtMemToLocMS ''setCKEMask'' setCKEMask instr;
         instr = put CcuV1_CcuInstrTransRmtMemToLocMS ''waitCKEId'' waitCKEId instr;
         instr = put CcuV1_CcuInstrTransRmtMemToLocMS ''waitCKEMask'' waitCKEMask instr
     in instr)"

definition TransLocMSToLocMemInstr ::
  "CcuInstr \<Rightarrow> u16 \<Rightarrow> u16 \<Rightarrow> u16 \<Rightarrow> u16 \<Rightarrow> u16 \<Rightarrow> u16 \<Rightarrow> u16 \<Rightarrow> u16 \<Rightarrow> u16 \<Rightarrow> u16 \<Rightarrow> u16 \<Rightarrow>
    CcuInstr" where
  "TransLocMSToLocMemInstr instr locGSAId locXnId locMSId lengthXnId channelId setCKEId
    setCKEMask waitCKEId waitCKEMask clearType lengthEn =
    (let instr = instr\<lparr>header := InstrHeader V1_TRANS_TYPE V1_TRANSLOCMSTOLOCMEM_CODE\<rparr>;
         instr = put CcuV1_CcuInstrTransLocMSToLocMem ''locGSAId'' locGSAId instr;
         instr = put CcuV1_CcuInstrTransLocMSToLocMem ''locXnId'' locXnId instr;
         instr = put CcuV1_CcuInstrTransLocMSToLocMem ''locMSId'' locMSId instr;
         instr = put CcuV1_CcuInstrTransLocMSToLocMem ''lengthXnId'' lengthXnId instr;
         instr = put CcuV1_CcuInstrTransLocMSToLocMem ''channelId'' channelId instr;
         instr = put CcuV1_CcuInstrTransLocMSToLocMem ''clearType'' (clearType AND 0x1) instr;
         instr = put CcuV1_CcuInstrTransLocMSToLocMem ''lengthEn'' (lengthEn AND 0x1) instr;
         instr = put CcuV1_CcuInstrTransLocMSToLocMem ''setCKEId'' setCKEId instr;
         instr = put CcuV1_CcuInstrTransLocMSToLocMem ''setCKEMask'' setCKEMask instr;
         instr = put CcuV1_CcuInstrTransLocMSToLocMem ''waitCKEId'' waitCKEId instr;
         instr = put CcuV1_CcuInstrTransLocMSToLocMem ''waitCKEMask'' waitCKEMask instr
     in instr)"

definition TransLocMSToRmtMemInstr ::
  "CcuInstr \<Rightarrow> u16 \<Rightarrow> u16 \<Rightarrow> u16 \<Rightarrow> u16 \<Rightarrow> u16 \<Rightarrow> u16 \<Rightarrow> u16 \<Rightarrow> u16 \<Rightarrow> u16 \<Rightarrow> u16 \<Rightarrow> u16 \<Rightarrow>
    CcuInstr" where
  "TransLocMSToRmtMemInstr instr rmtGSAId rmtXnId locMSId lengthXnId channelId setCKEId
    setCKEMask waitCKEId waitCKEMask clearType lengthEn =
    (let instr = instr\<lparr>header := InstrHeader V1_TRANS_TYPE V1_TRANSLOCMSTORMTMEM_CODE\<rparr>;
         instr = put CcuV1_CcuInstrTransLocMSToRmtMem ''rmtGSAId'' rmtGSAId instr;
         instr = put CcuV1_CcuInstrTransLocMSToRmtMem ''rmtXnId'' rmtXnId instr;
         instr = put CcuV1_CcuInstrTransLocMSToRmtMem ''locMSId'' locMSId instr;
         instr = put CcuV1_CcuInstrTransLocMSToRmtMem ''lengthXnId'' lengthXnId instr;
         instr = put CcuV1_CcuInstrTransLocMSToRmtMem ''channelId'' channelId instr;
         instr = put CcuV1_CcuInstrTransLocMSToRmtMem ''clearType'' (clearType AND 0x1) instr;
         instr = put CcuV1_CcuInstrTransLocMSToRmtMem ''lengthEn'' (lengthEn AND 0x1) instr;
         instr = put CcuV1_CcuInstrTransLocMSToRmtMem ''setCKEId'' setCKEId instr;
         instr = put CcuV1_CcuInstrTransLocMSToRmtMem ''setCKEMask'' setCKEMask instr;
         instr = put CcuV1_CcuInstrTransLocMSToRmtMem ''waitCKEId'' waitCKEId instr;
         instr = put CcuV1_CcuInstrTransLocMSToRmtMem ''waitCKEMask'' waitCKEMask instr
     in instr)"

definition TransRmtMSToLocMemInstr ::
  "CcuInstr \<Rightarrow> u16 \<Rightarrow> u16 \<Rightarrow> u16 \<Rightarrow> u16 \<Rightarrow> u16 \<Rightarrow> u16 \<Rightarrow> u16 \<Rightarrow> u16 \<Rightarrow> u16 \<Rightarrow> u16 \<Rightarrow> u16 \<Rightarrow>
    CcuInstr" where
  "TransRmtMSToLocMemInstr instr locGSAId locXnId rmtMSId lengthXnId channelId setCKEId
    setCKEMask waitCKEId waitCKEMask clearType lengthEn =
    (let instr = instr\<lparr>header := InstrHeader V1_TRANS_TYPE V1_TRANSRMTMSTOLOCMEM_CODE\<rparr>;
         instr = put CcuV1_CcuInstrTransRmtMSToLocMem ''locGSAId'' locGSAId instr;
         instr = put CcuV1_CcuInstrTransRmtMSToLocMem ''locXnId'' locXnId instr;
         instr = put CcuV1_CcuInstrTransRmtMSToLocMem ''rmtMSId'' rmtMSId instr;
         instr = put CcuV1_CcuInstrTransRmtMSToLocMem ''lengthXnId'' lengthXnId instr;
         instr = put CcuV1_CcuInstrTransRmtMSToLocMem ''channelId'' channelId instr;
         instr = put CcuV1_CcuInstrTransRmtMSToLocMem ''clearType'' (clearType AND 0x1) instr;
         instr = put CcuV1_CcuInstrTransRmtMSToLocMem ''lengthEn'' (lengthEn AND 0x1) instr;
         instr = put CcuV1_CcuInstrTransRmtMSToLocMem ''setCKEId'' setCKEId instr;
         instr = put CcuV1_CcuInstrTransRmtMSToLocMem ''setCKEMask'' setCKEMask instr;
         instr = put CcuV1_CcuInstrTransRmtMSToLocMem ''waitCKEId'' waitCKEId instr;
         instr = put CcuV1_CcuInstrTransRmtMSToLocMem ''waitCKEMask'' waitCKEMask instr
     in instr)"

definition TransLocMSToLocMSInstr ::
  "CcuInstr \<Rightarrow> u16 \<Rightarrow> u16 \<Rightarrow> u16 \<Rightarrow> u16 \<Rightarrow> u16 \<Rightarrow> u16 \<Rightarrow> u16 \<Rightarrow> u16 \<Rightarrow> u16 \<Rightarrow> u16 \<Rightarrow>
    CcuInstr" where
  "TransLocMSToLocMSInstr instr dstMSId srcMSId lengthXnId channelId setCKEId setCKEMask
    waitCKEId waitCKEMask clearType lengthEn =
    (let instr = instr\<lparr>header := InstrHeader V1_TRANS_TYPE V1_TRANSLOCMSTOLOCMS_CODE\<rparr>;
         instr = put CcuV1_CcuInstrTransLocMSToLocMS ''dstMSId'' dstMSId instr;
         instr = put CcuV1_CcuInstrTransLocMSToLocMS ''srcMSId'' srcMSId instr;
         instr = put CcuV1_CcuInstrTransLocMSToLocMS ''lengthXnId'' lengthXnId instr;
         instr = put CcuV1_CcuInstrTransLocMSToLocMS ''channelId'' channelId instr;
         instr = put CcuV1_CcuInstrTransLocMSToLocMS ''clearType'' (clearType AND 0x1) instr;
         instr = put CcuV1_CcuInstrTransLocMSToLocMS ''lengthEn'' (lengthEn AND 0x1) instr;
         instr = put CcuV1_CcuInstrTransLocMSToLocMS ''setCKEId'' setCKEId instr;
         instr = put CcuV1_CcuInstrTransLocMSToLocMS ''setCKEMask'' setCKEMask instr;
         instr = put CcuV1_CcuInstrTransLocMSToLocMS ''waitCKEId'' waitCKEId instr;
         instr = put CcuV1_CcuInstrTransLocMSToLocMS ''waitCKEMask'' waitCKEMask instr
     in instr)"

definition TransRmtMSToLocMSInstr ::
  "CcuInstr \<Rightarrow> u16 \<Rightarrow> u16 \<Rightarrow> u16 \<Rightarrow> u16 \<Rightarrow> u16 \<Rightarrow> u16 \<Rightarrow> u16 \<Rightarrow> u16 \<Rightarrow> u16 \<Rightarrow> u16 \<Rightarrow>
    CcuInstr" where
  "TransRmtMSToLocMSInstr instr locMSId rmtMSId lengthXnId channelId setCKEId setCKEMask
    waitCKEId waitCKEMask clearType lengthEn =
    (let instr = instr\<lparr>header := InstrHeader V1_TRANS_TYPE V1_TRANSRMTMSTOLOCMS_CODE\<rparr>;
         instr = put CcuV1_CcuInstrTransRmtMSToLocMS ''locMSId'' locMSId instr;
         instr = put CcuV1_CcuInstrTransRmtMSToLocMS ''rmtMSId'' rmtMSId instr;
         instr = put CcuV1_CcuInstrTransRmtMSToLocMS ''lengthXnId'' lengthXnId instr;
         instr = put CcuV1_CcuInstrTransRmtMSToLocMS ''channelId'' channelId instr;
         instr = put CcuV1_CcuInstrTransRmtMSToLocMS ''clearType'' (clearType AND 0x1) instr;
         instr = put CcuV1_CcuInstrTransRmtMSToLocMS ''lengthEn'' (lengthEn AND 0x1) instr;
         instr = put CcuV1_CcuInstrTransRmtMSToLocMS ''setCKEId'' setCKEId instr;
         instr = put CcuV1_CcuInstrTransRmtMSToLocMS ''setCKEMask'' setCKEMask instr;
         instr = put CcuV1_CcuInstrTransRmtMSToLocMS ''waitCKEId'' waitCKEId instr;
         instr = put CcuV1_CcuInstrTransRmtMSToLocMS ''waitCKEMask'' waitCKEMask instr
     in instr)"

definition TransLocMSToRmtMSInstr ::
  "CcuInstr \<Rightarrow> u16 \<Rightarrow> u16 \<Rightarrow> u16 \<Rightarrow> u16 \<Rightarrow> u16 \<Rightarrow> u16 \<Rightarrow> u16 \<Rightarrow> u16 \<Rightarrow> u16 \<Rightarrow> u16 \<Rightarrow> u16 \<Rightarrow>
    u16 \<Rightarrow> CcuInstr" where
  "TransLocMSToRmtMSInstr instr rmtMSId locMSId lengthXnId channelId setRmtCKEId setRmtCKEMask
    setCKEId setCKEMask waitCKEId waitCKEMask clearType lengthEn =
    (let instr = instr\<lparr>header := InstrHeader V1_TRANS_TYPE V1_TRANSLOCMSTORMTMS_CODE\<rparr>;
         instr = put CcuV1_CcuInstrTransLocMSToRmtMS ''rmtMSId'' rmtMSId instr;
         instr = put CcuV1_CcuInstrTransLocMSToRmtMS ''locMSId'' locMSId instr;
         instr = put CcuV1_CcuInstrTransLocMSToRmtMS ''lengthXnId'' lengthXnId instr;
         instr = put CcuV1_CcuInstrTransLocMSToRmtMS ''channelId'' channelId instr;
         instr = put CcuV1_CcuInstrTransLocMSToRmtMS ''setRmtCKEId'' setRmtCKEId instr;
         instr = put CcuV1_CcuInstrTransLocMSToRmtMS ''setRmtCKEMask'' setRmtCKEMask instr;
         instr = put CcuV1_CcuInstrTransLocMSToRmtMS ''clearType'' (clearType AND 0x1) instr;
         instr = put CcuV1_CcuInstrTransLocMSToRmtMS ''lengthEn'' (lengthEn AND 0x1) instr;
         instr = put CcuV1_CcuInstrTransLocMSToRmtMS ''setCKEId'' setCKEId instr;
         instr = put CcuV1_CcuInstrTransLocMSToRmtMS ''setCKEMask'' setCKEMask instr;
         instr = put CcuV1_CcuInstrTransLocMSToRmtMS ''waitCKEId'' waitCKEId instr;
         instr = put CcuV1_CcuInstrTransLocMSToRmtMS ''waitCKEMask'' waitCKEMask instr
     in instr)"

definition TransRmtMemToLocMemInstr ::
  "CcuInstr \<Rightarrow> u16 \<Rightarrow> u16 \<Rightarrow> u16 \<Rightarrow> u16 \<Rightarrow> u16 \<Rightarrow> u16 \<Rightarrow> u16 \<Rightarrow> u16 \<Rightarrow> u16 \<Rightarrow> u16 \<Rightarrow> u16 \<Rightarrow>
    u16 \<Rightarrow> u16 \<Rightarrow> u16 \<Rightarrow> u16 \<Rightarrow> CcuInstr" where
  "TransRmtMemToLocMemInstr instr locGSAId locXnId rmtGSAId rmtXnId lengthXnId channelId
    reduceDataType reduceOpCode setCKEId setCKEMask waitCKEId waitCKEMask clearType lengthEn
    reduceEn =
    (let instr = instr\<lparr>header := InstrHeader V1_TRANS_TYPE V1_TRANSRMTMEMTOLOCMEM_CODE\<rparr>;
         instr = put CcuV1_CcuInstrTransRmtMemToLocMem ''locGSAId'' locGSAId instr;
         instr = put CcuV1_CcuInstrTransRmtMemToLocMem ''locXnId'' locXnId instr;
         instr = put CcuV1_CcuInstrTransRmtMemToLocMem ''rmtGSAId'' rmtGSAId instr;
         instr = put CcuV1_CcuInstrTransRmtMemToLocMem ''rmtXnId'' rmtXnId instr;
         instr = put CcuV1_CcuInstrTransRmtMemToLocMem ''lengthXnId'' lengthXnId instr;
         instr = put CcuV1_CcuInstrTransRmtMemToLocMem ''channelId'' channelId instr;
         instr = put CcuV1_CcuInstrTransRmtMemToLocMem ''udfType'' (0 :: u16) instr;
         instr = put CcuV1_CcuInstrTransRmtMemToLocMem ''reduceDataType'' (reduceDataType AND 0xf) instr;
         instr = put CcuV1_CcuInstrTransRmtMemToLocMem ''reduceOpCode'' (reduceOpCode AND 0xf) instr;
         instr = put CcuV1_CcuInstrTransRmtMemToLocMem ''clearType'' (clearType AND 0x1) instr;
         instr = put CcuV1_CcuInstrTransRmtMemToLocMem ''lengthEn'' (lengthEn AND 0x1) instr;
         instr = put CcuV1_CcuInstrTransRmtMemToLocMem ''reduceEn'' (reduceEn AND 0x1) instr;
         instr = put CcuV1_CcuInstrTransRmtMemToLocMem ''setCKEId'' setCKEId instr;
         instr = put CcuV1_CcuInstrTransRmtMemToLocMem ''setCKEMask'' setCKEMask instr;
         instr = put CcuV1_CcuInstrTransRmtMemToLocMem ''waitCKEId'' waitCKEId instr;
         instr = put CcuV1_CcuInstrTransRmtMemToLocMem ''waitCKEMask'' waitCKEMask instr
     in instr)"

definition TransLocMemToRmtMemInstr ::
  "CcuInstr \<Rightarrow> u16 \<Rightarrow> u16 \<Rightarrow> u16 \<Rightarrow> u16 \<Rightarrow> u16 \<Rightarrow> u16 \<Rightarrow> u16 \<Rightarrow> u16 \<Rightarrow> u16 \<Rightarrow> u16 \<Rightarrow> u16 \<Rightarrow>
    u16 \<Rightarrow> u16 \<Rightarrow> u16 \<Rightarrow> u16 \<Rightarrow> CcuInstr" where
  "TransLocMemToRmtMemInstr instr rmtGSAId rmtXnId locGSAId locXnId lengthXnId channelId
    reduceDataType reduceOpCode setCKEId setCKEMask waitCKEId waitCKEMask clearType lengthEn
    reduceEn =
    (let instr = instr\<lparr>header := InstrHeader V1_TRANS_TYPE V1_TRANSLOCMEMTORMTMEM_CODE\<rparr>;
         instr = put CcuV1_CcuInstrTransLocMemToRmtMem ''rmtGSAId'' rmtGSAId instr;
         instr = put CcuV1_CcuInstrTransLocMemToRmtMem ''rmtXnId'' rmtXnId instr;
         instr = put CcuV1_CcuInstrTransLocMemToRmtMem ''locGSAId'' locGSAId instr;
         instr = put CcuV1_CcuInstrTransLocMemToRmtMem ''locXnId'' locXnId instr;
         instr = put CcuV1_CcuInstrTransLocMemToRmtMem ''lengthXnId'' lengthXnId instr;
         instr = put CcuV1_CcuInstrTransLocMemToRmtMem ''channelId'' channelId instr;
         instr = put CcuV1_CcuInstrTransLocMemToRmtMem ''udfType'' (0 :: u16) instr;
         instr = put CcuV1_CcuInstrTransLocMemToRmtMem ''reduceDataType'' (reduceDataType AND 0xf) instr;
         instr = put CcuV1_CcuInstrTransLocMemToRmtMem ''reduceOpCode'' (reduceOpCode AND 0xf) instr;
         instr = put CcuV1_CcuInstrTransLocMemToRmtMem ''clearType'' (clearType AND 0x1) instr;
         instr = put CcuV1_CcuInstrTransLocMemToRmtMem ''lengthEn'' (lengthEn AND 0x1) instr;
         instr = put CcuV1_CcuInstrTransLocMemToRmtMem ''reduceEn'' (reduceEn AND 0x1) instr;
         instr = put CcuV1_CcuInstrTransLocMemToRmtMem ''setCKEId'' setCKEId instr;
         instr = put CcuV1_CcuInstrTransLocMemToRmtMem ''setCKEMask'' setCKEMask instr;
         instr = put CcuV1_CcuInstrTransLocMemToRmtMem ''waitCKEId'' waitCKEId instr;
         instr = put CcuV1_CcuInstrTransLocMemToRmtMem ''waitCKEMask'' waitCKEMask instr
     in instr)"

definition TransLocMemToLocMemInstr ::
  "CcuInstr \<Rightarrow> u16 \<Rightarrow> u16 \<Rightarrow> u16 \<Rightarrow> u16 \<Rightarrow> u16 \<Rightarrow> u16 \<Rightarrow> u16 \<Rightarrow> u16 \<Rightarrow> u16 \<Rightarrow> u16 \<Rightarrow> u16 \<Rightarrow>
    u16 \<Rightarrow> CcuInstr" where
  "TransLocMemToLocMemInstr instr dstGSAId dstXnId srcGSAId srcXnId lengthXnId channelId
    setCKEId setCKEMask waitCKEId waitCKEMask clearType lengthEn =
    (let instr = instr\<lparr>header := InstrHeader V1_TRANS_TYPE V1_TRANSLOCMEMTOLOCMEM_CODE\<rparr>;
         instr = put CcuV1_CcuInstrTransLocMemToLocMem ''dstGSAId'' dstGSAId instr;
         instr = put CcuV1_CcuInstrTransLocMemToLocMem ''dstXnId'' dstXnId instr;
         instr = put CcuV1_CcuInstrTransLocMemToLocMem ''srcGSAId'' srcGSAId instr;
         instr = put CcuV1_CcuInstrTransLocMemToLocMem ''srcXnId'' srcXnId instr;
         instr = put CcuV1_CcuInstrTransLocMemToLocMem ''lengthXnId'' lengthXnId instr;
         instr = put CcuV1_CcuInstrTransLocMemToLocMem ''channelId'' channelId instr;
         instr = put CcuV1_CcuInstrTransLocMemToLocMem ''clearType'' (clearType AND 0x1) instr;
         instr = put CcuV1_CcuInstrTransLocMemToLocMem ''lengthEn'' (lengthEn AND 0x1) instr;
         instr = put CcuV1_CcuInstrTransLocMemToLocMem ''setCKEId'' setCKEId instr;
         instr = put CcuV1_CcuInstrTransLocMemToLocMem ''setCKEMask'' setCKEMask instr;
         instr = put CcuV1_CcuInstrTransLocMemToLocMem ''waitCKEId'' waitCKEId instr;
         instr = put CcuV1_CcuInstrTransLocMemToLocMem ''waitCKEMask'' waitCKEMask instr
     in instr)"

definition SyncCKEInstr ::
  "CcuInstr \<Rightarrow> u16 \<Rightarrow> u16 \<Rightarrow> u16 \<Rightarrow> u16 \<Rightarrow> u16 \<Rightarrow> u16 \<Rightarrow> u16 \<Rightarrow> u16 \<Rightarrow> u16 \<Rightarrow> CcuInstr" where
  "SyncCKEInstr instr rmtCKEId locCKEId locCKEMask channelId setCKEId setCKEMask waitCKEId
    waitCKEMask clearType =
    (let instr = instr\<lparr>header := InstrHeader V1_TRANS_TYPE V1_SYNCCKE_CODE\<rparr>;
         instr = put CcuV1_CcuInstrSyncCKE ''rmtCKEId'' rmtCKEId instr;
         instr = put CcuV1_CcuInstrSyncCKE ''locCKEId'' locCKEId instr;
         instr = put CcuV1_CcuInstrSyncCKE ''locCKEMask'' locCKEMask instr;
         instr = put CcuV1_CcuInstrSyncCKE ''channelId'' channelId instr;
         instr = put CcuV1_CcuInstrSyncCKE ''clearType'' (clearType AND 0x1) instr;
         instr = put CcuV1_CcuInstrSyncCKE ''setCKEId'' setCKEId instr;
         instr = put CcuV1_CcuInstrSyncCKE ''setCKEMask'' setCKEMask instr;
         instr = put CcuV1_CcuInstrSyncCKE ''waitCKEId'' waitCKEId instr;
         instr = put CcuV1_CcuInstrSyncCKE ''waitCKEMask'' waitCKEMask instr
     in instr)"

definition SyncGSAInstr ::
  "CcuInstr \<Rightarrow> u16 \<Rightarrow> u16 \<Rightarrow> u16 \<Rightarrow> u16 \<Rightarrow> u16 \<Rightarrow> u16 \<Rightarrow> u16 \<Rightarrow> u16 \<Rightarrow> u16 \<Rightarrow> u16 \<Rightarrow>
    CcuInstr" where
  "SyncGSAInstr instr rmtGSAId locGSAId channelId setRmtCKEId setRmtCKEMask setCKEId setCKEMask
    waitCKEId waitCKEMask clearType =
    (let instr = instr\<lparr>header := InstrHeader V1_TRANS_TYPE V1_SYNCGSA_CODE\<rparr>;
         instr = put CcuV1_CcuInstrSyncGSA ''rmtGSAId'' rmtGSAId instr;
         instr = put CcuV1_CcuInstrSyncGSA ''locGSAId'' locGSAId instr;
         instr = put CcuV1_CcuInstrSyncGSA ''channelId'' channelId instr;
         instr = put CcuV1_CcuInstrSyncGSA ''setRmtCKEId'' setRmtCKEId instr;
         instr = put CcuV1_CcuInstrSyncGSA ''setRmtCKEMask'' setRmtCKEMask instr;
         instr = put CcuV1_CcuInstrSyncGSA ''clearType'' (clearType AND 0x1) instr;
         instr = put CcuV1_CcuInstrSyncGSA ''setCKEId'' setCKEId instr;
         instr = put CcuV1_CcuInstrSyncGSA ''setCKEMask'' setCKEMask instr;
         instr = put CcuV1_CcuInstrSyncGSA ''waitCKEId'' waitCKEId instr;
         instr = put CcuV1_CcuInstrSyncGSA ''waitCKEMask'' waitCKEMask instr
     in instr)"

definition SyncXnInstr ::
  "CcuInstr \<Rightarrow> u16 \<Rightarrow> u16 \<Rightarrow> u16 \<Rightarrow> u16 \<Rightarrow> u16 \<Rightarrow> u16 \<Rightarrow> u16 \<Rightarrow> u16 \<Rightarrow> u16 \<Rightarrow> u16 \<Rightarrow>
    CcuInstr" where
  "SyncXnInstr instr rmtXnId locXnId channelId setRmtCKEId setRmtCKEMask setCKEId setCKEMask
    waitCKEId waitCKEMask clearType =
    (let instr = instr\<lparr>header := InstrHeader V1_TRANS_TYPE V1_SYNCXN_CODE\<rparr>;
         instr = put CcuV1_CcuInstrSyncXn ''rmtXnId'' rmtXnId instr;
         instr = put CcuV1_CcuInstrSyncXn ''locXnId'' locXnId instr;
         instr = put CcuV1_CcuInstrSyncXn ''channelId'' channelId instr;
         instr = put CcuV1_CcuInstrSyncXn ''setRmtCKEId'' setRmtCKEId instr;
         instr = put CcuV1_CcuInstrSyncXn ''setRmtCKEMask'' setRmtCKEMask instr;
         instr = put CcuV1_CcuInstrSyncXn ''clearType'' (clearType AND 0x1) instr;
         instr = put CcuV1_CcuInstrSyncXn ''setCKEId'' setCKEId instr;
         instr = put CcuV1_CcuInstrSyncXn ''setCKEMask'' setCKEMask instr;
         instr = put CcuV1_CcuInstrSyncXn ''waitCKEId'' waitCKEId instr;
         instr = put CcuV1_CcuInstrSyncXn ''waitCKEMask'' waitCKEMask instr
     in instr)"

definition AddInstr ::
  "CcuInstr \<Rightarrow> u16 list \<Rightarrow> u16 \<Rightarrow> u16 \<Rightarrow> u16 \<Rightarrow> u16 \<Rightarrow> u16 \<Rightarrow> u16 \<Rightarrow> u16 \<Rightarrow> u16 \<Rightarrow> u16 \<Rightarrow>
    CcuInstr" where
  "AddInstr instr ms count castEn dataType setCKEId setCKEMask waitCKEId waitCKEMask clearType
    XnIdLength =
    (let count = count - 2;
         instr = instr\<lparr>header := InstrHeader V1_REDUCE_TYPE V1_ADD_CODE\<rparr>;
         instr = fold (\<lambda>index instr. put CcuV1_CcuInstrAdd (msId index) (ms ! index) instr)
                     [0..<unat CCU_REDUCE_MAX_MS] instr;
         instr = put CcuV1_CcuInstrAdd ''XnIdLength'' XnIdLength instr;
         instr = put CcuV1_CcuInstrAdd ''count'' (count AND 0x7) instr;
         instr = put CcuV1_CcuInstrAdd ''castEn'' (castEn AND 0x3) instr;
         instr = put CcuV1_CcuInstrAdd ''dataType'' (dataType AND 0x1f) instr;
         instr = put CcuV1_CcuInstrAdd ''clearType'' (clearType AND 0x1) instr;
         instr = put CcuV1_CcuInstrAdd ''setCKEId'' setCKEId instr;
         instr = put CcuV1_CcuInstrAdd ''setCKEMask'' setCKEMask instr;
         instr = put CcuV1_CcuInstrAdd ''waitCKEId'' waitCKEId instr;
         instr = put CcuV1_CcuInstrAdd ''waitCKEMask'' waitCKEMask instr
     in instr)"

definition MaxInstr ::
  "CcuInstr \<Rightarrow> u16 list \<Rightarrow> u16 \<Rightarrow> u16 \<Rightarrow> u16 \<Rightarrow> u16 \<Rightarrow> u16 \<Rightarrow> u16 \<Rightarrow> u16 \<Rightarrow> u16 \<Rightarrow>
    CcuInstr" where
  "MaxInstr instr ms count dataType setCKEId setCKEMask waitCKEId waitCKEMask clearType
    XnIdLength =
    (let count = count - 2;
         instr = instr\<lparr>header := InstrHeader V1_REDUCE_TYPE V1_MAX_CODE\<rparr>;
         instr = fold (\<lambda>index instr. put CcuV1_CcuInstrAdd (msId index) (ms ! index) instr)
                     [0..<unat CCU_REDUCE_MAX_MS] instr;
         instr = put CcuV1_CcuInstrMax ''XnIdLength'' XnIdLength instr;
         instr = put CcuV1_CcuInstrMax ''count'' (count AND 0x7) instr;
         instr = put CcuV1_CcuInstrMax ''dataType'' (dataType AND 0x1f) instr;
         instr = put CcuV1_CcuInstrMax ''clearType'' (clearType AND 0x1) instr;
         instr = put CcuV1_CcuInstrMax ''setCKEId'' setCKEId instr;
         instr = put CcuV1_CcuInstrMax ''setCKEMask'' setCKEMask instr;
         instr = put CcuV1_CcuInstrMax ''waitCKEId'' waitCKEId instr;
         instr = put CcuV1_CcuInstrMax ''waitCKEMask'' waitCKEMask instr
     in instr)"

definition MinInstr ::
  "CcuInstr \<Rightarrow> u16 list \<Rightarrow> u16 \<Rightarrow> u16 \<Rightarrow> u16 \<Rightarrow> u16 \<Rightarrow> u16 \<Rightarrow> u16 \<Rightarrow> u16 \<Rightarrow> u16 \<Rightarrow>
    CcuInstr" where
  "MinInstr instr ms count dataType setCKEId setCKEMask waitCKEId waitCKEMask clearType
    XnIdLength =
    (let count = count - 2;
         instr = instr\<lparr>header := InstrHeader V1_REDUCE_TYPE V1_MIN_CODE\<rparr>;
         instr = fold (\<lambda>index instr. put CcuV1_CcuInstrAdd (msId index) (ms ! index) instr)
                     [0..<unat CCU_REDUCE_MAX_MS] instr;
         instr = put CcuV1_CcuInstrMax ''XnIdLength'' XnIdLength instr;
         instr = put CcuV1_CcuInstrMin ''count'' (count AND 0x7) instr;
         instr = put CcuV1_CcuInstrMin ''dataType'' (dataType AND 0x1f) instr;
         instr = put CcuV1_CcuInstrMin ''clearType'' (clearType AND 0x1) instr;
         instr = put CcuV1_CcuInstrMin ''setCKEId'' setCKEId instr;
         instr = put CcuV1_CcuInstrMin ''setCKEMask'' setCKEMask instr;
         instr = put CcuV1_CcuInstrMin ''waitCKEId'' waitCKEId instr;
         instr = put CcuV1_CcuInstrMin ''waitCKEMask'' waitCKEMask instr
     in instr)"

subsection \<open>What the encoders store\<close>

lemma mod_2_mod_2 [simp]: "(x :: u16) mod 2 mod 2 = x mod 2"
proof -
  have "take_bit (Suc 0) (take_bit (Suc 0) x) = take_bit (Suc 0) x"
    by (simp only: take_bit_take_bit min.idem)
  then show ?thesis
    by (simp add: take_bit_Suc mod_2_eq_odd)
qed

text \<open>The encoders of maximum and minimum store some members through the struct of another reduce
  instruction; the members lie at the same place.\<close>

lemma put_shared_member:
  "put CcuV1_CcuInstrAdd ''msId[0]'' = put CcuV1_CcuInstrMax ''msId[0]''"
  "put CcuV1_CcuInstrAdd ''msId[1]'' = put CcuV1_CcuInstrMax ''msId[1]''"
  "put CcuV1_CcuInstrAdd ''msId[2]'' = put CcuV1_CcuInstrMax ''msId[2]''"
  "put CcuV1_CcuInstrAdd ''msId[3]'' = put CcuV1_CcuInstrMax ''msId[3]''"
  "put CcuV1_CcuInstrAdd ''msId[4]'' = put CcuV1_CcuInstrMax ''msId[4]''"
  "put CcuV1_CcuInstrAdd ''msId[5]'' = put CcuV1_CcuInstrMax ''msId[5]''"
  "put CcuV1_CcuInstrAdd ''msId[6]'' = put CcuV1_CcuInstrMax ''msId[6]''"
  "put CcuV1_CcuInstrAdd ''msId[7]'' = put CcuV1_CcuInstrMax ''msId[7]''"
  by (rule put_alias; simp add: CcuV1_layout_defs)+

lemma put_shared_member_min:
  "put CcuV1_CcuInstrAdd ''msId[0]'' = put CcuV1_CcuInstrMin ''msId[0]''"
  "put CcuV1_CcuInstrAdd ''msId[1]'' = put CcuV1_CcuInstrMin ''msId[1]''"
  "put CcuV1_CcuInstrAdd ''msId[2]'' = put CcuV1_CcuInstrMin ''msId[2]''"
  "put CcuV1_CcuInstrAdd ''msId[3]'' = put CcuV1_CcuInstrMin ''msId[3]''"
  "put CcuV1_CcuInstrAdd ''msId[4]'' = put CcuV1_CcuInstrMin ''msId[4]''"
  "put CcuV1_CcuInstrAdd ''msId[5]'' = put CcuV1_CcuInstrMin ''msId[5]''"
  "put CcuV1_CcuInstrAdd ''msId[6]'' = put CcuV1_CcuInstrMin ''msId[6]''"
  "put CcuV1_CcuInstrAdd ''msId[7]'' = put CcuV1_CcuInstrMin ''msId[7]''"
  "put CcuV1_CcuInstrMax ''XnIdLength'' = put CcuV1_CcuInstrMin ''XnIdLength''"
  by (rule put_alias; simp add: CcuV1_layout_defs)+

lemma LoadSqeArgsToGSAInstr_fields:
  "has_opcode V1_LOAD_TYPE V1_LOADSQEARGSTOGSA_CODE (LoadSqeArgsToGSAInstr i gsaId sqeArgsId)
    \<and> get CcuV1_CcuInstrLoadSqeArgsToGSA ''gsaId'' (LoadSqeArgsToGSAInstr i gsaId sqeArgsId) = gsaId
    \<and> get CcuV1_CcuInstrLoadSqeArgsToGSA ''sqeArgsId'' (LoadSqeArgsToGSAInstr i gsaId sqeArgsId) = sqeArgsId"
  by (simp add: LoadSqeArgsToGSAInstr_def)

lemma LoadSqeArgsToXnInstr_fields:
  "has_opcode V1_LOAD_TYPE V1_LOADSQEARGSTOXN_CODE (LoadSqeArgsToXnInstr i xnId sqeArgsId)
    \<and> get CcuV1_CcuInstrLoadSqeArgsToXn ''xnId'' (LoadSqeArgsToXnInstr i xnId sqeArgsId) = xnId
    \<and> get CcuV1_CcuInstrLoadSqeArgsToXn ''sqeArgsId'' (LoadSqeArgsToXnInstr i xnId sqeArgsId) = sqeArgsId"
  by (simp add: LoadSqeArgsToXnInstr_def)

lemma LoadImdToGSAInstr_fields:
  "has_opcode V1_LOAD_TYPE V1_LOADIMDTOGSA_CODE (LoadImdToGSAInstr i gsaId immediate)
    \<and> get CcuV1_CcuInstrLoadImdToGSA ''gsaId'' (LoadImdToGSAInstr i gsaId immediate) = gsaId
    \<and> get CcuV1_CcuInstrLoadImdToGSA ''immediate'' (LoadImdToGSAInstr i gsaId immediate) = immediate"
  by (simp add: LoadImdToGSAInstr_def)

lemma LoadImdToXnInstr_fields:
  "has_opcode V1_LOAD_TYPE V1_LOADIMDTOXN_CODE (LoadImdToXnInstr i xnId immediate secFlag)
    \<and> get CcuV1_CcuInstrLoadImdToXn ''xnId'' (LoadImdToXnInstr i xnId immediate secFlag) = xnId
    \<and> get CcuV1_CcuInstrLoadImdToXn ''immediate'' (LoadImdToXnInstr i xnId immediate secFlag) = immediate
    \<and> get CcuV1_CcuInstrLoadImdToXn ''secFlag'' (LoadImdToXnInstr i xnId immediate secFlag) = secFlag"
  by (simp add: LoadImdToXnInstr_def)

lemma LoadGSAXnInstr_fields:
  "has_opcode V1_LOAD_TYPE V1_LOADGSAXN_CODE (LoadGSAXnInstr i gsAdId gsAmId xnId)
    \<and> get CcuV1_CcuInstrLoadGSAXn ''gsAdId'' (LoadGSAXnInstr i gsAdId gsAmId xnId) = gsAdId
    \<and> get CcuV1_CcuInstrLoadGSAXn ''gsAmId'' (LoadGSAXnInstr i gsAdId gsAmId xnId) = gsAmId
    \<and> get CcuV1_CcuInstrLoadGSAXn ''xnId'' (LoadGSAXnInstr i gsAdId gsAmId xnId) = xnId"
  by (simp add: LoadGSAXnInstr_def)

lemma LoadGSAGSAInstr_fields:
  "has_opcode V1_LOAD_TYPE V1_LOADGSAGSA_CODE (LoadGSAGSAInstr i gsAdId gsAmId gsAnId)
    \<and> get CcuV1_CcuInstrLoadGSAGSA ''gsAdId'' (LoadGSAGSAInstr i gsAdId gsAmId gsAnId) = gsAdId
    \<and> get CcuV1_CcuInstrLoadGSAGSA ''gsAmId'' (LoadGSAGSAInstr i gsAdId gsAmId gsAnId) = gsAmId
    \<and> get CcuV1_CcuInstrLoadGSAGSA ''gsAnId'' (LoadGSAGSAInstr i gsAdId gsAmId gsAnId) = gsAnId"
  by (simp add: LoadGSAGSAInstr_def)

lemma LoadXXInstr_fields:
  "has_opcode V1_LOAD_TYPE V1_LOADXX_CODE (LoadXXInstr i xdId xmId xnId)
    \<and> get CcuV1_CcuInstrLoadXX ''xdId'' (LoadXXInstr i xdId xmId xnId) = xdId
    \<and> get CcuV1_CcuInstrLoadXX ''xmId'' (LoadXXInstr i xdId xmId xnId) = xmId
    \<and> get CcuV1_CcuInstrLoadXX ''xnId'' (LoadXXInstr i xdId xmId xnId) = xnId"
  by (simp add: LoadXXInstr_def)

lemma LoopInstr_fields:
  "has_opcode V1_CTRL_TYPE V1_LOOP_CODE (LoopInstr i startInstrId endInstrId xnId)
    \<and> get CcuV1_CcuInstrLoop ''startInstrId'' (LoopInstr i startInstrId endInstrId xnId) = startInstrId
    \<and> get CcuV1_CcuInstrLoop ''endInstrId'' (LoopInstr i startInstrId endInstrId xnId) = endInstrId
    \<and> get CcuV1_CcuInstrLoop ''xnId'' (LoopInstr i startInstrId endInstrId xnId) = xnId"
  by (simp add: LoopInstr_def)

lemma LoopGroupInstr_fields:
  "has_opcode V1_CTRL_TYPE V1_LOOPGROUP_CODE (LoopGroupInstr i startLoopInstrId xnId xmId highPerfModeEn)
    \<and> get CcuV1_CcuInstrLoopGroup ''startLoopInstrId'' (LoopGroupInstr i startLoopInstrId xnId xmId highPerfModeEn) = startLoopInstrId
    \<and> get CcuV1_CcuInstrLoopGroup ''xnId'' (LoopGroupInstr i startLoopInstrId xnId xmId highPerfModeEn) = xnId
    \<and> get CcuV1_CcuInstrLoopGroup ''xmId'' (LoopGroupInstr i startLoopInstrId xnId xmId highPerfModeEn) = xmId
    \<and> get CcuV1_CcuInstrLoopGroup ''highPerfModeEn'' (LoopGroupInstr i startLoopInstrId xnId xmId highPerfModeEn) = take_bit 1 highPerfModeEn"
  by (simp add: LoopGroupInstr_def)

lemma SetCKEInstr_fields:
  "has_opcode V1_CTRL_TYPE V1_SETCKE_CODE (SetCKEInstr i setCKEId setCKEMask waitCKEId waitCKEMask clearType)
    \<and> get CcuV1_CcuInstrSetCKE ''clearType'' (SetCKEInstr i setCKEId setCKEMask waitCKEId waitCKEMask clearType) = take_bit 1 clearType
    \<and> get CcuV1_CcuInstrSetCKE ''setCKEId'' (SetCKEInstr i setCKEId setCKEMask waitCKEId waitCKEMask clearType) = setCKEId
    \<and> get CcuV1_CcuInstrSetCKE ''setCKEMask'' (SetCKEInstr i setCKEId setCKEMask waitCKEId waitCKEMask clearType) = setCKEMask
    \<and> get CcuV1_CcuInstrSetCKE ''waitCKEId'' (SetCKEInstr i setCKEId setCKEMask waitCKEId waitCKEMask clearType) = waitCKEId
    \<and> get CcuV1_CcuInstrSetCKE ''waitCKEMask'' (SetCKEInstr i setCKEId setCKEMask waitCKEId waitCKEMask clearType) = waitCKEMask"
  by (simp add: SetCKEInstr_def)

lemma ClearCKEInstr_fields:
  "has_opcode V1_CTRL_TYPE V1_CLEARCKE_CODE (ClearCKEInstr i clearCKEId clearMask waitCKEId waitCKEMask clearType)
    \<and> get CcuV1_CcuInstrClearCKE ''clearType'' (ClearCKEInstr i clearCKEId clearMask waitCKEId waitCKEMask clearType) = take_bit 1 clearType
    \<and> get CcuV1_CcuInstrClearCKE ''clearCKEId'' (ClearCKEInstr i clearCKEId clearMask waitCKEId waitCKEMask clearType) = clearCKEId
    \<and> get CcuV1_CcuInstrClearCKE ''clearMask'' (ClearCKEInstr i clearCKEId clearMask waitCKEId waitCKEMask clearType) = clearMask
    \<and> get CcuV1_CcuInstrClearCKE ''waitCKEId'' (ClearCKEInstr i clearCKEId clearMask waitCKEId waitCKEMask clearType) = waitCKEId
    \<and> get CcuV1_CcuInstrClearCKE ''waitCKEMask'' (ClearCKEInstr i clearCKEId clearMask waitCKEId waitCKEMask clearType) = waitCKEMask"
  by (simp add: ClearCKEInstr_def)

lemma JumpInstr_fields:
  "has_opcode V1_CTRL_TYPE V1_JMP_CODE (JumpInstr i dstInstrXnId conditionXnId expectData)
    \<and> get CcuV1_CcuInstrJmp ''dstInstrXnId'' (JumpInstr i dstInstrXnId conditionXnId expectData) = dstInstrXnId
    \<and> get CcuV1_CcuInstrJmp ''conditionXnId'' (JumpInstr i dstInstrXnId conditionXnId expectData) = conditionXnId
    \<and> get CcuV1_CcuInstrJmp ''expectData'' (JumpInstr i dstInstrXnId conditionXnId expectData) = expectData"
  by (simp add: JumpInstr_def)

lemma TransLocMemToLocMSInstr_fields:
  "has_opcode V1_TRANS_TYPE V1_TRANSLOCMEMTOLOCMS_CODE (TransLocMemToLocMSInstr i locMSId locGSAId locXnId lengthXnId channelId setCKEId setCKEMask waitCKEId waitCKEMask clearType lengthEn)
    \<and> get CcuV1_CcuInstrTransLocMemToLocMS ''locMSId'' (TransLocMemToLocMSInstr i locMSId locGSAId locXnId lengthXnId channelId setCKEId setCKEMask waitCKEId waitCKEMask clearType lengthEn) = locMSId
    \<and> get CcuV1_CcuInstrTransLocMemToLocMS ''locGSAId'' (TransLocMemToLocMSInstr i locMSId locGSAId locXnId lengthXnId channelId setCKEId setCKEMask waitCKEId waitCKEMask clearType lengthEn) = locGSAId
    \<and> get CcuV1_CcuInstrTransLocMemToLocMS ''locXnId'' (TransLocMemToLocMSInstr i locMSId locGSAId locXnId lengthXnId channelId setCKEId setCKEMask waitCKEId waitCKEMask clearType lengthEn) = locXnId
    \<and> get CcuV1_CcuInstrTransLocMemToLocMS ''lengthXnId'' (TransLocMemToLocMSInstr i locMSId locGSAId locXnId lengthXnId channelId setCKEId setCKEMask waitCKEId waitCKEMask clearType lengthEn) = lengthXnId
    \<and> get CcuV1_CcuInstrTransLocMemToLocMS ''channelId'' (TransLocMemToLocMSInstr i locMSId locGSAId locXnId lengthXnId channelId setCKEId setCKEMask waitCKEId waitCKEMask clearType lengthEn) = channelId
    \<and> get CcuV1_CcuInstrTransLocMemToLocMS ''clearType'' (TransLocMemToLocMSInstr i locMSId locGSAId locXnId lengthXnId channelId setCKEId setCKEMask waitCKEId waitCKEMask clearType lengthEn) = take_bit 1 clearType
    \<and> get CcuV1_CcuInstrTransLocMemToLocMS ''lengthEn'' (TransLocMemToLocMSInstr i locMSId locGSAId locXnId lengthXnId channelId setCKEId setCKEMask waitCKEId waitCKEMask clearType lengthEn) = take_bit 1 lengthEn
    \<and> get CcuV1_CcuInstrTransLocMemToLocMS ''setCKEId'' (TransLocMemToLocMSInstr i locMSId locGSAId locXnId lengthXnId channelId setCKEId setCKEMask waitCKEId waitCKEMask clearType lengthEn) = setCKEId
    \<and> get CcuV1_CcuInstrTransLocMemToLocMS ''setCKEMask'' (TransLocMemToLocMSInstr i locMSId locGSAId locXnId lengthXnId channelId setCKEId setCKEMask waitCKEId waitCKEMask clearType lengthEn) = setCKEMask
    \<and> get CcuV1_CcuInstrTransLocMemToLocMS ''waitCKEId'' (TransLocMemToLocMSInstr i locMSId locGSAId locXnId lengthXnId channelId setCKEId setCKEMask waitCKEId waitCKEMask clearType lengthEn) = waitCKEId
    \<and> get CcuV1_CcuInstrTransLocMemToLocMS ''waitCKEMask'' (TransLocMemToLocMSInstr i locMSId locGSAId locXnId lengthXnId channelId setCKEId setCKEMask waitCKEId waitCKEMask clearType lengthEn) = waitCKEMask"
  by (simp add: TransLocMemToLocMSInstr_def)

lemma TransRmtMemToLocMSInstr_fields:
  "has_opcode V1_TRANS_TYPE V1_TRANSRMTMEMTOLOCMS_CODE (TransRmtMemToLocMSInstr i locMSId rmtGSAId rmtXnId lengthXnId channelId setCKEId setCKEMask waitCKEId waitCKEMask clearType lengthEn)
    \<and> get CcuV1_CcuInstrTransRmtMemToLocMS ''locMSId'' (TransRmtMemToLocMSInstr i locMSId rmtGSAId rmtXnId lengthXnId channelId setCKEId setCKEMask waitCKEId waitCKEMask clearType lengthEn) = locMSId
    \<and> get CcuV1_CcuInstrTransRmtMemToLocMS ''rmtGSAId'' (TransRmtMemToLocMSInstr i locMSId rmtGSAId rmtXnId lengthXnId channelId setCKEId setCKEMask waitCKEId waitCKEMask clearType lengthEn) = rmtGSAId
    \<and> get CcuV1_CcuInstrTransRmtMemToLocMS ''rmtXnId'' (TransRmtMemToLocMSInstr i locMSId rmtGSAId rmtXnId lengthXnId channelId setCKEId setCKEMask waitCKEId waitCKEMask clearType lengthEn) = rmtXnId
    \<and> get CcuV1_CcuInstrTransRmtMemToLocMS ''lengthXnId'' (TransRmtMemToLocMSInstr i locMSId rmtGSAId rmtXnId lengthXnId channelId setCKEId setCKEMask waitCKEId waitCKEMask clearType lengthEn) = lengthXnId
    \<and> get CcuV1_CcuInstrTransRmtMemToLocMS ''channelId'' (TransRmtMemToLocMSInstr i locMSId rmtGSAId rmtXnId lengthXnId channelId setCKEId setCKEMask waitCKEId waitCKEMask clearType lengthEn) = channelId
    \<and> get CcuV1_CcuInstrTransRmtMemToLocMS ''clearType'' (TransRmtMemToLocMSInstr i locMSId rmtGSAId rmtXnId lengthXnId channelId setCKEId setCKEMask waitCKEId waitCKEMask clearType lengthEn) = take_bit 1 clearType
    \<and> get CcuV1_CcuInstrTransRmtMemToLocMS ''lengthEn'' (TransRmtMemToLocMSInstr i locMSId rmtGSAId rmtXnId lengthXnId channelId setCKEId setCKEMask waitCKEId waitCKEMask clearType lengthEn) = take_bit 1 lengthEn
    \<and> get CcuV1_CcuInstrTransRmtMemToLocMS ''setCKEId'' (TransRmtMemToLocMSInstr i locMSId rmtGSAId rmtXnId lengthXnId channelId setCKEId setCKEMask waitCKEId waitCKEMask clearType lengthEn) = setCKEId
    \<and> get CcuV1_CcuInstrTransRmtMemToLocMS ''setCKEMask'' (TransRmtMemToLocMSInstr i locMSId rmtGSAId rmtXnId lengthXnId channelId setCKEId setCKEMask waitCKEId waitCKEMask clearType lengthEn) = setCKEMask
    \<and> get CcuV1_CcuInstrTransRmtMemToLocMS ''waitCKEId'' (TransRmtMemToLocMSInstr i locMSId rmtGSAId rmtXnId lengthXnId channelId setCKEId setCKEMask waitCKEId waitCKEMask clearType lengthEn) = waitCKEId
    \<and> get CcuV1_CcuInstrTransRmtMemToLocMS ''waitCKEMask'' (TransRmtMemToLocMSInstr i locMSId rmtGSAId rmtXnId lengthXnId channelId setCKEId setCKEMask waitCKEId waitCKEMask clearType lengthEn) = waitCKEMask"
  by (simp add: TransRmtMemToLocMSInstr_def)

lemma TransLocMSToLocMemInstr_fields:
  "has_opcode V1_TRANS_TYPE V1_TRANSLOCMSTOLOCMEM_CODE (TransLocMSToLocMemInstr i locGSAId locXnId locMSId lengthXnId channelId setCKEId setCKEMask waitCKEId waitCKEMask clearType lengthEn)
    \<and> get CcuV1_CcuInstrTransLocMSToLocMem ''locGSAId'' (TransLocMSToLocMemInstr i locGSAId locXnId locMSId lengthXnId channelId setCKEId setCKEMask waitCKEId waitCKEMask clearType lengthEn) = locGSAId
    \<and> get CcuV1_CcuInstrTransLocMSToLocMem ''locXnId'' (TransLocMSToLocMemInstr i locGSAId locXnId locMSId lengthXnId channelId setCKEId setCKEMask waitCKEId waitCKEMask clearType lengthEn) = locXnId
    \<and> get CcuV1_CcuInstrTransLocMSToLocMem ''locMSId'' (TransLocMSToLocMemInstr i locGSAId locXnId locMSId lengthXnId channelId setCKEId setCKEMask waitCKEId waitCKEMask clearType lengthEn) = locMSId
    \<and> get CcuV1_CcuInstrTransLocMSToLocMem ''lengthXnId'' (TransLocMSToLocMemInstr i locGSAId locXnId locMSId lengthXnId channelId setCKEId setCKEMask waitCKEId waitCKEMask clearType lengthEn) = lengthXnId
    \<and> get CcuV1_CcuInstrTransLocMSToLocMem ''channelId'' (TransLocMSToLocMemInstr i locGSAId locXnId locMSId lengthXnId channelId setCKEId setCKEMask waitCKEId waitCKEMask clearType lengthEn) = channelId
    \<and> get CcuV1_CcuInstrTransLocMSToLocMem ''clearType'' (TransLocMSToLocMemInstr i locGSAId locXnId locMSId lengthXnId channelId setCKEId setCKEMask waitCKEId waitCKEMask clearType lengthEn) = take_bit 1 clearType
    \<and> get CcuV1_CcuInstrTransLocMSToLocMem ''lengthEn'' (TransLocMSToLocMemInstr i locGSAId locXnId locMSId lengthXnId channelId setCKEId setCKEMask waitCKEId waitCKEMask clearType lengthEn) = take_bit 1 lengthEn
    \<and> get CcuV1_CcuInstrTransLocMSToLocMem ''setCKEId'' (TransLocMSToLocMemInstr i locGSAId locXnId locMSId lengthXnId channelId setCKEId setCKEMask waitCKEId waitCKEMask clearType lengthEn) = setCKEId
    \<and> get CcuV1_CcuInstrTransLocMSToLocMem ''setCKEMask'' (TransLocMSToLocMemInstr i locGSAId locXnId locMSId lengthXnId channelId setCKEId setCKEMask waitCKEId waitCKEMask clearType lengthEn) = setCKEMask
    \<and> get CcuV1_CcuInstrTransLocMSToLocMem ''waitCKEId'' (TransLocMSToLocMemInstr i locGSAId locXnId locMSId lengthXnId channelId setCKEId setCKEMask waitCKEId waitCKEMask clearType lengthEn) = waitCKEId
    \<and> get CcuV1_CcuInstrTransLocMSToLocMem ''waitCKEMask'' (TransLocMSToLocMemInstr i locGSAId locXnId locMSId lengthXnId channelId setCKEId setCKEMask waitCKEId waitCKEMask clearType lengthEn) = waitCKEMask"
  by (simp add: TransLocMSToLocMemInstr_def)

lemma TransLocMSToRmtMemInstr_fields:
  "has_opcode V1_TRANS_TYPE V1_TRANSLOCMSTORMTMEM_CODE (TransLocMSToRmtMemInstr i rmtGSAId rmtXnId locMSId lengthXnId channelId setCKEId setCKEMask waitCKEId waitCKEMask clearType lengthEn)
    \<and> get CcuV1_CcuInstrTransLocMSToRmtMem ''rmtGSAId'' (TransLocMSToRmtMemInstr i rmtGSAId rmtXnId locMSId lengthXnId channelId setCKEId setCKEMask waitCKEId waitCKEMask clearType lengthEn) = rmtGSAId
    \<and> get CcuV1_CcuInstrTransLocMSToRmtMem ''rmtXnId'' (TransLocMSToRmtMemInstr i rmtGSAId rmtXnId locMSId lengthXnId channelId setCKEId setCKEMask waitCKEId waitCKEMask clearType lengthEn) = rmtXnId
    \<and> get CcuV1_CcuInstrTransLocMSToRmtMem ''locMSId'' (TransLocMSToRmtMemInstr i rmtGSAId rmtXnId locMSId lengthXnId channelId setCKEId setCKEMask waitCKEId waitCKEMask clearType lengthEn) = locMSId
    \<and> get CcuV1_CcuInstrTransLocMSToRmtMem ''lengthXnId'' (TransLocMSToRmtMemInstr i rmtGSAId rmtXnId locMSId lengthXnId channelId setCKEId setCKEMask waitCKEId waitCKEMask clearType lengthEn) = lengthXnId
    \<and> get CcuV1_CcuInstrTransLocMSToRmtMem ''channelId'' (TransLocMSToRmtMemInstr i rmtGSAId rmtXnId locMSId lengthXnId channelId setCKEId setCKEMask waitCKEId waitCKEMask clearType lengthEn) = channelId
    \<and> get CcuV1_CcuInstrTransLocMSToRmtMem ''clearType'' (TransLocMSToRmtMemInstr i rmtGSAId rmtXnId locMSId lengthXnId channelId setCKEId setCKEMask waitCKEId waitCKEMask clearType lengthEn) = take_bit 1 clearType
    \<and> get CcuV1_CcuInstrTransLocMSToRmtMem ''lengthEn'' (TransLocMSToRmtMemInstr i rmtGSAId rmtXnId locMSId lengthXnId channelId setCKEId setCKEMask waitCKEId waitCKEMask clearType lengthEn) = take_bit 1 lengthEn
    \<and> get CcuV1_CcuInstrTransLocMSToRmtMem ''setCKEId'' (TransLocMSToRmtMemInstr i rmtGSAId rmtXnId locMSId lengthXnId channelId setCKEId setCKEMask waitCKEId waitCKEMask clearType lengthEn) = setCKEId
    \<and> get CcuV1_CcuInstrTransLocMSToRmtMem ''setCKEMask'' (TransLocMSToRmtMemInstr i rmtGSAId rmtXnId locMSId lengthXnId channelId setCKEId setCKEMask waitCKEId waitCKEMask clearType lengthEn) = setCKEMask
    \<and> get CcuV1_CcuInstrTransLocMSToRmtMem ''waitCKEId'' (TransLocMSToRmtMemInstr i rmtGSAId rmtXnId locMSId lengthXnId channelId setCKEId setCKEMask waitCKEId waitCKEMask clearType lengthEn) = waitCKEId
    \<and> get CcuV1_CcuInstrTransLocMSToRmtMem ''waitCKEMask'' (TransLocMSToRmtMemInstr i rmtGSAId rmtXnId locMSId lengthXnId channelId setCKEId setCKEMask waitCKEId waitCKEMask clearType lengthEn) = waitCKEMask"
  by (simp add: TransLocMSToRmtMemInstr_def)

lemma TransRmtMSToLocMemInstr_fields:
  "has_opcode V1_TRANS_TYPE V1_TRANSRMTMSTOLOCMEM_CODE (TransRmtMSToLocMemInstr i locGSAId locXnId rmtMSId lengthXnId channelId setCKEId setCKEMask waitCKEId waitCKEMask clearType lengthEn)
    \<and> get CcuV1_CcuInstrTransRmtMSToLocMem ''locGSAId'' (TransRmtMSToLocMemInstr i locGSAId locXnId rmtMSId lengthXnId channelId setCKEId setCKEMask waitCKEId waitCKEMask clearType lengthEn) = locGSAId
    \<and> get CcuV1_CcuInstrTransRmtMSToLocMem ''locXnId'' (TransRmtMSToLocMemInstr i locGSAId locXnId rmtMSId lengthXnId channelId setCKEId setCKEMask waitCKEId waitCKEMask clearType lengthEn) = locXnId
    \<and> get CcuV1_CcuInstrTransRmtMSToLocMem ''rmtMSId'' (TransRmtMSToLocMemInstr i locGSAId locXnId rmtMSId lengthXnId channelId setCKEId setCKEMask waitCKEId waitCKEMask clearType lengthEn) = rmtMSId
    \<and> get CcuV1_CcuInstrTransRmtMSToLocMem ''lengthXnId'' (TransRmtMSToLocMemInstr i locGSAId locXnId rmtMSId lengthXnId channelId setCKEId setCKEMask waitCKEId waitCKEMask clearType lengthEn) = lengthXnId
    \<and> get CcuV1_CcuInstrTransRmtMSToLocMem ''channelId'' (TransRmtMSToLocMemInstr i locGSAId locXnId rmtMSId lengthXnId channelId setCKEId setCKEMask waitCKEId waitCKEMask clearType lengthEn) = channelId
    \<and> get CcuV1_CcuInstrTransRmtMSToLocMem ''clearType'' (TransRmtMSToLocMemInstr i locGSAId locXnId rmtMSId lengthXnId channelId setCKEId setCKEMask waitCKEId waitCKEMask clearType lengthEn) = take_bit 1 clearType
    \<and> get CcuV1_CcuInstrTransRmtMSToLocMem ''lengthEn'' (TransRmtMSToLocMemInstr i locGSAId locXnId rmtMSId lengthXnId channelId setCKEId setCKEMask waitCKEId waitCKEMask clearType lengthEn) = take_bit 1 lengthEn
    \<and> get CcuV1_CcuInstrTransRmtMSToLocMem ''setCKEId'' (TransRmtMSToLocMemInstr i locGSAId locXnId rmtMSId lengthXnId channelId setCKEId setCKEMask waitCKEId waitCKEMask clearType lengthEn) = setCKEId
    \<and> get CcuV1_CcuInstrTransRmtMSToLocMem ''setCKEMask'' (TransRmtMSToLocMemInstr i locGSAId locXnId rmtMSId lengthXnId channelId setCKEId setCKEMask waitCKEId waitCKEMask clearType lengthEn) = setCKEMask
    \<and> get CcuV1_CcuInstrTransRmtMSToLocMem ''waitCKEId'' (TransRmtMSToLocMemInstr i locGSAId locXnId rmtMSId lengthXnId channelId setCKEId setCKEMask waitCKEId waitCKEMask clearType lengthEn) = waitCKEId
    \<and> get CcuV1_CcuInstrTransRmtMSToLocMem ''waitCKEMask'' (TransRmtMSToLocMemInstr i locGSAId locXnId rmtMSId lengthXnId channelId setCKEId setCKEMask waitCKEId waitCKEMask clearType lengthEn) = waitCKEMask"
  by (simp add: TransRmtMSToLocMemInstr_def)

lemma TransLocMSToLocMSInstr_fields:
  "has_opcode V1_TRANS_TYPE V1_TRANSLOCMSTOLOCMS_CODE (TransLocMSToLocMSInstr i dstMSId srcMSId lengthXnId channelId setCKEId setCKEMask waitCKEId waitCKEMask clearType lengthEn)
    \<and> get CcuV1_CcuInstrTransLocMSToLocMS ''dstMSId'' (TransLocMSToLocMSInstr i dstMSId srcMSId lengthXnId channelId setCKEId setCKEMask waitCKEId waitCKEMask clearType lengthEn) = dstMSId
    \<and> get CcuV1_CcuInstrTransLocMSToLocMS ''srcMSId'' (TransLocMSToLocMSInstr i dstMSId srcMSId lengthXnId channelId setCKEId setCKEMask waitCKEId waitCKEMask clearType lengthEn) = srcMSId
    \<and> get CcuV1_CcuInstrTransLocMSToLocMS ''lengthXnId'' (TransLocMSToLocMSInstr i dstMSId srcMSId lengthXnId channelId setCKEId setCKEMask waitCKEId waitCKEMask clearType lengthEn) = lengthXnId
    \<and> get CcuV1_CcuInstrTransLocMSToLocMS ''channelId'' (TransLocMSToLocMSInstr i dstMSId srcMSId lengthXnId channelId setCKEId setCKEMask waitCKEId waitCKEMask clearType lengthEn) = channelId
    \<and> get CcuV1_CcuInstrTransLocMSToLocMS ''clearType'' (TransLocMSToLocMSInstr i dstMSId srcMSId lengthXnId channelId setCKEId setCKEMask waitCKEId waitCKEMask clearType lengthEn) = take_bit 1 clearType
    \<and> get CcuV1_CcuInstrTransLocMSToLocMS ''lengthEn'' (TransLocMSToLocMSInstr i dstMSId srcMSId lengthXnId channelId setCKEId setCKEMask waitCKEId waitCKEMask clearType lengthEn) = take_bit 1 lengthEn
    \<and> get CcuV1_CcuInstrTransLocMSToLocMS ''setCKEId'' (TransLocMSToLocMSInstr i dstMSId srcMSId lengthXnId channelId setCKEId setCKEMask waitCKEId waitCKEMask clearType lengthEn) = setCKEId
    \<and> get CcuV1_CcuInstrTransLocMSToLocMS ''setCKEMask'' (TransLocMSToLocMSInstr i dstMSId srcMSId lengthXnId channelId setCKEId setCKEMask waitCKEId waitCKEMask clearType lengthEn) = setCKEMask
    \<and> get CcuV1_CcuInstrTransLocMSToLocMS ''waitCKEId'' (TransLocMSToLocMSInstr i dstMSId srcMSId lengthXnId channelId setCKEId setCKEMask waitCKEId waitCKEMask clearType lengthEn) = waitCKEId
    \<and> get CcuV1_CcuInstrTransLocMSToLocMS ''waitCKEMask'' (TransLocMSToLocMSInstr i dstMSId srcMSId lengthXnId channelId setCKEId setCKEMask waitCKEId waitCKEMask clearType lengthEn) = waitCKEMask"
  by (simp add: TransLocMSToLocMSInstr_def)

lemma TransRmtMSToLocMSInstr_fields:
  "has_opcode V1_TRANS_TYPE V1_TRANSRMTMSTOLOCMS_CODE (TransRmtMSToLocMSInstr i locMSId rmtMSId lengthXnId channelId setCKEId setCKEMask waitCKEId waitCKEMask clearType lengthEn)
    \<and> get CcuV1_CcuInstrTransRmtMSToLocMS ''locMSId'' (TransRmtMSToLocMSInstr i locMSId rmtMSId lengthXnId channelId setCKEId setCKEMask waitCKEId waitCKEMask clearType lengthEn) = locMSId
    \<and> get CcuV1_CcuInstrTransRmtMSToLocMS ''rmtMSId'' (TransRmtMSToLocMSInstr i locMSId rmtMSId lengthXnId channelId setCKEId setCKEMask waitCKEId waitCKEMask clearType lengthEn) = rmtMSId
    \<and> get CcuV1_CcuInstrTransRmtMSToLocMS ''lengthXnId'' (TransRmtMSToLocMSInstr i locMSId rmtMSId lengthXnId channelId setCKEId setCKEMask waitCKEId waitCKEMask clearType lengthEn) = lengthXnId
    \<and> get CcuV1_CcuInstrTransRmtMSToLocMS ''channelId'' (TransRmtMSToLocMSInstr i locMSId rmtMSId lengthXnId channelId setCKEId setCKEMask waitCKEId waitCKEMask clearType lengthEn) = channelId
    \<and> get CcuV1_CcuInstrTransRmtMSToLocMS ''clearType'' (TransRmtMSToLocMSInstr i locMSId rmtMSId lengthXnId channelId setCKEId setCKEMask waitCKEId waitCKEMask clearType lengthEn) = take_bit 1 clearType
    \<and> get CcuV1_CcuInstrTransRmtMSToLocMS ''lengthEn'' (TransRmtMSToLocMSInstr i locMSId rmtMSId lengthXnId channelId setCKEId setCKEMask waitCKEId waitCKEMask clearType lengthEn) = take_bit 1 lengthEn
    \<and> get CcuV1_CcuInstrTransRmtMSToLocMS ''setCKEId'' (TransRmtMSToLocMSInstr i locMSId rmtMSId lengthXnId channelId setCKEId setCKEMask waitCKEId waitCKEMask clearType lengthEn) = setCKEId
    \<and> get CcuV1_CcuInstrTransRmtMSToLocMS ''setCKEMask'' (TransRmtMSToLocMSInstr i locMSId rmtMSId lengthXnId channelId setCKEId setCKEMask waitCKEId waitCKEMask clearType lengthEn) = setCKEMask
    \<and> get CcuV1_CcuInstrTransRmtMSToLocMS ''waitCKEId'' (TransRmtMSToLocMSInstr i locMSId rmtMSId lengthXnId channelId setCKEId setCKEMask waitCKEId waitCKEMask clearType lengthEn) = waitCKEId
    \<and> get CcuV1_CcuInstrTransRmtMSToLocMS ''waitCKEMask'' (TransRmtMSToLocMSInstr i locMSId rmtMSId lengthXnId channelId setCKEId setCKEMask waitCKEId waitCKEMask clearType lengthEn) = waitCKEMask"
  by (simp add: TransRmtMSToLocMSInstr_def)

lemma TransLocMSToRmtMSInstr_fields:
  "has_opcode V1_TRANS_TYPE V1_TRANSLOCMSTORMTMS_CODE (TransLocMSToRmtMSInstr i rmtMSId locMSId lengthXnId channelId setRmtCKEId setRmtCKEMask setCKEId setCKEMask waitCKEId waitCKEMask clearType lengthEn)
    \<and> get CcuV1_CcuInstrTransLocMSToRmtMS ''rmtMSId'' (TransLocMSToRmtMSInstr i rmtMSId locMSId lengthXnId channelId setRmtCKEId setRmtCKEMask setCKEId setCKEMask waitCKEId waitCKEMask clearType lengthEn) = rmtMSId
    \<and> get CcuV1_CcuInstrTransLocMSToRmtMS ''locMSId'' (TransLocMSToRmtMSInstr i rmtMSId locMSId lengthXnId channelId setRmtCKEId setRmtCKEMask setCKEId setCKEMask waitCKEId waitCKEMask clearType lengthEn) = locMSId
    \<and> get CcuV1_CcuInstrTransLocMSToRmtMS ''lengthXnId'' (TransLocMSToRmtMSInstr i rmtMSId locMSId lengthXnId channelId setRmtCKEId setRmtCKEMask setCKEId setCKEMask waitCKEId waitCKEMask clearType lengthEn) = lengthXnId
    \<and> get CcuV1_CcuInstrTransLocMSToRmtMS ''channelId'' (TransLocMSToRmtMSInstr i rmtMSId locMSId lengthXnId channelId setRmtCKEId setRmtCKEMask setCKEId setCKEMask waitCKEId waitCKEMask clearType lengthEn) = channelId
    \<and> get CcuV1_CcuInstrTransLocMSToRmtMS ''setRmtCKEId'' (TransLocMSToRmtMSInstr i rmtMSId locMSId lengthXnId channelId setRmtCKEId setRmtCKEMask setCKEId setCKEMask waitCKEId waitCKEMask clearType lengthEn) = setRmtCKEId
    \<and> get CcuV1_CcuInstrTransLocMSToRmtMS ''setRmtCKEMask'' (TransLocMSToRmtMSInstr i rmtMSId locMSId lengthXnId channelId setRmtCKEId setRmtCKEMask setCKEId setCKEMask waitCKEId waitCKEMask clearType lengthEn) = setRmtCKEMask
    \<and> get CcuV1_CcuInstrTransLocMSToRmtMS ''clearType'' (TransLocMSToRmtMSInstr i rmtMSId locMSId lengthXnId channelId setRmtCKEId setRmtCKEMask setCKEId setCKEMask waitCKEId waitCKEMask clearType lengthEn) = take_bit 1 clearType
    \<and> get CcuV1_CcuInstrTransLocMSToRmtMS ''lengthEn'' (TransLocMSToRmtMSInstr i rmtMSId locMSId lengthXnId channelId setRmtCKEId setRmtCKEMask setCKEId setCKEMask waitCKEId waitCKEMask clearType lengthEn) = take_bit 1 lengthEn
    \<and> get CcuV1_CcuInstrTransLocMSToRmtMS ''setCKEId'' (TransLocMSToRmtMSInstr i rmtMSId locMSId lengthXnId channelId setRmtCKEId setRmtCKEMask setCKEId setCKEMask waitCKEId waitCKEMask clearType lengthEn) = setCKEId
    \<and> get CcuV1_CcuInstrTransLocMSToRmtMS ''setCKEMask'' (TransLocMSToRmtMSInstr i rmtMSId locMSId lengthXnId channelId setRmtCKEId setRmtCKEMask setCKEId setCKEMask waitCKEId waitCKEMask clearType lengthEn) = setCKEMask
    \<and> get CcuV1_CcuInstrTransLocMSToRmtMS ''waitCKEId'' (TransLocMSToRmtMSInstr i rmtMSId locMSId lengthXnId channelId setRmtCKEId setRmtCKEMask setCKEId setCKEMask waitCKEId waitCKEMask clearType lengthEn) = waitCKEId
    \<and> get CcuV1_CcuInstrTransLocMSToRmtMS ''waitCKEMask'' (TransLocMSToRmtMSInstr i rmtMSId locMSId lengthXnId channelId setRmtCKEId setRmtCKEMask setCKEId setCKEMask waitCKEId waitCKEMask clearType lengthEn) = waitCKEMask"
  by (simp add: TransLocMSToRmtMSInstr_def)

lemma TransRmtMemToLocMemInstr_fields:
  "has_opcode V1_TRANS_TYPE V1_TRANSRMTMEMTOLOCMEM_CODE (TransRmtMemToLocMemInstr i locGSAId locXnId rmtGSAId rmtXnId lengthXnId channelId reduceDataType reduceOpCode setCKEId setCKEMask waitCKEId waitCKEMask clearType lengthEn reduceEn)
    \<and> get CcuV1_CcuInstrTransRmtMemToLocMem ''locGSAId'' (TransRmtMemToLocMemInstr i locGSAId locXnId rmtGSAId rmtXnId lengthXnId channelId reduceDataType reduceOpCode setCKEId setCKEMask waitCKEId waitCKEMask clearType lengthEn reduceEn) = locGSAId
    \<and> get CcuV1_CcuInstrTransRmtMemToLocMem ''locXnId'' (TransRmtMemToLocMemInstr i locGSAId locXnId rmtGSAId rmtXnId lengthXnId channelId reduceDataType reduceOpCode setCKEId setCKEMask waitCKEId waitCKEMask clearType lengthEn reduceEn) = locXnId
    \<and> get CcuV1_CcuInstrTransRmtMemToLocMem ''rmtGSAId'' (TransRmtMemToLocMemInstr i locGSAId locXnId rmtGSAId rmtXnId lengthXnId channelId reduceDataType reduceOpCode setCKEId setCKEMask waitCKEId waitCKEMask clearType lengthEn reduceEn) = rmtGSAId
    \<and> get CcuV1_CcuInstrTransRmtMemToLocMem ''rmtXnId'' (TransRmtMemToLocMemInstr i locGSAId locXnId rmtGSAId rmtXnId lengthXnId channelId reduceDataType reduceOpCode setCKEId setCKEMask waitCKEId waitCKEMask clearType lengthEn reduceEn) = rmtXnId
    \<and> get CcuV1_CcuInstrTransRmtMemToLocMem ''lengthXnId'' (TransRmtMemToLocMemInstr i locGSAId locXnId rmtGSAId rmtXnId lengthXnId channelId reduceDataType reduceOpCode setCKEId setCKEMask waitCKEId waitCKEMask clearType lengthEn reduceEn) = lengthXnId
    \<and> get CcuV1_CcuInstrTransRmtMemToLocMem ''channelId'' (TransRmtMemToLocMemInstr i locGSAId locXnId rmtGSAId rmtXnId lengthXnId channelId reduceDataType reduceOpCode setCKEId setCKEMask waitCKEId waitCKEMask clearType lengthEn reduceEn) = channelId
    \<and> get CcuV1_CcuInstrTransRmtMemToLocMem ''udfType'' (TransRmtMemToLocMemInstr i locGSAId locXnId rmtGSAId rmtXnId lengthXnId channelId reduceDataType reduceOpCode setCKEId setCKEMask waitCKEId waitCKEMask clearType lengthEn reduceEn) = (0 :: u16)
    \<and> get CcuV1_CcuInstrTransRmtMemToLocMem ''reduceDataType'' (TransRmtMemToLocMemInstr i locGSAId locXnId rmtGSAId rmtXnId lengthXnId channelId reduceDataType reduceOpCode setCKEId setCKEMask waitCKEId waitCKEMask clearType lengthEn reduceEn) = take_bit 4 reduceDataType
    \<and> get CcuV1_CcuInstrTransRmtMemToLocMem ''reduceOpCode'' (TransRmtMemToLocMemInstr i locGSAId locXnId rmtGSAId rmtXnId lengthXnId channelId reduceDataType reduceOpCode setCKEId setCKEMask waitCKEId waitCKEMask clearType lengthEn reduceEn) = take_bit 4 reduceOpCode
    \<and> get CcuV1_CcuInstrTransRmtMemToLocMem ''clearType'' (TransRmtMemToLocMemInstr i locGSAId locXnId rmtGSAId rmtXnId lengthXnId channelId reduceDataType reduceOpCode setCKEId setCKEMask waitCKEId waitCKEMask clearType lengthEn reduceEn) = take_bit 1 clearType
    \<and> get CcuV1_CcuInstrTransRmtMemToLocMem ''lengthEn'' (TransRmtMemToLocMemInstr i locGSAId locXnId rmtGSAId rmtXnId lengthXnId channelId reduceDataType reduceOpCode setCKEId setCKEMask waitCKEId waitCKEMask clearType lengthEn reduceEn) = take_bit 1 lengthEn
    \<and> get CcuV1_CcuInstrTransRmtMemToLocMem ''reduceEn'' (TransRmtMemToLocMemInstr i locGSAId locXnId rmtGSAId rmtXnId lengthXnId channelId reduceDataType reduceOpCode setCKEId setCKEMask waitCKEId waitCKEMask clearType lengthEn reduceEn) = take_bit 1 reduceEn
    \<and> get CcuV1_CcuInstrTransRmtMemToLocMem ''setCKEId'' (TransRmtMemToLocMemInstr i locGSAId locXnId rmtGSAId rmtXnId lengthXnId channelId reduceDataType reduceOpCode setCKEId setCKEMask waitCKEId waitCKEMask clearType lengthEn reduceEn) = setCKEId
    \<and> get CcuV1_CcuInstrTransRmtMemToLocMem ''setCKEMask'' (TransRmtMemToLocMemInstr i locGSAId locXnId rmtGSAId rmtXnId lengthXnId channelId reduceDataType reduceOpCode setCKEId setCKEMask waitCKEId waitCKEMask clearType lengthEn reduceEn) = setCKEMask
    \<and> get CcuV1_CcuInstrTransRmtMemToLocMem ''waitCKEId'' (TransRmtMemToLocMemInstr i locGSAId locXnId rmtGSAId rmtXnId lengthXnId channelId reduceDataType reduceOpCode setCKEId setCKEMask waitCKEId waitCKEMask clearType lengthEn reduceEn) = waitCKEId
    \<and> get CcuV1_CcuInstrTransRmtMemToLocMem ''waitCKEMask'' (TransRmtMemToLocMemInstr i locGSAId locXnId rmtGSAId rmtXnId lengthXnId channelId reduceDataType reduceOpCode setCKEId setCKEMask waitCKEId waitCKEMask clearType lengthEn reduceEn) = waitCKEMask"
  by (simp add: TransRmtMemToLocMemInstr_def)

lemma TransLocMemToRmtMemInstr_fields:
  "has_opcode V1_TRANS_TYPE V1_TRANSLOCMEMTORMTMEM_CODE (TransLocMemToRmtMemInstr i rmtGSAId rmtXnId locGSAId locXnId lengthXnId channelId reduceDataType reduceOpCode setCKEId setCKEMask waitCKEId waitCKEMask clearType lengthEn reduceEn)
    \<and> get CcuV1_CcuInstrTransLocMemToRmtMem ''rmtGSAId'' (TransLocMemToRmtMemInstr i rmtGSAId rmtXnId locGSAId locXnId lengthXnId channelId reduceDataType reduceOpCode setCKEId setCKEMask waitCKEId waitCKEMask clearType lengthEn reduceEn) = rmtGSAId
    \<and> get CcuV1_CcuInstrTransLocMemToRmtMem ''rmtXnId'' (TransLocMemToRmtMemInstr i rmtGSAId rmtXnId locGSAId locXnId lengthXnId channelId reduceDataType reduceOpCode setCKEId setCKEMask waitCKEId waitCKEMask clearType lengthEn reduceEn) = rmtXnId
    \<and> get CcuV1_CcuInstrTransLocMemToRmtMem ''locGSAId'' (TransLocMemToRmtMemInstr i rmtGSAId rmtXnId locGSAId locXnId lengthXnId channelId reduceDataType reduceOpCode setCKEId setCKEMask waitCKEId waitCKEMask clearType lengthEn reduceEn) = locGSAId
    \<and> get CcuV1_CcuInstrTransLocMemToRmtMem ''locXnId'' (TransLocMemToRmtMemInstr i rmtGSAId rmtXnId locGSAId locXnId lengthXnId channelId reduceDataType reduceOpCode setCKEId setCKEMask waitCKEId waitCKEMask clearType lengthEn reduceEn) = locXnId
    \<and> get CcuV1_CcuInstrTransLocMemToRmtMem ''lengthXnId'' (TransLocMemToRmtMemInstr i rmtGSAId rmtXnId locGSAId locXnId lengthXnId channelId reduceDataType reduceOpCode setCKEId setCKEMask waitCKEId waitCKEMask clearType lengthEn reduceEn) = lengthXnId
    \<and> get CcuV1_CcuInstrTransLocMemToRmtMem ''channelId'' (TransLocMemToRmtMemInstr i rmtGSAId rmtXnId locGSAId locXnId lengthXnId channelId reduceDataType reduceOpCode setCKEId setCKEMask waitCKEId waitCKEMask clearType lengthEn reduceEn) = channelId
    \<and> get CcuV1_CcuInstrTransLocMemToRmtMem ''udfType'' (TransLocMemToRmtMemInstr i rmtGSAId rmtXnId locGSAId locXnId lengthXnId channelId reduceDataType reduceOpCode setCKEId setCKEMask waitCKEId waitCKEMask clearType lengthEn reduceEn) = (0 :: u16)
    \<and> get CcuV1_CcuInstrTransLocMemToRmtMem ''reduceDataType'' (TransLocMemToRmtMemInstr i rmtGSAId rmtXnId locGSAId locXnId lengthXnId channelId reduceDataType reduceOpCode setCKEId setCKEMask waitCKEId waitCKEMask clearType lengthEn reduceEn) = take_bit 4 reduceDataType
    \<and> get CcuV1_CcuInstrTransLocMemToRmtMem ''reduceOpCode'' (TransLocMemToRmtMemInstr i rmtGSAId rmtXnId locGSAId locXnId lengthXnId channelId reduceDataType reduceOpCode setCKEId setCKEMask waitCKEId waitCKEMask clearType lengthEn reduceEn) = take_bit 4 reduceOpCode
    \<and> get CcuV1_CcuInstrTransLocMemToRmtMem ''clearType'' (TransLocMemToRmtMemInstr i rmtGSAId rmtXnId locGSAId locXnId lengthXnId channelId reduceDataType reduceOpCode setCKEId setCKEMask waitCKEId waitCKEMask clearType lengthEn reduceEn) = take_bit 1 clearType
    \<and> get CcuV1_CcuInstrTransLocMemToRmtMem ''lengthEn'' (TransLocMemToRmtMemInstr i rmtGSAId rmtXnId locGSAId locXnId lengthXnId channelId reduceDataType reduceOpCode setCKEId setCKEMask waitCKEId waitCKEMask clearType lengthEn reduceEn) = take_bit 1 lengthEn
    \<and> get CcuV1_CcuInstrTransLocMemToRmtMem ''reduceEn'' (TransLocMemToRmtMemInstr i rmtGSAId rmtXnId locGSAId locXnId lengthXnId channelId reduceDataType reduceOpCode setCKEId setCKEMask waitCKEId waitCKEMask clearType lengthEn reduceEn) = take_bit 1 reduceEn
    \<and> get CcuV1_CcuInstrTransLocMemToRmtMem ''setCKEId'' (TransLocMemToRmtMemInstr i rmtGSAId rmtXnId locGSAId locXnId lengthXnId channelId reduceDataType reduceOpCode setCKEId setCKEMask waitCKEId waitCKEMask clearType lengthEn reduceEn) = setCKEId
    \<and> get CcuV1_CcuInstrTransLocMemToRmtMem ''setCKEMask'' (TransLocMemToRmtMemInstr i rmtGSAId rmtXnId locGSAId locXnId lengthXnId channelId reduceDataType reduceOpCode setCKEId setCKEMask waitCKEId waitCKEMask clearType lengthEn reduceEn) = setCKEMask
    \<and> get CcuV1_CcuInstrTransLocMemToRmtMem ''waitCKEId'' (TransLocMemToRmtMemInstr i rmtGSAId rmtXnId locGSAId locXnId lengthXnId channelId reduceDataType reduceOpCode setCKEId setCKEMask waitCKEId waitCKEMask clearType lengthEn reduceEn) = waitCKEId
    \<and> get CcuV1_CcuInstrTransLocMemToRmtMem ''waitCKEMask'' (TransLocMemToRmtMemInstr i rmtGSAId rmtXnId locGSAId locXnId lengthXnId channelId reduceDataType reduceOpCode setCKEId setCKEMask waitCKEId waitCKEMask clearType lengthEn reduceEn) = waitCKEMask"
  by (simp add: TransLocMemToRmtMemInstr_def)

lemma TransLocMemToLocMemInstr_fields:
  "has_opcode V1_TRANS_TYPE V1_TRANSLOCMEMTOLOCMEM_CODE (TransLocMemToLocMemInstr i dstGSAId dstXnId srcGSAId srcXnId lengthXnId channelId setCKEId setCKEMask waitCKEId waitCKEMask clearType lengthEn)
    \<and> get CcuV1_CcuInstrTransLocMemToLocMem ''dstGSAId'' (TransLocMemToLocMemInstr i dstGSAId dstXnId srcGSAId srcXnId lengthXnId channelId setCKEId setCKEMask waitCKEId waitCKEMask clearType lengthEn) = dstGSAId
    \<and> get CcuV1_CcuInstrTransLocMemToLocMem ''dstXnId'' (TransLocMemToLocMemInstr i dstGSAId dstXnId srcGSAId srcXnId lengthXnId channelId setCKEId setCKEMask waitCKEId waitCKEMask clearType lengthEn) = dstXnId
    \<and> get CcuV1_CcuInstrTransLocMemToLocMem ''srcGSAId'' (TransLocMemToLocMemInstr i dstGSAId dstXnId srcGSAId srcXnId lengthXnId channelId setCKEId setCKEMask waitCKEId waitCKEMask clearType lengthEn) = srcGSAId
    \<and> get CcuV1_CcuInstrTransLocMemToLocMem ''srcXnId'' (TransLocMemToLocMemInstr i dstGSAId dstXnId srcGSAId srcXnId lengthXnId channelId setCKEId setCKEMask waitCKEId waitCKEMask clearType lengthEn) = srcXnId
    \<and> get CcuV1_CcuInstrTransLocMemToLocMem ''lengthXnId'' (TransLocMemToLocMemInstr i dstGSAId dstXnId srcGSAId srcXnId lengthXnId channelId setCKEId setCKEMask waitCKEId waitCKEMask clearType lengthEn) = lengthXnId
    \<and> get CcuV1_CcuInstrTransLocMemToLocMem ''channelId'' (TransLocMemToLocMemInstr i dstGSAId dstXnId srcGSAId srcXnId lengthXnId channelId setCKEId setCKEMask waitCKEId waitCKEMask clearType lengthEn) = channelId
    \<and> get CcuV1_CcuInstrTransLocMemToLocMem ''clearType'' (TransLocMemToLocMemInstr i dstGSAId dstXnId srcGSAId srcXnId lengthXnId channelId setCKEId setCKEMask waitCKEId waitCKEMask clearType lengthEn) = take_bit 1 clearType
    \<and> get CcuV1_CcuInstrTransLocMemToLocMem ''lengthEn'' (TransLocMemToLocMemInstr i dstGSAId dstXnId srcGSAId srcXnId lengthXnId channelId setCKEId setCKEMask waitCKEId waitCKEMask clearType lengthEn) = take_bit 1 lengthEn
    \<and> get CcuV1_CcuInstrTransLocMemToLocMem ''setCKEId'' (TransLocMemToLocMemInstr i dstGSAId dstXnId srcGSAId srcXnId lengthXnId channelId setCKEId setCKEMask waitCKEId waitCKEMask clearType lengthEn) = setCKEId
    \<and> get CcuV1_CcuInstrTransLocMemToLocMem ''setCKEMask'' (TransLocMemToLocMemInstr i dstGSAId dstXnId srcGSAId srcXnId lengthXnId channelId setCKEId setCKEMask waitCKEId waitCKEMask clearType lengthEn) = setCKEMask
    \<and> get CcuV1_CcuInstrTransLocMemToLocMem ''waitCKEId'' (TransLocMemToLocMemInstr i dstGSAId dstXnId srcGSAId srcXnId lengthXnId channelId setCKEId setCKEMask waitCKEId waitCKEMask clearType lengthEn) = waitCKEId
    \<and> get CcuV1_CcuInstrTransLocMemToLocMem ''waitCKEMask'' (TransLocMemToLocMemInstr i dstGSAId dstXnId srcGSAId srcXnId lengthXnId channelId setCKEId setCKEMask waitCKEId waitCKEMask clearType lengthEn) = waitCKEMask"
  by (simp add: TransLocMemToLocMemInstr_def)

lemma SyncCKEInstr_fields:
  "has_opcode V1_TRANS_TYPE V1_SYNCCKE_CODE (SyncCKEInstr i rmtCKEId locCKEId locCKEMask channelId setCKEId setCKEMask waitCKEId waitCKEMask clearType)
    \<and> get CcuV1_CcuInstrSyncCKE ''rmtCKEId'' (SyncCKEInstr i rmtCKEId locCKEId locCKEMask channelId setCKEId setCKEMask waitCKEId waitCKEMask clearType) = rmtCKEId
    \<and> get CcuV1_CcuInstrSyncCKE ''locCKEId'' (SyncCKEInstr i rmtCKEId locCKEId locCKEMask channelId setCKEId setCKEMask waitCKEId waitCKEMask clearType) = locCKEId
    \<and> get CcuV1_CcuInstrSyncCKE ''locCKEMask'' (SyncCKEInstr i rmtCKEId locCKEId locCKEMask channelId setCKEId setCKEMask waitCKEId waitCKEMask clearType) = locCKEMask
    \<and> get CcuV1_CcuInstrSyncCKE ''channelId'' (SyncCKEInstr i rmtCKEId locCKEId locCKEMask channelId setCKEId setCKEMask waitCKEId waitCKEMask clearType) = channelId
    \<and> get CcuV1_CcuInstrSyncCKE ''clearType'' (SyncCKEInstr i rmtCKEId locCKEId locCKEMask channelId setCKEId setCKEMask waitCKEId waitCKEMask clearType) = take_bit 1 clearType
    \<and> get CcuV1_CcuInstrSyncCKE ''setCKEId'' (SyncCKEInstr i rmtCKEId locCKEId locCKEMask channelId setCKEId setCKEMask waitCKEId waitCKEMask clearType) = setCKEId
    \<and> get CcuV1_CcuInstrSyncCKE ''setCKEMask'' (SyncCKEInstr i rmtCKEId locCKEId locCKEMask channelId setCKEId setCKEMask waitCKEId waitCKEMask clearType) = setCKEMask
    \<and> get CcuV1_CcuInstrSyncCKE ''waitCKEId'' (SyncCKEInstr i rmtCKEId locCKEId locCKEMask channelId setCKEId setCKEMask waitCKEId waitCKEMask clearType) = waitCKEId
    \<and> get CcuV1_CcuInstrSyncCKE ''waitCKEMask'' (SyncCKEInstr i rmtCKEId locCKEId locCKEMask channelId setCKEId setCKEMask waitCKEId waitCKEMask clearType) = waitCKEMask"
  by (simp add: SyncCKEInstr_def)

lemma SyncGSAInstr_fields:
  "has_opcode V1_TRANS_TYPE V1_SYNCGSA_CODE (SyncGSAInstr i rmtGSAId locGSAId channelId setRmtCKEId setRmtCKEMask setCKEId setCKEMask waitCKEId waitCKEMask clearType)
    \<and> get CcuV1_CcuInstrSyncGSA ''rmtGSAId'' (SyncGSAInstr i rmtGSAId locGSAId channelId setRmtCKEId setRmtCKEMask setCKEId setCKEMask waitCKEId waitCKEMask clearType) = rmtGSAId
    \<and> get CcuV1_CcuInstrSyncGSA ''locGSAId'' (SyncGSAInstr i rmtGSAId locGSAId channelId setRmtCKEId setRmtCKEMask setCKEId setCKEMask waitCKEId waitCKEMask clearType) = locGSAId
    \<and> get CcuV1_CcuInstrSyncGSA ''channelId'' (SyncGSAInstr i rmtGSAId locGSAId channelId setRmtCKEId setRmtCKEMask setCKEId setCKEMask waitCKEId waitCKEMask clearType) = channelId
    \<and> get CcuV1_CcuInstrSyncGSA ''setRmtCKEId'' (SyncGSAInstr i rmtGSAId locGSAId channelId setRmtCKEId setRmtCKEMask setCKEId setCKEMask waitCKEId waitCKEMask clearType) = setRmtCKEId
    \<and> get CcuV1_CcuInstrSyncGSA ''setRmtCKEMask'' (SyncGSAInstr i rmtGSAId locGSAId channelId setRmtCKEId setRmtCKEMask setCKEId setCKEMask waitCKEId waitCKEMask clearType) = setRmtCKEMask
    \<and> get CcuV1_CcuInstrSyncGSA ''clearType'' (SyncGSAInstr i rmtGSAId locGSAId channelId setRmtCKEId setRmtCKEMask setCKEId setCKEMask waitCKEId waitCKEMask clearType) = take_bit 1 clearType
    \<and> get CcuV1_CcuInstrSyncGSA ''setCKEId'' (SyncGSAInstr i rmtGSAId locGSAId channelId setRmtCKEId setRmtCKEMask setCKEId setCKEMask waitCKEId waitCKEMask clearType) = setCKEId
    \<and> get CcuV1_CcuInstrSyncGSA ''setCKEMask'' (SyncGSAInstr i rmtGSAId locGSAId channelId setRmtCKEId setRmtCKEMask setCKEId setCKEMask waitCKEId waitCKEMask clearType) = setCKEMask
    \<and> get CcuV1_CcuInstrSyncGSA ''waitCKEId'' (SyncGSAInstr i rmtGSAId locGSAId channelId setRmtCKEId setRmtCKEMask setCKEId setCKEMask waitCKEId waitCKEMask clearType) = waitCKEId
    \<and> get CcuV1_CcuInstrSyncGSA ''waitCKEMask'' (SyncGSAInstr i rmtGSAId locGSAId channelId setRmtCKEId setRmtCKEMask setCKEId setCKEMask waitCKEId waitCKEMask clearType) = waitCKEMask"
  by (simp add: SyncGSAInstr_def)

lemma SyncXnInstr_fields:
  "has_opcode V1_TRANS_TYPE V1_SYNCXN_CODE (SyncXnInstr i rmtXnId locXnId channelId setRmtCKEId setRmtCKEMask setCKEId setCKEMask waitCKEId waitCKEMask clearType)
    \<and> get CcuV1_CcuInstrSyncXn ''rmtXnId'' (SyncXnInstr i rmtXnId locXnId channelId setRmtCKEId setRmtCKEMask setCKEId setCKEMask waitCKEId waitCKEMask clearType) = rmtXnId
    \<and> get CcuV1_CcuInstrSyncXn ''locXnId'' (SyncXnInstr i rmtXnId locXnId channelId setRmtCKEId setRmtCKEMask setCKEId setCKEMask waitCKEId waitCKEMask clearType) = locXnId
    \<and> get CcuV1_CcuInstrSyncXn ''channelId'' (SyncXnInstr i rmtXnId locXnId channelId setRmtCKEId setRmtCKEMask setCKEId setCKEMask waitCKEId waitCKEMask clearType) = channelId
    \<and> get CcuV1_CcuInstrSyncXn ''setRmtCKEId'' (SyncXnInstr i rmtXnId locXnId channelId setRmtCKEId setRmtCKEMask setCKEId setCKEMask waitCKEId waitCKEMask clearType) = setRmtCKEId
    \<and> get CcuV1_CcuInstrSyncXn ''setRmtCKEMask'' (SyncXnInstr i rmtXnId locXnId channelId setRmtCKEId setRmtCKEMask setCKEId setCKEMask waitCKEId waitCKEMask clearType) = setRmtCKEMask
    \<and> get CcuV1_CcuInstrSyncXn ''clearType'' (SyncXnInstr i rmtXnId locXnId channelId setRmtCKEId setRmtCKEMask setCKEId setCKEMask waitCKEId waitCKEMask clearType) = take_bit 1 clearType
    \<and> get CcuV1_CcuInstrSyncXn ''setCKEId'' (SyncXnInstr i rmtXnId locXnId channelId setRmtCKEId setRmtCKEMask setCKEId setCKEMask waitCKEId waitCKEMask clearType) = setCKEId
    \<and> get CcuV1_CcuInstrSyncXn ''setCKEMask'' (SyncXnInstr i rmtXnId locXnId channelId setRmtCKEId setRmtCKEMask setCKEId setCKEMask waitCKEId waitCKEMask clearType) = setCKEMask
    \<and> get CcuV1_CcuInstrSyncXn ''waitCKEId'' (SyncXnInstr i rmtXnId locXnId channelId setRmtCKEId setRmtCKEMask setCKEId setCKEMask waitCKEId waitCKEMask clearType) = waitCKEId
    \<and> get CcuV1_CcuInstrSyncXn ''waitCKEMask'' (SyncXnInstr i rmtXnId locXnId channelId setRmtCKEId setRmtCKEMask setCKEId setCKEMask waitCKEId waitCKEMask clearType) = waitCKEMask"
  by (simp add: SyncXnInstr_def)

lemma AddInstr_fields:
  "has_opcode V1_REDUCE_TYPE V1_ADD_CODE (AddInstr i ms count castEn dataType setCKEId setCKEMask waitCKEId waitCKEMask clearType XnIdLength)
    \<and> map (\<lambda>k. get CcuV1_CcuInstrAdd (msId k) (AddInstr i ms count castEn dataType setCKEId setCKEMask waitCKEId waitCKEMask clearType XnIdLength)) [0..<8] = map (\<lambda>k. ms ! k) [0..<8]
    \<and> get CcuV1_CcuInstrAdd ''XnIdLength'' (AddInstr i ms count castEn dataType setCKEId setCKEMask waitCKEId waitCKEMask clearType XnIdLength) = XnIdLength
    \<and> get CcuV1_CcuInstrAdd ''count'' (AddInstr i ms count castEn dataType setCKEId setCKEMask waitCKEId waitCKEMask clearType XnIdLength) = take_bit 3 (count - 2)
    \<and> get CcuV1_CcuInstrAdd ''castEn'' (AddInstr i ms count castEn dataType setCKEId setCKEMask waitCKEId waitCKEMask clearType XnIdLength) = take_bit 2 castEn
    \<and> get CcuV1_CcuInstrAdd ''dataType'' (AddInstr i ms count castEn dataType setCKEId setCKEMask waitCKEId waitCKEMask clearType XnIdLength) = take_bit 5 dataType
    \<and> get CcuV1_CcuInstrAdd ''clearType'' (AddInstr i ms count castEn dataType setCKEId setCKEMask waitCKEId waitCKEMask clearType XnIdLength) = take_bit 1 clearType
    \<and> get CcuV1_CcuInstrAdd ''setCKEId'' (AddInstr i ms count castEn dataType setCKEId setCKEMask waitCKEId waitCKEMask clearType XnIdLength) = setCKEId
    \<and> get CcuV1_CcuInstrAdd ''setCKEMask'' (AddInstr i ms count castEn dataType setCKEId setCKEMask waitCKEId waitCKEMask clearType XnIdLength) = setCKEMask
    \<and> get CcuV1_CcuInstrAdd ''waitCKEId'' (AddInstr i ms count castEn dataType setCKEId setCKEMask waitCKEId waitCKEMask clearType XnIdLength) = waitCKEId
    \<and> get CcuV1_CcuInstrAdd ''waitCKEMask'' (AddInstr i ms count castEn dataType setCKEId setCKEMask waitCKEId waitCKEMask clearType XnIdLength) = waitCKEMask"
  by (simp add: AddInstr_def upt_8)

lemma MaxInstr_fields:
  "has_opcode V1_REDUCE_TYPE V1_MAX_CODE (MaxInstr i ms count dataType setCKEId setCKEMask waitCKEId waitCKEMask clearType XnIdLength)
    \<and> map (\<lambda>k. get CcuV1_CcuInstrMax (msId k) (MaxInstr i ms count dataType setCKEId setCKEMask waitCKEId waitCKEMask clearType XnIdLength)) [0..<8] = map (\<lambda>k. ms ! k) [0..<8]
    \<and> get CcuV1_CcuInstrMax ''XnIdLength'' (MaxInstr i ms count dataType setCKEId setCKEMask waitCKEId waitCKEMask clearType XnIdLength) = XnIdLength
    \<and> get CcuV1_CcuInstrMax ''count'' (MaxInstr i ms count dataType setCKEId setCKEMask waitCKEId waitCKEMask clearType XnIdLength) = take_bit 3 (count - 2)
    \<and> get CcuV1_CcuInstrMax ''dataType'' (MaxInstr i ms count dataType setCKEId setCKEMask waitCKEId waitCKEMask clearType XnIdLength) = take_bit 5 dataType
    \<and> get CcuV1_CcuInstrMax ''clearType'' (MaxInstr i ms count dataType setCKEId setCKEMask waitCKEId waitCKEMask clearType XnIdLength) = take_bit 1 clearType
    \<and> get CcuV1_CcuInstrMax ''setCKEId'' (MaxInstr i ms count dataType setCKEId setCKEMask waitCKEId waitCKEMask clearType XnIdLength) = setCKEId
    \<and> get CcuV1_CcuInstrMax ''setCKEMask'' (MaxInstr i ms count dataType setCKEId setCKEMask waitCKEId waitCKEMask clearType XnIdLength) = setCKEMask
    \<and> get CcuV1_CcuInstrMax ''waitCKEId'' (MaxInstr i ms count dataType setCKEId setCKEMask waitCKEId waitCKEMask clearType XnIdLength) = waitCKEId
    \<and> get CcuV1_CcuInstrMax ''waitCKEMask'' (MaxInstr i ms count dataType setCKEId setCKEMask waitCKEId waitCKEMask clearType XnIdLength) = waitCKEMask"
  by (simp add: MaxInstr_def upt_8 put_shared_member)

lemma MinInstr_fields:
  "has_opcode V1_REDUCE_TYPE V1_MIN_CODE (MinInstr i ms count dataType setCKEId setCKEMask waitCKEId waitCKEMask clearType XnIdLength)
    \<and> map (\<lambda>k. get CcuV1_CcuInstrMin (msId k) (MinInstr i ms count dataType setCKEId setCKEMask waitCKEId waitCKEMask clearType XnIdLength)) [0..<8] = map (\<lambda>k. ms ! k) [0..<8]
    \<and> get CcuV1_CcuInstrMin ''XnIdLength'' (MinInstr i ms count dataType setCKEId setCKEMask waitCKEId waitCKEMask clearType XnIdLength) = XnIdLength
    \<and> get CcuV1_CcuInstrMin ''count'' (MinInstr i ms count dataType setCKEId setCKEMask waitCKEId waitCKEMask clearType XnIdLength) = take_bit 3 (count - 2)
    \<and> get CcuV1_CcuInstrMin ''dataType'' (MinInstr i ms count dataType setCKEId setCKEMask waitCKEId waitCKEMask clearType XnIdLength) = take_bit 5 dataType
    \<and> get CcuV1_CcuInstrMin ''clearType'' (MinInstr i ms count dataType setCKEId setCKEMask waitCKEId waitCKEMask clearType XnIdLength) = take_bit 1 clearType
    \<and> get CcuV1_CcuInstrMin ''setCKEId'' (MinInstr i ms count dataType setCKEId setCKEMask waitCKEId waitCKEMask clearType XnIdLength) = setCKEId
    \<and> get CcuV1_CcuInstrMin ''setCKEMask'' (MinInstr i ms count dataType setCKEId setCKEMask waitCKEId waitCKEMask clearType XnIdLength) = setCKEMask
    \<and> get CcuV1_CcuInstrMin ''waitCKEId'' (MinInstr i ms count dataType setCKEId setCKEMask waitCKEId waitCKEMask clearType XnIdLength) = waitCKEId
    \<and> get CcuV1_CcuInstrMin ''waitCKEMask'' (MinInstr i ms count dataType setCKEId setCKEMask waitCKEId waitCKEMask clearType XnIdLength) = waitCKEMask"
  by (simp add: MinInstr_def upt_8 put_shared_member_min)

text \<open>Every load and control encoder of version 1 stores its class, its code and each argument
  (cut to the width of the member where the code masks it) so that reading the member back returns it.\<close>

theorem v1_load_ctrl_roundtrip:
  "(let I = LoadSqeArgsToGSAInstr i gsaId sqeArgsId in
        has_opcode V1_LOAD_TYPE V1_LOADSQEARGSTOGSA_CODE I
        \<and> get CcuV1_CcuInstrLoadSqeArgsToGSA ''gsaId'' I = gsaId
        \<and> get CcuV1_CcuInstrLoadSqeArgsToGSA ''sqeArgsId'' I = sqeArgsId)
   \<and> (let I = LoadSqeArgsToXnInstr i xnId sqeArgsId in
        has_opcode V1_LOAD_TYPE V1_LOADSQEARGSTOXN_CODE I
        \<and> get CcuV1_CcuInstrLoadSqeArgsToXn ''xnId'' I = xnId
        \<and> get CcuV1_CcuInstrLoadSqeArgsToXn ''sqeArgsId'' I = sqeArgsId)
   \<and> (let I = LoadImdToGSAInstr i gsaId immediate in
        has_opcode V1_LOAD_TYPE V1_LOADIMDTOGSA_CODE I
        \<and> get CcuV1_CcuInstrLoadImdToGSA ''gsaId'' I = gsaId
        \<and> get CcuV1_CcuInstrLoadImdToGSA ''immediate'' I = immediate)
   \<and> (let I = LoadImdToXnInstr i xnId immediate secFlag in
        has_opcode V1_LOAD_TYPE V1_LOADIMDTOXN_CODE I
        \<and> get CcuV1_CcuInstrLoadImdToXn ''xnId'' I = xnId
        \<and> get CcuV1_CcuInstrLoadImdToXn ''immediate'' I = immediate
        \<and> get CcuV1_CcuInstrLoadImdToXn ''secFlag'' I = secFlag)
   \<and> (let I = LoadGSAXnInstr i gsAdId gsAmId xnId in
        has_opcode V1_LOAD_TYPE V1_LOADGSAXN_CODE I
        \<and> get CcuV1_CcuInstrLoadGSAXn ''gsAdId'' I = gsAdId
        \<and> get CcuV1_CcuInstrLoadGSAXn ''gsAmId'' I = gsAmId
        \<and> get CcuV1_CcuInstrLoadGSAXn ''xnId'' I = xnId)
   \<and> (let I = LoadGSAGSAInstr i gsAdId gsAmId gsAnId in
        has_opcode V1_LOAD_TYPE V1_LOADGSAGSA_CODE I
        \<and> get CcuV1_CcuInstrLoadGSAGSA ''gsAdId'' I = gsAdId
        \<and> get CcuV1_CcuInstrLoadGSAGSA ''gsAmId'' I = gsAmId
        \<and> get CcuV1_CcuInstrLoadGSAGSA ''gsAnId'' I = gsAnId)
   \<and> (let I = LoadXXInstr i xdId xmId xnId in
        has_opcode V1_LOAD_TYPE V1_LOADXX_CODE I \<and> get CcuV1_CcuInstrLoadXX ''xdId'' I = xdId
        \<and> get CcuV1_CcuInstrLoadXX ''xmId'' I = xmId \<and> get CcuV1_CcuInstrLoadXX ''xnId'' I = xnId)
   \<and> (let I = LoopInstr i startInstrId endInstrId xnId in
        has_opcode V1_CTRL_TYPE V1_LOOP_CODE I
        \<and> get CcuV1_CcuInstrLoop ''startInstrId'' I = startInstrId
        \<and> get CcuV1_CcuInstrLoop ''endInstrId'' I = endInstrId
        \<and> get CcuV1_CcuInstrLoop ''xnId'' I = xnId)
   \<and> (let I = LoopGroupInstr i startLoopInstrId xnId xmId highPerfModeEn in
        has_opcode V1_CTRL_TYPE V1_LOOPGROUP_CODE I
        \<and> get CcuV1_CcuInstrLoopGroup ''startLoopInstrId'' I = startLoopInstrId
        \<and> get CcuV1_CcuInstrLoopGroup ''xnId'' I = xnId
        \<and> get CcuV1_CcuInstrLoopGroup ''xmId'' I = xmId
        \<and> get CcuV1_CcuInstrLoopGroup ''highPerfModeEn'' I = take_bit 1 highPerfModeEn)
   \<and> (let I = SetCKEInstr i setCKEId setCKEMask waitCKEId waitCKEMask clearType in
        has_opcode V1_CTRL_TYPE V1_SETCKE_CODE I
        \<and> get CcuV1_CcuInstrSetCKE ''clearType'' I = take_bit 1 clearType
        \<and> get CcuV1_CcuInstrSetCKE ''setCKEId'' I = setCKEId
        \<and> get CcuV1_CcuInstrSetCKE ''setCKEMask'' I = setCKEMask
        \<and> get CcuV1_CcuInstrSetCKE ''waitCKEId'' I = waitCKEId
        \<and> get CcuV1_CcuInstrSetCKE ''waitCKEMask'' I = waitCKEMask)
   \<and> (let I = ClearCKEInstr i clearCKEId clearMask waitCKEId waitCKEMask clearType in
        has_opcode V1_CTRL_TYPE V1_CLEARCKE_CODE I
        \<and> get CcuV1_CcuInstrClearCKE ''clearType'' I = take_bit 1 clearType
        \<and> get CcuV1_CcuInstrClearCKE ''clearCKEId'' I = clearCKEId
        \<and> get CcuV1_CcuInstrClearCKE ''clearMask'' I = clearMask
        \<and> get CcuV1_CcuInstrClearCKE ''waitCKEId'' I = waitCKEId
        \<and> get CcuV1_CcuInstrClearCKE ''waitCKEMask'' I = waitCKEMask)
   \<and> (let I = JumpInstr i dstInstrXnId conditionXnId expectData in
        has_opcode V1_CTRL_TYPE V1_JMP_CODE I
        \<and> get CcuV1_CcuInstrJmp ''dstInstrXnId'' I = dstInstrXnId
        \<and> get CcuV1_CcuInstrJmp ''conditionXnId'' I = conditionXnId
        \<and> get CcuV1_CcuInstrJmp ''expectData'' I = expectData)"
  unfolding Let_def
  by (intro conjI) (simp_all only: LoadSqeArgsToGSAInstr_fields LoadSqeArgsToXnInstr_fields LoadImdToGSAInstr_fields LoadImdToXnInstr_fields LoadGSAXnInstr_fields LoadGSAGSAInstr_fields LoadXXInstr_fields LoopInstr_fields LoopGroupInstr_fields SetCKEInstr_fields ClearCKEInstr_fields JumpInstr_fields)

text \<open>Every transfer and synchronisation encoder of version 1 stores its class, its code and each argument
  so that reading the member back returns it; no store of a member disturbs another one.\<close>

theorem v1_trans_roundtrip:
  "(let I = TransLocMemToLocMSInstr i locMSId locGSAId locXnId lengthXnId channelId setCKEId setCKEMask waitCKEId waitCKEMask clearType lengthEn in
        has_opcode V1_TRANS_TYPE V1_TRANSLOCMEMTOLOCMS_CODE I
        \<and> get CcuV1_CcuInstrTransLocMemToLocMS ''locMSId'' I = locMSId
        \<and> get CcuV1_CcuInstrTransLocMemToLocMS ''locGSAId'' I = locGSAId
        \<and> get CcuV1_CcuInstrTransLocMemToLocMS ''locXnId'' I = locXnId
        \<and> get CcuV1_CcuInstrTransLocMemToLocMS ''lengthXnId'' I = lengthXnId
        \<and> get CcuV1_CcuInstrTransLocMemToLocMS ''channelId'' I = channelId
        \<and> get CcuV1_CcuInstrTransLocMemToLocMS ''clearType'' I = take_bit 1 clearType
        \<and> get CcuV1_CcuInstrTransLocMemToLocMS ''lengthEn'' I = take_bit 1 lengthEn
        \<and> get CcuV1_CcuInstrTransLocMemToLocMS ''setCKEId'' I = setCKEId
        \<and> get CcuV1_CcuInstrTransLocMemToLocMS ''setCKEMask'' I = setCKEMask
        \<and> get CcuV1_CcuInstrTransLocMemToLocMS ''waitCKEId'' I = waitCKEId
        \<and> get CcuV1_CcuInstrTransLocMemToLocMS ''waitCKEMask'' I = waitCKEMask)
   \<and> (let I = TransRmtMemToLocMSInstr i locMSId rmtGSAId rmtXnId lengthXnId channelId setCKEId setCKEMask waitCKEId waitCKEMask clearType lengthEn in
        has_opcode V1_TRANS_TYPE V1_TRANSRMTMEMTOLOCMS_CODE I
        \<and> get CcuV1_CcuInstrTransRmtMemToLocMS ''locMSId'' I = locMSId
        \<and> get CcuV1_CcuInstrTransRmtMemToLocMS ''rmtGSAId'' I = rmtGSAId
        \<and> get CcuV1_CcuInstrTransRmtMemToLocMS ''rmtXnId'' I = rmtXnId
        \<and> get CcuV1_CcuInstrTransRmtMemToLocMS ''lengthXnId'' I = lengthXnId
        \<and> get CcuV1_CcuInstrTransRmtMemToLocMS ''channelId'' I = channelId
        \<and> get CcuV1_CcuInstrTransRmtMemToLocMS ''clearType'' I = take_bit 1 clearType
        \<and> get CcuV1_CcuInstrTransRmtMemToLocMS ''lengthEn'' I = take_bit 1 lengthEn
        \<and> get CcuV1_CcuInstrTransRmtMemToLocMS ''setCKEId'' I = setCKEId
        \<and> get CcuV1_CcuInstrTransRmtMemToLocMS ''setCKEMask'' I = setCKEMask
        \<and> get CcuV1_CcuInstrTransRmtMemToLocMS ''waitCKEId'' I = waitCKEId
        \<and> get CcuV1_CcuInstrTransRmtMemToLocMS ''waitCKEMask'' I = waitCKEMask)
   \<and> (let I = TransLocMSToLocMemInstr i locGSAId locXnId locMSId lengthXnId channelId setCKEId setCKEMask waitCKEId waitCKEMask clearType lengthEn in
        has_opcode V1_TRANS_TYPE V1_TRANSLOCMSTOLOCMEM_CODE I
        \<and> get CcuV1_CcuInstrTransLocMSToLocMem ''locGSAId'' I = locGSAId
        \<and> get CcuV1_CcuInstrTransLocMSToLocMem ''locXnId'' I = locXnId
        \<and> get CcuV1_CcuInstrTransLocMSToLocMem ''locMSId'' I = locMSId
        \<and> get CcuV1_CcuInstrTransLocMSToLocMem ''lengthXnId'' I = lengthXnId
        \<and> get CcuV1_CcuInstrTransLocMSToLocMem ''channelId'' I = channelId
        \<and> get CcuV1_CcuInstrTransLocMSToLocMem ''clearType'' I = take_bit 1 clearType
        \<and> get CcuV1_CcuInstrTransLocMSToLocMem ''lengthEn'' I = take_bit 1 lengthEn
        \<and> get CcuV1_CcuInstrTransLocMSToLocMem ''setCKEId'' I = setCKEId
        \<and> get CcuV1_CcuInstrTransLocMSToLocMem ''setCKEMask'' I = setCKEMask
        \<and> get CcuV1_CcuInstrTransLocMSToLocMem ''waitCKEId'' I = waitCKEId
        \<and> get CcuV1_CcuInstrTransLocMSToLocMem ''waitCKEMask'' I = waitCKEMask)
   \<and> (let I = TransLocMSToRmtMemInstr i rmtGSAId rmtXnId locMSId lengthXnId channelId setCKEId setCKEMask waitCKEId waitCKEMask clearType lengthEn in
        has_opcode V1_TRANS_TYPE V1_TRANSLOCMSTORMTMEM_CODE I
        \<and> get CcuV1_CcuInstrTransLocMSToRmtMem ''rmtGSAId'' I = rmtGSAId
        \<and> get CcuV1_CcuInstrTransLocMSToRmtMem ''rmtXnId'' I = rmtXnId
        \<and> get CcuV1_CcuInstrTransLocMSToRmtMem ''locMSId'' I = locMSId
        \<and> get CcuV1_CcuInstrTransLocMSToRmtMem ''lengthXnId'' I = lengthXnId
        \<and> get CcuV1_CcuInstrTransLocMSToRmtMem ''channelId'' I = channelId
        \<and> get CcuV1_CcuInstrTransLocMSToRmtMem ''clearType'' I = take_bit 1 clearType
        \<and> get CcuV1_CcuInstrTransLocMSToRmtMem ''lengthEn'' I = take_bit 1 lengthEn
        \<and> get CcuV1_CcuInstrTransLocMSToRmtMem ''setCKEId'' I = setCKEId
        \<and> get CcuV1_CcuInstrTransLocMSToRmtMem ''setCKEMask'' I = setCKEMask
        \<and> get CcuV1_CcuInstrTransLocMSToRmtMem ''waitCKEId'' I = waitCKEId
        \<and> get CcuV1_CcuInstrTransLocMSToRmtMem ''waitCKEMask'' I = waitCKEMask)
   \<and> (let I = TransRmtMSToLocMemInstr i locGSAId locXnId rmtMSId lengthXnId channelId setCKEId setCKEMask waitCKEId waitCKEMask clearType lengthEn in
        has_opcode V1_TRANS_TYPE V1_TRANSRMTMSTOLOCMEM_CODE I
        \<and> get CcuV1_CcuInstrTransRmtMSToLocMem ''locGSAId'' I = locGSAId
        \<and> get CcuV1_CcuInstrTransRmtMSToLocMem ''locXnId'' I = locXnId
        \<and> get CcuV1_CcuInstrTransRmtMSToLocMem ''rmtMSId'' I = rmtMSId
        \<and> get CcuV1_CcuInstrTransRmtMSToLocMem ''lengthXnId'' I = lengthXnId
        \<and> get CcuV1_CcuInstrTransRmtMSToLocMem ''channelId'' I = channelId
        \<and> get CcuV1_CcuInstrTransRmtMSToLocMem ''clearType'' I = take_bit 1 clearType
        \<and> get CcuV1_CcuInstrTransRmtMSToLocMem ''lengthEn'' I = take_bit 1 lengthEn
        \<and> get CcuV1_CcuInstrTransRmtMSToLocMem ''setCKEId'' I = setCKEId
        \<and> get CcuV1_CcuInstrTransRmtMSToLocMem ''setCKEMask'' I = setCKEMask
        \<and> get CcuV1_CcuInstrTransRmtMSToLocMem ''waitCKEId'' I = waitCKEId
        \<and> get CcuV1_CcuInstrTransRmtMSToLocMem ''waitCKEMask'' I = waitCKEMask)
   \<and> (let I = TransLocMSToLocMSInstr i dstMSId srcMSId lengthXnId channelId setCKEId setCKEMask waitCKEId waitCKEMask clearType lengthEn in
        has_opcode V1_TRANS_TYPE V1_TRANSLOCMSTOLOCMS_CODE I
        \<and> get CcuV1_CcuInstrTransLocMSToLocMS ''dstMSId'' I = dstMSId
        \<and> get CcuV1_CcuInstrTransLocMSToLocMS ''srcMSId'' I = srcMSId
        \<and> get CcuV1_CcuInstrTransLocMSToLocMS ''lengthXnId'' I = lengthXnId
        \<and> get CcuV1_CcuInstrTransLocMSToLocMS ''channelId'' I = channelId
        \<and> get CcuV1_CcuInstrTransLocMSToLocMS ''clearType'' I = take_bit 1 clearType
        \<and> get CcuV1_CcuInstrTransLocMSToLocMS ''lengthEn'' I = take_bit 1 lengthEn
        \<and> get CcuV1_CcuInstrTransLocMSToLocMS ''setCKEId'' I = setCKEId
        \<and> get CcuV1_CcuInstrTransLocMSToLocMS ''setCKEMask'' I = setCKEMask
        \<and> get CcuV1_CcuInstrTransLocMSToLocMS ''waitCKEId'' I = waitCKEId
        \<and> get CcuV1_CcuInstrTransLocMSToLocMS ''waitCKEMask'' I = waitCKEMask)
   \<and> (let I = TransRmtMSToLocMSInstr i locMSId rmtMSId lengthXnId channelId setCKEId setCKEMask waitCKEId waitCKEMask clearType lengthEn in
        has_opcode V1_TRANS_TYPE V1_TRANSRMTMSTOLOCMS_CODE I
        \<and> get CcuV1_CcuInstrTransRmtMSToLocMS ''locMSId'' I = locMSId
        \<and> get CcuV1_CcuInstrTransRmtMSToLocMS ''rmtMSId'' I = rmtMSId
        \<and> get CcuV1_CcuInstrTransRmtMSToLocMS ''lengthXnId'' I = lengthXnId
        \<and> get CcuV1_CcuInstrTransRmtMSToLocMS ''channelId'' I = channelId
        \<and> get CcuV1_CcuInstrTransRmtMSToLocMS ''clearType'' I = take_bit 1 clearType
        \<and> get CcuV1_CcuInstrTransRmtMSToLocMS ''lengthEn'' I = take_bit 1 lengthEn
        \<and> get CcuV1_CcuInstrTransRmtMSToLocMS ''setCKEId'' I = setCKEId
        \<and> get CcuV1_CcuInstrTransRmtMSToLocMS ''setCKEMask'' I = setCKEMask
        \<and> get CcuV1_CcuInstrTransRmtMSToLocMS ''waitCKEId'' I = waitCKEId
        \<and> get CcuV1_CcuInstrTransRmtMSToLocMS ''waitCKEMask'' I = waitCKEMask)
   \<and> (let I = TransLocMSToRmtMSInstr i rmtMSId locMSId lengthXnId channelId setRmtCKEId setRmtCKEMask setCKEId setCKEMask waitCKEId waitCKEMask clearType lengthEn in
        has_opcode V1_TRANS_TYPE V1_TRANSLOCMSTORMTMS_CODE I
        \<and> get CcuV1_CcuInstrTransLocMSToRmtMS ''rmtMSId'' I = rmtMSId
        \<and> get CcuV1_CcuInstrTransLocMSToRmtMS ''locMSId'' I = locMSId
        \<and> get CcuV1_CcuInstrTransLocMSToRmtMS ''lengthXnId'' I = lengthXnId
        \<and> get CcuV1_CcuInstrTransLocMSToRmtMS ''channelId'' I = channelId
        \<and> get CcuV1_CcuInstrTransLocMSToRmtMS ''setRmtCKEId'' I = setRmtCKEId
        \<and> get CcuV1_CcuInstrTransLocMSToRmtMS ''setRmtCKEMask'' I = setRmtCKEMask
        \<and> get CcuV1_CcuInstrTransLocMSToRmtMS ''clearType'' I = take_bit 1 clearType
        \<and> get CcuV1_CcuInstrTransLocMSToRmtMS ''lengthEn'' I = take_bit 1 lengthEn
        \<and> get CcuV1_CcuInstrTransLocMSToRmtMS ''setCKEId'' I = setCKEId
        \<and> get CcuV1_CcuInstrTransLocMSToRmtMS ''setCKEMask'' I = setCKEMask
        \<and> get CcuV1_CcuInstrTransLocMSToRmtMS ''waitCKEId'' I = waitCKEId
        \<and> get CcuV1_CcuInstrTransLocMSToRmtMS ''waitCKEMask'' I = waitCKEMask)
   \<and> (let I = TransRmtMemToLocMemInstr i locGSAId locXnId rmtGSAId rmtXnId lengthXnId channelId reduceDataType reduceOpCode setCKEId setCKEMask waitCKEId waitCKEMask clearType lengthEn reduceEn in
        has_opcode V1_TRANS_TYPE V1_TRANSRMTMEMTOLOCMEM_CODE I
        \<and> get CcuV1_CcuInstrTransRmtMemToLocMem ''locGSAId'' I = locGSAId
        \<and> get CcuV1_CcuInstrTransRmtMemToLocMem ''locXnId'' I = locXnId
        \<and> get CcuV1_CcuInstrTransRmtMemToLocMem ''rmtGSAId'' I = rmtGSAId
        \<and> get CcuV1_CcuInstrTransRmtMemToLocMem ''rmtXnId'' I = rmtXnId
        \<and> get CcuV1_CcuInstrTransRmtMemToLocMem ''lengthXnId'' I = lengthXnId
        \<and> get CcuV1_CcuInstrTransRmtMemToLocMem ''channelId'' I = channelId
        \<and> get CcuV1_CcuInstrTransRmtMemToLocMem ''udfType'' I = (0 :: u16)
        \<and> get CcuV1_CcuInstrTransRmtMemToLocMem ''reduceDataType'' I = take_bit 4 reduceDataType
        \<and> get CcuV1_CcuInstrTransRmtMemToLocMem ''reduceOpCode'' I = take_bit 4 reduceOpCode
        \<and> get CcuV1_CcuInstrTransRmtMemToLocMem ''clearType'' I = take_bit 1 clearType
        \<and> get CcuV1_CcuInstrTransRmtMemToLocMem ''lengthEn'' I = take_bit 1 lengthEn
        \<and> get CcuV1_CcuInstrTransRmtMemToLocMem ''reduceEn'' I = take_bit 1 reduceEn
        \<and> get CcuV1_CcuInstrTransRmtMemToLocMem ''setCKEId'' I = setCKEId
        \<and> get CcuV1_CcuInstrTransRmtMemToLocMem ''setCKEMask'' I = setCKEMask
        \<and> get CcuV1_CcuInstrTransRmtMemToLocMem ''waitCKEId'' I = waitCKEId
        \<and> get CcuV1_CcuInstrTransRmtMemToLocMem ''waitCKEMask'' I = waitCKEMask)
   \<and> (let I = TransLocMemToRmtMemInstr i rmtGSAId rmtXnId locGSAId locXnId lengthXnId channelId reduceDataType reduceOpCode setCKEId setCKEMask waitCKEId waitCKEMask clearType lengthEn reduceEn in
        has_opcode V1_TRANS_TYPE V1_TRANSLOCMEMTORMTMEM_CODE I
        \<and> get CcuV1_CcuInstrTransLocMemToRmtMem ''rmtGSAId'' I = rmtGSAId
        \<and> get CcuV1_CcuInstrTransLocMemToRmtMem ''rmtXnId'' I = rmtXnId
        \<and> get CcuV1_CcuInstrTransLocMemToRmtMem ''locGSAId'' I = locGSAId
        \<and> get CcuV1_CcuInstrTransLocMemToRmtMem ''locXnId'' I = locXnId
        \<and> get CcuV1_CcuInstrTransLocMemToRmtMem ''lengthXnId'' I = lengthXnId
        \<and> get CcuV1_CcuInstrTransLocMemToRmtMem ''channelId'' I = channelId
        \<and> get CcuV1_CcuInstrTransLocMemToRmtMem ''udfType'' I = (0 :: u16)
        \<and> get CcuV1_CcuInstrTransLocMemToRmtMem ''reduceDataType'' I = take_bit 4 reduceDataType
        \<and> get CcuV1_CcuInstrTransLocMemToRmtMem ''reduceOpCode'' I = take_bit 4 reduceOpCode
        \<and> get CcuV1_CcuInstrTransLocMemToRmtMem ''clearType'' I = take_bit 1 clearType
        \<and> get CcuV1_CcuInstrTransLocMemToRmtMem ''lengthEn'' I = take_bit 1 lengthEn
        \<and> get CcuV1_CcuInstrTransLocMemToRmtMem ''reduceEn'' I = take_bit 1 reduceEn
        \<and> get CcuV1_CcuInstrTransLocMemToRmtMem ''setCKEId'' I = setCKEId
        \<and> get CcuV1_CcuInstrTransLocMemToRmtMem ''setCKEMask'' I = setCKEMask
        \<and> get CcuV1_CcuInstrTransLocMemToRmtMem ''waitCKEId'' I = waitCKEId
        \<and> get CcuV1_CcuInstrTransLocMemToRmtMem ''waitCKEMask'' I = waitCKEMask)
   \<and> (let I = TransLocMemToLocMemInstr i dstGSAId dstXnId srcGSAId srcXnId lengthXnId channelId setCKEId setCKEMask waitCKEId waitCKEMask clearType lengthEn in
        has_opcode V1_TRANS_TYPE V1_TRANSLOCMEMTOLOCMEM_CODE I
        \<and> get CcuV1_CcuInstrTransLocMemToLocMem ''dstGSAId'' I = dstGSAId
        \<and> get CcuV1_CcuInstrTransLocMemToLocMem ''dstXnId'' I = dstXnId
        \<and> get CcuV1_CcuInstrTransLocMemToLocMem ''srcGSAId'' I = srcGSAId
        \<and> get CcuV1_CcuInstrTransLocMemToLocMem ''srcXnId'' I = srcXnId
        \<and> get CcuV1_CcuInstrTransLocMemToLocMem ''lengthXnId'' I = lengthXnId
        \<and> get CcuV1_CcuInstrTransLocMemToLocMem ''channelId'' I = channelId
        \<and> get CcuV1_CcuInstrTransLocMemToLocMem ''clearType'' I = take_bit 1 clearType
        \<and> get CcuV1_CcuInstrTransLocMemToLocMem ''lengthEn'' I = take_bit 1 lengthEn
        \<and> get CcuV1_CcuInstrTransLocMemToLocMem ''setCKEId'' I = setCKEId
        \<and> get CcuV1_CcuInstrTransLocMemToLocMem ''setCKEMask'' I = setCKEMask
        \<and> get CcuV1_CcuInstrTransLocMemToLocMem ''waitCKEId'' I = waitCKEId
        \<and> get CcuV1_CcuInstrTransLocMemToLocMem ''waitCKEMask'' I = waitCKEMask)
   \<and> (let I = SyncCKEInstr i rmtCKEId locCKEId locCKEMask channelId setCKEId setCKEMask waitCKEId waitCKEMask clearType in
        has_opcode V1_TRANS_TYPE V1_SYNCCKE_CODE I
        \<and> get CcuV1_CcuInstrSyncCKE ''rmtCKEId'' I = rmtCKEId
        \<and> get CcuV1_CcuInstrSyncCKE ''locCKEId'' I = locCKEId
        \<and> get CcuV1_CcuInstrSyncCKE ''locCKEMask'' I = locCKEMask
        \<and> get CcuV1_CcuInstrSyncCKE ''channelId'' I = channelId
        \<and> get CcuV1_CcuInstrSyncCKE ''clearType'' I = take_bit 1 clearType
        \<and> get CcuV1_CcuInstrSyncCKE ''setCKEId'' I = setCKEId
        \<and> get CcuV1_CcuInstrSyncCKE ''setCKEMask'' I = setCKEMask
        \<and> get CcuV1_CcuInstrSyncCKE ''waitCKEId'' I = waitCKEId
        \<and> get CcuV1_CcuInstrSyncCKE ''waitCKEMask'' I = waitCKEMask)
   \<and> (let I = SyncGSAInstr i rmtGSAId locGSAId channelId setRmtCKEId setRmtCKEMask setCKEId setCKEMask waitCKEId waitCKEMask clearType in
        has_opcode V1_TRANS_TYPE V1_SYNCGSA_CODE I
        \<and> get CcuV1_CcuInstrSyncGSA ''rmtGSAId'' I = rmtGSAId
        \<and> get CcuV1_CcuInstrSyncGSA ''locGSAId'' I = locGSAId
        \<and> get CcuV1_CcuInstrSyncGSA ''channelId'' I = channelId
        \<and> get CcuV1_CcuInstrSyncGSA ''setRmtCKEId'' I = setRmtCKEId
        \<and> get CcuV1_CcuInstrSyncGSA ''setRmtCKEMask'' I = setRmtCKEMask
        \<and> get CcuV1_CcuInstrSyncGSA ''clearType'' I = take_bit 1 clearType
        \<and> get CcuV1_CcuInstrSyncGSA ''setCKEId'' I = setCKEId
        \<and> get CcuV1_CcuInstrSyncGSA ''setCKEMask'' I = setCKEMask
        \<and> get CcuV1_CcuInstrSyncGSA ''waitCKEId'' I = waitCKEId
        \<and> get CcuV1_CcuInstrSyncGSA ''waitCKEMask'' I = waitCKEMask)
   \<and> (let I = SyncXnInstr i rmtXnId locXnId channelId setRmtCKEId setRmtCKEMask setCKEId setCKEMask waitCKEId waitCKEMask clearType in
        has_opcode V1_TRANS_TYPE V1_SYNCXN_CODE I \<and> get CcuV1_CcuInstrSyncXn ''rmtXnId'' I = rmtXnId
        \<and> get CcuV1_CcuInstrSyncXn ''locXnId'' I = locXnId
        \<and> get CcuV1_CcuInstrSyncXn ''channelId'' I = channelId
        \<and> get CcuV1_CcuInstrSyncXn ''setRmtCKEId'' I = setRmtCKEId
        \<and> get CcuV1_CcuInstrSyncXn ''setRmtCKEMask'' I = setRmtCKEMask
        \<and> get CcuV1_CcuInstrSyncXn ''clearType'' I = take_bit 1 clearType
        \<and> get CcuV1_CcuInstrSyncXn ''setCKEId'' I = setCKEId
        \<and> get CcuV1_CcuInstrSyncXn ''setCKEMask'' I = setCKEMask
        \<and> get CcuV1_CcuInstrSyncXn ''waitCKEId'' I = waitCKEId
        \<and> get CcuV1_CcuInstrSyncXn ''waitCKEMask'' I = waitCKEMask)"
  unfolding Let_def
  by (intro conjI) (simp_all only: TransLocMemToLocMSInstr_fields TransRmtMemToLocMSInstr_fields TransLocMSToLocMemInstr_fields TransLocMSToRmtMemInstr_fields TransRmtMSToLocMemInstr_fields TransLocMSToLocMSInstr_fields TransRmtMSToLocMSInstr_fields TransLocMSToRmtMSInstr_fields TransRmtMemToLocMemInstr_fields TransLocMemToRmtMemInstr_fields TransLocMemToLocMemInstr_fields SyncCKEInstr_fields SyncGSAInstr_fields SyncXnInstr_fields)

text \<open>The reduce encoders of version 1 store the eight MS ids, the length register, the count less 2
  and the other arguments so that the struct of the very instruction reads them back, although the encoders
  of maximum and minimum write some members through the struct of another instruction.\<close>

theorem v1_reduce_roundtrip:
  "(let I = AddInstr i ms count castEn dataType setCKEId setCKEMask waitCKEId waitCKEMask clearType XnIdLength in
        has_opcode V1_REDUCE_TYPE V1_ADD_CODE I
        \<and> map (\<lambda>k. get CcuV1_CcuInstrAdd (msId k) I) [0..<8] = map (\<lambda>k. ms ! k) [0..<8]
        \<and> get CcuV1_CcuInstrAdd ''XnIdLength'' I = XnIdLength
        \<and> get CcuV1_CcuInstrAdd ''count'' I = take_bit 3 (count - 2)
        \<and> get CcuV1_CcuInstrAdd ''castEn'' I = take_bit 2 castEn
        \<and> get CcuV1_CcuInstrAdd ''dataType'' I = take_bit 5 dataType
        \<and> get CcuV1_CcuInstrAdd ''clearType'' I = take_bit 1 clearType
        \<and> get CcuV1_CcuInstrAdd ''setCKEId'' I = setCKEId
        \<and> get CcuV1_CcuInstrAdd ''setCKEMask'' I = setCKEMask
        \<and> get CcuV1_CcuInstrAdd ''waitCKEId'' I = waitCKEId
        \<and> get CcuV1_CcuInstrAdd ''waitCKEMask'' I = waitCKEMask)
   \<and> (let I = MaxInstr i ms count dataType setCKEId setCKEMask waitCKEId waitCKEMask clearType XnIdLength in
        has_opcode V1_REDUCE_TYPE V1_MAX_CODE I
        \<and> map (\<lambda>k. get CcuV1_CcuInstrMax (msId k) I) [0..<8] = map (\<lambda>k. ms ! k) [0..<8]
        \<and> get CcuV1_CcuInstrMax ''XnIdLength'' I = XnIdLength
        \<and> get CcuV1_CcuInstrMax ''count'' I = take_bit 3 (count - 2)
        \<and> get CcuV1_CcuInstrMax ''dataType'' I = take_bit 5 dataType
        \<and> get CcuV1_CcuInstrMax ''clearType'' I = take_bit 1 clearType
        \<and> get CcuV1_CcuInstrMax ''setCKEId'' I = setCKEId
        \<and> get CcuV1_CcuInstrMax ''setCKEMask'' I = setCKEMask
        \<and> get CcuV1_CcuInstrMax ''waitCKEId'' I = waitCKEId
        \<and> get CcuV1_CcuInstrMax ''waitCKEMask'' I = waitCKEMask)
   \<and> (let I = MinInstr i ms count dataType setCKEId setCKEMask waitCKEId waitCKEMask clearType XnIdLength in
        has_opcode V1_REDUCE_TYPE V1_MIN_CODE I
        \<and> map (\<lambda>k. get CcuV1_CcuInstrMin (msId k) I) [0..<8] = map (\<lambda>k. ms ! k) [0..<8]
        \<and> get CcuV1_CcuInstrMin ''XnIdLength'' I = XnIdLength
        \<and> get CcuV1_CcuInstrMin ''count'' I = take_bit 3 (count - 2)
        \<and> get CcuV1_CcuInstrMin ''dataType'' I = take_bit 5 dataType
        \<and> get CcuV1_CcuInstrMin ''clearType'' I = take_bit 1 clearType
        \<and> get CcuV1_CcuInstrMin ''setCKEId'' I = setCKEId
        \<and> get CcuV1_CcuInstrMin ''setCKEMask'' I = setCKEMask
        \<and> get CcuV1_CcuInstrMin ''waitCKEId'' I = waitCKEId
        \<and> get CcuV1_CcuInstrMin ''waitCKEMask'' I = waitCKEMask)"
  unfolding Let_def
  by (intro conjI) (simp_all only: AddInstr_fields MaxInstr_fields MinInstr_fields)

end
