(* ===== verification/Channel_Data.thy ===== *)
theory Channel_Data
  imports Res_Specs
begin

text \<open>
  The data of channels and jetty contexts (\<^verbatim>\<open>ccu_device/ccu_comp/ccu_channel\<close>): what a channel and a
  jetty hold, the packed entries that are written into the tables of the device, and the register commands that
  carry them. A bit field of a packed struct is a word of its width, so that assigning a wider value truncates it; reserved and unused fields, which stay 0, are left out.
  The last part shows that each packed entry can be read back.
\<close>

subsection \<open>Channels and jettys\<close>

datatype CcuJettyType = CCUM_CACHED_JETTY | TA_CACHED_JETTY | INVALID_JETTY

record JettyInfo =
  jettyType :: CcuJettyType
  jettyCtxId :: nat
  taJettyId :: nat
  sqDepth :: nat
  wqeBBStartId :: nat
  sqBufVa :: u64
  sqBufSize :: nat

definition JettyInfo_new :: JettyInfo where
  "JettyInfo_new =
    \<lparr>jettyType = INVALID_JETTY, jettyCtxId = 0, taJettyId = 0, sqDepth = 0, wqeBBStartId = 0, sqBufVa = 0, sqBufSize = 0\<rparr>"

record ChannelInfo =
  chId :: nat
  chDieId :: nat
  jettyInfos :: "JettyInfo list"

record ChannelResInfo =
  chAllocated :: bool
  chFeId :: u32
  chInfo :: ChannelInfo

definition ChannelResInfo_new :: ChannelResInfo where
  "ChannelResInfo_new = \<lparr>chAllocated = False, chFeId = 0, chInfo = \<lparr>chId = 0, chDieId = 0, jettyInfos = []\<rparr>\<rparr>"

record ChannelPara =
  paraFeId :: u32
  paraJettyNum :: nat
  paraSqSize :: nat

record JettyCfg =
  cfgJettyCtxId :: nat
  dbVa :: u64
  dbTokenId :: u32
  dbTokenValue :: u32

record ChannelCfg =
  cfgChannelId :: nat
  remoteEid :: "u8 list"
  tpn :: u32
  remoteCcuVa :: u64
  memTokenId :: u32
  memTokenValue :: u32
  jettyCfgs :: "JettyCfg list"

text \<open>The conversions to narrower unsigned types.\<close>

definition u16_of :: "nat \<Rightarrow> nat" where
  "u16_of n = n mod 2 ^ 16"

subsection \<open>Packed entries\<close>

record LocalJettyCtxData =
  doorbellAddr :: "u16 list"
  pfeIdx :: "4 word"
  jtIoDieId :: "1 word"
  doorbellAddrType :: "1 word"
  tokenValueIsValid :: "1 word"
  tokenIdLow :: "8 word"
  tokenIdHigh :: "12 word"
  tokenValueLow :: "4 word"
  tokenValueMiddle :: u16
  tokenValueHigh :: "12 word"
  sqeBasicBlockLeftShifts :: "4 word"
  jtPi :: u16
  jtCi :: u16
  jtMaxCi :: u16
  oooCqeCnt :: "12 word"
  startWqeBasicBlockIdxLow :: "4 word"
  startWqeBasicBlockIdxHigh :: "8 word"
  doorbellSendState :: "2 word"

record ChannelCtxDataV1 =
  v1EidRaw :: "u8 list"
  v1VtpLow :: u16
  v1VtpHigh :: "8 word"
  v1SrcPfeId :: "4 word"
  v1StartJettyIdLow :: "4 word"
  v1StartJettyIdHigh :: "12 word"
  v1JettyNumLow :: "4 word"
  v1JettyNumHigh :: "3 word"
  v1IoDieId :: "1 word"
  v1DstTokenIdLow :: "12 word"
  v1DstTokenIdHigh :: "8 word"
  v1DstTokenValueLow :: "8 word"
  v1DstTokenValueMiddle :: u16
  v1DstTokenValueHigh :: "8 word"
  v1DstVaLow :: "8 word"
  v1DstVaMiddle :: u16
  v1DstVaHigh :: u16
  v1DstVaHigher :: "1 word"
  v1DstTokenValueValid :: "1 word"

record ChannelDataV2 =
  v2EidRaw :: "u8 list"
  v2VtpLow :: u16
  v2VtpHigh :: "8 word"
  v2IoDieId :: "1 word"

record PfeCtx =
  pfeStartJettyId :: u16
  pfeJettyNum :: "7 word"
  pfeStartLocalJettyCtxId :: "7 word"

definition URMA_EID_LEN :: nat where "URMA_EID_LEN = 16"

definition ChannelCtxDataV1_zero :: ChannelCtxDataV1 where
  "ChannelCtxDataV1_zero =
    \<lparr>v1EidRaw = replicate URMA_EID_LEN 0, v1VtpLow = 0, v1VtpHigh = 0, v1SrcPfeId = 0, v1StartJettyIdLow = 0,
     v1StartJettyIdHigh = 0, v1JettyNumLow = 0, v1JettyNumHigh = 0, v1IoDieId = 0, v1DstTokenIdLow = 0,
     v1DstTokenIdHigh = 0, v1DstTokenValueLow = 0, v1DstTokenValueMiddle = 0, v1DstTokenValueHigh = 0, v1DstVaLow = 0,
     v1DstVaMiddle = 0, v1DstVaHigh = 0, v1DstVaHigher = 0, v1DstTokenValueValid = 0\<rparr>"

definition ChannelDataV2_zero :: ChannelDataV2 where
  "ChannelDataV2_zero = \<lparr>v2EidRaw = replicate URMA_EID_LEN 0, v2VtpLow = 0, v2VtpHigh = 0, v2IoDieId = 0\<rparr>"

text \<open>The binary logarithm loop; the argument is not 0.\<close>

fun Log2_loop :: "nat \<Rightarrow> nat \<Rightarrow> nat" where
  "Log2_loop n log2 = (if n > 1 then Log2_loop (n div 2) (log2 + 1) else log2)"

declare Log2_loop.simps [simp del]

definition Log2OfPowerOfTwo :: "nat \<Rightarrow> nat" where
  "Log2OfPowerOfTwo n = Log2_loop n 0"

definition CCU_WQE_NUM_PER_SQE :: nat where "CCU_WQE_NUM_PER_SQE = 4"
definition CCU_ONE_WQE_SIZE :: nat where "CCU_ONE_WQE_SIZE = 64"

definition BuildJettyCtxData :: "nat \<Rightarrow> u32 \<Rightarrow> JettyInfo \<Rightarrow> JettyCfg \<Rightarrow> LocalJettyCtxData" where
  "BuildJettyCtxData dieId pfeId info cfg =
    (let wqeBBShift = Log2OfPowerOfTwo (u32_mul (sqDepth info) CCU_WQE_NUM_PER_SQE);
         wqeBBIdx = (of_nat (wqeBBStartId info) :: u16)
     in \<lparr>doorbellAddr = map (\<lambda>k. ucast (drop_bit (16 * k) (dbVa cfg))) [0, 1, 2, 3],
         pfeIdx = ucast (ucast pfeId :: u8),
         jtIoDieId = of_nat dieId,
         doorbellAddrType = 1,
         tokenValueIsValid = 1,
         tokenIdLow = ucast (dbTokenId cfg AND 0xFF),
         tokenIdHigh = ucast (drop_bit 8 (dbTokenId cfg) AND 0xFFF),
         tokenValueLow = ucast (dbTokenValue cfg AND 0xF),
         tokenValueMiddle = ucast (drop_bit 4 (dbTokenValue cfg) AND 0xFFFF),
         tokenValueHigh = ucast (drop_bit 20 (dbTokenValue cfg) AND 0xFFF),
         sqeBasicBlockLeftShifts = of_nat wqeBBShift,
         jtPi = 0, jtCi = 0, jtMaxCi = 0, oooCqeCnt = 0,
         startWqeBasicBlockIdxLow = ucast (wqeBBIdx AND 0xF),
         startWqeBasicBlockIdxHigh = ucast (drop_bit 4 wqeBBIdx AND 0xFF),
         doorbellSendState = 0\<rparr>)"

definition BuildChannelCtxDataV1 :: "ChannelCfg \<Rightarrow> u32 \<Rightarrow> nat \<Rightarrow> u16 \<Rightarrow> ChannelCtxDataV1" where
  "BuildChannelCtxDataV1 cfg feId dieId startTaJettyId =
    (let jettyNum = (of_nat (length (jettyCfgs cfg)) - 1 :: u8);
         dstVa = drop_bit 23 (remoteCcuVa cfg)
     in \<lparr>v1EidRaw = remoteEid cfg,
         v1VtpLow = ucast (tpn cfg AND 0xFFFF),
         v1VtpHigh = ucast (drop_bit 16 (tpn cfg AND 0xFFFF0000) AND 0xFF),
         v1SrcPfeId = ucast (ucast feId :: u16),
         v1StartJettyIdLow = ucast (startTaJettyId AND 0xF),
         v1StartJettyIdHigh = ucast (drop_bit 4 startTaJettyId AND 0xFFF),
         v1JettyNumLow = ucast (jettyNum AND 0xF),
         v1JettyNumHigh = ucast (drop_bit 4 jettyNum AND 0x7),
         v1IoDieId = of_nat dieId,
         v1DstTokenIdLow = ucast (memTokenId cfg AND 0xFFF),
         v1DstTokenIdHigh = ucast (drop_bit 12 (memTokenId cfg) AND 0xFF),
         v1DstTokenValueLow = ucast (memTokenValue cfg AND 0xFF),
         v1DstTokenValueMiddle = ucast (drop_bit 8 (memTokenValue cfg) AND 0xFFFF),
         v1DstTokenValueHigh = ucast (drop_bit 24 (memTokenValue cfg) AND 0xFF),
         v1DstVaLow = ucast (dstVa AND 0xFF),
         v1DstVaMiddle = ucast (drop_bit 8 dstVa AND 0xFFFF),
         v1DstVaHigh = ucast (drop_bit 24 dstVa AND 0xFFFF),
         v1DstVaHigher = ucast (drop_bit 40 dstVa AND 0x1),
         v1DstTokenValueValid = 1\<rparr>)"

definition BuildChannelDataV2 :: "ChannelCfg \<Rightarrow> nat \<Rightarrow> ChannelDataV2" where
  "BuildChannelDataV2 cfg dieId =
    \<lparr>v2EidRaw = remoteEid cfg,
     v2VtpLow = ucast (tpn cfg AND 0xFFFF),
     v2VtpHigh = ucast (drop_bit 16 (tpn cfg AND 0xFFFF0000) AND 0xFF),
     v2IoDieId = of_nat dieId\<rparr>"

subsection \<open>Register commands\<close>

datatype ChannelData = DataV1 ChannelCtxDataV1 | DataV2 ChannelDataV2

text \<open>The commands of \<^verbatim>\<open>HccpRaTlvCcuCustomChannel\<close> that the library sends, with the fields it fills. The
  driver is a function from the commands sent before and the next command to its answer.\<close>

datatype CcuCommand =
    CCU_U_OP_SET_TIF_SPLIT_SIZE nat u32 u32 u32
  | CCU_U_OP_SET_XN_TOTAL_CNT nat nat nat nat nat
  | CCU_U_OP_SET_TASKKILL nat
  | CCU_U_OP_CLEAN_TASKKILL_STATE nat
  | CCU_U_OP_SET_CKE nat nat nat
  | CCU_U_OP_SET_MSID_TOKEN nat u32 u32 u32
  | CCU_U_OP_SET_PFE nat u32 PfeCtx
  | CCU_U_OP_SET_JETTY_CTX nat nat "LocalJettyCtxData list"
  | CCU_U_OP_SET_CHANNEL nat nat ChannelData

type_synonym CcuChannelDriver = "CcuCommand list \<Rightarrow> CcuCommand \<Rightarrow> HcclResult"

definition send :: "CcuChannelDriver \<Rightarrow> CcuCommand \<Rightarrow> CcuCommand list \<Rightarrow> HcclResult \<times> CcuCommand list" where
  "send chan cmd log = (chan log cmd, log @ [cmd])"

lemma send_eq [simp]: "fst (send chan cmd log) = chan log cmd" "snd (send chan cmd log) = log @ [cmd]"
  by (simp_all add: send_def)

subsection \<open>Reading the entries back\<close>

text \<open>The masks are truncations, and truncating to a field does nothing beyond its width.\<close>

lemma mask_numerals:
  "(0xF :: 'a::len word) = mask 4" "(0x7 :: 'a word) = mask 3" "(0xFF :: 'a word) = mask 8" "(0xFFF :: 'a word) = mask 12"
  "(0xFFFF :: 'a word) = mask 16"
  by (simp_all only: mask_eq_exp_minus_1 power_numeral) simp_all

lemma mask_high: "(0xFFFF0000 :: u32) = push_bit 16 (mask 16)"
  by (simp add: mask_eq_exp_minus_1 push_bit_eq_mult)

lemmas read_back = bit_or_iff bit_push_bit_iff bit_drop_bit_eq bit_ucast_iff bit_take_bit_iff bit_and_iff bit_mask_iff
  mask_numerals mask_high

text \<open>What the device reads from the parts of an entry.\<close>

definition entry_doorbell :: "LocalJettyCtxData \<Rightarrow> u64" where
  "entry_doorbell d = push_bit 48 (ucast (doorbellAddr d ! 3)) OR push_bit 32 (ucast (doorbellAddr d ! 2))
    OR push_bit 16 (ucast (doorbellAddr d ! 1)) OR ucast (doorbellAddr d ! 0)"

definition entry_token_id :: "LocalJettyCtxData \<Rightarrow> u32" where
  "entry_token_id d = push_bit 8 (ucast (tokenIdHigh d)) OR ucast (tokenIdLow d)"

definition entry_token_value :: "LocalJettyCtxData \<Rightarrow> u32" where
  "entry_token_value d =
    push_bit 20 (ucast (tokenValueHigh d)) OR push_bit 4 (ucast (tokenValueMiddle d)) OR ucast (tokenValueLow d)"

definition entry_wqebb :: "LocalJettyCtxData \<Rightarrow> u16" where
  "entry_wqebb d = push_bit 4 (ucast (startWqeBasicBlockIdxHigh d)) OR ucast (startWqeBasicBlockIdxLow d)"

definition channel_vtp :: "ChannelCtxDataV1 \<Rightarrow> u32" where
  "channel_vtp d = push_bit 16 (ucast (v1VtpHigh d)) OR ucast (v1VtpLow d)"

definition channel_start_jetty :: "ChannelCtxDataV1 \<Rightarrow> u16" where
  "channel_start_jetty d = push_bit 4 (ucast (v1StartJettyIdHigh d)) OR ucast (v1StartJettyIdLow d)"

definition channel_last_jetty :: "ChannelCtxDataV1 \<Rightarrow> u8" where
  "channel_last_jetty d = push_bit 4 (ucast (v1JettyNumHigh d)) OR ucast (v1JettyNumLow d)"

definition channel_token_id :: "ChannelCtxDataV1 \<Rightarrow> u32" where
  "channel_token_id d = push_bit 12 (ucast (v1DstTokenIdHigh d)) OR ucast (v1DstTokenIdLow d)"

definition channel_token_value :: "ChannelCtxDataV1 \<Rightarrow> u32" where
  "channel_token_value d =
    push_bit 24 (ucast (v1DstTokenValueHigh d)) OR push_bit 8 (ucast (v1DstTokenValueMiddle d)) OR ucast (v1DstTokenValueLow d)"

definition channel_va :: "ChannelCtxDataV1 \<Rightarrow> u64" where
  "channel_va d = push_bit 63 (ucast (v1DstVaHigher d)) OR push_bit 47 (ucast (v1DstVaHigh d))
    OR push_bit 31 (ucast (v1DstVaMiddle d)) OR push_bit 23 (ucast (v1DstVaLow d))"

lemma entry_doorbell_back: "entry_doorbell (BuildJettyCtxData dieId pfeId info cfg) = dbVa cfg"
  by (rule bit_word_eqI) (auto simp: entry_doorbell_def BuildJettyCtxData_def Let_def read_back cong: conj_cong)

lemma entry_token_back:
  "entry_token_id (BuildJettyCtxData dieId pfeId info cfg) = take_bit 20 (dbTokenId cfg)"
  "entry_token_value (BuildJettyCtxData dieId pfeId info cfg) = dbTokenValue cfg"
  by (rule bit_word_eqI, auto simp: entry_token_id_def entry_token_value_def BuildJettyCtxData_def Let_def read_back cong: conj_cong)+

lemma entry_wqebb_back:
  "entry_wqebb (BuildJettyCtxData dieId pfeId info cfg) = take_bit 12 (of_nat (wqeBBStartId info))"
  by (rule bit_word_eqI) (auto simp: entry_wqebb_def BuildJettyCtxData_def Let_def read_back cong: conj_cong)

lemma channel_back:
  "channel_vtp (BuildChannelCtxDataV1 cfg feId dieId taId) = take_bit 24 (tpn cfg)"
  "channel_start_jetty (BuildChannelCtxDataV1 cfg feId dieId taId) = taId"
  "channel_last_jetty (BuildChannelCtxDataV1 cfg feId dieId taId) = take_bit 7 (of_nat (length (jettyCfgs cfg)) - 1)"
  "channel_token_id (BuildChannelCtxDataV1 cfg feId dieId taId) = take_bit 20 (memTokenId cfg)"
  "channel_token_value (BuildChannelCtxDataV1 cfg feId dieId taId) = memTokenValue cfg"
  by (rule bit_word_eqI, auto simp: channel_vtp_def channel_start_jetty_def channel_last_jetty_def channel_token_id_def
      channel_token_value_def BuildChannelCtxDataV1_def Let_def read_back cong: conj_cong)+

lemma channel_va_back:
  "channel_va (BuildChannelCtxDataV1 cfg feId dieId taId) = push_bit 23 (drop_bit 23 (remoteCcuVa cfg))"
proof (rule bit_word_eqI)
  fix n
  assume "n < LENGTH(64)"
  then show "bit (channel_va (BuildChannelCtxDataV1 cfg feId dieId taId)) n \<longleftrightarrow> bit (push_bit 23 (drop_bit 23 (remoteCcuVa cfg))) n"
    by (cases "n = 63") (auto simp: channel_va_def BuildChannelCtxDataV1_def Let_def read_back cong: conj_cong)
qed

text \<open>The shift of an entry is the logarithm of the size of the send queue in basic blocks.\<close>

lemma Log2_loop_power: "Log2_loop (2 ^ k) a = k + a"
proof (induction k arbitrary: a)
  case (Suc k)
  have "1 < (2 :: nat) ^ Suc k"
    by (rule one_less_power) simp_all
  then show ?case
    using Suc.IH [of "a + 1"] by (subst Log2_loop.simps) simp
qed (subst Log2_loop.simps, simp)

lemma Log2OfPowerOfTwo_power: "Log2OfPowerOfTwo (2 ^ k) = k"
  by (simp add: Log2OfPowerOfTwo_def Log2_loop_power)

end
