(* ===== verification/Channel_Jetty.thy ===== *)
theory Channel_Jetty
  imports Channel_Data Res_Allocator
begin

text \<open>
  The managers of jetty contexts (\<^verbatim>\<open>ccu_jetty_ctx_mgr.cc\<close>, its two versions, the managers of work queue basic
  blocks and of the PFE table). A jetty context owns a run of basic blocks (WQEBB) for its send queue. Version 1
  gives every channel its own contexts from one pool of ids and rounds the size of the send queue; version 2 has a
  fixed run per context and hands out whole groups of contexts, shared by a group of channels and counted. The base
  class calls the virtual \<^verbatim>\<open>Alloc\<close> and \<^verbatim>\<open>Release\<close> of the basic block manager; they are arguments of the
  functions that model it.
\<close>

definition CCU_MIN_SQ_DEPTH :: u32 where "CCU_MIN_SQ_DEPTH = 16"
definition CCU_MAX_SQ_DEPTH :: u32 where "CCU_MAX_SQ_DEPTH = 256"
definition CCU_START_TA_JETTY_ID :: nat where "CCU_START_TA_JETTY_ID = 1024"
definition CCU_SQ_BUFFER_SIZE :: nat where "CCU_SQ_BUFFER_SIZE = 256 * 1024"
definition CCU_PER_DIE_JETTY_RESERVED_NUM :: nat where "CCU_PER_DIE_JETTY_RESERVED_NUM = 128"
definition CCU_V2_FIXED_SQ_SIZE :: nat where "CCU_V2_FIXED_SQ_SIZE = 32"
definition CCU_V1_WQE_BASIC_BLOCK_OFFSET :: u64 where "CCU_V1_WQE_BASIC_BLOCK_OFFSET = CCU_V1_CCUM_OFFSET + 0x800000"

subsection \<open>PFE table\<close>

record PfeJettyCtxCfg =
  pcFeId :: u32
  pcStartJettyCtxId :: nat
  pcStartTaJettyId :: nat
  pcSize :: nat

record PfeJettyStrategy =
  stFeId :: u32
  stPfeId :: u32
  stStartTaJettyId :: nat
  stSize :: nat
  stStartLocalJettyCtxId :: nat

text \<open>The configuration per die: every FE of an enabled die that the list of endpoints names, once, in order of
  its first appearance. The list of endpoints, as pairs of die and FE, comes from the platform, with the result code of reading it.\<close>

record CcuPfeCfgMgr =
  pfeInitFlag :: bool
  pfeJettyCtxCfgs :: "nat \<Rightarrow> PfeJettyCtxCfg list"

definition CcuPfeCfgMgr_new :: CcuPfeCfgMgr where
  "CcuPfeCfgMgr_new = \<lparr>pfeInitFlag = False, pfeJettyCtxCfgs = (\<lambda>_. [])\<rparr>"

fun CcuPfeCfgMgr_Init_loop ::
  "bool list \<Rightarrow> (nat \<times> u32) list \<Rightarrow> (nat \<Rightarrow> u32 set) \<Rightarrow> (nat \<Rightarrow> PfeJettyCtxCfg list) \<Rightarrow> (nat \<Rightarrow> PfeJettyCtxCfg list)" where
  "CcuPfeCfgMgr_Init_loop flags [] seen cfgs = cfgs"
| "CcuPfeCfgMgr_Init_loop flags ((dieId, feId) # eids) seen cfgs =
    (if dieId \<ge> CCU_MAX_IODIE_NUM then CcuPfeCfgMgr_Init_loop flags eids seen cfgs
     else if \<not> flags ! dieId then CcuPfeCfgMgr_Init_loop flags eids seen cfgs
     else if feId \<in> seen dieId then CcuPfeCfgMgr_Init_loop flags eids seen cfgs
     else
       let cfg = \<lparr>pcFeId = feId, pcStartJettyCtxId = 0, pcStartTaJettyId = CCU_START_TA_JETTY_ID,
                  pcSize = CCU_PER_DIE_JETTY_RESERVED_NUM\<rparr>
       in CcuPfeCfgMgr_Init_loop flags eids (seen(dieId := insert feId (seen dieId))) (cfgs(dieId := cfgs dieId @ [cfg])))"

definition CcuPfeCfgMgr_Init ::
  "HcclResult \<times> (nat \<times> u32) list \<Rightarrow> CcuResSpecifications \<Rightarrow> CcuPfeCfgMgr \<Rightarrow> HcclResult \<times> CcuPfeCfgMgr" where
  "CcuPfeCfgMgr_Init eidInfos specs m =
    (if pfeInitFlag m then (HCCL_SUCCESS, m)
     else if fst eidInfos \<noteq> HCCL_SUCCESS then (fst eidInfos, m)
     else
       let flags = map (\<lambda>d. snd (GetDieEnableFlag specs d False)) [0..<CCU_MAX_IODIE_NUM]
       in (HCCL_SUCCESS,
           \<lparr>pfeInitFlag = True,
            pfeJettyCtxCfgs = CcuPfeCfgMgr_Init_loop flags (snd eidInfos) (\<lambda>_. {}) (pfeJettyCtxCfgs m)\<rparr>))"

definition CcuPfeCfgMgr_Deinit :: "CcuPfeCfgMgr \<Rightarrow> CcuPfeCfgMgr" where
  "CcuPfeCfgMgr_Deinit m = \<lparr>pfeInitFlag = False, pfeJettyCtxCfgs = (\<lambda>_. [])\<rparr>"

definition GetPfeJettyCtxCfg :: "nat \<Rightarrow> CcuPfeCfgMgr \<Rightarrow> PfeJettyCtxCfg list" where
  "GetPfeJettyCtxCfg dieId m = (if dieId \<ge> CCU_MAX_IODIE_NUM then [] else pfeJettyCtxCfgs m dieId)"

definition BuildPfeCtx :: "PfeJettyCtxCfg \<Rightarrow> PfeCtx" where
  "BuildPfeCtx cfg =
    \<lparr>pfeStartJettyId = of_nat (pcStartTaJettyId cfg), pfeJettyNum = of_nat (pcSize cfg) - 1,
     pfeStartLocalJettyCtxId = of_nat (pcStartJettyCtxId cfg)\<rparr>"

definition BuildStrategy :: "PfeJettyCtxCfg \<Rightarrow> PfeJettyStrategy" where
  "BuildStrategy cfg =
    \<lparr>stFeId = pcFeId cfg, stPfeId = pcFeId cfg, stStartTaJettyId = pcStartTaJettyId cfg, stSize = pcSize cfg,
     stStartLocalJettyCtxId = pcStartJettyCtxId cfg\<rparr>"

definition ConfigPfeTable ::
  "CcuChannelDriver \<Rightarrow> nat \<Rightarrow> u32 \<Rightarrow> u32 \<Rightarrow> PfeCtx \<Rightarrow> CcuCommand list \<Rightarrow> HcclResult \<times> CcuCommand list" where
  "ConfigPfeTable chan dieId feId pfeReservedNum pfeCtx log =
    (if feId > - 1 - of_nat dieId * pfeReservedNum then (HCCL_E_INTERNAL, log)
     else send chan (CCU_U_OP_SET_PFE dieId (of_nat dieId * pfeReservedNum + feId) pfeCtx) log)"

type_synonym PfeJettyMap = "u32 \<rightharpoonup> PfeJettyStrategy"

fun CcuPfeMgr_Init_loop ::
  "CcuChannelDriver \<Rightarrow> nat \<Rightarrow> u32 \<Rightarrow> PfeJettyCtxCfg list \<Rightarrow> PfeJettyMap \<Rightarrow> CcuCommand list
    \<Rightarrow> HcclResult \<times> PfeJettyMap \<times> CcuCommand list" where
  "CcuPfeMgr_Init_loop chan dieId pfeReservedNum [] m log = (HCCL_SUCCESS, m, log)"
| "CcuPfeMgr_Init_loop chan dieId pfeReservedNum (cfg # cfgs) m log =
    (if m (pcFeId cfg) \<noteq> None then CcuPfeMgr_Init_loop chan dieId pfeReservedNum cfgs m log
     else
       let m = m(pcFeId cfg \<mapsto> BuildStrategy cfg)
       in case ConfigPfeTable chan dieId (pcFeId cfg) pfeReservedNum (BuildPfeCtx cfg) log of (ret, log) \<Rightarrow>
         if ret \<noteq> HCCL_SUCCESS then (ret, m, log)
         else CcuPfeMgr_Init_loop chan dieId pfeReservedNum cfgs m log)"

definition CcuPfeMgr_Init ::
  "CcuChannelDriver \<Rightarrow> CcuResSpecifications \<Rightarrow> CcuPfeCfgMgr \<Rightarrow> nat \<Rightarrow> PfeJettyMap \<Rightarrow> CcuCommand list
    \<Rightarrow> HcclResult \<times> PfeJettyMap \<times> CcuCommand list" where
  "CcuPfeMgr_Init chan specs cfgMgr dieId m log =
    (let cfgs = GetPfeJettyCtxCfg dieId cfgMgr;
         pfeReservedNum = snd (GetPfeReservedNum specs dieId 0)
     in if cfgs = [] then (HCCL_SUCCESS, m, log)
        else if pfeReservedNum = 0 then (HCCL_SUCCESS, m, log)
        else CcuPfeMgr_Init_loop chan dieId pfeReservedNum cfgs m log)"

definition GetPfeStrategy :: "u32 \<Rightarrow> PfeJettyMap \<Rightarrow> HcclResult + PfeJettyStrategy" where
  "GetPfeStrategy feId m = (case m feId of None \<Rightarrow> Inl HCCL_E_NOT_FOUND | Some st \<Rightarrow> Inr st)"

subsection \<open>Basic blocks\<close>

text \<open>A request is the size of the send queue and the id of the (first) jetty context.\<close>

type_synonym WqeBBReq = "nat \<times> nat"

definition RoundUpToNextPowerOfTwo :: "u32 \<Rightarrow> u32" where
  "RoundUpToNextPowerOfTwo n =
    (if n = 0 then 1
     else
       let n = n - 1; n = n OR drop_bit 1 n; n = n OR drop_bit 2 n; n = n OR drop_bit 4 n;
           n = n OR drop_bit 8 n; n = n OR drop_bit 16 n
       in n + 1)"

definition GetWqeBBReqSizeBySqSize :: "u32 \<Rightarrow> u32" where
  "GetWqeBBReqSizeBySqSize sqSize =
    (if sqSize < CCU_MIN_SQ_DEPTH then CCU_MIN_SQ_DEPTH
     else
       let wqeBBReqNum = RoundUpToNextPowerOfTwo sqSize
       in if sqSize > CCU_MAX_SQ_DEPTH then CCU_MAX_SQ_DEPTH else wqeBBReqNum)"

definition CcuWqeBBMgrV1_Init :: "CcuResSpecifications \<Rightarrow> nat \<Rightarrow> CcuResIdAllocator" where
  "CcuWqeBBMgrV1_Init specs dieId = CcuResIdAllocator_new (unat (snd (GetWqeBBNum specs dieId 0)))"

definition CcuWqeBBMgrV1_Alloc ::
  "WqeBBReq \<Rightarrow> ResInfo \<Rightarrow> CcuResIdAllocator \<Rightarrow> HcclResult \<times> ResInfo \<times> CcuResIdAllocator" where
  "CcuWqeBBMgrV1_Alloc req info a =
    (case Alloc (unat (GetWqeBBReqSizeBySqSize (of_nat (fst req)))) True a of (ret, infos, a) \<Rightarrow>
       if ret \<noteq> HCCL_SUCCESS then (ret, info, a) else (ret, infos ! 0, a))"

definition CcuWqeBBMgrV1_Release :: "ResInfo \<Rightarrow> CcuResIdAllocator \<Rightarrow> HcclResult \<times> CcuResIdAllocator" where
  "CcuWqeBBMgrV1_Release info a = Release (startId info) (num info) a"

definition CcuWqeBBMgrV2_Init :: "CcuResSpecifications \<Rightarrow> nat \<Rightarrow> HcclResult \<times> bool list" where
  "CcuWqeBBMgrV2_Init specs dieId =
    (if snd (GetJettyNum specs dieId 0) = 0 then (HCCL_E_UNAVAIL, [])
     else (HCCL_SUCCESS, replicate (unat (snd (GetWqeBBNum specs dieId 0)) div CCU_V2_FIXED_SQ_SIZE) False))"

definition CcuWqeBBMgrV2_Alloc :: "WqeBBReq \<Rightarrow> ResInfo \<Rightarrow> bool list \<Rightarrow> HcclResult \<times> ResInfo \<times> bool list" where
  "CcuWqeBBMgrV2_Alloc req info blocks =
    (let k = snd req;
         info = mk_res (u32_mul k CCU_V2_FIXED_SQ_SIZE) CCU_V2_FIXED_SQ_SIZE
     in if k \<ge> length blocks then (HCCL_E_INTERNAL, info, blocks)
        else if blocks ! k then (HCCL_E_INTERNAL, info, blocks)
        else (HCCL_SUCCESS, info, blocks[k := True]))"

definition CcuWqeBBMgrV2_Release :: "ResInfo \<Rightarrow> bool list \<Rightarrow> HcclResult \<times> bool list" where
  "CcuWqeBBMgrV2_Release info blocks =
    (let k = startId info div CCU_V2_FIXED_SQ_SIZE
     in if k \<ge> length blocks then (HCCL_E_INTERNAL, blocks)
        else if \<not> blocks ! k then (HCCL_E_PARA, blocks)
        else (HCCL_SUCCESS, blocks[k := False]))"

subsection \<open>Common code of the jetty managers\<close>

definition GetSqeBuffVa :: "u64 \<Rightarrow> nat \<Rightarrow> HcclResult \<times> u64" where
  "GetSqeBuffVa ccuResBaseVa ctxId =
    (if (2 ^ 32 - 1) div CCU_SQ_BUFFER_SIZE < ctxId then (HCCL_E_INTERNAL, 0)
     else
       let jettyCtxOffset = of_nat (ctxId * CCU_SQ_BUFFER_SIZE)
       in if - 1 - CCU_V1_WQE_BASIC_BLOCK_OFFSET - jettyCtxOffset < ccuResBaseVa then (HCCL_E_INTERNAL, 0)
          else (HCCL_SUCCESS, ccuResBaseVa + CCU_V1_WQE_BASIC_BLOCK_OFFSET + jettyCtxOffset))"

text \<open>Filling in one jetty from its run of basic blocks; the address of the send queue buffer only for the jettys
  that the CCU caches.\<close>

definition fill_jetty :: "CcuJettyType \<Rightarrow> nat \<Rightarrow> nat \<Rightarrow> ResInfo \<Rightarrow> JettyInfo \<Rightarrow> JettyInfo" where
  "fill_jetty type ctxId taId wqeBBInfo info =
    (let info = info\<lparr>jettyType := type, jettyCtxId := u16_of ctxId, taJettyId := u16_of taId,
                     sqDepth := num wqeBBInfo div CCU_WQE_NUM_PER_SQE, wqeBBStartId := startId wqeBBInfo\<rparr>
     in if type = CCUM_CACHED_JETTY then info\<lparr>sqBufSize := u32_mul (num wqeBBInfo) CCU_ONE_WQE_SIZE\<rparr> else info)"

fun TryAllocWqeBB_loop ::
  "(WqeBBReq \<Rightarrow> ResInfo \<Rightarrow> 'w \<Rightarrow> HcclResult \<times> ResInfo \<times> 'w) \<Rightarrow> u64 \<Rightarrow> nat \<Rightarrow> nat \<Rightarrow> nat \<Rightarrow> CcuJettyType \<Rightarrow> nat list
    \<Rightarrow> JettyInfo list \<Rightarrow> 'w \<Rightarrow> HcclResult \<times> JettyInfo list \<times> 'w" where
  "TryAllocWqeBB_loop alloc baseVa sqSize ctxStart taStart type [] infos w = (HCCL_SUCCESS, infos, w)"
| "TryAllocWqeBB_loop alloc baseVa sqSize ctxStart taStart type (i # is) infos w =
    (case alloc (sqSize, ctxStart) (mk_res 0 0) w of (ret, wqeBBInfo, w) \<Rightarrow>
       if ret \<noteq> HCCL_SUCCESS then (ret, infos, w)
       else
         let info = fill_jetty type (u32_add ctxStart i) (u32_add taStart i) wqeBBInfo (infos ! i)
         in if type = CCUM_CACHED_JETTY
            then case GetSqeBuffVa baseVa (jettyCtxId info) of (ret, va) \<Rightarrow>
              let infos = infos[i := info\<lparr>sqBufVa := va\<rparr>]
              in if ret \<noteq> HCCL_SUCCESS then (ret, infos, w)
                 else TryAllocWqeBB_loop alloc baseVa sqSize ctxStart taStart type is infos w
            else TryAllocWqeBB_loop alloc baseVa sqSize ctxStart taStart type is (infos[i := info]) w)"

definition TryAllocWqeBBResource ::
  "(WqeBBReq \<Rightarrow> ResInfo \<Rightarrow> 'w \<Rightarrow> HcclResult \<times> ResInfo \<times> 'w) \<Rightarrow> u64 \<Rightarrow> nat \<Rightarrow> nat \<Rightarrow> nat \<Rightarrow> CcuJettyType
    \<Rightarrow> JettyInfo list \<Rightarrow> 'w \<Rightarrow> HcclResult \<times> JettyInfo list \<times> 'w" where
  "TryAllocWqeBBResource alloc baseVa sqSize ctxStart taStart type infos w =
    (if length infos = 0 then (HCCL_E_PARA, infos, w)
     else if baseVa = 0 then (HCCL_E_INTERNAL, infos, w)
     else TryAllocWqeBB_loop alloc baseVa sqSize ctxStart taStart type [0..<length infos] infos w)"

fun ReleaseWqeBBResource ::
  "(ResInfo \<Rightarrow> 'w \<Rightarrow> HcclResult \<times> 'w) \<Rightarrow> JettyInfo list \<Rightarrow> 'w \<Rightarrow> HcclResult \<times> 'w" where
  "ReleaseWqeBBResource release [] w = (HCCL_SUCCESS, w)"
| "ReleaseWqeBBResource release (info # infos) w =
    (if sqDepth info = 0 then ReleaseWqeBBResource release infos w
     else case release (mk_res (wqeBBStartId info) (u32_mul (sqDepth info) CCU_WQE_NUM_PER_SQE)) w of (ret, w) \<Rightarrow>
       if ret \<noteq> HCCL_SUCCESS then (ret, w) else ReleaseWqeBBResource release infos w)"

definition CheckIfJettyCfgsValid :: "JettyInfo list \<Rightarrow> JettyCfg list \<Rightarrow> HcclResult" where
  "CheckIfJettyCfgsValid infos cfgs =
    (if length cfgs \<noteq> length infos then HCCL_E_PARA
     else if list_all2 (\<lambda>info cfg. jettyCtxId info = cfgJettyCtxId cfg) infos cfgs then HCCL_SUCCESS
     else HCCL_E_PARA)"

text \<open>The entries are copied into the eight elements of \<^verbatim>\<open>dataArray\<close> without a bound; a command is the
  list of entries.\<close>

definition ConfigJettyCtxData ::
  "CcuChannelDriver \<Rightarrow> nat \<Rightarrow> nat \<Rightarrow> LocalJettyCtxData list \<Rightarrow> CcuCommand list \<Rightarrow> HcclResult \<times> CcuCommand list" where
  "ConfigJettyCtxData chan dieId startJettyCtxId jettyCtxData log =
    send chan (CCU_U_OP_SET_JETTY_CTX dieId startJettyCtxId jettyCtxData) log"

end
