(* ===== verification/Channel_Mgr.thy ===== *)
theory Channel_Mgr
  imports Channel_Jetty
begin

text \<open>
  The two versions of the jetty context manager and of the channel manager of a die (classes
  \<^verbatim>\<open>CcuJettyCtxMgrV1\<close>, \<^verbatim>\<open>CcuJettyCtxMgrV2\<close>, \<^verbatim>\<open>CcuChannelCtxMgrV1\<close> and \<^verbatim>\<open>CcuChannelCtxMgrV2\<close>). Each call
  of a channel manager holds its mutex, so it is one step. The register commands it sends are appended to the log
  that the driver answers from.
\<close>

subsection \<open>Jetty contexts, version 1\<close>

text \<open>The allocator of jetty ids is created at the first request, with the strategy of the FE that asks.\<close>

record CcuJettyCtxMgrV1 =
  j1SpecNum :: nat
  j1BaseVa :: u64
  j1Wqe :: CcuResIdAllocator
  j1Pfe :: PfeJettyMap
  j1Alloc :: "(PfeJettyStrategy \<times> CcuResIdAllocator) option"

definition CcuJettyCtxMgrV1_Init ::
  "CcuChannelDriver \<Rightarrow> CcuResSpecifications \<Rightarrow> CcuPfeCfgMgr \<Rightarrow> nat \<Rightarrow> CcuCommand list
    \<Rightarrow> HcclResult \<times> CcuJettyCtxMgrV1 \<times> CcuCommand list" where
  "CcuJettyCtxMgrV1_Init chan specs cfgMgr dieId log =
    (case CcuPfeMgr_Init chan specs cfgMgr dieId Map.empty log of (ret, pfe, log) \<Rightarrow>
       (ret,
        \<lparr>j1SpecNum = unat (snd (GetJettyNum specs dieId 0)), j1BaseVa = snd (GetResourceAddr specs dieId 0),
         j1Wqe = CcuWqeBBMgrV1_Init specs dieId, j1Pfe = pfe, j1Alloc = None\<rparr>, log))"

definition GetJettyAllocator :: "u32 \<Rightarrow> CcuJettyCtxMgrV1 \<Rightarrow> HcclResult + PfeJettyStrategy \<times> CcuResIdAllocator" where
  "GetJettyAllocator feId m =
    (case j1Alloc m of
       Some al \<Rightarrow> Inr al
     | None \<Rightarrow> (case GetPfeStrategy feId (j1Pfe m) of
         Inl e \<Rightarrow> Inl e
       | Inr st \<Rightarrow> Inr (st, CcuResIdAllocator_new (stSize st))))"

definition CcuJettyCtxMgrV1_Alloc ::
  "u32 \<Rightarrow> nat \<Rightarrow> nat \<Rightarrow> CcuJettyCtxMgrV1 \<Rightarrow> HcclResult \<times> JettyInfo list \<times> CcuJettyCtxMgrV1" where
  "CcuJettyCtxMgrV1_Alloc feId n sqSize m =
    (case GetJettyAllocator feId m of
       Inl e \<Rightarrow> (HCCL_E_INTERNAL, [], m)
     | Inr (st, al) \<Rightarrow>
         (case Alloc n True al of (ret, res, al) \<Rightarrow>
            let m = m\<lparr>j1Alloc := Some (st, al)\<rparr>
            in if ret \<noteq> HCCL_SUCCESS then (ret, [], m)
               else
                 let resStart = startId (res ! 0);
                     ctxStart = u32_add (stStartLocalJettyCtxId st) resStart;
                     taStart = u32_add (stStartTaJettyId st) resStart
                 in if ctxStart > u32_sub (j1SpecNum m) n then (HCCL_E_UNAVAIL, [], m)
                    else
                      case TryAllocWqeBBResource CcuWqeBBMgrV1_Alloc (j1BaseVa m) sqSize ctxStart taStart
                             CCUM_CACHED_JETTY (replicate n JettyInfo_new) (j1Wqe m) of (ret, infos, w) \<Rightarrow>
                        if ret = HCCL_SUCCESS then (ret, infos, m\<lparr>j1Wqe := w\<rparr>)
                        else
                          case ReleaseWqeBBResource CcuWqeBBMgrV1_Release infos w of (relRet, w) \<Rightarrow>
                            if relRet \<noteq> HCCL_SUCCESS then (relRet, infos, m\<lparr>j1Wqe := w\<rparr>)
                            else
                              case Release resStart n al of (relRet, al) \<Rightarrow>
                                (if relRet \<noteq> HCCL_SUCCESS then relRet else ret, [],
                                 m\<lparr>j1Wqe := w, j1Alloc := Some (st, al)\<rparr>)))"

definition CcuJettyCtxMgrV1_Config ::
  "CcuChannelDriver \<Rightarrow> nat \<Rightarrow> u32 \<Rightarrow> JettyInfo list \<Rightarrow> JettyCfg list \<Rightarrow> CcuCommand list \<Rightarrow> HcclResult \<times> CcuCommand list" where
  "CcuJettyCtxMgrV1_Config chan dieId feId infos cfgs log =
    (let ret = CheckIfJettyCfgsValid infos cfgs
     in if ret \<noteq> HCCL_SUCCESS then (ret, log)
        else ConfigJettyCtxData chan dieId (jettyCtxId (infos ! 0)) (map2 (BuildJettyCtxData dieId feId) infos cfgs) log)"

definition CcuJettyCtxMgrV1_Release ::
  "u32 \<Rightarrow> JettyInfo list \<Rightarrow> CcuJettyCtxMgrV1 \<Rightarrow> HcclResult \<times> CcuJettyCtxMgrV1" where
  "CcuJettyCtxMgrV1_Release feId infos m =
    (if infos = [] then (HCCL_SUCCESS, m)
     else case GetJettyAllocator feId m of
       Inl e \<Rightarrow> (e, m)
     | Inr (st, al) \<Rightarrow>
         let m = m\<lparr>j1Alloc := Some (st, al)\<rparr>
         in case ReleaseWqeBBResource CcuWqeBBMgrV1_Release infos (j1Wqe m) of (ret, w) \<Rightarrow>
           if ret \<noteq> HCCL_SUCCESS then (ret, m\<lparr>j1Wqe := w\<rparr>)
           else
             case Release (u32_sub (jettyCtxId (infos ! 0)) (stStartLocalJettyCtxId st)) (length infos) al of (ret, al) \<Rightarrow>
               (ret, m\<lparr>j1Wqe := w, j1Alloc := Some (st, al)\<rparr>))"

subsection \<open>Channels, version 1\<close>

record CcuChannelCtxMgrV1 =
  c1DieId :: nat
  c1Channels :: "ChannelResInfo list"
  c1Jetty :: CcuJettyCtxMgrV1

definition CcuChannelCtxMgrV1_Init ::
  "CcuChannelDriver \<Rightarrow> CcuResSpecifications \<Rightarrow> CcuPfeCfgMgr \<Rightarrow> nat \<Rightarrow> CcuCommand list
    \<Rightarrow> HcclResult \<times> CcuChannelCtxMgrV1 \<times> CcuCommand list" where
  "CcuChannelCtxMgrV1_Init chan specs cfgMgr dieId log =
    (case CcuJettyCtxMgrV1_Init chan specs cfgMgr dieId log of (ret, j, log) \<Rightarrow>
       (ret,
        \<lparr>c1DieId = dieId, c1Channels = replicate (unat (snd (GetChannelNum specs dieId 0))) ChannelResInfo_new,
         c1Jetty = j\<rparr>, log))"

fun FindFreeChannelId :: "ChannelResInfo list \<Rightarrow> nat \<Rightarrow> nat option" where
  "FindFreeChannelId [] i = None"
| "FindFreeChannelId (c # cs) i = (if \<not> chAllocated c then Some i else FindFreeChannelId cs (Suc i))"

definition CheckIfChannelAllocated :: "nat \<Rightarrow> ChannelResInfo list \<Rightarrow> bool" where
  "CheckIfChannelAllocated channelId cs = (channelId < length cs \<and> chAllocated (cs ! channelId))"

definition CCU_V1_CHANNEL_DEFAULT_JETTY_NUM :: nat where "CCU_V1_CHANNEL_DEFAULT_JETTY_NUM = 1"

text \<open>The caller's \<^verbatim>\<open>channelInfos\<close> is written only on success.\<close>

definition CcuChannelCtxMgrV1_Alloc ::
  "ChannelPara \<Rightarrow> CcuChannelCtxMgrV1 \<Rightarrow> HcclResult \<times> ChannelInfo list option \<times> CcuChannelCtxMgrV1" where
  "CcuChannelCtxMgrV1_Alloc para m =
    (let n = (if paraJettyNum para = 0 then CCU_V1_CHANNEL_DEFAULT_JETTY_NUM else paraJettyNum para)
     in case FindFreeChannelId (c1Channels m) 0 of
          None \<Rightarrow> (HCCL_E_UNAVAIL, None, m)
        | Some channelId \<Rightarrow>
            (case CcuJettyCtxMgrV1_Alloc (paraFeId para) n (paraSqSize para) (c1Jetty m) of (ret, infos, j) \<Rightarrow>
               let m = m\<lparr>c1Jetty := j\<rparr>
               in if ret \<noteq> HCCL_SUCCESS then (ret, None, m)
                  else
                    let info = \<lparr>chId = channelId, chDieId = c1DieId m, jettyInfos = infos\<rparr>
                    in (HCCL_SUCCESS, Some [info],
                        m\<lparr>c1Channels := (c1Channels m)[channelId :=
                            \<lparr>chAllocated = True, chFeId = paraFeId para, chInfo = info\<rparr>]\<rparr>)))"

definition ConfigChannelCtxDataV1 ::
  "CcuChannelDriver \<Rightarrow> nat \<Rightarrow> nat \<Rightarrow> ChannelCtxDataV1 \<Rightarrow> CcuCommand list \<Rightarrow> HcclResult \<times> CcuCommand list" where
  "ConfigChannelCtxDataV1 chan dieId channelId d log = send chan (CCU_U_OP_SET_CHANNEL dieId channelId (DataV1 d)) log"

definition CcuChannelCtxMgrV1_Config ::
  "CcuChannelDriver \<Rightarrow> ChannelCfg \<Rightarrow> CcuChannelCtxMgrV1 \<Rightarrow> CcuCommand list \<Rightarrow> HcclResult \<times> CcuCommand list" where
  "CcuChannelCtxMgrV1_Config chan cfg m log =
    (if \<not> CheckIfChannelAllocated (cfgChannelId cfg) (c1Channels m) then (HCCL_E_PARA, log)
     else
       let res = c1Channels m ! cfgChannelId cfg;
           infos = jettyInfos (chInfo res)
       in case CcuJettyCtxMgrV1_Config chan (c1DieId m) (chFeId res) infos (jettyCfgs cfg) log of (ret, log) \<Rightarrow>
         if ret \<noteq> HCCL_SUCCESS then (ret, log)
         else ConfigChannelCtxDataV1 chan (c1DieId m) (cfgChannelId cfg)
                (BuildChannelCtxDataV1 cfg (chFeId res) (c1DieId m) (of_nat (taJettyId (infos ! 0)))) log)"

definition CcuChannelCtxMgrV1_Release ::
  "CcuChannelDriver \<Rightarrow> nat \<Rightarrow> CcuChannelCtxMgrV1 \<Rightarrow> CcuCommand list \<Rightarrow> HcclResult \<times> CcuChannelCtxMgrV1 \<times> CcuCommand list" where
  "CcuChannelCtxMgrV1_Release chan channelId m log =
    (if \<not> CheckIfChannelAllocated channelId (c1Channels m) then (HCCL_E_PARA, m, log)
     else
       let res = c1Channels m ! channelId
       in case CcuJettyCtxMgrV1_Release (chFeId res) (jettyInfos (chInfo res)) (c1Jetty m) of (ret, j) \<Rightarrow>
         let m = m\<lparr>c1Jetty := j\<rparr>
         in if ret \<noteq> HCCL_SUCCESS then (ret, m, log)
            else
              let m = m\<lparr>c1Channels := (c1Channels m)[channelId := ChannelResInfo_new]\<rparr>
              in case ConfigChannelCtxDataV1 chan (c1DieId m) channelId ChannelCtxDataV1_zero log of (ret, log) \<Rightarrow>
                (ret, m, log))"

subsection \<open>Jetty contexts, version 2\<close>

record JettyCtxGroup =
  gStartJettyCtxId :: nat
  gStartTaJettyId :: nat
  useCnt :: nat

record CcuJettyCtxMgrV2 =
  j2SpecNum :: nat
  j2BaseVa :: u64
  j2Wqe :: "bool list"
  j2Pfe :: PfeJettyMap
  j2Map :: CcuChannelJettyMap
  j2Groups :: "JettyCtxGroup list"

definition DEFAULT_CHANNEL_JETTY_MAP :: CcuChannelJettyMap where
  "DEFAULT_CHANNEL_JETTY_MAP = \<lparr>mapChannelNum = 8, mapJettyNum = 1\<rparr>"

text \<open>The constructor reads the ratio of channels to jettys; when the basic block manager fails, the PFE table is
  not configured.\<close>

definition CcuJettyCtxMgrV2_Init ::
  "CcuChannelDriver \<Rightarrow> CcuResSpecifications \<Rightarrow> CcuPfeCfgMgr \<Rightarrow> nat \<Rightarrow> CcuCommand list
    \<Rightarrow> HcclResult \<times> CcuJettyCtxMgrV2 \<times> CcuCommand list" where
  "CcuJettyCtxMgrV2_Init chan specs cfgMgr dieId log =
    (let j = \<lparr>j2SpecNum = unat (snd (GetJettyNum specs dieId 0)), j2BaseVa = snd (GetResourceAddr specs dieId 0),
              j2Wqe = [], j2Pfe = Map.empty, j2Map = snd (GetChannelJettyMap specs dieId DEFAULT_CHANNEL_JETTY_MAP),
              j2Groups = []\<rparr>
     in case CcuWqeBBMgrV2_Init specs dieId of (ret, w) \<Rightarrow>
       let j = j\<lparr>j2Wqe := w\<rparr>
       in if ret \<noteq> HCCL_SUCCESS then (ret, j, log)
          else case CcuPfeMgr_Init chan specs cfgMgr dieId Map.empty log of (ret, pfe, log) \<Rightarrow>
            (ret, j\<lparr>j2Pfe := pfe\<rparr>, log))"

definition CheckCtxGroupsByFeId :: "u32 \<Rightarrow> CcuJettyCtxMgrV2 \<Rightarrow> HcclResult \<times> CcuJettyCtxMgrV2" where
  "CheckCtxGroupsByFeId feId m =
    (if length (j2Groups m) \<noteq> 0 then (HCCL_SUCCESS, m)
     else case GetPfeStrategy feId (j2Pfe m) of
       Inl e \<Rightarrow> (e, m)
     | Inr st \<Rightarrow>
         let n = stSize st; groupSize = unat (mapJettyNum (j2Map m))
         in if j2SpecNum m < n \<or> stStartLocalJettyCtxId st > u32_sub (j2SpecNum m) n then (HCCL_E_INTERNAL, m)
            else if n < groupSize \<or> groupSize = 0 then (HCCL_E_UNAVAIL, m)
            else (HCCL_SUCCESS,
                  m\<lparr>j2Groups := map (\<lambda>i. \<lparr>gStartJettyCtxId = u32_add (stStartLocalJettyCtxId st) (u32_mul i groupSize),
                                           gStartTaJettyId = u32_add (stStartTaJettyId st) (u32_mul i groupSize),
                                           useCnt = 0\<rparr>) [0..<n div groupSize]\<rparr>))"

fun FindFree_loop :: "JettyCtxGroup list \<Rightarrow> nat \<Rightarrow> nat option" where
  "FindFree_loop [] i = None"
| "FindFree_loop (g # gs) i = (if useCnt g = 0 then Some i else FindFree_loop gs (Suc i))"

definition FindFreeCtxGroup :: "JettyCtxGroup list \<Rightarrow> HcclResult + nat" where
  "FindFreeCtxGroup groups =
    (if groups = [] then Inl HCCL_E_PARA
     else case FindFree_loop groups 0 of None \<Rightarrow> Inl HCCL_E_UNAVAIL | Some i \<Rightarrow> Inr i)"

definition CcuJettyCtxMgrV2_Alloc ::
  "u32 \<Rightarrow> nat \<Rightarrow> nat \<Rightarrow> CcuJettyCtxMgrV2 \<Rightarrow> HcclResult \<times> JettyInfo list \<times> CcuJettyCtxMgrV2" where
  "CcuJettyCtxMgrV2_Alloc feId n sqSize m =
    (case CheckCtxGroupsByFeId feId m of (ret, m) \<Rightarrow>
       if ret \<noteq> HCCL_SUCCESS then (ret, [], m)
       else case FindFreeCtxGroup (j2Groups m) of
         Inl e \<Rightarrow> (e, [], m)
       | Inr g \<Rightarrow>
           let group = j2Groups m ! g;
               allocSqSize = (if sqSize \<noteq> CCU_V2_FIXED_SQ_SIZE then CCU_V2_FIXED_SQ_SIZE else sqSize)
           in case TryAllocWqeBBResource CcuWqeBBMgrV2_Alloc (j2BaseVa m) allocSqSize (gStartJettyCtxId group)
                     (gStartTaJettyId group) TA_CACHED_JETTY (replicate n JettyInfo_new) (j2Wqe m) of (ret, infos, w) \<Rightarrow>
             if ret \<noteq> HCCL_SUCCESS
             then case ReleaseWqeBBResource CcuWqeBBMgrV2_Release infos w of (relRet, w) \<Rightarrow>
               (if relRet \<noteq> HCCL_SUCCESS then relRet else ret, infos, m\<lparr>j2Wqe := w\<rparr>)
             else (HCCL_SUCCESS, infos,
                   m\<lparr>j2Wqe := w,
                     j2Groups := (j2Groups m)[g := group\<lparr>useCnt := unat (mapChannelNum (j2Map m))\<rparr>]\<rparr>))"

text \<open>The group of a jetty; the members of \<^verbatim>\<open>ctxGroups_\<close> are indexed without a check.\<close>

definition jetty_group :: "JettyInfo list \<Rightarrow> CcuJettyCtxMgrV2 \<Rightarrow> nat" where
  "jetty_group infos m =
    u32_sub (jettyCtxId (infos ! 0)) (gStartJettyCtxId (j2Groups m ! 0)) div unat (mapJettyNum (j2Map m))"

definition CcuJettyCtxMgrV2_Config ::
  "CcuChannelDriver \<Rightarrow> nat \<Rightarrow> u32 \<Rightarrow> JettyInfo list \<Rightarrow> JettyCfg list \<Rightarrow> CcuJettyCtxMgrV2 \<Rightarrow> CcuCommand list
    \<Rightarrow> HcclResult \<times> CcuJettyCtxMgrV2 \<times> CcuCommand list" where
  "CcuJettyCtxMgrV2_Config chan dieId feId infos cfgs m log =
    (let ret = CheckIfJettyCfgsValid infos cfgs
     in if ret \<noteq> HCCL_SUCCESS then (ret, m, log)
        else case CheckCtxGroupsByFeId feId m of (ret, m) \<Rightarrow>
          if ret \<noteq> HCCL_SUCCESS then (ret, m, log)
          else if useCnt (j2Groups m ! jetty_group infos m) = 0 then (HCCL_E_PARA, m, log)
          else case ConfigJettyCtxData chan dieId (jettyCtxId (infos ! 0)) (map2 (BuildJettyCtxData dieId feId) infos cfgs) log
                 of (ret, log) \<Rightarrow> (ret, m, log))"

definition CcuJettyCtxMgrV2_Release ::
  "u32 \<Rightarrow> JettyInfo list \<Rightarrow> CcuJettyCtxMgrV2 \<Rightarrow> HcclResult \<times> CcuJettyCtxMgrV2" where
  "CcuJettyCtxMgrV2_Release feId infos m =
    (if infos = [] then (HCCL_SUCCESS, m)
     else case CheckCtxGroupsByFeId feId m of (ret, m) \<Rightarrow>
       if ret \<noteq> HCCL_SUCCESS then (ret, m)
       else
         let g = jetty_group infos m; group = j2Groups m ! g
         in if useCnt group = 0 then (HCCL_E_PARA, m)
            else if useCnt group > 1
            then (HCCL_SUCCESS, m\<lparr>j2Groups := (j2Groups m)[g := group\<lparr>useCnt := useCnt group - 1\<rparr>]\<rparr>)
            else case ReleaseWqeBBResource CcuWqeBBMgrV2_Release infos (j2Wqe m) of (ret, w) \<Rightarrow>
              if ret \<noteq> HCCL_SUCCESS then (ret, m\<lparr>j2Wqe := w\<rparr>)
              else (HCCL_SUCCESS, m\<lparr>j2Wqe := w, j2Groups := (j2Groups m)[g := group\<lparr>useCnt := 0\<rparr>]\<rparr>))"

subsection \<open>Channels, version 2\<close>

record CcuChannelCtxMgrV2 =
  c2DieId :: nat
  c2Channels :: "ChannelResInfo list"
  c2Map :: CcuChannelJettyMap
  c2Jetty :: CcuJettyCtxMgrV2

definition CcuChannelCtxMgrV2_Init ::
  "CcuChannelDriver \<Rightarrow> CcuResSpecifications \<Rightarrow> CcuPfeCfgMgr \<Rightarrow> nat \<Rightarrow> CcuCommand list
    \<Rightarrow> HcclResult \<times> CcuChannelCtxMgrV2 \<times> CcuCommand list" where
  "CcuChannelCtxMgrV2_Init chan specs cfgMgr dieId log =
    (case CcuJettyCtxMgrV2_Init chan specs cfgMgr dieId log of (ret, j, log) \<Rightarrow>
       (ret,
        \<lparr>c2DieId = dieId, c2Channels = replicate (unat (snd (GetChannelNum specs dieId 0))) ChannelResInfo_new,
         c2Map = snd (GetChannelJettyMap specs dieId DEFAULT_CHANNEL_JETTY_MAP), c2Jetty = j\<rparr>, log))"

definition CheckAndAdjustJettyNum :: "ChannelPara \<Rightarrow> CcuChannelJettyMap \<Rightarrow> nat" where
  "CheckAndAdjustJettyNum para cjm =
    (if paraJettyNum para \<noteq> unat (mapJettyNum cjm) then unat (mapJettyNum cjm) else paraJettyNum para)"

definition GetStartChannelId :: "nat \<Rightarrow> CcuChannelJettyMap \<Rightarrow> HcclResult + nat" where
  "GetStartChannelId ctxStart cjm =
    (let jettyGroupId = ctxStart div unat (mapJettyNum cjm)
     in if (2 ^ 32 - 1) div unat (mapChannelNum cjm) < jettyGroupId then Inl HCCL_E_INTERNAL
        else Inr (u32_mul (unat (mapChannelNum cjm)) jettyGroupId))"

definition CheckChannelRangeAllocatable :: "nat \<Rightarrow> nat \<Rightarrow> ChannelResInfo list \<Rightarrow> HcclResult" where
  "CheckChannelRangeAllocatable start n cs =
    (let endId = u32_add start n
     in if length cs < endId \<or> start \<ge> endId then HCCL_E_INTERNAL
        else if \<exists>i\<in>set [start..<endId]. chAllocated (cs ! i) then HCCL_E_UNAVAIL
        else HCCL_SUCCESS)"

definition AllocateChannelResources ::
  "ChannelPara \<Rightarrow> JettyInfo list \<Rightarrow> nat \<Rightarrow> CcuChannelCtxMgrV2 \<Rightarrow> ChannelInfo list \<times> CcuChannelCtxMgrV2" where
  "AllocateChannelResources para infos start m =
    fold (\<lambda>i (out, m).
        let info = \<lparr>chId = u32_add i start, chDieId = c2DieId m, jettyInfos = infos\<rparr>
        in (out @ [info],
            m\<lparr>c2Channels := (c2Channels m)[u32_add i start := \<lparr>chAllocated = True, chFeId = paraFeId para, chInfo = info\<rparr>]\<rparr>))
      [0..<unat (mapChannelNum (c2Map m))] ([], m)"

text \<open>The jettys of a failed request are given back once for each channel of the group.\<close>

fun release_group :: "nat \<Rightarrow> u32 \<Rightarrow> JettyInfo list \<Rightarrow> CcuJettyCtxMgrV2 \<Rightarrow> HcclResult \<times> CcuJettyCtxMgrV2" where
  "release_group 0 feId infos j = (HCCL_SUCCESS, j)"
| "release_group (Suc n) feId infos j =
    (case CcuJettyCtxMgrV2_Release feId infos j of (ret, j) \<Rightarrow>
       if ret \<noteq> HCCL_SUCCESS then (ret, j) else release_group n feId infos j)"

definition CcuChannelCtxMgrV2_Alloc ::
  "ChannelPara \<Rightarrow> CcuChannelCtxMgrV2 \<Rightarrow> HcclResult \<times> ChannelInfo list option \<times> CcuChannelCtxMgrV2" where
  "CcuChannelCtxMgrV2_Alloc para m =
    (let n = CheckAndAdjustJettyNum para (c2Map m)
     in case CcuJettyCtxMgrV2_Alloc (paraFeId para) n (paraSqSize para) (c2Jetty m) of (ret, infos, j) \<Rightarrow>
       let m = m\<lparr>c2Jetty := j\<rparr>
       in if ret \<noteq> HCCL_SUCCESS then (ret, None, m)
          else case GetStartChannelId (jettyCtxId (infos ! 0)) (c2Map m) of
            Inl e \<Rightarrow> (e, None, m)
          | Inr start \<Rightarrow>
              let ret = CheckChannelRangeAllocatable start (unat (mapChannelNum (c2Map m))) (c2Channels m)
              in if ret \<noteq> HCCL_SUCCESS
                 then case release_group (unat (mapChannelNum (c2Map m))) (paraFeId para) infos (c2Jetty m) of (relRet, j) \<Rightarrow>
                   (if relRet \<noteq> HCCL_SUCCESS then relRet else ret, None, m\<lparr>c2Jetty := j\<rparr>)
                 else case AllocateChannelResources para infos start m of (out, m) \<Rightarrow> (HCCL_SUCCESS, Some out, m))"

definition ConfigChannelCtxDataV2 ::
  "CcuChannelDriver \<Rightarrow> nat \<Rightarrow> nat \<Rightarrow> ChannelDataV2 \<Rightarrow> CcuCommand list \<Rightarrow> HcclResult \<times> CcuCommand list" where
  "ConfigChannelCtxDataV2 chan dieId channelId d log = send chan (CCU_U_OP_SET_CHANNEL dieId channelId (DataV2 d)) log"

definition CcuChannelCtxMgrV2_Config ::
  "CcuChannelDriver \<Rightarrow> ChannelCfg \<Rightarrow> CcuChannelCtxMgrV2 \<Rightarrow> CcuCommand list
    \<Rightarrow> HcclResult \<times> CcuChannelCtxMgrV2 \<times> CcuCommand list" where
  "CcuChannelCtxMgrV2_Config chan cfg m log =
    (if \<not> CheckIfChannelAllocated (cfgChannelId cfg) (c2Channels m) then (HCCL_E_PARA, m, log)
     else
       let res = c2Channels m ! cfgChannelId cfg
       in case CcuJettyCtxMgrV2_Config chan (c2DieId m) (chFeId res) (jettyInfos (chInfo res)) (jettyCfgs cfg) (c2Jetty m) log
            of (ret, j, log) \<Rightarrow>
         let m = m\<lparr>c2Jetty := j\<rparr>
         in if ret \<noteq> HCCL_SUCCESS then (ret, m, log)
            else case ConfigChannelCtxDataV2 chan (c2DieId m) (cfgChannelId cfg) (BuildChannelDataV2 cfg (c2DieId m)) log
                   of (ret, log) \<Rightarrow> (ret, m, log))"

definition CcuChannelCtxMgrV2_Release ::
  "CcuChannelDriver \<Rightarrow> nat \<Rightarrow> CcuChannelCtxMgrV2 \<Rightarrow> CcuCommand list \<Rightarrow> HcclResult \<times> CcuChannelCtxMgrV2 \<times> CcuCommand list" where
  "CcuChannelCtxMgrV2_Release chan channelId m log =
    (if \<not> CheckIfChannelAllocated channelId (c2Channels m) then (HCCL_E_PARA, m, log)
     else
       let res = c2Channels m ! channelId
       in case CcuJettyCtxMgrV2_Release (chFeId res) (jettyInfos (chInfo res)) (c2Jetty m) of (ret, j) \<Rightarrow>
         let m = m\<lparr>c2Jetty := j\<rparr>
         in if ret \<noteq> HCCL_SUCCESS then (ret, m, log)
            else
              let m = m\<lparr>c2Channels := (c2Channels m)[channelId := ChannelResInfo_new]\<rparr>
              in case ConfigChannelCtxDataV2 chan (c2DieId m) channelId ChannelDataV2_zero log of (ret, log) \<Rightarrow>
                (ret, m, log))"

end
