(* ===== verification/Ccu_Component.thy ===== *)
theory Ccu_Component
  imports Res_Allocator Channel_Mgr
begin

text \<open>
  The device component (class \<^verbatim>\<open>CcuComponent\<close> of \<^verbatim>\<open>ccu_device/ccu_comp/ccu_comp.cc\<close>): it owns the resource
  allocators of the dies, the comparison registers of the counting XN blocks, the memory tokens of the
  resource space and the state of task killing, and it sends register commands to the driver. The
  driver is a parameter: a function from the commands sent before and the command to its answer, so that
  it may fail at any time. The commands sent are logged in the state. The component also owns the channel
  managers of the dies and one loop channel per die. What the platform answers for endpoints, memory registration and
  the jettys of the loop channels is the record \<open>CcuPlatform\<close>.
\<close>

subsection \<open>State\<close>

datatype CcuTaskKillStatus =
    TaskKill_INIT | TaskKill_TASK_KILL | TaskKill_KILL_DONE | TaskKill_CLEAN_TIF | TaskKill_INVALID

record RmaBuffer =
  bufAddr :: u64
  bufSize :: u64
  bufTokenId :: u32
  bufTokenValue :: u32

text \<open>The channel manager of a die, by version; the calls are virtual.\<close>

datatype CcuChannelCtxMgr = MgrV1 CcuChannelCtxMgrV1 | MgrV2 CcuChannelCtxMgrV2

text \<open>Of the jettys that were created for the loop channels, the address and token of the doorbell; of those that were
  imported, the number of the transport path.\<close>

record CcuComponent =
  compInitFlag :: bool
  compVersion :: CcuVersion
  compDieFlags :: "bool list"
  loopFeCommAddrMap :: "nat \<rightharpoonup> u32 \<times> nat"
  ccuRmaBufferMap :: "nat \<rightharpoonup> RmaBuffer"
  channelCtxMgrs :: "CcuChannelCtxMgr option list"
  resAllocators :: "CcuResAllocator option list"
  createdOutParamMap :: "nat \<Rightarrow> (u64 \<times> u32) list"
  importedOutParamMap :: "nat \<Rightarrow> u32 list"
  loopChannelIds :: "nat list"
  killStatus :: CcuTaskKillStatus
  usedTotalCntXnFlags :: "bool list list"
  drvLog :: "CcuCommand list"

definition INVAILD_LOOP_CHANNEL_ID :: nat where "INVAILD_LOOP_CHANNEL_ID = 0xFFFF"
definition MSID_CONFIG_ARMX86_MAINBOARD :: u32 where "MSID_CONFIG_ARMX86_MAINBOARD = 7"
definition MAX_CKE_DATA_ARRAY_SIZE :: nat where "MAX_CKE_DATA_ARRAY_SIZE = 8"
definition CCU_RESOURCE_SIZE :: u64 where "CCU_RESOURCE_SIZE = 72 * 1024 * 1024"

abbreviation TOTAL_CNT_XNS :: nat where
  "TOTAL_CNT_XNS \<equiv> unat CCU_V2_RESOURCE_TOTAL_CNT_XNS_NUM"

abbreviation no_total_flags :: "bool list list" where
  "no_total_flags \<equiv> replicate CCU_MAX_IODIE_NUM (replicate TOTAL_CNT_XNS False)"

definition CcuComponent_new :: CcuComponent where
  "CcuComponent_new =
    \<lparr>compInitFlag = False, compVersion = CCU_INVALID, compDieFlags = replicate CCU_MAX_IODIE_NUM False,
     loopFeCommAddrMap = Map.empty, ccuRmaBufferMap = Map.empty, channelCtxMgrs = replicate CCU_MAX_IODIE_NUM None,
     resAllocators = replicate CCU_MAX_IODIE_NUM None, createdOutParamMap = (\<lambda>_. []), importedOutParamMap = (\<lambda>_. []),
     loopChannelIds = replicate CCU_MAX_IODIE_NUM INVAILD_LOOP_CHANNEL_ID, killStatus = TaskKill_INVALID,
     usedTotalCntXnFlags = no_total_flags, drvLog = []\<rparr>"

text \<open>Sending a command.\<close>

definition HccpRaTlvCcuCustomChannel ::
  "CcuChannelDriver \<Rightarrow> CcuCommand \<Rightarrow> CcuComponent \<Rightarrow> HcclResult \<times> CcuComponent" where
  "HccpRaTlvCcuCustomChannel chan cmd s = (chan (drvLog s) cmd, s\<lparr>drvLog := drvLog s @ [cmd]\<rparr>)"

subsection \<open>Resources of a die\<close>

text \<open>The common shape of the resource calls: check the die, find its allocator, call it.\<close>

definition on_die :: "nat \<Rightarrow> CcuComponent \<Rightarrow> HcclResult + CcuResAllocator" where
  "on_die dieId s =
    (let ret = CheckDieValid dieId (compDieFlags s)
     in if ret \<noteq> HCCL_SUCCESS then Inl ret
        else case resAllocators s ! dieId of None \<Rightarrow> Inl HCCL_E_PTR | Some a \<Rightarrow> Inr a)"

definition set_die :: "nat \<Rightarrow> CcuResAllocator \<Rightarrow> CcuComponent \<Rightarrow> CcuComponent" where
  "set_die dieId a s = s\<lparr>resAllocators := (resAllocators s)[dieId := Some a]\<rparr>"

definition CcuComponent_AllocRes ::
  "nat \<Rightarrow> ResType \<Rightarrow> nat \<Rightarrow> bool \<Rightarrow> CcuComponent \<Rightarrow> HcclResult \<times> ResInfo list \<times> CcuComponent" where
  "CcuComponent_AllocRes dieId resType n consecutive s =
    (case on_die dieId s of
       Inl e \<Rightarrow> (e, [], s)
     | Inr a \<Rightarrow> (case CcuResAllocator_Alloc resType n consecutive a of (ret, infos, a') \<Rightarrow>
         (ret, infos, set_die dieId a' s)))"

definition CcuComponent_ReleaseRes ::
  "nat \<Rightarrow> ResType \<Rightarrow> nat \<Rightarrow> nat \<Rightarrow> CcuComponent \<Rightarrow> HcclResult \<times> CcuComponent" where
  "CcuComponent_ReleaseRes dieId resType start n s =
    (case on_die dieId s of
       Inl e \<Rightarrow> (e, s)
     | Inr a \<Rightarrow> (case CcuResAllocator_Release resType start n a of (ret, a') \<Rightarrow> (ret, set_die dieId a' s)))"

text \<open>The two queries return a \<^verbatim>\<open>uint32_t\<close>; on an invalid die the macro that checks the die returns the
  error code, which is 1.\<close>

definition GetInsConsecutiveRemainSize :: "nat \<Rightarrow> CcuComponent \<Rightarrow> nat" where
  "GetInsConsecutiveRemainSize dieId s =
    (if CheckDieValid dieId (compDieFlags s) \<noteq> HCCL_SUCCESS then 1
     else case resAllocators s ! dieId of
       None \<Rightarrow> 0
     | Some a \<Rightarrow> CcuResAllocator_GetConsecutiveRemainSize ResType_INS a)"

definition GetCascCntBlockRemainSize :: "nat \<Rightarrow> CcuComponent \<Rightarrow> nat" where
  "GetCascCntBlockRemainSize dieId s =
    (if CheckDieValid dieId (compDieFlags s) \<noteq> HCCL_SUCCESS then 1
     else if resAllocators s ! dieId = None \<or> compVersion s \<noteq> CCU_V2 then 0
     else count_list (usedTotalCntXnFlags s ! dieId) False)"

text \<open>The caller's \<^verbatim>\<open>insInfo\<close> is passed in and returned, since a failing call does not write it.\<close>

definition AllocIns :: "nat \<Rightarrow> nat \<Rightarrow> ResInfo \<Rightarrow> CcuComponent \<Rightarrow> HcclResult \<times> ResInfo \<times> CcuComponent" where
  "AllocIns dieId n insInfo s =
    (case on_die dieId s of
       Inl e \<Rightarrow> (e, insInfo, s)
     | Inr a \<Rightarrow> (case CcuResAllocator_Alloc ResType_INS n True a of (ret, infos, a') \<Rightarrow>
         let s = set_die dieId a' s
         in if ret \<noteq> HCCL_SUCCESS then (ret, insInfo, s) else (HCCL_SUCCESS, infos ! 0, s)))"

definition ReleaseIns :: "nat \<Rightarrow> ResInfo \<Rightarrow> CcuComponent \<Rightarrow> HcclResult \<times> CcuComponent" where
  "ReleaseIns dieId insInfo s =
    (case on_die dieId s of
       Inl e \<Rightarrow> (e, s)
     | Inr a \<Rightarrow> (case CcuResAllocator_Release ResType_INS (startId insInfo) (num insInfo) a of (ret, a') \<Rightarrow>
         (ret, set_die dieId a' s)))"

definition AllocCke :: "nat \<Rightarrow> nat \<Rightarrow> CcuComponent \<Rightarrow> HcclResult \<times> ResInfo list \<times> CcuComponent" where
  "AllocCke dieId n s =
    (case on_die dieId s of
       Inl e \<Rightarrow> (e, [], s)
     | Inr a \<Rightarrow> (case CcuResAllocator_Alloc ResType_CKE n False a of (ret, infos, a') \<Rightarrow>
         (ret, infos, set_die dieId a' s)))"

definition AllocXn :: "nat \<Rightarrow> nat \<Rightarrow> CcuComponent \<Rightarrow> HcclResult \<times> ResInfo list \<times> CcuComponent" where
  "AllocXn dieId n s =
    (case on_die dieId s of
       Inl e \<Rightarrow> (e, [], s)
     | Inr a \<Rightarrow> (case CcuResAllocator_Alloc ResType_XN n False a of (ret, infos, a') \<Rightarrow>
         (ret, infos, set_die dieId a' s)))"

text \<open>The loop of the two release calls that take a list stops at the first block that is refused.\<close>

fun release_each :: "ResType \<Rightarrow> ResInfo list \<Rightarrow> CcuResAllocator \<Rightarrow> HcclResult \<times> CcuResAllocator" where
  "release_each resType [] a = (HCCL_SUCCESS, a)"
| "release_each resType (r # rs) a =
    (case CcuResAllocator_Release resType (startId r) (num r) a of (ret, a') \<Rightarrow>
       if ret \<noteq> HCCL_SUCCESS then (ret, a') else release_each resType rs a')"

definition ReleaseCke :: "nat \<Rightarrow> ResInfo list \<Rightarrow> CcuComponent \<Rightarrow> HcclResult \<times> CcuComponent" where
  "ReleaseCke dieId ckeInfos s =
    (case on_die dieId s of
       Inl e \<Rightarrow> (e, s)
     | Inr a \<Rightarrow> (case release_each ResType_CKE ckeInfos a of (ret, a') \<Rightarrow> (ret, set_die dieId a' s)))"

definition ReleaseXn :: "nat \<Rightarrow> ResInfo list \<Rightarrow> CcuComponent \<Rightarrow> HcclResult \<times> CcuComponent" where
  "ReleaseXn dieId xnInfos s =
    (case on_die dieId s of
       Inl e \<Rightarrow> (e, s)
     | Inr a \<Rightarrow> (case release_each ResType_XN xnInfos a of (ret, a') \<Rightarrow> (ret, set_die dieId a' s)))"

subsection \<open>Blocks of counting XN registers\<close>

definition SetSplitUnit :: "CcuChannelDriver \<Rightarrow> nat \<Rightarrow> u32 \<Rightarrow> CcuComponent \<Rightarrow> HcclResult \<times> CcuComponent" where
  "SetSplitUnit chan dieId splitPktUnit s =
    (if dieId \<ge> CCU_MAX_IODIE_NUM then (HCCL_E_PARA, s)
     else
       case HccpRaTlvCcuCustomChannel chan (CCU_U_OP_SET_TIF_SPLIT_SIZE dieId (splitPktUnit AND 1) 0x2 0x1) s of
         (ret, s) \<Rightarrow> if ret \<noteq> HCCL_SUCCESS then (HCCL_E_NETWORK, s) else (HCCL_SUCCESS, s))"

definition SetTotalCntXnProcess ::
  "CcuChannelDriver \<Rightarrow> nat \<Rightarrow> nat \<Rightarrow> nat \<Rightarrow> nat \<Rightarrow> nat \<Rightarrow> CcuComponent \<Rightarrow> HcclResult \<times> CcuComponent" where
  "SetTotalCntXnProcess chan dieId index fromId toId totalId s =
    (if dieId \<ge> CCU_MAX_IODIE_NUM then (HCCL_E_PARA, s)
     else if index \<ge> TOTAL_CNT_XNS then (HCCL_E_PARA, s)
     else
       case HccpRaTlvCcuCustomChannel chan (CCU_U_OP_SET_XN_TOTAL_CNT dieId (index AND 3) fromId toId totalId) s of
         (ret, s) \<Rightarrow> if ret \<noteq> HCCL_SUCCESS then (HCCL_E_NETWORK, s) else (HCCL_SUCCESS, s))"

fun GetAvailable_scan :: "bool list \<Rightarrow> nat \<Rightarrow> nat \<Rightarrow> nat option" where
  "GetAvailable_scan flags i 0 = None"
| "GetAvailable_scan flags i (Suc n) = (if \<not> flags ! i then Some i else GetAvailable_scan flags (Suc i) n)"

definition GetAvailableTotalCntXnIndex :: "nat \<Rightarrow> nat \<Rightarrow> CcuComponent \<Rightarrow> HcclResult \<times> nat" where
  "GetAvailableTotalCntXnIndex dieId index s =
    (case GetAvailable_scan (usedTotalCntXnFlags s ! dieId) 0 TOTAL_CNT_XNS of
       Some i \<Rightarrow> (HCCL_SUCCESS, i)
     | None \<Rightarrow> (HCCL_E_UNAVAIL, index))"

definition set_total_flag :: "nat \<Rightarrow> nat \<Rightarrow> bool \<Rightarrow> CcuComponent \<Rightarrow> CcuComponent" where
  "set_total_flag dieId index b s =
    s\<lparr>usedTotalCntXnFlags := (usedTotalCntXnFlags s)[dieId := (usedTotalCntXnFlags s ! dieId)[index := b]]\<rparr>"

definition SetTotalCntXn ::
  "CcuChannelDriver \<Rightarrow> nat \<Rightarrow> nat \<Rightarrow> nat \<Rightarrow> nat \<Rightarrow> nat \<Rightarrow> CcuComponent \<Rightarrow> HcclResult \<times> CcuComponent" where
  "SetTotalCntXn chan dieId fromId toId totalId index s =
    (if fromId > toId then (HCCL_E_PARA, s)
     else if fromId \<le> totalId \<and> totalId \<le> toId then (HCCL_E_PARA, s)
     else
       case SetTotalCntXnProcess chan dieId index fromId toId totalId s of (ret, s) \<Rightarrow>
         if ret \<noteq> HCCL_SUCCESS then (ret, s) else (HCCL_SUCCESS, set_total_flag dieId index True s))"

definition totalIdDefault :: "nat list" where
  "totalIdDefault = [0x3FFC, 0x3FFD, 0x3FFE, 0x3FFF]"

definition ResetTotalCntXn ::
  "CcuChannelDriver \<Rightarrow> nat \<Rightarrow> nat \<Rightarrow> CcuComponent \<Rightarrow> HcclResult \<times> CcuComponent" where
  "ResetTotalCntXn chan dieId blockIdx s =
    (if compVersion s \<noteq> CCU_V2 then (HCCL_E_NOT_SUPPORT, s)
     else
       let ret = CheckDieValid dieId (compDieFlags s)
       in if ret \<noteq> HCCL_SUCCESS then (ret, s)
          else if blockIdx \<ge> TOTAL_CNT_XNS then (HCCL_SUCCESS, s)
          else if \<not> usedTotalCntXnFlags s ! dieId ! blockIdx then (HCCL_SUCCESS, s)
          else
            case SetTotalCntXnProcess chan dieId blockIdx 0xFFFF 0x0000 (totalIdDefault ! blockIdx) s of
              (ret, s) \<Rightarrow> (ret, set_total_flag dieId blockIdx False s))"

definition AllocCntXn :: "nat \<Rightarrow> nat \<Rightarrow> ResInfo \<Rightarrow> CcuComponent \<Rightarrow> HcclResult \<times> ResInfo \<times> CcuComponent" where
  "AllocCntXn dieId n cntXnInfo s =
    (if compVersion s \<noteq> CCU_V2 then (HCCL_E_NOT_SUPPORT, cntXnInfo, s)
     else case on_die dieId s of
       Inl e \<Rightarrow> (e, cntXnInfo, s)
     | Inr a \<Rightarrow> (case AllocCountXn n cntXnInfo a of (ret, info, a') \<Rightarrow> (ret, info, set_die dieId a' s)))"

text \<open>The block index is an out-parameter that is set before the first check.\<close>

definition ConfirmCntXns ::
  "CcuChannelDriver \<Rightarrow> nat \<Rightarrow> nat \<times> nat \<Rightarrow> nat \<Rightarrow> nat \<Rightarrow> CcuComponent \<Rightarrow> HcclResult \<times> nat \<times> CcuComponent" where
  "ConfirmCntXns chan dieId wishCntXns totalCntXn expectedCntXn s =
    (let blockIdx = TOTAL_CNT_XNS in
     if compVersion s \<noteq> CCU_V2 then (HCCL_E_NOT_SUPPORT, blockIdx, s)
     else if fst wishCntXns > snd wishCntXns \<or> totalCntXn \<noteq> u32_add (snd wishCntXns) 1
       \<or> expectedCntXn \<noteq> u32_add totalCntXn 1 then (HCCL_E_PARA, blockIdx, s)
     else
       let ret = CheckDieValid dieId (compDieFlags s)
       in if ret \<noteq> HCCL_SUCCESS then (ret, blockIdx, s)
          else
            case GetAvailableTotalCntXnIndex dieId blockIdx s of (ret, blockIdx) \<Rightarrow>
              if ret \<noteq> HCCL_SUCCESS then (ret, blockIdx, s)
              else
                case SetTotalCntXn chan dieId (fst wishCntXns) (snd wishCntXns) totalCntXn blockIdx s of (ret, s) \<Rightarrow>
                  if ret \<noteq> HCCL_SUCCESS then (ret, blockIdx, s)
                  else
                    case SetSplitUnit chan dieId 0 s of (ret, s) \<Rightarrow>
                      if ret = HCCL_SUCCESS then (HCCL_SUCCESS, blockIdx, s)
                      else (ret, blockIdx, snd (ResetTotalCntXn chan dieId blockIdx s)))"

definition ReleaseCntXn :: "nat \<Rightarrow> ResInfo \<Rightarrow> CcuComponent \<Rightarrow> HcclResult \<times> CcuComponent" where
  "ReleaseCntXn dieId resInfo s =
    (case on_die dieId s of
       Inl e \<Rightarrow> (e, s)
     | Inr a \<Rightarrow> (case ReleaseCountXn (startId resInfo) (num resInfo) a of (ret, a') \<Rightarrow> (ret, set_die dieId a' s)))"

subsection \<open>Channels\<close>

definition CreateChannelCtxMgr_Init ::
  "CcuChannelDriver \<Rightarrow> CcuResSpecifications \<Rightarrow> CcuPfeCfgMgr \<Rightarrow> CcuVersion \<Rightarrow> nat \<Rightarrow> CcuCommand list
    \<Rightarrow> HcclResult \<times> CcuChannelCtxMgr option \<times> CcuCommand list" where
  "CreateChannelCtxMgr_Init chan specs cfgMgr version dieId log =
    (case version of
       CCU_V1 \<Rightarrow> (case CcuChannelCtxMgrV1_Init chan specs cfgMgr dieId log of (ret, m, log) \<Rightarrow> (ret, Some (MgrV1 m), log))
     | CCU_V2 \<Rightarrow> (case CcuChannelCtxMgrV2_Init chan specs cfgMgr dieId log of (ret, m, log) \<Rightarrow> (ret, Some (MgrV2 m), log))
     | _ \<Rightarrow> (HCCL_E_NOT_SUPPORT, None, log))"

fun CcuChannelCtxMgr_Alloc ::
  "ChannelPara \<Rightarrow> CcuChannelCtxMgr \<Rightarrow> HcclResult \<times> ChannelInfo list option \<times> CcuChannelCtxMgr" where
  "CcuChannelCtxMgr_Alloc para (MgrV1 m) = (case CcuChannelCtxMgrV1_Alloc para m of (ret, out, m) \<Rightarrow> (ret, out, MgrV1 m))"
| "CcuChannelCtxMgr_Alloc para (MgrV2 m) = (case CcuChannelCtxMgrV2_Alloc para m of (ret, out, m) \<Rightarrow> (ret, out, MgrV2 m))"

fun CcuChannelCtxMgr_Config ::
  "CcuChannelDriver \<Rightarrow> ChannelCfg \<Rightarrow> CcuChannelCtxMgr \<Rightarrow> CcuCommand list \<Rightarrow> HcclResult \<times> CcuChannelCtxMgr \<times> CcuCommand list" where
  "CcuChannelCtxMgr_Config chan cfg (MgrV1 m) log =
    (case CcuChannelCtxMgrV1_Config chan cfg m log of (ret, log) \<Rightarrow> (ret, MgrV1 m, log))"
| "CcuChannelCtxMgr_Config chan cfg (MgrV2 m) log =
    (case CcuChannelCtxMgrV2_Config chan cfg m log of (ret, m, log) \<Rightarrow> (ret, MgrV2 m, log))"

fun CcuChannelCtxMgr_Release ::
  "CcuChannelDriver \<Rightarrow> nat \<Rightarrow> CcuChannelCtxMgr \<Rightarrow> CcuCommand list \<Rightarrow> HcclResult \<times> CcuChannelCtxMgr \<times> CcuCommand list" where
  "CcuChannelCtxMgr_Release chan channelId (MgrV1 m) log =
    (case CcuChannelCtxMgrV1_Release chan channelId m log of (ret, m, log) \<Rightarrow> (ret, MgrV1 m, log))"
| "CcuChannelCtxMgr_Release chan channelId (MgrV2 m) log =
    (case CcuChannelCtxMgrV2_Release chan channelId m log of (ret, m, log) \<Rightarrow> (ret, MgrV2 m, log))"

definition set_channel_mgr :: "nat \<Rightarrow> CcuChannelCtxMgr \<Rightarrow> CcuComponent \<Rightarrow> CcuComponent" where
  "set_channel_mgr dieId m s = s\<lparr>channelCtxMgrs := (channelCtxMgrs s)[dieId := Some m]\<rparr>"

definition AllocChannels ::
  "nat \<Rightarrow> ChannelPara \<Rightarrow> CcuComponent \<Rightarrow> HcclResult \<times> ChannelInfo list option \<times> CcuComponent" where
  "AllocChannels dieId para s =
    (let ret = CheckDieValid dieId (compDieFlags s)
     in if ret \<noteq> HCCL_SUCCESS then (ret, None, s)
        else case channelCtxMgrs s ! dieId of
          None \<Rightarrow> (HCCL_E_PTR, None, s)
        | Some m \<Rightarrow> (case CcuChannelCtxMgr_Alloc para m of (ret, out, m) \<Rightarrow> (ret, out, set_channel_mgr dieId m s)))"

definition ConfigChannel :: "CcuChannelDriver \<Rightarrow> nat \<Rightarrow> ChannelCfg \<Rightarrow> CcuComponent \<Rightarrow> HcclResult \<times> CcuComponent" where
  "ConfigChannel chan dieId cfg s =
    (let ret = CheckDieValid dieId (compDieFlags s)
     in if ret \<noteq> HCCL_SUCCESS then (ret, s)
        else if cfgChannelId cfg = loopChannelIds s ! dieId then (HCCL_E_PARA, s)
        else case channelCtxMgrs s ! dieId of
          None \<Rightarrow> (HCCL_E_PTR, s)
        | Some m \<Rightarrow> (case CcuChannelCtxMgr_Config chan cfg m (drvLog s) of (ret, m, log) \<Rightarrow>
            (ret, (set_channel_mgr dieId m s)\<lparr>drvLog := log\<rparr>)))"

definition ReleaseChannel :: "CcuChannelDriver \<Rightarrow> nat \<Rightarrow> nat \<Rightarrow> CcuComponent \<Rightarrow> HcclResult \<times> CcuComponent" where
  "ReleaseChannel chan dieId channelId s =
    (let ret = CheckDieValid dieId (compDieFlags s)
     in if ret \<noteq> HCCL_SUCCESS then (ret, s)
        else if channelId = loopChannelIds s ! dieId then (HCCL_E_PARA, s)
        else case channelCtxMgrs s ! dieId of
          None \<Rightarrow> (HCCL_E_PTR, s)
        | Some m \<Rightarrow> (case CcuChannelCtxMgr_Release chan channelId m (drvLog s) of (ret, m, log) \<Rightarrow>
            (ret, (set_channel_mgr dieId m s)\<lparr>drvLog := log\<rparr>)))"

subsection \<open>Initialisation\<close>

record CcuPlatform =
  platUsableEid :: "nat \<Rightarrow> HcclResult \<times> u32 \<times> nat"
  platRmaBuffer :: "nat \<Rightarrow> nat \<Rightarrow> u64 \<Rightarrow> u64 \<Rightarrow> HcclResult \<times> RmaBuffer"
  platLoopCtx :: "nat \<Rightarrow> HcclResult"
  platLoopTp :: "nat \<Rightarrow> nat \<Rightarrow> HcclResult"
  platCreateJetty :: "nat \<Rightarrow> u32 \<Rightarrow> JettyInfo \<Rightarrow> HcclResult \<times> u64 \<times> u32"
  platImportJetty :: "nat \<Rightarrow> u32 \<Rightarrow> JettyInfo \<Rightarrow> HcclResult \<times> u32"
  platReverseEid :: "nat \<Rightarrow> HcclResult \<times> u8 list"
  platReleaseTpInfos :: HcclResult

definition GetDieDrvEnableFlags :: "CcuResSpecifications \<Rightarrow> bool list" where
  "GetDieDrvEnableFlags specs = map (\<lambda>d. snd (GetDieEnableFlag specs d False)) [0..<CCU_MAX_IODIE_NUM]"

definition ChooseLoopEid_step :: "CcuPlatform \<Rightarrow> bool list \<Rightarrow> nat \<Rightarrow> CcuComponent \<Rightarrow> CcuComponent" where
  "ChooseLoopEid_step plat flags dieId s =
    (if \<not> flags ! dieId then s\<lparr>compDieFlags := (compDieFlags s)[dieId := False]\<rparr>
     else
       case platUsableEid plat dieId of (ret, fe) \<Rightarrow>
         if ret \<noteq> HCCL_SUCCESS then s\<lparr>compDieFlags := (compDieFlags s)[dieId := False]\<rparr>
         else s\<lparr>loopFeCommAddrMap := (loopFeCommAddrMap s)(dieId \<mapsto> fe),
                compDieFlags := (compDieFlags s)[dieId := True]\<rparr>)"

definition ChooseLoopEids :: "CcuPlatform \<Rightarrow> bool list \<Rightarrow> CcuComponent \<Rightarrow> CcuComponent" where
  "ChooseLoopEids plat flags s = fold (ChooseLoopEid_step plat flags) [0..<CCU_MAX_IODIE_NUM] s"

definition CheckDiesEnable ::
  "CcuPlatform \<Rightarrow> CcuResSpecifications \<Rightarrow> CcuComponent \<Rightarrow> HcclResult \<times> CcuComponent" where
  "CheckDiesEnable plat specs s =
    (let s = s\<lparr>compVersion := ccuVersion specs\<rparr>;
         s = ChooseLoopEids plat (GetDieDrvEnableFlags specs) s
     in if list_all (\<lambda>d. \<not> compDieFlags s ! d) [0..<CCU_MAX_IODIE_NUM] then (HCCL_E_UNAVAIL, s)
        else (HCCL_SUCCESS, s))"

fun CreateCcuRmaBuffer_loop ::
  "CcuPlatform \<Rightarrow> CcuResSpecifications \<Rightarrow> nat list \<Rightarrow> CcuComponent \<Rightarrow> HcclResult \<times> CcuComponent" where
  "CreateCcuRmaBuffer_loop plat specs [] s = (HCCL_SUCCESS, s)"
| "CreateCcuRmaBuffer_loop plat specs (dieId # dies) s =
    (if \<not> compDieFlags s ! dieId then CreateCcuRmaBuffer_loop plat specs dies s
     else case loopFeCommAddrMap s dieId of
       None \<Rightarrow> CreateCcuRmaBuffer_loop plat specs dies s
     | Some (feId, commAddr) \<Rightarrow>
         let ccuResAddr = snd (GetResourceAddr specs dieId 0)
         in if ccuResAddr = 0 then CreateCcuRmaBuffer_loop plat specs dies s
            else
              case platRmaBuffer plat dieId commAddr ccuResAddr CCU_RESOURCE_SIZE of (ret, buf) \<Rightarrow>
                if ret \<noteq> HCCL_SUCCESS then (ret, s)
                else CreateCcuRmaBuffer_loop plat specs dies
                  (if dieId \<in> dom (ccuRmaBufferMap s) then s
                   else s\<lparr>ccuRmaBufferMap := (ccuRmaBufferMap s)(dieId \<mapsto> buf)\<rparr>))"

fun CreateResourceManagers_loop ::
  "CcuChannelDriver \<Rightarrow> CcuPfeCfgMgr \<Rightarrow> CcuResSpecifications \<Rightarrow> nat list \<Rightarrow> CcuComponent \<Rightarrow> HcclResult \<times> CcuComponent" where
  "CreateResourceManagers_loop chan cfgMgr specs [] s = (HCCL_SUCCESS, s)"
| "CreateResourceManagers_loop chan cfgMgr specs (dieId # dies) s =
    (if \<not> compDieFlags s ! dieId then CreateResourceManagers_loop chan cfgMgr specs dies s
     else
       case CreateChannelCtxMgr_Init chan specs cfgMgr (compVersion s) dieId (drvLog s) of (ret, channelCtxMgr, log) \<Rightarrow>
         let s = s\<lparr>drvLog := log\<rparr>
         in if ret \<noteq> HCCL_SUCCESS then (ret, s)
            else
              case CcuResAllocator_Init specs (CcuResAllocator_new dieId) of (ret, a) \<Rightarrow>
                if ret \<noteq> HCCL_SUCCESS then (ret, s)
                else CreateResourceManagers_loop chan cfgMgr specs dies
                  (set_die dieId a (s\<lparr>channelCtxMgrs := (channelCtxMgrs s)[dieId := channelCtxMgr]\<rparr>)))"

text \<open>The loop channel of a die: a channel of its own, whose jettys are created and imported on the platform and which
  is then configured towards the other die, or towards its own die when the other one has no memory buffer.\<close>

definition LOOP_CHANNEL_USE_JETTY :: nat where "LOOP_CHANNEL_USE_JETTY = 0"
definition LOOP_CHANNEL_USE_SQSIZE_V1 :: nat where "LOOP_CHANNEL_USE_SQSIZE_V1 = 16"
definition LOOP_CHANNEL_USE_SQSIZE_V2 :: nat where "LOOP_CHANNEL_USE_SQSIZE_V2 = 32"

fun CreateAndImportLoopJettys_loop ::
  "CcuPlatform \<Rightarrow> nat \<Rightarrow> u32 \<Rightarrow> JettyInfo list \<Rightarrow> CcuComponent \<Rightarrow> HcclResult \<times> CcuComponent" where
  "CreateAndImportLoopJettys_loop plat dieId tokenValue [] s = (HCCL_SUCCESS, s)"
| "CreateAndImportLoopJettys_loop plat dieId tokenValue (info # infos) s =
    (case platCreateJetty plat dieId tokenValue info of (ret, created) \<Rightarrow>
       if ret \<noteq> HCCL_SUCCESS then (ret, s)
       else
         let s = s\<lparr>createdOutParamMap := (createdOutParamMap s)(dieId := createdOutParamMap s dieId @ [created])\<rparr>
         in case platImportJetty plat dieId tokenValue info of (ret, imported) \<Rightarrow>
           if ret \<noteq> HCCL_SUCCESS then (ret, s)
           else CreateAndImportLoopJettys_loop plat dieId tokenValue infos
             (s\<lparr>importedOutParamMap := (importedOutParamMap s)(dieId := importedOutParamMap s dieId @ [imported])\<rparr>))"

definition CreateAndImportLoopJettys ::
  "CcuPlatform \<Rightarrow> nat \<Rightarrow> nat \<Rightarrow> JettyInfo list \<Rightarrow> CcuComponent \<Rightarrow> HcclResult \<times> CcuComponent" where
  "CreateAndImportLoopJettys plat dieId commAddr infos s =
    (if platLoopCtx plat commAddr \<noteq> HCCL_SUCCESS then (platLoopCtx plat commAddr, s)
     else case ccuRmaBufferMap s dieId of
       None \<Rightarrow> (HCCL_E_NOT_FOUND, s)
     | Some buf \<Rightarrow>
         if platLoopTp plat dieId commAddr \<noteq> HCCL_SUCCESS then (platLoopTp plat dieId commAddr, s)
         else CreateAndImportLoopJettys_loop plat dieId (bufTokenValue buf) infos s)"

definition ConfigLoopChannel ::
  "CcuChannelDriver \<Rightarrow> CcuPlatform \<Rightarrow> nat \<Rightarrow> nat \<Rightarrow> ChannelInfo \<Rightarrow> CcuChannelCtxMgr \<Rightarrow> CcuComponent \<Rightarrow> HcclResult \<times> CcuComponent" where
  "ConfigLoopChannel chan plat dieId commAddr info m s =
    (case (case ccuRmaBufferMap s (1 - dieId) of Some buf \<Rightarrow> Some buf | None \<Rightarrow> ccuRmaBufferMap s dieId) of
       None \<Rightarrow> (HCCL_E_NOT_FOUND, s)
     | Some buf \<Rightarrow>
         if platLoopCtx plat commAddr \<noteq> HCCL_SUCCESS then (platLoopCtx plat commAddr, s)
         else case platReverseEid plat commAddr of (ret, eid) \<Rightarrow>
           if ret \<noteq> HCCL_SUCCESS then (ret, s)
           else
             let cfg = \<lparr>cfgChannelId = chId info, remoteEid = eid, tpn = importedOutParamMap s dieId ! 0,
                        remoteCcuVa = bufAddr buf, memTokenId = bufTokenId buf, memTokenValue = bufTokenValue buf,
                        jettyCfgs = map2 (\<lambda>j created. \<lparr>cfgJettyCtxId = jettyCtxId j, dbVa = fst created, dbTokenId = snd created,
                          dbTokenValue = bufTokenValue buf\<rparr>) (jettyInfos info) (createdOutParamMap s dieId)\<rparr>
             in case CcuChannelCtxMgr_Config chan cfg m (drvLog s) of (ret, m, log) \<Rightarrow>
               (ret, (set_channel_mgr dieId m s)\<lparr>drvLog := log\<rparr>))"

definition CreateLoopChannel ::
  "CcuChannelDriver \<Rightarrow> CcuPlatform \<Rightarrow> nat \<Rightarrow> CcuComponent \<Rightarrow> HcclResult \<times> nat \<times> CcuComponent" where
  "CreateLoopChannel chan plat dieId s =
    (if \<not> compDieFlags s ! dieId then (HCCL_SUCCESS, INVAILD_LOOP_CHANNEL_ID, s)
     else case loopFeCommAddrMap s dieId of
       None \<Rightarrow> (HCCL_SUCCESS, INVAILD_LOOP_CHANNEL_ID, s)
     | Some (feId, commAddr) \<Rightarrow>
         let sqSize = (if compVersion s = CCU_V1 then LOOP_CHANNEL_USE_SQSIZE_V1 else LOOP_CHANNEL_USE_SQSIZE_V2);
             para = \<lparr>paraFeId = feId, paraJettyNum = LOOP_CHANNEL_USE_JETTY, paraSqSize = sqSize\<rparr>
         in case CcuChannelCtxMgr_Alloc para (the (channelCtxMgrs s ! dieId)) of (ret, out, m) \<Rightarrow>
           let s = set_channel_mgr dieId m s
           in if ret \<noteq> HCCL_SUCCESS then (ret, INVAILD_LOOP_CHANNEL_ID, s)
              else
                let info = the out ! 0
                in case CreateAndImportLoopJettys plat dieId commAddr (jettyInfos info) s of (ret, s) \<Rightarrow>
                  if ret \<noteq> HCCL_SUCCESS then (ret, INVAILD_LOOP_CHANNEL_ID, s)
                  else case ConfigLoopChannel chan plat dieId commAddr info m s of (ret, s) \<Rightarrow>
                    if ret \<noteq> HCCL_SUCCESS then (ret, INVAILD_LOOP_CHANNEL_ID, s) else (HCCL_SUCCESS, chId info, s))"

fun CreateLoopChannels_loop ::
  "CcuChannelDriver \<Rightarrow> CcuPlatform \<Rightarrow> nat list \<Rightarrow> CcuComponent \<Rightarrow> HcclResult \<times> CcuComponent" where
  "CreateLoopChannels_loop chan plat [] s = (HCCL_SUCCESS, s)"
| "CreateLoopChannels_loop chan plat (dieId # dies) s =
    (case CreateLoopChannel chan plat dieId s of (ret, channelId, s) \<Rightarrow>
       let s = s\<lparr>loopChannelIds := (loopChannelIds s)[dieId := channelId]\<rparr>
       in if ret \<noteq> HCCL_SUCCESS then (ret, s) else CreateLoopChannels_loop chan plat dies s)"

fun ConfigMsIdToken_loop ::
  "CcuChannelDriver \<Rightarrow> CcuResSpecifications \<Rightarrow> nat list \<Rightarrow> CcuComponent \<Rightarrow> HcclResult \<times> CcuComponent" where
  "ConfigMsIdToken_loop chan specs [] s = (HCCL_SUCCESS, s)"
| "ConfigMsIdToken_loop chan specs (dieId # dies) s =
    (case ccuRmaBufferMap s dieId of
       None \<Rightarrow> ConfigMsIdToken_loop chan specs dies s
     | Some buf \<Rightarrow>
         (case (if serveMode specs = ARMX86 \<and> dieId = 0 then (HCCL_SUCCESS, MSID_CONFIG_ARMX86_MAINBOARD)
                else GetMsId specs dieId 0) of (ret, ms) \<Rightarrow>
            if ret \<noteq> HCCL_SUCCESS then (ret, s)
            else
              case HccpRaTlvCcuCustomChannel chan
                     (CCU_U_OP_SET_MSID_TOKEN dieId ms (bufTokenId buf) (bufTokenValue buf)) s of (ret, s) \<Rightarrow>
                if ret \<noteq> HCCL_SUCCESS then (ret, s) else ConfigMsIdToken_loop chan specs dies s))"

text \<open>The loop over the batches, with its 32-bit start index. \<open>None\<close> is a loop that never returns: with
  more than \<open>2 ^ 32 - 8\<close> CKEs the index wraps around to 0 before it reaches the end.\<close>

partial_function (option) CleanDieCkes_loop ::
  "CcuChannelDriver \<Rightarrow> nat \<Rightarrow> u32 \<Rightarrow> u32 \<Rightarrow> CcuComponent \<Rightarrow> (HcclResult \<times> CcuComponent) option" where
  "CleanDieCkes_loop chan dieId ckes startIdx s =
    (if startIdx < ckes
     then
       case HccpRaTlvCcuCustomChannel chan
              (CCU_U_OP_SET_CKE dieId (unat startIdx) (unat (min (ckes - startIdx) (of_nat MAX_CKE_DATA_ARRAY_SIZE)))) s of
         (ret, s) \<Rightarrow>
           if ret \<noteq> HCCL_SUCCESS then Some (ret, s)
           else CleanDieCkes_loop chan dieId ckes (startIdx + of_nat MAX_CKE_DATA_ARRAY_SIZE) s
     else Some (HCCL_SUCCESS, s))"

declare CleanDieCkes_loop.simps [code]

text \<open>The loop leaves alone whatever a command to the driver leaves alone.\<close>

lemma CleanDieCkes_loop_keeps:
  assumes ret: "CleanDieCkes_loop chan d n i s = Some r" and log: "\<And>s log. P (s\<lparr>drvLog := log\<rparr>) = P s"
  shows "P (snd r) = P s"
proof (rule CleanDieCkes_loop.raw_induct [where P = "\<lambda>chan d n i s r. P (snd r) = P s", OF _ ret])
  fix f chan d n i s r
  let ?send = "HccpRaTlvCcuCustomChannel chan
    (CCU_U_OP_SET_CKE d (unat i) (unat (min (n - i) (of_nat MAX_CKE_DATA_ARRAY_SIZE)))) s"
  assume IH: "\<And>chan d n i s r. f chan d n i s = Some r \<Longrightarrow> P (snd r) = P s"
    and eq: "(if i < n then case ?send of (ret, s) \<Rightarrow>
        if ret \<noteq> HCCL_SUCCESS then Some (ret, s) else f chan d n (i + of_nat MAX_CKE_DATA_ARRAY_SIZE) s
      else Some (HCCL_SUCCESS, s)) = Some r"
  obtain e s1 where send: "?send = (e, s1)"
    by fastforce
  then have "P s1 = P s"
    by (auto simp: HccpRaTlvCcuCustomChannel_def log)
  then show "P (snd r) = P s"
    using eq IH unfolding send by (fastforce split: if_splits)
qed

text \<open>A specification read from the driver has at most 65536 CKEs (\<open>ParseOutBuffToResSpecInfo\<close>), so the loop of
  an initialised device returns; for the sake of a total function, a loop that does not is read as an error.\<close>

definition CleanDieCkes ::
  "CcuChannelDriver \<Rightarrow> CcuResSpecifications \<Rightarrow> nat \<Rightarrow> CcuComponent \<Rightarrow> HcclResult \<times> CcuComponent" where
  "CleanDieCkes chan specs dieId s =
    (if dieId \<ge> CCU_MAX_IODIE_NUM then (HCCL_E_PARA, s)
     else if \<not> compDieFlags s ! dieId then (HCCL_SUCCESS, s)
     else
       case GetCkeNum specs dieId 0 of (ret, ckes) \<Rightarrow>
         if ret \<noteq> HCCL_SUCCESS then (ret, s)
         else case CleanDieCkes_loop chan dieId ckes 0 s of None \<Rightarrow> (HCCL_E_INTERNAL, s) | Some r \<Rightarrow> r)"

definition CcuComponent_Init ::
  "CcuChannelDriver \<Rightarrow> CcuPlatform \<Rightarrow> CcuPfeCfgMgr \<Rightarrow> HcclResult \<Rightarrow> CcuResSpecifications \<Rightarrow> CcuComponent
    \<Rightarrow> HcclResult \<times> CcuComponent" where
  "CcuComponent_Init chan plat cfgMgr phyRet specs s =
    (if compInitFlag s then (HCCL_SUCCESS, s)
     else
       let s = s\<lparr>usedTotalCntXnFlags := no_total_flags\<rparr>
       in if phyRet \<noteq> HCCL_SUCCESS then (phyRet, s)
          else case CheckDiesEnable plat specs s of (ret, s) \<Rightarrow>
            if ret \<noteq> HCCL_SUCCESS then (ret, s)
            else
              let s = fold (\<lambda>d s. snd (CleanDieCkes chan specs d s)) [0..<CCU_MAX_IODIE_NUM] s
              in case CreateCcuRmaBuffer_loop plat specs [0..<CCU_MAX_IODIE_NUM] s of (ret, s) \<Rightarrow>
                if ret \<noteq> HCCL_SUCCESS then (ret, s)
                else case CreateResourceManagers_loop chan cfgMgr specs [0..<CCU_MAX_IODIE_NUM] s of (ret, s) \<Rightarrow>
                  if ret \<noteq> HCCL_SUCCESS then (ret, s)
                  else case CreateLoopChannels_loop chan plat [0..<CCU_MAX_IODIE_NUM] s of (ret, s) \<Rightarrow>
                    if ret \<noteq> HCCL_SUCCESS then (ret, s)
                    else case ConfigMsIdToken_loop chan specs [0..<CCU_MAX_IODIE_NUM] s of (ret, s) \<Rightarrow>
                      if ret \<noteq> HCCL_SUCCESS then (ret, s)
                      else (HCCL_SUCCESS, s\<lparr>compInitFlag := True\<rparr>))"

text \<open>The imported jettys are given up first; when the transport paths cannot be released, the created jettys stay.\<close>

definition ReleaseJettyRes :: "CcuPlatform \<Rightarrow> CcuComponent \<Rightarrow> HcclResult \<times> CcuComponent" where
  "ReleaseJettyRes plat s =
    (let s = s\<lparr>importedOutParamMap := (\<lambda>_. [])\<rparr>
     in if platReleaseTpInfos plat \<noteq> HCCL_SUCCESS then (platReleaseTpInfos plat, s)
        else (HCCL_SUCCESS, s\<lparr>createdOutParamMap := (\<lambda>_. [])\<rparr>))"

definition CcuComponent_Deinit :: "CcuPlatform \<Rightarrow> CcuComponent \<Rightarrow> HcclResult \<times> CcuComponent" where
  "CcuComponent_Deinit plat s =
    (case ReleaseJettyRes plat s of (ret, s) \<Rightarrow>
       if ret \<noteq> HCCL_SUCCESS then (ret, s)
       else
         (HCCL_SUCCESS,
          s\<lparr>loopFeCommAddrMap := Map.empty, ccuRmaBufferMap := Map.empty,
            channelCtxMgrs := replicate CCU_MAX_IODIE_NUM None, resAllocators := replicate CCU_MAX_IODIE_NUM None,
            loopChannelIds := replicate CCU_MAX_IODIE_NUM INVAILD_LOOP_CHANNEL_ID, compInitFlag := False\<rparr>))"

subsection \<open>The resource space and its token\<close>

definition GetCcuResourceSpaceBufInfo :: "nat \<Rightarrow> u64 \<Rightarrow> u64 \<Rightarrow> CcuComponent \<Rightarrow> HcclResult \<times> u64 \<times> u64" where
  "GetCcuResourceSpaceBufInfo dieId addr sz s =
    (let ret = CheckDieValid dieId (compDieFlags s)
     in if ret \<noteq> HCCL_SUCCESS then (ret, addr, sz)
        else case ccuRmaBufferMap s dieId of
          None \<Rightarrow> (HCCL_E_NOT_FOUND, addr, sz)
        | Some buf \<Rightarrow> (HCCL_SUCCESS, bufAddr buf, bufSize buf))"

definition GetCcuResourceSpaceTokenInfo :: "nat \<Rightarrow> u64 \<times> u64 \<Rightarrow> CcuComponent \<Rightarrow> HcclResult \<times> u64 \<times> u64" where
  "GetCcuResourceSpaceTokenInfo dieId token s =
    (let ret = CheckDieValid dieId (compDieFlags s)
     in if ret \<noteq> HCCL_SUCCESS then (ret, token)
        else case ccuRmaBufferMap s dieId of
          None \<Rightarrow> (HCCL_E_NOT_FOUND, token)
        | Some buf \<Rightarrow> (HCCL_SUCCESS, ucast (bufTokenId buf), ucast (bufTokenValue buf)))"

fun QueryTokenInfo_loop ::
  "CcuResSpecifications \<Rightarrow> u64 \<Rightarrow> u64 \<Rightarrow> nat list \<Rightarrow> u64 \<times> u64 \<Rightarrow> CcuComponent \<Rightarrow> HcclResult \<times> u64 \<times> u64" where
  "QueryTokenInfo_loop specs srcVa sz [] token s = (HCCL_E_NOT_FOUND, token)"
| "QueryTokenInfo_loop specs srcVa sz (dieId # dies) token s =
    (if \<not> compDieFlags s ! dieId then QueryTokenInfo_loop specs srcVa sz dies token s
     else case GetXnNum specs dieId 0 of (ret, xns) \<Rightarrow>
       if ret \<noteq> HCCL_SUCCESS then (ret, token)
       else case GetCountXnNum specs dieId 0 of (ret, cntXns) \<Rightarrow>
         if ret \<noteq> HCCL_SUCCESS then (ret, token)
         else case GetResourceAddr specs dieId 0 of (ret, resAddr) \<Rightarrow>
           if ret \<noteq> HCCL_SUCCESS then (ret, token)
           else case GetXnOffsetCcumAddrById specs dieId xns 0 of (ret, xnOffset) \<Rightarrow>
             if ret \<noteq> HCCL_SUCCESS then (ret, token)
             else if resAddr = 0 then (HCCL_E_INTERNAL, token)
             else
               let cntXnRangeSize = ucast cntXns * ucast CCU_RESOURCE_XN_PER_SIZE;
                   cntXnAddrStart = resAddr + xnOffset;
                   cntXnAddrEnd = cntXnAddrStart + cntXnRangeSize
               in if srcVa \<ge> cntXnAddrStart \<and> srcVa < cntXnAddrEnd \<and> sz \<le> cntXnAddrEnd - srcVa
                  then GetCcuResourceSpaceTokenInfo dieId token s
                  else QueryTokenInfo_loop specs srcVa sz dies token s)"

definition QueryTokenInfo ::
  "CcuResSpecifications \<Rightarrow> u64 \<Rightarrow> u64 \<Rightarrow> u64 \<times> u64 \<Rightarrow> CcuComponent \<Rightarrow> HcclResult \<times> u64 \<times> u64" where
  "QueryTokenInfo specs srcVa sz token s = QueryTokenInfo_loop specs srcVa sz [0..<CCU_MAX_IODIE_NUM] token s"

definition GetLoopChannelId :: "nat \<Rightarrow> nat \<Rightarrow> CcuComponent \<Rightarrow> HcclResult \<times> nat" where
  "GetLoopChannelId srcDieId dstDieId s =
    (if CheckDieValid srcDieId [True, True] \<noteq> HCCL_SUCCESS
     then (CheckDieValid srcDieId [True, True], INVAILD_LOOP_CHANNEL_ID)
     else if CheckDieValid dstDieId [True, True] \<noteq> HCCL_SUCCESS
     then (CheckDieValid dstDieId [True, True], INVAILD_LOOP_CHANNEL_ID)
     else if \<not> compDieFlags s ! srcDieId \<or> \<not> compDieFlags s ! dstDieId then (HCCL_SUCCESS, INVAILD_LOOP_CHANNEL_ID)
     else if loopChannelIds s ! srcDieId = INVAILD_LOOP_CHANNEL_ID then (HCCL_E_INTERNAL, INVAILD_LOOP_CHANNEL_ID)
     else (HCCL_SUCCESS, loopChannelIds s ! srcDieId))"

subsection \<open>Killing tasks\<close>

fun SetProcess_loop ::
  "CcuChannelDriver \<Rightarrow> (nat \<Rightarrow> CcuCommand) \<Rightarrow> nat list \<Rightarrow> CcuComponent \<Rightarrow> HcclResult \<times> CcuComponent" where
  "SetProcess_loop chan opCode [] s = (HCCL_SUCCESS, s)"
| "SetProcess_loop chan opCode (dieId # dies) s =
    (if \<not> compDieFlags s ! dieId then SetProcess_loop chan opCode dies s
     else
       case HccpRaTlvCcuCustomChannel chan (opCode dieId) s of (ret, s) \<Rightarrow>
         if ret \<noteq> HCCL_SUCCESS then (ret, s) else SetProcess_loop chan opCode dies s)"

definition SetProcess ::
  "CcuChannelDriver \<Rightarrow> (nat \<Rightarrow> CcuCommand) \<Rightarrow> CcuComponent \<Rightarrow> HcclResult \<times> CcuComponent" where
  "SetProcess chan opCode s = SetProcess_loop chan opCode [0..<CCU_MAX_IODIE_NUM] s"

definition CleanTaskKillState :: "CcuChannelDriver \<Rightarrow> CcuComponent \<Rightarrow> HcclResult \<times> CcuComponent" where
  "CleanTaskKillState chan s = SetProcess chan CCU_U_OP_CLEAN_TASKKILL_STATE s"

definition SetTaskKill :: "CcuChannelDriver \<Rightarrow> CcuComponent \<Rightarrow> HcclResult \<times> CcuComponent" where
  "SetTaskKill chan s =
    (let s = (if killStatus s = TaskKill_INVALID then s\<lparr>killStatus := TaskKill_INIT\<rparr> else s)
     in if killStatus s = TaskKill_TASK_KILL then (HCCL_SUCCESS, s)
        else if killStatus s \<noteq> TaskKill_INIT then (HCCL_E_INTERNAL, s)
        else case SetProcess chan CCU_U_OP_SET_TASKKILL s of (ret, s) \<Rightarrow>
          if ret \<noteq> HCCL_SUCCESS then (ret, s) else (HCCL_SUCCESS, s\<lparr>killStatus := TaskKill_TASK_KILL\<rparr>))"

definition SetTaskKillDone :: "CcuChannelDriver \<Rightarrow> CcuComponent \<Rightarrow> HcclResult \<times> CcuComponent" where
  "SetTaskKillDone chan s =
    (if killStatus s = TaskKill_INVALID then (HCCL_E_INTERNAL, s)
     else if killStatus s = TaskKill_INIT then (HCCL_SUCCESS, s)
     else if killStatus s \<noteq> TaskKill_TASK_KILL then (HCCL_E_INTERNAL, s)
     else case SetProcess chan CCU_U_OP_CLEAN_TASKKILL_STATE s of (ret, s) \<Rightarrow>
       if ret \<noteq> HCCL_SUCCESS then (ret, s) else (HCCL_SUCCESS, s\<lparr>killStatus := TaskKill_INIT\<rparr>))"

end
