(* ===== verification/Component_Pools.thy ===== *)
theory Component_Pools
  imports Ccu_Component
begin

text \<open>
  The resources of a device as pools: for every die and resource type, the component's \<open>AllocRes\<close> and
  \<open>ReleaseRes\<close> implement the contract \<open>id_pool\<close>, and so do \<open>AllocCntXn\<close> and \<open>ReleaseCntXn\<close> for the counting
  XN registers. A call touches one pool of one die.
\<close>

subsection \<open>The invariant of the component\<close>

text \<open>A die is enabled exactly when it has an allocator; the allocators keep their own invariant.\<close>

definition comp_inv :: "CcuComponent \<Rightarrow> bool" where
  "comp_inv s \<longleftrightarrow> length (compDieFlags s) = 2 \<and> length (resAllocators s) = 2
    \<and> (\<forall>d<2. compDieFlags s ! d \<longleftrightarrow> resAllocators s ! d \<noteq> None)
    \<and> (\<forall>a. Some a \<in> set (resAllocators s) \<longrightarrow> res_inv a)
    \<and> length (usedTotalCntXnFlags s) = 2 \<and> (\<forall>f\<in>set (usedTotalCntXnFlags s). length f = 4)"

definition die_alloc :: "nat \<Rightarrow> CcuComponent \<Rightarrow> CcuResAllocator" where
  "die_alloc d s = (case on_die d s of Inl e \<Rightarrow> CcuResAllocator_new d | Inr a \<Rightarrow> a)"

definition die_used :: "nat \<Rightarrow> ResType \<Rightarrow> CcuComponent \<Rightarrow> nat set" where
  "die_used d t s = used_ids t (die_alloc d s)"

definition die_capacity :: "nat \<Rightarrow> ResType \<Rightarrow> CcuComponent \<Rightarrow> nat" where
  "die_capacity d t s = capacity (pool_of t (die_alloc d s))"

lemma CcuResAllocator_new_pools [simp]: "pool_of t (CcuResAllocator_new d) = CcuResIdAllocator_new 0"
  by (simp add: pool_of_def CcuResAllocator_new_def)

lemma res_inv_new: "res_inv (CcuResAllocator_new d)"
  by (simp add: res_inv_def) (simp add: CcuResAllocator_new_def)

lemma on_die_cases:
  assumes "comp_inv s"
  shows "on_die d s = (if d < 2 \<and> compDieFlags s ! d then Inr (the (resAllocators s ! d)) else Inl HCCL_E_PARA)"
  using assms by (auto simp: on_die_def CheckDieValid_ok comp_inv_def Let_def split: option.splits)

lemma die_alloc_inv: "comp_inv s \<Longrightarrow> res_inv (die_alloc d s)"
  using nth_mem [of d "resAllocators s"]
  by (auto simp: die_alloc_def on_die_cases res_inv_new comp_inv_def split: option.splits)

lemma die_alloc_on: "comp_inv s \<Longrightarrow> d < 2 \<Longrightarrow> compDieFlags s ! d \<Longrightarrow> on_die d s = Inr (die_alloc d s)"
  by (simp add: die_alloc_def on_die_cases)

lemma set_die_sel [simp]:
  "compDieFlags (set_die d a s) = compDieFlags s" "compVersion (set_die d a s) = compVersion s"
  "usedTotalCntXnFlags (set_die d a s) = usedTotalCntXnFlags s" "drvLog (set_die d a s) = drvLog s"
  "ccuRmaBufferMap (set_die d a s) = ccuRmaBufferMap s" "killStatus (set_die d a s) = killStatus s"
  by (simp_all add: set_die_def)

lemma set_die_inv:
  assumes "comp_inv s" and "res_inv a" and "compDieFlags s ! d" and "d < 2"
  shows "comp_inv (set_die d a s)"
proof -
  have "res_inv b" if "Some b \<in> set ((resAllocators s)[d := Some a])" for b
    using that assms(1,2) set_update_subset_insert [of "resAllocators s" d "Some a"]
    by (auto simp: comp_inv_def)
  then show ?thesis
    using assms by (auto simp: comp_inv_def set_die_def nth_list_update)
qed

lemma set_die_same: "comp_inv s \<Longrightarrow> d < 2 \<Longrightarrow> compDieFlags s ! d \<Longrightarrow> set_die d (die_alloc d s) s = s"
  by (auto simp: set_die_def die_alloc_on [symmetric] die_alloc_def on_die_cases comp_inv_def list_update_same_conv)

lemma die_alloc_set_die:
  assumes "comp_inv s" and "res_inv a" and "compDieFlags s ! d" and "d < 2"
  shows "die_alloc d' (set_die d a s) = (if d' = d then a else die_alloc d' s)"
proof -
  have "length (resAllocators s) = 2"
    using assms(1) by (simp add: comp_inv_def)
  then show ?thesis
    using assms set_die_inv [OF assms]
    by (simp add: die_alloc_def on_die_cases) (simp add: set_die_def nth_list_update)
qed

subsection \<open>One call touches one pool\<close>

text \<open>What a call of one type on one die leaves as it was.\<close>

definition one_pool :: "nat \<Rightarrow> ResType \<Rightarrow> CcuComponent \<Rightarrow> CcuComponent \<Rightarrow> bool" where
  "one_pool d t s s' \<longleftrightarrow> comp_inv s' \<and> compDieFlags s' = compDieFlags s \<and> compVersion s' = compVersion s
    \<and> usedTotalCntXnFlags s' = usedTotalCntXnFlags s \<and> drvLog s' = drvLog s
    \<and> (\<forall>d' t'. die_capacity d' t' s' = die_capacity d' t' s)
    \<and> (\<forall>d'. xnSpecNum (die_alloc d' s') = xnSpecNum (die_alloc d' s))
    \<and> (\<forall>d' t'. (d', t') \<noteq> (d, t) \<longrightarrow> die_used d' t' s' = die_used d' t' s)"

lemma one_pool_refl: "comp_inv s \<Longrightarrow> one_pool d t s s"
  by (simp add: one_pool_def)

lemma one_pool_set_die:
  assumes "comp_inv s" and "compDieFlags s ! d" and "d < 2"
    and "same_specs (die_alloc d s) a" and "\<forall>u. u \<noteq> t \<longrightarrow> used_ids u a = used_ids u (die_alloc d s)"
  shows "one_pool d t s (set_die d a s)"
proof -
  have a: "res_inv a"
    using assms(4) by (simp add: same_specs_def)
  show ?thesis
    unfolding one_pool_def
    using set_die_inv [OF assms(1) a assms(2,3)] die_alloc_set_die [OF assms(1) a assms(2,3)] assms(4,5)
    by (simp add: die_capacity_def die_used_def same_specs_def)
qed

lemma AllocRes_one_pool:
  assumes "comp_inv s"
  shows "one_pool d t s (snd (snd (CcuComponent_AllocRes d t n c s)))"
proof (cases "d < 2 \<and> compDieFlags s ! d")
  case True
  have "one_pool d t s (set_die d (snd (snd (CcuResAllocator_Alloc t n c (die_alloc d s)))) s)"
    using True typed_alloc_keeps [OF die_alloc_inv [OF assms]] by (intro one_pool_set_die [OF assms]) auto
  then show ?thesis
    using True assms by (simp add: CcuComponent_AllocRes_def die_alloc_on case_prod_beta)
qed (use assms in \<open>auto simp: CcuComponent_AllocRes_def on_die_cases one_pool_refl\<close>)

lemma ReleaseRes_one_pool:
  assumes "comp_inv s"
  shows "one_pool d t s (snd (CcuComponent_ReleaseRes d t st n s))"
proof (cases "d < 2 \<and> compDieFlags s ! d")
  case True
  have "one_pool d t s (set_die d (snd (CcuResAllocator_Release t st n (die_alloc d s))) s)"
    using True typed_release_keeps [OF die_alloc_inv [OF assms]] by (intro one_pool_set_die [OF assms]) auto
  then show ?thesis
    using True assms by (simp add: CcuComponent_ReleaseRes_def die_alloc_on case_prod_beta)
qed (use assms in \<open>auto simp: CcuComponent_ReleaseRes_def on_die_cases one_pool_refl\<close>)

subsection \<open>Every type of every die is a pool\<close>

lemma AllocRes_success:
  assumes "comp_inv s" and "CcuComponent_AllocRes d t n c s = (HCCL_SUCCESS, ns, s')"
  obtains a where "CcuResAllocator_Alloc t n c (die_alloc d s) = (HCCL_SUCCESS, ns, a)" and "s' = set_die d a s"
    and "d < 2" and "compDieFlags s ! d" and "res_inv a" and "die_alloc d s' = a"
proof -
  have d: "d < 2" "compDieFlags s ! d"
    using assms by (auto simp: CcuComponent_AllocRes_def on_die_cases split: if_splits)
  then obtain a where a: "CcuResAllocator_Alloc t n c (die_alloc d s) = (HCCL_SUCCESS, ns, a)" "s' = set_die d a s"
    using assms by (auto simp: CcuComponent_AllocRes_def die_alloc_on split: prod.splits)
  moreover have "res_inv a"
    using typed.alloc_grants [OF die_alloc_inv [OF assms(1)] a(1)] by simp
  ultimately show thesis
    using that d die_alloc_set_die [OF assms(1) _ d(2,1)] by simp
qed

lemma ReleaseRes_success:
  assumes "comp_inv s" and "CcuComponent_ReleaseRes d t st n s = (HCCL_SUCCESS, s')"
  obtains a where "CcuResAllocator_Release t st n (die_alloc d s) = (HCCL_SUCCESS, a)" and "s' = set_die d a s"
    and "d < 2" and "compDieFlags s ! d" and "res_inv a" and "die_alloc d s' = a"
proof -
  have d: "d < 2" "compDieFlags s ! d"
    using assms by (auto simp: CcuComponent_ReleaseRes_def on_die_cases split: if_splits)
  then obtain a where a: "CcuResAllocator_Release t st n (die_alloc d s) = (HCCL_SUCCESS, a)" "s' = set_die d a s"
    using assms by (auto simp: CcuComponent_ReleaseRes_def die_alloc_on split: prod.splits)
  moreover have "res_inv a"
    using typed.release_frees [OF die_alloc_inv [OF assms(1)] a(1)] by simp
  ultimately show thesis
    using that d die_alloc_set_die [OF assms(1) _ d(2,1)] by simp
qed

lemma die_off_calls:
  assumes "comp_inv s" and "\<not> (d < 2 \<and> compDieFlags s ! d)"
  shows "CcuComponent_AllocRes d t n c s = (HCCL_E_PARA, [], s)" "CcuComponent_ReleaseRes d t st n s = (HCCL_E_PARA, s)"
  using assms by (auto simp: CcuComponent_AllocRes_def CcuComponent_ReleaseRes_def on_die_cases)

lemma AllocRes_error:
  assumes "comp_inv s" and "CcuComponent_AllocRes d t n c s = (e, ns, s')" and "e \<noteq> HCCL_SUCCESS"
  shows "s' = s"
proof (cases "d < 2 \<and> compDieFlags s ! d")
  case True
  then obtain a where "CcuResAllocator_Alloc t n c (die_alloc d s) = (e, ns, a)" "s' = set_die d a s"
    using assms by (auto simp: CcuComponent_AllocRes_def die_alloc_on split: prod.splits)
  then show ?thesis
    using typed_alloc_error [OF die_alloc_inv [OF assms(1)]] set_die_same [OF assms(1)] True assms(3) by metis
qed (use assms die_off_calls in auto)

lemma ReleaseRes_error:
  assumes "comp_inv s" and "CcuComponent_ReleaseRes d t st n s = (e, s')" and "e \<noteq> HCCL_SUCCESS"
  shows "s' = s"
proof (cases "d < 2 \<and> compDieFlags s ! d")
  case True
  then obtain a where "CcuResAllocator_Release t st n (die_alloc d s) = (e, a)" "s' = set_die d a s"
    using assms by (auto simp: CcuComponent_ReleaseRes_def die_alloc_on split: prod.splits)
  then show ?thesis
    using typed_release_error [OF die_alloc_inv [OF assms(1)]] set_die_same [OF assms(1)] True assms(3) by metis
qed (use assms die_off_calls in auto)

interpretation comp: id_pool comp_inv "die_used d t" "\<lambda>s. 0" "die_capacity d t"
    "CcuComponent_AllocRes d t" "CcuComponent_ReleaseRes d t" for d t
proof (unfold_locales, goal_cases)
  case (1 s)
  then show ?case
    using typed.used_range [OF die_alloc_inv [OF 1]] by (simp add: die_used_def die_capacity_def)
next
  case (2 s n c ns s')
  obtain a where a: "CcuResAllocator_Alloc t n c (die_alloc d s) = (HCCL_SUCCESS, ns, a)" "s' = set_die d a s"
    "d < 2" "compDieFlags s ! d" "res_inv a" "die_alloc d s' = a"
    using AllocRes_success [OF 2] .
  show ?case
    using typed.alloc_grants [OF die_alloc_inv [OF 2(1)] a(1)] set_die_inv [OF 2(1) a(5,4,3)] a(2,6)
    by (simp add: die_used_def die_capacity_def)
next
  case (3 s n c e ns s')
  then show ?case
    by (rule AllocRes_error)
next
  case (4 s st n s')
  obtain a where a: "CcuResAllocator_Release t st n (die_alloc d s) = (HCCL_SUCCESS, a)" "s' = set_die d a s"
    "d < 2" "compDieFlags s ! d" "res_inv a" "die_alloc d s' = a"
    using ReleaseRes_success [OF 4] .
  show ?case
    using typed.release_frees [OF die_alloc_inv [OF 4(1)] a(1)] set_die_inv [OF 4(1) a(5,4,3)] a(2,6)
    by (simp add: die_used_def die_capacity_def)
next
  case (5 s st n e s')
  then show ?case
    by (rule ReleaseRes_error)
next
  case (6 s n st)
  have "st \<in> die_used d t s"
    using 6(2,3) by auto
  then have d: "d < 2" "compDieFlags s ! d"
    using 6(1) by (auto simp: die_used_def die_alloc_def on_die_cases used_ids_def split: if_splits)
  then show ?case
    using 6 typed.release_total [OF die_alloc_inv [OF 6(1)] 6(2)]
    by (simp add: CcuComponent_ReleaseRes_def die_alloc_on die_used_def case_prod_beta)
qed

subsection \<open>The counting XN registers of a die are a pool\<close>

definition count_used :: "nat \<Rightarrow> CcuComponent \<Rightarrow> nat set" where
  "count_used d s = count_ids (die_alloc d s)"

definition AllocCntXn_list :: "nat \<Rightarrow> nat \<Rightarrow> bool \<Rightarrow> CcuComponent \<Rightarrow> HcclResult \<times> ResInfo list \<times> CcuComponent" where
  "AllocCntXn_list d n c s = (case AllocCntXn d n (mk_res 0 0) s of (ret, r, s') \<Rightarrow> (ret, [r], s'))"

definition ReleaseCntXn_u32 :: "nat \<Rightarrow> nat \<Rightarrow> nat \<Rightarrow> CcuComponent \<Rightarrow> HcclResult \<times> CcuComponent" where
  "ReleaseCntXn_u32 d st n s = (if st < 2 ^ 32 then ReleaseCntXn d (mk_res st n) s else (HCCL_E_PARA, s))"

lemma count_keeps:
  assumes "res_inv a"
  shows "same_specs a (snd (snd (AllocCountXn n r a))) \<and> (\<forall>u. u \<noteq> ResType_COUNT_XN \<longrightarrow>
      used_ids u (snd (snd (AllocCountXn n r a))) = used_ids u a)"
    and "same_specs a (snd (ReleaseCountXn st m a)) \<and> (\<forall>u. u \<noteq> ResType_COUNT_XN \<longrightarrow>
      used_ids u (snd (ReleaseCountXn st m a)) = used_ids u a)"
  using typed_alloc_keeps [OF assms, of ResType_COUNT_XN n True] typed_release_keeps [OF assms, of ResType_COUNT_XN _ m]
  by (simp_all add: AllocCountXn_eq ReleaseCountXn_eq case_prod_beta)

lemma AllocCntXn_one_pool:
  assumes "comp_inv s"
  shows "one_pool d ResType_COUNT_XN s (snd (snd (AllocCntXn d n r s)))"
proof (cases "compVersion s = CCU_V2 \<and> d < 2 \<and> compDieFlags s ! d")
  case True
  have "one_pool d ResType_COUNT_XN s (set_die d (snd (snd (AllocCountXn n r (die_alloc d s)))) s)"
    using True count_keeps(1) [OF die_alloc_inv [OF assms]] by (intro one_pool_set_die [OF assms]) auto
  then show ?thesis
    using True assms by (simp add: AllocCntXn_def die_alloc_on case_prod_beta)
qed (use assms in \<open>auto simp: AllocCntXn_def on_die_cases one_pool_refl\<close>)

lemma ReleaseCntXn_one_pool:
  assumes "comp_inv s"
  shows "one_pool d ResType_COUNT_XN s (snd (ReleaseCntXn d r s))"
proof (cases "d < 2 \<and> compDieFlags s ! d")
  case True
  have "one_pool d ResType_COUNT_XN s (set_die d (snd (ReleaseCountXn (startId r) (num r) (die_alloc d s))) s)"
    using True count_keeps(2) [OF die_alloc_inv [OF assms]] by (intro one_pool_set_die [OF assms]) auto
  then show ?thesis
    using True assms by (simp add: ReleaseCntXn_def die_alloc_on case_prod_beta)
qed (use assms in \<open>auto simp: ReleaseCntXn_def on_die_cases one_pool_refl\<close>)

lemma AllocCntXn_list_on:
  assumes "comp_inv s" and "compVersion s = CCU_V2" and "d < 2" and "compDieFlags s ! d"
  shows "AllocCntXn_list d n c s = (case AllocCountXn_list n c (die_alloc d s) of (ret, rs, a) \<Rightarrow> (ret, rs, set_die d a s))"
  using assms
  by (simp add: AllocCntXn_list_def AllocCntXn_def die_alloc_on AllocCountXn_list_def case_prod_beta)

lemma AllocCntXn_list_off:
  assumes "comp_inv s" and "\<not> (compVersion s = CCU_V2 \<and> d < 2 \<and> compDieFlags s ! d)"
  shows "\<exists>e. e \<noteq> HCCL_SUCCESS \<and> AllocCntXn_list d n c s = (e, [mk_res 0 0], s)"
  using assms by (auto simp: AllocCntXn_list_def AllocCntXn_def on_die_cases)

lemma ReleaseCntXn_u32_on:
  assumes "comp_inv s" and "d < 2" and "compDieFlags s ! d"
  shows "ReleaseCntXn_u32 d st n s = (case ReleaseCountXn_u32 st n (die_alloc d s) of (ret, a) \<Rightarrow> (ret, set_die d a s))"
  using assms set_die_same [OF assms]
  by (simp add: ReleaseCntXn_u32_def ReleaseCntXn_def die_alloc_on ReleaseCountXn_u32_def case_prod_beta)

lemma ReleaseCntXn_u32_off:
  assumes "comp_inv s" and "\<not> (d < 2 \<and> compDieFlags s ! d)"
  shows "ReleaseCntXn_u32 d st n s = (HCCL_E_PARA, s)"
  using assms by (auto simp: ReleaseCntXn_u32_def ReleaseCntXn_def on_die_cases)

interpretation cntxn: id_pool comp_inv "count_used d" "\<lambda>s. xnSpecNum (die_alloc d s)" "die_capacity d ResType_COUNT_XN"
    "AllocCntXn_list d" "ReleaseCntXn_u32 d" for d
proof (unfold_locales, goal_cases)
  case (1 s)
  then show ?case
    using count.used_range [OF die_alloc_inv [OF 1]] by (simp add: count_used_def die_capacity_def)
next
  case (2 s n c ns s')
  have on: "compVersion s = CCU_V2" "d < 2" "compDieFlags s ! d"
    using AllocCntXn_list_off [OF 2(1), of d n c] 2(2) by auto
  obtain a where a: "AllocCountXn_list n c (die_alloc d s) = (HCCL_SUCCESS, ns, a)" "s' = set_die d a s"
    using AllocCntXn_list_on [OF 2(1) on, of n c] 2(2) by (auto split: prod.splits)
  note g = count.alloc_grants [OF die_alloc_inv [OF 2(1)] a(1)]
  then have ra: "res_inv a"
    by simp
  show ?case
    using g set_die_inv [OF 2(1) ra on(3,2)] die_alloc_set_die [OF 2(1) ra on(3,2)] a(2)
    by (simp add: count_used_def die_capacity_def)
next
  case (3 s n c e ns s')
  show ?case
  proof (cases "compVersion s = CCU_V2 \<and> d < 2 \<and> compDieFlags s ! d")
    case True
    then obtain a where "AllocCountXn_list n c (die_alloc d s) = (e, ns, a)" "s' = set_die d a s"
      using AllocCntXn_list_on [OF 3(1), of d n c] 3(2) by (auto split: prod.splits)
    then show ?thesis
      using count.alloc_refuses [OF die_alloc_inv [OF 3(1)]] set_die_same [OF 3(1)] True 3(3) by metis
  qed (use AllocCntXn_list_off [OF 3(1), of d n c] 3(2) in auto)
next
  case (4 s st n s')
  have on: "d < 2" "compDieFlags s ! d"
    using ReleaseCntXn_u32_off [OF 4(1), of d st n] 4(2) by auto
  obtain a where a: "ReleaseCountXn_u32 st n (die_alloc d s) = (HCCL_SUCCESS, a)" "s' = set_die d a s"
    using ReleaseCntXn_u32_on [OF 4(1) on, of st n] 4(2) by (auto split: prod.splits)
  note g = count.release_frees [OF die_alloc_inv [OF 4(1)] a(1)]
  then have ra: "res_inv a"
    by simp
  show ?case
    using g set_die_inv [OF 4(1) ra on(2,1)] die_alloc_set_die [OF 4(1) ra on(2,1)] a(2)
    by (simp add: count_used_def die_capacity_def)
next
  case (5 s st n e s')
  show ?case
  proof (cases "d < 2 \<and> compDieFlags s ! d")
    case True
    then obtain a where "ReleaseCountXn_u32 st n (die_alloc d s) = (e, a)" "s' = set_die d a s"
      using ReleaseCntXn_u32_on [OF 5(1), of d st n] 5(2) by (auto split: prod.splits)
    then show ?thesis
      using count.release_refuses [OF die_alloc_inv [OF 5(1)]] set_die_same [OF 5(1)] True 5(3) by metis
  qed (use ReleaseCntXn_u32_off [OF 5(1), of d st n] 5(2) in auto)
next
  case (6 s n st)
  have "st \<in> count_used d s"
    using 6(2,3) by auto
  then have d: "d < 2" "compDieFlags s ! d"
    using 6(1) by (auto simp: count_used_def count_ids_def die_alloc_def on_die_cases used_ids_def split: if_splits)
  then show ?case
    using 6 count.release_total [OF die_alloc_inv [OF 6(1)] 6(2)]
    by (simp add: ReleaseCntXn_u32_on count_used_def case_prod_beta)
qed

subsection \<open>The comparison registers\<close>

text \<open>The commands for the comparison registers do not touch the pools.\<close>

definition same_pools :: "CcuComponent \<Rightarrow> CcuComponent \<Rightarrow> bool" where
  "same_pools s s' \<longleftrightarrow> resAllocators s' = resAllocators s \<and> compDieFlags s' = compDieFlags s
    \<and> compVersion s' = compVersion s"

lemma same_pools_trans: "same_pools s s1 \<Longrightarrow> same_pools s1 s2 \<Longrightarrow> same_pools s s2"
  by (simp add: same_pools_def)

lemma same_pools_die_alloc: "same_pools s s' \<Longrightarrow> die_alloc d s' = die_alloc d s"
  by (auto simp: same_pools_def die_alloc_def on_die_def Let_def)

definition total_flags :: "nat \<Rightarrow> CcuComponent \<Rightarrow> nat set" where
  "total_flags d s = {i. i < 4 \<and> usedTotalCntXnFlags s ! d ! i}"

lemma TOTAL_CNT_XNS_eq [simp]: "TOTAL_CNT_XNS = 4"
  by (simp add: spec_consts)

lemma set_total_flag_sel [simp]:
  "resAllocators (set_total_flag d i v s) = resAllocators s" "compDieFlags (set_total_flag d i v s) = compDieFlags s"
  "compVersion (set_total_flag d i v s) = compVersion s" "drvLog (set_total_flag d i v s) = drvLog s"
  by (simp_all add: set_total_flag_def)

lemma set_total_flag_inv:
  assumes "comp_inv s" and "d < 2"
  shows "comp_inv (set_total_flag d i v s)"
proof -
  have "length f = 4" if "f \<in> set ((usedTotalCntXnFlags s)[d := (usedTotalCntXnFlags s ! d)[i := v]])" for f
  proof -
    have len: "\<And>f. f \<in> set (usedTotalCntXnFlags s) \<Longrightarrow> length f = 4" "usedTotalCntXnFlags s ! d \<in> set (usedTotalCntXnFlags s)"
      using assms by (simp_all add: comp_inv_def)
    have "f = (usedTotalCntXnFlags s ! d)[i := v] \<or> f \<in> set (usedTotalCntXnFlags s)"
      using that set_update_subset_insert [of "usedTotalCntXnFlags s" d] by blast
    then show ?thesis
      using len by auto
  qed
  then show ?thesis
    using assms(1) by (auto simp: comp_inv_def set_total_flag_def)
qed

lemma total_flags_set:
  assumes "comp_inv s" and "d < 2" and "i < 4"
  shows "total_flags d' (set_total_flag d i v s) =
    (if d' = d then (if v then insert i (total_flags d s) else total_flags d s - {i}) else total_flags d' s)"
proof -
  have "length (usedTotalCntXnFlags s) = 2" "length (usedTotalCntXnFlags s ! d) = 4"
    using assms(1,2) nth_mem [of d "usedTotalCntXnFlags s"] by (auto simp: comp_inv_def)
  then show ?thesis
    using assms(2,3) by (auto simp: total_flags_def set_total_flag_def nth_list_update)
qed

lemma driver_call_keeps [simp]:
  "same_pools s (snd (HccpRaTlvCcuCustomChannel chan cmd s))"
  "usedTotalCntXnFlags (snd (HccpRaTlvCcuCustomChannel chan cmd s)) = usedTotalCntXnFlags s"
  "comp_inv (snd (HccpRaTlvCcuCustomChannel chan cmd s)) = comp_inv s"
  by (simp_all add: HccpRaTlvCcuCustomChannel_def same_pools_def comp_inv_def)

text \<open>A call that only sends a command.\<close>

definition only_sends :: "CcuComponent \<Rightarrow> CcuComponent \<Rightarrow> bool" where
  "only_sends s s' \<longleftrightarrow> same_pools s s' \<and> usedTotalCntXnFlags s' = usedTotalCntXnFlags s \<and> (comp_inv s \<longrightarrow> comp_inv s')"

lemma only_sends_refl [simp]: "only_sends s s"
  by (simp add: only_sends_def same_pools_def)

lemma only_sends_flags: "only_sends s s' \<Longrightarrow> total_flags d s' = total_flags d s"
  by (simp add: only_sends_def total_flags_def)

lemma send_keeps:
  "only_sends s (snd (SetTotalCntXnProcess chan d i a z t s))" "only_sends s (snd (SetSplitUnit chan d u s))"
  by (auto simp: SetTotalCntXnProcess_def SetSplitUnit_def only_sends_def same_pools_def HccpRaTlvCcuCustomChannel_def
      comp_inv_def)

lemma GetAvailable_scan_some: "GetAvailable_scan f i n = Some j \<Longrightarrow> i \<le> j \<and> j < i + n \<and> \<not> f ! j"
  by (induction f i n rule: GetAvailable_scan.induct) (auto split: if_splits)

lemma GetAvailable_scan_none: "GetAvailable_scan f i n = None \<Longrightarrow> i \<le> k \<Longrightarrow> k < i + n \<Longrightarrow> f ! k"
proof (induction f i n rule: GetAvailable_scan.induct)
  case (2 flags i n)
  then show ?case
    by (cases "k = i") (auto split: if_splits)
qed simp

lemma ResetTotalCntXn_eq:
  assumes "comp_inv s" and "ResetTotalCntXn chan d i s = (ret, s')"
  shows "same_pools s s' \<and> comp_inv s' \<and> (\<forall>d'. total_flags d' s' =
    (if d' = d \<and> d < 2 \<and> compDieFlags s ! d \<and> compVersion s = CCU_V2 then total_flags d s - {i} else total_flags d' s))"
proof (cases "compVersion s = CCU_V2 \<and> d < 2 \<and> compDieFlags s ! d \<and> i < 4 \<and> usedTotalCntXnFlags s ! d ! i")
  case True
  let ?s1 = "snd (SetTotalCntXnProcess chan d i 0xFFFF 0 (totalIdDefault ! i) s)"
  have s': "s' = set_total_flag d i False ?s1"
    using assms(2) True by (auto simp: ResetTotalCntXn_def CheckDieValid_ok split: prod.splits)
  have send: "only_sends s ?s1"
    by (rule send_keeps)
  then have "comp_inv ?s1" "same_pools s ?s1"
    using assms(1) by (simp_all add: only_sends_def)
  then show ?thesis
    using True set_total_flag_inv total_flags_set only_sends_flags [OF send] unfolding s'
    by (auto simp: same_pools_def)
next
  case False
  then have "s' = s"
    using assms(2) by (auto simp: ResetTotalCntXn_def CheckDieValid_ok Let_def split: if_splits)
  then show ?thesis
    using assms(1) False by (auto simp: same_pools_def total_flags_def)
qed

text \<open>Confirming a block takes the first free register of the die, or leaves the registers as they were.\<close>

lemma ConfirmCntXns_outcome:
  assumes inv: "comp_inv s" and call: "ConfirmCntXns chan d w t e s = (ret, idx, s')"
  shows "same_pools s s' \<and> comp_inv s' \<and>
    (if ret = HCCL_SUCCESS
     then d < 2 \<and> idx < 4 \<and> idx \<notin> total_flags d s
       \<and> (\<forall>d'. total_flags d' s' = (if d' = d then insert idx (total_flags d s) else total_flags d' s))
     else \<forall>d'. total_flags d' s' = total_flags d' s)"
proof (cases "compVersion s = CCU_V2 \<and> \<not> (fst w > snd w \<or> t \<noteq> u32_add (snd w) 1 \<or> e \<noteq> u32_add t 1)
    \<and> d < 2 \<and> compDieFlags s ! d \<and> GetAvailable_scan (usedTotalCntXnFlags s ! d) 0 4 \<noteq> None")
  case False
  then have "s' = s" "ret \<noteq> HCCL_SUCCESS"
    using call
    by (auto simp: ConfirmCntXns_def CheckDieValid_ok GetAvailableTotalCntXnIndex_def Let_def split: if_splits option.splits)
  then show ?thesis
    using inv by (simp add: same_pools_def)
next
  case True
  then obtain i where i: "GetAvailable_scan (usedTotalCntXnFlags s ! d) 0 4 = Some i"
    by blast
  then have i4: "i < 4" "i \<notin> total_flags d s"
    using GetAvailable_scan_some [OF i] by (auto simp: total_flags_def)
  have d: "d < 2"
    using True by blast
  obtain r1 s1 where set: "SetTotalCntXn chan d (fst w) (snd w) t i s = (r1, s1)"
    by fastforce
  have s1: "same_pools s s1 \<and> comp_inv s1 \<and> (if r1 = HCCL_SUCCESS
      then \<forall>d'. total_flags d' s1 = (if d' = d then insert i (total_flags d s) else total_flags d' s)
      else \<forall>d'. total_flags d' s1 = total_flags d' s)"
  proof -
    let ?p = "SetTotalCntXnProcess chan d i (fst w) (snd w) t s"
    have send: "only_sends s (snd ?p)"
      by (rule send_keeps)
    then have p: "comp_inv (snd ?p)" "same_pools s (snd ?p)"
      using inv by (simp_all add: only_sends_def)
    consider "s1 = s" "r1 \<noteq> HCCL_SUCCESS" | "s1 = snd ?p" "r1 \<noteq> HCCL_SUCCESS"
      | "s1 = set_total_flag d i True (snd ?p)" "r1 = HCCL_SUCCESS"
      using set by (auto simp: SetTotalCntXn_def split: if_splits prod.splits)
    then show ?thesis
    proof cases
      case 3
      then show ?thesis
        using p set_total_flag_inv [OF p(1) d] total_flags_set [OF p(1) d i4(1)] only_sends_flags [OF send]
        by (simp add: same_pools_def)
    qed (use inv p only_sends_flags [OF send] in \<open>simp_all add: same_pools_def\<close>)
  qed
  have cont: "ConfirmCntXns chan d w t e s = (if r1 \<noteq> HCCL_SUCCESS then (r1, i, s1) else
      case SetSplitUnit chan d 0 s1 of (ret, s) \<Rightarrow>
        if ret = HCCL_SUCCESS then (HCCL_SUCCESS, i, s) else (ret, i, snd (ResetTotalCntXn chan d i s)))"
    using True set i by (simp add: ConfirmCntXns_def CheckDieValid_ok GetAvailableTotalCntXnIndex_def Let_def)
  show ?thesis
  proof (cases "r1 = HCCL_SUCCESS")
    case False
    then show ?thesis
      using call s1 unfolding cont by auto
  next
    case r1: True
    obtain r2 s2 where split: "SetSplitUnit chan d 0 s1 = (r2, s2)"
      by fastforce
    have send: "only_sends s1 s2"
      using send_keeps(2) [of s1 chan d 0] split by simp
    then have s2: "comp_inv s2" "same_pools s s2"
      "\<forall>d'. total_flags d' s2 = (if d' = d then insert i (total_flags d s) else total_flags d' s)"
      using s1 r1 only_sends_flags [OF send] same_pools_trans by (auto simp: only_sends_def)
    show ?thesis
    proof (cases "r2 = HCCL_SUCCESS")
      case True
      then show ?thesis
        using call s2 i4 d r1 split unfolding cont by simp
    next
      case bad: False
      obtain r3 s3 where reset: "ResetTotalCntXn chan d i s2 = (r3, s3)"
        by fastforce
      have "compVersion s2 = CCU_V2" "compDieFlags s2 ! d"
        using True s2(2) by (simp_all add: same_pools_def)
      then have "same_pools s s3 \<and> comp_inv s3 \<and> (\<forall>d'. total_flags d' s3 = total_flags d' s)"
        using ResetTotalCntXn_eq [OF s2(1) reset] s2(2,3) d i4(2) same_pools_trans by auto
      then show ?thesis
        using call r1 split bad reset unfolding cont by simp
    qed
  qed
qed

end
