(* ===== verification/Component_Properties.thy ===== *)
theory Component_Properties
  imports Component_Pools
begin

text \<open>
  Commands that the component sends to the driver: the protocol of killing tasks, as a state machine over the
  calls and any behaviour of the driver, and the cleaning of the CKEs of a die in batches.
\<close>

text \<open>A driver that carries out every command.\<close>

definition ok_driver :: CcuChannelDriver where
  "ok_driver log cmd = HCCL_SUCCESS"

lemma ok_driver_send [simp]: "HccpRaTlvCcuCustomChannel ok_driver cmd s = (HCCL_SUCCESS, s\<lparr>drvLog := drvLog s @ [cmd]\<rparr>)"
  by (simp add: HccpRaTlvCcuCustomChannel_def ok_driver_def)

subsection \<open>Killing tasks\<close>

definition enabled_dies :: "CcuComponent \<Rightarrow> nat list" where
  "enabled_dies s = filter (\<lambda>d. compDieFlags s ! d) [0..<CCU_MAX_IODIE_NUM]"

text \<open>The calls that change the state of the protocol; the driver may answer anything.\<close>

inductive kill_step :: "CcuComponent \<Rightarrow> CcuComponent \<Rightarrow> bool" where
  set_kill: "SetTaskKill chan s = (ret, s') \<Longrightarrow> kill_step s s'"
| kill_done: "SetTaskKillDone chan s = (ret, s') \<Longrightarrow> kill_step s s'"
| clean: "CleanTaskKillState chan s = (ret, s') \<Longrightarrow> kill_step s s'"

inductive kill_steps :: "CcuComponent \<Rightarrow> CcuComponent \<Rightarrow> bool" where
  kill_none: "kill_steps s s"
| kill_more: "kill_steps s s1 \<Longrightarrow> kill_step s1 s2 \<Longrightarrow> kill_steps s s2"

lemma SetProcess_loop_keeps:
  "SetProcess_loop chan opCode dies s = (ret, s') \<Longrightarrow> \<exists>log. s' = s\<lparr>drvLog := log\<rparr>"
proof (induction dies arbitrary: s)
  case Nil
  then show ?case
    by (metis SetProcess_loop.simps(1) prod.inject CcuComponent.surjective CcuComponent.update_convs(13))
next
  case (Cons d dies)
  let ?s = "s\<lparr>drvLog := drvLog s @ [opCode d]\<rparr>"
  consider "SetProcess_loop chan opCode dies s = (ret, s')" | "s' = ?s" | "SetProcess_loop chan opCode dies ?s = (ret, s')"
    using Cons.prems by (auto simp: HccpRaTlvCcuCustomChannel_def split: if_splits)
  then show ?case
  proof cases
    case 3
    then show ?thesis
      using Cons.IH [of ?s] by auto
  qed (use Cons.IH in auto)
qed

lemma SetProcess_status [simp]: "SetProcess chan opCode s = (ret, s') \<Longrightarrow> killStatus s' = killStatus s \<and> compDieFlags s' = compDieFlags s"
  using SetProcess_loop_keeps [of chan opCode "[0..<CCU_MAX_IODIE_NUM]" s ret s'] by (auto simp: SetProcess_def)

lemma SetProcess_loop_ok:
  "SetProcess_loop ok_driver opCode dies s
    = (HCCL_SUCCESS, s\<lparr>drvLog := drvLog s @ map opCode (filter (\<lambda>d. compDieFlags s ! d) dies)\<rparr>)"
  by (induction dies arbitrary: s) simp_all

lemma kill_step_status:
  assumes "kill_step s s'" and "killStatus s \<in> {TaskKill_INVALID, TaskKill_INIT, TaskKill_TASK_KILL}"
  shows "killStatus s' \<in> {TaskKill_INVALID, TaskKill_INIT, TaskKill_TASK_KILL} \<and> (killStatus s \<noteq> TaskKill_INVALID \<longrightarrow> killStatus s' \<noteq> TaskKill_INVALID)"
  using assms
proof cases
  case (set_kill chan ret)
  then show ?thesis
    using assms(2) by (auto simp: SetTaskKill_def Let_def split: if_splits prod.splits dest!: SetProcess_status)
next
  case (kill_done chan ret)
  then show ?thesis
    using assms(2) by (auto simp: SetTaskKillDone_def split: if_splits prod.splits dest!: SetProcess_status)
next
  case (clean chan ret)
  then show ?thesis
    using assms(2) by (auto simp: CleanTaskKillState_def dest!: SetProcess_status)
qed

lemma kill_steps_status:
  assumes "kill_steps s s'" and "killStatus s = TaskKill_INVALID"
  shows "killStatus s' \<in> {TaskKill_INVALID, TaskKill_INIT, TaskKill_TASK_KILL}"
  using assms
proof (induction rule: kill_steps.induct)
  case (kill_more s s1 s2)
  then show ?case
    using kill_step_status [OF kill_more(2)] by blast
qed simp

text \<open>C26. From the state of a new component, whatever calls were made and whatever the driver
  answered before: \<open>SetTaskKill\<close> with a driver that answers succeeds, leaves the state killed and sends the kill
  command to each enabled die in order, none when the tasks are killed already; \<open>SetTaskKillDone\<close> then succeeds,
  sends the clean command to each enabled die and leaves the initial state. Called where no task is killed,
  \<open>SetTaskKillDone\<close> sends nothing and changes nothing with any driver: it reports an internal error before the
  first kill and success afterwards.\<close>

theorem task_kill_protocol:
  assumes "killStatus s0 = TaskKill_INVALID" and "kill_steps s0 s"
  shows "(\<exists>s1 s2. SetTaskKill ok_driver s = (HCCL_SUCCESS, s1) \<and> killStatus s1 = TaskKill_TASK_KILL
    \<and> drvLog s1 = drvLog s @ (if killStatus s = TaskKill_TASK_KILL then [] else map CCU_U_OP_SET_TASKKILL (enabled_dies s))
    \<and> SetTaskKillDone ok_driver s1 = (HCCL_SUCCESS, s2) \<and> killStatus s2 = TaskKill_INIT
    \<and> drvLog s2 = drvLog s1 @ map CCU_U_OP_CLEAN_TASKKILL_STATE (enabled_dies s))
    \<and> (killStatus s \<noteq> TaskKill_TASK_KILL \<longrightarrow>
      SetTaskKillDone chan s = (if killStatus s = TaskKill_INVALID then HCCL_E_INTERNAL else HCCL_SUCCESS, s))"
proof -
  have "killStatus s \<in> {TaskKill_INVALID, TaskKill_INIT, TaskKill_TASK_KILL}"
    by (rule kill_steps_status [OF assms(2,1)])
  then consider "killStatus s = TaskKill_TASK_KILL" | "killStatus s = TaskKill_INVALID" | "killStatus s = TaskKill_INIT"
    by blast
  then show ?thesis
    by cases (simp_all add: SetTaskKill_def SetTaskKillDone_def SetProcess_def Let_def enabled_dies_def SetProcess_loop_ok)
qed

theorem task_kill_protocol_witness:
  "\<exists>s1. SetTaskKill ok_driver (CcuComponent_new\<lparr>compDieFlags := [True, False]\<rparr>) = (HCCL_SUCCESS, s1)
    \<and> drvLog s1 = [CCU_U_OP_SET_TASKKILL 0]
    \<and> fst (SetTaskKillDone ok_driver (CcuComponent_new\<lparr>compDieFlags := [True, False]\<rparr>)) = HCCL_E_INTERNAL"
proof -
  let ?s = "CcuComponent_new\<lparr>compDieFlags := [True, False]\<rparr>"
  have "killStatus ?s = TaskKill_INVALID" "kill_steps ?s ?s" "enabled_dies ?s = [0]" "drvLog ?s = []"
    by (simp_all add: CcuComponent_new_def kill_none enabled_dies_def CCU_MAX_IODIE_NUM_def upt_rec)
  then show ?thesis
    using task_kill_protocol [of ?s ?s] by auto
qed

text \<open>With any driver, \<open>SetTaskKillDone\<close> reports an internal error of its own only before
  the first \<open>SetTaskKill\<close>; afterwards it succeeds or returns what the driver answered to some command, and in
  no case does it send anything while no task is killed.\<close>

theorem kill_done_needs_kill:
  assumes "killStatus s0 = TaskKill_INVALID" and "kill_steps s0 s" and "SetTaskKillDone chan s = (ret, s')"
  shows "if killStatus s = TaskKill_INVALID then ret = HCCL_E_INTERNAL \<and> s' = s
    else (ret = HCCL_SUCCESS \<or> ret \<in> range (\<lambda>(log, cmd). chan log cmd))
      \<and> (if killStatus s = TaskKill_TASK_KILL then (ret = HCCL_SUCCESS \<longleftrightarrow> killStatus s' = TaskKill_INIT) else s' = s)"
proof -
  have st: "killStatus s \<in> {TaskKill_INVALID, TaskKill_INIT, TaskKill_TASK_KILL}"
    by (rule kill_steps_status [OF assms(2,1)])
  obtain e s1 where sp: "SetProcess chan CCU_U_OP_CLEAN_TASKKILL_STATE s = (e, s1)"
    by fastforce
  have "e = HCCL_SUCCESS \<or> e \<in> range (\<lambda>(log, cmd). chan log cmd)" if "SetProcess_loop chan f dies s = (e, s1)" for f dies s s1
    using that
  proof (induction dies arbitrary: s)
    case (Cons d dies)
    have "chan (drvLog s) (f d) \<in> range (\<lambda>(log, cmd). chan log cmd)"
      by (rule range_eqI [of _ _ "(drvLog s, f d)"]) simp
    then show ?case
      using Cons by (auto simp: HccpRaTlvCcuCustomChannel_def split: if_splits)
  qed simp
  then have e: "e = HCCL_SUCCESS \<or> e \<in> range (\<lambda>(log, cmd). chan log cmd)"
    using sp unfolding SetProcess_def by blast
  show ?thesis
    using st assms(3) sp e SetProcess_status [OF sp] by (auto simp: SetTaskKillDone_def split: if_splits)
qed

theorem kill_done_needs_kill_witness:
  "SetTaskKillDone ok_driver CcuComponent_new = (HCCL_E_INTERNAL, CcuComponent_new)"
proof -
  have "killStatus CcuComponent_new = TaskKill_INVALID"
    by (simp add: CcuComponent_new_def)
  then show ?thesis
    using kill_done_needs_kill [of CcuComponent_new CcuComponent_new ok_driver] kill_none [of CcuComponent_new]
    by (metis prod.collapse)
qed

subsection \<open>Cleaning the CKEs of a die\<close>

text \<open>The batches of a die with \<open>n\<close> CKEs from index \<open>i\<close> on.\<close>

function cke_batches :: "nat \<Rightarrow> nat \<Rightarrow> (nat \<times> nat) list" where
  "cke_batches n i = (if i < n then (i, min (n - i) 8) # cke_batches n (i + 8) else [])"
  by pat_completeness auto
termination by (relation "measure (\<lambda>(n, i). n - i)") auto

declare cke_batches.simps [simp del]

lemma cke_batches_cover: "concat (map (\<lambda>(a, m). [a ..< a + m]) (cke_batches n i)) = [i..<n]"
proof (induction n i rule: cke_batches.induct)
  case (1 n i)
  show ?case
  proof (cases "i < n")
    case True
    have "[i ..< i + min (n - i) 8] @ [i + 8..<n] = [i..<n]"
    proof (cases "i + 8 \<le> n")
      case le: True
      then show ?thesis
        using upt_add_eq_append [of i "i + 8" "n - (i + 8)"] by (simp add: min_def)
    qed (use True in \<open>simp add: min_def\<close>)
    then show ?thesis
      using True 1 by (subst cke_batches.simps) simp
  qed (simp add: cke_batches.simps)
qed

text \<open>Up to \<open>2 ^ 32 - 8\<close> CKEs the start index of the next batch does not wrap around.\<close>

lemma next_start:
  assumes "i < n" and "unat (n :: u32) \<le> 2 ^ 32 - 8"
  shows "unat (i + of_nat MAX_CKE_DATA_ARRAY_SIZE) = unat i + 8" and "unat i < unat n"
    and "unat (min (n - i) (of_nat MAX_CKE_DATA_ARRAY_SIZE)) = min (unat n - unat i) 8"
proof -
  show lt: "unat i < unat n"
    using assms(1) by (simp add: word_less_nat_alt)
  then show "unat (i + of_nat MAX_CKE_DATA_ARRAY_SIZE) = unat i + 8"
    using assms(2) by (subst unat_add_lem [THEN iffD1]) (simp_all add: MAX_CKE_DATA_ARRAY_SIZE_def)
  have "unat (n - i) = unat n - unat i"
    using assms(1) by (simp add: unat_sub word_less_nat_alt word_le_nat_alt)
  then show "unat (min (n - i) (of_nat MAX_CKE_DATA_ARRAY_SIZE)) = min (unat n - unat i) 8"
    by (simp add: min_def word_le_nat_alt MAX_CKE_DATA_ARRAY_SIZE_def)
qed

lemma CleanDieCkes_loop_returns:
  "unat n \<le> 2 ^ 32 - 8 \<Longrightarrow> \<exists>r. CleanDieCkes_loop chan d n i s = Some r"
proof (induction "unat n - unat i" arbitrary: i s rule: less_induct)
  case less
  show ?case
  proof (cases "i < n")
    case True
    then have "\<exists>r. CleanDieCkes_loop chan d n (i + of_nat MAX_CKE_DATA_ARRAY_SIZE) s1 = Some r" for s1
      using less next_start [OF True less.prems] by simp
    then show ?thesis
      using True by (subst CleanDieCkes_loop.simps) (auto split: prod.splits)
  qed (simp add: CleanDieCkes_loop.simps)
qed

lemma CleanDieCkes_loop_ok:
  "unat n \<le> 2 ^ 32 - 8 \<Longrightarrow> CleanDieCkes_loop ok_driver d n i s
    = Some (HCCL_SUCCESS,
        s\<lparr>drvLog := drvLog s @ map (\<lambda>(a, m). CCU_U_OP_SET_CKE d a m) (cke_batches (unat n) (unat i))\<rparr>)"
proof (induction "unat n - unat i" arbitrary: i s rule: less_induct)
  case less
  show ?case
  proof (cases "i < n")
    case True
    note step = next_start [OF True less.prems]
    have "unat n - unat (i + of_nat MAX_CKE_DATA_ARRAY_SIZE) < unat n - unat i"
      using step by simp
    note IH = less.hyps [OF this less.prems]
    show ?thesis
      using True step by (subst CleanDieCkes_loop.simps, subst cke_batches.simps) (simp add: IH)
  qed (simp add: CleanDieCkes_loop.simps cke_batches.simps word_less_nat_alt)
qed

text \<open>With more CKEs the index, a multiple of eight, never leaves the range.\<close>

lemma CleanDieCkes_loop_endless:
  assumes "2 ^ 32 - 8 < unat n"
  shows "CleanDieCkes_loop ok_driver d n 0 s = None"
proof (rule ccontr)
  assume "CleanDieCkes_loop ok_driver d n 0 s \<noteq> None"
  then obtain r where ret: "CleanDieCkes_loop ok_driver d n 0 s = Some r"
    by blast
  have "\<not> (ok_driver = ok_driver \<and> 2 ^ 32 - 8 < unat n \<and> unat (0 :: u32) mod 8 = 0)"
  proof (rule CleanDieCkes_loop.raw_induct
      [where P = "\<lambda>chan d n i s r. \<not> (chan = ok_driver \<and> 2 ^ 32 - 8 < unat n \<and> unat i mod 8 = 0)", OF _ ret], rule notI)
    fix f chan d s r and n i :: u32
    assume IH: "\<And>chan d n i s r. f chan d n i s = Some r
        \<Longrightarrow> \<not> (chan = ok_driver \<and> 2 ^ 32 - 8 < unat n \<and> unat i mod 8 = 0)"
      and eq: "(if i < n then case HccpRaTlvCcuCustomChannel chan
          (CCU_U_OP_SET_CKE d (unat i) (unat (min (n - i) (of_nat MAX_CKE_DATA_ARRAY_SIZE)))) s of (ret, s) \<Rightarrow>
            if ret \<noteq> HCCL_SUCCESS then Some (ret, s) else f chan d n (i + of_nat MAX_CKE_DATA_ARRAY_SIZE) s
        else Some (HCCL_SUCCESS, s)) = Some r"
      and at: "chan = ok_driver \<and> 2 ^ 32 - 8 < unat n \<and> unat i mod 8 = 0"
    have "unat i < 2 ^ 32" "unat i mod 8 = 0"
      using unsigned_less [of i] at by simp_all
    then obtain k where k: "unat i = 8 * k" "8 * k < 2 ^ 32"
      by (metis mod_0_imp_dvd dvdE)
    then have "k \<le> 2 ^ 29 - 1"
      by simp
    then have "unat i \<le> 2 ^ 32 - 8"
      unfolding k(1) by simp
    then have "i < n"
      using at by (simp add: word_less_nat_alt)
    then have next_call: "f ok_driver d n (i + of_nat MAX_CKE_DATA_ARRAY_SIZE) (snd (HccpRaTlvCcuCustomChannel chan
        (CCU_U_OP_SET_CKE d (unat i) (unat (min (n - i) (of_nat MAX_CKE_DATA_ARRAY_SIZE)))) s)) = Some r"
      using eq at by simp
    have "unat (i + of_nat MAX_CKE_DATA_ARRAY_SIZE) mod 8 = 0"
      using at by (simp add: unat_word_ariths MAX_CKE_DATA_ARRAY_SIZE_def mod_mod_cancel mod_add_eq)
    then show False
      using IH [OF next_call] at by simp
  qed
  then show False
    using assms by simp
qed

text \<open>What the driver can report stays far below.\<close>

lemma parsed_ckes_bound: "unat (ckeNum (ParseOutBuffToResSpecInfo v b)) \<le> 65536"
proof -
  have m: "unat (take_bit 16 w + 1 :: u32) \<le> 65536" for w
    using unat_field_plus_1 [of 16 w] by simp
  show ?thesis
    using m [of "cap2 (caps b)"]
    by (simp add: ParseOutBuffToResSpecInfo_def Let_def CcuResSpecInfo_default_def spec_consts)
qed

text \<open>C39. Cleaning an enabled die of up to \<open>2 ^ 32 - 8\<close> CKEs returns whatever the driver answers,
  and with a driver that answers it succeeds and sends batches of one to eight CKEs that cover every CKE of the die
  exactly once, in order; a disabled die is left alone. Beyond \<open>2 ^ 32 - 8\<close> CKEs, which no device reports, the
  32-bit start index wraps around and the loop never returns while the driver answers.\<close>

theorem clean_ckes_cover:
  assumes "d < 2" and "GetCkeNum specs d 0 = (HCCL_SUCCESS, ckes)"
  shows "if unat ckes \<le> 2 ^ 32 - 8
    then (\<forall>chan. \<exists>r. CleanDieCkes_loop chan d ckes 0 s = Some r)
      \<and> (\<exists>batches. CleanDieCkes ok_driver specs d s =
            (HCCL_SUCCESS, s\<lparr>drvLog := drvLog s @ map (\<lambda>(start, len). CCU_U_OP_SET_CKE d start len) batches\<rparr>)
          \<and> (\<forall>(start, len)\<in>set batches. 1 \<le> len \<and> len \<le> 8)
          \<and> concat (map (\<lambda>(start, len). [start ..< start + len]) batches)
            = (if compDieFlags s ! d then [0..<unat ckes] else []))
    else CleanDieCkes_loop ok_driver d ckes 0 s = None"
proof (cases "unat ckes \<le> 2 ^ 32 - 8")
  case fits: True
  have small: "\<forall>(start, len)\<in>set (cke_batches n i). 1 \<le> len \<and> len \<le> 8" for n i
  proof (induction n i rule: cke_batches.induct)
    case (1 n i)
    then show ?case
      by (subst cke_batches.simps) auto
  qed
  let ?batches = "if compDieFlags s ! d then cke_batches (unat ckes) 0 else []"
  have "CleanDieCkes ok_driver specs d s =
      (HCCL_SUCCESS, s\<lparr>drvLog := drvLog s @ map (\<lambda>(start, len). CCU_U_OP_SET_CKE d start len) ?batches\<rparr>)"
    using assms CleanDieCkes_loop_ok [OF fits] by (simp add: CleanDieCkes_def CCU_MAX_IODIE_NUM_def)
  moreover have "concat (map (\<lambda>(start, len). [start ..< start + len]) ?batches)
      = (if compDieFlags s ! d then [0..<unat ckes] else [])"
    using cke_batches_cover by simp
  moreover have "\<forall>(start, len)\<in>set ?batches. 1 \<le> len \<and> len \<le> 8"
    using small [of "unat ckes" 0] by (cases "compDieFlags s ! d") simp_all
  ultimately show ?thesis
    using fits CleanDieCkes_loop_returns [OF fits] by (auto intro!: exI [of _ ?batches])
next
  case False
  then show ?thesis
    using CleanDieCkes_loop_endless [of ckes d s] by simp
qed

theorem clean_ckes_cover_witness:
  "\<exists>batches. CleanDieCkes ok_driver
      ((CcuResSpecifications_new 0)\<lparr>dieEnableFlags := [True, False],
        resSpecs := [CcuResSpecInfo_default\<lparr>ckeNum := 20\<rparr>, CcuResSpecInfo_default]\<rparr>) 0
      (CcuComponent_new\<lparr>compDieFlags := [True, False]\<rparr>)
    = (HCCL_SUCCESS, CcuComponent_new\<lparr>compDieFlags := [True, False],
        drvLog := map (\<lambda>(start, len). CCU_U_OP_SET_CKE 0 start len) batches\<rparr>)
    \<and> concat (map (\<lambda>(start, len). [start ..< start + len]) batches) = [0..<20]
    \<and> (\<forall>(start, len)\<in>set batches. 1 \<le> len \<and> len \<le> 8)"
proof -
  let ?specs = "(CcuResSpecifications_new 0)\<lparr>dieEnableFlags := [True, False],
    resSpecs := [CcuResSpecInfo_default\<lparr>ckeNum := 20\<rparr>, CcuResSpecInfo_default]\<rparr>"
  have "GetCkeNum ?specs 0 0 = (HCCL_SUCCESS, 20)"
    by (simp add: GetCkeNum_def spec_field_eq)
  from clean_ckes_cover [of 0, OF _ this, of "CcuComponent_new\<lparr>compDieFlags := [True, False]\<rparr>"]
  show ?thesis
    by (auto simp: CcuComponent_new_def)
qed

end
