(* ===== verification/Batch_Blocks.thy ===== *)
theory Batch_Blocks
  imports Id_Pool "HOL-Library.Multiset"
begin

text \<open>
  The block vectors of the batch allocator (\<^verbatim>\<open>HandleBlockRes\<close>, \<^verbatim>\<open>ReleaseBlockRes\<close> and the scan of
  \<^verbatim>\<open>QueryRemainRes\<close> in \<^verbatim>\<open>ccu_device/ccu_res_batch_allocator.cc\<close>). A region of ids is cut into blocks of one
  size; a request takes the first run of free blocks that is long enough and writes its handle into them.
  Abstractly a vector is a function from block numbers to owners: \<open>block_vec\<close> builds the vector of such a
  function, and the operations are shown to be updates of the function. The locale \<open>owner_pool\<close> states
  what the clients of a vector rely on.
\<close>

subsection \<open>The vector and its operations\<close>

record BlockInfo =
  blk_id :: nat
  blk_startId :: nat
  blk_num :: nat
  handle :: nat
  allocated :: bool

text \<open>The loop of \<open>HandleBlockRes\<close>: \<open>blockStartId\<close> is the number of blocks while no free block is pending.\<close>

fun HandleBlockRes_scan :: "nat \<Rightarrow> nat \<Rightarrow> BlockInfo list \<Rightarrow> nat \<Rightarrow> nat \<Rightarrow> nat \<Rightarrow> nat option" where
  "HandleBlockRes_scan blockMaxSize blockNum [] k blockStartId freeNum = None"
| "HandleBlockRes_scan blockMaxSize blockNum (b # bs) k blockStartId freeNum =
    (if allocated b then HandleBlockRes_scan blockMaxSize blockNum bs (Suc k) blockMaxSize 0
     else
       let blockStartId = (if blockStartId = blockMaxSize then k else blockStartId);
           freeNum = freeNum + 1
       in if freeNum \<ge> blockNum then Some blockStartId
          else HandleBlockRes_scan blockMaxSize blockNum bs (Suc k) blockStartId freeNum)"

definition update_range :: "(BlockInfo \<Rightarrow> BlockInfo) \<Rightarrow> nat \<Rightarrow> nat \<Rightarrow> BlockInfo list \<Rightarrow> BlockInfo list" where
  "update_range f a b blocks = fold (\<lambda>k bs. bs[k := f (bs ! k)]) [a..<b] blocks"

definition HandleBlockRes ::
  "nat \<Rightarrow> nat \<Rightarrow> nat \<Rightarrow> BlockInfo list \<Rightarrow> ResInfo list \<Rightarrow> HcclResult \<times> BlockInfo list \<times> ResInfo list" where
  "HandleBlockRes handleKey n blockSize blocks infos =
    (let blockNum = u32_add 1 (u32_sub n 1 div blockSize);
         blockMaxSize = length blocks
     in case HandleBlockRes_scan blockMaxSize blockNum blocks 0 blockMaxSize 0 of
          None \<Rightarrow> (HCCL_E_UNAVAIL, blocks, infos)
        | Some blockStartId \<Rightarrow>
            let blocks = update_range (\<lambda>b. b\<lparr>handle := handleKey, allocated := True\<rparr>)
                           blockStartId (blockStartId + blockNum) blocks
            in (HCCL_SUCCESS, blocks,
                infos @ [mk_res (blk_startId (blocks ! blockStartId)) (u32_mul blockNum blockSize)]))"

definition ReleaseBlockRes :: "nat \<Rightarrow> BlockInfo list \<Rightarrow> ResInfo list \<Rightarrow> BlockInfo list \<times> ResInfo list" where
  "ReleaseBlockRes blockSize blocks infos =
    (let startBlockId = u32_sub (startId (infos ! 0)) (blk_startId (blocks ! 0)) div blockSize;
         blockNum = num (infos ! 0) div blockSize
     in (update_range (\<lambda>b. b\<lparr>handle := 0, allocated := False\<rparr>) startBlockId (u32_add startBlockId blockNum) blocks, []))"

text \<open>The scan of \<open>QueryRemainRes\<close>.\<close>

fun QueryRemain_scan :: "BlockInfo list \<Rightarrow> nat \<Rightarrow> nat \<Rightarrow> nat" where
  "QueryRemain_scan [] maxFreeBlocks curFreeBlocks = (if curFreeBlocks > maxFreeBlocks then curFreeBlocks else maxFreeBlocks)"
| "QueryRemain_scan (b # bs) maxFreeBlocks curFreeBlocks =
    (if \<not> allocated b then QueryRemain_scan bs maxFreeBlocks (curFreeBlocks + 1)
     else QueryRemain_scan bs (if curFreeBlocks > maxFreeBlocks then curFreeBlocks else maxFreeBlocks) 0)"

subsection \<open>Runs of free blocks\<close>

definition free_blocks :: "BlockInfo list \<Rightarrow> nat \<Rightarrow> nat \<Rightarrow> bool" where
  "free_blocks blocks a n \<longleftrightarrow> a + n \<le> length blocks \<and> (\<forall>i\<in>{a ..< a + n}. \<not> allocated (blocks ! i))"

text \<open>The first run of \<open>m\<close> free blocks.\<close>

definition first_run :: "BlockInfo list \<Rightarrow> nat \<Rightarrow> nat option \<Rightarrow> bool" where
  "first_run blocks m r \<longleftrightarrow> (case r of
      None \<Rightarrow> \<forall>a. \<not> free_blocks blocks a m
    | Some a \<Rightarrow> free_blocks blocks a m \<and> (\<forall>a'<a. \<not> free_blocks blocks a' m))"

lemma free_blocks_through:
  assumes "\<not> (a + n \<le> k)" and "a \<le> k" and "allocated (blocks ! k)"
  shows "\<not> free_blocks blocks a n"
  using assms by (auto simp: free_blocks_def)

lemma scan_first_run:
  assumes "length pre = k" and "0 < m" and "fr < m" and "fr \<le> k"
    and "st = (if fr = 0 then length (pre @ bs) else k - fr)"
    and "\<forall>i\<in>{k - fr ..< k}. \<not> allocated ((pre @ bs) ! i)"
    and "\<forall>a < k - fr. \<not> free_blocks (pre @ bs) a m"
  shows "first_run (pre @ bs) m (HandleBlockRes_scan (length (pre @ bs)) m bs k st fr)"
  using assms
proof (induction bs arbitrary: pre k st fr)
  case Nil
  then have "\<not> free_blocks pre a m" for a
    by (cases "a < k - fr") (auto simp: free_blocks_def)
  then show ?case
    by (simp add: first_run_def)
next
  case (Cons b bs)
  let ?bl = "pre @ b # bs"
  have b: "?bl ! k = b" "length (pre @ [b]) = Suc k" "(pre @ [b]) @ bs = ?bl"
    using Cons.prems(1) by auto
  show ?case
  proof (cases "allocated b")
    case True
    have "\<not> free_blocks ?bl a m" if "a < Suc k" for a
    proof (cases "a < k - fr")
      case False
      then show ?thesis
        using that True b(1) Cons.prems(3) by (intro free_blocks_through [where k = k]) auto
    qed (use Cons.prems(7) in auto)
    then show ?thesis
      using Cons.IH [of "pre @ [b]" "Suc k" 0 "length ?bl"] b(2,3) Cons.prems(2) True by simp
  next
    case False
    have st: "(if st = length ?bl then k else st) = k - fr"
      using Cons.prems(1,4,5) by auto
    have free: "\<forall>i\<in>{k - fr ..< Suc k}. \<not> allocated (?bl ! i)"
      using Cons.prems(4,6) False b(1) by (auto simp: less_Suc_eq)
    show ?thesis
    proof (cases "m \<le> Suc fr")
      case True
      then have "m = Suc fr"
        using Cons.prems(3) by simp
      then have "free_blocks ?bl (k - fr) m"
        using free Cons.prems(1,4) by (auto simp: free_blocks_def)
      then show ?thesis
        using False st True Cons.prems(7) by (simp add: first_run_def)
    next
      case more: False
      then show ?thesis
        using Cons.IH [of "pre @ [b]" "Suc k" "Suc fr" "k - fr"] b(2,3) Cons.prems(2,4,7) free False st
        by simp
    qed
  qed
qed

text \<open>The scan finds the first run, and finds one whenever there is one.\<close>

lemma HandleBlockRes_scan_first:
  assumes "0 < m"
  shows "first_run blocks m (HandleBlockRes_scan (length blocks) m blocks 0 (length blocks) 0)"
  using scan_first_run [of "[]" 0 m 0 "length blocks" blocks] assms by simp

lemma length_update_range [simp]: "length (update_range f a b blocks) = length blocks"
proof -
  have "length (fold (\<lambda>k bs. bs[k := f (bs ! k)]) ks blocks) = length blocks" for ks
    by (induction ks arbitrary: blocks) simp_all
  then show ?thesis
    by (simp add: update_range_def)
qed

lemma update_range_Suc:
  "a \<le> b \<Longrightarrow> update_range f a (Suc b) blocks = (update_range f a b blocks)[b := f (update_range f a b blocks ! b)]"
  by (simp add: update_range_def)

lemma nth_update_range:
  assumes "i < length blocks"
  shows "update_range f a b blocks ! i = (if a \<le> i \<and> i < b then f (blocks ! i) else blocks ! i)"
proof (cases "a \<le> b")
  case True
  then show ?thesis
    using assms
  proof (induction b rule: nat_induct_at_least)
    case base
    then show ?case
      by (auto simp: update_range_def)
  next
    case (Suc b)
    then show ?case
      by (auto simp: update_range_Suc nth_list_update less_Suc_eq)
  qed
qed (auto simp: update_range_def)

subsection \<open>The longest run\<close>

lemma runs_snoc:
  "(\<exists>a. free_blocks (pre @ [b]) a m) \<longleftrightarrow>
    (\<exists>a. free_blocks pre a m) \<or> (m \<le> Suc (length pre) \<and> free_blocks (pre @ [b]) (Suc (length pre) - m) m)"
proof
  assume "\<exists>a. free_blocks (pre @ [b]) a m"
  then obtain a where a: "free_blocks (pre @ [b]) a m"
    by blast
  show "(\<exists>a. free_blocks pre a m) \<or> (m \<le> Suc (length pre) \<and> free_blocks (pre @ [b]) (Suc (length pre) - m) m)"
  proof (cases "a + m \<le> length pre")
    case True
    then have "free_blocks pre a m"
      using a by (auto simp: free_blocks_def nth_append)
    then show ?thesis
      by blast
  next
    case False
    then have "a = Suc (length pre) - m" "m \<le> Suc (length pre)"
      using a by (auto simp: free_blocks_def)
    then show ?thesis
      using a by simp
  qed
next
  have "free_blocks (pre @ [b]) a m" if "free_blocks pre a m" for a
    using that by (auto simp: free_blocks_def nth_append)
  then show "(\<exists>a. free_blocks pre a m) \<or> (m \<le> Suc (length pre) \<and> free_blocks (pre @ [b]) (Suc (length pre) - m) m) \<Longrightarrow>
      \<exists>a. free_blocks (pre @ [b]) a m"
    by blast
qed

text \<open>The free blocks at the end of a vector: \<open>cur\<close> is their number.\<close>

definition tail_run :: "BlockInfo list \<Rightarrow> nat \<Rightarrow> bool" where
  "tail_run pre cur \<longleftrightarrow> cur \<le> length pre \<and> (\<forall>m. free_blocks pre (length pre - m) m \<and> m \<le> length pre \<longleftrightarrow> m \<le> cur)"

lemma last_run_iff:
  assumes "m \<le> Suc (length pre)"
  shows "free_blocks (pre @ [b]) (Suc (length pre) - m) m \<longleftrightarrow>
    m = 0 \<or> \<not> allocated b \<and> free_blocks pre (length pre - (m - 1)) (m - 1)"
  (is "?L \<longleftrightarrow> ?R")
proof (cases m)
  case (Suc j)
  then have j: "j \<le> length pre"
    using assms by simp
  have "?L \<longleftrightarrow> (\<forall>i\<in>{length pre - j ..< Suc (length pre)}. \<not> allocated ((pre @ [b]) ! i))"
    using j Suc by (simp add: free_blocks_def)
  also have "\<dots> \<longleftrightarrow> \<not> allocated b \<and> (\<forall>i\<in>{length pre - j ..< length pre}. \<not> allocated (pre ! i))"
  proof -
    have "{length pre - j ..< Suc (length pre)} = insert (length pre) {length pre - j ..< length pre}"
      using j by auto
    then show ?thesis
      by (simp add: nth_append)
  qed
  also have "\<dots> \<longleftrightarrow> ?R"
    using j Suc by (simp add: free_blocks_def)
  finally show ?thesis .
qed (simp add: free_blocks_def)

lemma tail_run_free:
  assumes "tail_run pre cur" and "\<not> allocated b"
  shows "tail_run (pre @ [b]) (Suc cur)"
proof -
  have "free_blocks (pre @ [b]) (Suc (length pre) - m) m \<and> m \<le> Suc (length pre) \<longleftrightarrow> m \<le> Suc cur" for m
  proof (cases m)
    case (Suc j)
    then show ?thesis
      using assms last_run_iff [of m pre b] by (auto simp: tail_run_def)
  qed (simp add: free_blocks_def)
  then show ?thesis
    using assms(1) by (simp add: tail_run_def)
qed

lemma tail_run_taken:
  assumes "allocated b"
  shows "tail_run (pre @ [b]) 0"
proof -
  have "free_blocks (pre @ [b]) (Suc (length pre) - m) m \<and> m \<le> Suc (length pre) \<longleftrightarrow> m = 0" for m
    using assms last_run_iff [of m pre b] by (cases m) (auto simp: free_blocks_def)
  then show ?thesis
    by (simp add: tail_run_def)
qed

lemma QueryRemain_scan_runs:
  assumes "tail_run pre cur" and "\<forall>m. (\<exists>a. free_blocks pre a m) \<longleftrightarrow> m \<le> max mx cur"
  shows "(\<exists>a. free_blocks (pre @ bs) a m) \<longleftrightarrow> m \<le> QueryRemain_scan bs mx cur"
  using assms
proof (induction bs arbitrary: pre mx cur)
  case (Cons b bs)
  note last = runs_snoc [of pre b] last_run_iff [of _ pre b]
  show ?case
  proof (cases "allocated b")
    case True
    have "\<forall>m. (\<exists>a. free_blocks (pre @ [b]) a m) \<longleftrightarrow> m \<le> max mx cur"
      using last True Cons.prems(2) by auto
    then show ?thesis
      using Cons.IH [OF tail_run_taken [OF True], of pre "max mx cur"] True by (simp add: max_def)
  next
    case False
    have run: "m \<le> Suc (length pre) \<and> free_blocks (pre @ [b]) (Suc (length pre) - m) m \<longleftrightarrow> m \<le> Suc cur" for m
      using tail_run_free [OF Cons.prems(1) False] by (auto simp: tail_run_def)
    have "\<forall>m. (\<exists>a. free_blocks (pre @ [b]) a m) \<longleftrightarrow> m \<le> max mx (Suc cur)"
      using run Cons.prems(2) by (simp add: last(1)) auto
    then show ?thesis
      using Cons.IH [OF tail_run_free [OF Cons.prems(1) False], of mx] False by simp
  qed
qed (auto simp: max_def)

lemma QueryRemain_scan_longest: "m \<le> QueryRemain_scan blocks 0 0 \<longleftrightarrow> (\<exists>a. free_blocks blocks a m)"
proof -
  have "tail_run [] 0" "\<forall>m. (\<exists>a. free_blocks [] a m) \<longleftrightarrow> m \<le> max 0 0"
    by (auto simp: tail_run_def free_blocks_def)
  from QueryRemain_scan_runs [OF this, of blocks m] show ?thesis
    by simp
qed

subsection \<open>Owners of blocks\<close>

text \<open>The vector of \<open>N\<close> blocks of \<open>sz\<close> ids from id \<open>base\<close> on with the given owners; 0 is no owner. A block
  that is reserved is never handed out.\<close>

definition block_at :: "nat \<Rightarrow> nat \<Rightarrow> (nat \<Rightarrow> bool) \<Rightarrow> (nat \<Rightarrow> nat) \<Rightarrow> nat \<Rightarrow> BlockInfo" where
  "block_at base sz rsv ow i =
    \<lparr>blk_id = i, blk_startId = base + i * sz, blk_num = sz, handle = ow i, allocated = (ow i \<noteq> 0 \<or> rsv i)\<rparr>"

definition block_vec :: "nat \<Rightarrow> nat \<Rightarrow> nat \<Rightarrow> (nat \<Rightarrow> bool) \<Rightarrow> (nat \<Rightarrow> nat) \<Rightarrow> BlockInfo list" where
  "block_vec base sz N rsv ow = map (block_at base sz rsv ow) [0..<N]"

definition run_of :: "nat \<Rightarrow> nat \<Rightarrow> nat \<Rightarrow> nat \<Rightarrow> ResInfo" where
  "run_of base sz a m = mk_res (base + a * sz) (m * sz)"

text \<open>The number of blocks of a request for \<open>n\<close> ids.\<close>

definition blocks_for :: "nat \<Rightarrow> nat \<Rightarrow> nat" where
  "blocks_for n sz = 1 + (n - 1) div sz"

lemma length_block_vec [simp]: "length (block_vec base sz N rsv ow) = N"
  by (simp add: block_vec_def)

lemma nth_block_vec [simp]: "i < N \<Longrightarrow> block_vec base sz N rsv ow ! i = block_at base sz rsv ow i"
  by (simp add: block_vec_def)

lemma block_at_sel [simp]:
  "blk_startId (block_at base sz rsv ow i) = base + i * sz" "blk_num (block_at base sz rsv ow i) = sz"
  "handle (block_at base sz rsv ow i) = ow i" "allocated (block_at base sz rsv ow i) \<longleftrightarrow> ow i \<noteq> 0 \<or> rsv i"
  by (simp_all add: block_at_def)

lemma blocks_for_bounds:
  assumes "0 < n" and "0 < sz"
  shows "0 < blocks_for n sz" and "n \<le> blocks_for n sz * sz" and "blocks_for n sz * sz < n + sz"
proof -
  have "(n - 1) div sz * sz \<le> n - 1" "n - 1 < (n - 1) div sz * sz + sz"
    using dividend_less_div_times [OF assms(2), of "n - 1"] by (simp_all add: add.commute)
  then show "n \<le> blocks_for n sz * sz" "blocks_for n sz * sz < n + sz"
    using assms(1) unfolding blocks_for_def add_mult_distrib by linarith+
qed (simp add: blocks_for_def)

lemma blockNum_exact:
  assumes "0 < n" and "n < 2 ^ 32"
  shows "u32_add (Suc 0) (u32_sub n (Suc 0) div sz) = blocks_for n sz"
proof -
  have "u32_sub n (Suc 0) = n - 1"
    using assms by (subst u32_sub_exact) auto
  moreover have "(n - 1) div sz \<le> n - 1"
    by (rule div_le_dividend)
  then have "1 + (n - 1) div sz < 2 ^ 32"
    using assms by linarith
  ultimately show ?thesis
    by (simp add: blocks_for_def u32_add_exact)
qed

lemma update_range_vec:
  assumes "\<And>i. a \<le> i \<Longrightarrow> i < b \<Longrightarrow> i < N \<Longrightarrow> f (block_at base sz rsv ow i) = block_at base sz rsv ow' i"
    and "\<And>i. \<not> (a \<le> i \<and> i < b) \<Longrightarrow> ow' i = ow i"
  shows "update_range f a b (block_vec base sz N rsv ow) = block_vec base sz N rsv ow'"
  using assms by (intro nth_equalityI) (auto simp: nth_update_range block_at_def)

definition give :: "nat \<Rightarrow> nat \<Rightarrow> nat \<Rightarrow> (nat \<Rightarrow> nat) \<Rightarrow> nat \<Rightarrow> nat" where
  "give k a m ow i = (if a \<le> i \<and> i < a + m then k else ow i)"

lemma free_blocks_vec:
  "free_blocks (block_vec base sz N rsv ow) a m \<longleftrightarrow> a + m \<le> N \<and> (\<forall>i\<in>{a ..< a + m}. ow i = 0 \<and> \<not> rsv i)"
  by (auto simp: free_blocks_def)

text \<open>Claiming blocks updates the owners of the first free run; if there is none, nothing changes.\<close>

lemma HandleBlockRes_vec:
  fixes base sz N rsv ow n k infos
  defines "bl \<equiv> block_vec base sz N rsv ow" and "m \<equiv> blocks_for n sz"
  assumes "0 < n" and "n < 2 ^ 32" and "0 < sz" and "base + N * sz < 2 ^ 32" and "k \<noteq> 0"
  shows "(\<exists>a. free_blocks bl a m \<and> (\<forall>a'<a. \<not> free_blocks bl a' m)
        \<and> HandleBlockRes k n sz bl infos
          = (HCCL_SUCCESS, block_vec base sz N rsv (give k a m ow), infos @ [run_of base sz a m]))
    \<or> (\<forall>a. \<not> free_blocks bl a m) \<and> HandleBlockRes k n sz bl infos = (HCCL_E_UNAVAIL, bl, infos)"
proof -
  note m = blockNum_exact [OF assms(3,4), of sz, folded m_def]
  note scan = HandleBlockRes_scan_first [OF blocks_for_bounds(1) [OF assms(3,5)], folded m_def, of bl]
  show ?thesis
  proof (cases "HandleBlockRes_scan (length bl) m bl 0 (length bl) 0")
    case None
    then show ?thesis
      using scan by (auto simp: HandleBlockRes_def Let_def m first_run_def)
  next
    case (Some a)
    then have a: "free_blocks bl a m" "\<forall>a'<a. \<not> free_blocks bl a' m"
      using scan by (auto simp: first_run_def)
    let ?f = "\<lambda>b. b\<lparr>handle := k, allocated := True\<rparr>"
    have "update_range ?f a (a + m) bl = block_vec base sz N rsv (give k a m ow)"
      unfolding bl_def using assms(7) by (intro update_range_vec) (auto simp: block_at_def give_def)
    moreover have am: "a + m \<le> N" "a < N"
      using a(1) blocks_for_bounds(1) [OF assms(3,5)] by (auto simp: free_blocks_def bl_def m_def)
    moreover have "m * sz \<le> N * sz"
      using am(1) by simp
    then have "u32_mul m sz = m * sz"
      using assms(6) by (intro u32_mul_exact) linarith
    ultimately have "HandleBlockRes k n sz bl infos
        = (HCCL_SUCCESS, block_vec base sz N rsv (give k a m ow), infos @ [run_of base sz a m])"
      using Some by (simp add: HandleBlockRes_def Let_def m run_of_def)
    then show ?thesis
      using a by blast
  qed
qed

lemma ReleaseBlockRes_vec:
  assumes "0 < sz" and "base + N * sz < 2 ^ 32" and "a + m \<le> N" and "0 < m" and "\<forall>i\<in>{a ..< a + m}. \<not> rsv i"
  shows "ReleaseBlockRes sz (block_vec base sz N rsv ow) [run_of base sz a m]
    = (block_vec base sz N rsv (give 0 a m ow), [])"
proof -
  have "a * sz \<le> N * sz" "N \<le> N * sz"
    using assms(1,3) by (simp_all add: mult_le_mono1)
  then have "base + a * sz < 2 ^ 32" "a + m < 2 ^ 32"
    using assms(2,3) by linarith+
  then have "u32_sub (base + a * sz) base = a * sz" "u32_add a m = a + m"
    using u32_sub_exact [of base "base + a * sz"] by (simp_all add: u32_add_exact)
  then show ?thesis
    using assms by (simp add: ReleaseBlockRes_def run_of_def Let_def)
      (intro update_range_vec, auto simp: block_at_def give_def)
qed

subsection \<open>The contract of a vector\<close>

text \<open>
  A ledger lists every client with the run it holds, or with no run. \<open>claim\<close> gives a client without a
  run one, \<open>unclaim\<close> takes it back; a refused claim changes nothing, a granted one can be undone exactly,
  and two clients never hold the same id.
\<close>

locale owner_pool =
  fixes holds :: "'b \<Rightarrow> (nat \<times> ResInfo list) list \<Rightarrow> bool"
    and claim :: "nat \<Rightarrow> nat \<Rightarrow> 'b \<Rightarrow> HcclResult \<times> 'b \<times> ResInfo list"
    and unclaim :: "ResInfo list \<Rightarrow> 'b \<Rightarrow> 'b"
  assumes holds_perm: "holds b L \<Longrightarrow> mset L' = mset L \<Longrightarrow> holds b L'"
    and holds_join: "holds b L \<Longrightarrow> k \<noteq> 0 \<Longrightarrow> k \<notin> fst ` set L \<Longrightarrow> holds b ((k, []) # L)"
    and holds_leave: "holds b ((k, []) # L) \<Longrightarrow> holds b L"
    and claim_grants: "holds b ((k, []) # L) \<Longrightarrow> 0 < n \<Longrightarrow> n < 2 ^ 32 \<Longrightarrow> claim k n b = (HCCL_SUCCESS, b', rs) \<Longrightarrow>
      rs \<noteq> [] \<and> holds b' ((k, rs) # L) \<and> unclaim rs b' = b"
    and claim_refuses: "holds b ((k, []) # L) \<Longrightarrow> 0 < n \<Longrightarrow> n < 2 ^ 32 \<Longrightarrow> claim k n b = (e, b', rs) \<Longrightarrow>
      e \<noteq> HCCL_SUCCESS \<Longrightarrow> e = HCCL_E_UNAVAIL \<and> b' = b \<and> rs = []"
    and unclaim_frees: "holds b ((k, rs) # L) \<Longrightarrow> rs \<noteq> [] \<Longrightarrow> holds (unclaim rs b) ((k, []) # L)"
    and holds_apart: "holds b ((k, rs) # (k', rs') # L) \<Longrightarrow> ids rs \<inter> ids rs' = {}"
begin

lemma held_apart:
  assumes "holds b L" and "i < j" and "j < length L"
  shows "ids (snd (L ! i)) \<inter> ids (snd (L ! j)) = {}"
proof -
  have L: "L = take i L @ L ! i # drop (Suc i) L"
    using assms by (intro id_take_nth_drop) simp
  have D: "drop (Suc i) L = take (j - Suc i) (drop (Suc i) L) @ L ! j # drop (Suc (j - Suc i)) (drop (Suc i) L)"
    using assms id_take_nth_drop [of "j - Suc i" "drop (Suc i) L"] by simp
  let ?rest = "take i L @ take (j - Suc i) (drop (Suc i) L) @ drop (Suc (j - Suc i)) (drop (Suc i) L)"
  have "mset L = mset (take i L) + {#L ! i#} + mset (drop (Suc i) L)"
    using arg_cong [OF L, of mset] by simp
  moreover have "mset (drop (Suc i) L) = mset (take (j - Suc i) (drop (Suc i) L)) + {#L ! j#}
      + mset (drop (Suc (j - Suc i)) (drop (Suc i) L))"
    using arg_cong [OF D, of mset] by simp
  ultimately have "mset (L ! i # L ! j # ?rest) = mset L"
    by simp
  then have "holds b (L ! i # L ! j # ?rest)"
    by (rule holds_perm [OF assms(1)])
  then show ?thesis
    using holds_apart [of b "fst (L ! i)" "snd (L ! i)" "fst (L ! j)" "snd (L ! j)"] by simp
qed

end

definition owns :: "nat \<Rightarrow> nat \<Rightarrow> nat \<Rightarrow> (nat \<Rightarrow> nat) \<Rightarrow> nat \<Rightarrow> ResInfo list \<Rightarrow> bool" where
  "owns base sz N ow k rs \<longleftrightarrow> (if rs = [] then \<forall>i<N. ow i \<noteq> k
    else \<exists>a m. 0 < m \<and> a + m \<le> N \<and> rs = [run_of base sz a m] \<and> (\<forall>i<N. ow i = k \<longleftrightarrow> a \<le> i \<and> i < a + m))"

definition owner_map ::
  "nat \<Rightarrow> nat \<Rightarrow> nat \<Rightarrow> (nat \<Rightarrow> bool) \<Rightarrow> BlockInfo list \<Rightarrow> (nat \<times> ResInfo list) list \<Rightarrow> (nat \<Rightarrow> nat) \<Rightarrow> bool" where
  "owner_map base sz N rsv blocks L ow \<longleftrightarrow>
    blocks = block_vec base sz N rsv ow \<and> (\<forall>i<N. rsv i \<longrightarrow> ow i = 0)
    \<and> (\<forall>(k, rs)\<in>set L. k \<noteq> 0 \<and> owns base sz N ow k rs) \<and> (\<forall>i<N. ow i = 0 \<or> ow i \<in> fst ` set L)"

definition pool_holds ::
  "nat \<Rightarrow> nat \<Rightarrow> nat \<Rightarrow> (nat \<Rightarrow> bool) \<Rightarrow> BlockInfo list \<Rightarrow> (nat \<times> ResInfo list) list \<Rightarrow> bool" where
  "pool_holds base sz N rsv blocks L \<longleftrightarrow> 0 < sz \<and> base + N * sz < 2 ^ 32 \<and> distinct (map fst L)
    \<and> (\<exists>ow. owner_map base sz N rsv blocks L ow)"

lemma owner_mapI:
  assumes "blocks = block_vec base sz N rsv ow" "\<And>i. i < N \<Longrightarrow> rsv i \<Longrightarrow> ow i = 0"
    "\<And>k rs. (k, rs) \<in> set L \<Longrightarrow> k \<noteq> 0 \<and> owns base sz N ow k rs" "\<And>i. i < N \<Longrightarrow> ow i = 0 \<or> ow i \<in> fst ` set L"
  shows "owner_map base sz N rsv blocks L ow"
  unfolding owner_map_def using assms by blast

lemma owner_mapD:
  assumes "owner_map base sz N rsv blocks L ow"
  shows "blocks = block_vec base sz N rsv ow" "i < N \<Longrightarrow> rsv i \<Longrightarrow> ow i = 0"
    "(k, rs) \<in> set L \<Longrightarrow> k \<noteq> 0 \<and> owns base sz N ow k rs" "i < N \<Longrightarrow> ow i = 0 \<or> ow i \<in> fst ` set L"
  using assms unfolding owner_map_def by blast+

lemma owns_Nil [simp]: "owns base sz N ow k [] \<longleftrightarrow> (\<forall>i<N. ow i \<noteq> k)"
  by (simp add: owns_def)

lemma owns_cong: "\<forall>i<N. ow i = k \<longleftrightarrow> ow' i = k \<Longrightarrow> owns base sz N ow k rs \<longleftrightarrow> owns base sz N ow' k rs"
  by (simp add: owns_def)

lemma owns_give:
  assumes "owns base sz N ow k' rs" and "k \<noteq> k'" and "\<And>i. a \<le> i \<Longrightarrow> i < a + m \<Longrightarrow> i < N \<Longrightarrow> ow i \<noteq> k'"
  shows "owns base sz N (give k a m ow) k' rs"
  using assms owns_cong [of N ow k' "give k a m ow" base sz rs] by (auto simp: give_def)

definition claim_blocks :: "nat \<Rightarrow> nat \<Rightarrow> nat \<Rightarrow> BlockInfo list \<Rightarrow> HcclResult \<times> BlockInfo list \<times> ResInfo list" where
  "claim_blocks sz k n blocks = HandleBlockRes k n sz blocks []"

definition unclaim_blocks :: "nat \<Rightarrow> ResInfo list \<Rightarrow> BlockInfo list \<Rightarrow> BlockInfo list" where
  "unclaim_blocks sz rs blocks = fst (ReleaseBlockRes sz blocks rs)"

lemma ids_run_of: "ids [run_of base sz a m] = {base + a * sz ..< base + (a + m) * sz}"
  by (auto simp: run_of_def add_mult_distrib)

lemma ids_run_ofD:
  assumes "x \<in> ids [run_of base sz a m]" and "0 < sz"
  shows "a \<le> (x - base) div sz \<and> (x - base) div sz < a + m"
proof -
  have x: "a * sz \<le> x - base" "x - base < (a + m) * sz"
    using assms(1) unfolding ids_run_of by auto
  have "a * sz div sz \<le> (x - base) div sz"
    using x(1) by (rule div_le_mono)
  then show ?thesis
    using less_mult_imp_div_less [OF x(2)] assms(2) by simp
qed

lemma owns_apart:
  assumes "owns base sz N ow k rs" and "owns base sz N ow k' rs'" and "k \<noteq> k'" and "0 < sz"
  shows "ids rs \<inter> ids rs' = {}"
proof -
  have "False" if x: "x \<in> ids rs" "x \<in> ids rs'" for x
  proof -
    obtain a m where a: "rs = [run_of base sz a m]" "a + m \<le> N" "\<forall>i<N. ow i = k \<longleftrightarrow> a \<le> i \<and> i < a + m"
      using assms(1) x(1) by (auto simp: owns_def split: if_splits)
    obtain a' m' where a': "rs' = [run_of base sz a' m']" "a' + m' \<le> N" "\<forall>i<N. ow i = k' \<longleftrightarrow> a' \<le> i \<and> i < a' + m'"
      using assms(2) x(2) by (auto simp: owns_def split: if_splits)
    let ?i = "(x - base) div sz"
    have "a \<le> ?i \<and> ?i < a + m" "a' \<le> ?i \<and> ?i < a' + m'"
      using ids_run_ofD x assms(4) unfolding a(1) a'(1) by blast+
    then show False
      using a a' assms(3) by (metis order_less_le_trans)
  qed
  then show ?thesis
    by blast
qed

text \<open>A client without a run may join or leave the ledger.\<close>

lemma owner_map_Nil:
  assumes "k \<notin> fst ` set L"
  shows "owner_map base sz N rsv b ((k, []) # L) ow \<longleftrightarrow> k \<noteq> 0 \<and> owner_map base sz N rsv b L ow"
proof -
  have "(\<forall>i<N. ow i \<noteq> k) \<and> (\<forall>i<N. ow i = 0 \<or> ow i = k \<or> ow i \<in> fst ` set L) \<longleftrightarrow>
      (\<forall>i<N. ow i = 0 \<or> ow i \<in> fst ` set L)" if "k \<noteq> 0"
    using that assms by metis
  then show ?thesis
    by (auto simp: owner_map_def)
qed

lemma pool_holds_Nil:
  "pool_holds base sz N rsv b ((k, []) # L) \<longleftrightarrow> k \<noteq> 0 \<and> k \<notin> fst ` set L \<and> pool_holds base sz N rsv b L"
  using owner_map_Nil [of k L] by (auto simp: pool_holds_def)

interpretation blocks: owner_pool "pool_holds base sz N rsv" "claim_blocks sz" "unclaim_blocks sz" for base sz N rsv
proof (unfold_locales, goal_cases)
  case (1 b L L')
  have "mset (map fst L') = mset (map fst L)"
    using 1(2) by simp
  then have "distinct (map fst L') = distinct (map fst L)"
    by (rule mset_eq_imp_distinct_iff)
  then show ?case
    using 1(1) mset_eq_setD [OF 1(2)] by (simp add: pool_holds_def owner_map_def)
next
  case (2 b L k)
  then show ?case
    by (simp add: pool_holds_Nil)
next
  case (3 b k L)
  then show ?case
    by (simp add: pool_holds_Nil)
next
  case (4 b k L n b' rs)
  then obtain ow where k: "0 < sz" "base + N * sz < 2 ^ 32" "distinct (map fst ((k, []) # L))"
    and om: "owner_map base sz N rsv b ((k, []) # L) ow"
    by (auto simp: pool_holds_def)
  note ow = owner_mapD [OF om]
  have k0: "k \<noteq> 0" "\<forall>i<N. ow i \<noteq> k"
    using ow(3) [of k "[]"] by simp_all
  let ?m = "blocks_for n sz"
  obtain a where a: "free_blocks b a ?m" "b' = block_vec base sz N rsv (give k a ?m ow)" "rs = [run_of base sz a ?m]"
    using HandleBlockRes_vec [OF 4(2,3) k(1,2) k0(1), of rsv ow "[]"] 4(4) ow(1) by (auto simp: claim_blocks_def)
  have m: "0 < ?m" "a + ?m \<le> N" "\<And>i. a \<le> i \<Longrightarrow> i < a + ?m \<Longrightarrow> ow i = 0 \<and> \<not> rsv i"
    using a(1) blocks_for_bounds(1) [OF 4(2) k(1)] by (auto simp: ow(1) free_blocks_vec)
  have mine: "owns base sz N (give k a ?m ow) k rs"
    using m(1,2) k0(2) by (auto simp: owns_def a(3) give_def)
  have "owner_map base sz N rsv b' ((k, rs) # L) (give k a ?m ow)"
  proof (rule owner_mapI [OF a(2)], goal_cases)
    case (2 k' rs')
    show ?case
    proof (cases "(k', rs') \<in> set L")
      case True
      then have "k' \<noteq> 0" "owns base sz N ow k' rs'" "k \<noteq> k'"
        using ow(3) [of k' rs'] k(3) by force+
      then show ?thesis
        using m(3) by (auto intro!: owns_give)
    qed (use 2 mine k0(1) in auto)
  next
    case (1 i)
    then show ?case
      using ow(2) m(3) by (auto simp: give_def)
  next
    case (3 i)
    then show ?case
      using ow(4) [OF 3] by (auto simp: give_def)
  qed
  then have "pool_holds base sz N rsv b' ((k, rs) # L)"
    using k by (auto simp: pool_holds_def)
  moreover have "give 0 a ?m (give k a ?m ow) = give 0 a ?m ow"
    by (auto simp: give_def)
  moreover have "block_vec base sz N rsv (give 0 a ?m ow) = b"
    using m(3) unfolding ow(1) by (intro nth_equalityI) (auto simp: block_at_def give_def)
  ultimately show ?case
    using ReleaseBlockRes_vec [OF k(1,2) m(2,1), of rsv "give k a ?m ow"] m(3)
    by (simp add: unclaim_blocks_def a(2,3))
next
  case (5 b k L n e b' rs)
  from 5(1) obtain ow where "b = block_vec base sz N rsv ow" "k \<noteq> 0" "0 < sz" "base + N * sz < 2 ^ 32"
    by (auto simp: pool_holds_def owner_map_def)
  then show ?case
    using HandleBlockRes_vec [OF 5(2,3), of sz base N k rsv ow "[]"] 5(4,5) by (auto simp: claim_blocks_def)
next
  case (6 b k rs L)
  then obtain ow where k: "0 < sz" "base + N * sz < 2 ^ 32" "distinct (map fst ((k, rs) # L))"
    and om: "owner_map base sz N rsv b ((k, rs) # L) ow"
    by (auto simp: pool_holds_def)
  note ow = owner_mapD [OF om]
  have k0: "k \<noteq> 0" "owns base sz N ow k rs"
    using ow(3) [of k rs] by simp_all
  obtain a m where a: "0 < m" "a + m \<le> N" "rs = [run_of base sz a m]" "\<forall>i<N. ow i = k \<longleftrightarrow> a \<le> i \<and> i < a + m"
    using k0(2) 6(2) by (auto simp: owns_def)
  have rsv: "\<forall>i\<in>{a ..< a + m}. \<not> rsv i"
  proof
    fix i assume "i \<in> {a ..< a + m}"
    then have "i < N" "ow i = k"
      using a(2,4) by auto
    then show "\<not> rsv i"
      using ow(2) k0(1) by auto
  qed
  have b': "unclaim_blocks sz rs b = block_vec base sz N rsv (give 0 a m ow)"
    using ReleaseBlockRes_vec [OF k(1,2) a(2,1) rsv, of ow] by (simp add: unclaim_blocks_def a(3) ow(1))
  have "owner_map base sz N rsv (unclaim_blocks sz rs b) ((k, []) # L) (give 0 a m ow)"
  proof (rule owner_mapI [OF b'], goal_cases)
    case (1 i)
    then show ?case
      using ow(2) by (simp add: give_def)
  next
    case (2 k' rs')
    show ?case
    proof (cases "(k', rs') \<in> set L")
      case True
      then have "k' \<noteq> 0" "owns base sz N ow k' rs'" "k \<noteq> k'"
        using ow(3) [of k' rs'] k(3) by force+
      then show ?thesis
        using a(4) by (auto intro!: owns_give)
    qed (use 2 a(4) k0(1) in \<open>auto simp: give_def\<close>)
  next
    case (3 i)
    then show ?case
      using ow(4) [OF 3] by (auto simp: give_def)
  qed
  then show ?case
    using k by (auto simp: pool_holds_def)
next
  case (7 b k rs k' rs' L)
  then show ?case
    using owns_apart [of base sz N _ k rs k' rs'] by (auto simp: pool_holds_def owner_map_def)
qed

end
