(* ===== verification/Res_Batch_Allocator.thy ===== *)
theory Res_Batch_Allocator
  imports Batch_Blocks Component_Pools "HOL-Library.AList"
begin

text \<open>
  The batch allocator (class \<^verbatim>\<open>CcuResBatchAllocator\<close> of \<^verbatim>\<open>ccu_device/ccu_res_batch_allocator.cc\<close>): at
  initialisation it takes most of the ids of each die from the component and cuts them into blocks; a
  request for a handle takes blocks, missions, single ids and counting XN blocks together, and gives back
  what it took when any of them is missing. The state of the component is passed along. An array indexed by
  the die is a function; an \<^verbatim>\<open>unordered_map\<close> with handles as keys is a list of pairs, in any order. The value
  that \<^verbatim>\<open>new\<close> returns is an argument; 0 is a failed allocation.
\<close>

subsection \<open>Data\<close>

definition WISH_COUNT_XN_NUM :: nat where "WISH_COUNT_XN_NUM = 1022"
definition TOTAL_COUNT_XN_NUM :: nat where "TOTAL_COUNT_XN_NUM = 1"
definition EXPECTED_COUNT_XN_NUM :: nat where "EXPECTED_COUNT_XN_NUM = 1"
definition CNT_XN_BLOCK_NUM :: nat where
  "CNT_XN_BLOCK_NUM = WISH_COUNT_XN_NUM + TOTAL_COUNT_XN_NUM + EXPECTED_COUNT_XN_NUM"
definition CCUA_NUM :: nat where "CCUA_NUM = 4"

text \<open>The two reference managers: \<^verbatim>\<open>FUNC_ARG_MAX\<close> and \<^verbatim>\<open>FUNC_NEST_MAX\<close> are 1; the legacy one has 32 inputs
  and 1 output.\<close>

definition CCU_REPREFMGR_NEW_XN_NUM :: nat where "CCU_REPREFMGR_NEW_XN_NUM = 1 + 1 + 1 + 1 + 1"
definition CCU_REPREFMGR_LEGACY_XN_NUM :: nat where "CCU_REPREFMGR_LEGACY_XN_NUM = 32 + 1 + 1 + 1 + 1"
definition CCU_REP_TRANSLATOR_GSA_NUM :: nat where "CCU_REP_TRANSLATOR_GSA_NUM = 3"
definition CCU_REP_TRANSLATOR_CKE_NUM :: nat where "CCU_REP_TRANSLATOR_CKE_NUM = 2"
definition CCU_REP_TRANSLATOR_XN_NUM :: nat where "CCU_REP_TRANSLATOR_XN_NUM = 4"
definition RESERVED_DISCRETE_CKE_NUM :: nat where
  "RESERVED_DISCRETE_CKE_NUM = 4 * 128 + (CCU_REP_TRANSLATOR_CKE_NUM * 16) * 2"
definition RESERVED_DISCRETE_XN_NUM :: nat where
  "RESERVED_DISCRETE_XN_NUM = 4 * 128 + CCU_REPREFMGR_LEGACY_XN_NUM * 16 + CCU_REPREFMGR_NEW_XN_NUM * 16
    + (CCU_REP_TRANSLATOR_XN_NUM * 16) * 2"
definition RESERVED_DISCRETE_GSA_NUM :: nat where
  "RESERVED_DISCRETE_GSA_NUM = (CCU_REP_TRANSLATOR_GSA_NUM * 16) * 2"

lemmas batch_consts = WISH_COUNT_XN_NUM_def TOTAL_COUNT_XN_NUM_def EXPECTED_COUNT_XN_NUM_def CNT_XN_BLOCK_NUM_def
  CCUA_NUM_def CCU_REPREFMGR_NEW_XN_NUM_def CCU_REPREFMGR_LEGACY_XN_NUM_def CCU_REP_TRANSLATOR_GSA_NUM_def
  CCU_REP_TRANSLATOR_CKE_NUM_def CCU_REP_TRANSLATOR_XN_NUM_def RESERVED_DISCRETE_CKE_NUM_def
  RESERVED_DISCRETE_XN_NUM_def RESERVED_DISCRETE_GSA_NUM_def

record CcuBlockResStrategy =
  stratLoopNum :: nat
  stratCkeNum :: nat
  stratMsNum :: nat
  stratXnNum :: nat
  stratGsaNum :: nat
  stratMissionNum :: nat

definition CcuBlockResStrategy_default :: CcuBlockResStrategy where
  "CcuBlockResStrategy_default =
    \<lparr>stratLoopNum = 16, stratCkeNum = 16, stratMsNum = 128, stratXnNum = 16, stratGsaNum = 16, stratMissionNum = 2\<rparr>"

record CcuResBlockNums =
  maxLoopNum :: nat
  maxMsNum :: nat
  maxCkeNum :: nat
  maxXnNum :: nat
  maxGsaNum :: nat

datatype MissionReqType = COMM_ENGINE_RESERVED | FUSION_MULTIPLE_DIE | FUSION_ONE_DIE | NO_FUSION_ONE_DIE

record MissionResInfo =
  missionReqType :: MissionReqType
  mission :: "nat \<Rightarrow> ResInfo list"

record CntXnBlock =
  cntResInfo :: ResInfo
  wishCntXns :: "nat \<times> nat"
  wishCntXnsMem :: "u64 \<times> u64"
  totalCntXn :: nat
  expectedCntXn :: nat
  blockIdx :: nat
  cntDieId :: nat

record CcuResRepository =
  repoLoopEngine :: "nat \<Rightarrow> ResInfo list"
  repoBlockLoopEngine :: "nat \<Rightarrow> ResInfo list"
  repoMs :: "nat \<Rightarrow> ResInfo list"
  repoBlockMs :: "nat \<Rightarrow> ResInfo list"
  repoCke :: "nat \<Rightarrow> ResInfo list"
  repoBlockCke :: "nat \<Rightarrow> ResInfo list"
  repoXn :: "nat \<Rightarrow> ResInfo list"
  repoBlockXn :: "nat \<Rightarrow> ResInfo list"
  repoGsa :: "nat \<Rightarrow> ResInfo list"
  repoBlockGsa :: "nat \<Rightarrow> ResInfo list"
  cascCntBlock :: "nat \<Rightarrow> CntXnBlock list"
  repoMission :: MissionResInfo

definition CcuResRepository_new :: CcuResRepository where
  "CcuResRepository_new =
    \<lparr>repoLoopEngine = (\<lambda>_. []), repoBlockLoopEngine = (\<lambda>_. []), repoMs = (\<lambda>_. []), repoBlockMs = (\<lambda>_. []),
     repoCke = (\<lambda>_. []), repoBlockCke = (\<lambda>_. []), repoXn = (\<lambda>_. []), repoBlockXn = (\<lambda>_. []),
     repoGsa = (\<lambda>_. []), repoBlockGsa = (\<lambda>_. []), cascCntBlock = (\<lambda>_. []),
     repoMission = \<lparr>missionReqType = FUSION_MULTIPLE_DIE, mission = (\<lambda>_. [])\<rparr>\<rparr>"

record MissionReq =
  mreqType :: MissionReqType
  mreq :: "nat \<Rightarrow> nat"

record CcuResReq =
  loopEngineReq :: "nat \<Rightarrow> nat"
  blockLoopEngineReq :: "nat \<Rightarrow> nat"
  msReq :: "nat \<Rightarrow> nat"
  blockMsReq :: "nat \<Rightarrow> nat"
  ckeReq :: "nat \<Rightarrow> nat"
  blockCkeReq :: "nat \<Rightarrow> nat"
  xnReq :: "nat \<Rightarrow> nat"
  blockXnReq :: "nat \<Rightarrow> nat"
  gsaReq :: "nat \<Rightarrow> nat"
  blockGsaReq :: "nat \<Rightarrow> nat"
  cascCntReq :: "nat \<Rightarrow> nat"
  missionReq :: MissionReq

definition CcuResReq_new :: CcuResReq where
  "CcuResReq_new =
    \<lparr>loopEngineReq = (\<lambda>_. 0), blockLoopEngineReq = (\<lambda>_. 0), msReq = (\<lambda>_. 0), blockMsReq = (\<lambda>_. 0),
     ckeReq = (\<lambda>_. 0), blockCkeReq = (\<lambda>_. 0), xnReq = (\<lambda>_. 0), blockXnReq = (\<lambda>_. 0), gsaReq = (\<lambda>_. 0),
     blockGsaReq = (\<lambda>_. 0), cascCntReq = (\<lambda>_. 0),
     missionReq = \<lparr>mreqType = FUSION_MULTIPLE_DIE, mreq = (\<lambda>_. 0)\<rparr>\<rparr>"

record CcuMissionMgr =
  missionStrategy :: nat
  missionDieFlags :: "bool list"
  missionBlocks :: "BlockInfo list"

record CcuResBatchAllocator =
  batchInitFlag :: bool
  batchDieFlags :: "bool list"
  resStrategies :: "CcuBlockResStrategy list"
  resBlocks :: "nat \<Rightarrow> ResType \<Rightarrow> BlockInfo list option"
  handleMap :: "(nat \<times> CcuResRepository) list"
  missionMgr :: CcuMissionMgr
  maxResBlockNums :: CcuResBlockNums

definition CcuResBatchAllocator_new :: CcuResBatchAllocator where
  "CcuResBatchAllocator_new =
    \<lparr>batchInitFlag = False, batchDieFlags = replicate CCU_MAX_IODIE_NUM False,
     resStrategies = replicate CCU_MAX_IODIE_NUM CcuBlockResStrategy_default,
     resBlocks = (\<lambda>_ _. None), handleMap = [],
     missionMgr = \<lparr>missionStrategy = 0, missionDieFlags = replicate CCU_MAX_IODIE_NUM False, missionBlocks = []\<rparr>,
     maxResBlockNums = \<lparr>maxLoopNum = 0, maxMsNum = 0, maxCkeNum = 0, maxXnNum = 0, maxGsaNum = 0\<rparr>\<rparr>"

text \<open>The rows of the tables that the loops run over: for each type, the request, the block size and the
  field of the repository.\<close>

definition BLOCK_TYPES :: "ResType list" where
  "BLOCK_TYPES = [ResType_LOOP, ResType_MS, ResType_CKE, ResType_XN, ResType_GSA]"

definition DISCRETE_TYPES :: "ResType list" where
  "DISCRETE_TYPES = [ResType_LOOP, ResType_MS, ResType_CKE, ResType_GSA]"

fun block_size :: "ResType \<Rightarrow> CcuBlockResStrategy \<Rightarrow> nat" where
  "block_size ResType_LOOP s = stratLoopNum s"
| "block_size ResType_MS s = stratMsNum s"
| "block_size ResType_CKE s = stratCkeNum s"
| "block_size ResType_XN s = stratXnNum s"
| "block_size ResType_GSA s = stratGsaNum s"
| "block_size ResType_MISSION s = stratMissionNum s"
| "block_size _ s = 0"

fun block_req :: "ResType \<Rightarrow> CcuResReq \<Rightarrow> nat \<Rightarrow> nat" where
  "block_req ResType_LOOP r = blockLoopEngineReq r"
| "block_req ResType_MS r = blockMsReq r"
| "block_req ResType_CKE r = blockCkeReq r"
| "block_req ResType_XN r = blockXnReq r"
| "block_req ResType_GSA r = blockGsaReq r"
| "block_req _ r = (\<lambda>_. 0)"

fun single_req :: "ResType \<Rightarrow> CcuResReq \<Rightarrow> nat \<Rightarrow> nat" where
  "single_req ResType_LOOP r = loopEngineReq r"
| "single_req ResType_MS r = msReq r"
| "single_req ResType_CKE r = ckeReq r"
| "single_req ResType_XN r = xnReq r"
| "single_req ResType_GSA r = gsaReq r"
| "single_req _ r = (\<lambda>_. 0)"

fun repo_block :: "ResType \<Rightarrow> CcuResRepository \<Rightarrow> nat \<Rightarrow> ResInfo list" where
  "repo_block ResType_LOOP r = repoBlockLoopEngine r"
| "repo_block ResType_MS r = repoBlockMs r"
| "repo_block ResType_CKE r = repoBlockCke r"
| "repo_block ResType_XN r = repoBlockXn r"
| "repo_block ResType_GSA r = repoBlockGsa r"
| "repo_block _ r = (\<lambda>_. [])"

fun set_repo_block :: "ResType \<Rightarrow> nat \<Rightarrow> ResInfo list \<Rightarrow> CcuResRepository \<Rightarrow> CcuResRepository" where
  "set_repo_block ResType_LOOP d v r = r\<lparr>repoBlockLoopEngine := (repoBlockLoopEngine r)(d := v)\<rparr>"
| "set_repo_block ResType_MS d v r = r\<lparr>repoBlockMs := (repoBlockMs r)(d := v)\<rparr>"
| "set_repo_block ResType_CKE d v r = r\<lparr>repoBlockCke := (repoBlockCke r)(d := v)\<rparr>"
| "set_repo_block ResType_XN d v r = r\<lparr>repoBlockXn := (repoBlockXn r)(d := v)\<rparr>"
| "set_repo_block ResType_GSA d v r = r\<lparr>repoBlockGsa := (repoBlockGsa r)(d := v)\<rparr>"
| "set_repo_block _ d v r = r"

fun repo_single :: "ResType \<Rightarrow> CcuResRepository \<Rightarrow> nat \<Rightarrow> ResInfo list" where
  "repo_single ResType_LOOP r = repoLoopEngine r"
| "repo_single ResType_MS r = repoMs r"
| "repo_single ResType_CKE r = repoCke r"
| "repo_single ResType_XN r = repoXn r"
| "repo_single ResType_GSA r = repoGsa r"
| "repo_single _ r = (\<lambda>_. [])"

fun set_repo_single :: "ResType \<Rightarrow> nat \<Rightarrow> ResInfo list \<Rightarrow> CcuResRepository \<Rightarrow> CcuResRepository" where
  "set_repo_single ResType_LOOP d v r = r\<lparr>repoLoopEngine := (repoLoopEngine r)(d := v)\<rparr>"
| "set_repo_single ResType_MS d v r = r\<lparr>repoMs := (repoMs r)(d := v)\<rparr>"
| "set_repo_single ResType_CKE d v r = r\<lparr>repoCke := (repoCke r)(d := v)\<rparr>"
| "set_repo_single ResType_XN d v r = r\<lparr>repoXn := (repoXn r)(d := v)\<rparr>"
| "set_repo_single ResType_GSA d v r = r\<lparr>repoGsa := (repoGsa r)(d := v)\<rparr>"
| "set_repo_single _ d v r = r"

text \<open>Reading \<^verbatim>\<open>resBlocks_[dieId][resType]\<close> and writing it.\<close>

definition blocks_at :: "nat \<Rightarrow> ResType \<Rightarrow> CcuResBatchAllocator \<Rightarrow> BlockInfo list" where
  "blocks_at d t b = (case resBlocks b d t of None \<Rightarrow> [] | Some blocks \<Rightarrow> blocks)"

definition set_blocks :: "nat \<Rightarrow> ResType \<Rightarrow> BlockInfo list \<Rightarrow> CcuResBatchAllocator \<Rightarrow> CcuResBatchAllocator" where
  "set_blocks d t blocks b = b\<lparr>resBlocks := (resBlocks b)(d := (resBlocks b d)(t := Some blocks))\<rparr>"

definition DIES :: "nat list" where
  "DIES = [0..<CCU_MAX_IODIE_NUM]"

subsection \<open>Pre-allocation of the blocks\<close>

definition GetPreAllocatedMaxBlockNums :: "CcuResSpecifications \<Rightarrow> nat \<Rightarrow> CcuBlockResStrategy list \<Rightarrow> CcuResBlockNums" where
  "GetPreAllocatedMaxBlockNums specs dieId strategies =
    (let strategy = strategies ! dieId;
         loops = unat (snd (GetLoopEngineNum specs dieId 0));
         mss = unat (snd (GetMsNum specs dieId 0));
         ckes = unat (snd (GetCkeNum specs dieId 0));
         xns = unat (snd (GetXnNum specs dieId 0));
         gsas = unat (snd (GetGsaNum specs dieId 0))
     in \<lparr>maxLoopNum = loops div stratLoopNum strategy,
         maxMsNum = mss div stratMsNum strategy,
         maxCkeNum = (if ckes > RESERVED_DISCRETE_CKE_NUM
                      then (ckes - RESERVED_DISCRETE_CKE_NUM) div stratCkeNum strategy else 0),
         maxXnNum = (if xns > RESERVED_DISCRETE_XN_NUM
                     then (xns - RESERVED_DISCRETE_XN_NUM) div stratXnNum strategy else 0),
         maxGsaNum = (if ccuVersion specs = CCU_V1
                      then (if gsas > RESERVED_DISCRETE_GSA_NUM
                            then (gsas - RESERVED_DISCRETE_GSA_NUM) div stratGsaNum strategy else 0)
                      else 0)\<rparr>)"

fun max_blocks :: "ResType \<Rightarrow> CcuResBlockNums \<Rightarrow> nat" where
  "max_blocks ResType_LOOP m = maxLoopNum m"
| "max_blocks ResType_MS m = maxMsNum m"
| "max_blocks ResType_CKE m = maxCkeNum m"
| "max_blocks ResType_XN m = maxXnNum m"
| "max_blocks ResType_GSA m = maxGsaNum m"
| "max_blocks _ m = 0"

text \<open>The \<^verbatim>\<open>switch\<close> accepts the five block types; the caller's \<^verbatim>\<open>num\<close> is passed in and returned.\<close>

definition GetAllocatableMaxBlockResNum :: "ResType \<Rightarrow> nat \<Rightarrow> nat \<Rightarrow> CcuResBatchAllocator \<Rightarrow> HcclResult \<times> nat" where
  "GetAllocatableMaxBlockResNum resType dieId n b =
    (if resType \<in> set BLOCK_TYPES
     then (HCCL_SUCCESS, u32_mul (max_blocks resType (maxResBlockNums b)) (block_size resType (resStrategies b ! dieId)))
     else (HCCL_E_PARA, n))"

definition prealloc_block :: "bool \<Rightarrow> nat \<Rightarrow> nat \<Rightarrow> nat \<Rightarrow> BlockInfo" where
  "prealloc_block avoidCcu0Flag start blockSize k =
    \<lparr>blk_id = k, blk_startId = u32_add start (u32_mul k blockSize), blk_num = blockSize, handle = 0,
     allocated = (if avoidCcu0Flag then k mod CCUA_NUM = 0 else False)\<rparr>"

fun PreAllocBlockRes_types ::
  "CcuResSpecifications \<Rightarrow> nat \<Rightarrow> ResType list \<Rightarrow> CcuResBatchAllocator \<Rightarrow> CcuComponent
    \<Rightarrow> HcclResult \<times> CcuResBatchAllocator \<times> CcuComponent" where
  "PreAllocBlockRes_types specs dieId [] b c = (HCCL_SUCCESS, b, c)"
| "PreAllocBlockRes_types specs dieId (resType # types) b c =
    (let blockNum = max_blocks resType (maxResBlockNums b);
         blockSize = block_size resType (resStrategies b ! dieId);
         reqNum = u32_mul blockNum blockSize
     in if reqNum = 0 then PreAllocBlockRes_types specs dieId types b c
        else
          case CcuComponent_AllocRes dieId resType reqNum True c of (ret, tempResInfos, c) \<Rightarrow>
            if ret \<noteq> HCCL_SUCCESS then (ret, b, c)
            else
              let avoidCcu0Flag = (serveMode specs = ARMX86 \<and> dieId = 0 \<and> resType = ResType_MS);
                  tempBlocks = map (prealloc_block avoidCcu0Flag (startId (tempResInfos ! 0)) blockSize) [0..<blockNum]
              in PreAllocBlockRes_types specs dieId types (set_blocks dieId resType tempBlocks b) c)"

fun PreAllocBlockRes_dies ::
  "CcuResSpecifications \<Rightarrow> nat list \<Rightarrow> CcuResBatchAllocator \<Rightarrow> CcuComponent
    \<Rightarrow> HcclResult \<times> CcuResBatchAllocator \<times> CcuComponent" where
  "PreAllocBlockRes_dies specs [] b c = (HCCL_SUCCESS, b, c)"
| "PreAllocBlockRes_dies specs (dieId # dies) b c =
    (if \<not> batchDieFlags b ! dieId then PreAllocBlockRes_dies specs dies b c
     else
       case PreAllocBlockRes_types specs dieId BLOCK_TYPES
              (b\<lparr>maxResBlockNums := GetPreAllocatedMaxBlockNums specs dieId (resStrategies b)\<rparr>) c of (ret, b, c) \<Rightarrow>
         if ret \<noteq> HCCL_SUCCESS then (ret, b, c) else PreAllocBlockRes_dies specs dies b c)"

definition PreAllocBlockRes ::
  "CcuResSpecifications \<Rightarrow> CcuResBatchAllocator \<Rightarrow> CcuComponent \<Rightarrow> HcclResult \<times> CcuResBatchAllocator \<times> CcuComponent" where
  "PreAllocBlockRes specs b c = PreAllocBlockRes_dies specs DIES b c"

subsection \<open>Missions\<close>

text \<open>The arrays of mission numbers and start ids are returned as functions of the die.\<close>

fun PreAllocMissionRes ::
  "CcuResSpecifications \<Rightarrow> bool list \<Rightarrow> nat list \<Rightarrow> (nat \<Rightarrow> nat) \<Rightarrow> (nat \<Rightarrow> nat) \<Rightarrow> CcuComponent
    \<Rightarrow> HcclResult \<times> (nat \<Rightarrow> nat) \<times> (nat \<Rightarrow> nat) \<times> CcuComponent" where
  "PreAllocMissionRes specs flags [] missionNums missionStartIds c = (HCCL_SUCCESS, missionNums, missionStartIds, c)"
| "PreAllocMissionRes specs flags (i # dies) missionNums missionStartIds c =
    (if \<not> flags ! i
     then PreAllocMissionRes specs flags dies (missionNums(i := 0)) (missionStartIds(i := 0)) c
     else
       let missionNums = missionNums(i := unat (snd (GetMissionNum specs i (of_nat (missionNums i)))))
       in case CcuComponent_AllocRes i ResType_MISSION (missionNums i) True c of (ret, tempResInfos, c) \<Rightarrow>
         if ret \<noteq> HCCL_SUCCESS then (ret, missionNums, missionStartIds, c)
         else PreAllocMissionRes specs flags dies missionNums (missionStartIds(i := startId (tempResInfos ! 0))) c)"

definition CcuMissionMgr_PreAlloc ::
  "CcuResSpecifications \<Rightarrow> nat \<Rightarrow> bool list \<Rightarrow> CcuMissionMgr \<Rightarrow> CcuComponent \<Rightarrow> HcclResult \<times> CcuMissionMgr \<times> CcuComponent" where
  "CcuMissionMgr_PreAlloc specs blockSize dieFlags m c =
    (let m = m\<lparr>missionDieFlags := dieFlags\<rparr>
     in case PreAllocMissionRes specs dieFlags DIES (\<lambda>_. 0) (\<lambda>_. 0) c of (ret, missionNums, missionStartIds, c) \<Rightarrow>
       if ret \<noteq> HCCL_SUCCESS then (ret, m, c)
       else
         let missions = (if dieFlags ! 0 then missionNums 0 else if dieFlags ! 1 then missionNums 1 else 0)
         in if dieFlags ! 0 \<and> dieFlags ! 1 \<and> missionStartIds 0 \<noteq> missionStartIds 1 then (HCCL_E_INTERNAL, m, c)
            else
              (HCCL_SUCCESS,
               m\<lparr>missionStrategy := blockSize,
                 missionBlocks := missionBlocks m @
                   map (prealloc_block False (missionStartIds 0) blockSize) [0..<missions div blockSize]\<rparr>, c))"

definition Check2DieMissionReqNum :: "MissionReq \<Rightarrow> bool list \<Rightarrow> nat" where
  "Check2DieMissionReqNum req flags =
    (if flags ! 0 \<and> flags ! 1
     then (if mreq req 0 \<noteq> mreq req 1 then max (mreq req 0) (mreq req 1) else mreq req 0)
     else if flags ! 0 then mreq req 0
     else if flags ! 1 then mreq req 1
     else 0)"

definition CcuMissionMgr_Alloc ::
  "nat \<Rightarrow> MissionReq \<Rightarrow> MissionResInfo \<Rightarrow> CcuMissionMgr \<Rightarrow> HcclResult \<times> MissionResInfo \<times> CcuMissionMgr" where
  "CcuMissionMgr_Alloc handleKey req missionInfos m =
    (let reqNum = Check2DieMissionReqNum req (missionDieFlags m)
     in if reqNum = 0 then (HCCL_SUCCESS, missionInfos, m)
        else
          case HandleBlockRes handleKey reqNum (missionStrategy m) (missionBlocks m) [] of (ret, blocks, infos) \<Rightarrow>
            let m = m\<lparr>missionBlocks := blocks\<rparr>
            in if ret \<noteq> HCCL_SUCCESS then (ret, missionInfos, m)
               else
                 (HCCL_SUCCESS,
                  missionInfos\<lparr>missionReqType := FUSION_MULTIPLE_DIE,
                    mission := fold (\<lambda>i f. if missionDieFlags m ! i then f(i := infos) else f) DIES (mission missionInfos)\<rparr>,
                  m))"

fun CcuMissionMgr_Release_scan :: "nat list \<Rightarrow> MissionResInfo \<Rightarrow> CcuMissionMgr \<Rightarrow> CcuMissionMgr" where
  "CcuMissionMgr_Release_scan [] missionInfos m = m"
| "CcuMissionMgr_Release_scan (i # dies) missionInfos m =
    (if missionDieFlags m ! i \<and> mission missionInfos i \<noteq> []
     then m\<lparr>missionBlocks := fst (ReleaseBlockRes (missionStrategy m) (missionBlocks m) (mission missionInfos i))\<rparr>
     else CcuMissionMgr_Release_scan dies missionInfos m)"

definition CcuMissionMgr_Release :: "MissionResInfo \<Rightarrow> CcuMissionMgr \<Rightarrow> MissionResInfo \<times> CcuMissionMgr" where
  "CcuMissionMgr_Release missionInfos m =
    (missionInfos\<lparr>mission := fold (\<lambda>i f. f(i := [])) DIES (mission missionInfos)\<rparr>,
     CcuMissionMgr_Release_scan DIES missionInfos m)"

definition CcuMissionMgr_Reset :: "CcuMissionMgr \<Rightarrow> CcuMissionMgr" where
  "CcuMissionMgr_Reset m = m\<lparr>missionBlocks := []\<rparr>"

subsection \<open>Init\<close>

definition CcuResBatchAllocator_Init ::
  "CcuResSpecifications \<Rightarrow> CcuResBatchAllocator \<Rightarrow> CcuComponent \<Rightarrow> HcclResult \<times> CcuResBatchAllocator \<times> CcuComponent" where
  "CcuResBatchAllocator_Init specs b c =
    (if batchInitFlag b then (HCCL_SUCCESS, b, c)
     else
       let b = b\<lparr>batchDieFlags := compDieFlags c\<rparr>
       in if \<not> batchDieFlags b ! 0 \<and> \<not> batchDieFlags b ! 1 then (HCCL_E_UNAVAIL, b, c)
          else
            case PreAllocBlockRes specs b c of (ret, b, c) \<Rightarrow>
              if ret \<noteq> HCCL_SUCCESS then (ret, b, c)
              else
                case CcuMissionMgr_PreAlloc specs (stratMissionNum (resStrategies b ! 0)) (batchDieFlags b) (missionMgr b) c
                  of (ret, m, c) \<Rightarrow>
                  let b = b\<lparr>missionMgr := m\<rparr>
                  in if ret \<noteq> HCCL_SUCCESS then (ret, b, c)
                     else (HCCL_SUCCESS, b\<lparr>batchInitFlag := True\<rparr>, c))"

subsection \<open>Taking resources\<close>

definition req_empty :: "CcuResReq \<Rightarrow> nat \<Rightarrow> bool" where
  "req_empty req i \<longleftrightarrow> list_all (\<lambda>x. x = 0)
    [loopEngineReq req i, blockLoopEngineReq req i, msReq req i, blockMsReq req i, ckeReq req i, blockCkeReq req i,
     xnReq req i, blockXnReq req i, gsaReq req i, blockGsaReq req i, cascCntReq req i, mreq (missionReq req) i]"

fun CheckReqValid_loop :: "CcuResReq \<Rightarrow> bool list \<Rightarrow> nat list \<Rightarrow> bool \<Rightarrow> bool" where
  "CheckReqValid_loop req flags [] ifValid = ifValid"
| "CheckReqValid_loop req flags (i # dies) ifValid =
    (if \<not> flags ! i \<and> \<not> req_empty req i then False
     else CheckReqValid_loop req flags dies (if flags ! i \<and> \<not> req_empty req i then True else ifValid))"

definition CheckReqValid :: "CcuResReq \<Rightarrow> bool list \<Rightarrow> bool" where
  "CheckReqValid req flags = CheckReqValid_loop req flags DIES False"

text \<open>The loops over the dies and the types of the tables, in the order of the code.\<close>

fun AllocBlockRes_loop ::
  "nat \<Rightarrow> CcuResReq \<Rightarrow> (nat \<times> ResType) list \<Rightarrow> CcuResRepository \<Rightarrow> CcuResBatchAllocator
    \<Rightarrow> HcclResult \<times> CcuResRepository \<times> CcuResBatchAllocator" where
  "AllocBlockRes_loop handleKey req [] repo b = (HCCL_SUCCESS, repo, b)"
| "AllocBlockRes_loop handleKey req ((dieId, resType) # rest) repo b =
    (if \<not> batchDieFlags b ! dieId then AllocBlockRes_loop handleKey req rest repo b
     else if block_req resType req dieId = 0 then AllocBlockRes_loop handleKey req rest repo b
     else
       case HandleBlockRes handleKey (block_req resType req dieId) (block_size resType (resStrategies b ! dieId))
              (blocks_at dieId resType b) (repo_block resType repo dieId) of (ret, blocks, infos) \<Rightarrow>
         let b = set_blocks dieId resType blocks b;
             repo = set_repo_block resType dieId infos repo
         in if ret \<noteq> HCCL_SUCCESS then (ret, repo, b) else AllocBlockRes_loop handleKey req rest repo b)"

definition AllocBlockRes ::
  "nat \<Rightarrow> CcuResReq \<Rightarrow> CcuResRepository \<Rightarrow> CcuResBatchAllocator \<Rightarrow> HcclResult \<times> CcuResRepository \<times> CcuResBatchAllocator" where
  "AllocBlockRes handleKey req repo b = AllocBlockRes_loop handleKey req (List.product DIES BLOCK_TYPES) repo b"

text \<open>The common loop of \<open>AllocConsecutiveRes\<close> and \<open>AllocDiscreteRes\<close>.\<close>

fun AllocSingle_loop ::
  "bool \<Rightarrow> CcuResReq \<Rightarrow> bool list \<Rightarrow> (nat \<times> ResType) list \<Rightarrow> CcuResRepository \<Rightarrow> CcuComponent
    \<Rightarrow> HcclResult \<times> CcuResRepository \<times> CcuComponent" where
  "AllocSingle_loop consecutive req flags [] repo c = (HCCL_SUCCESS, repo, c)"
| "AllocSingle_loop consecutive req flags ((dieId, resType) # rest) repo c =
    (if \<not> flags ! dieId then AllocSingle_loop consecutive req flags rest repo c
     else if single_req resType req dieId = 0 then AllocSingle_loop consecutive req flags rest repo c
     else
       case CcuComponent_AllocRes dieId resType (single_req resType req dieId) consecutive c of (ret, infos, c) \<Rightarrow>
         if ret \<noteq> HCCL_SUCCESS then (ret, repo, c)
         else AllocSingle_loop consecutive req flags rest (set_repo_single resType dieId infos repo) c)"

definition AllocConsecutiveRes ::
  "CcuResReq \<Rightarrow> bool list \<Rightarrow> CcuResRepository \<Rightarrow> CcuComponent \<Rightarrow> HcclResult \<times> CcuResRepository \<times> CcuComponent" where
  "AllocConsecutiveRes req flags repo c = AllocSingle_loop True req flags (List.product DIES [ResType_XN]) repo c"

definition AllocDiscreteRes ::
  "CcuResReq \<Rightarrow> bool list \<Rightarrow> CcuResRepository \<Rightarrow> CcuComponent \<Rightarrow> HcclResult \<times> CcuResRepository \<times> CcuComponent" where
  "AllocDiscreteRes req flags repo c = AllocSingle_loop False req flags (List.product DIES DISCRETE_TYPES) repo c"

subsection \<open>Counting XN blocks\<close>

text \<open>The wrappers of the device manager translate the result codes; \<open>openSource\<close> is
  \<^verbatim>\<open>CheckCcuOpenSourceEnable\<close>, which is false on devices that use the legacy component.\<close>

definition CcuAllocCntXn :: "bool \<Rightarrow> nat \<Rightarrow> nat \<Rightarrow> ResInfo \<Rightarrow> CcuComponent \<Rightarrow> CcuResult \<times> ResInfo \<times> CcuComponent" where
  "CcuAllocCntXn openSource dieId n resInfo c =
    (if \<not> openSource then (CCU_E_NOT_SUPPORT, resInfo, c)
     else case AllocCntXn dieId n resInfo c of (ret, resInfo, c) \<Rightarrow>
       (if ret = HCCL_E_NOT_SUPPORT then CCU_E_NOT_SUPPORT
        else if ret = HCCL_E_UNAVAIL then CCU_E_UNAVAIL
        else if ret \<noteq> HCCL_SUCCESS then CCU_E_INTERNAL
        else CCU_SUCCESS, resInfo, c))"

definition CcuConfirmCntXns ::
  "CcuChannelDriver \<Rightarrow> bool \<Rightarrow> nat \<Rightarrow> nat \<times> nat \<Rightarrow> nat \<Rightarrow> nat \<Rightarrow> nat \<Rightarrow> CcuComponent \<Rightarrow> CcuResult \<times> nat \<times> CcuComponent" where
  "CcuConfirmCntXns chan openSource dieId wish totalXn expectedXn idx c =
    (if \<not> openSource then (CCU_E_NOT_SUPPORT, idx, c)
     else case ConfirmCntXns chan dieId wish totalXn expectedXn c of (ret, idx, c) \<Rightarrow>
       (if ret = HCCL_E_NOT_SUPPORT then CCU_E_NOT_SUPPORT
        else if ret = HCCL_E_UNAVAIL then CCU_E_UNAVAIL
        else if ret \<noteq> HCCL_SUCCESS then CCU_E_INTERNAL
        else CCU_SUCCESS, idx, c))"

definition CcuReleaseCntXn :: "bool \<Rightarrow> nat \<Rightarrow> ResInfo \<Rightarrow> CcuComponent \<Rightarrow> CcuResult \<times> CcuComponent" where
  "CcuReleaseCntXn openSource dieId resInfo c =
    (if \<not> openSource then (CCU_E_NOT_SUPPORT, c)
     else case ReleaseCntXn dieId resInfo c of (ret, c) \<Rightarrow>
       (if ret \<noteq> HCCL_SUCCESS then CCU_E_INTERNAL else CCU_SUCCESS, c))"

definition CcuResetTotalCntXn ::
  "CcuChannelDriver \<Rightarrow> bool \<Rightarrow> nat \<Rightarrow> nat \<Rightarrow> CcuComponent \<Rightarrow> CcuResult \<times> CcuComponent" where
  "CcuResetTotalCntXn chan openSource dieId idx c =
    (if \<not> openSource then (CCU_E_NOT_SUPPORT, c)
     else case ResetTotalCntXn chan dieId idx c of (ret, c) \<Rightarrow>
       (if ret = HCCL_E_NOT_SUPPORT then CCU_E_NOT_SUPPORT
        else if ret \<noteq> HCCL_SUCCESS then CCU_E_INTERNAL
        else CCU_SUCCESS, c))"

definition BuildCntXnBlock ::
  "CcuResSpecifications \<Rightarrow> nat \<Rightarrow> ResInfo \<Rightarrow> nat \<times> nat \<Rightarrow> nat \<Rightarrow> nat \<Rightarrow> nat \<Rightarrow> HcclResult + CntXnBlock" where
  "BuildCntXnBlock specs dieId resInfo wish totalXn expectedXn idx =
    (case GetResourceAddr specs dieId 0 of (ret, resAddr) \<Rightarrow>
       if ret \<noteq> HCCL_SUCCESS then Inl ret
       else if resAddr = 0 then Inl HCCL_E_INTERNAL
       else case GetXnOffsetCcumAddrById specs dieId (of_nat (fst wish)) 0 of (ret, xnAddr) \<Rightarrow>
         if ret \<noteq> HCCL_SUCCESS then Inl ret
         else
           let wishCntXnNum = u32_add (u32_sub (snd wish) (fst wish)) 1
           in Inr \<lparr>cntResInfo = resInfo, wishCntXns = wish,
                   wishCntXnsMem = (resAddr + xnAddr, of_nat wishCntXnNum * ucast CCU_RESOURCE_XN_PER_SIZE),
                   totalCntXn = totalXn, expectedCntXn = expectedXn, blockIdx = idx, cntDieId = dieId\<rparr>)"

text \<open>One round of the inner loop of \<open>AllocCascCntRes\<close>.\<close>

definition AllocCascCnt_one ::
  "CcuChannelDriver \<Rightarrow> bool \<Rightarrow> CcuResSpecifications \<Rightarrow> nat \<Rightarrow> CcuResRepository \<Rightarrow> CcuComponent
    \<Rightarrow> HcclResult \<times> CcuResRepository \<times> CcuComponent" where
  "AllocCascCnt_one chan openSource specs dieId repo c =
    (case CcuAllocCntXn openSource dieId CNT_XN_BLOCK_NUM (mk_res 0 0) c of (ret, resInfo, c) \<Rightarrow>
       if ret = CCU_E_UNAVAIL then (HCCL_E_UNAVAIL, repo, c)
       else if ret = CCU_E_NOT_SUPPORT then (HCCL_E_NOT_SUPPORT, repo, c)
       else if ret \<noteq> CCU_SUCCESS then (HCCL_E_INTERNAL, repo, c)
       else
         let wish = (startId resInfo, u32_sub (u32_add (startId resInfo) WISH_COUNT_XN_NUM) 1);
             totalXn = u32_add (snd wish) TOTAL_COUNT_XN_NUM;
             expectedXn = u32_add totalXn EXPECTED_COUNT_XN_NUM
         in case CcuConfirmCntXns chan openSource dieId wish totalXn expectedXn 0 c of (ret, idx, c) \<Rightarrow>
           if ret \<noteq> CCU_SUCCESS
           then (if ret = CCU_E_UNAVAIL then HCCL_E_UNAVAIL
                 else if ret = CCU_E_NOT_SUPPORT then HCCL_E_NOT_SUPPORT else HCCL_E_INTERNAL,
                 repo, snd (CcuReleaseCntXn openSource dieId resInfo c))
           else
             case BuildCntXnBlock specs dieId resInfo wish totalXn expectedXn idx of
               Inl buildRet \<Rightarrow>
                 let c = snd (CcuResetTotalCntXn chan openSource dieId idx c)
                 in (buildRet, repo, snd (CcuReleaseCntXn openSource dieId resInfo c))
             | Inr cntXnBlock \<Rightarrow>
                 (HCCL_SUCCESS,
                  repo\<lparr>cascCntBlock := (cascCntBlock repo)(dieId := cascCntBlock repo dieId @ [cntXnBlock])\<rparr>, c))"

fun AllocCascCnt_rounds ::
  "CcuChannelDriver \<Rightarrow> bool \<Rightarrow> CcuResSpecifications \<Rightarrow> nat \<Rightarrow> nat \<Rightarrow> CcuResRepository \<Rightarrow> CcuComponent
    \<Rightarrow> HcclResult \<times> CcuResRepository \<times> CcuComponent" where
  "AllocCascCnt_rounds chan openSource specs dieId 0 repo c = (HCCL_SUCCESS, repo, c)"
| "AllocCascCnt_rounds chan openSource specs dieId (Suc n) repo c =
    (case AllocCascCnt_one chan openSource specs dieId repo c of (ret, repo, c) \<Rightarrow>
       if ret \<noteq> HCCL_SUCCESS then (ret, repo, c)
       else AllocCascCnt_rounds chan openSource specs dieId n repo c)"

fun AllocCascCntRes_loop ::
  "CcuChannelDriver \<Rightarrow> bool \<Rightarrow> CcuResSpecifications \<Rightarrow> CcuResReq \<Rightarrow> nat list \<Rightarrow> CcuResRepository \<Rightarrow> CcuComponent
    \<Rightarrow> HcclResult \<times> CcuResRepository \<times> CcuComponent" where
  "AllocCascCntRes_loop chan openSource specs req [] repo c = (HCCL_SUCCESS, repo, c)"
| "AllocCascCntRes_loop chan openSource specs req (dieId # dies) repo c =
    (if cascCntReq req dieId = 0 then AllocCascCntRes_loop chan openSource specs req dies repo c
     else if cascCntReq req dieId > TOTAL_CNT_XNS then (HCCL_E_UNAVAIL, repo, c)
     else
       case AllocCascCnt_rounds chan openSource specs dieId (cascCntReq req dieId) repo c of (ret, repo, c) \<Rightarrow>
         if ret \<noteq> HCCL_SUCCESS then (ret, repo, c)
         else AllocCascCntRes_loop chan openSource specs req dies repo c)"

definition AllocCascCntRes ::
  "CcuChannelDriver \<Rightarrow> bool \<Rightarrow> CcuResSpecifications \<Rightarrow> CcuResReq \<Rightarrow> CcuResRepository \<Rightarrow> CcuComponent
    \<Rightarrow> HcclResult \<times> CcuResRepository \<times> CcuComponent" where
  "AllocCascCntRes chan openSource specs req repo c = AllocCascCntRes_loop chan openSource specs req DIES repo c"

subsection \<open>Giving resources back\<close>

fun ReleaseCascCnt_blocks ::
  "CcuChannelDriver \<Rightarrow> bool \<Rightarrow> nat \<Rightarrow> CntXnBlock list \<Rightarrow> CcuComponent \<Rightarrow> CcuComponent" where
  "ReleaseCascCnt_blocks chan openSource dieId [] c = c"
| "ReleaseCascCnt_blocks chan openSource dieId (blk # blks) c =
    (let c = snd (CcuResetTotalCntXn chan openSource dieId (blockIdx blk) c);
         c = snd (CcuReleaseCntXn openSource dieId (cntResInfo blk) c)
     in ReleaseCascCnt_blocks chan openSource dieId blks c)"

fun ReleaseCascCntRes_loop ::
  "CcuChannelDriver \<Rightarrow> bool \<Rightarrow> nat list \<Rightarrow> CcuResRepository \<Rightarrow> CcuComponent \<Rightarrow> CcuResRepository \<times> CcuComponent" where
  "ReleaseCascCntRes_loop chan openSource [] repo c = (repo, c)"
| "ReleaseCascCntRes_loop chan openSource (dieId # dies) repo c =
    ReleaseCascCntRes_loop chan openSource dies (repo\<lparr>cascCntBlock := (cascCntBlock repo)(dieId := [])\<rparr>)
      (ReleaseCascCnt_blocks chan openSource dieId (cascCntBlock repo dieId) c)"

definition ReleaseCascCntRes ::
  "CcuChannelDriver \<Rightarrow> bool \<Rightarrow> CcuResRepository \<Rightarrow> CcuComponent \<Rightarrow> CcuResRepository \<times> CcuComponent" where
  "ReleaseCascCntRes chan openSource repo c = ReleaseCascCntRes_loop chan openSource DIES repo c"

fun ReleaseBlockResource_loop ::
  "(nat \<times> ResType) list \<Rightarrow> CcuResRepository \<Rightarrow> CcuResBatchAllocator \<Rightarrow> CcuResRepository \<times> CcuResBatchAllocator" where
  "ReleaseBlockResource_loop [] repo b = (repo, b)"
| "ReleaseBlockResource_loop ((dieId, resType) # rest) repo b =
    (if \<not> batchDieFlags b ! dieId then ReleaseBlockResource_loop rest repo b
     else
       let blocks = blocks_at dieId resType b;
           b = set_blocks dieId resType blocks b
       in if repo_block resType repo dieId = [] \<or> blocks = [] then ReleaseBlockResource_loop rest repo b
          else
            case ReleaseBlockRes (block_size resType (resStrategies b ! dieId)) blocks (repo_block resType repo dieId) of
              (blocks, infos) \<Rightarrow>
                ReleaseBlockResource_loop rest (set_repo_block resType dieId infos repo) (set_blocks dieId resType blocks b))"

definition ReleaseBlockResource ::
  "CcuResRepository \<Rightarrow> CcuResBatchAllocator \<Rightarrow> CcuResRepository \<times> CcuResBatchAllocator" where
  "ReleaseBlockResource repo b = ReleaseBlockResource_loop (List.product DIES BLOCK_TYPES) repo b"

text \<open>The list is walked from its end; the argument is the list reversed, the result what is left of it.\<close>

fun DoRelease_infos :: "nat \<Rightarrow> ResType \<Rightarrow> ResInfo list \<Rightarrow> CcuComponent \<Rightarrow> HcclResult \<times> ResInfo list \<times> CcuComponent" where
  "DoRelease_infos dieId resType [] c = (HCCL_SUCCESS, [], c)"
| "DoRelease_infos dieId resType (r # rs) c =
    (if num r = 0 then DoRelease_infos dieId resType rs c
     else
       case CcuComponent_ReleaseRes dieId resType (startId r) (num r) c of (ret, c) \<Rightarrow>
         if ret \<noteq> HCCL_SUCCESS then (ret, r # rs, c) else DoRelease_infos dieId resType rs c)"

fun ReleaseNonBlock_loop ::
  "bool list \<Rightarrow> (nat \<times> ResType) list \<Rightarrow> CcuResRepository \<Rightarrow> CcuComponent \<Rightarrow> HcclResult \<times> CcuResRepository \<times> CcuComponent" where
  "ReleaseNonBlock_loop flags [] repo c = (HCCL_SUCCESS, repo, c)"
| "ReleaseNonBlock_loop flags ((dieId, resType) # rest) repo c =
    (if \<not> flags ! dieId then ReleaseNonBlock_loop flags rest repo c
     else
       case DoRelease_infos dieId resType (rev (repo_single resType repo dieId)) c of (ret, left, c) \<Rightarrow>
         let repo = set_repo_single resType dieId (rev left) repo
         in if ret \<noteq> HCCL_SUCCESS then (ret, repo, c) else ReleaseNonBlock_loop flags rest repo c)"

definition ReleaseNonBlockTypeRes ::
  "bool list \<Rightarrow> CcuResRepository \<Rightarrow> CcuComponent \<Rightarrow> HcclResult \<times> CcuResRepository \<times> CcuComponent" where
  "ReleaseNonBlockTypeRes flags repo c = ReleaseNonBlock_loop flags (List.product DIES BLOCK_TYPES) repo c"

definition ReleaseResource ::
  "CcuChannelDriver \<Rightarrow> bool \<Rightarrow> CcuResRepository \<Rightarrow> CcuResBatchAllocator \<Rightarrow> CcuComponent
    \<Rightarrow> HcclResult \<times> CcuResRepository \<times> CcuResBatchAllocator \<times> CcuComponent" where
  "ReleaseResource chan openSource repo b c =
    (case ReleaseCascCntRes chan openSource repo c of (repo, c) \<Rightarrow>
     case ReleaseBlockResource repo b of (repo, b) \<Rightarrow>
     case CcuMissionMgr_Release (repoMission repo) (missionMgr b) of (infos, m) \<Rightarrow>
     case ReleaseNonBlockTypeRes (batchDieFlags b) (repo\<lparr>repoMission := infos\<rparr>) c of (ret, repo, c) \<Rightarrow>
       (ret, repo, b\<lparr>missionMgr := m\<rparr>, c))"

subsection \<open>Handles\<close>

text \<open>\<open>TryAllocResHandle\<close> runs under the lock, the two continuations of \<open>AllocResHandle\<close> take it again.\<close>

definition TryAllocResHandle ::
  "CcuChannelDriver \<Rightarrow> bool \<Rightarrow> CcuResSpecifications \<Rightarrow> nat \<Rightarrow> CcuResReq \<Rightarrow> CcuResRepository
    \<Rightarrow> CcuResBatchAllocator \<Rightarrow> CcuComponent \<Rightarrow> HcclResult \<times> CcuResRepository \<times> CcuResBatchAllocator \<times> CcuComponent" where
  "TryAllocResHandle chan openSource specs handleKey req repo b c =
    (case AllocBlockRes handleKey req repo b of (ret, repo, b) \<Rightarrow>
     if ret \<noteq> HCCL_SUCCESS then (ret, repo, b, c)
     else case CcuMissionMgr_Alloc handleKey (missionReq req) (repoMission repo) (missionMgr b) of (ret, infos, m) \<Rightarrow>
       let repo = repo\<lparr>repoMission := infos\<rparr>; b = b\<lparr>missionMgr := m\<rparr>
       in if ret \<noteq> HCCL_SUCCESS then (ret, repo, b, c)
          else case AllocConsecutiveRes req (batchDieFlags b) repo c of (ret, repo, c) \<Rightarrow>
            if ret \<noteq> HCCL_SUCCESS then (ret, repo, b, c)
            else case AllocDiscreteRes req (batchDieFlags b) repo c of (ret, repo, c) \<Rightarrow>
              if ret \<noteq> HCCL_SUCCESS then (ret, repo, b, c)
              else case AllocCascCntRes chan openSource specs req repo c of (ret, repo, c) \<Rightarrow> (ret, repo, b, c))"

definition insert_handle :: "nat \<Rightarrow> CcuResRepository \<Rightarrow> CcuResBatchAllocator \<Rightarrow> CcuResBatchAllocator" where
  "insert_handle handleKey repo b = b\<lparr>handleMap := AList.update handleKey repo (handleMap b)\<rparr>"

text \<open>The returned handle is 0 (\<^verbatim>\<open>nullptr\<close>) on failure. When \<^verbatim>\<open>new\<close> fails the handle is not written.\<close>

definition AllocResHandle ::
  "CcuChannelDriver \<Rightarrow> bool \<Rightarrow> CcuResSpecifications \<Rightarrow> nat \<Rightarrow> CcuResReq \<Rightarrow> nat
    \<Rightarrow> CcuResBatchAllocator \<Rightarrow> CcuComponent \<Rightarrow> HcclResult \<times> nat \<times> CcuResBatchAllocator \<times> CcuComponent" where
  "AllocResHandle chan openSource specs newPtr req resHandle b c =
    (if \<not> CheckReqValid req (batchDieFlags b) then (HCCL_E_PARA, 0, b, c)
     else if newPtr = 0 then (HCCL_E_PTR, resHandle, b, c)
     else case TryAllocResHandle chan openSource specs newPtr req CcuResRepository_new b c of (ret, repo, b, c) \<Rightarrow>
       if ret \<noteq> HCCL_SUCCESS
       then case ReleaseResource chan openSource repo b c of (releaseRet, _, b, c) \<Rightarrow>
         if releaseRet \<noteq> HCCL_SUCCESS then (releaseRet, 0, b, c) else (ret, 0, b, c)
       else (HCCL_SUCCESS, newPtr, insert_handle newPtr repo b, c))"

definition ReleaseResHandle ::
  "CcuChannelDriver \<Rightarrow> bool \<Rightarrow> nat \<Rightarrow> CcuResBatchAllocator \<Rightarrow> CcuComponent
    \<Rightarrow> HcclResult \<times> CcuResBatchAllocator \<times> CcuComponent" where
  "ReleaseResHandle chan openSource handleKey b c =
    (case map_of (handleMap b) handleKey of
       None \<Rightarrow> (HCCL_E_PARA, b, c)
     | Some repo \<Rightarrow>
         (case ReleaseResource chan openSource repo b c of (ret, repo, b, c) \<Rightarrow>
            if ret \<noteq> HCCL_SUCCESS then (ret, insert_handle handleKey repo b, c)
            else (HCCL_SUCCESS, b\<lparr>handleMap := AList.delete handleKey (handleMap b)\<rparr>, c)))"

definition GetResource :: "nat \<Rightarrow> CcuResRepository \<Rightarrow> CcuResBatchAllocator \<Rightarrow> HcclResult \<times> CcuResRepository" where
  "GetResource handleKey repo b =
    (case map_of (handleMap b) handleKey of None \<Rightarrow> (HCCL_E_PARA, repo) | Some r \<Rightarrow> (HCCL_SUCCESS, r))"

fun Deinit_handles ::
  "CcuChannelDriver \<Rightarrow> bool \<Rightarrow> (nat \<times> CcuResRepository) list \<Rightarrow> CcuResBatchAllocator \<Rightarrow> CcuComponent
    \<Rightarrow> CcuResBatchAllocator \<times> CcuComponent" where
  "Deinit_handles chan openSource [] b c = (b, c)"
| "Deinit_handles chan openSource ((k, repo) # entries) b c =
    (case ReleaseResource chan openSource repo b c of (_, _, b, c) \<Rightarrow> Deinit_handles chan openSource entries b c)"

definition CcuResBatchAllocator_Deinit ::
  "CcuChannelDriver \<Rightarrow> bool \<Rightarrow> CcuResBatchAllocator \<Rightarrow> CcuComponent \<Rightarrow> HcclResult \<times> CcuResBatchAllocator \<times> CcuComponent" where
  "CcuResBatchAllocator_Deinit chan openSource b c =
    (case Deinit_handles chan openSource (handleMap b) b c of (b, c) \<Rightarrow>
       (HCCL_SUCCESS,
        b\<lparr>missionMgr := CcuMissionMgr_Reset (missionMgr b), resBlocks := (\<lambda>_ _. None), handleMap := [],
          batchInitFlag := False\<rparr>, c))"

subsection \<open>Queries\<close>

definition ResolveBlocksPtr :: "nat \<Rightarrow> ResType \<Rightarrow> CcuResBatchAllocator \<Rightarrow> HcclResult + BlockInfo list option" where
  "ResolveBlocksPtr dieId resType b =
    (if resType = ResType_MISSION then Inr (Some (missionBlocks (missionMgr b)))
     else case GetAllocatableMaxBlockResNum resType dieId 0 b of (ret, poolSize) \<Rightarrow>
       if ret \<noteq> HCCL_SUCCESS then Inl ret
       else if poolSize = 0 then Inr None
       else Inr (resBlocks b dieId resType))"

definition QueryRemainRes :: "nat \<Rightarrow> ResType \<Rightarrow> nat \<Rightarrow> CcuResBatchAllocator \<Rightarrow> HcclResult \<times> nat" where
  "QueryRemainRes dieId resType remainNum b =
    (case ResolveBlocksPtr dieId resType b of
       Inl ret \<Rightarrow> (ret, remainNum)
     | Inr None \<Rightarrow> (HCCL_SUCCESS, 0)
     | Inr (Some blocks) \<Rightarrow>
         if blocks = [] then (HCCL_SUCCESS, 0)
         else (HCCL_SUCCESS, u32_mul (QueryRemain_scan blocks 0 0) (blk_num (blocks ! 0))))"

end
