(* ===== verification/Batch_Ledger.thy ===== *)
theory Batch_Ledger
  imports Res_Batch_Allocator
begin

text \<open>
  The invariant of the batch allocator: a ledger of the live handles and their repositories accounts for
  every block, id, counting XN block and comparison register that is in use. This theory has the parts for
  the block vectors, the missions and the ids taken singly: each operation is shown to keep each part, with
  the repository it works on at the head of the ledger.
\<close>

subsection \<open>Fields of a repository\<close>

lemma repo_block_set_block [simp]:
  "t \<in> set BLOCK_TYPES \<Longrightarrow> repo_block t' (set_repo_block t d v r) d' = (if t' = t \<and> d' = d then v else repo_block t' r d')"
  by (cases t; cases t') (auto simp: BLOCK_TYPES_def)

lemma repo_single_set_single [simp]:
  "t \<in> set BLOCK_TYPES \<Longrightarrow> repo_single t' (set_repo_single t d v r) d' = (if t' = t \<and> d' = d then v else repo_single t' r d')"
  by (cases t; cases t') (auto simp: BLOCK_TYPES_def)

lemma repo_block_frame [simp]:
  "repo_block t' (set_repo_single t d v r) = repo_block t' r" "cascCntBlock (set_repo_single t d v r) = cascCntBlock r"
  "repoMission (set_repo_single t d v r) = repoMission r"
  by (cases t; cases t'; simp) (cases t; simp)+

lemma repo_single_frame [simp]:
  "repo_single t' (set_repo_block t d v r) = repo_single t' r" "cascCntBlock (set_repo_block t d v r) = cascCntBlock r"
  "repoMission (set_repo_block t d v r) = repoMission r"
  by (cases t; cases t'; simp) (cases t; simp)+

lemma repo_other_frame [simp]:
  "repo_block t (r\<lparr>cascCntBlock := f\<rparr>) = repo_block t r" "repo_single t (r\<lparr>cascCntBlock := f\<rparr>) = repo_single t r"
  "repo_block t (r\<lparr>repoMission := m\<rparr>) = repo_block t r" "repo_single t (r\<lparr>repoMission := m\<rparr>) = repo_single t r"
  by (cases t; simp)+

lemma repo_new [simp]:
  "repo_block t CcuResRepository_new d = []" "repo_single t CcuResRepository_new d = []"
  "cascCntBlock CcuResRepository_new d = []" "mission (repoMission CcuResRepository_new) d = []"
  by (cases t; simp add: CcuResRepository_new_def)+

lemma blocks_at_set_blocks [simp]:
  "blocks_at d' t' (set_blocks d t bl b) = (if d' = d \<and> t' = t then bl else blocks_at d' t' b)"
  by (auto simp: blocks_at_def set_blocks_def)

lemma set_blocks_sel [simp]:
  "batchDieFlags (set_blocks d t bl b) = batchDieFlags b" "resStrategies (set_blocks d t bl b) = resStrategies b"
  "missionMgr (set_blocks d t bl b) = missionMgr b" "handleMap (set_blocks d t bl b) = handleMap b"
  "batchInitFlag (set_blocks d t bl b) = batchInitFlag b" "maxResBlockNums (set_blocks d t bl b) = maxResBlockNums b"
  by (simp_all add: set_blocks_def)

lemma blocks_at_other [simp]:
  "blocks_at d t (b\<lparr>missionMgr := m\<rparr>) = blocks_at d t b" "blocks_at d t (b\<lparr>handleMap := h\<rparr>) = blocks_at d t b"
  by (simp_all add: blocks_at_def)

lemma DIES_eq: "DIES = [0, 1]"
  by (simp add: DIES_def CCU_MAX_IODIE_NUM_def upt_rec)

subsection \<open>The block vectors\<close>

text \<open>Where the vectors lie: the base and the number of blocks of each pool, and whether the first of
  every four MS blocks of die 0 is kept back.\<close>

record Geometry =
  gBase :: "nat \<Rightarrow> ResType \<Rightarrow> nat"
  gCount :: "nat \<Rightarrow> ResType \<Rightarrow> nat"
  gMissionBase :: nat
  gMissionCount :: nat
  gAvoid :: bool

abbreviation bsize :: "ResType \<Rightarrow> nat" where
  "bsize t \<equiv> block_size t CcuBlockResStrategy_default"

definition kept_back :: "Geometry \<Rightarrow> nat \<Rightarrow> ResType \<Rightarrow> nat \<Rightarrow> bool" where
  "kept_back g d t i \<longleftrightarrow> gAvoid g \<and> d = 0 \<and> t = ResType_MS \<and> i mod CCUA_NUM = 0"

text \<open>The view of a ledger through one pool.\<close>

abbreviation block_view :: "ResType \<Rightarrow> nat \<Rightarrow> (nat \<times> CcuResRepository) list \<Rightarrow> (nat \<times> ResInfo list) list" where
  "block_view t d L \<equiv> map (\<lambda>(k, r). (k, repo_block t r d)) L"

definition pool_ok :: "Geometry \<Rightarrow> (nat \<times> CcuResRepository) list \<Rightarrow> CcuResBatchAllocator \<Rightarrow> nat \<Rightarrow> ResType \<Rightarrow> bool" where
  "pool_ok g L b d t \<longleftrightarrow>
    (if batchDieFlags b ! d
     then pool_holds (gBase g d t) (bsize t) (gCount g d t) (kept_back g d t) (blocks_at d t b) (block_view t d L)
     else \<forall>(k, r)\<in>set L. repo_block t r d = [])"

definition blocks_inv :: "Geometry \<Rightarrow> (nat \<times> CcuResRepository) list \<Rightarrow> CcuResBatchAllocator \<Rightarrow> bool" where
  "blocks_inv g L b \<longleftrightarrow> resStrategies b = [CcuBlockResStrategy_default, CcuBlockResStrategy_default]
    \<and> (\<forall>d<2. \<forall>t\<in>set BLOCK_TYPES. pool_ok g L b d t)"

lemma blocks_invD:
  assumes "blocks_inv g L b" and "d < 2" and "t \<in> set BLOCK_TYPES"
  shows "batchDieFlags b ! d \<Longrightarrow>
      pool_holds (gBase g d t) (bsize t) (gCount g d t) (kept_back g d t) (blocks_at d t b) (block_view t d L)"
    and "\<not> batchDieFlags b ! d \<Longrightarrow> (k, r) \<in> set L \<Longrightarrow> repo_block t r d = []"
    and "block_size t (resStrategies b ! d) = bsize t"
proof -
  have ok: "pool_ok g L b d t" and s: "resStrategies b = [CcuBlockResStrategy_default, CcuBlockResStrategy_default]"
    using assms by (simp_all add: blocks_inv_def)
  show "batchDieFlags b ! d \<Longrightarrow>
      pool_holds (gBase g d t) (bsize t) (gCount g d t) (kept_back g d t) (blocks_at d t b) (block_view t d L)"
    using ok by (simp add: pool_ok_def)
  show "\<not> batchDieFlags b ! d \<Longrightarrow> (k, r) \<in> set L \<Longrightarrow> repo_block t r d = []"
    using ok by (auto simp: pool_ok_def)
  show "block_size t (resStrategies b ! d) = bsize t"
    using assms(2) by (auto simp: s less_2_cases_iff)
qed

text \<open>Changing one pool and the matching field of the repository at the head.\<close>

lemma pool_ok_other:
  assumes "pool_ok g ((k, r) # L) b d' t'" and "(d', t') \<noteq> (d, t)" and "t \<in> set BLOCK_TYPES"
  shows "pool_ok g ((k, set_repo_block t d v r) # L) (set_blocks d t bl b) d' t'"
  using assms by (cases "d' = d") (auto simp: pool_ok_def)

lemma blocks_inv_upd:
  assumes "blocks_inv g ((k, r) # L) b" and "d < 2" and "t \<in> set BLOCK_TYPES" and "batchDieFlags b ! d"
    and "pool_holds (gBase g d t) (bsize t) (gCount g d t) (kept_back g d t) bl ((k, v) # block_view t d L)"
  shows "blocks_inv g ((k, set_repo_block t d v r) # L) (set_blocks d t bl b)"
proof -
  have "pool_ok g ((k, set_repo_block t d v r) # L) (set_blocks d t bl b) d t"
    using assms(3-5) by (simp add: pool_ok_def)
  then have "pool_ok g ((k, set_repo_block t d v r) # L) (set_blocks d t bl b) d' t'"
    if "d' < 2" "t' \<in> set BLOCK_TYPES" for d' t'
    using that assms(1,3) pool_ok_other [of g k r L b d' t' d t]
    by (cases "(d', t') = (d, t)") (auto simp: blocks_inv_def)
  then show ?thesis
    using assms(1) by (simp add: blocks_inv_def)
qed

lemma blocks_inv_touch:
  assumes "blocks_inv g L b" and "d < 2" and "t \<in> set BLOCK_TYPES"
  shows "blocks_inv g L (set_blocks d t (blocks_at d t b) b)"
proof -
  have "blocks_at d' t' (set_blocks d t (blocks_at d t b) b) = blocks_at d' t' b" for d' t'
    by simp
  then show ?thesis
    using assms by (simp add: blocks_inv_def pool_ok_def)
qed

definition block_frame :: "CcuResRepository \<Rightarrow> CcuResRepository \<Rightarrow> bool" where
  "block_frame r r' \<longleftrightarrow> (\<forall>t. repo_single t r' = repo_single t r) \<and> cascCntBlock r' = cascCntBlock r \<and> repoMission r' = repoMission r"

definition batch_frame :: "CcuResBatchAllocator \<Rightarrow> CcuResBatchAllocator \<Rightarrow> bool" where
  "batch_frame b b' \<longleftrightarrow> batchDieFlags b' = batchDieFlags b \<and> missionMgr b' = missionMgr b \<and> handleMap b' = handleMap b
    \<and> maxResBlockNums b' = maxResBlockNums b \<and> batchInitFlag b' = batchInitFlag b"

lemma frames_refl [simp]: "block_frame r r" "batch_frame b b"
  by (simp_all add: block_frame_def batch_frame_def)

lemma frames_set [simp]: "block_frame r (set_repo_block t d v r)" "batch_frame b (set_blocks d t bl b)"
  by (simp_all add: block_frame_def batch_frame_def)

lemma frames_trans:
  "block_frame r r1 \<Longrightarrow> block_frame r1 r2 \<Longrightarrow> block_frame r r2"
  "batch_frame b b1 \<Longrightarrow> batch_frame b1 b2 \<Longrightarrow> batch_frame b b2"
  by (simp_all add: block_frame_def batch_frame_def)

definition pools_of :: "(nat \<times> ResType) list \<Rightarrow> bool" where
  "pools_of dts \<longleftrightarrow> distinct dts \<and> (\<forall>(d, t)\<in>set dts. d < 2 \<and> t \<in> set BLOCK_TYPES)"

lemma pools_of_all: "pools_of (List.product DIES BLOCK_TYPES)"
  by (simp add: pools_of_def DIES_eq BLOCK_TYPES_def)

lemma AllocBlockRes_loop_inv:
  assumes "blocks_inv g ((k, r) # L) b" and "pools_of dts"
    and "\<forall>(d, t)\<in>set dts. repo_block t r d = [] \<and> block_req t req d < 2 ^ 32"
    and "AllocBlockRes_loop k req dts r b = (ret, r', b')"
  shows "blocks_inv g ((k, r') # L) b' \<and> block_frame r r' \<and> batch_frame b b'
    \<and> (ret = HCCL_SUCCESS \<or> ret = HCCL_E_UNAVAIL)"
  using assms
proof (induction dts arbitrary: r b)
  case Nil
  then show ?case
    by simp
next
  case (Cons dt dts)
  obtain d t where dt: "dt = (d, t)"
    by fastforce
  have d: "d < 2" "t \<in> set BLOCK_TYPES" "pools_of dts" "(d, t) \<notin> set dts"
    using Cons.prems(2) by (auto simp: dt pools_of_def)
  show ?case
  proof (cases "batchDieFlags b ! d \<and> block_req t req d \<noteq> 0")
    case False
    then show ?thesis
      using Cons.IH [OF Cons.prems(1) d(3)] Cons.prems(3,4) by (auto simp: dt split: if_splits)
  next
    case True
    let ?n = "block_req t req d"
    obtain e bl v where call: "claim_blocks (bsize t) k ?n (blocks_at d t b) = (e, bl, v)"
      by (metis prod_cases3)
    have hb: "HandleBlockRes k ?n (block_size t (resStrategies b ! d)) (blocks_at d t b) (repo_block t r d) = (e, bl, v)"
      using call Cons.prems(3) blocks_invD(3) [OF Cons.prems(1) d(1,2)] by (simp add: claim_blocks_def dt)
    have holds: "pool_holds (gBase g d t) (bsize t) (gCount g d t) (kept_back g d t) (blocks_at d t b)
        ((k, []) # block_view t d L)"
      using blocks_invD(1) [OF Cons.prems(1) d(1,2)] True Cons.prems(3) by (simp add: dt)
    have n: "0 < ?n" "?n < 2 ^ 32"
      using True Cons.prems(3) by (auto simp: dt)
    let ?r = "set_repo_block t d v r" and ?b = "set_blocks d t bl b"
    show ?thesis
    proof (cases "e = HCCL_SUCCESS")
      case ok: True
      have "pool_holds (gBase g d t) (bsize t) (gCount g d t) (kept_back g d t) bl ((k, v) # block_view t d L)"
        using blocks.claim_grants [OF holds n] call ok by blast
      then have "blocks_inv g ((k, ?r) # L) ?b"
        using blocks_inv_upd [OF Cons.prems(1) d(1,2)] True by simp
      moreover have "\<forall>(d', t')\<in>set dts. repo_block t' ?r d' = [] \<and> block_req t' req d' < 2 ^ 32"
        using Cons.prems(3) d(2,4) by auto
      ultimately have "blocks_inv g ((k, r') # L) b' \<and> block_frame ?r r' \<and> batch_frame ?b b'
          \<and> (ret = HCCL_SUCCESS \<or> ret = HCCL_E_UNAVAIL)"
        using Cons.IH [of ?r ?b] d(3) Cons.prems(4) hb ok True by (simp add: dt)
      then show ?thesis
        using frames_trans(1) [OF frames_set(1)] frames_trans(2) [OF frames_set(2)] by blast
    next
      case bad: False
      have "e = HCCL_E_UNAVAIL" "bl = blocks_at d t b" "v = []"
        using blocks.claim_refuses [OF holds n call bad] by auto
      then show ?thesis
        using Cons.prems(3,4) hb True blocks_inv_upd [OF Cons.prems(1) d(1,2) _ holds]
        by (auto simp: dt)
    qed
  qed
qed

lemma ReleaseBlockResource_loop_inv:
  assumes "blocks_inv g ((k, r) # L) b" and "pools_of dts"
    and "ReleaseBlockResource_loop dts r b = (r', b')"
  shows "blocks_inv g ((k, r') # L) b' \<and> block_frame r r' \<and> batch_frame b b'
    \<and> (\<forall>d t. repo_block t r' d = (if (d, t) \<in> set dts then [] else repo_block t r d))"
  using assms
proof (induction dts arbitrary: r b)
  case Nil
  then show ?case
    by simp
next
  case (Cons dt dts)
  obtain d t where dt: "dt = (d, t)"
    by fastforce
  have d: "d < 2" "t \<in> set BLOCK_TYPES" "pools_of dts" "(d, t) \<notin> set dts"
    using Cons.prems(2) by (auto simp: dt pools_of_def)
  let ?b = "set_blocks d t (blocks_at d t b) b"
  have step: ?case if "blocks_inv g ((k, r1) # L) b1" "ReleaseBlockResource_loop dts r1 b1 = (r', b')"
    "block_frame r r1" "batch_frame b b1" "\<forall>d' t'. repo_block t' r1 d' = (if (d', t') = (d, t) then [] else repo_block t' r d')"
    for r1 b1
    using Cons.IH [OF that(1) d(3) that(2)] that(3-5) by (auto simp: dt block_frame_def batch_frame_def)
  show ?case
  proof (cases "batchDieFlags b ! d")
    case False
    then have "repo_block t r d = []"
      using blocks_invD(2) [OF Cons.prems(1) d(1,2), of k r] by simp
    then show ?thesis
      using False Cons.prems(1,3) by (intro step [of r b]) (auto simp: dt block_frame_def batch_frame_def)
  next
    case True
    note holds = blocks_invD(1) [OF Cons.prems(1) d(1,2) True]
    note sz = blocks_invD(3) [OF Cons.prems(1) d(1,2)]
    show ?thesis
    proof (cases "repo_block t r d = []")
      case Nil: True
      then show ?thesis
        using True Cons.prems(3) blocks_inv_touch [OF Cons.prems(1) d(1,2)]
        by (intro step [of r ?b]) (auto simp: dt block_frame_def batch_frame_def)
    next
      case run: False
      have ne: "blocks_at d t b \<noteq> []"
        using holds run by (auto simp: pool_holds_def owner_map_def owns_def block_vec_def)
      let ?bl = "unclaim_blocks (bsize t) (repo_block t r d) (blocks_at d t b)"
      have "pool_holds (gBase g d t) (bsize t) (gCount g d t) (kept_back g d t) ?bl
          ((k, []) # block_view t d L)"
        using blocks.unclaim_frees [of _ _ _ _ _ k "repo_block t r d"] holds run by simp
      then have inv: "blocks_inv g ((k, set_repo_block t d [] r) # L) (set_blocks d t ?bl ?b)"
        using blocks_inv_upd [OF blocks_inv_touch [OF Cons.prems(1) d(1,2)] d(1,2)] True by simp
      have "ReleaseBlockRes (bsize t) (blocks_at d t b) (repo_block t r d) = (?bl, [])"
        by (simp add: ReleaseBlockRes_def Let_def unclaim_blocks_def)
      then have "ReleaseBlockResource_loop dts (set_repo_block t d [] r) (set_blocks d t ?bl ?b) = (r', b')"
        using Cons.prems(3) True run ne sz by (simp add: dt Let_def)
      then show ?thesis
        using d(2) by (intro step [OF inv]) (auto simp: block_frame_def batch_frame_def)
    qed
  qed
qed

subsection \<open>The missions\<close>

text \<open>A repository has the same run of missions on every enabled die.\<close>

definition mission_run :: "bool list \<Rightarrow> CcuResRepository \<Rightarrow> ResInfo list" where
  "mission_run flags r =
    (if flags ! 0 then mission (repoMission r) 0 else if flags ! 1 then mission (repoMission r) 1 else [])"

definition same_missions :: "bool list \<Rightarrow> CcuResRepository \<Rightarrow> bool" where
  "same_missions flags r \<longleftrightarrow> (\<forall>d<2. mission (repoMission r) d = (if flags ! d then mission_run flags r else []))"

abbreviation mission_view :: "bool list \<Rightarrow> (nat \<times> CcuResRepository) list \<Rightarrow> (nat \<times> ResInfo list) list" where
  "mission_view flags L \<equiv> map (\<lambda>(k, r). (k, mission_run flags r)) L"

definition missions_inv :: "Geometry \<Rightarrow> (nat \<times> CcuResRepository) list \<Rightarrow> bool list \<Rightarrow> CcuMissionMgr \<Rightarrow> bool" where
  "missions_inv g L flags m \<longleftrightarrow> missionDieFlags m = flags \<and> missionStrategy m = 2
    \<and> pool_holds (gMissionBase g) 2 (gMissionCount g) (\<lambda>_. False) (missionBlocks m) (mission_view flags L)
    \<and> (\<forall>(k, r)\<in>set L. same_missions flags r)"

lemma mission_fold: "fold (\<lambda>i f. if flags ! i then f(i := v) else f) DIES f = (\<lambda>i. if i < 2 \<and> flags ! i then v else f i)"
  by (auto simp: DIES_eq less_2_cases_iff)

lemma mission_clear_fold: "fold (\<lambda>i f. f(i := [])) DIES f = (\<lambda>i. if i < 2 then [] else f i)"
  by (auto simp: DIES_eq less_2_cases_iff)

lemma same_missions_set:
  assumes "flags ! 0 \<or> flags ! 1"
  shows "mission_run flags (r\<lparr>repoMission := q\<lparr>mission := \<lambda>i. if i < 2 \<and> flags ! i then v else f i\<rparr>\<rparr>) = v"
    and "\<forall>d<2. \<not> flags ! d \<longrightarrow> f d = [] \<Longrightarrow>
      same_missions flags (r\<lparr>repoMission := q\<lparr>mission := \<lambda>i. if i < 2 \<and> flags ! i then v else f i\<rparr>\<rparr>)"
  using assms by (auto simp: mission_run_def same_missions_def)

lemma missions_inv_head:
  assumes "missions_inv g ((k, r) # L) flags m"
  shows "pool_holds (gMissionBase g) 2 (gMissionCount g) (\<lambda>_. False) (missionBlocks m)
      ((k, mission_run flags r) # mission_view flags L)"
    and "same_missions flags r"
  using assms by (simp_all add: missions_inv_def)

lemma missions_inv_upd:
  assumes "missions_inv g ((k, r) # L) flags m" and "same_missions flags r'"
    and "pool_holds (gMissionBase g) 2 (gMissionCount g) (\<lambda>_. False) bl ((k, mission_run flags r') # mission_view flags L)"
  shows "missions_inv g ((k, r') # L) flags (m\<lparr>missionBlocks := bl\<rparr>)"
  using assms by (simp add: missions_inv_def)

lemma mission_req_die: "Check2DieMissionReqNum req flags \<noteq> 0 \<Longrightarrow> flags ! 0 \<or> flags ! 1"
  by (auto simp: Check2DieMissionReqNum_def split: if_splits)

lemma mission_req_bound:
  "mreq req 0 < 2 ^ 32 \<Longrightarrow> mreq req 1 < 2 ^ 32 \<Longrightarrow> Check2DieMissionReqNum req flags < 2 ^ 32"
  by (simp add: Check2DieMissionReqNum_def)

lemma CcuMissionMgr_Alloc_inv:
  assumes "missions_inv g ((k, r) # L) flags m" and "mission_run flags r = []"
    and "mreq req 0 < 2 ^ 32" "mreq req 1 < 2 ^ 32"
    and "CcuMissionMgr_Alloc k req (repoMission r) m = (ret, q, m')"
  shows "missions_inv g ((k, r\<lparr>repoMission := q\<rparr>) # L) flags m' \<and> (ret = HCCL_SUCCESS \<or> ret = HCCL_E_UNAVAIL)"
proof -
  let ?n = "Check2DieMissionReqNum req flags"
  have m: "missionDieFlags m = flags" "missionStrategy m = 2"
    using assms(1) by (simp_all add: missions_inv_def)
  show ?thesis
  proof (cases "?n = 0")
    case True
    then show ?thesis
      using assms(1,5) by (auto simp: CcuMissionMgr_Alloc_def m)
  next
    case False
    have n: "0 < ?n" "?n < 2 ^ 32" and on: "flags ! 0 \<or> flags ! 1"
      using False mission_req_bound [OF assms(3,4)] mission_req_die by auto
    note head = missions_inv_head [OF assms(1), unfolded assms(2)]
    obtain e bl v where call: "claim_blocks 2 k ?n (missionBlocks m) = (e, bl, v)"
      by (metis prod_cases3)
    show ?thesis
    proof (cases "e = HCCL_SUCCESS")
      case True
      let ?q = "(repoMission r)\<lparr>missionReqType := FUSION_MULTIPLE_DIE,
        mission := \<lambda>i. if i < 2 \<and> flags ! i then v else mission (repoMission r) i\<rparr>"
      have r': "ret = HCCL_SUCCESS" "q = ?q" "m' = m\<lparr>missionBlocks := bl\<rparr>"
        using assms(5) call True False by (simp_all add: CcuMissionMgr_Alloc_def m claim_blocks_def mission_fold)
      have "\<forall>d<2. \<not> flags ! d \<longrightarrow> mission (repoMission r) d = []"
        using head(2) by (auto simp: same_missions_def)
      then have "missions_inv g ((k, r\<lparr>repoMission := ?q\<rparr>) # L) flags (m\<lparr>missionBlocks := bl\<rparr>)"
        using blocks.claim_grants [OF head(1) n] call True
        by (intro missions_inv_upd [OF assms(1)]) (simp_all add: same_missions_set [OF on])
      then show ?thesis
        using r' by simp
    next
      case bad: False
      then show ?thesis
        using blocks.claim_refuses [OF head(1) n call bad] assms(1,5) call False
        by (auto simp: CcuMissionMgr_Alloc_def m claim_blocks_def)
    qed
  qed
qed

lemma Release_scan_eq:
  assumes "missionDieFlags m = flags" and "same_missions flags r"
  shows "CcuMissionMgr_Release_scan DIES (repoMission r) m =
    (if mission_run flags r = [] then m
     else m\<lparr>missionBlocks := fst (ReleaseBlockRes (missionStrategy m) (missionBlocks m) (mission_run flags r))\<rparr>)"
proof -
  have "mission (repoMission r) 1 = mission (repoMission r) 0" if "flags ! 0" "flags ! 1"
    using assms(2) [unfolded same_missions_def, rule_format, of 1] that by (simp add: mission_run_def)
  then show ?thesis
    using assms(1) unfolding DIES_eq mission_run_def by (cases "flags ! 0"; cases "flags ! 1") simp_all
qed

lemma CcuMissionMgr_Release_inv:
  assumes "missions_inv g ((k, r) # L) flags m"
    and "CcuMissionMgr_Release (repoMission r) m = (q, m')"
  shows "missions_inv g ((k, r\<lparr>repoMission := q\<rparr>) # L) flags m' \<and> mission_run flags (r\<lparr>repoMission := q\<rparr>) = []"
proof -
  have m: "missionDieFlags m = flags" "missionStrategy m = 2"
    using assms(1) by (simp_all add: missions_inv_def)
  note head = missions_inv_head [OF assms(1)]
  let ?r = "r\<lparr>repoMission := q\<rparr>"
  have q: "q = (repoMission r)\<lparr>mission := \<lambda>i. if i < 2 then [] else mission (repoMission r) i\<rparr>"
    using assms(2) by (auto simp: CcuMissionMgr_Release_def mission_clear_fold)
  have same: "same_missions flags ?r" and run: "mission_run flags ?r = []"
    by (simp_all add: q same_missions_def mission_run_def)
  have m': "m' = CcuMissionMgr_Release_scan DIES (repoMission r) m"
    using assms(2) by (simp add: CcuMissionMgr_Release_def)
  show ?thesis
  proof (cases "mission_run flags r = []")
    case True
    then show ?thesis
      using missions_inv_upd [OF assms(1) same, of "missionBlocks m"] head(1) run m' Release_scan_eq [OF m(1) head(2)]
      by simp
  next
    case False
    then show ?thesis
      using missions_inv_upd [OF assms(1) same] blocks.unclaim_frees [OF head(1) False] run m'
        Release_scan_eq [OF m(1) head(2)]
      by (simp add: m unclaim_blocks_def)
  qed
qed

subsection \<open>Ids taken singly\<close>

text \<open>Besides the repositories, other clients of the component hold ids: the blocks themselves, channels,
  kernels. Their blocks are the first part of what is held.\<close>

definition single_held ::
  "(nat \<Rightarrow> ResType \<Rightarrow> ResInfo list) \<Rightarrow> (nat \<times> CcuResRepository) list \<Rightarrow> nat \<Rightarrow> ResType \<Rightarrow> ResInfo list" where
  "single_held ext L d t = ext d t @ concat (map (\<lambda>(k, r). repo_single t r d) L)"

definition singles_inv ::
  "(nat \<Rightarrow> ResType \<Rightarrow> ResInfo list) \<Rightarrow> (nat \<times> CcuResRepository) list \<Rightarrow> CcuComponent \<Rightarrow> bool" where
  "singles_inv ext L c \<longleftrightarrow> comp_inv c
    \<and> (\<forall>d<2. \<forall>t\<in>set BLOCK_TYPES. die_used d t c = ids (single_held ext L d t) \<and> ledger_ok (single_held ext L d t))"

lemma single_held_Cons: "single_held ext ((k, r) # L) d t = ext d t @ repo_single t r d @ concat (map (\<lambda>(k, r). repo_single t r d) L)"
  by (simp add: single_held_def)

definition single_frame :: "CcuResRepository \<Rightarrow> CcuResRepository \<Rightarrow> bool" where
  "single_frame r r' \<longleftrightarrow> (\<forall>t. repo_block t r' = repo_block t r) \<and> cascCntBlock r' = cascCntBlock r \<and> repoMission r' = repoMission r"

lemma single_frame_set [simp]: "single_frame r r" "single_frame r (set_repo_single t d v r)"
  by (simp_all add: single_frame_def)

lemma single_frame_trans: "single_frame r r1 \<Longrightarrow> single_frame r1 r2 \<Longrightarrow> single_frame r r2"
  by (simp add: single_frame_def)

text \<open>What the calls for the five block types leave as it was.\<close>

definition comp_frame :: "CcuComponent \<Rightarrow> CcuComponent \<Rightarrow> bool" where
  "comp_frame c c' \<longleftrightarrow> compDieFlags c' = compDieFlags c \<and> compVersion c' = compVersion c
    \<and> usedTotalCntXnFlags c' = usedTotalCntXnFlags c \<and> (\<forall>d. count_used d c' = count_used d c)"

lemma comp_frame_refl [simp]: "comp_frame c c"
  by (simp add: comp_frame_def)

lemma comp_frame_trans: "comp_frame c c1 \<Longrightarrow> comp_frame c1 c2 \<Longrightarrow> comp_frame c c2"
  by (simp add: comp_frame_def)

lemma one_pool_comp_frame: "one_pool d t c c' \<Longrightarrow> t \<in> set BLOCK_TYPES \<Longrightarrow> comp_frame c c'"
  by (auto simp: one_pool_def comp_frame_def count_used_def count_ids_def die_used_def BLOCK_TYPES_def)

lemma singles_inv_upd:
  assumes "singles_inv ext ((k, r) # L) c" and "one_pool d t c c'" and "t \<in> set BLOCK_TYPES"
    and "die_used d t c' = ids (single_held ext ((k, set_repo_single t d v r) # L) d t)"
    and "ledger_ok (single_held ext ((k, set_repo_single t d v r) # L) d t)"
  shows "singles_inv ext ((k, set_repo_single t d v r) # L) c'"
proof -
  have "die_used d' t' c' = ids (single_held ext ((k, set_repo_single t d v r) # L) d' t')
      \<and> ledger_ok (single_held ext ((k, set_repo_single t d v r) # L) d' t')"
    if "d' < 2" "t' \<in> set BLOCK_TYPES" for d' t'
  proof (cases "(d', t') = (d, t)")
    case False
    then have "die_used d' t' c' = die_used d' t' c"
      using assms(2) by (simp add: one_pool_def)
    moreover have "single_held ext ((k, set_repo_single t d v r) # L) d' t' = single_held ext ((k, r) # L) d' t'"
      using False assms(3) by (auto simp: single_held_Cons)
    ultimately show ?thesis
      using assms(1) that by (simp add: singles_inv_def)
  qed (use assms(4,5) in auto)
  then show ?thesis
    using assms(2) unfolding singles_inv_def one_pool_def by blast
qed

lemma AllocSingle_loop_inv:
  assumes "singles_inv ext ((k, r) # L) c" and "pools_of dts"
    and "\<forall>(d, t)\<in>set dts. repo_single t r d = []"
    and "AllocSingle_loop cons req flags dts r c = (ret, r', c')"
  shows "singles_inv ext ((k, r') # L) c' \<and> single_frame r r' \<and> comp_frame c c'
    \<and> (\<forall>d t. (d, t) \<notin> set dts \<longrightarrow> repo_single t r' d = repo_single t r d)"
  using assms
proof (induction dts arbitrary: r c)
  case Nil
  then show ?case
    by simp
next
  case (Cons dt dts)
  obtain d t where dt: "dt = (d, t)"
    by fastforce
  have d: "d < 2" "t \<in> set BLOCK_TYPES" "pools_of dts" "(d, t) \<notin> set dts"
    using Cons.prems(2) by (auto simp: dt pools_of_def)
  have skip: ?case if "AllocSingle_loop cons req flags dts r c = (ret, r', c')"
    using Cons.IH [OF Cons.prems(1) d(3) _ that] Cons.prems(3) by auto
  show ?case
  proof (cases "flags ! d \<and> single_req t req d \<noteq> 0")
    case False
    then show ?thesis
      using skip Cons.prems(4) by (auto simp: dt split: if_splits)
  next
    case True
    obtain e infos c1 where call: "CcuComponent_AllocRes d t (single_req t req d) cons c = (e, infos, c1)"
      by (metis prod_cases3)
    have ci: "comp_inv c"
      using Cons.prems(1) by (simp add: singles_inv_def)
    have one: "one_pool d t c c1"
      using AllocRes_one_pool [OF ci, of d t "single_req t req d" cons] call by simp
    show ?thesis
    proof (cases "e = HCCL_SUCCESS")
      case False
      then have "c1 = c"
        using comp.alloc_refuses [OF ci call] by simp
      then show ?thesis
        using Cons.prems(1,4) call True False by (auto simp: dt)
    next
      case ok: True
      let ?r = "set_repo_single t d infos r"
      have g: "die_used d t c1 = die_used d t c \<union> ids infos" "ids infos \<inter> die_used d t c = {}" "ledger_ok infos"
        using comp.alloc_grants [OF ci] call ok by blast+
      have old: "die_used d t c = ids (single_held ext ((k, r) # L) d t)" "ledger_ok (single_held ext ((k, r) # L) d t)"
        using Cons.prems(1) d(1,2) by (simp_all add: singles_inv_def)
      have r0: "repo_single t r d = []"
        using Cons.prems(3) by (simp add: dt)
      have "singles_inv ext ((k, ?r) # L) c1"
      proof (rule singles_inv_upd [OF Cons.prems(1) one d(2)])
        show "die_used d t c1 = ids (single_held ext ((k, ?r) # L) d t)"
          unfolding g(1) old(1) single_held_Cons using d(2) r0 by (simp add: Un_ac)
        show "ledger_ok (single_held ext ((k, ?r) # L) d t)"
          using g(2,3) old(2) unfolding old(1) single_held_Cons using d(2) r0
          by (auto simp: ledger_ok_append simp del: mem_block_ids)
      qed
      moreover have "AllocSingle_loop cons req flags dts ?r c1 = (ret, r', c')"
        using Cons.prems(4) call ok True by (simp add: dt)
      moreover have "\<forall>(d', t')\<in>set dts. repo_single t' ?r d' = []"
        using Cons.prems(3) d(2,4) by auto
      ultimately have "singles_inv ext ((k, r') # L) c' \<and> single_frame ?r r' \<and> comp_frame c1 c'
          \<and> (\<forall>d t. (d, t) \<notin> set dts \<longrightarrow> repo_single t r' d = repo_single t ?r d)"
        using Cons.IH d(3) by blast
      then show ?thesis
        using single_frame_trans [OF single_frame_set(2)] comp_frame_trans [OF one_pool_comp_frame [OF one d(2)]] d(2)
        by (auto simp: dt)
    qed
  qed
qed

lemma one_pool_trans: "one_pool d t c c1 \<Longrightarrow> one_pool d t c1 c2 \<Longrightarrow> one_pool d t c c2"
  by (simp add: one_pool_def)

lemma DoRelease_infos_all:
  assumes "comp_inv c" and "die_used d t c = ids (A @ rev rs @ B)" and "ledger_ok (A @ rev rs @ B)"
  obtains c' where "DoRelease_infos d t rs c = (HCCL_SUCCESS, [], c')" and "one_pool d t c c'"
    and "die_used d t c' = ids (A @ B)" and "ledger_ok (A @ B)"
  using assms
proof (induction rs arbitrary: c thesis)
  case Nil
  then show ?case
    by (simp add: one_pool_refl)
next
  case (Cons r rs)
  have "comp.client_inv d t c (c, (A @ rev rs) @ r # B)"
    using Cons.prems(2-4) by (simp add: comp.client_inv_def)
  then obtain c1 where rel: "CcuComponent_ReleaseRes d t (startId r) (num r) c = (HCCL_SUCCESS, c1)"
    and c1: "comp.client_inv d t c (c1, (A @ rev rs) @ B)"
    by (rule comp.release_held)
  have one: "one_pool d t c c1"
    using ReleaseRes_one_pool [OF Cons.prems(2), of d t "startId r" "num r"] rel by simp
  have "comp_inv c1" "die_used d t c1 = ids (A @ rev rs @ B)" "ledger_ok (A @ rev rs @ B)"
    using c1 by (simp_all add: comp.client_inv_def)
  then obtain c' where c': "DoRelease_infos d t rs c1 = (HCCL_SUCCESS, [], c')" "one_pool d t c1 c'"
    "die_used d t c' = ids (A @ B)" "ledger_ok (A @ B)"
    by (rule Cons.IH [rotated])
  have "num r \<noteq> 0"
    using Cons.prems(4) by (auto simp: ledger_ok_append)
  then show ?case
    using Cons.prems(1) c' rel one_pool_trans [OF one] by simp
qed

lemma ReleaseNonBlock_loop_inv:
  assumes "singles_inv ext ((k, r) # L) c" and "compDieFlags c = flags" and "pools_of dts"
    and "ReleaseNonBlock_loop flags dts r c = (ret, r', c')"
  shows "ret = HCCL_SUCCESS \<and> singles_inv ext ((k, r') # L) c' \<and> single_frame r r' \<and> comp_frame c c'
    \<and> (\<forall>d t. repo_single t r' d = (if (d, t) \<in> set dts then [] else repo_single t r d))"
  using assms
proof (induction dts arbitrary: r c)
  case Nil
  then show ?case
    by simp
next
  case (Cons dt dts)
  obtain d t where dt: "dt = (d, t)"
    by fastforce
  have d: "d < 2" "t \<in> set BLOCK_TYPES" "pools_of dts" "(d, t) \<notin> set dts"
    using Cons.prems(3) by (auto simp: dt pools_of_def)
  have ci: "comp_inv c" and held: "die_used d t c = ids (ext d t @ repo_single t r d @ concat (map (\<lambda>(k, r). repo_single t r d) L))"
    "ledger_ok (ext d t @ repo_single t r d @ concat (map (\<lambda>(k, r). repo_single t r d) L))"
    using Cons.prems(1) d(1,2) by (simp_all add: singles_inv_def single_held_def)
  show ?case
  proof (cases "flags ! d")
    case False
    then have "die_used d t c = {}"
      using ci Cons.prems(2) by (simp add: die_used_def die_alloc_def on_die_cases used_ids_def)
    then have "ids (repo_single t r d) = {}" "ledger_ok (repo_single t r d)"
      using held by (simp_all add: ledger_ok_append)
    then have empty: "repo_single t r d = []"
      by (cases "repo_single t r d") (auto simp: block_ids_def)
    have "ReleaseNonBlock_loop flags dts r c = (ret, r', c')"
      using Cons.prems(4) False by (simp add: dt)
    from Cons.IH [OF Cons.prems(1,2) d(3) this] show ?thesis
      using empty by (auto simp: dt)
  next
    case True
    obtain c1 where c1: "DoRelease_infos d t (rev (repo_single t r d)) c = (HCCL_SUCCESS, [], c1)" "one_pool d t c c1"
      "die_used d t c1 = ids (ext d t @ concat (map (\<lambda>(k, r). repo_single t r d) L))"
      "ledger_ok (ext d t @ concat (map (\<lambda>(k, r). repo_single t r d) L))"
      using DoRelease_infos_all [OF ci, of d t "ext d t" "rev (repo_single t r d)"] held by auto
    let ?r = "set_repo_single t d [] r"
    have inv1: "singles_inv ext ((k, ?r) # L) c1"
      using c1(3,4) d(2) by (intro singles_inv_upd [OF Cons.prems(1) c1(2) d(2)]) (simp_all add: single_held_Cons)
    have frame: "comp_frame c c1"
      by (rule one_pool_comp_frame [OF c1(2) d(2)])
    then have fl: "compDieFlags c1 = flags"
      using Cons.prems(2) by (simp add: comp_frame_def)
    have "ReleaseNonBlock_loop flags dts ?r c1 = (ret, r', c')"
      using Cons.prems(4) True c1(1) by (simp add: dt)
    from Cons.IH [OF inv1 fl d(3) this] show ?thesis
      using single_frame_trans [OF single_frame_set(2)] comp_frame_trans [OF frame] d(2) by (auto simp: dt)
  qed
qed

end
