(* ===== verification/Batch_Counting.thy ===== *)
theory Batch_Counting
  imports Batch_Ledger
begin

text \<open>
  The part of the batch allocator's invariant for the counting XN blocks: the blocks of the live handles are
  disjoint, each is bound to a comparison register of its own, and the registers in use are exactly the bound
  ones. A request that fails at any point gives back the block it was working on.
\<close>

subsection \<open>Counting XN blocks\<close>

definition cnt_held ::
  "(nat \<Rightarrow> ResInfo list) \<Rightarrow> (nat \<times> CcuResRepository) list \<Rightarrow> nat \<Rightarrow> ResInfo list" where
  "cnt_held cext L d = cext d @ concat (map (\<lambda>(k, r). map cntResInfo (cascCntBlock r d)) L)"

definition reg_held :: "(nat \<Rightarrow> nat list) \<Rightarrow> (nat \<times> CcuResRepository) list \<Rightarrow> nat \<Rightarrow> nat list" where
  "reg_held rext L d = rext d @ concat (map (\<lambda>(k, r). map blockIdx (cascCntBlock r d)) L)"

text \<open>Each comparison register in use belongs to one block; blocks exist on version 2 devices only.\<close>

definition casc_inv ::
  "bool \<Rightarrow> (nat \<Rightarrow> ResInfo list) \<Rightarrow> (nat \<Rightarrow> nat list) \<Rightarrow> (nat \<times> CcuResRepository) list \<Rightarrow> CcuComponent \<Rightarrow> bool" where
  "casc_inv os cext rext L c \<longleftrightarrow> comp_inv c
    \<and> (\<forall>d<2. count_used d c = ids (cnt_held cext L d) \<and> ledger_ok (cnt_held cext L d)
        \<and> distinct (reg_held rext L d) \<and> set (reg_held rext L d) = total_flags d c)
    \<and> (\<forall>(k, r)\<in>set L. \<forall>d<2. cascCntBlock r d \<noteq> [] \<longrightarrow> os \<and> compVersion c = CCU_V2)"

lemma held_Cons:
  "cnt_held cext ((k, r) # L) d = cext d @ map cntResInfo (cascCntBlock r d) @ concat (map (\<lambda>(k, r). map cntResInfo (cascCntBlock r d)) L)"
  "reg_held rext ((k, r) # L) d = rext d @ map blockIdx (cascCntBlock r d) @ concat (map (\<lambda>(k, r). map blockIdx (cascCntBlock r d)) L)"
  by (simp_all add: cnt_held_def reg_held_def)

text \<open>What the calls for counting XN blocks leave as it was.\<close>

definition cnt_frame :: "CcuComponent \<Rightarrow> CcuComponent \<Rightarrow> bool" where
  "cnt_frame c c' \<longleftrightarrow> compDieFlags c' = compDieFlags c \<and> compVersion c' = compVersion c \<and> comp_inv c'
    \<and> (\<forall>d. \<forall>t\<in>set BLOCK_TYPES. die_used d t c' = die_used d t c)"

lemma cnt_frame_refl [simp]: "comp_inv c \<Longrightarrow> cnt_frame c c"
  by (simp add: cnt_frame_def)

lemma cnt_frame_trans: "cnt_frame c c1 \<Longrightarrow> cnt_frame c1 c2 \<Longrightarrow> cnt_frame c c2"
  by (simp add: cnt_frame_def)

lemma one_pool_cnt_frame: "one_pool d ResType_COUNT_XN c c' \<Longrightarrow> cnt_frame c c'"
  by (auto simp: one_pool_def cnt_frame_def BLOCK_TYPES_def)

lemma same_pools_cnt_frame: "same_pools c c' \<Longrightarrow> comp_inv c' \<Longrightarrow> cnt_frame c c'"
  using same_pools_die_alloc [of c c'] by (auto simp: same_pools_def cnt_frame_def die_used_def)

lemma cnt_frame_singles: "singles_inv ext L c \<Longrightarrow> cnt_frame c c' \<Longrightarrow> singles_inv ext L c'"
  by (simp add: singles_inv_def cnt_frame_def)

text \<open>The four calls, seen through the pool of the die and its registers.\<close>

lemma CcuAllocCntXn_success:
  assumes "comp_inv c" and "CcuAllocCntXn os d n (mk_res 0 0) c = (CCU_SUCCESS, r, c')"
  shows "os \<and> compVersion c = CCU_V2 \<and> count_used d c' = count_used d c \<union> block_ids r \<and> block_ids r \<inter> count_used d c = {}
    \<and> 0 < num r \<and> startId r < 2 ^ 32 \<and> cnt_frame c c' \<and> usedTotalCntXnFlags c' = usedTotalCntXnFlags c
    \<and> (\<forall>d'. d' \<noteq> d \<longrightarrow> count_used d' c' = count_used d' c)"
proof -
  obtain h r1 c1 where eq: "AllocCntXn d n (mk_res 0 0) c = (h, r1, c1)"
    by (metis prod_cases3)
  have os: "os"
    using assms(2) by (cases os) (simp_all add: CcuAllocCntXn_def)
  have call: "AllocCntXn d n (mk_res 0 0) c = (HCCL_SUCCESS, r, c')"
    using assms(2) os by (cases h) (simp_all add: CcuAllocCntXn_def eq)
  have v2: "compVersion c = CCU_V2"
    using call by (auto simp: AllocCntXn_def split: if_splits)
  have l: "AllocCntXn_list d n True c = (HCCL_SUCCESS, [r], c')"
    using call by (simp add: AllocCntXn_list_def)
  note g = cntxn.alloc_grants [OF assms(1) l]
  have one: "one_pool d ResType_COUNT_XN c c'"
    using AllocCntXn_one_pool [OF assms(1), of d n "mk_res 0 0"] call by simp
  have "startId r \<in> count_used d c'"
    using g by auto
  moreover have "xnSpecNum (die_alloc d c') + die_capacity d ResType_COUNT_XN c' < 2 ^ 32"
    using die_alloc_inv [of c' d] g by (simp add: res_inv_def die_capacity_def)
  ultimately have "startId r < 2 ^ 32"
    using cntxn.used_range [of c' d] g by fastforce
  moreover have "count_used d' c' = count_used d' c" if "d' \<noteq> d" for d'
    using one that by (simp add: one_pool_def count_used_def count_ids_def die_used_def)
  moreover have "usedTotalCntXnFlags c' = usedTotalCntXnFlags c"
    using one by (simp add: one_pool_def)
  ultimately show ?thesis
    using g os v2 one_pool_cnt_frame [OF one] by simp
qed

lemma CcuAllocCntXn_fail:
  assumes "comp_inv c" and "CcuAllocCntXn os d n (mk_res 0 0) c = (e, r, c')" and "e \<noteq> CCU_SUCCESS"
  shows "c' = c"
proof (cases os)
  case True
  obtain h r1 c1 where eq: "AllocCntXn d n (mk_res 0 0) c = (h, r1, c1)"
    by (metis prod_cases3)
  then have "AllocCntXn d n (mk_res 0 0) c = (h, r, c')" "h \<noteq> HCCL_SUCCESS"
    using assms(2,3) True by (auto simp: CcuAllocCntXn_def)
  then show ?thesis
    using cntxn.alloc_refuses [OF assms(1), of d n True h "[r]" c'] by (simp add: AllocCntXn_list_def)
qed (use assms(2) in \<open>simp add: CcuAllocCntXn_def\<close>)

lemma CcuReleaseCntXn_held:
  assumes "comp_inv c" and "os" and "count_used d c = ids (A @ r # B)" and "ledger_ok (A @ r # B)"
  obtains c' where "CcuReleaseCntXn os d r c = (CCU_SUCCESS, c')" and "cnt_frame c c'"
    and "usedTotalCntXnFlags c' = usedTotalCntXnFlags c" and "count_used d c' = ids (A @ B)" and "ledger_ok (A @ B)"
    and "\<forall>d'. d' \<noteq> d \<longrightarrow> count_used d' c' = count_used d' c"
proof -
  have "cntxn.client_inv d c (c, A @ r # B)"
    using assms(1,3,4) by (simp add: cntxn.client_inv_def)
  then obtain c' where rel: "ReleaseCntXn_u32 d (startId r) (num r) c = (HCCL_SUCCESS, c')"
    and c': "cntxn.client_inv d c (c', A @ B)"
    by (rule cntxn.release_held)
  have r: "mk_res (startId r) (num r) = r"
    by simp
  have call: "ReleaseCntXn d r c = (HCCL_SUCCESS, c')"
    using rel unfolding ReleaseCntXn_u32_def r by (simp split: if_splits)
  have one: "one_pool d ResType_COUNT_XN c c'"
    using ReleaseCntXn_one_pool [OF assms(1), of d r] call by simp
  have "count_used d' c' = count_used d' c" if "d' \<noteq> d" for d'
    using one that by (simp add: one_pool_def count_used_def count_ids_def die_used_def)
  then show thesis
    using that [of c'] call assms(2) c' one one_pool_cnt_frame [OF one]
    by (simp add: CcuReleaseCntXn_def cntxn.client_inv_def one_pool_def)
qed

lemma CcuResetTotalCntXn_held:
  assumes "comp_inv c" and "os" and "compVersion c = CCU_V2" and "d < 2" and "compDieFlags c ! d"
  shows "cnt_frame c (snd (CcuResetTotalCntXn chan os d i c))
    \<and> total_flags d' (snd (CcuResetTotalCntXn chan os d i c)) = (if d' = d then total_flags d c - {i} else total_flags d' c)
    \<and> count_used d' (snd (CcuResetTotalCntXn chan os d i c)) = count_used d' c"
proof -
  obtain ret c' where call: "ResetTotalCntXn chan d i c = (ret, c')"
    by fastforce
  have "snd (CcuResetTotalCntXn chan os d i c) = c'"
    using assms(2) call by (simp add: CcuResetTotalCntXn_def)
  then show ?thesis
    using ResetTotalCntXn_eq [OF assms(1) call] assms same_pools_cnt_frame [of c c'] same_pools_die_alloc [of c c']
    by (simp add: count_used_def)
qed

lemma CcuConfirmCntXns_outcome:
  assumes "comp_inv c" and "CcuConfirmCntXns chan os d w t e i0 c = (ret, idx, c')"
  shows "cnt_frame c c' \<and> (\<forall>d'. count_used d' c' = count_used d' c) \<and>
    (if ret = CCU_SUCCESS
     then d < 2 \<and> idx \<notin> total_flags d c
       \<and> (\<forall>d'. total_flags d' c' = (if d' = d then insert idx (total_flags d c) else total_flags d' c))
     else \<forall>d'. total_flags d' c' = total_flags d' c)"
proof (cases os)
  case True
  obtain h i1 c1 where eq: "ConfirmCntXns chan d w t e c = (h, i1, c1)"
    by (metis prod_cases3)
  have call: "ConfirmCntXns chan d w t e c = (h, idx, c')" and h: "ret = CCU_SUCCESS \<longleftrightarrow> h = HCCL_SUCCESS"
    using assms(2) True eq by (cases h; simp add: CcuConfirmCntXns_def)+
  show ?thesis
    using ConfirmCntXns_outcome [OF assms(1) call] h same_pools_cnt_frame [of c c'] same_pools_die_alloc [of c c']
    by (auto simp: count_used_def)
next
  case False
  then show ?thesis
    using assms by (auto simp: CcuConfirmCntXns_def)
qed

lemma count_used_enabled: "comp_inv c \<Longrightarrow> count_used d c \<noteq> {} \<Longrightarrow> d < 2 \<and> compDieFlags c ! d"
  by (auto simp: count_used_def count_ids_def die_alloc_def on_die_cases used_ids_def split: if_splits)

text \<open>Replacing the counting blocks of one die in the repository at the head.\<close>

abbreviation set_casc :: "nat \<Rightarrow> CntXnBlock list \<Rightarrow> CcuResRepository \<Rightarrow> CcuResRepository" where
  "set_casc d v r \<equiv> r\<lparr>cascCntBlock := (cascCntBlock r)(d := v)\<rparr>"

lemma casc_inv_upd:
  assumes "casc_inv os cext rext ((k, r) # L) c" and "cnt_frame c c'"
    and "\<forall>d'. d' \<noteq> d \<longrightarrow> count_used d' c' = count_used d' c \<and> total_flags d' c' = total_flags d' c"
    and "d < 2 \<Longrightarrow> count_used d c' = ids (cnt_held cext ((k, set_casc d v r) # L) d)
        \<and> ledger_ok (cnt_held cext ((k, set_casc d v r) # L) d)
        \<and> distinct (reg_held rext ((k, set_casc d v r) # L) d) \<and> set (reg_held rext ((k, set_casc d v r) # L) d) = total_flags d c'"
    and "v \<noteq> [] \<Longrightarrow> d < 2 \<Longrightarrow> os \<and> compVersion c = CCU_V2"
  shows "casc_inv os cext rext ((k, set_casc d v r) # L) c'"
proof -
  have other: "cnt_held cext ((k, set_casc d v r) # L) d' = cnt_held cext ((k, r) # L) d'"
    "reg_held rext ((k, set_casc d v r) # L) d' = reg_held rext ((k, r) # L) d'" if "d' \<noteq> d" for d'
    using that by (simp_all add: held_Cons)
  have "count_used d' c' = ids (cnt_held cext ((k, set_casc d v r) # L) d')
        \<and> ledger_ok (cnt_held cext ((k, set_casc d v r) # L) d')
        \<and> distinct (reg_held rext ((k, set_casc d v r) # L) d') \<and> set (reg_held rext ((k, set_casc d v r) # L) d') = total_flags d' c'"
    if "d' < 2" for d'
  proof (cases "d' = d")
    case False
    then show ?thesis
      using assms(1,3) other [OF False] that by (simp add: casc_inv_def)
  qed (use assms(4) that in simp)
  moreover have "compVersion c' = compVersion c" "comp_inv c'"
    using assms(2) by (simp_all add: cnt_frame_def)
  moreover have "os \<and> compVersion c = CCU_V2" if "cascCntBlock (set_casc d v r) d' \<noteq> []" "d' < 2" for d'
    using that assms(1,5) by (cases "d' = d") (auto simp: casc_inv_def)
  ultimately show ?thesis
    using assms(1) unfolding casc_inv_def by auto
qed

lemma casc_invD:
  assumes "casc_inv os cext rext L c" and "d < 2"
  shows "comp_inv c" "count_used d c = ids (cnt_held cext L d)" "ledger_ok (cnt_held cext L d)"
    "distinct (reg_held rext L d)" "set (reg_held rext L d) = total_flags d c"
  using assms by (simp_all add: casc_inv_def)

lemma distinct_insert_mid:
  "distinct (A @ B @ C) \<Longrightarrow> i \<notin> set (A @ B @ C) \<Longrightarrow>
    distinct (A @ (B @ [i]) @ C) \<and> set (A @ (B @ [i]) @ C) = insert i (set (A @ B @ C))"
  by auto

text \<open>A new block joins the ledger: its ids are new and so is its register.\<close>

lemma casc_inv_join:
  assumes inv: "casc_inv os cext rext ((k, r) # L) c" and d: "d < 2" and fr: "cnt_frame c c'"
    and used: "count_used d c' = count_used d c \<union> block_ids (cntResInfo blk)" "block_ids (cntResInfo blk) \<inter> count_used d c = {}"
      "0 < num (cntResInfo blk)"
    and reg: "total_flags d c' = insert (blockIdx blk) (total_flags d c)" "blockIdx blk \<notin> total_flags d c"
    and other: "\<forall>d'. d' \<noteq> d \<longrightarrow> count_used d' c' = count_used d' c \<and> total_flags d' c' = total_flags d' c"
    and v2: "os \<and> compVersion c = CCU_V2"
  shows "casc_inv os cext rext ((k, set_casc d (cascCntBlock r d @ [blk]) r) # L) c'"
proof (rule casc_inv_upd [OF inv fr other])
  note old = casc_invD [OF inv d]
  let ?r = "set_casc d (cascCntBlock r d @ [blk]) r"
  have "ids (cnt_held cext ((k, ?r) # L) d) = ids (cnt_held cext ((k, r) # L) d) \<union> block_ids (cntResInfo blk)"
    unfolding held_Cons by auto
  moreover have "ledger_ok (cnt_held cext ((k, ?r) # L) d)"
    using old(2,3) used(2,3) unfolding held_Cons
    by (simp add: ledger_ok_append Int_Un_distrib Int_Un_distrib2 Int_commute Un_ac del: mem_block_ids)
  moreover have new: "blockIdx blk \<notin> set (reg_held rext ((k, r) # L) d)"
    using old(5) reg(2) by simp
  have "distinct (reg_held rext ((k, ?r) # L) d)
      \<and> set (reg_held rext ((k, ?r) # L) d) = insert (blockIdx blk) (set (reg_held rext ((k, r) # L) d))"
  proof -
    have field: "map blockIdx (cascCntBlock ?r d) = map blockIdx (cascCntBlock r d) @ [blockIdx blk]"
      by simp
    show ?thesis
      unfolding held_Cons field by (rule distinct_insert_mid [OF old(4) [unfolded held_Cons] new [unfolded held_Cons]])
  qed
  ultimately show "count_used d c' = ids (cnt_held cext ((k, ?r) # L) d) \<and> ledger_ok (cnt_held cext ((k, ?r) # L) d)
      \<and> distinct (reg_held rext ((k, ?r) # L) d) \<and> set (reg_held rext ((k, ?r) # L) d) = total_flags d c'"
    using used(1) reg(1) old by simp
qed (use v2 in simp)

definition casc_frame :: "CcuResRepository \<Rightarrow> CcuResRepository \<Rightarrow> bool" where
  "casc_frame r r' \<longleftrightarrow> (\<forall>t. repo_block t r' = repo_block t r) \<and> (\<forall>t. repo_single t r' = repo_single t r)
    \<and> repoMission r' = repoMission r"

lemma casc_frame_set [simp]: "casc_frame r r" "casc_frame r (set_casc d v r)"
  by (simp_all add: casc_frame_def)

lemma casc_frame_trans: "casc_frame r r1 \<Longrightarrow> casc_frame r1 r2 \<Longrightarrow> casc_frame r r2"
  by (simp add: casc_frame_def)

text \<open>Giving back a block that did not make it into the repository restores the ledger.\<close>

lemma casc_give_back:
  assumes inv: "casc_inv os cext rext ((k, r) # L) c" and d: "d < 2"
    and fr: "cnt_frame c c1" and os: "os"
    and used: "count_used d c1 = count_used d c \<union> block_ids q" "block_ids q \<inter> count_used d c = {}" "0 < num q"
    and other: "\<forall>d'. d' \<noteq> d \<longrightarrow> count_used d' c1 = count_used d' c" and reg: "\<forall>d'. total_flags d' c1 = total_flags d' c"
  shows "casc_inv os cext rext ((k, r) # L) (snd (CcuReleaseCntXn os d q c1)) \<and> cnt_frame c (snd (CcuReleaseCntXn os d q c1))"
proof -
  note old = casc_invD [OF inv d]
  let ?H = "cnt_held cext ((k, r) # L) d"
  have "count_used d c1 = ids ([] @ q # ?H)" "ledger_ok ([] @ q # ?H)"
    using used old(2,3) by (auto simp del: mem_block_ids)
  moreover have "comp_inv c1"
    using fr by (simp add: cnt_frame_def)
  ultimately obtain c2 where c2: "CcuReleaseCntXn os d q c1 = (CCU_SUCCESS, c2)" "cnt_frame c1 c2"
    "usedTotalCntXnFlags c2 = usedTotalCntXnFlags c1" "count_used d c2 = ids ([] @ ?H)" "ledger_ok ([] @ ?H)"
    "\<forall>d'. d' \<noteq> d \<longrightarrow> count_used d' c2 = count_used d' c1"
    using CcuReleaseCntXn_held [OF _ os] by metis
  have "count_used d' c2 = count_used d' c" for d'
    using c2(4,6) other old(2) by (cases "d' = d") simp_all
  moreover have "total_flags d' c2 = total_flags d' c" for d'
    using c2(3) reg by (simp add: total_flags_def)
  ultimately have eq: "\<forall>d'. count_used d' c2 = count_used d' c" "\<forall>d'. total_flags d' c2 = total_flags d' c"
    by blast+
  have fr2: "cnt_frame c c2"
    by (rule cnt_frame_trans [OF fr c2(2)])
  then have "casc_inv os cext rext ((k, r) # L) c2"
    using inv eq by (simp add: casc_inv_def cnt_frame_def)
  then show ?thesis
    using c2(1) fr2 by simp
qed

lemma AllocCascCnt_one_inv:
  assumes inv: "casc_inv os cext rext ((k, r) # L) c" and d: "d < 2"
    and call: "AllocCascCnt_one chan os specs d r c = (ret, r', c')"
  shows "casc_inv os cext rext ((k, r') # L) c' \<and> casc_frame r r' \<and> cnt_frame c c'"
proof -
  have ci: "comp_inv c"
    using inv by (simp add: casc_inv_def)
  obtain e q c1 where alloc: "CcuAllocCntXn os d CNT_XN_BLOCK_NUM (mk_res 0 0) c = (e, q, c1)"
    by (metis prod_cases3)
  show ?thesis
  proof (cases "e = CCU_SUCCESS")
    case False
    then have "c1 = c" "r' = r" "c' = c1"
      using CcuAllocCntXn_fail [OF ci alloc] call by (auto simp: AllocCascCnt_one_def alloc split: if_splits)
    then show ?thesis
      using inv ci by simp
  next
    case True
    note a = CcuAllocCntXn_success [OF ci, of os d CNT_XN_BLOCK_NUM q c1, unfolded alloc True, OF refl]
    define w where "w = (startId q, u32_sub (u32_add (startId q) WISH_COUNT_XN_NUM) 1)"
    define tx where "tx = u32_add (snd w) TOTAL_COUNT_XN_NUM"
    define ex where "ex = u32_add tx EXPECTED_COUNT_XN_NUM"
    obtain e2 i c2 where conf: "CcuConfirmCntXns chan os d w tx ex 0 c1 = (e2, i, c2)"
      by (metis prod_cases3)
    have c1i: "comp_inv c1"
      using a by (simp add: cnt_frame_def)
    note o = CcuConfirmCntXns_outcome [OF c1i conf]
    have fr12: "cnt_frame c c2" and cu: "\<forall>d'. count_used d' c2 = count_used d' c1"
      and tf1: "\<forall>d'. total_flags d' c1 = total_flags d' c"
      using cnt_frame_trans a o by (auto simp: total_flags_def)
    show ?thesis
    proof (cases "e2 = CCU_SUCCESS")
      case False
      have "r' = r" "c' = snd (CcuReleaseCntXn os d q c2)"
        using call alloc True conf False by (auto simp: AllocCascCnt_one_def w_def tx_def ex_def Let_def)
      moreover have "\<forall>d'. total_flags d' c2 = total_flags d' c"
        using o False tf1 by simp
      ultimately show ?thesis
        using casc_give_back [OF inv d fr12, of q] a cu by simp
    next
      case ok: True
      have reg: "i \<notin> total_flags d c" "\<forall>d'. total_flags d' c2 = (if d' = d then insert i (total_flags d c) else total_flags d' c)"
        using o ok tf1 by auto
      have c2i: "comp_inv c2" and v2: "os" "compVersion c2 = CCU_V2" "compDieFlags c2 ! d"
        using fr12 a count_used_enabled [of c2 d] cu by (auto simp: cnt_frame_def block_ids_def)
      show ?thesis
      proof (cases "BuildCntXnBlock specs d q w tx ex i")
        case (Inl be)
        let ?c3 = "snd (CcuResetTotalCntXn chan os d i c2)"
        note rs = CcuResetTotalCntXn_held [OF c2i v2(1,2) d v2(3), of chan i]
        have fr3: "cnt_frame c ?c3"
          using cnt_frame_trans [OF fr12] rs by blast
        have "r' = r" "c' = snd (CcuReleaseCntXn os d q ?c3)"
          using call alloc True conf ok Inl by (auto simp: AllocCascCnt_one_def w_def tx_def ex_def Let_def)
        moreover have "\<forall>d'. total_flags d' ?c3 = total_flags d' c" "\<forall>d'. count_used d' ?c3 = count_used d' c1"
          using rs reg cu by auto
        ultimately show ?thesis
          using casc_give_back [OF inv d fr3, of q] a by simp
      next
        case (Inr blk)
        have blk: "cntResInfo blk = q" "blockIdx blk = i"
          using Inr by (auto simp: BuildCntXnBlock_def Let_def split: prod.splits if_splits)
        have r': "r' = set_casc d (cascCntBlock r d @ [blk]) r" "c' = c2"
          using call alloc True conf ok Inr by (auto simp: AllocCascCnt_one_def w_def tx_def ex_def Let_def)
        have "casc_inv os cext rext ((k, r') # L) c2"
          unfolding r'(1) using a cu reg blk by (intro casc_inv_join [OF inv d fr12]) auto
        then show ?thesis
          using r' fr12 by simp
      qed
    qed
  qed
qed

lemma AllocCascCnt_rounds_inv:
  assumes "casc_inv os cext rext ((k, r) # L) c" and "d < 2"
    and "AllocCascCnt_rounds chan os specs d n r c = (ret, r', c')"
  shows "casc_inv os cext rext ((k, r') # L) c' \<and> casc_frame r r' \<and> cnt_frame c c'"
  using assms
proof (induction n arbitrary: r c)
  case 0
  then show ?case
    by (auto simp: casc_inv_def)
next
  case (Suc n)
  obtain e r1 c1 where one: "AllocCascCnt_one chan os specs d r c = (e, r1, c1)"
    by (metis prod_cases3)
  note s = AllocCascCnt_one_inv [OF Suc.prems(1,2) one]
  show ?case
  proof (cases "e = HCCL_SUCCESS")
    case True
    then have "AllocCascCnt_rounds chan os specs d n r1 c1 = (ret, r', c')"
      using Suc.prems(3) one by simp
    then show ?thesis
      using Suc.IH [of r1 c1] s Suc.prems(2) casc_frame_trans cnt_frame_trans by blast
  next
    case False
    then show ?thesis
      using Suc.prems(3) one s by simp
  qed
qed

lemma AllocCascCntRes_loop_inv:
  assumes "casc_inv os cext rext ((k, r) # L) c" and "\<forall>d\<in>set dies. d < 2"
    and "AllocCascCntRes_loop chan os specs req dies r c = (ret, r', c')"
  shows "casc_inv os cext rext ((k, r') # L) c' \<and> casc_frame r r' \<and> cnt_frame c c'"
  using assms
proof (induction dies arbitrary: r c)
  case Nil
  then show ?case
    by (auto simp: casc_inv_def)
next
  case (Cons d dies)
  obtain e r1 c1 where rounds: "AllocCascCnt_rounds chan os specs d (cascCntReq req d) r c = (e, r1, c1)"
    by (metis prod_cases3)
  note s = AllocCascCnt_rounds_inv [OF Cons.prems(1) _ rounds]
  have skip: "casc_inv os cext rext ((k, r) # L) c \<and> casc_frame r r \<and> cnt_frame c c"
    using Cons.prems(1) by (auto simp: casc_inv_def)
  consider "cascCntReq req d = 0" | "cascCntReq req d > 4" | "0 < cascCntReq req d" "cascCntReq req d \<le> 4" "e = HCCL_SUCCESS"
    | "0 < cascCntReq req d" "cascCntReq req d \<le> 4" "e \<noteq> HCCL_SUCCESS"
    by linarith
  then show ?case
  proof cases
    case 1
    then show ?thesis
      using Cons.IH [OF Cons.prems(1)] Cons.prems(2,3) by simp
  next
    case 2
    then show ?thesis
      using Cons.prems(3) skip by simp
  next
    case 3
    then have "AllocCascCntRes_loop chan os specs req dies r1 c1 = (ret, r', c')"
      using Cons.prems(3) rounds by simp
    then show ?thesis
      using Cons.IH [of r1 c1] s Cons.prems(2) casc_frame_trans cnt_frame_trans by (metis list.set_intros)
  next
    case 4
    then show ?thesis
      using Cons.prems(2,3) rounds s by simp
  qed
qed

lemma distinct_remove_mid:
  "distinct (A @ (i # B) @ C) \<Longrightarrow> distinct (A @ B @ C) \<and> set (A @ B @ C) = set (A @ (i # B) @ C) - {i}"
  by auto

lemma ReleaseCascCnt_blocks_inv:
  assumes "casc_inv os cext rext ((k, set_casc d blks r) # L) c" and "d < 2"
  shows "casc_inv os cext rext ((k, set_casc d [] r) # L) (ReleaseCascCnt_blocks chan os d blks c)
    \<and> cnt_frame c (ReleaseCascCnt_blocks chan os d blks c)"
  using assms(1)
proof (induction blks arbitrary: c)
  case Nil
  then show ?case
    by (simp add: casc_inv_def)
next
  case (Cons blk blks)
  let ?R = "concat (map (\<lambda>(k, r). map cntResInfo (cascCntBlock r d)) L)"
  note inv = casc_invD [OF Cons.prems assms(2)]
  have v2: "os" "compVersion c = CCU_V2"
    using Cons.prems assms(2) by (auto simp: casc_inv_def)
  have used: "count_used d c = ids (cext d @ cntResInfo blk # (map cntResInfo blks @ ?R))"
    and led: "ledger_ok (cext d @ cntResInfo blk # (map cntResInfo blks @ ?R))"
    using inv(2,3) by (simp_all add: held_Cons)
  have "block_ids (cntResInfo blk) \<noteq> {}"
    using led by (simp add: ledger_ok_append block_ids_def)
  then have on: "compDieFlags c ! d"
    using count_used_enabled [OF inv(1), of d] used by auto
  let ?c1 = "snd (CcuResetTotalCntXn chan os d (blockIdx blk) c)"
  note rs = CcuResetTotalCntXn_held [OF inv(1) v2 assms(2) on, of chan "blockIdx blk"]
  have c1: "comp_inv ?c1" "count_used d ?c1 = ids (cext d @ cntResInfo blk # (map cntResInfo blks @ ?R))"
    using rs used by (auto simp: cnt_frame_def)
  obtain c2 where c2: "CcuReleaseCntXn os d (cntResInfo blk) ?c1 = (CCU_SUCCESS, c2)" "cnt_frame ?c1 c2"
    "usedTotalCntXnFlags c2 = usedTotalCntXnFlags ?c1" "count_used d c2 = ids (cext d @ (map cntResInfo blks @ ?R))"
    "ledger_ok (cext d @ (map cntResInfo blks @ ?R))" "\<forall>d'. d' \<noteq> d \<longrightarrow> count_used d' c2 = count_used d' ?c1"
    using CcuReleaseCntXn_held [OF c1(1) v2(1) c1(2) led] by metis
  have fr: "cnt_frame c c2"
    using cnt_frame_trans rs c2(2) by blast
  have tf: "total_flags d' c2 = (if d' = d then total_flags d c - {blockIdx blk} else total_flags d' c)" for d'
    using rs c2(3) by (simp add: total_flags_def)
  have "casc_inv os cext rext ((k, set_casc d blks (set_casc d (blk # blks) r)) # L) c2"
  proof (rule casc_inv_upd [OF Cons.prems fr])
    show "\<forall>d'. d' \<noteq> d \<longrightarrow> count_used d' c2 = count_used d' c \<and> total_flags d' c2 = total_flags d' c"
      using c2(6) rs tf by simp
    show "count_used d c2 = ids (cnt_held cext ((k, set_casc d blks (set_casc d (blk # blks) r)) # L) d)
        \<and> ledger_ok (cnt_held cext ((k, set_casc d blks (set_casc d (blk # blks) r)) # L) d)
        \<and> distinct (reg_held rext ((k, set_casc d blks (set_casc d (blk # blks) r)) # L) d)
        \<and> set (reg_held rext ((k, set_casc d blks (set_casc d (blk # blks) r)) # L) d) = total_flags d c2"
    proof -
      let ?I = "concat (map (\<lambda>(k, r). map blockIdx (cascCntBlock r d)) L)"
      have old: "distinct (rext d @ (blockIdx blk # map blockIdx blks) @ ?I)"
        "set (rext d @ (blockIdx blk # map blockIdx blks) @ ?I) = total_flags d c"
        using inv(4,5) by (simp_all only: held_Cons) simp_all
      have "distinct (rext d @ map blockIdx blks @ ?I)" "set (rext d @ map blockIdx blks @ ?I) = total_flags d c2"
        using distinct_remove_mid [OF old(1)] unfolding old(2) tf by simp_all
      moreover have "reg_held rext ((k, set_casc d blks (set_casc d (blk # blks) r)) # L) d = rext d @ map blockIdx blks @ ?I"
        "cnt_held cext ((k, set_casc d blks (set_casc d (blk # blks) r)) # L) d = cext d @ (map cntResInfo blks @ ?R)"
        by (simp_all add: held_Cons)
      ultimately show ?thesis
        using c2(4,5) by (simp only:)
    qed
  qed (use v2 in simp)
  then have "casc_inv os cext rext ((k, set_casc d blks r) # L) c2"
    by simp
  from Cons.IH [OF this] show ?case
    using c2(1) cnt_frame_trans [OF fr] by (simp add: Let_def)
qed

lemma ReleaseCascCntRes_inv:
  assumes "casc_inv os cext rext ((k, r) # L) c" and "ReleaseCascCntRes chan os r c = (r', c')"
  shows "casc_inv os cext rext ((k, r') # L) c' \<and> casc_frame r r' \<and> cnt_frame c c' \<and> (\<forall>d<2. cascCntBlock r' d = [])"
proof -
  let ?c1 = "ReleaseCascCnt_blocks chan os 0 (cascCntBlock r 0) c" and ?r1 = "set_casc 0 [] r"
  let ?c2 = "ReleaseCascCnt_blocks chan os 1 (cascCntBlock ?r1 1) ?c1" and ?r2 = "set_casc 1 [] ?r1"
  have eq: "r' = ?r2" "c' = ?c2"
    using assms(2) by (simp_all add: ReleaseCascCntRes_def DIES_eq)
  have same: "set_casc d (cascCntBlock x d) x = x" for d and x :: CcuResRepository
    by simp
  have 1: "casc_inv os cext rext ((k, ?r1) # L) ?c1 \<and> cnt_frame c ?c1"
    using ReleaseCascCnt_blocks_inv [where d = 0 and blks = "cascCntBlock r 0" and r = r and L = L and c = c] assms(1) same [where d = 0 and x = r] by simp
  then have "casc_inv os cext rext ((k, set_casc 1 (cascCntBlock ?r1 1) ?r1) # L) ?c1"
    using same [where d = 1 and x = ?r1] by simp
  from ReleaseCascCnt_blocks_inv [OF this, of chan] have 2: "casc_inv os cext rext ((k, ?r2) # L) ?c2 \<and> cnt_frame ?c1 ?c2"
    by simp
  show ?thesis
    unfolding eq using 1 2 cnt_frame_trans casc_frame_trans [OF casc_frame_set(2) casc_frame_set(2)]
    by (auto simp: less_2_cases_iff)
qed

end
