(* ===== verification/Batch_Handles.thy ===== *)
theory Batch_Handles
  imports Batch_Counting
begin

text \<open>
  Handles of the batch allocator. The invariant of the ledger is put together and shown to be kept by
  taking and releasing handles, also when calls of several threads interleave at the points where the lock
  is released. A ledger determines the state of every pool, so a request that fails restores them all.
\<close>

subsection \<open>The invariant\<close>

text \<open>What clients other than the repositories hold: ids, counting XN blocks, comparison registers.\<close>

record Outside =
  oSingle :: "nat \<Rightarrow> ResType \<Rightarrow> ResInfo list"
  oCount :: "nat \<Rightarrow> ResInfo list"
  oReg :: "nat \<Rightarrow> nat list"

text \<open>The ids that the block vectors cover are held as well.\<close>

definition region :: "Geometry \<Rightarrow> nat \<Rightarrow> ResType \<Rightarrow> ResInfo list" where
  "region g d t = (if gCount g d t = 0 then [] else [mk_res (gBase g d t) (gCount g d t * bsize t)])"

definition outside :: "Geometry \<Rightarrow> Outside \<Rightarrow> nat \<Rightarrow> ResType \<Rightarrow> ResInfo list" where
  "outside g x d t = region g d t @ oSingle x d t"

definition batch_inv ::
  "bool \<Rightarrow> Geometry \<Rightarrow> Outside \<Rightarrow> (nat \<times> CcuResRepository) list \<Rightarrow> CcuResBatchAllocator \<Rightarrow> CcuComponent \<Rightarrow> bool" where
  "batch_inv os g x L b c \<longleftrightarrow> blocks_inv g L b \<and> missions_inv g L (batchDieFlags b) (missionMgr b)
    \<and> singles_inv (outside g x) L c \<and> casc_inv os (oCount x) (oReg x) L c
    \<and> compDieFlags c = batchDieFlags b \<and> distinct (map fst L) \<and> 0 \<notin> fst ` set L"

subsection \<open>Joining, leaving and reordering the ledger\<close>

lemma blocks_inv_join:
  assumes "blocks_inv g L b" and "k \<noteq> 0" and "k \<notin> fst ` set L" and "\<forall>d<2. \<forall>t. repo_block t r d = []"
  shows "blocks_inv g ((k, r) # L) b"
proof -
  have "pool_ok g ((k, r) # L) b d t" if "d < 2" "t \<in> set BLOCK_TYPES" for d t
  proof -
    have "pool_ok g L b d t" "fst ` set (block_view t d L) = fst ` set L"
      using assms(1) that by (auto simp: blocks_inv_def image_image case_prod_beta)
    then show ?thesis
      using assms(2-4) that blocks.holds_join [of _ _ _ _ _ "block_view t d L" k] by (auto simp: pool_ok_def)
  qed
  then show ?thesis
    using assms(1) by (simp add: blocks_inv_def)
qed

lemma blocks_inv_leave:
  assumes "blocks_inv g ((k, r) # L) b" and "\<forall>d<2. \<forall>t. repo_block t r d = []"
  shows "blocks_inv g L b"
proof -
  have "pool_ok g L b d t" if "d < 2" "t \<in> set BLOCK_TYPES" for d t
  proof -
    have "pool_ok g ((k, r) # L) b d t"
      using assms(1) that by (simp add: blocks_inv_def)
    then show ?thesis
      using assms(2) that blocks.holds_leave [of _ _ _ _ _ k "block_view t d L"] by (auto simp: pool_ok_def)
  qed
  then show ?thesis
    using assms(1) by (simp add: blocks_inv_def)
qed

lemma blocks_inv_perm:
  assumes "blocks_inv g L b" and "mset L' = mset L"
  shows "blocks_inv g L' b"
proof -
  have "pool_ok g L' b d t" if "d < 2" "t \<in> set BLOCK_TYPES" for d t
  proof -
    have "pool_ok g L b d t"
      using assms(1) that by (simp add: blocks_inv_def)
    moreover have "mset (block_view t d L') = mset (block_view t d L)"
      using assms(2) by simp
    ultimately show ?thesis
      using mset_eq_setD [OF assms(2)] blocks.holds_perm by (auto simp: pool_ok_def)
  qed
  then show ?thesis
    using assms(1) by (simp add: blocks_inv_def)
qed

definition empty_repo :: "CcuResRepository \<Rightarrow> bool" where
  "empty_repo r \<longleftrightarrow> (\<forall>d<2. \<forall>t. repo_block t r d = []) \<and> (\<forall>d<2. \<forall>t\<in>set BLOCK_TYPES. repo_single t r d = [])
    \<and> (\<forall>d<2. cascCntBlock r d = []) \<and> (\<forall>d<2. mission (repoMission r) d = [])"

lemma empty_repo_new [simp]: "empty_repo CcuResRepository_new"
  by (simp add: empty_repo_def)

lemma empty_repo_missions: "empty_repo r \<Longrightarrow> same_missions flags r \<and> mission_run flags r = []"
  by (simp add: empty_repo_def same_missions_def mission_run_def)

lemma missions_inv_join_leave:
  assumes "empty_repo r"
  shows "missions_inv g ((k, r) # L) flags m \<longleftrightarrow> k \<noteq> 0 \<and> k \<notin> fst ` set L \<and> missions_inv g L flags m"
proof -
  have "fst ` set (mission_view flags L) = fst ` set L"
    by (auto simp: image_image case_prod_beta)
  then show ?thesis
    using empty_repo_missions [OF assms, of flags] by (auto simp: missions_inv_def pool_holds_Nil)
qed

lemma missions_inv_perm:
  assumes "missions_inv g L flags m" and "mset L' = mset L"
  shows "missions_inv g L' flags m"
proof -
  have "mset (mission_view flags L') = mset (mission_view flags L)"
    using assms(2) by simp
  then show ?thesis
    using assms(1) mset_eq_setD [OF assms(2)] blocks.holds_perm unfolding missions_inv_def by metis
qed

lemma singles_inv_empty:
  assumes "empty_repo r"
  shows "singles_inv ext ((k, r) # L) c \<longleftrightarrow> singles_inv ext L c"
  using assms by (simp add: singles_inv_def single_held_def empty_repo_def)

lemma casc_inv_empty:
  assumes "empty_repo r"
  shows "casc_inv os cext rext ((k, r) # L) c \<longleftrightarrow> casc_inv os cext rext L c"
  using assms by (simp add: casc_inv_def cnt_held_def reg_held_def empty_repo_def)

lemma ledger_ok_perm: "mset xs = mset ys \<Longrightarrow> ledger_ok xs = ledger_ok ys \<and> ids xs = ids ys"
proof -
  assume eq: "mset xs = mset ys"
  have "sum_list (map num xs) = sum_list (map num ys)"
    using arg_cong [OF eq, of "\<lambda>m. sum_mset (image_mset num m)"] by (simp add: sum_mset_sum_list [symmetric])
  then show ?thesis
    using mset_eq_setD [OF eq] by (simp add: ledger_ok_def ids_def)
qed

lemma mset_concat_perm: "mset L' = mset L \<Longrightarrow> mset (concat (map f L')) = mset (concat (map f L))"
  by (simp add: mset_concat sum_mset_sum_list [symmetric] flip: map_map)

lemma singles_inv_perm:
  assumes "singles_inv ext L c" and "mset L' = mset L"
  shows "singles_inv ext L' c"
proof -
  have "mset (single_held ext L' d t) = mset (single_held ext L d t)" for d t
    using mset_concat_perm [OF assms(2)] by (simp add: single_held_def)
  note eq = ledger_ok_perm [OF this]
  show ?thesis
    using assms(1) unfolding singles_inv_def by (simp add: eq)
qed

lemma casc_inv_perm:
  assumes "casc_inv os cext rext L c" and "mset L' = mset L"
  shows "casc_inv os cext rext L' c"
proof -
  have "mset (cnt_held cext L' d) = mset (cnt_held cext L d)" and r: "mset (reg_held rext L' d) = mset (reg_held rext L d)" for d
    using mset_concat_perm [OF assms(2)] by (simp_all add: cnt_held_def reg_held_def)
  note eq = ledger_ok_perm [OF this(1)] mset_eq_setD [OF r] mset_eq_imp_distinct_iff [OF r] mset_eq_setD [OF assms(2)]
  show ?thesis
    using assms(1) unfolding casc_inv_def by (simp add: eq)
qed

lemma batch_inv_join:
  assumes "batch_inv os g x L b c" and "k \<noteq> 0" and "k \<notin> fst ` set L" and "empty_repo r"
  shows "batch_inv os g x ((k, r) # L) b c"
  using assms blocks_inv_join [of g L b k r] missions_inv_join_leave [OF assms(4)] singles_inv_empty [OF assms(4)]
    casc_inv_empty [OF assms(4)]
  by (simp add: batch_inv_def empty_repo_def)

lemma batch_inv_leave:
  assumes "batch_inv os g x ((k, r) # L) b c" and "empty_repo r"
  shows "batch_inv os g x L b c"
  using assms blocks_inv_leave [of g k r L b] missions_inv_join_leave [OF assms(2)] singles_inv_empty [OF assms(2)]
    casc_inv_empty [OF assms(2)]
  by (simp add: batch_inv_def empty_repo_def)

lemma batch_inv_perm:
  assumes "batch_inv os g x L b c" and "mset L' = mset L"
  shows "batch_inv os g x L' b c"
proof -
  have "mset (map fst L') = mset (map fst L)"
    using assms(2) by simp
  then have "distinct (map fst L') = distinct (map fst L)"
    by (rule mset_eq_imp_distinct_iff)
  then show ?thesis
    using assms(1) blocks_inv_perm [OF _ assms(2)] missions_inv_perm [OF _ assms(2)] singles_inv_perm [OF _ assms(2)]
      casc_inv_perm [OF _ assms(2)] mset_eq_setD [OF assms(2)]
    unfolding batch_inv_def by metis
qed

subsection \<open>Taking and giving back a repository\<close>

definition req_u32 :: "CcuResReq \<Rightarrow> bool" where
  "req_u32 req \<longleftrightarrow> (\<forall>d<2. (\<forall>t. block_req t req d < 2 ^ 32) \<and> mreq (missionReq req) d < 2 ^ 32)"

text \<open>The parts of the invariant depend on the parts of a repository that they are about.\<close>

lemma blocks_inv_cong:
  assumes "blocks_inv g ((k, r) # L) b" and "\<forall>t. repo_block t r' = repo_block t r"
  shows "blocks_inv g ((k, r') # L) b"
proof -
  have eq: "repo_block t r' = repo_block t r" for t
    using assms(2) by blast
  have "pool_ok g ((k, r') # L) b d t = pool_ok g ((k, r) # L) b d t" for d t
    by (simp add: pool_ok_def eq)
  then show ?thesis
    using assms(1) by (simp add: blocks_inv_def)
qed

lemma missions_inv_cong:
  assumes "missions_inv g ((k, r) # L) f m" and "repoMission r' = repoMission r"
  shows "missions_inv g ((k, r') # L) f m"
proof -
  have "mission_run f r' = mission_run f r" "same_missions f r' = same_missions f r"
    using assms(2) by (simp_all add: mission_run_def same_missions_def)
  then show ?thesis
    using assms(1) by (simp add: missions_inv_def)
qed

lemma singles_inv_cong:
  "singles_inv ext ((k, r) # L) c \<Longrightarrow> \<forall>t. repo_single t r' = repo_single t r \<Longrightarrow> singles_inv ext ((k, r') # L) c"
  by (simp add: singles_inv_def single_held_def)

lemma casc_inv_cong:
  "casc_inv os cext rext ((k, r) # L) c \<Longrightarrow> cascCntBlock r' = cascCntBlock r \<Longrightarrow> casc_inv os cext rext ((k, r') # L) c"
  by (simp add: casc_inv_def cnt_held_def reg_held_def)

lemma casc_inv_comp_frame: "casc_inv os cext rext L c \<Longrightarrow> comp_frame c c' \<Longrightarrow> comp_inv c' \<Longrightarrow> casc_inv os cext rext L c'"
  by (simp add: casc_inv_def comp_frame_def total_flags_def)

lemma blocks_inv_mission: "blocks_inv g L (b\<lparr>missionMgr := m\<rparr>) = blocks_inv g L b"
  by (simp add: blocks_inv_def pool_ok_def)

lemma pools_of_discrete: "pools_of (List.product DIES [ResType_XN])" "pools_of (List.product DIES DISCRETE_TYPES)"
  by (simp_all add: pools_of_def DIES_eq BLOCK_TYPES_def DISCRETE_TYPES_def)

text \<open>The stages of \<open>TryAllocResHandle\<close> and of \<open>ReleaseResource\<close>, each keeping the whole invariant.\<close>

definition keeps_handles :: "CcuResBatchAllocator \<Rightarrow> CcuResBatchAllocator \<Rightarrow> bool" where
  "keeps_handles b b' \<longleftrightarrow> handleMap b' = handleMap b \<and> batchDieFlags b' = batchDieFlags b
    \<and> maxResBlockNums b' = maxResBlockNums b \<and> batchInitFlag b' = batchInitFlag b"

lemma stage_blocks:
  assumes "batch_inv os g x ((k, r) # L) b c" and "\<forall>d<2. \<forall>t. repo_block t r d = []" and "req_u32 req"
    and "AllocBlockRes k req r b = (ret, r', b')"
  shows "batch_inv os g x ((k, r') # L) b' c \<and> block_frame r r' \<and> keeps_handles b b'"
proof -
  have "\<forall>(d, t)\<in>set (List.product DIES BLOCK_TYPES). repo_block t r d = [] \<and> block_req t req d < 2 ^ 32"
    using assms(2,3) by (auto simp: DIES_eq req_u32_def)
  then have "blocks_inv g ((k, r') # L) b'" and fr: "block_frame r r'" "batch_frame b b'"
    using AllocBlockRes_loop_inv [OF _ pools_of_all, of g k r L b req ret r' b'] assms(1,4)
    by (simp_all add: AllocBlockRes_def batch_inv_def)
  then show ?thesis
    using assms(1) missions_inv_cong [of g k r L] singles_inv_cong [of _ k r L c r'] casc_inv_cong [of os _ _ k r L c r']
    by (auto simp: batch_inv_def block_frame_def batch_frame_def keeps_handles_def)
qed

lemma stage_missions:
  assumes "batch_inv os g x ((k, r) # L) b c" and "mission_run (batchDieFlags b) r = []" and "req_u32 req"
    and "CcuMissionMgr_Alloc k (missionReq req) (repoMission r) (missionMgr b) = (ret, q, m)"
  shows "batch_inv os g x ((k, r\<lparr>repoMission := q\<rparr>) # L) (b\<lparr>missionMgr := m\<rparr>) c"
proof -
  have "missions_inv g ((k, r\<lparr>repoMission := q\<rparr>) # L) (batchDieFlags b) m"
    using CcuMissionMgr_Alloc_inv [OF _ assms(2) _ _ assms(4)] assms(1,3) by (simp add: batch_inv_def req_u32_def)
  then show ?thesis
    using assms(1) blocks_inv_cong [of g k r L b "r\<lparr>repoMission := q\<rparr>"] singles_inv_cong [of _ k r L c "r\<lparr>repoMission := q\<rparr>"]
      casc_inv_cong [of os _ _ k r L c "r\<lparr>repoMission := q\<rparr>"]
    by (simp add: batch_inv_def blocks_inv_mission)
qed

lemma stage_singles:
  assumes "batch_inv os g x ((k, r) # L) b c" and "pools_of dts" and "\<forall>(d, t)\<in>set dts. repo_single t r d = []"
    and "AllocSingle_loop consecutive req flags dts r c = (ret, r', c')"
  shows "batch_inv os g x ((k, r') # L) b c' \<and> single_frame r r' \<and> comp_frame c c'
    \<and> (\<forall>d t. (d, t) \<notin> set dts \<longrightarrow> repo_single t r' d = repo_single t r d)"
proof -
  have s: "singles_inv (outside g x) ((k, r') # L) c'" "single_frame r r'" "comp_frame c c'"
    "\<forall>d t. (d, t) \<notin> set dts \<longrightarrow> repo_single t r' d = repo_single t r d"
    using AllocSingle_loop_inv [OF _ assms(2,3,4)] assms(1) unfolding batch_inv_def by blast+
  have "comp_inv c'"
    using s(1) by (simp add: singles_inv_def)
  then have "casc_inv os (oCount x) (oReg x) ((k, r') # L) c'"
    using assms(1) s(2,3) casc_inv_cong [of os _ _ k r L c r'] casc_inv_comp_frame unfolding batch_inv_def single_frame_def by blast
  then show ?thesis
    using assms(1) s blocks_inv_cong [of g k r L b r'] missions_inv_cong [of g k r L _ _ r']
    by (auto simp: batch_inv_def single_frame_def comp_frame_def)
qed

lemma stage_counting:
  assumes "batch_inv os g x ((k, r) # L) b c" and "casc_inv os (oCount x) (oReg x) ((k, r') # L) c'"
    and "casc_frame r r'" and "cnt_frame c c'"
  shows "batch_inv os g x ((k, r') # L) b c'"
  using assms blocks_inv_cong [of g k r L b r'] missions_inv_cong [of g k r L _ _ r']
    singles_inv_cong [OF cnt_frame_singles, of _ k r L c c' r']
  by (auto simp: batch_inv_def casc_frame_def cnt_frame_def)

lemma TryAllocResHandle_inv:
  assumes inv: "batch_inv os g x ((k, CcuResRepository_new) # L) b c" and req: "req_u32 req"
    and call: "TryAllocResHandle chan os specs k req CcuResRepository_new b c = (ret, r', b', c')"
  shows "batch_inv os g x ((k, r') # L) b' c' \<and> keeps_handles b b'"
proof -
  obtain e1 r1 b1 where a1: "AllocBlockRes k req CcuResRepository_new b = (e1, r1, b1)"
    by (metis prod_cases3)
  have 1: "batch_inv os g x ((k, r1) # L) b1 c" "block_frame CcuResRepository_new r1" "keeps_handles b b1"
    using stage_blocks [OF inv _ req a1] by simp_all
  obtain e2 q m where a2: "CcuMissionMgr_Alloc k (missionReq req) (repoMission r1) (missionMgr b1) = (e2, q, m)"
    by (metis prod_cases3)
  let ?r2 = "r1\<lparr>repoMission := q\<rparr>" and ?b2 = "b1\<lparr>missionMgr := m\<rparr>"
  have "mission_run (batchDieFlags b1) r1 = []"
    using 1(2) by (simp add: block_frame_def mission_run_def)
  then have 2: "batch_inv os g x ((k, ?r2) # L) ?b2 c"
    by (rule stage_missions [OF 1(1) _ req a2])
  have kh: "keeps_handles b ?b2"
    using 1(3) by (simp add: keeps_handles_def)
  have r2: "\<forall>t d. repo_single t ?r2 d = []"
    using 1(2) by (simp add: block_frame_def)
  obtain e3 r3 c3 where a3: "AllocConsecutiveRes req (batchDieFlags ?b2) ?r2 c = (e3, r3, c3)"
    by (metis prod_cases3)
  have 3: "batch_inv os g x ((k, r3) # L) ?b2 c3"
    "\<forall>d t. (d, t) \<notin> set (List.product DIES [ResType_XN]) \<longrightarrow> repo_single t r3 d = repo_single t ?r2 d"
    using stage_singles [OF 2 pools_of_discrete(1) _ a3 [unfolded AllocConsecutiveRes_def]] r2 by blast+
  obtain e4 r4 c4 where a4: "AllocDiscreteRes req (batchDieFlags ?b2) r3 c3 = (e4, r4, c4)"
    by (metis prod_cases3)
  have "\<forall>(d, t)\<in>set (List.product DIES DISCRETE_TYPES). repo_single t r3 d = []"
  proof -
    have "repo_single t r3 d = []" if "t \<noteq> ResType_XN" for t d
      using 3(2) r2 that by simp
    then show ?thesis
      by (force simp: DISCRETE_TYPES_def simp del: repo_single.simps)
  qed
  then have 4: "batch_inv os g x ((k, r4) # L) ?b2 c4"
    using stage_singles [OF 3(1) pools_of_discrete(2) _ a4 [unfolded AllocDiscreteRes_def]] by blast
  obtain e5 r5 c5 where a5: "AllocCascCntRes chan os specs req r4 c4 = (e5, r5, c5)"
    by (metis prod_cases3)
  have "casc_inv os (oCount x) (oReg x) ((k, r5) # L) c5 \<and> casc_frame r4 r5 \<and> cnt_frame c4 c5"
    using AllocCascCntRes_loop_inv [OF _ _ a5 [unfolded AllocCascCntRes_def], of "oCount x" "oReg x" k L] 4
    by (simp add: batch_inv_def DIES_eq)
  then have 5: "batch_inv os g x ((k, r5) # L) ?b2 c5"
    using stage_counting [OF 4] by blast
  have "(r' = r1 \<and> b' = b1 \<and> c' = c) \<or> (b' = ?b2 \<and> (r' = ?r2 \<and> c' = c \<or> r' = r3 \<and> c' = c3 \<or> r' = r4 \<and> c' = c4 \<or> r' = r5 \<and> c' = c5))"
    using call a1 a2 a3 a4 a5 unfolding TryAllocResHandle_def by (auto simp: Let_def split: if_splits)
  then show ?thesis
    using 1 2 3(1) 4 5 kh by auto
qed

lemma ReleaseResource_inv:
  assumes inv: "batch_inv os g x ((k, r) # L) b c"
    and call: "ReleaseResource chan os r b c = (ret, r', b', c')"
  shows "ret = HCCL_SUCCESS \<and> empty_repo r' \<and> batch_inv os g x L b' c' \<and> keeps_handles b b'"
proof -
  obtain r1 c1 where a1: "ReleaseCascCntRes chan os r c = (r1, c1)"
    by fastforce
  have s1: "casc_inv os (oCount x) (oReg x) ((k, r1) # L) c1" "casc_frame r r1" "cnt_frame c c1" "\<forall>d<2. cascCntBlock r1 d = []"
    using ReleaseCascCntRes_inv [OF _ a1] inv unfolding batch_inv_def by blast+
  have 1: "batch_inv os g x ((k, r1) # L) b c1"
    by (rule stage_counting [OF inv s1(1-3)])
  obtain r2 b2 where a2: "ReleaseBlockResource r1 b = (r2, b2)"
    by fastforce
  have s2: "blocks_inv g ((k, r2) # L) b2" "block_frame r1 r2" "batch_frame b b2"
    "\<forall>d t. repo_block t r2 d = (if (d, t) \<in> set (List.product DIES BLOCK_TYPES) then [] else repo_block t r1 d)"
    using ReleaseBlockResource_loop_inv [OF _ pools_of_all a2 [unfolded ReleaseBlockResource_def]] 1
    unfolding batch_inv_def by blast+
  have 2: "batch_inv os g x ((k, r2) # L) b2 c1"
    using 1 s2(1-3) missions_inv_cong [of g k r1 L _ _ r2] singles_inv_cong [of _ k r1 L c1 r2] casc_inv_cong [of os _ _ k r1 L c1 r2]
    by (auto simp: batch_inv_def block_frame_def batch_frame_def)
  obtain q m where a3: "CcuMissionMgr_Release (repoMission r2) (missionMgr b2) = (q, m)"
    by fastforce
  let ?r3 = "r2\<lparr>repoMission := q\<rparr>" and ?b3 = "b2\<lparr>missionMgr := m\<rparr>"
  have "missions_inv g ((k, ?r3) # L) (batchDieFlags b2) m"
    using CcuMissionMgr_Release_inv [OF _ a3, of g k L "batchDieFlags b2"] 2 by (simp add: batch_inv_def)
  then have 3: "batch_inv os g x ((k, ?r3) # L) ?b3 c1"
    using 2 blocks_inv_cong [of g k r2 L b2 ?r3] singles_inv_cong [of _ k r2 L c1 ?r3] casc_inv_cong [of os _ _ k r2 L c1 ?r3]
    by (simp add: batch_inv_def blocks_inv_mission)
  have mission: "\<forall>d<2. mission q d = []"
    using a3 by (auto simp: CcuMissionMgr_Release_def mission_clear_fold)
  obtain e r4 c4 where a4: "ReleaseNonBlockTypeRes (batchDieFlags b2) ?r3 c1 = (e, r4, c4)"
    by (metis prod_cases3)
  have s4: "e = HCCL_SUCCESS" "singles_inv (outside g x) ((k, r4) # L) c4" "single_frame ?r3 r4" "comp_frame c1 c4"
    "\<forall>d t. repo_single t r4 d = (if (d, t) \<in> set (List.product DIES BLOCK_TYPES) then [] else repo_single t ?r3 d)"
    using ReleaseNonBlock_loop_inv [OF _ _ pools_of_all a4 [unfolded ReleaseNonBlockTypeRes_def]] 3
    unfolding batch_inv_def by auto
  have "casc_inv os (oCount x) (oReg x) ((k, r4) # L) c4"
    using 3 s4(2,3,4) casc_inv_cong [of os _ _ k ?r3 L c1 r4] casc_inv_comp_frame
    unfolding batch_inv_def single_frame_def singles_inv_def by blast
  then have 4: "batch_inv os g x ((k, r4) # L) ?b3 c4"
    using 3 s4 blocks_inv_cong [of g k ?r3 L ?b3 r4] missions_inv_cong [of g k ?r3 L _ _ r4]
    by (auto simp: batch_inv_def single_frame_def comp_frame_def)
  have "repo_block t r4 d = []" if "d < 2" for t d
  proof (cases "t \<in> set BLOCK_TYPES")
    case True
    then show ?thesis
      using that s2(4) s4(3) by (auto simp: single_frame_def DIES_eq less_2_cases_iff)
  qed (cases t, auto simp: BLOCK_TYPES_def)
  moreover have "repo_single t r4 d = []" if "d < 2" "t \<in> set BLOCK_TYPES" for t d
    using that s4(5) by (auto simp: DIES_eq less_2_cases_iff)
  moreover have "cascCntBlock r4 d = []" "mission (repoMission r4) d = []" if "d < 2" for d
    using that s1(4) s2(2) s4(3) mission by (simp_all add: block_frame_def single_frame_def)
  ultimately have empty: "empty_repo r4"
    by (simp add: empty_repo_def)
  have "ret = e" "r' = r4" "b' = ?b3" "c' = c4"
    using call a1 a2 a3 a4 by (auto simp: ReleaseResource_def)
  then show ?thesis
    using s4(1) empty batch_inv_leave [OF 4 empty] s2(3) by (simp add: keeps_handles_def batch_frame_def)
qed

end
