(* ===== verification/Batch_Init.thy ===== *)
theory Batch_Init
  imports Batch_Handles
begin

text \<open>
  Initialisation of the batch allocator establishes the invariant of the ledger: the ids that it takes from the
  component and cuts into blocks are accounted for, the numbers reserved for single requests stay behind, and
  no handle is live.
\<close>

subsection \<open>One consecutive request to the component\<close>

lemma AllocRes_run:
  assumes "comp_inv c" and "CcuComponent_AllocRes d t n True c = (HCCL_SUCCESS, ns, c')"
  obtains s where "ns = [mk_res s n]" and "s + n < 2 ^ 32" and "0 < n" and "d < 2" and "compDieFlags c ! d"
    and "die_used d t c' = die_used d t c \<union> {s ..< s + n}" and "{s ..< s + n} \<inter> die_used d t c = {}"
proof -
  obtain a where a: "CcuResAllocator_Alloc t n True (die_alloc d c) = (HCCL_SUCCESS, ns, a)" "d < 2" "compDieFlags c ! d"
    using AllocRes_success [OF assms] .
  let ?p = "pool_of t (die_alloc d c)"
  obtain a' where a': "Alloc n True ?p = (HCCL_SUCCESS, ns, a')"
    using typed_alloc_success [OF die_alloc_inv [OF assms(1)] a(1)] .
  have p: "alloc_inv ?p"
    by (rule pool_inv [OF die_alloc_inv [OF assms(1)]])
  then have poss: "alloc_possible n True ?p"
    using Alloc_fail [OF p, of n True] a' by (cases "alloc_possible n True ?p") (auto split: if_splits)
  obtain ns' where "ns' = ns" "sum_list (map num ns') = n" "length ns' = 1" "\<forall>r\<in>set ns'. 0 < num r \<and> block_end r \<le> capacity ?p"
    using a' by (rule_tac Alloc_ok [OF p poss]) auto
  then obtain r where r: "ns = [r]" "num r = n" "0 < n" "block_end r \<le> capacity ?p"
    by (auto simp: length_Suc_conv)
  have "startId r + n < 2 ^ 32"
    using r p by (auto simp: alloc_inv_def)
  moreover have "die_used d t c' = die_used d t c \<union> ids ns" "ids ns \<inter> die_used d t c = {}"
    using comp.alloc_grants [OF assms] by auto
  moreover have "ids ns = {startId r ..< startId r + n}"
    using r by (auto simp: block_ids_def)
  moreover have "ns = [mk_res (startId r) n]"
    using r by simp
  ultimately show thesis
    using that r(3) a(2,3) by metis
qed

subsection \<open>The blocks of one pool\<close>

definition set_region :: "nat \<Rightarrow> ResType \<Rightarrow> nat \<Rightarrow> nat \<Rightarrow> Geometry \<Rightarrow> Geometry" where
  "set_region d t s n g = g\<lparr>gBase := (gBase g)(d := (gBase g d)(t := s)), gCount := (gCount g)(d := (gCount g d)(t := n))\<rparr>"

lemma set_region_sel [simp]:
  "gBase (set_region d t s n g) d' t' = (if d' = d \<and> t' = t then s else gBase g d' t')"
  "gCount (set_region d t s n g) d' t' = (if d' = d \<and> t' = t then n else gCount g d' t')"
  "gMissionBase (set_region d t s n g) = gMissionBase g" "gMissionCount (set_region d t s n g) = gMissionCount g"
  "gAvoid (set_region d t s n g) = gAvoid g"
  by (auto simp: set_region_def)

text \<open>The blocks that initialisation builds are the vector without owners.\<close>

lemma prealloc_vec:
  assumes "s + n * sz < 2 ^ 32" and "\<And>i. rsv i \<longleftrightarrow> avoid \<and> i mod CCUA_NUM = 0"
  shows "map (prealloc_block avoid s sz) [0..<n] = block_vec s sz n rsv (\<lambda>_. 0)"
proof (rule nth_equalityI)
  fix i assume "i < length (map (prealloc_block avoid s sz) [0..<n])"
  then have i: "i < n"
    by simp
  then have le: "i * sz \<le> n * sz"
    by simp
  have "u32_mul i sz = i * sz"
    using le assms(1) by (intro u32_mul_exact) linarith
  moreover have "u32_add s (i * sz) = s + i * sz"
    using le assms(1) by (intro u32_add_exact) linarith
  ultimately show "map (prealloc_block avoid s sz) [0..<n] ! i = block_vec s sz n rsv (\<lambda>_. 0) ! i"
    using i assms(2) by (simp add: prealloc_block_def block_at_def)
qed simp

lemma vec_holds: "0 < sz \<Longrightarrow> s + n * sz < 2 ^ 32 \<Longrightarrow> pool_holds s sz n rsv (block_vec s sz n rsv (\<lambda>_. 0)) []"
  by (auto simp: pool_holds_def owner_map_def)

text \<open>While initialisation runs, the pools not yet cut count as empty vectors.\<close>

definition init_inv :: "Geometry \<Rightarrow> Outside \<Rightarrow> CcuResBatchAllocator \<Rightarrow> CcuComponent \<Rightarrow> bool" where
  "init_inv g x b c \<longleftrightarrow> blocks_inv g [] b \<and> singles_inv (outside g x) [] c \<and> compDieFlags c = batchDieFlags b"

lemma bsize_pos: "t \<in> set BLOCK_TYPES \<Longrightarrow> 0 < bsize t"
  by (auto simp: BLOCK_TYPES_def CcuBlockResStrategy_default_def)

lemma init_inv_cut:
  assumes inv: "init_inv g x b c" and t: "t \<in> set BLOCK_TYPES" and fresh: "gCount g d t = 0"
    and call: "CcuComponent_AllocRes d t (n * bsize t) True c = (HCCL_SUCCESS, ns, c')"
    and avoid: "avoid \<longleftrightarrow> gAvoid g \<and> d = 0 \<and> t = ResType_MS"
  shows "init_inv (set_region d t (startId (ns ! 0)) n g) x
      (set_blocks d t (map (prealloc_block avoid (startId (ns ! 0)) (bsize t)) [0..<n]) b) c'"
proof -
  have ci: "comp_inv c"
    using inv by (simp add: init_inv_def singles_inv_def)
  obtain s where s: "ns = [mk_res s (n * bsize t)]" "s + n * bsize t < 2 ^ 32" "0 < n * bsize t" "d < 2" "compDieFlags c ! d"
    "die_used d t c' = die_used d t c \<union> {s ..< s + n * bsize t}" "{s ..< s + n * bsize t} \<inter> die_used d t c = {}"
    using AllocRes_run [OF ci call] .
  let ?g = "set_region d t s n g" and ?bl = "block_vec s (bsize t) n (kept_back g d t) (\<lambda>_. 0)"
  have kb: "kept_back ?g = kept_back g"
    by (simp add: kept_back_def fun_eq_iff)
  have bl: "map (prealloc_block avoid s (bsize t)) [0..<n] = ?bl"
    by (rule prealloc_vec [OF s(2)]) (simp add: kept_back_def avoid)
  have b: "blocks_inv ?g [] (set_blocks d t ?bl b)"
  proof -
    have "pool_ok ?g [] (set_blocks d t ?bl b) d' t'" if "d' < 2" "t' \<in> set BLOCK_TYPES" for d' t'
    proof (cases "(d', t') = (d, t)")
      case True
      then show ?thesis
        using vec_holds [OF bsize_pos [OF t] s(2)] by (simp add: pool_ok_def kb)
    next
      case False
      have "pool_ok g [] b d' t'"
        using inv that by (simp add: init_inv_def blocks_inv_def)
      then show ?thesis
        using False by (simp add: pool_ok_def kb) auto
    qed
    then show ?thesis
      using inv by (simp add: init_inv_def blocks_inv_def)
  qed
  have one: "one_pool d t c c'"
    using AllocRes_one_pool [OF ci, of d t "n * bsize t" True] call by simp
  have c: "singles_inv (outside ?g x) [] c'"
  proof -
    have "die_used d' t' c' = ids (outside ?g x d' t') \<and> ledger_ok (outside ?g x d' t')" if "d' < 2" "t' \<in> set BLOCK_TYPES" for d' t'
    proof -
      have old: "die_used d' t' c = ids (outside g x d' t')" "ledger_ok (outside g x d' t')"
        using inv that by (simp_all add: init_inv_def singles_inv_def single_held_def)
      show ?thesis
      proof (cases "(d', t') = (d, t)")
        case True
        then have "outside ?g x d' t' = mk_res s (n * bsize t) # oSingle x d t" "outside g x d' t' = oSingle x d t"
          using s(3) fresh by (auto simp: outside_def region_def)
        then show ?thesis
          using old s(3,6,7) True by (simp add: block_ids_def Un_commute)
      next
        case False
        then have "outside ?g x d' t' = outside g x d' t'"
          by (auto simp: outside_def region_def)
        then show ?thesis
          using old one False by (simp add: one_pool_def)
      qed
    qed
    then show ?thesis
      using one by (simp add: singles_inv_def single_held_def one_pool_def)
  qed
  show ?thesis
    using b c inv one bl s(1) by (simp add: init_inv_def one_pool_def)
qed

subsection \<open>All pools\<close>

lemma part_div_bound: "unat n - m < 2 ^ 32" "unat n div k * k < 2 ^ 32" "(unat n - m) div k * k < 2 ^ 32" for n :: u32
proof -
  have n: "unat n < 2 ^ 32"
    using unsigned_less [of n] by simp
  then show "unat n - m < 2 ^ 32"
    by simp
  show "unat n div k * k < 2 ^ 32"
    using n times_div_less_eq_dividend [of k "unat n"] by (simp only: mult.commute [of _ k])
  show "(unat n - m) div k * k < 2 ^ 32"
    using n times_div_less_eq_dividend [of k "unat n - m"] by (simp only: mult.commute [of _ k])
qed

lemma max_blocks_bound:
  assumes "t \<in> set BLOCK_TYPES" and "d < 2"
  shows "max_blocks t (GetPreAllocatedMaxBlockNums specs d [CcuBlockResStrategy_default, CcuBlockResStrategy_default])
    * bsize t < 2 ^ 32"
proof -
  have s: "[CcuBlockResStrategy_default, CcuBlockResStrategy_default] ! d = CcuBlockResStrategy_default"
    using assms(2) by (auto simp: less_2_cases_iff)
  show ?thesis
    using assms(1) part_div_bound unfolding GetPreAllocatedMaxBlockNums_def s
    by (auto simp: BLOCK_TYPES_def Let_def CcuBlockResStrategy_default_def)
qed

definition same_batch :: "CcuResBatchAllocator \<Rightarrow> CcuResBatchAllocator \<Rightarrow> bool" where
  "same_batch b b' \<longleftrightarrow> batchDieFlags b' = batchDieFlags b \<and> resStrategies b' = resStrategies b \<and> missionMgr b' = missionMgr b
    \<and> handleMap b' = handleMap b \<and> batchInitFlag b' = batchInitFlag b"

lemma blocks_at_init [simp]:
  "blocks_at d t (b\<lparr>maxResBlockNums := m\<rparr>) = blocks_at d t b" "blocks_at d t (b\<lparr>batchDieFlags := f\<rparr>) = blocks_at d t b"
  "blocks_at d t (b\<lparr>batchInitFlag := i\<rparr>) = blocks_at d t b"
  by (simp_all add: blocks_at_def)

lemma blocks_inv_same:
  assumes "\<And>d t. blocks_at d t b' = blocks_at d t b" and "batchDieFlags b' = batchDieFlags b" and "resStrategies b' = resStrategies b"
  shows "blocks_inv g L b' = blocks_inv g L b"
  by (simp add: blocks_inv_def pool_ok_def assms)

lemma PreAllocBlockRes_types_inv:
  assumes "init_inv g x b c" and "set types \<subseteq> set BLOCK_TYPES" and "distinct types" and "d < 2"
    and "\<forall>t\<in>set types. gCount g d t = 0" and "gAvoid g \<longleftrightarrow> serveMode specs = ARMX86"
    and "maxResBlockNums b = GetPreAllocatedMaxBlockNums specs d (resStrategies b)"
    and "PreAllocBlockRes_types specs d types b c = (HCCL_SUCCESS, b', c')"
  shows "\<exists>g'. init_inv g' x b' c' \<and> gAvoid g' = gAvoid g \<and> (\<forall>d' t. d' \<noteq> d \<longrightarrow> gCount g' d' t = gCount g d' t)
    \<and> same_batch b b' \<and> comp_frame c c'
    \<and> (\<forall>t. gCount g' d t = (if t \<in> set types then max_blocks t (maxResBlockNums b) else gCount g d t))"
  using assms
proof (induction types arbitrary: g b c)
  case Nil
  then show ?case
    by (auto simp: same_batch_def)
next
  case (Cons t types)
  have t: "t \<in> set BLOCK_TYPES" and rest: "set types \<subseteq> set BLOCK_TYPES" "distinct types" "t \<notin> set types"
    using Cons.prems(2,3) by auto
  have strat: "resStrategies b = [CcuBlockResStrategy_default, CcuBlockResStrategy_default]" "resStrategies b ! d = CcuBlockResStrategy_default"
    using Cons.prems(1,4) by (auto simp: init_inv_def blocks_inv_def less_2_cases_iff)
  let ?n = "max_blocks t (maxResBlockNums b)"
  have req: "u32_mul ?n (block_size t (resStrategies b ! d)) = ?n * bsize t"
    using u32_mul_exact [OF max_blocks_bound [OF t Cons.prems(4)]] by (simp add: Cons.prems(7) strat(2) flip: strat(1))
  show ?case
  proof (cases "?n * bsize t = 0")
    case True
    then have n: "?n = 0"
      using bsize_pos [OF t] by simp
    have "PreAllocBlockRes_types specs d types b c = (HCCL_SUCCESS, b', c')"
      using Cons.prems(8) True req by simp
    then obtain g' where g': "init_inv g' x b' c'" "gAvoid g' = gAvoid g" "\<forall>d' t. d' \<noteq> d \<longrightarrow> gCount g' d' t = gCount g d' t"
      "same_batch b b'" "comp_frame c c'" "\<forall>t. gCount g' d t = (if t \<in> set types then max_blocks t (maxResBlockNums b) else gCount g d t)"
      using Cons.IH [OF Cons.prems(1) rest(1,2) Cons.prems(4) _ Cons.prems(6,7)] Cons.prems(5) by auto
    moreover have "gCount g d t = 0"
      using Cons.prems(5) by simp
    ultimately show ?thesis
      using n rest(3) by (intro exI [of _ g']) auto
  next
    case False
    obtain e ns c1 where call: "CcuComponent_AllocRes d t (?n * bsize t) True c = (e, ns, c1)"
      by (metis prod_cases3)
    have e: "e = HCCL_SUCCESS"
      using Cons.prems(8) False call req by (auto simp: Let_def split: if_splits)
    let ?avoid = "serveMode specs = ARMX86 \<and> d = 0 \<and> t = ResType_MS"
    let ?b = "set_blocks d t (map (prealloc_block ?avoid (startId (ns ! 0)) (bsize t)) [0..<?n]) b"
    let ?g = "set_region d t (startId (ns ! 0)) ?n g"
    have inv: "init_inv ?g x ?b c1"
      using Cons.prems(1,5,6) call e by (intro init_inv_cut [OF _ t]) auto
    have "PreAllocBlockRes_types specs d types ?b c1 = (HCCL_SUCCESS, b', c')"
      using Cons.prems(8) False call req e strat(2) by (simp add: Let_def)
    moreover have "\<forall>t'\<in>set types. gCount ?g d t' = 0" "gAvoid ?g \<longleftrightarrow> serveMode specs = ARMX86"
      "maxResBlockNums ?b = GetPreAllocatedMaxBlockNums specs d (resStrategies ?b)"
      using Cons.prems(5,6,7) rest(3) by auto
    ultimately obtain g' where g': "init_inv g' x b' c'" "gAvoid g' = gAvoid ?g" "\<forall>d' t. d' \<noteq> d \<longrightarrow> gCount g' d' t = gCount ?g d' t"
      "same_batch ?b b'" "comp_frame c1 c'" "\<forall>t. gCount g' d t = (if t \<in> set types then max_blocks t (maxResBlockNums ?b) else gCount ?g d t)"
      using Cons.IH [OF inv rest(1,2) Cons.prems(4)] by blast
    have "comp_inv c"
      using Cons.prems(1) by (simp add: init_inv_def singles_inv_def)
    then have "comp_frame c c1"
      using AllocRes_one_pool [of c d t "?n * bsize t" True] call one_pool_comp_frame t by simp
    then show ?thesis
      using g' comp_frame_trans [of c c1 c'] rest(3) by (intro exI [of _ g']) (auto simp: same_batch_def)
  qed
qed

lemma PreAllocBlockRes_dies_inv:
  assumes "init_inv g x b c" and "set dies \<subseteq> {0, 1}" and "distinct dies" and "\<forall>d\<in>set dies. \<forall>t. gCount g d t = 0"
    and "gAvoid g \<longleftrightarrow> serveMode specs = ARMX86" and "PreAllocBlockRes_dies specs dies b c = (HCCL_SUCCESS, b', c')"
  shows "\<exists>g'. init_inv g' x b' c' \<and> gAvoid g' = gAvoid g \<and> same_batch b b' \<and> comp_frame c c'
    \<and> (\<forall>d t. gCount g' d t = (if d \<in> set dies \<and> t \<in> set BLOCK_TYPES \<and> batchDieFlags b ! d
         then max_blocks t (GetPreAllocatedMaxBlockNums specs d (resStrategies b)) else gCount g d t))"
  using assms
proof (induction dies arbitrary: g b c)
  case Nil
  then show ?case
    by (auto simp: same_batch_def)
next
  case (Cons d dies)
  have d: "d < 2" "set dies \<subseteq> {0, 1}" "distinct dies" "d \<notin> set dies"
    using Cons.prems(2,3) by auto
  show ?case
  proof (cases "batchDieFlags b ! d")
    case False
    then have "PreAllocBlockRes_dies specs dies b c = (HCCL_SUCCESS, b', c')"
      using Cons.prems(6) by simp
    then show ?thesis
      using Cons.IH [OF Cons.prems(1) d(2,3) _ Cons.prems(5)] Cons.prems(4) False d(4) by fastforce
  next
    case True
    let ?b = "b\<lparr>maxResBlockNums := GetPreAllocatedMaxBlockNums specs d (resStrategies b)\<rparr>"
    obtain e b1 c1 where call: "PreAllocBlockRes_types specs d BLOCK_TYPES ?b c = (e, b1, c1)"
      by (metis prod_cases3)
    have e: "e = HCCL_SUCCESS" and rest: "PreAllocBlockRes_dies specs dies b1 c1 = (HCCL_SUCCESS, b', c')"
      using Cons.prems(6) True call by (auto split: if_splits)
    have "init_inv g x ?b c"
      using Cons.prems(1) blocks_inv_same [of ?b b g "[]"] by (simp add: init_inv_def)
    then obtain g1 where g1: "init_inv g1 x b1 c1" "gAvoid g1 = gAvoid g" "\<forall>d' t. d' \<noteq> d \<longrightarrow> gCount g1 d' t = gCount g d' t"
      "same_batch ?b b1" "comp_frame c c1" "\<forall>t. gCount g1 d t = (if t \<in> set BLOCK_TYPES then max_blocks t (maxResBlockNums ?b) else gCount g d t)"
      using PreAllocBlockRes_types_inv [OF _ _ _ d(1) _ Cons.prems(5) _ call [unfolded e], of x] Cons.prems(4)
      by (auto simp: BLOCK_TYPES_def)
    have z: "\<forall>d'\<in>set dies. \<forall>t. gCount g1 d' t = 0"
      using g1(3) Cons.prems(4) d(4) by (metis list.set_intros(2))
    obtain g' where g': "init_inv g' x b' c'" "gAvoid g' = gAvoid g1" "same_batch b1 b'" "comp_frame c1 c'"
      "\<forall>d t. gCount g' d t = (if d \<in> set dies \<and> t \<in> set BLOCK_TYPES \<and> batchDieFlags b1 ! d
         then max_blocks t (GetPreAllocatedMaxBlockNums specs d (resStrategies b1)) else gCount g1 d t)"
      using Cons.IH [OF g1(1) d(2,3) z _ rest] Cons.prems(5) g1(2) by auto
    have sb: "same_batch b b'" "batchDieFlags b1 = batchDieFlags b" "resStrategies b1 = resStrategies b"
      using g1(4) g'(3) by (simp_all add: same_batch_def)
    have "gCount g' d' t = (if d' \<in> set (d # dies) \<and> t \<in> set BLOCK_TYPES \<and> batchDieFlags b ! d'
         then max_blocks t (GetPreAllocatedMaxBlockNums specs d' (resStrategies b)) else gCount g d' t)" for d' t
      using g'(5) g1(3,6) sb d(4) True by (cases "d' = d") auto
    then show ?thesis
      using g'(1,2,4) g1(2,5) sb(1) comp_frame_trans [of c c1 c'] by (intro exI [of _ g']) simp
  qed
qed

subsection \<open>Missions and the whole of \<open>Init\<close>\<close>

definition mission_frame :: "CcuComponent \<Rightarrow> CcuComponent \<Rightarrow> bool" where
  "mission_frame c c' \<longleftrightarrow> comp_frame c c' \<and> cnt_frame c c'"

lemma mission_frame_refl [simp]: "comp_inv c \<Longrightarrow> mission_frame c c"
  by (simp add: mission_frame_def)

lemma mission_frame_trans: "mission_frame c c1 \<Longrightarrow> mission_frame c1 c2 \<Longrightarrow> mission_frame c c2"
  using comp_frame_trans cnt_frame_trans unfolding mission_frame_def by blast

lemma one_pool_mission_frame: "one_pool d ResType_MISSION c c' \<Longrightarrow> mission_frame c c'"
  by (auto simp: mission_frame_def comp_frame_def cnt_frame_def one_pool_def count_used_def count_ids_def die_used_def BLOCK_TYPES_def)

lemma PreAllocMissionRes_frame:
  assumes "comp_inv c" and "PreAllocMissionRes specs flags dies ns ss c = (HCCL_SUCCESS, ns', ss', c')" and "distinct dies"
  shows "mission_frame c c' \<and> (\<forall>d. d \<notin> set dies \<longrightarrow> ns' d = ns d \<and> ss' d = ss d)
    \<and> (\<forall>d\<in>set dies. if flags ! d then ss' d + ns' d < 2 ^ 32 \<and> 0 < ns' d else ss' d = 0 \<and> ns' d = 0)"
  using assms
proof (induction dies arbitrary: ns ss c)
  case Nil
  then show ?case
    by simp
next
  case (Cons d dies)
  show ?case
  proof (cases "flags ! d")
    case False
    then have call: "PreAllocMissionRes specs flags dies (ns(d := 0)) (ss(d := 0)) c = (HCCL_SUCCESS, ns', ss', c')"
      using Cons.prems(2) by simp
    have dist: "distinct dies"
      using Cons.prems(3) by simp
    have ih: "mission_frame c c'" "\<forall>d'. d' \<notin> set dies \<longrightarrow> ns' d' = (ns(d := 0)) d' \<and> ss' d' = (ss(d := 0)) d'"
      "\<forall>d\<in>set dies. if flags ! d then ss' d + ns' d < 2 ^ 32 \<and> 0 < ns' d else ss' d = 0 \<and> ns' d = 0"
      using Cons.IH [OF Cons.prems(1) call dist] by blast+
    then have "ns' d = 0" "ss' d = 0"
      using Cons.prems(3) by auto
    then show ?thesis
      using ih False by auto
  next
    case True
    let ?ns = "ns(d := unat (snd (GetMissionNum specs d (of_nat (ns d)))))"
    obtain e infos c1 where call: "CcuComponent_AllocRes d ResType_MISSION (?ns d) True c = (e, infos, c1)"
      by (metis prod_cases3)
    have e: "e = HCCL_SUCCESS" and rest: "PreAllocMissionRes specs flags dies ?ns (ss(d := startId (infos ! 0))) c1 = (HCCL_SUCCESS, ns', ss', c')"
      using Cons.prems(2) True call by (auto simp: Let_def split: if_splits)
    obtain s where s: "infos = [mk_res s (?ns d)]" "s + ?ns d < 2 ^ 32" "0 < ?ns d"
      using AllocRes_run [OF Cons.prems(1) call [unfolded e]] .
    have one: "one_pool d ResType_MISSION c c1"
      using AllocRes_one_pool [OF Cons.prems(1), of d ResType_MISSION "?ns d" True] call by simp
    then have "comp_inv c1"
      by (simp add: one_pool_def)
    then have ih: "mission_frame c1 c' \<and> (\<forall>d'. d' \<notin> set dies \<longrightarrow> ns' d' = ?ns d' \<and> ss' d' = (ss(d := startId (infos ! 0))) d')
      \<and> (\<forall>d\<in>set dies. if flags ! d then ss' d + ns' d < 2 ^ 32 \<and> 0 < ns' d else ss' d = 0 \<and> ns' d = 0)"
      using Cons.IH [OF _ rest] Cons.prems(3) unfolding distinct.simps by blast
    then have "ns' d = ?ns d" "ss' d = s"
      using Cons.prems(3) s(1) by auto
    then show ?thesis
      using ih s(2,3) True mission_frame_trans [OF one_pool_mission_frame [OF one]] by auto
  qed
qed

lemma CcuMissionMgr_PreAlloc_inv:
  assumes "comp_inv c" and "missionBlocks m = []" and "CcuMissionMgr_PreAlloc specs 2 flags m c = (HCCL_SUCCESS, m', c')"
  shows "mission_frame c c' \<and> (\<exists>s n. \<forall>g. gMissionBase g = s \<and> gMissionCount g = n \<longrightarrow> missions_inv g [] flags m')"
proof -
  obtain e ns ss c1 where call: "PreAllocMissionRes specs flags DIES (\<lambda>_. 0) (\<lambda>_. 0) c = (e, ns, ss, c1)"
    by (metis prod_cases4)
  have e: "e = HCCL_SUCCESS"
    using assms(3) call by (auto simp: CcuMissionMgr_PreAlloc_def Let_def split: if_splits)
  have f: "mission_frame c c1" "\<forall>d\<in>{0, 1}. if flags ! d then ss d + ns d < 2 ^ 32 \<and> 0 < ns d else ss d = 0 \<and> ns d = 0"
    using PreAllocMissionRes_frame [OF assms(1) call [unfolded e]] by (auto simp: DIES_eq)
  let ?n = "if flags ! 0 then ns 0 else if flags ! 1 then ns 1 else 0"
  have "ss 0 + ?n div 2 * 2 < 2 ^ 32"
    using f(2) by (auto split: if_splits)
  then have "pool_holds (ss 0) 2 (?n div 2) (\<lambda>_. False) (map (prealloc_block False (ss 0) 2) [0..<?n div 2]) []"
    using prealloc_vec [of "ss 0" "?n div 2" 2 "\<lambda>_. False" False] vec_holds by simp
  moreover have "m' = m\<lparr>missionDieFlags := flags, missionStrategy := 2, missionBlocks := map (prealloc_block False (ss 0) 2) [0..<?n div 2]\<rparr>"
    "c' = c1"
    using assms(2,3) call e by (auto simp: CcuMissionMgr_PreAlloc_def Let_def split: if_splits)
  ultimately have "missions_inv g [] flags m'" if "gMissionBase g = ss 0" "gMissionCount g = ?n div 2" for g
    using that by (simp add: missions_inv_def)
  then show ?thesis
    using f(1) \<open>c' = c1\<close> by blast
qed

text \<open>A component whose pools of the five types and counting XNs are free, and an allocator just constructed.\<close>

definition fresh_pools :: "CcuComponent \<Rightarrow> bool" where
  "fresh_pools c \<longleftrightarrow> comp_inv c \<and> (\<forall>d<2. (\<forall>t\<in>set BLOCK_TYPES. die_used d t c = {}) \<and> count_used d c = {} \<and> total_flags d c = {})"

definition no_others :: Outside where
  "no_others = \<lparr>oSingle = (\<lambda>_ _. []), oCount = (\<lambda>_. []), oReg = (\<lambda>_. [])\<rparr>"

definition fresh_batch :: "CcuResBatchAllocator \<Rightarrow> bool" where
  "fresh_batch b \<longleftrightarrow> \<not> batchInitFlag b \<and> resStrategies b = [CcuBlockResStrategy_default, CcuBlockResStrategy_default]
    \<and> (\<forall>d t. resBlocks b d t = None) \<and> handleMap b = [] \<and> missionBlocks (missionMgr b) = []"

lemma Init_establishes:
  assumes "fresh_pools c" and "fresh_batch b" and "CcuResBatchAllocator_Init specs b c = (HCCL_SUCCESS, b', c')"
  shows "\<exists>g. batch_inv os g no_others [] b' c' \<and> handleMap b' = [] \<and> batchInitFlag b' \<and> batchDieFlags b' = compDieFlags c
    \<and> (gAvoid g \<longleftrightarrow> serveMode specs = ARMX86)
    \<and> (\<forall>d<2. \<forall>t\<in>set BLOCK_TYPES. gCount g d t = (if compDieFlags c ! d
         then max_blocks t (GetPreAllocatedMaxBlockNums specs d (resStrategies b)) else 0))"
proof -
  let ?b = "b\<lparr>batchDieFlags := compDieFlags c\<rparr>"
  let ?g0 = "\<lparr>gBase = (\<lambda>_ _. 0), gCount = (\<lambda>_ _. 0), gMissionBase = 0, gMissionCount = 0, gAvoid = (serveMode specs = ARMX86)\<rparr>"
  have ci: "comp_inv c" and bs: "resStrategies b = [CcuBlockResStrategy_default, CcuBlockResStrategy_default]"
    using assms(1,2) by (simp_all add: fresh_pools_def fresh_batch_def)
  have "pool_holds 0 (bsize t) 0 rsv (blocks_at d t ?b) []" if "t \<in> set BLOCK_TYPES" for d t rsv
    using vec_holds [OF bsize_pos [OF that], of 0 0 rsv] assms(2) by (simp add: fresh_batch_def blocks_at_def block_vec_def)
  then have init0: "init_inv ?g0 no_others ?b c"
    using assms(1) bs
    by (simp add: init_inv_def blocks_inv_def pool_ok_def singles_inv_def single_held_def outside_def region_def no_others_def fresh_pools_def)
  obtain e1 b1 c1 where a1: "PreAllocBlockRes specs ?b c = (e1, b1, c1)"
    by (metis prod_cases3)
  have e1: "e1 = HCCL_SUCCESS" and en: "compDieFlags c ! 0 \<or> compDieFlags c ! 1"
    using assms(2,3) a1 by (auto simp: CcuResBatchAllocator_Init_def fresh_batch_def Let_def split: if_splits)
  have "\<exists>g'. init_inv g' no_others b1 c1 \<and> gAvoid g' = gAvoid ?g0 \<and> same_batch ?b b1 \<and> comp_frame c c1
    \<and> (\<forall>d t. gCount g' d t = (if d \<in> set [0, 1] \<and> t \<in> set BLOCK_TYPES \<and> batchDieFlags ?b ! d
         then max_blocks t (GetPreAllocatedMaxBlockNums specs d (resStrategies ?b)) else gCount ?g0 d t))"
    by (rule PreAllocBlockRes_dies_inv [OF init0 _ _ _ _ a1 [unfolded PreAllocBlockRes_def e1 DIES_eq]]) simp_all
  then obtain g1 where g1: "init_inv g1 no_others b1 c1" "gAvoid g1 = gAvoid ?g0" "same_batch ?b b1" "comp_frame c c1"
    "\<forall>d t. gCount g1 d t = (if d \<in> set [0, 1] \<and> t \<in> set BLOCK_TYPES \<and> batchDieFlags ?b ! d
         then max_blocks t (GetPreAllocatedMaxBlockNums specs d (resStrategies ?b)) else gCount ?g0 d t)"
    by blast
  have s1: "stratMissionNum (resStrategies b1 ! 0) = 2" "batchDieFlags b1 = compDieFlags c" "missionBlocks (missionMgr b1) = []" "handleMap b1 = []"
    using g1(3) bs assms(2) by (simp_all add: same_batch_def CcuBlockResStrategy_default_def fresh_batch_def)
  obtain e2 m c2 where a2: "CcuMissionMgr_PreAlloc specs 2 (compDieFlags c) (missionMgr b1) c1 = (e2, m, c2)"
    by (metis prod_cases3)
  have e2: "e2 = HCCL_SUCCESS" and b': "b' = b1\<lparr>missionMgr := m, batchInitFlag := True\<rparr>" "c' = c2"
    using assms(2,3) a1 e1 en a2 s1 by (auto simp: CcuResBatchAllocator_Init_def fresh_batch_def Let_def split: if_splits)
  have ci1: "comp_inv c1"
    using g1(1) by (simp add: init_inv_def singles_inv_def)
  obtain s n where f2: "mission_frame c1 c2" and mi: "\<And>g. gMissionBase g = s \<Longrightarrow> gMissionCount g = n \<Longrightarrow> missions_inv g [] (compDieFlags c) m"
    using CcuMissionMgr_PreAlloc_inv [OF ci1 s1(3) a2 [unfolded e2]] by metis
  let ?g = "g1\<lparr>gMissionBase := s, gMissionCount := n\<rparr>"
  have kb: "kept_back ?g = kept_back g1" "outside ?g = outside g1"
    by (simp_all add: kept_back_def outside_def region_def fun_eq_iff)
  have "blocks_inv ?g [] b'"
  proof -
    have "blocks_inv ?g [] b1 = blocks_inv g1 [] b1"
      by (simp add: blocks_inv_def pool_ok_def kb)
    moreover have "blocks_inv ?g [] b' = blocks_inv ?g [] b1"
      by (rule blocks_inv_same) (simp_all add: b')
    ultimately show ?thesis
      using g1(1) by (simp add: init_inv_def)
  qed
  moreover have "singles_inv (outside ?g no_others) [] c'"
    using g1(1) cnt_frame_singles [of _ "[]" c1 c2] f2 by (simp add: init_inv_def kb b'(2) mission_frame_def)
  moreover have "casc_inv os (oCount no_others) (oReg no_others) [] c'"
  proof -
    have "comp_frame c c2" "comp_inv c2"
      using comp_frame_trans [OF g1(4)] f2 by (simp_all add: mission_frame_def cnt_frame_def)
    moreover have "casc_inv os (oCount no_others) (oReg no_others) [] c"
      using assms(1) by (simp add: casc_inv_def cnt_held_def reg_held_def no_others_def fresh_pools_def)
    ultimately show ?thesis
      using casc_inv_comp_frame b'(2) by blast
  qed
  moreover have "compDieFlags c' = batchDieFlags b'"
    using g1(1) f2 by (simp add: init_inv_def b' mission_frame_def comp_frame_def)
  ultimately have "batch_inv os ?g no_others [] b' c'"
    using mi [of ?g] s1(2) by (simp add: batch_inv_def b')
  moreover have "\<forall>d<2. \<forall>t\<in>set BLOCK_TYPES. gCount ?g d t = (if compDieFlags c ! d
         then max_blocks t (GetPreAllocatedMaxBlockNums specs d (resStrategies b)) else 0)"
    using g1(5) by (auto simp: less_2_cases_iff)
  ultimately show ?thesis
    using g1(2) s1 b' by (intro exI [of _ ?g]) simp
qed


subsection \<open>A component that was just initialised\<close>

definition specs_fit :: "CcuResSpecifications \<Rightarrow> bool" where
  "specs_fit specs \<longleftrightarrow>
    (\<forall>d<2. unat (xnNum (resSpecs specs ! d)) + unat (countXnNum (resSpecs specs ! d)) < 2 ^ 32)"

text \<open>What the steps before the allocators are created do not touch.\<close>

definition no_pools :: "CcuComponent \<Rightarrow> bool" where
  "no_pools c \<longleftrightarrow> length (compDieFlags c) = 2 \<and> resAllocators c = [None, None] \<and> usedTotalCntXnFlags c = no_total_flags"

lemma CleanDieCkes_pools [simp]: "no_pools (snd (CleanDieCkes chan specs d s)) = no_pools s"
  using CleanDieCkes_loop_keeps [where P = no_pools]
  by (auto simp: CleanDieCkes_def no_pools_def split: prod.splits option.splits)

lemma CreateCcuRmaBuffer_pools: "CreateCcuRmaBuffer_loop plat specs dies s = (ret, s') \<Longrightarrow> no_pools s' = no_pools s"
  by (induction dies arbitrary: s) (auto simp: no_pools_def Let_def split: if_splits option.splits prod.splits)

lemma CheckDiesEnable_pools: "no_pools s \<Longrightarrow> no_pools (snd (CheckDiesEnable plat specs s))"
  by (simp add: CheckDiesEnable_def ChooseLoopEids_def ChooseLoopEid_step_def CCU_MAX_IODIE_NUM_def upt_rec no_pools_def Let_def case_prod_beta)

lemma dies_two: "[0..<CCU_MAX_IODIE_NUM] = [0, 1]"
  by (simp add: CCU_MAX_IODIE_NUM_def upt_rec)

definition die_pool :: "CcuResSpecifications \<Rightarrow> nat \<Rightarrow> CcuResAllocator" where
  "die_pool specs d = snd (CcuResAllocator_Init specs (CcuResAllocator_new d))"

lemma CreateResourceManagers_pools:
  assumes "CreateResourceManagers_loop chan cfgMgr specs [0, 1] s = (HCCL_SUCCESS, s')" and "no_pools s"
  shows "compDieFlags s' = compDieFlags s \<and> usedTotalCntXnFlags s' = usedTotalCntXnFlags s
    \<and> resAllocators s' = map (\<lambda>d. if compDieFlags s ! d then Some (die_pool specs d) else None) [0, 1]"
proof -
  have "fst (CcuResAllocator_Init specs a) = HCCL_SUCCESS" for a
    by (simp add: CcuResAllocator_Init_def Let_def)
  then have i: "CcuResAllocator_Init specs (CcuResAllocator_new d) = (HCCL_SUCCESS, die_pool specs d)" for d
    by (simp add: die_pool_def prod_eq_iff)
  show ?thesis
    using assms by (auto simp: i no_pools_def set_die_def Let_def split: if_splits prod.splits)
qed

text \<open>Channels have no part in the pools.\<close>

definition same_pools :: "CcuComponent \<Rightarrow> CcuComponent \<Rightarrow> bool" where
  "same_pools s s' \<longleftrightarrow> compDieFlags s' = compDieFlags s \<and> usedTotalCntXnFlags s' = usedTotalCntXnFlags s \<and> resAllocators s' = resAllocators s"

lemma CreateAndImportLoopJettys_loop_pools:
  "CreateAndImportLoopJettys_loop plat d tv infos s = (ret, s') \<Longrightarrow> same_pools s s'"
proof (induction infos arbitrary: s)
  case (Cons info infos)
  obtain e1 created e2 imported where c: "platCreateJetty plat d tv info = (e1, created)" "platImportJetty plat d tv info = (e2, imported)"
    by (metis surj_pair)
  let ?s1 = "s\<lparr>createdOutParamMap := (createdOutParamMap s)(d := createdOutParamMap s d @ [created])\<rparr>"
  let ?s2 = "?s1\<lparr>importedOutParamMap := (importedOutParamMap ?s1)(d := importedOutParamMap ?s1 d @ [imported])\<rparr>"
  have "s' = s \<or> s' = ?s1 \<or> CreateAndImportLoopJettys_loop plat d tv infos ?s2 = (ret, s')"
    using Cons.prems c by (auto simp: Let_def split: if_splits)
  then show ?case
    using Cons.IH [of ?s2] by (auto simp: same_pools_def)
qed (simp add: same_pools_def)

lemma CreateLoopChannel_pools:
  assumes "CreateLoopChannel chan plat d s = (ret, i, s')"
  shows "same_pools s s'"
proof -
  have jettys: "same_pools s s'" if "CreateAndImportLoopJettys plat d addr infos s = (ret, s')" for plat addr infos s s' and ret :: HcclResult
    using that by (auto simp: CreateAndImportLoopJettys_def same_pools_def split: if_splits option.splits
        dest: CreateAndImportLoopJettys_loop_pools [unfolded same_pools_def])
  have config: "same_pools s s'" if "ConfigLoopChannel chan plat d addr info m s = (ret, s')" for addr info m s s' and ret :: HcclResult
    using that by (auto simp: ConfigLoopChannel_def same_pools_def set_channel_mgr_def Let_def split: if_splits option.splits prod.splits)
  have mgr: "same_pools s (set_channel_mgr d m s)" for m s
    by (simp add: same_pools_def set_channel_mgr_def)
  have trans: "same_pools a b \<Longrightarrow> same_pools b c \<Longrightarrow> same_pools a c" and refl: "same_pools a a" for a b c
    by (simp_all add: same_pools_def)
  show ?thesis
  proof (cases "compDieFlags s ! d")
    case True
    show ?thesis
    proof (cases "loopFeCommAddrMap s d")
      case (Some p)
      obtain fe addr where p: "p = (fe, addr)"
        by fastforce
      define para where "para = \<lparr>paraFeId = fe, paraJettyNum = LOOP_CHANNEL_USE_JETTY,
        paraSqSize = (if compVersion s = CCU_V1 then LOOP_CHANNEL_USE_SQSIZE_V1 else LOOP_CHANNEL_USE_SQSIZE_V2)\<rparr>"
      obtain e1 out m where 1: "CcuChannelCtxMgr_Alloc para (the (channelCtxMgrs s ! d)) = (e1, out, m)"
        using prod_cases3 by blast
      let ?s1 = "set_channel_mgr d m s"
      obtain e2 s2 where 2: "CreateAndImportLoopJettys plat d addr (jettyInfos (the out ! 0)) ?s1 = (e2, s2)"
        by fastforce
      obtain e3 s3 where 3: "ConfigLoopChannel chan plat d addr (the out ! 0) m s2 = (e3, s3)"
        by fastforce
      have "s' = ?s1 \<or> s' = s2 \<or> s' = s3"
        using assms True Some p 1 2 3 unfolding para_def by (auto simp: CreateLoopChannel_def Let_def split: if_splits)
      then show ?thesis
        using mgr [of s m] jettys [OF 2] config [OF 3] trans by blast
    qed (use assms True in \<open>simp add: CreateLoopChannel_def refl\<close>)
  qed (use assms in \<open>simp add: CreateLoopChannel_def refl\<close>)
qed

lemma CreateLoopChannels_pools: "CreateLoopChannels_loop chan plat dies s = (ret, s') \<Longrightarrow> same_pools s s'"
proof (induction dies arbitrary: s)
  case (Cons d dies)
  obtain e i s1 where 1: "CreateLoopChannel chan plat d s = (e, i, s1)"
    using prod_cases3 by blast
  let ?s1 = "s1\<lparr>loopChannelIds := (loopChannelIds s1)[d := i]\<rparr>"
  have "s' = ?s1 \<or> CreateLoopChannels_loop chan plat dies ?s1 = (ret, s')"
    using Cons.prems 1 by (auto simp: Let_def split: if_splits)
  then show ?case
    using CreateLoopChannel_pools [OF 1] Cons.IH [of ?s1] by (auto simp: same_pools_def)
qed (simp add: same_pools_def)

lemma ConfigMsIdToken_pools:
  "ConfigMsIdToken_loop chan specs dies s = (ret, s') \<Longrightarrow>
    compDieFlags s' = compDieFlags s \<and> usedTotalCntXnFlags s' = usedTotalCntXnFlags s \<and> resAllocators s' = resAllocators s"
proof (induction dies arbitrary: s)
  case (Cons d dies)
  show ?case
    using Cons.prems Cons.IH by (fastforce simp: HccpRaTlvCcuCustomChannel_def split: option.splits prod.splits if_splits)
qed simp

lemma die_pool_fresh:
  assumes "specs_fit specs" and "d < 2"
  shows "res_inv (die_pool specs d)" and "used_ids t (die_pool specs d) = {}" and "count_ids (die_pool specs d) = {}"
proof -
  show "res_inv (die_pool specs d)"
    unfolding die_pool_def using assms by (intro init_res_inv) (simp add: specs_fit_def)
  have "resInfos (pool_of t (die_pool specs d)) = []" for t
    unfolding die_pool_def by (cases t) (simp_all add: pool_of_def init_pools)
  then show "used_ids t (die_pool specs d) = {}" and "count_ids (die_pool specs d) = {}"
    by (simp_all add: used_ids_def count_ids_def)
qed

lemma CcuComponent_Init_fresh:
  assumes "specs_fit specs" and "CcuComponent_Init chan plat cfgMgr phyRet specs s = (HCCL_SUCCESS, c)"
    and "\<not> compInitFlag s" and "length (compDieFlags s) = 2" and "resAllocators s = [None, None]"
  shows "fresh_pools c"
    and "\<forall>d<2. compDieFlags c ! d \<longrightarrow> die_alloc d c = die_pool specs d"
proof -
  let ?s0 = "s\<lparr>usedTotalCntXnFlags := no_total_flags\<rparr>"
  obtain e1 s1 where a1: "CheckDiesEnable plat specs ?s0 = (e1, s1)"
    by fastforce
  let ?s2 = "fold (\<lambda>d s. snd (CleanDieCkes chan specs d s)) [0, 1] s1"
  obtain e3 s3 where a3: "CreateCcuRmaBuffer_loop plat specs [0, 1] ?s2 = (e3, s3)"
    by fastforce
  obtain e4 s4 where a4: "CreateResourceManagers_loop chan cfgMgr specs [0, 1] s3 = (e4, s4)"
    by fastforce
  obtain e5 s5 where a5: "CreateLoopChannels_loop chan plat [0, 1] s4 = (e5, s5)"
    by fastforce
  obtain e6 s6 where a6: "ConfigMsIdToken_loop chan specs [0, 1] s5 = (e6, s6)"
    by fastforce
  have ok: "e4 = HCCL_SUCCESS" "c = s6\<lparr>compInitFlag := True\<rparr>"
    using assms(2,3) a1 a3 a4 a5 a6 unfolding CcuComponent_Init_def dies_two
    by (auto simp: Let_def simp del: CreateResourceManagers_loop.simps CreateLoopChannels_loop.simps ConfigMsIdToken_loop.simps
        CreateCcuRmaBuffer_loop.simps split: if_splits)
  have "no_pools ?s0"
    using assms(4,5) by (simp add: no_pools_def)
  then have "no_pools s1"
    using CheckDiesEnable_pools [of ?s0 plat specs] a1 by simp
  then have s3: "no_pools s3"
    using CreateCcuRmaBuffer_pools [OF a3] by simp
  have s4: "compDieFlags s4 = compDieFlags s3" "usedTotalCntXnFlags s4 = usedTotalCntXnFlags s3"
    "resAllocators s4 = map (\<lambda>d. if compDieFlags s3 ! d then Some (die_pool specs d) else None) [0, 1]"
    using CreateResourceManagers_pools [OF a4 [unfolded ok(1)] s3] by blast+
  have c: "compDieFlags c = compDieFlags s3" "usedTotalCntXnFlags c = no_total_flags" "length (compDieFlags c) = 2"
    "resAllocators c = map (\<lambda>d. if compDieFlags c ! d then Some (die_pool specs d) else None) [0, 1]"
    using ConfigMsIdToken_pools [OF a6] CreateLoopChannels_pools [OF a5] s4 s3 by (simp_all add: ok(2) no_pools_def same_pools_def)
  have ci: "comp_inv c"
    using c die_pool_fresh(1) [OF assms(1)]
    by (auto simp: comp_inv_def less_2_cases_iff CCU_MAX_IODIE_NUM_def split: if_splits)
  have da: "die_alloc d c = (if compDieFlags c ! d then die_pool specs d else CcuResAllocator_new d)" if "d < 2" for d
    using that c(4) ci by (auto simp: die_alloc_def on_die_cases less_2_cases_iff)
  have "die_used d t c = {}" "count_used d c = {}" if "d < 2" for d t
    using that da [OF that] die_pool_fresh(2,3) [OF assms(1) that] by (simp_all add: die_used_def count_used_def used_ids_def count_ids_def)
  moreover have "total_flags d c = {}" if "d < 2" for d
    using that c(2) by (auto simp: total_flags_def CCU_MAX_IODIE_NUM_def less_2_cases_iff)
  ultimately show "fresh_pools c"
    using ci by (simp add: fresh_pools_def)
  show "\<forall>d<2. compDieFlags c ! d \<longrightarrow> die_alloc d c = die_pool specs d"
    using da by simp
qed

end
