(* ===== verification/Batch_System.thy ===== *)
theory Batch_System
  imports Batch_Init
begin

text \<open>
  The batch allocator as its clients see it: requests and releases of several threads interleave at the points
  where the lock is released, and other clients of the component take and return ids in between. The ledger
  accounts for all of them in every reachable state; it determines the state of every pool, so a request that
  fails, and a request followed by its release, leave all pools as they were.
\<close>

subsection \<open>The ledger determines the pools\<close>

lemma run_of_inj: "run_of base sz a m = run_of base sz a' m' \<Longrightarrow> 0 < sz \<Longrightarrow> a = a' \<and> m = m'"
  by (simp add: run_of_def)

lemma owns_unique:
  assumes "owns base sz N ow k rs" and "owns base sz N ow' k rs" and "0 < sz" and "i < N"
  shows "ow i = k \<longleftrightarrow> ow' i = k"
proof (cases "rs = []")
  case False
  obtain a m where "rs = [run_of base sz a m]" "\<forall>i<N. ow i = k \<longleftrightarrow> a \<le> i \<and> i < a + m"
    using assms(1) False by (auto simp: owns_def)
  moreover obtain a' m' where "rs = [run_of base sz a' m']" "\<forall>i<N. ow' i = k \<longleftrightarrow> a' \<le> i \<and> i < a' + m'"
    using assms(2) False by (auto simp: owns_def)
  ultimately show ?thesis
    using run_of_inj [of base sz a m a' m'] assms(3,4) by auto
qed (use assms in simp)

lemma pool_holds_unique:
  assumes "pool_holds base sz N rsv b L" and "pool_holds base sz N rsv b' L"
  shows "b' = b"
proof -
  obtain ow where ow: "owner_map base sz N rsv b L ow"
    using assms(1) by (auto simp: pool_holds_def)
  obtain ow' where ow': "owner_map base sz N rsv b' L ow'"
    using assms(2) by (auto simp: pool_holds_def)
  have sz: "0 < sz"
    using assms(1) by (simp add: pool_holds_def)
  have same: "ow i = k \<longleftrightarrow> ow' i = k" if i: "i < N" and k: "k \<in> fst ` set L" for i k
  proof -
    obtain rs where "(k, rs) \<in> set L"
      using k by auto
    then show ?thesis
      using owner_mapD(3) [OF ow] owner_mapD(3) [OF ow'] owns_unique [OF _ _ sz i] by blast
  qed
  have "ow i = ow' i" if "i < N" for i
    using owner_mapD(4) [OF ow that] owner_mapD(4) [OF ow' that] same [OF that] by metis
  then have "block_vec base sz N rsv ow = block_vec base sz N rsv ow'"
    by (intro nth_equalityI) (auto simp: block_at_def)
  then show ?thesis
    using owner_mapD(1) [OF ow] owner_mapD(1) [OF ow'] by simp
qed

text \<open>Two states with the same block vectors, missions, ids, counting XNs, registers and handles.\<close>

definition same_resources ::
  "CcuResBatchAllocator \<Rightarrow> CcuComponent \<Rightarrow> CcuResBatchAllocator \<Rightarrow> CcuComponent \<Rightarrow> bool" where
  "same_resources b c b' c' \<longleftrightarrow> handleMap b' = handleMap b \<and> missionBlocks (missionMgr b') = missionBlocks (missionMgr b)
    \<and> (\<forall>d<2. (\<forall>t\<in>set BLOCK_TYPES. (batchDieFlags b ! d \<longrightarrow> blocks_at d t b' = blocks_at d t b) \<and> die_used d t c' = die_used d t c)
        \<and> count_used d c' = count_used d c \<and> total_flags d c' = total_flags d c)"

lemma ledger_same:
  assumes "batch_inv os g x L b c" and "batch_inv os g x L b' c'"
    and f: "batchDieFlags b' = batchDieFlags b" "handleMap b' = handleMap b"
  shows "same_resources b c b' c'"
proof -
  have "missionBlocks (missionMgr b') = missionBlocks (missionMgr b)"
    using assms(1,2) pool_holds_unique unfolding batch_inv_def missions_inv_def f by blast
  moreover have "blocks_at d t b' = blocks_at d t b" if "d < 2" "t \<in> set BLOCK_TYPES" "batchDieFlags b ! d" for d t
  proof -
    have "blocks_inv g L b" "blocks_inv g L b'"
      using assms(1,2) by (simp_all add: batch_inv_def)
    then show ?thesis
      using pool_holds_unique [OF blocks_invD(1) [OF _ that] blocks_invD(1) [OF _ that(1,2)]] that(3) f(1) by metis
  qed
  moreover have "die_used d t c' = die_used d t c" if "d < 2" "t \<in> set BLOCK_TYPES" for d t
    using assms(1,2) that by (simp add: batch_inv_def singles_inv_def)
  moreover have "count_used d c' = count_used d c \<and> total_flags d c' = total_flags d c" if "d < 2" for d
    using assms(1,2) that by (simp add: batch_inv_def casc_inv_def)
  ultimately show ?thesis
    using f(2) by (simp add: same_resources_def)
qed

lemma ledger_determines:
  "batch_inv os g x L b c \<Longrightarrow> batch_inv os g x L b' c' \<Longrightarrow> keeps_handles b b' \<Longrightarrow> same_resources b c b' c'"
  by (rule ledger_same) (simp_all add: keeps_handles_def)

subsection \<open>One call at a time\<close>

lemma update_absent: "k \<notin> fst ` set al \<Longrightarrow> AList.update k v al = al @ [(k, v)]"
  by (induction al) auto

lemma delete_present:
  "distinct (map fst al) \<Longrightarrow> map_of al k = Some v \<Longrightarrow> mset al = mset ((k, v) # AList.delete k al)"
proof (induction al)
  case (Cons p al)
  show ?case
  proof (cases "fst p = k")
    case True
    then have "AList.delete k al = al"
      using Cons.prems(1) by (intro AList.delete_id) auto
    then show ?thesis
      using True Cons.prems(2) by (cases p) simp
  qed (use Cons in \<open>cases p, auto\<close>)
qed simp

lemma batch_inv_handleMap [simp]: "batch_inv os g x L (b\<lparr>handleMap := h\<rparr>) c = batch_inv os g x L b c"
  using blocks_inv_same [of "b\<lparr>handleMap := h\<rparr>" b g L] by (simp add: batch_inv_def)

lemma ReleaseResHandle_found:
  assumes inv: "batch_inv os g x (handleMap b @ P) b c" and k: "map_of (handleMap b) k = Some r"
  obtains b' c' where "ReleaseResHandle chan os k b c = (HCCL_SUCCESS, b', c')"
    and "batch_inv os g x (handleMap b' @ P) b' c'" and "handleMap b' = AList.delete k (handleMap b)"
    and "batchDieFlags b' = batchDieFlags b"
proof -
  obtain e r' b1 c1 where call: "ReleaseResource chan os r b c = (e, r', b1, c1)"
    by (metis prod_cases4)
  let ?rest = "AList.delete k (handleMap b) @ P"
  have "distinct (map fst (handleMap b))"
    using inv by (simp add: batch_inv_def)
  then have "mset ((k, r) # ?rest) = mset (handleMap b @ P)"
    using delete_present [OF _ k] by simp
  then have "batch_inv os g x ((k, r) # ?rest) b c"
    by (rule batch_inv_perm [OF inv])
  then have "e = HCCL_SUCCESS" "batch_inv os g x ?rest b1 c1" "keeps_handles b b1"
    using ReleaseResource_inv [OF _ call] by blast+
  then show thesis
    using that [of "b1\<lparr>handleMap := AList.delete k (handleMap b1)\<rparr>" c1] k call
    by (simp add: ReleaseResHandle_def keeps_handles_def)
qed

lemma ReleaseResHandle_unknown:
  "map_of (handleMap b) k = None \<Longrightarrow> ReleaseResHandle chan os k b c = (HCCL_E_PARA, b, c)"
  by (simp add: ReleaseResHandle_def)

lemma try_inv:
  assumes inv: "batch_inv os g x L b c" and k: "k \<noteq> 0" "k \<notin> fst ` set L" and req: "req_u32 req"
    and call: "TryAllocResHandle chan os specs k req CcuResRepository_new b c = (ret, r, b', c')"
  shows "batch_inv os g x ((k, r) # L) b' c' \<and> keeps_handles b b'"
  using TryAllocResHandle_inv [OF batch_inv_join [OF inv k empty_repo_new] req call] .

lemma keeps_handles_trans: "keeps_handles b b1 \<Longrightarrow> keeps_handles b1 b2 \<Longrightarrow> keeps_handles b b2"
  by (simp add: keeps_handles_def)

text \<open>The outcomes of a request that is not interrupted.\<close>

lemma AllocResHandle_cases:
  assumes inv: "batch_inv os g x (handleMap b @ P) b c" and k: "k \<notin> fst ` set (handleMap b @ P)" and req: "req_u32 req"
    and call: "AllocResHandle chan os specs k req h0 b c = (ret, h, b', c')"
  shows "if ret = HCCL_SUCCESS
    then h = k \<and> k \<noteq> 0 \<and> batch_inv os g x (handleMap b' @ P) b' c' \<and> (\<exists>r. handleMap b' = handleMap b @ [(k, r)])
      \<and> batchDieFlags b' = batchDieFlags b
    else same_resources b c b' c' \<and> batch_inv os g x (handleMap b' @ P) b' c' \<and> (ret = HCCL_E_PTR \<or> h = 0)"
proof -
  have refl: "same_resources b c b c"
    by (simp add: same_resources_def)
  obtain e r b1 c1 where att: "TryAllocResHandle chan os specs k req CcuResRepository_new b c = (e, r, b1, c1)"
    by (metis prod_cases4)
  obtain e2 r2 b2 c2 where rel: "ReleaseResource chan os r b1 c1 = (e2, r2, b2, c2)"
    by (metis prod_cases4)
  consider "\<not> CheckReqValid req (batchDieFlags b)" | "CheckReqValid req (batchDieFlags b)" "k = 0"
    | "CheckReqValid req (batchDieFlags b)" "k \<noteq> 0"
    by blast
  then show ?thesis
  proof cases
    case 3
    have 1: "batch_inv os g x ((k, r) # handleMap b @ P) b1 c1" "keeps_handles b b1"
      using try_inv [OF inv 3(2) k req att] by blast+
    have 2: "e2 = HCCL_SUCCESS" "batch_inv os g x (handleMap b @ P) b2 c2" "keeps_handles b b2"
      using ReleaseResource_inv [OF 1(1) rel] keeps_handles_trans [OF 1(2)] by blast+
    show ?thesis
    proof (cases "e = HCCL_SUCCESS")
      case True
      have "mset ((handleMap b @ [(k, r)]) @ P) = mset ((k, r) # handleMap b @ P)"
        by simp
      then have "batch_inv os g x ((handleMap b @ [(k, r)]) @ P) b1 c1"
        by (rule batch_inv_perm [OF 1(1)])
      moreover have "AList.update k r (handleMap b) = handleMap b @ [(k, r)]"
        using k by (intro update_absent) auto
      ultimately show ?thesis
        using call 3 att True 1(2) by (auto simp: AllocResHandle_def insert_handle_def keeps_handles_def)
    next
      case False
      then have "ret = e" "h = 0" "b' = b2" "c' = c2"
        using call 3 att rel 2(1) by (auto simp: AllocResHandle_def)
      then show ?thesis
        using False 2(2,3) ledger_determines [OF inv 2(2,3)] by (simp add: keeps_handles_def)
    qed
  qed (use call inv refl in \<open>auto simp: AllocResHandle_def\<close>)
qed

subsection \<open>Interleavings\<close>

text \<open>
  A thread in \<open>AllocResHandle\<close> releases the lock after \<open>TryAllocResHandle\<close>; until it takes it again, to publish
  the handle or to give back what it took, its repository is pending with the result of the attempt. The step
  relation interleaves these critical sections of any number of threads with releases and with the calls of
  other clients of the component. The channel driver may answer differently in every step.
\<close>

record BatchSystem =
  sysBatch :: CcuResBatchAllocator
  sysComp :: CcuComponent
  sysPending :: "(nat \<times> CcuResRepository \<times> HcclResult) list"
  sysOthers :: Outside

definition take_single :: "nat \<Rightarrow> ResType \<Rightarrow> ResInfo list \<Rightarrow> Outside \<Rightarrow> Outside" where
  "take_single d t infos x = x\<lparr>oSingle := (oSingle x)(d := (oSingle x d)(t := infos))\<rparr>"

abbreviation sys_keys :: "BatchSystem \<Rightarrow> nat set" where
  "sys_keys s \<equiv> fst ` set (handleMap (sysBatch s)) \<union> fst ` set (sysPending s)"

inductive sys_step :: "bool \<Rightarrow> CcuResSpecifications \<Rightarrow> BatchSystem \<Rightarrow> BatchSystem \<Rightarrow> bool" for os specs where
  attempt: "CheckReqValid req (batchDieFlags (sysBatch s)) \<Longrightarrow> req_u32 req \<Longrightarrow> k \<noteq> 0 \<Longrightarrow> k \<notin> sys_keys s \<Longrightarrow>
    TryAllocResHandle chan os specs k req CcuResRepository_new (sysBatch s) (sysComp s) = (ret, r, b, c) \<Longrightarrow>
    sys_step os specs s (s\<lparr>sysBatch := b, sysComp := c, sysPending := (k, r, ret) # sysPending s\<rparr>)"
| publish: "sysPending s = P @ (k, r, HCCL_SUCCESS) # Q \<Longrightarrow>
    sys_step os specs s (s\<lparr>sysBatch := insert_handle k r (sysBatch s), sysPending := P @ Q\<rparr>)"
| rollback: "sysPending s = P @ (k, r, ret) # Q \<Longrightarrow> ret \<noteq> HCCL_SUCCESS \<Longrightarrow>
    ReleaseResource chan os r (sysBatch s) (sysComp s) = (ret', r', b, c) \<Longrightarrow>
    sys_step os specs s (s\<lparr>sysBatch := b, sysComp := c, sysPending := P @ Q\<rparr>)"
| release: "ReleaseResHandle chan os k (sysBatch s) (sysComp s) = (ret, b, c) \<Longrightarrow>
    sys_step os specs s (s\<lparr>sysBatch := b, sysComp := c\<rparr>)"
| other_takes: "d < 2 \<Longrightarrow> t \<in> set BLOCK_TYPES \<Longrightarrow>
    CcuComponent_AllocRes d t n consecutive (sysComp s) = (HCCL_SUCCESS, infos, c) \<Longrightarrow>
    sys_step os specs s (s\<lparr>sysComp := c, sysOthers := take_single d t (infos @ oSingle (sysOthers s) d t) (sysOthers s)\<rparr>)"
| other_returns: "d < 2 \<Longrightarrow> t \<in> set BLOCK_TYPES \<Longrightarrow> oSingle (sysOthers s) d t = A @ r # B \<Longrightarrow>
    CcuComponent_ReleaseRes d t (startId r) (num r) (sysComp s) = (ret, c) \<Longrightarrow>
    sys_step os specs s (s\<lparr>sysComp := c, sysOthers := take_single d t (A @ B) (sysOthers s)\<rparr>)"

inductive sys_steps :: "bool \<Rightarrow> CcuResSpecifications \<Rightarrow> BatchSystem \<Rightarrow> BatchSystem \<Rightarrow> bool" for os specs where
  none: "sys_steps os specs s s"
| more: "sys_steps os specs s s1 \<Longrightarrow> sys_step os specs s1 s2 \<Longrightarrow> sys_steps os specs s s2"

abbreviation sys_ledger :: "BatchSystem \<Rightarrow> (nat \<times> CcuResRepository) list" where
  "sys_ledger s \<equiv> handleMap (sysBatch s) @ map (\<lambda>(k, r, ret). (k, r)) (sysPending s)"

definition sys_inv :: "bool \<Rightarrow> Geometry \<Rightarrow> BatchSystem \<Rightarrow> bool" where
  "sys_inv os g s \<longleftrightarrow> batch_inv os g (sysOthers s) (sys_ledger s) (sysBatch s) (sysComp s)"

lemma fst_ledger: "fst ` set (sys_ledger s) = sys_keys s"
  by (auto simp: image_Un image_image case_prod_beta)

lemma take_single_sel [simp]:
  "oSingle (take_single d t v x) d' t' = (if d' = d \<and> t' = t then v else oSingle x d' t')"
  "oCount (take_single d t v x) = oCount x" "oReg (take_single d t v x) = oReg x"
  by (auto simp: take_single_def)

text \<open>Another client changes one pool and its part of the ledger.\<close>

lemma batch_inv_other:
  assumes inv: "batch_inv os g x L b c" and one: "one_pool d t c c'" and d: "d < 2" and t: "t \<in> set BLOCK_TYPES"
    and used: "die_used d t c' = ids (v @ region g d t @ concat (map (\<lambda>(k, r). repo_single t r d) L))"
    and ok: "ledger_ok (v @ region g d t @ concat (map (\<lambda>(k, r). repo_single t r d) L))"
  shows "batch_inv os g (take_single d t v x) L b c'"
proof -
  let ?x = "take_single d t v x"
  have ci: "comp_inv c'" and fr: "comp_frame c c'"
    using one one_pool_comp_frame [OF one t] by (simp_all add: one_pool_def)
  have "die_used d' t' c' = ids (single_held (outside g ?x) L d' t') \<and> ledger_ok (single_held (outside g ?x) L d' t')"
    if "d' < 2" "t' \<in> set BLOCK_TYPES" for d' t'
  proof (cases "(d', t') = (d, t)")
    case True
    have "mset (single_held (outside g ?x) L d t) = mset (v @ region g d t @ concat (map (\<lambda>(k, r). repo_single t r d) L))"
      by (simp add: single_held_def outside_def)
    from ledger_ok_perm [OF this] show ?thesis
      using used ok True by simp
  next
    case False
    then have "single_held (outside g ?x) L d' t' = single_held (outside g x) L d' t'"
      by (auto simp: single_held_def outside_def)
    then show ?thesis
      using inv that one False by (auto simp: batch_inv_def singles_inv_def one_pool_def)
  qed
  then have "singles_inv (outside g ?x) L c'"
    using ci by (simp add: singles_inv_def)
  moreover have "casc_inv os (oCount ?x) (oReg ?x) L c'"
    using inv casc_inv_comp_frame [OF _ fr ci] by (simp add: batch_inv_def)
  ultimately show ?thesis
    using inv fr by (simp add: batch_inv_def comp_frame_def)
qed

lemma batch_inv_held:
  assumes "batch_inv os g x L b c" and "d < 2" and "t \<in> set BLOCK_TYPES"
  shows "die_used d t c = ids (oSingle x d t @ region g d t @ concat (map (\<lambda>(k, r). repo_single t r d) L))"
    and "ledger_ok (oSingle x d t @ region g d t @ concat (map (\<lambda>(k, r). repo_single t r d) L))" and "comp_inv c"
proof -
  have "mset (single_held (outside g x) L d t) = mset (oSingle x d t @ region g d t @ concat (map (\<lambda>(k, r). repo_single t r d) L))"
    by (simp add: single_held_def outside_def)
  note eq = ledger_ok_perm [OF this]
  show "die_used d t c = ids (oSingle x d t @ region g d t @ concat (map (\<lambda>(k, r). repo_single t r d) L))"
    and "ledger_ok (oSingle x d t @ region g d t @ concat (map (\<lambda>(k, r). repo_single t r d) L))" and "comp_inv c"
    using assms eq by (auto simp: batch_inv_def singles_inv_def)
qed

lemma pending_perm:
  "sysPending s = P @ (k, r, ret) # Q \<Longrightarrow>
    mset ((k, r) # handleMap (sysBatch s) @ map (\<lambda>(k, r, ret). (k, r)) (P @ Q)) = mset (sys_ledger s)"
  by simp


lemma sys_step_inv:
  assumes "sys_step os specs s s'" and "sys_inv os g s"
  shows "sys_inv os g s'"
  using assms(1)
proof cases
  case (attempt req k chan ret r b c)
  have "batch_inv os g (sysOthers s) ((k, r) # sys_ledger s) b c \<and> keeps_handles (sysBatch s) b"
    using try_inv [OF assms(2) [unfolded sys_inv_def] attempt(4) _ attempt(3,6)] attempt(5) unfolding fst_ledger by blast
  moreover have "mset (handleMap (sysBatch s) @ (k, r) # map (\<lambda>(k, r, ret). (k, r)) (sysPending s)) = mset ((k, r) # sys_ledger s)"
    by simp
  ultimately show ?thesis
    using batch_inv_perm by (auto simp: sys_inv_def attempt(1) keeps_handles_def)
next
  case (publish P k r Q)
  have "batch_inv os g (sysOthers s) ((k, r) # handleMap (sysBatch s) @ map (\<lambda>(k, r, ret). (k, r)) (P @ Q)) (sysBatch s) (sysComp s)"
    by (rule batch_inv_perm [OF assms(2) [unfolded sys_inv_def] pending_perm [OF publish(2)]])
  moreover from this have "k \<notin> fst ` set (handleMap (sysBatch s))"
    by (auto simp: batch_inv_def)
  then have "AList.update k r (handleMap (sysBatch s)) = handleMap (sysBatch s) @ [(k, r)]"
    by (rule update_absent)
  moreover have "mset (handleMap (sysBatch s) @ (k, r) # map (\<lambda>(k, r, ret). (k, r)) (P @ Q))
      = mset ((k, r) # handleMap (sysBatch s) @ map (\<lambda>(k, r, ret). (k, r)) (P @ Q))"
    by simp
  ultimately show ?thesis
    using batch_inv_perm by (auto simp: sys_inv_def publish(1) insert_handle_def)
next
  case (rollback P k r ret Q chan ret' r' b c)
  have "batch_inv os g (sysOthers s) ((k, r) # handleMap (sysBatch s) @ map (\<lambda>(k, r, ret). (k, r)) (P @ Q)) (sysBatch s) (sysComp s)"
    by (rule batch_inv_perm [OF assms(2) [unfolded sys_inv_def] pending_perm [OF rollback(2)]])
  then show ?thesis
    using ReleaseResource_inv [OF _ rollback(4)] by (simp add: sys_inv_def rollback(1) keeps_handles_def)
next
  case (release chan k ret b c)
  show ?thesis
  proof (cases "map_of (handleMap (sysBatch s)) k")
    case None
    then show ?thesis
      using release assms(2) ReleaseResHandle_unknown [OF None] by (simp add: sys_inv_def)
  next
    case (Some r)
    show ?thesis
      using release(2) by (rule_tac ReleaseResHandle_found [OF assms(2) [unfolded sys_inv_def] Some, of chan])
        (simp add: sys_inv_def release(1))
  qed
next
  case (other_takes d t n consecutive infos c)
  note held = batch_inv_held [OF assms(2) [unfolded sys_inv_def] other_takes(2,3)]
  have one: "one_pool d t (sysComp s) c"
    using AllocRes_one_pool [OF held(3), of d t n consecutive] other_takes(4) by simp
  let ?held = "oSingle (sysOthers s) d t @ region g d t @ concat (map (\<lambda>(k, r). repo_single t r d) (sys_ledger s))"
  have "die_used d t c = ids (infos @ ?held)" "ledger_ok (infos @ ?held)"
    using comp.alloc_grants [OF held(3) other_takes(4)] held(2) unfolding held(1) ledger_ok_append [of infos] ids_simps(3) [of infos]
    by blast+
  then show ?thesis
    using batch_inv_other [OF assms(2) [unfolded sys_inv_def] one other_takes(2,3), of "infos @ oSingle (sysOthers s) d t"]
    by (simp add: sys_inv_def other_takes(1))
next
  case (other_returns d t A r B ret c)
  note held = batch_inv_held [OF assms(2) [unfolded sys_inv_def] other_returns(2,3)]
  let ?rest = "B @ region g d t @ concat (map (\<lambda>(k, r). repo_single t r d) (sys_ledger s))"
  have c0: "comp.client_inv d t (sysComp s) (sysComp s, A @ r # ?rest)"
    using held by (simp add: comp.client_inv_def other_returns(4))
  obtain c' where c': "CcuComponent_ReleaseRes d t (startId r) (num r) (sysComp s) = (HCCL_SUCCESS, c')"
    "comp.client_inv d t (sysComp s) (c', A @ ?rest)"
    using comp.release_held [OF c0] .
  have one: "one_pool d t (sysComp s) c"
    using ReleaseRes_one_pool [OF held(3), of d t "startId r" "num r"] other_returns(5) by simp
  have "c = c'"
    using c'(1) other_returns(5) by simp
  then show ?thesis
    using batch_inv_other [OF assms(2) [unfolded sys_inv_def] one other_returns(2,3), of "A @ B"] c'(2)
    by (simp add: sys_inv_def other_returns(1) comp.client_inv_def)
qed

lemma sys_steps_inv: "sys_steps os specs s s' \<Longrightarrow> sys_inv os g s \<Longrightarrow> sys_inv os g s'"
  by (induction rule: sys_steps.induct) (auto intro: sys_step_inv)

definition sys_start :: "CcuResBatchAllocator \<Rightarrow> CcuComponent \<Rightarrow> BatchSystem" where
  "sys_start b c = \<lparr>sysBatch = b, sysComp = c, sysPending = [], sysOthers = no_others\<rparr>"

lemma reachable_inv:
  assumes "fresh_pools c0" and "fresh_batch b0" and "CcuResBatchAllocator_Init specs b0 c0 = (HCCL_SUCCESS, b, c)"
    and "sys_steps os specs (sys_start b c) s"
  obtains g where "sys_inv os g s" and "gAvoid g \<longleftrightarrow> serveMode specs = ARMX86"
    and "\<forall>d<2. \<forall>t\<in>set BLOCK_TYPES. gCount g d t = (if compDieFlags c0 ! d
      then max_blocks t (GetPreAllocatedMaxBlockNums specs d (resStrategies b0)) else 0)"
proof -
  obtain g where "batch_inv os g no_others [] b c" "handleMap b = []" "gAvoid g \<longleftrightarrow> serveMode specs = ARMX86"
    "\<forall>d<2. \<forall>t\<in>set BLOCK_TYPES. gCount g d t = (if compDieFlags c0 ! d
      then max_blocks t (GetPreAllocatedMaxBlockNums specs d (resStrategies b0)) else 0)"
    using Init_establishes [OF assms(1-3), of os] by blast
  moreover from this have "sys_inv os g (sys_start b c)"
    by (simp add: sys_inv_def sys_start_def)
  ultimately show thesis
    using that sys_steps_inv [OF assms(4)] by blast
qed


subsection \<open>What distinct repositories hold is disjoint\<close>

lemma ledger_ok_apart:
  assumes "ledger_ok (concat (map f L))" and "p \<in> set L" and "q \<in> set L" and "p \<noteq> q"
  shows "ids (f p) \<inter> ids (f q) = {}"
  using assms
proof (induction L)
  case (Cons a L)
  have sub: "ids (f y) \<subseteq> ids (concat (map f L))" if "y \<in> set L" for y
    using that by (auto simp: ids_def)
  have a: "ids (f a) \<inter> ids (concat (map f L)) = {}" "ledger_ok (concat (map f L))"
    using Cons.prems(1) by (auto simp: ledger_ok_append)
  then show ?case
    using Cons.IH Cons.prems sub [of p] sub [of q] by (cases "p = a"; cases "q = a") auto
qed simp

lemma distinct_apart:
  assumes "distinct (concat (map f L))" and "p \<in> set L" and "q \<in> set L" and "p \<noteq> q"
  shows "set (f p) \<inter> set (f q) = {}"
  using assms
proof (induction L)
  case (Cons a L)
  then show ?case
    by (cases "p = a"; cases "q = a") fastforce+
qed simp

lemma pool_holds_apart:
  assumes "pool_holds base sz N rsv b V" and "(k, rs) \<in> set V" and "(k', rs') \<in> set V" and "k \<noteq> k'"
  shows "ids rs \<inter> ids rs' = {}" and "ids rs \<subseteq> {base ..< base + N * sz}"
proof -
  obtain ow where ow: "owner_map base sz N rsv b V ow" and sz: "0 < sz"
    using assms(1) by (auto simp: pool_holds_def)
  have o: "owns base sz N ow k rs" "owns base sz N ow k' rs'"
    using owner_mapD(3) [OF ow] assms(2,3) by blast+
  show "ids rs \<inter> ids rs' = {}"
    by (rule owns_apart [OF o assms(4) sz])
  show "ids rs \<subseteq> {base ..< base + N * sz}"
  proof (cases "rs = []")
    case False
    then obtain a m where am: "a + m \<le> N" "rs = [run_of base sz a m]"
      using o(1) by (auto simp: owns_def)
    have "(a + m) * sz \<le> N * sz"
      using am(1) by simp
    then have "{base + a * sz ..< base + (a + m) * sz} \<subseteq> {base ..< base + N * sz}"
      by (meson atLeastLessThan_subset_iff add_le_cancel_left le_add1 subset_iff atLeastLessThan_iff order_trans order_less_le_trans)
    then show ?thesis
      unfolding am(2) ids_run_of .
  qed simp
qed

definition disjoint_repos :: "CcuResRepository \<Rightarrow> CcuResRepository \<Rightarrow> bool" where
  "disjoint_repos r r' \<longleftrightarrow> (\<forall>d<2.
    (\<forall>t\<in>set BLOCK_TYPES. ids (repo_block t r d @ repo_single t r d) \<inter> ids (repo_block t r' d @ repo_single t r' d) = {})
    \<and> ids (mission (repoMission r) d) \<inter> ids (mission (repoMission r') d) = {}
    \<and> ids (map cntResInfo (cascCntBlock r d)) \<inter> ids (map cntResInfo (cascCntBlock r' d)) = {}
    \<and> set (map blockIdx (cascCntBlock r d)) \<inter> set (map blockIdx (cascCntBlock r' d)) = {})"

lemma batch_inv_block_single:
  assumes inv: "batch_inv os g x L b c" and p: "(k, r) \<in> set L" and q: "(k', r') \<in> set L" and d: "d < 2" and t: "t \<in> set BLOCK_TYPES"
    and ne: "k \<noteq> k'"
  shows "ids (repo_block t r d) \<inter> ids (repo_block t r' d) = {}"
    and "ids (repo_block t r d) \<inter> ids (repo_single t r' d) = {}"
proof -
  let ?bl = "ids (repo_block t r d)"
  have bi: "blocks_inv g L b"
    using inv by (simp add: batch_inv_def)
  have bl: "?bl \<inter> ids (repo_block t r' d) = {} \<and> ?bl \<subseteq> ids (region g d t)"
  proof (cases "batchDieFlags b ! d")
    case True
    have ph: "pool_holds (gBase g d t) (bsize t) (gCount g d t) (kept_back g d t) (blocks_at d t b) (block_view t d L)"
      by (rule blocks_invD(1) [OF bi d t True])
    have m: "(k, repo_block t r d) \<in> set (block_view t d L)" "(k', repo_block t r' d) \<in> set (block_view t d L)"
      using p q by force+
    have "ids (region g d t) = {gBase g d t ..< gBase g d t + gCount g d t * bsize t}"
      by (auto simp: region_def block_ids_def)
    then show ?thesis
      using pool_holds_apart [OF ph m ne] by simp
  next
    case False
    then show ?thesis
      using blocks_invD(2) [OF bi d t False p] by simp
  qed
  then show "?bl \<inter> ids (repo_block t r' d) = {}"
    by simp
  have "ids (region g d t) \<inter> ids (concat (map (\<lambda>(k, r). repo_single t r d) L)) = {}"
    using batch_inv_held(2) [OF inv d t] by (simp add: ledger_ok_append)
  moreover have "ids (repo_single t r' d) \<subseteq> ids (concat (map (\<lambda>(k, r). repo_single t r d) L))"
    using q by (force simp: ids_def)
  ultimately show "?bl \<inter> ids (repo_single t r' d) = {}"
    using bl by blast
qed

lemma batch_inv_disjoint:
  assumes inv: "batch_inv os g x L b c" and p: "(k, r) \<in> set L" and q: "(k', r') \<in> set L" and ne: "k \<noteq> k'"
  shows "disjoint_repos r r'"
  unfolding disjoint_repos_def
proof (intro allI impI conjI ballI)
  fix d :: nat assume d: "d < 2"
  have pq: "(k, r) \<noteq> (k', r')"
    using ne by simp
  show "ids (repo_block t r d @ repo_single t r d) \<inter> ids (repo_block t r' d @ repo_single t r' d) = {}"
    if t: "t \<in> set BLOCK_TYPES" for t
  proof -
    have "ids (repo_single t r d) \<inter> ids (repo_single t r' d) = {}"
      using batch_inv_held(2) [OF inv d t] ledger_ok_apart [OF _ p q pq, of "\<lambda>(k, r). repo_single t r d"] by (simp add: ledger_ok_append)
    then show ?thesis
      using batch_inv_block_single [OF inv p q d t ne] batch_inv_block_single(2) [OF inv q p d t] ne by auto
  qed
  have mi: "missions_inv g L (batchDieFlags b) (missionMgr b)"
    using inv by (simp add: batch_inv_def)
  have m: "(k, mission_run (batchDieFlags b) r) \<in> set (mission_view (batchDieFlags b) L)"
    "(k', mission_run (batchDieFlags b) r') \<in> set (mission_view (batchDieFlags b) L)"
    using p q by force+
  have "ids (mission_run (batchDieFlags b) r) \<inter> ids (mission_run (batchDieFlags b) r') = {}"
    using mi pool_holds_apart(1) [OF _ m ne] unfolding missions_inv_def by blast
  moreover have "same_missions (batchDieFlags b) r" "same_missions (batchDieFlags b) r'"
    using mi p q by (auto simp: missions_inv_def)
  ultimately show "ids (mission (repoMission r) d) \<inter> ids (mission (repoMission r') d) = {}"
    using d by (simp add: same_missions_def)
  have "casc_inv os (oCount x) (oReg x) L c"
    using inv by (simp add: batch_inv_def)
  then have ci: "ledger_ok (cnt_held (oCount x) L d)" "distinct (reg_held (oReg x) L d)"
    using d unfolding casc_inv_def by blast+
  show "ids (map cntResInfo (cascCntBlock r d)) \<inter> ids (map cntResInfo (cascCntBlock r' d)) = {}"
    using ci(1) ledger_ok_apart [OF _ p q pq, of "\<lambda>(k, r). map cntResInfo (cascCntBlock r d)"] by (simp add: cnt_held_def ledger_ok_append)
  show "set (map blockIdx (cascCntBlock r d)) \<inter> set (map blockIdx (cascCntBlock r' d)) = {}"
    using ci(2) distinct_apart [OF _ p q pq, of "\<lambda>(k, r). map blockIdx (cascCntBlock r d)"] unfolding reg_held_def distinct_append
    by (metis case_prod_conv)
qed

end
