(* ===== verification/Batch_Grants.thy ===== *)
theory Batch_Grants
  imports Batch_System
begin

text \<open>
  What a granted request holds: runs of whole blocks that cover each number of blocked ids asked for, exactly
  the number of single ids asked for, a counting XN block for each one asked for, and missions. Deinitialisation
  gives everything back but the blocks themselves and what other clients hold.
\<close>

subsection \<open>Block runs\<close>

definition block_met :: "CcuResReq \<Rightarrow> CcuResRepository \<Rightarrow> nat \<Rightarrow> ResType \<Rightarrow> bool" where
  "block_met req r d t \<longleftrightarrow> (if block_req t req d = 0 then repo_block t r d = []
    else map num (repo_block t r d) = [blocks_for (block_req t req d) (bsize t) * bsize t])"

lemma HandleBlockRes_run:
  assumes "HandleBlockRes k n sz blocks infos = (HCCL_SUCCESS, blocks', infos')" and "0 < n" and "n < 2 ^ 32" and "0 < sz"
    and "length blocks * sz < 2 ^ 32"
  shows "length blocks' = length blocks \<and> map num infos' = map num infos @ [blocks_for n sz * sz]"
proof -
  let ?m = "blocks_for n sz"
  note m = blockNum_exact [OF assms(2,3), of sz]
  have scan: "first_run blocks ?m (HandleBlockRes_scan (length blocks) ?m blocks 0 (length blocks) 0)"
    using HandleBlockRes_scan_first [OF blocks_for_bounds(1) [OF assms(2,4)], of blocks] .
  then obtain a where a: "HandleBlockRes_scan (length blocks) ?m blocks 0 (length blocks) 0 = Some a"
    using assms(1) by (cases "HandleBlockRes_scan (length blocks) ?m blocks 0 (length blocks) 0") (auto simp: HandleBlockRes_def Let_def m)
  then have "a + ?m \<le> length blocks"
    using scan by (auto simp: first_run_def free_blocks_def)
  then have "?m * sz \<le> length blocks * sz"
    by (intro mult_le_mono1) simp
  then have "u32_mul ?m sz = ?m * sz"
    using assms(5) by (intro u32_mul_exact) linarith
  then show ?thesis
    using assms(1) a by (auto simp: HandleBlockRes_def Let_def m)
qed

definition vec_bounds :: "CcuResBatchAllocator \<Rightarrow> bool" where
  "vec_bounds b \<longleftrightarrow> resStrategies b = [CcuBlockResStrategy_default, CcuBlockResStrategy_default]
    \<and> (\<forall>d<2. \<forall>t\<in>set BLOCK_TYPES. batchDieFlags b ! d \<longrightarrow> length (blocks_at d t b) * bsize t < 2 ^ 32)"

lemma pool_holds_length: "pool_holds base sz N rsv b V \<Longrightarrow> length b = N \<and> N * sz < 2 ^ 32"
  by (auto simp: pool_holds_def owner_map_def)

lemma blocks_inv_bounds:
  assumes "blocks_inv g L b"
  shows "vec_bounds b"
proof -
  have "length (blocks_at d t b) * bsize t < 2 ^ 32" if "d < 2" "t \<in> set BLOCK_TYPES" "batchDieFlags b ! d" for d t
    using pool_holds_length [OF blocks_invD(1) [OF assms that]] by metis
  then show ?thesis
    using assms by (simp add: vec_bounds_def blocks_inv_def)
qed

lemma AllocBlockRes_loop_met:
  assumes "vec_bounds b" and "pools_of dts" and "\<forall>(d, t)\<in>set dts. repo_block t r d = [] \<and> block_req t req d < 2 ^ 32"
    and "AllocBlockRes_loop k req dts r b = (HCCL_SUCCESS, r', b')"
  shows "(\<forall>(d, t)\<in>set dts. batchDieFlags b ! d \<longrightarrow> block_met req r' d t)
    \<and> (\<forall>d t. (d, t) \<notin> set dts \<longrightarrow> repo_block t r' d = repo_block t r d)"
  using assms
proof (induction dts arbitrary: r b)
  case Nil
  then show ?case
    by simp
next
  case (Cons dt dts)
  obtain d t where dt: "dt = (d, t)"
    by fastforce
  have d: "d < 2" "t \<in> set BLOCK_TYPES" "pools_of dts" "(d, t) \<notin> set dts"
    using Cons.prems(2) by (auto simp: dt pools_of_def)
  have strat: "block_size t (resStrategies b ! d) = bsize t"
    using Cons.prems(1) d(1) by (auto simp: vec_bounds_def less_2_cases_iff)
  show ?case
  proof (cases "batchDieFlags b ! d \<and> block_req t req d \<noteq> 0")
    case False
    then have "AllocBlockRes_loop k req dts r b = (HCCL_SUCCESS, r', b')"
      using Cons.prems(4) by (auto simp: dt split: if_splits)
    moreover have "\<forall>(d, t)\<in>set dts. repo_block t r d = [] \<and> block_req t req d < 2 ^ 32"
      using Cons.prems(3) by simp
    ultimately have ih: "(\<forall>(d, t)\<in>set dts. batchDieFlags b ! d \<longrightarrow> block_met req r' d t)"
      "\<forall>d t. (d, t) \<notin> set dts \<longrightarrow> repo_block t r' d = repo_block t r d"
      using Cons.IH [OF Cons.prems(1) d(3)] by blast+
    have "repo_block t r' d = []"
      using ih(2) d(4) Cons.prems(3) by (simp add: dt)
    then have "batchDieFlags b ! d \<longrightarrow> block_met req r' d t"
      using False by (simp add: block_met_def)
    then show ?thesis
      using ih by (auto simp: dt)
  next
    case True
    obtain e bl infos where call: "HandleBlockRes k (block_req t req d) (bsize t) (blocks_at d t b) (repo_block t r d) = (e, bl, infos)"
      by (metis prod_cases3)
    have r0: "repo_block t r d = []" "block_req t req d < 2 ^ 32"
      using Cons.prems(3) by (simp_all add: dt)
    have e: "e = HCCL_SUCCESS" and rest: "AllocBlockRes_loop k req dts (set_repo_block t d infos r) (set_blocks d t bl b) = (HCCL_SUCCESS, r', b')"
      using Cons.prems(4) True call strat by (auto simp: dt Let_def split: if_splits)
    have "length (blocks_at d t b) * bsize t < 2 ^ 32"
      using Cons.prems(1) d(1,2) True by (simp add: vec_bounds_def)
    then have run: "length bl = length (blocks_at d t b)" "map num infos = [blocks_for (block_req t req d) (bsize t) * bsize t]"
      using HandleBlockRes_run [OF call [unfolded e] _ r0(2) bsize_pos [OF d(2)]] True r0(1) by simp_all
    have "vec_bounds (set_blocks d t bl b)"
      using Cons.prems(1) run(1) by (simp add: vec_bounds_def)
    moreover have "\<forall>(d', t')\<in>set dts. repo_block t' (set_repo_block t d infos r) d' = [] \<and> block_req t' req d' < 2 ^ 32"
      using Cons.prems(3) d(2,4) by auto
    ultimately have ih: "(\<forall>(d', t')\<in>set dts. batchDieFlags b ! d' \<longrightarrow> block_met req r' d' t')"
      "\<forall>d' t'. (d', t') \<notin> set dts \<longrightarrow> repo_block t' r' d' = repo_block t' (set_repo_block t d infos r) d'"
      using Cons.IH [OF _ d(3) _ rest] by simp_all
    have "repo_block t r' d = infos"
      using ih(2) d(2,4) by simp
    then have "block_met req r' d t"
      using run(2) True by (simp add: block_met_def)
    then show ?thesis
      using ih d(2) by (auto simp: dt)
  qed
qed

subsection \<open>Single ids and counting XN blocks\<close>

lemma AllocRes_count:
  assumes "comp_inv c" and "CcuComponent_AllocRes d t n cons c = (HCCL_SUCCESS, ns, c')"
  shows "sum_list (map num ns) = n"
proof -
  obtain a where a: "CcuResAllocator_Alloc t n cons (die_alloc d c) = (HCCL_SUCCESS, ns, a)"
    using AllocRes_success [OF assms] .
  let ?p = "pool_of t (die_alloc d c)"
  obtain a' where a': "Alloc n cons ?p = (HCCL_SUCCESS, ns, a')"
    using typed_alloc_success [OF die_alloc_inv [OF assms(1)] a] .
  have p: "alloc_inv ?p"
    by (rule pool_inv [OF die_alloc_inv [OF assms(1)]])
  then have poss: "alloc_possible n cons ?p"
    using Alloc_fail [OF p, of n cons] a' by (cases "alloc_possible n cons ?p") (auto split: if_splits)
  show ?thesis
    using a' by (rule_tac Alloc_ok [OF p poss]) simp
qed

lemma AllocSingle_loop_met:
  assumes "comp_inv c" and "pools_of dts" and "\<forall>(d, t)\<in>set dts. repo_single t r d = []"
    and "AllocSingle_loop cons req flags dts r c = (HCCL_SUCCESS, r', c')"
  shows "\<forall>(d, t)\<in>set dts. flags ! d \<longrightarrow> sum_list (map num (repo_single t r' d)) = single_req t req d"
    and "\<forall>d t. (d, t) \<notin> set dts \<longrightarrow> repo_single t r' d = repo_single t r d"
proof -
  have "(\<forall>(d, t)\<in>set dts. flags ! d \<longrightarrow> sum_list (map num (repo_single t r' d)) = single_req t req d)
    \<and> (\<forall>d t. (d, t) \<notin> set dts \<longrightarrow> repo_single t r' d = repo_single t r d)"
    using assms
  proof (induction dts arbitrary: r c)
    case Nil
    then show ?case
      by simp
  next
    case (Cons dt dts)
    obtain d t where dt: "dt = (d, t)"
      by fastforce
    have d: "t \<in> set BLOCK_TYPES" "pools_of dts" "(d, t) \<notin> set dts"
      using Cons.prems(2) by (auto simp: dt pools_of_def)
    have r0: "repo_single t r d = []"
      using Cons.prems(3) by (simp add: dt)
    show ?case
    proof (cases "flags ! d \<and> single_req t req d \<noteq> 0")
      case False
      then have "AllocSingle_loop cons req flags dts r c = (HCCL_SUCCESS, r', c')"
        using Cons.prems(4) by (auto simp: dt split: if_splits)
      moreover have "\<forall>(d, t)\<in>set dts. repo_single t r d = []"
        using Cons.prems(3) by simp
      ultimately have ih: "\<forall>(d, t)\<in>set dts. flags ! d \<longrightarrow> sum_list (map num (repo_single t r' d)) = single_req t req d"
        "\<forall>d t. (d, t) \<notin> set dts \<longrightarrow> repo_single t r' d = repo_single t r d"
        using Cons.IH [OF Cons.prems(1) d(2)] by blast+
      have "repo_single t r' d = []"
        using ih(2) d(3) r0 by simp
      then have "flags ! d \<longrightarrow> sum_list (map num (repo_single t r' d)) = single_req t req d"
        using False by simp
      then show ?thesis
        using ih by (auto simp: dt)
    next
      case True
      obtain e infos c1 where call: "CcuComponent_AllocRes d t (single_req t req d) cons c = (e, infos, c1)"
        by (metis prod_cases3)
      have e: "e = HCCL_SUCCESS" and rest: "AllocSingle_loop cons req flags dts (set_repo_single t d infos r) c1 = (HCCL_SUCCESS, r', c')"
        using Cons.prems(4) True call by (auto simp: dt split: if_splits)
      have "comp_inv c1"
        using AllocRes_one_pool [OF Cons.prems(1), of d t "single_req t req d" cons] call by (simp add: one_pool_def)
      moreover have "\<forall>(d', t')\<in>set dts. repo_single t' (set_repo_single t d infos r) d' = []"
        using Cons.prems(3) d(1,3) by auto
      ultimately have ih: "\<forall>(d', t')\<in>set dts. flags ! d' \<longrightarrow> sum_list (map num (repo_single t' r' d')) = single_req t' req d'"
        "\<forall>d' t'. (d', t') \<notin> set dts \<longrightarrow> repo_single t' r' d' = repo_single t' (set_repo_single t d infos r) d'"
        using Cons.IH [OF _ d(2) _ rest] by simp_all
      have "repo_single t r' d = infos"
        using ih(2) d(1,3) by simp
      then have "sum_list (map num (repo_single t r' d)) = single_req t req d"
        using AllocRes_count [OF Cons.prems(1) call [unfolded e]] by simp
      then show ?thesis
        using ih d(1) by (auto simp: dt)
    qed
  qed
  then show "\<forall>(d, t)\<in>set dts. flags ! d \<longrightarrow> sum_list (map num (repo_single t r' d)) = single_req t req d"
    and "\<forall>d t. (d, t) \<notin> set dts \<longrightarrow> repo_single t r' d = repo_single t r d"
    by blast+
qed


lemma AllocSingle_loop_frame:
  assumes "comp_inv c" and "AllocSingle_loop cons req flags dts r c = (ret, r', c')"
  shows "single_frame r r' \<and> comp_inv c'"
  using assms
proof (induction dts arbitrary: r c)
  case (Cons dt dts)
  obtain d t where dt: "dt = (d, t)"
    by fastforce
  obtain e infos c1 where call: "CcuComponent_AllocRes d t (single_req t req d) cons c = (e, infos, c1)"
    by (metis prod_cases3)
  have "comp_inv c1"
    using AllocRes_one_pool [OF Cons.prems(1), of d t "single_req t req d" cons] call by (simp add: one_pool_def)
  then show ?case
    using Cons.IH [OF Cons.prems(1), of r] Cons.IH [of c1 "set_repo_single t d infos r"] Cons.prems call
      single_frame_trans [OF single_frame_set(2) [of r t d infos], of r']
    by (auto simp: dt split: if_splits)
qed simp

lemma AllocCascCnt_one_met:
  assumes "AllocCascCnt_one chan os specs d r c = (ret, r', c')"
  shows "casc_frame r r' \<and> (\<forall>d'. d' \<noteq> d \<longrightarrow> cascCntBlock r' d' = cascCntBlock r d')
    \<and> (ret = HCCL_SUCCESS \<longrightarrow> length (cascCntBlock r' d) = Suc (length (cascCntBlock r d)))"
  using assms
  by (auto simp: AllocCascCnt_one_def BuildCntXnBlock_def Let_def casc_frame_def split: prod.splits sum.splits if_splits)

lemma AllocCascCnt_rounds_met:
  assumes "AllocCascCnt_rounds chan os specs d n r c = (ret, r', c')"
  shows "casc_frame r r' \<and> (\<forall>d'. d' \<noteq> d \<longrightarrow> cascCntBlock r' d' = cascCntBlock r d')
    \<and> (ret = HCCL_SUCCESS \<longrightarrow> length (cascCntBlock r' d) = length (cascCntBlock r d) + n)"
  using assms
proof (induction n arbitrary: r c)
  case (Suc n)
  obtain e r1 c1 where one: "AllocCascCnt_one chan os specs d r c = (e, r1, c1)"
    by (metis prod_cases3)
  show ?case
    using Suc.IH [of r1 c1] Suc.prems AllocCascCnt_one_met [OF one] casc_frame_trans [of r r1 r'] one
    by (auto split: if_splits)
qed simp

lemma AllocCascCntRes_loop_met:
  assumes "AllocCascCntRes_loop chan os specs req dies r c = (ret, r', c')" and "distinct dies"
  shows "casc_frame r r' \<and> (\<forall>d. d \<notin> set dies \<longrightarrow> cascCntBlock r' d = cascCntBlock r d)
    \<and> (ret = HCCL_SUCCESS \<longrightarrow> (\<forall>d\<in>set dies. length (cascCntBlock r' d) = length (cascCntBlock r d) + cascCntReq req d))"
  using assms
proof (induction dies arbitrary: r c)
  case (Cons d dies)
  obtain e r1 c1 where one: "AllocCascCnt_rounds chan os specs d (cascCntReq req d) r c = (e, r1, c1)"
    by (metis prod_cases3)
  note m1 = AllocCascCnt_rounds_met [OF one]
  have d: "d \<notin> set dies" "distinct dies"
    using Cons.prems(2) by auto
  consider "cascCntReq req d = 0" "AllocCascCntRes_loop chan os specs req dies r c = (ret, r', c')"
    | "r' = r" "ret \<noteq> HCCL_SUCCESS" | "r' = r1" "ret \<noteq> HCCL_SUCCESS"
    | "e = HCCL_SUCCESS" "AllocCascCntRes_loop chan os specs req dies r1 c1 = (ret, r', c')"
    using Cons.prems(1) one by (auto split: if_splits)
  then show ?case
  proof cases
    case 1
    then show ?thesis
      using Cons.IH [OF 1(2) d(2)] d(1) by simp
  next
    case 4
    have ih: "casc_frame r1 r'" "\<forall>d. d \<notin> set dies \<longrightarrow> cascCntBlock r' d = cascCntBlock r1 d"
      "ret = HCCL_SUCCESS \<longrightarrow> (\<forall>d\<in>set dies. length (cascCntBlock r' d) = length (cascCntBlock r1 d) + cascCntReq req d)"
      using Cons.IH [OF 4(2) d(2)] by blast+
    have "cascCntBlock r1 d' = cascCntBlock r d'" if "d' \<in> set dies" for d'
      using m1 that d(1) by metis
    then show ?thesis
      using ih m1 4(1) d(1) casc_frame_trans [of r r1 r'] by auto
  qed (use m1 in auto)
qed simp

definition request_met :: "bool list \<Rightarrow> CcuResReq \<Rightarrow> CcuResRepository \<Rightarrow> bool" where
  "request_met flags req r \<longleftrightarrow> (\<forall>d<2. length (cascCntBlock r d) = cascCntReq req d
    \<and> (\<forall>t\<in>set BLOCK_TYPES. flags ! d \<longrightarrow> block_met req r d t \<and> sum_list (map num (repo_single t r d)) = single_req t req d))"

lemma AllocBlockRes_loop_frames:
  "pools_of dts \<Longrightarrow> AllocBlockRes_loop k req dts r b = (ret, r', b') \<Longrightarrow> block_frame r r' \<and> batch_frame b b'"
proof (induction dts arbitrary: r b)
  case (Cons dt dts)
  obtain d t where dt: "dt = (d, t)"
    by fastforce
  obtain e bl infos where call: "HandleBlockRes k (block_req t req d) (block_size t (resStrategies b ! d)) (blocks_at d t b) (repo_block t r d) = (e, bl, infos)"
    by (metis prod_cases3)
  have "pools_of dts"
    using Cons.prems(1) by (simp add: pools_of_def)
  then show ?case
    using Cons.IH [of r b] Cons.IH [of "set_repo_block t d infos r" "set_blocks d t bl b"] Cons.prems(2) call
      frames_trans(1) [of r "set_repo_block t d infos r" r'] frames_trans(2) [of b "set_blocks d t bl b" b']
    by (auto simp: dt Let_def split: if_splits)
qed simp

lemma AllocBlockRes_frames: "AllocBlockRes k req r b = (ret, r', b') \<Longrightarrow> block_frame r r' \<and> batch_frame b b'"
  using AllocBlockRes_loop_frames [OF pools_of_all] by (simp add: AllocBlockRes_def)

lemma TryAllocResHandle_met:
  assumes inv: "batch_inv os g x L b c" and req: "req_u32 req"
    and call: "TryAllocResHandle chan os specs k req CcuResRepository_new b c = (HCCL_SUCCESS, r', b', c')"
  shows "request_met (batchDieFlags b) req r'"
proof -
  obtain e1 r1 b1 where a1: "AllocBlockRes k req CcuResRepository_new b = (e1, r1, b1)"
    by (metis prod_cases3)
  obtain e2 q m where a2: "CcuMissionMgr_Alloc k (missionReq req) (repoMission r1) (missionMgr b1) = (e2, q, m)"
    by (metis prod_cases3)
  let ?r2 = "r1\<lparr>repoMission := q\<rparr>"
  obtain e3 r3 c3 where a3: "AllocConsecutiveRes req (batchDieFlags b1) ?r2 c = (e3, r3, c3)"
    by (metis prod_cases3)
  obtain e4 r4 c4 where a4: "AllocDiscreteRes req (batchDieFlags b1) r3 c3 = (e4, r4, c4)"
    by (metis prod_cases3)
  obtain e5 r5 c5 where a5: "AllocCascCntRes chan os specs req r4 c4 = (e5, r5, c5)"
    by (metis prod_cases3)
  have ok: "e1 = HCCL_SUCCESS" "e3 = HCCL_SUCCESS" "e4 = HCCL_SUCCESS" "e5 = HCCL_SUCCESS" "r' = r5"
    using call a1 a2 a3 a4 a5 by (auto simp: TryAllocResHandle_def Let_def split: if_splits)
  have bi: "blocks_inv g L b" and ci: "comp_inv c"
    using inv by (simp_all add: batch_inv_def singles_inv_def)
  have prods: "(d, t) \<in> set (List.product DIES BLOCK_TYPES) \<longleftrightarrow> d < 2 \<and> t \<in> set BLOCK_TYPES" for d t
    by (auto simp: DIES_eq less_2_cases_iff)
  have "\<forall>(d, t)\<in>set (List.product DIES BLOCK_TYPES). repo_block t CcuResRepository_new d = [] \<and> block_req t req d < 2 ^ 32"
    using req by (auto simp: DIES_eq req_u32_def)
  from AllocBlockRes_loop_met [OF blocks_inv_bounds [OF bi] pools_of_all this a1 [unfolded AllocBlockRes_def ok(1)]]
  have bm: "block_met req r1 d t" if "d < 2" "t \<in> set BLOCK_TYPES" "batchDieFlags b ! d" for d t
    using that prods by blast
  have fr: "block_frame CcuResRepository_new r1" "batchDieFlags b1 = batchDieFlags b"
    using AllocBlockRes_frames [OF a1] by (simp_all add: batch_frame_def)
  have r2: "repo_single t ?r2 d = []" for t d
    using fr(1) by (simp add: block_frame_def)
  have s3: "single_frame ?r2 r3" "comp_inv c3"
    using AllocSingle_loop_frame [OF ci a3 [unfolded AllocConsecutiveRes_def]] by blast+
  have s4: "single_frame r3 r4" "comp_inv c4"
    using AllocSingle_loop_frame [OF s3(2) a4 [unfolded AllocDiscreteRes_def]] by blast+
  have m3: "\<forall>(d, t)\<in>set (List.product DIES [ResType_XN]). batchDieFlags b1 ! d \<longrightarrow> sum_list (map num (repo_single t r3 d)) = single_req t req d"
    "\<forall>d t. (d, t) \<notin> set (List.product DIES [ResType_XN]) \<longrightarrow> repo_single t r3 d = repo_single t ?r2 d"
    using AllocSingle_loop_met [OF ci pools_of_discrete(1) _ a3 [unfolded AllocConsecutiveRes_def ok(2)]] r2 by blast+
  have z: "\<forall>(d, t)\<in>set (List.product DIES DISCRETE_TYPES). repo_single t r3 d = []"
    using m3(2) r2 by (fastforce simp: DISCRETE_TYPES_def simp del: repo_single.simps)
  have m4: "\<forall>(d, t)\<in>set (List.product DIES DISCRETE_TYPES). batchDieFlags b1 ! d \<longrightarrow> sum_list (map num (repo_single t r4 d)) = single_req t req d"
    "\<forall>d t. (d, t) \<notin> set (List.product DIES DISCRETE_TYPES) \<longrightarrow> repo_single t r4 d = repo_single t r3 d"
    using AllocSingle_loop_met [OF s3(2) pools_of_discrete(2) z a4 [unfolded AllocDiscreteRes_def ok(3)]] by blast+
  have m5: "casc_frame r4 r5" "\<forall>d\<in>{0, 1}. length (cascCntBlock r5 d) = length (cascCntBlock r4 d) + cascCntReq req d"
    using AllocCascCntRes_loop_met [OF a5 [unfolded AllocCascCntRes_def]] ok(4) by (simp_all add: DIES_eq)
  have "cascCntBlock r4 d = []" for d
    using s3(1) s4(1) fr(1) by (simp add: single_frame_def block_frame_def)
  then have "length (cascCntBlock r5 d) = cascCntReq req d" if "d < 2" for d
    using m5(2) that by (auto simp: less_2_cases_iff)
  moreover have "block_met req r5 d t" if "d < 2" "t \<in> set BLOCK_TYPES" "batchDieFlags b ! d" for d t
    using bm [OF that] s3(1) s4(1) m5(1) by (simp add: block_met_def single_frame_def casc_frame_def)
  moreover have "sum_list (map num (repo_single t r5 d)) = single_req t req d"
    if "d < 2" "t \<in> set BLOCK_TYPES" "batchDieFlags b ! d" for d t
  proof -
    have dd: "d \<in> set DIES"
      using that(1) by (auto simp: DIES_eq)
    have "t = ResType_XN \<or> t \<in> set DISCRETE_TYPES" "ResType_XN \<notin> set DISCRETE_TYPES"
      using that(2) by (auto simp: BLOCK_TYPES_def DISCRETE_TYPES_def)
    then have "sum_list (map num (repo_single t r4 d)) = single_req t req d"
      using m3(1) m4 that(3) dd fr(2) by fastforce
    then show ?thesis
      using m5(1) by (simp add: casc_frame_def)
  qed
  ultimately show ?thesis
    by (simp add: request_met_def ok(5))
qed

end
