(* ===== verification/Batch_Properties.thy ===== *)
theory Batch_Properties
  imports Batch_Grants "HOL-Library.Code_Target_Nat"
begin

text \<open>
  What the batch allocator guarantees to its callers, in every state that initialisation and any interleaving of
  the critical sections of its threads with the calls of other clients can reach.
\<close>

subsection \<open>Reachable states\<close>

definition batch_reachable :: "bool \<Rightarrow> CcuResSpecifications \<Rightarrow> BatchSystem \<Rightarrow> bool" where
  "batch_reachable os specs s \<longleftrightarrow> (\<exists>chan plat cfgMgr phyRet c0 b c.
    CcuComponent_Init chan plat cfgMgr phyRet specs CcuComponent_new = (HCCL_SUCCESS, c0)
    \<and> CcuResBatchAllocator_Init specs CcuResBatchAllocator_new c0 = (HCCL_SUCCESS, b, c)
    \<and> sys_steps os specs (sys_start b c) s)"

lemma fresh_batch_new: "fresh_batch CcuResBatchAllocator_new"
  by (simp add: fresh_batch_def CcuResBatchAllocator_new_def CCU_MAX_IODIE_NUM_def numeral_2_eq_2)

lemma CcuComponent_new_sel:
  "\<not> compInitFlag CcuComponent_new" "length (compDieFlags CcuComponent_new) = 2" "resAllocators CcuComponent_new = [None, None]"
  by (simp_all add: CcuComponent_new_def CCU_MAX_IODIE_NUM_def numeral_2_eq_2)

definition others_count :: "BatchSystem \<Rightarrow> bool" where
  "others_count s \<longleftrightarrow> oCount (sysOthers s) = (\<lambda>_. []) \<and> oReg (sysOthers s) = (\<lambda>_. [])"

lemma steps_others_count: "sys_steps os specs s s' \<Longrightarrow> others_count s \<Longrightarrow> others_count s'"
proof (induction rule: sys_steps.induct)
  case (more s s1 s2)
  then have "others_count s1"
    by simp
  with more(2) show ?case
    by (cases rule: sys_step.cases) (auto simp: others_count_def)
qed

lemma reachable_ledger:
  assumes "batch_reachable os specs s" and "specs_fit specs"
  obtains g where "sys_inv os g s" and "gAvoid g \<longleftrightarrow> serveMode specs = ARMX86" and "others_count s"
proof -
  obtain chan plat cfgMgr phyRet c0 b c where r: "CcuComponent_Init chan plat cfgMgr phyRet specs CcuComponent_new = (HCCL_SUCCESS, c0)"
    "CcuResBatchAllocator_Init specs CcuResBatchAllocator_new c0 = (HCCL_SUCCESS, b, c)" "sys_steps os specs (sys_start b c) s"
    using assms(1) by (auto simp: batch_reachable_def)
  have "fresh_pools c0"
    using CcuComponent_Init_fresh(1) [OF assms(2) r(1)] CcuComponent_new_sel by blast
  moreover have "others_count s"
    using steps_others_count [OF r(3)] by (simp add: others_count_def sys_start_def no_others_def)
  ultimately show thesis
    using reachable_inv [OF _ fresh_batch_new r(2,3)] that by metis
qed

subsection \<open>Properties\<close>

text \<open>C2. In every reachable state, the repositories of two live handles share nothing: no id of
  a block or of a single resource of any type (also not one's block and the other's single id), no mission, no
  counting XN and no comparison register.\<close>

theorem handles_disjoint:
  assumes "batch_reachable os specs s" and "specs_fit specs"
    and "map_of (handleMap (sysBatch s)) h = Some r" and "map_of (handleMap (sysBatch s)) h' = Some r'" and "h \<noteq> h'"
  shows "disjoint_repos r r'"
proof -
  obtain g where "sys_inv os g s"
    using reachable_ledger [OF assms(1,2)] .
  then have inv: "batch_inv os g (sysOthers s) (sys_ledger s) (sysBatch s) (sysComp s)"
    by (simp add: sys_inv_def)
  have "(h, r) \<in> set (sys_ledger s)" "(h', r') \<in> set (sys_ledger s)"
    using map_of_SomeD [OF assms(3)] map_of_SomeD [OF assms(4)] by simp_all
  then show ?thesis
    by (rule batch_inv_disjoint [OF inv _ _ assms(5)])
qed

lemma request_cases:
  assumes "batch_reachable os specs s" and "specs_fit specs" and "req_u32 req"
    and "ptr \<notin> fst ` set (handleMap (sysBatch s)) \<union> fst ` set (sysPending s)"
    and "AllocResHandle chan os specs ptr req h0 (sysBatch s) (sysComp s) = (ret, h, b', c')"
  shows "if ret = HCCL_SUCCESS
    then h = ptr \<and> (\<exists>r. handleMap b' = handleMap (sysBatch s) @ [(ptr, r)] \<and> request_met (batchDieFlags b') req r)
    else same_resources (sysBatch s) (sysComp s) b' c' \<and> (h = 0 \<or> ret = HCCL_E_PTR)"
proof -
  obtain g where "sys_inv os g s"
    using reachable_ledger [OF assms(1,2)] .
  then have inv: "batch_inv os g (sysOthers s) (sys_ledger s) (sysBatch s) (sysComp s)"
    by (simp add: sys_inv_def)
  have k: "ptr \<notin> fst ` set (sys_ledger s)"
    using assms(4) unfolding fst_ledger .
  note out = AllocResHandle_cases [OF inv k assms(3,5)]
  show ?thesis
  proof (cases "ret = HCCL_SUCCESS")
    case True
    obtain r b1 c1 where t: "TryAllocResHandle chan os specs ptr req CcuResRepository_new (sysBatch s) (sysComp s) = (HCCL_SUCCESS, r, b1, c1)"
      "b' = insert_handle ptr r b1"
      using assms(5) True by (auto simp: AllocResHandle_def split: if_splits prod.splits)
    have "ptr \<noteq> 0" "keeps_handles (sysBatch s) b1"
      using out True try_inv [OF inv _ k assms(3) t(1)] by auto
    then have "handleMap b' = handleMap (sysBatch s) @ [(ptr, r)]" "batchDieFlags b' = batchDieFlags (sysBatch s)"
      using update_absent [of ptr "handleMap (sysBatch s)" r] assms(4) by (simp_all add: t(2) insert_handle_def keeps_handles_def)
    moreover have "request_met (batchDieFlags (sysBatch s)) req r"
      by (rule TryAllocResHandle_met [OF inv assms(3) t(1)])
    ultimately show ?thesis
      using out True by auto
  next
    case False
    then show ?thesis
      using out by auto
  qed
qed

text \<open>C5. A request for a handle in a reachable state, with a pointer that no live repository has,
  either succeeds or changes nothing. On success the handle is the pointer, its repository is recorded and meets
  the request: a run of just enough whole blocks of each type, exactly the single ids and counting XN blocks
  asked for. On failure every block vector, pool, counting XN and register is as before, no handle is
  recorded, and the returned handle is null unless \<^verbatim>\<open>new\<close> itself failed. This holds whatever the
  channel driver answers, also on the way back.\<close>

theorem request_outcome:
  assumes "batch_reachable os specs s" and "specs_fit specs" and "req_u32 req"
    and "ptr \<notin> fst ` set (handleMap (sysBatch s)) \<union> fst ` set (sysPending s)"
    and "AllocResHandle chan os specs ptr req h0 (sysBatch s) (sysComp s) = (ret, h, b', c')"
  shows "if ret = HCCL_SUCCESS
    then h = ptr \<and> (\<exists>r. handleMap b' = handleMap (sysBatch s) @ [(ptr, r)] \<and> request_met (batchDieFlags b') req r)
    else same_resources (sysBatch s) (sysComp s) b' c' \<and> (h = 0 \<or> ret = HCCL_E_PTR)"
  by (rule request_cases [OF assms])

text \<open>C23. A handle obtained in a reachable state can be released at once, whatever the driver
  answers, and that leaves every block vector, pool, counting XN, register and the table of handles exactly as
  they were before the request.\<close>

theorem release_restores:
  assumes "batch_reachable os specs s" and "specs_fit specs" and "req_u32 req"
    and "ptr \<notin> fst ` set (handleMap (sysBatch s)) \<union> fst ` set (sysPending s)"
    and "AllocResHandle chan os specs ptr req h0 (sysBatch s) (sysComp s) = (HCCL_SUCCESS, h, b', c')"
  shows "\<exists>b'' c''. ReleaseResHandle chan' os h b' c' = (HCCL_SUCCESS, b'', c'')
    \<and> same_resources (sysBatch s) (sysComp s) b'' c''"
proof -
  let ?P = "map (\<lambda>(k, r, ret). (k, r)) (sysPending s)"
  obtain g where "sys_inv os g s"
    using reachable_ledger [OF assms(1,2)] .
  then have inv: "batch_inv os g (sysOthers s) (handleMap (sysBatch s) @ ?P) (sysBatch s) (sysComp s)"
    by (simp add: sys_inv_def)
  have k: "ptr \<notin> fst ` set (handleMap (sysBatch s) @ ?P)"
    using assms(4) unfolding fst_ledger .
  obtain r where h: "h = ptr" "handleMap b' = handleMap (sysBatch s) @ [(ptr, r)]" "batchDieFlags b' = batchDieFlags (sysBatch s)"
    and inv': "batch_inv os g (sysOthers s) (handleMap b' @ ?P) b' c'"
    using AllocResHandle_cases [OF inv k assms(3,5)] by auto
  have "map_of (handleMap (sysBatch s)) ptr = None"
    using assms(4) by (simp add: map_of_eq_None_iff)
  then have "map_of (handleMap b') ptr = Some r"
    using h(2) by (simp add: map_add_def)
  then obtain b'' c'' where rel: "ReleaseResHandle chan' os ptr b' c' = (HCCL_SUCCESS, b'', c'')"
    "batch_inv os g (sysOthers s) (handleMap b'' @ ?P) b'' c''" "handleMap b'' = AList.delete ptr (handleMap b')" "batchDieFlags b'' = batchDieFlags b'"
    using ReleaseResHandle_found [OF inv'] by metis
  have "AList.delete ptr (handleMap b') = handleMap (sysBatch s)"
    using h(2) assms(4) by (force simp: AList.delete_eq filter_id_conv)
  then have "handleMap b'' = handleMap (sysBatch s)" "batchDieFlags b'' = batchDieFlags (sysBatch s)"
    using rel(3,4) h(3) by simp_all
  then have "same_resources (sysBatch s) (sysComp s) b'' c''"
    using ledger_same [OF inv] rel(2) by simp
  then show ?thesis
    using rel(1) h(1) by blast
qed

text \<open>C24. In a reachable state a release succeeds exactly when the handle is live; then the
  handle is gone, and any other call returns \<^verbatim>\<open>HCCL_E_PARA\<close> and changes nothing. A driver that fails
  cannot make it fail.\<close>

theorem release_decided:
  assumes "batch_reachable os specs s" and "specs_fit specs"
  shows "if h \<in> fst ` set (handleMap (sysBatch s))
    then \<exists>b' c'. ReleaseResHandle chan os h (sysBatch s) (sysComp s) = (HCCL_SUCCESS, b', c')
      \<and> handleMap b' = AList.delete h (handleMap (sysBatch s))
    else ReleaseResHandle chan os h (sysBatch s) (sysComp s) = (HCCL_E_PARA, sysBatch s, sysComp s)"
proof -
  obtain g where "sys_inv os g s"
    using reachable_ledger [OF assms(1,2)] .
  then have inv: "batch_inv os g (sysOthers s) (sys_ledger s) (sysBatch s) (sysComp s)"
    by (simp add: sys_inv_def)
  show ?thesis
  proof (cases "map_of (handleMap (sysBatch s)) h")
    case None
    then show ?thesis
      using ReleaseResHandle_unknown [OF None] by (simp add: map_of_eq_None_iff)
  next
    case (Some r)
    then have "h \<in> fst ` set (handleMap (sysBatch s))"
      by (metis map_of_SomeD image_eqI fst_conv)
    then show ?thesis
      using ReleaseResHandle_found [OF inv Some, of chan] by metis
  qed
qed

text \<open>Deinitialisation.\<close>

lemma Deinit_handles_inv:
  assumes "batch_inv os g x entries b c" and "Deinit_handles chan os entries b c = (b', c')"
  shows "batch_inv os g x [] b' c' \<and> keeps_handles b b'"
  using assms
proof (induction entries arbitrary: b c)
  case Nil
  then show ?case
    by (simp add: keeps_handles_def)
next
  case (Cons e entries)
  obtain k r where e: "e = (k, r)"
    by fastforce
  obtain ret r1 b1 c1 where call: "ReleaseResource chan os r b c = (ret, r1, b1, c1)"
    by (metis prod_cases4)
  have "batch_inv os g x entries b1 c1" "keeps_handles b b1"
    using ReleaseResource_inv [OF Cons.prems(1) [unfolded e] call] by blast+
  then show ?case
    using Cons.IH [of b1 c1] Cons.prems(2) call keeps_handles_trans [of b b1 b'] by (simp add: e)
qed

lemma block_vec_ids: "0 < sz \<Longrightarrow> (\<Union>blk\<in>set (block_vec base sz N rsv ow). {blk_startId blk ..< blk_startId blk + blk_num blk}) = {base ..< base + N * sz}"
proof (induction N)
  case (Suc N)
  have "set (block_vec base sz (Suc N) rsv ow) = insert (block_at base sz rsv ow N) (set (block_vec base sz N rsv ow))"
    by (auto simp: block_vec_def)
  then show ?case
    using Suc by auto
qed (simp add: block_vec_def)

lemma region_blocks:
  assumes "blocks_inv g L b" and "d < 2" and "t \<in> set BLOCK_TYPES" and "batchDieFlags b ! d"
  shows "ids (region g d t) = (\<Union>blk\<in>set (blocks_at d t b). {blk_startId blk ..< blk_startId blk + blk_num blk})"
proof -
  obtain ow where "blocks_at d t b = block_vec (gBase g d t) (bsize t) (gCount g d t) (kept_back g d t) ow"
    using blocks_invD(1) [OF assms] by (auto simp: pool_holds_def owner_map_def)
  moreover have "ids (region g d t) = {gBase g d t ..< gBase g d t + gCount g d t * bsize t}"
    by (auto simp: region_def block_ids_def)
  ultimately show ?thesis
    using block_vec_ids [OF bsize_pos [OF assms(3)]] by simp
qed

text \<open>C25. \<open>Deinit\<close> in a reachable state with no request under way succeeds, whatever the driver
  answers, forgets every handle, block and mission, and returns everything the handles held: of the
  component's ids only those of the block vectors and those of other clients stay taken, and no counting XN
  and no comparison register is in use.\<close>

theorem deinit_returns:
  assumes "batch_reachable os specs s" and "specs_fit specs" and "sysPending s = []"
  shows "\<exists>b' c'. CcuResBatchAllocator_Deinit chan os (sysBatch s) (sysComp s) = (HCCL_SUCCESS, b', c')
    \<and> handleMap b' = [] \<and> \<not> batchInitFlag b' \<and> missionBlocks (missionMgr b') = []
    \<and> (\<forall>d<2. count_used d c' = {} \<and> total_flags d c' = {}
      \<and> (\<forall>t\<in>set BLOCK_TYPES. blocks_at d t b' = [] \<and> (batchDieFlags (sysBatch s) ! d \<longrightarrow> die_used d t c' =
          (\<Union>blk\<in>set (blocks_at d t (sysBatch s)). {blk_startId blk ..< blk_startId blk + blk_num blk}) \<union> ids (oSingle (sysOthers s) d t))))"
proof -
  obtain g where g: "sys_inv os g s" "others_count s"
    using reachable_ledger [OF assms(1,2)] .
  then have inv: "batch_inv os g (sysOthers s) (handleMap (sysBatch s)) (sysBatch s) (sysComp s)"
    using assms(3) by (simp add: sys_inv_def)
  obtain b1 c1 where call: "Deinit_handles chan os (handleMap (sysBatch s)) (sysBatch s) (sysComp s) = (b1, c1)"
    by fastforce
  have inv1: "batch_inv os g (sysOthers s) [] b1 c1"
    using Deinit_handles_inv [OF inv call] by blast
  have "count_used d c1 = {}" "total_flags d c1 = {}" if "d < 2" for d
    using inv1 that g(2) by (simp_all add: batch_inv_def casc_inv_def others_count_def cnt_held_def reg_held_def)
  moreover have "die_used d t c1 = (\<Union>blk\<in>set (blocks_at d t (sysBatch s)). {blk_startId blk ..< blk_startId blk + blk_num blk}) \<union> ids (oSingle (sysOthers s) d t)"
    if "d < 2" "t \<in> set BLOCK_TYPES" "batchDieFlags (sysBatch s) ! d" for d t
  proof -
    have "blocks_inv g (handleMap (sysBatch s)) (sysBatch s)"
      using inv by (simp add: batch_inv_def)
    from region_blocks [OF this that] show ?thesis
      using batch_inv_held(1) [OF inv1 that(1,2)] by (simp add: Un_commute)
  qed
  ultimately show ?thesis
    using call by (simp add: CcuResBatchAllocator_Deinit_def CcuMissionMgr_Reset_def blocks_at_def)
qed

subsection \<open>Queries and limits\<close>

lemma blocks_for_le: "0 < n \<Longrightarrow> 0 < sz \<Longrightarrow> blocks_for n sz \<le> k \<longleftrightarrow> n \<le> k * sz"
  using div_less_iff_less_mult [of sz "n - 1" k] by (auto simp: blocks_for_def)

lemma free_blocks_shorter: "free_blocks bl a m \<Longrightarrow> m' \<le> m \<Longrightarrow> free_blocks bl a m'"
  by (auto simp: free_blocks_def)

lemma HandleBlockRes_grants_iff:
  assumes "pool_holds base sz N rsv bl V" and "0 < n" and "n < 2 ^ 32" and "h \<noteq> 0"
  shows "fst (HandleBlockRes h n sz bl []) = HCCL_SUCCESS \<longleftrightarrow> (\<exists>a. free_blocks bl a (blocks_for n sz))"
proof -
  obtain ow where "bl = block_vec base sz N rsv ow" "0 < sz" "base + N * sz < 2 ^ 32"
    using assms(1) by (auto simp: pool_holds_def owner_map_def)
  then show ?thesis
    using HandleBlockRes_vec [OF assms(2,3) _ _ assms(4), of sz base N rsv ow "[]"] by auto
qed

text \<open>C27. In a reachable state and for an enabled die, \<open>QueryRemainRes\<close> answers 0 for a type of blocks
  whose noted maximum (\<open>GetAllocatableMaxBlockResNum\<close>, whose block counts are those of the last enabled die) is 0. For
  every other type its answer is exactly the largest request for blocked ids that would be granted on the die asked for: a
  request for \<open>n\<close> ids gets its run of blocks if and only if \<open>n\<close> is at most the answer.\<close>

theorem query_remain_exact:
  assumes "batch_reachable os specs s" and "specs_fit specs" and "d < 2" and "t \<in> set BLOCK_TYPES"
    and "batchDieFlags (sysBatch s) ! d" and "0 < n" and "n < 2 ^ 32" and "h \<noteq> 0"
  shows "\<exists>m. QueryRemainRes d t m0 (sysBatch s) = (HCCL_SUCCESS, m) \<and>
    (if snd (GetAllocatableMaxBlockResNum t d 0 (sysBatch s)) = 0 then m = 0
     else n \<le> m \<longleftrightarrow>
       fst (HandleBlockRes h n (block_size t CcuBlockResStrategy_default) (blocks_at d t (sysBatch s)) []) = HCCL_SUCCESS)"
proof (cases "snd (GetAllocatableMaxBlockResNum t d 0 (sysBatch s)) = 0")
  case True
  have "t \<noteq> ResType_MISSION"
    using assms(4) by (auto simp: BLOCK_TYPES_def)
  then show ?thesis
    using assms(4) True by (simp add: QueryRemainRes_def ResolveBlocksPtr_def GetAllocatableMaxBlockResNum_def)
next
  case some: False
  let ?bl = "blocks_at d t (sysBatch s)"
  obtain g where "sys_inv os g s"
    using reachable_ledger [OF assms(1,2)] .
  then have bi: "blocks_inv g (sys_ledger s) (sysBatch s)"
    by (simp add: sys_inv_def batch_inv_def)
  note ph = blocks_invD(1) [OF bi assms(3-5)]
  let ?k = "QueryRemain_scan ?bl 0 0"
  have len: "length ?bl * bsize t < 2 ^ 32" "\<forall>blk\<in>set ?bl. blk_num blk = bsize t"
    using pool_holds_length [OF ph] ph by (auto simp: pool_holds_def owner_map_def block_vec_def)
  have "\<exists>a. free_blocks ?bl a ?k"
    using QueryRemain_scan_longest [of ?k ?bl] by simp
  then have k: "?k * bsize t < 2 ^ 32"
  proof (elim exE)
    fix a assume "free_blocks ?bl a ?k"
    then have "?k \<le> length ?bl"
      by (simp add: free_blocks_def)
    then show ?thesis
      using len(1) mult_le_mono1 [of ?k "length ?bl" "bsize t"] by linarith
  qed
  have "n \<le> ?k * bsize t \<longleftrightarrow> fst (HandleBlockRes h n (bsize t) ?bl []) = HCCL_SUCCESS"
    using HandleBlockRes_grants_iff [OF ph assms(6-8)] QueryRemain_scan_longest [of "blocks_for n (bsize t)" ?bl]
      blocks_for_le [OF assms(6) bsize_pos [OF assms(4)]] by simp
  moreover have "QueryRemainRes d t m0 (sysBatch s) = (HCCL_SUCCESS, ?k * bsize t)"
  proof -
    have "t \<noteq> ResType_MISSION"
      using assms(4) by (auto simp: BLOCK_TYPES_def)
    then have "ResolveBlocksPtr d t (sysBatch s) = Inr (resBlocks (sysBatch s) d t)"
      using assms(4) some by (simp add: ResolveBlocksPtr_def GetAllocatableMaxBlockResNum_def)
    then show ?thesis
      using k len(2) by (cases "resBlocks (sysBatch s) d t") (auto simp: QueryRemainRes_def blocks_at_def u32_mul_exact)
  qed
  ultimately show ?thesis
    using some by simp
qed

lemma kept_back_runs:
  assumes "free_blocks (block_vec base sz N (kept_back g 0 ResType_MS) ow) a m" and "gAvoid g"
  shows "m \<le> 3"
proof (rule ccontr)
  assume m: "\<not> m \<le> 3"
  let ?i = "(a + 3) div 4 * 4"
  have "a \<le> ?i" "?i < a + m"
    using m by presburger+
  then have "\<not> kept_back g 0 ResType_MS ?i"
    using assms(1) unfolding free_blocks_vec by auto
  then show False
    using assms(2) by (simp add: kept_back_def CCUA_NUM_def)
qed

text \<open>Every fourth MS block of die 0 is kept back, so no run of more than three blocks is free.\<close>

lemma avoided_ms_refused:
  assumes "blocks_inv g L b" and "gAvoid g" and "batchDieFlags b ! 0" and "3 * 128 < blockMsReq req 0" and "req_u32 req" and "ptr \<noteq> 0"
  shows "HandleBlockRes ptr (blockMsReq req 0) 128 (blocks_at 0 ResType_MS b) infos = (HCCL_E_UNAVAIL, blocks_at 0 ResType_MS b, infos)"
proof -
  have two: "(0::nat) < 2" and type: "ResType_MS \<in> set BLOCK_TYPES" and sz: "bsize ResType_MS = 128"
    by (simp_all add: BLOCK_TYPES_def CcuBlockResStrategy_default_def)
  have n: "blockMsReq req 0 < 2 ^ 32"
    using assms(5) block_req.simps(2) unfolding req_u32_def by (metis zero_less_numeral)
  obtain ow where ow: "blocks_at 0 ResType_MS b = block_vec (gBase g 0 ResType_MS) 128 (gCount g 0 ResType_MS) (kept_back g 0 ResType_MS) ow"
    "gBase g 0 ResType_MS + gCount g 0 ResType_MS * 128 < 2 ^ 32"
    using blocks_invD(1) [OF assms(1) two type assms(3)] by (auto simp: pool_holds_def owner_map_def sz simp del: block_size.simps)
  have "3 < blocks_for (blockMsReq req 0) 128"
    using assms(4) by (simp add: blocks_for_def)
  then have "\<not> free_blocks (blocks_at 0 ResType_MS b) a (blocks_for (blockMsReq req 0) 128)" for a
    using kept_back_runs [OF _ assms(2)] unfolding ow(1) by (metis not_le)
  then show ?thesis
    using HandleBlockRes_vec [OF _ n _ ow(2) assms(6), of "kept_back g 0 ResType_MS" ow infos] assms(4) unfolding ow(1) by auto
qed

lemma AllocBlockRes_refused:
  assumes inv: "blocks_inv g L b" and flag: "batchDieFlags b ! 0" and req: "blockMsReq req 0 \<noteq> 0"
    and full: "\<And>infos. HandleBlockRes ptr (blockMsReq req 0) 128 (blocks_at 0 ResType_MS b) infos = (HCCL_E_UNAVAIL, blocks_at 0 ResType_MS b, infos)"
  shows "fst (AllocBlockRes ptr req r b) = HCCL_E_UNAVAIL"
proof -
  have two: "(0::nat) < 2" and types: "ResType_LOOP \<in> set BLOCK_TYPES" "ResType_MS \<in> set BLOCK_TYPES" and sz: "bsize ResType_MS = 128"
    by (simp_all add: BLOCK_TYPES_def CcuBlockResStrategy_default_def)
  note sizes = blocks_invD(3) [OF inv two types(1)] blocks_invD(3) [OF inv two types(2)]
  have rest: "fst (AllocBlockRes_loop ptr req ((0, ResType_MS) # dts) r b') = HCCL_E_UNAVAIL"
    if "blocks_at 0 ResType_MS b' = blocks_at 0 ResType_MS b" "batchDieFlags b' = batchDieFlags b" "resStrategies b' = resStrategies b" for dts r b'
    using that flag req full sizes(2) by (simp add: sz [simplified])
  have "fst (AllocBlockRes_loop ptr req ((0, ResType_LOOP) # (0, ResType_MS) # dts) r b) = HCCL_E_UNAVAIL" for dts r
  proof (cases "blockLoopEngineReq req 0 = 0")
    case True
    then show ?thesis
      using rest [OF refl refl refl] by (subst AllocBlockRes_loop.simps(2)) (simp del: AllocBlockRes_loop.simps)
  next
    case False
    obtain e bl infos where call: "HandleBlockRes ptr (blockLoopEngineReq req 0) 16 (blocks_at 0 ResType_LOOP b) (repo_block ResType_LOOP r 0) = (e, bl, infos)"
      by (metis prod_cases3)
    have "e = HCCL_SUCCESS \<or> e = HCCL_E_UNAVAIL"
      using call by (auto simp: HandleBlockRes_def Let_def split: option.splits)
    moreover have "fst (AllocBlockRes_loop ptr req ((0, ResType_MS) # dts) r' (set_blocks 0 ResType_LOOP bl b)) = HCCL_E_UNAVAIL" for r'
      by (rule rest) simp_all
    ultimately show ?thesis
      using False call flag sizes(1) by (subst AllocBlockRes_loop.simps(2)) (auto simp: CcuBlockResStrategy_default_def Let_def simp del: AllocBlockRes_loop.simps)
  qed
  then show ?thesis
    by (simp add: AllocBlockRes_def DIES_eq BLOCK_TYPES_def del: AllocBlockRes_loop.simps)
qed

text \<open>C28. On a server with x86 or ARM main boards (\<^verbatim>\<open>ARMX86\<close>), where the first of every four MS
  blocks of die 0 is kept back, a valid request (no null pointer) for more than 384 blocked MS ids on an enabled die 0 is
  refused with \<^verbatim>\<open>HCCL_E_UNAVAIL\<close> in every reachable state.\<close>

theorem armx86_ms_limit:
  assumes "batch_reachable os specs s" and "specs_fit specs" and "serveMode specs = ARMX86"
    and "batchDieFlags (sysBatch s) ! 0" and "3 * 128 < blockMsReq req 0" and "req_u32 req"
    and "CheckReqValid req (batchDieFlags (sysBatch s))" and "ptr \<notin> fst ` set (handleMap (sysBatch s)) \<union> fst ` set (sysPending s)" and "ptr \<noteq> 0"
  shows "fst (AllocResHandle chan os specs ptr req h0 (sysBatch s) (sysComp s)) = HCCL_E_UNAVAIL"
proof -
  let ?b = "sysBatch s"
  obtain g where g: "sys_inv os g s" "gAvoid g"
    using reachable_ledger [OF assms(1,2)] assms(3) by blast
  then have inv: "batch_inv os g (sysOthers s) (sys_ledger s) ?b (sysComp s)"
    by (simp add: sys_inv_def)
  then have bi: "blocks_inv g (sys_ledger s) ?b"
    by (simp add: batch_inv_def)
  have "blockMsReq req 0 \<noteq> 0"
    using assms(5) by simp
  note refused = AllocBlockRes_refused [OF bi assms(4) this avoided_ms_refused [OF bi g(2) assms(4-6,9)]]
  then obtain r1 b1 where blk: "AllocBlockRes ptr req CcuResRepository_new ?b = (HCCL_E_UNAVAIL, r1, b1)"
    by (metis prod.collapse)
  then have att: "TryAllocResHandle chan os specs ptr req CcuResRepository_new ?b (sysComp s) = (HCCL_E_UNAVAIL, r1, b1, sysComp s)"
    by (simp add: TryAllocResHandle_def)
  obtain e2 r2 b2 c2 where rel: "ReleaseResource chan os r1 b1 (sysComp s) = (e2, r2, b2, c2)"
    by (metis prod_cases4)
  have "ptr \<notin> fst ` set (sys_ledger s)"
    using assms(8) unfolding fst_ledger .
  then have "e2 = HCCL_SUCCESS"
    using try_inv [OF inv assms(9) _ assms(6) att] ReleaseResource_inv [OF _ rel] by blast
  then show ?thesis
    using assms(7,9) att rel by (simp add: AllocResHandle_def)
qed

subsection \<open>A concrete device\<close>

text \<open>A version 1 device with one enabled die, 32 loop engines, 512 MS and 4 missions.\<close>

definition demo_specs :: "ServeMode \<Rightarrow> CcuResSpecifications" where
  "demo_specs mode = (CcuResSpecifications_new 0)\<lparr>serveMode := mode, ccuVersion := CCU_V1, dieEnableFlags := [True, False],
    resSpecs := [CcuResSpecInfo_default\<lparr>resourceAddr := 4096, loopEngineNum := 32, msNum := 512, missionNum := 4, jettyNum := 128, channelNum := 16, pfeNum := 8\<rparr>, CcuResSpecInfo_default]\<rparr>"

definition demo_plat :: CcuPlatform where
  "demo_plat = \<lparr>platUsableEid = (\<lambda>d. (HCCL_SUCCESS, 1, 2)),
    platRmaBuffer = (\<lambda>_ _ _ _. (HCCL_SUCCESS, \<lparr>bufAddr = 0, bufSize = 0, bufTokenId = 1, bufTokenValue = 2\<rparr>)),
    platLoopCtx = (\<lambda>_. HCCL_SUCCESS), platLoopTp = (\<lambda>_ _. HCCL_SUCCESS), platCreateJetty = (\<lambda>_ _ _. (HCCL_SUCCESS, 8192, 3)),
    platImportJetty = (\<lambda>_ _ _. (HCCL_SUCCESS, 4)), platReverseEid = (\<lambda>_. (HCCL_SUCCESS, replicate 16 0)),
    platReleaseTpInfos = HCCL_SUCCESS\<rparr>"

definition demo_cfg :: "ServeMode \<Rightarrow> CcuPfeCfgMgr" where
  "demo_cfg mode = snd (CcuPfeCfgMgr_Init (HCCL_SUCCESS, [(0, 1)]) (demo_specs mode) CcuPfeCfgMgr_new)"

definition demo_chan :: CcuChannelDriver where
  "demo_chan = (\<lambda>_ _. HCCL_SUCCESS)"

definition demo_comp :: "ServeMode \<Rightarrow> CcuComponent" where
  "demo_comp mode = snd (CcuComponent_Init demo_chan demo_plat (demo_cfg mode) HCCL_SUCCESS (demo_specs mode) CcuComponent_new)"

definition demo_start :: "ServeMode \<Rightarrow> BatchSystem" where
  "demo_start mode = (case CcuResBatchAllocator_Init (demo_specs mode) CcuResBatchAllocator_new (demo_comp mode) of (ret, b, c) \<Rightarrow> sys_start b c)"

definition demo_req :: CcuResReq where
  "demo_req = CcuResReq_new\<lparr>blockLoopEngineReq := (\<lambda>d. if d = 0 then 10 else 0), missionReq := \<lparr>mreqType = FUSION_MULTIPLE_DIE, mreq = (\<lambda>d. if d = 0 then 2 else 0)\<rparr>\<rparr>"

definition demo_alloc :: "nat \<Rightarrow> BatchSystem \<Rightarrow> HcclResult \<times> nat \<times> CcuResBatchAllocator \<times> CcuComponent" where
  "demo_alloc ptr s = AllocResHandle demo_chan True (demo_specs NORMAL) ptr demo_req 0 (sysBatch s) (sysComp s)"

definition demo_next :: "nat \<Rightarrow> BatchSystem \<Rightarrow> BatchSystem" where
  "demo_next ptr s = (case demo_alloc ptr s of (ret, h, b, c) \<Rightarrow> s\<lparr>sysBatch := b, sysComp := c\<rparr>)"

definition demo_ms_req :: CcuResReq where
  "demo_ms_req = CcuResReq_new\<lparr>blockMsReq := (\<lambda>d. if d = 0 then 385 else 0)\<rparr>"

text \<open>What two requests find, evaluated in one go: the device is initialised once.\<close>

definition demo_repo :: "nat \<Rightarrow> BatchSystem \<Rightarrow> CcuResRepository" where
  "demo_repo h s = the (map_of (handleMap (sysBatch s)) h)"

definition demo_report2 :: "BatchSystem \<Rightarrow> BatchSystem \<Rightarrow> BatchSystem \<Rightarrow> bool" where
  "demo_report2 s0 s1 s2 \<longleftrightarrow> fst (demo_alloc 10 s0) = HCCL_SUCCESS \<and> fst (demo_alloc 20 s1) = HCCL_SUCCESS
    \<and> map fst (handleMap (sysBatch s0)) = [] \<and> map fst (handleMap (sysBatch s1)) = [10] \<and> map fst (handleMap (sysBatch s2)) = [10, 20]
    \<and> repo_block ResType_LOOP (demo_repo 10 s2) 0 = [mk_res 0 16] \<and> repo_block ResType_LOOP (demo_repo 20 s2) 0 = [mk_res 16 16]
    \<and> batchDieFlags (sysBatch s1) ! 0 \<and> snd (GetAllocatableMaxBlockResNum ResType_LOOP 0 0 (sysBatch s1)) \<noteq> 0"

definition demo_report1 :: "BatchSystem \<Rightarrow> BatchSystem \<Rightarrow> bool" where
  "demo_report1 s0 s1 = demo_report2 s0 s1 (demo_next 20 s1)"

definition demo_report0 :: "BatchSystem \<Rightarrow> bool" where
  "demo_report0 s0 = demo_report1 s0 (demo_next 10 s0)"

definition demo_report_x :: "BatchSystem \<Rightarrow> bool" where
  "demo_report_x s0 \<longleftrightarrow> batchDieFlags (sysBatch s0) ! 0 \<and> CheckReqValid demo_ms_req (batchDieFlags (sysBatch s0))
    \<and> map fst (handleMap (sysBatch s0)) = []"

definition demo_report :: "ServeMode \<Rightarrow> bool" where
  "demo_report mode =
    (case CcuComponent_Init demo_chan demo_plat (demo_cfg mode) HCCL_SUCCESS (demo_specs mode) CcuComponent_new of (ret, c) \<Rightarrow>
       ret = HCCL_SUCCESS \<and> compDieFlags c = [True, False] \<and>
       (case CcuResBatchAllocator_Init (demo_specs mode) CcuResBatchAllocator_new c of (ret, b, c) \<Rightarrow>
          ret = HCCL_SUCCESS \<and> (case mode of NORMAL \<Rightarrow> demo_report0 | ARMX86 \<Rightarrow> demo_report_x) (sys_start b c)))"

lemma demo_reported: "demo_report NORMAL" "demo_report ARMX86"
  by code_simp+

lemma demo_report_start:
  assumes "demo_report mode"
  shows "fst (CcuComponent_Init demo_chan demo_plat (demo_cfg mode) HCCL_SUCCESS (demo_specs mode) CcuComponent_new) = HCCL_SUCCESS"
    and "fst (CcuResBatchAllocator_Init (demo_specs mode) CcuResBatchAllocator_new (demo_comp mode)) = HCCL_SUCCESS"
    and "(case mode of NORMAL \<Rightarrow> demo_report0 | ARMX86 \<Rightarrow> demo_report_x) (demo_start mode)"
    and "compDieFlags (demo_comp mode) = [True, False]"
  using assms by (auto simp: demo_report_def demo_comp_def demo_start_def split: prod.splits)

lemma demo_reported_any: "demo_report mode"
  using demo_reported by (cases mode) simp_all

lemmas demo_comp_ok = demo_report_start(1) [OF demo_reported_any]
lemmas demo_start_ok = demo_report_start(2) [OF demo_reported_any]
lemmas demo_flags = demo_report_start(4) [OF demo_reported_any]
lemmas demo_normal = demo_report_start(3) [OF demo_reported(1), simplified ServeMode.case, unfolded demo_report0_def demo_report1_def demo_report2_def]
lemmas demo_armx86 = demo_report_start(3) [OF demo_reported(2), simplified ServeMode.case, unfolded demo_report_x_def]

lemma demo_alloc_ok: "fst (demo_alloc 10 (demo_start NORMAL)) = HCCL_SUCCESS" "fst (demo_alloc 20 (demo_next 10 (demo_start NORMAL))) = HCCL_SUCCESS"
  using demo_normal by blast+

lemma handle_reachable:
  assumes "batch_reachable os specs s" and "req_u32 req" and "ptr \<notin> sys_keys s"
    and "AllocResHandle chan os specs ptr req h0 (sysBatch s) (sysComp s) = (HCCL_SUCCESS, h, b, c)"
  shows "batch_reachable os specs (s\<lparr>sysBatch := b, sysComp := c\<rparr>)"
proof -
  obtain r b1 where t: "CheckReqValid req (batchDieFlags (sysBatch s))" "ptr \<noteq> 0" "b = insert_handle ptr r b1"
    "TryAllocResHandle chan os specs ptr req CcuResRepository_new (sysBatch s) (sysComp s) = (HCCL_SUCCESS, r, b1, c)"
    using assms(4) by (auto simp: AllocResHandle_def split: if_splits prod.splits)
  let ?s1 = "s\<lparr>sysBatch := b1, sysComp := c, sysPending := (ptr, r, HCCL_SUCCESS) # sysPending s\<rparr>"
  have "sys_step os specs s ?s1"
    by (rule attempt [OF t(1) assms(2) t(2) assms(3) t(4)])
  moreover have "sys_step os specs ?s1 (s\<lparr>sysBatch := b, sysComp := c\<rparr>)"
  proof -
    have eq: "s\<lparr>sysComp := c, sysBatch := b\<rparr> = s\<lparr>sysBatch := b, sysComp := c\<rparr>"
      by (cases s) simp
    have "sys_step os specs ?s1 (s\<lparr>sysComp := c, sysBatch := b\<rparr>)"
      using publish [of ?s1 "[]" ptr r "sysPending s" os specs] by (simp add: t(3))
    then show ?thesis
      unfolding eq .
  qed
  ultimately show ?thesis
    using assms(1) sys_steps.more unfolding batch_reachable_def by metis
qed

lemma demo_start_reachable: "batch_reachable True (demo_specs mode) (demo_start mode)"
proof -
  obtain b c where b: "CcuResBatchAllocator_Init (demo_specs mode) CcuResBatchAllocator_new (demo_comp mode) = (HCCL_SUCCESS, b, c)"
    using demo_start_ok by (metis prod.collapse)
  have "CcuComponent_Init demo_chan demo_plat (demo_cfg mode) HCCL_SUCCESS (demo_specs mode) CcuComponent_new = (HCCL_SUCCESS, demo_comp mode)"
    using demo_comp_ok by (simp add: demo_comp_def prod_eq_iff)
  moreover have "demo_start mode = sys_start b c"
    using b by (simp add: demo_start_def)
  ultimately show ?thesis
    using b sys_steps.none unfolding batch_reachable_def by metis
qed

lemma demo_fit: "specs_fit (demo_specs mode)"
  by (auto simp: specs_fit_def demo_specs_def CcuResSpecInfo_default_def less_2_cases_iff)

lemma demo_req_u32: "req_u32 demo_req"
proof -
  have "block_req t demo_req d < 2 ^ 32" for t d
    by (cases t) (simp_all add: demo_req_def CcuResReq_new_def)
  then show ?thesis
    by (simp add: req_u32_def demo_req_def)
qed

lemma demo_handles:
  "map fst (handleMap (sysBatch (demo_start NORMAL))) = []" "map fst (handleMap (sysBatch (demo_next 10 (demo_start NORMAL)))) = [10]"
  "map fst (handleMap (sysBatch (demo_next 20 (demo_next 10 (demo_start NORMAL))))) = [10, 20]"
  using demo_normal by blast+

lemma demo_pending [simp]: "sysPending (demo_next ptr s) = sysPending s" "sysPending (demo_start mode) = []"
  by (simp_all add: demo_next_def demo_start_def sys_start_def split: prod.splits)

lemma demo_next_reachable:
  assumes "batch_reachable True (demo_specs NORMAL) s" and "ptr \<notin> sys_keys s" and "fst (demo_alloc ptr s) = HCCL_SUCCESS"
  shows "batch_reachable True (demo_specs NORMAL) (demo_next ptr s)"
proof -
  obtain h b c where call: "demo_alloc ptr s = (HCCL_SUCCESS, h, b, c)"
    using assms(3) by (metis prod.collapse)
  show ?thesis
    using handle_reachable [OF assms(1) demo_req_u32 assms(2) call [unfolded demo_alloc_def]] by (simp add: demo_next_def call)
qed

abbreviation demo_one :: BatchSystem where
  "demo_one \<equiv> demo_next 10 (demo_start NORMAL)"

abbreviation demo_two :: BatchSystem where
  "demo_two \<equiv> demo_next 20 demo_one"

lemma demo_reachable: "batch_reachable True (demo_specs NORMAL) demo_one" "batch_reachable True (demo_specs NORMAL) demo_two"
proof -
  have k: "fst ` set (handleMap (sysBatch (demo_start NORMAL))) = {}" "fst ` set (handleMap (sysBatch demo_one)) = {10}"
    unfolding set_map [symmetric] demo_handles by simp_all
  show one: "batch_reachable True (demo_specs NORMAL) demo_one"
    by (rule demo_next_reachable [OF demo_start_reachable _ demo_alloc_ok(1)]) (simp add: k)
  show "batch_reachable True (demo_specs NORMAL) demo_two"
    by (rule demo_next_reachable [OF one _ demo_alloc_ok(2)]) (simp add: k)
qed

text \<open>The two handles hold different loop engines and missions.\<close>

lemma demo_lookup: "h \<in> {10, 20} \<Longrightarrow> map_of (handleMap (sysBatch demo_two)) h = Some (demo_repo h demo_two)"
proof -
  assume "h \<in> {10, 20}"
  then have "h \<in> fst ` set (handleMap (sysBatch demo_two))"
    unfolding set_map [symmetric] demo_handles by simp
  then show ?thesis
    unfolding demo_repo_def by (metis domIff dom_map_of_conv_image_fst option.collapse)
qed

theorem handles_disjoint_witness:
  "disjoint_repos (demo_repo 10 demo_two) (demo_repo 20 demo_two)
    \<and> repo_block ResType_LOOP (demo_repo 10 demo_two) 0 = [mk_res 0 16] \<and> repo_block ResType_LOOP (demo_repo 20 demo_two) 0 = [mk_res 16 16]"
proof (intro conjI)
  show "disjoint_repos (demo_repo 10 demo_two) (demo_repo 20 demo_two)"
    by (rule handles_disjoint [OF demo_reachable(2) demo_fit, of 10 _ 20]) (simp_all add: demo_lookup)
qed (use demo_normal in blast)+

theorem request_outcome_witness:
  "\<exists>h b c. demo_alloc 10 (demo_start NORMAL) = (HCCL_SUCCESS, h, b, c) \<and> h = 10
    \<and> (\<exists>r. handleMap b = [(10, r)] \<and> request_met (batchDieFlags b) demo_req r)"
proof -
  obtain h b c where call: "demo_alloc 10 (demo_start NORMAL) = (HCCL_SUCCESS, h, b, c)"
    using demo_alloc_ok(1) by (metis prod.collapse)
  have e: "handleMap (sysBatch (demo_start NORMAL)) = []"
    using demo_handles(1) by simp
  show ?thesis
    using request_outcome [OF demo_start_reachable demo_fit demo_req_u32 _ call [unfolded demo_alloc_def]] call by (simp add: e)
qed

theorem release_restores_witness:
  "\<exists>h b c. demo_alloc 10 (demo_start NORMAL) = (HCCL_SUCCESS, h, b, c) \<and>
    (\<exists>b' c'. ReleaseResHandle (\<lambda>_ _. HCCL_E_INTERNAL) True h b c = (HCCL_SUCCESS, b', c')
      \<and> same_resources (sysBatch (demo_start NORMAL)) (sysComp (demo_start NORMAL)) b' c')"
proof -
  obtain h b c where call: "demo_alloc 10 (demo_start NORMAL) = (HCCL_SUCCESS, h, b, c)"
    using demo_alloc_ok(1) by (metis prod.collapse)
  have "handleMap (sysBatch (demo_start NORMAL)) = []"
    using demo_handles(1) by simp
  then show ?thesis
    using release_restores [OF demo_start_reachable demo_fit demo_req_u32 _ call [unfolded demo_alloc_def], of "\<lambda>_ _. HCCL_E_INTERNAL"] call
    by simp
qed

theorem release_decided_witness:
  "(\<exists>b c. ReleaseResHandle demo_chan True 10 (sysBatch demo_two) (sysComp demo_two) = (HCCL_SUCCESS, b, c))
    \<and> ReleaseResHandle demo_chan True 30 (sysBatch demo_two) (sysComp demo_two) = (HCCL_E_PARA, sysBatch demo_two, sysComp demo_two)"
proof -
  have k: "fst ` set (handleMap (sysBatch demo_two)) = {10, 20}"
    unfolding set_map [symmetric] demo_handles by simp
  show ?thesis
    using release_decided [OF demo_reachable(2) demo_fit, of 10 demo_chan] release_decided [OF demo_reachable(2) demo_fit, of 30 demo_chan]
    unfolding k by auto
qed

theorem deinit_returns_witness:
  "\<exists>b c. CcuResBatchAllocator_Deinit demo_chan True (sysBatch demo_two) (sysComp demo_two) = (HCCL_SUCCESS, b, c) \<and> handleMap b = []
    \<and> count_used 0 c = {}"
proof -
  have "sysPending demo_two = []"
    by simp
  from deinit_returns [OF demo_reachable(2) demo_fit this, of demo_chan] show ?thesis
    by auto
qed

theorem query_remain_exact_witness:
  "snd (GetAllocatableMaxBlockResNum ResType_LOOP 0 0 (sysBatch demo_one)) \<noteq> 0 \<and>
   (\<exists>m. QueryRemainRes 0 ResType_LOOP 0 (sysBatch demo_one) = (HCCL_SUCCESS, m) \<and>
    (16 \<le> m \<longleftrightarrow> fst (HandleBlockRes 5 16 16 (blocks_at 0 ResType_LOOP (sysBatch demo_one)) []) = HCCL_SUCCESS))"
proof -
  have "batchDieFlags (sysBatch demo_one) ! 0" "snd (GetAllocatableMaxBlockResNum ResType_LOOP 0 0 (sysBatch demo_one)) \<noteq> 0"
    using demo_normal by blast+
  moreover have "bsize ResType_LOOP = 16" "ResType_LOOP \<in> set BLOCK_TYPES"
    by (simp_all add: CcuBlockResStrategy_default_def BLOCK_TYPES_def)
  ultimately show ?thesis
    using query_remain_exact [OF demo_reachable(1) demo_fit, of 0 ResType_LOOP 16 5 0] by simp
qed

theorem armx86_ms_limit_witness:
  "fst (AllocResHandle demo_chan True (demo_specs ARMX86) 10 demo_ms_req 0 (sysBatch (demo_start ARMX86)) (sysComp (demo_start ARMX86)))
    = HCCL_E_UNAVAIL"
proof -
  have "block_req t demo_ms_req d < 2 ^ 32" for t d
    by (cases t) (simp_all add: demo_ms_req_def CcuResReq_new_def)
  then have r: "req_u32 demo_ms_req"
    by (simp add: req_u32_def demo_ms_req_def CcuResReq_new_def)
  have c: "batchDieFlags (sysBatch (demo_start ARMX86)) ! 0" "CheckReqValid demo_ms_req (batchDieFlags (sysBatch (demo_start ARMX86)))"
    "map fst (handleMap (sysBatch (demo_start ARMX86))) = []"
    using demo_armx86 by blast+
  show ?thesis
    using armx86_ms_limit [OF demo_start_reachable demo_fit _ c(1) _ r c(2)] c(3) by (simp add: demo_specs_def demo_ms_req_def)
qed

end
