(* ===== verification/Channel_Blocks.thy ===== *)
theory Channel_Blocks
  imports Channel_Mgr Res_Id_Properties
begin

text \<open>
  The basic blocks of the jetty contexts. The first part shows what the rounding of a send queue size returns: the
  next power of two, between 16 and 256. The second part states the contract that the base class of the jetty
  managers relies on, as a locale over the virtual calls of the basic block manager, and shows inside it that the
  loop which equips the jettys of a request owns exactly the runs it has recorded, so that giving them back restores
  the manager. Both versions of the basic block manager implement the contract.
\<close>

subsection \<open>Rounding up\<close>

lemma smear_step:
  fixes x w :: "'a::len word"
  assumes "\<And>i. bit x i \<longleftrightarrow> (\<exists>j<a. bit w (i + j))" and "b = a + a"
  shows "bit (x OR drop_bit a x) i \<longleftrightarrow> (\<exists>j<b. bit w (i + j))"
proof -
  have "bit (x OR drop_bit a x) i \<longleftrightarrow> (\<exists>j<a. bit w (i + j)) \<or> (\<exists>j<a. bit w (a + i + j))"
    by (simp add: bit_or_iff bit_drop_bit_eq assms)
  also have "\<dots> \<longleftrightarrow> (\<exists>j<a + a. bit w (i + j))"
  proof (intro iffI)
    assume "(\<exists>j<a. bit w (i + j)) \<or> (\<exists>j<a. bit w (a + i + j))"
    then show "\<exists>j<a + a. bit w (i + j)"
    proof
      assume "\<exists>j<a. bit w (a + i + j)"
      then obtain j where "j < a" "bit w (i + (a + j))"
        by (auto simp: ac_simps)
      then show ?thesis
        by (intro exI [of _ "a + j"]) simp
    qed (use trans_less_add1 in blast)
  next
    assume "\<exists>j<a + a. bit w (i + j)"
    then obtain j where j: "j < a + a" "bit w (i + j)"
      by blast
    show "(\<exists>j<a. bit w (i + j)) \<or> (\<exists>j<a. bit w (a + i + j))"
    proof (cases "j < a")
      case False
      then have "bit w (a + i + (j - a))" "j - a < a"
        using j by (simp_all add: ac_simps)
      then show ?thesis
        by blast
    qed (use j in blast)
  qed
  finally show ?thesis
    using assms(2) by simp
qed

text \<open>A word whose bits below its highest one are all set, written as a power of two minus one.\<close>

lemma high_bit:
  fixes x :: "'a::len word"
  assumes "x \<noteq> 0"
  obtains k where "bit x k" and "\<And>i. k < i \<Longrightarrow> \<not> bit x i" and "2 ^ k \<le> unat x" and "unat x < 2 ^ Suc k"
proof -
  have fin: "finite {i. bit x i}"
    by (rule finite_subset [of _ "{..<LENGTH('a)}"]) (auto dest: bit_imp_le_length)
  have ne: "{i. bit x i} \<noteq> {}"
    using assms by (auto simp: bit_eq_iff)
  define k where "k = Max {i. bit x i}"
  have k: "bit x k" "\<And>i. k < i \<Longrightarrow> \<not> bit x i"
    using Max_in [OF fin ne] Max_ge [OF fin] by (auto simp: k_def not_le [symmetric])
  have top: "take_bit (Suc k) x = x"
    by (rule bit_word_eqI) (use k(2) in \<open>auto simp: bit_take_bit_iff intro: ccontr\<close>)
  have "unat x = take_bit (Suc k) (unat x)"
    by (metis top unsigned_take_bit_eq)
  then have "unat x < 2 ^ Suc k"
    by (metis take_bit_nat_less_exp)
  moreover have "bit (unat x) k"
    using k(1) by (simp add: bit_unsigned_iff bit_imp_le_length)
  then have "2 ^ k \<le> unat x"
    by (metis bit_nat_def div_less even_zero not_le)
  ultimately show thesis
    using that k by blast
qed

lemma RoundUp_power:
  assumes "0 < unat n" and "unat n \<le> 2 ^ 31"
  obtains k where "unat (RoundUpToNextPowerOfTwo n) = 2 ^ k" and "unat n \<le> 2 ^ k" and "2 ^ k < 2 * unat n"
proof -
  define x where "x = n - 1"
  have n0: "n \<noteq> 0"
    using assms(1) by auto
  have ux: "unat x = unat n - 1"
    unfolding x_def using n0 by (simp add: unat_minus_one)
  define y where "y = (let n = x; n = n OR drop_bit 1 n; n = n OR drop_bit 2 n; n = n OR drop_bit 4 n;
    n = n OR drop_bit 8 n in n OR drop_bit 16 n)"
  have ret: "RoundUpToNextPowerOfTwo n = y + 1"
    using n0 by (simp add: RoundUpToNextPowerOfTwo_def y_def x_def Let_def)
  have y: "bit y i \<longleftrightarrow> (\<exists>j<32. bit x (i + j))" for i
  proof -
    have 1: "bit x i \<longleftrightarrow> (\<exists>j<1. bit x (i + j))" for i
      by auto
    note 2 = smear_step [where b = 2, OF 1]
    note 4 = smear_step [where b = 4, OF 2]
    note 8 = smear_step [where b = 8, OF 4]
    note 16 = smear_step [where b = 16, OF 8]
    show ?thesis
      unfolding y_def Let_def by (rule smear_step [OF 16]) simp_all
  qed
  show thesis
  proof (cases "x = 0")
    case True
    then have "y = 0" "unat n = 1"
      using ux assms(1) by (auto simp: y_def)
    then show thesis
      using that [of 0] by (simp add: ret)
  next
    case False
    then obtain k where k: "bit x k" "\<And>i. k < i \<Longrightarrow> \<not> bit x i" "2 ^ k \<le> unat x" "unat x < 2 ^ Suc k"
      using high_bit [of x] by blast
    have "k < 31"
    proof (rule ccontr)
      assume "\<not> k < 31"
      then have "(2 :: nat) ^ 31 \<le> 2 ^ k"
        by (intro power_increasing) simp_all
      then show False
        using k(3) ux assms by linarith
    qed
    have "bit y i \<longleftrightarrow> i < Suc k" for i
    proof
      assume "bit y i"
      then obtain j where "bit x (i + j)"
        using y by blast
      then show "i < Suc k"
        using k(2) [of "i + j"] by linarith
    next
      assume "i < Suc k"
      then show "bit y i"
        using k(1) \<open>k < 31\<close> unfolding y by (intro exI [of _ "k - i"]) simp
    qed
    then have "y = mask (Suc k)"
      using \<open>k < 31\<close> by (intro bit_word_eqI) (simp add: bit_mask_iff)
    then have "y + 1 = of_nat (2 ^ Suc k)"
      by (simp add: mask_eq_exp_minus_1)
    moreover have "(2 :: nat) ^ Suc k < 2 ^ 32"
      using \<open>k < 31\<close> by (intro power_strict_increasing) simp_all
    ultimately have "unat (RoundUpToNextPowerOfTwo n) = 2 ^ Suc k"
      unfolding ret by (simp add: unat_of_nat take_bit_nat_eq_self del: of_nat_power power_Suc)
    then show thesis
      using that [of "Suc k"] k(3,4) ux by (simp add: Suc_le_eq)
  qed
qed

text \<open>The size of a run is a power of two between 16 and 256, the next one for a size in that range.\<close>

lemma wqebb_size:
  obtains k where "unat (GetWqeBBReqSizeBySqSize s) = 2 ^ k" and "4 \<le> k" and "k \<le> 8"
    and "16 \<le> unat s \<Longrightarrow> unat s \<le> 256 \<Longrightarrow> unat s \<le> 2 ^ k \<and> 2 ^ k < 2 * unat s"
proof -
  note bounds = CCU_MIN_SQ_DEPTH_def CCU_MAX_SQ_DEPTH_def word_less_nat_alt
  consider (small) "unat s < 16" | (large) "256 < unat s" | (mid) "16 \<le> unat s" "unat s \<le> 256"
    by linarith
  then show thesis
  proof cases
    case small
    then show thesis
      using that [of 4] by (simp add: GetWqeBBReqSizeBySqSize_def bounds)
  next
    case large
    then show thesis
      using that [of 8] by (simp add: GetWqeBBReqSizeBySqSize_def bounds Let_def)
  next
    case mid
    have "0 < unat s" "unat s \<le> 2 ^ 31"
      using mid by simp_all
    then obtain k where k: "unat (RoundUpToNextPowerOfTwo s) = 2 ^ k" "unat s \<le> 2 ^ k" "2 ^ k < 2 * unat s"
      by (rule RoundUp_power)
    have "(2 :: nat) ^ 3 < 2 ^ k" "(2 :: nat) ^ k < 2 ^ 9"
      using k mid by simp_all
    then have "4 \<le> k" "k \<le> 8"
      using power_less_imp_less_exp [of "2 :: nat" 3 k] power_less_imp_less_exp [of "2 :: nat" k 9] by simp_all
    moreover have "GetWqeBBReqSizeBySqSize s = RoundUpToNextPowerOfTwo s"
      using mid by (simp add: GetWqeBBReqSizeBySqSize_def bounds Let_def)
    ultimately show thesis
      using that [of k] k by simp
  qed
qed

subsection \<open>What the jettys of a request hold\<close>

abbreviation wqe_run :: "JettyInfo \<Rightarrow> ResInfo" where
  "wqe_run info \<equiv> mk_res (wqeBBStartId info) (sqDepth info * CCU_WQE_NUM_PER_SQE)"

definition wqe_runs :: "JettyInfo list \<Rightarrow> ResInfo list" where
  "wqe_runs infos = map wqe_run (filter (\<lambda>info. sqDepth info \<noteq> 0) infos)"

lemma wqe_runs_simps [simp]:
  "wqe_runs [] = []" "wqe_runs (xs @ ys) = wqe_runs xs @ wqe_runs ys"
  "wqe_runs (info # infos) = (if sqDepth info = 0 then wqe_runs infos else wqe_run info # wqe_runs infos)"
  by (simp_all add: wqe_runs_def)

lemma wqe_runs_replicate [simp]: "wqe_runs (replicate n JettyInfo_new) = []"
  by (simp add: wqe_runs_def JettyInfo_new_def)

text \<open>The \<open>i\<close>-th jetty of a request, complete.\<close>

definition equipped :: "u64 \<Rightarrow> nat \<Rightarrow> nat \<Rightarrow> nat \<Rightarrow> CcuJettyType \<Rightarrow> nat \<Rightarrow> JettyInfo \<Rightarrow> bool" where
  "equipped baseVa n ctxStart taStart type i info \<longleftrightarrow>
    jettyType info = type \<and> jettyCtxId info = u16_of (u32_add ctxStart i) \<and> taJettyId info = u16_of (u32_add taStart i)
    \<and> sqDepth info * CCU_WQE_NUM_PER_SQE = n \<and> 0 < n
    \<and> (type = CCUM_CACHED_JETTY \<longrightarrow> GetSqeBuffVa baseVa (jettyCtxId info) = (HCCL_SUCCESS, sqBufVa info)
        \<and> sqBufSize info = u32_mul n CCU_ONE_WQE_SIZE)"

lemma equipped_depth: "equipped baseVa n ctxStart taStart type i info \<Longrightarrow> 0 < sqDepth info"
  by (auto simp: equipped_def)

subsection \<open>The contract of a basic block manager\<close>

locale wqebb_pool =
  fixes inv :: "'w \<Rightarrow> bool" and used :: "'w \<Rightarrow> nat set" and cap :: "'w \<Rightarrow> nat" and run :: "ResInfo \<Rightarrow> bool"
    and size_of :: "WqeBBReq \<Rightarrow> nat"
    and alloc :: "WqeBBReq \<Rightarrow> ResInfo \<Rightarrow> 'w \<Rightarrow> HcclResult \<times> ResInfo \<times> 'w"
    and release :: "ResInfo \<Rightarrow> 'w \<Rightarrow> HcclResult \<times> 'w"
  assumes alloc_grants: "inv w \<Longrightarrow> alloc req r0 w = (HCCL_SUCCESS, r, w') \<Longrightarrow>
      inv w' \<and> cap w' = cap w \<and> used w' = used w \<union> block_ids r \<and> block_ids r \<inter> used w = {} \<and> run r \<and> num r = size_of req"
    and alloc_refuses: "inv w \<Longrightarrow> alloc req r0 w = (e, r, w') \<Longrightarrow> e \<noteq> HCCL_SUCCESS \<Longrightarrow> w' = w"
    and run_size: "run r \<Longrightarrow> 0 < num r \<and> num r < 2 ^ 32 \<and> CCU_WQE_NUM_PER_SQE dvd num r"
    and release_held: "inv w \<Longrightarrow> run r \<Longrightarrow> block_ids r \<subseteq> used w \<Longrightarrow>
      \<exists>w'. release r w = (HCCL_SUCCESS, w') \<and> inv w' \<and> cap w' = cap w \<and> used w' = used w - block_ids r"
    and determined: "inv w \<Longrightarrow> inv w' \<Longrightarrow> cap w = cap w' \<Longrightarrow> used w = used w' \<Longrightarrow> w = w'"
begin

definition owns :: "nat set \<Rightarrow> JettyInfo list \<Rightarrow> 'w \<Rightarrow> bool" where
  "owns U infos w \<longleftrightarrow> inv w \<and> used w = U \<union> ids (wqe_runs infos) \<and> U \<inter> ids (wqe_runs infos) = {}
    \<and> ledger_ok (wqe_runs infos) \<and> (\<forall>r\<in>set (wqe_runs infos). run r)"

lemma owns_step:
  assumes "owns U (A @ x # B) w" and "sqDepth x = 0" and "wqe_run y = r" and "run r"
    and "inv w'" and "used w' = used w \<union> block_ids r" and "block_ids r \<inter> used w = {}"
  shows "owns U (A @ y # B) w'"
proof -
  have "0 < sqDepth y * CCU_WQE_NUM_PER_SQE"
    using run_size [OF assms(4)] assms(3) by auto
  then have y: "sqDepth y \<noteq> 0" "0 < num r"
    using run_size [OF assms(4)] by auto
  have o: "used w = U \<union> ids (wqe_runs A) \<union> ids (wqe_runs B)" "ledger_ok (wqe_runs A @ wqe_runs B)"
    "U \<inter> (ids (wqe_runs A) \<union> ids (wqe_runs B)) = {}" "\<forall>r\<in>set (wqe_runs A @ wqe_runs B). run r"
    using assms(1,2) by (auto simp: owns_def)
  show ?thesis
    unfolding owns_def
    using o y assms(3-7) by (auto simp: ledger_ok_append simp del: mem_block_ids)
qed

lemma loop_owns:
  assumes "TryAllocWqeBB_loop alloc baseVa sqSize ctxStart taStart type is infos w = (ret, infos', w')"
    and "owns U infos w" and "distinct is" and "\<And>i. i \<in> set is \<Longrightarrow> i < length infos \<and> sqDepth (infos ! i) = 0"
  shows "owns U infos' w' \<and> cap w' = cap w \<and> length infos' = length infos
    \<and> (\<forall>i. i \<notin> set is \<longrightarrow> infos' ! i = infos ! i)
    \<and> (ret = HCCL_SUCCESS \<longrightarrow>
        (\<forall>i\<in>set is. equipped baseVa (size_of (sqSize, ctxStart)) ctxStart taStart type i (infos' ! i)))"
  using assms
proof (induction "is" arbitrary: infos w)
  case (Cons i "is")
  obtain e r v where call: "alloc (sqSize, ctxStart) (mk_res 0 0) w = (e, r, v)"
    using prod_cases3 by blast
  have inv: "inv w"
    using Cons.prems(2) by (simp add: owns_def)
  show ?case
  proof (cases "e = HCCL_SUCCESS")
    case False
    then have "v = w"
      using alloc_refuses [OF inv call] by blast
    then show ?thesis
      using Cons.prems(1,2) call False by auto
  next
    case True
    note g = alloc_grants [OF inv call [unfolded True]]
    have i: "i < length infos" "sqDepth (infos ! i) = 0"
      using Cons.prems(4) by simp_all
    define info where "info = fill_jetty type (u32_add ctxStart i) (u32_add taStart i) r (infos ! i)"
    define va where "va = GetSqeBuffVa baseVa (jettyCtxId info)"
    define info' where "info' = (if type = CCUM_CACHED_JETTY then info\<lparr>sqBufVa := snd va\<rparr> else info)"
    have depth: "sqDepth info' * CCU_WQE_NUM_PER_SQE = num r"
      using g run_size [of r] by (simp add: info'_def info_def fill_jetty_def Let_def)
    have "wqeBBStartId info' = startId r"
      by (simp add: info'_def info_def fill_jetty_def Let_def)
    then have wr: "wqe_run info' = r"
      using depth by simp
    have split: "infos = take i infos @ infos ! i # drop (Suc i) infos"
      "infos[i := info'] = take i infos @ info' # drop (Suc i) infos"
      using i(1) by (simp_all add: id_take_nth_drop [symmetric] upd_conv_take_nth_drop)
    have "owns U (take i infos @ info' # drop (Suc i) infos) v"
      by (rule owns_step [OF _ i(2) wr]) (use g Cons.prems(2) split(1) in auto)
    then have own: "owns U (infos[i := info']) v"
      by (simp only: split(2))
    have rest: "\<And>k. k \<in> set is \<Longrightarrow> k < length (infos[i := info']) \<and> sqDepth (infos[i := info'] ! k) = 0"
      using Cons.prems(3,4) by (metis distinct.simps(2) length_list_update list.set_intros(2) nth_list_update_neq)
    have eqp: "equipped baseVa (size_of (sqSize, ctxStart)) ctxStart taStart type i info'"
      if "type = CCUM_CACHED_JETTY \<Longrightarrow> fst va = HCCL_SUCCESS"
      using that depth g run_size [of r]
      by (auto simp: equipped_def info'_def info_def fill_jetty_def Let_def va_def prod_eq_iff)
    have step: "TryAllocWqeBB_loop alloc baseVa sqSize ctxStart taStart type (i # is) infos w =
        (if type = CCUM_CACHED_JETTY \<and> fst va \<noteq> HCCL_SUCCESS then (fst va, infos[i := info'], v)
         else TryAllocWqeBB_loop alloc baseVa sqSize ctxStart taStart type is (infos[i := info']) v)"
      using call True by (simp add: info_def va_def info'_def Let_def split: prod.split)
    show ?thesis
    proof (cases "type = CCUM_CACHED_JETTY \<and> fst va \<noteq> HCCL_SUCCESS")
      case True
      then have "ret = fst va" "infos' = infos[i := info']" "w' = v"
        using Cons.prems(1) unfolding step by simp_all
      then show ?thesis
        using True own g by (auto simp: nth_list_update)
    next
      case False
      then have "TryAllocWqeBB_loop alloc baseVa sqSize ctxStart taStart type is (infos[i := info']) v = (ret, infos', w')"
        using Cons.prems(1) unfolding step by (simp split: if_splits)
      note ih = Cons.IH [OF this own _ rest]
      have "i \<notin> set is" "distinct is"
        using Cons.prems(3) by simp_all
      then show ?thesis
        using ih i(1) g eqp False by auto
    qed
  qed
qed auto

lemma release_returns:
  "owns U infos w \<Longrightarrow> \<exists>w'. ReleaseWqeBBResource release infos w = (HCCL_SUCCESS, w') \<and> inv w' \<and> cap w' = cap w \<and> used w' = U"
proof (induction infos arbitrary: w)
  case (Cons info infos)
  show ?case
  proof (cases "sqDepth info = 0")
    case True
    then show ?thesis
      using Cons by (simp add: owns_def)
  next
    case False
    let ?r = "wqe_run info"
    have o: "inv w" "run ?r" "used w = U \<union> block_ids ?r \<union> ids (wqe_runs infos)"
      "block_ids ?r \<inter> ids (wqe_runs infos) = {}" "U \<inter> block_ids ?r = {}" "U \<inter> ids (wqe_runs infos) = {}"
      "ledger_ok (wqe_runs infos)" "\<forall>r\<in>set (wqe_runs infos). run r"
      using Cons.prems False by (auto simp: owns_def simp del: mem_block_ids)
    then obtain v where v: "release ?r w = (HCCL_SUCCESS, v)" "inv v" "cap v = cap w" "used v = used w - block_ids ?r"
      using release_held [of w ?r] by blast
    have "used v = U \<union> ids (wqe_runs infos)"
      unfolding v(4) o(3) using o(4,5) by blast
    then have "owns U infos v"
      using o v(2) by (simp add: owns_def)
    moreover have "u32_mul (sqDepth info) CCU_WQE_NUM_PER_SQE = sqDepth info * CCU_WQE_NUM_PER_SQE"
      using run_size [OF o(2)] by (intro u32_mul_exact) simp
    ultimately show ?thesis
      using Cons.IH [of v] v(1,3) False by auto
  qed
qed (simp add: owns_def)

lemma try_owns:
  assumes "TryAllocWqeBBResource alloc baseVa sqSize ctxStart taStart type (replicate n JettyInfo_new) w = (ret, infos, w')"
    and "inv w"
  shows "owns (used w) infos w' \<and> cap w' = cap w \<and> length infos = n
    \<and> (ret = HCCL_SUCCESS \<longrightarrow> 0 < n \<and> baseVa \<noteq> 0 \<and>
        (\<forall>i<n. equipped baseVa (size_of (sqSize, ctxStart)) ctxStart taStart type i (infos ! i)))"
proof -
  have start: "owns (used w) (replicate n JettyInfo_new) w"
    using assms(2) by (simp add: owns_def)
  show ?thesis
  proof (cases "n = 0 \<or> baseVa = 0")
    case True
    then show ?thesis
      using assms(1) start by (auto simp: TryAllocWqeBBResource_def split: if_splits)
  next
    case False
    then have loop: "TryAllocWqeBB_loop alloc baseVa sqSize ctxStart taStart type [0..<n] (replicate n JettyInfo_new) w = (ret, infos, w')"
      using assms(1) by (simp add: TryAllocWqeBBResource_def)
    show ?thesis
      using loop_owns [OF loop start] False by (auto simp: JettyInfo_new_def)
  qed
qed

text \<open>A request that fails gives back all it took.\<close>

lemma try_then_release:
  assumes "TryAllocWqeBBResource alloc baseVa sqSize ctxStart taStart type (replicate n JettyInfo_new) w = (ret, infos, w')"
    and "inv w"
  shows "ReleaseWqeBBResource release infos w' = (HCCL_SUCCESS, w)"
proof -
  obtain v where v: "ReleaseWqeBBResource release infos w' = (HCCL_SUCCESS, v)" "inv v" "cap v = cap w'" "used v = used w"
    using try_owns [OF assms] release_returns by blast
  then have "v = w"
    using determined [of v w] assms(2) try_owns [OF assms] by simp
  then show ?thesis
    using v(1) by simp
qed

text \<open>Adding the jettys of a request to those already served, and taking them out again.\<close>

lemma owns_insert:
  assumes "owns {} (A @ B) w" and "owns (used w) C w'"
  shows "owns {} (A @ C @ B) w'"
  using assms unfolding owns_def by (auto simp: ledger_ok_append)

lemma owns_part:
  assumes "owns {} (A @ C @ B) w"
  shows "owns (ids (wqe_runs (A @ B))) C w"
  using assms unfolding owns_def by (auto simp: ledger_ok_append)

lemma owns_remove:
  assumes "owns {} (A @ C @ B) w" and "inv w'" and "used w' = ids (wqe_runs (A @ B))"
  shows "owns {} (A @ B) w'"
  using assms unfolding owns_def by (auto simp: ledger_ok_append)

end

subsection \<open>Version 1: runs from an id allocator\<close>

lemma Alloc_run:
  assumes "alloc_inv a" and "Alloc n True a = (HCCL_SUCCESS, ns, a')"
  obtains s where "ns = [mk_res s n]" and "0 < n" and "s + n \<le> capacity a" and "alloc_inv a'" and "capacity a' = capacity a"
    and "ids (resInfos a') = ids (resInfos a) \<union> {s ..< s + n}" and "{s ..< s + n} \<inter> ids (resInfos a) = {}"
proof -
  have poss: "alloc_possible n True a"
    using Alloc_fail [OF assms(1), of n True] assms(2) by (cases "alloc_possible n True a") (auto split: if_splits)
  obtain r where r: "ns = [r]" "num r = n" "0 < n" "block_end r \<le> capacity a"
    using assms(2) by (rule_tac Alloc_ok [OF assms(1) poss]) (auto simp: length_Suc_conv)
  then have "ns = [mk_res (startId r) n]"
    by simp
  then show thesis
    using that [of "startId r"] Alloc_success [OF assms] r by (simp add: block_ids_def)
qed

definition v1_run :: "ResInfo \<Rightarrow> bool" where
  "v1_run r \<longleftrightarrow> (\<exists>k. 4 \<le> k \<and> k \<le> 8 \<and> num r = 2 ^ k)"

interpretation w1: wqebb_pool alloc_inv "\<lambda>a. ids (resInfos a)" capacity v1_run
  "\<lambda>req. unat (GetWqeBBReqSizeBySqSize (of_nat (fst req)))" CcuWqeBBMgrV1_Alloc CcuWqeBBMgrV1_Release
proof (unfold_locales, goal_cases)
  case (1 w req r0 r w')
  let ?n = "unat (GetWqeBBReqSizeBySqSize (of_nat (fst req)))"
  obtain ns where call: "Alloc ?n True w = (HCCL_SUCCESS, ns, w')" and r: "r = ns ! 0"
    using 1(2) by (auto simp: CcuWqeBBMgrV1_Alloc_def split: prod.splits if_splits)
  obtain s where s: "ns = [mk_res s ?n]" "alloc_inv w'" "capacity w' = capacity w"
    "ids (resInfos w') = ids (resInfos w) \<union> {s ..< s + ?n}" "{s ..< s + ?n} \<inter> ids (resInfos w) = {}"
    using Alloc_run [OF 1(1) call] by metis
  moreover have "v1_run (mk_res s ?n)"
    using wqebb_size [of "of_nat (fst req)"] unfolding v1_run_def by (metis ResInfo.select_convs(2))
  ultimately show ?case
    by (simp add: r block_ids_def)
next
  case (2 w req r0 e r w')
  then show ?case
    using Alloc_error [OF 2(1)] by (fastforce simp: CcuWqeBBMgrV1_Alloc_def split: prod.splits if_splits)
next
  case (3 r)
  then obtain k where k: "4 \<le> k" "k \<le> 8" "num r = 2 ^ k"
    by (auto simp: v1_run_def)
  moreover have "(2 :: nat) ^ 2 dvd 2 ^ k"
    using k(1) by (intro le_imp_power_dvd) simp
  moreover have "(2 :: nat) ^ k < 2 ^ 32"
    using k(2) by (intro power_strict_increasing) simp_all
  ultimately show ?case
    by (simp add: CCU_WQE_NUM_PER_SQE_def)
next
  case (4 w r)
  then have "0 < num r"
    by (auto simp: v1_run_def)
  then show ?case
    using Release_ok [OF 4(1), of "num r" "startId r"] 4(3) unfolding CcuWqeBBMgrV1_Release_def block_ids_def by metis
next
  case (5 w w')
  then show ?case
    by (rule alloc_inv_unique)
qed

subsection \<open>Version 2: a fixed run per jetty context\<close>

definition v2_inv :: "bool list \<Rightarrow> bool" where
  "v2_inv blocks \<longleftrightarrow> length blocks * CCU_V2_FIXED_SQ_SIZE < 2 ^ 32"

definition v2_used :: "bool list \<Rightarrow> nat set" where
  "v2_used blocks = {x. x div CCU_V2_FIXED_SQ_SIZE < length blocks \<and> blocks ! (x div CCU_V2_FIXED_SQ_SIZE)}"

abbreviation v2_block :: "nat \<Rightarrow> ResInfo" where
  "v2_block k \<equiv> mk_res (k * CCU_V2_FIXED_SQ_SIZE) CCU_V2_FIXED_SQ_SIZE"

lemma v2_block_ids: "x \<in> block_ids (v2_block k) \<longleftrightarrow> x div CCU_V2_FIXED_SQ_SIZE = k"
  by (auto simp: CCU_V2_FIXED_SQ_SIZE_def)

lemma v2_used_update:
  assumes "k < length blocks"
  shows "v2_used (blocks[k := b]) = (if b then v2_used blocks \<union> block_ids (v2_block k) else v2_used blocks - block_ids (v2_block k))"
  using assms by (auto simp: v2_used_def v2_block_ids nth_list_update simp del: mem_block_ids)

lemma v2_used_block: "k < length blocks \<Longrightarrow> block_ids (v2_block k) \<inter> v2_used blocks = (if blocks ! k then block_ids (v2_block k) else {})"
  by (auto simp: v2_used_def v2_block_ids simp del: mem_block_ids)

lemma v2_block_sub:
  assumes "block_ids (v2_block k) \<subseteq> v2_used blocks"
  shows "k < length blocks \<and> blocks ! k"
proof -
  have "k * CCU_V2_FIXED_SQ_SIZE \<in> v2_used blocks"
    using assms by (rule subsetD) (simp add: v2_block_ids CCU_V2_FIXED_SQ_SIZE_def)
  then show ?thesis
    by (simp add: v2_used_def CCU_V2_FIXED_SQ_SIZE_def)
qed

interpretation w2: wqebb_pool v2_inv v2_used length "\<lambda>r. \<exists>k. r = v2_block k" "\<lambda>req. CCU_V2_FIXED_SQ_SIZE"
  CcuWqeBBMgrV2_Alloc CcuWqeBBMgrV2_Release
proof (unfold_locales, goal_cases)
  case (1 w req r0 r w')
  then have k: "snd req < length w" "\<not> w ! snd req" "w' = w[snd req := True]"
    "r = mk_res (u32_mul (snd req) CCU_V2_FIXED_SQ_SIZE) CCU_V2_FIXED_SQ_SIZE"
    by (auto simp: CcuWqeBBMgrV2_Alloc_def Let_def split: if_splits)
  have "snd req * CCU_V2_FIXED_SQ_SIZE \<le> length w * CCU_V2_FIXED_SQ_SIZE"
    using k(1) by (intro mult_le_mono1) simp
  then have "snd req * CCU_V2_FIXED_SQ_SIZE < 2 ^ 32"
    using 1(1) unfolding v2_inv_def by (rule le_less_trans)
  then have "r = v2_block (snd req)"
    unfolding k(4) by (simp only: u32_mul_exact)
  then show ?case
    using 1(1) k(1-3) v2_used_update [OF k(1), of True] v2_used_block [OF k(1)] by (auto simp: v2_inv_def simp del: mem_block_ids)
next
  case (2 w req r0 e r w')
  then show ?case
    by (auto simp: CcuWqeBBMgrV2_Alloc_def Let_def split: if_splits)
next
  case (3 r)
  then show ?case
    by (auto simp: CCU_V2_FIXED_SQ_SIZE_def CCU_WQE_NUM_PER_SQE_def)
next
  case (4 w r)
  then obtain k where r: "r = v2_block k"
    by blast
  then have k: "k < length w" "w ! k"
    using v2_block_sub 4(3) by blast+
  have "k * CCU_V2_FIXED_SQ_SIZE div CCU_V2_FIXED_SQ_SIZE = k"
    by (simp add: CCU_V2_FIXED_SQ_SIZE_def)
  then show ?case
    using 4(1) k v2_used_update [OF k(1), of False] by (simp add: r CcuWqeBBMgrV2_Release_def v2_inv_def)
next
  case (5 w w')
  have "w ! k = w' ! k" if "k < length w" for k
  proof -
    have "k * CCU_V2_FIXED_SQ_SIZE \<in> v2_used w \<longleftrightarrow> k * CCU_V2_FIXED_SQ_SIZE \<in> v2_used w'"
      using 5(4) by simp
    then show ?thesis
      using that 5(3) by (simp add: v2_used_def CCU_V2_FIXED_SQ_SIZE_def)
  qed
  then show ?case
    using 5(3) by (intro nth_equalityI) simp_all
qed

end
