(* ===== verification/Channel_V1.thy ===== *)
theory Channel_V1
  imports Channel_Blocks
begin

text \<open>
  The invariant of the version 1 channel manager: the jetty contexts in use are exactly those of the channels that are
  allocated, no two channels share one, and the same for the basic blocks. It is stated for a device with at
  least as many jetty contexts as the PFE table reserves for the CCU (128); with fewer, a request that ends beyond
  the last context keeps its ids (the code returns without releasing them).
\<close>

subsection \<open>Jetty contexts\<close>

text \<open>Every strategy comes from the same configuration.\<close>

definition st_ok :: "PfeJettyStrategy \<Rightarrow> bool" where
  "st_ok st \<longleftrightarrow> stStartLocalJettyCtxId st = 0 \<and> stStartTaJettyId st = CCU_START_TA_JETTY_ID
    \<and> stSize st = CCU_PER_DIE_JETTY_RESERVED_NUM"

definition j1_ok :: "CcuJettyCtxMgrV1 \<Rightarrow> bool" where
  "j1_ok m \<longleftrightarrow> CCU_PER_DIE_JETTY_RESERVED_NUM \<le> j1SpecNum m \<and> j1SpecNum m < 2 ^ 32 \<and> alloc_inv (j1Wqe m)
    \<and> (\<forall>fe st. j1Pfe m fe = Some st \<longrightarrow> st_ok st)
    \<and> (case j1Alloc m of None \<Rightarrow> True
       | Some (st, al) \<Rightarrow> st_ok st \<and> alloc_inv al \<and> capacity al = CCU_PER_DIE_JETTY_RESERVED_NUM)"

definition jettys_used :: "CcuJettyCtxMgrV1 \<Rightarrow> nat set" where
  "jettys_used m = (case j1Alloc m of None \<Rightarrow> {} | Some (st, al) \<Rightarrow> ids (resInfos al))"

abbreviation wqe_used :: "CcuJettyCtxMgrV1 \<Rightarrow> nat set" where
  "wqe_used m \<equiv> ids (resInfos (j1Wqe m))"

text \<open>The jettys of one channel: consecutive contexts from \<open>s\<close>, each with a run of \<open>n\<close> basic blocks.\<close>

definition granted :: "u64 \<Rightarrow> nat \<Rightarrow> nat \<Rightarrow> JettyInfo list \<Rightarrow> bool" where
  "granted baseVa n s infos \<longleftrightarrow> infos \<noteq> [] \<and> s + length infos \<le> CCU_PER_DIE_JETTY_RESERVED_NUM
    \<and> (\<forall>i<length infos. equipped baseVa n s (CCU_START_TA_JETTY_ID + s) CCUM_CACHED_JETTY i (infos ! i))"

lemma granted_ctx:
  assumes "granted baseVa n s infos" and "i < length infos"
  shows "jettyCtxId (infos ! i) = s + i" and "taJettyId (infos ! i) = CCU_START_TA_JETTY_ID + s + i" and "0 < sqDepth (infos ! i)"
proof -
  have "equipped baseVa n s (CCU_START_TA_JETTY_ID + s) CCUM_CACHED_JETTY i (infos ! i)" "s + i < CCU_PER_DIE_JETTY_RESERVED_NUM"
    using assms by (auto simp: granted_def)
  then show "jettyCtxId (infos ! i) = s + i" "taJettyId (infos ! i) = CCU_START_TA_JETTY_ID + s + i" "0 < sqDepth (infos ! i)"
    by (auto simp: equipped_def u16_of_def u32_add_def CCU_PER_DIE_JETTY_RESERVED_NUM_def CCU_START_TA_JETTY_ID_def)
qed

lemma GetJettyAllocator_ok:
  assumes "j1_ok m" and "GetJettyAllocator fe m = Inr (st, al)"
  shows "st_ok st" and "alloc_inv al" and "capacity al = CCU_PER_DIE_JETTY_RESERVED_NUM" and "ids (resInfos al) = jettys_used m"
    and "j1Alloc m \<noteq> None \<Longrightarrow> j1Alloc m = Some (st, al)"
  using assms alloc_inv_new [of CCU_PER_DIE_JETTY_RESERVED_NUM]
  by (auto simp: j1_ok_def GetJettyAllocator_def GetPfeStrategy_def jettys_used_def st_ok_def CcuResIdAllocator_new_def
      CCU_PER_DIE_JETTY_RESERVED_NUM_def split: option.splits)

lemma j1_ok_update:
  assumes "j1_ok m" and "st_ok st" and "alloc_inv al" and "capacity al = CCU_PER_DIE_JETTY_RESERVED_NUM" and "alloc_inv w"
  shows "j1_ok (m\<lparr>j1Wqe := w, j1Alloc := Some (st, al)\<rparr>)" and "j1_ok (m\<lparr>j1Alloc := Some (st, al), j1Wqe := w\<rparr>)"
    and "j1_ok (m\<lparr>j1Alloc := Some (st, al)\<rparr>)"
  using assms by (auto simp: j1_ok_def)

definition same_config :: "CcuJettyCtxMgrV1 \<Rightarrow> CcuJettyCtxMgrV1 \<Rightarrow> bool" where
  "same_config m m' \<longleftrightarrow> j1SpecNum m' = j1SpecNum m \<and> j1BaseVa m' = j1BaseVa m \<and> j1Pfe m' = j1Pfe m"

lemma J1_Alloc_outcome:
  assumes "j1_ok m" and "CcuJettyCtxMgrV1_Alloc fe n sq m = (ret, infos, m')"
  shows "j1_ok m' \<and> same_config m m'
    \<and> (if ret = HCCL_SUCCESS
       then \<exists>s. granted (j1BaseVa m) (unat (GetWqeBBReqSizeBySqSize (of_nat sq))) s infos \<and> length infos = n
          \<and> jettys_used m' = jettys_used m \<union> {s ..< s + n} \<and> {s ..< s + n} \<inter> jettys_used m = {}
          \<and> w1.owns (wqe_used m) infos (j1Wqe m')
       else jettys_used m' = jettys_used m \<and> j1Wqe m' = j1Wqe m)"
proof (cases "GetJettyAllocator fe m")
  case (Inl e)
  then show ?thesis
    using assms by (auto simp: CcuJettyCtxMgrV1_Alloc_def same_config_def)
next
  case (Inr p)
  obtain st al where p: "p = (st, al)"
    by fastforce
  note al = GetJettyAllocator_ok [OF assms(1) Inr [unfolded p]]
  obtain e res al' where call: "Alloc n True al = (e, res, al')"
    using prod_cases3 by blast
  have wqe: "alloc_inv (j1Wqe m)"
    using assms(1) by (simp add: j1_ok_def)
  show ?thesis
  proof (cases "e = HCCL_SUCCESS")
    case False
    then have "al' = al"
      using Alloc_error [OF al(2) call] by blast
    then have "ret \<noteq> HCCL_SUCCESS" "m' = m\<lparr>j1Alloc := Some (st, al)\<rparr>"
      using assms(2) Inr p call False by (auto simp: CcuJettyCtxMgrV1_Alloc_def)
    then show ?thesis
      using j1_ok_update(3) [OF assms(1) al(1-3) wqe] al(4) by (simp add: same_config_def jettys_used_def)
  next
    case True
    then obtain s where s: "res = [mk_res s n]" "0 < n" "s + n \<le> capacity al" "alloc_inv al'" "capacity al' = capacity al"
      "ids (resInfos al') = ids (resInfos al) \<union> {s ..< s + n}" "{s ..< s + n} \<inter> ids (resInfos al) = {}"
      using Alloc_run [OF al(2), of n res al'] call by metis
    have bound: "s + n \<le> 128"
      using s(3) al(3) by (simp add: CCU_PER_DIE_JETTY_RESERVED_NUM_def)
    have start: "u32_add (stStartLocalJettyCtxId st) s = s" "u32_add (stStartTaJettyId st) s = CCU_START_TA_JETTY_ID + s"
      using al(1) bound by (simp_all add: st_ok_def u32_add_def CCU_START_TA_JETTY_ID_def)
    have fits: "\<not> s > u32_sub (j1SpecNum m) n"
    proof -
      have "128 \<le> j1SpecNum m" "j1SpecNum m < 2 ^ 32"
        using assms(1) by (simp_all add: j1_ok_def CCU_PER_DIE_JETTY_RESERVED_NUM_def)
      then have "u32_sub (j1SpecNum m) n = j1SpecNum m - n"
        using bound by (intro u32_sub_exact) simp_all
      then show ?thesis
        using bound \<open>128 \<le> j1SpecNum m\<close> by linarith
    qed
    obtain ret2 infos2 w where attempt: "TryAllocWqeBBResource CcuWqeBBMgrV1_Alloc (j1BaseVa m) sq s (CCU_START_TA_JETTY_ID + s)
        CCUM_CACHED_JETTY (replicate n JettyInfo_new) (j1Wqe m) = (ret2, infos2, w)"
      using prod_cases3 by blast
    note own = w1.try_owns [OF attempt wqe]
    show ?thesis
    proof (cases "ret2 = HCCL_SUCCESS")
      case True
      then have "ret = HCCL_SUCCESS" "infos = infos2" "m' = m\<lparr>j1Alloc := Some (st, al'), j1Wqe := w\<rparr>"
        using assms(2) Inr p call \<open>e = HCCL_SUCCESS\<close> s(1) start fits attempt
        by (auto simp: CcuJettyCtxMgrV1_Alloc_def Let_def)
      moreover have "alloc_inv w"
        using own by (simp add: w1.owns_def)
      ultimately show ?thesis
        using own True s al bound j1_ok_update(2) [OF assms(1) al(1) s(4) _, of w]
        by (auto simp: same_config_def jettys_used_def granted_def CCU_PER_DIE_JETTY_RESERVED_NUM_def)
    next
      case False
      have undone: "ReleaseWqeBBResource CcuWqeBBMgrV1_Release infos2 w = (HCCL_SUCCESS, j1Wqe m)"
        by (rule w1.try_then_release [OF attempt wqe])
      obtain al'' where rel: "Release s n al' = (HCCL_SUCCESS, al'')" "alloc_inv al''" "capacity al'' = capacity al'"
        "ids (resInfos al'') = ids (resInfos al') - {s ..< s + n}"
        using Release_ok [OF s(4,2), of s] s(6) by (metis Un_upper2)
      have "ids (resInfos al'') = ids (resInfos al)"
        using rel(4) s(6,7) by blast
      then have "al'' = al"
        using alloc_inv_unique [OF rel(2) al(2)] rel(3) s(5) by simp
      then have "ret = ret2" "m' = m\<lparr>j1Wqe := j1Wqe m, j1Alloc := Some (st, al)\<rparr>"
        using assms(2) Inr p call \<open>e = HCCL_SUCCESS\<close> s(1) start fits attempt False undone rel(1)
        by (auto simp: CcuJettyCtxMgrV1_Alloc_def Let_def)
      then show ?thesis
        using False j1_ok_update(1) [OF assms(1) al(1-3) wqe] al(4) by (simp add: same_config_def jettys_used_def)
    qed
  qed
qed

lemma J1_Release_ok:
  assumes "j1_ok m" and "granted baseVa n s infos" and "{s ..< s + length infos} \<subseteq> jettys_used m" and "w1.owns U infos (j1Wqe m)"
  obtains m' where "CcuJettyCtxMgrV1_Release fe infos m = (HCCL_SUCCESS, m')" and "j1_ok m'" and "same_config m m'"
    and "jettys_used m' = jettys_used m - {s ..< s + length infos}" and "wqe_used m' = U"
proof -
  have ne: "infos \<noteq> []" and hd: "jettyCtxId (infos ! 0) = s" and bound: "s + length infos \<le> 128"
    using assms(2) granted_ctx(1) [OF assms(2), of 0] by (auto simp: granted_def CCU_PER_DIE_JETTY_RESERVED_NUM_def)
  then have "j1Alloc m \<noteq> None"
    using assms(3) by (auto simp: jettys_used_def split: option.splits)
  then obtain st al where some: "j1Alloc m = Some (st, al)"
    by auto
  then have get: "GetJettyAllocator fe m = Inr (st, al)"
    by (simp add: GetJettyAllocator_def)
  note al = GetJettyAllocator_ok [OF assms(1) get]
  obtain w where w: "ReleaseWqeBBResource CcuWqeBBMgrV1_Release infos (j1Wqe m) = (HCCL_SUCCESS, w)" "alloc_inv w"
    "ids (resInfos w) = U"
    using w1.release_returns [OF assms(4)] by blast
  have sub: "u32_sub s (stStartLocalJettyCtxId st) = s"
    using al(1) bound by (simp add: st_ok_def u32_sub_exact)
  have "{s ..< s + length infos} \<subseteq> ids (resInfos al)" "0 < length infos"
    using assms(3) al(4) ne by simp_all
  then obtain al' where al': "Release s (length infos) al = (HCCL_SUCCESS, al')" "alloc_inv al'" "capacity al' = capacity al"
    "ids (resInfos al') = ids (resInfos al) - {s ..< s + length infos}"
    using Release_ok [OF al(2)] by metis
  have "CcuJettyCtxMgrV1_Release fe infos m = (HCCL_SUCCESS, m\<lparr>j1Alloc := Some (st, al), j1Wqe := w, j1Alloc := Some (st, al')\<rparr>)"
    using ne get w(1) al'(1) hd sub by (simp add: CcuJettyCtxMgrV1_Release_def Let_def)
  then show thesis
    using that j1_ok_update(1) [OF assms(1) al(1) al'(2) _ w(2)] al'(3,4) al(3,4) w(3)
    by (simp add: same_config_def jettys_used_def)
qed

subsection \<open>Channels\<close>

text \<open>The jettys of the allocated channels, in the order of the channels.\<close>

definition live_jettys :: "ChannelResInfo list \<Rightarrow> JettyInfo list" where
  "live_jettys cs = concat (map (\<lambda>c. if chAllocated c then jettyInfos (chInfo c) else []) cs)"

lemma new_is_free [simp]: "\<not> chAllocated ChannelResInfo_new"
  by (simp add: ChannelResInfo_new_def)

lemma live_jettys_simps [simp]:
  "live_jettys [] = []" "live_jettys (xs @ ys) = live_jettys xs @ live_jettys ys"
  "live_jettys (c # cs) = (if chAllocated c then jettyInfos (chInfo c) else []) @ live_jettys cs"
  by (simp_all add: live_jettys_def)

lemma live_jettys_update:
  assumes "i < length cs"
  shows "live_jettys (cs[i := c]) =
    live_jettys (take i cs) @ (if chAllocated c then jettyInfos (chInfo c) else []) @ live_jettys (drop (Suc i) cs)"
  using assms by (simp add: upd_conv_take_nth_drop)

lemma live_jettys_at:
  assumes "i < length cs"
  shows "live_jettys cs =
    live_jettys (take i cs) @ (if chAllocated (cs ! i) then jettyInfos (chInfo (cs ! i)) else []) @ live_jettys (drop (Suc i) cs)"
  using live_jettys_update [OF assms, of "cs ! i"] by simp

abbreviation ctx_ids :: "JettyInfo list \<Rightarrow> nat list" where
  "ctx_ids infos \<equiv> map jettyCtxId infos"

lemma granted_ids: "granted baseVa n s infos \<Longrightarrow> ctx_ids infos = [s ..< s + length infos]"
  by (rule nth_equalityI) (simp_all add: granted_ctx)

definition slot1_ok :: "nat \<Rightarrow> u64 \<Rightarrow> nat \<Rightarrow> ChannelResInfo \<Rightarrow> bool" where
  "slot1_ok dieId baseVa i c \<longleftrightarrow> (chAllocated c \<longrightarrow>
    chId (chInfo c) = i \<and> chDieId (chInfo c) = dieId \<and> (\<exists>n s. granted baseVa n s (jettyInfos (chInfo c))))"

definition chan1_inv :: "CcuChannelCtxMgrV1 \<Rightarrow> bool" where
  "chan1_inv m \<longleftrightarrow> j1_ok (c1Jetty m)
    \<and> (\<forall>i<length (c1Channels m). slot1_ok (c1DieId m) (j1BaseVa (c1Jetty m)) i (c1Channels m ! i))
    \<and> distinct (ctx_ids (live_jettys (c1Channels m)))
    \<and> jettys_used (c1Jetty m) = set (ctx_ids (live_jettys (c1Channels m)))
    \<and> w1.owns {} (live_jettys (c1Channels m)) (j1Wqe (c1Jetty m))"

lemma FindFree_some:
  assumes "FindFreeChannelId cs k = Some i"
  shows "\<exists>x. i = k + x \<and> x < length cs \<and> \<not> chAllocated (cs ! x) \<and> (\<forall>y<x. chAllocated (cs ! y))"
  using assms
proof (induction cs k rule: FindFreeChannelId.induct)
  case (2 c cs k)
  show ?case
  proof (cases "chAllocated c")
    case True
    then obtain x where "i = Suc k + x" "x < length cs" "\<not> chAllocated (cs ! x)" "\<forall>y<x. chAllocated (cs ! y)"
      using 2 by auto
    then show ?thesis
      using True by (intro exI [of _ "Suc x"]) (auto simp: less_Suc_eq_0_disj)
  qed (use 2 in auto)
qed simp

lemma FindFree_none: "FindFreeChannelId cs k = None \<longleftrightarrow> (\<forall>c\<in>set cs. chAllocated c)"
  by (induction cs k rule: FindFreeChannelId.induct) auto

text \<open>A call that fails leaves the channels, the contexts and the blocks as they are.\<close>

lemma chan1_inv_jetty:
  assumes "chan1_inv m" and "j1_ok j" and "same_config (c1Jetty m) j" and "jettys_used j = jettys_used (c1Jetty m)"
    and "j1Wqe j = j1Wqe (c1Jetty m)"
  shows "chan1_inv (m\<lparr>c1Jetty := j\<rparr>)"
  using assms by (simp add: chan1_inv_def same_config_def)

lemma C1_Alloc_outcome:
  assumes "chan1_inv m" and "CcuChannelCtxMgrV1_Alloc para m = (ret, out, m')"
  shows "chan1_inv m' \<and> c1DieId m' = c1DieId m \<and> same_config (c1Jetty m) (c1Jetty m') \<and>
    (if ret = HCCL_SUCCESS
     then \<exists>i info. i < length (c1Channels m) \<and> \<not> chAllocated (c1Channels m ! i) \<and> (\<forall>k<i. chAllocated (c1Channels m ! k))
        \<and> out = Some [info] \<and> chId info = i
        \<and> length (jettyInfos info) = (if paraJettyNum para = 0 then 1 else paraJettyNum para)
        \<and> (\<exists>s. granted (j1BaseVa (c1Jetty m)) (unat (GetWqeBBReqSizeBySqSize (of_nat (paraSqSize para)))) s (jettyInfos info)
            \<and> set (ctx_ids (jettyInfos info)) \<inter> jettys_used (c1Jetty m) = {})
        \<and> c1Channels m' = (c1Channels m)[i := \<lparr>chAllocated = True, chFeId = paraFeId para, chInfo = info\<rparr>]
     else out = None \<and> c1Channels m' = c1Channels m \<and> jettys_used (c1Jetty m') = jettys_used (c1Jetty m)
        \<and> j1Wqe (c1Jetty m') = j1Wqe (c1Jetty m))"
proof (cases "FindFreeChannelId (c1Channels m) 0")
  case None
  then show ?thesis
    using assms by (auto simp: CcuChannelCtxMgrV1_Alloc_def Let_def same_config_def)
next
  case (Some i)
  have free: "i < length (c1Channels m)" "\<not> chAllocated (c1Channels m ! i)" "\<forall>y<i. chAllocated (c1Channels m ! y)"
    using FindFree_some [OF Some] by auto
  define n where "n = (if paraJettyNum para = 0 then 1 else paraJettyNum para)"
  obtain e infos j where call: "CcuJettyCtxMgrV1_Alloc (paraFeId para) n (paraSqSize para) (c1Jetty m) = (e, infos, j)"
    using prod_cases3 by blast
  have nsel: "(if paraJettyNum para = 0 then CCU_V1_CHANNEL_DEFAULT_JETTY_NUM else paraJettyNum para) = n"
    by (simp add: n_def CCU_V1_CHANNEL_DEFAULT_JETTY_NUM_def)
  have ok: "j1_ok (c1Jetty m)"
    using assms(1) by (simp add: chan1_inv_def)
  note out = J1_Alloc_outcome [OF ok call]
  define info where "info = \<lparr>chId = i, chDieId = c1DieId m, jettyInfos = infos\<rparr>"
  define c where "c = \<lparr>chAllocated = True, chFeId = paraFeId para, chInfo = info\<rparr>"
  have run: "CcuChannelCtxMgrV1_Alloc para m =
      (if e \<noteq> HCCL_SUCCESS then (e, None, m\<lparr>c1Jetty := j\<rparr>)
       else (HCCL_SUCCESS, Some [info], m\<lparr>c1Jetty := j, c1Channels := (c1Channels m)[i := c]\<rparr>))"
    using call Some by (simp add: CcuChannelCtxMgrV1_Alloc_def Let_def info_def c_def nsel)
  show ?thesis
  proof (cases "e = HCCL_SUCCESS")
    case False
    then show ?thesis
      using run assms out chan1_inv_jetty [OF assms(1)] by auto
  next
    case True
    then obtain s where s:
      "granted (j1BaseVa (c1Jetty m)) (unat (GetWqeBBReqSizeBySqSize (of_nat (paraSqSize para)))) s infos" "length infos = n"
      "jettys_used j = jettys_used (c1Jetty m) \<union> {s ..< s + n}" "{s ..< s + n} \<inter> jettys_used (c1Jetty m) = {}"
      "w1.owns (wqe_used (c1Jetty m)) infos (j1Wqe j)"
      using out by auto
    have j: "j1_ok j" "same_config (c1Jetty m) j"
      using out by auto
    let ?A = "live_jettys (take i (c1Channels m))" and ?B = "live_jettys (drop (Suc i) (c1Channels m))"
    have old: "live_jettys (c1Channels m) = ?A @ ?B"
      using live_jettys_at [of i "c1Channels m"] free by simp
    have new: "live_jettys ((c1Channels m)[i := c]) = ?A @ infos @ ?B"
      using live_jettys_update [of i "c1Channels m" c] free by (simp add: c_def info_def)
    have ids: "ctx_ids infos = [s ..< s + n]"
      using granted_ids [OF s(1)] s(2) by simp
    have inv: "distinct (ctx_ids (?A @ ?B))" "jettys_used (c1Jetty m) = set (ctx_ids (?A @ ?B))"
      "w1.owns {} (?A @ ?B) (j1Wqe (c1Jetty m))"
      "\<forall>x<length (c1Channels m). slot1_ok (c1DieId m) (j1BaseVa (c1Jetty m)) x (c1Channels m ! x)"
      using assms(1) by (simp_all add: chan1_inv_def old)
    have "chan1_inv (m\<lparr>c1Jetty := j, c1Channels := (c1Channels m)[i := c]\<rparr>)"
      unfolding chan1_inv_def
    proof (intro conjI, goal_cases)
      case 2
      have "slot1_ok (c1DieId m) (j1BaseVa (c1Jetty m)) i c"
        using s(1) by (auto simp: slot1_ok_def c_def info_def)
      then show ?case
        using inv(4) j(2) by (auto simp: nth_list_update [OF free(1)] same_config_def)
    next
      case 3
      then show ?case
        using inv(1,2) s(4) by (auto simp: new ids)
    next
      case 4
      then show ?case
        using inv(2) s(3) by (auto simp: new ids simp flip: set_map)
    next
      case 5
      then show ?case
        using w1.owns_insert [OF inv(3) s(5)] by (simp add: new)
    qed (use j in simp)
    moreover have "set (ctx_ids infos) \<inter> jettys_used (c1Jetty m) = {}"
      unfolding ids using s(4) by simp
    ultimately show ?thesis
      using True run assms(2) free s(1,2) j(2) by (auto simp: info_def c_def n_def)
  qed
qed

text \<open>Releasing an allocated channel always succeeds in the manager; what the caller sees is the driver's answer to
  the command that clears the channel.\<close>

lemma C1_Release_outcome:
  assumes "chan1_inv m" and "i < length (c1Channels m)" and "chAllocated (c1Channels m ! i)"
  obtains m' where "CcuChannelCtxMgrV1_Release chan i m log =
      (let cmd = CCU_U_OP_SET_CHANNEL (c1DieId m) i (DataV1 ChannelCtxDataV1_zero) in (chan log cmd, m', log @ [cmd]))"
    and "chan1_inv m'" and "c1Channels m' = (c1Channels m)[i := ChannelResInfo_new]" and "c1DieId m' = c1DieId m"
    and "same_config (c1Jetty m) (c1Jetty m')"
    and "jettys_used (c1Jetty m') = jettys_used (c1Jetty m) - set (ctx_ids (jettyInfos (chInfo (c1Channels m ! i))))"
proof -
  define infos where "infos = jettyInfos (chInfo (c1Channels m ! i))"
  let ?A = "live_jettys (take i (c1Channels m))" and ?B = "live_jettys (drop (Suc i) (c1Channels m))"
  have old: "live_jettys (c1Channels m) = ?A @ infos @ ?B"
    using live_jettys_at [OF assms(2)] assms(3) by (simp add: infos_def)
  have new: "live_jettys ((c1Channels m)[i := ChannelResInfo_new]) = ?A @ ?B"
    using live_jettys_update [OF assms(2)] by (simp add: ChannelResInfo_new_def)
  have inv: "j1_ok (c1Jetty m)" "distinct (ctx_ids (?A @ infos @ ?B))" "jettys_used (c1Jetty m) = set (ctx_ids (?A @ infos @ ?B))"
    "w1.owns {} (?A @ infos @ ?B) (j1Wqe (c1Jetty m))"
    "\<forall>x<length (c1Channels m). slot1_ok (c1DieId m) (j1BaseVa (c1Jetty m)) x (c1Channels m ! x)"
    using assms(1) by (simp_all add: chan1_inv_def old)
  then obtain n s where g: "granted (j1BaseVa (c1Jetty m)) n s infos"
    using assms(2,3) by (auto simp: slot1_ok_def infos_def)
  have ids: "set (ctx_ids infos) = {s ..< s + length infos}"
    using granted_ids [OF g] by simp
  then have sub: "{s ..< s + length infos} \<subseteq> jettys_used (c1Jetty m)"
    by (auto simp: inv(3))
  obtain j where j: "CcuJettyCtxMgrV1_Release (chFeId (c1Channels m ! i)) infos (c1Jetty m) = (HCCL_SUCCESS, j)" "j1_ok j"
    "same_config (c1Jetty m) j" "jettys_used j = jettys_used (c1Jetty m) - set (ctx_ids infos)"
    "wqe_used j = ids (wqe_runs (?A @ ?B))"
    using J1_Release_ok [OF inv(1) g sub w1.owns_part [OF inv(4)]] unfolding ids by metis
  let ?m = "m\<lparr>c1Jetty := j, c1Channels := (c1Channels m)[i := ChannelResInfo_new]\<rparr>"
  have "chan1_inv ?m"
    unfolding chan1_inv_def
  proof (intro conjI, goal_cases)
    case 2
    have "slot1_ok (c1DieId m) (j1BaseVa (c1Jetty m)) i ChannelResInfo_new"
      by (simp add: slot1_ok_def ChannelResInfo_new_def)
    then show ?case
      using inv(5) j(3) by (auto simp: nth_list_update [OF assms(2)] same_config_def)
  next
    case 3
    then show ?case
      using inv(2) by (auto simp: new)
  next
    case 4
    then show ?case
      using inv(2,3) j(4) by (auto simp: new)
  next
    case 5
    have "alloc_inv (j1Wqe j)"
      using j(2) by (simp add: j1_ok_def)
    then show ?case
      using w1.owns_remove [OF inv(4) _ j(5)] by (simp add: new)
  qed (use j in simp)
  moreover have "CcuChannelCtxMgrV1_Release chan i m log =
      (let cmd = CCU_U_OP_SET_CHANNEL (c1DieId m) i (DataV1 ChannelCtxDataV1_zero) in (chan log cmd, ?m, log @ [cmd]))"
    using assms(2,3) j(1)
    by (simp add: CcuChannelCtxMgrV1_Release_def CheckIfChannelAllocated_def Let_def infos_def ConfigChannelCtxDataV1_def send_def)
  ultimately show thesis
    using that [of ?m] j(3,4) by (simp add: infos_def)
qed

subsection \<open>Start and reachable states\<close>

text \<open>Every configuration of the PFE table is the fixed one.\<close>

definition cfgs_ok :: "CcuPfeCfgMgr \<Rightarrow> bool" where
  "cfgs_ok g \<longleftrightarrow> (\<forall>d. \<forall>cfg\<in>set (pfeJettyCtxCfgs g d). st_ok (BuildStrategy cfg))"

lemma cfg_loop_ok:
  "\<forall>d. \<forall>cfg\<in>set (cfgs d). st_ok (BuildStrategy cfg) \<Longrightarrow>
    \<forall>cfg\<in>set (CcuPfeCfgMgr_Init_loop flags eids seen cfgs d). st_ok (BuildStrategy cfg)"
proof (induction eids arbitrary: seen cfgs)
  case (Cons e eids)
  obtain d' fe where e: "e = (d', fe)"
    by fastforce
  let ?cfg = "\<lparr>pcFeId = fe, pcStartJettyCtxId = 0, pcStartTaJettyId = CCU_START_TA_JETTY_ID, pcSize = CCU_PER_DIE_JETTY_RESERVED_NUM\<rparr>"
  have "st_ok (BuildStrategy ?cfg)"
    by (simp add: st_ok_def BuildStrategy_def)
  then have "\<forall>d. \<forall>cfg\<in>set ((cfgs(d' := cfgs d' @ [?cfg])) d). st_ok (BuildStrategy cfg)"
    using Cons.prems by simp
  then show ?case
    using Cons.IH [of "cfgs(d' := cfgs d' @ [?cfg])"] Cons.IH [OF Cons.prems] by (simp add: e Let_def del: fun_upd_apply)
qed simp

lemma cfgs_ok_Init: "cfgs_ok (snd (CcuPfeCfgMgr_Init eids specs CcuPfeCfgMgr_new))"
  using cfg_loop_ok [of "\<lambda>_. []"] by (auto simp: CcuPfeCfgMgr_Init_def CcuPfeCfgMgr_new_def cfgs_ok_def Let_def)

lemma pfe_loop_ok:
  assumes "CcuPfeMgr_Init_loop chan dieId r cfgs m log = (ret, m', log')" and "\<forall>cfg\<in>set cfgs. st_ok (BuildStrategy cfg)"
    and "\<forall>st\<in>ran m. st_ok st"
  shows "\<forall>st\<in>ran m'. st_ok st"
  using assms
proof (induction chan dieId r cfgs m log rule: CcuPfeMgr_Init_loop.induct)
  case (2 chan dieId r cfg cfgs m log)
  show ?case
  proof (cases "m (pcFeId cfg)")
    case None
    then have "\<forall>st\<in>ran (m(pcFeId cfg \<mapsto> BuildStrategy cfg)). st_ok st"
      using 2(4,5) by simp
    then show ?thesis
      using 2 None by (auto simp: Let_def simp del: fun_upd_apply split: prod.splits if_splits)
  qed (use 2 in auto)
qed simp

lemma pfe_init_ok:
  assumes "CcuPfeMgr_Init chan specs g dieId Map.empty log = (ret, m', log')" and "cfgs_ok g"
  shows "\<forall>st\<in>ran m'. st_ok st"
  using assms pfe_loop_ok [of chan dieId _ "GetPfeJettyCtxCfg dieId g" Map.empty log ret m' log']
  by (auto simp: CcuPfeMgr_Init_def Let_def cfgs_ok_def GetPfeJettyCtxCfg_def split: if_splits)

lemma C1_Init_inv:
  assumes "CcuChannelCtxMgrV1_Init chan specs g dieId log = (ret, m, log')" and "cfgs_ok g"
    and "CCU_PER_DIE_JETTY_RESERVED_NUM \<le> unat (snd (GetJettyNum specs dieId 0))"
  shows "chan1_inv m \<and> (\<forall>c\<in>set (c1Channels m). \<not> chAllocated c)"
proof -
  obtain e pfe log2 where pfe: "CcuPfeMgr_Init chan specs g dieId Map.empty log = (e, pfe, log2)"
    using prod_cases3 by blast
  have st: "\<forall>st\<in>ran pfe. st_ok st"
    by (rule pfe_init_ok [OF pfe assms(2)])
  have wqe: "alloc_inv (CcuWqeBBMgrV1_Init specs dieId)" "resInfos (CcuWqeBBMgrV1_Init specs dieId) = []"
    using alloc_inv_new [of "unat (snd (GetWqeBBNum specs dieId 0))"] unat_u32_less
    by (simp_all add: CcuWqeBBMgrV1_Init_def CcuResIdAllocator_new_def)
  have live: "live_jettys (replicate k ChannelResInfo_new) = []" for k
    by (induction k) (simp_all add: ChannelResInfo_new_def)
  have m: "c1Channels m = replicate (unat (snd (GetChannelNum specs dieId 0))) ChannelResInfo_new"
    "c1Jetty m = \<lparr>j1SpecNum = unat (snd (GetJettyNum specs dieId 0)), j1BaseVa = snd (GetResourceAddr specs dieId 0),
         j1Wqe = CcuWqeBBMgrV1_Init specs dieId, j1Pfe = pfe, j1Alloc = None\<rparr>"
    using assms(1) pfe by (auto simp: CcuChannelCtxMgrV1_Init_def CcuJettyCtxMgrV1_Init_def)
  have "j1_ok (c1Jetty m)"
    using assms(3) st wqe(1) by (auto simp: m(2) j1_ok_def ran_def unat_u32_less)
  then show ?thesis
    using wqe by (auto simp: chan1_inv_def m live jettys_used_def w1.owns_def slot1_ok_def)
qed

inductive chan1_reach ::
  "CcuChannelDriver \<Rightarrow> CcuResSpecifications \<Rightarrow> HcclResult \<times> (nat \<times> u32) list \<Rightarrow> nat \<Rightarrow> CcuChannelCtxMgrV1 \<times> CcuCommand list \<Rightarrow> bool"
  for chan specs eids dieId where
  start: "CcuChannelCtxMgrV1_Init chan specs (snd (CcuPfeCfgMgr_Init eids specs CcuPfeCfgMgr_new)) dieId log = (HCCL_SUCCESS, m, log')
    \<Longrightarrow> chan1_reach chan specs eids dieId (m, log')"
| alloc: "chan1_reach chan specs eids dieId (m, log) \<Longrightarrow> CcuChannelCtxMgrV1_Alloc para m = (ret, out, m')
    \<Longrightarrow> chan1_reach chan specs eids dieId (m', log)"
| config: "chan1_reach chan specs eids dieId (m, log) \<Longrightarrow> CcuChannelCtxMgrV1_Config chan cfg m log = (ret, log')
    \<Longrightarrow> chan1_reach chan specs eids dieId (m, log')"
| release: "chan1_reach chan specs eids dieId (m, log) \<Longrightarrow> CcuChannelCtxMgrV1_Release chan i m log = (ret, m', log')
    \<Longrightarrow> chan1_reach chan specs eids dieId (m', log')"
| elsewhere: "chan1_reach chan specs eids dieId (m, log) \<Longrightarrow> chan1_reach chan specs eids dieId (m, log')"

lemma chan1_reach_inv:
  assumes "chan1_reach chan specs eids dieId (m, log)"
    and "CCU_PER_DIE_JETTY_RESERVED_NUM \<le> unat (snd (GetJettyNum specs dieId 0))"
  shows "chan1_inv m"
  using assms(1)
proof (induction "(m, log)" arbitrary: m log rule: chan1_reach.induct)
  case (start log m log')
  then show ?case
    using C1_Init_inv [OF start cfgs_ok_Init assms(2)] by blast
next
  case (alloc m log para ret out m')
  then show ?case
    using C1_Alloc_outcome by blast
next
  case (release m log i ret m' log')
  show ?case
  proof (cases "CheckIfChannelAllocated i (c1Channels m)")
    case True
    then show ?thesis
      using C1_Release_outcome [OF release(2), of i chan log] release(3)
      by (auto simp: CheckIfChannelAllocated_def Let_def)
  next
    case False
    then show ?thesis
      using release by (simp add: CcuChannelCtxMgrV1_Release_def)
  qed
qed

end
