(* ===== verification/Channel_V2.thy ===== *)
theory Channel_V2
  imports Channel_V1
begin

text \<open>
  The invariant of the version 2 channel manager, for the ratio of eight channels to one jetty context that the
  specifications give. Channel \<open>i\<close> belongs to context \<open>I div 8\<close>; the use count of a context is the number of its
  channels that are allocated, and its fixed run of basic blocks is taken exactly while that count is not 0.
\<close>

subsection \<open>Jetty contexts\<close>

definition ctx_group :: "nat \<Rightarrow> nat \<Rightarrow> JettyCtxGroup" where
  "ctx_group k c = \<lparr>gStartJettyCtxId = k, gStartTaJettyId = CCU_START_TA_JETTY_ID + k, useCnt = c\<rparr>"

lemma ctx_group_sel [simp]:
  "gStartJettyCtxId (ctx_group k c) = k" "gStartTaJettyId (ctx_group k c) = CCU_START_TA_JETTY_ID + k" "useCnt (ctx_group k c) = c"
  "(ctx_group k c)\<lparr>useCnt := c'\<rparr> = ctx_group k c'"
  by (simp_all add: ctx_group_def)

text \<open>The state of the contexts is determined by the counts: \<open>counts\<close> is empty before the first request.\<close>

definition j2_ok :: "CcuJettyCtxMgrV2 \<Rightarrow> nat list \<Rightarrow> bool" where
  "j2_ok m counts \<longleftrightarrow> j2Map m = DEFAULT_CHANNEL_JETTY_MAP \<and> (\<forall>st\<in>ran (j2Pfe m). st_ok st) \<and> v2_inv (j2Wqe m)
    \<and> length counts \<in> {0, CCU_PER_DIE_JETTY_RESERVED_NUM}
    \<and> j2Groups m = map2 ctx_group [0..<length counts] counts
    \<and> (\<forall>k<length (j2Wqe m). j2Wqe m ! k \<longleftrightarrow> k < length counts \<and> 0 < counts ! k)
    \<and> (\<forall>k<length counts. 0 < counts ! k \<longrightarrow> k < length (j2Wqe m))"

lemma j2_group: "j2_ok m counts \<Longrightarrow> k < length counts \<Longrightarrow> j2Groups m ! k = ctx_group k (counts ! k)"
  by (simp add: j2_ok_def)

lemma j2_groups_length [simp]: "j2_ok m counts \<Longrightarrow> length (j2Groups m) = length counts"
  by (simp add: j2_ok_def)

lemma default_map [simp]:
  "unat (mapJettyNum DEFAULT_CHANNEL_JETTY_MAP) = 1" "unat (mapChannelNum DEFAULT_CHANNEL_JETTY_MAP) = 8"
  by (simp_all add: DEFAULT_CHANNEL_JETTY_MAP_def)

definition same_config2 :: "CcuJettyCtxMgrV2 \<Rightarrow> CcuJettyCtxMgrV2 \<Rightarrow> bool" where
  "same_config2 m m' \<longleftrightarrow> j2SpecNum m' = j2SpecNum m \<and> j2BaseVa m' = j2BaseVa m \<and> j2Pfe m' = j2Pfe m \<and> j2Map m' = j2Map m
    \<and> length (j2Wqe m') = length (j2Wqe m)"

lemma same_config2_refl [simp]: "same_config2 m m"
  by (simp add: same_config2_def)

text \<open>The contexts are laid out at the first call; after that the check does nothing.\<close>

definition counts_of :: "nat list \<Rightarrow> nat list" where
  "counts_of counts = (if counts = [] then replicate CCU_PER_DIE_JETTY_RESERVED_NUM 0 else counts)"

lemma CheckCtxGroups_ok:
  assumes "j2_ok m counts" and "CheckCtxGroupsByFeId fe m = (ret, m')"
  shows "if ret = HCCL_SUCCESS then j2_ok m' (counts_of counts) \<and> same_config2 m m' \<and> j2Wqe m' = j2Wqe m
    else m' = m \<and> counts = []"
proof (cases "counts = []")
  case False
  then show ?thesis
    using assms j2_groups_length [OF assms(1)] by (auto simp: CheckCtxGroupsByFeId_def counts_of_def)
next
  case True
  then have ne: "length (j2Groups m) = 0"
    using assms(1) by simp
  show ?thesis
  proof (cases "ret = HCCL_SUCCESS")
    case False
    then show ?thesis
      using assms(2) ne True by (auto simp: CheckCtxGroupsByFeId_def Let_def split: sum.splits if_splits)
  next
    case ok: True
    then obtain st where st: "GetPfeStrategy fe (j2Pfe m) = Inr st"
      using assms(2) ne by (auto simp: CheckCtxGroupsByFeId_def GetPfeStrategy_def split: option.splits)
    then have "st_ok st"
      using assms(1) by (auto simp: j2_ok_def GetPfeStrategy_def ran_def split: option.splits)
    then have start: "stSize st = 128" "stStartLocalJettyCtxId st = 0" "stStartTaJettyId st = 1024"
      by (simp_all add: st_ok_def CCU_PER_DIE_JETTY_RESERVED_NUM_def CCU_START_TA_JETTY_ID_def)
    have groups: "map (\<lambda>i. \<lparr>gStartJettyCtxId = u32_add 0 (u32_mul i 1), gStartTaJettyId = u32_add 1024 (u32_mul i 1), useCnt = 0\<rparr>) [0..<128]
        = map2 ctx_group [0..<128] (replicate 128 0)"
      by (rule nth_equalityI) (simp_all add: u32_mul_exact u32_add_def ctx_group_def CCU_START_TA_JETTY_ID_def)
    have "m' = m\<lparr>j2Groups := map2 ctx_group [0..<128] (replicate 128 0)\<rparr>"
      using assms ok ne st start groups by (simp add: CheckCtxGroupsByFeId_def Let_def j2_ok_def split: if_splits)
    then show ?thesis
      using assms(1) ok True by (simp add: j2_ok_def same_config2_def counts_of_def CCU_PER_DIE_JETTY_RESERVED_NUM_def)
  qed
qed

lemma FindFree_loop_some:
  "FindFree_loop gs k = Some i \<Longrightarrow> \<exists>x. i = k + x \<and> x < length gs \<and> useCnt (gs ! x) = 0 \<and> (\<forall>y<x. useCnt (gs ! y) \<noteq> 0)"
proof (induction gs k rule: FindFree_loop.induct)
  case (2 g gs k)
  show ?case
  proof (cases "useCnt g = 0")
    case False
    then obtain x where "i = Suc k + x" "x < length gs" "useCnt (gs ! x) = 0" "\<forall>y<x. useCnt (gs ! y) \<noteq> 0"
      using 2 by auto
    then show ?thesis
      using False by (intro exI [of _ "Suc x"]) (auto simp: less_Suc_eq_0_disj)
  qed (use 2 in auto)
qed simp

text \<open>The jetty of context \<open>K\<close>.\<close>

definition v2_jetty :: "nat \<Rightarrow> JettyInfo \<Rightarrow> bool" where
  "v2_jetty k info \<longleftrightarrow> jettyType info = TA_CACHED_JETTY \<and> jettyCtxId info = k \<and> taJettyId info = CCU_START_TA_JETTY_ID + k
    \<and> wqe_run info = v2_block k"

lemma j2_ok_count:
  assumes "j2_ok m counts" and "k < length counts" and "k < length (j2Wqe m)"
  shows "j2_ok (m\<lparr>j2Wqe := (j2Wqe m)[k := 0 < c], j2Groups := (j2Groups m)[k := ctx_group k c]\<rparr>) (counts[k := c])"
    and "0 < c \<and> 0 < counts ! k \<Longrightarrow> j2_ok (m\<lparr>j2Groups := (j2Groups m)[k := ctx_group k c]\<rparr>) (counts[k := c])"
proof -
  have groups: "(map2 ctx_group [0..<length counts] counts)[k := ctx_group k c] = map2 ctx_group [0..<length counts] (counts[k := c])"
    using assms(2) by (intro nth_equalityI) (simp_all add: nth_list_update)
  show "j2_ok (m\<lparr>j2Wqe := (j2Wqe m)[k := 0 < c], j2Groups := (j2Groups m)[k := ctx_group k c]\<rparr>) (counts[k := c])"
    using assms groups by (auto simp: j2_ok_def v2_inv_def nth_list_update)
  assume "0 < c \<and> 0 < counts ! k"
  then show "j2_ok (m\<lparr>j2Groups := (j2Groups m)[k := ctx_group k c]\<rparr>) (counts[k := c])"
    using assms groups by (auto simp: j2_ok_def v2_inv_def nth_list_update)
qed

lemma try_one_block:
  assumes "TryAllocWqeBBResource CcuWqeBBMgrV2_Alloc baseVa sq k (CCU_START_TA_JETTY_ID + k) TA_CACHED_JETTY
      (replicate 1 JettyInfo_new) w = (HCCL_SUCCESS, infos, w')"
    and "k < CCU_PER_DIE_JETTY_RESERVED_NUM"
  shows "k < length w \<and> \<not> w ! k \<and> w' = w[k := True] \<and> (\<exists>info. infos = [info] \<and> v2_jetty k info)"
proof -
  have k: "k < 128"
    using assms(2) by (simp add: CCU_PER_DIE_JETTY_RESERVED_NUM_def)
  then have num: "u32_mul k CCU_V2_FIXED_SQ_SIZE = k * CCU_V2_FIXED_SQ_SIZE" "u32_add k 0 = k"
    "u32_add (CCU_START_TA_JETTY_ID + k) 0 = CCU_START_TA_JETTY_ID + k" "u16_of k = k"
    "u16_of (CCU_START_TA_JETTY_ID + k) = CCU_START_TA_JETTY_ID + k"
    by (simp_all add: u32_mul_exact u32_add_def u16_of_def CCU_V2_FIXED_SQ_SIZE_def CCU_START_TA_JETTY_ID_def)
  have "w' = w[k := True]" "k < length w" "\<not> w ! k"
    "infos = [fill_jetty TA_CACHED_JETTY k (CCU_START_TA_JETTY_ID + k) (v2_block k) JettyInfo_new]"
    using assms(1) num by (auto simp: TryAllocWqeBBResource_def CcuWqeBBMgrV2_Alloc_def Let_def split: if_splits)
  then show ?thesis
    using num by (simp add: v2_jetty_def fill_jetty_def Let_def JettyInfo_new_def CCU_V2_FIXED_SQ_SIZE_def CCU_WQE_NUM_PER_SQE_def)
qed

lemma J2_Alloc_outcome:
  assumes "j2_ok m counts" and "CcuJettyCtxMgrV2_Alloc fe 1 sq m = (ret, infos, m')"
  shows "same_config2 m m' \<and>
    (if ret = HCCL_SUCCESS
     then \<exists>k info. k < length (counts_of counts) \<and> counts_of counts ! k = 0 \<and> infos = [info] \<and> v2_jetty k info
        \<and> j2_ok m' ((counts_of counts)[k := 8])
        \<and> (j2Wqe m = (j2Wqe m')[k := False]) \<and> k < length (j2Wqe m')
     else j2Wqe m' = j2Wqe m \<and> (j2_ok m' counts \<or> j2_ok m' (counts_of counts)))"
proof -
  obtain e m1 where chk: "CheckCtxGroupsByFeId fe m = (e, m1)"
    by fastforce
  note ok = CheckCtxGroups_ok [OF assms(1) chk]
  show ?thesis
  proof (cases "e = HCCL_SUCCESS \<and> FindFreeCtxGroup (j2Groups m1) \<in> range Inr")
    case False
    then have "m' = m1" "ret \<noteq> HCCL_SUCCESS"
      using assms(2) chk by (auto simp: CcuJettyCtxMgrV2_Alloc_def FindFreeCtxGroup_def split: sum.splits option.splits if_splits)
    then show ?thesis
      using ok assms(1) by (auto split: if_splits)
  next
    case True
    then obtain k where k: "FindFreeCtxGroup (j2Groups m1) = Inr k" and e: "e = HCCL_SUCCESS"
      by auto
    have m1: "j2_ok m1 (counts_of counts)" "same_config2 m m1" "j2Wqe m1 = j2Wqe m"
      using ok e by auto
    have kl: "k < length (counts_of counts)" and "useCnt (j2Groups m1 ! k) = 0"
      using k FindFree_loop_some [of "j2Groups m1" 0 k] m1(1)
      by (auto simp: FindFreeCtxGroup_def split: if_splits option.splits)
    then have cnt: "counts_of counts ! k = 0" and grp: "j2Groups m1 ! k = ctx_group k 0"
      using j2_group [OF m1(1)] by simp_all
    have k128: "k < CCU_PER_DIE_JETTY_RESERVED_NUM"
      using kl m1(1) by (auto simp: j2_ok_def)
    obtain ret2 infos2 w where attempt: "TryAllocWqeBBResource CcuWqeBBMgrV2_Alloc (j2BaseVa m1)
        (if sq \<noteq> CCU_V2_FIXED_SQ_SIZE then CCU_V2_FIXED_SQ_SIZE else sq) k (CCU_START_TA_JETTY_ID + k) TA_CACHED_JETTY
        (replicate 1 JettyInfo_new) (j2Wqe m1) = (ret2, infos2, w)"
      using prod_cases3 by blast
    have inv: "v2_inv (j2Wqe m1)" and map8: "j2Map m1 = DEFAULT_CHANNEL_JETTY_MAP"
      using m1(1) by (simp_all add: j2_ok_def)
    have run: "CcuJettyCtxMgrV2_Alloc fe 1 sq m =
        (if ret2 \<noteq> HCCL_SUCCESS
         then case ReleaseWqeBBResource CcuWqeBBMgrV2_Release infos2 w of (relRet, w) \<Rightarrow>
           (if relRet \<noteq> HCCL_SUCCESS then relRet else ret2, infos2, m1\<lparr>j2Wqe := w\<rparr>)
         else (HCCL_SUCCESS, infos2, m1\<lparr>j2Wqe := w, j2Groups := (j2Groups m1)[k := ctx_group k 8]\<rparr>))"
      using attempt chk e k by (simp add: CcuJettyCtxMgrV2_Alloc_def Let_def grp map8 del: replicate.simps)
    show ?thesis
    proof (cases "ret2 = HCCL_SUCCESS")
      case False
      have "ReleaseWqeBBResource CcuWqeBBMgrV2_Release infos2 w = (HCCL_SUCCESS, j2Wqe m1)"
        by (rule w2.try_then_release [OF attempt inv])
      then have "m' = m1\<lparr>j2Wqe := j2Wqe m1\<rparr>" "ret \<noteq> HCCL_SUCCESS"
        using False run assms(2) by simp_all
      then have "m' = m1"
        by simp
      then show ?thesis
        using \<open>ret \<noteq> HCCL_SUCCESS\<close> m1 by simp
    next
      case True
      then have b: "k < length (j2Wqe m1)" "\<not> j2Wqe m1 ! k" "w = (j2Wqe m1)[k := True]" "\<exists>info. infos2 = [info] \<and> v2_jetty k info"
        using try_one_block [OF _ k128] attempt by blast+
      have "m' = m1\<lparr>j2Wqe := (j2Wqe m1)[k := 0 < (8::nat)], j2Groups := (j2Groups m1)[k := ctx_group k 8]\<rparr>"
        "ret = HCCL_SUCCESS" "infos = infos2"
        using True run assms(2) b(3) by simp_all
      moreover have "(j2Wqe m1)[k := True, k := False] = j2Wqe m1"
        using b(1,2) by (simp add: list_update_same_conv)
      ultimately show ?thesis
        using b j2_ok_count(1) [OF m1(1) kl b(1), of 8] m1 kl cnt by (auto simp: same_config2_def)
    qed
  qed
qed

text \<open>Giving back one of the channels of a context: the last one frees its blocks.\<close>

lemma J2_Release_ok:
  assumes "j2_ok m counts" and "v2_jetty k info" and "k < length counts" and "0 < counts ! k"
  shows "\<exists>m'. CcuJettyCtxMgrV2_Release fe [info] m = (HCCL_SUCCESS, m') \<and> j2_ok m' (counts[k := counts ! k - 1]) \<and> same_config2 m m'
    \<and> j2Wqe m' = (if counts ! k = 1 then (j2Wqe m)[k := False] else j2Wqe m)"
proof -
  have ne: "counts \<noteq> []"
    using assms(3) by auto
  then have chk: "CheckCtxGroupsByFeId fe m = (HCCL_SUCCESS, m)"
    using assms(1) by (simp add: CheckCtxGroupsByFeId_def)
  have k128: "k < 128"
    using assms(1,3) by (auto simp: j2_ok_def CCU_PER_DIE_JETTY_RESERVED_NUM_def)
  have kw: "k < length (j2Wqe m)" "j2Wqe m ! k" "v2_inv (j2Wqe m)" "j2Map m = DEFAULT_CHANNEL_JETTY_MAP"
    using assms(1,3,4) by (auto simp: j2_ok_def)
  have grp: "jetty_group [info] m = k" "j2Groups m ! k = ctx_group k (counts ! k)"
    using assms(1-3) kw(4) k128 ne j2_group [of m counts 0] by (simp_all add: jetty_group_def j2_group v2_jetty_def u32_sub_exact)
  have "wqe_runs [info] = [v2_block k]" "0 < CCU_V2_FIXED_SQ_SIZE"
    using assms(2) by (cases "sqDepth info = 0"; simp add: v2_jetty_def CCU_V2_FIXED_SQ_SIZE_def)+
  then have owns_block: "w2.owns (v2_used (j2Wqe m) - block_ids (v2_block k)) [info] (j2Wqe m)"
    using kw v2_used_block [OF kw(1)] by (auto simp: w2.owns_def simp del: mem_block_ids wqe_runs_simps)
  obtain w where w: "ReleaseWqeBBResource CcuWqeBBMgrV2_Release [info] (j2Wqe m) = (HCCL_SUCCESS, w)"
      "v2_inv w" "length w = length (j2Wqe m)" "v2_used w = v2_used (j2Wqe m) - block_ids (v2_block k)"
    using w2.release_returns [OF owns_block] by blast
  have "w = (j2Wqe m)[k := False]"
    using w2.determined [OF w(2), of "(j2Wqe m)[k := False]"] w(3,4) v2_used_update [OF kw(1), of False] kw(3) by (simp add: v2_inv_def)
  then have "CcuJettyCtxMgrV2_Release fe [info] m =
      (HCCL_SUCCESS, if counts ! k = 1
        then m\<lparr>j2Wqe := (j2Wqe m)[k := 0 < (0::nat)], j2Groups := (j2Groups m)[k := ctx_group k 0]\<rparr>
        else m\<lparr>j2Groups := (j2Groups m)[k := ctx_group k (counts ! k - 1)]\<rparr>)"
    using chk grp w(1) assms(4) by (simp add: CcuJettyCtxMgrV2_Release_def Let_def del: ReleaseWqeBBResource.simps)
  then show ?thesis
    using assms(4) j2_ok_count(1) [OF assms(1,3) kw(1), of 0] j2_ok_count(2) [OF assms(1,3) kw(1), of "counts ! k - 1"]
    by (cases "counts ! k = 1") (auto simp: same_config2_def)
qed

subsection \<open>Channels\<close>

definition live_in :: "ChannelResInfo list \<Rightarrow> nat \<Rightarrow> nat set" where
  "live_in cs k = {i. i < length cs \<and> i div 8 = k \<and> chAllocated (cs ! i)}"

lemma live_in_finite [simp]: "finite (live_in cs k)"
  by (simp add: live_in_def)

lemma live_in_update:
  assumes "i < length cs"
  shows "live_in (cs[i := c]) k = (if i div 8 = k then if chAllocated c then insert i (live_in cs k) else live_in cs k - {i} else live_in cs k)"
  using assms by (auto simp: live_in_def nth_list_update split: if_splits)

definition slot2_ok :: "nat \<Rightarrow> nat \<Rightarrow> ChannelResInfo \<Rightarrow> bool" where
  "slot2_ok dieId i c \<longleftrightarrow> (chAllocated c \<longrightarrow>
    chId (chInfo c) = i \<and> chDieId (chInfo c) = dieId \<and> (\<exists>info. jettyInfos (chInfo c) = [info] \<and> v2_jetty (i div 8) info))"

text \<open>The counts are those of the channels; where the contexts are not laid out, no channel is allocated.\<close>

definition chan2_counts :: "CcuChannelCtxMgrV2 \<Rightarrow> nat list \<Rightarrow> bool" where
  "chan2_counts m counts \<longleftrightarrow> j2_ok (c2Jetty m) counts \<and> c2Map m = DEFAULT_CHANNEL_JETTY_MAP
    \<and> (\<forall>k. card (live_in (c2Channels m) k) = (if k < length counts then counts ! k else 0))
    \<and> (\<forall>i<length (c2Channels m). slot2_ok (c2DieId m) i (c2Channels m ! i))"

definition chan2_inv :: "CcuChannelCtxMgrV2 \<Rightarrow> bool" where
  "chan2_inv m \<longleftrightarrow> (\<exists>counts. chan2_counts m counts)"

lemma counts_of_nth: "(if k < length (counts_of counts) then counts_of counts ! k else 0) = (if k < length counts then counts ! k else 0)"
  by (simp add: counts_of_def)

lemma chan2_jetty:
  assumes "chan2_counts m counts" and "j2_ok j counts \<or> j2_ok j (counts_of counts)"
  shows "chan2_inv (m\<lparr>c2Jetty := j\<rparr>)"
proof -
  have "\<exists>counts'. chan2_counts (m\<lparr>c2Jetty := j\<rparr>) counts'"
    using assms(2)
  proof
    assume "j2_ok j (counts_of counts)"
    then have "chan2_counts (m\<lparr>c2Jetty := j\<rparr>) (counts_of counts)"
      using assms(1) unfolding chan2_counts_def counts_of_nth by simp
    then show ?thesis
      by blast
  qed (use assms(1) in \<open>auto simp: chan2_counts_def\<close>)
  then show ?thesis
    by (simp add: chan2_inv_def)
qed

text \<open>Eight channels at once.\<close>

definition group_info :: "nat \<Rightarrow> nat \<Rightarrow> JettyInfo list \<Rightarrow> nat \<Rightarrow> ChannelInfo" where
  "group_info dieId start infos i = \<lparr>chId = start + i, chDieId = dieId, jettyInfos = infos\<rparr>"

definition group_slots :: "nat \<Rightarrow> u32 \<Rightarrow> nat \<Rightarrow> JettyInfo list \<Rightarrow> nat \<Rightarrow> ChannelResInfo list \<Rightarrow> ChannelResInfo list" where
  "group_slots dieId fe start infos n cs =
    fold (\<lambda>i cs. cs[start + i := \<lparr>chAllocated = True, chFeId = fe, chInfo = group_info dieId start infos i\<rparr>]) [0..<n] cs"

lemma group_slots_Suc:
  "group_slots dieId fe start infos (Suc n) cs =
    (group_slots dieId fe start infos n cs)[start + n := \<lparr>chAllocated = True, chFeId = fe, chInfo = group_info dieId start infos n\<rparr>]"
  by (simp add: group_slots_def)

lemma group_slots_length [simp]: "length (group_slots dieId fe start infos n cs) = length cs"
  by (induction n) (simp_all add: group_slots_Suc, simp add: group_slots_def)

lemma group_slots_nth:
  assumes "start + n \<le> length cs"
  shows "group_slots dieId fe start infos n cs ! x =
    (if start \<le> x \<and> x < start + n
     then \<lparr>chAllocated = True, chFeId = fe, chInfo = group_info dieId start infos (x - start)\<rparr> else cs ! x)"
  using assms
proof (induction n)
  case (Suc n)
  then show ?case
    by (cases "x = start + n") (auto simp: group_slots_Suc)
qed (auto simp: group_slots_def)

lemma AllocateChannelResources_eq:
  assumes "c2Map m = DEFAULT_CHANNEL_JETTY_MAP" and "start + 8 < 2 ^ 32"
  shows "AllocateChannelResources para infos start m =
    (map (group_info (c2DieId m) start infos) [0..<8],
     m\<lparr>c2Channels := group_slots (c2DieId m) (paraFeId para) start infos 8 (c2Channels m)\<rparr>)"
proof -
  have "fold (\<lambda>i (out, m). let info = \<lparr>chId = u32_add i start, chDieId = c2DieId m, jettyInfos = infos\<rparr> in (out @ [info],
        m\<lparr>c2Channels := (c2Channels m)[u32_add i start := \<lparr>chAllocated = True, chFeId = paraFeId para, chInfo = info\<rparr>]\<rparr>)) [0..<n] ([], m) =
      (map (group_info (c2DieId m) start infos) [0..<n], m\<lparr>c2Channels := group_slots (c2DieId m) (paraFeId para) start infos n (c2Channels m)\<rparr>)"
    if "n \<le> 8" for n
    using that
  proof (induction n)
    case (Suc n)
    have "u32_add n start = start + n"
      using Suc.prems assms(2) by (simp add: u32_add_def)
    then show ?case
      using Suc by (simp add: group_slots_Suc group_info_def Let_def)
  qed (simp add: group_slots_def)
  then show ?thesis
    using assms(1) by (simp add: AllocateChannelResources_def)
qed

text \<open>Giving back the count of a whole group.\<close>

lemma release_group_all:
  assumes "j2_ok j (counts[k := n])" and "v2_jetty k info" and "k < length counts"
  shows "\<exists>j'. release_group n fe [info] j = (HCCL_SUCCESS, j') \<and> j2_ok j' (counts[k := 0]) \<and> same_config2 j j'
    \<and> j2Wqe j' = (if n = 0 then j2Wqe j else (j2Wqe j)[k := False])"
  using assms
proof (induction n arbitrary: j)
  case (Suc n)
  obtain j1 where j1: "CcuJettyCtxMgrV2_Release fe [info] j = (HCCL_SUCCESS, j1)" "j2_ok j1 (counts[k := n])" "same_config2 j j1"
    "j2Wqe j1 = (if n = 0 then (j2Wqe j)[k := False] else j2Wqe j)"
    using J2_Release_ok [OF Suc.prems(1,2), of fe] Suc.prems(3) by auto
  obtain j2 where j2: "release_group n fe [info] j1 = (HCCL_SUCCESS, j2)" "j2_ok j2 (counts[k := 0])" "same_config2 j1 j2"
    "j2Wqe j2 = (if n = 0 then j2Wqe j1 else (j2Wqe j1)[k := False])"
    using Suc.IH [OF j1(2) Suc.prems(2,3)] by blast
  show ?case
    using j1 j2 by (auto simp: same_config2_def)
qed simp

lemma live_in_group:
  assumes "8 * k + 8 \<le> length cs"
  shows "live_in (group_slots dieId fe (8 * k) infos 8 cs) k' = (if k' = k then {8 * k ..< 8 * k + 8} else live_in cs k')"
proof -
  have div8: "i div 8 = k \<longleftrightarrow> 8 * k \<le> i \<and> i < 8 * k + 8" for i :: nat
    by auto
  show ?thesis
    using assms by (auto simp: live_in_def group_slots_nth div8)
qed

lemma no_live:
  assumes "live_in cs k = {}" and "8 * k + 8 \<le> length cs" and "i < 8"
  shows "\<not> chAllocated (cs ! (8 * k + i))"
proof
  assume "chAllocated (cs ! (8 * k + i))"
  then have "8 * k + i \<in> live_in cs k"
    using assms(2,3) by (simp add: live_in_def)
  then show False
    using assms(1) by simp
qed

lemma C2_Alloc_outcome:
  assumes "chan2_inv m" and "CcuChannelCtxMgrV2_Alloc para m = (ret, out, m')"
  shows "chan2_inv m' \<and> c2DieId m' = c2DieId m \<and> same_config2 (c2Jetty m) (c2Jetty m') \<and>
    (if ret = HCCL_SUCCESS
     then \<exists>k info. 8 * k + 8 \<le> length (c2Channels m) \<and> (\<forall>i<8. \<not> chAllocated (c2Channels m ! (8 * k + i))) \<and> v2_jetty k info
        \<and> out = Some (map (group_info (c2DieId m) (8 * k) [info]) [0..<8])
        \<and> c2Channels m' = group_slots (c2DieId m) (paraFeId para) (8 * k) [info] 8 (c2Channels m)
     else out = None \<and> c2Channels m' = c2Channels m \<and> j2Wqe (c2Jetty m') = j2Wqe (c2Jetty m))"
proof -
  obtain counts where inv: "chan2_counts m counts"
    using assms(1) by (auto simp: chan2_inv_def)
  then have j: "j2_ok (c2Jetty m) counts" and map8: "c2Map m = DEFAULT_CHANNEL_JETTY_MAP"
    and card: "\<And>k. card (live_in (c2Channels m) k) = (if k < length (counts_of counts) then counts_of counts ! k else 0)"
    and slots: "\<forall>i<length (c2Channels m). slot2_ok (c2DieId m) i (c2Channels m ! i)"
    by (simp_all add: chan2_counts_def counts_of_nth)
  have one: "CheckAndAdjustJettyNum para (c2Map m) = 1"
    by (simp add: CheckAndAdjustJettyNum_def map8)
  obtain e infos j1 where call: "CcuJettyCtxMgrV2_Alloc (paraFeId para) 1 (paraSqSize para) (c2Jetty m) = (e, infos, j1)"
    using prod_cases3 by blast
  note out = J2_Alloc_outcome [OF j call]
  show ?thesis
  proof (cases "e = HCCL_SUCCESS")
    case False
    then have "ret = e" "out = None" "m' = m\<lparr>c2Jetty := j1\<rparr>"
      using assms(2) call one by (simp_all add: CcuChannelCtxMgrV2_Alloc_def Let_def)
    then show ?thesis
      using False out chan2_jetty [OF inv] by auto
  next
    case True
    then obtain k info where k: "k < length (counts_of counts)" "counts_of counts ! k = 0" "infos = [info]" "v2_jetty k info"
      "j2_ok j1 ((counts_of counts)[k := 8])" "j2Wqe (c2Jetty m) = (j2Wqe j1)[k := False]" "same_config2 (c2Jetty m) j1"
      using out by auto
    have k128: "k < 128"
      using k(1,5) by (auto simp: j2_ok_def CCU_PER_DIE_JETTY_RESERVED_NUM_def)
    have "jettyCtxId info = k"
      using k(4) by (simp add: v2_jetty_def)
    then have start: "GetStartChannelId (jettyCtxId (infos ! 0)) (c2Map m) = Inr (8 * k)"
      using k128 by (simp add: GetStartChannelId_def map8 k(3) Let_def u32_mul_exact)
    have free: "live_in (c2Channels m) k = {}"
      using card [of k] k(1,2) by simp
    have range: "CheckChannelRangeAllocatable (8 * k) 8 (c2Channels m) =
        (if length (c2Channels m) < 8 * k + 8 then HCCL_E_INTERNAL else HCCL_SUCCESS)"
    proof -
      have "u32_add (8 * k) 8 = 8 * k + 8"
        using k128 by (simp add: u32_add_def)
      moreover have "\<not> chAllocated (c2Channels m ! i)" if "8 * k \<le> i" "i < 8 * k + 8" "\<not> length (c2Channels m) < 8 * k + 8" for i
        using no_live [OF free, of "i - 8 * k"] that by simp
      ultimately show ?thesis
        by (auto simp: CheckChannelRangeAllocatable_def Let_def)
    qed
    show ?thesis
    proof (cases "length (c2Channels m) < 8 * k + 8")
      case short: True
      obtain j2 where j2: "release_group 8 (paraFeId para) [info] j1 = (HCCL_SUCCESS, j2)" "j2_ok j2 ((counts_of counts)[k := 0])"
        "same_config2 j1 j2" "j2Wqe j2 = (j2Wqe j1)[k := False]"
        using release_group_all [OF k(5,4,1)] by auto
      have "(counts_of counts)[k := 0] = counts_of counts"
        using k(1,2) by (simp add: list_update_same_conv)
      moreover have "ret = HCCL_E_INTERNAL" "out = None" "m' = m\<lparr>c2Jetty := j2\<rparr>"
        using assms(2) call one True start range short j2(1)
        by (simp_all add: CcuChannelCtxMgrV2_Alloc_def Let_def map8 k(3) del: release_group.simps)
      ultimately show ?thesis
        using chan2_jetty [OF inv, of j2] j2 k(6,7) by (auto simp: same_config2_def)
    next
      case fits: False
      let ?cs = "group_slots (c2DieId m) (paraFeId para) (8 * k) [info] 8 (c2Channels m)"
      have res: "ret = HCCL_SUCCESS" "out = Some (map (group_info (c2DieId m) (8 * k) [info]) [0..<8])"
        "m' = m\<lparr>c2Jetty := j1, c2Channels := ?cs\<rparr>"
        using assms(2) call one True start range fits AllocateChannelResources_eq [of "m\<lparr>c2Jetty := j1\<rparr>" "8 * k" para infos] k128 k(3)
        by (simp_all add: CcuChannelCtxMgrV2_Alloc_def Let_def map8)
      have le: "8 * k + 8 \<le> length (c2Channels m)"
        using fits by simp
      have "chan2_counts m' ((counts_of counts)[k := 8])"
        unfolding chan2_counts_def
      proof (intro conjI, goal_cases)
        case 3
        then show ?case
          using card k(1) by (auto simp: res(3) live_in_group [OF le] nth_list_update)
      next
        case 4
        have "slot2_ok (c2DieId m) i (?cs ! i)" if "i < length (c2Channels m)" for i
        proof (cases "8 * k \<le> i \<and> i < 8 * k + 8")
          case True
          then have "i div 8 = k"
            by auto
          then show ?thesis
            using True k(4) by (simp add: group_slots_nth [OF le] slot2_ok_def group_info_def)
        next
          case False
          then show ?thesis
            using slots that by (auto simp: group_slots_nth [OF le])
        qed
        then show ?case
          by (simp add: res(3))
      qed (use k(5) map8 res(3) in simp_all)
      then show ?thesis
        using res k(4,7) le no_live [OF free le] by (auto simp: chan2_inv_def)
    qed
  qed
qed

lemma C2_Release_outcome:
  assumes "chan2_inv m" and "i < length (c2Channels m)" and "chAllocated (c2Channels m ! i)"
  obtains m' where "CcuChannelCtxMgrV2_Release chan i m log =
      (let cmd = CCU_U_OP_SET_CHANNEL (c2DieId m) i (DataV2 ChannelDataV2_zero) in (chan log cmd, m', log @ [cmd]))"
    and "chan2_inv m'" and "c2Channels m' = (c2Channels m)[i := ChannelResInfo_new]" and "c2DieId m' = c2DieId m"
    and "same_config2 (c2Jetty m) (c2Jetty m')"
    and "j2Wqe (c2Jetty m') =
      (if live_in (c2Channels m) (i div 8) = {i} then (j2Wqe (c2Jetty m))[i div 8 := False] else j2Wqe (c2Jetty m))"
proof -
  obtain counts where inv: "chan2_counts m counts"
    using assms(1) by (auto simp: chan2_inv_def)
  then have j: "j2_ok (c2Jetty m) counts" and map8: "c2Map m = DEFAULT_CHANNEL_JETTY_MAP"
    and card: "\<And>k. card (live_in (c2Channels m) k) = (if k < length counts then counts ! k else 0)"
    and slots: "\<forall>i<length (c2Channels m). slot2_ok (c2DieId m) i (c2Channels m ! i)"
    by (simp_all add: chan2_counts_def)
  define k where "k = i div 8"
  have mem: "i \<in> live_in (c2Channels m) k"
    using assms(2,3) by (simp add: live_in_def k_def)
  then have "0 < card (live_in (c2Channels m) k)"
    by (auto simp: card_gt_0_iff)
  then have k: "k < length counts" "0 < counts ! k"
    using card [of k] by (auto split: if_splits)
  have last: "counts ! k = 1 \<longleftrightarrow> live_in (c2Channels m) k = {i}"
    using card [of k] k(1) mem by (auto simp: card_1_singleton_iff)
  obtain info where info: "jettyInfos (chInfo (c2Channels m ! i)) = [info]" "v2_jetty k info"
    using slots assms(2,3) by (auto simp: slot2_ok_def k_def)
  obtain j1 where j1: "CcuJettyCtxMgrV2_Release (chFeId (c2Channels m ! i)) [info] (c2Jetty m) = (HCCL_SUCCESS, j1)"
    "j2_ok j1 (counts[k := counts ! k - 1])" "same_config2 (c2Jetty m) j1"
    "j2Wqe j1 = (if counts ! k = 1 then (j2Wqe (c2Jetty m))[k := False] else j2Wqe (c2Jetty m))"
    using J2_Release_ok [OF j info(2) k] by blast
  let ?m = "m\<lparr>c2Jetty := j1, c2Channels := (c2Channels m)[i := ChannelResInfo_new]\<rparr>"
  have "chan2_counts ?m (counts[k := counts ! k - 1])"
    unfolding chan2_counts_def
  proof (intro conjI, goal_cases)
    case 3
    then show ?case
      using card k mem by (auto simp: live_in_update [OF assms(2)] k_def [symmetric] nth_list_update)
  next
    case 4
    then show ?case
      using slots by (auto simp: nth_list_update [OF assms(2)] slot2_ok_def)
  qed (use j1 map8 in simp_all)
  then have inv': "chan2_inv ?m"
    by (auto simp: chan2_inv_def)
  have call: "CcuChannelCtxMgrV2_Release chan i m log =
      (let cmd = CCU_U_OP_SET_CHANNEL (c2DieId m) i (DataV2 ChannelDataV2_zero) in (chan log cmd, ?m, log @ [cmd]))"
    using assms(2,3) j1(1) info(1)
    by (simp add: CcuChannelCtxMgrV2_Release_def CheckIfChannelAllocated_def Let_def ConfigChannelCtxDataV2_def send_def)
  have "j2Wqe j1 = (if live_in (c2Channels m) (i div 8) = {i} then (j2Wqe (c2Jetty m))[i div 8 := False] else j2Wqe (c2Jetty m))"
    using j1(4) last unfolding k_def by simp
  then show thesis
    using that [OF call inv'] j1(3) by simp
qed

lemma C2_Config_inv:
  assumes "chan2_inv m" and "CcuChannelCtxMgrV2_Config chan cfg m log = (ret, m', log')"
  shows "chan2_inv m' \<and> c2Channels m' = c2Channels m"
proof (cases "CheckIfChannelAllocated (cfgChannelId cfg) (c2Channels m)")
  case False
  then show ?thesis
    using assms by (simp add: CcuChannelCtxMgrV2_Config_def)
next
  case True
  define res where "res = c2Channels m ! cfgChannelId cfg"
  obtain e j log1 where call: "CcuJettyCtxMgrV2_Config chan (c2DieId m) (chFeId res) (jettyInfos (chInfo res)) (jettyCfgs cfg) (c2Jetty m) log
      = (e, j, log1)"
    using prod_cases3 by blast
  have m': "m' = m\<lparr>c2Jetty := j\<rparr>"
    using assms(2) True call by (auto simp: CcuChannelCtxMgrV2_Config_def Let_def res_def split: prod.splits if_splits)
  obtain counts where inv: "chan2_counts m counts"
    using assms(1) by (auto simp: chan2_inv_def)
  obtain e1 m1 where chk: "CheckCtxGroupsByFeId (chFeId res) (c2Jetty m) = (e1, m1)"
    by fastforce
  have "j = c2Jetty m \<or> j = m1"
    using call chk by (auto simp: CcuJettyCtxMgrV2_Config_def Let_def split: prod.splits if_splits)
  then have "j2_ok j counts \<or> j2_ok j (counts_of counts)"
    using inv CheckCtxGroups_ok [OF _ chk, of counts] by (auto simp: chan2_counts_def split: if_splits)
  then show ?thesis
    using chan2_jetty [OF inv] m' by simp
qed

subsection \<open>Start and reachable states\<close>

lemma C2_Init_inv:
  assumes "CcuChannelCtxMgrV2_Init chan specs g dieId log = (ret, m, log')" and "cfgs_ok g"
    and "snd (GetChannelJettyMap specs dieId DEFAULT_CHANNEL_JETTY_MAP) = DEFAULT_CHANNEL_JETTY_MAP"
  shows "chan2_inv m \<and> (\<forall>c\<in>set (c2Channels m). \<not> chAllocated c)"
proof -
  obtain e j log1 where call: "CcuJettyCtxMgrV2_Init chan specs g dieId log = (e, j, log1)"
    using prod_cases3 by blast
  have m: "c2Channels m = replicate (unat (snd (GetChannelNum specs dieId 0))) ChannelResInfo_new" "c2Jetty m = j"
    "c2Map m = DEFAULT_CHANNEL_JETTY_MAP"
    using assms(1,3) call by (auto simp: CcuChannelCtxMgrV2_Init_def)
  have "unat (snd (GetWqeBBNum specs dieId 0)) div CCU_V2_FIXED_SQ_SIZE * CCU_V2_FIXED_SQ_SIZE \<le> unat (snd (GetWqeBBNum specs dieId 0))"
    by (rule div_times_less_eq_dividend)
  then have num: "unat (snd (GetWqeBBNum specs dieId 0)) div CCU_V2_FIXED_SQ_SIZE * CCU_V2_FIXED_SQ_SIZE < 4294967296"
    using unat_u32_less by (rule le_less_trans)
  obtain e2 pfe log2 where pfe: "CcuPfeMgr_Init chan specs g dieId Map.empty log = (e2, pfe, log2)"
    using prod_cases3 by blast
  have st: "\<forall>st\<in>ran pfe. st_ok st"
    by (rule pfe_init_ok [OF pfe assms(2)])
  have "j2_ok j []"
    using call pfe st num assms(3)
    by (auto simp: CcuJettyCtxMgrV2_Init_def CcuWqeBBMgrV2_Init_def j2_ok_def v2_inv_def Let_def split: if_splits)
  moreover have "live_in (c2Channels m) k = {}" for k
    by (auto simp: m live_in_def)
  ultimately have "chan2_counts m []"
    by (simp add: chan2_counts_def m slot2_ok_def)
  then show ?thesis
    by (auto simp: chan2_inv_def m)
qed

inductive chan2_reach ::
  "CcuChannelDriver \<Rightarrow> CcuResSpecifications \<Rightarrow> HcclResult \<times> (nat \<times> u32) list \<Rightarrow> nat \<Rightarrow> CcuChannelCtxMgrV2 \<times> CcuCommand list \<Rightarrow> bool"
  for chan specs eids dieId where
  start: "CcuChannelCtxMgrV2_Init chan specs (snd (CcuPfeCfgMgr_Init eids specs CcuPfeCfgMgr_new)) dieId log = (HCCL_SUCCESS, m, log')
    \<Longrightarrow> chan2_reach chan specs eids dieId (m, log')"
| alloc: "chan2_reach chan specs eids dieId (m, log) \<Longrightarrow> CcuChannelCtxMgrV2_Alloc para m = (ret, out, m')
    \<Longrightarrow> chan2_reach chan specs eids dieId (m', log)"
| config: "chan2_reach chan specs eids dieId (m, log) \<Longrightarrow> CcuChannelCtxMgrV2_Config chan cfg m log = (ret, m', log')
    \<Longrightarrow> chan2_reach chan specs eids dieId (m', log')"
| release: "chan2_reach chan specs eids dieId (m, log) \<Longrightarrow> CcuChannelCtxMgrV2_Release chan i m log = (ret, m', log')
    \<Longrightarrow> chan2_reach chan specs eids dieId (m', log')"
| elsewhere: "chan2_reach chan specs eids dieId (m, log) \<Longrightarrow> chan2_reach chan specs eids dieId (m, log')"

lemma chan2_reach_inv:
  assumes "chan2_reach chan specs eids dieId (m, log)"
    and "snd (GetChannelJettyMap specs dieId DEFAULT_CHANNEL_JETTY_MAP) = DEFAULT_CHANNEL_JETTY_MAP"
  shows "chan2_inv m"
  using assms(1)
proof (induction "(m, log)" arbitrary: m log rule: chan2_reach.induct)
  case (start log m log')
  then show ?case
    using C2_Init_inv [OF start cfgs_ok_Init assms(2)] by blast
next
  case (alloc m log para ret out m')
  then show ?case
    using C2_Alloc_outcome by blast
next
  case (config m log cfg ret m' log')
  then show ?case
    using C2_Config_inv by blast
next
  case (release m log i ret m' log')
  show ?case
  proof (cases "CheckIfChannelAllocated i (c2Channels m)")
    case True
    then show ?thesis
      using C2_Release_outcome [OF release(2), of i chan log] release(3)
      by (auto simp: CheckIfChannelAllocated_def Let_def)
  next
    case False
    then show ?thesis
      using release by (simp add: CcuChannelCtxMgrV2_Release_def)
  qed
qed

end
