(* ===== verification/Channel_Contract.thy ===== *)
theory Channel_Contract
  imports Channel_V2 Ccu_Component
begin

text \<open>
  The contract between the device component and the channel manager of a die, as a locale over the virtual calls, and
  the consequence for the component: the loop channel that initialisation creates on each usable die is never given to a
  client and stays allocated, and no channel is given to two clients. Both versions of the manager implement the contract.
\<close>

subsection \<open>The contract\<close>

locale channel_mgr =
  fixes inv :: "'m \<Rightarrow> bool" and channels :: "'m \<Rightarrow> ChannelResInfo list"
    and alloc :: "ChannelPara \<Rightarrow> 'm \<Rightarrow> HcclResult \<times> ChannelInfo list option \<times> 'm"
    and config :: "CcuChannelDriver \<Rightarrow> ChannelCfg \<Rightarrow> 'm \<Rightarrow> CcuCommand list \<Rightarrow> HcclResult \<times> 'm \<times> CcuCommand list"
    and release :: "CcuChannelDriver \<Rightarrow> nat \<Rightarrow> 'm \<Rightarrow> CcuCommand list \<Rightarrow> HcclResult \<times> 'm \<times> CcuCommand list"
  assumes alloc_grants: "inv m \<Longrightarrow> alloc para m = (HCCL_SUCCESS, out, m') \<Longrightarrow> \<exists>infos. out = Some infos \<and> infos \<noteq> [] \<and> inv m'
      \<and> (\<forall>info\<in>set infos. \<not> CheckIfChannelAllocated (chId info) (channels m) \<and> CheckIfChannelAllocated (chId info) (channels m'))
      \<and> (\<forall>i. CheckIfChannelAllocated i (channels m) \<longrightarrow> CheckIfChannelAllocated i (channels m'))"
    and alloc_refuses: "inv m \<Longrightarrow> alloc para m = (e, out, m') \<Longrightarrow> e \<noteq> HCCL_SUCCESS \<Longrightarrow> out = None \<and> inv m' \<and> channels m' = channels m"
    and config_keeps: "inv m \<Longrightarrow> config chan cfg m log = (ret, m', log') \<Longrightarrow> inv m' \<and> channels m' = channels m"
    and release_one: "inv m \<Longrightarrow> release chan i m log = (ret, m', log') \<Longrightarrow> inv m'
      \<and> (\<forall>k. CheckIfChannelAllocated k (channels m') \<longleftrightarrow> k \<noteq> i \<and> CheckIfChannelAllocated k (channels m))"
begin

lemma alloc_keeps:
  assumes "inv m" and "alloc para m = (e, out, m')" and "CheckIfChannelAllocated i (channels m)"
  shows "inv m'" and "CheckIfChannelAllocated i (channels m')" and "out = Some infos \<Longrightarrow> i \<notin> chId ` set infos"
proof -
  have "inv m' \<and> CheckIfChannelAllocated i (channels m') \<and> (out = Some infos \<longrightarrow> i \<notin> chId ` set infos)"
  proof (cases "e = HCCL_SUCCESS")
    case True
    then show ?thesis
      using alloc_grants [OF assms(1), of para out m'] assms(2,3) by auto
  next
    case False
    then show ?thesis
      using alloc_refuses [OF assms(1,2)] assms(3) by auto
  qed
  then show "inv m'" "CheckIfChannelAllocated i (channels m')" "out = Some infos \<Longrightarrow> i \<notin> chId ` set infos"
    by auto
qed

lemma alloc_inv: "inv m \<Longrightarrow> alloc para m = (e, out, m') \<Longrightarrow> inv m'"
  using alloc_grants alloc_refuses by (cases "e = HCCL_SUCCESS") blast+

end

subsection \<open>Both versions implement it\<close>

fun mgr_inv :: "CcuChannelCtxMgr \<Rightarrow> bool" where
  "mgr_inv (MgrV1 m) = chan1_inv m"
| "mgr_inv (MgrV2 m) = chan2_inv m"

fun mgr_channels :: "CcuChannelCtxMgr \<Rightarrow> ChannelResInfo list" where
  "mgr_channels (MgrV1 m) = c1Channels m"
| "mgr_channels (MgrV2 m) = c2Channels m"

lemma allocated_update:
  "CheckIfChannelAllocated k (cs[i := c]) \<longleftrightarrow> (if k = i \<and> i < length cs then chAllocated c else CheckIfChannelAllocated k cs)"
  by (auto simp: CheckIfChannelAllocated_def nth_list_update)

lemma V2_granted:
  assumes "chan2_inv m" and "CcuChannelCtxMgrV2_Alloc para m = (HCCL_SUCCESS, out, m')"
  shows "\<exists>infos. out = Some infos \<and> infos \<noteq> [] \<and> chan2_inv m'
      \<and> (\<forall>info\<in>set infos. \<not> CheckIfChannelAllocated (chId info) (c2Channels m) \<and> CheckIfChannelAllocated (chId info) (c2Channels m'))
      \<and> (\<forall>i. CheckIfChannelAllocated i (c2Channels m) \<longrightarrow> CheckIfChannelAllocated i (c2Channels m'))"
proof -
  obtain k info where k: "8 * k + 8 \<le> length (c2Channels m)" "\<forall>i<8. \<not> chAllocated (c2Channels m ! (8 * k + i))"
    "out = Some (map (group_info (c2DieId m) (8 * k) [info]) [0..<8])" "chan2_inv m'"
    "c2Channels m' = group_slots (c2DieId m) (paraFeId para) (8 * k) [info] 8 (c2Channels m)"
    using C2_Alloc_outcome [OF assms] by auto
  then show ?thesis
    by (intro exI [of _ "map (group_info (c2DieId m) (8 * k) [info]) [0..<8]"])
      (auto simp: CheckIfChannelAllocated_def group_info_def group_slots_nth [OF k(1)])
qed

lemma V1_granted:
  assumes "chan1_inv m" and "CcuChannelCtxMgrV1_Alloc para m = (HCCL_SUCCESS, out, m')"
  shows "\<exists>infos. out = Some infos \<and> infos \<noteq> [] \<and> chan1_inv m'
      \<and> (\<forall>info\<in>set infos. \<not> CheckIfChannelAllocated (chId info) (c1Channels m) \<and> CheckIfChannelAllocated (chId info) (c1Channels m'))
      \<and> (\<forall>i. CheckIfChannelAllocated i (c1Channels m) \<longrightarrow> CheckIfChannelAllocated i (c1Channels m'))"
proof -
  obtain i info where i: "i < length (c1Channels m)" "\<not> chAllocated (c1Channels m ! i)" "out = Some [info]" "chId info = i" "chan1_inv m'"
    "c1Channels m' = (c1Channels m)[i := \<lparr>chAllocated = True, chFeId = paraFeId para, chInfo = info\<rparr>]"
    using C1_Alloc_outcome [OF assms] by auto
  then show ?thesis
    by (intro exI [of _ "[info]"]) (auto simp: allocated_update, simp_all add: CheckIfChannelAllocated_def)
qed

lemma V1_released:
  assumes "chan1_inv m" and "CcuChannelCtxMgrV1_Release chan i m log = (ret, m', log')"
  shows "chan1_inv m' \<and> (\<forall>k. CheckIfChannelAllocated k (c1Channels m') \<longleftrightarrow> k \<noteq> i \<and> CheckIfChannelAllocated k (c1Channels m))"
proof (cases "CheckIfChannelAllocated i (c1Channels m)")
  case True
  then have al: "i < length (c1Channels m)" "chAllocated (c1Channels m ! i)"
    by (simp_all add: CheckIfChannelAllocated_def)
  obtain n where n: "CcuChannelCtxMgrV1_Release chan i m log =
      (let cmd = CCU_U_OP_SET_CHANNEL (c1DieId m) i (DataV1 ChannelCtxDataV1_zero) in (chan log cmd, n, log @ [cmd]))"
    "chan1_inv n" "c1Channels n = (c1Channels m)[i := ChannelResInfo_new]"
    by (rule C1_Release_outcome [OF assms(1) al, of chan log]) blast
  have "m' = n"
    using assms(2) unfolding n(1) by (simp add: Let_def)
  then show ?thesis
    using n(2,3) al(1) by (auto simp: allocated_update)
next
  case False
  then show ?thesis
    using assms by (auto simp: CcuChannelCtxMgrV1_Release_def)
qed

lemma V2_released:
  assumes "chan2_inv m" and "CcuChannelCtxMgrV2_Release chan i m log = (ret, m', log')"
  shows "chan2_inv m' \<and> (\<forall>k. CheckIfChannelAllocated k (c2Channels m') \<longleftrightarrow> k \<noteq> i \<and> CheckIfChannelAllocated k (c2Channels m))"
proof (cases "CheckIfChannelAllocated i (c2Channels m)")
  case True
  then have al: "i < length (c2Channels m)" "chAllocated (c2Channels m ! i)"
    by (simp_all add: CheckIfChannelAllocated_def)
  obtain n where n: "CcuChannelCtxMgrV2_Release chan i m log =
      (let cmd = CCU_U_OP_SET_CHANNEL (c2DieId m) i (DataV2 ChannelDataV2_zero) in (chan log cmd, n, log @ [cmd]))"
    "chan2_inv n" "c2Channels n = (c2Channels m)[i := ChannelResInfo_new]"
    by (rule C2_Release_outcome [OF assms(1) al, of chan log]) blast
  have "m' = n"
    using assms(2) unfolding n(1) by (simp add: Let_def)
  then show ?thesis
    using n(2,3) al(1) by (auto simp: allocated_update)
next
  case False
  then show ?thesis
    using assms by (auto simp: CcuChannelCtxMgrV2_Release_def)
qed

lemma refused:
  "chan1_inv m \<Longrightarrow> CcuChannelCtxMgrV1_Alloc para m = (e, out, m1) \<Longrightarrow> e \<noteq> HCCL_SUCCESS \<Longrightarrow>
    out = None \<and> chan1_inv m1 \<and> c1Channels m1 = c1Channels m"
  "chan2_inv n \<Longrightarrow> CcuChannelCtxMgrV2_Alloc para n = (e, out, n1) \<Longrightarrow> e \<noteq> HCCL_SUCCESS \<Longrightarrow>
    out = None \<and> chan2_inv n1 \<and> c2Channels n1 = c2Channels n"
  using C1_Alloc_outcome [of m para e out m1] C2_Alloc_outcome [of n para e out n1] by simp_all

interpretation cm: channel_mgr mgr_inv mgr_channels CcuChannelCtxMgr_Alloc CcuChannelCtxMgr_Config CcuChannelCtxMgr_Release
proof (unfold_locales, goal_cases)
  case (1 m para out m')
  show ?case
  proof (cases m)
    case (MgrV1 n)
    with 1 obtain n' where "CcuChannelCtxMgrV1_Alloc para n = (HCCL_SUCCESS, out, n')" "m' = MgrV1 n'" "chan1_inv n"
      by (auto split: prod.splits)
    then show ?thesis
      using V1_granted [of n para out n'] by (simp add: MgrV1)
  next
    case (MgrV2 n)
    with 1 obtain n' where "CcuChannelCtxMgrV2_Alloc para n = (HCCL_SUCCESS, out, n')" "m' = MgrV2 n'" "chan2_inv n"
      by (auto split: prod.splits)
    then show ?thesis
      using V2_granted [of n para out n'] by (simp add: MgrV2)
  qed
next
  case (2 m para e out m')
  then show ?case
    by (cases m) (auto split: prod.splits dest: refused)
next
  case (3 m chan cfg log ret m' log')
  then show ?case
    by (cases m) (auto split: prod.splits dest: C2_Config_inv)
next
  case (4 m chan i log ret m' log')
  then show ?case
    by (cases m) (auto split: prod.splits dest: V1_released V2_released)
qed

subsection \<open>The component as a client\<close>

text \<open>The calls of clients, with any driver; what an allocation returns is part of the step.\<close>

inductive channel_step :: "CcuComponent \<Rightarrow> (nat \<times> ChannelInfo) list \<Rightarrow> CcuComponent \<Rightarrow> bool" where
  allocs: "AllocChannels dieId para s = (ret, out, s') \<Longrightarrow>
    channel_step s (case out of None \<Rightarrow> [] | Some infos \<Rightarrow> map (Pair dieId) infos) s'"
| configs: "ConfigChannel chan dieId cfg s = (ret, s') \<Longrightarrow> channel_step s [] s'"
| releases: "ReleaseChannel chan dieId i s = (ret, s') \<Longrightarrow> channel_step s [] s'"

inductive channel_steps :: "CcuComponent \<Rightarrow> CcuComponent \<Rightarrow> bool" where
  no_step: "channel_steps s s"
| one_more: "channel_steps s s1 \<Longrightarrow> channel_step s1 given s2 \<Longrightarrow> channel_steps s s2"

text \<open>Every usable die has a manager that keeps its contract, and its loop channel is allocated there.\<close>

definition die_channels :: "nat \<Rightarrow> CcuComponent \<Rightarrow> ChannelResInfo list" where
  "die_channels d s = (case channelCtxMgrs s ! d of None \<Rightarrow> [] | Some m \<Rightarrow> mgr_channels m)"

definition mgrs_ok :: "CcuComponent \<Rightarrow> bool" where
  "mgrs_ok s \<longleftrightarrow> length (compDieFlags s) = 2 \<and> length (channelCtxMgrs s) = 2 \<and> length (loopChannelIds s) = 2
    \<and> (\<forall>d<2. compDieFlags s ! d \<longrightarrow> (\<exists>m. channelCtxMgrs s ! d = Some m \<and> mgr_inv m))"

definition loops_ok :: "CcuComponent \<Rightarrow> nat set \<Rightarrow> bool" where
  "loops_ok s D \<longleftrightarrow> (\<forall>d\<in>D. compDieFlags s ! d \<longrightarrow> CheckIfChannelAllocated (loopChannelIds s ! d) (die_channels d s))"

lemma CheckDie_two: "length flags = 2 \<Longrightarrow> CheckDieValid d flags = HCCL_SUCCESS \<longleftrightarrow> d < 2 \<and> flags ! d"
  by (auto simp: CheckDieValid_def CCU_MAX_IODIE_NUM_def)

lemma set_mgr_ok:
  assumes "mgrs_ok s" and "d < 2" and "mgr_inv m"
  shows "mgrs_ok (set_channel_mgr d m s)" and "die_channels e (set_channel_mgr d m s) = (if e = d then mgr_channels m else die_channels e s)"
  using assms by (auto simp: mgrs_ok_def set_channel_mgr_def die_channels_def nth_list_update)

lemma mgrs_ok_log [simp]: "mgrs_ok (s\<lparr>drvLog := log\<rparr>) = mgrs_ok s" "die_channels d (s\<lparr>drvLog := log\<rparr>) = die_channels d s"
  by (simp_all add: mgrs_ok_def die_channels_def)

text \<open>One call on a die goes to its manager.\<close>

lemma step_ok:
  assumes "mgrs_ok s" and "loops_ok s {0, 1}" and "channel_step s given s'"
  shows "mgrs_ok s' \<and> loops_ok s' {0, 1} \<and> compDieFlags s' = compDieFlags s \<and> loopChannelIds s' = loopChannelIds s
    \<and> (\<forall>(d, info)\<in>set given. \<not> CheckIfChannelAllocated (chId info) (die_channels d s) \<and> CheckIfChannelAllocated (chId info) (die_channels d s')
        \<and> (compDieFlags s ! d \<and> d < 2))"
  using assms(3)
proof cases
  case (allocs d para ret out)
  show ?thesis
  proof (cases "CheckDieValid d (compDieFlags s) = HCCL_SUCCESS")
    case True
    then have d: "d < 2" "compDieFlags s ! d"
      using assms(1) by (simp_all add: mgrs_ok_def CheckDie_two)
    then obtain m where m: "channelCtxMgrs s ! d = Some m" "mgr_inv m"
      using assms(1) by (auto simp: mgrs_ok_def)
    obtain e out' m' where call: "CcuChannelCtxMgr_Alloc para m = (e, out', m')"
      using prod_cases3 by blast
    have s': "s' = set_channel_mgr d m' s" "out = out'" "ret = e"
      using allocs True m call by (auto simp: AllocChannels_def)
    have inv: "mgr_inv m'"
      by (rule cm.alloc_inv [OF m(2) call])
    have ch: "die_channels d s = mgr_channels m"
      by (simp add: die_channels_def m(1))
    have keep: "CheckIfChannelAllocated i (mgr_channels m')" if "CheckIfChannelAllocated i (mgr_channels m)" for i
      by (rule cm.alloc_keeps(2) [OF m(2) call that])
    have grants: "\<not> CheckIfChannelAllocated (chId info) (mgr_channels m) \<and> CheckIfChannelAllocated (chId info) (mgr_channels m')"
      if "out = Some infos" "info \<in> set infos" for infos info
      using that call s'(2) cm.alloc_grants [OF m(2), of para out' m'] cm.alloc_refuses [OF m(2) call]
      by (cases "e = HCCL_SUCCESS") auto
    have ch': "die_channels x s' = (if x = d then mgr_channels m' else die_channels x s)" "mgrs_ok s'" for x
      using set_mgr_ok [OF assms(1) d(1) inv] by (simp_all add: s'(1))
    have same: "compDieFlags s' = compDieFlags s" "loopChannelIds s' = loopChannelIds s"
      by (simp_all add: s'(1) set_channel_mgr_def)
    have "CheckIfChannelAllocated (loopChannelIds s ! x) (die_channels x s')" if "x \<in> {0, 1}" "compDieFlags s ! x" for x
      using assms(2) that keep [of "loopChannelIds s ! x"] unfolding ch' ch [symmetric] loops_ok_def by (cases "x = d") auto
    then have "loops_ok s' {0, 1}"
      by (simp add: loops_ok_def same)
    then show ?thesis
      using ch'(2) same d grants by (auto simp: ch' ch allocs(1) split: option.splits)
  next
    case False
    then show ?thesis
      using allocs assms(1,2) by (auto simp: AllocChannels_def)
  qed
next
  case (configs chan d cfg ret)
  show ?thesis
  proof (cases "CheckDieValid d (compDieFlags s) = HCCL_SUCCESS \<and> cfgChannelId cfg \<noteq> loopChannelIds s ! d")
    case True
    then have d: "d < 2" "compDieFlags s ! d"
      using assms(1) by (simp_all add: mgrs_ok_def CheckDie_two)
    then obtain m where m: "channelCtxMgrs s ! d = Some m" "mgr_inv m"
      using assms(1) by (auto simp: mgrs_ok_def)
    obtain e m' log where call: "CcuChannelCtxMgr_Config chan cfg m (drvLog s) = (e, m', log)"
      using prod_cases3 by blast
    have s': "s' = (set_channel_mgr d m' s)\<lparr>drvLog := log\<rparr>"
      using configs True m call by (auto simp: ConfigChannel_def)
    have inv: "mgr_inv m'" "mgr_channels m' = die_channels d s"
      using cm.config_keeps [OF m(2) call] by (simp_all add: die_channels_def m(1))
    have "die_channels x s' = die_channels x s" "mgrs_ok s'" for x
      using set_mgr_ok [OF assms(1) d(1) inv(1)] inv(2) by (simp_all add: s')
    then show ?thesis
      using assms(2) by (simp add: s' configs(1) loops_ok_def set_channel_mgr_def [of d m' s])
  next
    case False
    then show ?thesis
      using configs assms(1,2) by (auto simp: ConfigChannel_def Let_def split: if_splits)
  qed
next
  case (releases chan d i ret)
  show ?thesis
  proof (cases "CheckDieValid d (compDieFlags s) = HCCL_SUCCESS \<and> i \<noteq> loopChannelIds s ! d")
    case True
    then have d: "d < 2" "compDieFlags s ! d" "i \<noteq> loopChannelIds s ! d"
      using assms(1) by (simp_all add: mgrs_ok_def CheckDie_two)
    then obtain m where m: "channelCtxMgrs s ! d = Some m" "mgr_inv m"
      using assms(1) by (auto simp: mgrs_ok_def)
    obtain e m' log where call: "CcuChannelCtxMgr_Release chan i m (drvLog s) = (e, m', log)"
      using prod_cases3 by blast
    have s': "s' = (set_channel_mgr d m' s)\<lparr>drvLog := log\<rparr>"
      using releases True m call by (auto simp: ReleaseChannel_def)
    have inv: "mgr_inv m'" "CheckIfChannelAllocated k (mgr_channels m') \<longleftrightarrow> k \<noteq> i \<and> CheckIfChannelAllocated k (die_channels d s)" for k
      using cm.release_one [OF m(2) call] by (simp_all add: die_channels_def m(1))
    have ch: "die_channels x s' = (if x = d then mgr_channels m' else die_channels x s)" "mgrs_ok s'" for x
      using set_mgr_ok [OF assms(1) d(1) inv(1)] by (simp_all add: s')
    have same: "compDieFlags s' = compDieFlags s" "loopChannelIds s' = loopChannelIds s"
      by (simp_all add: s' set_channel_mgr_def)
    have "CheckIfChannelAllocated (loopChannelIds s ! x) (die_channels x s')" if "x \<in> {0, 1}" "compDieFlags s ! x" for x
      using assms(2) that d(3) inv(2) unfolding ch loops_ok_def by (cases "x = d") auto
    then have "loops_ok s' {0, 1}"
      by (simp add: loops_ok_def same)
    then show ?thesis
      using ch(2) same by (simp add: releases(1))
  next
    case False
    then show ?thesis
      using releases assms(1,2) by (auto simp: ReleaseChannel_def Let_def split: if_splits)
  qed
qed

lemma steps_ok:
  assumes "channel_steps s s'" and "mgrs_ok s" and "loops_ok s {0, 1}"
  shows "mgrs_ok s' \<and> loops_ok s' {0, 1} \<and> compDieFlags s' = compDieFlags s \<and> loopChannelIds s' = loopChannelIds s"
  using assms
proof (induction rule: channel_steps.induct)
  case (one_more s s1 given s2)
  then show ?case
    using step_ok [of s1 given s2] by simp
qed simp

subsection \<open>Initialisation\<close>

definition chan_frame :: "CcuComponent \<Rightarrow> CcuComponent \<Rightarrow> bool" where
  "chan_frame s s' \<longleftrightarrow> compDieFlags s' = compDieFlags s \<and> loopFeCommAddrMap s' = loopFeCommAddrMap s
    \<and> channelCtxMgrs s' = channelCtxMgrs s \<and> loopChannelIds s' = loopChannelIds s"

lemma chan_frame_refl [simp]: "chan_frame s s"
  by (simp add: chan_frame_def)

lemma chan_frame_trans: "chan_frame a b \<Longrightarrow> chan_frame b c \<Longrightarrow> chan_frame a c"
  by (simp add: chan_frame_def)

lemma chan_frame_ok: "chan_frame s s' \<Longrightarrow> mgrs_ok s' = mgrs_ok s \<and> die_channels d s' = die_channels d s"
  by (simp add: chan_frame_def mgrs_ok_def die_channels_def)

lemma chan_frame_log [simp]: "chan_frame s (s\<lparr>drvLog := log\<rparr>)"
  by (simp add: chan_frame_def)

lemma CleanDieCkes_frame: "chan_frame s (snd (CleanDieCkes chan specs d s))"
  using CleanDieCkes_loop_keeps [where P = "chan_frame s"]
  by (auto simp: CleanDieCkes_def chan_frame_def split: prod.splits option.splits)

lemma CreateCcuRmaBuffer_frame: "CreateCcuRmaBuffer_loop plat specs dies s = (ret, s') \<Longrightarrow> chan_frame s s'"
  by (induction dies arbitrary: s) (auto simp: chan_frame_def Let_def split: if_splits option.splits prod.splits)

lemma ConfigMsIdToken_frame: "ConfigMsIdToken_loop chan specs dies s = (ret, s') \<Longrightarrow> chan_frame s s'"
proof (induction dies arbitrary: s)
  case (Cons d dies)
  show ?case
    using Cons.prems Cons.IH by (fastforce simp: chan_frame_def HccpRaTlvCcuCustomChannel_def split: option.splits prod.splits if_splits)
qed simp

lemma CreateAndImport_loop_frame: "CreateAndImportLoopJettys_loop plat d tv infos s = (ret, s') \<Longrightarrow> chan_frame s s'"
proof (induction infos arbitrary: s)
  case (Cons info infos)
  obtain e1 created e2 imported where c: "platCreateJetty plat d tv info = (e1, created)" "platImportJetty plat d tv info = (e2, imported)"
    by (metis surj_pair)
  let ?s1 = "s\<lparr>createdOutParamMap := (createdOutParamMap s)(d := createdOutParamMap s d @ [created])\<rparr>"
  let ?s2 = "?s1\<lparr>importedOutParamMap := (importedOutParamMap ?s1)(d := importedOutParamMap ?s1 d @ [imported])\<rparr>"
  have "s' = s \<or> s' = ?s1 \<or> CreateAndImportLoopJettys_loop plat d tv infos ?s2 = (ret, s')"
    using Cons.prems c by (auto simp: Let_def split: if_splits)
  then show ?case
    using Cons.IH [of ?s2] by (auto simp: chan_frame_def)
qed simp

lemma CreateAndImport_frame: "CreateAndImportLoopJettys plat d addr infos s = (ret, s') \<Longrightarrow> chan_frame s s'"
  by (auto simp: CreateAndImportLoopJettys_def split: if_splits option.splits dest: CreateAndImport_loop_frame)

text \<open>A loop channel that was created is allocated; the other die is not touched.\<close>

lemma CreateLoopChannel_ok:
  assumes "CreateLoopChannel chan plat d s = (HCCL_SUCCESS, i, s')" and "mgrs_ok s" and "d < 2" and "loopFeCommAddrMap s d \<noteq> None"
  shows "mgrs_ok s' \<and> compDieFlags s' = compDieFlags s \<and> loopFeCommAddrMap s' = loopFeCommAddrMap s \<and> loopChannelIds s' = loopChannelIds s
    \<and> (\<forall>e. e \<noteq> d \<longrightarrow> die_channels e s' = die_channels e s)
    \<and> (compDieFlags s ! d \<longrightarrow> CheckIfChannelAllocated i (die_channels d s'))"
proof (cases "compDieFlags s ! d")
  case False
  then show ?thesis
    using assms by (simp add: CreateLoopChannel_def)
next
  case True
  obtain fe addr where fe: "loopFeCommAddrMap s d = Some (fe, addr)"
    using assms(4) by auto
  obtain m where m: "channelCtxMgrs s ! d = Some m" "mgr_inv m"
    using assms(2,3) True by (auto simp: mgrs_ok_def)
  define para where "para = \<lparr>paraFeId = fe, paraJettyNum = LOOP_CHANNEL_USE_JETTY,
    paraSqSize = (if compVersion s = CCU_V1 then LOOP_CHANNEL_USE_SQSIZE_V1 else LOOP_CHANNEL_USE_SQSIZE_V2)\<rparr>"
  obtain e1 out m1 where 1: "CcuChannelCtxMgr_Alloc para m = (e1, out, m1)"
    using prod_cases3 by blast
  let ?s1 = "set_channel_mgr d m1 s"
  obtain e2 s2 where 2: "CreateAndImportLoopJettys plat d addr (jettyInfos (the out ! 0)) ?s1 = (e2, s2)"
    by fastforce
  obtain e3 s3 where 3: "ConfigLoopChannel chan plat d addr (the out ! 0) m1 s2 = (e3, s3)"
    by fastforce
  have ok: "e1 = HCCL_SUCCESS" "e2 = HCCL_SUCCESS" "e3 = HCCL_SUCCESS" "s' = s3" "i = chId (the out ! 0)"
    using assms(1) True fe m(1) 1 2 3 unfolding para_def by (auto simp: CreateLoopChannel_def Let_def split: if_splits)
  obtain infos where infos: "out = Some infos" "infos \<noteq> []" "mgr_inv m1"
    "\<forall>info\<in>set infos. CheckIfChannelAllocated (chId info) (mgr_channels m1)"
    using cm.alloc_grants [OF m(2) 1 [unfolded ok(1)]] by blast
  have s1: "mgrs_ok ?s1" "\<And>e. die_channels e ?s1 = (if e = d then mgr_channels m1 else die_channels e s)"
    by (rule set_mgr_ok [OF assms(2,3) infos(3)])+
  have f2: "chan_frame ?s1 s2"
    by (rule CreateAndImport_frame [OF 2])
  then have s2: "mgrs_ok s2" "\<And>e. die_channels e s2 = die_channels e ?s1"
    using s1 chan_frame_ok [OF f2] by auto
  obtain cfg e4 m4 log where 4: "CcuChannelCtxMgr_Config chan cfg m1 (drvLog s2) = (e4, m4, log)" "s3 = (set_channel_mgr d m4 s2)\<lparr>drvLog := log\<rparr>"
    using 3 ok(3) by (auto simp: ConfigLoopChannel_def Let_def split: if_splits option.splits prod.splits)
  have m4: "mgr_inv m4" "mgr_channels m4 = mgr_channels m1"
    using cm.config_keeps [OF infos(3) 4(1)] by simp_all
  have "mgrs_ok s3" "\<And>e. die_channels e s3 = (if e = d then mgr_channels m1 else die_channels e s)"
    using set_mgr_ok [OF s2(1) assms(3) m4(1)] s2(2) s1(2) m4(2) by (simp_all add: 4(2))
  moreover have "CheckIfChannelAllocated i (mgr_channels m1)"
    using infos ok(5) by simp
  ultimately show ?thesis
    using f2 by (simp add: ok(4) 4(2) chan_frame_def set_channel_mgr_def)
qed

lemma CreateLoopChannels_ok:
  assumes "CreateLoopChannels_loop chan plat [0, 1] s = (HCCL_SUCCESS, s')" and "mgrs_ok s"
    and "\<forall>d<2. compDieFlags s ! d \<longrightarrow> loopFeCommAddrMap s d \<noteq> None"
  shows "mgrs_ok s' \<and> loops_ok s' {0, 1} \<and> compDieFlags s' = compDieFlags s"
proof -
  have one: "mgrs_ok (t\<lparr>loopChannelIds := (loopChannelIds t)[d := i]\<rparr>) \<and> compDieFlags t = compDieFlags u
      \<and> loopFeCommAddrMap t = loopFeCommAddrMap u \<and> loopChannelIds t = loopChannelIds u \<and> (\<forall>e. e \<noteq> d \<longrightarrow> die_channels e t = die_channels e u)
      \<and> (compDieFlags u ! d \<longrightarrow> CheckIfChannelAllocated i (die_channels d t))"
    if "CreateLoopChannel chan plat d u = (HCCL_SUCCESS, i, t)" "mgrs_ok u" "d < 2" "compDieFlags u ! d \<longrightarrow> loopFeCommAddrMap u d \<noteq> None"
    for d u t i
  proof (cases "compDieFlags u ! d")
    case True
    then show ?thesis
      using CreateLoopChannel_ok [OF that(1-3)] that(4) by (auto simp: mgrs_ok_def)
  next
    case False
    then show ?thesis
      using that by (simp add: CreateLoopChannel_def mgrs_ok_def)
  qed
  obtain e0 i0 t0 where t0: "CreateLoopChannel chan plat 0 s = (e0, i0, t0)"
    using prod_cases3 by blast
  let ?s0 = "t0\<lparr>loopChannelIds := (loopChannelIds t0)[0 := i0]\<rparr>"
  obtain e1 i1 t1 where t1: "CreateLoopChannel chan plat 1 ?s0 = (e1, i1, t1)"
    using prod_cases3 by blast
  let ?s1 = "t1\<lparr>loopChannelIds := (loopChannelIds t1)[1 := i1]\<rparr>"
  have ok: "e0 = HCCL_SUCCESS" "e1 = HCCL_SUCCESS" "s' = ?s1"
    using assms(1) t0 t1 by (auto simp: Let_def split: if_splits)
  have 0: "mgrs_ok ?s0" "compDieFlags t0 = compDieFlags s" "loopFeCommAddrMap t0 = loopFeCommAddrMap s" "loopChannelIds t0 = loopChannelIds s"
    "compDieFlags s ! 0 \<longrightarrow> CheckIfChannelAllocated i0 (die_channels 0 t0)"
    using one [OF t0 [unfolded ok(1)] assms(2)] assms(3) by auto
  have 1: "mgrs_ok ?s1" "compDieFlags t1 = compDieFlags s" "loopChannelIds t1 = (loopChannelIds s)[0 := i0]"
    "die_channels 0 t1 = die_channels 0 t0" "compDieFlags s ! 1 \<longrightarrow> CheckIfChannelAllocated i1 (die_channels 1 t1)"
    using one [OF t1 [unfolded ok(2)] 0(1)] assms(3) 0 by (auto simp: die_channels_def)
  have "length (loopChannelIds s) = 2"
    using assms(2) by (simp add: mgrs_ok_def)
  then show ?thesis
    using 0 1 by (simp add: ok(3) loops_ok_def die_channels_def)
qed

text \<open>What the proofs of the managers need of the specifications of a die.\<close>

definition channel_specs :: "CcuResSpecifications \<Rightarrow> nat \<Rightarrow> bool" where
  "channel_specs specs d \<longleftrightarrow> CCU_PER_DIE_JETTY_RESERVED_NUM \<le> unat (snd (GetJettyNum specs d 0))
    \<and> snd (GetChannelJettyMap specs d DEFAULT_CHANNEL_JETTY_MAP) = DEFAULT_CHANNEL_JETTY_MAP"

lemma mgr_created:
  assumes "CreateChannelCtxMgr_Init chan specs g v d log = (HCCL_SUCCESS, m, log')" and "cfgs_ok g" and "channel_specs specs d"
  shows "\<exists>n. m = Some n \<and> mgr_inv n"
proof (cases v)
  case CCU_V1
  then obtain n where "CcuChannelCtxMgrV1_Init chan specs g d log = (HCCL_SUCCESS, n, log')" "m = Some (MgrV1 n)"
    using assms(1) by (auto simp: CreateChannelCtxMgr_Init_def split: prod.splits)
  then show ?thesis
    using C1_Init_inv assms(2,3) unfolding channel_specs_def by fastforce
next
  case CCU_V2
  then obtain n where "CcuChannelCtxMgrV2_Init chan specs g d log = (HCCL_SUCCESS, n, log')" "m = Some (MgrV2 n)"
    using assms(1) by (auto simp: CreateChannelCtxMgr_Init_def split: prod.splits)
  then show ?thesis
    using C2_Init_inv assms(2,3) unfolding channel_specs_def by fastforce
qed (use assms(1) in \<open>simp_all add: CreateChannelCtxMgr_Init_def\<close>)

lemma CreateResourceManagers_ok:
  assumes "CreateResourceManagers_loop chan g specs dies s = (HCCL_SUCCESS, s')" and "cfgs_ok g"
    and "\<forall>d<2. compDieFlags s ! d \<longrightarrow> channel_specs specs d" and "set dies \<subseteq> {0, 1}" and "length (channelCtxMgrs s) = 2"
    and "\<forall>d<2. d \<notin> set dies \<longrightarrow> compDieFlags s ! d \<longrightarrow> (\<exists>m. channelCtxMgrs s ! d = Some m \<and> mgr_inv m)"
  shows "length (channelCtxMgrs s') = 2 \<and> compDieFlags s' = compDieFlags s \<and> loopFeCommAddrMap s' = loopFeCommAddrMap s
    \<and> loopChannelIds s' = loopChannelIds s \<and> (\<forall>d<2. compDieFlags s ! d \<longrightarrow> (\<exists>m. channelCtxMgrs s' ! d = Some m \<and> mgr_inv m))"
  using assms
proof (induction dies arbitrary: s)
  case (Cons d dies)
  have d: "d < 2"
    using Cons.prems(4) by auto
  show ?case
  proof (cases "compDieFlags s ! d")
    case False
    then have "\<forall>k<2. k \<notin> set dies \<longrightarrow> compDieFlags s ! k \<longrightarrow> (\<exists>m. channelCtxMgrs s ! k = Some m \<and> mgr_inv m)"
      using Cons.prems(6) by auto
    then show ?thesis
      using Cons.IH [of s] Cons.prems False by auto
  next
    case True
    obtain e m log where 1: "CreateChannelCtxMgr_Init chan specs g (compVersion s) d (drvLog s) = (e, m, log)"
      using prod_cases3 by blast
    obtain e2 a where 2: "CcuResAllocator_Init specs (CcuResAllocator_new d) = (e2, a)"
      by fastforce
    let ?s = "set_die d a (s\<lparr>drvLog := log, channelCtxMgrs := (channelCtxMgrs s)[d := m]\<rparr>)"
    have ok: "e = HCCL_SUCCESS" "CreateResourceManagers_loop chan g specs dies ?s = (HCCL_SUCCESS, s')"
      using Cons.prems(1) True 1 2 by (auto simp: Let_def split: if_splits)
    obtain n where n: "m = Some n" "mgr_inv n"
      using mgr_created [OF 1 [unfolded ok(1)] assms(2)] Cons.prems(3) True d by blast
    have sel: "channelCtxMgrs ?s = (channelCtxMgrs s)[d := m]" "compDieFlags ?s = compDieFlags s"
      "loopFeCommAddrMap ?s = loopFeCommAddrMap s" "loopChannelIds ?s = loopChannelIds s"
      by (simp_all add: set_die_def)
    have "\<forall>k<2. k \<notin> set dies \<longrightarrow> compDieFlags ?s ! k \<longrightarrow> (\<exists>m. channelCtxMgrs ?s ! k = Some m \<and> mgr_inv m)"
      using Cons.prems(5,6) d n unfolding sel by (auto simp: nth_list_update)
    then show ?thesis
      using Cons.IH [OF ok(2) assms(2)] Cons.prems(3-5) unfolding sel by auto
  qed
qed simp

lemma CreateResourceManagers_flags:
  "CreateResourceManagers_loop chan g specs dies s = (ret, s') \<Longrightarrow> compDieFlags s' = compDieFlags s"
proof (induction dies arbitrary: s)
  case (Cons d dies)
  then show ?case
    by (fastforce simp: Let_def set_die_def split: if_splits prod.splits)
qed simp

lemma ConfigLoopChannel_flags: "ConfigLoopChannel chan plat d addr info m s = (ret, s') \<Longrightarrow> compDieFlags s' = compDieFlags s"
  by (auto simp: ConfigLoopChannel_def set_channel_mgr_def Let_def split: if_splits option.splits prod.splits)

lemma CreateLoopChannel_flags: "CreateLoopChannel chan plat d s = (ret, i, s') \<Longrightarrow> compDieFlags s' = compDieFlags s"
  by (auto simp: CreateLoopChannel_def set_channel_mgr_def chan_frame_def Let_def split: if_splits option.splits prod.splits
      dest!: CreateAndImport_frame ConfigLoopChannel_flags)

lemma CreateLoopChannels_flags: "CreateLoopChannels_loop chan plat dies s = (ret, s') \<Longrightarrow> compDieFlags s' = compDieFlags s"
proof (induction dies arbitrary: s)
  case (Cons d dies)
  then show ?case
    by (fastforce simp: Let_def split: if_splits prod.splits dest: CreateLoopChannel_flags)
qed simp

lemma CheckDiesEnable_loops:
  assumes "CheckDiesEnable plat specs s = (ret, s')" and "length (compDieFlags s) = 2"
  shows "length (compDieFlags s') = 2 \<and> channelCtxMgrs s' = channelCtxMgrs s \<and> loopChannelIds s' = loopChannelIds s
    \<and> (\<forall>d<2. compDieFlags s' ! d \<longrightarrow> loopFeCommAddrMap s' d \<noteq> None)"
  using assms
  by (auto simp: CheckDiesEnable_def ChooseLoopEids_def ChooseLoopEid_step_def CCU_MAX_IODIE_NUM_def upt_rec Let_def less_2_cases_iff
      split: if_splits prod.splits)

lemma Init_loops:
  assumes "CcuComponent_Init chan plat g phyRet specs CcuComponent_new = (HCCL_SUCCESS, c)" and "cfgs_ok g"
    and "\<forall>d<2. compDieFlags c ! d \<longrightarrow> channel_specs specs d"
  shows "mgrs_ok c \<and> loops_ok c {0, 1}"
proof -
  let ?s0 = "CcuComponent_new\<lparr>usedTotalCntXnFlags := no_total_flags\<rparr>"
  have two: "[0..<CCU_MAX_IODIE_NUM] = [0, 1]"
    by (simp add: CCU_MAX_IODIE_NUM_def upt_rec)
  have new: "length (compDieFlags ?s0) = 2" "length (channelCtxMgrs ?s0) = 2" "length (loopChannelIds ?s0) = 2"
    by (simp_all add: CcuComponent_new_def CCU_MAX_IODIE_NUM_def)
  obtain e1 s1 where a1: "CheckDiesEnable plat specs ?s0 = (e1, s1)"
    by fastforce
  let ?s2 = "fold (\<lambda>d s. snd (CleanDieCkes chan specs d s)) [0, 1] s1"
  obtain e3 s3 where a3: "CreateCcuRmaBuffer_loop plat specs [0, 1] ?s2 = (e3, s3)"
    by fastforce
  obtain e4 s4 where a4: "CreateResourceManagers_loop chan g specs [0, 1] s3 = (e4, s4)"
    by fastforce
  obtain e5 s5 where a5: "CreateLoopChannels_loop chan plat [0, 1] s4 = (e5, s5)"
    by fastforce
  obtain e6 s6 where a6: "ConfigMsIdToken_loop chan specs [0, 1] s5 = (e6, s6)"
    by fastforce
  have ok: "e4 = HCCL_SUCCESS" "e5 = HCCL_SUCCESS" "c = s6\<lparr>compInitFlag := True\<rparr>"
    using assms(1) a1 a3 a4 a5 a6 unfolding CcuComponent_Init_def two
    by (auto simp: Let_def CcuComponent_new_def simp del: CreateResourceManagers_loop.simps CreateLoopChannels_loop.simps
        ConfigMsIdToken_loop.simps CreateCcuRmaBuffer_loop.simps split: if_splits)
  note s1 = CheckDiesEnable_loops [OF a1 new(1)]
  have "chan_frame s1 s3"
    using chan_frame_trans [OF CleanDieCkes_frame CleanDieCkes_frame] CreateCcuRmaBuffer_frame [OF a3] chan_frame_trans by fastforce
  then have s3: "length (compDieFlags s3) = 2" "length (channelCtxMgrs s3) = 2" "length (loopChannelIds s3) = 2"
    "\<forall>d<2. compDieFlags s3 ! d \<longrightarrow> loopFeCommAddrMap s3 d \<noteq> None"
    using s1 new by (simp_all add: chan_frame_def)
  have f6: "chan_frame s5 s6"
    by (rule ConfigMsIdToken_frame [OF a6])
  have fl: "compDieFlags s4 = compDieFlags s3" "compDieFlags c = compDieFlags s5"
    using CreateResourceManagers_flags [OF a4] f6 by (simp_all add: ok(3) chan_frame_def)
  have s5f: "compDieFlags s5 = compDieFlags s4"
    using CreateLoopChannels_flags [OF a5] .
  have s4: "length (channelCtxMgrs s4) = 2 \<and> compDieFlags s4 = compDieFlags s3 \<and> loopFeCommAddrMap s4 = loopFeCommAddrMap s3
    \<and> loopChannelIds s4 = loopChannelIds s3 \<and> (\<forall>d<2. compDieFlags s3 ! d \<longrightarrow> (\<exists>m. channelCtxMgrs s4 ! d = Some m \<and> mgr_inv m))"
    by (rule CreateResourceManagers_ok [OF a4 [unfolded ok(1)] assms(2)]) (use assms(3) fl s5f s3(2) in \<open>auto simp: less_2_cases_iff\<close>)
  then have "mgrs_ok s4"
    using s3 by (simp add: mgrs_ok_def)
  then have "mgrs_ok s5 \<and> loops_ok s5 {0, 1}"
    using CreateLoopChannels_ok [OF a5 [unfolded ok(2)]] s3(4) s4 by simp
  then show ?thesis
    using f6 by (simp add: ok(3) mgrs_ok_def loops_ok_def die_channels_def chan_frame_def)
qed

end
