(* ===== verification/Channel_Properties.thy ===== *)
theory Channel_Properties
  imports Channel_Contract Batch_Properties
begin

text \<open>
  What the channel managers guarantee, over every state that their calls can reach from \<^verbatim>\<open>Init\<close> and with any
  answers of the driver: channels share no jetty context and no basic block (version 1) or exactly those of their
  group (version 2), a request succeeds or changes nothing, and a release frees what the channel holds. The entries
  written into the tables of the device can be read back.
\<close>

subsection \<open>Version 1\<close>

lemma live_jettys_take:
  assumes "i < k" and "i < length cs" and "chAllocated (cs ! i)"
  shows "set (jettyInfos (chInfo (cs ! i))) \<subseteq> set (live_jettys (take k cs))"
proof -
  have "cs ! i \<in> set (take k cs)"
    using assms(1,2) by (auto simp: in_set_conv_nth)
  then show ?thesis
    using assms(3) unfolding live_jettys_def by fastforce
qed

lemma ids_mono: "set xs \<subseteq> set ys \<Longrightarrow> ids (wqe_runs xs) \<subseteq> ids (wqe_runs ys)"
  by (fastforce simp: wqe_runs_def ids_def)

lemma chan1_apart:
  assumes "chan1_inv m" and "i < k" and "k < length (c1Channels m)" and "chAllocated (c1Channels m ! i)" and "chAllocated (c1Channels m ! k)"
  defines "infos x \<equiv> jettyInfos (chInfo (c1Channels m ! x))"
  shows "set (ctx_ids (infos i)) \<inter> set (ctx_ids (infos k)) = {}" and "ids (wqe_runs (infos i)) \<inter> ids (wqe_runs (infos k)) = {}"
proof -
  let ?A = "live_jettys (take k (c1Channels m))" and ?B = "live_jettys (drop (Suc k) (c1Channels m))"
  have live: "live_jettys (c1Channels m) = ?A @ infos k @ ?B"
    using live_jettys_at [OF assms(3)] assms(5) by (simp add: infos_def)
  have sub: "set (infos i) \<subseteq> set ?A"
    using live_jettys_take [OF assms(2) _ assms(4)] assms(2,3) by (simp add: infos_def)
  have "set (ctx_ids ?A) \<inter> set (ctx_ids (infos k)) = {}" "w1.owns {} (?A @ infos k @ ?B) (j1Wqe (c1Jetty m))"
    using assms(1) by (auto simp: chan1_inv_def live)
  then show "set (ctx_ids (infos i)) \<inter> set (ctx_ids (infos k)) = {}" "ids (wqe_runs (infos i)) \<inter> ids (wqe_runs (infos k)) = {}"
    using sub ids_mono [OF sub] by (auto simp: w1.owns_def ledger_ok_append)
qed

text \<open>C10. In every state of the version 1 channel manager of a die with at least the 128 reserved
  jetty contexts that its calls can reach, whatever the driver answers, two allocated channels share no jetty context and no work queue basic block; a channel knows its
  own id, and each of its contexts lies in the range reserved for the CCU and owns at least one basic block.\<close>

theorem v1_channels_disjoint:
  assumes "chan1_reach chan specs eids dieId (m, log)"
    and "CCU_PER_DIE_JETTY_RESERVED_NUM \<le> unat (snd (GetJettyNum specs dieId 0))"
    and "CheckIfChannelAllocated i (c1Channels m)" and "CheckIfChannelAllocated k (c1Channels m)" and "i \<noteq> k"
  shows "let infos = (\<lambda>x. jettyInfos (chInfo (c1Channels m ! x)))
    in set (map jettyCtxId (infos i)) \<inter> set (map jettyCtxId (infos k)) = {} \<and> ids (wqe_runs (infos i)) \<inter> ids (wqe_runs (infos k)) = {}
      \<and> chId (chInfo (c1Channels m ! i)) = i \<and> infos i \<noteq> []
      \<and> (\<forall>info\<in>set (infos i). jettyCtxId info < CCU_PER_DIE_JETTY_RESERVED_NUM \<and> 0 < sqDepth info)"
proof -
  have inv: "chan1_inv m"
    by (rule chan1_reach_inv [OF assms(1,2)])
  have al: "i < length (c1Channels m)" "k < length (c1Channels m)" "chAllocated (c1Channels m ! i)" "chAllocated (c1Channels m ! k)"
    using assms(3,4) by (auto simp: CheckIfChannelAllocated_def)
  then have slot: "slot1_ok (c1DieId m) (j1BaseVa (c1Jetty m)) i (c1Channels m ! i)"
    using inv by (simp add: chan1_inv_def)
  then obtain n s where g: "granted (j1BaseVa (c1Jetty m)) n s (jettyInfos (chInfo (c1Channels m ! i)))"
    using al by (auto simp: slot1_ok_def)
  have "jettyCtxId info < CCU_PER_DIE_JETTY_RESERVED_NUM \<and> 0 < sqDepth info" if "info \<in> set (jettyInfos (chInfo (c1Channels m ! i)))" for info
    using that g granted_ctx(1,3) [OF g] by (auto simp: in_set_conv_nth granted_def)
  moreover have "jettyInfos (chInfo (c1Channels m ! i)) \<noteq> []" "chId (chInfo (c1Channels m ! i)) = i"
    using g slot al by (auto simp: granted_def slot1_ok_def)
  ultimately show ?thesis
    using chan1_apart [OF inv, of i k] chan1_apart [OF inv, of k i] al assms(5) by (cases "i < k") (auto simp: Let_def)
qed

text \<open>C29. On a die with at least the 128 jetty contexts that are reserved for the CCU
  (\<^verbatim>\<open>CCU_PER_DIE_JETTY_RESERVED_NUM\<close>), a request to the version 1 channel manager either succeeds or leaves every channel, context
  and basic block as it was. When every channel is taken it is refused as unavailable. When it succeeds the caller
  gets the free channel with the smallest id, with as many jettys as it asked for (one when it asked for none), on
  consecutive contexts that were not in use, each with a send queue of the requested size rounded up.\<close>

theorem v1_alloc_outcome:
  assumes "chan1_reach chan specs eids dieId (m, log)"
    and "CCU_PER_DIE_JETTY_RESERVED_NUM \<le> unat (snd (GetJettyNum specs dieId 0))"
    and "CcuChannelCtxMgrV1_Alloc para m = (ret, out, m')"
  shows "((\<forall>c\<in>set (c1Channels m). chAllocated c) \<longrightarrow> ret = HCCL_E_UNAVAIL) \<and>
    (if ret = HCCL_SUCCESS
     then \<exists>i info s. FindFreeChannelId (c1Channels m) 0 = Some i \<and> out = Some [info] \<and> chId info = i
        \<and> map jettyCtxId (jettyInfos info) = [s ..< s + (if paraJettyNum para = 0 then 1 else paraJettyNum para)]
        \<and> set (map jettyCtxId (jettyInfos info)) \<inter> jettys_used (c1Jetty m) = {}
        \<and> (\<forall>j\<in>set (jettyInfos info). sqDepth j * CCU_WQE_NUM_PER_SQE = unat (GetWqeBBReqSizeBySqSize (of_nat (paraSqSize para))))
        \<and> c1Channels m' = (c1Channels m)[i := \<lparr>chAllocated = True, chFeId = paraFeId para, chInfo = info\<rparr>]
     else out = None \<and> c1Channels m' = c1Channels m \<and> jettys_used (c1Jetty m') = jettys_used (c1Jetty m)
        \<and> j1Wqe (c1Jetty m') = j1Wqe (c1Jetty m))"
proof -
  have inv: "chan1_inv m"
    by (rule chan1_reach_inv [OF assms(1,2)])
  note res = C1_Alloc_outcome [OF inv assms(3)]
  have full: "(\<forall>c\<in>set (c1Channels m). chAllocated c) \<longrightarrow> ret = HCCL_E_UNAVAIL"
    using assms(3) FindFree_none [of "c1Channels m" 0] by (auto simp: CcuChannelCtxMgrV1_Alloc_def)
  show ?thesis
  proof (cases "ret = HCCL_SUCCESS")
    case False
    then show ?thesis
      using res full by simp
  next
    case True
    then obtain i info s where i: "i < length (c1Channels m)" "\<not> chAllocated (c1Channels m ! i)" "\<forall>k<i. chAllocated (c1Channels m ! k)"
      "out = Some [info]" "chId info = i" "length (jettyInfos info) = (if paraJettyNum para = 0 then 1 else paraJettyNum para)"
      "granted (j1BaseVa (c1Jetty m)) (unat (GetWqeBBReqSizeBySqSize (of_nat (paraSqSize para)))) s (jettyInfos info)"
      "set (ctx_ids (jettyInfos info)) \<inter> jettys_used (c1Jetty m) = {}"
      "c1Channels m' = (c1Channels m)[i := \<lparr>chAllocated = True, chFeId = paraFeId para, chInfo = info\<rparr>]"
      using res by auto
    have "FindFreeChannelId (c1Channels m) 0 = Some i"
    proof (cases "FindFreeChannelId (c1Channels m) 0")
      case None
      then show ?thesis
        using i(1,2) FindFree_none [of "c1Channels m" 0] by auto
    next
      case (Some x)
      then show ?thesis
        using FindFree_some [OF Some] i(2,3) by (metis add_0 linorder_neqE_nat)
    qed
    moreover have "\<forall>j\<in>set (jettyInfos info). sqDepth j * CCU_WQE_NUM_PER_SQE = unat (GetWqeBBReqSizeBySqSize (of_nat (paraSqSize para)))"
      using i(7) by (auto simp: granted_def equipped_def in_set_conv_nth)
    moreover have "map jettyCtxId (jettyInfos info) = [s ..< s + (if paraJettyNum para = 0 then 1 else paraJettyNum para)]"
      using granted_ids [OF i(7)] unfolding i(6) .
    ultimately show ?thesis
      unfolding if_P [OF True] using full i(4,5,8,9) by blast
  qed
qed

text \<open>Releasing an allocated channel of the version 1 manager frees the channel and its jetty
  contexts in the manager and sends one command that clears the channel, whatever the driver answers; the
  answer is what the caller gets. Releasing a channel that is not allocated is refused as a parameter error, changes
  nothing and sends nothing.\<close>

theorem v1_release_frees:
  assumes "chan1_reach chan specs eids dieId (m, log)"
    and "CCU_PER_DIE_JETTY_RESERVED_NUM \<le> unat (snd (GetJettyNum specs dieId 0))"
    and "CcuChannelCtxMgrV1_Release chan i m log = (ret, m', log')"
  shows "if CheckIfChannelAllocated i (c1Channels m)
    then c1Channels m' = (c1Channels m)[i := ChannelResInfo_new]
      \<and> jettys_used (c1Jetty m') = jettys_used (c1Jetty m) - set (map jettyCtxId (jettyInfos (chInfo (c1Channels m ! i))))
      \<and> log' = log @ [CCU_U_OP_SET_CHANNEL (c1DieId m) i (DataV1 ChannelCtxDataV1_zero)] \<and> ret = chan log (last log')
    else ret = HCCL_E_PARA \<and> m' = m \<and> log' = log"
proof (cases "CheckIfChannelAllocated i (c1Channels m)")
  case True
  then have al: "i < length (c1Channels m)" "chAllocated (c1Channels m ! i)"
    by (auto simp: CheckIfChannelAllocated_def)
  obtain n where n: "CcuChannelCtxMgrV1_Release chan i m log =
      (let cmd = CCU_U_OP_SET_CHANNEL (c1DieId m) i (DataV1 ChannelCtxDataV1_zero) in (chan log cmd, n, log @ [cmd]))"
    "c1Channels n = (c1Channels m)[i := ChannelResInfo_new]"
    "jettys_used (c1Jetty n) = jettys_used (c1Jetty m) - set (ctx_ids (jettyInfos (chInfo (c1Channels m ! i))))"
    by (rule C1_Release_outcome [OF chan1_reach_inv [OF assms(1,2)] al, of chan log]) blast
  have "m' = n" "log' = log @ [CCU_U_OP_SET_CHANNEL (c1DieId m) i (DataV1 ChannelCtxDataV1_zero)]" "ret = chan log (last log')"
    using assms(3) unfolding n(1) Let_def by auto
  then show ?thesis
    using True n(2,3) by simp
qed (use assms(3) in \<open>simp add: CcuChannelCtxMgrV1_Release_def\<close>)

subsection \<open>Version 2\<close>

text \<open>C12. In every reachable state of the version 2 channel manager the use count of a jetty context is the
  number of allocated channels of its group of eight, its basic blocks are taken exactly while that number is not
  0, and all channels of the group hold the same context.\<close>

theorem v2_use_counts:
  assumes "chan2_reach chan specs eids dieId (m, log)"
    and "snd (GetChannelJettyMap specs dieId DEFAULT_CHANNEL_JETTY_MAP) = DEFAULT_CHANNEL_JETTY_MAP"
    and "k < length (j2Groups (c2Jetty m))" and "k < length (j2Wqe (c2Jetty m))"
  shows "let live = {i. i div 8 = k \<and> CheckIfChannelAllocated i (c2Channels m)}
    in useCnt (j2Groups (c2Jetty m) ! k) = card live \<and> (j2Wqe (c2Jetty m) ! k \<longleftrightarrow> live \<noteq> {})
      \<and> (\<forall>i\<in>live. chId (chInfo (c2Channels m ! i)) = i
          \<and> map (\<lambda>j. (jettyCtxId j, wqeBBStartId j)) (jettyInfos (chInfo (c2Channels m ! i))) = [(k, k * CCU_V2_FIXED_SQ_SIZE)])"
proof -
  obtain counts where "chan2_counts m counts"
    using chan2_reach_inv [OF assms(1,2)] by (auto simp: chan2_inv_def)
  then have j: "j2_ok (c2Jetty m) counts"
    and card: "\<And>k. card (live_in (c2Channels m) k) = (if k < length counts then counts ! k else 0)"
    and slots: "\<forall>i<length (c2Channels m). slot2_ok (c2DieId m) i (c2Channels m ! i)"
    by (simp_all add: chan2_counts_def)
  have live: "{i. i div 8 = k \<and> CheckIfChannelAllocated i (c2Channels m)} = live_in (c2Channels m) k"
    by (auto simp: live_in_def CheckIfChannelAllocated_def)
  have k: "k < length counts"
    using assms(3) j by simp
  have "j2Wqe (c2Jetty m) ! k \<longleftrightarrow> live_in (c2Channels m) k \<noteq> {}"
    using j k assms(4) card [of k] by (simp add: j2_ok_def) (metis card_gt_0_iff live_in_finite)
  moreover have "chId (chInfo (c2Channels m ! i)) = i
      \<and> map (\<lambda>j. (jettyCtxId j, wqeBBStartId j)) (jettyInfos (chInfo (c2Channels m ! i))) = [(k, k * CCU_V2_FIXED_SQ_SIZE)]"
    if "i \<in> live_in (c2Channels m) k" for i
    using that slots by (auto simp: live_in_def slot2_ok_def v2_jetty_def)
  ultimately show ?thesis
    using j2_group [OF j k] card [of k] k by (simp add: live)
qed

text \<open>C30. A request to the version 2 channel manager either succeeds or leaves every channel and every
  basic block as it was. When it succeeds the caller gets the eight channels of one group, none of which was
  allocated, all with the one context of the group.\<close>

theorem v2_alloc_outcome:
  assumes "chan2_reach chan specs eids dieId (m, log)"
    and "snd (GetChannelJettyMap specs dieId DEFAULT_CHANNEL_JETTY_MAP) = DEFAULT_CHANNEL_JETTY_MAP"
    and "CcuChannelCtxMgrV2_Alloc para m = (ret, out, m')"
  shows "if ret = HCCL_SUCCESS
    then \<exists>k infos. out = Some infos \<and> map chId infos = [8 * k ..< 8 * k + 8] \<and> 8 * k + 8 \<le> length (c2Channels m)
      \<and> (\<forall>i\<in>{8 * k ..< 8 * k + 8}. \<not> CheckIfChannelAllocated i (c2Channels m) \<and> CheckIfChannelAllocated i (c2Channels m'))
      \<and> (\<forall>i. i div 8 \<noteq> k \<longrightarrow> c2Channels m' ! i = c2Channels m ! i)
      \<and> (\<forall>info\<in>set infos. map jettyCtxId (jettyInfos info) = [k])
    else out = None \<and> c2Channels m' = c2Channels m \<and> j2Wqe (c2Jetty m') = j2Wqe (c2Jetty m)"
proof (cases "ret = HCCL_SUCCESS")
  case False
  then show ?thesis
    using C2_Alloc_outcome [OF chan2_reach_inv [OF assms(1,2)] assms(3)] by simp
next
  case True
  then obtain k info where k: "8 * k + 8 \<le> length (c2Channels m)" "\<forall>i<8. \<not> chAllocated (c2Channels m ! (8 * k + i))" "v2_jetty k info"
    "out = Some (map (group_info (c2DieId m) (8 * k) [info]) [0..<8])"
    "c2Channels m' = group_slots (c2DieId m) (paraFeId para) (8 * k) [info] 8 (c2Channels m)"
    using C2_Alloc_outcome [OF chan2_reach_inv [OF assms(1,2)] assms(3)] by auto
  have "map chId (map (group_info (c2DieId m) (8 * k) [info]) [0..<8]) = [8 * k ..< 8 * k + 8]"
    by (intro nth_equalityI) (simp_all add: group_info_def)
  moreover have "\<not> CheckIfChannelAllocated i (c2Channels m) \<and> CheckIfChannelAllocated i (c2Channels m')"
    if "8 * k \<le> i" "i < 8 * k + 8" for i
    using k(2) [rule_format, of "i - 8 * k"] k(1) that by (simp add: CheckIfChannelAllocated_def k(5) group_slots_nth [OF k(1)])
  moreover have "c2Channels m' ! i = c2Channels m ! i" if "i div 8 \<noteq> k" for i
  proof -
    have "\<not> (8 * k \<le> i \<and> i < 8 * k + 8)"
      using that by auto
    then show ?thesis
      by (auto simp: k(5) group_slots_nth [OF k(1)])
  qed
  moreover have "\<forall>i\<in>set (map (group_info (c2DieId m) (8 * k) [info]) [0..<8]). map jettyCtxId (jettyInfos i) = [k]"
    using k(3) by (auto simp: group_info_def v2_jetty_def)
  ultimately show ?thesis
    using True k(1,4) by (metis atLeastLessThan_iff)
qed

text \<open>Releasing an allocated channel of the version 2 manager frees the channel, whatever the driver
  answers, and the basic blocks of its context are given back exactly when it was the last allocated channel of
  its group.\<close>

theorem v2_last_release:
  assumes "chan2_reach chan specs eids dieId (m, log)"
    and "snd (GetChannelJettyMap specs dieId DEFAULT_CHANNEL_JETTY_MAP) = DEFAULT_CHANNEL_JETTY_MAP"
    and "CheckIfChannelAllocated i (c2Channels m)" and "CcuChannelCtxMgrV2_Release chan i m log = (ret, m', log')"
  shows "c2Channels m' = (c2Channels m)[i := ChannelResInfo_new] \<and> ret = chan log (last log')
    \<and> log' = log @ [CCU_U_OP_SET_CHANNEL (c2DieId m) i (DataV2 ChannelDataV2_zero)]
    \<and> j2Wqe (c2Jetty m') =
      (if {k. k div 8 = i div 8 \<and> CheckIfChannelAllocated k (c2Channels m)} = {i} then (j2Wqe (c2Jetty m))[i div 8 := False]
       else j2Wqe (c2Jetty m))"
proof -
  have al: "i < length (c2Channels m)" "chAllocated (c2Channels m ! i)"
    using assms(3) by (auto simp: CheckIfChannelAllocated_def)
  have live: "{k. k div 8 = i div 8 \<and> CheckIfChannelAllocated k (c2Channels m)} = live_in (c2Channels m) (i div 8)"
    by (auto simp: live_in_def CheckIfChannelAllocated_def)
  obtain n where n: "CcuChannelCtxMgrV2_Release chan i m log =
      (let cmd = CCU_U_OP_SET_CHANNEL (c2DieId m) i (DataV2 ChannelDataV2_zero) in (chan log cmd, n, log @ [cmd]))"
    "c2Channels n = (c2Channels m)[i := ChannelResInfo_new]"
    "j2Wqe (c2Jetty n) = (if live_in (c2Channels m) (i div 8) = {i} then (j2Wqe (c2Jetty m))[i div 8 := False] else j2Wqe (c2Jetty m))"
    by (rule C2_Release_outcome [OF chan2_reach_inv [OF assms(1,2)] al, of chan log]) blast
  have "m' = n" "log' = log @ [CCU_U_OP_SET_CHANNEL (c2DieId m) i (DataV2 ChannelDataV2_zero)]" "ret = chan log (last log')"
    using assms(4) unfolding n(1) Let_def by auto
  then show ?thesis
    unfolding live using n(2,3) by simp
qed

subsection \<open>Sizes and entries\<close>

text \<open>The number of basic blocks that the version 1 manager takes for a send queue is the least power
  of two that is at least the requested size, where sizes below 16 count as 16 and sizes above 256 as 256.\<close>

theorem sq_size_rounded:
  "unat (GetWqeBBReqSizeBySqSize sqSize) = 2 ^ (LEAST k. max 16 (min 256 (unat sqSize)) \<le> 2 ^ k)"
proof -
  define n where "n = max 16 (min 256 (unat sqSize))"
  obtain k where k: "unat (GetWqeBBReqSizeBySqSize sqSize) = 2 ^ k" "4 \<le> k" "k \<le> 8"
    "16 \<le> unat sqSize \<Longrightarrow> unat sqSize \<le> 256 \<Longrightarrow> unat sqSize \<le> 2 ^ k \<and> 2 ^ k < 2 * unat sqSize"
    using wqebb_size [of sqSize] by blast
  have "n \<le> 2 ^ k \<and> 2 ^ k < 2 * n"
  proof -
    consider "unat sqSize < 16" | "256 < unat sqSize" | "16 \<le> unat sqSize" "unat sqSize \<le> 256"
      by linarith
    then show ?thesis
    proof cases
      case 1
      then have "unat (GetWqeBBReqSizeBySqSize sqSize) = 16" "n = 16"
        by (simp_all add: GetWqeBBReqSizeBySqSize_def CCU_MIN_SQ_DEPTH_def word_less_nat_alt n_def)
      then show ?thesis
        using k(1) by simp
    next
      case 2
      then have "unat (GetWqeBBReqSizeBySqSize sqSize) = 256" "n = 256"
        by (simp_all add: GetWqeBBReqSizeBySqSize_def CCU_MIN_SQ_DEPTH_def CCU_MAX_SQ_DEPTH_def word_less_nat_alt n_def Let_def)
      then show ?thesis
        using k(1) by simp
    next
      case 3
      then have "n = unat sqSize"
        by (simp add: n_def)
      then show ?thesis
        using k(4) [OF 3] by simp
    qed
  qed
  then have "(LEAST k. n \<le> 2 ^ k) = k"
  proof (intro Least_equality)
    fix j
    assume "n \<le> 2 ^ k \<and> 2 ^ k < 2 * n" "n \<le> 2 ^ j"
    then have "(2 :: nat) ^ k < 2 ^ Suc j"
      by simp
    then show "k \<le> j"
      using power_less_imp_less_exp [of "2 :: nat" k "Suc j"] by simp
  qed simp
  then show ?thesis
    by (simp add: k(1) n_def)
qed

text \<open>The entries that are written into the tables of the device hold what the caller configured:
  the doorbell address and its token value, the start of the basic blocks in 12 bits, the transport path in 24 bits,
  the first jetty, the token of the remote memory and its address without the 23 low bits that the alignment fixes;
  token ids are kept in 20 bits.\<close>

theorem entries_read_back:
  "let e = BuildJettyCtxData dieId pfeId info jcfg; d = BuildChannelCtxDataV1 cfg feId dieId taId
   in entry_doorbell e = dbVa jcfg \<and> entry_token_value e = dbTokenValue jcfg \<and> entry_token_id e = take_bit 20 (dbTokenId jcfg)
     \<and> entry_wqebb e = take_bit 12 (of_nat (wqeBBStartId info))
     \<and> channel_vtp d = take_bit 24 (tpn cfg) \<and> channel_start_jetty d = taId \<and> channel_token_id d = take_bit 20 (memTokenId cfg)
     \<and> channel_token_value d = memTokenValue cfg \<and> channel_va d = push_bit 23 (drop_bit 23 (remoteCcuVa cfg))"
  by (simp add: Let_def entry_doorbell_back entry_token_back entry_wqebb_back channel_back channel_va_back)

text \<open>C31. Equipping a version 2 context group of more than one jetty never succeeds, because every
  jetty of the group asks for the basic blocks of the first context.\<close>

theorem wide_group_fails:
  assumes "2 \<le> length infos"
  shows "fst (TryAllocWqeBBResource CcuWqeBBMgrV2_Alloc baseVa sqSize ctxStart taStart TA_CACHED_JETTY infos blocks) \<noteq> HCCL_SUCCESS"
proof (cases "baseVa = 0")
  case False
  have ne: "infos \<noteq> []"
    using assms by auto
  then have "[0..<length infos] = 0 # 1 # [2..<length infos]"
    using assms upt_conv_Cons [of 0 "length infos"] upt_conv_Cons [of 1 "length infos"] by (auto simp: numeral_2_eq_2)
  then have run: "TryAllocWqeBBResource CcuWqeBBMgrV2_Alloc baseVa sqSize ctxStart taStart TA_CACHED_JETTY infos blocks =
      TryAllocWqeBB_loop CcuWqeBBMgrV2_Alloc baseVa sqSize ctxStart taStart TA_CACHED_JETTY (0 # 1 # [2..<length infos]) infos blocks"
    using False ne by (simp add: TryAllocWqeBBResource_def del: TryAllocWqeBB_loop.simps)
  show ?thesis
  proof (cases "ctxStart < length blocks \<and> \<not> blocks ! ctxStart")
    case True
    let ?r = "mk_res (u32_mul ctxStart CCU_V2_FIXED_SQ_SIZE) CCU_V2_FIXED_SQ_SIZE"
    have "CcuWqeBBMgrV2_Alloc (sqSize, ctxStart) r blocks = (HCCL_SUCCESS, ?r, blocks[ctxStart := True])"
      "CcuWqeBBMgrV2_Alloc (sqSize, ctxStart) r (blocks[ctxStart := True]) = (HCCL_E_INTERNAL, ?r, blocks[ctxStart := True])" for r
      using True by (simp_all add: CcuWqeBBMgrV2_Alloc_def Let_def)
    then show ?thesis
      by (simp add: run Let_def)
  next
    case False
    then have "fst (CcuWqeBBMgrV2_Alloc (sqSize, ctxStart) r blocks) = HCCL_E_INTERNAL" for r
      by (auto simp: CcuWqeBBMgrV2_Alloc_def Let_def)
    then show ?thesis
      by (simp add: run case_prod_beta)
  qed
qed (use assms in \<open>auto simp: TryAllocWqeBBResource_def\<close>)

theorem wide_group_fails_witness:
  "fst (TryAllocWqeBBResource CcuWqeBBMgrV2_Alloc 4096 32 0 1024 TA_CACHED_JETTY [JettyInfo_new, JettyInfo_new] [False, False])
    \<noteq> HCCL_SUCCESS"
  by (rule wide_group_fails) simp

subsection \<open>The component\<close>

text \<open>C11. After a successful initialisation of the device component of a device with
  at least 128 jetty contexts on each usable die and the default map of channels to jettys (\<open>channel_specs\<close>), through any sequence of channel
  calls of clients with any answers of the driver, the loop channel of each usable die keeps its id and stays
  allocated, and a channel that a call gives to a client was not allocated on that die before and is allocated after
  it: no channel is given to two clients, and the loop channel to none.\<close>

theorem loop_channel_kept:
  assumes "CcuComponent_Init chan plat (snd (CcuPfeCfgMgr_Init eids specs CcuPfeCfgMgr_new)) phyRet specs CcuComponent_new
      = (HCCL_SUCCESS, c0)"
    and "\<forall>d<2. compDieFlags c0 ! d \<longrightarrow> channel_specs specs d"
    and "channel_steps c0 c" and "d < 2" and "compDieFlags c0 ! d"
  shows "loopChannelIds c ! d = loopChannelIds c0 ! d \<and> CheckIfChannelAllocated (loopChannelIds c ! d) (die_channels d c)
    \<and> (\<forall>given c' info. channel_step c given c' \<longrightarrow> (d, info) \<in> set given \<longrightarrow>
        chId info \<noteq> loopChannelIds c ! d \<and> \<not> CheckIfChannelAllocated (chId info) (die_channels d c)
        \<and> CheckIfChannelAllocated (chId info) (die_channels d c'))"
proof -
  have start: "mgrs_ok c0 \<and> loops_ok c0 {0, 1}"
    by (rule Init_loops [OF assms(1) cfgs_ok_Init assms(2)])
  then have c: "mgrs_ok c" "loops_ok c {0, 1}" "compDieFlags c = compDieFlags c0" "loopChannelIds c = loopChannelIds c0"
    using steps_ok [OF assms(3)] by auto
  have "d \<in> {0, 1}"
    using assms(4) by auto
  then have loop: "CheckIfChannelAllocated (loopChannelIds c ! d) (die_channels d c)"
    using c(2,3) assms(5) by (auto simp: loops_ok_def)
  have "chId info \<noteq> loopChannelIds c ! d \<and> \<not> CheckIfChannelAllocated (chId info) (die_channels d c)
        \<and> CheckIfChannelAllocated (chId info) (die_channels d c')"
    if "channel_step c given c'" "(d, info) \<in> set given" for given c' info
    using step_ok [OF c(1,2) that(1)] that(2) loop by fastforce
  then show ?thesis
    using loop c(4) by auto
qed

subsection \<open>Concrete managers\<close>

text \<open>The managers of a device with one usable die: two channels of version 1 with two jettys each, and one group of
  version 2.\<close>

definition demo_eids :: "HcclResult \<times> (nat \<times> u32) list" where
  "demo_eids = (HCCL_SUCCESS, [(0, 1)])"

definition demo_para :: ChannelPara where
  "demo_para = \<lparr>paraFeId = 1, paraJettyNum = 2, paraSqSize = 20\<rparr>"

definition demo_v1 :: CcuChannelCtxMgrV1 where
  "demo_v1 = fst (snd (CcuChannelCtxMgrV1_Init demo_chan (demo_specs NORMAL) (snd (CcuPfeCfgMgr_Init demo_eids (demo_specs NORMAL) CcuPfeCfgMgr_new)) 0 []))"

definition demo_v1_next :: "CcuChannelCtxMgrV1 \<Rightarrow> CcuChannelCtxMgrV1" where
  "demo_v1_next m = snd (snd (CcuChannelCtxMgrV1_Alloc demo_para m))"

definition v1_report2 :: "CcuChannelCtxMgrV1 \<Rightarrow> CcuChannelCtxMgrV1 \<Rightarrow> CcuChannelCtxMgrV1 \<Rightarrow> bool" where
  "v1_report2 m0 m1 m2 \<longleftrightarrow> fst (CcuChannelCtxMgrV1_Alloc demo_para m0) = HCCL_SUCCESS
    \<and> map chAllocated (take 3 (c1Channels m2)) = [True, True, False]
    \<and> map (\<lambda>c. map jettyCtxId (jettyInfos (chInfo c))) (take 2 (c1Channels m2)) = [[0, 1], [2, 3]]
    \<and> map (\<lambda>c. map wqeBBStartId (jettyInfos (chInfo c))) (take 2 (c1Channels m2)) = [[0, 32], [64, 96]]"

definition v1_report1 :: "CcuChannelCtxMgrV1 \<Rightarrow> CcuChannelCtxMgrV1 \<Rightarrow> bool" where
  "v1_report1 m0 m1 = v1_report2 m0 m1 (demo_v1_next m1)"

definition v1_report0 :: "CcuChannelCtxMgrV1 \<Rightarrow> bool" where
  "v1_report0 m0 = v1_report1 m0 (demo_v1_next m0)"

lemma v1_reported: "v1_report0 demo_v1"
  by code_simp

abbreviation demo_v1_one :: CcuChannelCtxMgrV1 where
  "demo_v1_one \<equiv> demo_v1_next demo_v1"

abbreviation demo_v1_two :: CcuChannelCtxMgrV1 where
  "demo_v1_two \<equiv> demo_v1_next demo_v1_one"

lemmas v1_facts = v1_reported [unfolded v1_report0_def v1_report1_def v1_report2_def]

lemma demo_channel_specs: "channel_specs (demo_specs mode) 0"
  by (simp add: channel_specs_def GetJettyNum_def GetChannelJettyMap_def spec_field_def demo_specs_def CcuResSpecInfo_default_def
      CheckDieValid_def CCU_MAX_IODIE_NUM_def CCU_PER_DIE_JETTY_RESERVED_NUM_def DEFAULT_CHANNEL_JETTY_MAP_def Let_def)

lemma demo_v1_reach: "\<exists>log. chan1_reach demo_chan (demo_specs NORMAL) demo_eids 0 (demo_v1, log)"
proof -
  obtain ret log where i: "CcuChannelCtxMgrV1_Init demo_chan (demo_specs NORMAL)
      (snd (CcuPfeCfgMgr_Init demo_eids (demo_specs NORMAL) CcuPfeCfgMgr_new)) 0 [] = (ret, demo_v1, log)"
    unfolding demo_v1_def by (metis prod.collapse)
  have "fst (CcuChannelCtxMgrV1_Init demo_chan (demo_specs NORMAL)
      (snd (CcuPfeCfgMgr_Init demo_eids (demo_specs NORMAL) CcuPfeCfgMgr_new)) 0 []) = HCCL_SUCCESS"
    by code_simp
  then show ?thesis
    using i chan1_reach.start by fastforce
qed

lemma demo_v1_next_reach:
  assumes "\<exists>log. chan1_reach demo_chan (demo_specs NORMAL) demo_eids 0 (m, log)"
  shows "\<exists>log. chan1_reach demo_chan (demo_specs NORMAL) demo_eids 0 (demo_v1_next m, log)"
  using assms chan1_reach.alloc [of demo_chan "demo_specs NORMAL" demo_eids 0 m] unfolding demo_v1_next_def by (metis prod.collapse)

lemma demo_v1_jettys: "CCU_PER_DIE_JETTY_RESERVED_NUM \<le> unat (snd (GetJettyNum (demo_specs NORMAL) 0 0))"
  using demo_channel_specs [of NORMAL] by (simp add: channel_specs_def)

lemma demo_v1_allocated: "CheckIfChannelAllocated 0 (c1Channels demo_v1_two)" "CheckIfChannelAllocated 1 (c1Channels demo_v1_two)"
proof -
  have m: "map chAllocated (take 3 (c1Channels demo_v1_two)) = [True, True, False]"
    using v1_facts by blast
  then have "length (take 3 (c1Channels demo_v1_two)) = 3"
    using arg_cong [OF m, of length] unfolding length_map by (simp only: list.size)
  then have "3 \<le> length (c1Channels demo_v1_two)"
    by (simp add: min_def split: if_splits)
  then show "CheckIfChannelAllocated 0 (c1Channels demo_v1_two)" "CheckIfChannelAllocated 1 (c1Channels demo_v1_two)"
    using arg_cong [OF m, of "\<lambda>xs. xs ! 0"] arg_cong [OF m, of "\<lambda>xs. xs ! 1"] by (auto simp: CheckIfChannelAllocated_def)
qed

theorem v1_channels_disjoint_witness:
  "let infos = (\<lambda>x. jettyInfos (chInfo (c1Channels demo_v1_two ! x)))
   in set (map jettyCtxId (infos 0)) \<inter> set (map jettyCtxId (infos 1)) = {} \<and> ids (wqe_runs (infos 0)) \<inter> ids (wqe_runs (infos 1)) = {}"
proof -
  obtain log where "chan1_reach demo_chan (demo_specs NORMAL) demo_eids 0 (demo_v1_two, log)"
    using demo_v1_next_reach [OF demo_v1_next_reach [OF demo_v1_reach]] by blast
  from v1_channels_disjoint [OF this demo_v1_jettys demo_v1_allocated] show ?thesis
    by (simp add: Let_def)
qed

theorem v1_alloc_outcome_witness:
  "\<exists>i info s. FindFreeChannelId (c1Channels demo_v1) 0 = Some i \<and> chId info = i \<and> map jettyCtxId (jettyInfos info) = [s, s + 1]
    \<and> CcuChannelCtxMgrV1_Alloc demo_para demo_v1 = (HCCL_SUCCESS, Some [info], demo_v1_one)"
proof -
  obtain out where call: "CcuChannelCtxMgrV1_Alloc demo_para demo_v1 = (HCCL_SUCCESS, out, demo_v1_one)"
    using v1_facts unfolding demo_v1_next_def by (metis prod.collapse)
  obtain log where "chan1_reach demo_chan (demo_specs NORMAL) demo_eids 0 (demo_v1, log)"
    using demo_v1_reach by blast
  from v1_alloc_outcome [OF this demo_v1_jettys call] show ?thesis
    using call by (auto simp: demo_para_def upt_rec)
qed

theorem v1_release_frees_witness:
  "\<exists>m'. CcuChannelCtxMgrV1_Release demo_chan 1 demo_v1_two [] =
      (HCCL_SUCCESS, m', [CCU_U_OP_SET_CHANNEL (c1DieId demo_v1_two) 1 (DataV1 ChannelCtxDataV1_zero)])
    \<and> c1Channels m' = (c1Channels demo_v1_two)[1 := ChannelResInfo_new]"
proof -
  obtain log where "chan1_reach demo_chan (demo_specs NORMAL) demo_eids 0 (demo_v1_two, log)"
    using demo_v1_next_reach [OF demo_v1_next_reach [OF demo_v1_reach]] by blast
  then have r: "chan1_reach demo_chan (demo_specs NORMAL) demo_eids 0 (demo_v1_two, [])"
    by (rule chan1_reach.elsewhere)
  obtain ret m' log' where call: "CcuChannelCtxMgrV1_Release demo_chan 1 demo_v1_two [] = (ret, m', log')"
    using prod_cases3 by blast
  from v1_release_frees [OF r demo_v1_jettys call] show ?thesis
    using call demo_v1_allocated(2) by (simp add: demo_chan_def)
qed

definition demo_v2_specs :: CcuResSpecifications where
  "demo_v2_specs = (demo_specs NORMAL)\<lparr>ccuVersion := CCU_V2\<rparr>"

definition demo_v2 :: CcuChannelCtxMgrV2 where
  "demo_v2 = fst (snd (CcuChannelCtxMgrV2_Init demo_chan demo_v2_specs (snd (CcuPfeCfgMgr_Init demo_eids demo_v2_specs CcuPfeCfgMgr_new)) 0 []))"

definition demo_v2_one :: CcuChannelCtxMgrV2 where
  "demo_v2_one = snd (snd (CcuChannelCtxMgrV2_Alloc demo_para demo_v2))"

definition v2_report1 :: "CcuChannelCtxMgrV2 \<Rightarrow> bool" where
  "v2_report1 m1 \<longleftrightarrow> map chAllocated (c2Channels m1) = replicate 8 True @ replicate 8 False
    \<and> length (j2Groups (c2Jetty m1)) = 128 \<and> length (j2Wqe (c2Jetty m1)) = 128"

lemma v2_reported:
  "fst (CcuChannelCtxMgrV2_Init demo_chan demo_v2_specs (snd (CcuPfeCfgMgr_Init demo_eids demo_v2_specs CcuPfeCfgMgr_new)) 0 []) = HCCL_SUCCESS"
  "fst (CcuChannelCtxMgrV2_Alloc demo_para demo_v2) = HCCL_SUCCESS" "v2_report1 demo_v2_one"
  by code_simp+

lemma demo_v2_map: "snd (GetChannelJettyMap demo_v2_specs 0 DEFAULT_CHANNEL_JETTY_MAP) = DEFAULT_CHANNEL_JETTY_MAP"
  by (simp add: demo_v2_specs_def GetChannelJettyMap_def spec_field_def demo_specs_def CcuResSpecInfo_default_def
      CheckDieValid_def CCU_MAX_IODIE_NUM_def DEFAULT_CHANNEL_JETTY_MAP_def Let_def)

lemma demo_v2_reach: "\<exists>log. chan2_reach demo_chan demo_v2_specs demo_eids 0 (demo_v2, log)"
  using v2_reported(1) chan2_reach.start unfolding demo_v2_def by (metis prod.collapse)

lemma demo_v2_one_reach: "\<exists>log. chan2_reach demo_chan demo_v2_specs demo_eids 0 (demo_v2_one, log)"
  using demo_v2_reach chan2_reach.alloc unfolding demo_v2_one_def by (metis prod.collapse)

lemma demo_v2_allocated: "CheckIfChannelAllocated i (c2Channels demo_v2_one) \<longleftrightarrow> i < 8"
proof -
  have m: "map chAllocated (c2Channels demo_v2_one) = replicate 8 True @ replicate 8 False"
    using v2_reported(3) by (simp add: v2_report1_def)
  have "length (c2Channels demo_v2_one) = 16"
    using arg_cong [OF m, of length] by simp
  then have "chAllocated (c2Channels demo_v2_one ! i) \<longleftrightarrow> i < 8" if "i < 16"
    using arg_cong [OF m, of "\<lambda>xs. xs ! i"] that by (cases "i < 8") (simp_all add: nth_append)
  then show ?thesis
    using \<open>length (c2Channels demo_v2_one) = 16\<close> by (auto simp: CheckIfChannelAllocated_def)
qed

theorem v2_use_counts_witness:
  "useCnt (j2Groups (c2Jetty demo_v2_one) ! 0) = 8 \<and> j2Wqe (c2Jetty demo_v2_one) ! 0"
proof -
  obtain log where "chan2_reach demo_chan demo_v2_specs demo_eids 0 (demo_v2_one, log)"
    using demo_v2_one_reach by blast
  moreover have "0 < length (j2Groups (c2Jetty demo_v2_one))" "0 < length (j2Wqe (c2Jetty demo_v2_one))"
    using v2_reported(3) unfolding v2_report1_def by linarith+
  moreover have "{i. i div 8 = 0 \<and> CheckIfChannelAllocated i (c2Channels demo_v2_one)} = {..<8}"
    unfolding demo_v2_allocated by auto
  ultimately show ?thesis
    using v2_use_counts [of demo_chan demo_v2_specs demo_eids 0 demo_v2_one log 0] demo_v2_map by (simp add: lessThan_empty_iff)
qed

theorem v2_alloc_outcome_witness:
  "\<exists>k infos. CcuChannelCtxMgrV2_Alloc demo_para demo_v2 = (HCCL_SUCCESS, Some infos, demo_v2_one)
    \<and> map chId infos = [8 * k ..< 8 * k + 8]"
proof -
  obtain log where "chan2_reach demo_chan demo_v2_specs demo_eids 0 (demo_v2, log)"
    using demo_v2_reach by blast
  moreover obtain out where "CcuChannelCtxMgrV2_Alloc demo_para demo_v2 = (HCCL_SUCCESS, out, demo_v2_one)"
    using v2_reported(2) unfolding demo_v2_one_def by (metis prod.collapse)
  ultimately show ?thesis
    using v2_alloc_outcome [of demo_chan demo_v2_specs demo_eids 0 demo_v2 log demo_para HCCL_SUCCESS out demo_v2_one] demo_v2_map by auto
qed

theorem v2_last_release_witness:
  "\<exists>m' log'. CcuChannelCtxMgrV2_Release demo_chan 3 demo_v2_one [] = (HCCL_SUCCESS, m', log')
    \<and> c2Channels m' = (c2Channels demo_v2_one)[3 := ChannelResInfo_new] \<and> j2Wqe (c2Jetty m') = j2Wqe (c2Jetty demo_v2_one)"
proof -
  obtain log where "chan2_reach demo_chan demo_v2_specs demo_eids 0 (demo_v2_one, log)"
    using demo_v2_one_reach by blast
  then have r: "chan2_reach demo_chan demo_v2_specs demo_eids 0 (demo_v2_one, [])"
    by (rule chan2_reach.elsewhere)
  obtain ret m' log' where call: "CcuChannelCtxMgrV2_Release demo_chan 3 demo_v2_one [] = (ret, m', log')"
    using prod_cases3 by blast
  have "4 \<in> {k. k div 8 = (3::nat) div 8 \<and> CheckIfChannelAllocated k (c2Channels demo_v2_one)}"
    by (simp add: demo_v2_allocated)
  moreover have "4 \<notin> {3 :: nat}"
    by simp
  ultimately have "{k. k div 8 = 3 div 8 \<and> CheckIfChannelAllocated k (c2Channels demo_v2_one)} \<noteq> {3}"
    by metis
  then show ?thesis
    using v2_last_release [OF r demo_v2_map _ call] call by (simp add: demo_v2_allocated demo_chan_def)
qed

theorem loop_channel_kept_witness:
  "CheckIfChannelAllocated (loopChannelIds (demo_comp NORMAL) ! 0) (die_channels 0 (demo_comp NORMAL))"
proof -
  have i: "CcuComponent_Init demo_chan demo_plat (snd (CcuPfeCfgMgr_Init (HCCL_SUCCESS, [(0, 1)]) (demo_specs NORMAL) CcuPfeCfgMgr_new)) HCCL_SUCCESS
      (demo_specs NORMAL) CcuComponent_new = (HCCL_SUCCESS, demo_comp NORMAL)"
    using demo_comp_ok [of NORMAL] by (simp add: demo_comp_def demo_cfg_def prod_eq_iff)
  have "\<forall>d<2. compDieFlags (demo_comp NORMAL) ! d \<longrightarrow> channel_specs (demo_specs NORMAL) d"
    using demo_channel_specs demo_flags [of NORMAL] by (auto simp: less_2_cases_iff)
  from loop_channel_kept [OF i this channel_steps.no_step, of 0] show ?thesis
    using demo_flags [of NORMAL] by simp
qed

end
