(* ===== verification/Res_Desc.thy ===== *)
theory Res_Desc
  imports Res_Allocator "HOL-Library.AList"
begin

text \<open>
  Resource descriptors: the numbers of each resource type a client wants on one die (\<^verbatim>\<open>ccu_device/ccu_res_desc.cc\<close>),
  the manager that hands out descriptor handles (\<^verbatim>\<open>ccu_instance/ccu_res_desc_mgr.cc\<close>) and the C functions over it
  (\<^verbatim>\<open>primitives/api_c_adpt/ccu/ccu_res_c_adpt.cc\<close>). \<^verbatim>\<open>HcclResult\<close> values become \<^verbatim>\<open>CcuResult\<close> values by a cast
  (\<^verbatim>\<open>HCCL_TO_CCU_RET\<close>), and some have no name there, so a function that returns a \<^verbatim>\<open>CcuResult\<close> returns its number.
  The unordered map of the manager is a list of pairs with distinct keys.
\<close>

subsection \<open>Result codes\<close>

primrec hccl_code :: "HcclResult \<Rightarrow> nat" where
  "hccl_code HCCL_SUCCESS = 0"
| "hccl_code HCCL_E_PARA = 1"
| "hccl_code HCCL_E_PTR = 2"
| "hccl_code HCCL_E_MEMORY = 3"
| "hccl_code HCCL_E_INTERNAL = 4"
| "hccl_code HCCL_E_NOT_SUPPORT = 5"
| "hccl_code HCCL_E_NOT_FOUND = 6"
| "hccl_code HCCL_E_UNAVAIL = 7"
| "hccl_code HCCL_E_SYSCALL = 8"
| "hccl_code HCCL_E_TIMEOUT = 9"
| "hccl_code HCCL_E_OPEN_FILE_FAILURE = 10"
| "hccl_code HCCL_E_TCP_CONNECT = 11"
| "hccl_code HCCL_E_ROCE_CONNECT = 12"
| "hccl_code HCCL_E_TCP_TRANSFER = 13"
| "hccl_code HCCL_E_ROCE_TRANSFER = 14"
| "hccl_code HCCL_E_RUNTIME = 15"
| "hccl_code HCCL_E_DRV = 16"
| "hccl_code HCCL_E_PROFILING = 17"
| "hccl_code HCCL_E_CCE = 18"
| "hccl_code HCCL_E_NETWORK = 19"
| "hccl_code HCCL_E_AGAIN = 20"
| "hccl_code HCCL_E_REMOTE = 21"
| "hccl_code HCCL_E_SUSPENDING = 22"
| "hccl_code HCCL_E_OPRETRY_FAIL = 23"
| "hccl_code HCCL_E_OOM = 24"
| "hccl_code HCCL_E_IN_STATUS = 1041"
| "hccl_code HCCL_E_RESERVED = 1042"

primrec ccu_code :: "CcuResult \<Rightarrow> nat" where
  "ccu_code CCU_SUCCESS = 0"
| "ccu_code CCU_E_PARA = 1"
| "ccu_code CCU_E_PTR = 2"
| "ccu_code CCU_E_INTERNAL = 4"
| "ccu_code CCU_E_NOT_SUPPORT = 5"
| "ccu_code CCU_E_NOT_FOUND = 6"
| "ccu_code CCU_E_UNAVAIL = 7"
| "ccu_code CCU_E_RUNTIME = 15"
| "ccu_code CCU_E_DRV_START = 4096"
| "ccu_code CCU_E_DRV_INIT_FAILED = 4097"
| "ccu_code CCU_E_DRV_BUSY = 4098"
| "ccu_code CCU_E_DRV_END = 4224"
| "ccu_code CCU_E_RESERVED = 9216"

lemma hccl_code_0 [simp]: "hccl_code r = 0 \<longleftrightarrow> r = HCCL_SUCCESS"
  by (cases r) simp_all

lemma hccl_code_Suc_0 [simp]: "hccl_code r = Suc 0 \<longleftrightarrow> r = HCCL_E_PARA"
  by (cases r) simp_all

lemma hccl_code_7 [simp]: "hccl_code r = 7 \<longleftrightarrow> r = HCCL_E_UNAVAIL"
  by (cases r) simp_all

subsection \<open>Descriptors\<close>

definition CCU_RES_TYPE_COUNT :: nat where "CCU_RES_TYPE_COUNT = 9"

record CcuResDesc =
  descDieId :: nat
  resNum :: "nat list"

definition CcuResDesc_new :: CcuResDesc where
  "CcuResDesc_new = \<lparr>descDieId = CCU_MAX_IODIE_NUM, resNum = replicate CCU_RES_TYPE_COUNT 0\<rparr>"

definition IsValidResType :: "ResType \<Rightarrow> bool" where
  "IsValidResType resType \<longleftrightarrow> resType_u8 resType < resType_u8 ResType_COUNT"

definition CcuResDesc_SetResNum :: "ResType \<Rightarrow> nat \<Rightarrow> CcuResDesc \<Rightarrow> nat \<times> CcuResDesc" where
  "CcuResDesc_SetResNum resType n desc =
    (if \<not> IsValidResType resType then (ccu_code CCU_E_PARA, desc)
     else (ccu_code CCU_SUCCESS, desc\<lparr>resNum := (resNum desc)[resType_u8 resType := n]\<rparr>))"

text \<open>The caller's \<^verbatim>\<open>num\<close> is passed in and returned.\<close>

definition CcuResDesc_QueryResNum :: "ResType \<Rightarrow> nat \<Rightarrow> CcuResDesc \<Rightarrow> nat \<times> nat" where
  "CcuResDesc_QueryResNum resType n desc =
    (if \<not> IsValidResType resType then (ccu_code CCU_E_PARA, n)
     else (ccu_code CCU_SUCCESS, resNum desc ! resType_u8 resType))"

subsection \<open>The manager\<close>

record CcuResDescMgr =
  nextHandle :: nat
  descMap :: "(nat \<times> CcuResDesc) list"

definition CcuResDescMgr_new :: CcuResDescMgr where
  "CcuResDescMgr_new = \<lparr>nextHandle = 0, descMap = []\<rparr>"

text \<open>\<^verbatim>\<open>nextHandle_\<close> has 64 bits; \<^verbatim>\<open>emplace\<close> keeps an entry that is already there.\<close>

definition emplace :: "nat \<Rightarrow> 'v \<Rightarrow> (nat \<times> 'v) list \<Rightarrow> (nat \<times> 'v) list" where
  "emplace k v m = (if map_of m k = None then m @ [(k, v)] else m)"

definition CcuResDescMgr_Create :: "nat \<Rightarrow> CcuResDescMgr \<Rightarrow> nat \<times> nat \<times> CcuResDescMgr" where
  "CcuResDescMgr_Create dieId m =
    (let desc = CcuResDesc_new\<lparr>descDieId := dieId\<rparr>;
         m = m\<lparr>nextHandle := (nextHandle m + 1) mod 2 ^ 64\<rparr>;
         m = m\<lparr>descMap := emplace (nextHandle m) desc (descMap m)\<rparr>
     in (ccu_code CCU_SUCCESS, nextHandle m, m))"

definition FindDesc :: "nat \<Rightarrow> CcuResDescMgr \<Rightarrow> nat + CcuResDesc" where
  "FindDesc h m = (case map_of (descMap m) h of None \<Rightarrow> Inl (ccu_code CCU_E_NOT_FOUND) | Some desc \<Rightarrow> Inr desc)"

definition CcuResDescMgr_Get :: "nat \<Rightarrow> CcuResDescMgr \<Rightarrow> CcuResDesc option" where
  "CcuResDescMgr_Get h m = (case FindDesc h m of Inl _ \<Rightarrow> None | Inr desc \<Rightarrow> Some desc)"

definition CcuResDescMgr_Destroy :: "nat \<Rightarrow> CcuResDescMgr \<Rightarrow> nat \<times> CcuResDescMgr" where
  "CcuResDescMgr_Destroy h m =
    (case FindDesc h m of
       Inl ret \<Rightarrow> (ret, m)
     | Inr _ \<Rightarrow> (ccu_code CCU_SUCCESS, m\<lparr>descMap := AList.delete h (descMap m)\<rparr>))"

definition put_desc :: "nat \<Rightarrow> CcuResDesc \<Rightarrow> CcuResDescMgr \<Rightarrow> CcuResDescMgr" where
  "put_desc h desc m = m\<lparr>descMap := AList.update h desc (descMap m)\<rparr>"

definition CcuResDescMgr_SetResNum :: "nat \<Rightarrow> ResType \<Rightarrow> nat \<Rightarrow> CcuResDescMgr \<Rightarrow> nat \<times> CcuResDescMgr" where
  "CcuResDescMgr_SetResNum h resType n m =
    (case FindDesc h m of
       Inl ret \<Rightarrow> (ret, m)
     | Inr desc \<Rightarrow> (case CcuResDesc_SetResNum resType n desc of (ret, desc) \<Rightarrow> (ret, put_desc h desc m)))"

definition CcuResDescMgr_QueryResNum :: "nat \<Rightarrow> ResType \<Rightarrow> nat \<Rightarrow> CcuResDescMgr \<Rightarrow> nat \<times> nat" where
  "CcuResDescMgr_QueryResNum h resType n m =
    (case FindDesc h m of Inl ret \<Rightarrow> (ret, n) | Inr desc \<Rightarrow> CcuResDesc_QueryResNum resType n desc)"

definition CcuResDescMgr_QueryDieId :: "nat \<Rightarrow> nat \<Rightarrow> CcuResDescMgr \<Rightarrow> nat \<times> nat" where
  "CcuResDescMgr_QueryDieId h dieId m =
    (case FindDesc h m of Inl ret \<Rightarrow> (ret, dieId) | Inr desc \<Rightarrow> (ccu_code CCU_SUCCESS, descDieId desc))"

definition CcuResDescMgr_Deinit :: "CcuResDescMgr \<Rightarrow> nat \<times> CcuResDescMgr" where
  "CcuResDescMgr_Deinit m = (ccu_code CCU_SUCCESS, m\<lparr>descMap := [], nextHandle := 0\<rparr>)"

subsection \<open>The C functions\<close>

text \<open>\<^verbatim>\<open>HcommCcuResType\<close> is a signed enumeration; the two tables of \<^verbatim>\<open>ccu_res_type_converter.h\<close>.\<close>

definition HCOMM_TO_RES_TYPE :: "ResType list" where
  "HCOMM_TO_RES_TYPE =
    [ResType_LOOP, ResType_MS, ResType_XN, ResType_GSA, ResType_CKE, ResType_MISSION, ResType_INS, ResType_CASC_CNT]"

definition ConvertHcommCcuResTypeToHcclResType :: "int \<Rightarrow> nat + ResType" where
  "ConvertHcommCcuResTypeToHcclResType ccuResType =
    (if ccuResType < 0 \<or> nat ccuResType \<ge> length HCOMM_TO_RES_TYPE then Inl (ccu_code CCU_E_PARA)
     else Inr (HCOMM_TO_RES_TYPE ! nat ccuResType))"

definition HCOMM_CCU_RES_TYPE_INVALID :: int where "HCOMM_CCU_RES_TYPE_INVALID = - 1"

definition RES_TYPE_TO_HCOMM :: "int list" where
  "RES_TYPE_TO_HCOMM = [0, 1, 4, 2, HCOMM_CCU_RES_TYPE_INVALID, 3, 6, 5, 7]"

definition ConvertHcclResTypeToHcommCcuResType :: "ResType \<Rightarrow> nat + int" where
  "ConvertHcclResTypeToHcommCcuResType hcclResType =
    (if resType_u8 hcclResType \<ge> length RES_TYPE_TO_HCOMM
        \<or> RES_TYPE_TO_HCOMM ! resType_u8 hcclResType = HCOMM_CCU_RES_TYPE_INVALID
     then Inl (ccu_code CCU_E_PARA)
     else Inr (RES_TYPE_TO_HCOMM ! resType_u8 hcclResType))"

text \<open>\<open>refresh\<close> is the answer of \<^verbatim>\<open>HcclDeviceRefresh\<close>, which names the device whose manager is used. An output
  pointer is an option: the value it points at, or none for \<^verbatim>\<open>nullptr\<close>.\<close>

definition HcommCcuInsResDescCreate ::
  "HcclResult \<Rightarrow> nat \<Rightarrow> nat option \<Rightarrow> CcuResDescMgr \<Rightarrow> nat \<times> nat option \<times> CcuResDescMgr" where
  "HcommCcuInsResDescCreate refresh dieId resDesc m =
    (if dieId \<ge> CCU_MAX_IODIE_NUM then (ccu_code CCU_E_PARA, resDesc, m)
     else if resDesc = None then (ccu_code CCU_E_PTR, resDesc, m)
     else if hccl_code refresh \<noteq> 0 then (hccl_code refresh, resDesc, m)
     else case CcuResDescMgr_Create dieId m of (ret, h, m) \<Rightarrow> (ret, if ret = 0 then Some h else resDesc, m))"

definition HcommCcuInsResDescDestroy :: "HcclResult \<Rightarrow> nat \<Rightarrow> CcuResDescMgr \<Rightarrow> nat \<times> CcuResDescMgr" where
  "HcommCcuInsResDescDestroy refresh h m =
    (if hccl_code refresh \<noteq> 0 then (hccl_code refresh, m) else CcuResDescMgr_Destroy h m)"

definition HcommCcuInsResDescSetNum :: "HcclResult \<Rightarrow> nat \<Rightarrow> int \<Rightarrow> nat \<Rightarrow> CcuResDescMgr \<Rightarrow> nat \<times> CcuResDescMgr" where
  "HcommCcuInsResDescSetNum refresh h resType n m =
    (case ConvertHcommCcuResTypeToHcclResType resType of
       Inl ret \<Rightarrow> (ret, m)
     | Inr ccuResType \<Rightarrow>
         if hccl_code refresh \<noteq> 0 then (hccl_code refresh, m) else CcuResDescMgr_SetResNum h ccuResType n m)"

definition HcommCcuInsResDescQueryNum ::
  "HcclResult \<Rightarrow> nat \<Rightarrow> int \<Rightarrow> nat option \<Rightarrow> CcuResDescMgr \<Rightarrow> nat \<times> nat option" where
  "HcommCcuInsResDescQueryNum refresh h resType out m =
    (case out of
       None \<Rightarrow> (ccu_code CCU_E_PTR, None)
     | Some n \<Rightarrow>
         (case ConvertHcommCcuResTypeToHcclResType resType of
            Inl ret \<Rightarrow> (ret, out)
          | Inr ccuResType \<Rightarrow>
              if hccl_code refresh \<noteq> 0 then (hccl_code refresh, out)
              else case CcuResDescMgr_QueryResNum h ccuResType n m of (ret, n) \<Rightarrow> (ret, Some n)))"

definition HcommCcuInsResDescQueryDieId :: "HcclResult \<Rightarrow> nat \<Rightarrow> nat option \<Rightarrow> CcuResDescMgr \<Rightarrow> nat \<times> nat option" where
  "HcommCcuInsResDescQueryDieId refresh h out m =
    (case out of
       None \<Rightarrow> (ccu_code CCU_E_PTR, None)
     | Some d \<Rightarrow>
         if hccl_code refresh \<noteq> 0 then (hccl_code refresh, out)
         else case CcuResDescMgr_QueryDieId h d m of (ret, d) \<Rightarrow> (ret, Some d))"

end
