(* ===== verification/Desc_Contract.thy ===== *)
theory Desc_Contract
  imports Res_Desc
begin

text \<open>
  What a client of the descriptor functions can rely on: they behave as a map from handles to a die and a number for
  each of the eight public resource types, with a new handle for every descriptor. The concrete functions are
  shown to simulate this map call by call; a locale carries the step from one call to whole sequences of calls.
\<close>

subsection \<open>Simulation of call sequences\<close>

text \<open>The state machines read one call after the other and answer each; \<open>cost\<close> counts the calls that use up a
  bounded lim, of which \<open>used\<close> are gone.\<close>

fun answers :: "('i \<Rightarrow> 's \<Rightarrow> 'o \<times> 's) \<Rightarrow> 'i list \<Rightarrow> 's \<Rightarrow> 'o list" where
  "answers step [] s = []"
| "answers step (i # is) s = (case step i s of (out, s) \<Rightarrow> out # answers step is s)"

locale counted_simulation =
  fixes cstep :: "'i \<Rightarrow> 'c \<Rightarrow> 'o \<times> 'c" and astep :: "'i \<Rightarrow> 'a \<Rightarrow> 'o \<times> 'a"
    and rel :: "'c \<Rightarrow> 'a \<Rightarrow> bool" and used :: "'a \<Rightarrow> nat" and cost :: "'i \<Rightarrow> nat" and lim :: nat
  assumes same_answer: "rel c a \<Longrightarrow> used a + cost i < lim \<Longrightarrow> fst (cstep i c) = fst (astep i a)"
    and still_related: "rel c a \<Longrightarrow> used a + cost i < lim \<Longrightarrow> rel (snd (cstep i c)) (snd (astep i a))"
    and used_step: "used (snd (astep i a)) \<le> used a + cost i"
begin

lemma same_answers:
  assumes "rel c a" and "used a + sum_list (map cost is) < lim"
  shows "answers cstep is c = answers astep is a"
  using assms
proof (induction "is" arbitrary: c a)
  case (Cons i "is")
  have "used a + cost i < lim"
    using Cons.prems(2) by simp
  note step = same_answer [OF Cons.prems(1) this] still_related [OF Cons.prems(1) this]
  have "used (snd (astep i a)) + sum_list (map cost is) < lim"
    using Cons.prems(2) used_step [of i a] by simp
  from Cons.IH [OF step(2) this] show ?case
    using step(1) by (simp add: case_prod_beta)
qed simp

end

subsection \<open>The specification\<close>

datatype DescCall = ApiCreate nat | ApiDestroy nat | ApiSetNum nat int nat | ApiQueryNum nat int | ApiQueryDieId nat

text \<open>An answer is the result code and the value written to the output, when there is one.\<close>

fun api_step :: "DescCall \<Rightarrow> CcuResDescMgr \<Rightarrow> (nat \<times> nat option) \<times> CcuResDescMgr" where
  "api_step (ApiCreate dieId) m =
    (case HcommCcuInsResDescCreate HCCL_SUCCESS dieId (Some 0) m of (ret, h, m) \<Rightarrow> ((ret, h), m))"
| "api_step (ApiDestroy h) m = (case HcommCcuInsResDescDestroy HCCL_SUCCESS h m of (ret, m) \<Rightarrow> ((ret, None), m))"
| "api_step (ApiSetNum h t n) m = (case HcommCcuInsResDescSetNum HCCL_SUCCESS h t n m of (ret, m) \<Rightarrow> ((ret, None), m))"
| "api_step (ApiQueryNum h t) m = (HcommCcuInsResDescQueryNum HCCL_SUCCESS h t (Some 0) m, m)"
| "api_step (ApiQueryDieId h) m = (HcommCcuInsResDescQueryDieId HCCL_SUCCESS h (Some 0) m, m)"

type_synonym desc_spec = "nat \<times> (nat \<rightharpoonup> nat \<times> (int \<Rightarrow> nat))"

definition public_type :: "int \<Rightarrow> bool" where
  "public_type t \<longleftrightarrow> 0 \<le> t \<and> t < 8"

fun spec_step :: "DescCall \<Rightarrow> desc_spec \<Rightarrow> (nat \<times> nat option) \<times> desc_spec" where
  "spec_step (ApiCreate dieId) (k, live) =
    (if dieId < 2 then ((ccu_code CCU_SUCCESS, Some (k + 1)), (k + 1, live(k + 1 \<mapsto> (dieId, \<lambda>_. 0))))
     else ((ccu_code CCU_E_PARA, Some 0), (k, live)))"
| "spec_step (ApiDestroy h) (k, live) =
    (case live h of
       None \<Rightarrow> ((ccu_code CCU_E_NOT_FOUND, None), (k, live))
     | Some _ \<Rightarrow> ((ccu_code CCU_SUCCESS, None), (k, live(h := None))))"
| "spec_step (ApiSetNum h t n) (k, live) =
    (if \<not> public_type t then ((ccu_code CCU_E_PARA, None), (k, live))
     else case live h of
       None \<Rightarrow> ((ccu_code CCU_E_NOT_FOUND, None), (k, live))
     | Some (dieId, f) \<Rightarrow> ((ccu_code CCU_SUCCESS, None), (k, live(h \<mapsto> (dieId, f(t := n))))))"
| "spec_step (ApiQueryNum h t) (k, live) =
    (if \<not> public_type t then ((ccu_code CCU_E_PARA, Some 0), (k, live))
     else case live h of
       None \<Rightarrow> ((ccu_code CCU_E_NOT_FOUND, Some 0), (k, live))
     | Some (dieId, f) \<Rightarrow> ((ccu_code CCU_SUCCESS, Some (f t)), (k, live)))"
| "spec_step (ApiQueryDieId h) (k, live) =
    (case live h of
       None \<Rightarrow> ((ccu_code CCU_E_NOT_FOUND, Some 0), (k, live))
     | Some (dieId, f) \<Rightarrow> ((ccu_code CCU_SUCCESS, Some dieId), (k, live)))"

fun creations :: "DescCall \<Rightarrow> nat" where
  "creations (ApiCreate _) = 1"
| "creations _ = 0"

subsection \<open>The simulation\<close>

definition abs_desc :: "CcuResDesc \<Rightarrow> nat \<times> (int \<Rightarrow> nat)" where
  "abs_desc desc = (descDieId desc,
    \<lambda>t. if public_type t then resNum desc ! resType_u8 (HCOMM_TO_RES_TYPE ! nat t) else 0)"

definition desc_rel :: "CcuResDescMgr \<Rightarrow> desc_spec \<Rightarrow> bool" where
  "desc_rel m a \<longleftrightarrow> nextHandle m = fst a \<and> (\<forall>h. snd a h = map_option abs_desc (map_of (descMap m) h))
    \<and> (\<forall>h desc. map_of (descMap m) h = Some desc \<longrightarrow> h \<le> nextHandle m \<and> length (resNum desc) = CCU_RES_TYPE_COUNT)"

lemma public_type_cases: "public_type t \<longleftrightarrow> t \<in> {0, 1, 2, 3, 4, 5, 6, 7}"
  by (auto simp: public_type_def)

lemma public_type_index:
  assumes "public_type t"
  shows "resType_u8 (HCOMM_TO_RES_TYPE ! nat t) < 9"
    and "public_type t' \<Longrightarrow> resType_u8 (HCOMM_TO_RES_TYPE ! nat t) = resType_u8 (HCOMM_TO_RES_TYPE ! nat t') \<longleftrightarrow> t = t'"
  using assms unfolding public_type_cases by (auto simp: HCOMM_TO_RES_TYPE_def)

lemma convert_public:
  "ConvertHcommCcuResTypeToHcclResType t = (if public_type t then Inr (HCOMM_TO_RES_TYPE ! nat t) else Inl (ccu_code CCU_E_PARA))"
  by (auto simp: ConvertHcommCcuResTypeToHcclResType_def public_type_def HCOMM_TO_RES_TYPE_def nat_less_iff le_nat_iff)

lemma public_type_valid: "public_type t \<Longrightarrow> IsValidResType (HCOMM_TO_RES_TYPE ! nat t)"
  using public_type_index(1) [of t] by (simp add: IsValidResType_def)

lemma abs_desc_new: "abs_desc (CcuResDesc_new\<lparr>descDieId := d\<rparr>) = (d, \<lambda>_. 0)"
  using public_type_index(1) by (auto simp: abs_desc_def CcuResDesc_new_def CCU_RES_TYPE_COUNT_def fun_eq_iff)

lemma length_new [simp]: "length (resNum CcuResDesc_new) = CCU_RES_TYPE_COUNT"
  by (simp add: CcuResDesc_new_def)

lemma abs_desc_set:
  assumes "public_type t" and "length (resNum desc) = CCU_RES_TYPE_COUNT"
  shows "abs_desc (desc\<lparr>resNum := (resNum desc)[resType_u8 (HCOMM_TO_RES_TYPE ! nat t) := n]\<rparr>)
    = (fst (abs_desc desc), (snd (abs_desc desc))(t := n))"
  using public_type_index [OF assms(1)] assms
  by (auto simp: abs_desc_def CCU_RES_TYPE_COUNT_def nth_list_update fun_eq_iff)

lemma desc_relD:
  assumes "desc_rel m (k, live)"
  shows "nextHandle m = k" "live h = map_option abs_desc (map_of (descMap m) h)"
    "map_of (descMap m) h = Some desc \<Longrightarrow> h \<le> k \<and> length (resNum desc) = CCU_RES_TYPE_COUNT"
  using assms by (auto simp: desc_rel_def)

lemma create_step:
  assumes "desc_rel m (k, live)" and "k + 1 < 2 ^ 64" and "d < 2"
  shows "CcuResDescMgr_Create d m = (ccu_code CCU_SUCCESS, k + 1,
      \<lparr>nextHandle = k + 1, descMap = descMap m @ [(k + 1, CcuResDesc_new\<lparr>descDieId := d\<rparr>)]\<rparr>)"
    and "desc_rel \<lparr>nextHandle = k + 1, descMap = descMap m @ [(k + 1, CcuResDesc_new\<lparr>descDieId := d\<rparr>)]\<rparr>
      (k + 1, live(k + 1 \<mapsto> (d, \<lambda>_. 0)))"
proof -
  note rel = desc_relD [OF assms(1)]
  have fresh: "map_of (descMap m) (k + 1) = None"
    using rel(3) [of "k + 1"] by (cases "map_of (descMap m) (k + 1)") auto
  then show "CcuResDescMgr_Create d m = (ccu_code CCU_SUCCESS, k + 1,
      \<lparr>nextHandle = k + 1, descMap = descMap m @ [(k + 1, CcuResDesc_new\<lparr>descDieId := d\<rparr>)]\<rparr>)"
    using rel(1) assms(2) by (simp add: CcuResDescMgr_Create_def emplace_def Let_def)
  have "h \<le> k + 1" if "map_of (descMap m) h = Some desc" for h desc
    using rel(3) [OF that] by simp
  then show "desc_rel \<lparr>nextHandle = k + 1, descMap = descMap m @ [(k + 1, CcuResDesc_new\<lparr>descDieId := d\<rparr>)]\<rparr>
      (k + 1, live(k + 1 \<mapsto> (d, \<lambda>_. 0)))"
    using rel(2,3) fresh by (auto simp: desc_rel_def abs_desc_new map_add_def split: option.splits)
qed

lemma put_desc_rel:
  assumes "desc_rel m (k, live)" and "map_of (descMap m) h = Some desc" and "length (resNum desc') = CCU_RES_TYPE_COUNT"
  shows "desc_rel (put_desc h desc' m) (k, live(h \<mapsto> abs_desc desc'))"
  using assms by (auto simp: desc_rel_def put_desc_def update_conv' split: if_splits)

lemma delete_desc_rel:
  assumes "desc_rel m (k, live)"
  shows "desc_rel (m\<lparr>descMap := AList.delete h (descMap m)\<rparr>) (k, live(h := None))"
  using assms by (auto simp: desc_rel_def delete_conv' restrict_map_def)

lemma set_step:
  assumes "desc_rel m (k, live)"
  shows "fst (api_step (ApiSetNum h t n) m) = fst (spec_step (ApiSetNum h t n) (k, live))
    \<and> desc_rel (snd (api_step (ApiSetNum h t n) m)) (snd (spec_step (ApiSetNum h t n) (k, live)))"
proof (cases "map_of (descMap m) h")
  case None
  then show ?thesis
    using desc_relD(2) [OF assms, of h] assms
    by (simp add: HcommCcuInsResDescSetNum_def convert_public CcuResDescMgr_SetResNum_def FindDesc_def)
next
  case (Some desc)
  note len = desc_relD(3) [OF assms Some]
  show ?thesis
  proof (cases "public_type t")
    case True
    then show ?thesis
      using put_desc_rel [OF assms Some, of "desc\<lparr>resNum := (resNum desc)[resType_u8 (HCOMM_TO_RES_TYPE ! nat t) := n]\<rparr>"] len
        abs_desc_set [OF True, of desc n] desc_relD(2) [OF assms, of h] Some
      by (simp add: HcommCcuInsResDescSetNum_def convert_public CcuResDescMgr_SetResNum_def FindDesc_def
          CcuResDesc_SetResNum_def public_type_valid case_prod_beta)
  next
    case False
    then show ?thesis
      using assms by (simp add: HcommCcuInsResDescSetNum_def convert_public)
  qed
qed

interpretation desc_api: counted_simulation api_step spec_step desc_rel fst creations "2 ^ 64"
proof
  fix m :: CcuResDescMgr and a :: desc_spec and i
  assume "desc_rel m a" and room: "fst a + creations i < 2 ^ 64"
  obtain k live where a: "a = (k, live)"
    by fastforce
  with \<open>desc_rel m a\<close> have rel: "desc_rel m (k, live)"
    by simp
  note sel = desc_relD [OF rel]
  have "fst (api_step i m) = fst (spec_step i (k, live)) \<and> desc_rel (snd (api_step i m)) (snd (spec_step i (k, live)))"
  proof (cases i)
    case (ApiCreate d)
    then show ?thesis
      using create_step [OF rel, of d] room a rel by (simp add: HcommCcuInsResDescCreate_def CCU_MAX_IODIE_NUM_def)
  next
    case (ApiDestroy h)
    then show ?thesis
      using sel(2) [of h] delete_desc_rel [OF rel, of h] rel
      by (cases "map_of (descMap m) h") (simp_all add: HcommCcuInsResDescDestroy_def CcuResDescMgr_Destroy_def FindDesc_def)
  next
    case (ApiSetNum h t n)
    then show ?thesis
      using set_step [OF rel] by simp
  next
    case (ApiQueryNum h t)
    then show ?thesis
      using sel(2) [of h] rel
      by (cases "map_of (descMap m) h")
        (simp_all add: HcommCcuInsResDescQueryNum_def convert_public CcuResDescMgr_QueryResNum_def FindDesc_def
          CcuResDesc_QueryResNum_def public_type_valid case_prod_beta abs_desc_def)
  next
    case (ApiQueryDieId h)
    then show ?thesis
      using sel(2) [of h] rel
      by (cases "map_of (descMap m) h")
        (simp_all add: HcommCcuInsResDescQueryDieId_def CcuResDescMgr_QueryDieId_def FindDesc_def case_prod_beta abs_desc_def)
  qed
  then show "fst (api_step i m) = fst (spec_step i a)" "desc_rel (snd (api_step i m)) (snd (spec_step i a))"
    by (simp_all add: a)
next
  fix i and a :: desc_spec
  show "fst (snd (spec_step i a)) \<le> fst a + creations i"
    by (cases "(i, a)" rule: spec_step.cases) (auto split: option.splits)
qed

subsection \<open>Properties\<close>

text \<open>C8. Every sequence of descriptor calls with fewer than \<open>2 ^ 64\<close> creations gets exactly the
  answers of the map: a new handle \<open>k + 1\<close> for the \<open>k + 1\<close>-th descriptor of a valid die, the numbers last set (0 at
  first) for the eight public types, \<^verbatim>\<open>CCU_E_NOT_FOUND\<close> for handles never given out or destroyed and
  \<^verbatim>\<open>CCU_E_PARA\<close> for any other die or type; no call disturbs another descriptor or another type's number.\<close>

theorem descriptors_refine:
  assumes "sum_list (map creations calls) < 2 ^ 64"
  shows "answers api_step calls CcuResDescMgr_new = answers spec_step calls (0, Map.empty)"
proof (rule desc_api.same_answers)
  show "desc_rel CcuResDescMgr_new (0, Map.empty)"
    by (simp add: desc_rel_def CcuResDescMgr_new_def)
qed (use assms in simp)

theorem descriptors_refine_witness:
  "sum_list (map creations [ApiCreate 1, ApiSetNum 1 2 7, ApiQueryNum 1 2, ApiDestroy 1, ApiQueryNum 1 2]) < 2 ^ 64
    \<and> answers api_step [ApiCreate 1, ApiSetNum 1 2 7, ApiQueryNum 1 2, ApiDestroy 1, ApiQueryNum 1 2] CcuResDescMgr_new
      = [(0, Some 1), (0, None), (0, Some 7), (0, None), (6, Some 0)]"
  using descriptors_refine [of "[ApiCreate 1, ApiSetNum 1 2 7, ApiQueryNum 1 2, ApiDestroy 1, ApiQueryNum 1 2]"]
  by (simp add: public_type_def)

end
