(* ===== verification/Device_Manager.thy ===== *)
theory Device_Manager
  imports Res_Batch_Allocator Res_Desc
begin

text \<open>
  The device manager (\<^verbatim>\<open>ccu_device/ccu_dev_mgr_imp.cc\<close>): how a request by instance type or by descriptors becomes a
  request to the batch allocator, and the calls through which the rest of the library reaches the component, the
  specifications and the batch allocator of a device. Every call goes to one of two implementations:
  \<^verbatim>\<open>CheckCcuOpenSourceEnable\<close> selects the component modelled here, or the one of the legacy platform, whose
  functions and state are parameters (\<open>LegacyCcu\<close>, results after the exception handlers of the manager).
\<close>

subsection \<open>The two implementations\<close>

record 'l LegacyCcu =
  legDieEnableFlags :: "'l \<Rightarrow> bool list"
  legCcuVersion :: "'l \<Rightarrow> CcuVersion"
  legAllocResHandle :: "CcuResReq \<Rightarrow> nat \<Rightarrow> 'l \<Rightarrow> HcclResult \<times> nat \<times> 'l"
  legReleaseResHandle :: "nat \<Rightarrow> 'l \<Rightarrow> HcclResult \<times> 'l"
  legGetResource :: "nat \<Rightarrow> CcuResRepository \<Rightarrow> 'l \<Rightarrow> HcclResult \<times> CcuResRepository"
  legQueryRemainRes :: "nat \<Rightarrow> ResType \<Rightarrow> nat \<Rightarrow> 'l \<Rightarrow> HcclResult \<times> nat"
  legMaxBlockResNum :: "ResType \<Rightarrow> nat \<Rightarrow> nat \<Rightarrow> 'l \<Rightarrow> HcclResult \<times> nat"
  legInsRemain :: "nat \<Rightarrow> 'l \<Rightarrow> nat"
  legInstructionNum :: "nat \<Rightarrow> u32 \<Rightarrow> 'l \<Rightarrow> HcclResult \<times> u32"
  legMissionNum :: "nat \<Rightarrow> u32 \<Rightarrow> 'l \<Rightarrow> HcclResult \<times> u32"
  legMissionKey :: "nat \<Rightarrow> u32 \<Rightarrow> 'l \<Rightarrow> HcclResult \<times> u32"
  legXnBaseAddr :: "nat \<Rightarrow> u64 \<Rightarrow> 'l \<Rightarrow> HcclResult \<times> u64"
  legSpaceBuf :: "nat \<Rightarrow> u64 \<Rightarrow> u64 \<Rightarrow> 'l \<Rightarrow> HcclResult \<times> u64 \<times> u64"
  legSpaceToken :: "nat \<Rightarrow> u64 \<times> u64 \<Rightarrow> 'l \<Rightarrow> HcclResult \<times> u64 \<times> u64"
  legLoopChannelId :: "nat \<Rightarrow> nat \<Rightarrow> 'l \<Rightarrow> HcclResult \<times> nat"
  legAllocChannels :: "nat \<Rightarrow> ChannelPara \<Rightarrow> 'l \<Rightarrow> HcclResult \<times> ChannelInfo list option \<times> 'l"
  legConfigChannel :: "nat \<Rightarrow> ChannelCfg \<Rightarrow> 'l \<Rightarrow> HcclResult \<times> 'l"
  legReleaseChannel :: "nat \<Rightarrow> nat \<Rightarrow> 'l \<Rightarrow> HcclResult \<times> 'l"
  legAllocIns :: "nat \<Rightarrow> nat \<Rightarrow> ResInfo \<Rightarrow> 'l \<Rightarrow> HcclResult \<times> ResInfo \<times> 'l"
  legReleaseIns :: "nat \<Rightarrow> ResInfo \<Rightarrow> 'l \<Rightarrow> HcclResult \<times> 'l"
  legAllocCke :: "nat \<Rightarrow> nat \<Rightarrow> 'l \<Rightarrow> HcclResult \<times> ResInfo list \<times> 'l"
  legReleaseCke :: "nat \<Rightarrow> ResInfo list \<Rightarrow> 'l \<Rightarrow> HcclResult \<times> 'l"
  legAllocXn :: "nat \<Rightarrow> nat \<Rightarrow> 'l \<Rightarrow> HcclResult \<times> ResInfo list \<times> 'l"
  legReleaseXn :: "nat \<Rightarrow> ResInfo list \<Rightarrow> 'l \<Rightarrow> HcclResult \<times> 'l"
  legSetTaskKill :: "'l \<Rightarrow> HcclResult \<times> 'l"
  legSetTaskKillDone :: "'l \<Rightarrow> HcclResult \<times> 'l"
  legCleanTaskKillState :: "'l \<Rightarrow> HcclResult \<times> 'l"
  legCleanDieCkes :: "nat \<Rightarrow> 'l \<Rightarrow> HcclResult \<times> 'l"

text \<open>What a call depends on: the device number, \<^verbatim>\<open>CheckCcuOpenSourceEnable\<close>, the drivers and the legacy functions.\<close>

record 'l CcuEnv =
  envUserDevId :: int
  envOpenSource :: bool
  envDriver :: CcuDriver
  envChan :: CcuChannelDriver
  envLegacy :: "'l LegacyCcu"

text \<open>The singletons of one device, and \<^verbatim>\<open>mainBoardType\<close>, which each thread keeps.\<close>

record 'l CcuDev =
  devSpecs :: CcuResSpecifications
  devComp :: CcuComponent
  devBatch :: CcuResBatchAllocator
  devLegacy :: 'l
  mainBoardType :: HcclMainboardId

definition MAX_MODULE_DEVICE_NUM :: int where "MAX_MODULE_DEVICE_NUM = 65"

definition comp_call ::
  "'l CcuEnv \<Rightarrow> (CcuComponent \<Rightarrow> HcclResult \<times> CcuComponent) \<Rightarrow> ('l LegacyCcu \<Rightarrow> 'l \<Rightarrow> HcclResult \<times> 'l) \<Rightarrow> 'l CcuDev \<Rightarrow> HcclResult \<times> 'l CcuDev" where
  "comp_call env f g dev =
    (if envOpenSource env then (case f (devComp dev) of (ret, c) \<Rightarrow> (ret, dev\<lparr>devComp := c\<rparr>))
     else (case g (envLegacy env) (devLegacy dev) of (ret, l) \<Rightarrow> (ret, dev\<lparr>devLegacy := l\<rparr>)))"

definition comp_out ::
  "'l CcuEnv \<Rightarrow> (CcuComponent \<Rightarrow> HcclResult \<times> 'o \<times> CcuComponent) \<Rightarrow> ('l LegacyCcu \<Rightarrow> 'l \<Rightarrow> HcclResult \<times> 'o \<times> 'l)
    \<Rightarrow> 'l CcuDev \<Rightarrow> HcclResult \<times> 'o \<times> 'l CcuDev" where
  "comp_out env f g dev =
    (if envOpenSource env then (case f (devComp dev) of (ret, out, c) \<Rightarrow> (ret, out, dev\<lparr>devComp := c\<rparr>))
     else (case g (envLegacy env) (devLegacy dev) of (ret, out, l) \<Rightarrow> (ret, out, dev\<lparr>devLegacy := l\<rparr>)))"

subsection \<open>Handles\<close>

definition CcuDevMgrImp_GetCcuVersion :: "'l CcuEnv \<Rightarrow> 'l CcuDev \<Rightarrow> HcclResult \<times> CcuVersion" where
  "CcuDevMgrImp_GetCcuVersion env dev =
    (HCCL_SUCCESS, if envOpenSource env then ccuVersion (devSpecs dev) else legCcuVersion (envLegacy env) (devLegacy dev))"

text \<open>\<open>newPtr\<close> is the address of the repository that the batch allocator creates.\<close>

definition CcuDevMgrImp_AllocResHandle :: "'l CcuEnv \<Rightarrow> nat \<Rightarrow> CcuResReq \<Rightarrow> nat \<Rightarrow> 'l CcuDev \<Rightarrow> HcclResult \<times> nat \<times> 'l CcuDev" where
  "CcuDevMgrImp_AllocResHandle env newPtr resReq resHandle dev =
    (if envOpenSource env
     then (case AllocResHandle (envChan env) (envOpenSource env) (devSpecs dev) newPtr resReq resHandle (devBatch dev) (devComp dev) of
            (ret, h, b, c) \<Rightarrow> (ret, h, dev\<lparr>devBatch := b, devComp := c\<rparr>))
     else (case legAllocResHandle (envLegacy env) resReq resHandle (devLegacy dev) of (ret, h, l) \<Rightarrow> (ret, h, dev\<lparr>devLegacy := l\<rparr>)))"

definition CcuDevMgrImp_ReleaseResHandle :: "'l CcuEnv \<Rightarrow> nat \<Rightarrow> 'l CcuDev \<Rightarrow> HcclResult \<times> 'l CcuDev" where
  "CcuDevMgrImp_ReleaseResHandle env resHandle dev =
    (if envOpenSource env
     then (case ReleaseResHandle (envChan env) (envOpenSource env) resHandle (devBatch dev) (devComp dev) of
            (ret, b, c) \<Rightarrow> (ret, dev\<lparr>devBatch := b, devComp := c\<rparr>))
     else (case legReleaseResHandle (envLegacy env) resHandle (devLegacy dev) of (ret, l) \<Rightarrow> (ret, dev\<lparr>devLegacy := l\<rparr>)))"

definition CcuDevMgrImp_GetResource :: "'l CcuEnv \<Rightarrow> nat \<Rightarrow> CcuResRepository \<Rightarrow> 'l CcuDev \<Rightarrow> HcclResult \<times> CcuResRepository" where
  "CcuDevMgrImp_GetResource env resHandle repo dev =
    (if envOpenSource env then GetResource resHandle repo (devBatch dev)
     else legGetResource (envLegacy env) resHandle repo (devLegacy dev))"

definition CcuDevMgrImp_QueryRemainRes :: "'l CcuEnv \<Rightarrow> nat \<Rightarrow> ResType \<Rightarrow> nat \<Rightarrow> 'l CcuDev \<Rightarrow> HcclResult \<times> nat" where
  "CcuDevMgrImp_QueryRemainRes env dieId resType remainNum dev =
    (if envOpenSource env then QueryRemainRes dieId resType remainNum (devBatch dev)
     else legQueryRemainRes (envLegacy env) dieId resType remainNum (devLegacy dev))"

definition CcuCheckResource :: "'l CcuEnv \<Rightarrow> nat \<Rightarrow> CcuResRepository \<Rightarrow> 'l CcuDev \<Rightarrow> nat \<times> CcuResRepository" where
  "CcuCheckResource env resHandle repo dev =
    (case CcuDevMgrImp_GetResource env resHandle repo dev of (ret, repo) \<Rightarrow> (hccl_code ret, repo))"

definition CcuReleaseResHandle :: "'l CcuEnv \<Rightarrow> nat \<Rightarrow> 'l CcuDev \<Rightarrow> HcclResult \<times> 'l CcuDev" where
  "CcuReleaseResHandle env resHandle dev = CcuDevMgrImp_ReleaseResHandle env resHandle dev"

subsection \<open>Dies and totals\<close>

definition CcuGetDieEnableInfo :: "'l CcuEnv \<Rightarrow> nat \<Rightarrow> bool \<Rightarrow> 'l CcuDev \<Rightarrow> nat \<times> bool" where
  "CcuGetDieEnableInfo env dieId enableFlag dev =
    (if dieId \<ge> CCU_MAX_IODIE_NUM then (ccu_code CCU_E_PARA, enableFlag)
     else (ccu_code CCU_SUCCESS,
           (if envOpenSource env then compDieFlags (devComp dev) else legDieEnableFlags (envLegacy env) (devLegacy dev)) ! dieId))"

definition GetAllocatableMaxNum :: "ResType \<Rightarrow> 'l CcuEnv \<Rightarrow> nat \<Rightarrow> nat \<Rightarrow> 'l CcuDev \<Rightarrow> HcclResult \<times> nat" where
  "GetAllocatableMaxNum resType env dieId n dev =
    (if envOpenSource env then GetAllocatableMaxBlockResNum resType dieId n (devBatch dev)
     else legMaxBlockResNum (envLegacy env) resType dieId n (devLegacy dev))"

definition GetAllocatableMaxLoopEngineNum :: "'l CcuEnv \<Rightarrow> nat \<Rightarrow> nat \<Rightarrow> 'l CcuDev \<Rightarrow> HcclResult \<times> nat" where
  "GetAllocatableMaxLoopEngineNum = GetAllocatableMaxNum ResType_LOOP"

definition GetAllocatableMaxMsNum :: "'l CcuEnv \<Rightarrow> nat \<Rightarrow> nat \<Rightarrow> 'l CcuDev \<Rightarrow> HcclResult \<times> nat" where
  "GetAllocatableMaxMsNum = GetAllocatableMaxNum ResType_MS"

definition GetAllocatableMaxCkeNum :: "'l CcuEnv \<Rightarrow> nat \<Rightarrow> nat \<Rightarrow> 'l CcuDev \<Rightarrow> HcclResult \<times> nat" where
  "GetAllocatableMaxCkeNum = GetAllocatableMaxNum ResType_CKE"

definition GetAllocatableMaxXnNum :: "'l CcuEnv \<Rightarrow> nat \<Rightarrow> nat \<Rightarrow> 'l CcuDev \<Rightarrow> HcclResult \<times> nat" where
  "GetAllocatableMaxXnNum = GetAllocatableMaxNum ResType_XN"

definition GetAllocatableMaxGsaNum :: "'l CcuEnv \<Rightarrow> nat \<Rightarrow> nat \<Rightarrow> 'l CcuDev \<Rightarrow> HcclResult \<times> nat" where
  "GetAllocatableMaxGsaNum = GetAllocatableMaxNum ResType_GSA"

definition GetResSpecsInstructionNum :: "'l CcuEnv \<Rightarrow> nat \<Rightarrow> u32 \<Rightarrow> 'l CcuDev \<Rightarrow> HcclResult \<times> u32" where
  "GetResSpecsInstructionNum env dieId n dev =
    (if envOpenSource env then GetInstructionNum (devSpecs dev) dieId n
     else legInstructionNum (envLegacy env) dieId n (devLegacy dev))"

definition GetResSpecsMissionNum :: "'l CcuEnv \<Rightarrow> nat \<Rightarrow> u32 \<Rightarrow> 'l CcuDev \<Rightarrow> HcclResult \<times> u32" where
  "GetResSpecsMissionNum env dieId n dev =
    (if envOpenSource env then GetMissionNum (devSpecs dev) dieId n
     else legMissionNum (envLegacy env) dieId n (devLegacy dev))"

definition GetResSpecsCascCntNum :: "'l CcuEnv \<Rightarrow> nat \<Rightarrow> u32 \<Rightarrow> 'l CcuDev \<Rightarrow> HcclResult \<times> u32" where
  "GetResSpecsCascCntNum env dieId n dev =
    (if \<not> envOpenSource env then (HCCL_SUCCESS, 0) else GetCascCntNum (devSpecs dev) dieId n)"

definition as_ccu :: "HcclResult \<times> 'o \<Rightarrow> nat \<times> 'o" where
  "as_ccu r = (case r of (ret, out) \<Rightarrow> (hccl_code ret, out))"

definition CcuGetLoopEngineNum :: "'l CcuEnv \<Rightarrow> nat \<Rightarrow> nat \<Rightarrow> 'l CcuDev \<Rightarrow> nat \<times> nat" where
  "CcuGetLoopEngineNum env dieId n dev = as_ccu (GetAllocatableMaxLoopEngineNum env dieId n dev)"

definition CcuGetMsNum :: "'l CcuEnv \<Rightarrow> nat \<Rightarrow> nat \<Rightarrow> 'l CcuDev \<Rightarrow> nat \<times> nat" where
  "CcuGetMsNum env dieId n dev = as_ccu (GetAllocatableMaxMsNum env dieId n dev)"

definition CcuGetCkeNum :: "'l CcuEnv \<Rightarrow> nat \<Rightarrow> nat \<Rightarrow> 'l CcuDev \<Rightarrow> nat \<times> nat" where
  "CcuGetCkeNum env dieId n dev = as_ccu (GetAllocatableMaxCkeNum env dieId n dev)"

definition CcuGetXnNum :: "'l CcuEnv \<Rightarrow> nat \<Rightarrow> nat \<Rightarrow> 'l CcuDev \<Rightarrow> nat \<times> nat" where
  "CcuGetXnNum env dieId n dev = as_ccu (GetAllocatableMaxXnNum env dieId n dev)"

definition CcuGetGsaNum :: "'l CcuEnv \<Rightarrow> nat \<Rightarrow> nat \<Rightarrow> 'l CcuDev \<Rightarrow> nat \<times> nat" where
  "CcuGetGsaNum env dieId n dev = as_ccu (GetAllocatableMaxGsaNum env dieId n dev)"

definition CcuGetInstructionNum :: "'l CcuEnv \<Rightarrow> nat \<Rightarrow> u32 \<Rightarrow> 'l CcuDev \<Rightarrow> nat \<times> u32" where
  "CcuGetInstructionNum env dieId n dev = as_ccu (GetResSpecsInstructionNum env dieId n dev)"

definition CcuGetMissionNum :: "'l CcuEnv \<Rightarrow> nat \<Rightarrow> u32 \<Rightarrow> 'l CcuDev \<Rightarrow> nat \<times> u32" where
  "CcuGetMissionNum env dieId n dev = as_ccu (GetResSpecsMissionNum env dieId n dev)"

definition CcuGetCascCntNum :: "'l CcuEnv \<Rightarrow> nat \<Rightarrow> u32 \<Rightarrow> 'l CcuDev \<Rightarrow> nat \<times> u32" where
  "CcuGetCascCntNum env dieId n dev = as_ccu (GetResSpecsCascCntNum env dieId n dev)"

definition CcuGetMainboardType :: "'l CcuEnv \<Rightarrow> HcclMainboardId \<Rightarrow> HcclResult \<times> HcclMainboardId" where
  "CcuGetMainboardType env m = CcuGetMainboardId (envDriver env) (envUserDevId env) m"

subsection \<open>Requests by descriptors\<close>

definition FillResReqByResDesc :: "CcuResReq \<Rightarrow> nat \<Rightarrow> CcuResDesc \<Rightarrow> nat \<times> CcuResReq" where
  "FillResReqByResDesc r d desc =
    (case CcuResDesc_QueryResNum ResType_LOOP 0 desc of (ret, n) \<Rightarrow>
     if ret \<noteq> 0 then (ret, r)
     else let r = r\<lparr>blockLoopEngineReq := (blockLoopEngineReq r)(d := n)\<rparr> in
     case CcuResDesc_QueryResNum ResType_MS n desc of (ret, n) \<Rightarrow>
     if ret \<noteq> 0 then (ret, r)
     else let r = r\<lparr>blockMsReq := (blockMsReq r)(d := n)\<rparr> in
     case CcuResDesc_QueryResNum ResType_CKE n desc of (ret, n) \<Rightarrow>
     if ret \<noteq> 0 then (ret, r)
     else let r = r\<lparr>blockCkeReq := (blockCkeReq r)(d := n)\<rparr> in
     case CcuResDesc_QueryResNum ResType_XN n desc of (ret, n) \<Rightarrow>
     if ret \<noteq> 0 then (ret, r)
     else let r = r\<lparr>blockXnReq := (blockXnReq r)(d := n)\<rparr> in
     case CcuResDesc_QueryResNum ResType_GSA n desc of (ret, n) \<Rightarrow>
     if ret \<noteq> 0 then (ret, r)
     else let r = r\<lparr>blockGsaReq := (blockGsaReq r)(d := n)\<rparr> in
     case CcuResDesc_QueryResNum ResType_CASC_CNT n desc of (ret, n) \<Rightarrow>
     if ret \<noteq> 0 then (ret, r)
     else let r = r\<lparr>cascCntReq := (cascCntReq r)(d := n)\<rparr> in
     (ccu_code CCU_SUCCESS,
      r\<lparr>loopEngineReq := (loopEngineReq r)(d := 0), msReq := (msReq r)(d := 0), ckeReq := (ckeReq r)(d := 0),
        xnReq := (xnReq r)(d := 0), gsaReq := (gsaReq r)(d := 0)\<rparr>))"

fun CheckEnabledDies_loop :: "'l CcuEnv \<Rightarrow> 'l CcuDev \<Rightarrow> nat list \<Rightarrow> bool list \<Rightarrow> nat \<times> bool list" where
  "CheckEnabledDies_loop env dev [] flags = (ccu_code CCU_SUCCESS, flags)"
| "CheckEnabledDies_loop env dev (dieId # dies) flags =
    (case CcuGetDieEnableInfo env dieId (flags ! dieId) dev of (ret, enableFlag) \<Rightarrow>
       let flags = flags[dieId := enableFlag]
       in if ret \<noteq> 0 then (ret, flags) else CheckEnabledDies_loop env dev dies flags)"

definition CheckEnabledDies :: "'l CcuEnv \<Rightarrow> 'l CcuDev \<Rightarrow> nat \<times> bool list" where
  "CheckEnabledDies env dev =
    (case CheckEnabledDies_loop env dev DIES [False, False] of (ret, flags) \<Rightarrow>
       if ret \<noteq> 0 then (ret, flags)
       else if \<not> flags ! 0 \<and> \<not> flags ! 1 then (ccu_code CCU_E_INTERNAL, flags)
       else (ccu_code CCU_SUCCESS, flags))"

text \<open>A pointer of the array is an option. The die of a descriptor has 32 bits and is cut to 8.\<close>

fun BuildResReqByDescs_loop :: "CcuResDesc option list \<Rightarrow> CcuResReq \<Rightarrow> nat \<Rightarrow> nat \<times> CcuResReq \<times> nat" where
  "BuildResReqByDescs_loop [] r maxMissionReq = (ccu_code CCU_SUCCESS, r, maxMissionReq)"
| "BuildResReqByDescs_loop (p # descs) r maxMissionReq =
    (case p of
       None \<Rightarrow> (ccu_code CCU_E_PARA, r, maxMissionReq)
     | Some desc \<Rightarrow>
         let dieId = descDieId desc mod 2 ^ 8
         in if dieId \<ge> CCU_MAX_IODIE_NUM then (ccu_code CCU_E_PARA, r, maxMissionReq)
            else case FillResReqByResDesc r dieId desc of (ret, r) \<Rightarrow>
              if ret \<noteq> 0 then (ret, r, maxMissionReq)
              else case CcuResDesc_QueryResNum ResType_MISSION 0 desc of (ret, missions) \<Rightarrow>
                if ret \<noteq> 0 then (ret, r, maxMissionReq)
                else BuildResReqByDescs_loop descs r (if missions > maxMissionReq then missions else maxMissionReq))"

definition BuildResReqByDescs :: "CcuResDesc option list \<Rightarrow> bool list \<Rightarrow> nat \<times> CcuResReq" where
  "BuildResReqByDescs descs flags =
    (let r = CcuResReq_new\<lparr>missionReq := (missionReq CcuResReq_new)\<lparr>mreqType := FUSION_MULTIPLE_DIE\<rparr>\<rparr>
     in case BuildResReqByDescs_loop descs r 0 of (ret, r, maxMissionReq) \<Rightarrow>
       if ret \<noteq> 0 then (ret, r)
       else if maxMissionReq > 0
         then (ccu_code CCU_SUCCESS,
               fold (\<lambda>d r. if flags ! d
                      then r\<lparr>missionReq := (missionReq r)\<lparr>mreq := (mreq (missionReq r))(d := maxMissionReq)\<rparr>\<rparr> else r) DIES r)
         else (ccu_code CCU_SUCCESS, r))"

text \<open>The first use of the main board type in a thread reads it.\<close>

definition read_mainboard :: "'l CcuEnv \<Rightarrow> 'l CcuDev \<Rightarrow> nat \<times> 'l CcuDev" where
  "read_mainboard env dev =
    (if mainBoardType dev = MAINBOARD_OTHERS
     then (case CcuGetMainboardId (envDriver env) (envUserDevId env) (mainBoardType dev) of (ret, m) \<Rightarrow>
            (hccl_code ret, dev\<lparr>mainBoardType := m\<rparr>))
     else (ccu_code CCU_SUCCESS, dev))"

text \<open>\<^verbatim>\<open>descs\<close> is an option (none for \<^verbatim>\<open>nullptr\<close>), \<^verbatim>\<open>descNum\<close> the length of the list.\<close>

definition CcuAllocResHandleByResDescs ::
  "'l CcuEnv \<Rightarrow> nat \<Rightarrow> CcuResDesc option list option \<Rightarrow> nat \<Rightarrow> 'l CcuDev \<Rightarrow> nat \<times> nat \<times> 'l CcuDev" where
  "CcuAllocResHandleByResDescs env newPtr descs resHandle dev =
    (case descs of
       None \<Rightarrow> (ccu_code CCU_E_PARA, resHandle, dev)
     | Some descs \<Rightarrow>
         if length descs = 0 \<or> length descs > CCU_MAX_IODIE_NUM then (ccu_code CCU_E_PARA, resHandle, dev)
         else case CheckEnabledDies env dev of (ret, flags) \<Rightarrow>
           if ret \<noteq> 0 then (ret, resHandle, dev)
           else case BuildResReqByDescs descs flags of (ret, resReq) \<Rightarrow>
             if ret \<noteq> 0 then (ret, resHandle, dev)
             else case read_mainboard env dev of (ret, dev) \<Rightarrow>
               if ret \<noteq> 0 then (ret, resHandle, dev)
               else case CcuDevMgrImp_AllocResHandle env newPtr resReq resHandle dev of (ret, h, dev) \<Rightarrow>
                 (hccl_code ret, h, dev))"

subsection \<open>Requests by instance type\<close>

definition CCU_MS :: nat where "CCU_MS = 2"
definition CCU_UNUSED :: nat where "CCU_UNUSED = 254"

definition ConfigCcuResReqCcuMs :: "CcuVersion \<Rightarrow> nat \<Rightarrow> CcuResReq \<Rightarrow> CcuResReq" where
  "ConfigCcuResReqCcuMs version d r =
    (let r = r\<lparr>loopEngineReq := (loopEngineReq r)(d := 0), blockLoopEngineReq := (blockLoopEngineReq r)(d := 8 * 8 * 2),
               msReq := (msReq r)(d := 0), blockMsReq := (blockMsReq r)(d := 64 * 8 * 2),
               ckeReq := (ckeReq r)(d := 0), blockCkeReq := (blockCkeReq r)(d := 32 + 8 * 8 * 2),
               xnReq := (xnReq r)(d := 0), gsaReq := (gsaReq r)(d := 0)\<rparr>;
         r = (if version = CCU_V2
              then r\<lparr>blockXnReq := (blockXnReq r)(d := 400 * 2), blockGsaReq := (blockGsaReq r)(d := 0)\<rparr>
              else r\<lparr>blockXnReq := (blockXnReq r)(d := 400), blockGsaReq := (blockGsaReq r)(d := 400)\<rparr>)
     in r\<lparr>missionReq := \<lparr>mreqType = FUSION_MULTIPLE_DIE, mreq = (mreq (missionReq r))(d := 2)\<rparr>\<rparr>)"

definition ConfigCcuResReqCcuSched :: "CcuVersion \<Rightarrow> nat \<Rightarrow> CcuResReq \<Rightarrow> CcuResReq" where
  "ConfigCcuResReqCcuSched version d r =
    (let r = r\<lparr>loopEngineReq := (loopEngineReq r)(d := 0), blockLoopEngineReq := (blockLoopEngineReq r)(d := 16),
               msReq := (msReq r)(d := 0), blockMsReq := (blockMsReq r)(d := 128),
               ckeReq := (ckeReq r)(d := 0), blockCkeReq := (blockCkeReq r)(d := 32 + 16),
               xnReq := (xnReq r)(d := 0), gsaReq := (gsaReq r)(d := 0)\<rparr>;
         r = (if version = CCU_V2
              then r\<lparr>blockXnReq := (blockXnReq r)(d := 400 * 2), blockGsaReq := (blockGsaReq r)(d := 0)\<rparr>
              else r\<lparr>blockXnReq := (blockXnReq r)(d := 400), blockGsaReq := (blockGsaReq r)(d := 400)\<rparr>)
     in r\<lparr>missionReq := \<lparr>mreqType = FUSION_MULTIPLE_DIE, mreq = (mreq (missionReq r))(d := 2)\<rparr>\<rparr>)"

definition ins_type_req :: "nat \<Rightarrow> CcuVersion \<Rightarrow> bool list \<Rightarrow> CcuResReq" where
  "ins_type_req ccuInsType version flags =
    fold (\<lambda>d r. if \<not> flags ! d then r
           else if ccuInsType = CCU_MS then ConfigCcuResReqCcuMs version d r
           else ConfigCcuResReqCcuSched version d r) DIES CcuResReq_new"

definition CcuAllocResHandleByInsType :: "'l CcuEnv \<Rightarrow> nat \<Rightarrow> nat \<Rightarrow> nat \<Rightarrow> 'l CcuDev \<Rightarrow> nat \<times> nat \<times> 'l CcuDev" where
  "CcuAllocResHandleByInsType env newPtr ccuInsType resHandle dev =
    (if ccuInsType \<ge> CCU_UNUSED then (ccu_code CCU_E_PARA, resHandle, dev)
     else case CheckEnabledDies_loop env dev DIES [False, False] of (ret, flags) \<Rightarrow>
       if ret \<noteq> 0 then (ret, resHandle, dev)
       else if \<not> flags ! 0 \<and> \<not> flags ! 1 then (ccu_code CCU_E_INTERNAL, resHandle, dev)
       else case CcuDevMgrImp_GetCcuVersion env dev of (ret, version) \<Rightarrow>
         if hccl_code ret \<noteq> 0 then (hccl_code ret, resHandle, dev)
         else if version = CcuVersion_INVALID then (ccu_code CCU_E_UNAVAIL, resHandle, dev)
         else
           let resReq = ins_type_req ccuInsType version flags
           in case read_mainboard env dev of (ret, dev) \<Rightarrow>
             if ret \<noteq> 0 then (ret, resHandle, dev)
             else if mainBoardType dev = MAINBOARD_PCIE_STD \<and> ccuInsType = CCU_MS
             then (ccu_code CCU_E_NOT_SUPPORT, resHandle, dev)
             else case CcuDevMgrImp_AllocResHandle env newPtr resReq resHandle dev of (ret, h, dev) \<Rightarrow>
               (hccl_code ret, h, dev))"

subsection \<open>Ids, channels and tasks\<close>

definition CcuDevMgrImp_AllocIns :: "'l CcuEnv \<Rightarrow> nat \<Rightarrow> nat \<Rightarrow> ResInfo \<Rightarrow> 'l CcuDev \<Rightarrow> HcclResult \<times> ResInfo \<times> 'l CcuDev" where
  "CcuDevMgrImp_AllocIns env dieId n insInfo = comp_out env (AllocIns dieId n insInfo) (\<lambda>leg. legAllocIns leg dieId n insInfo)"

definition CcuDevMgrImp_ReleaseIns :: "'l CcuEnv \<Rightarrow> nat \<Rightarrow> ResInfo \<Rightarrow> 'l CcuDev \<Rightarrow> HcclResult \<times> 'l CcuDev" where
  "CcuDevMgrImp_ReleaseIns env dieId insInfo = comp_call env (ReleaseIns dieId insInfo) (\<lambda>leg. legReleaseIns leg dieId insInfo)"

definition CcuDevMgrImp_GetInsConsecutiveRemainSize :: "'l CcuEnv \<Rightarrow> nat \<Rightarrow> 'l CcuDev \<Rightarrow> nat" where
  "CcuDevMgrImp_GetInsConsecutiveRemainSize env dieId dev =
    (if envOpenSource env then GetInsConsecutiveRemainSize dieId (devComp dev)
     else legInsRemain (envLegacy env) dieId (devLegacy dev))"

definition CcuDevMgrImp_GetCascCntBlockRemainSize :: "'l CcuEnv \<Rightarrow> nat \<Rightarrow> 'l CcuDev \<Rightarrow> nat" where
  "CcuDevMgrImp_GetCascCntBlockRemainSize env dieId dev =
    (if envOpenSource env then GetCascCntBlockRemainSize dieId (devComp dev) else 0)"

definition CcuDevMgrImp_AllocCke :: "'l CcuEnv \<Rightarrow> nat \<Rightarrow> nat \<Rightarrow> 'l CcuDev \<Rightarrow> HcclResult \<times> ResInfo list \<times> 'l CcuDev" where
  "CcuDevMgrImp_AllocCke env dieId n = comp_out env (AllocCke dieId n) (\<lambda>leg. legAllocCke leg dieId n)"

definition CcuDevMgrImp_ReleaseCke :: "'l CcuEnv \<Rightarrow> nat \<Rightarrow> ResInfo list \<Rightarrow> 'l CcuDev \<Rightarrow> HcclResult \<times> 'l CcuDev" where
  "CcuDevMgrImp_ReleaseCke env dieId ckeInfos = comp_call env (ReleaseCke dieId ckeInfos) (\<lambda>leg. legReleaseCke leg dieId ckeInfos)"

definition CcuDevMgrImp_AllocXn :: "'l CcuEnv \<Rightarrow> nat \<Rightarrow> nat \<Rightarrow> 'l CcuDev \<Rightarrow> HcclResult \<times> ResInfo list \<times> 'l CcuDev" where
  "CcuDevMgrImp_AllocXn env dieId n = comp_out env (AllocXn dieId n) (\<lambda>leg. legAllocXn leg dieId n)"

definition CcuDevMgrImp_ReleaseXn :: "'l CcuEnv \<Rightarrow> nat \<Rightarrow> ResInfo list \<Rightarrow> 'l CcuDev \<Rightarrow> HcclResult \<times> 'l CcuDev" where
  "CcuDevMgrImp_ReleaseXn env dieId xnInfos = comp_call env (ReleaseXn dieId xnInfos) (\<lambda>leg. legReleaseXn leg dieId xnInfos)"

definition CcuDevMgrImp_GetCcuResourceSpaceBufInfo :: "'l CcuEnv \<Rightarrow> nat \<Rightarrow> u64 \<Rightarrow> u64 \<Rightarrow> 'l CcuDev \<Rightarrow> HcclResult \<times> u64 \<times> u64" where
  "CcuDevMgrImp_GetCcuResourceSpaceBufInfo env dieId addr sz dev =
    (if envOpenSource env then GetCcuResourceSpaceBufInfo dieId addr sz (devComp dev)
     else legSpaceBuf (envLegacy env) dieId addr sz (devLegacy dev))"

definition CcuDevMgrImp_GetCcuResourceSpaceTokenInfo :: "'l CcuEnv \<Rightarrow> nat \<Rightarrow> u64 \<times> u64 \<Rightarrow> 'l CcuDev \<Rightarrow> HcclResult \<times> u64 \<times> u64" where
  "CcuDevMgrImp_GetCcuResourceSpaceTokenInfo env dieId token dev =
    (if envOpenSource env then GetCcuResourceSpaceTokenInfo dieId token (devComp dev)
     else legSpaceToken (envLegacy env) dieId token (devLegacy dev))"

definition CcuDevMgrImp_ConfigChannel :: "'l CcuEnv \<Rightarrow> nat \<Rightarrow> ChannelCfg \<Rightarrow> 'l CcuDev \<Rightarrow> HcclResult \<times> 'l CcuDev" where
  "CcuDevMgrImp_ConfigChannel env dieId cfg = comp_call env (ConfigChannel (envChan env) dieId cfg) (\<lambda>leg. legConfigChannel leg dieId cfg)"

definition CcuDevMgrImp_GetLoopChannelId :: "'l CcuEnv \<Rightarrow> nat \<Rightarrow> nat \<Rightarrow> 'l CcuDev \<Rightarrow> HcclResult \<times> nat" where
  "CcuDevMgrImp_GetLoopChannelId env srcDieId dstDieId dev =
    (if envOpenSource env then GetLoopChannelId srcDieId dstDieId (devComp dev)
     else legLoopChannelId (envLegacy env) srcDieId dstDieId (devLegacy dev))"

text \<open>The answers about the address: of the conversion that is only printed, of the runtime for the physical id,
  and of the platform for the die and the function id of the address.\<close>

definition CcuAllocChannels ::
  "'l CcuEnv \<Rightarrow> HcclResult \<Rightarrow> HcclResult \<Rightarrow> HcclResult \<times> nat \<times> u32 \<Rightarrow> nat \<Rightarrow> nat \<Rightarrow> 'l CcuDev
    \<Rightarrow> HcclResult \<times> ChannelInfo list option \<times> 'l CcuDev" where
  "CcuAllocChannels env ipRet phyRet eidInfo jettys sqSize dev =
    (if ipRet \<noteq> HCCL_SUCCESS then (ipRet, None, dev)
     else if phyRet \<noteq> HCCL_SUCCESS then (phyRet, None, dev)
     else case eidInfo of (ret, eidDieId, funcId) \<Rightarrow>
       if ret \<noteq> HCCL_SUCCESS then (ret, None, dev)
       else
         let dieId = eidDieId mod 2 ^ 8;
             para = \<lparr>paraFeId = funcId, paraJettyNum = jettys, paraSqSize = sqSize\<rparr>
         in comp_out env (AllocChannels dieId para) (\<lambda>leg. legAllocChannels leg dieId para) dev)"

definition CcuReleaseChannel :: "'l CcuEnv \<Rightarrow> nat \<Rightarrow> nat \<Rightarrow> 'l CcuDev \<Rightarrow> HcclResult \<times> 'l CcuDev" where
  "CcuReleaseChannel env dieId channelId =
    comp_call env (ReleaseChannel (envChan env) dieId channelId) (\<lambda>leg. legReleaseChannel leg dieId channelId)"

definition CcuDevMgrImp_GetMissionKey :: "'l CcuEnv \<Rightarrow> nat \<Rightarrow> u32 \<Rightarrow> 'l CcuDev \<Rightarrow> HcclResult \<times> u32" where
  "CcuDevMgrImp_GetMissionKey env dieId k dev =
    (if envOpenSource env then GetMissionKey (devSpecs dev) dieId k else legMissionKey (envLegacy env) dieId k (devLegacy dev))"

definition CcuDevMgrImp_GetXnBaseAddr :: "'l CcuEnv \<Rightarrow> nat \<Rightarrow> u64 \<Rightarrow> 'l CcuDev \<Rightarrow> HcclResult \<times> u64" where
  "CcuDevMgrImp_GetXnBaseAddr env dieId addr dev =
    (if envOpenSource env then GetXnBaseAddr (devSpecs dev) dieId addr else legXnBaseAddr (envLegacy env) dieId addr (devLegacy dev))"

definition CcuDevMgrImp_GetCkeBaseAddr :: "'l CcuEnv \<Rightarrow> nat \<Rightarrow> u64 \<Rightarrow> 'l CcuDev \<Rightarrow> HcclResult \<times> u64" where
  "CcuDevMgrImp_GetCkeBaseAddr env dieId addr dev =
    (if \<not> envOpenSource env then (HCCL_E_NOT_SUPPORT, addr) else GetCkeBaseAddr (devSpecs dev) dieId addr)"

text \<open>An id has 16 bits here.\<close>

definition CcuDevMgrImp_GetXnOffsetCcumAddrById :: "'l CcuEnv \<Rightarrow> nat \<Rightarrow> u16 \<Rightarrow> u64 \<Rightarrow> 'l CcuDev \<Rightarrow> HcclResult \<times> u64" where
  "CcuDevMgrImp_GetXnOffsetCcumAddrById env dieId xnId addr dev =
    (if \<not> envOpenSource env then (HCCL_E_NOT_SUPPORT, addr) else GetXnOffsetCcumAddrById (devSpecs dev) dieId (ucast xnId) addr)"

definition CcuDevMgrImp_GetCkeOffsetCcumAddrById :: "'l CcuEnv \<Rightarrow> nat \<Rightarrow> u16 \<Rightarrow> u64 \<Rightarrow> 'l CcuDev \<Rightarrow> HcclResult \<times> u64" where
  "CcuDevMgrImp_GetCkeOffsetCcumAddrById env dieId ckeId addr dev =
    (if \<not> envOpenSource env then (HCCL_E_NOT_SUPPORT, addr) else GetCkeOffsetCcumAddrById (devSpecs dev) dieId (ucast ckeId) addr)"

definition bad_device :: "'l CcuEnv \<Rightarrow> bool" where
  "bad_device env \<longleftrightarrow> envUserDevId env < 0 \<or> envUserDevId env \<ge> MAX_MODULE_DEVICE_NUM"

definition CcuSetTaskKill :: "'l CcuEnv \<Rightarrow> 'l CcuDev \<Rightarrow> HcclResult \<times> 'l CcuDev" where
  "CcuSetTaskKill env dev =
    (if bad_device env then (HCCL_E_PARA, dev) else comp_call env (SetTaskKill (envChan env)) legSetTaskKill dev)"

definition CcuSetTaskKillDone :: "'l CcuEnv \<Rightarrow> 'l CcuDev \<Rightarrow> HcclResult \<times> 'l CcuDev" where
  "CcuSetTaskKillDone env dev =
    (if bad_device env then (HCCL_E_PARA, dev) else comp_call env (SetTaskKillDone (envChan env)) legSetTaskKillDone dev)"

definition CcuCleanTaskKillState :: "'l CcuEnv \<Rightarrow> 'l CcuDev \<Rightarrow> HcclResult \<times> 'l CcuDev" where
  "CcuCleanTaskKillState env dev =
    (if bad_device env then (HCCL_E_PARA, dev) else comp_call env (CleanTaskKillState (envChan env)) legCleanTaskKillState dev)"

definition CcuCleanDieCkes :: "'l CcuEnv \<Rightarrow> nat \<Rightarrow> 'l CcuDev \<Rightarrow> HcclResult \<times> 'l CcuDev" where
  "CcuCleanDieCkes env dieId dev =
    (if bad_device env then (HCCL_E_PARA, dev)
     else comp_call env (CleanDieCkes (envChan env) (devSpecs dev) dieId) (\<lambda>leg. legCleanDieCkes leg dieId) dev)"

definition CcuQueryTokenInfo :: "'l CcuEnv \<Rightarrow> u64 \<Rightarrow> u64 \<Rightarrow> u64 \<times> u64 \<Rightarrow> 'l CcuDev \<Rightarrow> CcuResult \<times> u64 \<times> u64" where
  "CcuQueryTokenInfo env srcVa sz token dev =
    (if \<not> envOpenSource env then (CCU_E_NOT_SUPPORT, token)
     else case QueryTokenInfo (devSpecs dev) srcVa sz token (devComp dev) of (ret, token) \<Rightarrow>
       (if ret = HCCL_E_NOT_FOUND then CCU_E_NOT_FOUND
        else if ret \<noteq> HCCL_SUCCESS then CCU_E_INTERNAL else CCU_SUCCESS, token))"

subsection \<open>What is left\<close>

text \<open>\<open>QueryRemainRes\<close> of the descriptor manager: each type of the array, in its order, then the instructions and
  the counting XN blocks.\<close>

fun QueryRemainRes_types :: "'l CcuEnv \<Rightarrow> nat \<Rightarrow> 'l CcuDev \<Rightarrow> ResType list \<Rightarrow> nat \<Rightarrow> CcuResDesc \<Rightarrow> nat \<times> CcuResDesc" where
  "QueryRemainRes_types env dieId dev [] remainNum desc = (ccu_code CCU_SUCCESS, desc)"
| "QueryRemainRes_types env dieId dev (t # types) remainNum desc =
    (case CcuDevMgrImp_QueryRemainRes env dieId t remainNum dev of (ret, remainNum) \<Rightarrow>
       if ret \<noteq> HCCL_SUCCESS then (ccu_code CCU_E_INTERNAL, desc)
       else case CcuResDesc_SetResNum t remainNum desc of (ret, desc) \<Rightarrow>
         if ret \<noteq> 0 then (ret, desc) else QueryRemainRes_types env dieId dev types remainNum desc)"

definition kResTypes :: "ResType list" where
  "kResTypes = [ResType_LOOP, ResType_MS, ResType_CKE, ResType_XN, ResType_GSA, ResType_MISSION]"

definition CcuResDescMgr_QueryRemainRes :: "'l CcuEnv \<Rightarrow> nat \<Rightarrow> 'l CcuDev \<Rightarrow> CcuResDescMgr \<Rightarrow> nat \<times> CcuResDescMgr" where
  "CcuResDescMgr_QueryRemainRes env h dev m =
    (case FindDesc h m of
       Inl ret \<Rightarrow> (ret, m)
     | Inr desc \<Rightarrow>
         let dieId = descDieId desc mod 2 ^ 8
         in case QueryRemainRes_types env dieId dev kResTypes 0 desc of (ret, desc) \<Rightarrow>
           if ret \<noteq> 0 then (ret, put_desc h desc m)
           else case CcuResDesc_SetResNum ResType_INS (CcuDevMgrImp_GetInsConsecutiveRemainSize env dieId dev) desc of (ret, desc) \<Rightarrow>
             if ret \<noteq> 0 then (ret, put_desc h desc m)
             else case CcuResDesc_SetResNum ResType_CASC_CNT (CcuDevMgrImp_GetCascCntBlockRemainSize env dieId dev) desc of (ret, desc) \<Rightarrow>
               (ret, put_desc h desc m))"

text \<open>\<open>inited\<close> is the answer of \<^verbatim>\<open>CcuIsInited\<close>.\<close>

definition HcommCcuQueryRemainResDesc :: "HcclResult \<Rightarrow> bool \<Rightarrow> 'l CcuEnv \<Rightarrow> nat \<Rightarrow> 'l CcuDev \<Rightarrow> CcuResDescMgr \<Rightarrow> nat \<times> CcuResDescMgr" where
  "HcommCcuQueryRemainResDesc refresh inited env h dev m =
    (if hccl_code refresh \<noteq> 0 then (hccl_code refresh, m)
     else if \<not> inited then (ccu_code CCU_E_UNAVAIL, m)
     else case CcuResDescMgr_QueryDieId h 0 m of (ret, dieId) \<Rightarrow>
       if ret \<noteq> 0 then (ret, m)
       else case CcuGetDieEnableInfo env (dieId mod 2 ^ 8) False dev of (ret, enableFlag) \<Rightarrow>
         if ret \<noteq> 0 then (ret, m)
         else if \<not> enableFlag then (ccu_code CCU_E_UNAVAIL, m)
         else CcuResDescMgr_QueryRemainRes env h dev m)"

end
