(* ===== verification/Device_Requests.thy ===== *)
theory Device_Requests
  imports Device_Manager Batch_Properties
begin

text \<open>
  What a request for the resources of an instance comes to, from the numbers the device manager derives to what the
  repository of the new handle holds.
\<close>

subsection \<open>The numbers of an instance type\<close>

text \<open>What an instance of each type needs on a die, as a table.\<close>

fun demand :: "nat \<Rightarrow> CcuVersion \<Rightarrow> ResType \<Rightarrow> nat" where
  "demand insType version ResType_LOOP = (if insType = CCU_MS then 128 else 16)"
| "demand insType version ResType_MS = (if insType = CCU_MS then 1024 else 128)"
| "demand insType version ResType_CKE = (if insType = CCU_MS then 160 else 48)"
| "demand insType version ResType_XN = (if version = CCU_V2 then 800 else 400)"
| "demand insType version ResType_GSA = (if version = CCU_V2 then 0 else 400)"
| "demand insType version ResType_MISSION = 2"
| "demand insType version _ = 0"

lemma block_types: "t \<in> set BLOCK_TYPES \<longleftrightarrow> t \<in> {ResType_LOOP, ResType_MS, ResType_CKE, ResType_XN, ResType_GSA}"
  by (auto simp: BLOCK_TYPES_def)

lemmas request_defs = ConfigCcuResReqCcuMs_def ConfigCcuResReqCcuSched_def CcuResReq_new_def Let_def

lemma ins_type_req_block:
  assumes "d < 2" and "t \<in> set BLOCK_TYPES"
  shows "block_req t (ins_type_req insType version flags) d = (if flags ! d then demand insType version t else 0)"
    and "single_req t (ins_type_req insType version flags) d = 0"
  using assms unfolding block_types
  by (auto simp: ins_type_req_def DIES_eq request_defs less_2_cases_iff)

lemma ins_type_req_rest:
  assumes "d < 2"
  shows "cascCntReq (ins_type_req insType version flags) d = 0"
    and "mreq (missionReq (ins_type_req insType version flags)) d = (if flags ! d then demand insType version ResType_MISSION else 0)"
  using assms by (auto simp: ins_type_req_def DIES_eq request_defs less_2_cases_iff)

lemma ins_type_req_u32: "req_u32 (ins_type_req insType version flags)"
proof -
  have "block_req t (ins_type_req insType version flags) d < 2 ^ 32" if "d < 2" for t d
    using ins_type_req_block(1) [OF that, of t] that by (cases t) (auto simp: block_types)
  then show ?thesis
    by (auto simp: req_u32_def ins_type_req_rest)
qed

lemma ins_type_met:
  assumes "request_met flags (ins_type_req insType version fl) r" and "\<And>d. d < 2 \<Longrightarrow> fl ! d = flags ! d"
  shows "\<forall>d<2. cascCntBlock r d = [] \<and> (flags ! d \<longrightarrow> (\<forall>t\<in>set BLOCK_TYPES.
    map num (repo_block t r d) = (let n = demand insType version t in if n = 0 then [] else [blocks_for n (bsize t) * bsize t])
    \<and> sum_list (map num (repo_single t r d)) = 0))"
proof (intro allI impI conjI ballI)
  fix d :: nat
  assume d: "d < 2"
  show "cascCntBlock r d = []"
    using assms(1) d by (simp add: request_met_def ins_type_req_rest)
  fix t
  assume t: "flags ! d" "t \<in> set BLOCK_TYPES"
  have "block_req t (ins_type_req insType version fl) d = demand insType version t" "single_req t (ins_type_req insType version fl) d = 0"
    using ins_type_req_block [OF d t(2)] assms(2) [OF d] t(1) by simp_all
  then show "map num (repo_block t r d) = (let n = demand insType version t in if n = 0 then [] else [blocks_for n (bsize t) * bsize t])"
    "sum_list (map num (repo_single t r d)) = 0"
    using assms(1) d t unfolding request_met_def block_met_def by (auto simp: Let_def split: if_splits)
qed

subsection \<open>A device with the component modelled here\<close>

definition on_device :: "'l CcuEnv \<Rightarrow> BatchSystem \<Rightarrow> 'l CcuDev \<Rightarrow> bool" where
  "on_device env s dev \<longleftrightarrow> envOpenSource env \<and> devBatch dev = sysBatch s \<and> devComp dev = sysComp s"

definition kept_device :: "'l CcuDev \<Rightarrow> 'l CcuDev \<Rightarrow> bool" where
  "kept_device dev dev' \<longleftrightarrow> same_resources (devBatch dev) (devComp dev) (devBatch dev') (devComp dev')"

lemma read_mainboard_keeps: "read_mainboard env dev = (ret, dev') \<Longrightarrow>
  devBatch dev' = devBatch dev \<and> devComp dev' = devComp dev \<and> devSpecs dev' = devSpecs dev"
  by (auto simp: read_mainboard_def split: if_splits prod.splits)

lemma enabled_flags:
  assumes "envOpenSource env"
  shows "CheckEnabledDies_loop env dev DIES [False, False] = (0, [compDieFlags (devComp dev) ! 0, compDieFlags (devComp dev) ! 1])"
  using assms by (simp add: DIES_eq CcuGetDieEnableInfo_def CCU_MAX_IODIE_NUM_def)

lemma device_request:
  assumes reach: "batch_reachable True (devSpecs dev) s" "specs_fit (devSpecs dev)" and dev: "on_device env s dev"
    and ptr: "ptr \<notin> fst ` set (handleMap (sysBatch s)) \<union> fst ` set (sysPending s)" and req: "req_u32 req"
    and call: "CcuDevMgrImp_AllocResHandle env ptr req h0 dev = (ret, h, dev')"
  shows "if ret = HCCL_SUCCESS
    then h = ptr \<and> CheckReqValid req (compDieFlags (devComp dev))
      \<and> (\<exists>r. handleMap (devBatch dev') = handleMap (devBatch dev) @ [(ptr, r)] \<and> request_met (compDieFlags (devComp dev)) req r)
    else kept_device dev dev'"
proof -
  have d: "envOpenSource env" "devBatch dev = sysBatch s" "devComp dev = sysComp s"
    using dev by (simp_all add: on_device_def)
  obtain b c where alloc: "AllocResHandle (envChan env) True (devSpecs dev) ptr req h0 (sysBatch s) (sysComp s) = (ret, h, b, c)"
    "dev' = dev\<lparr>devBatch := b, devComp := c\<rparr>"
    using call d by (auto simp: CcuDevMgrImp_AllocResHandle_def split: prod.splits)
  obtain g where "sys_inv True g s"
    using reachable_ledger [OF reach] .
  then have inv: "batch_inv True g (sysOthers s) (sys_ledger s) (sysBatch s) (sysComp s)"
    by (simp add: sys_inv_def)
  then have flags: "compDieFlags (sysComp s) = batchDieFlags (sysBatch s)"
    by (simp add: batch_inv_def)
  have k: "ptr \<notin> fst ` set (sys_ledger s)"
    using ptr unfolding fst_ledger .
  note cases = AllocResHandle_cases [OF inv k req alloc(1)]
  show ?thesis
  proof (cases "ret = HCCL_SUCCESS")
    case True
    have "batchDieFlags b = batchDieFlags (sysBatch s)"
      using cases True by simp
    moreover have "CheckReqValid req (batchDieFlags (sysBatch s))"
      using alloc(1) True by (auto simp: AllocResHandle_def split: if_splits)
    ultimately show ?thesis
      using request_cases [OF reach req ptr alloc(1)] True by (simp add: alloc(2) d flags)
  next
    case False
    then show ?thesis
      using cases by (simp add: kept_device_def alloc(2) d)
  qed
qed

subsection \<open>By instance type\<close>

text \<open>A request is refused before the allocator is asked, or is the request to the allocator.\<close>

definition asks_for :: "'l CcuEnv \<Rightarrow> nat \<Rightarrow> nat \<Rightarrow> 'l CcuDev \<Rightarrow> nat \<times> nat \<times> 'l CcuDev \<Rightarrow> CcuResReq \<Rightarrow> bool" where
  "asks_for env ptr h0 dev out req \<longleftrightarrow> (case out of (ret, h, dev') \<Rightarrow> \<exists>dev1. devBatch dev1 = devBatch dev \<and> devComp dev1 = devComp dev
    \<and> devSpecs dev1 = devSpecs dev \<and> (ret \<noteq> 0 \<and> h = h0 \<and> dev' = dev1
      \<or> (\<exists>e. CcuDevMgrImp_AllocResHandle env ptr req h0 dev1 = (e, h, dev') \<and> ret = hccl_code e)))"

lemma asks_forI:
  assumes "read_mainboard env dev = (e, dev1)"
  shows "r \<noteq> 0 \<Longrightarrow> asks_for env ptr h0 dev (r, h0, dev) req" and "r \<noteq> 0 \<Longrightarrow> asks_for env ptr h0 dev (r, h0, dev1) req"
    and "asks_for env ptr h0 dev (case CcuDevMgrImp_AllocResHandle env ptr req h0 dev1 of (ret, h, dev) \<Rightarrow> (hccl_code ret, h, dev)) req"
  using read_mainboard_keeps [OF assms] unfolding asks_for_def by (auto split: prod.splits intro: exI [of _ dev1])

text \<open>What a call that asks for a request leads to, in any reachable state.\<close>

lemma asked_outcome:
  assumes "batch_reachable True (devSpecs dev) s" and "specs_fit (devSpecs dev)" and "on_device env s dev"
    and "ptr \<notin> fst ` set (handleMap (sysBatch s)) \<union> fst ` set (sysPending s)" and "req_u32 req" and "asks_for env ptr h0 dev (ret, h, dev') req"
  shows "if ret = 0
    then h = ptr \<and> CheckReqValid req (compDieFlags (devComp dev))
      \<and> (\<exists>r. handleMap (devBatch dev') = handleMap (devBatch dev) @ [(ptr, r)] \<and> request_met (compDieFlags (devComp dev)) req r)
    else kept_device dev dev'"
proof -
  obtain dev1 where dev1: "devBatch dev1 = devBatch dev" "devComp dev1 = devComp dev" "devSpecs dev1 = devSpecs dev"
    and "ret \<noteq> 0 \<and> dev' = dev1 \<or> (\<exists>e. CcuDevMgrImp_AllocResHandle env ptr req h0 dev1 = (e, h, dev') \<and> ret = hccl_code e)"
    using assms(6) by (auto simp: asks_for_def)
  then consider "ret \<noteq> 0" "dev' = dev1" | e where "CcuDevMgrImp_AllocResHandle env ptr req h0 dev1 = (e, h, dev')" "ret = hccl_code e"
    by blast
  then show ?thesis
  proof cases
    case 1
    then show ?thesis
      using dev1 by (simp add: kept_device_def same_resources_def)
  next
    case (2 e)
    have "on_device env s dev1"
      using assms(3) dev1 by (simp add: on_device_def)
    then show ?thesis
      using device_request [OF _ _ _ assms(4,5) 2(1)] assms(1,2) dev1 2(2) by (simp add: kept_device_def split: if_splits)
  qed
qed

lemma ins_type_asks:
  assumes "envOpenSource env"
  shows "asks_for env ptr h0 dev (CcuAllocResHandleByInsType env ptr insType h0 dev)
    (ins_type_req insType (ccuVersion (devSpecs dev)) [compDieFlags (devComp dev) ! 0, compDieFlags (devComp dev) ! 1])"
proof -
  obtain e dev1 where board: "read_mainboard env dev = (e, dev1)"
    by fastforce
  then show ?thesis
    using asks_forI [OF board] assms by (simp add: CcuAllocResHandleByInsType_def enabled_flags CcuDevMgrImp_GetCcuVersion_def)
qed

lemma ins_type_refused:
  assumes "envOpenSource env" and "insType < CCU_UNUSED" and "CcuAllocResHandleByInsType env ptr insType h0 dev = (ret, h, dev')"
    and "read_mainboard env dev = (e, dev1)"
  shows "if \<not> compDieFlags (devComp dev) ! 0 \<and> \<not> compDieFlags (devComp dev) ! 1 then ret = ccu_code CCU_E_INTERNAL
    else if ccuVersion (devSpecs dev) = CcuVersion_INVALID then ret = ccu_code CCU_E_UNAVAIL
    else if e \<noteq> 0 then ret = e
    else mainBoardType dev1 = MAINBOARD_PCIE_STD \<and> insType = CCU_MS \<longrightarrow> ret = ccu_code CCU_E_NOT_SUPPORT"
  using assms by (auto simp: CcuAllocResHandleByInsType_def enabled_flags CcuDevMgrImp_GetCcuVersion_def)

text \<open>C14. On a device in any reachable state, a request for the resources of an instance type below
  \<^verbatim>\<open>CCU_UNUSED\<close> either succeeds or changes no resource. On success the new handle holds on each enabled die, for
  each type of blocks, one run of just enough whole blocks for the table of that instance type and version, no single ids and no
  counting XN blocks. It fails with \<^verbatim>\<open>CCU_E_INTERNAL\<close> when no die is enabled, otherwise with \<^verbatim>\<open>CCU_E_UNAVAIL\<close> for the version
  \<^verbatim>\<open>INVALID\<close>, otherwise with the error of reading the board type when that fails, and otherwise with \<^verbatim>\<open>CCU_E_NOT_SUPPORT\<close> for an MS
  instance on a standard PCIe board, whether the board type was known before or is read now.
\<close>

theorem instance_granted:
  assumes "batch_reachable True (devSpecs dev) s" and "specs_fit (devSpecs dev)" and "on_device env s dev"
    and "ptr \<notin> fst ` set (handleMap (sysBatch s)) \<union> fst ` set (sysPending s)" and "insType < CCU_UNUSED"
    and "CcuAllocResHandleByInsType env ptr insType h0 dev = (ret, h, dev')" and "read_mainboard env dev = (e, dev1)"
  shows "(if ret = 0
     then h = ptr \<and> (\<exists>r. handleMap (devBatch dev') = handleMap (devBatch dev) @ [(ptr, r)]
       \<and> (\<forall>d<2. cascCntBlock r d = [] \<and> (compDieFlags (devComp dev) ! d \<longrightarrow> (\<forall>t\<in>set BLOCK_TYPES.
           map num (repo_block t r d) = (let n = demand insType (ccuVersion (devSpecs dev)) t in if n = 0 then [] else [blocks_for n (bsize t) * bsize t])
           \<and> sum_list (map num (repo_single t r d)) = 0))))
     else kept_device dev dev')
    \<and> (if \<not> compDieFlags (devComp dev) ! 0 \<and> \<not> compDieFlags (devComp dev) ! 1 then ret = ccu_code CCU_E_INTERNAL
       else if ccuVersion (devSpecs dev) = CcuVersion_INVALID then ret = ccu_code CCU_E_UNAVAIL
       else if e \<noteq> 0 then ret = e
       else mainBoardType dev1 = MAINBOARD_PCIE_STD \<and> insType = CCU_MS \<longrightarrow> ret = ccu_code CCU_E_NOT_SUPPORT)"
proof -
  let ?flags = "[compDieFlags (devComp dev) ! 0, compDieFlags (devComp dev) ! 1]" and ?v = "ccuVersion (devSpecs dev)"
  have os: "envOpenSource env"
    using assms(3) by (simp add: on_device_def)
  have flag: "?flags ! d = compDieFlags (devComp dev) ! d" if "d < 2" for d
    using that by (auto simp: less_2_cases_iff)
  note outcome = asked_outcome [OF assms(1-4) ins_type_req_u32 ins_type_asks [OF os, of ptr h0 dev insType, unfolded assms(6)]]
  show ?thesis
  proof (cases "ret = 0")
    case True
    then obtain r where "h = ptr" "handleMap (devBatch dev') = handleMap (devBatch dev) @ [(ptr, r)]"
      "request_met (compDieFlags (devComp dev)) (ins_type_req insType ?v ?flags) r"
      using outcome by auto
    then show ?thesis
      unfolding if_P [OF True] using ins_type_met [OF _ flag] ins_type_refused [OF os assms(5-7)] by blast
  qed (use outcome ins_type_refused [OF os assms(5-7)] in simp)
qed

subsection \<open>By descriptors\<close>

text \<open>The descriptor that counts for a die is the last one that names it.\<close>

definition desc_for :: "nat \<Rightarrow> CcuResDesc list \<Rightarrow> CcuResDesc option" where
  "desc_for d descs = find (\<lambda>desc. descDieId desc mod 2 ^ 8 = d) (rev descs)"

definition desc_num :: "ResType \<Rightarrow> CcuResDesc \<Rightarrow> nat" where
  "desc_num t desc = resNum desc ! resType_u8 t"

definition asked :: "nat \<Rightarrow> ResType \<Rightarrow> CcuResDesc list \<Rightarrow> nat" where
  "asked d t descs = (case desc_for d descs of None \<Rightarrow> 0 | Some desc \<Rightarrow> desc_num t desc)"

text \<open>The missions are the same on every enabled die: the most that any descriptor asks for.\<close>

definition asked_missions :: "CcuResDesc list \<Rightarrow> nat" where
  "asked_missions descs = fold max (map (desc_num ResType_MISSION) descs) 0"

lemma QueryResNum_valid: "IsValidResType t \<Longrightarrow> CcuResDesc_QueryResNum t n desc = (0, desc_num t desc)"
  by (simp add: CcuResDesc_QueryResNum_def desc_num_def)

lemma req_missions [simp]:
  "block_req t (r\<lparr>missionReq := q\<rparr>) = block_req t r" "single_req t (r\<lparr>missionReq := q\<rparr>) = single_req t r"
  by (cases t; simp)+

lemma Fill_exact:
  "\<exists>r'. FillResReqByResDesc r d desc = (0, r') \<and> missionReq r' = missionReq r
    \<and> (\<forall>t\<in>set BLOCK_TYPES. \<forall>e. block_req t r' e = (if e = d then desc_num t desc else block_req t r e)
      \<and> single_req t r' e = (if e = d then 0 else single_req t r e))
    \<and> (\<forall>e. cascCntReq r' e = (if e = d then desc_num ResType_CASC_CNT desc else cascCntReq r e))"
  by (auto simp: FillResReqByResDesc_def QueryResNum_valid IsValidResType_def Let_def block_types)

definition req_is :: "(ResType \<Rightarrow> nat \<Rightarrow> nat) \<Rightarrow> (nat \<Rightarrow> nat) \<Rightarrow> CcuResReq \<Rightarrow> bool" where
  "req_is blocks missions r \<longleftrightarrow> (\<forall>t\<in>set BLOCK_TYPES. \<forall>d. block_req t r d = blocks t d \<and> single_req t r d = 0)
    \<and> (\<forall>d. cascCntReq r d = blocks ResType_CASC_CNT d) \<and> mreq (missionReq r) = missions"

lemma Build_loop_exact:
  assumes "\<forall>desc\<in>set descs. descDieId desc mod 2 ^ 8 < 2" and "req_is (\<lambda>t d. asked d t done_descs) missions r"
  shows "\<exists>r'. BuildResReqByDescs_loop (map Some descs) r m = (0, r', fold max (map (desc_num ResType_MISSION) descs) m)
    \<and> req_is (\<lambda>t d. asked d t (done_descs @ descs)) missions r'"
  using assms
proof (induction descs arbitrary: done_descs r m)
  case (Cons desc descs)
  let ?d = "descDieId desc mod 2 ^ 8"
  obtain r1 where fill: "FillResReqByResDesc r ?d desc = (0, r1)" "missionReq r1 = missionReq r"
    "\<forall>t\<in>set BLOCK_TYPES. \<forall>e. block_req t r1 e = (if e = ?d then desc_num t desc else block_req t r e)
      \<and> single_req t r1 e = (if e = ?d then 0 else single_req t r e)"
    "\<forall>e. cascCntReq r1 e = (if e = ?d then desc_num ResType_CASC_CNT desc else cascCntReq r e)"
    using Fill_exact by blast
  have last: "asked d t (done_descs @ [desc]) = (if d = ?d then desc_num t desc else asked d t done_descs)" for d t
    by (auto simp: asked_def desc_for_def)
  have "req_is (\<lambda>t d. asked d t (done_descs @ [desc])) missions r1"
    using Cons.prems(2) fill(2-4) unfolding req_is_def last by simp
  from Cons.IH [OF _ this, of "max (desc_num ResType_MISSION desc) m"]
  have "\<exists>r'. BuildResReqByDescs_loop (map Some descs) r1 (max (desc_num ResType_MISSION desc) m)
      = (0, r', fold max (map (desc_num ResType_MISSION) descs) (max (desc_num ResType_MISSION desc) m))
    \<and> req_is (\<lambda>t d. asked d t (done_descs @ desc # descs)) missions r'"
    using Cons.prems(1) by simp
  moreover have "(if m < desc_num ResType_MISSION desc then desc_num ResType_MISSION desc else m) = max (desc_num ResType_MISSION desc) m"
    by auto
  ultimately show ?case
    using Cons.prems(1) fill(1) by (simp add: QueryResNum_valid IsValidResType_def CCU_MAX_IODIE_NUM_def Let_def)
qed simp

lemma Build_exact:
  assumes "\<forall>desc\<in>set descs. descDieId desc mod 2 ^ 8 < 2"
  shows "\<exists>r. BuildResReqByDescs (map Some descs) flags = (0, r)
    \<and> req_is (\<lambda>t d. asked d t descs) (\<lambda>d. if d < 2 \<and> flags ! d then asked_missions descs else 0) r"
proof -
  let ?r0 = "CcuResReq_new\<lparr>missionReq := (missionReq CcuResReq_new)\<lparr>mreqType := FUSION_MULTIPLE_DIE\<rparr>\<rparr>"
  have "req_is (\<lambda>t d. asked d t []) (\<lambda>_. 0) ?r0"
    by (auto simp: req_is_def asked_def desc_for_def block_types CcuResReq_new_def)
  from Build_loop_exact [OF assms this, of 0] obtain r1 where r1:
    "BuildResReqByDescs_loop (map Some descs) ?r0 0 = (0, r1, asked_missions descs)" "req_is (\<lambda>t d. asked d t descs) (\<lambda>_. 0) r1"
    by (auto simp: asked_missions_def)
  let ?step = "\<lambda>d r. if flags ! d then r\<lparr>missionReq := (missionReq r)\<lparr>mreq := (mreq (missionReq r))(d := asked_missions descs)\<rparr>\<rparr> else r"
  have "req_is (\<lambda>t d. asked d t descs) (\<lambda>d. if d < 2 \<and> flags ! d then asked_missions descs else 0) (fold ?step DIES r1)"
    using r1(2) by (auto simp: req_is_def DIES_eq fun_eq_iff less_2_cases_iff)
  then show ?thesis
    using r1 by (auto simp: BuildResReqByDescs_def Let_def cong: if_cong split: if_splits)
qed

lemma CheckReqValid_disabled:
  assumes "CheckReqValid req flags" and "d < 2" and "\<not> flags ! d" and "t \<in> set BLOCK_TYPES"
  shows "block_req t req d = 0" and "cascCntReq req d = 0"
proof -
  have "req_empty req d"
    using assms(1-3) by (auto simp: CheckReqValid_def DIES_eq less_2_cases_iff split: if_splits)
  then show "block_req t req d = 0" and "cascCntReq req d = 0"
    using assms(4) by (auto simp: req_empty_def block_types)
qed

definition desc_u32 :: "CcuResDesc \<Rightarrow> bool" where
  "desc_u32 desc \<longleftrightarrow> length (resNum desc) = CCU_RES_TYPE_COUNT \<and> (\<forall>n\<in>set (resNum desc). n < 2 ^ 32)"

lemma asked_u32:
  assumes "\<forall>desc\<in>set descs. desc_u32 desc" and "IsValidResType t"
  shows "asked d t descs < 2 ^ 32"
proof (cases "desc_for d descs")
  case (Some desc)
  then have "desc \<in> set descs"
    by (auto simp: desc_for_def find_Some_iff) (metis length_rev nth_mem set_rev)
  moreover have "resType_u8 t < CCU_RES_TYPE_COUNT"
    using assms(2) by (simp add: IsValidResType_def CCU_RES_TYPE_COUNT_def)
  ultimately show ?thesis
    using assms(1) Some by (simp add: asked_def desc_num_def desc_u32_def)
qed (simp add: asked_def)

lemma asked_missions_u32:
  assumes "\<forall>desc\<in>set descs. desc_u32 desc"
  shows "asked_missions descs < 2 ^ 32"
proof -
  have "fold max (map (desc_num ResType_MISSION) descs) m < 2 ^ 32" if "m < 2 ^ 32" for m
    using assms that
  proof (induction descs arbitrary: m)
    case (Cons desc descs)
    have "desc_num ResType_MISSION desc < 2 ^ 32"
      using Cons.prems(1) by (simp add: desc_num_def desc_u32_def CCU_RES_TYPE_COUNT_def)
    then show ?case
      using Cons by simp
  qed simp
  then show ?thesis
    by (simp add: asked_missions_def)
qed

lemma req_is_u32:
  assumes "req_is (\<lambda>t d. asked d t descs) (\<lambda>d. if d < 2 \<and> flags ! d then asked_missions descs else 0) req"
    and "\<forall>desc\<in>set descs. desc_u32 desc"
  shows "req_u32 req"
proof -
  have "block_req t req d < 2 ^ 32" for t d
  proof (cases "t \<in> set BLOCK_TYPES")
    case True
    then have "block_req t req d = asked d t descs" "IsValidResType t"
      using assms(1) by (auto simp: req_is_def block_types IsValidResType_def)
    then show ?thesis
      using asked_u32 [of descs t d] assms(2) by simp
  next
    case False
    then show ?thesis
      by (cases t) (simp_all add: block_types)
  qed
  then show ?thesis
    using assms asked_missions_u32 [of descs] by (simp add: req_u32_def req_is_def)
qed

lemma Build_dies:
  "BuildResReqByDescs_loop descs r m = (0, out) \<Longrightarrow> \<exists>ds. descs = map Some ds \<and> (\<forall>desc\<in>set ds. descDieId desc mod 2 ^ 8 < 2)"
proof (induction descs arbitrary: r m)
  case (Cons p descs)
  obtain desc where p: "p = Some desc"
    using Cons.prems by (cases p) auto
  obtain r1 where fill: "FillResReqByResDesc r (descDieId desc mod 2 ^ 8) desc = (0, r1)"
    using Fill_exact by blast
  have "descDieId desc mod 2 ^ 8 < 2" "\<exists>m. BuildResReqByDescs_loop descs r1 m = (0, out)"
    using Cons.prems fill by (auto simp: p Let_def QueryResNum_valid IsValidResType_def CCU_MAX_IODIE_NUM_def split: if_splits)
  then show ?case
    using Cons.IH by (metis list.simps(9) p set_ConsD)
qed simp

lemma descs_ask_built:
  assumes "envOpenSource env" and "BuildResReqByDescs descs [compDieFlags (devComp dev) ! 0, compDieFlags (devComp dev) ! 1] = (e0, built)"
    and "e0 = 0 \<Longrightarrow> req = built"
  shows "asks_for env ptr h0 dev (CcuAllocResHandleByResDescs env ptr (Some descs) h0 dev) req"
proof -
  obtain e dev1 where board: "read_mainboard env dev = (e, dev1)"
    by fastforce
  have "snd (CheckEnabledDies env dev) = [compDieFlags (devComp dev) ! 0, compDieFlags (devComp dev) ! 1]"
    using assms(1) by (simp add: CheckEnabledDies_def enabled_flags)
  then obtain e1 where "CheckEnabledDies env dev = (e1, [compDieFlags (devComp dev) ! 0, compDieFlags (devComp dev) ! 1])"
    by (metis prod.collapse)
  then show ?thesis
    using asks_forI [OF board] assms(2,3) board by (simp add: CcuAllocResHandleByResDescs_def)
qed

lemma descs_ask:
  assumes "envOpenSource env" and "\<And>desc. Some desc \<in> set descs \<Longrightarrow> desc_u32 desc"
  shows "\<exists>req. req_u32 req \<and> asks_for env ptr h0 dev (CcuAllocResHandleByResDescs env ptr (Some descs) h0 dev) req"
proof -
  let ?flags = "[compDieFlags (devComp dev) ! 0, compDieFlags (devComp dev) ! 1]"
  obtain e0 req where build: "BuildResReqByDescs descs ?flags = (e0, req)"
    by fastforce
  show ?thesis
  proof (cases "e0 = 0")
    case True
    let ?r0 = "CcuResReq_new\<lparr>missionReq := (missionReq CcuResReq_new)\<lparr>mreqType := FUSION_MULTIPLE_DIE\<rparr>\<rparr>"
    have "\<exists>out. BuildResReqByDescs_loop descs ?r0 0 = (0, out)"
      using build True by (auto simp: BuildResReqByDescs_def Let_def split: prod.splits if_splits)
    then obtain ds where ds: "descs = map Some ds" "\<forall>desc\<in>set ds. descDieId desc mod 2 ^ 8 < 2"
      using Build_dies by metis
    then have "req_is (\<lambda>t d. asked d t ds) (\<lambda>d. if d < 2 \<and> ?flags ! d then asked_missions ds else 0) req" "\<forall>desc\<in>set ds. desc_u32 desc"
      using Build_exact [of ds ?flags] build assms(2) by auto
    then show ?thesis
      using req_is_u32 descs_ask_built [OF assms(1) build] by blast
  next
    case False
    have "req_u32 CcuResReq_new"
      using ins_type_req_u32 [of 0 CCU_V1 "[False, False]"] by (simp add: ins_type_req_def DIES_eq)
    then show ?thesis
      using descs_ask_built [OF assms(1) build] False by blast
  qed
qed

text \<open>A request that the descriptors ask for, met: in terms of the descriptors.\<close>

lemma asked_met:
  assumes "req_is (\<lambda>t d. asked d t descs) missions req" and "CheckReqValid req flags" and "request_met flags req r" and "d < 2" and "t \<in> set BLOCK_TYPES"
  shows "length (cascCntBlock r d) = asked d ResType_CASC_CNT descs"
    and "if flags ! d
      then map num (repo_block t r d) = (let n = asked d t descs in if n = 0 then [] else [blocks_for n (bsize t) * bsize t])
        \<and> sum_list (map num (repo_single t r d)) = 0
      else asked d t descs = 0 \<and> asked d ResType_CASC_CNT descs = 0"
  using assms CheckReqValid_disabled [OF assms(2,4) _ assms(5)] unfolding request_met_def block_met_def req_is_def by (auto simp: Let_def)

text \<open>C13. On a device in any reachable state, a request by one or two descriptors of existing dies either succeeds or
  changes no resource. On success the new handle holds, on each enabled die and for each type of blocks, one run of just enough
  whole blocks for the number the (last) descriptor of that die asks for and nothing where it asks for none, no single ids, and exactly the
  counting XN blocks asked for; nothing was asked of a die that is not enabled.
\<close>

theorem descriptors_granted:
  assumes "batch_reachable True (devSpecs dev) s" and "specs_fit (devSpecs dev)" and "on_device env s dev"
    and "ptr \<notin> fst ` set (handleMap (sysBatch s)) \<union> fst ` set (sysPending s)"
    and "descs \<noteq> []" and "length descs \<le> 2" and "\<forall>desc\<in>set descs. descDieId desc mod 2 ^ 8 < 2 \<and> desc_u32 desc"
    and "CcuAllocResHandleByResDescs env ptr (Some (map Some descs)) h0 dev = (ret, h, dev')"
  shows "if ret = 0
    then h = ptr \<and> (\<exists>r. handleMap (devBatch dev') = handleMap (devBatch dev) @ [(ptr, r)]
      \<and> (\<forall>d<2. length (cascCntBlock r d) = asked d ResType_CASC_CNT descs \<and> (\<forall>t\<in>set BLOCK_TYPES.
          if compDieFlags (devComp dev) ! d
          then map num (repo_block t r d) = (let n = asked d t descs in if n = 0 then [] else [blocks_for n (bsize t) * bsize t])
            \<and> sum_list (map num (repo_single t r d)) = 0
          else asked d t descs = 0 \<and> asked d ResType_CASC_CNT descs = 0)))
    else kept_device dev dev'"
proof -
  let ?flags = "[compDieFlags (devComp dev) ! 0, compDieFlags (devComp dev) ! 1]"
  have os: "envOpenSource env"
    using assms(3) by (simp add: on_device_def)
  obtain req where req: "BuildResReqByDescs (map Some descs) ?flags = (0, req)"
    "req_is (\<lambda>t d. asked d t descs) (\<lambda>d. if d < 2 \<and> ?flags ! d then asked_missions descs else 0) req"
    using Build_exact [of descs ?flags] assms(7) by blast
  have "req_u32 req"
    using req_is_u32 [OF req(2)] assms(7) by blast
  note outcome = asked_outcome [OF assms(1-4) this descs_ask_built [OF os req(1) refl, of ptr h0, unfolded assms(8)]]
  show ?thesis
  proof (cases "ret = 0")
    case True
    then obtain r where r: "h = ptr" "CheckReqValid req (compDieFlags (devComp dev))"
      "handleMap (devBatch dev') = handleMap (devBatch dev) @ [(ptr, r)]" "request_met (compDieFlags (devComp dev)) req r"
      using outcome by auto
    have "ResType_LOOP \<in> set BLOCK_TYPES"
      by (simp add: BLOCK_TYPES_def)
    then show ?thesis
      unfolding if_P [OF True] using r(1,3) asked_met [OF req(2) r(2,4)] by blast
  qed (use outcome in simp)
qed

subsection \<open>Witnesses\<close>

text \<open>The device of the demonstration of the batch allocator, with a platform that lacks the legacy functions.\<close>

definition demo_legacy :: "unit LegacyCcu" where
  "demo_legacy =
    \<lparr>legDieEnableFlags = \<lambda>_. [False, False], legCcuVersion = \<lambda>_. CCU_INVALID,
     legAllocResHandle = \<lambda>_ _ _. (HCCL_E_NOT_SUPPORT, 0, ()),
     legReleaseResHandle = \<lambda>_ _. (HCCL_E_NOT_SUPPORT, ()),
     legGetResource = \<lambda>_ _ _. (HCCL_E_NOT_SUPPORT, CcuResRepository_new),
     legQueryRemainRes = \<lambda>_ _ _ _. (HCCL_E_NOT_SUPPORT, 0),
     legMaxBlockResNum = \<lambda>_ _ _ _. (HCCL_E_NOT_SUPPORT, 0), legInsRemain = \<lambda>_ _. 0,
     legInstructionNum = \<lambda>_ _ _. (HCCL_E_NOT_SUPPORT, 0),
     legMissionNum = \<lambda>_ _ _. (HCCL_E_NOT_SUPPORT, 0),
     legMissionKey = \<lambda>_ _ _. (HCCL_E_NOT_SUPPORT, 0),
     legXnBaseAddr = \<lambda>_ _ _. (HCCL_E_NOT_SUPPORT, 0),
     legSpaceBuf = \<lambda>_ _ _ _. (HCCL_E_NOT_SUPPORT, 0, 0),
     legSpaceToken = \<lambda>_ _ _. (HCCL_E_NOT_SUPPORT, 0, 0),
     legLoopChannelId = \<lambda>_ _ _. (HCCL_E_NOT_SUPPORT, 0),
     legAllocChannels = \<lambda>_ _ _. (HCCL_E_NOT_SUPPORT, None, ()),
     legConfigChannel = \<lambda>_ _ _. (HCCL_E_NOT_SUPPORT, ()),
     legReleaseChannel = \<lambda>_ _ _. (HCCL_E_NOT_SUPPORT, ()),
     legAllocIns = \<lambda>_ _ _ _. (HCCL_E_NOT_SUPPORT, mk_res 0 0, ()),
     legReleaseIns = \<lambda>_ _ _. (HCCL_E_NOT_SUPPORT, ()),
     legAllocCke = \<lambda>_ _ _. (HCCL_E_NOT_SUPPORT, [], ()),
     legReleaseCke = \<lambda>_ _ _. (HCCL_E_NOT_SUPPORT, ()),
     legAllocXn = \<lambda>_ _ _. (HCCL_E_NOT_SUPPORT, [], ()),
     legReleaseXn = \<lambda>_ _ _. (HCCL_E_NOT_SUPPORT, ()), legSetTaskKill = \<lambda>_. (HCCL_E_NOT_SUPPORT, ()),
     legSetTaskKillDone = \<lambda>_. (HCCL_E_NOT_SUPPORT, ()),
     legCleanTaskKillState = \<lambda>_. (HCCL_E_NOT_SUPPORT, ()),
     legCleanDieCkes = \<lambda>_ _. (HCCL_E_NOT_SUPPORT, ())\<rparr>"

definition demo_env :: "unit CcuEnv" where
  "demo_env = \<lparr>envUserDevId = 0, envOpenSource = True,
     envDriver = driver2,
     envChan = demo_chan, envLegacy = demo_legacy\<rparr>"

definition demo_dev :: "HcclMainboardId \<Rightarrow> unit CcuDev" where
  "demo_dev board = \<lparr>devSpecs = demo_specs NORMAL, devComp = sysComp (demo_start NORMAL), devBatch = sysBatch (demo_start NORMAL),
     devLegacy = (), mainBoardType = board\<rparr>"

definition demo_desc :: CcuResDesc where
  "demo_desc = snd (CcuResDesc_SetResNum ResType_MISSION 2 (snd (CcuResDesc_SetResNum ResType_LOOP 10 (CcuResDesc_new\<lparr>descDieId := 0\<rparr>))))"

lemma demo_device:
  "batch_reachable True (devSpecs (demo_dev board)) (demo_start NORMAL)" "specs_fit (devSpecs (demo_dev board))"
  "on_device demo_env (demo_start NORMAL) (demo_dev board)"
  "10 \<notin> fst ` set (handleMap (sysBatch (demo_start NORMAL))) \<union> fst ` set (sysPending (demo_start NORMAL))"
  using demo_start_reachable demo_fit demo_handles(1) by (simp_all add: demo_dev_def on_device_def demo_env_def)

lemma demo_dev_flags: "compDieFlags (devComp (demo_dev board)) = [True, False]"
proof -
  have "CcuComponent_Init demo_chan demo_plat (demo_cfg NORMAL) HCCL_SUCCESS (demo_specs NORMAL) CcuComponent_new = (HCCL_SUCCESS, demo_comp NORMAL)"
    using demo_comp_ok by (simp add: demo_comp_def prod_eq_iff)
  then have "fresh_pools (demo_comp NORMAL)"
    using CcuComponent_Init_fresh(1) [OF demo_fit] CcuComponent_new_sel by blast
  moreover obtain b c where b: "CcuResBatchAllocator_Init (demo_specs NORMAL) CcuResBatchAllocator_new (demo_comp NORMAL) = (HCCL_SUCCESS, b, c)"
    using demo_start_ok by (metis prod.collapse)
  ultimately show ?thesis
    using Init_establishes [OF _ fresh_batch_new b, of True] demo_flags [of NORMAL]
    by (auto simp: demo_dev_def demo_start_def sys_start_def batch_inv_def)
qed

text \<open>A device with just enough resources for one instance of the scheduler mode. Its driver refuses to clean the
  CKEs, an answer that the initialisation ignores.\<close>

definition grant_specs :: CcuResSpecifications where
  "grant_specs = (CcuResSpecifications_new 0)\<lparr>serveMode := NORMAL, ccuVersion := CCU_V1, dieEnableFlags := [True, False],
    resSpecs := [CcuResSpecInfo_default\<lparr>resourceAddr := 4096, loopEngineNum := 16, msNum := 128, ckeNum := 624, xnNum := 1696,
      gsaNum := 496, missionNum := 4, jettyNum := 128, channelNum := 16, pfeNum := 8\<rparr>, CcuResSpecInfo_default]\<rparr>"

definition grant_chan :: CcuChannelDriver where
  "grant_chan log cmd = (case cmd of CCU_U_OP_SET_CKE _ _ _ \<Rightarrow> HCCL_E_INTERNAL | _ \<Rightarrow> HCCL_SUCCESS)"

definition grant_env :: "unit CcuEnv" where
  "grant_env = demo_env\<lparr>envChan := grant_chan\<rparr>"

definition grant_dev :: "CcuResBatchAllocator \<Rightarrow> CcuComponent \<Rightarrow> unit CcuDev" where
  "grant_dev b c = \<lparr>devSpecs = grant_specs, devComp = c, devBatch = b, devLegacy = (), mainBoardType = MAINBOARD_EVB\<rparr>"

definition grant_init :: "HcclResult \<times> CcuComponent" where
  "grant_init = CcuComponent_Init grant_chan demo_plat (snd (CcuPfeCfgMgr_Init (HCCL_SUCCESS, [(0, 1)]) grant_specs CcuPfeCfgMgr_new))
    HCCL_SUCCESS grant_specs CcuComponent_new"

definition grant_report :: bool where
  "grant_report =
    (case grant_init of (ret, c) \<Rightarrow> ret = HCCL_SUCCESS \<and>
       (case CcuResBatchAllocator_Init grant_specs CcuResBatchAllocator_new c of (ret, b, c) \<Rightarrow>
          ret = HCCL_SUCCESS \<and> map fst (handleMap b) = [] \<and> compDieFlags c = [True, False]
          \<and> fst (CcuAllocResHandleByInsType grant_env 10 1 0 (grant_dev b c)) = 0))"

lemma grant_reported: "grant_report"
  by code_simp

lemma grant_device:
  obtains b c where "batch_reachable True grant_specs (sys_start b c)" and "handleMap b = []" and "compDieFlags c = [True, False]"
    and "fst (CcuAllocResHandleByInsType grant_env 10 1 0 (grant_dev b c)) = 0"
proof -
  obtain c0 b c where init: "grant_init = (HCCL_SUCCESS, c0)"
    "CcuResBatchAllocator_Init grant_specs CcuResBatchAllocator_new c0 = (HCCL_SUCCESS, b, c)"
    and rest: "handleMap b = []" "compDieFlags c = [True, False]"
    "fst (CcuAllocResHandleByInsType grant_env 10 1 0 (grant_dev b c)) = 0"
    using grant_reported by (auto simp: grant_report_def split: prod.splits)
  have "batch_reachable True grant_specs (sys_start b c)"
    using init sys_steps.none unfolding batch_reachable_def grant_init_def by metis
  then show thesis
    using rest by (rule that)
qed

theorem instance_granted_witness:
  "(\<exists>dev dev' r. CcuAllocResHandleByInsType grant_env 10 1 0 dev = (0, 10, dev') \<and> handleMap (devBatch dev') = [(10, r)]
      \<and> map num (repo_block ResType_XN r 0) = [400] \<and> map num (repo_block ResType_CKE r 0) = [48])
    \<and> fst (CcuAllocResHandleByInsType demo_env 10 CCU_MS 0 (demo_dev MAINBOARD_PCIE_STD)) = ccu_code CCU_E_NOT_SUPPORT"
proof
  obtain b c where grant: "batch_reachable True grant_specs (sys_start b c)" "handleMap b = []" "compDieFlags c = [True, False]"
    "fst (CcuAllocResHandleByInsType grant_env 10 1 0 (grant_dev b c)) = 0"
    using grant_device .
  obtain h dev' where call: "CcuAllocResHandleByInsType grant_env 10 1 0 (grant_dev b c) = (0, h, dev')"
    using grant(4) by (metis prod.collapse)
  have dev: "batch_reachable True (devSpecs (grant_dev b c)) (sys_start b c)" "specs_fit (devSpecs (grant_dev b c))"
    "on_device grant_env (sys_start b c) (grant_dev b c)"
    "10 \<notin> fst ` set (handleMap (sysBatch (sys_start b c))) \<union> fst ` set (sysPending (sys_start b c))" "1 < CCU_UNUSED"
    "read_mainboard grant_env (grant_dev b c) = (0, grant_dev b c)"
    using grant by (auto simp: grant_dev_def specs_fit_def grant_specs_def CcuResSpecInfo_default_def less_2_cases_iff on_device_def grant_env_def
        demo_env_def sys_start_def CCU_UNUSED_def read_mainboard_def)
  have types: "ResType_XN \<in> set BLOCK_TYPES" "ResType_CKE \<in> set BLOCK_TYPES" "demand 1 CCU_V1 ResType_XN = 400" "demand 1 CCU_V1 ResType_CKE = 48"
    "blocks_for 400 (bsize ResType_XN) * bsize ResType_XN = 400" "blocks_for 48 (bsize ResType_CKE) * bsize ResType_CKE = 48"
    by (simp_all add: BLOCK_TYPES_def CCU_MS_def blocks_for_def CcuBlockResStrategy_default_def)
  have sel: "ccuVersion (devSpecs (grant_dev b c)) = CCU_V1" "compDieFlags (devComp (grant_dev b c)) ! 0" "handleMap (devBatch (grant_dev b c)) = []"
    using grant by (simp_all add: grant_dev_def grant_specs_def)
  from instance_granted [OF dev(1-5) call dev(6), unfolded if_P [OF refl]] obtain r where
    r: "h = 10" "handleMap (devBatch dev') = [(10, r)]"
    "\<forall>d<2. compDieFlags (devComp (grant_dev b c)) ! d \<longrightarrow> (\<forall>t\<in>set BLOCK_TYPES.
       map num (repo_block t r d) = (let n = demand 1 CCU_V1 t in if n = 0 then [] else [blocks_for n (bsize t) * bsize t]))"
    unfolding sel(1,3) by auto
  have "map num (repo_block t r 0) = (let n = demand 1 CCU_V1 t in if n = 0 then [] else [blocks_for n (bsize t) * bsize t])"
    if "t \<in> set BLOCK_TYPES" for t
    using r(3) sel(2) that by (metis zero_less_numeral)
  from this [OF types(1)] this [OF types(2)] have "map num (repo_block ResType_XN r 0) = [400]" "map num (repo_block ResType_CKE r 0) = [48]"
    unfolding types(3-4) Let_def using types(5,6) by simp_all
  then show "\<exists>dev dev' r. CcuAllocResHandleByInsType grant_env 10 1 0 dev = (0, 10, dev') \<and> handleMap (devBatch dev') = [(10, r)]
      \<and> map num (repo_block ResType_XN r 0) = [400] \<and> map num (repo_block ResType_CKE r 0) = [48]"
    using call r(1,2) by metis
next
  obtain ret h dev' where call: "CcuAllocResHandleByInsType demo_env 10 CCU_MS 0 (demo_dev MAINBOARD_PCIE_STD) = (ret, h, dev')"
    by (metis prod_cases3)
  have "CCU_MS < CCU_UNUSED" "read_mainboard demo_env (demo_dev MAINBOARD_PCIE_STD) = (0, demo_dev MAINBOARD_PCIE_STD)"
    "mainBoardType (demo_dev MAINBOARD_PCIE_STD) = MAINBOARD_PCIE_STD" "ccuVersion (devSpecs (demo_dev MAINBOARD_PCIE_STD)) = CCU_V1"
    by (simp_all add: CCU_MS_def CCU_UNUSED_def demo_dev_def read_mainboard_def demo_specs_def)
  then show "fst (CcuAllocResHandleByInsType demo_env 10 CCU_MS 0 (demo_dev MAINBOARD_PCIE_STD)) = ccu_code CCU_E_NOT_SUPPORT"
    using instance_granted [OF demo_device _ call] demo_dev_flags unfolding call by auto
qed

lemma demo_desc_value: "demo_desc = \<lparr>descDieId = 0, resNum = [10, 0, 0, 0, 0, 0, 0, 2, 0]\<rparr>"
  by code_simp

lemma demo_desc_nums: "desc_num ResType_LOOP demo_desc = 10" "desc_num ResType_MS demo_desc = 0" "desc_num ResType_CKE demo_desc = 0"
  "desc_num ResType_XN demo_desc = 0" "desc_num ResType_GSA demo_desc = 0" "desc_num ResType_CASC_CNT demo_desc = 0"
  "desc_num ResType_MISSION demo_desc = 2" "descDieId demo_desc = 0"
  by (simp_all add: desc_num_def demo_desc_value)

lemma demo_desc_request: "BuildResReqByDescs [Some demo_desc] [True, False] = (0, demo_req)"
  by (simp add: BuildResReqByDescs_def FillResReqByResDesc_def QueryResNum_valid IsValidResType_def demo_desc_nums CCU_MAX_IODIE_NUM_def DIES_eq Let_def)
    (simp add: CcuResReq_new_def demo_req_def fun_eq_iff)

theorem descriptors_granted_witness:
  "\<exists>dev' r. CcuAllocResHandleByResDescs demo_env 10 (Some (map Some [demo_desc])) 0 (demo_dev MAINBOARD_EVB) = (0, 10, dev')
    \<and> handleMap (devBatch dev') = [(10, r)] \<and> map num (repo_block ResType_LOOP r 0) = [16]"
proof -
  let ?dev = "demo_dev MAINBOARD_EVB"
  obtain h b c where alloc: "AllocResHandle demo_chan True (demo_specs NORMAL) 10 demo_req 0 (devBatch ?dev) (devComp ?dev) = (HCCL_SUCCESS, h, b, c)"
    using demo_alloc_ok(1) by (metis prod.collapse demo_alloc_def demo_dev_def CcuDev.simps(2,3))
  have "CheckEnabledDies demo_env ?dev = (0, [True, False])" "read_mainboard demo_env ?dev = (0, ?dev)"
    using enabled_flags [of demo_env ?dev] demo_dev_flags
    by (simp_all add: CheckEnabledDies_def demo_env_def read_mainboard_def demo_dev_def)
  then have call: "CcuAllocResHandleByResDescs demo_env 10 (Some (map Some [demo_desc])) 0 ?dev = (0, h, ?dev\<lparr>devBatch := b, devComp := c\<rparr>)"
    using alloc demo_desc_request
    by (simp add: CcuAllocResHandleByResDescs_def CCU_MAX_IODIE_NUM_def CcuDevMgrImp_AllocResHandle_def demo_env_def demo_dev_def)
  have desc: "descDieId demo_desc mod 2 ^ 8 < 2 \<and> desc_u32 demo_desc" "asked 0 ResType_LOOP [demo_desc] = 10"
    by (simp_all add: demo_desc_value desc_u32_def CCU_RES_TYPE_COUNT_def asked_def desc_for_def desc_num_def)
  have "blocks_for 10 (bsize ResType_LOOP) * bsize ResType_LOOP = 16"
    by (simp add: blocks_for_def CcuBlockResStrategy_default_def)
  moreover from descriptors_granted [OF demo_device _ _ _ call] desc(1) obtain r where
    r: "h = 10" "handleMap (devBatch (?dev\<lparr>devBatch := b, devComp := c\<rparr>)) = handleMap (devBatch ?dev) @ [(10, r)]"
    "\<forall>d<2. \<forall>t\<in>set BLOCK_TYPES. if compDieFlags (devComp ?dev) ! d
       then map num (repo_block t r d) = (let n = asked d t [demo_desc] in if n = 0 then [] else [blocks_for n (bsize t) * bsize t])
         \<and> sum_list (map num (repo_single t r d)) = 0
       else asked d t [demo_desc] = 0 \<and> asked d ResType_CASC_CNT [demo_desc] = 0"
    by auto
  moreover have "map num (repo_block ResType_LOOP r 0) =
      (let n = asked 0 ResType_LOOP [demo_desc] in if n = 0 then [] else [blocks_for n (bsize ResType_LOOP) * bsize ResType_LOOP])"
    using r(3) [rule_format, of 0 ResType_LOOP] demo_dev_flags by (simp add: BLOCK_TYPES_def)
  moreover have "handleMap (devBatch ?dev) = []"
    using demo_handles(1) by (simp add: demo_dev_def)
  ultimately show ?thesis
    unfolding call desc(2) by (auto simp: Let_def)
qed

end
