(* ===== verification/Block_Moves.thy ===== *)
theory Block_Moves
  imports Res_Id_Allocator "HOL-Library.Multiset"
begin

text \<open>
  Lists of blocks of ids that are cut, moved and put back: the free blocks of an instance, from which variables and
  events are reserved (\<^verbatim>\<open>ccu_instance/ccu_var_event_res_mgr.cc\<close>) and kernels take their resources
  (\<^verbatim>\<open>ccu_kernel/ccu_kernel_mgr.cc\<close>). The list of ids of a list of blocks, as a multiset, is what every move conserves.
\<close>

subsection \<open>The moves of the code\<close>

fun AllocFromPool :: "ResInfo list \<Rightarrow> nat \<Rightarrow> CcuResult \<times> ResInfo list \<times> ResInfo list" where
  "AllocFromPool [] n = (CCU_E_UNAVAIL, [], [])"
| "AllocFromPool (b # pool) n =
    (if num b < n then (case AllocFromPool pool n of (ret, out, pool) \<Rightarrow> (ret, out, b # pool))
     else if num b = n then (CCU_SUCCESS, [mk_res (startId b) n], pool)
     else (CCU_SUCCESS, [mk_res (startId b) n], mk_res (u32_add (startId b) n) (u32_sub (num b) n) # pool))"

definition ReturnToPool :: "ResInfo list \<Rightarrow> ResInfo list \<Rightarrow> ResInfo list" where
  "ReturnToPool pool res = pool @ filter (\<lambda>r. num r \<noteq> 0) res"

definition RemoveRangeFromPool :: "ResInfo list \<Rightarrow> nat \<Rightarrow> nat \<Rightarrow> ResInfo list" where
  "RemoveRangeFromPool pool start n =
    (if n = 0 then pool
     else
       let e = u32_add start n
       in concat (map (\<lambda>b.
            let blockEnd = u32_add (startId b) (num b)
            in if e \<le> startId b \<or> start \<ge> blockEnd then [b]
               else (if startId b < start then [mk_res (startId b) (u32_sub start (startId b))] else [])
                  @ (if e < blockEnd then [mk_res e (u32_sub blockEnd e)] else [])) pool))"

text \<open>The loop of \<open>MoveResInfo\<close>: what goes to the destination and what stays in the source.\<close>

fun MoveResInfo_loop :: "nat \<Rightarrow> ResInfo list \<Rightarrow> ResInfo list \<times> ResInfo list" where
  "MoveResInfo_loop remain [] = ([], [])"
| "MoveResInfo_loop remain (b # source) =
    (if remain = 0 then ([], b # source)
     else
       let take_num = min remain (num b)
       in if take_num = num b
          then (case MoveResInfo_loop (remain - take_num) source of (dest, source) \<Rightarrow> (mk_res (startId b) take_num # dest, source))
          else ([mk_res (startId b) take_num], mk_res (u32_add (startId b) take_num) (u32_sub (num b) take_num) # source))"

definition MoveResInfo :: "ResInfo list \<Rightarrow> ResInfo list \<Rightarrow> nat \<Rightarrow> ResInfo list \<times> ResInfo list" where
  "MoveResInfo dest source resNum = (if resNum = 0 then (dest, source) else MoveResInfo_loop resNum source)"

text \<open>\<open>GetResTotalNum\<close> and \<open>SumResNum\<close> add in 32 bits.\<close>

definition SumResNum :: "ResInfo list \<Rightarrow> nat" where
  "SumResNum infos = fold (\<lambda>r total. u32_add total (num r)) infos 0"

definition ExpandResInfo :: "ResInfo list \<Rightarrow> ResInfo list \<Rightarrow> ResInfo list" where
  "ExpandResInfo expanded infos = expanded @ concat (map (\<lambda>r. map (\<lambda>i. mk_res (u32_add (startId r) i) 1) [0..<num r]) infos)"

subsection \<open>The ids of a list of blocks\<close>

definition id_list :: "ResInfo list \<Rightarrow> nat list" where
  "id_list infos = concat (map (\<lambda>r. [startId r ..< startId r + num r]) infos)"

definition blocks_u32 :: "ResInfo list \<Rightarrow> bool" where
  "blocks_u32 infos \<longleftrightarrow> (\<forall>r\<in>set infos. startId r + num r < 2 ^ 32)"

lemma id_list_simps [simp]:
  "id_list [] = []" "id_list (r # rs) = [startId r ..< startId r + num r] @ id_list rs" "id_list (xs @ ys) = id_list xs @ id_list ys"
  by (simp_all add: id_list_def)

lemma blocks_u32_simps [simp]:
  "blocks_u32 []" "blocks_u32 (r # rs) \<longleftrightarrow> startId r + num r < 2 ^ 32 \<and> blocks_u32 rs"
  "blocks_u32 (xs @ ys) \<longleftrightarrow> blocks_u32 xs \<and> blocks_u32 ys"
  by (auto simp: blocks_u32_def)

lemma set_id_list: "set (id_list rs) = ids rs"
  by (induction rs) (auto simp: ids_def block_ids_def)

lemma length_id_list: "length (id_list rs) = sum_list (map num rs)"
  by (induction rs) auto

lemma upt_split:
  fixes a m b :: nat
  assumes "a \<le> m" and "m \<le> b"
  shows "[a ..< m] @ [m ..< b] = [a ..< b]"
  using upt_add_eq_append [OF assms(1), of "b - m"] assms(2) by simp

lemma cut_block:
  fixes a n k :: nat
  assumes "n \<le> k" and "a + k < 2 ^ 32"
  shows "u32_add a n = a + n" "u32_sub k n = k - n" "[a ..< a + n] @ [a + n ..< a + k] = [a ..< a + k]"
    "mset [a ..< a + n] + mset [a + n ..< a + k] = mset [a ..< a + k]"
proof -
  show split: "[a ..< a + n] @ [a + n ..< a + k] = [a ..< a + k]"
    using assms(1) by (intro upt_split) simp_all
  show "mset [a ..< a + n] + mset [a + n ..< a + k] = mset [a ..< a + k]"
    unfolding mset_append [symmetric] split ..
qed (use assms in \<open>simp_all add: u32_add_exact u32_sub_exact\<close>)

lemma AllocFromPool_moves:
  assumes "blocks_u32 pool" and "AllocFromPool pool n = (CCU_SUCCESS, out, pool')"
  shows "mset (id_list pool) = mset (id_list out) + mset (id_list pool')" and "blocks_u32 out" and "blocks_u32 pool'"
    and "\<exists>s. out = [mk_res s n]"
proof -
  have "mset (id_list pool) = mset (id_list out) + mset (id_list pool') \<and> blocks_u32 out \<and> blocks_u32 pool' \<and> (\<exists>s. out = [mk_res s n])"
    using assms
  proof (induction pool arbitrary: out pool')
    case (Cons b pool)
    show ?case
    proof (cases "num b < n")
      case True
      then show ?thesis
        using Cons.IH [of out] Cons.prems by (auto split: prod.splits)
    next
      case False
      then have cut: "u32_add (startId b) n = startId b + n" "u32_sub (num b) n = num b - n"
        "mset [startId b ..< startId b + n] + mset [startId b + n ..< startId b + num b] = mset [startId b ..< startId b + num b]"
        using cut_block [of n "num b" "startId b"] Cons.prems(1) by auto
      show ?thesis
      proof (cases "num b = n")
        case True
        then show ?thesis
          using Cons.prems by auto
      next
        case more: False
        then have "out = [mk_res (startId b) n]" "pool' = mk_res (startId b + n) (num b - n) # pool"
          using False Cons.prems(2) cut(1,2) by simp_all
        then show ?thesis
          using False Cons.prems(1) cut(3) by (simp del: mset_upt add: ac_simps)
      qed
    qed
  qed simp
  then show "mset (id_list pool) = mset (id_list out) + mset (id_list pool')" and "blocks_u32 out" and "blocks_u32 pool'"
    and "\<exists>s. out = [mk_res s n]"
    by blast+
qed

text \<open>The first block that is large enough is cut; without one nothing changes.\<close>

lemma AllocFromPool_decided:
  "fst (AllocFromPool pool n) = (if \<exists>b\<in>set pool. n \<le> num b then CCU_SUCCESS else CCU_E_UNAVAIL)"
  by (induction pool) (auto split: prod.splits)

lemma AllocFromPool_fails:
  assumes "AllocFromPool pool n = (ret, out, pool')" and "ret \<noteq> CCU_SUCCESS"
  shows "ret = CCU_E_UNAVAIL \<and> out = [] \<and> pool' = pool"
  using assms by (induction pool arbitrary: out pool') (auto split: if_splits prod.splits)

lemma id_list_nonzero [simp]: "id_list (filter (\<lambda>r. 0 < num r) res) = id_list res"
  by (induction res) auto

lemma ReturnToPool_ids [simp]: "id_list (ReturnToPool pool res) = id_list pool @ id_list res"
  by (simp add: ReturnToPool_def)

lemma ReturnToPool_u32 [simp]: "blocks_u32 (ReturnToPool pool res) \<longleftrightarrow> blocks_u32 pool \<and> blocks_u32 (filter (\<lambda>r. 0 < num r) res)"
  by (simp add: ReturnToPool_def)

lemma blocks_u32_filter: "blocks_u32 res \<Longrightarrow> blocks_u32 (filter P res)"
  by (simp add: blocks_u32_def)

lemma filter_upt_outside:
  fixes a b s e :: nat
  assumes "a \<le> b"
  shows "filter (\<lambda>x. \<not> (s \<le> x \<and> x < e)) [a ..< b] =
    (if e \<le> a \<or> b \<le> s \<or> e \<le> s then [a ..< b] else [a ..< s] @ [e ..< b])"
proof (cases "e \<le> a \<or> b \<le> s \<or> e \<le> s")
  case True
  then have "filter (\<lambda>x. \<not> (s \<le> x \<and> x < e)) [a ..< b] = [a ..< b]"
    by (intro filter_True) auto
  then show ?thesis
    using True by simp
next
  case False
  have keep: "filter (\<lambda>x. \<not> (s \<le> x \<and> x < e)) [x ..< y] = [x ..< y]" if "y \<le> s \<or> e \<le> x" for x y
    using that by (intro filter_True) auto
  have drop: "filter (\<lambda>x. \<not> (s \<le> x \<and> x < e)) [x ..< y] = []" if "s \<le> x" "y \<le> e" for x y
    using that by (intro filter_False) auto
  let ?m = "max a s" and ?k = "min e b"
  have "[a ..< ?m] @ [?m ..< max ?m ?k] = [a ..< max ?m ?k]" "[a ..< max ?m ?k] @ [max ?m ?k ..< b] = [a ..< b]"
    using False assms by (intro upt_split; simp add: max_def min_def)+
  then have split: "[a ..< b] = [a ..< ?m] @ [?m ..< max ?m ?k] @ [max ?m ?k ..< b]"
    by (metis append_assoc)
  show ?thesis
    unfolding split filter_append using False keep [of ?m a] keep [of b "max ?m ?k"] drop [of ?m "max ?m ?k"]
    by (auto simp: max_def min_def split: if_splits)
qed

lemma RemoveRange_ids:
  assumes "blocks_u32 pool" and "start + n < 2 ^ 32"
  shows "id_list (RemoveRangeFromPool pool start n) = filter (\<lambda>x. \<not> (start \<le> x \<and> x < start + n)) (id_list pool)"
    and "blocks_u32 (RemoveRangeFromPool pool start n)"
proof -
  have "id_list (RemoveRangeFromPool pool start n) = filter (\<lambda>x. \<not> (start \<le> x \<and> x < start + n)) (id_list pool)
    \<and> blocks_u32 (RemoveRangeFromPool pool start n)"
  proof (cases "n = 0")
    case False
    show ?thesis
      using assms(1)
    proof (induction pool)
      case (Cons b pool)
      have e: "u32_add start n = start + n" "u32_add (startId b) (num b) = startId b + num b"
        using assms(2) Cons.prems by (simp_all add: u32_add_exact)
      have d: "startId b < start \<Longrightarrow> u32_sub start (startId b) = start - startId b"
        "start + n < startId b + num b \<Longrightarrow> u32_sub (startId b + num b) (start + n) = startId b + num b - (start + n)"
        using assms(2) Cons.prems by (simp_all add: u32_sub_exact)
      let ?one = "RemoveRangeFromPool [b] start n"
      have "id_list ?one = filter (\<lambda>x. \<not> (start \<le> x \<and> x < start + n)) [startId b ..< startId b + num b] \<and> blocks_u32 ?one"
        unfolding filter_upt_outside [OF le_add1] using Cons.prems False assms(2) by (auto simp: RemoveRangeFromPool_def Let_def e d)
      moreover have "RemoveRangeFromPool (b # pool) start n = ?one @ RemoveRangeFromPool pool start n"
        using False by (simp add: RemoveRangeFromPool_def Let_def)
      ultimately show ?case
        using Cons by simp
    qed (simp_all add: RemoveRangeFromPool_def)
  qed (use assms in \<open>simp add: RemoveRangeFromPool_def\<close>)
  then show "id_list (RemoveRangeFromPool pool start n) = filter (\<lambda>x. \<not> (start \<le> x \<and> x < start + n)) (id_list pool)"
    and "blocks_u32 (RemoveRangeFromPool pool start n)"
    by blast+
qed

lemma MoveResInfo_loop_moves:
  assumes "blocks_u32 source" and "MoveResInfo_loop n source = (dest, source')"
  shows "id_list dest @ id_list source' = id_list source \<and> blocks_u32 dest \<and> blocks_u32 source'
    \<and> length (id_list dest) = min n (length (id_list source))"
  using assms
proof (induction n source arbitrary: dest source' rule: MoveResInfo_loop.induct)
  case (2 n b source)
  show ?case
  proof (cases "n = 0")
    case False
    show ?thesis
    proof (cases "num b \<le> n")
      case True
      obtain dest1 source1 where rest: "MoveResInfo_loop (n - num b) source = (dest1, source1)"
        by fastforce
      then have "dest = mk_res (startId b) (num b) # dest1" "source' = source1"
        using 2(3) True False by (simp_all add: min_absorb2)
      moreover have "id_list dest1 @ id_list source1 = id_list source \<and> blocks_u32 dest1 \<and> blocks_u32 source1
          \<and> length (id_list dest1) = min (n - num b) (length (id_list source))"
        using 2(1) [OF False refl, of dest1 source1] 2(2) rest True by (simp add: min_absorb2)
      ultimately show ?thesis
        using 2(2) True by auto
    next
      case more: False
      have cut: "u32_add (startId b) n = startId b + n" "u32_sub (num b) n = num b - n"
        "[startId b ..< startId b + n] @ [startId b + n ..< startId b + num b] = [startId b ..< startId b + num b]"
        using cut_block [of n "num b" "startId b"] more 2(2) by auto
      have "dest = [mk_res (startId b) n]" "source' = mk_res (startId b + n) (num b - n) # source"
        using more False 2(3) cut(1,2) by (simp_all add: min_def)
      then have "id_list dest @ id_list source' = ([startId b ..< startId b + n] @ [startId b + n ..< startId b + num b]) @ id_list source"
        using more by simp
      then have "id_list dest @ id_list source' = id_list (b # source)"
        unfolding cut(3) by simp
      then show ?thesis
        using \<open>dest = _\<close> \<open>source' = _\<close> more 2(2) by (simp add: min_def)
    qed
  qed (use 2 in auto)
qed simp

lemma MoveResInfo_moves:
  assumes "blocks_u32 source" and "MoveResInfo [] source n = (dest, source')"
  shows "id_list dest @ id_list source' = id_list source" "blocks_u32 dest" "blocks_u32 source'"
    "length (id_list dest) = min n (length (id_list source))"
  using MoveResInfo_loop_moves [OF assms(1)] assms by (auto simp: MoveResInfo_def split: if_splits)

lemma SumResNum_exact:
  assumes "length (id_list infos) < 2 ^ 32"
  shows "SumResNum infos = length (id_list infos)"
proof -
  have "fold (\<lambda>r total. u32_add total (num r)) infos a = a + sum_list (map num infos)"
    if "a + sum_list (map num infos) < 2 ^ 32" for a
    using that by (induction infos arbitrary: a) (simp_all add: u32_add_exact)
  then show ?thesis
    using assms by (simp add: SumResNum_def length_id_list)
qed

lemma ExpandResInfo_ids:
  assumes "blocks_u32 infos"
  shows "map startId (ExpandResInfo [] infos) = id_list infos"
proof -
  have "map (\<lambda>i. u32_add (startId r) i) [0..<num r] = [startId r ..< startId r + num r]" if "startId r + num r < 2 ^ 32" for r :: ResInfo
    using that by (intro nth_equalityI) (simp_all add: u32_add_exact)
  then show ?thesis
    using assms by (induction infos) (simp_all add: ExpandResInfo_def comp_def)
qed

end
