(* ===== verification/Var_Event_Mgr.thy ===== *)
theory Var_Event_Mgr
  imports Res_Batch_Allocator Block_Moves
begin

text \<open>
  Reservations of variables (XN) and events (CKE) (class \<^verbatim>\<open>CcuVarEventResMgr\<close> of
  \<^verbatim>\<open>ccu_instance/ccu_var_event_res_mgr.cc\<close>): a run of ids is cut from the free blocks of an instance, each id is mapped into
  the process, and the reservation is recorded under a handle until it or its instance is released. The repository of an
  instance is borrowed through a pointer, so the repositories form a store indexed by address; 0 is \<^verbatim>\<open>nullptr\<close>.
  The runtime is a parameter that sees the log of the calls made so far.
\<close>

subsection \<open>Data\<close>

text \<open>\<open>VE_OTHER\<close> stands for the values outside the enumeration that the \<^verbatim>\<open>default\<close> branches catch.\<close>

datatype CcuVarEventType = VARIABLE | EVENT | VE_OTHER

datatype rtDevResType = RT_RES_TYPE_CCU_XN | RT_RES_TYPE_CCU_CKE

datatype RtCall = RtMap nat rtDevResType nat bool | RtUnmap nat rtDevResType nat bool

record RtDevRes =
  rtGetDevResAddress :: "RtCall list \<Rightarrow> nat \<Rightarrow> rtDevResType \<Rightarrow> nat \<Rightarrow> bool \<times> u64"
  rtReleaseDevResAddress :: "RtCall list \<Rightarrow> nat \<Rightarrow> rtDevResType \<Rightarrow> nat \<Rightarrow> bool"

record CcuVarEventRes =
  veIns :: nat
  veDieId :: nat
  veType :: CcuVarEventType
  veInfos :: "ResInfo list"
  veRepo :: nat
  veVas :: "u64 list"

record CcuVarEventResMgr =
  handleSeed :: nat
  resMap :: "(nat \<times> CcuVarEventRes) list"
  veRepos :: "nat \<Rightarrow> CcuResRepository"
  rtLog :: "RtCall list"

subsection \<open>Pools and addresses\<close>

fun SelectPool :: "CcuVarEventType \<Rightarrow> ResType option" where
  "SelectPool VARIABLE = Some ResType_XN"
| "SelectPool EVENT = Some ResType_CKE"
| "SelectPool VE_OTHER = None"

fun GetRtResType :: "CcuVarEventType \<Rightarrow> rtDevResType option" where
  "GetRtResType VARIABLE = Some RT_RES_TYPE_CCU_XN"
| "GetRtResType EVENT = Some RT_RES_TYPE_CCU_CKE"
| "GetRtResType VE_OTHER = None"

definition ve_pool :: "nat \<Rightarrow> ResType \<Rightarrow> nat \<Rightarrow> CcuVarEventResMgr \<Rightarrow> ResInfo list" where
  "ve_pool p t d m = repo_block t (veRepos m p) d"

definition set_ve_pool :: "nat \<Rightarrow> ResType \<Rightarrow> nat \<Rightarrow> ResInfo list \<Rightarrow> CcuVarEventResMgr \<Rightarrow> CcuVarEventResMgr" where
  "set_ve_pool p t d pool m = m\<lparr>veRepos := (veRepos m)(p := set_repo_block t d pool (veRepos m p))\<rparr>"

definition MapDevResAddress ::
  "RtDevRes \<Rightarrow> nat \<Rightarrow> rtDevResType \<Rightarrow> nat \<Rightarrow> CcuVarEventResMgr \<Rightarrow> CcuResult \<times> u64 \<times> CcuVarEventResMgr" where
  "MapDevResAddress rt dieId resType resId m =
    (case rtGetDevResAddress rt (rtLog m) dieId resType resId of (ok, va) \<Rightarrow>
       (if ok then CCU_SUCCESS else CCU_E_RUNTIME, va, m\<lparr>rtLog := rtLog m @ [RtMap dieId resType resId ok]\<rparr>))"

definition UnmapDevResAddress ::
  "RtDevRes \<Rightarrow> nat \<Rightarrow> rtDevResType \<Rightarrow> nat \<Rightarrow> CcuVarEventResMgr \<Rightarrow> CcuResult \<times> CcuVarEventResMgr" where
  "UnmapDevResAddress rt dieId resType resId m =
    (let ok = rtReleaseDevResAddress rt (rtLog m) dieId resType resId
     in (if ok then CCU_SUCCESS else CCU_E_RUNTIME, m\<lparr>rtLog := rtLog m @ [RtUnmap dieId resType resId ok]\<rparr>))"

definition UnmapMappedRes ::
  "RtDevRes \<Rightarrow> (nat \<times> nat) list \<Rightarrow> rtDevResType \<Rightarrow> CcuVarEventResMgr \<Rightarrow> CcuVarEventResMgr" where
  "UnmapMappedRes rt mapped resType m =
    fold (\<lambda>(dieId, resId) m. snd (UnmapDevResAddress rt dieId resType resId m)) (rev mapped) m"

text \<open>\<open>GetVariableXnId\<close> and \<open>GetEventCkeId\<close> differ in the type they expect.\<close>

definition GetResId :: "CcuVarEventType \<Rightarrow> nat \<Rightarrow> nat \<Rightarrow> CcuVarEventResMgr \<Rightarrow> CcuResult + nat \<times> nat" where
  "GetResId expected h index m =
    (case map_of (resMap m) h of
       None \<Rightarrow> Inl CCU_E_NOT_FOUND
     | Some res \<Rightarrow>
         if veType res \<noteq> expected then Inl CCU_E_PARA
         else if length (veInfos res) \<noteq> 1 then Inl CCU_E_NOT_SUPPORT
         else
           let info = veInfos res ! 0
           in if index \<ge> num info then Inl CCU_E_PARA
              else Inr (veDieId res, u32_add (startId info) index))"

definition GetVariableXnId :: "nat \<Rightarrow> nat \<Rightarrow> CcuVarEventResMgr \<Rightarrow> CcuResult + nat \<times> nat" where
  "GetVariableXnId = GetResId VARIABLE"

definition GetEventCkeId :: "nat \<Rightarrow> nat \<Rightarrow> CcuVarEventResMgr \<Rightarrow> CcuResult + nat \<times> nat" where
  "GetEventCkeId = GetResId EVENT"

definition SaveAddrs :: "CcuVarEventType \<Rightarrow> nat \<Rightarrow> u64 list \<Rightarrow> CcuVarEventResMgr \<Rightarrow> CcuResult \<times> CcuVarEventResMgr" where
  "SaveAddrs type h vaList m =
    (case map_of (resMap m) h of
       None \<Rightarrow> (CCU_E_NOT_FOUND, m)
     | Some res \<Rightarrow>
         if veType res \<noteq> type then (CCU_E_PARA, m)
         else if length (veInfos res) \<noteq> 1 then (CCU_E_NOT_SUPPORT, m)
         else if length vaList \<noteq> num (veInfos res ! 0) then (CCU_E_PARA, m)
         else (CCU_SUCCESS, m\<lparr>resMap := AList.update h (res\<lparr>veVas := vaList\<rparr>) (resMap m)\<rparr>))"

definition GetSavedAddr :: "CcuVarEventType \<Rightarrow> nat \<Rightarrow> nat \<Rightarrow> CcuVarEventResMgr \<Rightarrow> CcuResult + u64" where
  "GetSavedAddr type h index m =
    (case map_of (resMap m) h of
       None \<Rightarrow> Inl CCU_E_NOT_FOUND
     | Some res \<Rightarrow>
         if veType res \<noteq> type then Inl CCU_E_PARA
         else if index \<ge> length (veVas res) then Inl CCU_E_PARA
         else Inr (veVas res ! index))"

text \<open>The loop of \<open>RegisterAddrs\<close> over the indices; an error leaves the mappings made so far for the rollback.\<close>

fun RegisterAddrs_loop ::
  "RtDevRes \<Rightarrow> CcuVarEventType \<Rightarrow> rtDevResType \<Rightarrow> nat \<Rightarrow> nat list \<Rightarrow> u64 list \<Rightarrow> (nat \<times> nat) list \<Rightarrow> CcuVarEventResMgr
    \<Rightarrow> CcuResult \<times> u64 list \<times> (nat \<times> nat) list \<times> CcuVarEventResMgr" where
  "RegisterAddrs_loop rt type resType h [] vaList mapped m = (CCU_SUCCESS, vaList, mapped, m)"
| "RegisterAddrs_loop rt type resType h (i # idxs) vaList mapped m =
    (case (if type = VARIABLE then GetVariableXnId h i m else GetEventCkeId h i m) of
       Inl idRet \<Rightarrow> (idRet, vaList, mapped, m)
     | Inr (dieId, resId) \<Rightarrow>
         (case MapDevResAddress rt dieId resType resId m of (mapRet, va, m) \<Rightarrow>
            if mapRet \<noteq> CCU_SUCCESS then (mapRet, vaList, mapped, m)
            else RegisterAddrs_loop rt type resType h idxs (vaList @ [va]) (mapped @ [(dieId, resId)]) m))"

definition RegisterAddrs :: "RtDevRes \<Rightarrow> CcuVarEventType \<Rightarrow> nat \<Rightarrow> nat \<Rightarrow> CcuVarEventResMgr \<Rightarrow> CcuResult \<times> CcuVarEventResMgr" where
  "RegisterAddrs rt type h n m =
    (case GetRtResType type of
       None \<Rightarrow> (CCU_E_PARA, m)
     | Some resType \<Rightarrow>
         (case RegisterAddrs_loop rt type resType h [0..<n] [] [] m of (ret, vaList, mapped, m) \<Rightarrow>
            if ret \<noteq> CCU_SUCCESS then (ret, UnmapMappedRes rt mapped resType m)
            else case SaveAddrs type h vaList m of (ret, m) \<Rightarrow>
              if ret \<noteq> CCU_SUCCESS then (ret, UnmapMappedRes rt mapped resType m) else (CCU_SUCCESS, m)))"

subsection \<open>Reserving\<close>

definition AllocAndRecord ::
  "nat \<Rightarrow> nat \<Rightarrow> CcuVarEventType \<Rightarrow> nat \<Rightarrow> nat \<Rightarrow> CcuVarEventResMgr \<Rightarrow> CcuResult \<times> nat \<times> CcuVarEventResMgr" where
  "AllocAndRecord insHandle repo type dieId n m =
    (if dieId \<ge> CCU_MAX_IODIE_NUM then (CCU_E_PARA, 0, m)
     else if n = 0 then (CCU_E_PARA, 0, m)
     else case SelectPool type of
       None \<Rightarrow> (CCU_E_PARA, 0, m)
     | Some t \<Rightarrow>
         (case AllocFromPool (ve_pool repo t dieId m) n of (ret, infos, pool) \<Rightarrow>
            let m = set_ve_pool repo t dieId pool m
            in if ret \<noteq> CCU_SUCCESS then (ret, 0, m)
               else
                 let res = \<lparr>veIns = insHandle, veDieId = dieId, veType = type, veInfos = infos, veRepo = repo, veVas = []\<rparr>;
                     h = (handleSeed m + 1) mod 2 ^ 64
                 in (CCU_SUCCESS, h, m\<lparr>handleSeed := h, resMap := (if map_of (resMap m) h = None then resMap m @ [(h, res)] else resMap m)\<rparr>)))"

definition UnmapSavedAddrs :: "RtDevRes \<Rightarrow> CcuVarEventRes \<Rightarrow> CcuVarEventResMgr \<Rightarrow> CcuResult \<times> CcuVarEventResMgr" where
  "UnmapSavedAddrs rt res m =
    (if veVas res = [] \<or> veInfos res = [] then (CCU_SUCCESS, m)
     else if length (veInfos res) \<noteq> 1 then (CCU_E_NOT_SUPPORT, m)
     else case GetRtResType (veType res) of
       None \<Rightarrow> (CCU_E_PARA, m)
     | Some resType \<Rightarrow>
         fold (\<lambda>i (firstErr, m).
             case UnmapDevResAddress rt (veDieId res) resType (u32_add (startId (veInfos res ! 0)) i) m of (ret, m) \<Rightarrow>
               (if ret \<noteq> CCU_SUCCESS \<and> firstErr = CCU_SUCCESS then ret else firstErr, m))
           [0..<length (veVas res)] (CCU_SUCCESS, m))"

text \<open>Putting the ids of a reservation back, shared by the two releases: \<open>None\<close> for a type without a pool.\<close>

definition return_res :: "CcuVarEventRes \<Rightarrow> CcuVarEventResMgr \<Rightarrow> CcuVarEventResMgr option" where
  "return_res res m =
    (case SelectPool (veType res) of
       None \<Rightarrow> None
     | Some t \<Rightarrow> Some (set_ve_pool (veRepo res) t (veDieId res)
         (ReturnToPool (ve_pool (veRepo res) t (veDieId res) m) (veInfos res)) m))"

definition ReleaseByHandle :: "RtDevRes \<Rightarrow> nat \<Rightarrow> CcuVarEventResMgr \<Rightarrow> CcuResult \<times> CcuVarEventResMgr" where
  "ReleaseByHandle rt h m =
    (case map_of (resMap m) h of
       None \<Rightarrow> (CCU_E_NOT_FOUND, m)
     | Some res \<Rightarrow>
         (case UnmapSavedAddrs rt res (m\<lparr>resMap := AList.delete h (resMap m)\<rparr>) of (unmapRet, m) \<Rightarrow>
            if veRepo res = 0 then (unmapRet, m)
            else case return_res res m of None \<Rightarrow> (CCU_E_INTERNAL, m) | Some m \<Rightarrow> (unmapRet, m)))"

definition Acquire ::
  "RtDevRes \<Rightarrow> nat \<Rightarrow> nat \<Rightarrow> CcuVarEventType \<Rightarrow> nat \<Rightarrow> nat \<Rightarrow> nat \<Rightarrow> CcuVarEventResMgr \<Rightarrow> CcuResult \<times> nat \<times> CcuVarEventResMgr" where
  "Acquire rt insHandle repo type dieId n h m =
    (case AllocAndRecord insHandle repo type dieId n m of (allocRet, newHandle, m) \<Rightarrow>
       if allocRet \<noteq> CCU_SUCCESS then (allocRet, h, m)
       else case RegisterAddrs rt type newHandle n m of (regRet, m) \<Rightarrow>
         if regRet \<noteq> CCU_SUCCESS then (regRet, h, snd (ReleaseByHandle rt newHandle m))
         else (CCU_SUCCESS, newHandle, m))"

fun ReleaseByInstance_loop :: "RtDevRes \<Rightarrow> CcuVarEventRes list \<Rightarrow> CcuResult \<Rightarrow> CcuVarEventResMgr \<Rightarrow> CcuResult \<times> CcuVarEventResMgr" where
  "ReleaseByInstance_loop rt [] firstErr m = (firstErr, m)"
| "ReleaseByInstance_loop rt (res # rs) firstErr m =
    (case UnmapSavedAddrs rt res m of (unmapRet, m) \<Rightarrow>
       let firstErr = (if unmapRet \<noteq> CCU_SUCCESS \<and> firstErr = CCU_SUCCESS then unmapRet else firstErr)
       in if veRepo res = 0 then ReleaseByInstance_loop rt rs firstErr m
          else case return_res res m of
            None \<Rightarrow> ReleaseByInstance_loop rt rs (if firstErr = CCU_SUCCESS then CCU_E_INTERNAL else firstErr) m
          | Some m \<Rightarrow> ReleaseByInstance_loop rt rs firstErr m)"

definition ReleaseByInstance :: "RtDevRes \<Rightarrow> nat \<Rightarrow> CcuVarEventResMgr \<Rightarrow> CcuResult \<times> CcuVarEventResMgr" where
  "ReleaseByInstance rt insHandle m =
    (let toRelease = map snd (filter (\<lambda>(h, res). veIns res = insHandle) (resMap m))
     in ReleaseByInstance_loop rt toRelease CCU_SUCCESS
          (m\<lparr>resMap := filter (\<lambda>(h, res). veIns res \<noteq> insHandle) (resMap m)\<rparr>))"

definition exclude_res :: "CcuVarEventRes \<Rightarrow> CcuVarEventResMgr \<Rightarrow> CcuVarEventResMgr" where
  "exclude_res res m =
    (case SelectPool (veType res) of
       None \<Rightarrow> m
     | Some t \<Rightarrow> set_ve_pool (veRepo res) t (veDieId res)
         (fold (\<lambda>info pool. RemoveRangeFromPool pool (startId info) (num info)) (veInfos res)
            (ve_pool (veRepo res) t (veDieId res) m)) m)"

definition ExcludeAllocatedFromRepo :: "nat \<Rightarrow> CcuVarEventResMgr \<Rightarrow> CcuResult \<times> CcuVarEventResMgr" where
  "ExcludeAllocatedFromRepo insHandle m =
    (CCU_SUCCESS,
     fold (\<lambda>(h, res) m. if veIns res \<noteq> insHandle \<or> veRepo res = 0 then m else exclude_res res m) (resMap m) m)"

end
