(* ===== verification/Var_Event_Inv.thy ===== *)
theory Var_Event_Inv
  imports Var_Event_Mgr
begin

text \<open>
  The ledger of the reservations: the free ids of an instance and the reserved ones make up, without overlap, the ids it
  was given, and the addresses mapped and not yet unmapped are those of the live reservations. Every operation keeps it,
  whatever the runtime answers.
\<close>

subsection \<open>The log of the runtime\<close>

fun mappings :: "RtCall list \<Rightarrow> (nat \<times> rtDevResType \<times> nat) list" where
  "mappings [] = []"
| "mappings (RtMap d t i ok # log) = (if ok then (d, t, i) # mappings log else mappings log)"
| "mappings (_ # log) = mappings log"

fun unmappings :: "RtCall list \<Rightarrow> (nat \<times> rtDevResType \<times> nat) list" where
  "unmappings [] = []"
| "unmappings (RtUnmap d t i ok # log) = (d, t, i) # unmappings log"
| "unmappings (_ # log) = unmappings log"

lemma mappings_append [simp]: "mappings (xs @ ys) = mappings xs @ mappings ys"
  by (induction xs rule: mappings.induct) simp_all

lemma unmappings_append [simp]: "unmappings (xs @ ys) = unmappings xs @ unmappings ys"
  by (induction xs rule: unmappings.induct) simp_all

text \<open>A change of the log only, with these new mappings and unmappings.\<close>

definition logs :: "CcuVarEventResMgr \<Rightarrow> (nat \<times> rtDevResType \<times> nat) list \<Rightarrow> (nat \<times> rtDevResType \<times> nat) list \<Rightarrow> CcuVarEventResMgr \<Rightarrow> bool" where
  "logs m ms us m' \<longleftrightarrow> (\<exists>log. m' = m\<lparr>rtLog := rtLog m @ log\<rparr> \<and> mappings log = ms \<and> unmappings log = us)"

lemma logs_refl [simp]: "logs m [] [] m"
  by (auto simp: logs_def intro: exI [of _ "[]"])

lemma logs_trans: "logs m ms us m1 \<Longrightarrow> logs m1 ms' us' m2 \<Longrightarrow> logs m (ms @ ms') (us @ us') m2"
  by (auto simp: logs_def)

lemma logs_sel:
  assumes "logs m ms us m'"
  shows "resMap m' = resMap m" "veRepos m' = veRepos m" "handleSeed m' = handleSeed m"
    "mappings (rtLog m') = mappings (rtLog m) @ ms" "unmappings (rtLog m') = unmappings (rtLog m) @ us"
  using assms by (auto simp: logs_def)

lemma Map_logs:
  assumes "MapDevResAddress rt d t i m = (ret, va, m')"
  shows "logs m (if ret = CCU_SUCCESS then [(d, t, i)] else []) [] m'"
  using assms unfolding logs_def
  by (intro exI [of _ "[RtMap d t i (ret = CCU_SUCCESS)]"]) (auto simp: MapDevResAddress_def split: prod.splits if_splits)

lemma Unmap_logs: "UnmapDevResAddress rt d t i m = (ret, m') \<Longrightarrow> logs m [] [(d, t, i)] m'"
  by (auto simp: UnmapDevResAddress_def logs_def Let_def)

lemma UnmapMapped_logs: "logs m [] (map (\<lambda>(d, i). (d, t, i)) (rev mapped)) (UnmapMappedRes rt mapped t m)"
proof -
  have "logs m [] (map (\<lambda>(d, i). (d, t, i)) xs) (fold (\<lambda>(d, i) m. snd (UnmapDevResAddress rt d t i m)) xs m)" for xs
  proof (induction xs arbitrary: m)
    case (Cons x xs)
    obtain d i where x: "x = (d, i)"
      by fastforce
    show ?case
      using logs_trans [OF Unmap_logs [of rt d t i m] Cons [of "snd (UnmapDevResAddress rt d t i m)"]] by (simp add: x prod_eq_iff)
  qed simp
  then show ?thesis
    by (simp add: UnmapMappedRes_def)
qed

subsection \<open>Reservations\<close>

definition res_ok :: "CcuVarEventRes \<Rightarrow> bool" where
  "res_ok res \<longleftrightarrow> SelectPool (veType res) \<noteq> None \<and> veDieId res < 2 \<and> veRepo res \<noteq> 0
    \<and> (\<exists>s n. veInfos res = [mk_res s n] \<and> 0 < n \<and> s + n < 2 ^ 32 \<and> (veVas res = [] \<or> length (veVas res) = n))"

definition rt_type :: "CcuVarEventRes \<Rightarrow> rtDevResType" where
  "rt_type res = the (GetRtResType (veType res))"

definition res_maps :: "CcuVarEventRes \<Rightarrow> (nat \<times> rtDevResType \<times> nat) list" where
  "res_maps res = (if veVas res = [] then [] else map (\<lambda>i. (veDieId res, rt_type res, i)) (id_list (veInfos res)))"

lemma res_ok_type: "res_ok res \<Longrightarrow> veType res \<noteq> VE_OTHER \<and> GetRtResType (veType res) = Some (rt_type res)"
  by (cases "veType res") (auto simp: res_ok_def rt_type_def)

lemma map_u32_run:
  fixes s n :: nat
  assumes "s + n < 2 ^ 32"
  shows "map (u32_add s) [0..<n] = [s ..< s + n]"
  using assms by (intro nth_equalityI) (simp_all add: u32_add_exact)

lemma UnmapSaved_logs:
  assumes "res_ok res" and "UnmapSavedAddrs rt res m = (ret, m')"
  shows "logs m [] (res_maps res) m'"
proof (cases "veVas res = []")
  case True
  then show ?thesis
    using assms(2) by (simp add: UnmapSavedAddrs_def res_maps_def)
next
  case False
  obtain s n where sn: "veInfos res = [mk_res s n]" "s + n < 2 ^ 32" "length (veVas res) = n"
    using assms(1) False by (auto simp: res_ok_def)
  let ?step = "\<lambda>i (firstErr, m). case UnmapDevResAddress rt (veDieId res) (rt_type res) (u32_add s i) m of (ret, m) \<Rightarrow>
    (if ret \<noteq> CCU_SUCCESS \<and> firstErr = CCU_SUCCESS then ret else firstErr, m)"
  have "logs m [] (map (\<lambda>i. (veDieId res, rt_type res, u32_add s i)) is) (snd (fold ?step is (e, m)))" for "is" e m
  proof (induction "is" arbitrary: e m)
    case (Cons i "is")
    obtain r m1 where call: "UnmapDevResAddress rt (veDieId res) (rt_type res) (u32_add s i) m = (r, m1)"
      by fastforce
    show ?case
      using logs_trans [OF Unmap_logs [OF call] Cons] call by simp
  qed simp
  note fold = this
  have "m' = snd (fold ?step [0..<n] (CCU_SUCCESS, m))"
    using assms(2) False sn res_ok_type [OF assms(1)] by (simp add: UnmapSavedAddrs_def)
  moreover have "map (\<lambda>i. (veDieId res, rt_type res, u32_add s i)) [0..<n] = res_maps res"
    using False sn(1) map_map [of "\<lambda>i. (veDieId res, rt_type res, i)" "u32_add s" "[0..<n]"] unfolding map_u32_run [OF sn(2)]
    by (simp add: res_maps_def comp_def)
  ultimately show ?thesis
    using fold [of m "[0..<n]" CCU_SUCCESS] by metis
qed

lemma RegisterAddrs_loop_Cons:
  assumes "map_of (resMap m) h = Some res" and "veType res = type" and "type \<noteq> VE_OTHER" and "veInfos res = [mk_res s n]"
    and "s + n < 2 ^ 32" and "i < n" and "MapDevResAddress rt (veDieId res) t (s + i) m = (e, va, m1)"
  shows "RegisterAddrs_loop rt type t h (i # is) vas mapped m =
    (if e \<noteq> CCU_SUCCESS then (e, vas, mapped, m1) else RegisterAddrs_loop rt type t h is (vas @ [va]) (mapped @ [(veDieId res, s + i)]) m1)"
proof -
  have "u32_add s i = s + i"
    using assms(5,6) by (simp add: u32_add_exact)
  then have "(if type = VARIABLE then GetVariableXnId h i m else GetEventCkeId h i m) = Inr (veDieId res, s + i)"
    using assms(1-6) by (cases type) (simp_all add: GetVariableXnId_def GetEventCkeId_def GetResId_def)
  then show ?thesis
    using assms(7) by (simp split: if_splits)
qed

lemma RegisterAddrs_loop_logs:
  assumes "map_of (resMap m) h = Some res" and "veType res = type" and "type \<noteq> VE_OTHER" and "veInfos res = [mk_res s n]"
    and "s + n < 2 ^ 32" and "set is \<subseteq> {..<n}" and "RegisterAddrs_loop rt type t h is vas mapped m = (ret, vas', mapped', m')"
  shows "\<exists>new. logs m (map (\<lambda>(d, i). (d, t, i)) new) [] m' \<and> mapped' = mapped @ new
    \<and> (ret = CCU_SUCCESS \<longrightarrow> new = map (\<lambda>i. (veDieId res, s + i)) is \<and> length vas' = length vas + length is)"
  using assms(1,6,7)
proof (induction "is" arbitrary: vas mapped m)
  case Nil
  then show ?case
    by auto
next
  case (Cons i "is")
  obtain e va m1 where call: "MapDevResAddress rt (veDieId res) t (s + i) m = (e, va, m1)"
    by (metis prod_cases3)
  note step = RegisterAddrs_loop_Cons [OF Cons.prems(1) assms(2-5) _ call, of "is" vas mapped]
  show ?case
  proof (cases "e = CCU_SUCCESS")
    case True
    have "map_of (resMap m1) h = Some res"
      using logs_sel(1) [OF Map_logs [OF call]] Cons.prems(1) by simp
    then obtain new where new: "logs m1 (map (\<lambda>(d, i). (d, t, i)) new) [] m'" "mapped' = mapped @ [(veDieId res, s + i)] @ new"
      "ret = CCU_SUCCESS \<longrightarrow> new = map (\<lambda>i. (veDieId res, s + i)) is \<and> length vas' = Suc (length vas) + length is"
      using Cons.IH [of m1 "vas @ [va]" "mapped @ [(veDieId res, s + i)]"] Cons.prems(2,3) True step by auto
    then show ?thesis
      using logs_trans [OF Map_logs [OF call] new(1)] True by (intro exI [of _ "(veDieId res, s + i) # new"]) auto
  next
    case False
    then show ?thesis
      using Map_logs [OF call] Cons.prems(2,3) step by (intro exI [of _ "[]"]) auto
  qed
qed

text \<open>The addresses are those the runtime gave, and the registration fails only when the runtime does.\<close>

definition served :: "RtDevRes \<Rightarrow> nat \<Rightarrow> rtDevResType \<Rightarrow> nat \<Rightarrow> u64 \<Rightarrow> bool" where
  "served rt d t i va \<longleftrightarrow> (\<exists>log. rtGetDevResAddress rt log d t i = (True, va))"

lemma RegisterAddrs_loop_addrs:
  assumes "map_of (resMap m) h = Some res" and "veType res = type" and "type \<noteq> VE_OTHER" and "veInfos res = [mk_res s n]"
    and "s + n < 2 ^ 32" and "set is \<subseteq> {..<n}" and "RegisterAddrs_loop rt type t h is vas mapped m = (ret, vas', mapped', m')"
  shows "(ret = CCU_SUCCESS \<longrightarrow> (\<exists>new. vas' = vas @ new \<and> list_all2 (\<lambda>i. served rt (veDieId res) t (s + i)) is new))
    \<and> ((\<forall>log d t i. fst (rtGetDevResAddress rt log d t i)) \<longrightarrow> ret = CCU_SUCCESS)
    \<and> (ret = CCU_SUCCESS \<or> ret = CCU_E_RUNTIME)"
  using assms(1,6,7)
proof (induction "is" arbitrary: vas mapped m)
  case (Cons i "is")
  obtain e va m1 where call: "MapDevResAddress rt (veDieId res) t (s + i) m = (e, va, m1)"
    by (metis prod_cases3)
  note step = RegisterAddrs_loop_Cons [OF Cons.prems(1) assms(2-5) _ call, of "is" vas mapped]
  have answer: "e = CCU_SUCCESS \<longleftrightarrow> fst (rtGetDevResAddress rt (rtLog m) (veDieId res) t (s + i))"
    "e = CCU_SUCCESS \<Longrightarrow> served rt (veDieId res) t (s + i) va" "e = CCU_SUCCESS \<or> e = CCU_E_RUNTIME"
    using call by (auto simp: MapDevResAddress_def served_def split: prod.splits if_splits)
  show ?case
  proof (cases "e = CCU_SUCCESS")
    case True
    have "map_of (resMap m1) h = Some res"
      using logs_sel(1) [OF Map_logs [OF call]] Cons.prems(1) by simp
    moreover have "RegisterAddrs_loop rt type t h is (vas @ [va]) (mapped @ [(veDieId res, s + i)]) m1 = (ret, vas', mapped', m')"
      using Cons.prems(2,3) True step by auto
    ultimately show ?thesis
      using Cons.IH Cons.prems(2) answer(2) [OF True] by fastforce
  next
    case False
    then show ?thesis
      using answer(1,3) Cons.prems(2,3) step by auto
  qed
qed simp

lemma RegisterAddrs_served:
  assumes "map_of (resMap m) h = Some res" and "veType res = type" and "type \<noteq> VE_OTHER" and "veInfos res = [mk_res s n]"
    and "s + n < 2 ^ 32" and "RegisterAddrs rt type h n m = (ret, m')"
  shows "(ret = CCU_SUCCESS \<longrightarrow> (\<exists>vas. map_of (resMap m') h = Some (res\<lparr>veVas := vas\<rparr>)
        \<and> list_all2 (\<lambda>i. served rt (veDieId res) (rt_type res) (s + i)) [0..<n] vas))
    \<and> ((\<forall>log d t i. fst (rtGetDevResAddress rt log d t i)) \<longrightarrow> ret = CCU_SUCCESS)
    \<and> (ret = CCU_SUCCESS \<or> ret = CCU_E_RUNTIME)"
proof -
  obtain t where t: "GetRtResType type = Some t" "rt_type res = t"
    using assms(2,3) by (cases type) (auto simp: rt_type_def)
  obtain e vas mapped m1 where loop: "RegisterAddrs_loop rt type t h [0..<n] [] [] m = (e, vas, mapped, m1)"
    by (metis prod_cases4)
  note addrs = RegisterAddrs_loop_addrs [OF assms(1-5) _ loop]
  show ?thesis
  proof (cases "e = CCU_SUCCESS")
    case True
    have "resMap m1 = resMap m"
      using RegisterAddrs_loop_logs [OF assms(1-5) _ loop] logs_sel(1) by (auto simp: lessThan_atLeast0)
    moreover have vas: "list_all2 (\<lambda>i. served rt (veDieId res) t (s + i)) [0..<n] vas"
      using addrs True by (auto simp: lessThan_atLeast0)
    moreover have "length vas = n"
      using list_all2_lengthD [OF vas] by simp
    ultimately show ?thesis
      using assms True loop by (auto simp: RegisterAddrs_def SaveAddrs_def t update_conv')
  next
    case False
    then show ?thesis
      using addrs assms(6) loop by (auto simp: RegisterAddrs_def t(1) lessThan_atLeast0)
  qed
qed

lemma RegisterAddrs_outcome:
  assumes "map_of (resMap m) h = Some res" and "veType res = type" and "type \<noteq> VE_OTHER" and "veInfos res = [mk_res s n]"
    and "s + n < 2 ^ 32" and "RegisterAddrs rt type h n m = (ret, m')"
  shows "if ret = CCU_SUCCESS
    then \<exists>vas m1. length vas = n \<and> m' = m1\<lparr>resMap := AList.update h (res\<lparr>veVas := vas\<rparr>) (resMap m)\<rparr>
      \<and> logs m (map (\<lambda>i. (veDieId res, rt_type res, i)) [s ..< s + n]) [] m1
    else \<exists>ms. logs m ms (rev ms) m'"
proof -
  obtain t where t: "GetRtResType type = Some t" "rt_type res = t"
    using assms(2,3) by (cases type) (auto simp: rt_type_def)
  obtain e vas mapped m1 where loop: "RegisterAddrs_loop rt type t h [0..<n] [] [] m = (e, vas, mapped, m1)"
    by (metis prod_cases4)
  have new: "logs m (map (\<lambda>(d, i). (d, t, i)) mapped) [] m1"
    "e = CCU_SUCCESS \<Longrightarrow> mapped = map (\<lambda>i. (veDieId res, s + i)) [0..<n] \<and> length vas = n"
    using RegisterAddrs_loop_logs [OF assms(1-5) _ loop] by (auto simp: lessThan_atLeast0)
  show ?thesis
  proof (cases "e = CCU_SUCCESS")
    case True
    have "SaveAddrs type h vas m1 = (CCU_SUCCESS, m1\<lparr>resMap := AList.update h (res\<lparr>veVas := vas\<rparr>) (resMap m)\<rparr>)"
      using assms(1,2,4) new(2) [OF True] logs_sel(1) [OF new(1)] by (simp add: SaveAddrs_def)
    then have "ret = CCU_SUCCESS" "m' = m1\<lparr>resMap := AList.update h (res\<lparr>veVas := vas\<rparr>) (resMap m)\<rparr>"
      using assms(6) loop True by (simp_all add: RegisterAddrs_def t(1))
    moreover have "map (\<lambda>(d, i). (d, t, i)) mapped = map (\<lambda>i. (veDieId res, t, i)) [s ..< s + n]"
      using new(2) [OF True] by (intro nth_equalityI) simp_all
    ultimately show ?thesis
      using new True by (auto simp: t(2))
  next
    case False
    then have "ret = e" "m' = UnmapMappedRes rt mapped t m1"
      using assms(6) loop by (simp_all add: RegisterAddrs_def t(1))
    then show ?thesis
      using logs_trans [OF new(1) UnmapMapped_logs [of m1 t mapped rt]] False
      by (auto simp: rev_map intro!: exI [of _ "map (\<lambda>(d, i). (d, t, i)) mapped"])
  qed
qed

subsection \<open>The ledger\<close>

definition is_for :: "nat \<Rightarrow> ResType \<Rightarrow> nat \<Rightarrow> CcuVarEventRes \<Rightarrow> bool" where
  "is_for p t d res \<longleftrightarrow> veRepo res = p \<and> SelectPool (veType res) = Some t \<and> veDieId res = d"

definition reserved :: "nat \<Rightarrow> ResType \<Rightarrow> nat \<Rightarrow> (nat \<times> CcuVarEventRes) list \<Rightarrow> nat list" where
  "reserved p t d rm = concat (map (\<lambda>(h, res). if is_for p t d res then id_list (veInfos res) else []) rm)"

definition ve_types :: "ResType set" where
  "ve_types = {ResType_XN, ResType_CKE}"

text \<open>\<open>given p t d\<close> is the set of ids of the type that the repository at \<open>p\<close> was given on the die; \<open>owner\<close> is the
  repository of an instance.\<close>

definition ve_inv :: "(nat \<Rightarrow> nat) \<Rightarrow> (nat \<Rightarrow> ResType \<Rightarrow> nat \<Rightarrow> nat set) \<Rightarrow> CcuVarEventResMgr \<Rightarrow> bool" where
  "ve_inv owner given m \<longleftrightarrow>
    (\<forall>p. \<forall>t\<in>ve_types. \<forall>d<2. finite (given p t d) \<and> blocks_u32 (ve_pool p t d m)
       \<and> mset (id_list (ve_pool p t d m)) + mset (reserved p t d (resMap m)) = mset_set (given p t d))
    \<and> (\<forall>(h, res)\<in>set (resMap m). res_ok res \<and> h \<le> handleSeed m \<and> veRepo res = owner (veIns res))
    \<and> distinct (map fst (resMap m))
    \<and> mset (mappings (rtLog m)) = mset (unmappings (rtLog m)) + mset (concat (map (res_maps \<circ> snd) (resMap m)))"

lemma reserved_simps [simp]:
  "reserved p t d [] = []" "reserved p t d ((h, res) # rm) = (if is_for p t d res then id_list (veInfos res) else []) @ reserved p t d rm"
  "reserved p t d (xs @ ys) = reserved p t d xs @ reserved p t d ys"
  by (simp_all add: reserved_def)

lemma ve_pool_set:
  assumes "t \<in> ve_types" and "t' \<in> ve_types"
  shows "ve_pool p' t' d' (set_ve_pool p t d pool m) = (if p' = p \<and> t' = t \<and> d' = d then pool else ve_pool p' t' d' m)"
  using assms by (auto simp: ve_pool_def set_ve_pool_def ve_types_def)

lemma set_ve_pool_sel [simp]:
  "resMap (set_ve_pool p t d pool m) = resMap m" "handleSeed (set_ve_pool p t d pool m) = handleSeed m" "rtLog (set_ve_pool p t d pool m) = rtLog m"
  by (simp_all add: set_ve_pool_def)

lemma ve_pool_upd [simp]:
  "ve_pool p t d (m\<lparr>resMap := rm\<rparr>) = ve_pool p t d m" "ve_pool p t d (m\<lparr>handleSeed := k\<rparr>) = ve_pool p t d m"
  "ve_pool p t d (m\<lparr>rtLog := log\<rparr>) = ve_pool p t d m"
  by (simp_all add: ve_pool_def)

lemma SelectPool_types: "SelectPool ty = Some t \<Longrightarrow> t \<in> ve_types"
  by (cases ty) (auto simp: ve_types_def)

lemma logs_pool: "logs m ms us m' \<Longrightarrow> ve_pool p t d m' = ve_pool p t d m"
  by (auto simp: logs_def)

lemma entry_at:
  fixes rm :: "('k \<times> 'v) list"
  assumes "distinct (map fst rm)" and rm: "rm = xs @ (h, res) # ys"
  shows "AList.delete h rm = xs @ ys" and "AList.update h v rm = xs @ (h, v) # ys"
proof -
  have fresh: "h \<notin> fst ` set xs" "h \<notin> fst ` set ys"
    using assms by auto
  have "filter (\<lambda>(k, v). h \<noteq> k) zs = zs" if "h \<notin> fst ` set zs" for zs :: "('k \<times> 'v) list"
    using that by (induction zs) auto
  then show "AList.delete h rm = xs @ ys"
    using fresh unfolding rm AList.delete_eq by simp
  show "AList.update h v rm = xs @ (h, v) # ys"
    using fresh(1) unfolding rm by (induction xs) auto
qed

subsection \<open>Every operation keeps it\<close>

lemma ve_invD:
  assumes "ve_inv owner given m"
  shows "t \<in> ve_types \<Longrightarrow> d < 2 \<Longrightarrow> finite (given p t d) \<and> blocks_u32 (ve_pool p t d m)
      \<and> mset (id_list (ve_pool p t d m)) + mset (reserved p t d (resMap m)) = mset_set (given p t d)"
    and "(h, res) \<in> set (resMap m) \<Longrightarrow> res_ok res \<and> h \<le> handleSeed m \<and> veRepo res = owner (veIns res)"
    and "distinct (map fst (resMap m))"
    and "mset (mappings (rtLog m)) = mset (unmappings (rtLog m)) + mset (concat (map (res_maps \<circ> snd) (resMap m)))"
  using assms by (auto simp: ve_inv_def)

text \<open>Taking a reservation out of the table and putting its ids back, after its addresses were unmapped.\<close>

lemma return_keeps:
  assumes "ve_inv owner given m" and "resMap m = xs @ (h, res) # ys" and "logs (m\<lparr>resMap := xs @ ys\<rparr>) [] (res_maps res) m1"
  shows "\<exists>m2. return_res res m1 = Some m2 \<and> ve_inv owner given m2 \<and> resMap m2 = xs @ ys \<and> handleSeed m2 = handleSeed m"
proof -
  have ok: "res_ok res"
    using ve_invD(2) [OF assms(1), of h res] assms(2) by simp
  then obtain t s n where t: "SelectPool (veType res) = Some t" "t \<in> ve_types" "veDieId res < 2" "veInfos res = [mk_res s n]" "0 < n" "s + n < 2 ^ 32"
    using SelectPool_types by (auto simp: res_ok_def)
  let ?pool = "ve_pool (veRepo res) t (veDieId res) m"
  let ?m2 = "set_ve_pool (veRepo res) t (veDieId res) (ReturnToPool ?pool (veInfos res)) m1"
  note sel = logs_sel [OF assms(3), simplified] logs_pool [OF assms(3), simplified]
  have m2: "return_res res m1 = Some ?m2"
    by (simp add: return_res_def t(1) sel)
  have "finite (given p t' d) \<and> blocks_u32 (ve_pool p t' d ?m2)
      \<and> mset (id_list (ve_pool p t' d ?m2)) + mset (reserved p t' d (xs @ ys)) = mset_set (given p t' d)" if "t' \<in> ve_types" "d < 2" for p t' d
    using ve_invD(1) [OF assms(1) that, of p] t that assms(2) by (auto simp: ve_pool_set sel is_for_def ac_simps)
  moreover have "mset (mappings (rtLog m)) = mset (unmappings (rtLog m) @ res_maps res) + mset (concat (map (res_maps \<circ> snd) (xs @ ys)))"
    using ve_invD(4) [OF assms(1)] assms(2) by simp
  moreover have "distinct (map fst (xs @ ys))" "\<forall>(h, res)\<in>set (xs @ ys). res_ok res \<and> h \<le> handleSeed m \<and> veRepo res = owner (veIns res)"
    using ve_invD(2,3) [OF assms(1)] assms(2) by auto
  ultimately have "ve_inv owner given ?m2"
    unfolding ve_inv_def by (simp add: sel)
  then show ?thesis
    using m2 by (simp add: sel)
qed

lemma ReleaseByHandle_keeps:
  assumes "ve_inv owner given m" and "ReleaseByHandle rt h m = (ret, m')"
  shows "ve_inv owner given m' \<and> resMap m' = AList.delete h (resMap m) \<and> handleSeed m' = handleSeed m"
proof (cases "map_of (resMap m) h")
  case None
  then have "AList.delete h (resMap m) = resMap m"
    by (force simp: AList.delete_eq filter_id_conv map_of_eq_None_iff)
  then show ?thesis
    using assms None by (simp add: ReleaseByHandle_def)
next
  case (Some res)
  obtain xs ys where e: "resMap m = xs @ (h, res) # ys" "AList.delete h (resMap m) = xs @ ys"
    using split_list [OF map_of_SomeD [OF Some]] entry_at(1) [OF ve_invD(3) [OF assms(1)]] by metis
  have ok: "res_ok res"
    using ve_invD(2) [OF assms(1), of h res] e(1) by simp
  obtain u m1 where un: "UnmapSavedAddrs rt res (m\<lparr>resMap := xs @ ys\<rparr>) = (u, m1)"
    by fastforce
  obtain m2 where "return_res res m1 = Some m2" "ve_inv owner given m2" "resMap m2 = xs @ ys" "handleSeed m2 = handleSeed m"
    using return_keeps [OF assms(1) e(1) UnmapSaved_logs [OF ok un]] by blast
  moreover have "m' = m2"
    using assms(2) Some un e(2) \<open>return_res res m1 = Some m2\<close> ok by (simp add: ReleaseByHandle_def res_ok_def)
  ultimately show ?thesis
    using e(2) by simp
qed

lemma AllocAndRecord_keeps:
  assumes inv: "ve_inv owner given m" and own: "repo = owner ins" "repo \<noteq> 0" and seed: "handleSeed m + 1 < 2 ^ 64"
    and call: "AllocAndRecord ins repo ty d n m = (ret, h, m')"
  shows "ve_inv owner given m' \<and> handleSeed m' \<le> handleSeed m + 1 \<and>
    (if ret = CCU_SUCCESS
     then h = handleSeed m + 1 \<and> (\<exists>s res. resMap m' = resMap m @ [(h, res)] \<and> veVas res = [] \<and> res_ok res \<and> veType res = ty
       \<and> veIns res = ins \<and> veDieId res = d \<and> veInfos res = [mk_res s n])
     else resMap m' = resMap m)"
proof (cases "d \<ge> CCU_MAX_IODIE_NUM \<or> n = 0 \<or> SelectPool ty = None")
  case True
  then have "ret = CCU_E_PARA" "m' = m"
    using call by (auto simp: AllocAndRecord_def split: if_splits)
  then show ?thesis
    using inv by simp
next
  case False
  then obtain t where t: "SelectPool ty = Some t" "t \<in> ve_types" "d < 2" "0 < n"
    using SelectPool_types by (auto simp: CCU_MAX_IODIE_NUM_def)
  obtain e infos pool where cut: "AllocFromPool (ve_pool repo t d m) n = (e, infos, pool)"
    by (metis prod_cases3)
  have pools: "blocks_u32 (ve_pool repo t d m)"
    using ve_invD(1) [OF inv t(2,3)] by simp
  show ?thesis
  proof (cases "e = CCU_SUCCESS")
    case True
    note moved = AllocFromPool_moves [OF pools cut [unfolded True]]
    then obtain s where s: "infos = [mk_res s n]" "s + n < 2 ^ 32"
      by auto
    let ?res = "\<lparr>veIns = ins, veDieId = d, veType = ty, veInfos = infos, veRepo = repo, veVas = []\<rparr>"
    have fresh: "map_of (resMap m) (handleSeed m + 1) = None"
      using ve_invD(2) [OF inv] by (force simp: map_of_eq_None_iff)
    have ret: "ret = CCU_SUCCESS" "h = handleSeed m + 1"
      "m' = (set_ve_pool repo t d pool m)\<lparr>handleSeed := h, resMap := resMap m @ [(h, ?res)]\<rparr>"
      using call False cut True t(1) seed fresh by (auto simp: AllocAndRecord_def Let_def)
    have ok: "res_ok ?res"
      using t s own(2) by (auto simp: res_ok_def)
    have "finite (given p t' d') \<and> blocks_u32 (ve_pool p t' d' m')
        \<and> mset (id_list (ve_pool p t' d' m')) + mset (reserved p t' d' (resMap m')) = mset_set (given p t' d')"
      if "t' \<in> ve_types" "d' < 2" for p t' d'
      using ve_invD(1) [OF inv that, of p] t that moved(1,3) by (auto simp: ret(3) ve_pool_set is_for_def ac_simps)
    moreover have "h \<notin> fst ` set (resMap m)"
      using fresh by (simp add: ret(2) map_of_eq_None_iff)
    ultimately have "ve_inv owner given m'"
      using inv ok own unfolding ve_inv_def by (auto simp: ret(2,3) res_maps_def)
    then show ?thesis
      using ok s ret by auto
  next
    case failed: False
    then have "e = CCU_E_UNAVAIL \<and> infos = [] \<and> pool = ve_pool repo t d m"
      using AllocFromPool_fails [OF cut] by simp
    then have "ret \<noteq> CCU_SUCCESS" "m' = set_ve_pool repo t d (ve_pool repo t d m) m"
      using call False cut failed t(1) by (simp_all add: AllocAndRecord_def Let_def)
    moreover have "set_repo_block t d (repo_block t r d) r = r" for r
      using t(2) by (cases r) (auto simp: ve_types_def)
    then have "set_ve_pool repo t d (ve_pool repo t d m) m = m"
      by (simp add: set_ve_pool_def ve_pool_def)
    ultimately show ?thesis
      using inv by simp
  qed
qed

text \<open>A registration that succeeds stores the addresses of the new mappings with the reservation.\<close>

lemma saved_keeps:
  assumes inv: "ve_inv owner given m" and at: "resMap m = xs @ (h, res) # ys" and new: "veVas res = []" "veInfos res = [mk_res s n]" "length vas = n"
    and log: "logs m (map (\<lambda>i. (veDieId res, rt_type res, i)) [s ..< s + n]) [] m1"
  shows "ve_inv owner given (m1\<lparr>resMap := xs @ (h, res\<lparr>veVas := vas\<rparr>) # ys\<rparr>)"
proof -
  let ?res = "res\<lparr>veVas := vas\<rparr>"
  note sel = logs_sel [OF log] logs_pool [OF log]
  have ok: "res_ok res"
    using ve_invD(2) [OF inv, of h res] at by simp
  then have "vas \<noteq> []"
    using new by (auto simp: res_ok_def)
  then have maps: "res_maps ?res = map (\<lambda>i. (veDieId res, rt_type res, i)) [s ..< s + n]" "res_maps res = []"
    using new by (simp_all add: res_maps_def rt_type_def)
  have "res_ok ?res"
    using ok new by (auto simp: res_ok_def)
  moreover have "reserved p t d (xs @ (h, ?res) # ys) = reserved p t d (resMap m)" for p t d
    unfolding at by (simp add: is_for_def)
  moreover have "mset (mappings (rtLog m1)) = mset (unmappings (rtLog m1)) + mset (concat (map (res_maps \<circ> snd) (xs @ (h, ?res) # ys)))"
    using ve_invD(4) [OF inv] by (simp add: sel at maps ac_simps del: mset_map)
  ultimately show ?thesis
    using inv unfolding ve_inv_def by (simp add: sel at)
qed

lemma unregistered_keeps:
  assumes "ve_inv owner given m" and "logs m ms (rev ms) m1"
  shows "ve_inv owner given m1"
  using assms logs_sel [OF assms(2)] logs_pool [OF assms(2)] by (simp add: ve_inv_def)

theorem Acquire_keeps:
  assumes inv: "ve_inv owner given m" and own: "repo = owner ins" "repo \<noteq> 0" and seed: "handleSeed m + 1 < 2 ^ 64"
    and call: "Acquire rt ins repo ty d n h0 m = (ret, h, m')"
  shows "ve_inv owner given m' \<and> handleSeed m' \<le> handleSeed m + 1 \<and>
    (if ret = CCU_SUCCESS
     then h = handleSeed m + 1 \<and> (\<exists>s res. resMap m' = resMap m @ [(h, res)] \<and> veType res = ty \<and> veIns res = ins \<and> veDieId res = d
       \<and> veInfos res = [mk_res s n] \<and> length (veVas res) = n)
     else h = h0 \<and> resMap m' = resMap m)"
proof -
  obtain e k m1 where alloc: "AllocAndRecord ins repo ty d n m = (e, k, m1)"
    by (metis prod_cases3)
  note recorded = AllocAndRecord_keeps [OF inv own seed alloc]
  show ?thesis
  proof (cases "e = CCU_SUCCESS")
    case False
    then show ?thesis
      using call alloc recorded by (auto simp: Acquire_def)
  next
    case True
    obtain s res where at: "k = handleSeed m + 1" "resMap m1 = resMap m @ [(k, res)]" "veVas res = []" "res_ok res" "veType res = ty" "veIns res = ins" "veDieId res = d"
      "veInfos res = [mk_res s n]"
      using recorded True by auto
    have inv1: "ve_inv owner given m1"
      using recorded by blast
    have found: "map_of (resMap m1) k = Some res" "s + n < 2 ^ 32" "ty \<noteq> VE_OTHER"
      using map_of_is_SomeI [OF ve_invD(3) [OF inv1], of k res] at res_ok_type [OF at(4)] by (auto simp: res_ok_def)
    obtain g m2 where reg: "RegisterAddrs rt ty k n m1 = (g, m2)"
      by fastforce
    note outcome = RegisterAddrs_outcome [OF found(1) at(5) found(3) at(8) found(2) reg]
    note e = at(2) entry_at [OF ve_invD(3) [OF inv1] at(2)]
    show ?thesis
    proof (cases "g = CCU_SUCCESS")
      case True
      then obtain vas m3 where vas: "length vas = n" "m2 = m3\<lparr>resMap := AList.update k (res\<lparr>veVas := vas\<rparr>) (resMap m1)\<rparr>"
        "logs m1 (map (\<lambda>i. (veDieId res, rt_type res, i)) [s ..< s + n]) [] m3"
        using outcome by auto
      have done_: "ret = CCU_SUCCESS" "h = k" "m' = m2"
        using call alloc \<open>e = CCU_SUCCESS\<close> reg True by (simp_all add: Acquire_def)
      have m2: "m2 = m3\<lparr>resMap := resMap m @ [(k, res\<lparr>veVas := vas\<rparr>)]\<rparr>"
        unfolding vas(2) e(3) ..
      have "ve_inv owner given m2"
        unfolding m2 by (rule saved_keeps [OF inv1 e(1) at(3,8) vas(1,3)])
      moreover have "handleSeed m2 \<le> handleSeed m + 1"
        using recorded logs_sel(3) [OF vas(3)] m2 by simp
      moreover have "\<exists>s r. resMap m2 = resMap m @ [(k, r)] \<and> veType r = ty \<and> veIns r = ins \<and> veDieId r = d
          \<and> veInfos r = [mk_res s n] \<and> length (veVas r) = n"
        using at(5-8) vas(1) by (intro exI [of _ s] exI [of _ "res\<lparr>veVas := vas\<rparr>"]) (simp add: m2)
      ultimately show ?thesis
        unfolding done_ using at(1) by simp
    next
      case False
      then obtain ms where "logs m1 ms (rev ms) m2"
        using outcome by auto
      then have inv2: "ve_inv owner given m2" "resMap m2 = resMap m1" "handleSeed m2 = handleSeed m1"
        using unregistered_keeps [OF inv1] logs_sel by blast+
      obtain u m3 where rel: "ReleaseByHandle rt k m2 = (u, m3)"
        by fastforce
      have "ret = g" "h = h0" "m' = m3"
        using call alloc \<open>e = CCU_SUCCESS\<close> reg False rel by (simp_all add: Acquire_def)
      then show ?thesis
        using ReleaseByHandle_keeps [OF inv2(1) rel] False inv2 e(2) recorded by simp
    qed
  qed
qed

text \<open>The reservations of an instance are taken out of the table first and returned one by one.\<close>

lemma mset_concat_map: "mset xs = mset ys \<Longrightarrow> mset (concat (map f xs)) = mset (concat (map f ys))"
  unfolding mset_concat map_map sum_mset_sum_list [symmetric] mset_map by simp

lemma logs_resMap: "logs m ms us m' \<Longrightarrow> logs (m\<lparr>resMap := rm\<rparr>) ms us (m'\<lparr>resMap := rm\<rparr>)"
  by (cases m) (auto simp: logs_def)

lemma ve_inv_perm:
  assumes "ve_inv owner given (m\<lparr>resMap := rm\<rparr>)" and "mset rm' = mset rm"
  shows "ve_inv owner given (m\<lparr>resMap := rm'\<rparr>)"
proof -
  have "set rm' = set rm" "distinct (map fst rm') \<longleftrightarrow> distinct (map fst rm)"
    using mset_eq_setD [OF assms(2)] assms(2) by (auto simp: mset_eq_imp_distinct_iff mset_map intro!: mset_eq_imp_distinct_iff)
  then show ?thesis
    using assms(1) unfolding ve_inv_def reserved_def by (simp add: mset_concat_map [OF assms(2)])
qed

lemma ReleaseByInstance_loop_keeps:
  assumes "ve_inv owner given (m\<lparr>resMap := es @ resMap m\<rparr>)" and "ReleaseByInstance_loop rt (map snd es) e m = (ret, m')"
  shows "ve_inv owner given m' \<and> resMap m' = resMap m \<and> handleSeed m' = handleSeed m"
  using assms
proof (induction es arbitrary: m e)
  case (Cons x es)
  obtain h res where x: "x = (h, res)"
    by fastforce
  let ?n = "m\<lparr>resMap := x # es @ resMap m\<rparr>"
  have ok: "res_ok res"
    using ve_invD(2) [OF Cons.prems(1), of h res] by (simp add: x)
  obtain u m1 where un: "UnmapSavedAddrs rt res m = (u, m1)"
    by fastforce
  have "logs (m\<lparr>resMap := [] @ es @ resMap m\<rparr>) [] (res_maps res) (m1\<lparr>resMap := es @ resMap m\<rparr>)"
    using logs_resMap [OF UnmapSaved_logs [OF ok un]] by simp
  then have "\<exists>m2. return_res res (m1\<lparr>resMap := es @ resMap m\<rparr>) = Some m2 \<and> ve_inv owner given m2
      \<and> resMap m2 = [] @ es @ resMap m \<and> handleSeed m2 = handleSeed ?n"
    using Cons.prems(1) by (intro return_keeps [of _ _ ?n "[]" h]) (simp_all add: x)
  then obtain m2 where m2: "return_res res (m1\<lparr>resMap := es @ resMap m\<rparr>) = Some m2" "ve_inv owner given m2"
    "resMap m2 = es @ resMap m" "handleSeed m2 = handleSeed m"
    by auto
  have "return_res res m1 = Some (m2\<lparr>resMap := resMap m1\<rparr>)" "resMap m1 = resMap m"
    using m2(1) logs_sel(1) [OF UnmapSaved_logs [OF ok un]] by (auto simp: return_res_def set_ve_pool_def split: option.splits)
  moreover have "\<exists>e'. ReleaseByInstance_loop rt (map snd es) e' (m2\<lparr>resMap := resMap m1\<rparr>) = (ret, m')"
    using Cons.prems(2) un ok calculation(1) by (auto simp: x res_ok_def Let_def)
  moreover have "ve_inv owner given ((m2\<lparr>resMap := resMap m1\<rparr>)\<lparr>resMap := es @ resMap (m2\<lparr>resMap := resMap m1\<rparr>)\<rparr>)"
    using m2(2,3) calculation(2) by (cases m2) simp
  ultimately show ?case
    using Cons.IH [of "m2\<lparr>resMap := resMap m1\<rparr>"] m2(4) by fastforce
qed simp

theorem ReleaseByInstance_keeps:
  assumes "ve_inv owner given m" and "ReleaseByInstance rt ins m = (ret, m')"
  shows "ve_inv owner given m' \<and> resMap m' = filter (\<lambda>(h, res). veIns res \<noteq> ins) (resMap m) \<and> handleSeed m' = handleSeed m"
proof -
  let ?out = "filter (\<lambda>(h, res). veIns res = ins) (resMap m)" and ?rest = "filter (\<lambda>(h, res). veIns res \<noteq> ins) (resMap m)"
  let ?m = "m\<lparr>resMap := ?rest\<rparr>"
  have "mset (?out @ ?rest) = mset (resMap m)"
    by (induction "resMap m" arbitrary: m) auto
  then have "ve_inv owner given (?m\<lparr>resMap := ?out @ resMap ?m\<rparr>)"
    using ve_inv_perm [of owner given "resMap m" m "?out @ ?rest"] assms(1) by simp
  moreover have "ReleaseByInstance_loop rt (map snd ?out) CCU_SUCCESS ?m = (ret, m')"
    using assms(2) unfolding ReleaseByInstance_def Let_def .
  ultimately have "ve_inv owner given m' \<and> resMap m' = resMap ?m \<and> handleSeed m' = handleSeed ?m"
    by (rule ReleaseByInstance_loop_keeps)
  moreover have "resMap ?m = ?rest" "handleSeed ?m = handleSeed m"
    by simp_all
  ultimately show ?thesis
    by metis
qed

subsection \<open>A reloaded repository\<close>

lemma remaining_ids:
  assumes "finite G" and "mset R \<subseteq># mset_set G"
  shows "filter_mset (\<lambda>x. x \<notin> set R) (mset_set G) + mset R = mset_set G"
proof (rule multiset_eqI)
  fix x
  have "count (mset R) x \<le> count (mset_set G) x" "count (mset_set G) x \<le> 1"
    using mset_subset_eq_count [OF assms(2)] by (auto simp: count_mset_set')
  moreover have "x \<in> set R \<Longrightarrow> 1 \<le> count (mset R) x"
    by (simp add: Suc_le_eq)
  ultimately have "x \<in> set R \<Longrightarrow> count (mset R) x = count (mset_set G) x"
    by linarith
  then show "count (filter_mset (\<lambda>x. x \<notin> set R) (mset_set G) + mset R) x = count (mset_set G) x"
    by (cases "x \<in> set R") (simp_all add: count_eq_zero_iff)
qed

lemma exclude_res_pool:
  assumes "res_ok res" and "t \<in> ve_types" and "blocks_u32 (ve_pool q t d m)"
  shows "id_list (ve_pool q t d (exclude_res res m)) =
      filter (\<lambda>x. \<not> (is_for q t d res \<and> x \<in> set (id_list (veInfos res)))) (id_list (ve_pool q t d m))
    \<and> blocks_u32 (ve_pool q t d (exclude_res res m))"
proof -
  obtain u s n where u: "SelectPool (veType res) = Some u" "u \<in> ve_types" "veInfos res = [mk_res s n]" "s + n < 2 ^ 32"
    using assms(1) SelectPool_types by (auto simp: res_ok_def)
  have "ve_pool q t d (exclude_res res m) =
      (if is_for q t d res then RemoveRangeFromPool (ve_pool q t d m) s n else ve_pool q t d m)"
    using assms(2) u by (auto simp: exclude_res_def ve_pool_set is_for_def)
  then show ?thesis
    using RemoveRange_ids [OF assms(3) u(4)] assms(3) u(3) by simp
qed

lemma exclude_res_sel [simp]:
  "resMap (exclude_res res m) = resMap m" "handleSeed (exclude_res res m) = handleSeed m" "rtLog (exclude_res res m) = rtLog m"
  by (simp_all add: exclude_res_def split: option.splits)

lemma exclude_fold:
  fixes ins
  defines "step \<equiv> \<lambda>(h :: nat, res) m. if veIns res \<noteq> ins \<or> veRepo res = 0 then m else exclude_res res m"
  assumes "\<forall>(h, res)\<in>set es. res_ok res" and "t \<in> ve_types" and "blocks_u32 (ve_pool q t d m)"
  shows "id_list (ve_pool q t d (fold step es m)) =
      filter (\<lambda>x. x \<notin> set (reserved q t d (filter (\<lambda>(h, res). veIns res = ins) es))) (id_list (ve_pool q t d m))
    \<and> blocks_u32 (ve_pool q t d (fold step es m))
    \<and> resMap (fold step es m) = resMap m \<and> handleSeed (fold step es m) = handleSeed m \<and> rtLog (fold step es m) = rtLog m"
  using assms(2,4)
proof (induction es arbitrary: m)
  case (Cons x es)
  obtain h res where x: "x = (h, res)"
    by fastforce
  have ok: "res_ok res" "veRepo res \<noteq> 0"
    using Cons.prems(1) by (auto simp: x res_ok_def)
  note pool = exclude_res_pool [OF ok(1) assms(3) Cons.prems(2)]
  show ?case
  proof (cases "veIns res = ins")
    case True
    have "step x m = exclude_res res m"
      using ok(2) True by (simp add: x step_def)
    then show ?thesis
      using Cons.IH [of "exclude_res res m"] Cons.prems(1) pool True by (simp add: x conj_commute conj_left_commute cong: conj_cong)
  next
    case False
    then have "step x m = m"
      by (simp add: x step_def)
    then show ?thesis
      using Cons.IH [OF _ Cons.prems(2)] Cons.prems(1) False by (simp add: x)
  qed
qed simp

text \<open>After the repository of an instance was loaded again with everything it was given, taking out the live reservations
  restores the ledger; no other instance uses that repository.\<close>

theorem reload_keeps:
  assumes inv: "ve_inv owner given m" and own: "\<And>i. owner i = owner ins \<Longrightarrow> i = ins"
    and repo: "\<And>t d. t \<in> ve_types \<Longrightarrow> d < 2 \<Longrightarrow> blocks_u32 (repo_block t repo d) \<and> mset (id_list (repo_block t repo d)) = mset_set (given (owner ins) t d)"
    and call: "ExcludeAllocatedFromRepo ins (m\<lparr>veRepos := (veRepos m)(owner ins := repo)\<rparr>) = (ret, m')"
  shows "ve_inv owner given m' \<and> resMap m' = resMap m \<and> handleSeed m' = handleSeed m"
proof -
  let ?m = "m\<lparr>veRepos := (veRepos m)(owner ins := repo)\<rparr>"
  let ?mine = "filter (\<lambda>(h, res). veIns res = ins) (resMap m)"
  let ?step = "\<lambda>(h :: nat, res) m. if veIns res \<noteq> ins \<or> veRepo res = 0 then m else exclude_res res m"
  have m': "m' = fold ?step (resMap m) ?m"
    using call by (simp add: ExcludeAllocatedFromRepo_def)
  have entry: "res_ok res \<and> veRepo res = owner (veIns res)" if "(h, res) \<in> set (resMap m)" for h res
    using ve_invD(2) [OF inv that] by simp
  then have ok: "\<forall>(h, res)\<in>set (resMap m). res_ok res"
    by blast
  have pool: "ve_pool q t d ?m = (if q = owner ins then repo_block t repo d else ve_pool q t d m)" for q t d
    by (simp add: ve_pool_def)
  have mine: "reserved q t d ?mine = (if q = owner ins then reserved q t d (resMap m) else [])" for q t d
  proof -
    have "reserved q t d (filter (\<lambda>(h, res). veIns res = ins) es) = (if q = owner ins then reserved q t d es else [])"
      if "set es \<subseteq> set (resMap m)" for es
      using that entry own by (induction es) (auto simp: is_for_def)
    then show ?thesis
      by blast
  qed
  have pools: "finite (given q t d) \<and> blocks_u32 (ve_pool q t d m') \<and> mset (id_list (ve_pool q t d m')) + mset (reserved q t d (resMap m)) = mset_set (given q t d)"
    if "t \<in> ve_types" "d < 2" for q t d
  proof -
    note old = ve_invD(1) [OF inv that, of q]
    have "blocks_u32 (ve_pool q t d ?m)"
      using old repo [OF that] by (simp add: pool)
    note fold = exclude_fold [OF ok that(1) this, of ins, folded m', unfolded mine]
    have "mset (reserved q t d (resMap m)) \<subseteq># mset_set (given q t d)"
      using old by (metis mset_subset_eq_add_right)
    then show ?thesis
      using fold old repo [OF that] remaining_ids [of "given q t d" "reserved q t d (resMap m)"] by (auto simp: pool split: if_splits)
  qed
  have "resMap m' = resMap m \<and> handleSeed m' = handleSeed m \<and> rtLog m' = rtLog m"
    unfolding m' using exclude_fold [OF ok, of ResType_XN "Suc (owner ins)" 0 ?m ins] ve_invD(1) [OF inv, of ResType_XN 0] by (simp add: ve_types_def pool)
  then show ?thesis
    using inv pools unfolding ve_inv_def by simp
qed

end
