(* ===== verification/Var_Event_Props.thy ===== *)
theory Var_Event_Props
  imports Var_Event_Inv "HOL-Library.Code_Target_Nat"
begin

text \<open>
  What an instance can rely on when variables and events are reserved, for every order of the operations and every answer of
  the runtime, and when a reservation is granted.
\<close>

subsection \<open>Runs\<close>

text \<open>The operations of the manager in any order, among instances that each have a repository of their own:
  \<open>owner\<close> is the address of the repository of an instance. A repository that is loaded again (\<^verbatim>\<open>CcuInstance::Reset\<close>)
  holds everything it was given until the live reservations are taken out.\<close>

definition repo_full :: "(ResType \<Rightarrow> nat \<Rightarrow> nat set) \<Rightarrow> CcuResRepository \<Rightarrow> bool" where
  "repo_full given repo \<longleftrightarrow> (\<forall>t\<in>ve_types. \<forall>d<2. finite (given t d) \<and> blocks_u32 (repo_block t repo d)
    \<and> mset (id_list (repo_block t repo d)) = mset_set (given t d))"

inductive ve_run :: "RtDevRes \<Rightarrow> (nat \<Rightarrow> nat) \<Rightarrow> (nat \<Rightarrow> ResType \<Rightarrow> nat \<Rightarrow> nat set) \<Rightarrow> CcuVarEventResMgr \<Rightarrow> bool"
  for rt owner given where
  start: "ve_run rt owner given \<lparr>handleSeed = 0, resMap = [], veRepos = repos, rtLog = []\<rparr>" if "\<And>p. repo_full (given p) (repos p)"
| reserve: "ve_run rt owner given m'" if "ve_run rt owner given m" "owner ins \<noteq> 0" "handleSeed m + 1 < 2 ^ 64"
    "Acquire rt ins (owner ins) type d n h m = (ret, h', m')"
| release: "ve_run rt owner given m'" if "ve_run rt owner given m" "ReleaseByHandle rt h m = (ret, m')"
| release_all: "ve_run rt owner given m'" if "ve_run rt owner given m" "ReleaseByInstance rt ins m = (ret, m')"
| reload: "ve_run rt owner given m'" if "ve_run rt owner given m" "repo_full (given (owner ins)) repo" "\<And>i. owner i = owner ins \<Longrightarrow> i = ins"
    "ExcludeAllocatedFromRepo ins (m\<lparr>veRepos := (veRepos m)(owner ins := repo)\<rparr>) = (ret, m')"

lemma ve_run_inv: "ve_run rt owner given m \<Longrightarrow> ve_inv owner given m"
proof (induction rule: ve_run.induct)
  case (start repos)
  then show ?case
    by (simp add: ve_inv_def ve_pool_def repo_full_def)
next
  case (reload m ins repo ret m')
  then show ?case
    using reload_keeps [OF reload.IH reload.hyps(3) _ reload.hyps(4)] by (auto simp: repo_full_def)
next
  case (reserve m ins type d n h ret h' m')
  then show ?case
    using Acquire_keeps [OF reserve.IH refl reserve.hyps(2,3,4)] by blast
next
  case (release m h ret m')
  then show ?case
    using ReleaseByHandle_keeps [OF release.IH release.hyps(2)] by blast
next
  case (release_all m ins ret m')
  then show ?case
    using ReleaseByInstance_keeps [OF release_all.IH release_all.hyps(2)] by blast
qed

lemma mset_set_list:
  fixes G :: "nat set"
  assumes "mset xs = mset_set G" and "finite G"
  shows "distinct xs" and "set xs = G"
proof -
  have "mset xs = mset (sorted_list_of_set G)"
    using assms mset_set_set [of "sorted_list_of_set G"] by simp
  then show "distinct xs"
    using mset_eq_imp_distinct_iff by fastforce
  show "set xs = G"
    using assms by (metis finite_set_mset_mset_set set_mset_mset)
qed

lemma distinct_concat_apart:
  assumes "distinct (concat (map f rm))" and "x \<in> set rm" and "y \<in> set rm" and "x \<noteq> y"
  shows "set (f x) \<inter> set (f y) = {}"
  using assms
proof (induction rm)
  case (Cons z rm)
  have "set (f w) \<subseteq> set (concat (map f rm))" if "w \<in> set rm" for w
    using that by auto
  then show ?case
    using Cons by auto
qed simp

text \<open>C4. Whatever the operations of the manager (registering a kernel is not among them) and whatever the runtime answers, the free variables or events of an instance and
  the reserved ones are, together and each once, those the instance was given; two live reservations share no id; and the
  addresses mapped into the process, counted as often as they were mapped, are those unmapped (or tried to) and those of the
  live reservations.
\<close>

theorem reservations_apart:
  assumes "ve_run rt owner given m" and "SelectPool type = Some t" and "d < 2"
  shows "distinct (id_list (ve_pool p t d m) @ reserved p t d (resMap m))
    \<and> set (id_list (ve_pool p t d m)) \<union> set (reserved p t d (resMap m)) = given p t d
    \<and> (\<forall>h h' res res'. map_of (resMap m) h = Some res \<and> map_of (resMap m) h' = Some res' \<and> h \<noteq> h' \<and> is_for p t d res \<and> is_for p t d res'
      \<longrightarrow> set (id_list (veInfos res)) \<inter> set (id_list (veInfos res')) = {})
    \<and> mset (mappings (rtLog m)) = mset (unmappings (rtLog m)) + mset (concat (map (res_maps \<circ> snd) (resMap m)))"
proof (intro conjI allI impI)
  note inv = ve_run_inv [OF assms(1)]
  note pool = ve_invD(1) [OF inv SelectPool_types [OF assms(2)] assms(3), of p]
  show one: "distinct (id_list (ve_pool p t d m) @ reserved p t d (resMap m))"
    using mset_set_list(1) pool by (metis mset_append)
  show "set (id_list (ve_pool p t d m)) \<union> set (reserved p t d (resMap m)) = given p t d"
    using mset_set_list(2) pool by (metis mset_append set_append)
  show "mset (mappings (rtLog m)) = mset (unmappings (rtLog m)) + mset (concat (map (res_maps \<circ> snd) (resMap m)))"
    by (rule ve_invD(4) [OF inv])
  fix h h' res res'
  assume two: "map_of (resMap m) h = Some res \<and> map_of (resMap m) h' = Some res' \<and> h \<noteq> h' \<and> is_for p t d res \<and> is_for p t d res'"
  have "distinct (concat (map (\<lambda>(h, res). if is_for p t d res then id_list (veInfos res) else []) (resMap m)))"
    using one unfolding reserved_def by simp
  from distinct_concat_apart [OF this, of "(h, res)" "(h', res')"]
  show "set (id_list (veInfos res)) \<inter> set (id_list (veInfos res')) = {}"
    using two map_of_SomeD [of "resMap m"] by simp
qed

subsection \<open>When a reservation is granted\<close>

lemma AllocAndRecord_decided:
  assumes "SelectPool type = Some t" and "d < 2" and "0 < n"
  shows "fst (AllocAndRecord ins p type d n m) = (if \<exists>b\<in>set (ve_pool p t d m). n \<le> num b then CCU_SUCCESS else CCU_E_UNAVAIL)"
proof -
  have "fst (AllocAndRecord ins p type d n m) = fst (AllocFromPool (ve_pool p t d m) n)"
    using assms by (auto simp: AllocAndRecord_def CCU_MAX_IODIE_NUM_def Let_def split: prod.splits)
  then show ?thesis
    by (simp add: AllocFromPool_decided)
qed

lemma Acquire_served:
  assumes inv: "ve_inv owner given m" "owner ins \<noteq> 0" "handleSeed m + 1 < 2 ^ 64"
    and sel: "SelectPool type = Some t" "d < 2" "0 < n" and call: "Acquire rt ins (owner ins) type d n h0 m = (ret, h, m')"
  shows "(if \<exists>b\<in>set (ve_pool (owner ins) t d m). n \<le> num b
      then (ret = CCU_SUCCESS \<or> ret = CCU_E_RUNTIME)
        \<and> ((\<forall>log d t i. fst (rtGetDevResAddress rt log d t i)) \<longrightarrow> ret = CCU_SUCCESS)
      else ret = CCU_E_UNAVAIL)
    \<and> (ret = CCU_SUCCESS \<longrightarrow> (\<exists>s res vas. map_of (resMap m') h = Some (res\<lparr>veVas := vas\<rparr>) \<and> veType res = type \<and> veDieId res = d
      \<and> veInfos res = [mk_res s n] \<and> s + n < 2 ^ 32 \<and> list_all2 (\<lambda>i. served rt d (rt_type res) (s + i)) [0..<n] vas))"
proof -
  obtain e k m1 where alloc: "AllocAndRecord ins (owner ins) type d n m = (e, k, m1)"
    by (metis prod_cases3)
  have e: "e = (if \<exists>b\<in>set (ve_pool (owner ins) t d m). n \<le> num b then CCU_SUCCESS else CCU_E_UNAVAIL)"
    using AllocAndRecord_decided [OF sel, of ins "owner ins" m] alloc by simp
  show ?thesis
  proof (cases "e = CCU_SUCCESS")
    case False
    then show ?thesis
      using call alloc e by (auto simp: Acquire_def split: if_splits)
  next
    case True
    obtain s res where at: "ve_inv owner given m1" "resMap m1 = resMap m @ [(k, res)]" "res_ok res" "veType res = type" "veDieId res = d"
      "veInfos res = [mk_res s n]"
      using AllocAndRecord_keeps [OF inv(1) refl inv(2,3) alloc] True by auto
    have found: "map_of (resMap m1) k = Some res" "s + n < 2 ^ 32" "type \<noteq> VE_OTHER"
      using map_of_is_SomeI [OF ve_invD(3) [OF at(1)], of k res] at sel(1) by (auto simp: res_ok_def)
    obtain g m2 where reg: "RegisterAddrs rt type k n m1 = (g, m2)"
      by fastforce
    have "ret = g" "g = CCU_SUCCESS \<Longrightarrow> h = k \<and> m' = m2"
      using call alloc True reg by (auto simp: Acquire_def split: if_splits)
    then show ?thesis
      using RegisterAddrs_served [OF found(1) at(4) found(3) at(6) found(2) reg] e True found(2) at(4-6) by (auto split: if_splits)
  qed
qed

text \<open>The ids of a pool and of its reservations together stay the same.\<close>

lemma Acquire_ledger:
  assumes "ve_inv owner given m" and "ve_inv owner given m'" and "u \<in> ve_types" and "d < 2"
  shows "mset (id_list (ve_pool p u d m')) + mset (reserved p u d (resMap m')) = mset (id_list (ve_pool p u d m)) + mset (reserved p u d (resMap m))"
  using ve_invD(1) [OF assms(1,3,4), of p] ve_invD(1) [OF assms(2-4), of p] by simp

text \<open>A new reservation of one block takes its ids from the pool.\<close>

lemma reserved_from_pool:
  assumes inv: "ve_inv owner given m" "ve_inv owner given m'" and new: "resMap m' = resMap m @ [(h, r)]" and res: "veInfos r = [mk_res s n]" "veIns r = ins" "veDieId r = d"
    and type: "SelectPool (veType r) = Some t" and d: "d < 2"
  shows "map_of (resMap m) h = None" and "map_of (resMap m') h = Some r" and "{s..<s + n} \<subseteq> set (id_list (ve_pool (owner ins) t d m))"
proof -
  show "map_of (resMap m') h = Some r"
    using map_of_is_SomeI [OF ve_invD(3) [OF inv(2)], of h r] new by simp
  show "map_of (resMap m) h = None"
    using ve_invD(3) [OF inv(2)] new by (simp add: map_of_eq_None_iff)
  have "is_for (owner ins) t d r"
    using ve_invD(2) [OF inv(2), of h r] new res type by (simp add: is_for_def)
  then have "mset (id_list (ve_pool (owner ins) t d m)) = mset (id_list (ve_pool (owner ins) t d m')) + mset [s ..< s + n]"
    using Acquire_ledger [OF inv SelectPool_types [OF type] d, of "owner ins"] res(1) by (simp add: new ac_simps del: mset_upt)
  then have "set (id_list (ve_pool (owner ins) t d m)) = set (id_list (ve_pool (owner ins) t d m')) \<union> set [s ..< s + n]"
    by (metis set_mset_mset set_mset_union)
  then show "{s..<s + n} \<subseteq> set (id_list (ve_pool (owner ins) t d m))"
    by simp
qed

text \<open>C15. A request for no variable or event is a parameter error; a request for \<open>n > 0\<close> of them on a die is refused as
  unavailable exactly when no free block is that long. When one is, the request is granted or fails with \<^verbatim>\<open>CCU_E_RUNTIME\<close>, and is
  granted if the runtime maps every address. A granted request has a fresh handle under which each index below \<open>n\<close> reads
  as the next id of one run of ids that were free, and as the address the runtime gave for it. A request that fails for
  any reason leaves the caller's handle, the reservations and the free ids as they were.
\<close>

theorem reservation_decided:
  assumes "ve_run rt owner given m" and "owner ins \<noteq> 0" and "handleSeed m + 1 < 2 ^ 64"
    and "SelectPool type = Some t" and "GetRtResType type = Some rtype" and "d < 2"
    and "Acquire rt ins (owner ins) type d n h0 m = (ret, h, m')"
  shows "(if n = 0 then ret = CCU_E_PARA
      else if \<exists>b\<in>set (ve_pool (owner ins) t d m). n \<le> num b
      then (ret = CCU_SUCCESS \<or> ret = CCU_E_RUNTIME)
        \<and> ((\<forall>log d t i. fst (rtGetDevResAddress rt log d t i)) \<longrightarrow> ret = CCU_SUCCESS)
      else ret = CCU_E_UNAVAIL)
    \<and> (if ret = CCU_SUCCESS
       then map_of (resMap m) h = None \<and> (\<exists>s. {s..<s + n} \<subseteq> set (id_list (ve_pool (owner ins) t d m))
         \<and> (\<forall>i<n. GetResId type h i m' = Inr (d, s + i) \<and> (\<exists>va. GetSavedAddr type h i m' = Inr va \<and> served rt d rtype (s + i) va)))
       else h = h0 \<and> resMap m' = resMap m
         \<and> (\<forall>p. \<forall>u\<in>ve_types. \<forall>d<2. mset (id_list (ve_pool p u d m')) = mset (id_list (ve_pool p u d m))))"
proof (cases "n = 0")
  case True
  then show ?thesis
    using assms(4,6,7) by (auto simp: Acquire_def AllocAndRecord_def CCU_MAX_IODIE_NUM_def)
next
  case n: False
  note inv = ve_run_inv [OF assms(1)]
  note kept = Acquire_keeps [OF inv refl assms(2,3,7)]
  have served: "(if \<exists>b\<in>set (ve_pool (owner ins) t d m). n \<le> num b
      then (ret = CCU_SUCCESS \<or> ret = CCU_E_RUNTIME)
        \<and> ((\<forall>log d t i. fst (rtGetDevResAddress rt log d t i)) \<longrightarrow> ret = CCU_SUCCESS)
      else ret = CCU_E_UNAVAIL)
    \<and> (ret = CCU_SUCCESS \<longrightarrow> (\<exists>s res vas. map_of (resMap m') h = Some (res\<lparr>veVas := vas\<rparr>) \<and> veType res = type \<and> veDieId res = d
      \<and> veInfos res = [mk_res s n] \<and> s + n < 2 ^ 32 \<and> list_all2 (\<lambda>i. served rt d (rt_type res) (s + i)) [0..<n] vas))"
    using Acquire_served [OF inv assms(2-4,6) _ assms(7)] n by blast
  have inv': "ve_inv owner given m'"
    using kept by blast
  show ?thesis
  proof (cases "ret = CCU_SUCCESS")
    case False
    then show ?thesis
      using n kept served Acquire_ledger [OF inv inv'] by simp
  next
    case True
    obtain r where r: "resMap m' = resMap m @ [(h, r)]" "veIns r = ins"
      using kept True by auto
    obtain s res vas where res: "map_of (resMap m') h = Some (res\<lparr>veVas := vas\<rparr>)" "veType res = type" "veDieId res = d"
      "veInfos res = [mk_res s n]" "s + n < 2 ^ 32" "list_all2 (\<lambda>i. served rt d (rt_type res) (s + i)) [0..<n] vas"
      using served True by blast
    have "map_of (resMap m') h = Some r"
      using map_of_is_SomeI [OF ve_invD(3) [OF inv'], of h r] r(1) by simp
    then have "veInfos r = [mk_res s n]" "veDieId r = d" "SelectPool (veType r) = Some t"
      using res assms(4) by auto
    note taken = reserved_from_pool [OF inv inv' r(1) this(1) r(2) this(2,3) assms(6)]
    have "rt_type res = rtype"
      using assms(5) res(2) by (simp add: rt_type_def)
    then have "GetResId type h i m' = Inr (d, s + i) \<and> (\<exists>va. GetSavedAddr type h i m' = Inr va \<and> served rt d rtype (s + i) va)" if "i < n" for i
      using that res list_all2_lengthD [OF res(6)] list_all2_nthD [OF res(6), of i] by (auto simp: GetResId_def GetSavedAddr_def u32_add_exact)
    then show ?thesis
      unfolding if_P [OF True] if_not_P [OF n] using conjunct1 [OF served] taken(1,3) by blast
  qed
qed

subsection \<open>Demonstration\<close>

definition demo_given :: "nat \<Rightarrow> ResType \<Rightarrow> nat \<Rightarrow> nat set" where
  "demo_given p t d = (if p = 1 \<and> t = ResType_XN \<and> d = 0 then {4..<12} else {})"

definition demo_repos :: "nat \<Rightarrow> CcuResRepository" where
  "demo_repos p = (if p = 1 then set_repo_block ResType_XN 0 [mk_res 4 3, mk_res 7 5] CcuResRepository_new else CcuResRepository_new)"

definition demo_rt :: RtDevRes where
  "demo_rt = \<lparr>rtGetDevResAddress = \<lambda>log d t i. (i \<noteq> 10, if i = 4 then 4096 else 8192), rtReleaseDevResAddress = \<lambda>log d t i. True\<rparr>"

definition demo_mgr :: CcuVarEventResMgr where
  "demo_mgr = \<lparr>handleSeed = 0, resMap = [], veRepos = demo_repos, rtLog = []\<rparr>"

lemma demo_ids: "id_list [mk_res 4 3, mk_res 7 5] = [4..<12]"
  by code_simp

lemma demo_full: "repo_full (demo_given p) (demo_repos p)"
proof (cases "p = 1")
  case True
  have "mset (id_list [mk_res 4 3, mk_res 7 5]) = mset_set {4..<12}"
    unfolding demo_ids by (rule mset_upt)
  then show ?thesis
    using True by (auto simp: repo_full_def demo_given_def demo_repos_def ve_types_def CcuResRepository_new_def simp del: id_list_simps(2))
qed (simp add: repo_full_def demo_given_def demo_repos_def ve_types_def CcuResRepository_new_def)


definition demo_first :: "CcuResult \<times> nat \<times> CcuVarEventResMgr" where
  "demo_first = Acquire demo_rt 1 1 VARIABLE 0 5 0 demo_mgr"

definition demo_second :: "CcuResult \<times> nat \<times> CcuVarEventResMgr" where
  "demo_second = Acquire demo_rt 1 1 VARIABLE 0 3 0 (snd (snd demo_first))"

definition demo_third :: "CcuResult \<times> nat \<times> CcuVarEventResMgr" where
  "demo_third = Acquire demo_rt 1 1 VARIABLE 0 2 0 (snd (snd demo_second))"

definition demo_ve_report :: "CcuResult \<times> nat \<times> CcuVarEventResMgr \<Rightarrow> CcuResult \<times> nat \<times> nat \<times> (nat \<times> ResInfo list) list \<times> ResInfo list" where
  "demo_ve_report out = (let m = snd (snd out)
    in (fst out, fst (snd out), handleSeed m, map (\<lambda>e. (fst e, veInfos (snd e))) (resMap m), ve_pool 1 ResType_XN 0 m))"

lemma demo_runs:
  "demo_ve_report demo_first = (CCU_E_RUNTIME, 0, 1, [], [mk_res 4 3, mk_res 7 5])"
  "demo_ve_report demo_second = (CCU_SUCCESS, 2, 2, [(2, [mk_res 4 3])], [mk_res 7 5])"
  "demo_ve_report demo_third = (CCU_SUCCESS, 3, 3, [(2, [mk_res 4 3]), (3, [mk_res 7 2])], [mk_res 9 3])"
  by code_simp+

lemma demo_step:
  assumes "ve_run demo_rt (\<lambda>i. i) demo_given m" and "handleSeed m < 9" and "Acquire demo_rt 1 1 type d n 0 m = out"
  shows "ve_run demo_rt (\<lambda>i. i) demo_given (snd (snd out))"
  using ve_run.reserve [of demo_rt "\<lambda>i. i" demo_given m 1 type d n 0 "fst out" "fst (snd out)" "snd (snd out)"] assms by simp

lemma demo_ve_run: "ve_run demo_rt (\<lambda>i. i) demo_given (snd (snd demo_first))" "ve_run demo_rt (\<lambda>i. i) demo_given (snd (snd demo_third))"
proof -
  have start: "ve_run demo_rt (\<lambda>i. i) demo_given demo_mgr"
    unfolding demo_mgr_def by (rule ve_run.start) (rule demo_full)
  have seeds: "handleSeed demo_mgr < 9" "handleSeed (snd (snd demo_first)) < 9" "handleSeed (snd (snd demo_second)) < 9"
    using demo_runs by (auto simp: demo_mgr_def demo_ve_report_def Let_def)
  show first: "ve_run demo_rt (\<lambda>i. i) demo_given (snd (snd demo_first))"
    by (rule demo_step [OF start seeds(1) demo_first_def [symmetric]])
  show "ve_run demo_rt (\<lambda>i. i) demo_given (snd (snd demo_third))"
    by (rule demo_step [OF demo_step [OF first seeds(2) demo_second_def [symmetric]] seeds(3) demo_third_def [symmetric]])
qed

theorem reservations_apart_witness:
  "set (id_list (ve_pool 1 ResType_XN 0 (snd (snd demo_third)))) \<union> set (reserved 1 ResType_XN 0 (resMap (snd (snd demo_third)))) = {4..<12}
    \<and> distinct (id_list (ve_pool 1 ResType_XN 0 (snd (snd demo_third))) @ reserved 1 ResType_XN 0 (resMap (snd (snd demo_third))))
    \<and> map fst (resMap (snd (snd demo_third))) = [2, 3]"
  using reservations_apart [OF demo_ve_run(2), of VARIABLE ResType_XN 0 1] demo_runs(3)
  by (auto simp: demo_given_def demo_ve_report_def Let_def)

theorem reservation_decided_witness:
  "fst demo_second = CCU_SUCCESS \<and> (\<exists>s. {s..<s + 3} \<subseteq> {4..<12}
    \<and> (\<forall>i<3. GetResId VARIABLE (fst (snd demo_second)) i (snd (snd demo_second)) = Inr (0, s + i)))"
proof -
  have call: "Acquire demo_rt 1 ((\<lambda>i. i) 1) VARIABLE 0 3 0 (snd (snd demo_first)) = (CCU_SUCCESS, 2, snd (snd demo_second))"
    using demo_runs(2) by (simp add: demo_second_def demo_ve_report_def Let_def prod_eq_iff)
  have pool: "handleSeed (snd (snd demo_first)) = 1" "ve_pool 1 ResType_XN 0 (snd (snd demo_first)) = [mk_res 4 3, mk_res 7 5]"
    "fst demo_second = CCU_SUCCESS" "fst (snd demo_second) = 2"
    using demo_runs(1,2) by (auto simp: demo_ve_report_def Let_def)
  have ids: "set (id_list [mk_res 4 3, mk_res 7 5]) = {4..<12}"
    unfolding demo_ids set_upt ..
  show ?thesis
    using reservation_decided [OF demo_ve_run(1) _ _ _ _ _ call, of ResType_XN RT_RES_TYPE_CCU_XN] unfolding pool ids by (simp add: pool(1)) blast
qed

end
