(* ===== verification/Ccu_Instance.thy ===== *)
theory Ccu_Instance
  imports Device_Manager Var_Event_Mgr
begin

text \<open>
  Instances (\<^verbatim>\<open>ccu_instance/ccu_instance.cc\<close>), the pack of resources each owns (\<^verbatim>\<open>ccu_res_pack.cc\<close>), their manager
  (\<^verbatim>\<open>ccu_instance_mgr.cc\<close>) and the C functions over it (\<^verbatim>\<open>primitives/api_c_adpt/ccu/ccu_res_c_adpt.cc\<close>,
  \<^verbatim>\<open>ccu_launch.cc\<close>). The repository \<^verbatim>\<open>resRepo_\<close> of a pack is a cell of the store of repositories, so that
  reservations and the instance change the same one. Starting and stopping the driver (\<^verbatim>\<open>CcuInitFeature\<close>,
  \<^verbatim>\<open>CcuDeinitFeature\<close>), the contents of an entity (\<^verbatim>\<open>ccu_instance_snapshot.cc\<close>) and registering a kernel are
  parameters: their answers. A kernel that is unregistered is logged.
\<close>

subsection \<open>State\<close>

record CcuResPack =
  packHandle :: nat
  packRepo :: nat
  cascCntBlocks :: "nat \<Rightarrow> (CntXnBlock \<times> bool) list"
  packHandleMap :: "(nat \<times> CntXnBlock) list"

datatype RegisterState = IDLE | REGISTERING | REGISTER_ABORTED

text \<open>\<open>insManagers\<close>: the manager pointers are set; \<open>insDrv\<close>: the driver handle is held; \<open>insEntity\<close>: the address of the
  entity once it is built.\<close>

record CcuInstance =
  insHandle :: nat
  insManagers :: bool
  insDrv :: bool
  insPack :: "CcuResPack option"
  kernelHandles :: "nat list"
  untranslatedKernelHandles :: "nat list"
  registerState :: RegisterState
  isFixedResNum :: bool
  totalResDescs :: "CcuResDesc list"
  insEntity :: "nat option"

definition CcuResPack_new :: "nat \<Rightarrow> CcuResPack" where
  "CcuResPack_new addr = \<lparr>packHandle = 0, packRepo = addr, cascCntBlocks = \<lambda>_. [], packHandleMap = []\<rparr>"

definition CcuInstance_new :: CcuInstance where
  "CcuInstance_new = \<lparr>insHandle = 0, insManagers = False, insDrv = False, insPack = None, kernelHandles = [],
     untranslatedKernelHandles = [], registerState = IDLE, isFixedResNum = False,
     totalResDescs = replicate CCU_MAX_IODIE_NUM CcuResDesc_new, insEntity = None\<rparr>"

record CcuInstanceMgr =
  initializedFlag :: bool
  instanceId :: nat
  insMap :: "(nat \<times> CcuInstance) list"
  entityAddressMap :: "(nat \<times> nat) list"
  cascCntMap :: "(nat \<times> nat) list"
  nextCascCntHandle :: nat
  resDescMgr :: CcuResDescMgr

definition CcuInstanceMgr_new :: CcuInstanceMgr where
  "CcuInstanceMgr_new = \<lparr>initializedFlag = False, instanceId = 0, insMap = [], entityAddressMap = [], cascCntMap = [],
     nextCascCntHandle = 0, resDescMgr = CcuResDescMgr_new\<rparr>"

text \<open>What instances share: the device, the reservations with the store of repositories, the log of unregistered kernels.\<close>

record 'l CcuWorld =
  wDev :: "'l CcuDev"
  wVe :: CcuVarEventResMgr
  wUnregistered :: "nat list"

definition w_repo :: "nat \<Rightarrow> 'l CcuWorld \<Rightarrow> CcuResRepository" where
  "w_repo p w = veRepos (wVe w) p"

definition set_w_repo :: "nat \<Rightarrow> CcuResRepository \<Rightarrow> 'l CcuWorld \<Rightarrow> 'l CcuWorld" where
  "set_w_repo p repo w = w\<lparr>wVe := (wVe w)\<lparr>veRepos := (veRepos (wVe w))(p := repo)\<rparr>\<rparr>"

subsection \<open>The pack\<close>

definition CcuReleaseRes :: "'l CcuEnv \<Rightarrow> CcuResPack \<Rightarrow> 'l CcuWorld \<Rightarrow> CcuResPack \<times> 'l CcuWorld" where
  "CcuReleaseRes env pack w =
    (let w = (if packHandle pack \<noteq> 0 then w\<lparr>wDev := snd (CcuReleaseResHandle env (packHandle pack) (wDev w))\<rparr> else w)
     in (pack\<lparr>packHandle := 0, cascCntBlocks := (\<lambda>_. [])\<rparr>, w))"

definition CcuResPack_Reset :: "'l CcuEnv \<Rightarrow> CcuResPack \<Rightarrow> 'l CcuWorld \<Rightarrow> nat \<times> 'l CcuWorld" where
  "CcuResPack_Reset env pack w =
    (if packHandle pack = 0 then (ccu_code CCU_SUCCESS, w)
     else case CcuCheckResource env (packHandle pack) (w_repo (packRepo pack) w) (wDev w) of (ret, repo) \<Rightarrow>
       (ret, set_w_repo (packRepo pack) repo w))"

definition RefreshCascCntBlocks :: "CcuResRepository \<Rightarrow> CcuResPack \<Rightarrow> CcuResPack" where
  "RefreshCascCntBlocks repo pack =
    pack\<lparr>cascCntBlocks := (\<lambda>d. if d < CCU_MAX_IODIE_NUM then map (\<lambda>b. (b, False)) (cascCntBlock repo d) else [])\<rparr>"

text \<open>Both initialisations differ in the call that takes the resources.\<close>

definition init_pack ::
  "'l CcuEnv \<Rightarrow> (nat \<Rightarrow> 'l CcuDev \<Rightarrow> nat \<times> nat \<times> 'l CcuDev) \<Rightarrow> CcuResPack \<Rightarrow> 'l CcuWorld \<Rightarrow> nat \<times> CcuResPack \<times> 'l CcuWorld" where
  "init_pack env alloc pack w =
    (case alloc (packHandle pack) (wDev w) of (ret, h, dev) \<Rightarrow>
       let pack = pack\<lparr>packHandle := h\<rparr>; w = w\<lparr>wDev := dev\<rparr>
       in if ret \<noteq> 0 then (ret, pack, w)
          else case CcuResPack_Reset env pack w of (ret, w) \<Rightarrow>
            if ret \<noteq> 0 then (ret, pack, w)
            else (ccu_code CCU_SUCCESS, RefreshCascCntBlocks (w_repo (packRepo pack) w) pack, w))"

definition CcuResPack_InitByInsType :: "'l CcuEnv \<Rightarrow> nat \<Rightarrow> nat \<Rightarrow> CcuResPack \<Rightarrow> 'l CcuWorld \<Rightarrow> nat \<times> CcuResPack \<times> 'l CcuWorld" where
  "CcuResPack_InitByInsType env newPtr insType pack w =
    (if insType = CCU_UNUSED then (ccu_code CCU_E_PARA, pack, w)
     else init_pack env (CcuAllocResHandleByInsType env newPtr insType) pack w)"

definition CcuResPack_InitByResDescs ::
  "'l CcuEnv \<Rightarrow> nat \<Rightarrow> CcuResDesc option list option \<Rightarrow> CcuResPack \<Rightarrow> 'l CcuWorld \<Rightarrow> nat \<times> CcuResPack \<times> 'l CcuWorld" where
  "CcuResPack_InitByResDescs env newPtr descs pack w = init_pack env (CcuAllocResHandleByResDescs env newPtr descs) pack w"

text \<open>The first block of the die that is not taken.\<close>

fun take_free :: "(CntXnBlock \<times> bool) list \<Rightarrow> (CntXnBlock \<times> (CntXnBlock \<times> bool) list) option" where
  "take_free [] = None"
| "take_free ((b, used) # blocks) =
    (if \<not> used then Some (b, (b, True) # blocks)
     else case take_free blocks of None \<Rightarrow> None | Some (b', blocks) \<Rightarrow> Some (b', (b, used) # blocks))"

definition AcquireCascCntBlock :: "nat \<Rightarrow> nat \<Rightarrow> CcuResPack \<Rightarrow> CcuResult \<times> CcuResPack" where
  "AcquireCascCntBlock dieId h pack =
    (if dieId \<ge> CCU_MAX_IODIE_NUM then (CCU_E_PARA, pack)
     else if h = 0 then (CCU_E_PARA, pack)
     else if cascCntBlocks pack dieId = [] then (CCU_E_UNAVAIL, pack)
     else case take_free (cascCntBlocks pack dieId) of
       None \<Rightarrow> (CCU_E_UNAVAIL, pack)
     | Some (b, blocks) \<Rightarrow>
         (CCU_SUCCESS, pack\<lparr>cascCntBlocks := (cascCntBlocks pack)(dieId := blocks), packHandleMap := emplace h b (packHandleMap pack)\<rparr>))"

definition CcuResPack_GetCascCntBlock :: "nat \<Rightarrow> CcuResPack \<Rightarrow> CcuResult + CntXnBlock" where
  "CcuResPack_GetCascCntBlock h pack = (case map_of (packHandleMap pack) h of None \<Rightarrow> Inl CCU_E_NOT_FOUND | Some b \<Rightarrow> Inr b)"

subsection \<open>The instance\<close>

definition total_desc :: "CcuResRepository \<Rightarrow> nat \<Rightarrow> CcuResDesc \<Rightarrow> nat \<times> CcuResDesc" where
  "total_desc repo d desc =
    fold (\<lambda>(t, n) (ret, desc). if ret \<noteq> 0 then (ret, desc) else CcuResDesc_SetResNum t n desc)
      (map (\<lambda>t. (t, u32_add (SumResNum (repo_block t repo d)) (SumResNum (repo_single t repo d))))
         [ResType_LOOP, ResType_MS, ResType_CKE, ResType_XN, ResType_GSA]
       @ [(ResType_MISSION, SumResNum (mission (repoMission repo) d)), (ResType_INS, 0)])
      (ccu_code CCU_SUCCESS, desc\<lparr>descDieId := d\<rparr>)"

fun FillTotalResDescs_loop :: "CcuResRepository \<Rightarrow> nat list \<Rightarrow> CcuResDesc list \<Rightarrow> nat \<times> CcuResDesc list" where
  "FillTotalResDescs_loop repo [] descs = (ccu_code CCU_SUCCESS, descs)"
| "FillTotalResDescs_loop repo (d # dies) descs =
    (case total_desc repo d (descs ! d) of (ret, desc) \<Rightarrow>
       let descs = descs[d := desc] in if ret \<noteq> 0 then (ret, descs) else FillTotalResDescs_loop repo dies descs)"

definition FillTotalResDescs :: "CcuInstance \<Rightarrow> 'l CcuWorld \<Rightarrow> nat \<times> CcuInstance" where
  "FillTotalResDescs ins w =
    (case insPack ins of
       None \<Rightarrow> (ccu_code CCU_E_INTERNAL, ins)
     | Some pack \<Rightarrow>
         (case FillTotalResDescs_loop (w_repo (packRepo pack) w) [0..<CCU_MAX_IODIE_NUM] (totalResDescs ins) of (ret, descs) \<Rightarrow>
            (ret, ins\<lparr>totalResDescs := descs\<rparr>)))"

text \<open>What the three initialisations share: the managers, the driver (\<open>feature\<close> is the answer of \<^verbatim>\<open>CcuInitFeature\<close>) and,
  when there is none yet, a pack at the address \<open>addr\<close> (0 when \<^verbatim>\<open>new\<close> fails).\<close>

definition start_instance :: "nat \<Rightarrow> CcuInstance \<Rightarrow> nat \<times> CcuInstance" where
  "start_instance feature ins =
    (let ins = ins\<lparr>insManagers := True\<rparr>
     in if \<not> insDrv ins then (feature, if feature = 0 then ins\<lparr>insDrv := True\<rparr> else ins) else (ccu_code CCU_SUCCESS, ins))"

definition fill_instance ::
  "(CcuResPack \<Rightarrow> 'l CcuWorld \<Rightarrow> nat \<times> CcuResPack \<times> 'l CcuWorld) \<Rightarrow> nat \<Rightarrow> CcuInstance \<Rightarrow> 'l CcuWorld \<Rightarrow> nat \<times> CcuInstance \<times> 'l CcuWorld" where
  "fill_instance init addr ins w =
    (if insPack ins \<noteq> None then (ccu_code CCU_SUCCESS, ins, w)
     else if addr = 0 then (ccu_code CCU_E_PTR, ins, w)
     else case init (CcuResPack_new addr) (set_w_repo addr CcuResRepository_new w) of (ret, pack, w) \<Rightarrow>
       let ins = ins\<lparr>insPack := Some pack\<rparr>
       in if ret \<noteq> 0 then (ret, ins, w) else case FillTotalResDescs ins w of (ret, ins) \<Rightarrow> (ret, ins, w))"

definition InitByInsType ::
  "'l CcuEnv \<Rightarrow> nat \<Rightarrow> nat \<Rightarrow> nat \<Rightarrow> nat \<Rightarrow> CcuInstance \<Rightarrow> 'l CcuWorld \<Rightarrow> nat \<times> CcuInstance \<times> 'l CcuWorld" where
  "InitByInsType env feature newPtr addr insType ins w =
    (if insType \<ge> CCU_UNUSED then (ccu_code CCU_E_PARA, ins, w)
     else case start_instance feature ins of (ret, ins) \<Rightarrow>
       if ret \<noteq> 0 then (ret, ins, w)
       else case fill_instance (CcuResPack_InitByInsType env newPtr insType) addr ins w of (ret, ins, w) \<Rightarrow>
         (ret, if ret = 0 then ins\<lparr>isFixedResNum := True\<rparr> else ins, w))"

definition InitByResDescs ::
  "'l CcuEnv \<Rightarrow> nat \<Rightarrow> nat \<Rightarrow> nat \<Rightarrow> CcuResDesc option list option \<Rightarrow> CcuInstance \<Rightarrow> 'l CcuWorld \<Rightarrow> nat \<times> CcuInstance \<times> 'l CcuWorld" where
  "InitByResDescs env feature newPtr addr descs ins w =
    (if descs = None \<or> length (the descs) = 0 \<or> length (the descs) > CCU_MAX_IODIE_NUM then (ccu_code CCU_E_PARA, ins, w)
     else case start_instance feature ins of (ret, ins) \<Rightarrow>
       if ret \<noteq> 0 then (ret, ins, w) else fill_instance (CcuResPack_InitByResDescs env newPtr descs) addr ins w)"

text \<open>All resources of the enabled dies: each total is asked for and stored, in the order of the code.\<close>

definition total_queries :: "'l CcuEnv \<Rightarrow> nat \<Rightarrow> 'l CcuDev \<Rightarrow> (ResType \<times> (nat \<Rightarrow> nat \<times> nat)) list" where
  "total_queries env d dev =
    [(ResType_LOOP, \<lambda>n. CcuGetLoopEngineNum env d n dev), (ResType_MS, \<lambda>n. CcuGetMsNum env d n dev),
     (ResType_CKE, \<lambda>n. CcuGetCkeNum env d n dev), (ResType_XN, \<lambda>n. CcuGetXnNum env d n dev), (ResType_GSA, \<lambda>n. CcuGetGsaNum env d n dev),
     (ResType_INS, \<lambda>n. case CcuGetInstructionNum env d (of_nat n) dev of (ret, v) \<Rightarrow> (ret, unat v)),
     (ResType_MISSION, \<lambda>n. case CcuGetMissionNum env d (of_nat n) dev of (ret, v) \<Rightarrow> (ret, unat v)),
     (ResType_CASC_CNT, \<lambda>n. case CcuGetCascCntNum env d (of_nat n) dev of (ret, v) \<Rightarrow> (ret, unat v))]"

fun all_res_desc :: "(ResType \<times> (nat \<Rightarrow> nat \<times> nat)) list \<Rightarrow> nat \<Rightarrow> CcuResDesc \<Rightarrow> nat \<times> CcuResDesc" where
  "all_res_desc [] n desc = (ccu_code CCU_SUCCESS, desc)"
| "all_res_desc ((t, query) # queries) n desc =
    (case query n of (ret, n) \<Rightarrow>
       if ret \<noteq> 0 then (ret, desc)
       else case CcuResDesc_SetResNum t n desc of (ret, desc) \<Rightarrow>
         if ret \<noteq> 0 then (ret, desc) else all_res_desc queries n desc)"

fun all_res_descs :: "'l CcuEnv \<Rightarrow> 'l CcuDev \<Rightarrow> nat list \<Rightarrow> CcuResDesc list \<Rightarrow> nat \<times> CcuResDesc list" where
  "all_res_descs env dev [] descs = (ccu_code CCU_SUCCESS, descs)"
| "all_res_descs env dev (d # dies) descs =
    (case CcuGetDieEnableInfo env d False dev of (ret, dieEnable) \<Rightarrow>
       if ret \<noteq> 0 then (ret, descs)
       else if \<not> dieEnable then all_res_descs env dev dies descs
       else case all_res_desc (total_queries env d dev) 0 (descs ! d) of (ret, desc) \<Rightarrow>
         if ret \<noteq> 0 then (ret, descs) else all_res_descs env dev dies (descs[d := desc]))"

definition InitByAllRes ::
  "'l CcuEnv \<Rightarrow> nat \<Rightarrow> nat \<Rightarrow> nat \<Rightarrow> CcuInstance \<Rightarrow> 'l CcuWorld \<Rightarrow> nat \<times> CcuInstance \<times> 'l CcuWorld" where
  "InitByAllRes env feature newPtr addr ins w =
    (case start_instance feature ins of (ret, ins) \<Rightarrow>
       if ret \<noteq> 0 then (ret, ins, w)
       else case all_res_descs env (wDev w) [0..<CCU_MAX_IODIE_NUM]
           (map (\<lambda>d. CcuResDesc_new\<lparr>descDieId := d\<rparr>) [0..<CCU_MAX_IODIE_NUM]) of (ret, descs) \<Rightarrow>
         if ret \<noteq> 0 then (ret, ins, w)
         else fill_instance (CcuResPack_InitByResDescs env newPtr (Some (map Some descs))) addr ins w)"

definition CcuInstance_Reset :: "'l CcuEnv \<Rightarrow> CcuInstance \<Rightarrow> 'l CcuWorld \<Rightarrow> nat \<times> CcuInstance \<times> 'l CcuWorld" where
  "CcuInstance_Reset env ins w =
    (case insPack ins of
       None \<Rightarrow> (ccu_code CCU_SUCCESS, ins, w)
     | Some pack \<Rightarrow>
         if \<not> insManagers ins then (ccu_code CCU_E_INTERNAL, ins, w)
         else let ins = ins\<lparr>untranslatedKernelHandles := []\<rparr>
           in case CcuResPack_Reset env pack w of (ret, w) \<Rightarrow>
             if ret \<noteq> 0 then (ret, ins, w)
             else case ExcludeAllocatedFromRepo (insHandle ins) (wVe w) of (ret, ve) \<Rightarrow>
               (ccu_code ret, ins, w\<lparr>wVe := ve\<rparr>))"

text \<open>The destructor; \<open>over\<close> is the answer of \<^verbatim>\<open>IsResourceTreeTeardownFinished\<close>.\<close>

definition delete_instance :: "bool \<Rightarrow> RtDevRes \<Rightarrow> 'l CcuEnv \<Rightarrow> CcuInstance \<Rightarrow> 'l CcuWorld \<Rightarrow> 'l CcuWorld" where
  "delete_instance over rt env ins w =
    (let w = (if over \<or> \<not> insManagers ins then w
              else w\<lparr>wUnregistered := wUnregistered w @ filter (\<lambda>k. k \<noteq> 0) (kernelHandles ins),
                     wVe := snd (ReleaseByInstance rt (insHandle ins) (wVe w))\<rparr>)
     in case insPack ins of None \<Rightarrow> w | Some pack \<Rightarrow> snd (CcuReleaseRes env pack w))"

subsection \<open>Rounds of registration\<close>

definition SaveKernel :: "nat \<Rightarrow> CcuInstance \<Rightarrow> CcuResult \<times> CcuInstance" where
  "SaveKernel k ins = (CCU_SUCCESS, ins\<lparr>kernelHandles := kernelHandles ins @ [k],
     untranslatedKernelHandles := untranslatedKernelHandles ins @ [k]\<rparr>)"

definition BeginRegister :: "CcuInstance \<Rightarrow> CcuResult \<times> CcuInstance" where
  "BeginRegister ins =
    (if registerState ins = REGISTERING then (CCU_E_INTERNAL, ins) else (CCU_SUCCESS, ins\<lparr>registerState := REGISTERING\<rparr>))"

definition CheckRegistering :: "CcuInstance \<Rightarrow> CcuResult" where
  "CheckRegistering ins = (if registerState ins \<noteq> REGISTERING then CCU_E_INTERNAL else CCU_SUCCESS)"

definition EndRegister :: "CcuInstance \<Rightarrow> CcuResult \<times> CcuInstance" where
  "EndRegister ins =
    (if registerState ins = IDLE then (CCU_E_INTERNAL, ins) else (CCU_SUCCESS, ins\<lparr>registerState := IDLE\<rparr>))"

definition AbortRegister :: "CcuInstance \<Rightarrow> 'l CcuWorld \<Rightarrow> CcuInstance \<times> 'l CcuWorld" where
  "AbortRegister ins w =
    (if \<not> insManagers ins then (ins, w)
     else
       let ks = filter (\<lambda>k. k \<noteq> 0) (untranslatedKernelHandles ins)
       in (ins\<lparr>kernelHandles := fold remove1 ks (kernelHandles ins), untranslatedKernelHandles := [], registerState := REGISTER_ABORTED\<rparr>,
           w\<lparr>wUnregistered := wUnregistered w @ ks\<rparr>))"

end
