(* ===== verification/Instance_Mgr.thy ===== *)
theory Instance_Mgr
  imports Ccu_Instance Ccu_Assist
begin

text \<open>
  The manager of the instances of a device (\<^verbatim>\<open>ccu_instance/ccu_instance_mgr.cc\<close>) and the C functions that create,
  query and destroy instances, hand out counting XN blocks and bracket the registration of kernels
  (\<^verbatim>\<open>ccu_res_c_adpt.cc\<close>, \<^verbatim>\<open>ccu_launch.cc\<close>). The unordered maps are lists of pairs with distinct keys.
\<close>

subsection \<open>Instances\<close>

definition put_instance :: "nat \<Rightarrow> CcuInstance \<Rightarrow> CcuInstanceMgr \<Rightarrow> CcuInstanceMgr" where
  "put_instance k ins m = m\<lparr>insMap := AList.update k ins (insMap m)\<rparr>"

definition CcuInstanceMgr_Init :: "CcuInstanceMgr \<Rightarrow> CcuResult \<times> CcuInstanceMgr" where
  "CcuInstanceMgr_Init m =
    (CCU_SUCCESS, if initializedFlag m then m else m\<lparr>initializedFlag := True, insMap := [], entityAddressMap := []\<rparr>)"

definition CcuInstanceMgr_Deinit ::
  "bool \<Rightarrow> RtDevRes \<Rightarrow> 'l CcuEnv \<Rightarrow> CcuInstanceMgr \<Rightarrow> 'l CcuWorld \<Rightarrow> CcuResult \<times> CcuInstanceMgr \<times> 'l CcuWorld" where
  "CcuInstanceMgr_Deinit over rt env m w =
    (CCU_SUCCESS,
     m\<lparr>insMap := [], entityAddressMap := [], resDescMgr := snd (CcuResDescMgr_Deinit (resDescMgr m)), initializedFlag := False\<rparr>,
     fold (\<lambda>(k, ins) w. delete_instance over rt env ins w) (insMap m) w)"

definition GetCcuInsKey :: "nat \<Rightarrow> CcuInstanceMgr \<Rightarrow> CcuResult + nat" where
  "GetCcuInsKey entity m =
    (case map_of (entityAddressMap m) entity of
       None \<Rightarrow> Inl CCU_E_NOT_FOUND
     | Some k \<Rightarrow>
         (case map_of (insMap m) k of
            None \<Rightarrow> Inl CCU_E_NOT_FOUND
          | Some ins \<Rightarrow>
              if insEntity ins = None \<or> insHandle ins \<noteq> k \<or> insEntity ins \<noteq> Some entity then Inl CCU_E_NOT_FOUND
              else Inr (insHandle ins)))"

text \<open>\<open>built\<close>: the result of filling the entity and the address of a new one.\<close>

definition BuildHcommCcuInstanceEntity :: "nat \<times> nat \<Rightarrow> CcuInstance \<Rightarrow> nat \<times> CcuInstance" where
  "BuildHcommCcuInstanceEntity built ins =
    (if insEntity ins \<noteq> None then (ccu_code CCU_SUCCESS, ins)
     else if insPack ins = None \<or> insHandle ins = 0 then (ccu_code CCU_E_UNAVAIL, ins)
     else case built of (ret, addr) \<Rightarrow> (ret, if ret = 0 then ins\<lparr>insEntity := Some addr\<rparr> else ins))"

definition BuildEntityHandle :: "nat \<times> nat \<Rightarrow> nat \<Rightarrow> CcuInstanceMgr \<Rightarrow> nat \<times> nat \<times> CcuInstanceMgr" where
  "BuildEntityHandle built ccuInsKey m =
    (if ccuInsKey = 0 then (ccu_code CCU_E_PARA, 0, m)
     else case map_of (insMap m) ccuInsKey of
       None \<Rightarrow> (ccu_code CCU_E_NOT_FOUND, 0, m)
     | Some ins \<Rightarrow>
         (case BuildHcommCcuInstanceEntity built ins of (ret, ins) \<Rightarrow>
            let m = put_instance ccuInsKey ins m
            in if ret \<noteq> 0 then (ret, 0, m)
               else case insEntity ins of
                 None \<Rightarrow> (ccu_code CCU_E_INTERNAL, 0, m)
               | Some addr \<Rightarrow>
                   (case map_of (entityAddressMap m) addr of
                      None \<Rightarrow> (ccu_code CCU_SUCCESS, addr, m\<lparr>entityAddressMap := emplace addr ccuInsKey (entityAddressMap m)\<rparr>)
                    | Some k \<Rightarrow> if k \<noteq> ccuInsKey then (ccu_code CCU_E_INTERNAL, 0, m) else (ccu_code CCU_SUCCESS, addr, m))))"

text \<open>The three ways to create an instance differ in its initialisation. An instance that is not stored is destroyed.\<close>

definition create_instance ::
  "RtDevRes \<Rightarrow> 'l CcuEnv \<Rightarrow> (CcuInstance \<Rightarrow> 'l CcuWorld \<Rightarrow> nat \<times> CcuInstance \<times> 'l CcuWorld) \<Rightarrow> nat \<Rightarrow> CcuInstanceMgr \<Rightarrow> 'l CcuWorld
    \<Rightarrow> nat \<times> nat \<times> CcuInstanceMgr \<times> 'l CcuWorld" where
  "create_instance rt env init out m w =
    (case init CcuInstance_new w of (ret, ins, w) \<Rightarrow>
       if ret \<noteq> 0 then (ret, out, m, delete_instance False rt env ins w)
       else
         let k = (instanceId m + 1) mod 2 ^ 64;
             ins = ins\<lparr>insHandle := k\<rparr>;
             w = (if map_of (insMap m) k = None then w else delete_instance False rt env ins w)
         in (ccu_code CCU_SUCCESS, k, m\<lparr>instanceId := k, insMap := emplace k ins (insMap m)\<rparr>, w))"

definition CreateByInsType ::
  "RtDevRes \<Rightarrow> 'l CcuEnv \<Rightarrow> nat \<Rightarrow> nat \<Rightarrow> nat \<Rightarrow> nat \<Rightarrow> nat \<Rightarrow> CcuInstanceMgr \<Rightarrow> 'l CcuWorld \<Rightarrow> nat \<times> nat \<times> CcuInstanceMgr \<times> 'l CcuWorld" where
  "CreateByInsType rt env feature newPtr addr insType = create_instance rt env (InitByInsType env feature newPtr addr insType)"

definition CreateByResDescs ::
  "RtDevRes \<Rightarrow> 'l CcuEnv \<Rightarrow> nat \<Rightarrow> nat \<Rightarrow> nat \<Rightarrow> CcuResDesc option list option \<Rightarrow> nat \<Rightarrow> CcuInstanceMgr \<Rightarrow> 'l CcuWorld
    \<Rightarrow> nat \<times> nat \<times> CcuInstanceMgr \<times> 'l CcuWorld" where
  "CreateByResDescs rt env feature newPtr addr descs = create_instance rt env (InitByResDescs env feature newPtr addr descs)"

definition CreateByAllRes ::
  "RtDevRes \<Rightarrow> 'l CcuEnv \<Rightarrow> nat \<Rightarrow> nat \<Rightarrow> nat \<Rightarrow> nat \<Rightarrow> CcuInstanceMgr \<Rightarrow> 'l CcuWorld \<Rightarrow> nat \<times> nat \<times> CcuInstanceMgr \<times> 'l CcuWorld" where
  "CreateByAllRes rt env feature newPtr addr = create_instance rt env (InitByAllRes env feature newPtr addr)"

definition CcuInstanceMgr_Destroy ::
  "bool \<Rightarrow> RtDevRes \<Rightarrow> 'l CcuEnv \<Rightarrow> nat \<Rightarrow> CcuInstanceMgr \<Rightarrow> 'l CcuWorld \<Rightarrow> CcuResult \<times> CcuInstanceMgr \<times> 'l CcuWorld" where
  "CcuInstanceMgr_Destroy over rt env k m w =
    (case map_of (insMap m) k of
       None \<Rightarrow> (CCU_E_NOT_FOUND, m, w)
     | Some ins \<Rightarrow>
         (CCU_SUCCESS,
          m\<lparr>cascCntMap := filter (\<lambda>(h, i). i \<noteq> k) (cascCntMap m),
            entityAddressMap := (case insEntity ins of None \<Rightarrow> entityAddressMap m | Some a \<Rightarrow> AList.delete a (entityAddressMap m)),
            insMap := AList.delete k (insMap m)\<rparr>,
          delete_instance over rt env ins w))"

text \<open>The numbers of the instance on a die, written into a descriptor.\<close>

fun copy_totals :: "ResType list \<Rightarrow> CcuResDesc \<Rightarrow> nat \<Rightarrow> nat \<Rightarrow> CcuResDescMgr \<Rightarrow> nat \<times> CcuResDescMgr" where
  "copy_totals [] desc n h m = (ccu_code CCU_SUCCESS, m)"
| "copy_totals (t # ts) desc n h m =
    (case CcuResDesc_QueryResNum t n desc of (ret, n) \<Rightarrow>
       if ret \<noteq> 0 then (ret, m)
       else case CcuResDescMgr_SetResNum h t n m of (ret, m) \<Rightarrow> if ret \<noteq> 0 then (ret, m) else copy_totals ts desc n h m)"

definition QueryInsResDesc :: "nat \<Rightarrow> nat \<Rightarrow> nat \<Rightarrow> CcuInstanceMgr \<Rightarrow> nat \<times> CcuInstanceMgr" where
  "QueryInsResDesc k dieId h m =
    (case map_of (insMap m) k of
       None \<Rightarrow> (ccu_code CCU_E_NOT_FOUND, m)
     | Some ins \<Rightarrow>
         (case copy_totals [ResType_LOOP, ResType_MS, ResType_CKE, ResType_XN, ResType_GSA, ResType_MISSION, ResType_INS]
             (totalResDescs ins ! dieId) 0 h (resDescMgr m) of (ret, descs) \<Rightarrow> (ret, m\<lparr>resDescMgr := descs\<rparr>)))"

subsection \<open>Counting XN blocks\<close>

definition CcuInstance_CascCntHandleAlloc :: "nat \<Rightarrow> nat \<Rightarrow> CcuInstance \<Rightarrow> CcuResult \<times> CcuInstance" where
  "CcuInstance_CascCntHandleAlloc dieId h ins =
    (case insPack ins of
       None \<Rightarrow> (CCU_E_INTERNAL, ins)
     | Some pack \<Rightarrow> (case AcquireCascCntBlock dieId h pack of (ret, pack) \<Rightarrow> (ret, ins\<lparr>insPack := Some pack\<rparr>)))"

definition CascCntHandleAlloc :: "nat \<Rightarrow> nat \<Rightarrow> nat \<Rightarrow> CcuInstanceMgr \<Rightarrow> CcuResult \<times> nat \<times> CcuInstanceMgr" where
  "CascCntHandleAlloc k dieId out m =
    (case map_of (insMap m) k of
       None \<Rightarrow> (CCU_E_NOT_FOUND, out, m)
     | Some ins \<Rightarrow>
         let h = (nextCascCntHandle m + 1) mod 2 ^ 64;
             m = m\<lparr>nextCascCntHandle := h\<rparr>
         in if map_of (cascCntMap m) h \<noteq> None then (CCU_E_INTERNAL, out, m)
            else
              case CcuInstance_CascCntHandleAlloc dieId h ins of (ret, ins) \<Rightarrow>
                let m = put_instance k ins m
                in if ret \<noteq> CCU_SUCCESS then (ret, out, m)
                   else (CCU_SUCCESS, h, m\<lparr>cascCntMap := emplace h k (cascCntMap m)\<rparr>))"

definition GetCascCntBlock :: "nat \<Rightarrow> CcuInstanceMgr \<Rightarrow> CcuResult + CntXnBlock" where
  "GetCascCntBlock h m =
    (case map_of (cascCntMap m) h of
       None \<Rightarrow> Inl CCU_E_NOT_FOUND
     | Some k \<Rightarrow>
         (case map_of (insMap m) k of
            None \<Rightarrow> Inl CCU_E_NOT_FOUND
          | Some ins \<Rightarrow> (case insPack ins of None \<Rightarrow> Inl CCU_E_INTERNAL | Some pack \<Rightarrow> CcuResPack_GetCascCntBlock h pack)))"

subsection \<open>The C functions\<close>

text \<open>\<open>refresh\<close> is the answer of \<^verbatim>\<open>HcclDeviceRefresh\<close>; an output pointer is an option.\<close>

definition publish_entity ::
  "bool \<Rightarrow> RtDevRes \<Rightarrow> 'l CcuEnv \<Rightarrow> nat \<times> nat \<Rightarrow> nat \<Rightarrow> CcuInstanceMgr \<Rightarrow> 'l CcuWorld \<Rightarrow> nat \<times> nat \<times> CcuInstanceMgr \<times> 'l CcuWorld" where
  "publish_entity over rt env built k m w =
    (case BuildEntityHandle built k m of (ret, addr, m) \<Rightarrow>
       if ret \<noteq> 0 then (case CcuInstanceMgr_Destroy over rt env k m w of (_, m, w) \<Rightarrow> (ret, addr, m, w))
       else (ccu_code CCU_SUCCESS, addr, m, w))"

definition create_and_publish ::
  "HcclResult \<Rightarrow> bool \<Rightarrow> RtDevRes \<Rightarrow> 'l CcuEnv \<Rightarrow> nat \<times> nat \<Rightarrow> (nat \<Rightarrow> CcuInstanceMgr \<Rightarrow> 'l CcuWorld \<Rightarrow> nat \<times> nat \<times> CcuInstanceMgr \<times> 'l CcuWorld)
    \<Rightarrow> nat option \<Rightarrow> CcuInstanceMgr \<Rightarrow> 'l CcuWorld \<Rightarrow> nat \<times> nat option \<times> CcuInstanceMgr \<times> 'l CcuWorld" where
  "create_and_publish refresh over rt env built create out m w =
    (if hccl_code refresh \<noteq> 0 then (hccl_code refresh, out, m, w)
     else case create 0 m w of (ret, k, m, w) \<Rightarrow>
       if ret \<noteq> 0 then (ret, out, m, w)
       else case publish_entity over rt env built k m w of (ret, addr, m, w) \<Rightarrow> (ret, Some addr, m, w))"

definition HcommCcuInsCreateLegacy ::
  "HcclResult \<Rightarrow> bool \<Rightarrow> RtDevRes \<Rightarrow> 'l CcuEnv \<Rightarrow> nat \<times> nat \<Rightarrow> nat \<Rightarrow> nat \<Rightarrow> nat \<Rightarrow> nat \<Rightarrow> nat option \<Rightarrow> CcuInstanceMgr \<Rightarrow> 'l CcuWorld
    \<Rightarrow> nat \<times> nat option \<times> CcuInstanceMgr \<times> 'l CcuWorld" where
  "HcommCcuInsCreateLegacy refresh over rt env built feature newPtr addr insType out m w =
    (if out = None then (ccu_code CCU_E_PTR, out, m, w)
     else create_and_publish refresh over rt env built (CreateByInsType rt env feature newPtr addr insType) out m w)"

definition HcommCcuInsCreate ::
  "HcclResult \<Rightarrow> bool \<Rightarrow> RtDevRes \<Rightarrow> 'l CcuEnv \<Rightarrow> nat \<times> nat \<Rightarrow> nat \<Rightarrow> nat \<Rightarrow> nat \<Rightarrow> nat list option \<Rightarrow> nat option \<Rightarrow> CcuInstanceMgr \<Rightarrow> 'l CcuWorld
    \<Rightarrow> nat \<times> nat option \<times> CcuInstanceMgr \<times> 'l CcuWorld" where
  "HcommCcuInsCreate refresh over rt env built feature newPtr addr resDescs out m w =
    (case resDescs of
       None \<Rightarrow> (ccu_code CCU_E_PTR, out, m, w)
     | Some hs \<Rightarrow>
         if out = None then (ccu_code CCU_E_PTR, out, m, w)
         else if length hs = 0 \<or> length hs > CCU_MAX_IODIE_NUM then (ccu_code CCU_E_PARA, out, m, w)
         else if hccl_code refresh \<noteq> 0 then (hccl_code refresh, out, m, w)
         else
           let descs = map (\<lambda>h. CcuResDescMgr_Get h (resDescMgr m)) hs
           in if None \<in> set descs then (ccu_code CCU_E_PTR, out, m, w)
              else if length hs = 2 \<and> descDieId (the (descs ! 0)) = descDieId (the (descs ! 1)) then (ccu_code CCU_E_PARA, out, m, w)
              else create_and_publish refresh over rt env built (CreateByResDescs rt env feature newPtr addr (Some descs)) out m w)"

definition HcommCcuInsCreateDefault ::
  "HcclResult \<Rightarrow> bool \<Rightarrow> RtDevRes \<Rightarrow> 'l CcuEnv \<Rightarrow> nat \<times> nat \<Rightarrow> nat \<Rightarrow> nat \<Rightarrow> nat \<Rightarrow> nat option \<Rightarrow> CcuInstanceMgr \<Rightarrow> 'l CcuWorld
    \<Rightarrow> nat \<times> nat option \<times> CcuInstanceMgr \<times> 'l CcuWorld" where
  "HcommCcuInsCreateDefault refresh over rt env built feature newPtr addr out m w =
    (if out = None then (ccu_code CCU_E_PTR, out, m, w)
     else create_and_publish refresh over rt env built (CreateByAllRes rt env feature newPtr addr) out m w)"

definition HcommCcuInsQueryResDesc :: "HcclResult \<Rightarrow> nat \<Rightarrow> nat \<Rightarrow> CcuInstanceMgr \<Rightarrow> nat \<times> CcuInstanceMgr" where
  "HcommCcuInsQueryResDesc refresh entity h m =
    (if entity = 0 \<or> h = 0 then (ccu_code CCU_E_PARA, m)
     else if hccl_code refresh \<noteq> 0 then (hccl_code refresh, m)
     else case GetCcuInsKey entity m of
       Inl ret \<Rightarrow> (ccu_code ret, m)
     | Inr k \<Rightarrow>
         (case CcuResDescMgr_QueryDieId h CCU_MAX_IODIE_NUM (resDescMgr m) of (ret, die) \<Rightarrow>
            if ret \<noteq> 0 then (ret, m)
            else if die mod 2 ^ 8 \<ge> CCU_MAX_IODIE_NUM then (ccu_code CCU_E_PARA, m)
            else QueryInsResDesc k (die mod 2 ^ 8) h m))"

definition HcommCcuInsDestroy ::
  "HcclResult \<Rightarrow> bool \<Rightarrow> RtDevRes \<Rightarrow> 'l CcuEnv \<Rightarrow> nat \<Rightarrow> CcuInstanceMgr \<Rightarrow> 'l CcuWorld \<Rightarrow> nat \<times> CcuInstanceMgr \<times> 'l CcuWorld" where
  "HcommCcuInsDestroy refresh over rt env entity m w =
    (if hccl_code refresh \<noteq> 0 then (hccl_code refresh, m, w)
     else case GetCcuInsKey entity m of
       Inl ret \<Rightarrow> (ccu_code ret, m, w)
     | Inr k \<Rightarrow> (case CcuInstanceMgr_Destroy over rt env k m w of (ret, m, w) \<Rightarrow> (ccu_code ret, m, w)))"

definition HcommCcuCascCntAlloc :: "HcclResult \<Rightarrow> nat \<Rightarrow> nat \<Rightarrow> nat option \<Rightarrow> CcuInstanceMgr \<Rightarrow> nat \<times> nat option \<times> CcuInstanceMgr" where
  "HcommCcuCascCntAlloc refresh entity dieId out m =
    (if out = None then (ccu_code CCU_E_PTR, out, m)
     else if entity = 0 then (ccu_code CCU_E_PARA, Some 0, m)
     else if dieId \<ge> CCU_MAX_IODIE_NUM then (ccu_code CCU_E_PARA, Some 0, m)
     else if hccl_code refresh \<noteq> 0 then (hccl_code refresh, Some 0, m)
     else case GetCcuInsKey entity m of
       Inl ret \<Rightarrow> (ccu_code ret, Some 0, m)
     | Inr k \<Rightarrow> (case CascCntHandleAlloc k dieId 0 m of (ret, h, m) \<Rightarrow> (ccu_code ret, Some h, m)))"

definition HcommCcuCascCntGetMem :: "HcclResult \<Rightarrow> nat \<Rightarrow> (u64 \<times> u64) option \<Rightarrow> CcuInstanceMgr \<Rightarrow> nat \<times> (u64 \<times> u64) option" where
  "HcommCcuCascCntGetMem refresh h out m =
    (if h = 0 then (ccu_code CCU_E_PARA, out)
     else if out = None then (ccu_code CCU_E_PTR, out)
     else if hccl_code refresh \<noteq> 0 then (hccl_code refresh, out)
     else case GetCascCntBlock h m of
       Inl ret \<Rightarrow> (ccu_code ret, out)
     | Inr b \<Rightarrow> (ccu_code CCU_SUCCESS, Some (wishCntXnsMem b)))"

subsection \<open>The C functions around registration\<close>

definition GetCcuInstance :: "nat \<Rightarrow> CcuInstanceMgr \<Rightarrow> CcuResult + nat \<times> CcuInstance" where
  "GetCcuInstance entity m =
    (case GetCcuInsKey entity m of
       Inl _ \<Rightarrow> Inl CCU_E_PTR
     | Inr k \<Rightarrow> (case map_of (insMap m) k of None \<Rightarrow> Inl CCU_E_PTR | Some ins \<Rightarrow> Inr (k, ins)))"

definition HcommCcuKernelRegisterStart :: "'l CcuEnv \<Rightarrow> nat \<Rightarrow> CcuInstanceMgr \<Rightarrow> 'l CcuWorld \<Rightarrow> nat \<times> CcuInstanceMgr \<times> 'l CcuWorld" where
  "HcommCcuKernelRegisterStart env entity m w =
    (case GetCcuInstance entity m of
       Inl ret \<Rightarrow> (ccu_code ret, m, w)
     | Inr (k, ins) \<Rightarrow>
         (case BeginRegister ins of (ret, ins) \<Rightarrow>
            if ret \<noteq> CCU_SUCCESS then (ccu_code ret, m, w)
            else case CcuInstance_Reset env ins w of (ret, ins, w) \<Rightarrow>
              if ret \<noteq> 0 then (ret, put_instance k (snd (EndRegister ins)) m, w)
              else (ccu_code CCU_SUCCESS, put_instance k ins m, w)))"

text \<open>\<open>register\<close>: the answer of the kernel manager, with the handle of the kernel.\<close>

definition HcommCcuKernelRegister ::
  "nat \<times> nat \<Rightarrow> nat \<Rightarrow> bool \<Rightarrow> nat option \<Rightarrow> CcuInstanceMgr \<Rightarrow> 'l CcuWorld \<Rightarrow> nat \<times> nat option \<times> CcuInstanceMgr \<times> 'l CcuWorld" where
  "HcommCcuKernelRegister register entity argsOk out m w =
    (if out = None \<or> \<not> argsOk then (ccu_code CCU_E_PTR, out, m, w)
     else case GetCcuInstance entity m of
       Inl ret \<Rightarrow> (ccu_code ret, out, m, w)
     | Inr (k, ins) \<Rightarrow>
         if CheckRegistering ins \<noteq> CCU_SUCCESS then (ccu_code (CheckRegistering ins), out, m, w)
         else if insPack ins = None then (ccu_code CCU_E_PTR, out, m, w)
         else case register of (ret, newHandle) \<Rightarrow>
           if ret \<noteq> 0
           then (case AbortRegister ins w of (ins, w) \<Rightarrow> (ret, out, put_instance k ins m, w))
           else (ccu_code CCU_SUCCESS, Some newHandle, put_instance k (snd (SaveKernel newHandle ins)) m, w))"

text \<open>The kernels handed to the translation, and its answer.\<close>

definition HcommCcuKernelRegisterEnd :: "(nat list \<Rightarrow> nat) \<Rightarrow> nat \<Rightarrow> CcuInstanceMgr \<Rightarrow> nat \<times> CcuInstanceMgr" where
  "HcommCcuKernelRegisterEnd translate entity m =
    (case GetCcuInstance entity m of
       Inl ret \<Rightarrow> (ccu_code ret, m)
     | Inr (k, ins) \<Rightarrow>
         (case EndRegister ins of (ret, ins) \<Rightarrow>
            if ret \<noteq> CCU_SUCCESS then (ccu_code ret, m)
            else (translate (untranslatedKernelHandles ins), put_instance k ins m)))"

subsection \<open>The C functions of variables, events and tokens\<close>

definition CcuAllocVarEventRes ::
  "RtDevRes \<Rightarrow> nat \<Rightarrow> CcuVarEventType \<Rightarrow> nat \<Rightarrow> nat \<Rightarrow> nat \<Rightarrow> CcuInstanceMgr \<Rightarrow> 'l CcuWorld \<Rightarrow> CcuResult \<times> nat \<times> 'l CcuWorld" where
  "CcuAllocVarEventRes rt entity type dieId n out m w =
    (case GetCcuInstance entity m of
       Inl ret \<Rightarrow> (ret, out, w)
     | Inr (k, ins) \<Rightarrow>
         (case insPack ins of
            None \<Rightarrow> (CCU_E_PTR, out, w)
          | Some pack \<Rightarrow>
              (case Acquire rt k (packRepo pack) type dieId n out (wVe w) of (ret, out, ve) \<Rightarrow> (ret, out, w\<lparr>wVe := ve\<rparr>))))"

definition alloc_var_event ::
  "RtDevRes \<Rightarrow> nat \<Rightarrow> CcuVarEventType \<Rightarrow> nat \<Rightarrow> nat \<Rightarrow> nat option \<Rightarrow> CcuInstanceMgr \<Rightarrow> 'l CcuWorld \<Rightarrow> CcuResult \<times> nat option \<times> 'l CcuWorld" where
  "alloc_var_event rt entity type dieId n out m w =
    (if out = None then (CCU_E_PTR, None, w)
     else case CcuAllocVarEventRes rt entity type dieId n 0 m w of (ret, h, w) \<Rightarrow> (ret, Some h, w))"

definition HcommCcuVariableAlloc ::
  "RtDevRes \<Rightarrow> nat \<Rightarrow> nat \<Rightarrow> nat \<Rightarrow> nat option \<Rightarrow> CcuInstanceMgr \<Rightarrow> 'l CcuWorld \<Rightarrow> CcuResult \<times> nat option \<times> 'l CcuWorld" where
  "HcommCcuVariableAlloc rt entity = alloc_var_event rt entity VARIABLE"

definition HcommCcuEventAlloc ::
  "RtDevRes \<Rightarrow> nat \<Rightarrow> nat \<Rightarrow> nat \<Rightarrow> nat option \<Rightarrow> CcuInstanceMgr \<Rightarrow> 'l CcuWorld \<Rightarrow> CcuResult \<times> nat option \<times> 'l CcuWorld" where
  "HcommCcuEventAlloc rt entity = alloc_var_event rt entity EVENT"

definition get_var_event_addr :: "CcuVarEventType \<Rightarrow> nat \<Rightarrow> nat \<Rightarrow> u64 option \<Rightarrow> 'l CcuWorld \<Rightarrow> CcuResult \<times> u64 option" where
  "get_var_event_addr type h index out w =
    (if out = None then (CCU_E_PTR, None)
     else case GetSavedAddr type h index (wVe w) of Inl ret \<Rightarrow> (ret, out) | Inr va \<Rightarrow> (CCU_SUCCESS, Some va))"

definition HcommCcuVariableGetAddr :: "nat \<Rightarrow> nat \<Rightarrow> u64 option \<Rightarrow> 'l CcuWorld \<Rightarrow> CcuResult \<times> u64 option" where
  "HcommCcuVariableGetAddr = get_var_event_addr VARIABLE"

definition HcommCcuEventGetAddr :: "nat \<Rightarrow> nat \<Rightarrow> u64 option \<Rightarrow> 'l CcuWorld \<Rightarrow> CcuResult \<times> u64 option" where
  "HcommCcuEventGetAddr = get_var_event_addr EVENT"

text \<open>Outside the resource spaces of the device the runtime is asked (\<open>rts\<close>: its result and the 32-bit id and value of the token); the id and
  value of a resource space are cut to 32 bits.\<close>

definition HcommCcuGetMemToken ::
  "'l CcuEnv \<Rightarrow> nat \<times> u32 \<times> u32 \<Rightarrow> u64 \<Rightarrow> u64 \<Rightarrow> u64 option \<Rightarrow> 'l CcuWorld \<Rightarrow> nat \<times> u64 option" where
  "HcommCcuGetMemToken env rts srcVa sz out w =
    (if out = None then (ccu_code CCU_E_PTR, None)
     else if srcVa = 0 \<or> sz = 0 then (ccu_code CCU_E_PARA, out)
     else case CcuQueryTokenInfo env srcVa sz (0, 0) (wDev w) of (ret, tokenId, tokenValue) \<Rightarrow>
       if ret = CCU_E_NOT_FOUND \<or> ret = CCU_E_NOT_SUPPORT
       then (case rts of (ret, tokenId, tokenValue) \<Rightarrow>
               if ret \<noteq> 0 then (ret, out) else (ccu_code CCU_SUCCESS, Some (CcuCombineTokenInfo (ucast tokenId) (ucast tokenValue) 1)))
       else if ret \<noteq> CCU_SUCCESS then (ccu_code ret, out)
       else (ccu_code CCU_SUCCESS, Some (CcuCombineTokenInfo (ucast (ucast tokenId :: u32)) (ucast (ucast tokenValue :: u32)) 1)))"

end
