(* ===== verification/Instance_Inv.thy ===== *)
theory Instance_Inv
  imports Instance_Mgr Device_Requests Var_Event_Inv
begin

text \<open>
  The instances of a device and the resources they hold: each live instance owns the repository of one live handle
  of the batch allocator, and its counting XN blocks are handed out at most once, under handles that lead back to it.
\<close>

subsection \<open>Taking and returning the resources of an instance\<close>

definition dev_inv :: "Geometry \<Rightarrow> Outside \<Rightarrow> 'l CcuDev \<Rightarrow> bool" where
  "dev_inv g x dev \<longleftrightarrow> batch_inv True g x (handleMap (devBatch dev)) (devBatch dev) (devComp dev)"

definition joined :: "'l CcuDev \<Rightarrow> nat \<Rightarrow> CcuResRepository \<Rightarrow> 'l CcuDev \<Rightarrow> bool" where
  "joined dev ptr r dev' \<longleftrightarrow> handleMap (devBatch dev') = handleMap (devBatch dev) @ [(ptr, r)]
    \<and> batchDieFlags (devBatch dev') = batchDieFlags (devBatch dev)"

definition took :: "Geometry \<Rightarrow> Outside \<Rightarrow> nat \<Rightarrow> 'l CcuDev \<Rightarrow> nat \<times> nat \<times> 'l CcuDev \<Rightarrow> bool" where
  "took g x ptr dev out \<longleftrightarrow> (case out of (ret, h, dev') \<Rightarrow> dev_inv g x dev' \<and>
    (if ret = 0 then h = ptr \<and> ptr \<noteq> 0 \<and> (\<exists>r. joined dev ptr r dev')
     else h = 0 \<and> handleMap (devBatch dev') = handleMap (devBatch dev)))"

lemma AllocResHandle_null:
  "AllocResHandle chan os specs ptr req 0 b c = (ret, h, b', c') \<Longrightarrow> ret \<noteq> HCCL_SUCCESS \<Longrightarrow> h = 0"
  by (auto simp: AllocResHandle_def split: if_splits prod.splits)

lemma same_resources_handles: "same_resources b c b' c' \<Longrightarrow> handleMap b' = handleMap b"
  by (simp add: same_resources_def)

lemma asks_took:
  assumes inv: "dev_inv g x dev" and os: "envOpenSource env" and ptr: "ptr \<notin> fst ` set (handleMap (devBatch dev))"
    and asks: "asks_for env ptr 0 dev out req" and req: "req_u32 req"
  shows "took g x ptr dev out"
proof -
  obtain ret h dev' where out: "out = (ret, h, dev')"
    by (metis prod_cases3)
  obtain dev1 where dev1: "devBatch dev1 = devBatch dev" "devComp dev1 = devComp dev"
    and "ret \<noteq> 0 \<and> h = 0 \<and> dev' = dev1 \<or> (\<exists>e. CcuDevMgrImp_AllocResHandle env ptr req 0 dev1 = (e, h, dev') \<and> ret = hccl_code e)"
    using asks by (auto simp: asks_for_def out)
  then consider "ret \<noteq> 0" "h = 0" "dev' = dev1" | e where "CcuDevMgrImp_AllocResHandle env ptr req 0 dev1 = (e, h, dev')" "ret = hccl_code e"
    by blast
  then show ?thesis
  proof cases
    case 1
    then show ?thesis
      using inv dev1 by (simp add: took_def out dev_inv_def)
  next
    case (2 e)
    obtain b c where alloc: "AllocResHandle (envChan env) True (devSpecs dev1) ptr req 0 (devBatch dev) (devComp dev) = (e, h, b, c)"
      "dev' = dev1\<lparr>devBatch := b, devComp := c\<rparr>"
      using 2(1) os dev1 by (auto simp: CcuDevMgrImp_AllocResHandle_def split: prod.splits)
    have "batch_inv True g x (handleMap (devBatch dev) @ []) (devBatch dev) (devComp dev)" "ptr \<notin> fst ` set (handleMap (devBatch dev) @ [])"
      using inv ptr by (simp_all add: dev_inv_def)
    note cases = AllocResHandle_cases [OF this req alloc(1)]
    show ?thesis
      using cases AllocResHandle_null [OF alloc(1)] same_resources_handles [of "devBatch dev" "devComp dev" b c] 2(2)
      by (cases "e = HCCL_SUCCESS") (auto simp: took_def out dev_inv_def alloc(2) joined_def dev1)
  qed
qed

lemma ReleaseResHandle_returns:
  assumes "dev_inv g x dev" and "envOpenSource env" and "map_of (handleMap (devBatch dev)) h = Some r"
  shows "dev_inv g x (snd (CcuReleaseResHandle env h dev))
    \<and> handleMap (devBatch (snd (CcuReleaseResHandle env h dev))) = AList.delete h (handleMap (devBatch dev))
    \<and> batchDieFlags (devBatch (snd (CcuReleaseResHandle env h dev))) = batchDieFlags (devBatch dev)"
proof -
  have "batch_inv True g x (handleMap (devBatch dev) @ []) (devBatch dev) (devComp dev)"
    using assms(1) by (simp add: dev_inv_def)
  from ReleaseResHandle_found [OF this assms(3), of "envChan env"] obtain b c where
    "ReleaseResHandle (envChan env) True h (devBatch dev) (devComp dev) = (HCCL_SUCCESS, b, c)" "batch_inv True g x (handleMap b) b c"
    "handleMap b = AList.delete h (handleMap (devBatch dev))" "batchDieFlags b = batchDieFlags (devBatch dev)"
    by (metis append_Nil2)
  then show ?thesis
    using assms(2) by (simp add: CcuReleaseResHandle_def CcuDevMgrImp_ReleaseResHandle_def dev_inv_def)
qed

subsection \<open>A new instance\<close>

text \<open>The counting XN blocks of a pack: those of its repository, each handle at a place of its own.\<close>

definition placed :: "(nat \<Rightarrow> nat \<times> nat) \<Rightarrow> CcuResPack \<Rightarrow> bool" where
  "placed pos pack \<longleftrightarrow> inj_on pos (fst ` set (packHandleMap pack)) \<and> (\<forall>(h, b)\<in>set (packHandleMap pack). case pos h of (d, i) \<Rightarrow>
    d < 2 \<and> i < length (cascCntBlocks pack d) \<and> cascCntBlocks pack d ! i = (b, True))"

definition pack_ok :: "CcuResRepository \<Rightarrow> CcuResPack \<Rightarrow> bool" where
  "pack_ok r pack \<longleftrightarrow> (\<forall>d<2. map fst (cascCntBlocks pack d) = cascCntBlock r d) \<and> distinct (map fst (packHandleMap pack))
    \<and> (\<exists>pos. placed pos pack)"

definition new_pack_ok :: "nat \<Rightarrow> 'l CcuDev \<Rightarrow> CcuResPack \<Rightarrow> bool" where
  "new_pack_ok ptr dev pack \<longleftrightarrow> packHandle pack = ptr \<and> packHandleMap pack = []
    \<and> (\<exists>r. map_of (handleMap (devBatch dev)) ptr = Some r \<and> pack_ok r pack)"

lemma total_desc_ok: "fst (total_desc repo d desc) = 0"
  by (simp add: total_desc_def CcuResDesc_SetResNum_def IsValidResType_def)

lemma FillTotal_ok: "fst (FillTotalResDescs_loop repo dies descs) = 0"
proof (induction dies arbitrary: descs)
  case (Cons d dies)
  obtain desc where "total_desc repo d (descs ! d) = (0, desc)"
    using total_desc_ok [of repo d "descs ! d"] by (metis prod.collapse)
  then show ?case
    using Cons by simp
qed simp

text \<open>What the initialisations leave, given that the call for the resources does what it should.\<close>

lemma init_pack_outcome:
  assumes "took g x ptr (wDev w) (alloc 0 (wDev w))" and "ptr \<notin> fst ` set (handleMap (devBatch (wDev w)))" and "envOpenSource env"
    and "init_pack env alloc (CcuResPack_new addr) w = (ret, pack, w')"
  shows "dev_inv g x (wDev w') \<and> (if ret = 0
    then new_pack_ok ptr (wDev w') pack \<and> (\<exists>r. joined (wDev w) ptr r (wDev w'))
    else packHandle pack = 0 \<and> handleMap (devBatch (wDev w')) = handleMap (devBatch (wDev w)))"
proof -
  obtain e h dev' where call: "alloc 0 (wDev w) = (e, h, dev')"
    by (metis prod_cases3)
  show ?thesis
  proof (cases "e = 0")
    case True
    then obtain r where r: "h = ptr" "ptr \<noteq> 0" "dev_inv g x dev'" "joined (wDev w) ptr r dev'"
      using assms(1) by (auto simp: took_def call)
    then have "handleMap (devBatch dev') = handleMap (devBatch (wDev w)) @ [(ptr, r)]"
      by (simp add: joined_def)
    then have found: "map_of (handleMap (devBatch dev')) ptr = Some r"
      using assms(2) by (simp add: map_add_def map_of_eq_None_iff [THEN iffD2])
    have "ret = 0" "wDev w' = dev'" "pack = RefreshCascCntBlocks r ((CcuResPack_new addr)\<lparr>packHandle := ptr\<rparr>)"
      using assms(3,4) call True r(1,2) found
      by (auto simp: init_pack_def CcuResPack_new_def CcuResPack_Reset_def CcuCheckResource_def CcuDevMgrImp_GetResource_def GetResource_def
        set_w_repo_def w_repo_def)
    then show ?thesis
      using r found by (auto simp: new_pack_ok_def pack_ok_def placed_def RefreshCascCntBlocks_def CcuResPack_new_def CCU_MAX_IODIE_NUM_def comp_def)
  next
    case False
    then show ?thesis
      using assms(1,4) by (auto simp: init_pack_def CcuResPack_new_def took_def call)
  qed
qed

definition created :: "Geometry \<Rightarrow> Outside \<Rightarrow> nat \<Rightarrow> 'l CcuWorld \<Rightarrow> nat \<times> CcuInstance \<times> 'l CcuWorld \<Rightarrow> bool" where
  "created g x ptr w out \<longleftrightarrow> (case out of (ret, ins, w') \<Rightarrow> dev_inv g x (wDev w') \<and> (if ret = 0
    then (\<exists>pack r. insPack ins = Some pack \<and> new_pack_ok ptr (wDev w') pack
      \<and> joined (wDev w) ptr r (wDev w'))
    else (\<forall>pack. insPack ins = Some pack \<longrightarrow> packHandle pack = 0) \<and> handleMap (devBatch (wDev w')) = handleMap (devBatch (wDev w))))"

lemma fill_created:
  assumes "dev_inv g x (wDev w)" and "insPack ins = None"
    and init: "\<And>ret pack w'. init (CcuResPack_new addr) (set_w_repo addr CcuResRepository_new w) = (ret, pack, w') \<Longrightarrow>
      dev_inv g x (wDev w') \<and> (if ret = 0
      then new_pack_ok ptr (wDev w') pack \<and> (\<exists>r. joined (wDev w) ptr r (wDev w'))
      else packHandle pack = 0 \<and> handleMap (devBatch (wDev w')) = handleMap (devBatch (wDev w)))"
  shows "created g x ptr w (fill_instance init addr ins w)"
proof (cases "addr = 0")
  case True
  then show ?thesis
    using assms(1,2) by (simp add: fill_instance_def created_def)
next
  case False
  obtain ret pack w' where call: "init (CcuResPack_new addr) (set_w_repo addr CcuResRepository_new w) = (ret, pack, w')"
    by (metis prod_cases3)
  obtain descs where "FillTotalResDescs_loop (w_repo (packRepo pack) w') [0..<CCU_MAX_IODIE_NUM] (totalResDescs ins) = (0, descs)"
    using FillTotal_ok by (metis prod.collapse)
  then have "FillTotalResDescs (ins\<lparr>insPack := Some pack\<rparr>) w' = (0, ins\<lparr>insPack := Some pack, totalResDescs := descs\<rparr>)"
    by (simp add: FillTotalResDescs_def)
  then show ?thesis
    using init [OF call] False assms(2) call by (auto simp: fill_instance_def created_def split: if_splits)
qed

lemma set_w_repo_dev [simp]: "wDev (set_w_repo p repo w) = wDev w"
  by (simp add: set_w_repo_def)

lemma pack_created:
  assumes "dev_inv g x (wDev w)" and "envOpenSource env" and "ptr \<notin> fst ` set (handleMap (devBatch (wDev w)))" and "insPack ins = None"
    and took: "took g x ptr (wDev w) (alloc 0 (wDev w))" and init: "\<And>w. init (CcuResPack_new addr) w = init_pack env alloc (CcuResPack_new addr) w"
  shows "created g x ptr w (fill_instance init addr ins w)"
proof (rule fill_created [OF assms(1,4)])
  fix ret pack w'
  assume "init (CcuResPack_new addr) (set_w_repo addr CcuResRepository_new w) = (ret, pack, w')"
  then have "init_pack env alloc (CcuResPack_new addr) (set_w_repo addr CcuResRepository_new w) = (ret, pack, w')"
    by (simp add: init)
  from init_pack_outcome [OF _ _ assms(2) this, of g x ptr, unfolded set_w_repo_dev, OF took assms(3)]
  show "dev_inv g x (wDev w') \<and> (if ret = 0
    then new_pack_ok ptr (wDev w') pack \<and> (\<exists>r. joined (wDev w) ptr r (wDev w'))
    else packHandle pack = 0 \<and> handleMap (devBatch (wDev w')) = handleMap (devBatch (wDev w)))" .
qed

lemma start_new: "insPack (snd (start_instance feature CcuInstance_new)) = None"
  by (simp add: start_instance_def CcuInstance_new_def Let_def)

lemma refused_created: "dev_inv g x (wDev w) \<Longrightarrow> ret \<noteq> 0 \<Longrightarrow> insPack ins = None \<Longrightarrow> created g x ptr w (ret, ins, w)"
  by (simp add: created_def)

lemma created_fixed [simp]: "created g x ptr w (ret, ins\<lparr>isFixedResNum := b\<rparr>, w') = created g x ptr w (ret, ins, w')"
  by (simp add: created_def)

lemma InitByInsType_created:
  assumes "dev_inv g x (wDev w)" and "envOpenSource env" and "ptr \<notin> fst ` set (handleMap (devBatch (wDev w)))"
  shows "created g x ptr w (InitByInsType env feature ptr addr insType CcuInstance_new w)"
proof -
  obtain e ins where start: "start_instance feature CcuInstance_new = (e, ins)" "insPack ins = None"
    using start_new [of feature] by (metis prod.collapse)
  have took: "took g x ptr (wDev w) (CcuAllocResHandleByInsType env ptr insType 0 (wDev w))"
    by (rule asks_took [OF assms ins_type_asks [OF assms(2)] ins_type_req_u32])
  have "created g x ptr w (fill_instance (CcuResPack_InitByInsType env ptr insType) addr ins w)" if "insType \<noteq> CCU_UNUSED"
    by (rule pack_created [OF assms start(2), where alloc = "CcuAllocResHandleByInsType env ptr insType", OF took]) (simp add: CcuResPack_InitByInsType_def that)
  moreover have "insPack CcuInstance_new = None"
    by (simp add: CcuInstance_new_def)
  ultimately show ?thesis
    using start refused_created [OF assms(1)] by (auto simp: InitByInsType_def split: prod.splits)
qed

lemma InitByResDescs_created:
  assumes "dev_inv g x (wDev w)" and "envOpenSource env" and "ptr \<notin> fst ` set (handleMap (devBatch (wDev w)))"
    and "\<And>ds desc. descs = Some ds \<Longrightarrow> Some desc \<in> set ds \<Longrightarrow> desc_u32 desc"
  shows "created g x ptr w (InitByResDescs env feature ptr addr descs CcuInstance_new w)"
proof (cases descs)
  case None
  then show ?thesis
    using refused_created [OF assms(1)] by (simp add: InitByResDescs_def CcuInstance_new_def)
next
  case (Some ds)
  obtain e ins where start: "start_instance feature CcuInstance_new = (e, ins)" "insPack ins = None"
    using start_new [of feature] by (metis prod.collapse)
  obtain req where "req_u32 req" "asks_for env ptr 0 (wDev w) (CcuAllocResHandleByResDescs env ptr (Some ds) 0 (wDev w)) req"
    using descs_ask [OF assms(2), of ds ptr 0 "wDev w"] assms(4) [OF Some] by blast
  then have took: "took g x ptr (wDev w) (CcuAllocResHandleByResDescs env ptr (Some ds) 0 (wDev w))"
    using asks_took [OF assms(1-3)] by blast
  have "created g x ptr w (fill_instance (CcuResPack_InitByResDescs env ptr (Some ds)) addr ins w)"
    by (rule pack_created [OF assms(1-3) start(2), where alloc = "CcuAllocResHandleByResDescs env ptr (Some ds)", OF took])
      (simp add: CcuResPack_InitByResDescs_def)
  moreover have "insPack CcuInstance_new = None"
    by (simp add: CcuInstance_new_def)
  ultimately show ?thesis
    using Some start refused_created [OF assms(1)] by (auto simp: InitByResDescs_def)
qed

text \<open>The totals of the device fit 32 bits.\<close>

lemma query_u32:
  assumes "envOpenSource env" and "(t, q) \<in> set (total_queries env d dev)" and "q n = (ret, n')" and "n < 2 ^ 32"
  shows "n' < 2 ^ 32"
proof -
  have "u32_mul a b < 2 ^ 32" for a b
    by (simp add: u32_mul_def)
  moreover have "unat (v :: u32) < 2 ^ 32" for v
    using unsigned_less [of v] by simp
  ultimately show ?thesis
    using assms by (auto simp: total_queries_def CcuGetLoopEngineNum_def CcuGetMsNum_def CcuGetCkeNum_def CcuGetXnNum_def CcuGetGsaNum_def
      GetAllocatableMaxLoopEngineNum_def GetAllocatableMaxMsNum_def GetAllocatableMaxCkeNum_def GetAllocatableMaxXnNum_def
      GetAllocatableMaxGsaNum_def GetAllocatableMaxNum_def GetAllocatableMaxBlockResNum_def as_ccu_def split: prod.splits if_splits)
qed

lemma all_res_desc_u32:
  assumes "\<forall>(t, q)\<in>set qs. \<forall>n<2 ^ 32. snd (q n) < 2 ^ 32" and "desc_u32 desc" and "n < 2 ^ 32"
  shows "desc_u32 (snd (all_res_desc qs n desc))"
  using assms
proof (induction qs arbitrary: n desc)
  case (Cons tq qs)
  obtain t q where tq: "tq = (t, q)"
    by fastforce
  obtain e n' where q: "q n = (e, n')"
    by fastforce
  then have n': "n' < 2 ^ 32"
    using Cons.prems(1,3) by (fastforce simp: tq)
  obtain e2 desc2 where set: "CcuResDesc_SetResNum t n' desc = (e2, desc2)"
    by fastforce
  then have "desc_u32 desc2"
    using Cons.prems(2) n' by (auto simp: CcuResDesc_SetResNum_def desc_u32_def split: if_splits dest!: subsetD [OF set_update_subset_insert])
  then show ?case
    using Cons.IH [of desc2 n'] Cons.prems n' by (simp add: tq q set)
qed simp

lemma all_res_descs_u32:
  assumes "envOpenSource env" and "\<forall>desc\<in>set descs. desc_u32 desc" and "set dies \<subseteq> {..<length descs}"
    and "all_res_descs env dev dies descs = (ret, descs')"
  shows "\<forall>desc\<in>set descs'. desc_u32 desc"
  using assms
proof (induction dies arbitrary: descs)
  case (Cons d dies)
  obtain e flag where flag: "CcuGetDieEnableInfo env d False dev = (e, flag)"
    by fastforce
  obtain e2 desc where desc: "all_res_desc (total_queries env d dev) 0 (descs ! d) = (e2, desc)"
    by fastforce
  have "\<forall>(t, q)\<in>set (total_queries env d dev). \<forall>n<2 ^ 32. snd (q n) < 2 ^ 32"
  proof (intro ballI, clarify)
    fix t q n
    assume "(t, q) \<in> set (total_queries env d dev)" "(n :: nat) < 2 ^ 32"
    then show "snd (q n) < 2 ^ 32"
      using query_u32 [OF assms(1), of t q d dev n "fst (q n)" "snd (q n)"] by simp
  qed
  then have "desc_u32 desc"
    using all_res_desc_u32 [of "total_queries env d dev" "descs ! d" 0] Cons.prems(2,3) desc by simp
  then have "\<forall>x\<in>set (descs[d := desc]). desc_u32 x"
    using Cons.prems(2) set_update_subset_insert by fastforce
  note changed = this
  have "set dies \<subseteq> {..<length (descs[d := desc])}"
    using Cons.prems(3) by simp
  then show ?case
    using Cons.IH [OF assms(1) Cons.prems(2)] Cons.IH [OF assms(1) changed] Cons.prems(2-4) flag desc by (simp split: if_splits)
qed simp

lemma InitByAllRes_created:
  assumes "dev_inv g x (wDev w)" and "envOpenSource env" and "ptr \<notin> fst ` set (handleMap (devBatch (wDev w)))"
  shows "created g x ptr w (InitByAllRes env feature ptr addr CcuInstance_new w)"
proof -
  let ?new = "map (\<lambda>d. CcuResDesc_new\<lparr>descDieId := d\<rparr>) [0..<CCU_MAX_IODIE_NUM]"
  obtain e ins where start: "start_instance feature CcuInstance_new = (e, ins)" "insPack ins = None"
    using start_new [of feature] by (metis prod.collapse)
  obtain e2 descs where all: "all_res_descs env (wDev w) [0..<CCU_MAX_IODIE_NUM] ?new = (e2, descs)"
    by fastforce
  have "\<forall>desc\<in>set ?new. desc_u32 desc"
    by (simp add: desc_u32_def CcuResDesc_new_def)
  moreover have "set [0..<CCU_MAX_IODIE_NUM] \<subseteq> {..<length ?new}"
    by auto
  ultimately have "\<forall>desc\<in>set descs. desc_u32 desc"
    using all_res_descs_u32 [OF assms(2) _ _ all] by blast
  then obtain req where "req_u32 req" "asks_for env ptr 0 (wDev w) (CcuAllocResHandleByResDescs env ptr (Some (map Some descs)) 0 (wDev w)) req"
    using descs_ask [OF assms(2), of "map Some descs" ptr 0 "wDev w"] by auto
  then have took: "took g x ptr (wDev w) (CcuAllocResHandleByResDescs env ptr (Some (map Some descs)) 0 (wDev w))"
    using asks_took [OF assms(1-3)] by blast
  have "created g x ptr w (fill_instance (CcuResPack_InitByResDescs env ptr (Some (map Some descs))) addr ins w)"
    by (rule pack_created [OF assms(1-3) start(2), where alloc = "CcuAllocResHandleByResDescs env ptr (Some (map Some descs))", OF took])
      (simp add: CcuResPack_InitByResDescs_def)
  then show ?thesis
    using start all refused_created [OF assms(1)] by (auto simp: InitByAllRes_def)
qed

subsection \<open>The invariant\<close>

definition instance_ok :: "CcuInstanceMgr \<Rightarrow> 'l CcuDev \<Rightarrow> nat \<Rightarrow> CcuInstance \<Rightarrow> bool" where
  "instance_ok m dev k ins \<longleftrightarrow> insHandle ins = k \<and> k \<le> instanceId m \<and> (\<exists>pack r. insPack ins = Some pack
    \<and> map_of (handleMap (devBatch dev)) (packHandle pack) = Some r \<and> packHandle pack \<noteq> 0 \<and> pack_ok r pack
    \<and> (\<forall>h\<in>fst ` set (packHandleMap pack). map_of (cascCntMap m) h = Some k))"

definition ins_pack :: "CcuInstance \<Rightarrow> nat" where
  "ins_pack ins = packHandle (the (insPack ins))"

definition ins_mgr_inv :: "Geometry \<Rightarrow> Outside \<Rightarrow> CcuInstanceMgr \<Rightarrow> 'l CcuWorld \<Rightarrow> bool" where
  "ins_mgr_inv g x m w \<longleftrightarrow> dev_inv g x (wDev w) \<and> distinct (map fst (insMap m)) \<and> distinct (map (ins_pack \<circ> snd) (insMap m))
    \<and> (\<forall>(k, ins)\<in>set (insMap m). instance_ok m (wDev w) k ins) \<and> (\<forall>h\<in>fst ` set (cascCntMap m). h \<le> nextCascCntHandle m)"

lemma ins_mgr_invD:
  assumes "ins_mgr_inv g x m w"
  shows "dev_inv g x (wDev w)" "distinct (map fst (insMap m))" "distinct (map (ins_pack \<circ> snd) (insMap m))"
    "(k, ins) \<in> set (insMap m) \<Longrightarrow> instance_ok m (wDev w) k ins" "h \<in> fst ` set (cascCntMap m) \<Longrightarrow> h \<le> nextCascCntHandle m"
  using assms by (auto simp: ins_mgr_inv_def)

lemma ReleaseByInstance_dev: "wDev (w\<lparr>wUnregistered := u, wVe := ve\<rparr>) = wDev w"
  by simp

lemma delete_instance_dev:
  "wDev (delete_instance over rt env ins w) = (case insPack ins of None \<Rightarrow> wDev w
    | Some pack \<Rightarrow> if packHandle pack \<noteq> 0 then snd (CcuReleaseResHandle env (packHandle pack) (wDev w)) else wDev w)"
  by (simp add: delete_instance_def CcuReleaseRes_def Let_def split: option.splits)

lemma create_outcome:
  assumes inv: "ins_mgr_inv g x m w" and id: "instanceId m + 1 < 2 ^ 64"
    and made: "created g x ptr w (init CcuInstance_new w)" and call: "create_instance rt env init out m w = (ret, k, m', w')"
  shows "dev_inv g x (wDev w') \<and> (if ret = 0
    then (\<exists>ins pack r. k = instanceId m + 1 \<and> k \<notin> fst ` set (insMap m) \<and> m' = m\<lparr>instanceId := k, insMap := insMap m @ [(k, ins)]\<rparr>
      \<and> insHandle ins = k \<and> insPack ins = Some pack \<and> new_pack_ok ptr (wDev w') pack \<and> joined (wDev w) ptr r (wDev w') \<and> ptr \<noteq> 0)
    else m' = m \<and> handleMap (devBatch (wDev w')) = handleMap (devBatch (wDev w)))"
proof -
  obtain e ins w1 where init: "init CcuInstance_new w = (e, ins, w1)"
    by (metis prod_cases3)
  show ?thesis
  proof (cases "e = 0")
    case False
    then have "ret = e" "m' = m" "w' = delete_instance False rt env ins w1"
      using call init by (simp_all add: create_instance_def)
    moreover have "wDev (delete_instance False rt env ins w1) = wDev w1"
      using made False init by (auto simp: delete_instance_dev created_def split: option.splits)
    ultimately show ?thesis
      using made False init by (simp add: created_def)
  next
    case True
    obtain pack r where pack: "insPack ins = Some pack" "new_pack_ok ptr (wDev w1) pack" "dev_inv g x (wDev w1)" "joined (wDev w) ptr r (wDev w1)"
      using made True init by (auto simp: created_def)
    let ?k = "instanceId m + 1" and ?ins = "ins\<lparr>insHandle := instanceId m + 1\<rparr>"
    have fresh: "?k \<notin> fst ` set (insMap m)"
      using ins_mgr_invD(4) [OF inv] by (fastforce simp: instance_ok_def)
    then have new: "ret = 0" "k = ?k" "m' = m\<lparr>instanceId := ?k, insMap := insMap m @ [(?k, ?ins)]\<rparr>" "w' = w1"
      using call init True id by (auto simp: create_instance_def emplace_def map_of_eq_None_iff Let_def)
    have "ptr \<noteq> 0"
      using pack(3,4) by (auto simp: dev_inv_def batch_inv_def joined_def)
    then show ?thesis
      unfolding new(1) if_P [OF refl] using new(2-4) fresh pack by (intro conjI exI [of _ ?ins] exI [of _ pack] exI [of _ r]) simp_all
  qed
qed

lemma create_keeps:
  assumes inv: "ins_mgr_inv g x m w" and ptr: "ptr \<notin> fst ` set (handleMap (devBatch (wDev w)))" and id: "instanceId m + 1 < 2 ^ 64"
    and made: "created g x ptr w (init CcuInstance_new w)" and call: "create_instance rt env init out m w = (ret, k, m', w')"
  shows "ins_mgr_inv g x m' w'"
proof (cases "ret = 0")
  case False
  then show ?thesis
    using create_outcome [OF inv id made call] inv by (simp add: ins_mgr_inv_def instance_ok_def)
next
  case True
  obtain ins pack r where new: "k = instanceId m + 1" "k \<notin> fst ` set (insMap m)" "m' = m\<lparr>instanceId := k, insMap := insMap m @ [(k, ins)]\<rparr>"
    "insHandle ins = k" "insPack ins = Some pack" "new_pack_ok ptr (wDev w') pack" "joined (wDev w) ptr r (wDev w')" "ptr \<noteq> 0" "dev_inv g x (wDev w')"
    using create_outcome [OF inv id made call] True by auto
  have "map_of (handleMap (devBatch (wDev w'))) h = Some r'" if "map_of (handleMap (devBatch (wDev w))) h = Some r'" for h r'
    using that ptr new(7) by (auto simp: joined_def map_add_def map_of_eq_None_iff)
  then have "instance_ok m' (wDev w') j i" if "instance_ok m (wDev w) j i" for j i
    using that unfolding instance_ok_def new(1,3) by (simp add: le_SucI) blast
  moreover have "instance_ok m' (wDev w') k ins"
    using new by (auto simp: instance_ok_def new_pack_ok_def)
  moreover have "ins_pack i \<noteq> ptr" if "(j, i) \<in> set (insMap m)" for j i
    using ins_mgr_invD(4) [OF inv that] ptr by (force simp: instance_ok_def ins_pack_def dest: map_of_SomeD)
  then have "ptr \<notin> (ins_pack \<circ> snd) ` set (insMap m)"
    by (metis (no_types, lifting) comp_apply imageE prod.collapse)
  moreover have "ins_pack ins = ptr"
    using new(5,6) by (simp add: ins_pack_def new_pack_ok_def)
  ultimately show ?thesis
    using inv new(2,9) unfolding ins_mgr_inv_def new(3) by auto
qed

lemma map_of_filter_value: "map_of al h = Some j \<Longrightarrow> j \<noteq> k \<Longrightarrow> map_of (filter (\<lambda>(h, i). i \<noteq> k) al) h = Some j"
  by (induction al) (auto split: if_splits)

lemma destroy_keeps:
  assumes inv: "ins_mgr_inv g x m w" and os: "envOpenSource env" and call: "CcuInstanceMgr_Destroy over rt env k m w = (ret, m', w')"
  shows "ins_mgr_inv g x m' w'"
proof (cases "map_of (insMap m) k")
  case None
  then show ?thesis
    using call inv by (simp add: CcuInstanceMgr_Destroy_def)
next
  case (Some ins)
  then obtain xs ys where at: "insMap m = xs @ (k, ins) # ys"
    using split_list [OF map_of_SomeD] by metis
  note gone = entry_at(1) [OF ins_mgr_invD(2) [OF inv] at]
  obtain pack r where pack: "insPack ins = Some pack" "map_of (handleMap (devBatch (wDev w))) (packHandle pack) = Some r" "packHandle pack \<noteq> 0"
    using ins_mgr_invD(4) [OF inv, of k ins] at by (auto simp: instance_ok_def)
  note returned = ReleaseResHandle_returns [OF ins_mgr_invD(1) [OF inv] os pack(2)]
  have dev: "wDev w' = snd (CcuReleaseResHandle env (packHandle pack) (wDev w))"
    using call Some pack by (auto simp: CcuInstanceMgr_Destroy_def delete_instance_dev)
  have m': "insMap m' = xs @ ys" "cascCntMap m' = filter (\<lambda>(h, i). i \<noteq> k) (cascCntMap m)" "instanceId m' = instanceId m"
    "nextCascCntHandle m' = nextCascCntHandle m"
    using call Some gone by (auto simp: CcuInstanceMgr_Destroy_def)
  have "instance_ok m' (wDev w') j i" if other: "(j, i) \<in> set (xs @ ys)" for j i
  proof -
    have ok: "instance_ok m (wDev w) j i"
      using ins_mgr_invD(4) [OF inv, of j i] other unfolding at by auto
    have "k \<notin> fst ` set (xs @ ys)" "ins_pack ins \<notin> (ins_pack \<circ> snd) ` set (xs @ ys)"
      using ins_mgr_invD(2,3) [OF inv] unfolding at by auto
    then have ne: "j \<noteq> k" "ins_pack i \<noteq> packHandle pack"
      using other pack(1) by (force simp: ins_pack_def image_iff)+
    from ok obtain p q where p: "insPack i = Some p" "map_of (handleMap (devBatch (wDev w))) (packHandle p) = Some q" "packHandle p \<noteq> 0" "pack_ok q p"
      "\<forall>h\<in>fst ` set (packHandleMap p). map_of (cascCntMap m) h = Some j" "insHandle i = j" "j \<le> instanceId m"
      by (auto simp: instance_ok_def)
    have "map_of (handleMap (devBatch (wDev w'))) (packHandle p) = Some q"
      using p(1,2) ne(2) returned by (simp add: dev delete_conv' ins_pack_def)
    moreover have "map_of (cascCntMap m') h = Some j" if "map_of (cascCntMap m) h = Some j" for h
      using map_of_filter_value [OF that ne(1)] by (simp add: m'(2))
    ultimately show ?thesis
      using p by (auto simp: instance_ok_def m'(3))
  qed
  moreover have "h \<le> nextCascCntHandle m" if "h \<in> fst ` set (cascCntMap m')" for h
    using ins_mgr_invD(5) [OF inv, of h] that unfolding m'(2) by auto
  ultimately show ?thesis
    using ins_mgr_invD(2,3) [OF inv] returned unfolding ins_mgr_inv_def m' dev at by auto
qed

subsection \<open>Counting XN blocks\<close>

lemma take_free_Some:
  "take_free blocks = Some (b, blocks') \<Longrightarrow> \<exists>i<length blocks. blocks ! i = (b, False) \<and> blocks' = blocks[i := (b, True)]"
proof (induction blocks arbitrary: blocks' rule: take_free.induct)
  case (2 c used blocks)
  show ?case
  proof (cases used)
    case True
    then obtain rest where rest: "take_free blocks = Some (b, rest)" "blocks' = (c, used) # rest"
      using 2(2) by (auto split: option.splits)
    then obtain i where "i < length blocks" "blocks ! i = (b, False)" "rest = blocks[i := (b, True)]"
      using 2(1) True by blast
    then show ?thesis
      using rest(2) by (intro exI [of _ "Suc i"]) simp
  next
    case False
    then show ?thesis
      using 2(2) by (intro exI [of _ 0]) auto
  qed
qed simp

lemma Acquire_pack:
  assumes ok: "pack_ok r pack" and fresh: "h \<notin> fst ` set (packHandleMap pack)" and call: "AcquireCascCntBlock d h pack = (ret, pack')"
  shows "pack_ok r pack' \<and> packHandle pack' = packHandle pack
    \<and> (if ret = CCU_SUCCESS then \<exists>b. packHandleMap pack' = packHandleMap pack @ [(h, b)] else pack' = pack)"
proof (cases "d < CCU_MAX_IODIE_NUM \<and> h \<noteq> 0 \<and> take_free (cascCntBlocks pack d) \<noteq> None")
  case False
  then have "pack' = pack" "ret \<noteq> CCU_SUCCESS"
    using call by (auto simp: AcquireCascCntBlock_def split: if_splits option.splits)
  then show ?thesis
    using ok by simp
next
  case True
  then obtain b blocks where free: "take_free (cascCntBlocks pack d) = Some (b, blocks)" and d: "d < 2"
    by (auto simp: CCU_MAX_IODIE_NUM_def)
  obtain i where i: "i < length (cascCntBlocks pack d)" "cascCntBlocks pack d ! i = (b, False)" "blocks = (cascCntBlocks pack d)[i := (b, True)]"
    using take_free_Some [OF free] by blast
  have "cascCntBlocks pack d \<noteq> []"
    using i(1) by auto
  moreover have "map_of (packHandleMap pack) h = None"
    using fresh by (simp add: map_of_eq_None_iff)
  ultimately have pack': "ret = CCU_SUCCESS"
    "pack' = pack\<lparr>cascCntBlocks := (cascCntBlocks pack)(d := blocks), packHandleMap := packHandleMap pack @ [(h, b)]\<rparr>"
    using call True free by (simp_all add: AcquireCascCntBlock_def emplace_def)
  obtain pos where pos: "inj_on pos (fst ` set (packHandleMap pack))" "\<forall>(h, b)\<in>set (packHandleMap pack). case pos h of (d, i) \<Rightarrow>
      d < 2 \<and> i < length (cascCntBlocks pack d) \<and> cascCntBlocks pack d ! i = (b, True)"
    using ok by (auto simp: pack_ok_def placed_def)
  let ?pos = "pos(h := (d, i))"
  have other: "pos h' \<noteq> (d, i) \<and> h' \<noteq> h" if "(h', b') \<in> set (packHandleMap pack)" for h' b'
    using pos(2) that i(2) fresh by force
  then have "(d, i) \<notin> pos ` fst ` set (packHandleMap pack)"
    by force
  then have inj: "inj_on ?pos (fst ` set (packHandleMap pack'))"
    using pos(1) fresh unfolding pack'(2) by (auto simp: inj_on_fun_updI)
  have "case ?pos h' of (e, j) \<Rightarrow> e < 2 \<and> j < length (cascCntBlocks pack' e) \<and> cascCntBlocks pack' e ! j = (b', True)"
    if "(h', b') \<in> set (packHandleMap pack')" for h' b'
  proof (cases "(h', b') \<in> set (packHandleMap pack)")
    case True
    obtain e j where ej: "pos h' = (e, j)"
      by fastforce
    then have "e < 2" "j < length (cascCntBlocks pack e)" "cascCntBlocks pack e ! j = (b', True)" "(e, j) \<noteq> (d, i)" "h' \<noteq> h"
      using pos(2) True other [OF True] by auto
    then show ?thesis
      using ej i(3) unfolding pack'(2) by (auto simp: nth_list_update)
  next
    case False
    then have "h' = h" "b' = b"
      using that unfolding pack'(2) by auto
    then show ?thesis
      using i d unfolding pack'(2) by simp
  qed
  note at_place = this
  have "placed ?pos pack'"
    unfolding placed_def
  proof (intro conjI inj ballI)
    fix p assume "p \<in> set (packHandleMap pack')"
    then show "case p of (h, b) \<Rightarrow> case ?pos h of (d, i) \<Rightarrow> d < 2 \<and> i < length (cascCntBlocks pack' d) \<and> cascCntBlocks pack' d ! i = (b, True)"
      using at_place [of "fst p" "snd p"] by (simp add: split_beta)
  qed
  moreover have "map fst (cascCntBlocks pack' e) = map fst (cascCntBlocks pack e)" for e
    using i unfolding pack'(2) by (simp add: map_update) (metis fst_conv list_update_id nth_map)
  moreover have "distinct (map fst (packHandleMap pack'))"
    using ok fresh by (simp add: pack_ok_def pack'(2))
  ultimately have "pack_ok r pack'"
    using ok unfolding pack_ok_def by auto
  then show ?thesis
    using pack' by simp
qed

lemma casc_alloc_keeps:
  assumes inv: "ins_mgr_inv g x m w" and next_ok: "nextCascCntHandle m + 1 < 2 ^ 64" and call: "CascCntHandleAlloc k d out m = (ret, h, m')"
  shows "ins_mgr_inv g x m' w"
proof (cases "map_of (insMap m) k")
  case None
  then show ?thesis
    using call inv by (simp add: CascCntHandleAlloc_def)
next
  case (Some ins)
  then obtain xs ys where at: "insMap m = xs @ (k, ins) # ys"
    using split_list [OF map_of_SomeD] by metis
  note put = entry_at(2) [OF ins_mgr_invD(2) [OF inv] at]
  let ?h = "nextCascCntHandle m + 1"
  have "?h \<notin> fst ` set (cascCntMap m)"
    using ins_mgr_invD(5) [OF inv, of ?h] by fastforce
  then have free: "map_of (cascCntMap m) ?h = None"
    by (simp add: map_of_eq_None_iff)
  obtain pack r where pack: "insPack ins = Some pack" "map_of (handleMap (devBatch (wDev w))) (packHandle pack) = Some r" "packHandle pack \<noteq> 0"
    "pack_ok r pack" "\<forall>h\<in>fst ` set (packHandleMap pack). map_of (cascCntMap m) h = Some k" "insHandle ins = k" "k \<le> instanceId m"
    using ins_mgr_invD(4) [OF inv, of k ins] at by (auto simp: instance_ok_def)
  have fresh: "?h \<notin> fst ` set (packHandleMap pack)"
    using pack(5) free by auto
  obtain e pack' where acq: "AcquireCascCntBlock d ?h pack = (e, pack')"
    by fastforce
  note out = Acquire_pack [OF pack(4) fresh acq]
  let ?ins = "ins\<lparr>insPack := Some pack'\<rparr>" and ?cc = "if e = CCU_SUCCESS then cascCntMap m @ [(?h, k)] else cascCntMap m"
  have m': "insMap m' = xs @ (k, ?ins) # ys" "cascCntMap m' = ?cc" "nextCascCntHandle m' = ?h" "instanceId m' = instanceId m"
    using call Some next_ok free acq put pack(1)
    by (auto simp: CascCntHandleAlloc_def CcuInstance_CascCntHandleAlloc_def put_instance_def emplace_def Let_def split: if_splits)
  have routed: "map_of ?cc j = Some i" if "map_of (cascCntMap m) j = Some i" for i j
    using that by (simp add: map_add_def)
  have "instance_ok m' (wDev w) j i" if "(j, i) \<in> set (xs @ ys)" for j i
    using ins_mgr_invD(4) [OF inv, of j i] that routed unfolding at instance_ok_def m' by auto
  moreover have "map_of ?cc h = Some k" if "h \<in> fst ` set (packHandleMap pack')" for h
  proof (cases "h \<in> fst ` set (packHandleMap pack)")
    case True
    then show ?thesis
      using pack(5) routed by blast
  next
    case False
    then have "h = ?h" "e = CCU_SUCCESS"
      using that out by (auto split: if_splits)
    then show ?thesis
      using free by (simp add: map_add_def)
  qed
  then have "instance_ok m' (wDev w) k ?ins"
    using out pack unfolding instance_ok_def m' by auto
  moreover have "ins_pack ?ins = ins_pack ins"
    using out pack(1) by (simp add: ins_pack_def)
  moreover have "h \<le> ?h" if "h \<in> fst ` set ?cc" for h
    using ins_mgr_invD(5) [OF inv, of h] that by (cases "h \<in> fst ` set (cascCntMap m)") (auto split: if_splits)
  ultimately show ?thesis
    using ins_mgr_invD(1-3) [OF inv] unfolding ins_mgr_inv_def m' at by auto
qed

lemma repo_blocks_apart:
  assumes "batch_inv os g x L b c" and "(k, r) \<in> set L" and "d < 2" and "i < length (cascCntBlock r d)" and "j < length (cascCntBlock r d)" and "i \<noteq> j"
  shows "block_ids (cntResInfo (cascCntBlock r d ! i)) \<inter> block_ids (cntResInfo (cascCntBlock r d ! j)) = {}"
    and "blockIdx (cascCntBlock r d ! i) \<noteq> blockIdx (cascCntBlock r d ! j)"
proof -
  obtain xs ys where L: "L = xs @ (k, r) # ys"
    using split_list [OF assms(2)] by blast
  have "ledger_ok (cnt_held (oCount x) L d)" "distinct (reg_held (oReg x) L d)"
    using assms(1,3) by (simp_all add: batch_inv_def casc_inv_def)
  then have "ledger_ok (map cntResInfo (cascCntBlock r d))" "distinct (map blockIdx (cascCntBlock r d))"
    unfolding L cnt_held_def reg_held_def by (simp_all add: ledger_ok_append)
  then show "block_ids (cntResInfo (cascCntBlock r d ! i)) \<inter> block_ids (cntResInfo (cascCntBlock r d ! j)) = {}"
    and "blockIdx (cascCntBlock r d ! i) \<noteq> blockIdx (cascCntBlock r d ! j)"
    using ledger_ok_nth [of "map cntResInfo (cascCntBlock r d)" i j] ledger_ok_nth [of "map cntResInfo (cascCntBlock r d)" j i] assms(4-6)
      nth_eq_iff_index_eq [of "map blockIdx (cascCntBlock r d)" i j]
    by (cases "i < j"; simp add: Int_commute)+
qed


subsection \<open>Runs\<close>

text \<open>Instances are created in any of the three ways, destroyed, and asked for counting XN blocks, in any order. The device has
  the component modelled here (\<open>envOpenSource\<close>); the answers of the drivers may differ in every step. Handles and numbers do not
  reach \<open>2 ^ 64\<close>, and the batch allocator gives a new repository an address that no live one has.\<close>

inductive ins_run :: "CcuInstanceMgr \<Rightarrow> 'l CcuWorld \<Rightarrow> CcuInstanceMgr \<Rightarrow> 'l CcuWorld \<Rightarrow> bool" for m0 w0 where
  start: "ins_run m0 w0 m0 w0"
| by_type: "ins_run m0 w0 m' w'" if "ins_run m0 w0 m w" "envOpenSource env" "instanceId m + 1 < 2 ^ 64"
    "ptr \<notin> fst ` set (handleMap (devBatch (wDev w)))" "CreateByInsType rt env feature ptr addr insType out m w = (ret, k, m', w')"
| by_descs: "ins_run m0 w0 m' w'" if "ins_run m0 w0 m w" "envOpenSource env" "instanceId m + 1 < 2 ^ 64"
    "ptr \<notin> fst ` set (handleMap (devBatch (wDev w)))" "\<And>ds desc. descs = Some ds \<Longrightarrow> Some desc \<in> set ds \<Longrightarrow> desc_u32 desc"
    "CreateByResDescs rt env feature ptr addr descs out m w = (ret, k, m', w')"
| by_all: "ins_run m0 w0 m' w'" if "ins_run m0 w0 m w" "envOpenSource env" "instanceId m + 1 < 2 ^ 64"
    "ptr \<notin> fst ` set (handleMap (devBatch (wDev w)))" "CreateByAllRes rt env feature ptr addr out m w = (ret, k, m', w')"
| destroy: "ins_run m0 w0 m' w'" if "ins_run m0 w0 m w" "envOpenSource env" "CcuInstanceMgr_Destroy over rt env k m w = (ret, m', w')"
| count: "ins_run m0 w0 m' w" if "ins_run m0 w0 m w" "nextCascCntHandle m + 1 < 2 ^ 64" "CascCntHandleAlloc k d out m = (ret, h, m')"

lemma ins_run_inv:
  assumes "ins_run m0 w0 m w" and "ins_mgr_inv g x m0 w0"
  shows "ins_mgr_inv g x m w"
  using assms(1)
proof (induction rule: ins_run.induct)
  case start
  then show ?case
    by (rule assms(2))
next
  case (by_type m w env ptr rt feature addr insType out ret k m' w')
  then show ?case
    using create_keeps [OF by_type.IH by_type.hyps(4,3), where init = "InitByInsType env feature ptr addr insType", OF InitByInsType_created [OF ins_mgr_invD(1) [OF by_type.IH] by_type.hyps(2,4)]] by (simp add: CreateByInsType_def)
next
  case (by_descs m w env ptr descs rt feature addr out ret k m' w')
  then show ?case
    using create_keeps [OF by_descs.IH by_descs.hyps(4,3), where init = "InitByResDescs env feature ptr addr descs", OF InitByResDescs_created [OF ins_mgr_invD(1) [OF by_descs.IH] by_descs.hyps(2,4,5)]]
    by (simp add: CreateByResDescs_def)
next
  case (by_all m w env ptr rt feature addr out ret k m' w')
  then show ?case
    using create_keeps [OF by_all.IH by_all.hyps(4,3), where init = "InitByAllRes env feature ptr addr", OF InitByAllRes_created [OF ins_mgr_invD(1) [OF by_all.IH] by_all.hyps(2,4)]] by (simp add: CreateByAllRes_def)
next
  case (destroy m w env over rt k ret m' w')
  then show ?case
    using destroy_keeps by blast
next
  case (count m w k d out ret h m')
  then show ?case
    using casc_alloc_keeps by blast
qed

end
