(* ===== verification/Instance_Props.thy ===== *)
theory Instance_Props
  imports Instance_Inv
begin

text \<open>
  What the clients of instances rely on: counting XN blocks are never shared, destroying an instance gives everything back,
  and a round of registration hands exactly its kernels to the translation.
\<close>

subsection \<open>Counting XN blocks\<close>

text \<open>A block of a die, held by a live instance under a handle.\<close>

lemma GetCascCntBlock_held:
  assumes inv: "ins_mgr_inv g x m w" and get: "GetCascCntBlock h m = Inr b"
  obtains k ins pack r where "(k, ins) \<in> set (insMap m)" and "insPack ins = Some pack" and "(h, b) \<in> set (packHandleMap pack)"
    and "(packHandle pack, r) \<in> set (handleMap (devBatch (wDev w)))" and "pack_ok r pack"
proof -
  obtain k ins pack where at: "(k, ins) \<in> set (insMap m)" "insPack ins = Some pack" "(h, b) \<in> set (packHandleMap pack)"
    using get by (auto simp: GetCascCntBlock_def CcuResPack_GetCascCntBlock_def split: option.splits dest!: map_of_SomeD)
  then show thesis
    using that ins_mgr_invD(4) [OF inv at(1)] by (auto simp: instance_ok_def dest!: map_of_SomeD)
qed

lemma placed_block:
  assumes "placed pos pack" and "pack_ok r pack" and "(h, b) \<in> set (packHandleMap pack)" and "pos h = (d, i)"
  shows "d < 2" and "i < length (cascCntBlock r d)" and "cascCntBlock r d ! i = b"
proof -
  have at: "d < 2" "i < length (cascCntBlocks pack d)" "cascCntBlocks pack d ! i = (b, True)"
    using assms(1,3,4) by (auto simp: placed_def)
  then have "map fst (cascCntBlocks pack d) = cascCntBlock r d"
    using assms(2) by (simp add: pack_ok_def)
  then show "d < 2" and "i < length (cascCntBlock r d)" and "cascCntBlock r d ! i = b"
    using at by (auto simp flip: \<open>map fst (cascCntBlocks pack d) = cascCntBlock r d\<close>)
qed

lemma blocks_apart:
  assumes inv: "ins_mgr_inv g x m w" and h: "GetCascCntBlock h m = Inr b" and h': "GetCascCntBlock h' m = Inr b'" and ne: "h \<noteq> h'"
  shows "\<exists>d<2. \<exists>d'<2. \<exists>r r'. r \<in> snd ` set (handleMap (devBatch (wDev w))) \<and> b \<in> set (cascCntBlock r d)
    \<and> r' \<in> snd ` set (handleMap (devBatch (wDev w))) \<and> b' \<in> set (cascCntBlock r' d')
    \<and> (d = d' \<longrightarrow> block_ids (cntResInfo b) \<inter> block_ids (cntResInfo b') = {} \<and> blockIdx b \<noteq> blockIdx b')"
proof -
  have batch: "batch_inv True g x (handleMap (devBatch (wDev w))) (devBatch (wDev w)) (devComp (wDev w))"
    using ins_mgr_invD(1) [OF inv] by (simp add: dev_inv_def)
  have keys: "distinct (map fst (handleMap (devBatch (wDev w))))"
    using batch by (simp add: batch_inv_def)
  from GetCascCntBlock_held [OF inv h] obtain k ins pack r where 1: "(k, ins) \<in> set (insMap m)" "insPack ins = Some pack"
    "(h, b) \<in> set (packHandleMap pack)" "(packHandle pack, r) \<in> set (handleMap (devBatch (wDev w)))" "pack_ok r pack" .
  from GetCascCntBlock_held [OF inv h'] obtain k' ins' pack' r' where 2: "(k', ins') \<in> set (insMap m)" "insPack ins' = Some pack'"
    "(h', b') \<in> set (packHandleMap pack')" "(packHandle pack', r') \<in> set (handleMap (devBatch (wDev w)))" "pack_ok r' pack'" .
  define pos where "pos p = (SOME pos. placed pos p)" for p
  have placed: "placed (pos pack) pack" "placed (pos pack') pack'"
    using 1(5) 2(5) someI_ex [of "\<lambda>pos. placed pos pack"] someI_ex [of "\<lambda>pos. placed pos pack'"] by (auto simp: pos_def pack_ok_def)
  obtain d i d' i' where di: "pos pack h = (d, i)" "pos pack' h' = (d', i')"
    by fastforce
  note b = placed_block [OF placed(1) 1(5,3) di(1)] and b' = placed_block [OF placed(2) 2(5,3) di(2)]
  have "block_ids (cntResInfo b) \<inter> block_ids (cntResInfo b') = {} \<and> blockIdx b \<noteq> blockIdx b'" if d: "d = d'"
  proof (cases "k = k'")
    case True
    then have "ins' = ins"
      using eq_key_imp_eq_value [OF ins_mgr_invD(2) [OF inv] 1(1)] 2(1) by simp
    then have same: "pack' = pack"
      using 1(2) 2(2) by simp
    then have "r' = r"
      using eq_key_imp_eq_value [OF keys 1(4)] 2(4) by simp
    moreover have "inj_on (pos pack) (fst ` set (packHandleMap pack))" "h \<in> fst ` set (packHandleMap pack)" "h' \<in> fst ` set (packHandleMap pack)"
      using placed(1) 1(3) 2(3) same by (force simp: placed_def)+
    then have "pos pack h \<noteq> pos pack h'"
      using ne by (auto dest: inj_onD)
    then have "i \<noteq> i'"
      using di d same by simp
    ultimately show ?thesis
      using repo_blocks_apart [OF batch 1(4) b(1), of i i'] b(2,3) b'(2,3) d by simp
  next
    case False
    have "(k, ins) \<noteq> (k', ins')"
      using False by simp
    then have "ins_pack ins \<noteq> ins_pack ins'"
      using 1(1) 2(1) ins_mgr_invD(3) [OF inv] inj_onD [of "ins_pack \<circ> snd" "set (insMap m)" "(k, ins)" "(k', ins')"] by (auto simp: distinct_map)
    then have "packHandle pack \<noteq> packHandle pack'"
      using 1(2) 2(2) by (simp add: ins_pack_def)
    then have "disjoint_repos r r'"
      by (rule batch_inv_disjoint [OF batch 1(4) 2(4)])
    then have "ids (map cntResInfo (cascCntBlock r d)) \<inter> ids (map cntResInfo (cascCntBlock r' d)) = {}"
      "set (map blockIdx (cascCntBlock r d)) \<inter> set (map blockIdx (cascCntBlock r' d)) = {}"
      using b(1) unfolding disjoint_repos_def by blast+
    moreover have "b \<in> set (cascCntBlock r d)" "b' \<in> set (cascCntBlock r' d)"
      using b(2,3) b'(2,3) d nth_mem by blast+
    ultimately show ?thesis
      by (fastforce simp: ids_def)
  qed
  moreover have "b \<in> set (cascCntBlock r d)" "b' \<in> set (cascCntBlock r' d')"
    using b(2,3) b'(2,3) nth_mem by blast+
  moreover have "r \<in> snd ` set (handleMap (devBatch (wDev w)))" "r' \<in> snd ` set (handleMap (devBatch (wDev w)))"
    using 1(4) 2(4) by force+
  ultimately show ?thesis
    using b(1) b'(1) by blast
qed


text \<open>The device after the component and the batch allocator were initialised.\<close>

definition fresh_device :: "CcuResSpecifications \<Rightarrow> 'l CcuDev \<Rightarrow> bool" where
  "fresh_device specs dev \<longleftrightarrow> (\<exists>chan plat cfgMgr phyRet c0.
    CcuComponent_Init chan plat cfgMgr phyRet specs CcuComponent_new = (HCCL_SUCCESS, c0)
    \<and> CcuResBatchAllocator_Init specs CcuResBatchAllocator_new c0 = (HCCL_SUCCESS, devBatch dev, devComp dev))"

lemma fresh_ins_mgr_inv:
  assumes "fresh_device specs (wDev w)" and "specs_fit specs"
  obtains g where "ins_mgr_inv g no_others CcuInstanceMgr_new w"
proof -
  obtain chan plat cfgMgr phyRet c0 where c0: "CcuComponent_Init chan plat cfgMgr phyRet specs CcuComponent_new = (HCCL_SUCCESS, c0)"
    "CcuResBatchAllocator_Init specs CcuResBatchAllocator_new c0 = (HCCL_SUCCESS, devBatch (wDev w), devComp (wDev w))"
    using assms(1) by (auto simp: fresh_device_def)
  have "fresh_pools c0"
    using CcuComponent_Init_fresh(1) [OF assms(2) c0(1)] CcuComponent_new_sel by blast
  then obtain g where "batch_inv True g no_others [] (devBatch (wDev w)) (devComp (wDev w))" "handleMap (devBatch (wDev w)) = []"
    using Init_establishes [OF _ fresh_batch_new c0(2)] by blast
  then show thesis
    using that by (simp add: ins_mgr_inv_def dev_inv_def CcuInstanceMgr_new_def)
qed

text \<open>C3. From an initialised device, however instances are created and destroyed and counting XN blocks handed
  out, two different block handles never lead to blocks that overlap: each block belongs to a repository of a live
  handle of the batch allocator, and two blocks of one die have no counting XN and no comparison register in common, also when they belong to different
  instances.
\<close>

theorem counting_blocks_apart:
  assumes "fresh_device specs (wDev w0)" and "specs_fit specs" and "ins_run CcuInstanceMgr_new w0 m w"
    and "GetCascCntBlock h m = Inr b" and "GetCascCntBlock h' m = Inr b'" and "h \<noteq> h'"
  shows "\<exists>d<2. \<exists>d'<2. \<exists>r r'. r \<in> snd ` set (handleMap (devBatch (wDev w))) \<and> b \<in> set (cascCntBlock r d)
    \<and> r' \<in> snd ` set (handleMap (devBatch (wDev w))) \<and> b' \<in> set (cascCntBlock r' d')
    \<and> (d = d' \<longrightarrow> block_ids (cntResInfo b) \<inter> block_ids (cntResInfo b') = {} \<and> blockIdx b \<noteq> blockIdx b')"
proof -
  obtain g where "ins_mgr_inv g no_others CcuInstanceMgr_new w0"
    using fresh_ins_mgr_inv [OF assms(1,2)] .
  then show ?thesis
    using blocks_apart [OF ins_run_inv [OF assms(3)] assms(4-6)] by blast
qed

subsection \<open>Creating and destroying\<close>

text \<open>C7. An instance created in any of the three ways, in any state that earlier creations, destructions and
  hand-outs of counting blocks can lead to, is live, and destroying it leaves
  every block vector, pool, counting XN, register and handle of the device, and the other instances, as
  they were before; a creation that fails leaves the instances and the handles as they were.
\<close>

theorem instance_restored:
  assumes "fresh_device specs (wDev w0)" and "specs_fit specs" and "ins_run CcuInstanceMgr_new w0 m w" and "envOpenSource env"
    and "instanceId m + 1 < 2 ^ 64" and "ptr \<notin> fst ` set (handleMap (devBatch (wDev w)))" and "\<forall>desc. Some desc \<in> set ds \<longrightarrow> desc_u32 desc"
    and "init = InitByInsType env feature ptr addr insType \<or> init = InitByResDescs env feature ptr addr (Some ds) \<or> init = InitByAllRes env feature ptr addr"
    and "create_instance rt env init out m w = (ret, k, m1, w1)" and "CcuInstanceMgr_Destroy over rt' env k m1 w1 = (ret', m2, w2)"
  shows "if ret = 0
    then ret' = CCU_SUCCESS \<and> insMap m2 = insMap m \<and> same_resources (devBatch (wDev w)) (devComp (wDev w)) (devBatch (wDev w2)) (devComp (wDev w2))
    else insMap m1 = insMap m \<and> handleMap (devBatch (wDev w1)) = handleMap (devBatch (wDev w))"
proof -
  obtain g where "ins_mgr_inv g no_others CcuInstanceMgr_new w0"
    using fresh_ins_mgr_inv [OF assms(1,2)] .
  then have inv: "ins_mgr_inv g no_others m w"
    by (rule ins_run_inv [OF assms(3)])
  have "created g no_others ptr w (init CcuInstance_new w)"
    using assms(8) InitByInsType_created [OF ins_mgr_invD(1) [OF inv] assms(4,6)] InitByAllRes_created [OF ins_mgr_invD(1) [OF inv] assms(4,6)]
      InitByResDescs_created [OF ins_mgr_invD(1) [OF inv] assms(4,6), of "Some ds"] assms(7) by auto
  note made = create_outcome [OF inv assms(5) this assms(9)]
  show ?thesis
  proof (cases "ret = 0")
    case True
    obtain ins pack r where new: "k \<notin> fst ` set (insMap m)" "insMap m1 = insMap m @ [(k, ins)]" "insPack ins = Some pack" "packHandle pack = ptr"
      "joined (wDev w) ptr r (wDev w1)" "ptr \<noteq> 0" "dev_inv g no_others (wDev w1)" "\<exists>r. map_of (handleMap (devBatch (wDev w1))) ptr = Some r"
      using made True by (auto simp: new_pack_ok_def)
    have keys: "distinct (map fst (insMap m1))"
      using ins_mgr_invD(2) [OF inv] new(1,2) by simp
    have "map_of (insMap m1) k = Some ins"
      using map_of_is_SomeI [OF keys, of k ins] new(2) by simp
    then have gone: "ret' = CCU_SUCCESS" "insMap m2 = AList.delete k (insMap m1)" "wDev w2 = snd (CcuReleaseResHandle env ptr (wDev w1))"
      using assms(10) new(3,4,6) by (auto simp: CcuInstanceMgr_Destroy_def delete_instance_dev)
    obtain r' where r': "map_of (handleMap (devBatch (wDev w1))) ptr = Some r'"
      using new(8) by blast
    note returned = ReleaseResHandle_returns [OF new(7) assms(4) r']
    have "AList.delete ptr (handleMap (devBatch (wDev w1))) = handleMap (devBatch (wDev w))"
      using entry_at(1) [of "handleMap (devBatch (wDev w1))" "handleMap (devBatch (wDev w))" ptr r "[]"] new(5,7)
      by (simp add: joined_def dev_inv_def batch_inv_def)
    then have same: "handleMap (devBatch (wDev w2)) = handleMap (devBatch (wDev w))" "batchDieFlags (devBatch (wDev w2)) = batchDieFlags (devBatch (wDev w))"
      "dev_inv g no_others (wDev w2)"
      using returned new(5) by (simp_all add: gone(3) joined_def)
    then have "same_resources (devBatch (wDev w)) (devComp (wDev w)) (devBatch (wDev w2)) (devComp (wDev w2))"
      using ledger_same ins_mgr_invD(1) [OF inv] by (metis dev_inv_def)
    moreover have "insMap m2 = insMap m"
      using entry_at(1) [OF keys, of "insMap m" k ins "[]"] new(2) gone(2) by simp
    ultimately show ?thesis
      using True gone(1) by simp
  qed (use made in simp)
qed

subsection \<open>An instance with two counting XN blocks\<close>

text \<open>A version 2 device with one enabled die, 2048 counting XN, two jetty contexts and eight channels; the instance is created from one descriptor
  that asks for two counting XN blocks.\<close>

definition count_specs :: CcuResSpecifications where
  "count_specs = (demo_specs NORMAL)\<lparr>ccuVersion := CCU_V2, resSpecs := [(resSpecs (demo_specs NORMAL) ! 0)
     \<lparr>loopEngineNum := 8, msNum := 0, missionNum := 1, countXnNum := 2048, xnNum := 0, jettyNum := 2, channelNum := 8\<rparr>, CcuResSpecInfo_default]\<rparr>"

definition count_cfg :: CcuPfeCfgMgr where
  "count_cfg = \<lparr>pfeInitFlag = True, pfeJettyCtxCfgs = (\<lambda>d. [\<lparr>pcFeId = 1, pcStartJettyCtxId = 0, pcStartTaJettyId = 1024, pcSize = 2\<rparr>])\<rparr>"

definition count_world :: "CcuResBatchAllocator \<Rightarrow> CcuComponent \<Rightarrow> unit CcuWorld" where
  "count_world b c = \<lparr>wDev = \<lparr>devSpecs = count_specs, devComp = c, devBatch = b, devLegacy = (), mainBoardType = MAINBOARD_EVB\<rparr>,
     wVe = \<lparr>handleSeed = 0, resMap = [], veRepos = \<lambda>_. CcuResRepository_new, rtLog = []\<rparr>, wUnregistered = []\<rparr>"

definition count_desc :: CcuResDesc where
  "count_desc = CcuResDesc_new\<lparr>descDieId := 0, resNum := [0, 0, 0, 0, 0, 0, 0, 0, 2]\<rparr>"

definition count_rt :: RtDevRes where
  "count_rt = \<lparr>rtGetDevResAddress = \<lambda>log d t i. (True, 0), rtReleaseDevResAddress = \<lambda>log d t i. True\<rparr>"

definition count_create :: "unit CcuWorld \<Rightarrow> nat \<times> nat \<times> CcuInstanceMgr \<times> unit CcuWorld" where
  "count_create = CreateByResDescs count_rt demo_env 0 10 100 (Some [Some count_desc]) 0 CcuInstanceMgr_new"

definition count_end :: "CcuInstanceMgr \<Rightarrow> bool" where
  "count_end m \<longleftrightarrow> 
       (case GetCascCntBlock 1 m of Inr b \<Rightarrow> cntResInfo b = mk_res 0 1024 \<and> blockIdx b = 0 | Inl _ \<Rightarrow> False)
    \<and> (case GetCascCntBlock 2 m of Inr b \<Rightarrow> cntResInfo b = mk_res 1024 1024 \<and> blockIdx b = 1 | Inl _ \<Rightarrow> False)"

definition count_report :: "unit CcuWorld \<Rightarrow> bool" where
  "count_report w = (map fst (handleMap (devBatch (wDev w))) = [] \<and> (case count_create w of (ret, k, m, w') \<Rightarrow> ret = 0 \<and> k = 1 \<and> nextCascCntHandle m = 0 \<and>
       (case CascCntHandleAlloc 1 0 0 m of (ret, h, m) \<Rightarrow> nextCascCntHandle m = 1 \<and>
          (case CascCntHandleAlloc 1 0 0 m of (ret, h, m) \<Rightarrow> count_end m))))"

definition count_reports :: bool where
  "count_reports =
    (case CcuComponent_Init demo_chan demo_plat count_cfg HCCL_SUCCESS count_specs CcuComponent_new of (ret, c) \<Rightarrow> ret = HCCL_SUCCESS \<and>
       (case CcuResBatchAllocator_Init count_specs CcuResBatchAllocator_new c of (ret, b, c) \<Rightarrow>
          ret = HCCL_SUCCESS \<and> count_report (count_world b c)))"

lemma count_reported: count_reports
  by code_simp

lemma count_fit: "specs_fit count_specs"
  by (auto simp: specs_fit_def count_specs_def demo_specs_def CcuResSpecInfo_default_def less_2_cases_iff)

lemma count_desc_fits: "\<forall>desc. Some desc \<in> set [Some count_desc] \<longrightarrow> desc_u32 desc"
  by (simp add: count_desc_def desc_u32_def CCU_RES_TYPE_COUNT_def)

lemma count_start:
  obtains w where "fresh_device count_specs (wDev w)" and "count_report w"
proof -
  obtain c0 b c where "CcuComponent_Init demo_chan demo_plat count_cfg HCCL_SUCCESS count_specs CcuComponent_new = (HCCL_SUCCESS, c0)"
    "CcuResBatchAllocator_Init count_specs CcuResBatchAllocator_new c0 = (HCCL_SUCCESS, b, c)" "count_report (count_world b c)"
    using count_reported by (auto simp: count_reports_def split: prod.splits)
  moreover from this(1,2) have "fresh_device count_specs (wDev (count_world b c))"
    unfolding fresh_device_def by (intro exI conjI) (simp_all add: count_world_def)
  ultimately show thesis
    using that by blast
qed

lemma count_created:
  assumes "count_report w"
  obtains m1 w1 m2 m3 h h' e e' where "handleMap (devBatch (wDev w)) = []" and "count_create w = (0, 1, m1, w1)" and "nextCascCntHandle m1 = 0" and "CascCntHandleAlloc 1 0 0 m1 = (e, h, m2)"
    and "nextCascCntHandle m2 = 1" and "CascCntHandleAlloc 1 0 0 m2 = (e', h', m3)" and "count_end m3"
  using assms by (auto simp: count_report_def split: prod.splits)

theorem counting_blocks_apart_witness:
  "\<exists>w0 m w b b'. fresh_device count_specs (wDev (w0 :: unit CcuWorld)) \<and> ins_run CcuInstanceMgr_new w0 m w
    \<and> GetCascCntBlock 1 m = Inr b \<and> cntResInfo b = mk_res 0 1024 \<and> GetCascCntBlock 2 m = Inr b' \<and> cntResInfo b' = mk_res 1024 1024
    \<and> (\<exists>d<2. \<exists>r\<in>snd ` set (handleMap (devBatch (wDev w))). b \<in> set (cascCntBlock r d))
    \<and> (\<exists>d<2. \<exists>r\<in>snd ` set (handleMap (devBatch (wDev w))). b' \<in> set (cascCntBlock r d))"
proof -
  obtain w0 :: "unit CcuWorld" where start: "fresh_device count_specs (wDev w0)" "count_report w0"
    using count_start .
  from count_created [OF start(2)] obtain m1 w m2 m3 h h' e e' where run: "handleMap (devBatch (wDev w0)) = []" "count_create w0 = (0, 1, m1, w)"
    "nextCascCntHandle m1 = 0" "CascCntHandleAlloc 1 0 0 m1 = (e, h, m2)" "nextCascCntHandle m2 = 1" "CascCntHandleAlloc 1 0 0 m2 = (e', h', m3)" "count_end m3" .
  have "ins_run CcuInstanceMgr_new w0 m1 w"
    by (rule ins_run.by_descs [OF ins_run.start _ _ _ _ run(2) [unfolded count_create_def]])
      (use count_desc_fits run(1) in \<open>auto simp: demo_env_def CcuInstanceMgr_new_def\<close>)
  then have m3: "ins_run CcuInstanceMgr_new w0 m3 w"
    using ins_run.count [OF ins_run.count [OF _ _ run(4)] _ run(6)] run(3,5) by simp
  obtain b b' where b: "GetCascCntBlock 1 m3 = Inr b" "cntResInfo b = mk_res 0 1024" "GetCascCntBlock 2 m3 = Inr b'" "cntResInfo b' = mk_res 1024 1024"
    using run(7) by (auto simp: count_end_def split: sum.splits)
  show ?thesis
    using counting_blocks_apart [OF start(1) count_fit m3 b(1,3)] start(1) m3 b by fastforce
qed

theorem instance_restored_witness:
  "\<exists>w m1 w1 m2 w2. count_create w = (0, 1, m1, w1) \<and> CcuInstanceMgr_Destroy False count_rt demo_env 1 m1 w1 = (CCU_SUCCESS, m2, w2)
    \<and> insMap m2 = [] \<and> same_resources (devBatch (wDev w)) (devComp (wDev w)) (devBatch (wDev w2)) (devComp (wDev w2))"
proof -
  obtain w :: "unit CcuWorld" where start: "fresh_device count_specs (wDev w)" "count_report w"
    using count_start .
  from count_created [OF start(2)] obtain m1 w1 where run: "handleMap (devBatch (wDev w)) = []" "count_create w = (0, 1, m1, w1)"
    by blast
  have create: "create_instance count_rt demo_env (InitByResDescs demo_env 0 10 100 (Some [Some count_desc])) 0 CcuInstanceMgr_new w = (0, 1, m1, w1)"
    using run(2) by (simp add: count_create_def CreateByResDescs_def)
  obtain ret' m2 w2 where gone: "CcuInstanceMgr_Destroy False count_rt demo_env 1 m1 w1 = (ret', m2, w2)"
    by (metis prod_cases3)
  have "envOpenSource demo_env" "instanceId CcuInstanceMgr_new + 1 < 2 ^ 64" "10 \<notin> fst ` set (handleMap (devBatch (wDev w)))"
    "insMap CcuInstanceMgr_new = []"
    by (simp_all add: demo_env_def CcuInstanceMgr_new_def run(1))
  then show ?thesis
    using instance_restored [OF start(1) count_fit ins_run.start _ _ _ count_desc_fits _ create gone] run(2) gone by fastforce
qed

end
