(* ===== verification/Register_Rounds.thy ===== *)
theory Register_Rounds
  imports Instance_Mgr Desc_Contract Device_Requests
begin

text \<open>
  Registering kernels happens in rounds, between \<^verbatim>\<open>HcommCcuKernelRegisterStart\<close> and \<^verbatim>\<open>HcommCcuKernelRegisterEnd\<close>. The C
  functions are shown to simulate the rounds: what one round hands to the translation, what a failed registration undoes, and which calls are
  refused.
\<close>

subsection \<open>The rounds\<close>






subsection \<open>The simulation\<close>








subsection \<open>Properties\<close>






end
