(* ===== verification/Spec2Isabelle.thy ===== *)
theory Spec2Isabelle
  imports Scheduler_Properties Res_Id_Properties Res_Allocator Ccu_Assist Microcode_V1 Component_Properties
    Batch_Properties Channel_Properties Desc_Contract Device_Requests Var_Event_Props Instance_Props Register_Rounds
begin

text \<open>
  \<^bold>\<open>A model of the CCU part of the hcomm communication library.\<close>

  hcomm runs collective operations on a collective communication unit (CCU) of the device. The library
  builds a program of CCU instructions on the host, optimises it for the hazards of the hardware, takes the
  registers, loops, missions and instruction slots the program needs from pools it manages for the whole
  device, and loads the program through the driver. This development models that part of the library,
  \<^verbatim>\<open>src/src/base_comm/resources/ccu\<close>; paths below are relative to it.

  \<^bold>\<open>Parts and theories.\<close>

  \<^item> \<^emph>\<open>Instructions\<close> (\<^verbatim>\<open>ccu_microcode\<close>): \<^verbatim>\<open>Microcode_Layout\<close> holds the bit layouts of
    \<^verbatim>\<open>ccu_microcode_v1.h\<close>, an instruction being its 240-bit payload; \<^verbatim>\<open>Microcode_V1\<close> and
    \<^verbatim>\<open>Microcode_V2\<close> hold the encoders of \<^verbatim>\<open>ccu_microcode.cc\<close> and \<^verbatim>\<open>ccu_microcode_v2.cc\<close>;
    \<^verbatim>\<open>Ccu_Assist\<close> holds the packing of register parameters of \<^verbatim>\<open>ccu_assist.cc\<close>.
  \<^item> \<^emph>\<open>Optimiser\<close> (\<^verbatim>\<open>ccu_microcode_opt\<close>): \<^verbatim>\<open>Extract_Operands\<close> reads the registers an instruction
    uses; \<^verbatim>\<open>Instruction_Scheduler\<close> is the pass that inserts NOPs and repairs jumps, loops and the mission
    field; \<^verbatim>\<open>Scheduler_Run\<close>, \<^verbatim>\<open>Scheduler_References\<close>, \<^verbatim>\<open>Scheduler_Hazards\<close>,
    \<^verbatim>\<open>Scheduler_Budget\<close> and \<^verbatim>\<open>Microcode_Optimizer\<close> develop its theory;
    \<^verbatim>\<open>Scheduler_Properties\<close> states the properties.
  \<^item> \<^emph>\<open>Resource ids\<close> (\<^verbatim>\<open>ccu_device/ccu_comp/ccu_res_allocator.cc\<close>): \<^verbatim>\<open>Res_Id_Allocator\<close> and
    \<^verbatim>\<open>Res_Id_Alloc\<close> model one pool of ids, \<^verbatim>\<open>Id_Pool\<close> is the interface of a pool as a locale with its
    interpretation, \<^verbatim>\<open>Res_Id_Properties\<close> states the properties, \<^verbatim>\<open>Res_Allocator\<close> is the allocator of a
    die with one pool per resource type.
  \<^item> \<^emph>\<open>Specifications\<close> (\<^verbatim>\<open>ccu_device/ccu_res_specs.cc\<close>): \<^verbatim>\<open>Res_Specs\<close> reads the numbers of
    resources from the driver and computes register addresses.
  \<^item> \<^emph>\<open>Channels\<close> (\<^verbatim>\<open>ccu_device/ccu_comp/ccu_channel\<close>): \<^verbatim>\<open>Channel_Data\<close> holds the data and the packed
    entries of the device tables, \<^verbatim>\<open>Channel_Jetty\<close> the PFE table, the basic blocks and the common part of the
    jetty context managers, \<^verbatim>\<open>Channel_Mgr\<close> both versions of the jetty context and channel managers;
    \<^verbatim>\<open>Channel_Blocks\<close> states the contract of a basic block manager as a locale, implemented by both versions;
    \<^verbatim>\<open>Channel_V1\<close> and \<^verbatim>\<open>Channel_V2\<close> hold the invariants and the reachable states of the managers;
    \<^verbatim>\<open>Channel_Contract\<close> the contract between the component and a channel manager; \<^verbatim>\<open>Channel_Properties\<close>
    states the properties.
  \<^item> \<^emph>\<open>Device component\<close> (\<^verbatim>\<open>ccu_device/ccu_comp/ccu_comp.cc\<close>): \<^verbatim>\<open>Ccu_Component\<close>, with a pool allocator, a
    channel manager and a loop channel per die; its pools in \<^verbatim>\<open>Component_Pools\<close>, its properties in
    \<^verbatim>\<open>Component_Properties\<close>.
  \<^item> \<^emph>\<open>Batch allocator\<close> (\<^verbatim>\<open>ccu_device/ccu_res_batch_allocator.cc\<close>): \<^verbatim>\<open>Batch_Blocks\<close> models a
    vector of preallocated blocks, \<^verbatim>\<open>Res_Batch_Allocator\<close> the class; \<^verbatim>\<open>Batch_Ledger\<close>,
    \<^verbatim>\<open>Batch_Counting\<close>, \<^verbatim>\<open>Batch_Handles\<close> and \<^verbatim>\<open>Batch_Init\<close> develop the invariant that ties
    every resource to exactly one owner; \<^verbatim>\<open>Batch_System\<close> is the step relation of concurrent callers;
    \<^verbatim>\<open>Batch_Grants\<close> shows what a granted request holds; \<^verbatim>\<open>Batch_Properties\<close> states the properties.
  \<^item> \<^emph>\<open>Descriptors\<close> (\<^verbatim>\<open>ccu_device/ccu_res_desc.cc\<close>, \<^verbatim>\<open>ccu_instance/ccu_res_desc_mgr.cc\<close>): \<^verbatim>\<open>Res_Desc\<close>, with the C
    functions over them; \<^verbatim>\<open>Desc_Contract\<close> holds the locale of a simulation that answers alike, its interpretation for
    descriptors, and their properties.
  \<^item> \<^emph>\<open>Device manager\<close> (\<^verbatim>\<open>ccu_device/ccu_dev_mgr_imp.cc\<close>): \<^verbatim>\<open>Device_Manager\<close> chooses between the component and the
    legacy platform and builds requests from descriptors and instance types; \<^verbatim>\<open>Device_Requests\<close> shows what the
    requests are and what is granted.
  \<^item> \<^emph>\<open>Reservations\<close> (\<^verbatim>\<open>ccu_instance/ccu_var_event_res_mgr.cc\<close>): \<^verbatim>\<open>Block_Moves\<close> holds the functions that cut and join
    lists of blocks, \<^verbatim>\<open>Var_Event_Mgr\<close> the class, \<^verbatim>\<open>Var_Event_Inv\<close> its ledger and \<^verbatim>\<open>Var_Event_Props\<close> the runs and the
    properties.
  \<^item> \<^emph>\<open>Instances\<close> (\<^verbatim>\<open>ccu_instance/ccu_instance.cc\<close>, \<^verbatim>\<open>ccu_res_pack.cc\<close>, \<^verbatim>\<open>ccu_instance_mgr.cc\<close> and the C functions of
    \<^verbatim>\<open>primitives/api_c_adpt/ccu\<close>): \<^verbatim>\<open>Ccu_Instance\<close> is an instance and its pack, \<^verbatim>\<open>Instance_Mgr\<close> the manager and the C
    functions; \<^verbatim>\<open>Instance_Inv\<close> ties the instances to the handles of the batch allocator, \<^verbatim>\<open>Instance_Props\<close> states the properties;
    \<^verbatim>\<open>Register_Rounds\<close> shows that the registration functions simulate rounds of registration.

  \<^bold>\<open>How code becomes definitions.\<close> A class is a record of its members, a method a function that takes the
  record and returns the result code and the new record. Output parameters are passed in and returned, since
  failing calls may leave them unwritten. Ids and counts of type \<^verbatim>\<open>uint32_t\<close> are natural numbers whose
  sums, differences and products go through \<open>u32_add\<close>, \<open>u32_sub\<close> and \<open>u32_mul\<close>, which wrap around; register
  contents, addresses and instruction fields are words. Loops are recursive functions over the list they
  iterate. What is outside the repository is a parameter: the driver's register channel is a function
  from the commands sent so far and the next command to its answer, so it may fail at any call; the answers of
  the runtime are fields of \<open>CcuPlatform\<close> and \<open>CcuDriver\<close>; a pointer returned by \<^verbatim>\<open>new\<close> is an argument, 0
  when the allocation fails. A critical section guarded by a mutex is one step of the step relation; the two
  critical sections of \<^verbatim>\<open>AllocResHandle\<close> are two steps, between which other callers may run.

  \<^bold>\<open>What is shown.\<close>

  \<^item> \<^emph>\<open>Scheduler\<close>: between an instruction that writes a register and a later one that reads it, the emitted program keeps the
    distances of the CKE, LoadX, StoreX and ClearX hazards, for the operands that \<open>ExtractOperandsV2\<close> reports and for
    readers outside the recognised \<^verbatim>\<open>RelJmp\<close> blocks: a block takes no NOP, shift amounts are not reported as reads, and of a
    range of ClearX only the ends are reported as written. The instructions keep their order; loops, loop groups, the mission field
    and the jumps whose loaders no other reference shares point to the same instructions as before; recognised blocks stay whole; the number of NOPs is bounded and the reserved
    region is large enough; no exception is thrown; a position reported by the hardware translates back.
  \<^item> \<^emph>\<open>Pools\<close>: no id is handed out twice, requests are met exactly when possible, releases undo
    grants, and the general and counting XN registers that the calls of a die return never overlap.
  \<^item> \<^emph>\<open>Batch allocator\<close>: for every interleaving of requests, releases and other users of the pools, two
    live handles share nothing; a request is met in full or changes nothing, whatever the driver answers;
    a release puts everything back; deinitialisation returns all that was held; the remaining size
    reported is exactly the largest request that would be granted, except that it is 0 whenever the last enabled die has
    no blocks of the type.
  \<^item> \<^emph>\<open>Channels\<close>: in every reachable state of a manager, with any answers of the driver, channels share no
    jetty context and no basic block beyond their group; a request succeeds or changes nothing; a release frees
    what the channel held, in version 2 with the last channel of the group. The loop channel of a die is never
    given to a client nor released. Version 1 needs a device with at least the 128 jetty contexts
    that the PFE table reserves, version 2 the ratio of eight channels to one context of the specifications.
  \<^item> \<^emph>\<open>Descriptors\<close>: every sequence of calls answers as a map from handles to numbers would.
  \<^item> \<^emph>\<open>Instances\<close>: a request by descriptors or by instance type asks for the numbers it should and is granted in full or not at all;
    counting XN blocks given to different handles never overlap, also across instances; destroying an instance restores the
    device; the registration functions answer as rounds do.
  \<^item> \<^emph>\<open>Reservations\<close>: for every sequence of reservations, releases and reloads, with any answers of the runtime, each register is in the pool
    of its instance or in one reservation; a reservation is unavailable exactly when no block is long enough, and granted when one is
    and every address can be mapped. Registering a kernel, which takes registers from the same pools, is not among the steps.
  \<^item> \<^emph>\<open>Task killing\<close>: the commands of a kill reach every enabled die in the right order, and the
    second phase is refused before the first. Cleaning the CKEs of a die covers each once.

  \<^bold>\<open>Loops and fuel.\<close> No definition uses fuel. Recursions that are not structural have a termination proof with a measure,
  except the loop that cleans the CKEs, whose 32-bit index can wrap around: it is a partial function whose value \<open>None\<close> is a loop that
  never returns, and it is shown to return for every number of CKEs up to \<open>2 ^ 32 - 8\<close> and never beyond with a driver that answers.

  \<^bold>\<open>Not modelled.\<close> Exceptions from exhausted memory where the code catches them (the creation of descriptors and
  instances, the entry of a handed out counting block); log output and the textual parsing of instructions; the creation of jettys and transport paths on the
  platform (what it answers is a parameter of the initialisation); the start and stop of the driver; the contents of the entity an instance
  publishes; the building of kernels and their translation to instructions, whose answers are parameters of the registration functions;
  the legacy platform that the device manager falls back to, a parameter of the device; the legacy frameworks, the communicator layer, the sockets and memory
  registration, which mostly call drivers. These are listed with their reasons in the manifest.
\<close>

end
